(* ===== verification/Prelude.thy ===== *)
theory Prelude
  imports Complex_Main "HOL-Library.List_Lexorder" "HOL-Library.Char_ord"
begin

text \<open>
  Shared vocabulary of the development.  Rust's \<^verbatim>\<open>Result\<close> is the sum type with the
  error on the left, the question-mark operator is \<open>and_then\<close>, a guard that returns early is
  \<open>ensure\<close>, and a loop over a collection that stops at the first error is \<open>each_ok\<close>.
  Strings are lists of bytes in the lexicographic order that \<^verbatim>\<open>Ord for String\<close> uses.
  The theory also holds decimal printing of unsigned integers (what the \<^verbatim>\<open>format!\<close>
  calls of the source do with a \<^verbatim>\<open>u64\<close>) with its injectivity, and the comparisons of
  \<^verbatim>\<open>f64\<close> values that the source makes.
\<close>

named_theorems result_simps \<open>rewrite rules for results\<close>
named_theorems result_dests \<open>destruction rules for successful results\<close>

section \<open>Results\<close>

definition and_then :: "'e + 'a \<Rightarrow> ('a \<Rightarrow> 'e + 'b) \<Rightarrow> 'e + 'b" where
  "and_then r f = (case r of Inl e \<Rightarrow> Inl e | Inr x \<Rightarrow> f x)"

definition ensure :: "bool \<Rightarrow> 'e \<Rightarrow> 'e + unit" where
  "ensure b e = (if b then Inr () else Inl e)"

definition ok_or :: "'a option \<Rightarrow> 'e \<Rightarrow> 'e + 'a" where
  "ok_or x e = (case x of None \<Rightarrow> Inl e | Some y \<Rightarrow> Inr y)"

definition is_ok :: "'e + 'a \<Rightarrow> bool" where
  "is_ok r = (case r of Inl e \<Rightarrow> False | Inr x \<Rightarrow> True)"

fun each_ok :: "('a \<Rightarrow> 'e + unit) \<Rightarrow> 'a list \<Rightarrow> 'e + unit" where
  "each_ok f [] = Inr ()"
| "each_ok f (x # xs) = and_then (f x) (\<lambda>_. each_ok f xs)"

fun fold_ok :: "('a \<Rightarrow> 's \<Rightarrow> 'e + 's) \<Rightarrow> 'a list \<Rightarrow> 's \<Rightarrow> 'e + 's" where
  "fold_ok f [] s = Inr s"
| "fold_ok f (x # xs) s = and_then (f x s) (fold_ok f xs)"

lemma and_then_simps [simp, result_simps]:
  "and_then (Inl e) f = Inl e" "and_then (Inr x) f = f x"
  by (simp_all add: and_then_def)

lemma and_then_Inr_iff [result_dests]:
  "and_then r f = Inr y \<longleftrightarrow> (\<exists>x. r = Inr x \<and> f x = Inr y)"
  by (cases r) auto

lemma ensure_Inr_iff [simp, result_dests]: "ensure b e = Inr u \<longleftrightarrow> b"
  by (simp add: ensure_def)

lemma ensure_simps [simp, result_simps]: "ensure True e = Inr ()" "ensure False e = Inl e"
  by (simp_all add: ensure_def)

lemma ok_or_Inr_iff [simp, result_dests]: "ok_or x e = Inr y \<longleftrightarrow> x = Some y"
  by (cases x) (auto simp: ok_or_def)

lemma ok_or_simps [simp, result_simps]: "ok_or (Some y) e = Inr y" "ok_or None e = Inl e"
  by (simp_all add: ok_or_def)

lemma is_ok_simps [simp]: "is_ok (Inr x)" "\<not> is_ok (Inl e)"
  by (simp_all add: is_ok_def)

lemma is_ok_iff: "is_ok r \<longleftrightarrow> (\<exists>x. r = Inr x)"
  by (cases r) auto

lemma each_ok_Inr_iff [simp]: "each_ok f xs = Inr u \<longleftrightarrow> (\<forall>x\<in>set xs. f x = Inr ())"
  by (induction xs) (auto simp: and_then_Inr_iff)

lemma fold_ok_append:
  "fold_ok f (xs @ ys) s = and_then (fold_ok f xs s) (fold_ok f ys)"
proof (induction xs arbitrary: s)
  case Nil
  show ?case by simp
next
  case (Cons x xs)
  then show ?case by (cases "f x s") auto
qed

lemma fold_ok_invariant:
  assumes "fold_ok f xs s = Inr s'" and "P s"
    and "\<And>x t t'. x \<in> set xs \<Longrightarrow> P t \<Longrightarrow> f x t = Inr t' \<Longrightarrow> P t'"
  shows "P s'"
  using assms
proof (induction xs arbitrary: s)
  case Nil
  then show ?case by simp
next
  case (Cons x xs)
  from Cons.prems(1) obtain t where t: "f x s = Inr t" "fold_ok f xs t = Inr s'"
    by (auto simp: and_then_Inr_iff)
  from Cons.prems(2,3) t(1) have "P t" by auto
  from Cons.prems(3) have "\<And>y u u'. y \<in> set xs \<Longrightarrow> P u \<Longrightarrow> f y u = Inr u' \<Longrightarrow> P u'"
    by auto
  with t(2) \<open>P t\<close> show ?case by (rule Cons.IH)
qed

section \<open>Decimal printing\<close>

fun show_nat :: "nat \<Rightarrow> string" where
  "show_nat n = (if n < 10 then [char_of (48 + n)]
     else show_nat (n div 10) @ [char_of (48 + n mod 10)])"

declare show_nat.simps [simp del]

lemma show_nat_small: "n < 10 \<Longrightarrow> show_nat n = [char_of (48 + n)]"
  by (subst show_nat.simps) simp

lemma show_nat_big: "\<not> n < 10 \<Longrightarrow> show_nat n = show_nat (n div 10) @ [char_of (48 + n mod 10)]"
  by (subst show_nat.simps) simp

lemma show_nat_not_Nil [simp]: "show_nat n \<noteq> []"
  by (subst show_nat.simps) simp

lemma Nil_not_show_nat [simp]: "[] \<noteq> show_nat n"
  using show_nat_not_Nil by metis

lemma char_of_digit_inj:
  "m < 10 \<Longrightarrow> n < 10 \<Longrightarrow> (char_of (48 + m) :: char) = char_of (48 + n) \<Longrightarrow> m = n" for m n :: nat
  by (drule arg_cong [where f = "of_char :: char \<Rightarrow> nat"]) simp

lemma show_nat_inj: "show_nat m = show_nat n \<Longrightarrow> m = n"
proof (induction m arbitrary: n rule: show_nat.induct)
  case (1 m)
  show ?case
  proof (cases "m < 10")
    case True
    show ?thesis
    proof (cases "n < 10")
      case True
      with \<open>m < 10\<close> "1.prems" show ?thesis
        by (auto simp: show_nat_small intro: char_of_digit_inj)
    next
      case False
      with True "1.prems" show ?thesis
        by (simp add: show_nat_small [of m] show_nat_big [of n])
    qed
  next
    case False
    show ?thesis
    proof (cases "n < 10")
      case True
      with False "1.prems" show ?thesis
        by (simp add: show_nat_small [of n] show_nat_big [of m])
    next
      case nbig: False
      from "1.prems" have eq: "show_nat (m div 10) = show_nat (n div 10)"
        and last: "(char_of (48 + m mod 10) :: char) = char_of (48 + n mod 10)"
        by (simp_all add: show_nat_big [OF False] show_nat_big [OF nbig])
      from "1.IH" [OF False eq] have "m div 10 = n div 10" .
      moreover from last have "m mod 10 = n mod 10"
        by (intro char_of_digit_inj) simp_all
      ultimately show ?thesis by (metis div_mult_mod_eq)
    qed
  qed
qed

lemma show_nat_eq_iff [simp]: "show_nat m = show_nat n \<longleftrightarrow> m = n"
  using show_nat_inj by auto

definition show_int :: "int \<Rightarrow> string" where
  "show_int n = (if n < 0 then CHR ''-'' # show_nat (nat (- n)) else show_nat (nat n))"

section \<open>Floating-point values\<close>

text \<open>
  An \<^verbatim>\<open>f64\<close> is a finite number (a rational, with the negative zero apart), an infinity
  or a NaN.  The modelled code compares these values, tests them for finiteness and stores them;
  where it computes with them the rounding is not modelled.  Equality of floats is \<open>f64_eq\<close>
  (\<open>0 = -0\<close>, and NaN differs from itself), which is not HOL's equality.
\<close>

datatype f64 = Fin rat | NegZero | PosInf | NegInf | NaN

fun f64_finite :: "f64 \<Rightarrow> bool" where
  "f64_finite (Fin q) = True"
| "f64_finite NegZero = True"
| "f64_finite _ = False"

fun f64_value :: "f64 \<Rightarrow> rat" where
  "f64_value (Fin q) = q"
| "f64_value _ = 0"

definition f64_lt :: "f64 \<Rightarrow> f64 \<Rightarrow> bool" where
  "f64_lt a b =
     (if a = NaN \<or> b = NaN then False
      else if a = NegInf then b \<noteq> NegInf
      else if b = NegInf then False
      else if b = PosInf then a \<noteq> PosInf
      else if a = PosInf then False
      else f64_value a < f64_value b)"

definition f64_eq :: "f64 \<Rightarrow> f64 \<Rightarrow> bool" where
  "f64_eq a b =
     (if f64_finite a \<and> f64_finite b then f64_value a = f64_value b
      else a = b \<and> a \<noteq> NaN)"

definition f64_le :: "f64 \<Rightarrow> f64 \<Rightarrow> bool" where
  "f64_le a b = (f64_lt a b \<or> f64_eq a b)"

definition f64_pos :: "f64 \<Rightarrow> bool" where
  "f64_pos a = f64_lt (Fin 0) a"

lemma f64_eq_refl: "a \<noteq> NaN \<Longrightarrow> f64_eq a a"
  by (simp add: f64_eq_def)

lemma f64_finite_not_NaN: "f64_finite a \<Longrightarrow> a \<noteq> NaN"
  by auto

lemma f64_eq_sym: "f64_eq a b \<Longrightarrow> f64_eq b a"
  by (auto simp: f64_eq_def split: if_splits)

lemma f64_eq_trans: "f64_eq a b \<Longrightarrow> f64_eq b c \<Longrightarrow> f64_eq a c"
  by (auto simp: f64_eq_def split: if_splits)

lemma f64_eq_finite: "f64_eq a b \<Longrightarrow> f64_finite a \<longleftrightarrow> f64_finite b"
  by (auto simp: f64_eq_def split: if_splits)

lemma f64_not_le_zero_pos: "f64_finite a \<Longrightarrow> \<not> f64_le a (Fin 0) \<longleftrightarrow> f64_pos a"
  by (cases a) (auto simp: f64_le_def f64_pos_def f64_lt_def f64_eq_def)

end
