(* ===== verification/OrderedMap.thy ===== *)
theory OrderedMap
  imports Prelude
begin

text \<open>
  \<^verbatim>\<open>BTreeMap\<close> and \<^verbatim>\<open>BTreeSet\<close>.  A map is the list of its entries in
  strictly increasing key order, the order in which the source iterates it, so equality of maps is
  equality of lists and every operation computes.  The locale \<open>ordered_map\<close> states what the
  components rely on, with the derived facts they share (the extension order between maps);
  its interpretation \<open>bt\<close> discharges the laws for the list representation.
\<close>

named_theorems map_simps \<open>lookups after updates\<close>

type_synonym ('k, 'v) btree = "('k \<times> 'v) list"
type_synonym 'k bset = "'k list"

definition bt_ok :: "('k::linorder, 'v) btree \<Rightarrow> bool" where
  "bt_ok m = sorted_wrt (<) (map fst m)"

definition bt_get :: "('k, 'v) btree \<Rightarrow> 'k \<Rightarrow> 'v option" where
  "bt_get m k = map_of m k"

definition bt_contains :: "('k, 'v) btree \<Rightarrow> 'k \<Rightarrow> bool" where
  "bt_contains m k = (k \<in> set (map fst m))"

definition bt_keys :: "('k, 'v) btree \<Rightarrow> 'k list" where
  "bt_keys m = map fst m"

fun bt_insert :: "'k::linorder \<Rightarrow> 'v \<Rightarrow> ('k, 'v) btree \<Rightarrow> ('k, 'v) btree" where
  "bt_insert k v [] = [(k, v)]"
| "bt_insert k v ((k', v') # m) =
     (if k < k' then (k, v) # (k', v') # m
      else if k = k' then (k, v) # m
      else (k', v') # bt_insert k v m)"

definition bt_remove :: "'k \<Rightarrow> ('k, 'v) btree \<Rightarrow> ('k, 'v) btree" where
  "bt_remove k m = filter (\<lambda>e. fst e \<noteq> k) m"

definition bt_retain :: "('k \<Rightarrow> 'v \<Rightarrow> bool) \<Rightarrow> ('k, 'v) btree \<Rightarrow> ('k, 'v) btree" where
  "bt_retain P m = filter (\<lambda>e. P (fst e) (snd e)) m"

definition bt_extend :: "('k::linorder, 'v) btree \<Rightarrow> ('k, 'v) btree \<Rightarrow> ('k, 'v) btree" where
  "bt_extend m m' = fold (\<lambda>(k, v). bt_insert k v) m' m"

definition bs_insert :: "'k::linorder \<Rightarrow> 'k bset \<Rightarrow> 'k bset" where
  "bs_insert k s = (if k \<in> set s then s else insort k s)"

definition bs_of :: "'k::linorder list \<Rightarrow> 'k bset" where
  "bs_of xs = sort (remdups xs)"

section \<open>Facts about the representation\<close>

lemma bt_ok_Nil [simp]: "bt_ok []"
  by (simp add: bt_ok_def)

lemma bt_ok_Cons: "bt_ok ((k, v) # m) \<longleftrightarrow> (\<forall>k'\<in>set (map fst m). k < k') \<and> bt_ok m"
  by (simp add: bt_ok_def)

lemma bt_ok_distinct: "bt_ok m \<Longrightarrow> distinct (map fst m)"
  unfolding bt_ok_def by (simp add: strict_sorted_iff)

lemma bt_get_Nil [simp]: "bt_get [] k = None"
  by (simp add: bt_get_def)

lemma bt_get_Cons [simp]: "bt_get ((k', v) # m) k = (if k = k' then Some v else bt_get m k)"
  by (simp add: bt_get_def)

lemma bt_contains_Nil [simp]: "\<not> bt_contains [] k"
  by (simp add: bt_contains_def)

lemma bt_contains_Cons [simp]: "bt_contains ((k', v) # m) k \<longleftrightarrow> k = k' \<or> bt_contains m k"
  by (auto simp: bt_contains_def)

lemma bt_contains_iff: "bt_contains m k \<longleftrightarrow> (\<exists>v. bt_get m k = Some v)"
  by (induction m) auto

lemma bt_get_None_iff: "bt_get m k = None \<longleftrightarrow> \<not> bt_contains m k"
  by (simp add: bt_contains_iff)

lemma bt_keys_iff: "k \<in> set (bt_keys m) \<longleftrightarrow> bt_contains m k"
  by (simp add: bt_keys_def bt_contains_def)

lemma bt_get_in_set: "bt_get m k = Some v \<Longrightarrow> (k, v) \<in> set m"
  by (simp add: bt_get_def map_of_SomeD)

lemma bt_in_set_get: "bt_ok m \<Longrightarrow> (k, v) \<in> set m \<Longrightarrow> bt_get m k = Some v"
  by (simp add: bt_get_def bt_ok_distinct)

lemma bt_in_set_iff: "bt_ok m \<Longrightarrow> (k, v) \<in> set m \<longleftrightarrow> bt_get m k = Some v"
  using bt_get_in_set bt_in_set_get by metis

lemma bt_keys_insert: "set (map fst (bt_insert k v m)) = insert k (set (map fst m))"
  by (induction k v m rule: bt_insert.induct) auto

lemma bt_get_insert: "bt_get (bt_insert k v m) k' = (if k' = k then Some v else bt_get m k')"
  by (induction k v m rule: bt_insert.induct) auto

lemma bt_ok_insert: "bt_ok m \<Longrightarrow> bt_ok (bt_insert k v m)"
proof (induction k v m rule: bt_insert.induct)
  case (1 k v)
  show ?case by (simp add: bt_ok_def)
next
  case (2 k v k' v' m)
  then show ?case
    by (auto simp: bt_ok_Cons bt_keys_insert simp del: set_map)
qed

lemma bt_get_remove: "bt_get (bt_remove k m) k' = (if k' = k then None else bt_get m k')"
  by (induction m) (auto simp: bt_remove_def)

lemma bt_ok_filter: "bt_ok m \<Longrightarrow> bt_ok (filter P m)"
  by (induction m) (auto simp: bt_ok_def)

lemma bt_ok_remove: "bt_ok m \<Longrightarrow> bt_ok (bt_remove k m)"
  by (simp add: bt_remove_def bt_ok_filter)

lemma bt_ok_retain: "bt_ok m \<Longrightarrow> bt_ok (bt_retain P m)"
  by (simp add: bt_retain_def bt_ok_filter)

lemma bt_eqI:
  assumes "bt_ok m" "bt_ok m'" "\<And>k. bt_get m k = bt_get m' k"
  shows "m = m'"
proof -
  have "set m = set m'"
    using assms by (auto simp: bt_in_set_iff)
  then have keys: "map fst m = map fst m'"
    using assms(1,2) unfolding bt_ok_def
    by (metis list.set_map strict_sorted_equal)
  have "map snd m = map snd m'"
  proof (rule nth_equalityI)
    show len: "length (map snd m) = length (map snd m')"
      using keys by (metis length_map)
    fix i assume i: "i < length (map snd m)"
    have "bt_get m (fst (m ! i)) = Some (snd (m ! i))"
      using i assms(1) by (intro bt_in_set_get) auto
    moreover have "bt_get m' (fst (m' ! i)) = Some (snd (m' ! i))"
      using i len assms(2) by (intro bt_in_set_get) auto
    moreover have "fst (m ! i) = fst (m' ! i)"
      using i len keys by (metis length_map nth_map)
    ultimately show "map snd m ! i = map snd m' ! i"
      using i len assms(3) by simp
  qed
  with keys show ?thesis by (metis zip_map_fst_snd)
qed

section \<open>The interface the components use\<close>

locale ordered_map =
  fixes get :: "'m \<Rightarrow> 'k \<Rightarrow> 'v option"
    and ins :: "'k \<Rightarrow> 'v \<Rightarrow> 'm \<Rightarrow> 'm"
    and del :: "'k \<Rightarrow> 'm \<Rightarrow> 'm"
    and has :: "'m \<Rightarrow> 'k \<Rightarrow> bool"
    and ok :: "'m \<Rightarrow> bool"
  assumes get_ins: "get (ins k v m) k' = (if k' = k then Some v else get m k')"
    and get_del: "get (del k m) k' = (if k' = k then None else get m k')"
    and has_get: "has m k \<longleftrightarrow> get m k \<noteq> None"
    and ok_ins: "ok m \<Longrightarrow> ok (ins k v m)"
    and ok_del: "ok m \<Longrightarrow> ok (del k m)"
    and ext: "ok m \<Longrightarrow> ok m' \<Longrightarrow> (\<And>k. get m k = get m' k) \<Longrightarrow> m = m'"
begin

definition extends :: "'m \<Rightarrow> 'm \<Rightarrow> bool" where
  "extends m m' \<longleftrightarrow> (\<forall>k v. get m k = Some v \<longrightarrow> get m' k = Some v)"

lemma extends_refl: "extends m m"
  by (simp add: extends_def)

lemma extends_trans: "extends m m' \<Longrightarrow> extends m' m'' \<Longrightarrow> extends m m''"
  by (simp add: extends_def)

lemma extends_get: "extends m m' \<Longrightarrow> get m k = Some v \<Longrightarrow> get m' k = Some v"
  by (simp add: extends_def)

lemma extends_has: "extends m m' \<Longrightarrow> has m k \<Longrightarrow> has m' k"
  by (auto simp: extends_def has_get)

lemma extends_ins_fresh: "\<not> has m k \<Longrightarrow> extends m (ins k v m)"
  by (auto simp: extends_def get_ins has_get)

lemma has_ins: "has (ins k v m) k' \<longleftrightarrow> k' = k \<or> has m k'"
  by (simp add: has_get get_ins)

lemma has_del: "has (del k m) k' \<longleftrightarrow> k' \<noteq> k \<and> has m k'"
  by (simp add: has_get get_del)

lemma ins_same: "ok m \<Longrightarrow> get m k = Some v \<Longrightarrow> ins k v m = m"
  by (rule ext) (auto simp: ok_ins get_ins)

lemma del_absent: "ok m \<Longrightarrow> \<not> has m k \<Longrightarrow> del k m = m"
  by (rule ext) (auto simp: ok_del get_del has_get)

lemma del_ins_fresh: "ok m \<Longrightarrow> \<not> has m k \<Longrightarrow> del k (ins k v m) = m"
  by (rule ext) (auto simp: ok_del ok_ins get_del get_ins has_get)

lemma ins_ins: "ok m \<Longrightarrow> ins k v (ins k w m) = ins k v m"
  by (rule ext) (auto simp: ok_ins get_ins)

end

interpretation bt: ordered_map bt_get bt_insert bt_remove bt_contains bt_ok
  by unfold_locales
    (auto simp: bt_get_insert bt_get_remove bt_contains_iff bt_ok_insert bt_ok_remove
      intro: bt_eqI)

lemmas bt_lookup [map_simps] = bt.get_ins bt.get_del bt.has_ins bt.has_del

section \<open>Sets and bulk updates\<close>

lemma set_bs_insert [simp]: "set (bs_insert k s) = insert k (set s)"
  by (auto simp: bs_insert_def set_insort_key)

lemma sorted_bs_insert: "sorted_wrt (<) s \<Longrightarrow> sorted_wrt (<) (bs_insert k s)"
  by (auto simp: bs_insert_def strict_sorted_iff sorted_insort distinct_insort)

lemma set_bs_of [simp]: "set (bs_of xs) = set xs"
  by (simp add: bs_of_def)

lemma sorted_bs_of: "sorted_wrt (<) (bs_of xs)"
  by (simp add: bs_of_def strict_sorted_iff)

lemma distinct_bs_of [simp]: "distinct (bs_of xs)"
  by (simp add: bs_of_def)

lemma bs_of_sorted: "sorted_wrt (<) xs \<Longrightarrow> bs_of xs = xs"
  by (simp add: bs_of_def strict_sorted_iff distinct_remdups_id sorted_sort_id)

lemma bt_extend_Nil [simp]: "bt_extend m [] = m"
  by (simp add: bt_extend_def)

lemma bt_extend_Cons [simp]: "bt_extend m ((k, v) # m') = bt_extend (bt_insert k v m) m'"
  by (simp add: bt_extend_def)

lemma bt_ok_extend: "bt_ok m \<Longrightarrow> bt_ok (bt_extend m m')"
  by (induction m' arbitrary: m) (auto simp: bt_ok_insert)

lemma bt_get_extend:
  "distinct (map fst m') \<Longrightarrow>
   bt_get (bt_extend m m') k = (case bt_get m' k of None \<Rightarrow> bt_get m k | Some v \<Rightarrow> Some v)"
proof (induction m' arbitrary: m)
  case Nil
  then show ?case by simp
next
  case (Cons e m')
  obtain k' v' where e: "e = (k', v')" by (cases e)
  have "k' \<notin> fst ` set m'" using Cons.prems e by simp
  then have "bt_get m' k' = None"
    by (simp add: bt_get_None_iff bt_contains_def)
  with Cons e show ?case
    by (auto simp: bt_get_insert split: option.splits)
qed

lemma bt_get_retain:
  "bt_ok m \<Longrightarrow> bt_get (bt_retain P m) k =
     (case bt_get m k of None \<Rightarrow> None | Some v \<Rightarrow> if P k v then Some v else None)"
proof (induction m)
  case Nil
  then show ?case by (simp add: bt_retain_def)
next
  case (Cons e m)
  obtain k' v' where e: "e = (k', v')" by (cases e)
  from Cons.prems e have "bt_ok m" and "k' \<notin> set (map fst m)"
    by (auto simp: bt_ok_Cons)
  then have "bt_get m k' = None"
    by (simp add: bt_get_None_iff bt_contains_def)
  with Cons.IH [OF \<open>bt_ok m\<close>] e show ?case
    by (auto simp: bt_retain_def split: option.splits)
qed

end
