(* ===== verification/History.thy ===== *)
theory History
  imports OrderedMap
begin

text \<open>
  \<^verbatim>\<open>crates/domain/src/history.rs\<close>: the event-sourced timeline of a document.  A
  \<open>history_state\<close> holds the active snapshot of the dependency graph, the named revisions that
  preserve displaced snapshots and the ordinal of the last event.  Every operation of
  \<^verbatim>\<open>HistoryState\<close> builds a \<open>history_event\<close>; only \<open>apply_event\<close> changes the state,
  after \<open>validate_event\<close> accepted the event.  The digest of a feature's geometry (SHA-256 of
  the feature's identifier, value, dependency count and predecessor digests, crate
  \<^verbatim>\<open>sha2\<close>) is the parameter \<open>fp\<close>.
\<close>

section \<open>Data\<close>

datatype history_status = CurrentValid | Broken | BlockedByFailure | Suppressed

record history_diagnostic =
  hd_code :: string
  hd_feature_id :: string
  hd_detail :: string
  hd_affected_ids :: "string list"
  hd_recovery :: "string option"

record history_feature =
  hf_id :: string
  hf_dependencies :: "string list"
  hf_input_value :: f64
  hf_geometry_fingerprint :: "string option"
  hf_last_valid_geometry_fingerprint :: "string option"
  hf_status :: history_status
  hf_diagnostic :: "history_diagnostic option"

type_synonym feature_map = "(string, history_feature) btree"

record history_snapshot =
  hs_revision_id :: string
  hs_features :: feature_map

record named_revision =
  nr_name :: string
  nr_snapshot :: history_snapshot
  nr_provenance :: string
  nr_canonical_log_position :: "nat option"

record history_state =
  h_active :: history_snapshot
  h_named_revisions :: "(string, named_revision) btree"
  h_event_ordinal :: nat

datatype history_operation =
  InitializeLBracket string f64 f64 f64 f64
| HistoricalEdit string string f64 "string list" "string list" "string list"
    "history_diagnostic list" "string option"
| CreateNamedRevision string
| RestoreNamedRevision string "string option"
| Undo nat string string
| Redo nat string string

record history_event =
  he_schema_version :: string
  he_ordinal :: nat
  he_operation :: history_operation
  he_active :: history_snapshot
  he_named_revisions :: "(string, named_revision) btree"

datatype history_error =
  InvalidEvent string
| FeatureNotFound string
| DuplicateName string
| EmptyName
| NamedRevisionNotFound string
| FeatureNotInNamedRevision string string
| InvalidValue
| NothingToUndo
| NothingToRedo

record history_evaluation =
  ev_dirty_features :: "string list"
  ev_evaluated_features :: "string list"
  ev_blocked_features :: "string list"
  ev_diagnostics :: "history_diagnostic list"

type_synonym geometry_digest = "string \<Rightarrow> f64 \<Rightarrow> nat \<Rightarrow> string list \<Rightarrow> string"

definition history_event_schema :: string where
  "history_event_schema = ''threeterm.history.event/1''"

definition default_history :: history_state where
  "default_history =
     \<lparr>h_active = \<lparr>hs_revision_id = ''history-revision-0'', hs_features = []\<rparr>,
      h_named_revisions = [], h_event_ordinal = 0\<rparr>"

text \<open>The derived \<^verbatim>\<open>PartialEq\<close>, which compares the input values as floats.\<close>

definition feature_eq :: "history_feature \<Rightarrow> history_feature \<Rightarrow> bool" where
  "feature_eq f g =
     (f64_eq (hf_input_value f) (hf_input_value g) \<and>
      f\<lparr>hf_input_value := Fin 0\<rparr> = g\<lparr>hf_input_value := Fin 0\<rparr>)"

definition snapshot_eq :: "history_snapshot \<Rightarrow> history_snapshot \<Rightarrow> bool" where
  "snapshot_eq a b =
     (hs_revision_id a = hs_revision_id b \<and>
      list_all2 (\<lambda>x y. fst x = fst y \<and> feature_eq (snd x) (snd y))
        (hs_features a) (hs_features b))"

definition bt_modify :: "'k \<Rightarrow> ('v \<Rightarrow> 'v) \<Rightarrow> ('k, 'v) btree \<Rightarrow> ('k, 'v) btree" where
  "bt_modify k f m = map (\<lambda>(k', v). (k', if k' = k then f v else v)) m"

section \<open>Dependency graph\<close>

definition depends_on_any :: "history_feature \<Rightarrow> string list \<Rightarrow> bool" where
  "depends_on_any f ids = list_ex (\<lambda>d. d \<in> set ids) (hf_dependencies f)"

definition dirty_pass :: "feature_map \<Rightarrow> string bset \<Rightarrow> string bset \<times> bool" where
  "dirty_pass features dirty =
     fold (\<lambda>(k, f) (d, changed).
         if depends_on_any f d \<and> hf_id f \<notin> set d then (bs_insert (hf_id f) d, True)
         else (d, changed))
       features (dirty, False)"

lemma dirty_pass_mono:
  fixes features :: feature_map
  defines "step \<equiv> (\<lambda>(k, f) (d, changed).
         if depends_on_any f d \<and> hf_id f \<notin> set d then (bs_insert (hf_id f) d, True)
         else (d, changed)) :: string \<times> history_feature \<Rightarrow> string bset \<times> bool \<Rightarrow> _"
  shows "fold step features (d, c) = (d', c') \<Longrightarrow>
    set d \<subseteq> set d' \<and> set d' \<subseteq> set d \<union> hf_id ` snd ` set features \<and>
    (c' \<longrightarrow> c \<or> (\<exists>x\<in>hf_id ` snd ` set features. x \<in> set d' \<and> x \<notin> set d)) \<and> (c \<longrightarrow> c') \<and>
    (\<not> c' \<longrightarrow> d' = d)"
proof (induction features arbitrary: d c)
  case Nil
  then show ?case by auto
next
  case (Cons e features)
  obtain k f where e: "e = (k, f)" by (cases e)
  show ?case
  proof (cases "depends_on_any f d \<and> hf_id f \<notin> set d")
    case True
    with Cons.prems e have "fold step features (bs_insert (hf_id f) d, True) = (d', c')"
      by (simp add: step_def)
    from Cons.IH [OF this] True e show ?thesis by auto
  next
    case False
    with Cons.prems e have "fold step features (d, c) = (d', c')"
      by (auto simp: step_def)
    from Cons.IH [OF this] e show ?thesis by auto
  qed
qed

function reach_loop :: "feature_map \<Rightarrow> string bset \<Rightarrow> string bset" where
  "reach_loop features dirty =
     (case dirty_pass features dirty of
        (dirty', changed) \<Rightarrow> if changed then reach_loop features dirty' else dirty')"
  by pat_completeness auto
termination
proof (relation "measure (\<lambda>(fs, d). card (hf_id ` snd ` set fs - set d))", goal_cases)
  case 1
  show ?case by simp
next
  case (2 features dirty dirty' changed)
  then have step: "dirty_pass features dirty = (dirty', changed)" and ch: changed
    by simp_all
  note m = dirty_pass_mono [OF step [unfolded dirty_pass_def]]
  have "hf_id ` snd ` set features - set dirty' \<subset> hf_id ` snd ` set features - set dirty"
    using m ch by auto
  then show ?case by (simp add: psubset_card_mono)
qed

definition reachable_features :: "feature_map \<Rightarrow> string \<Rightarrow> history_error + string list" where
  "reachable_features features target =
     (if \<not> bt_contains features target then Inl (FeatureNotFound target)
      else Inr (reach_loop features [target]))"

definition ready :: "feature_map \<Rightarrow> string list \<Rightarrow> string \<Rightarrow> bool" where
  "ready features remaining fid =
     (case bt_get features fid of
        None \<Rightarrow> False
      | Some f \<Rightarrow> list_all (\<lambda>d. d \<notin> set remaining) (hf_dependencies f))"

function topo_loop :: "feature_map \<Rightarrow> string bset \<Rightarrow> string list \<Rightarrow> history_error + string list"
where
  "topo_loop features remaining order =
     (if remaining = [] then Inr order
      else case find (ready features remaining) remaining of
             None \<Rightarrow> Inl (InvalidEvent ''history dependency cycle'')
           | Some next \<Rightarrow> topo_loop features (removeAll next remaining) (order @ [next]))"
  by pat_completeness auto
termination
  by (relation "measure (\<lambda>(fs, r, ord). length r)")
    (auto simp: find_Some_iff length_removeAll_less)

declare reach_loop.simps [simp del] topo_loop.simps [simp del]

definition topological_order :: "feature_map \<Rightarrow> string list \<Rightarrow> history_error + string list" where
  "topological_order features dirty = topo_loop features (bs_of dirty) []"

definition geometry_fingerprint ::
  "geometry_digest \<Rightarrow> history_feature \<Rightarrow> feature_map \<Rightarrow> string" where
  "geometry_fingerprint fp feature features =
     fp (hf_id feature) (hf_input_value feature) (length (hf_dependencies feature))
       (map (\<lambda>d. case bt_get features d of
                   None \<Rightarrow> ''missing''
                 | Some item \<Rightarrow> (case hf_geometry_fingerprint item of
                                  None \<Rightarrow> ''missing'' | Some s \<Rightarrow> s))
         (hf_dependencies feature))"

section \<open>Validation\<close>

definition validate_feature ::
  "feature_map \<Rightarrow> string \<times> history_feature \<Rightarrow> history_error + unit" where
  "validate_feature features e =
     (let id = fst e; f = snd e in
      and_then (ensure (id = hf_id f) (InvalidEvent (''feature key mismatch: '' @ id))) (\<lambda>_.
      and_then (ensure (f64_finite (hf_input_value f)) InvalidValue) (\<lambda>_.
      and_then (each_ok (\<lambda>d. ensure (bt_contains features d)
                              (InvalidEvent (''missing dependency '' @ d)))
                 (hf_dependencies f)) (\<lambda>_.
      case hf_status f of
        CurrentValid \<Rightarrow>
          ensure (\<not> (hf_geometry_fingerprint f = None \<or>
                     hf_last_valid_geometry_fingerprint f \<noteq> None \<or>
                     hf_diagnostic f \<noteq> None))
            (InvalidEvent (''current feature state is inconsistent: '' @ id))
      | Broken \<Rightarrow>
          ensure (\<not> (hf_geometry_fingerprint f \<noteq> None \<or>
                     hf_last_valid_geometry_fingerprint f = None \<or>
                     hf_diagnostic f = None))
            (InvalidEvent (''broken feature state is inconsistent: '' @ id))
      | _ \<Rightarrow>
          ensure (\<not> (hf_geometry_fingerprint f \<noteq> None \<or> hf_diagnostic f \<noteq> None))
            (InvalidEvent (''non-current feature state is inconsistent: '' @ id))))))"

definition validate_snapshot :: "history_snapshot \<Rightarrow> history_error + unit" where
  "validate_snapshot sn =
     and_then (each_ok (validate_feature (hs_features sn)) (hs_features sn)) (\<lambda>_.
     and_then (topological_order (hs_features sn) (bt_keys (hs_features sn))) (\<lambda>_. Inr ()))"

definition validate_named_revisions ::
  "(string, named_revision) btree \<Rightarrow> history_error + unit" where
  "validate_named_revisions revisions =
     each_ok (\<lambda>(name, revision).
         and_then (ensure (name \<noteq> [] \<and> name = nr_name revision)
                    (InvalidEvent (''invalid named revision '' @ name)))
           (\<lambda>_. validate_snapshot (nr_snapshot revision)))
       revisions"

definition validate_edit_metadata ::
  "history_event \<Rightarrow> string \<Rightarrow> string list \<Rightarrow> string list \<Rightarrow> string list \<Rightarrow>
   history_diagnostic list \<Rightarrow> string option \<Rightarrow> history_error + unit" where
  "validate_edit_metadata event feature_id dirty evaluated blocked diagnostics preserved_name =
     (let features = hs_features (he_active event) in
      and_then (ensure (bt_contains features feature_id \<and>
                        (case preserved_name of
                           None \<Rightarrow> False
                         | Some name \<Rightarrow> bt_contains (he_named_revisions event) name))
                 (InvalidEvent ''historical edit references missing state'')) (\<lambda>_.
      and_then (ensure (list_all (\<lambda>id. id \<in> set dirty) evaluated \<and>
                        list_all (\<lambda>id. id \<in> set dirty) blocked \<and>
                        list_all (\<lambda>id. id \<notin> set blocked) evaluated \<and>
                        list_all (bt_contains features) dirty)
                 (InvalidEvent ''historical edit affected-set metadata is inconsistent'')) (\<lambda>_.
      each_ok (\<lambda>d. ensure (case bt_get features (hd_feature_id d) of
                             None \<Rightarrow> False | Some f \<Rightarrow> hf_status f = Broken)
                     (InvalidEvent ''diagnostic does not identify a broken feature''))
        diagnostics)))"

definition validate_cursor_metadata ::
  "history_event \<Rightarrow> nat \<Rightarrow> string \<Rightarrow> string \<Rightarrow> history_error + unit" where
  "validate_cursor_metadata event restored_ordinal restored_revision_id preserved_name =
     ensure (\<not> (he_ordinal event \<le> restored_ordinal \<or> restored_revision_id = [] \<or>
                restored_revision_id \<noteq> hs_revision_id (he_active event) \<or>
                \<not> bt_contains (he_named_revisions event) preserved_name))
       (InvalidEvent ''cursor movement references missing state'')"

definition validate_operation :: "history_event \<Rightarrow> history_error + unit" where
  "validate_operation event =
     (case he_operation event of
        InitializeLBracket bracket_id _ _ _ _ \<Rightarrow>
          ensure (bracket_id \<noteq> [] \<and> hs_features (he_active event) \<noteq> [])
            (InvalidEvent ''initialization must contain a bracket graph'')
      | HistoricalEdit fid _ _ dirty evaluated blocked diagnostics preserved_name \<Rightarrow>
          validate_edit_metadata event fid dirty evaluated blocked diagnostics preserved_name
      | CreateNamedRevision name \<Rightarrow>
          and_then (ok_or (bt_get (he_named_revisions event) name)
                     (InvalidEvent ''created named revision is missing''))
            (\<lambda>named. ensure (snapshot_eq (nr_snapshot named) (he_active event) \<and>
                             nr_provenance named = ''explicit-create'')
              (InvalidEvent ''created named revision does not capture the active snapshot''))
      | RestoreNamedRevision name _ \<Rightarrow>
          and_then (ok_or (bt_get (he_named_revisions event) name)
                     (InvalidEvent ''restored revision is missing''))
            (\<lambda>named. ensure (snapshot_eq (nr_snapshot named) (he_active event))
              (InvalidEvent ''restore active snapshot does not match the named snapshot''))
      | Undo ord rid name \<Rightarrow> validate_cursor_metadata event ord rid name
      | Redo ord rid name \<Rightarrow> validate_cursor_metadata event ord rid name)"

definition validate_event :: "history_event \<Rightarrow> history_error + unit" where
  "validate_event event =
     and_then (validate_snapshot (he_active event)) (\<lambda>_.
     and_then (validate_named_revisions (he_named_revisions event)) (\<lambda>_.
     validate_operation event))"

definition apply_event :: "history_state \<Rightarrow> history_event \<Rightarrow> history_error + history_state" where
  "apply_event s event =
     and_then (ensure (he_schema_version event = history_event_schema)
                (InvalidEvent (''unsupported schema '' @ he_schema_version event))) (\<lambda>_.
     and_then (ensure (he_ordinal event = h_event_ordinal s + 1)
                (InvalidEvent (''expected ordinal '' @ show_nat (h_event_ordinal s + 1) @
                               '', got '' @ show_nat (he_ordinal event)))) (\<lambda>_.
     and_then (validate_event event) (\<lambda>_.
     Inr \<lparr>h_active = he_active event, h_named_revisions = he_named_revisions event,
          h_event_ordinal = he_ordinal event\<rparr>)))"

section \<open>Operations\<close>

definition history_event_of ::
  "history_state \<Rightarrow> history_operation \<Rightarrow> history_snapshot \<Rightarrow>
   (string, named_revision) btree \<Rightarrow> history_event" where
  "history_event_of s operation active named_revisions =
     \<lparr>he_schema_version = history_event_schema, he_ordinal = h_event_ordinal s + 1,
      he_operation = operation, he_active = active, he_named_revisions = named_revisions\<rparr>"

definition revision_id_for :: "nat \<Rightarrow> string" where
  "revision_id_for ordinal = ''history-revision-'' @ show_nat ordinal"

text \<open>Preserving the displaced snapshot, shared by every destructive operation.\<close>

definition preserve ::
  "history_state \<Rightarrow> string \<Rightarrow> string \<Rightarrow> history_error + (string, named_revision) btree" where
  "preserve s name provenance =
     (if bt_contains (h_named_revisions s) name then Inl (DuplicateName name)
      else Inr (bt_insert name
             \<lparr>nr_name = name, nr_snapshot = h_active s, nr_provenance = provenance,
              nr_canonical_log_position = None\<rparr> (h_named_revisions s)))"

definition bracket_feature ::
  "geometry_digest \<Rightarrow> string \<Rightarrow> string list \<Rightarrow> f64 \<Rightarrow> feature_map \<Rightarrow> feature_map" where
  "bracket_feature fp fid dependencies v features =
     (let f = \<lparr>hf_id = fid, hf_dependencies = dependencies, hf_input_value = v,
               hf_geometry_fingerprint = None, hf_last_valid_geometry_fingerprint = None,
               hf_status = CurrentValid, hf_diagnostic = None\<rparr>
      in bt_insert fid
           (f\<lparr>hf_geometry_fingerprint := Some (geometry_fingerprint fp f features)\<rparr>) features)"

definition l_bracket_snapshot ::
  "geometry_digest \<Rightarrow> string \<Rightarrow> f64 \<Rightarrow> f64 \<Rightarrow> f64 \<Rightarrow> f64 \<Rightarrow> nat \<Rightarrow> history_snapshot" where
  "l_bracket_snapshot fp bid len width height thickness ordinal =
     \<lparr>hs_revision_id = revision_id_for ordinal,
      hs_features =
        fold (\<lambda>(fid, deps, v). bracket_feature fp fid deps v)
          [(bid @ ''-base'', [], len),
           (bid @ ''-bend'', [bid @ ''-base''], width),
           (bid @ ''-finish'', [bid @ ''-bend''], height),
           (bid @ ''-independent-base'', [], thickness),
           (bid @ ''-independent-finish'', [bid @ ''-independent-base''], height)] []\<rparr>"

definition positive_dimension :: "f64 \<Rightarrow> bool" where
  "positive_dimension v = (f64_finite v \<and> f64_pos v)"

definition initialize_l_bracket ::
  "geometry_digest \<Rightarrow> history_state \<Rightarrow> string \<Rightarrow> f64 \<Rightarrow> f64 \<Rightarrow> f64 \<Rightarrow> f64 \<Rightarrow>
   history_error + history_event" where
  "initialize_l_bracket fp s bid len width height thickness =
     (if bid = [] \<or> \<not> list_all positive_dimension [len, width, height, thickness]
      then Inl InvalidValue
      else
        let ordinal = h_event_ordinal s + 1;
            bracket = l_bracket_snapshot fp bid len width height thickness ordinal
        in Inr (history_event_of s (InitializeLBracket bid len width height thickness)
             \<lparr>hs_revision_id = revision_id_for ordinal,
              hs_features = bt_extend (hs_features (h_active s)) (hs_features bracket)\<rparr>
             (h_named_revisions s)))"

definition bracket_ids :: "string \<Rightarrow> string list" where
  "bracket_ids bid =
     [bid @ ''-base'', bid @ ''-bend'', bid @ ''-finish'', bid @ ''-independent-base'',
      bid @ ''-independent-finish'']"

definition refresh_fingerprint :: "geometry_digest \<Rightarrow> string \<Rightarrow> feature_map \<Rightarrow> feature_map" where
  "refresh_fingerprint fp fid features =
     (case bt_get features fid of
        None \<Rightarrow> features
      | Some f \<Rightarrow> bt_modify fid
          (\<lambda>g. g\<lparr>hf_geometry_fingerprint := Some (geometry_fingerprint fp f features),
                 hf_last_valid_geometry_fingerprint := None, hf_status := CurrentValid,
                 hf_diagnostic := None\<rparr>) features)"

definition edit_l_bracket ::
  "geometry_digest \<Rightarrow> history_state \<Rightarrow> string \<Rightarrow> f64 \<Rightarrow> f64 \<Rightarrow> f64 \<Rightarrow> f64 \<Rightarrow>
   history_error + history_event \<times> history_evaluation" where
  "edit_l_bracket fp s bid len width height thickness =
     (if bid = [] \<or> \<not> list_all positive_dimension [len, width, height, thickness] \<or>
         f64_le len thickness \<or> f64_le width thickness
      then Inl InvalidValue
      else
        let ids = bracket_ids bid; features = hs_features (h_active s) in
        if list_ex (\<lambda>i. \<not> bt_contains features i) ids then Inl (FeatureNotFound bid)
        else
          let ordinal = h_event_ordinal s + 1;
              name = ''recovered-before-historical-edit-'' @ show_nat ordinal in
          and_then (preserve s name (''historical-edit:'' @ bid)) (\<lambda>named_revisions.
          let valued = fold (\<lambda>(i, v). bt_modify i (\<lambda>f. f\<lparr>hf_input_value := v\<rparr>))
                (zip ids [len, width, height, thickness, height]) features;
              refreshed = fold (refresh_fingerprint fp) ids valued;
              evaluation = \<lparr>ev_dirty_features = ids, ev_evaluated_features = ids,
                            ev_blocked_features = [], ev_diagnostics = []\<rparr>
          in Inr (history_event_of s
                (HistoricalEdit (hd ids) ''dimensions'' len ids ids [] [] (Some name))
                \<lparr>hs_revision_id = revision_id_for ordinal, hs_features = refreshed\<rparr>
                named_revisions, evaluation)))"

text \<open>The loop of \<^verbatim>\<open>historical_edit\<close> over the affected features in dependency order.\<close>

record edit_run =
  er_features :: feature_map
  er_evaluated :: "string list"
  er_blocked :: "string list"
  er_diagnostics :: "history_diagnostic list"
  er_failed :: bool

definition block_feature :: "history_feature \<Rightarrow> history_feature" where
  "block_feature f =
     f\<lparr>hf_last_valid_geometry_fingerprint :=
          (if hf_last_valid_geometry_fingerprint f = None then hf_geometry_fingerprint f
           else hf_last_valid_geometry_fingerprint f),
       hf_geometry_fingerprint := None, hf_status := BlockedByFailure, hf_diagnostic := None\<rparr>"

definition break_feature :: "history_diagnostic \<Rightarrow> history_feature \<Rightarrow> history_feature" where
  "break_feature d f =
     f\<lparr>hf_last_valid_geometry_fingerprint := hf_geometry_fingerprint f,
       hf_geometry_fingerprint := None, hf_status := Broken, hf_diagnostic := Some d\<rparr>"

definition evaluate_feature :: "string \<Rightarrow> history_feature \<Rightarrow> history_feature" where
  "evaluate_feature fingerprint f =
     f\<lparr>hf_geometry_fingerprint := Some fingerprint, hf_last_valid_geometry_fingerprint := None,
       hf_status := CurrentValid, hf_diagnostic := None\<rparr>"

definition dependency_not_current :: "feature_map \<Rightarrow> string \<Rightarrow> bool" where
  "dependency_not_current features d =
     (case bt_get features d of None \<Rightarrow> False | Some item \<Rightarrow> hf_status item \<noteq> CurrentValid)"

definition edit_diagnostic :: "string \<Rightarrow> string \<Rightarrow> string list \<Rightarrow> history_diagnostic" where
  "edit_diagnostic i parameter dirty =
     \<lparr>hd_code = ''historical_geometry_invalid'', hd_feature_id = i,
      hd_detail = parameter @ '' must produce positive material'', hd_affected_ids = dirty,
      hd_recovery = Some ''correct_geometry_or_restore_revision''\<rparr>"

definition edit_step ::
  "geometry_digest \<Rightarrow> string \<Rightarrow> string \<Rightarrow> f64 \<Rightarrow> string list \<Rightarrow> string \<Rightarrow> edit_run \<Rightarrow>
   history_error + edit_run" where
  "edit_step fp target parameter v dirty i r =
     and_then (ok_or (bt_get (er_features r) i) (FeatureNotFound i)) (\<lambda>f.
     if er_failed r \<or> list_ex (dependency_not_current (er_features r)) (hf_dependencies f)
     then Inr (r\<lparr>er_features := bt_modify i block_feature (er_features r),
                 er_blocked := er_blocked r @ [i]\<rparr>)
     else
       let features = (if i = target
                       then bt_modify i (\<lambda>g. g\<lparr>hf_input_value := v\<rparr>) (er_features r)
                       else er_features r)
       in and_then (ok_or (bt_get features i) (FeatureNotFound i)) (\<lambda>g.
          if f64_le (hf_input_value g) (Fin 0)
          then let d = edit_diagnostic i parameter dirty
               in Inr (r\<lparr>er_features := bt_modify i (break_feature d) features,
                         er_diagnostics := er_diagnostics r @ [d], er_failed := True\<rparr>)
          else Inr (r\<lparr>er_features :=
                        bt_modify i (evaluate_feature (geometry_fingerprint fp g features)) features,
                      er_evaluated := er_evaluated r @ [i]\<rparr>)))"

definition historical_edit ::
  "geometry_digest \<Rightarrow> history_state \<Rightarrow> string \<Rightarrow> string \<Rightarrow> f64 \<Rightarrow>
   history_error + history_event \<times> history_evaluation" where
  "historical_edit fp s target parameter v =
     and_then (ensure (f64_finite v) InvalidValue) (\<lambda>_.
     let features = hs_features (h_active s) in
     and_then (ok_or (bt_get features target) (FeatureNotFound target)) (\<lambda>_.
     let ordinal = h_event_ordinal s + 1;
         name = ''recovered-before-historical-edit-'' @ show_nat ordinal in
     and_then (preserve s name (''historical-edit:'' @ target)) (\<lambda>named_revisions.
     and_then (reachable_features features target) (\<lambda>dirty.
     and_then (topological_order features dirty) (\<lambda>order.
     and_then (fold_ok (edit_step fp target parameter v dirty) order
                \<lparr>er_features = features, er_evaluated = [], er_blocked = [],
                 er_diagnostics = [], er_failed = False\<rparr>) (\<lambda>r.
     Inr (history_event_of s
            (HistoricalEdit target parameter v dirty (er_evaluated r) (er_blocked r)
               (er_diagnostics r) (Some name))
            \<lparr>hs_revision_id = revision_id_for ordinal, hs_features = er_features r\<rparr>
            named_revisions,
          \<lparr>ev_dirty_features = dirty, ev_evaluated_features = er_evaluated r,
           ev_blocked_features = er_blocked r, ev_diagnostics = er_diagnostics r\<rparr>)))))))"

definition create_named_revision ::
  "history_state \<Rightarrow> string \<Rightarrow> history_error + history_event" where
  "create_named_revision s name =
     (if name = [] then Inl EmptyName
      else and_then (preserve s name ''explicit-create'') (\<lambda>named_revisions.
        Inr (history_event_of s (CreateNamedRevision name) (h_active s) named_revisions)))"

definition restore_named_revision ::
  "history_state \<Rightarrow> string \<Rightarrow> history_error + history_event" where
  "restore_named_revision s name =
     and_then (ok_or (bt_get (h_named_revisions s) name) (NamedRevisionNotFound name)) (\<lambda>named.
     let displaced = ''recovered-before-restore-'' @ show_nat (h_event_ordinal s + 1) in
     and_then (preserve s displaced (''restore:'' @ name)) (\<lambda>named_revisions.
     Inr (history_event_of s (RestoreNamedRevision name (Some displaced)) (nr_snapshot named)
            named_revisions)))"

definition restore_named_revision_for_feature ::
  "history_state \<Rightarrow> string \<Rightarrow> string \<Rightarrow> history_error + history_event" where
  "restore_named_revision_for_feature s fid name =
     and_then (ok_or (bt_get (h_named_revisions s) name) (NamedRevisionNotFound name)) (\<lambda>named.
     if \<not> bt_contains (hs_features (h_active s)) fid \<and>
        \<not> bt_contains (hs_features (nr_snapshot named)) fid
     then Inl (FeatureNotFound fid)
     else if \<not> bt_contains (hs_features (nr_snapshot named)) fid
     then Inl (FeatureNotInNamedRevision fid name)
     else restore_named_revision s name)"

section \<open>Undo and redo\<close>

datatype cursor_direction = CursorUndo | CursorRedo

definition is_cursor_event :: "history_event \<Rightarrow> bool" where
  "is_cursor_event e = (case he_operation e of Undo _ _ _ \<Rightarrow> True | Redo _ _ _ \<Rightarrow> True | _ \<Rightarrow> False)"

definition timeline_positions :: "history_event list \<Rightarrow> (nat \<times> history_snapshot) list" where
  "timeline_positions events =
     (0, h_active default_history) #
     map (\<lambda>e. (he_ordinal e, he_active e)) (filter (\<lambda>e. \<not> is_cursor_event e) events)"

text \<open>The trailing cursor events, read backwards: the list is the reversed log.\<close>

fun cursor_from :: "history_event list \<Rightarrow> int \<Rightarrow> int" where
  "cursor_from [] c = c"
| "cursor_from (e # es) c =
     (case he_operation e of
        Undo _ _ _ \<Rightarrow> cursor_from es (c - 1)
      | Redo _ _ _ \<Rightarrow> cursor_from es (c + 1)
      | _ \<Rightarrow> c)"

definition cursor_target ::
  "history_state \<Rightarrow> history_event list \<Rightarrow> cursor_direction \<Rightarrow>
   history_error + nat \<times> history_snapshot" where
  "cursor_target s events direction =
     (if (events \<noteq> [] \<and> he_ordinal (last events) \<noteq> h_event_ordinal s) \<or>
         (events = [] \<and> h_event_ordinal s \<noteq> 0)
      then Inl (InvalidEvent ''history event log does not end at the active ordinal'')
      else
        let positions = timeline_positions events;
            c = cursor_from (rev events) (int (length positions) - 1)
        in if c < 0 \<or> int (length positions) \<le> c
           then Inl (InvalidEvent ''history cursor left the sealed timeline'')
           else
             let cursor = nat c;
                 differs = (\<lambda>i. \<not> snapshot_eq (snd (positions ! i)) (h_active s))
             in if differs cursor
                then Inl (InvalidEvent
                       ''history event log does not reproduce the active snapshot'')
                else case (case direction of
                             CursorUndo \<Rightarrow> find differs (rev [0..<cursor])
                           | CursorRedo \<Rightarrow> find differs [cursor + 1..<length positions]) of
                       None \<Rightarrow> Inl (case direction of
                                CursorUndo \<Rightarrow> NothingToUndo | CursorRedo \<Rightarrow> NothingToRedo)
                     | Some target \<Rightarrow> Inr (positions ! target))"

definition undo :: "history_state \<Rightarrow> history_event list \<Rightarrow> history_error + history_event" where
  "undo s events =
     and_then (cursor_target s events CursorUndo) (\<lambda>(ordinal, snapshot).
     let name = ''recovered-before-undo-'' @ show_nat (h_event_ordinal s + 1) in
     and_then (preserve s name ''undo'') (\<lambda>named_revisions.
     Inr (history_event_of s (Undo ordinal (hs_revision_id snapshot) name) snapshot
            named_revisions)))"

definition redo :: "history_state \<Rightarrow> history_event list \<Rightarrow> history_error + history_event" where
  "redo s events =
     and_then (cursor_target s events CursorRedo) (\<lambda>(ordinal, snapshot).
     let name = ''recovered-before-redo-'' @ show_nat (h_event_ordinal s + 1) in
     and_then (preserve s name ''redo'') (\<lambda>named_revisions.
     Inr (history_event_of s (Redo ordinal (hs_revision_id snapshot) name) snapshot
            named_revisions)))"

text \<open>Replaying a log from the empty document.\<close>

definition replay :: "history_event list \<Rightarrow> history_error + history_state" where
  "replay events = fold_ok (\<lambda>e s. apply_event s e) events default_history"

end
