(* ===== verification/HistoryFacts.thy ===== *)
theory HistoryFacts
  imports History
begin

text \<open>
  What the history operations guarantee: the dependency order is a topological order and fails
  only on cycles, the dirty set is the reachability closure, \<open>validate_snapshot\<close> decides a
  declarative well-formedness predicate, and the lemmas on which the acceptance and the undo/redo
  properties of the root theory rest.
\<close>

named_theorems edit_defs \<open>field updates made by the edit loop\<close>

section \<open>Updating one entry\<close>

lemma bt_get_modify:
  "bt_get (bt_modify k f m) k' = (if k' = k then map_option f (bt_get m k) else bt_get m k')"
  by (induction m) (auto simp: bt_modify_def)

lemma keys_modify [simp]: "map fst (bt_modify k f m) = map fst m"
  by (auto simp: bt_modify_def)

lemma bt_contains_modify [simp]: "bt_contains (bt_modify k f m) = bt_contains m"
  by (simp add: bt_contains_def fun_eq_iff del: set_map)

lemma bt_ok_modify [simp]: "bt_ok (bt_modify k f m) = bt_ok m"
  by (simp add: bt_ok_def)

lemma bt_keys_modify [simp]: "bt_keys (bt_modify k f m) = bt_keys m"
  by (simp add: bt_keys_def)

section \<open>Topological order\<close>

definition dep_edges :: "feature_map \<Rightarrow> (string \<times> string) set" where
  "dep_edges fs = {(d, i). \<exists>f. bt_get fs i = Some f \<and> d \<in> set (hf_dependencies f)}"

fun dep_sorted :: "feature_map \<Rightarrow> string list \<Rightarrow> bool" where
  "dep_sorted fs [] = True"
| "dep_sorted fs (x # xs) = (ready fs (x # xs) x \<and> dep_sorted fs xs)"

lemma ready_iff:
  "ready fs rem i \<longleftrightarrow> bt_contains fs i \<and> (\<forall>d. (d, i) \<in> dep_edges fs \<longrightarrow> d \<notin> set rem)"
  by (auto simp: ready_def dep_edges_def bt_contains_iff list_all_iff split: option.splits)

lemma ready_cong: "set rem = set rem' \<Longrightarrow> ready fs rem i = ready fs rem' i"
  by (simp add: ready_iff)

lemma dep_sorted_rank:
  assumes "dep_sorted fs p" "(d, i) \<in> dep_edges fs" "d \<in> set p" "i \<in> set p"
  shows "length (takeWhile (\<lambda>y. y \<noteq> d) p) < length (takeWhile (\<lambda>y. y \<noteq> i) p)"
  using assms by (induction p) (auto simp: ready_iff)

lemma dep_sorted_acyclic:
  assumes "dep_sorted fs p"
  shows "acyclic (dep_edges fs \<inter> set p \<times> set p)"
proof (rule wf_acyclic)
  have "dep_edges fs \<inter> set p \<times> set p \<subseteq> measure (\<lambda>y. length (takeWhile (\<lambda>z. z \<noteq> y) p))"
    using dep_sorted_rank [OF assms] by auto
  then show "wf (dep_edges fs \<inter> set p \<times> set p)"
    by (rule wf_subset [OF wf_measure])
qed

lemma topo_loop_Nil [simp]: "topo_loop fs [] ord = Inr ord"
  by (subst topo_loop.simps) simp

lemma topo_loop_sound:
  "topo_loop fs rem ord = Inr ord' \<Longrightarrow> distinct rem \<Longrightarrow>
   \<exists>p. ord' = ord @ p \<and> set p = set rem \<and> distinct p \<and> dep_sorted fs p"
proof (induction fs rem ord rule: topo_loop.induct)
  case (1 fs rem ord)
  show ?case
  proof (cases "rem = []")
    case True
    with "1.prems" show ?thesis by simp
  next
    case False
    with "1.prems" obtain n where n: "find (ready fs rem) rem = Some n"
      and rec: "topo_loop fs (removeAll n rem) (ord @ [n]) = Inr ord'"
      by (auto simp: topo_loop.simps [of fs rem ord] split: option.splits)
    from n have nin: "n \<in> set rem" and rdy: "ready fs rem n"
      by (auto simp: find_Some_iff)
    obtain p where p: "ord' = ord @ n # p" "set p = set rem - {n}" "distinct p" "dep_sorted fs p"
      using "1.IH" [OF False n rec] "1.prems"(2) by (auto simp: distinct_removeAll)
    have "set (n # p) = set rem" using p(2) nin by auto
    then have "ready fs (n # p) n" using rdy ready_cong by metis
    with p nin \<open>set (n # p) = set rem\<close> show ?thesis
      by (intro exI [of _ "n # p"]) auto
  qed
qed

lemma acyclic_has_ready:
  assumes "rem \<noteq> []" "\<forall>i\<in>set rem. bt_contains fs i"
    and "acyclic (dep_edges fs \<inter> set rem \<times> set rem)"
  shows "\<exists>i\<in>set rem. ready fs rem i"
proof -
  let ?R = "dep_edges fs \<inter> set rem \<times> set rem"
  have "finite ?R" by simp
  with assms(3) have wf: "wf ?R" by (intro finite_acyclic_wf)
  from assms(1) obtain x where "x \<in> set rem" by (cases rem) auto
  from wf [unfolded wf_eq_minimal, rule_format, OF \<open>x \<in> set rem\<close>]
  obtain i where i: "i \<in> set rem" "\<forall>y. (y, i) \<in> ?R \<longrightarrow> y \<notin> set rem" by (rule bexE)
  have "d \<notin> set rem" if "(d, i) \<in> dep_edges fs" for d
    using i that by blast
  moreover have "bt_contains fs i" using assms(2) i(1) by (rule bspec)
  ultimately have "ready fs rem i" unfolding ready_iff by blast
  with i(1) show ?thesis by (rule bexI [rotated])
qed

lemma topo_loop_complete:
  "\<forall>i\<in>set rem. bt_contains fs i \<Longrightarrow> acyclic (dep_edges fs \<inter> set rem \<times> set rem) \<Longrightarrow>
   is_ok (topo_loop fs rem ord)"
proof (induction fs rem ord rule: topo_loop.induct)
  case (1 fs rem ord)
  show ?case
  proof (cases "rem = []")
    case True
    then show ?thesis by simp
  next
    case False
    from acyclic_has_ready [OF False "1.prems"] obtain n
      where n: "find (ready fs rem) rem = Some n"
      by (metis find_None_iff not_None_eq)
    have "acyclic (dep_edges fs \<inter> set (removeAll n rem) \<times> set (removeAll n rem))"
      by (rule acyclic_subset [OF "1.prems"(2)]) auto
    with "1.IH" [OF False n] "1.prems"(1) False n show ?thesis
      by (simp add: topo_loop.simps [of fs rem ord])
  qed
qed

lemma topological_order_ok_iff:
  assumes "\<forall>i\<in>set dirty. bt_contains fs i"
  shows "is_ok (topological_order fs dirty) \<longleftrightarrow> acyclic (dep_edges fs \<inter> set dirty \<times> set dirty)"
proof
  assume "is_ok (topological_order fs dirty)"
  then obtain p where "topo_loop fs (bs_of dirty) [] = Inr p"
    by (auto simp: topological_order_def is_ok_iff)
  from topo_loop_sound [OF this] have "set p = set dirty" "dep_sorted fs p" by auto
  then show "acyclic (dep_edges fs \<inter> set dirty \<times> set dirty)"
    using dep_sorted_acyclic by metis
next
  assume "acyclic (dep_edges fs \<inter> set dirty \<times> set dirty)"
  then show "is_ok (topological_order fs dirty)"
    unfolding topological_order_def using assms by (intro topo_loop_complete) auto
qed

lemma topological_order_sound:
  assumes "topological_order fs dirty = Inr p"
  shows "set p = set dirty \<and> distinct p \<and> dep_sorted fs p"
  using topo_loop_sound [OF assms [unfolded topological_order_def]] by auto

lemma dep_sorted_nth:
  "dep_sorted fs p \<Longrightarrow> i < length p \<Longrightarrow> (d, p ! i) \<in> dep_edges fs \<Longrightarrow> d \<in> set p \<Longrightarrow>
   d \<in> set (take i p)"
proof (induction p arbitrary: i)
  case Nil
  then show ?case by simp
next
  case (Cons x p)
  then show ?case by (cases i) (auto simp: ready_iff)
qed

section \<open>Reachability\<close>

definition dependents :: "feature_map \<Rightarrow> (string \<times> string) set" where
  "dependents fs = {(d, hf_id f) | d k f. (k, f) \<in> set fs \<and> d \<in> set (hf_dependencies f)}"

lemma dirty_pass_reach:
  fixes features :: feature_map
  assumes "fold (\<lambda>(k, f) (d, changed).
         if depends_on_any f d \<and> hf_id f \<notin> set d then (bs_insert (hf_id f) d, True)
         else (d, changed)) features (d, c) = (d', c')" (is "fold ?step _ _ = _")
    and "set features \<subseteq> set all" "set d \<subseteq> (dependents all)\<^sup>* `` T"
  shows "set d' \<subseteq> (dependents all)\<^sup>* `` T"
  using assms
proof (induction features arbitrary: d c)
  case Nil
  then show ?case by simp
next
  case (Cons e features)
  obtain k f where e: "e = (k, f)" by (cases e)
  show ?case
  proof (cases "depends_on_any f d \<and> hf_id f \<notin> set d")
    case True
    then obtain x where x: "x \<in> set (hf_dependencies f)" "x \<in> set d"
      by (auto simp: depends_on_any_def list_ex_iff)
    have "(x, hf_id f) \<in> dependents all"
      using x(1) Cons.prems(2) e by (auto simp: dependents_def)
    with x(2) Cons.prems(3) have "hf_id f \<in> (dependents all)\<^sup>* `` T"
      by (auto intro: rtrancl_into_rtrancl)
    with Cons.prems True e show ?thesis
      by (intro Cons.IH [of "bs_insert (hf_id f) d" True]) auto
  next
    case False
    with Cons.prems e show ?thesis
      by (intro Cons.IH [of d c]) auto
  qed
qed

lemma dirty_pass_stable:
  fixes features :: feature_map
  assumes "fold (\<lambda>(k, f) (d, changed).
         if depends_on_any f d \<and> hf_id f \<notin> set d then (bs_insert (hf_id f) d, True)
         else (d, changed)) features (d, c) = (d', False)" (is "fold ?step _ _ = _")
    and "(k, f) \<in> set features" "depends_on_any f d"
  shows "hf_id f \<in> set d"
  using assms
proof (induction features arbitrary: c)
  case Nil
  then show ?case by simp
next
  case (Cons e features)
  obtain k' g where e: "e = (k', g)" by (cases e)
  have nch: "\<not> (depends_on_any g d \<and> hf_id g \<notin> set d)"
  proof
    assume "depends_on_any g d \<and> hf_id g \<notin> set d"
    with Cons.prems(1) e have "fold ?step features (bs_insert (hf_id g) d, True) = (d', False)"
      by simp
    from dirty_pass_mono [OF this] show False by simp
  qed
  with Cons.prems(1) e have "fold ?step features (d, c) = (d', False)" by auto
  with Cons nch e show ?case by auto
qed

lemma reach_loop_sound:
  "set (reach_loop fs d) \<subseteq> (dependents fs)\<^sup>* `` set d \<and> set d \<subseteq> set (reach_loop fs d) \<and>
   (\<forall>x y. (x, y) \<in> dependents fs \<longrightarrow> x \<in> set (reach_loop fs d) \<longrightarrow> y \<in> set (reach_loop fs d))"
proof (induction fs d rule: reach_loop.induct)
  case (1 fs d)
  obtain d' ch where step: "dirty_pass fs d = (d', ch)" by (cases "dirty_pass fs d")
  note pass = step [unfolded dirty_pass_def]
  have sub: "set d' \<subseteq> (dependents fs)\<^sup>* `` set d"
    by (rule dirty_pass_reach [OF pass subset_refl]) auto
  note mono = dirty_pass_mono [OF pass]
  show ?case
  proof (cases ch)
    case True
    have trans: "(dependents fs)\<^sup>* `` set d' \<subseteq> (dependents fs)\<^sup>* `` set d"
      using sub by (auto intro: rtrancl_trans)
    have "reach_loop fs d = reach_loop fs d'"
      using step True by (simp add: reach_loop.simps [of fs d])
    with "1.IH" [OF step [symmetric] True] trans mono show ?thesis by auto
  next
    case False
    then have "d' = d" using mono by simp
    with step False have r: "reach_loop fs d = d" by (simp add: reach_loop.simps [of fs d])
    from pass False have stable: "fold (\<lambda>(k, f) (d, changed).
         if depends_on_any f d \<and> hf_id f \<notin> set d then (bs_insert (hf_id f) d, True)
         else (d, changed)) fs (d, False) = (d', False)"
      by simp
    have "\<forall>x y. (x, y) \<in> dependents fs \<longrightarrow> x \<in> set d \<longrightarrow> y \<in> set d"
      using dirty_pass_stable [OF stable]
      by (auto simp: dependents_def depends_on_any_def list_ex_iff)
    with r show ?thesis by auto
  qed
qed

lemma set_reach_loop: "set (reach_loop fs d) = (dependents fs)\<^sup>* `` set d"
proof
  show "set (reach_loop fs d) \<subseteq> (dependents fs)\<^sup>* `` set d"
    using reach_loop_sound by blast
  have "y \<in> set (reach_loop fs d)" if "(x, y) \<in> (dependents fs)\<^sup>*" "x \<in> set d" for x y
    using that
  proof (induction rule: rtrancl_induct)
    case base
    then show ?case using reach_loop_sound by blast
  next
    case (step y z)
    then show ?case using reach_loop_sound by blast
  qed
  then show "(dependents fs)\<^sup>* `` set d \<subseteq> set (reach_loop fs d)" by auto
qed

lemma dependents_keys:
  assumes "bt_ok fs" "\<forall>(k, f)\<in>set fs. k = hf_id f"
  shows "dependents fs = dep_edges fs"
proof -
  have "(\<exists>k f. i = hf_id f \<and> (k, f) \<in> set fs \<and> d \<in> set (hf_dependencies f)) \<longleftrightarrow>
        (\<exists>f. (i, f) \<in> set fs \<and> d \<in> set (hf_dependencies f))" for d i
    using assms(2) by fastforce
  then show ?thesis
    unfolding dependents_def dep_edges_def bt_in_set_iff [OF assms(1), symmetric] by blast
qed

section \<open>Well-formed snapshots\<close>

definition feature_consistent :: "history_feature \<Rightarrow> bool" where
  "feature_consistent f =
     (case hf_status f of
        CurrentValid \<Rightarrow> hf_geometry_fingerprint f \<noteq> None \<and>
          hf_last_valid_geometry_fingerprint f = None \<and> hf_diagnostic f = None
      | Broken \<Rightarrow> hf_geometry_fingerprint f = None \<and>
          hf_last_valid_geometry_fingerprint f \<noteq> None \<and> hf_diagnostic f \<noteq> None
      | _ \<Rightarrow> hf_geometry_fingerprint f = None \<and> hf_diagnostic f = None)"

definition feature_wf :: "feature_map \<Rightarrow> string \<Rightarrow> history_feature \<Rightarrow> bool" where
  "feature_wf fs k f =
     (hf_id f = k \<and> f64_finite (hf_input_value f) \<and>
      (\<forall>d\<in>set (hf_dependencies f). bt_contains fs d) \<and> feature_consistent f)"

definition snapshot_wf :: "history_snapshot \<Rightarrow> bool" where
  "snapshot_wf sn =
     (bt_ok (hs_features sn) \<and>
      (\<forall>k f. bt_get (hs_features sn) k = Some f \<longrightarrow> feature_wf (hs_features sn) k f) \<and>
      acyclic (dep_edges (hs_features sn)))"

lemma validate_feature_iff:
  "validate_feature fs e = Inr () \<longleftrightarrow> feature_wf fs (fst e) (snd e)"
  by (auto simp: validate_feature_def feature_wf_def feature_consistent_def Let_def
      and_then_Inr_iff split: history_status.splits)

lemma dep_edges_fields:
  assumes "\<forall>k f. bt_get fs k = Some f \<longrightarrow> feature_wf fs k f"
  shows "dep_edges fs \<inter> set (bt_keys fs) \<times> set (bt_keys fs) = dep_edges fs"
  using assms by (force simp: dep_edges_def feature_wf_def bt_keys_iff bt_contains_iff)

lemma validate_snapshot_iff:
  assumes "bt_ok (hs_features sn)"
  shows "validate_snapshot sn = Inr () \<longleftrightarrow> snapshot_wf sn"
proof -
  let ?fs = "hs_features sn"
  have all: "(\<forall>e\<in>set ?fs. validate_feature ?fs e = Inr ()) \<longleftrightarrow>
      (\<forall>k f. bt_get ?fs k = Some f \<longrightarrow> feature_wf ?fs k f)"
    unfolding validate_feature_iff bt_in_set_iff [OF assms, symmetric] by auto
  have "is_ok (topological_order ?fs (bt_keys ?fs)) \<longleftrightarrow> acyclic (dep_edges ?fs)"
    if "\<forall>k f. bt_get ?fs k = Some f \<longrightarrow> feature_wf ?fs k f"
    using topological_order_ok_iff [of "bt_keys ?fs" ?fs] dep_edges_fields [OF that]
    by (simp add: bt_keys_iff)
  with all assms show ?thesis
    by (auto simp: validate_snapshot_def snapshot_wf_def and_then_Inr_iff is_ok_iff)
qed

definition named_wf :: "(string, named_revision) btree \<Rightarrow> bool" where
  "named_wf nrs =
     (bt_ok nrs \<and> (\<forall>name nr. bt_get nrs name = Some nr \<longrightarrow>
        name \<noteq> [] \<and> nr_name nr = name \<and> snapshot_wf (nr_snapshot nr)))"

text \<open>
  The maps of a state are \<^verbatim>\<open>BTreeMap\<close>s, so their keys are sorted by construction; the
  invariant records that next to what validation establishes.
\<close>

definition event_maps_ok :: "history_event \<Rightarrow> bool" where
  "event_maps_ok e =
     (bt_ok (hs_features (he_active e)) \<and> bt_ok (he_named_revisions e) \<and>
      (\<forall>name nr. bt_get (he_named_revisions e) name = Some nr \<longrightarrow>
         bt_ok (hs_features (nr_snapshot nr))))"

definition history_wf :: "history_state \<Rightarrow> bool" where
  "history_wf s = (snapshot_wf (h_active s) \<and> named_wf (h_named_revisions s))"

lemma validate_named_revisions_iff:
  assumes "bt_ok nrs" "\<forall>name nr. bt_get nrs name = Some nr \<longrightarrow> bt_ok (hs_features (nr_snapshot nr))"
  shows "validate_named_revisions nrs = Inr () \<longleftrightarrow> named_wf nrs"
proof -
  have "validate_named_revisions nrs = Inr () \<longleftrightarrow>
      (\<forall>name nr. bt_get nrs name = Some nr \<longrightarrow>
        name \<noteq> [] \<and> nr_name nr = name \<and> validate_snapshot (nr_snapshot nr) = Inr ())"
    unfolding bt_in_set_iff [OF assms(1), symmetric]
    by (auto simp: validate_named_revisions_def and_then_Inr_iff)
  with assms validate_snapshot_iff show ?thesis
    unfolding named_wf_def by blast
qed

lemma snapshot_wf_ok: "snapshot_wf sn \<Longrightarrow> bt_ok (hs_features sn)"
  by (simp add: snapshot_wf_def)

lemma event_maps_ok_of_wf:
  "snapshot_wf (he_active e) \<Longrightarrow> named_wf (he_named_revisions e) \<Longrightarrow> event_maps_ok e"
  by (auto simp: event_maps_ok_def snapshot_wf_def named_wf_def)

lemma validate_event_iff:
  assumes "event_maps_ok e"
  shows "validate_event e = Inr () \<longleftrightarrow>
    snapshot_wf (he_active e) \<and> named_wf (he_named_revisions e) \<and> validate_operation e = Inr ()"
  using assms
  by (auto simp: validate_event_def event_maps_ok_def and_then_Inr_iff validate_snapshot_iff
      validate_named_revisions_iff)

lemma apply_event_iff:
  assumes "event_maps_ok e"
  shows "apply_event s e = Inr s' \<longleftrightarrow>
    he_schema_version e = history_event_schema \<and> he_ordinal e = h_event_ordinal s + 1 \<and>
    snapshot_wf (he_active e) \<and> named_wf (he_named_revisions e) \<and> validate_operation e = Inr () \<and>
    s' = \<lparr>h_active = he_active e, h_named_revisions = he_named_revisions e,
          h_event_ordinal = he_ordinal e\<rparr>"
  using validate_event_iff [OF assms] by (auto simp: apply_event_def and_then_Inr_iff)

lemma default_history_wf: "history_wf default_history"
  by (simp add: history_wf_def default_history_def snapshot_wf_def named_wf_def dep_edges_def acyclic_def)

end
