(* ===== verification/HistoryEdit.thy ===== *)
theory HistoryEdit
  imports HistoryFacts
begin

text \<open>
  The evaluation loop of \<^verbatim>\<open>historical_edit\<close>: an invariant over the processed features
  (each is evaluated, blocked or broken, and every other feature is untouched), and the lemma that
  its result is a well-formed snapshot.
\<close>

section \<open>One step\<close>

definition edited :: "string \<Rightarrow> f64 \<Rightarrow> string \<Rightarrow> history_feature \<Rightarrow> history_feature" where
  "edited target v i f = (if i = target then f\<lparr>hf_input_value := v\<rparr> else f)"

lemma edited_fields [simp]:
  "hf_id (edited t v i f) = hf_id f" "hf_dependencies (edited t v i f) = hf_dependencies f"
  "hf_geometry_fingerprint (edited t v i f) = hf_geometry_fingerprint f"
  "hf_input_value (edited t v i f) = (if i = t then v else hf_input_value f)"
  by (simp_all add: edited_def)

lemma block_feature_fields [simp]:
  "hf_id (block_feature f) = hf_id f" "hf_dependencies (block_feature f) = hf_dependencies f"
  "hf_input_value (block_feature f) = hf_input_value f"
  "hf_status (block_feature f) = BlockedByFailure" "feature_consistent (block_feature f)"
  by (simp_all add: block_feature_def feature_consistent_def)

lemma break_feature_fields [simp]:
  "hf_id (break_feature d f) = hf_id f" "hf_dependencies (break_feature d f) = hf_dependencies f"
  "hf_input_value (break_feature d f) = hf_input_value f"
  "hf_status (break_feature d f) = Broken"
  "feature_consistent (break_feature d f) \<longleftrightarrow> hf_geometry_fingerprint f \<noteq> None"
  by (simp_all add: break_feature_def feature_consistent_def)

lemma evaluate_feature_fields [simp]:
  "hf_id (evaluate_feature s f) = hf_id f"
  "hf_dependencies (evaluate_feature s f) = hf_dependencies f"
  "hf_input_value (evaluate_feature s f) = hf_input_value f"
  "hf_status (evaluate_feature s f) = CurrentValid" "feature_consistent (evaluate_feature s f)"
  by (simp_all add: evaluate_feature_def feature_consistent_def)

lemma edit_step_cases:
  assumes "edit_step fp target parameter v dirty i r = Inr r'"
  obtains (blocked) f where "bt_get (er_features r) i = Some f"
      "r' = r\<lparr>er_features := bt_modify i block_feature (er_features r),
              er_blocked := er_blocked r @ [i]\<rparr>"
  | (broken) f d where "bt_get (er_features r) i = Some f" "\<not> er_failed r"
      "hd_feature_id d = i" "f64_le (hf_input_value (edited target v i f)) (Fin 0)"
      "map fst (er_features r') = map fst (er_features r)"
      "\<And>k. bt_get (er_features r') k =
         (if k = i then Some (break_feature d (edited target v i f)) else bt_get (er_features r) k)"
      "er_evaluated r' = er_evaluated r" "er_blocked r' = er_blocked r"
      "er_diagnostics r' = er_diagnostics r @ [d]" "er_failed r'"
  | (evaluated) f s where "bt_get (er_features r) i = Some f" "\<not> er_failed r"
      "\<not> f64_le (hf_input_value (edited target v i f)) (Fin 0)"
      "\<forall>d\<in>set (hf_dependencies f). \<not> dependency_not_current (er_features r) d"
      "map fst (er_features r') = map fst (er_features r)"
      "\<And>k. bt_get (er_features r') k =
         (if k = i then Some (evaluate_feature s (edited target v i f)) else bt_get (er_features r) k)"
      "er_evaluated r' = er_evaluated r @ [i]" "er_blocked r' = er_blocked r"
      "er_diagnostics r' = er_diagnostics r" "\<not> er_failed r'"
proof -
  from assms obtain f where f: "bt_get (er_features r) i = Some f"
    by (auto simp: edit_step_def and_then_Inr_iff)
  let ?stop = "er_failed r \<or> list_ex (dependency_not_current (er_features r)) (hf_dependencies f)"
  let ?fs = "if i = target then bt_modify i (\<lambda>g. g\<lparr>hf_input_value := v\<rparr>) (er_features r)
             else er_features r"
  have fs: "bt_get ?fs i = Some (edited target v i f)"
    "\<And>k. k \<noteq> i \<Longrightarrow> bt_get ?fs k = bt_get (er_features r) k"
    "map fst ?fs = map fst (er_features r)"
    using f by (auto simp add: edited_def bt_get_modify)
  show thesis
  proof (cases ?stop)
    case True
    with assms f have "r' = r\<lparr>er_features := bt_modify i block_feature (er_features r),
              er_blocked := er_blocked r @ [i]\<rparr>"
      by (simp add: edit_step_def)
    with f show thesis by (rule blocked)
  next
    case False
    let ?g = "edited target v i f"
    show thesis
    proof (cases "f64_le (hf_input_value ?g) (Fin 0)")
      case le: True
      let ?d = "edit_diagnostic i parameter dirty"
      from False assms f fs(1) le have r': "r' = r\<lparr>er_features := bt_modify i (break_feature ?d) ?fs,
          er_diagnostics := er_diagnostics r @ [?d], er_failed := True\<rparr>"
        by (simp only: edit_step_def Let_def ok_or_simps and_then_simps if_False if_True) simp
      show thesis
        by (rule broken [of f ?d])
          (use False f fs le r' in \<open>simp_all add: bt_get_modify edit_diagnostic_def\<close>)
    next
      case nle: False
      let ?s = "geometry_fingerprint fp ?g ?fs"
      from False assms f fs(1) nle have r': "r' = r\<lparr>er_features := bt_modify i (evaluate_feature ?s) ?fs,
          er_evaluated := er_evaluated r @ [i]\<rparr>"
        by (simp only: edit_step_def Let_def ok_or_simps and_then_simps if_False if_True) simp
      show thesis
        by (rule evaluated [of f ?s])
          (use False f fs nle r' in \<open>simp_all add: bt_get_modify list_ex_iff\<close>)
    qed
  qed
qed

section \<open>The loop invariant\<close>

definition broken_ids :: "edit_run \<Rightarrow> string set" where
  "broken_ids r = hd_feature_id ` set (er_diagnostics r)"

definition feature_outcome ::
  "string \<Rightarrow> f64 \<Rightarrow> edit_run \<Rightarrow> string \<Rightarrow> history_feature \<Rightarrow> history_feature \<Rightarrow> bool" where
  "feature_outcome target v r i f g =
     ((i \<notin> set (er_evaluated r) \<union> set (er_blocked r) \<union> broken_ids r \<longrightarrow> g = f) \<and>
      (i \<in> set (er_evaluated r) \<longrightarrow>
         (\<exists>s. g = evaluate_feature s (edited target v i f)) \<and>
         \<not> f64_le (hf_input_value (edited target v i f)) (Fin 0)) \<and>
      (i \<in> set (er_blocked r) \<longrightarrow> g = block_feature f) \<and>
      (\<forall>d\<in>set (er_diagnostics r). hd_feature_id d = i \<longrightarrow>
         g = break_feature d (edited target v i f) \<and>
         f64_le (hf_input_value (edited target v i f)) (Fin 0)))"

definition edit_inv :: "feature_map \<Rightarrow> string \<Rightarrow> f64 \<Rightarrow> string set \<Rightarrow> edit_run \<Rightarrow> bool" where
  "edit_inv fs target v P r =
     (map fst (er_features r) = map fst fs \<and>
      set (er_evaluated r) \<union> set (er_blocked r) \<union> broken_ids r = P \<and>
      set (er_evaluated r) \<inter> set (er_blocked r) = {} \<and>
      (set (er_evaluated r) \<union> set (er_blocked r)) \<inter> broken_ids r = {} \<and>
      (er_failed r \<longleftrightarrow> er_diagnostics r \<noteq> []) \<and>
      length (er_diagnostics r) \<le> 1 \<and>
      (\<forall>i f. bt_get fs i = Some f \<longrightarrow>
         (\<exists>g. bt_get (er_features r) i = Some g \<and> feature_outcome target v r i f g)))"

definition initial_run :: "feature_map \<Rightarrow> edit_run" where
  "initial_run fs = \<lparr>er_features = fs, er_evaluated = [], er_blocked = [], er_diagnostics = [],
                     er_failed = False\<rparr>"

lemma edit_inv_initial: "edit_inv fs target v {} (initial_run fs)"
  by (auto simp: edit_inv_def initial_run_def feature_outcome_def broken_ids_def)

lemma edit_inv_outcome:
  assumes "edit_inv fs target v P r" "bt_get fs i = Some f" "bt_get (er_features r) i = Some g"
  shows "feature_outcome target v r i f g"
proof -
  from assms(1,2) obtain g' where "bt_get (er_features r) i = Some g'"
      "feature_outcome target v r i f g'"
    unfolding edit_inv_def by blast
  with assms(3) show ?thesis by simp
qed

lemma edit_inv_unprocessed:
  assumes inv: "edit_inv fs target v P r" and i: "i \<notin> P" and g: "bt_get (er_features r) i = Some g"
  shows "bt_get fs i = Some g"
proof -
  from g have "bt_contains (er_features r) i" by (simp add: bt_contains_iff)
  moreover from inv have "map fst (er_features r) = map fst fs" by (simp add: edit_inv_def)
  ultimately have "bt_contains fs i" by (simp add: bt_contains_def)
  then obtain f where f: "bt_get fs i = Some f" by (auto simp: bt_contains_iff)
  from inv i have "i \<notin> set (er_evaluated r) \<union> set (er_blocked r) \<union> broken_ids r"
    by (simp only: edit_inv_def) blast
  with edit_inv_outcome [OF inv f g] f show ?thesis by (simp add: feature_outcome_def)
qed

text \<open>Processing one more feature keeps the invariant when the other features are untouched.\<close>

lemma edit_inv_extend:
  assumes inv: "edit_inv fs target v P r" and i: "i \<notin> P"
    and keys: "map fst (er_features r') = map fst (er_features r)"
    and sets: "set (er_evaluated r') \<union> set (er_blocked r') \<union> broken_ids r' = insert i P"
      "set (er_evaluated r') \<inter> set (er_blocked r') = {}"
      "(set (er_evaluated r') \<union> set (er_blocked r')) \<inter> broken_ids r' = {}"
      "er_failed r' \<longleftrightarrow> er_diagnostics r' \<noteq> []" "length (er_diagnostics r') \<le> 1"
    and other: "\<And>k. k \<noteq> i \<Longrightarrow> bt_get (er_features r') k = bt_get (er_features r) k"
      "set (er_evaluated r') - {i} = set (er_evaluated r)"
      "set (er_blocked r') - {i} = set (er_blocked r)"
      "{d \<in> set (er_diagnostics r'). hd_feature_id d \<noteq> i} = set (er_diagnostics r)"
    and here: "\<And>f. bt_get fs i = Some f \<Longrightarrow>
      \<exists>g. bt_get (er_features r') i = Some g \<and> feature_outcome target v r' i f g"
  shows "edit_inv fs target v (insert i P) r'"
proof -
  have "\<exists>g. bt_get (er_features r') k = Some g \<and> feature_outcome target v r' k f g"
    if f: "bt_get fs k = Some f" for k f
  proof (cases "k = i")
    case True
    with here f show ?thesis by simp
  next
    case False
    from inv f obtain g where g: "bt_get (er_features r) k = Some g"
        "feature_outcome target v r k f g"
      unfolding edit_inv_def by blast
    have mem: "k \<in> set (er_evaluated r') \<longleftrightarrow> k \<in> set (er_evaluated r)"
      "k \<in> set (er_blocked r') \<longleftrightarrow> k \<in> set (er_blocked r)"
      "k \<in> broken_ids r' \<longleftrightarrow> k \<in> broken_ids r"
      "\<And>d. hd_feature_id d = k \<Longrightarrow> d \<in> set (er_diagnostics r') \<longleftrightarrow> d \<in> set (er_diagnostics r)"
      using other(2-4) False by (auto simp: broken_ids_def)
    with g(2) have "feature_outcome target v r' k f g"
      unfolding feature_outcome_def by blast
    with g(1) other(1) [OF False] show ?thesis by simp
  qed
  with inv keys sets show ?thesis by (simp only: edit_inv_def) blast
qed

lemma edit_step_inv:
  assumes inv: "edit_inv fs target v P r" and i: "i \<notin> P"
    and step: "edit_step fp target parameter v dirty i r = Inr r'"
  shows "edit_inv fs target v (insert i P) r'"
proof -
  have fresh: "i \<notin> set (er_evaluated r)" "i \<notin> set (er_blocked r)" "i \<notin> broken_ids r"
    and run: "set (er_evaluated r) \<union> set (er_blocked r) \<union> broken_ids r = P"
      "set (er_evaluated r) \<inter> set (er_blocked r) = {}"
      "(set (er_evaluated r) \<union> set (er_blocked r)) \<inter> broken_ids r = {}"
      "er_failed r \<longleftrightarrow> er_diagnostics r \<noteq> []" "length (er_diagnostics r) \<le> 1"
    using inv i unfolding edit_inv_def by blast+
  note orig = edit_inv_unprocessed [OF inv i]
  from step show ?thesis
  proof (cases rule: edit_step_cases)
    case (blocked f)
    show ?thesis
      by (rule edit_inv_extend [OF inv i])
        (use blocked orig fresh run in
          \<open>auto simp: bt_get_modify broken_ids_def feature_outcome_def\<close>)
  next
    case (broken f d)
    show ?thesis
      by (rule edit_inv_extend [OF inv i])
        (use broken orig fresh run in \<open>auto simp: broken_ids_def feature_outcome_def\<close>)
  next
    case (evaluated f s)
    show ?thesis
      by (rule edit_inv_extend [OF inv i])
        (use evaluated orig fresh run in \<open>auto simp: broken_ids_def feature_outcome_def\<close>)
  qed
qed

lemma edit_loop_inv:
  assumes "fold_ok (edit_step fp target parameter v dirty) xs r = Inr r'"
    and "edit_inv fs target v P r" "distinct xs" "set xs \<inter> P = {}"
  shows "edit_inv fs target v (P \<union> set xs) r'"
  using assms
proof (induction xs arbitrary: r P)
  case Nil
  then show ?case by simp
next
  case (Cons x xs)
  from Cons.prems(1) obtain t where t: "edit_step fp target parameter v dirty x r = Inr t"
      "fold_ok (edit_step fp target parameter v dirty) xs t = Inr r'"
    by (auto simp: and_then_Inr_iff)
  have "edit_inv fs target v (insert x P) t"
    using edit_step_inv [OF Cons.prems(2) _ t(1)] Cons.prems(4) by simp
  from Cons.IH [OF t(2) this] Cons.prems(3,4) show ?case by auto
qed

lemma edit_step_total:
  assumes "bt_contains (er_features r) i"
  shows "\<exists>r'. edit_step fp target parameter v dirty i r = Inr r' \<and>
    map fst (er_features r') = map fst (er_features r)"
  using assms
  by (auto simp: edit_step_def bt_contains_iff Let_def bt_get_modify split: if_splits)

lemma edit_loop_total:
  "\<forall>i\<in>set xs. bt_contains (er_features r) i \<Longrightarrow>
   is_ok (fold_ok (edit_step fp target parameter v dirty) xs r)"
proof (induction xs arbitrary: r)
  case Nil
  then show ?case by simp
next
  case (Cons x xs)
  then obtain r' where r': "edit_step fp target parameter v dirty x r = Inr r'"
      "map fst (er_features r') = map fst (er_features r)"
    using edit_step_total by (metis list.set_intros(1))
  with Cons have "is_ok (fold_ok (edit_step fp target parameter v dirty) xs r')"
    by (simp add: bt_contains_def del: set_map)
  with r' show ?case by simp
qed

section \<open>Well-formedness of the result\<close>

lemma same_keys_contains: "map fst m = map fst m' \<Longrightarrow> bt_contains m k = bt_contains m' k"
  by (simp add: bt_contains_def del: set_map)

lemma dep_edges_cong:
  assumes "map fst m = map fst m'"
    and "\<And>i f g. bt_get m i = Some f \<Longrightarrow> bt_get m' i = Some g \<Longrightarrow>
      hf_dependencies g = hf_dependencies f"
  shows "dep_edges m' = dep_edges m"
proof -
  have "bt_get m i = None \<longleftrightarrow> bt_get m' i = None" for i
    using same_keys_contains [OF assms(1)] by (simp add: bt_get_None_iff)
  with assms(2) show ?thesis
    unfolding dep_edges_def by (metis (no_types, lifting) not_None_eq)
qed

definition same_shape :: "feature_map \<Rightarrow> feature_map \<Rightarrow> bool" where
  "same_shape fs fs' =
     (map fst fs' = map fst fs \<and>
      (\<forall>i f g. bt_get fs i = Some f \<longrightarrow> bt_get fs' i = Some g \<longrightarrow>
         hf_id g = hf_id f \<and> hf_dependencies g = hf_dependencies f \<and>
         f64_finite (hf_input_value g) \<and> feature_consistent g))"

lemma same_shapeD:
  assumes "same_shape fs fs'" "bt_get fs i = Some f" "bt_get fs' i = Some g"
  shows "hf_id g = hf_id f" "hf_dependencies g = hf_dependencies f"
    "f64_finite (hf_input_value g)" "feature_consistent g"
  using assms unfolding same_shape_def by blast+

lemma same_shape_keys: "same_shape fs fs' \<Longrightarrow> map fst fs' = map fst fs"
  by (simp only: same_shape_def)

lemma same_shapeI:
  assumes "map fst fs' = map fst fs"
    and "\<And>i f g. bt_get fs i = Some f \<Longrightarrow> bt_get fs' i = Some g \<Longrightarrow>
      hf_id g = hf_id f \<and> hf_dependencies g = hf_dependencies f \<and>
      f64_finite (hf_input_value g) \<and> feature_consistent g"
  shows "same_shape fs fs'"
  unfolding same_shape_def using assms by blast

lemma wf_same_shape:
  assumes wf: "snapshot_wf sn" and shape: "same_shape (hs_features sn) fs'"
  shows "snapshot_wf \<lparr>hs_revision_id = rid, hs_features = fs'\<rparr>"
proof -
  let ?fs = "hs_features sn"
  note keys = same_shape_keys [OF shape]
  have edges: "dep_edges fs' = dep_edges ?fs"
    by (rule dep_edges_cong [OF keys [symmetric]]) (rule same_shapeD(2) [OF shape])
  have "feature_wf fs' k g" if g: "bt_get fs' k = Some g" for k g
  proof -
    obtain f where f: "bt_get ?fs k = Some f"
      using same_keys_contains [OF keys, of k] g by (auto simp: bt_contains_iff)
    with wf have "feature_wf ?fs k f" by (simp add: snapshot_wf_def)
    with same_shapeD [OF shape f g] same_keys_contains [OF keys] show ?thesis
      by (simp add: feature_wf_def)
  qed
  moreover have "bt_ok fs'" using wf keys by (simp add: snapshot_wf_def bt_ok_def)
  ultimately show ?thesis using wf edges by (simp add: snapshot_wf_def)
qed

lemma same_shape_refl: "snapshot_wf sn \<Longrightarrow> same_shape (hs_features sn) (hs_features sn)"
  by (rule same_shapeI) (auto simp: snapshot_wf_def feature_wf_def)

lemma same_shape_modify:
  assumes "same_shape fs m"
    and "\<And>f. hf_id (h f) = hf_id f \<and> hf_dependencies (h f) = hf_dependencies f \<and>
      (f64_finite (hf_input_value f) \<longrightarrow> f64_finite (hf_input_value (h f))) \<and>
      (feature_consistent f \<longrightarrow> feature_consistent (h f))"
  shows "same_shape fs (bt_modify k h m)"
proof (rule same_shapeI)
  show "map fst (bt_modify k h m) = map fst fs"
    using same_shape_keys [OF assms(1)] by simp
  fix i f g assume f: "bt_get fs i = Some f" and g: "bt_get (bt_modify k h m) i = Some g"
  from g obtain g' where g': "bt_get m i = Some g'" and "g = (if i = k then h g' else g')"
    by (auto simp: bt_get_modify split: if_splits)
  with same_shapeD [OF assms(1) f g'] assms(2) [of g']
  show "hf_id g = hf_id f \<and> hf_dependencies g = hf_dependencies f \<and>
      f64_finite (hf_input_value g) \<and> feature_consistent g" by simp
qed

lemma feature_outcome_shape:
  assumes out: "feature_outcome target v r i f g"
    and fin: "f64_finite v" "f64_finite (hf_input_value f)" and con: "feature_consistent f"
    and geo: "hf_geometry_fingerprint f = None \<Longrightarrow> f64_pos (if i = target then v else hf_input_value f)"
  shows "hf_id g = hf_id f \<and> hf_dependencies g = hf_dependencies f \<and>
      f64_finite (hf_input_value g) \<and> feature_consistent g"
proof -
  consider "i \<notin> set (er_evaluated r) \<union> set (er_blocked r) \<union> broken_ids r"
    | "i \<in> set (er_evaluated r)" | "i \<in> set (er_blocked r)" | "i \<in> broken_ids r" by blast
  then show ?thesis
  proof cases
    case 4
    then obtain d where d: "d \<in> set (er_diagnostics r)" "hd_feature_id d = i"
      by (auto simp: broken_ids_def)
    with out have g: "g = break_feature d (edited target v i f)"
      and le: "f64_le (hf_input_value (edited target v i f)) (Fin 0)"
      by (auto simp: feature_outcome_def)
    have "f64_finite (hf_input_value (edited target v i f))" using fin by simp
    with le f64_not_le_zero_pos have "\<not> f64_pos (hf_input_value (edited target v i f))" by blast
    with geo have "hf_geometry_fingerprint f \<noteq> None" by auto
    with g fin show ?thesis by simp
  qed (use out fin con in \<open>auto simp: feature_outcome_def\<close>)
qed

lemma edit_inv_wf:
  assumes inv: "edit_inv (hs_features sn) target v P r" and wf: "snapshot_wf sn"
    and fin: "f64_finite v"
    and geo: "\<And>i f. bt_get (hs_features sn) i = Some f \<Longrightarrow> hf_geometry_fingerprint f = None \<Longrightarrow>
      f64_pos (if i = target then v else hf_input_value f)"
  shows "snapshot_wf \<lparr>hs_revision_id = rid, hs_features = er_features r\<rparr>"
proof (rule wf_same_shape [OF wf])
  show "same_shape (hs_features sn) (er_features r)"
  proof (rule same_shapeI)
    show "map fst (er_features r) = map fst (hs_features sn)"
      using inv by (simp add: edit_inv_def)
    fix i f g
    assume f: "bt_get (hs_features sn) i = Some f" and g: "bt_get (er_features r) i = Some g"
    from wf f have "feature_wf (hs_features sn) i f" by (simp add: snapshot_wf_def)
    then show "hf_id g = hf_id f \<and> hf_dependencies g = hf_dependencies f \<and>
        f64_finite (hf_input_value g) \<and> feature_consistent g"
      using feature_outcome_shape [OF edit_inv_outcome [OF inv f g] fin _ _ geo [OF f]]
      by (simp add: feature_wf_def)
  qed
qed

end
