(* ===== verification/HistoryOps.thy ===== *)
theory HistoryOps
  imports HistoryEdit
begin

text \<open>
  The contract every timeline command meets, as the locale \<open>timeline_command\<close>: the event it
  builds carries the next ordinal, a well-formed active snapshot and at least the named revisions
  of the state, and passes validation.  Every operation of \<^verbatim>\<open>HistoryState\<close> is an
  interpretation; the acceptance and preservation properties rest on the locale's lemmas.
\<close>

section \<open>The contract\<close>

locale timeline_command =
  fixes produce :: "'a \<Rightarrow> history_state \<Rightarrow> history_error + history_event"
    and pre :: "'a \<Rightarrow> history_state \<Rightarrow> bool"
  assumes header: "produce a s = Inr e \<Longrightarrow>
      he_schema_version e = history_event_schema \<and> he_ordinal e = h_event_ordinal s + 1"
    and active: "history_wf s \<Longrightarrow> pre a s \<Longrightarrow> produce a s = Inr e \<Longrightarrow> snapshot_wf (he_active e)"
    and named: "history_wf s \<Longrightarrow> produce a s = Inr e \<Longrightarrow>
      named_wf (he_named_revisions e) \<and> bt.extends (h_named_revisions s) (he_named_revisions e)"
    and operation: "history_wf s \<Longrightarrow> pre a s \<Longrightarrow> produce a s = Inr e \<Longrightarrow> validate_operation e = Inr ()"
begin

lemma accepted:
  assumes "history_wf s" "pre a s" "produce a s = Inr e"
  shows "apply_event s e = Inr \<lparr>h_active = he_active e, h_named_revisions = he_named_revisions e,
    h_event_ordinal = h_event_ordinal s + 1\<rparr>"
proof -
  have "event_maps_ok e"
    using active [OF assms] named [OF assms(1,3)] by (intro event_maps_ok_of_wf) auto
  then show ?thesis
    using active [OF assms] named [OF assms(1,3)] operation [OF assms] header [OF assms(3)]
    by (simp add: apply_event_iff)
qed

lemma keeps_wf:
  assumes "history_wf s" "pre a s" "produce a s = Inr e" "apply_event s e = Inr s'"
  shows "history_wf s'"
  using accepted [OF assms(1-3)] active [OF assms(1-3)] named [OF assms(1,3)] assms(4)
  by (auto simp: history_wf_def)

lemma keeps_named:
  assumes "history_wf s" "produce a s = Inr e" "apply_event s e = Inr s'"
  shows "bt.extends (h_named_revisions s) (h_named_revisions s')"
proof -
  from assms(3) have "h_named_revisions s' = he_named_revisions e"
    by (auto simp: apply_event_def and_then_Inr_iff)
  with named [OF assms(1,2)] show ?thesis by simp
qed

end

section \<open>Preserving the displaced snapshot\<close>

lemma preserve_Inr:
  "preserve s name prov = Inr nrs \<longleftrightarrow>
   \<not> bt_contains (h_named_revisions s) name \<and>
   nrs = bt_insert name \<lparr>nr_name = name, nr_snapshot = h_active s, nr_provenance = prov,
           nr_canonical_log_position = None\<rparr> (h_named_revisions s)"
  by (auto simp: preserve_def)

lemma preserve_named:
  assumes "history_wf s" "preserve s name prov = Inr nrs" "name \<noteq> []"
  shows "named_wf nrs \<and> bt.extends (h_named_revisions s) nrs"
  using assms
  by (auto simp: preserve_Inr history_wf_def named_wf_def bt_ok_insert bt_get_insert
      intro: bt.extends_ins_fresh split: if_splits)

lemma preserve_get:
  assumes "preserve s name prov = Inr nrs"
  shows "bt_get nrs name = Some \<lparr>nr_name = name, nr_snapshot = h_active s, nr_provenance = prov,
    nr_canonical_log_position = None\<rparr>"
  using assms by (auto simp: preserve_Inr bt_get_insert)

lemma event_of_fields [simp]:
  "he_schema_version (history_event_of s opn active nrs) = history_event_schema"
  "he_ordinal (history_event_of s opn active nrs) = h_event_ordinal s + 1"
  "he_operation (history_event_of s opn active nrs) = opn"
  "he_active (history_event_of s opn active nrs) = active"
  "he_named_revisions (history_event_of s opn active nrs) = nrs"
  by (simp_all add: history_event_of_def)

lemma feature_eq_refl: "f64_finite (hf_input_value f) \<Longrightarrow> feature_eq f f"
  by (auto simp: feature_eq_def intro: f64_eq_refl)

lemma snapshot_eq_refl:
  assumes "snapshot_wf sn"
  shows "snapshot_eq sn sn"
proof -
  have "feature_eq (snd e) (snd e)" if "e \<in> set (hs_features sn)" for e
  proof -
    have "bt_get (hs_features sn) (fst e) = Some (snd e)"
      using assms that by (intro bt_in_set_get) (auto simp: snapshot_wf_def)
    with assms show ?thesis by (auto simp: snapshot_wf_def feature_wf_def intro: feature_eq_refl)
  qed
  then show ?thesis by (simp add: snapshot_eq_def list_all2_same)
qed

lemma feature_eq_sym: "feature_eq f g \<Longrightarrow> feature_eq g f"
  by (auto simp: feature_eq_def f64_eq_sym)

lemma feature_eq_trans: "feature_eq f g \<Longrightarrow> feature_eq g h \<Longrightarrow> feature_eq f h"
  by (auto simp: feature_eq_def intro: f64_eq_trans)

lemma snapshot_eq_sym: "snapshot_eq a b \<Longrightarrow> snapshot_eq b a"
  by (auto simp: snapshot_eq_def list_all2_conv_all_nth intro: feature_eq_sym)

lemma snapshot_eq_trans:
  assumes "snapshot_eq a b" "snapshot_eq b c"
  shows "snapshot_eq a c"
proof -
  let ?R = "\<lambda>x y :: string \<times> history_feature. fst x = fst y \<and> feature_eq (snd x) (snd y)"
  have ab: "list_all2 ?R (hs_features a) (hs_features b)"
    and bc: "list_all2 ?R (hs_features b) (hs_features c)"
    using assms by (simp_all add: snapshot_eq_def)
  have "list_all2 ?R (hs_features a) (hs_features c)"
    by (rule list_all2_trans [OF _ ab bc]) (auto intro: feature_eq_trans)
  with assms show ?thesis by (simp add: snapshot_eq_def)
qed

section \<open>Bracket snapshots\<close>

lemma bt_get_bracket_feature:
  "bt_get (bracket_feature fp i deps v fs) k =
     (if k = i then Some \<lparr>hf_id = i, hf_dependencies = deps, hf_input_value = v,
        hf_geometry_fingerprint = Some (geometry_fingerprint fp
          \<lparr>hf_id = i, hf_dependencies = deps, hf_input_value = v, hf_geometry_fingerprint = None,
           hf_last_valid_geometry_fingerprint = None, hf_status = CurrentValid,
           hf_diagnostic = None\<rparr> fs),
        hf_last_valid_geometry_fingerprint = None, hf_status = CurrentValid,
        hf_diagnostic = None\<rparr>
      else bt_get fs k)"
  by (simp add: bracket_feature_def bt_get_insert)

lemma bt_ok_bracket_feature: "bt_ok fs \<Longrightarrow> bt_ok (bracket_feature fp i deps v fs)"
  by (simp add: bracket_feature_def bt_ok_insert)

definition bracket_deps :: "string \<Rightarrow> string \<Rightarrow> string list option" where
  "bracket_deps bid i =
     (if i = bid @ ''-base'' then Some []
      else if i = bid @ ''-bend'' then Some [bid @ ''-base'']
      else if i = bid @ ''-finish'' then Some [bid @ ''-bend'']
      else if i = bid @ ''-independent-base'' then Some []
      else if i = bid @ ''-independent-finish'' then Some [bid @ ''-independent-base'']
      else None)"

lemma bracket_deps_None: "bracket_deps bid i = None \<longleftrightarrow> i \<notin> set (bracket_ids bid)"
  by (auto simp: bracket_deps_def bracket_ids_def)

lemma bracket_deps_inside: "bracket_deps bid i = Some ds \<Longrightarrow> d \<in> set ds \<Longrightarrow> d \<in> set (bracket_ids bid)"
  by (auto simp: bracket_deps_def bracket_ids_def split: if_splits)

lemma l_bracket_ok: "bt_ok (hs_features (l_bracket_snapshot fp bid l w h t n))"
  by (simp add: l_bracket_snapshot_def bt_ok_bracket_feature)

lemma l_bracket_get:
  assumes "list_all positive_dimension [l, w, h, t]"
    and "bt_get (hs_features (l_bracket_snapshot fp bid l w h t n)) i = Some f"
  shows "hf_id f = i \<and> bracket_deps bid i = Some (hf_dependencies f) \<and>
    f64_finite (hf_input_value f) \<and> feature_consistent f"
  using assms
  by (auto simp: l_bracket_snapshot_def bt_get_bracket_feature bracket_deps_def
      positive_dimension_def feature_consistent_def split: if_splits)

lemma l_bracket_contains:
  "bt_contains (hs_features (l_bracket_snapshot fp bid l w h t n)) i \<longleftrightarrow> i \<in> set (bracket_ids bid)"
  by (auto simp: l_bracket_snapshot_def bt_get_bracket_feature bt_contains_iff bracket_ids_def)

lemma bracket_deps_edges:
  assumes "bracket_deps bid i = Some ds" "d \<in> set ds"
  shows "(d, i) \<in> {(bid @ ''-base'', bid @ ''-bend''), (bid @ ''-bend'', bid @ ''-finish''),
    (bid @ ''-independent-base'', bid @ ''-independent-finish'')}"
  using assms unfolding bracket_deps_def by (auto split: if_split_asm)

lemma acyclic_bracket_edges:
  "acyclic {(d, i). \<exists>ds. bracket_deps bid i = Some ds \<and> d \<in> set ds}" (is "acyclic ?R")
proof (rule wf_acyclic)
  let ?rank = "\<lambda>i. if i = bid @ ''-bend'' then 1
    else if i = bid @ ''-finish'' then 2 else if i = bid @ ''-independent-finish'' then 1 else (0::nat)"
  have "?R \<subseteq> {(bid @ ''-base'', bid @ ''-bend''), (bid @ ''-bend'', bid @ ''-finish''),
      (bid @ ''-independent-base'', bid @ ''-independent-finish'')}"
    using bracket_deps_edges by blast
  also have "\<dots> \<subseteq> measure ?rank" by simp
  finally show "wf ?R" by (rule wf_subset [OF wf_measure])
qed

lemma acyclic_overwrite:
  assumes "finite R" "acyclic R" "acyclic S" "finite S" "S \<subseteq> B \<times> B" "\<And>d i. (d, i) \<in> R \<Longrightarrow> i \<notin> B"
  shows "acyclic (R \<union> S)"
proof -
  have "R O S \<subseteq> R" using assms(5,6) by auto
  moreover have "wf R" "wf S" using assms by (auto intro: finite_acyclic_wf)
  ultimately have "wf (R \<union> S)" by (metis wf_union_compatible)
  then show ?thesis by (rule wf_acyclic)
qed

lemma finite_dep_edges: "finite (dep_edges fs)"
proof (rule finite_subset)
  let ?f = "\<lambda>e :: string \<times> history_feature. set (hf_dependencies (snd e)) \<times> {fst e}"
  show "dep_edges fs \<subseteq> (\<Union>e\<in>set fs. ?f e)"
    by (force simp: dep_edges_def dest: bt_get_in_set)
  show "finite (\<Union>e\<in>set fs. ?f e)" by simp
qed


lemma dep_edges_extend:
  assumes "bt_ok m'"
  shows "dep_edges (bt_extend m m') = {(d, i) \<in> dep_edges m. \<not> bt_contains m' i} \<union> dep_edges m'"
proof -
  have "bt_get (bt_extend m m') i = (case bt_get m' i of None \<Rightarrow> bt_get m i | Some v \<Rightarrow> Some v)" for i
    by (rule bt_get_extend [OF bt_ok_distinct [OF assms]])
  then show ?thesis
    by (auto simp: dep_edges_def bt_contains_iff split: option.splits)
qed

lemma initialize_wf:
  assumes wf: "snapshot_wf sn" and dims: "list_all positive_dimension [l, w, h, t]"
  shows "snapshot_wf \<lparr>hs_revision_id = rid, hs_features =
    bt_extend (hs_features sn) (hs_features (l_bracket_snapshot fp bid l w h t n))\<rparr>"
proof -
  let ?m = "hs_features sn" and ?b = "hs_features (l_bracket_snapshot fp bid l w h t n)"
  let ?e = "bt_extend ?m ?b"
  note get = bt_get_extend [OF bt_ok_distinct [OF l_bracket_ok], of ?m fp bid l w h t n]
  have cont: "bt_contains ?e d \<longleftrightarrow> bt_contains ?m d \<or> bt_contains ?b d" for d
    by (auto simp: bt_contains_iff get split: option.splits)
  have "feature_wf ?e k f" if f: "bt_get ?e k = Some f" for k f
  proof (cases "bt_get ?b k")
    case None
    with f have "bt_get ?m k = Some f" by (simp add: get)
    with wf have "feature_wf ?m k f" by (simp add: snapshot_wf_def)
    then show ?thesis by (simp add: feature_wf_def cont)
  next
    case (Some g)
    with f have g: "bt_get ?b k = Some f" by (simp add: get)
    from l_bracket_get [OF dims g] bracket_deps_inside show ?thesis
      by (auto simp: feature_wf_def cont l_bracket_contains)
  qed
  moreover have "acyclic (dep_edges ?e)"
    unfolding dep_edges_extend [OF l_bracket_ok]
  proof (rule acyclic_overwrite [where B = "set (bracket_ids bid)"])
    have sub: "dep_edges ?b \<subseteq> {(d, i). \<exists>ds. bracket_deps bid i = Some ds \<and> d \<in> set ds}"
      using l_bracket_get [OF dims] by (fastforce simp: dep_edges_def)
    show "acyclic (dep_edges ?b)" by (rule acyclic_subset [OF acyclic_bracket_edges sub])
    show "dep_edges ?b \<subseteq> set (bracket_ids bid) \<times> set (bracket_ids bid)"
    proof clarify
      fix d i assume "(d, i) \<in> dep_edges ?b"
      then obtain ds where ds: "bracket_deps bid i = Some ds" "d \<in> set ds" using sub by blast
      then have "i \<in> set (bracket_ids bid)" using bracket_deps_None [of bid i] by auto
      with bracket_deps_inside [OF ds] show "d \<in> set (bracket_ids bid) \<and> i \<in> set (bracket_ids bid)"
        by simp
    qed
    have "acyclic (dep_edges ?m)" using wf by (simp add: snapshot_wf_def)
    then show "acyclic {(d, i) \<in> dep_edges ?m. \<not> bt_contains ?b i}"
      by (rule acyclic_subset) auto
    show "finite {(d, i) \<in> dep_edges ?m. \<not> bt_contains ?b i}"
      by (rule finite_subset [OF _ finite_dep_edges [of ?m]]) auto
  qed (auto simp: finite_dep_edges l_bracket_contains)
  ultimately show ?thesis
    using wf by (simp add: snapshot_wf_def bt_ok_extend)
qed

lemma refresh_shape: "same_shape fs m \<Longrightarrow> same_shape fs (refresh_fingerprint fp i m)"
  by (auto simp: refresh_fingerprint_def feature_consistent_def split: option.splits
      intro!: same_shape_modify)

lemma refresh_all_shape: "same_shape fs m \<Longrightarrow> same_shape fs (fold (refresh_fingerprint fp) ids m)"
  by (induction ids arbitrary: m) (auto intro: refresh_shape)

lemma set_values_shape:
  "same_shape fs m \<Longrightarrow> \<forall>p\<in>set ps. f64_finite (snd p) \<Longrightarrow>
   same_shape fs (fold (\<lambda>(i, v). bt_modify i (\<lambda>f. f\<lparr>hf_input_value := v\<rparr>)) ps m)"
proof (induction ps arbitrary: m)
  case Nil
  then show ?case by simp
next
  case (Cons p ps)
  have "same_shape fs (bt_modify (fst p) (\<lambda>f. f\<lparr>hf_input_value := snd p\<rparr>) m)"
    by (rule same_shape_modify [OF Cons.prems(1)])
      (use Cons.prems(2) in \<open>simp add: feature_consistent_def split: history_status.split\<close>)
  with Cons show ?case by (simp add: case_prod_unfold)
qed


section \<open>The commands meet the contract\<close>

interpretation create: timeline_command
  "\<lambda>name s. create_named_revision s name" "\<lambda>name s. True"
proof (unfold_locales, goal_cases)
  case (1 name s e)
  then show ?case by (auto simp: create_named_revision_def and_then_Inr_iff split: if_splits)
next
  case (2 s name e)
  then show ?case
    by (auto simp: create_named_revision_def and_then_Inr_iff history_wf_def split: if_splits)
next
  case (3 s name e)
  then show ?case
    by (auto simp: create_named_revision_def and_then_Inr_iff split: if_splits
        dest: preserve_named)
next
  case (4 s name e)
  then show ?case
    by (auto simp: create_named_revision_def and_then_Inr_iff validate_operation_def
        history_wf_def snapshot_eq_refl split: if_splits dest: preserve_get)
qed

lemma restore_Inr:
  assumes "restore_named_revision s name = Inr e"
  obtains named displaced nrs where "bt_get (h_named_revisions s) name = Some named"
    "displaced = ''recovered-before-restore-'' @ show_nat (h_event_ordinal s + 1)"
    "preserve s displaced (''restore:'' @ name) = Inr nrs"
    "e = history_event_of s (RestoreNamedRevision name (Some displaced)) (nr_snapshot named) nrs"
  using assms by (auto simp: restore_named_revision_def and_then_Inr_iff Let_def)

interpretation restore: timeline_command
  "\<lambda>name s. restore_named_revision s name" "\<lambda>name s. True"
proof (unfold_locales, goal_cases)
  case (1 name s e)
  then show ?case by (auto elim: restore_Inr)
next
  case (2 s name e)
  then show ?case by (auto elim!: restore_Inr simp: history_wf_def named_wf_def)
next
  case (3 s name e)
  then show ?case by (auto elim!: restore_Inr dest: preserve_named)
next
  case (4 s name e)
  from \<open>restore_named_revision s name = Inr e\<close> show ?case
  proof (rule restore_Inr)
    fix named displaced nrs
    assume named: "bt_get (h_named_revisions s) name = Some named"
      and pres: "preserve s displaced (''restore:'' @ name) = Inr nrs"
      and e: "e = history_event_of s (RestoreNamedRevision name (Some displaced)) (nr_snapshot named) nrs"
      and disp: "displaced = ''recovered-before-restore-'' @ show_nat (h_event_ordinal s + 1)"
    from pres have "bt.extends (h_named_revisions s) nrs"
      using preserve_named [OF 4(1) pres] disp by simp
    with named have "bt_get nrs name = Some named" by (rule bt.extends_get [rotated])
    moreover have "snapshot_wf (nr_snapshot named)"
      using 4(1) named by (auto simp: history_wf_def named_wf_def)
    ultimately show ?case using e by (simp add: validate_operation_def snapshot_eq_refl)
  qed
qed

definition initialize_with ::
  "geometry_digest \<Rightarrow> string \<times> f64 \<times> f64 \<times> f64 \<times> f64 \<Rightarrow> history_state \<Rightarrow>
   history_error + history_event" where
  "initialize_with fp = (\<lambda>(bid, l, w, h, t) s. initialize_l_bracket fp s bid l w h t)"

lemma initialize_Inr:
  assumes "initialize_l_bracket fp s bid l w h t = Inr e"
  shows "bid \<noteq> [] \<and> list_all positive_dimension [l, w, h, t] \<and>
    e = history_event_of s (InitializeLBracket bid l w h t)
      \<lparr>hs_revision_id = revision_id_for (h_event_ordinal s + 1),
       hs_features = bt_extend (hs_features (h_active s))
         (hs_features (l_bracket_snapshot fp bid l w h t (h_event_ordinal s + 1)))\<rparr>
      (h_named_revisions s)"
  using assms by (auto simp: initialize_l_bracket_def Let_def split: if_splits)

lemma bt_extend_bracket_not_Nil:
  "bt_extend m (hs_features (l_bracket_snapshot fp bid l w h t n)) \<noteq> []"
proof -
  let ?b = "hs_features (l_bracket_snapshot fp bid l w h t n)"
  have "bt_contains ?b (bid @ ''-base'')"
    by (simp add: l_bracket_contains bracket_ids_def)
  then obtain v where "bt_get ?b (bid @ ''-base'') = Some v" by (auto simp: bt_contains_iff)
  then have "bt_get (bt_extend m ?b) (bid @ ''-base'') = Some v"
    by (simp add: bt_get_extend [OF bt_ok_distinct [OF l_bracket_ok]])
  then show ?thesis by auto
qed

interpretation init: timeline_command "initialize_with fp" "\<lambda>a s. True"
proof (unfold_locales, goal_cases)
  case (1 a s e)
  then show ?case by (auto simp: initialize_with_def dest!: initialize_Inr split: prod.splits)
next
  case (2 s a e)
  then show ?case
    by (auto simp: initialize_with_def history_wf_def dest!: initialize_Inr intro!: initialize_wf
        split: prod.splits)
next
  case (3 s a e)
  then show ?case
    by (auto simp: initialize_with_def history_wf_def bt.extends_refl dest!: initialize_Inr
        split: prod.splits)
next
  case (4 s a e)
  then show ?case
    by (auto simp: initialize_with_def validate_operation_def bt_extend_bracket_not_Nil
        dest!: initialize_Inr split: prod.splits)
qed


section \<open>Historical edits\<close>

lemma historical_edit_Inr:
  assumes "historical_edit fp s target parameter v = Inr (e, eval)"
  obtains f name nrs dirty order r where
    "f64_finite v" "bt_get (hs_features (h_active s)) target = Some f"
    "name = ''recovered-before-historical-edit-'' @ show_nat (h_event_ordinal s + 1)"
    "preserve s name (''historical-edit:'' @ target) = Inr nrs"
    "dirty = reach_loop (hs_features (h_active s)) [target]"
    "topological_order (hs_features (h_active s)) dirty = Inr order"
    "fold_ok (edit_step fp target parameter v dirty) order
       (initial_run (hs_features (h_active s))) = Inr r"
    "e = history_event_of s
       (HistoricalEdit target parameter v dirty (er_evaluated r) (er_blocked r) (er_diagnostics r)
          (Some name))
       \<lparr>hs_revision_id = revision_id_for (h_event_ordinal s + 1), hs_features = er_features r\<rparr> nrs"
    "eval = \<lparr>ev_dirty_features = dirty, ev_evaluated_features = er_evaluated r,
       ev_blocked_features = er_blocked r, ev_diagnostics = er_diagnostics r\<rparr>"
  using assms
  by (auto simp: historical_edit_def and_then_Inr_iff Let_def reachable_features_def initial_run_def
      split: if_splits)

lemma snapshot_dependents:
  assumes "snapshot_wf sn"
  shows "dependents (hs_features sn) = dep_edges (hs_features sn)"
  using assms
  by (intro dependents_keys) (auto simp: snapshot_wf_def feature_wf_def dest!: bt_in_set_get)

lemma dirty_contains:
  assumes "snapshot_wf sn" "bt_contains (hs_features sn) target"
    and "i \<in> set (reach_loop (hs_features sn) [target])"
  shows "bt_contains (hs_features sn) i"
proof -
  have "(target, i) \<in> (dep_edges (hs_features sn))\<^sup>*"
    using assms(3) by (simp add: set_reach_loop snapshot_dependents [OF assms(1)])
  then show ?thesis
    using assms(2) by (induction rule: rtrancl_induct) (auto simp: dep_edges_def bt_contains_iff)
qed

lemma historical_edit_inv:
  assumes "topological_order fs dirty = Inr order"
    and "fold_ok (edit_step fp target parameter v dirty) order (initial_run fs) = Inr r"
  shows "edit_inv fs target v (set dirty) r"
  using edit_loop_inv [OF assms(2) edit_inv_initial] topological_order_sound [OF assms(1)] by simp

definition edit_event ::
  "geometry_digest \<Rightarrow> string \<times> string \<times> f64 \<Rightarrow> history_state \<Rightarrow> history_error + history_event" where
  "edit_event fp = (\<lambda>(target, parameter, v) s.
     and_then (historical_edit fp s target parameter v) (\<lambda>(e, _). Inr e))"

text \<open>
  The precondition of an accepted edit: a feature that has lost its geometry must not be asked for
  non-positive material again.
\<close>

definition edit_pre :: "string \<times> string \<times> f64 \<Rightarrow> history_state \<Rightarrow> bool" where
  "edit_pre = (\<lambda>(target, parameter, v) s.
     \<forall>i f. bt_get (hs_features (h_active s)) i = Some f \<longrightarrow> hf_geometry_fingerprint f = None \<longrightarrow>
       f64_pos (if i = target then v else hf_input_value f))"

lemma edit_event_Inr:
  "edit_event fp (target, parameter, v) s = Inr e \<longleftrightarrow>
   (\<exists>eval. historical_edit fp s target parameter v = Inr (e, eval))"
  by (auto simp: edit_event_def and_then_Inr_iff)

lemma edit_metadata:
  assumes wf: "snapshot_wf sn" and target: "bt_contains (hs_features sn) target"
    and dirty: "dirty = reach_loop (hs_features sn) [target]"
    and inv: "edit_inv (hs_features sn) target v (set dirty) r"
    and e: "hs_features (he_active e) = er_features r" "bt_contains (he_named_revisions e) name"
  shows "validate_edit_metadata e target dirty (er_evaluated r) (er_blocked r) (er_diagnostics r)
    (Some name) = Inr ()"
proof -
  from inv have keys: "map fst (er_features r) = map fst (hs_features sn)"
    and sets: "set (er_evaluated r) \<union> set (er_blocked r) \<union> broken_ids r = set dirty"
      "set (er_evaluated r) \<inter> set (er_blocked r) = {}"
    by (auto simp only: edit_inv_def)
  have cont: "bt_contains (er_features r) i" if "i \<in> set dirty" for i
    using dirty_contains [OF wf target] that dirty by (simp add: same_keys_contains [OF keys])
  have "(case bt_get (er_features r) (hd_feature_id d) of None \<Rightarrow> False | Some g \<Rightarrow> hf_status g = Broken)"
    if d: "d \<in> set (er_diagnostics r)" for d
  proof -
    from d sets(1) have i: "hd_feature_id d \<in> set dirty" by (auto simp: broken_ids_def)
    with cont obtain g where g: "bt_get (er_features r) (hd_feature_id d) = Some g"
      by (auto simp: bt_contains_iff)
    from i dirty_contains [OF wf target] dirty obtain f
      where f: "bt_get (hs_features sn) (hd_feature_id d) = Some f" by (auto simp: bt_contains_iff)
    from edit_inv_outcome [OF inv f g] d have "hf_status g = Broken"
      by (auto simp: feature_outcome_def)
    with g show ?thesis by simp
  qed
  with e sets cont target keys show ?thesis
    by (auto simp: validate_edit_metadata_def Let_def and_then_Inr_iff list_all_iff
        same_keys_contains [OF keys])
qed

interpretation hedit: timeline_command "edit_event fp" edit_pre
proof (unfold_locales, goal_cases)
  case (1 a s e)
  then show ?case by (cases a) (auto simp: edit_event_Inr elim!: historical_edit_Inr)
next
  case (2 s a e)
  obtain target parameter v where a: "a = (target, parameter, v)" by (cases a)
  with 2 obtain eval where "historical_edit fp s target parameter v = Inr (e, eval)"
    by (auto simp: edit_event_Inr)
  then show ?case
  proof (rule historical_edit_Inr)
    fix f name nrs dirty order r
    assume r: "topological_order (hs_features (h_active s)) dirty = Inr order"
      "fold_ok (edit_step fp target parameter v dirty) order
         (initial_run (hs_features (h_active s))) = Inr r" and "f64_finite v"
      and e: "e = history_event_of s (HistoricalEdit target parameter v dirty (er_evaluated r)
          (er_blocked r) (er_diagnostics r) (Some name))
        \<lparr>hs_revision_id = revision_id_for (h_event_ordinal s + 1), hs_features = er_features r\<rparr> nrs"
    have "snapshot_wf \<lparr>hs_revision_id = revision_id_for (h_event_ordinal s + 1),
        hs_features = er_features r\<rparr>"
      by (rule edit_inv_wf [OF historical_edit_inv [OF r]])
        (use 2 a \<open>f64_finite v\<close> in \<open>auto simp: history_wf_def edit_pre_def\<close>)
    with e show ?case by simp
  qed
next
  case (3 s a e)
  then show ?case
    by (cases a) (auto simp: edit_event_Inr elim!: historical_edit_Inr dest: preserve_named)
next
  case (4 s a e)
  obtain target parameter v where a: "a = (target, parameter, v)" by (cases a)
  with 4 obtain eval where "historical_edit fp s target parameter v = Inr (e, eval)"
    by (auto simp: edit_event_Inr)
  then show ?case
  proof (rule historical_edit_Inr)
    fix f name nrs dirty order r
    assume r: "topological_order (hs_features (h_active s)) dirty = Inr order"
      "fold_ok (edit_step fp target parameter v dirty) order
         (initial_run (hs_features (h_active s))) = Inr r"
      and f: "bt_get (hs_features (h_active s)) target = Some f"
      and pres: "preserve s name (''historical-edit:'' @ target) = Inr nrs"
      and dirty: "dirty = reach_loop (hs_features (h_active s)) [target]"
      and e: "e = history_event_of s (HistoricalEdit target parameter v dirty (er_evaluated r)
          (er_blocked r) (er_diagnostics r) (Some name))
        \<lparr>hs_revision_id = revision_id_for (h_event_ordinal s + 1), hs_features = er_features r\<rparr> nrs"
    have "validate_edit_metadata e target dirty (er_evaluated r) (er_blocked r) (er_diagnostics r)
        (Some name) = Inr ()"
      by (rule edit_metadata [OF _ _ dirty historical_edit_inv [OF r]])
        (use 4(1) f e preserve_get [OF pres] in \<open>auto simp: history_wf_def bt_contains_iff\<close>)
    with e show ?case by (simp add: validate_operation_def)
  qed
qed

lemma edit_l_bracket_Inr:
  assumes "edit_l_bracket fp s bid l w h t = Inr (e, eval)"
  obtains name nrs fs' where
    "list_all positive_dimension [l, w, h, t]"
    "\<forall>i\<in>set (bracket_ids bid). bt_contains (hs_features (h_active s)) i"
    "name = ''recovered-before-historical-edit-'' @ show_nat (h_event_ordinal s + 1)"
    "preserve s name (''historical-edit:'' @ bid) = Inr nrs"
    "fs' = fold (refresh_fingerprint fp) (bracket_ids bid)
       (fold (\<lambda>(i, v). bt_modify i (\<lambda>f. f\<lparr>hf_input_value := v\<rparr>))
         (zip (bracket_ids bid) [l, w, h, t, h]) (hs_features (h_active s)))"
    "e = history_event_of s (HistoricalEdit (hd (bracket_ids bid)) ''dimensions'' l
         (bracket_ids bid) (bracket_ids bid) [] [] (Some name))
       \<lparr>hs_revision_id = revision_id_for (h_event_ordinal s + 1), hs_features = fs'\<rparr> nrs"
  using assms
  by (auto simp: edit_l_bracket_def and_then_Inr_iff Let_def list_ex_iff split: if_splits)

definition edit_bracket_with ::
  "geometry_digest \<Rightarrow> string \<times> f64 \<times> f64 \<times> f64 \<times> f64 \<Rightarrow> history_state \<Rightarrow>
   history_error + history_event" where
  "edit_bracket_with fp = (\<lambda>(bid, l, w, h, t) s.
     and_then (edit_l_bracket fp s bid l w h t) (\<lambda>(e, _). Inr e))"

lemma edit_bracket_with_Inr:
  "edit_bracket_with fp (bid, l, w, h, t) s = Inr e \<longleftrightarrow>
   (\<exists>eval. edit_l_bracket fp s bid l w h t = Inr (e, eval))"
  by (auto simp: edit_bracket_with_def and_then_Inr_iff)

lemma edit_bracket_shape:
  assumes "snapshot_wf sn" "list_all positive_dimension [l, w, h, t]"
  shows "same_shape (hs_features sn) (fold (refresh_fingerprint fp) (bracket_ids bid)
       (fold (\<lambda>(i, v). bt_modify i (\<lambda>f. f\<lparr>hf_input_value := v\<rparr>))
         (zip (bracket_ids bid) [l, w, h, t, h]) (hs_features sn)))"
  by (intro refresh_all_shape set_values_shape same_shape_refl assms(1))
    (use assms(2) in \<open>simp add: bracket_ids_def positive_dimension_def\<close>)

interpretation bedit: timeline_command "edit_bracket_with fp" "\<lambda>a s. True"
proof (unfold_locales, goal_cases)
  case (1 a s e)
  then show ?case by (cases a) (auto simp: edit_bracket_with_Inr elim!: edit_l_bracket_Inr)
next
  case (2 s a e)
  then show ?case
    by (cases a) (auto simp: edit_bracket_with_Inr history_wf_def elim!: edit_l_bracket_Inr
        intro!: wf_same_shape edit_bracket_shape)
next
  case (3 s a e)
  then show ?case
    by (cases a) (auto simp: edit_bracket_with_Inr elim!: edit_l_bracket_Inr dest: preserve_named)
next
  case (4 s a e)
  obtain bid l w h t where a: "a = (bid, l, w, h, t)" by (cases a)
  with 4 obtain eval where "edit_l_bracket fp s bid l w h t = Inr (e, eval)"
    by (auto simp: edit_bracket_with_Inr)
  then show ?case
  proof (rule edit_l_bracket_Inr)
    fix name nrs fs'
    assume dims: "list_all positive_dimension [l, w, h, t]"
      and ids: "\<forall>i\<in>set (bracket_ids bid). bt_contains (hs_features (h_active s)) i"
      and pres: "preserve s name (''historical-edit:'' @ bid) = Inr nrs"
      and fs': "fs' = fold (refresh_fingerprint fp) (bracket_ids bid)
       (fold (\<lambda>(i, v). bt_modify i (\<lambda>f. f\<lparr>hf_input_value := v\<rparr>))
         (zip (bracket_ids bid) [l, w, h, t, h]) (hs_features (h_active s)))"
      and e: "e = history_event_of s (HistoricalEdit (hd (bracket_ids bid)) ''dimensions'' l
         (bracket_ids bid) (bracket_ids bid) [] [] (Some name))
       \<lparr>hs_revision_id = revision_id_for (h_event_ordinal s + 1), hs_features = fs'\<rparr> nrs"
    from 4(1) have "snapshot_wf (h_active s)" by (simp add: history_wf_def)
    from same_shape_keys [OF edit_bracket_shape [OF this dims]] fs'
    have "map fst fs' = map fst (hs_features (h_active s))" by simp
    from same_keys_contains [OF this] ids have "\<forall>i\<in>set (bracket_ids bid). bt_contains fs' i"
      by simp
    moreover have "bt_contains nrs name" using preserve_get [OF pres] by (simp add: bt_contains_iff)
    moreover have "hd (bracket_ids bid) \<in> set (bracket_ids bid)" by (simp add: bracket_ids_def)
    ultimately show ?case
      by (simp add: e validate_operation_def validate_edit_metadata_def Let_def list_all_iff)
  qed
qed

end
