(* ===== verification/HistoryTimeline.thy ===== *)
theory HistoryTimeline
  imports HistoryOps
begin

text \<open>
  The timeline as a state machine: a log of events grows by events the operations produce and
  \<open>apply_event\<close> accepts.  The invariant of reachable logs (the log replays to the state,
  ordinals are consecutive, every recorded snapshot is well-formed) carries the undo and redo
  facts.  The theory also models the per-feature projection of the log.
\<close>

section \<open>Reachable timelines\<close>

inductive produces :: "geometry_digest \<Rightarrow> history_event list \<Rightarrow> history_state \<Rightarrow> history_event \<Rightarrow> bool"
  for fp where
  init: "initialize_l_bracket fp s bid l w h t = Inr e \<Longrightarrow> produces fp es s e"
| edit_bracket: "edit_l_bracket fp s bid l w h t = Inr (e, eval) \<Longrightarrow> produces fp es s e"
| edit: "historical_edit fp s target parameter v = Inr (e, eval) \<Longrightarrow> produces fp es s e"
| create: "create_named_revision s name = Inr e \<Longrightarrow> produces fp es s e"
| restore: "restore_named_revision s name = Inr e \<Longrightarrow> produces fp es s e"
| undo: "undo s es = Inr e \<Longrightarrow> produces fp es s e"
| redo: "redo s es = Inr e \<Longrightarrow> produces fp es s e"

inductive timeline :: "geometry_digest \<Rightarrow> history_event list \<Rightarrow> history_state \<Rightarrow> bool"
  for fp where
  start: "timeline fp [] default_history"
| step: "timeline fp es s \<Longrightarrow> produces fp es s e \<Longrightarrow> apply_event s e = Inr s' \<Longrightarrow>
    timeline fp (es @ [e]) s'"

definition identified :: "history_snapshot \<Rightarrow> bool" where
  "identified sn = (hs_revision_id sn \<noteq> [])"

definition timeline_inv :: "history_event list \<Rightarrow> history_state \<Rightarrow> bool" where
  "timeline_inv es s =
     (history_wf s \<and> replay es = Inr s \<and> h_event_ordinal s = length es \<and>
      map he_ordinal es = [1..<length es + 1] \<and>
      (\<forall>e\<in>set es. snapshot_wf (he_active e) \<and> identified (he_active e)) \<and>
      identified (h_active s) \<and>
      (\<forall>name nr. bt_get (h_named_revisions s) name = Some nr \<longrightarrow> identified (nr_snapshot nr)))"

section \<open>The cursor\<close>

lemma cursor_from_shift: "cursor_from es (c + k) = cursor_from es c + k"
proof (induction es arbitrary: c)
  case Nil
  then show ?case by simp
next
  case (Cons e es)
  have "cursor_from es (c + k - 1) = cursor_from es (c - 1) + k"
    "cursor_from es (c + k + 1) = cursor_from es (c + 1) + k"
    using Cons [of "c - 1"] Cons [of "c + 1"] by (simp_all add: algebra_simps)
  then show ?case by (simp split: history_operation.splits)
qed

definition log_cursor :: "history_event list \<Rightarrow> int" where
  "log_cursor es = cursor_from (rev es) (int (length (timeline_positions es)) - 1)"

lemma timeline_positions_snoc:
  "timeline_positions (es @ [e]) =
     timeline_positions es @ (if is_cursor_event e then [] else [(he_ordinal e, he_active e)])"
  by (simp add: timeline_positions_def)

lemma log_cursor_snoc:
  "log_cursor (es @ [e]) =
     (case he_operation e of
        Undo _ _ _ \<Rightarrow> log_cursor es - 1
      | Redo _ _ _ \<Rightarrow> log_cursor es + 1
      | _ \<Rightarrow> int (length (timeline_positions es)))"
  using cursor_from_shift [of "rev es" "int (length (timeline_positions es)) - 1" "-1"]
    cursor_from_shift [of "rev es" "int (length (timeline_positions es)) - 1" 1]
  by (simp add: log_cursor_def timeline_positions_snoc is_cursor_event_def
      split: history_operation.splits)

lemma timeline_positions_in:
  "p \<in> set (timeline_positions es) \<Longrightarrow>
   p = (0, h_active default_history) \<or> (\<exists>e\<in>set es. p = (he_ordinal e, he_active e))"
  by (auto simp: timeline_positions_def)

definition cursor_ends :: "history_state \<Rightarrow> history_event list \<Rightarrow> bool" where
  "cursor_ends s es = (if es = [] then h_event_ordinal s = 0
                       else he_ordinal (last es) = h_event_ordinal s)"

definition position_differs :: "history_event list \<Rightarrow> history_snapshot \<Rightarrow> nat \<Rightarrow> bool" where
  "position_differs es sn i = (\<not> snapshot_eq (snd (timeline_positions es ! i)) sn)"

lemma cursor_target_eq:
  "cursor_target s es dir =
     (if \<not> cursor_ends s es
      then Inl (InvalidEvent ''history event log does not end at the active ordinal'')
      else if log_cursor es < 0 \<or> int (length (timeline_positions es)) \<le> log_cursor es
      then Inl (InvalidEvent ''history cursor left the sealed timeline'')
      else if position_differs es (h_active s) (nat (log_cursor es))
      then Inl (InvalidEvent ''history event log does not reproduce the active snapshot'')
      else case (case dir of
             CursorUndo \<Rightarrow> find (position_differs es (h_active s)) (rev [0..<nat (log_cursor es)])
           | CursorRedo \<Rightarrow> find (position_differs es (h_active s))
               [nat (log_cursor es) + 1..<length (timeline_positions es)]) of
         None \<Rightarrow> Inl (case dir of CursorUndo \<Rightarrow> NothingToUndo | CursorRedo \<Rightarrow> NothingToRedo)
       | Some target \<Rightarrow> Inr (timeline_positions es ! target))"
proof -
  have pd: "position_differs es (h_active s) =
      (\<lambda>i. \<not> snapshot_eq (snd (timeline_positions es ! i)) (h_active s))"
    by (simp add: fun_eq_iff position_differs_def)
  have ends: "((es \<noteq> [] \<and> he_ordinal (last es) \<noteq> h_event_ordinal s) \<or>
      (es = [] \<and> h_event_ordinal s \<noteq> 0)) = (\<not> cursor_ends s es)"
    by (auto simp: cursor_ends_def)
  show ?thesis
    unfolding cursor_target_def Let_def log_cursor_def [symmetric] ends pd by (rule refl)
qed

lemma cursor_target_Inr:
  assumes "cursor_target s es dir = Inr p"
  obtains t where "cursor_ends s es" "0 \<le> log_cursor es" "t < length (timeline_positions es)"
    "nat (log_cursor es) < length (timeline_positions es)"
    "\<not> position_differs es (h_active s) (nat (log_cursor es))"
    "position_differs es (h_active s) t" "p = timeline_positions es ! t"
    "dir = CursorUndo \<Longrightarrow> t < nat (log_cursor es) \<and>
       (\<forall>j. t < j \<longrightarrow> j < nat (log_cursor es) \<longrightarrow> \<not> position_differs es (h_active s) j)"
    "dir = CursorRedo \<Longrightarrow> nat (log_cursor es) < t \<and>
       (\<forall>j. nat (log_cursor es) < j \<longrightarrow> j < t \<longrightarrow> \<not> position_differs es (h_active s) j)"
proof -
  let ?c = "nat (log_cursor es)" and ?n = "length (timeline_positions es)"
  let ?xs = "case dir of CursorUndo \<Rightarrow> rev [0..<?c] | CursorRedo \<Rightarrow> [?c + 1..<?n]"
  from assms have ends: "cursor_ends s es" and c: "0 \<le> log_cursor es" "?c < ?n"
    and here: "\<not> position_differs es (h_active s) ?c"
    and "\<exists>t. find (position_differs es (h_active s)) ?xs = Some t \<and> p = timeline_positions es ! t"
    by (auto simp: cursor_target_eq split: if_splits option.splits cursor_direction.splits)
  then obtain t where f: "find (position_differs es (h_active s)) ?xs = Some t"
    and p: "p = timeline_positions es ! t" by blast
  from f obtain i where i: "i < length ?xs" "?xs ! i = t" "position_differs es (h_active s) t"
      "\<forall>j<i. \<not> position_differs es (h_active s) (?xs ! j)"
    by (auto simp: find_Some_iff)
  show thesis
  proof (cases dir)
    case CursorUndo
    with i have ti: "i < ?c" "t = ?c - Suc i" by (auto simp: rev_nth)
    have "\<not> position_differs es (h_active s) j" if "t < j" "j < ?c" for j
    proof -
      have "?xs ! (?c - Suc j) = j" "?c - Suc j < i" using that ti CursorUndo
        by (auto simp: rev_nth)
      with i(4) show ?thesis by metis
    qed
    with ends c here i(3) p ti CursorUndo show thesis by (intro that [of t]) auto
  next
    case CursorRedo
    with i have ti: "t = ?c + 1 + i" "t < ?n" by auto
    have "\<not> position_differs es (h_active s) j" if "?c < j" "j < t" for j
    proof -
      have "?xs ! (j - (?c + 1)) = j" "j - (?c + 1) < i" using that ti CursorRedo by auto
      with i(4) show ?thesis by metis
    qed
    with ends c here i(3) p ti CursorRedo show thesis by (intro that [of t]) auto
  qed
qed

lemma undo_Inr:
  assumes "undo s es = Inr e"
  obtains t nrs where "cursor_target s es CursorUndo = Inr (timeline_positions es ! t)"
    "t < nat (log_cursor es)" "nat (log_cursor es) < length (timeline_positions es)"
    "\<not> position_differs es (h_active s) (nat (log_cursor es))"
    "position_differs es (h_active s) t"
    "\<And>j. t < j \<Longrightarrow> j < nat (log_cursor es) \<Longrightarrow> \<not> position_differs es (h_active s) j"
    "preserve s (''recovered-before-undo-'' @ show_nat (h_event_ordinal s + 1)) ''undo'' = Inr nrs"
    "e = history_event_of s (Undo (fst (timeline_positions es ! t))
       (hs_revision_id (snd (timeline_positions es ! t)))
       (''recovered-before-undo-'' @ show_nat (h_event_ordinal s + 1)))
       (snd (timeline_positions es ! t)) nrs"
proof -
  from assms obtain p nrs where p: "cursor_target s es CursorUndo = Inr p"
    and nrs: "preserve s (''recovered-before-undo-'' @ show_nat (h_event_ordinal s + 1)) ''undo'' = Inr nrs"
      "e = history_event_of s (Undo (fst p) (hs_revision_id (snd p))
       (''recovered-before-undo-'' @ show_nat (h_event_ordinal s + 1))) (snd p) nrs"
    by (auto simp: undo_def and_then_Inr_iff Let_def)
  from p show thesis
    by (rule cursor_target_Inr) (use p nrs in \<open>auto intro: that\<close>)
qed

lemma redo_Inr:
  assumes "redo s es = Inr e"
  obtains t nrs where "cursor_target s es CursorRedo = Inr (timeline_positions es ! t)"
    "nat (log_cursor es) < t" "t < length (timeline_positions es)"
    "position_differs es (h_active s) t"
    "preserve s (''recovered-before-redo-'' @ show_nat (h_event_ordinal s + 1)) ''redo'' = Inr nrs"
    "e = history_event_of s (Redo (fst (timeline_positions es ! t))
       (hs_revision_id (snd (timeline_positions es ! t)))
       (''recovered-before-redo-'' @ show_nat (h_event_ordinal s + 1)))
       (snd (timeline_positions es ! t)) nrs"
proof -
  from assms obtain p nrs where p: "cursor_target s es CursorRedo = Inr p"
    and nrs: "preserve s (''recovered-before-redo-'' @ show_nat (h_event_ordinal s + 1)) ''redo'' = Inr nrs"
      "e = history_event_of s (Redo (fst p) (hs_revision_id (snd p))
       (''recovered-before-redo-'' @ show_nat (h_event_ordinal s + 1))) (snd p) nrs"
    by (auto simp: redo_def and_then_Inr_iff Let_def)
  from p show thesis
    by (rule cursor_target_Inr) (use p nrs in \<open>auto intro: that\<close>)
qed

section \<open>Undo and redo meet the contract of a timeline command\<close>

lemma default_snapshot: "snapshot_wf (h_active default_history)" "identified (h_active default_history)"
  using default_history_wf by (simp_all add: history_wf_def identified_def default_history_def)

lemma position_ok:
  assumes "timeline_inv es s" "t < length (timeline_positions es)"
  shows "snapshot_wf (snd (timeline_positions es ! t))"
    "identified (snd (timeline_positions es ! t))"
    "fst (timeline_positions es ! t) \<le> h_event_ordinal s"
proof -
  from assms(2) have "timeline_positions es ! t \<in> set (timeline_positions es)" by simp
  from timeline_positions_in [OF this] consider
      "timeline_positions es ! t = (0, h_active default_history)"
    | e where "e \<in> set es" "timeline_positions es ! t = (he_ordinal e, he_active e)" by blast
  note cases = this
  show "snapshot_wf (snd (timeline_positions es ! t))"
    by (rule cases) (use assms(1) default_snapshot in \<open>auto simp: timeline_inv_def\<close>)
  show "identified (snd (timeline_positions es ! t))"
    by (rule cases) (use assms(1) default_snapshot in \<open>auto simp: timeline_inv_def\<close>)
  have all: "map he_ordinal es = [1..<length es + 1]" and len: "h_event_ordinal s = length es"
    using assms(1) by (simp_all only: timeline_inv_def)
  have le: "he_ordinal e \<le> h_event_ordinal s" if "e \<in> set es" for e
  proof -
    have "he_ordinal e \<in> set (map he_ordinal es)" using that by simp
    then have "he_ordinal e \<in> set [1..<length es + 1]" by (simp only: all)
    then show ?thesis by (auto simp: len)
  qed
  show "fst (timeline_positions es ! t) \<le> h_event_ordinal s"
    by (rule cases) (simp_all add: le)
qed

lemma validate_cursor_event:
  assumes inv: "timeline_inv es s" and t: "t < length (timeline_positions es)"
    and pres: "preserve s name prov = Inr nrs"
    and e: "he_ordinal e = h_event_ordinal s + 1" "he_active e = snd (timeline_positions es ! t)"
      "he_named_revisions e = nrs"
  shows "validate_cursor_metadata e (fst (timeline_positions es ! t))
    (hs_revision_id (snd (timeline_positions es ! t))) name = Inr ()"
  using position_ok [OF inv t] preserve_get [OF pres] e
  by (auto simp: validate_cursor_metadata_def identified_def bt_contains_iff)

interpretation undo_cmd: timeline_command "\<lambda>es s. undo s es" timeline_inv
proof (unfold_locales, goal_cases)
  case (1 es s e)
  then show ?case by (auto elim!: undo_Inr)
next
  case (2 s es e)
  from 2(3) show ?case
    by (rule undo_Inr) (use position_ok(1) [OF 2(2)] in simp)
next
  case (3 s es e)
  then show ?case by (auto elim!: undo_Inr dest: preserve_named)
next
  case (4 s es e)
  from 4(3) show ?case
  proof (rule undo_Inr)
    fix t nrs
    let ?name = "''recovered-before-undo-'' @ show_nat (h_event_ordinal s + 1)"
    let ?p = "timeline_positions es ! t"
    assume pres: "preserve s ?name ''undo'' = Inr nrs"
      and e: "e = history_event_of s (Undo (fst ?p) (hs_revision_id (snd ?p)) ?name) (snd ?p) nrs"
      and t: "t < nat (log_cursor es)" "nat (log_cursor es) < length (timeline_positions es)"
    have "validate_cursor_metadata e (fst ?p) (hs_revision_id (snd ?p)) ?name = Inr ()"
      using t e by (intro validate_cursor_event [OF 4(2) _ pres]) auto
    then show ?case using e by (simp add: validate_operation_def)
  qed
qed

interpretation redo_cmd: timeline_command "\<lambda>es s. redo s es" timeline_inv
proof (unfold_locales, goal_cases)
  case (1 es s e)
  then show ?case by (auto elim!: redo_Inr)
next
  case (2 s es e)
  from 2(3) show ?case
    by (rule redo_Inr) (use position_ok(1) [OF 2(2)] in simp)
next
  case (3 s es e)
  then show ?case by (auto elim!: redo_Inr dest: preserve_named)
next
  case (4 s es e)
  from 4(3) show ?case
  proof (rule redo_Inr)
    fix t nrs
    let ?name = "''recovered-before-redo-'' @ show_nat (h_event_ordinal s + 1)"
    let ?p = "timeline_positions es ! t"
    assume pres: "preserve s ?name ''redo'' = Inr nrs"
      and e: "e = history_event_of s (Redo (fst ?p) (hs_revision_id (snd ?p)) ?name) (snd ?p) nrs"
      and t: "t < length (timeline_positions es)"
    have "validate_cursor_metadata e (fst ?p) (hs_revision_id (snd ?p)) ?name = Inr ()"
      using t e by (intro validate_cursor_event [OF 4(2) _ pres]) auto
    then show ?case using e by (simp add: validate_operation_def)
  qed
qed


section \<open>The invariant of reachable timelines\<close>

lemma apply_event_fields:
  assumes "apply_event s e = Inr s'"
  shows "h_active s' = he_active e" "h_named_revisions s' = he_named_revisions e"
    "h_event_ordinal s' = h_event_ordinal s + 1" "he_ordinal e = h_event_ordinal s + 1"
    "he_schema_version e = history_event_schema"
  using assms by (auto simp: apply_event_def and_then_Inr_iff)

lemma replay_snoc: "replay (es @ [e]) = and_then (replay es) (\<lambda>s. apply_event s e)"
  by (cases "replay es") (simp_all add: replay_def fold_ok_append and_then_def split: sum.splits)

lemma produces_named:
  assumes "produces fp es s e" "history_wf s"
  shows "named_wf (he_named_revisions e) \<and> bt.extends (h_named_revisions s) (he_named_revisions e)"
  using assms
proof (induction rule: produces.induct)
  case (init s bid l w h t e)
  then show ?case
    using init.named [of s fp "(bid, l, w, h, t)" e] by (simp add: initialize_with_def)
next
  case (edit_bracket s bid l w h t e eval)
  then show ?case
    using bedit.named [of s fp "(bid, l, w, h, t)" e] by (simp add: edit_bracket_with_Inr)
next
  case (edit s target parameter v e eval)
  then show ?case
    using hedit.named [of s fp "(target, parameter, v)" e] by (simp add: edit_event_Inr)
qed (blast dest: create.named restore.named undo_cmd.named redo_cmd.named)+

lemma produces_active_ok:
  assumes "produces fp es s e" "timeline_inv es s"
  shows "bt_ok (hs_features (he_active e)) \<and> identified (he_active e)"
  using assms
proof (induction rule: produces.induct)
  case (init s bid l w h t e)
  then have "bt_ok (hs_features (h_active s))"
    by (simp add: timeline_inv_def history_wf_def snapshot_wf_def)
  with init initialize_Inr show ?case
    by (fastforce simp: identified_def revision_id_for_def bt_ok_extend)
next
  case (edit_bracket s bid l w h t e eval)
  from edit_bracket.prems have wf: "snapshot_wf (h_active s)"
    by (simp add: timeline_inv_def history_wf_def)
  from edit_bracket.hyps show ?case
    by (rule edit_l_bracket_Inr)
      (use same_shape_keys [OF edit_bracket_shape [OF wf]] wf in
        \<open>auto simp: identified_def revision_id_for_def bt_ok_def snapshot_wf_def\<close>)
next
  case (edit s target parameter v e eval)
  from edit.prems have wf: "snapshot_wf (h_active s)"
    by (simp add: timeline_inv_def history_wf_def)
  from edit.hyps show ?case
  proof (rule historical_edit_Inr)
    fix name nrs dirty order r
    assume r: "topological_order (hs_features (h_active s)) dirty = Inr order"
      "fold_ok (edit_step fp target parameter v dirty) order
         (initial_run (hs_features (h_active s))) = Inr r"
      and e: "e = history_event_of s (HistoricalEdit target parameter v dirty (er_evaluated r)
          (er_blocked r) (er_diagnostics r) (Some name))
        \<lparr>hs_revision_id = revision_id_for (h_event_ordinal s + 1), hs_features = er_features r\<rparr> nrs"
    from historical_edit_inv [OF r] have "map fst (er_features r) = map fst (hs_features (h_active s))"
      by (simp add: edit_inv_def)
    with wf e show ?case
      by (simp add: snapshot_wf_def bt_ok_def identified_def revision_id_for_def)
  qed
next
  case (create s name e)
  then show ?case
    by (auto simp: create_named_revision_def and_then_Inr_iff timeline_inv_def history_wf_def
        snapshot_wf_def split: if_splits)
next
  case (restore s name e)
  then show ?case
    by (auto simp: timeline_inv_def history_wf_def named_wf_def snapshot_wf_def elim!: restore_Inr)
next
  case (undo s es e)
  from undo.hyps show ?case
    by (rule undo_Inr) (use position_ok(1,2) [OF undo.prems] in \<open>simp add: snapshot_wf_def\<close>)
next
  case (redo s es e)
  from redo.hyps show ?case
    by (rule redo_Inr) (use position_ok(1,2) [OF redo.prems] in \<open>simp add: snapshot_wf_def\<close>)
qed

lemma extends_preserve_identified:
  assumes "preserve s name prov = Inr nrs" "identified (h_active s)"
    and "\<forall>name nr. bt_get (h_named_revisions s) name = Some nr \<longrightarrow> identified (nr_snapshot nr)"
  shows "\<forall>name nr. bt_get nrs name = Some nr \<longrightarrow> identified (nr_snapshot nr)"
  using assms by (auto simp: preserve_Inr bt_get_insert split: if_splits)

lemma produces_identified:
  assumes "produces fp es s e" "timeline_inv es s"
  shows "\<forall>name nr. bt_get (he_named_revisions e) name = Some nr \<longrightarrow> identified (nr_snapshot nr)"
proof -
  from assms(2) have ids: "identified (h_active s)"
    "\<forall>name nr. bt_get (h_named_revisions s) name = Some nr \<longrightarrow> identified (nr_snapshot nr)"
    by (simp_all add: timeline_inv_def)
  from assms(1) have "he_named_revisions e = h_named_revisions s \<or>
      (\<exists>name prov. preserve s name prov = Inr (he_named_revisions e))"
  proof (cases rule: produces.cases)
    case (init bid l w h t)
    then show ?thesis by (auto dest!: initialize_Inr)
  next
    case (create name)
    then show ?thesis by (auto simp: create_named_revision_def and_then_Inr_iff split: if_splits)
  qed (auto elim!: edit_l_bracket_Inr historical_edit_Inr restore_Inr undo_Inr redo_Inr)
  with ids extends_preserve_identified [OF _ ids] show ?thesis by auto
qed

lemma timeline_step_inv:
  assumes inv: "timeline_inv es s" and prod: "produces fp es s e"
    and app: "apply_event s e = Inr s'"
  shows "timeline_inv (es @ [e]) s'"
proof -
  have wf: "history_wf s" using inv by (simp add: timeline_inv_def)
  note fields = apply_event_fields [OF app]
  have "event_maps_ok e"
    using produces_active_ok [OF prod inv] produces_named [OF prod wf]
    by (auto simp: event_maps_ok_def named_wf_def snapshot_wf_def)
  with app have "snapshot_wf (he_active e)" "named_wf (he_named_revisions e)"
    by (simp_all add: apply_event_iff)
  moreover have "map he_ordinal (es @ [e]) = [1..<length (es @ [e]) + 1]"
    using inv fields by (simp add: timeline_inv_def)
  moreover have "replay (es @ [e]) = Inr s'"
    using inv app by (simp add: timeline_inv_def replay_snoc)
  ultimately show ?thesis
    using inv fields produces_active_ok [OF prod inv] produces_identified [OF prod inv]
    by (auto simp: timeline_inv_def history_wf_def)
qed

lemma timeline_invariant: "timeline fp es s \<Longrightarrow> timeline_inv es s"
proof (induction rule: timeline.induct)
  case start
  show ?case
    using default_history_wf default_snapshot
    by (simp add: timeline_inv_def replay_def default_history_def)
next
  case (step es s e s')
  then show ?case by (blast intro: timeline_step_inv)
qed

end
