(* ===== verification/HistoryProps.thy ===== *)
theory HistoryProps
  imports HistoryTimeline
begin

text \<open>
  The properties of the document timeline: well-formed reachable states, the validator against its
  specification, dependency order and dirty set, the outcome and the errors of a historical edit,
  undo and redo, and the named revisions.  Each rests on the lemmas of the theories below it.
\<close>

section \<open>A small document\<close>

text \<open>The witnesses run on one bracket whose digest is the identifier with its predecessors.\<close>

definition demo_fp :: geometry_digest where
  "demo_fp i v n ps = i @ concat ps"

definition demo_event :: "history_error + history_event \<Rightarrow> history_event" where
  "demo_event r = projr r"

definition demo_state :: "history_error + history_state \<Rightarrow> history_state" where
  "demo_state r = projr r"

definition demo_e1 :: history_event where
  "demo_e1 = demo_event
     (initialize_l_bracket demo_fp default_history ''l'' (Fin 10) (Fin 5) (Fin 3) (Fin 1))"

definition demo_s1 :: history_state where
  "demo_s1 = demo_state (apply_event default_history demo_e1)"

definition demo_e2 :: history_event where
  "demo_e2 = fst (projr (historical_edit demo_fp demo_s1 ''l-base'' ''length'' (Fin 0)))"

definition demo_s2 :: history_state where
  "demo_s2 = demo_state (apply_event demo_s1 demo_e2)"

lemma demo_e1_Inr:
  "initialize_l_bracket demo_fp default_history ''l'' (Fin 10) (Fin 5) (Fin 3) (Fin 1) = Inr demo_e1"
  by code_simp

lemma demo_s1_Inr: "apply_event default_history demo_e1 = Inr demo_s1"
  by code_simp

lemma demo_e2_Inr:
  "historical_edit demo_fp demo_s1 ''l-base'' ''length'' (Fin 0) =
     Inr (demo_e2, snd (projr (historical_edit demo_fp demo_s1 ''l-base'' ''length'' (Fin 0))))"
  by code_simp

lemma demo_s2_Inr: "apply_event demo_s1 demo_e2 = Inr demo_s2"
  by code_simp

lemma demo_timeline1: "timeline demo_fp [demo_e1] demo_s1"
  using timeline.step [OF timeline.start produces.init [OF demo_e1_Inr] demo_s1_Inr] by simp

lemma demo_timeline2: "timeline demo_fp [demo_e1, demo_e2] demo_s2"
  using timeline.step [OF demo_timeline1 produces.edit [OF demo_e2_Inr] demo_s2_Inr] by simp

lemma demo_wf1: "history_wf demo_s1"
  using timeline_invariant [OF demo_timeline1] by (simp add: timeline_inv_def)

section \<open>Reachable states\<close>

text \<open>
  C1.  In every document reached by the timeline operations the active snapshot and all named
  revisions are well-formed (keys match identifiers, values are finite, dependencies exist and are
  acyclic, status fields agree), and replaying the recorded log from the empty document gives
  exactly the current state.
\<close>

theorem timeline_sound:
  assumes "timeline fp es s"
  shows "history_wf s \<and> replay es = Inr s \<and> h_event_ordinal s = length es"
  using timeline_invariant [OF assms] by (simp add: timeline_inv_def)

theorem timeline_sound_witness:
  "history_wf demo_s2 \<and> replay [demo_e1, demo_e2] = Inr demo_s2 \<and> h_event_ordinal demo_s2 = 2"
  using timeline_sound [OF demo_timeline2] by simp

text \<open>
  C2.  \<^verbatim>\<open>validate_snapshot\<close> accepts a snapshot exactly when it is well-formed: in
  particular the topological sort it ends with succeeds exactly when the dependency relation has no
  cycle.
\<close>

theorem validate_snapshot_decides:
  assumes "bt_ok (hs_features sn)"
  shows "validate_snapshot sn = Inr () \<longleftrightarrow> snapshot_wf sn"
  by (rule validate_snapshot_iff [OF assms])

theorem validate_snapshot_decides_witness:
  "bt_ok (hs_features (h_active demo_s2)) \<and> snapshot_wf (h_active demo_s2)"
proof -
  have ok: "bt_ok (hs_features (h_active demo_s2))" by code_simp
  have "validate_snapshot (h_active demo_s2) = Inr ()" by code_simp
  with ok validate_snapshot_decides [OF ok] show ?thesis by simp
qed

section \<open>Dependency order and dirty set\<close>

text \<open>
  C3.  For a set of existing features, \<^verbatim>\<open>topological_order\<close> either returns each of
  them once with every dependency that is in the set placed before its dependents, or reports a
  cycle; and it reports one exactly when the dependencies inside the set are cyclic.
\<close>

theorem topological_order_correct:
  assumes "\<forall>i\<in>set dirty. bt_contains fs i"
  shows "(\<forall>p. topological_order fs dirty = Inr p \<longrightarrow>
            distinct p \<and> set p = set dirty \<and>
            (\<forall>i d. i < length p \<longrightarrow> (d, p ! i) \<in> dep_edges fs \<longrightarrow> d \<in> set dirty \<longrightarrow>
               d \<in> set (take i p))) \<and>
         (is_ok (topological_order fs dirty) \<longleftrightarrow>
            acyclic (dep_edges fs \<inter> set dirty \<times> set dirty))"
proof -
  have "d \<in> set (take i p)"
    if "topological_order fs dirty = Inr p" "i < length p" "(d, p ! i) \<in> dep_edges fs" "d \<in> set dirty"
    for p i d
    using topological_order_sound [OF that(1)] that(2-4) by (auto intro: dep_sorted_nth)
  with topological_order_sound topological_order_ok_iff [OF assms] show ?thesis by blast
qed

theorem topological_order_correct_witness:
  "is_ok (topological_order (hs_features (h_active demo_s1)) [''l-finish'', ''l-base''])"
proof -
  let ?fs = "hs_features (h_active demo_s1)"
  have h: "\<forall>i\<in>set [''l-finish'', ''l-base'']. bt_contains ?fs i" by code_simp
  have "acyclic (dep_edges ?fs)"
    using demo_wf1 by (simp add: history_wf_def snapshot_wf_def)
  then have "acyclic (dep_edges ?fs \<inter> set [''l-finish'', ''l-base''] \<times> set [''l-finish'', ''l-base''])"
    by (rule acyclic_subset) auto
  with topological_order_correct [OF h] show ?thesis by blast
qed

text \<open>
  The dirty set of a historical edit is the edited feature with exactly the features that
  depend on it, directly or through others.
\<close>

theorem reachable_features_closure:
  assumes "reachable_features fs target = Inr ids"
  shows "set ids = {i. (target, i) \<in> (dependents fs)\<^sup>*}"
  using assms by (auto simp: reachable_features_def set_reach_loop split: if_splits)

theorem reachable_features_closure_witness:
  "(''l-base'', ''l-finish'') \<in> (dependents (hs_features (h_active demo_s1)))\<^sup>* \<and>
   (''l-base'', ''l-independent-base'') \<notin> (dependents (hs_features (h_active demo_s1)))\<^sup>*"
proof -
  have "reachable_features (hs_features (h_active demo_s1)) ''l-base'' =
      Inr [''l-base'', ''l-bend'', ''l-finish'']" by code_simp
  from reachable_features_closure [OF this, symmetric] show ?thesis by (simp add: set_eq_iff)
qed

section \<open>Historical edits\<close>

text \<open>
  C4.  From a well-formed state, an edit that asks no feature without geometry for non-positive
  material produces an event the state accepts, and the accepted state is the edited snapshot with
  the next ordinal.
\<close>

theorem historical_edit_accepted:
  assumes "history_wf s" and "edit_pre (target, parameter, v) s"
    and "historical_edit fp s target parameter v = Inr (e, eval)"
  shows "apply_event s e = Inr \<lparr>h_active = he_active e, h_named_revisions = he_named_revisions e,
    h_event_ordinal = h_event_ordinal s + 1\<rparr>"
  by (rule hedit.accepted [OF assms(1,2)]) (use assms(3) in \<open>auto simp: edit_event_Inr\<close>)

lemma demo_edit_pre: "edit_pre (''l-base'', ''length'', Fin 0) demo_s1"
proof -
  have "list_all (\<lambda>(k, f). hf_geometry_fingerprint f \<noteq> None) (hs_features (h_active demo_s1))"
    by code_simp
  then show ?thesis
    by (auto simp: edit_pre_def list_all_iff dest!: bt_get_in_set)
qed

theorem historical_edit_accepted_witness:
  "apply_event demo_s1 demo_e2 = Inr \<lparr>h_active = he_active demo_e2,
     h_named_revisions = he_named_revisions demo_e2, h_event_ordinal = h_event_ordinal demo_s1 + 1\<rparr>"
  by (rule historical_edit_accepted [OF demo_wf1 demo_edit_pre demo_e2_Inr])

text \<open>
  C5.  A historical edit splits the dirty features into evaluated, blocked and (at most one) broken
  ones.  Features outside the dirty set are untouched; an evaluated feature is current with
  positive material; a blocked feature keeps its value and loses its geometry; the broken feature
  is the one whose value is not positive.
\<close>

theorem historical_edit_outcome:
  assumes "history_wf s" and "historical_edit fp s target parameter v = Inr (e, eval)"
  shows "set (ev_dirty_features eval) =
      set (ev_evaluated_features eval) \<union> set (ev_blocked_features eval) \<union>
      hd_feature_id ` set (ev_diagnostics eval) \<and>
    set (ev_evaluated_features eval) \<inter> set (ev_blocked_features eval) = {} \<and>
    length (ev_diagnostics eval) \<le> 1 \<and>
    (\<forall>i f. bt_get (hs_features (h_active s)) i = Some f \<longrightarrow>
      (\<exists>g. bt_get (hs_features (he_active e)) i = Some g \<and>
        (i \<notin> set (ev_dirty_features eval) \<longrightarrow> g = f) \<and>
        (i \<in> set (ev_evaluated_features eval) \<longrightarrow>
           hf_status g = CurrentValid \<and> f64_pos (hf_input_value g) \<and>
           hf_input_value g = (if i = target then v else hf_input_value f)) \<and>
        (i \<in> set (ev_blocked_features eval) \<longrightarrow>
           hf_status g = BlockedByFailure \<and> hf_geometry_fingerprint g = None \<and>
           hf_input_value g = hf_input_value f) \<and>
        (i \<in> hd_feature_id ` set (ev_diagnostics eval) \<longrightarrow>
           hf_status g = Broken \<and> \<not> f64_pos (hf_input_value g) \<and>
           hf_last_valid_geometry_fingerprint g = hf_geometry_fingerprint f)))"
  using assms(2)
proof (rule historical_edit_Inr)
  fix fx name nrs dirty order r
  let ?fs = "hs_features (h_active s)"
  assume v: "f64_finite v"
    and r: "topological_order ?fs dirty = Inr order"
      "fold_ok (edit_step fp target parameter v dirty) order (initial_run ?fs) = Inr r"
    and e: "e = history_event_of s (HistoricalEdit target parameter v dirty (er_evaluated r)
        (er_blocked r) (er_diagnostics r) (Some name))
      \<lparr>hs_revision_id = revision_id_for (h_event_ordinal s + 1), hs_features = er_features r\<rparr> nrs"
    and eval: "eval = \<lparr>ev_dirty_features = dirty, ev_evaluated_features = er_evaluated r,
       ev_blocked_features = er_blocked r, ev_diagnostics = er_diagnostics r\<rparr>"
  note inv = historical_edit_inv [OF r]
  have sets: "set (er_evaluated r) \<union> set (er_blocked r) \<union> broken_ids r = set dirty"
    "set (er_evaluated r) \<inter> set (er_blocked r) = {}" "length (er_diagnostics r) \<le> 1"
    using inv by (auto simp only: edit_inv_def)
  have "\<exists>g. bt_get (er_features r) i = Some g \<and>
        (i \<notin> set dirty \<longrightarrow> g = f) \<and>
        (i \<in> set (er_evaluated r) \<longrightarrow>
           hf_status g = CurrentValid \<and> f64_pos (hf_input_value g) \<and>
           hf_input_value g = (if i = target then v else hf_input_value f)) \<and>
        (i \<in> set (er_blocked r) \<longrightarrow>
           hf_status g = BlockedByFailure \<and> hf_geometry_fingerprint g = None \<and>
           hf_input_value g = hf_input_value f) \<and>
        (i \<in> broken_ids r \<longrightarrow>
           hf_status g = Broken \<and> \<not> f64_pos (hf_input_value g) \<and>
           hf_last_valid_geometry_fingerprint g = hf_geometry_fingerprint f)"
    if f: "bt_get ?fs i = Some f" for i f
  proof -
    from inv f obtain g where g: "bt_get (er_features r) i = Some g"
        "feature_outcome target v r i f g"
      unfolding edit_inv_def by blast
    from assms(1) f have "f64_finite (hf_input_value f)"
      by (auto simp: history_wf_def snapshot_wf_def feature_wf_def)
    with v have fin: "f64_finite (hf_input_value (edited target v i f))" by simp
    note pos = f64_not_le_zero_pos [OF fin]
    have "g = f" if "i \<notin> set dirty"
      using g(2) sets(1) that unfolding feature_outcome_def by blast
    moreover have "hf_status g = CurrentValid \<and> f64_pos (hf_input_value g) \<and>
        hf_input_value g = (if i = target then v else hf_input_value f)"
      if "i \<in> set (er_evaluated r)"
    proof -
      from g(2) that obtain str where "g = evaluate_feature str (edited target v i f)"
        and "\<not> f64_le (hf_input_value (edited target v i f)) (Fin 0)"
        unfolding feature_outcome_def by blast
      with pos show ?thesis by simp
    qed
    moreover have "hf_status g = BlockedByFailure \<and> hf_geometry_fingerprint g = None \<and>
        hf_input_value g = hf_input_value f" if "i \<in> set (er_blocked r)"
    proof -
      from g(2) that have "g = block_feature f" unfolding feature_outcome_def by blast
      then show ?thesis by (simp add: block_feature_def)
    qed
    moreover have "hf_status g = Broken \<and> \<not> f64_pos (hf_input_value g) \<and>
        hf_last_valid_geometry_fingerprint g = hf_geometry_fingerprint f" if "i \<in> broken_ids r"
    proof -
      from that obtain d where "d \<in> set (er_diagnostics r)" "hd_feature_id d = i"
        by (auto simp: broken_ids_def)
      with g(2) have geq: "g = break_feature d (edited target v i f)"
        and "f64_le (hf_input_value (edited target v i f)) (Fin 0)"
        unfolding feature_outcome_def by blast+
      with pos show ?thesis by (simp add: break_feature_def)
    qed
    ultimately show ?thesis using g(1) by blast
  qed
  with sets show ?thesis by (simp add: e eval broken_ids_def)
qed

theorem historical_edit_outcome_witness:
  "\<exists>eval. historical_edit demo_fp demo_s1 ''l-base'' ''length'' (Fin 0) = Inr (demo_e2, eval) \<and>
     length (ev_diagnostics eval) \<le> 1"
  using demo_e2_Inr historical_edit_outcome [OF demo_wf1 demo_e2_Inr] by blast

text \<open>
  From a well-formed state the only errors of a historical edit are a non-finite value, an
  unknown feature and a clash with a user-made named revision: the loop never fails and no cycle is
  reported.
\<close>

theorem historical_edit_errors:
  assumes "history_wf s"
    and "name = ''recovered-before-historical-edit-'' @ show_nat (h_event_ordinal s + 1)"
  shows "case historical_edit fp s target parameter v of
      Inl err \<Rightarrow>
        (if \<not> f64_finite v then err = InvalidValue
         else if \<not> bt_contains (hs_features (h_active s)) target then err = FeatureNotFound target
         else err = DuplicateName name \<and> bt_contains (h_named_revisions s) name)
    | Inr _ \<Rightarrow> f64_finite v \<and> bt_contains (hs_features (h_active s)) target \<and>
        \<not> bt_contains (h_named_revisions s) name"
proof -
  let ?fs = "hs_features (h_active s)"
  let ?dirty = "reach_loop ?fs [target]"
  have wf: "snapshot_wf (h_active s)" using assms by (simp add: history_wf_def)
  have "is_ok (historical_edit fp s target parameter v)"
    if v: "f64_finite v" and t: "bt_contains ?fs target"
      and n: "\<not> bt_contains (h_named_revisions s) name"
  proof -
    have dirty: "\<forall>i\<in>set ?dirty. bt_contains ?fs i" using dirty_contains [OF wf t] by blast
    have "acyclic (dep_edges ?fs \<inter> set ?dirty \<times> set ?dirty)"
      by (rule acyclic_subset [of "dep_edges ?fs"]) (use wf in \<open>auto simp: snapshot_wf_def\<close>)
    with topological_order_ok_iff [OF dirty] obtain order
      where order: "topological_order ?fs ?dirty = Inr order" by (auto simp: is_ok_iff)
    from topological_order_sound [OF order] dirty
    have "\<forall>i\<in>set order. bt_contains (er_features (initial_run ?fs)) i"
      by (simp add: initial_run_def)
    then have "is_ok (fold_ok (edit_step fp target parameter v ?dirty) order (initial_run ?fs))"
      by (rule edit_loop_total)
    then obtain r where r: "fold_ok (edit_step fp target parameter v ?dirty) order
        \<lparr>er_features = ?fs, er_evaluated = [], er_blocked = [], er_diagnostics = [],
         er_failed = False\<rparr> = Inr r"
      by (auto simp: is_ok_iff initial_run_def)
    from t obtain f where "bt_get ?fs target = Some f" by (auto simp: bt_contains_iff)
    with order r v t n assms(2) show ?thesis
      by (simp add: historical_edit_def reachable_features_def preserve_def Let_def)
  qed
  moreover have "historical_edit fp s target parameter v = Inl InvalidValue" if "\<not> f64_finite v"
    using that by (simp add: historical_edit_def)
  moreover have "historical_edit fp s target parameter v = Inl (FeatureNotFound target)"
    if "f64_finite v" "\<not> bt_contains ?fs target"
    using that by (simp add: historical_edit_def Let_def bt_get_None_iff [symmetric])
  moreover have "historical_edit fp s target parameter v = Inl (DuplicateName name)"
    if v: "f64_finite v" and t: "bt_contains ?fs target" and n: "bt_contains (h_named_revisions s) name"
  proof -
    from t obtain f where "bt_get ?fs target = Some f" by (auto simp: bt_contains_iff)
    with v n assms(2) show ?thesis by (simp add: historical_edit_def Let_def preserve_def)
  qed
  ultimately show ?thesis
    by (cases "historical_edit fp s target parameter v") (auto simp: is_ok_iff)
qed

theorem historical_edit_errors_witness:
  "case historical_edit demo_fp demo_s1 ''l-nope'' ''length'' (Fin 12) of
     Inl err \<Rightarrow> err = FeatureNotFound ''l-nope'' | Inr _ \<Rightarrow> False"
proof -
  have "\<not> bt_contains (hs_features (h_active demo_s1)) ''l-nope''" by code_simp
  with historical_edit_errors [OF demo_wf1 refl, where fp = demo_fp and target = "''l-nope''"
      and parameter = "''length''" and v = "Fin 12"]
  show ?thesis by (simp split: sum.splits)
qed

end
