(* ===== verification/HistoryUndo.thy ===== *)
theory HistoryUndo
  imports HistoryProps
begin

text \<open>
  Undo, redo and the named revisions over reachable timelines, and two behaviours the model shows:
  a second failing edit of a broken feature builds an event the state rejects, and the cursor is
  lost after an undo that stepped over a duplicate snapshot.
\<close>

section \<open>Repeated failures\<close>

lemma order_starts_at_target:
  assumes wf: "snapshot_wf sn" and target: "bt_contains (hs_features sn) target"
    and order: "topological_order (hs_features sn) (reach_loop (hs_features sn) [target]) = Inr order"
  obtains rest where "order = target # rest"
proof -
  let ?fs = "hs_features sn"
  from topological_order_sound [OF order]
  have p: "set order = set (reach_loop ?fs [target])" "dep_sorted ?fs order" by auto
  have set: "set order = {i. (target, i) \<in> (dep_edges ?fs)\<^sup>*}"
    using p(1) by (auto simp: set_reach_loop snapshot_dependents [OF wf])
  then have "target \<in> set order" by simp
  then obtain x rest where o: "order = x # rest" by (cases order) auto
  have "x = target"
  proof (rule ccontr)
    assume "x \<noteq> target"
    moreover have "(target, x) \<in> (dep_edges ?fs)\<^sup>*" using set o by auto
    ultimately obtain y where y: "(target, y) \<in> (dep_edges ?fs)\<^sup>*" "(y, x) \<in> dep_edges ?fs"
      by (metis rtranclE)
    then have "y \<in> set order" using set by simp
    moreover have "ready ?fs order x" using p(2) o by simp
    ultimately show False using y(2) by (simp add: ready_iff)
  qed
  with o show thesis by (intro that) simp
qed

lemma edit_step_diagnostics_mono:
  "edit_step fp target parameter v dirty i r = Inr r' \<Longrightarrow>
   set (er_diagnostics r) \<subseteq> set (er_diagnostics r')"
  by (erule edit_step_cases) auto

text \<open>
  When a feature is broken already (its geometry is gone) and its dependencies are current, a
  further edit of it to non-positive material still builds an event, but \<^verbatim>\<open>apply_event\<close>
  rejects it: the loop overwrites the last valid fingerprint with the missing current one, so the
  event's own snapshot is inconsistent and the edit cannot be recorded.
\<close>

theorem repeated_failure_rejected:
  assumes wf: "history_wf s" and f: "bt_get (hs_features (h_active s)) target = Some f"
    and broken: "hf_status f = Broken"
    and deps: "\<forall>d\<in>set (hf_dependencies f). \<not> dependency_not_current (hs_features (h_active s)) d"
    and v: "f64_le v (Fin 0)" and edit: "historical_edit fp s target parameter v = Inr (e, eval)"
  shows "\<not> is_ok (apply_event s e)"
  using edit
proof (rule historical_edit_Inr)
  fix fx name nrs dirty order r
  let ?fs = "hs_features (h_active s)"
  assume fin: "f64_finite v" and dirty: "dirty = reach_loop ?fs [target]"
    and r: "topological_order ?fs dirty = Inr order"
      "fold_ok (edit_step fp target parameter v dirty) order (initial_run ?fs) = Inr r"
    and pres: "preserve s name (''historical-edit:'' @ target) = Inr nrs"
    and name: "name = ''recovered-before-historical-edit-'' @ show_nat (h_event_ordinal s + 1)"
    and e: "e = history_event_of s (HistoricalEdit target parameter v dirty (er_evaluated r)
        (er_blocked r) (er_diagnostics r) (Some name))
      \<lparr>hs_revision_id = revision_id_for (h_event_ordinal s + 1), hs_features = er_features r\<rparr> nrs"
  have snwf: "snapshot_wf (h_active s)" using wf by (simp add: history_wf_def)
  note inv = historical_edit_inv [OF r]
  have "bt_contains ?fs target" using f by (simp add: bt_contains_iff)
  from order_starts_at_target [OF snwf this r(1) [unfolded dirty]]
  obtain rest where "order = target # rest" by blast
  with r(2) obtain t where t: "edit_step fp target parameter v dirty target (initial_run ?fs) = Inr t"
      "fold_ok (edit_step fp target parameter v dirty) rest t = Inr r"
    by (auto simp: and_then_Inr_iff)
  have "list_ex (dependency_not_current ?fs) (hf_dependencies f) = False"
    using deps by (simp add: list_ex_iff)
  with t(1) f v have "edit_diagnostic target parameter dirty \<in> set (er_diagnostics t)"
    by (simp add: edit_step_def initial_run_def Let_def bt_get_modify) auto
  then have d: "edit_diagnostic target parameter dirty \<in> set (er_diagnostics r)"
    by (rule fold_ok_invariant [OF t(2), where P = "\<lambda>r. edit_diagnostic target parameter dirty
        \<in> set (er_diagnostics r)"]) (use edit_step_diagnostics_mono in blast)
  from inv f obtain g where g: "bt_get (er_features r) target = Some g"
      "feature_outcome target v r target f g"
    unfolding edit_inv_def by blast
  with d have "g = break_feature (edit_diagnostic target parameter dirty) (edited target v target f)"
    by (auto simp: feature_outcome_def edit_diagnostic_def)
  moreover have "feature_consistent f"
    using snwf f unfolding snapshot_wf_def feature_wf_def by blast
  then have "hf_geometry_fingerprint f = None"
    using broken by (simp add: feature_consistent_def)
  ultimately have "\<not> feature_consistent g" by simp
  with g(1) e have bad: "\<not> snapshot_wf (he_active e)"
    by (auto simp: snapshot_wf_def feature_wf_def)
  have "map fst (er_features r) = map fst ?fs" using inv by (simp only: edit_inv_def)
  then have "bt_ok (er_features r)" using snwf by (simp add: bt_ok_def snapshot_wf_def)
  moreover have "named_wf nrs" using preserve_named [OF wf pres] name by simp
  ultimately have "event_maps_ok e"
    using e by (auto simp: event_maps_ok_def named_wf_def snapshot_wf_def)
  with bad show ?thesis by (auto simp: is_ok_iff apply_event_iff)
qed

theorem repeated_failure_rejected_witness:
  "\<not> is_ok (apply_event demo_s2
     (fst (projr (historical_edit demo_fp demo_s2 ''l-base'' ''length'' (Fin (-1))))))"
proof -
  let ?f = "the (bt_get (hs_features (h_active demo_s2)) ''l-base'')"
  let ?r = "projr (historical_edit demo_fp demo_s2 ''l-base'' ''length'' (Fin (-1)))"
  have wf: "history_wf demo_s2" using timeline_sound_witness by blast
  have f: "bt_get (hs_features (h_active demo_s2)) ''l-base'' = Some ?f" by code_simp
  have b: "hf_status ?f = Broken" by code_simp
  have d: "\<forall>d\<in>set (hf_dependencies ?f).
      \<not> dependency_not_current (hs_features (h_active demo_s2)) d" by code_simp
  have v: "f64_le (Fin (-1)) (Fin 0)" by code_simp
  have e: "historical_edit demo_fp demo_s2 ''l-base'' ''length'' (Fin (-1)) =
      Inr (fst ?r, snd ?r)" by code_simp
  show ?thesis by (rule repeated_failure_rejected [OF wf f b d v e])
qed

section \<open>Undo and redo\<close>

lemma undo_snoc:
  assumes inv: "timeline_inv es s" and u: "undo s es = Inr e" and app: "apply_event s e = Inr s'"
  shows "timeline_positions (es @ [e]) = timeline_positions es"
    "log_cursor (es @ [e]) = log_cursor es - 1" "cursor_ends s' (es @ [e])"
proof -
  from u have "\<exists>a b c. he_operation e = Undo a b c" by (auto elim!: undo_Inr)
  then show "timeline_positions (es @ [e]) = timeline_positions es"
    "log_cursor (es @ [e]) = log_cursor es - 1"
    by (auto simp: timeline_positions_snoc is_cursor_event_def log_cursor_snoc)
  show "cursor_ends s' (es @ [e])"
    using apply_event_fields [OF app] by (simp add: cursor_ends_def)
qed

lemma find_upt_first: "i < n \<Longrightarrow> P i \<Longrightarrow> find P [i..<n] = Some i"
  by (simp add: upt_rec)

text \<open>
  Undo, when accepted, restores a snapshot that differs from the active one, namely the
  nearest earlier one of the timeline that does, and keeps the displaced snapshot as a named
  revision.
\<close>

theorem undo_moves_back:
  assumes "timeline fp es s" and u: "undo s es = Inr e"
  shows "apply_event s e = Inr \<lparr>h_active = he_active e, h_named_revisions = he_named_revisions e,
      h_event_ordinal = h_event_ordinal s + 1\<rparr> \<and>
    \<not> snapshot_eq (he_active e) (h_active s) \<and>
    (\<exists>t < nat (log_cursor es). he_active e = snd (timeline_positions es ! t) \<and>
       (\<forall>j. t < j \<longrightarrow> j \<le> nat (log_cursor es) \<longrightarrow>
          snapshot_eq (snd (timeline_positions es ! j)) (h_active s))) \<and>
    (\<exists>name nr. bt_get (he_named_revisions e) name = Some nr \<and> nr_snapshot nr = h_active s)"
proof -
  note inv = timeline_invariant [OF assms(1)]
  have "history_wf s" using inv by (simp add: timeline_inv_def)
  from undo_cmd.accepted [OF this inv u] have acc: "apply_event s e = Inr
      \<lparr>h_active = he_active e, h_named_revisions = he_named_revisions e,
       h_event_ordinal = h_event_ordinal s + 1\<rparr>" .
  from u show ?thesis
  proof (rule undo_Inr)
    fix t nrs
    let ?name = "''recovered-before-undo-'' @ show_nat (h_event_ordinal s + 1)"
    let ?p = "timeline_positions es ! t"
    assume t: "t < nat (log_cursor es)" "position_differs es (h_active s) t"
      and here: "\<not> position_differs es (h_active s) (nat (log_cursor es))"
      and between: "\<And>j. t < j \<Longrightarrow> j < nat (log_cursor es) \<Longrightarrow> \<not> position_differs es (h_active s) j"
      and pres: "preserve s ?name ''undo'' = Inr nrs"
      and e: "e = history_event_of s (Undo (fst ?p) (hs_revision_id (snd ?p)) ?name) (snd ?p) nrs"
    have "snapshot_eq (snd (timeline_positions es ! j)) (h_active s)"
      if "t < j" "j \<le> nat (log_cursor es)" for j
      using between [of j] here that by (cases "j = nat (log_cursor es)") (auto simp: position_differs_def)
    moreover have "he_active e = snd ?p" "he_named_revisions e = nrs"
      using e by simp_all
    ultimately have "\<exists>t < nat (log_cursor es). he_active e = snd (timeline_positions es ! t) \<and>
        (\<forall>j. t < j \<longrightarrow> j \<le> nat (log_cursor es) \<longrightarrow>
          snapshot_eq (snd (timeline_positions es ! j)) (h_active s))"
      using t(1) by blast
    moreover have "\<exists>name nr. bt_get (he_named_revisions e) name = Some nr \<and> nr_snapshot nr = h_active s"
      using preserve_get [OF pres] unfolding \<open>he_named_revisions e = nrs\<close>
      by (intro exI conjI) (assumption, simp)
    moreover have "\<not> snapshot_eq (he_active e) (h_active s)"
      using t(2) \<open>he_active e = snd ?p\<close> by (simp add: position_differs_def)
    ultimately show ?thesis using acc by blast
  qed
qed

definition demo_e3 :: history_event where
  "demo_e3 = demo_event (undo demo_s2 [demo_e1, demo_e2])"

definition demo_s3 :: history_state where
  "demo_s3 = demo_state (apply_event demo_s2 demo_e3)"

lemma demo_e3_Inr: "undo demo_s2 [demo_e1, demo_e2] = Inr demo_e3"
  by code_simp

lemma demo_s3_Inr: "apply_event demo_s2 demo_e3 = Inr demo_s3"
  by code_simp

theorem undo_moves_back_witness: "\<not> snapshot_eq (he_active demo_e3) (h_active demo_s2)"
  using undo_moves_back [OF demo_timeline2 demo_e3_Inr] by blast

text \<open>
  C9.  Undo then redo brings the active snapshot back whenever the timeline position before the
  cursor holds a different snapshot (and no user revision has taken the generated name).
\<close>

theorem undo_redo_roundtrip:
  assumes tl: "timeline fp es s" and u: "undo s es = Inr e1" and app: "apply_event s e1 = Inr s1"
    and adjacent: "\<not> snapshot_eq (snd (timeline_positions es ! (nat (log_cursor es) - 1))) (h_active s)"
    and free: "\<not> bt_contains (h_named_revisions s1)
      (''recovered-before-redo-'' @ show_nat (h_event_ordinal s1 + 1))"
  shows "\<exists>e2. redo s1 (es @ [e1]) = Inr e2 \<and> snapshot_eq (he_active e2) (h_active s)"
proof -
  note inv = timeline_invariant [OF tl]
  note snoc = undo_snoc [OF inv u app]
  let ?pos = "timeline_positions es" and ?c = "nat (log_cursor es)"
  from u obtain t where t: "t < ?c" "?c < length ?pos" "position_differs es (h_active s) t"
      "\<not> position_differs es (h_active s) ?c"
      "\<And>j. t < j \<Longrightarrow> j < ?c \<Longrightarrow> \<not> position_differs es (h_active s) j"
      "he_active e1 = snd (?pos ! t)"
    by (rule undo_Inr) auto
  have "t = ?c - 1"
    using t(1) t(5) [of "?c - 1"] adjacent unfolding position_differs_def
    by (cases "t < ?c - 1") auto
  with t(6) have act: "h_active s1 = snd (?pos ! (?c - 1))"
    using apply_event_fields(1) [OF app] by simp
  have c: "0 \<le> log_cursor es - 1" "nat (log_cursor es - 1) = ?c - 1" using t(1) by auto
  have same: "snapshot_eq (snd (?pos ! (?c - 1))) (h_active s1)"
    using position_ok(1) [OF inv, of "?c - 1"] t(1,2) act by (simp add: snapshot_eq_refl)
  have "\<not> snapshot_eq (snd (?pos ! ?c)) (h_active s1)"
    using t(4) adjacent act snapshot_eq_sym snapshot_eq_trans
    unfolding position_differs_def by metis
  then have "position_differs (es @ [e1]) (h_active s1) ?c"
    by (simp add: position_differs_def snoc(1))
  then have "find (position_differs (es @ [e1]) (h_active s1))
      [nat (log_cursor (es @ [e1])) + 1..<length (timeline_positions (es @ [e1]))] = Some ?c"
    using t(1,2) c(2) by (simp add: snoc(1,2) find_upt_first)
  moreover have "\<not> position_differs (es @ [e1]) (h_active s1) (nat (log_cursor (es @ [e1])))"
    using same c(2) by (simp add: position_differs_def snoc(1,2))
  ultimately have "cursor_target s1 (es @ [e1]) CursorRedo = Inr (?pos ! ?c)"
    using snoc c t(2) by (simp add: cursor_target_eq)
  with free t(4) show ?thesis
    by (auto simp: redo_def preserve_def Let_def position_differs_def split: prod.splits)
qed

theorem undo_redo_roundtrip_witness:
  "\<exists>e2. redo demo_s3 [demo_e1, demo_e2, demo_e3] = Inr e2 \<and>
     snapshot_eq (he_active e2) (h_active demo_s2)"
proof -
  have adj: "\<not> snapshot_eq (snd (timeline_positions [demo_e1, demo_e2] !
      (nat (log_cursor [demo_e1, demo_e2]) - 1))) (h_active demo_s2)" by code_simp
  have free: "\<not> bt_contains (h_named_revisions demo_s3)
      (''recovered-before-redo-'' @ show_nat (h_event_ordinal demo_s3 + 1))" by code_simp
  show ?thesis
    using undo_redo_roundtrip [OF demo_timeline2 demo_e3_Inr demo_s3_Inr adj free] by simp
qed

text \<open>
  When the timeline position before the cursor holds the same snapshot (as after creating a
  named revision), undo steps over it but the cursor that the log encodes moves by one only: after
  that undo, both undo and redo fail with an invalid-event error.
\<close>

theorem cursor_lost_after_skipping_undo:
  assumes tl: "timeline fp es s" and u: "undo s es = Inr e1" and app: "apply_event s e1 = Inr s1"
    and skipped: "snapshot_eq (snd (timeline_positions es ! (nat (log_cursor es) - 1))) (h_active s)"
  shows "redo s1 (es @ [e1]) =
      Inl (InvalidEvent ''history event log does not reproduce the active snapshot'') \<and>
    undo s1 (es @ [e1]) =
      Inl (InvalidEvent ''history event log does not reproduce the active snapshot'')"
proof -
  note inv = timeline_invariant [OF tl]
  note snoc = undo_snoc [OF inv u app]
  let ?pos = "timeline_positions es" and ?c = "nat (log_cursor es)"
  from u obtain t where t: "t < ?c" "?c < length ?pos" "position_differs es (h_active s) t"
      "he_active e1 = snd (?pos ! t)"
    by (rule undo_Inr) auto
  then have act: "h_active s1 = snd (?pos ! t)"
    using apply_event_fields(1) [OF app] by simp
  have c: "0 \<le> log_cursor es - 1" "nat (log_cursor es - 1) = ?c - 1" using t(1) by auto
  have "\<not> snapshot_eq (snd (?pos ! (?c - 1))) (h_active s1)"
    using t(3) skipped act snapshot_eq_sym snapshot_eq_trans
    unfolding position_differs_def by metis
  then have "position_differs (es @ [e1]) (h_active s1) (nat (log_cursor (es @ [e1])))"
    using c(2) by (simp add: position_differs_def snoc(1,2))
  then have "cursor_target s1 (es @ [e1]) dir =
      Inl (InvalidEvent ''history event log does not reproduce the active snapshot'')" for dir
    using snoc c t(2) by (simp add: cursor_target_eq)
  then show ?thesis by (simp add: redo_def undo_def)
qed

definition demo_n2 :: history_event where
  "demo_n2 = demo_event (create_named_revision demo_s1 ''keep'')"

definition demo_t2 :: history_state where
  "demo_t2 = demo_state (apply_event demo_s1 demo_n2)"

definition demo_n3 :: history_event where
  "demo_n3 = demo_event (undo demo_t2 [demo_e1, demo_n2])"

definition demo_t3 :: history_state where
  "demo_t3 = demo_state (apply_event demo_t2 demo_n3)"

theorem cursor_lost_after_skipping_undo_witness:
  "redo demo_t3 [demo_e1, demo_n2, demo_n3] =
     Inl (InvalidEvent ''history event log does not reproduce the active snapshot'')"
proof -
  have n2: "create_named_revision demo_s1 ''keep'' = Inr demo_n2" by code_simp
  have t2: "apply_event demo_s1 demo_n2 = Inr demo_t2" by code_simp
  have n3: "undo demo_t2 [demo_e1, demo_n2] = Inr demo_n3" by code_simp
  have t3: "apply_event demo_t2 demo_n3 = Inr demo_t3" by code_simp
  have tl: "timeline demo_fp [demo_e1, demo_n2] demo_t2"
    using timeline.step [OF demo_timeline1 produces.create [OF n2] t2] by simp
  have sk: "snapshot_eq (snd (timeline_positions [demo_e1, demo_n2] !
      (nat (log_cursor [demo_e1, demo_n2]) - 1))) (h_active demo_t2)" by code_simp
  show ?thesis using cursor_lost_after_skipping_undo [OF tl n3 t3 sk] by simp
qed

section \<open>Named revisions\<close>

lemma timeline_prefix:
  "timeline fp (es @ [e]) s' \<Longrightarrow>
   \<exists>s. timeline fp es s \<and> produces fp es s e \<and> apply_event s e = Inr s'"
  by (erule timeline.cases) auto

lemma timeline_deterministic: "timeline fp es s \<Longrightarrow> timeline fp es s' \<Longrightarrow> s = s'"
  using timeline_invariant unfolding timeline_inv_def by (metis sum.inject(2))

text \<open>
  A named revision is never lost or altered: whatever operations follow, undo, restore and
  divergent edits included, the name still stands for the same snapshot.
\<close>

theorem named_revisions_persist:
  assumes "timeline fp es s" and "timeline fp (es @ es') s'"
    and "bt_get (h_named_revisions s) name = Some nr"
  shows "bt_get (h_named_revisions s') name = Some nr"
  using assms(2)
proof (induction es' arbitrary: s' rule: rev_induct)
  case Nil
  with assms timeline_deterministic show ?case by fastforce
next
  case (snoc e es')
  from timeline_prefix [of fp "es @ es'" e s'] snoc.prems obtain t
    where t: "timeline fp (es @ es') t" "produces fp (es @ es') t e" "apply_event t e = Inr s'"
    by auto
  have "history_wf t" using timeline_invariant [OF t(1)] by (simp add: timeline_inv_def)
  from produces_named [OF t(2) this] apply_event_fields(2) [OF t(3)]
  have "bt.extends (h_named_revisions t) (h_named_revisions s')" by simp
  from bt.extends_get [OF this snoc.IH [OF t(1)]] show ?case .
qed

theorem named_revisions_persist_witness:
  "bt_get (h_named_revisions demo_s3) ''recovered-before-historical-edit-2'' =
   bt_get (h_named_revisions demo_s2) ''recovered-before-historical-edit-2''"
proof -
  have tl: "timeline demo_fp ([demo_e1, demo_e2] @ [demo_e3]) demo_s3"
    using timeline.step [OF demo_timeline2 produces.undo [OF demo_e3_Inr] demo_s3_Inr] by simp
  have "bt_contains (h_named_revisions demo_s2) ''recovered-before-historical-edit-2''" by code_simp
  then obtain nr where nr: "bt_get (h_named_revisions demo_s2)
      ''recovered-before-historical-edit-2'' = Some nr" by (auto simp: bt_contains_iff)
  from named_revisions_persist [OF demo_timeline2 tl nr] nr show ?thesis by simp
qed

end
