(* ===== verification/HistoryView.thy ===== *)
theory HistoryView
  imports HistoryUndo
begin

text \<open>
  \<^verbatim>\<open>project_feature_timeline\<close> of \<^verbatim>\<open>crates/domain/src/history.rs\<close>: the
  history of one feature as the user reads it, computed by replaying the event log.  The theory
  shows which events the projection lists and that its last entry describes the current feature.
\<close>

section \<open>The projection\<close>

datatype history_timeline_status =
  TimelineCurrentValid | TimelineBroken | TimelineBlockedByFailure | TimelineSuppressed
| TimelineAbsent

record history_timeline_entry =
  te_ordinal :: nat
  te_revision_id :: string
  te_operation :: string
  te_status :: history_timeline_status
  te_stale_fingerprint :: "string option"
  te_named_revision_names :: "string list"

record named_revision_summary =
  ns_name :: string
  ns_revision_id :: string
  ns_provenance :: string

record history_timeline =
  tl_feature_id :: string
  tl_active_revision :: string
  tl_revisions :: "history_timeline_entry list"
  tl_named_revisions :: "named_revision_summary list"

fun history_operation_name :: "history_operation \<Rightarrow> string" where
  "history_operation_name (InitializeLBracket _ _ _ _ _) = ''initialize-l-bracket''"
| "history_operation_name (HistoricalEdit _ _ _ _ _ _ _ _) = ''historical-edit''"
| "history_operation_name (CreateNamedRevision _) = ''create-named-revision''"
| "history_operation_name (RestoreNamedRevision _ _) = ''restore-named-revision''"
| "history_operation_name (Undo _ _ _) = ''undo''"
| "history_operation_name (Redo _ _ _) = ''redo''"

fun history_timeline_status_of :: "history_status \<Rightarrow> history_timeline_status" where
  "history_timeline_status_of CurrentValid = TimelineCurrentValid"
| "history_timeline_status_of Broken = TimelineBroken"
| "history_timeline_status_of BlockedByFailure = TimelineBlockedByFailure"
| "history_timeline_status_of Suppressed = TimelineSuppressed"

definition status_in :: "history_state \<Rightarrow> string \<Rightarrow> history_timeline_status" where
  "status_in s feature_id =
     (case bt_get (hs_features (h_active s)) feature_id of
        None \<Rightarrow> TimelineAbsent
      | Some f \<Rightarrow> history_timeline_status_of (hf_status f))"

definition holds_feature :: "string \<Rightarrow> named_revision \<Rightarrow> bool" where
  "holds_feature feature_id nr = bt_contains (hs_features (nr_snapshot nr)) feature_id"

fun option_feature_eq :: "history_feature option \<Rightarrow> history_feature option \<Rightarrow> bool" where
  "option_feature_eq None None = True"
| "option_feature_eq (Some f) (Some g) = feature_eq f g"
| "option_feature_eq _ _ = False"

definition active_feature :: "history_state \<Rightarrow> string \<Rightarrow> history_feature option" where
  "active_feature s feature_id = bt_get (hs_features (h_active s)) feature_id"

definition active_changed :: "history_state \<Rightarrow> history_state \<Rightarrow> string \<Rightarrow> bool" where
  "active_changed before s feature_id =
     (\<not> option_feature_eq (active_feature before feature_id) (active_feature s feature_id))"

fun operation_targets_feature ::
  "history_operation \<Rightarrow> history_state \<Rightarrow> history_state \<Rightarrow> string \<Rightarrow> bool" where
  "operation_targets_feature (InitializeLBracket _ _ _ _ _) before s i = active_changed before s i"
| "operation_targets_feature (HistoricalEdit target _ _ dirty _ _ _ _) before s i =
     (target = i \<or> list_ex (\<lambda>d. d = i) dirty)"
| "operation_targets_feature (CreateNamedRevision _) before s i = False"
| "operation_targets_feature (Undo _ _ _) before s i = active_changed before s i"
| "operation_targets_feature (Redo _ _ _) before s i = active_changed before s i"
| "operation_targets_feature (RestoreNamedRevision name _) before s i =
     (active_feature before i \<noteq> None \<or> active_feature s i \<noteq> None \<or>
      (case bt_get (h_named_revisions s) name of
         None \<Rightarrow> False
       | Some revision \<Rightarrow> holds_feature i revision))"

definition new_revision_names :: "history_state \<Rightarrow> history_state \<Rightarrow> string \<Rightarrow> string list" where
  "new_revision_names before s feature_id =
     sort (map fst (filter (\<lambda>(name, revision).
       \<not> bt_contains (h_named_revisions before) name \<and> holds_feature feature_id revision)
       (h_named_revisions s)))"

record view_run =
  vr_state :: history_state
  vr_seen :: bool
  vr_revisions :: "history_timeline_entry list"

definition sees_feature :: "history_state \<Rightarrow> history_state \<Rightarrow> string \<Rightarrow> bool" where
  "sees_feature before s feature_id =
     (active_feature s feature_id \<noteq> None \<or> active_feature before feature_id \<noteq> None \<or>
      list_ex (\<lambda>(_, revision). holds_feature feature_id revision) (h_named_revisions s))"

definition lists_event :: "history_state \<Rightarrow> history_state \<Rightarrow> history_event \<Rightarrow> string \<Rightarrow> bool" where
  "lists_event before s event feature_id =
     (active_changed before s feature_id \<or>
      operation_targets_feature (he_operation event) before s feature_id \<or>
      new_revision_names before s feature_id \<noteq> [])"

definition entry_of ::
  "history_state \<Rightarrow> history_state \<Rightarrow> history_event \<Rightarrow> string \<Rightarrow> history_timeline_entry" where
  "entry_of before s event feature_id =
     \<lparr>te_ordinal = he_ordinal event,
      te_revision_id = hs_revision_id (he_active event),
      te_operation = history_operation_name (he_operation event),
      te_status = status_in s feature_id,
      te_stale_fingerprint =
        Option.bind (active_feature s feature_id) hf_last_valid_geometry_fingerprint,
      te_named_revision_names = new_revision_names before s feature_id\<rparr>"

definition view_step :: "string \<Rightarrow> history_event \<Rightarrow> view_run \<Rightarrow> history_error + view_run" where
  "view_step feature_id event run =
     (let before = vr_state run in
      and_then (apply_event before event) (\<lambda>s.
      Inr \<lparr>vr_state = s,
           vr_seen = (vr_seen run \<or> sees_feature before s feature_id),
           vr_revisions = vr_revisions run @
             (if lists_event before s event feature_id then [entry_of before s event feature_id]
              else [])\<rparr>))"

definition view_start :: view_run where
  "view_start = \<lparr>vr_state = default_history, vr_seen = False, vr_revisions = []\<rparr>"

definition named_revision_summaries :: "string \<Rightarrow> history_state \<Rightarrow> named_revision_summary list" where
  "named_revision_summaries feature_id s =
     map (\<lambda>(_, revision). \<lparr>ns_name = nr_name revision,
            ns_revision_id = hs_revision_id (nr_snapshot revision),
            ns_provenance = nr_provenance revision\<rparr>)
       (filter (\<lambda>(_, revision). holds_feature feature_id revision) (h_named_revisions s))"

definition project_feature_timeline ::
  "history_event list \<Rightarrow> string \<Rightarrow> history_error + history_timeline" where
  "project_feature_timeline events feature_id =
     (if feature_id = [] then Inl (FeatureNotFound feature_id)
      else and_then (fold_ok (view_step feature_id) events view_start) (\<lambda>run.
      and_then (ensure (vr_seen run) (FeatureNotFound feature_id)) (\<lambda>_.
      Inr \<lparr>tl_feature_id = feature_id,
           tl_active_revision = hs_revision_id (h_active (vr_state run)),
           tl_revisions = vr_revisions run,
           tl_named_revisions = named_revision_summaries feature_id (vr_state run)\<rparr>)))"

section \<open>The run of the projection against the replay\<close>

text \<open>The projection fails exactly where the replay of the log fails, with its error.\<close>

lemma view_run_state:
  "and_then (fold_ok (view_step i) es run) (\<lambda>r. Inr (vr_state r)) =
     fold_ok (\<lambda>e s. apply_event s e) es (vr_state run)"
proof (induction es arbitrary: run)
  case Nil
  show ?case by simp
next
  case (Cons e es)
  show ?case
  proof (cases "apply_event (vr_state run) e")
    case (Inl err)
    then show ?thesis by (simp add: view_step_def Let_def)
  next
    case (Inr s)
    then show ?thesis using Cons.IH by (simp add: view_step_def Let_def)
  qed
qed

lemma view_run_cases:
  "(\<exists>err. fold_ok (view_step i) es view_start = Inl err \<and> replay es = Inl err) \<or>
   (\<exists>run. fold_ok (view_step i) es view_start = Inr run \<and> replay es = Inr (vr_state run))"
  using view_run_state [of i es view_start]
  by (cases "fold_ok (view_step i) es view_start") (auto simp: replay_def view_start_def)

lemma status_unchanged:
  "\<not> active_changed before s i \<Longrightarrow> status_in before i = status_in s i"
  by (cases "active_feature before i"; cases "active_feature s i")
    (auto simp: active_changed_def status_in_def active_feature_def feature_eq_def
      dest: arg_cong [where f = hf_status])

definition entry_for :: "history_event list \<Rightarrow> history_timeline_entry \<Rightarrow> bool" where
  "entry_for es t =
     (0 < te_ordinal t \<and> te_ordinal t \<le> length es \<and>
      te_revision_id t = hs_revision_id (he_active (es ! (te_ordinal t - 1))) \<and>
      te_operation t = history_operation_name (he_operation (es ! (te_ordinal t - 1))))"

lemma entry_for_snoc: "entry_for es t \<Longrightarrow> entry_for (es @ [e]) t"
  by (auto simp: entry_for_def nth_append)

definition view_inv :: "string \<Rightarrow> history_event list \<Rightarrow> view_run \<Rightarrow> bool" where
  "view_inv i es run =
     (h_event_ordinal (vr_state run) = length es \<and>
      sorted_wrt (<) (map te_ordinal (vr_revisions run)) \<and>
      (\<forall>t\<in>set (vr_revisions run). entry_for es t) \<and>
      status_in (vr_state run) i =
        (if vr_revisions run = [] then TimelineAbsent else te_status (last (vr_revisions run))) \<and>
      (status_in (vr_state run) i \<noteq> TimelineAbsent \<longrightarrow> vr_seen run))"

lemma status_absent: "status_in s i = TimelineAbsent \<longleftrightarrow> active_feature s i = None"
  by (auto simp: status_in_def active_feature_def split: option.splits)
    (metis history_timeline_status.distinct history_timeline_status_of.elims)

lemma view_inv_start: "view_inv i [] view_start"
  by (simp add: view_inv_def view_start_def status_in_def default_history_def)

lemma view_inv_step:
  assumes inv: "view_inv i es run" and step: "view_step i e run = Inr run'"
  shows "view_inv i (es @ [e]) run'"
proof -
  let ?b = "vr_state run"
  from step obtain s where s: "apply_event ?b e = Inr s"
    and r: "run' = \<lparr>vr_state = s, vr_seen = (vr_seen run \<or> sees_feature ?b s i),
           vr_revisions = vr_revisions run @ (if lists_event ?b s e i then [entry_of ?b s e i] else [])\<rparr>"
    by (auto simp: view_step_def Let_def and_then_Inr_iff)
  note f = apply_event_fields [OF s]
  have ord: "he_ordinal e = Suc (length es)" "h_event_ordinal s = Suc (length es)"
    using inv f by (simp_all add: view_inv_def)
  have seen: "status_in s i \<noteq> TimelineAbsent \<longrightarrow> sees_feature ?b s i"
    by (simp add: status_absent sees_feature_def)
  have old: "\<forall>t\<in>set (vr_revisions run). entry_for (es @ [e]) t"
    using inv by (auto simp: view_inv_def intro: entry_for_snoc)
  show ?thesis
  proof (cases "lists_event ?b s e i")
    case True
    have "\<forall>t\<in>set (vr_revisions run). te_ordinal t < Suc (length es)"
      using inv by (auto simp: view_inv_def entry_for_def)
    with inv True ord have "sorted_wrt (<) (map te_ordinal (vr_revisions run'))"
      by (simp add: r view_inv_def sorted_wrt_append entry_of_def)
    moreover have "entry_for (es @ [e]) (entry_of ?b s e i)"
      using ord by (simp add: entry_for_def entry_of_def)
    ultimately show ?thesis
      using True ord seen old by (simp add: r view_inv_def entry_of_def)
  next
    case False
    then have same: "status_in ?b i = status_in s i"
      by (intro status_unchanged) (simp add: lists_event_def)
    with inv False ord seen old show ?thesis
      by (simp add: r view_inv_def)
  qed
qed

lemma view_run_inv: "fold_ok (view_step i) es view_start = Inr run \<Longrightarrow> view_inv i es run"
proof (induction es arbitrary: run rule: rev_induct)
  case Nil
  then show ?case using view_inv_start by simp
next
  case (snoc e es)
  then show ?case by (auto simp: fold_ok_append and_then_Inr_iff intro: view_inv_step)
qed

text \<open>
  The projected timeline of a feature fails exactly when the log does not replay (with the
  replay's error) or the feature never occurred; otherwise its entries are events of the log in
  order, and the last entry carries the status the feature has in the replayed document.
\<close>

theorem feature_timeline_faithful:
  assumes "i \<noteq> []"
  shows "case replay es of
      Inl err \<Rightarrow> project_feature_timeline es i = Inl err
    | Inr s \<Rightarrow> project_feature_timeline es i = Inl (FeatureNotFound i) \<and> active_feature s i = None \<or>
        (\<exists>tl. project_feature_timeline es i = Inr tl \<and>
           tl_active_revision tl = hs_revision_id (h_active s) \<and>
           sorted_wrt (<) (map te_ordinal (tl_revisions tl)) \<and>
           (\<forall>t\<in>set (tl_revisions tl). entry_for es t) \<and>
           status_in s i = (if tl_revisions tl = [] then TimelineAbsent
                            else te_status (last (tl_revisions tl))))"
proof (cases "replay es")
  case (Inl err)
  with view_run_cases [of i es] assms show ?thesis
    by (auto simp: project_feature_timeline_def)
next
  case (Inr s)
  with view_run_cases [of i es] obtain run
    where run: "fold_ok (view_step i) es view_start = Inr run" "s = vr_state run" by auto
  note inv = view_run_inv [OF run(1)]
  show ?thesis
  proof (cases "vr_seen run")
    case True
    with inv run Inr assms show ?thesis
      by (simp add: project_feature_timeline_def view_inv_def)
  next
    case False
    with inv have "active_feature s i = None"
      by (auto simp: view_inv_def status_absent [symmetric] run(2))
    with False run Inr assms show ?thesis by (simp add: project_feature_timeline_def)
  qed
qed

theorem feature_timeline_faithful_witness:
  "\<exists>tl. project_feature_timeline [demo_e1, demo_e2] ''l-base'' = Inr tl \<and>
     te_status (last (tl_revisions tl)) = TimelineBroken"
proof -
  have i: "''l-base'' \<noteq> []" by simp
  have r: "replay [demo_e1, demo_e2] = Inr demo_s2" by code_simp
  have st: "status_in demo_s2 ''l-base'' = TimelineBroken" by code_simp
  have act: "active_feature demo_s2 ''l-base'' \<noteq> None"
    using st status_absent [of demo_s2 "''l-base''"] by auto
  from feature_timeline_faithful [OF i, of "[demo_e1, demo_e2]"] st act show ?thesis
    unfolding r by (auto split: if_splits)
qed

end
