(* ===== verification/Floats.thy ===== *)
theory Floats
  imports Prelude "HOL-Library.Product_Lexorder"
begin

text \<open>
  Arithmetic on \<^verbatim>\<open>f64\<close>: IEEE 754 binary64 with rounding to nearest, ties to even, over
  the type of the prelude.  The geometric checks of the domain crate compute with it.  One value
  stands for every NaN (payload and sign of a NaN are not modelled); everything else is exact:
  signed zeros, subnormals, overflow to infinity, the rounding of literals.
\<close>

section \<open>Rounding\<close>

function bit_length :: "int \<Rightarrow> int" where
  "bit_length n = (if n \<le> 0 then 0 else 1 + bit_length (n div 2))"
  by auto
termination by (relation "measure nat") auto

declare bit_length.simps [simp del]

function ipow2 :: "int \<Rightarrow> int" where
  "ipow2 e = (if e \<le> 0 then 1 else 2 * ipow2 (e - 1))"
  by auto
termination by (relation "measure nat") auto

declare ipow2.simps [simp del]

definition pow2 :: "int \<Rightarrow> rat" where
  "pow2 e = (if 0 \<le> e then of_int (ipow2 e) else 1 / of_int (ipow2 (- e)))"

text \<open>The exponent of the leading bit of a positive rational.\<close>

definition exponent_of :: "rat \<Rightarrow> int" where
  "exponent_of q =
     (case quotient_of q of (n, d) \<Rightarrow>
        let e = bit_length n - bit_length d in if pow2 e \<le> q then e else e - 1)"

definition round_half_even :: "rat \<Rightarrow> int" where
  "round_half_even m =
     (let n = \<lfloor>m\<rfloor>; d = m - of_int n in
      if d < 1 / 2 then n else if 1 / 2 < d then n + 1 else if even n then n else n + 1)"

definition round_exponent :: "int \<Rightarrow> int" where
  "round_exponent e = max e (- 1022) - 52"

text \<open>Rounding the magnitude of a result whose sign is known.\<close>

definition round_magnitude :: "bool \<Rightarrow> rat \<Rightarrow> f64" where
  "round_magnitude neg q =
     (if q = 0 then (if neg then NegZero else Fin 0)
      else let e = exponent_of q; u = round_exponent e; n = round_half_even (q / pow2 u) in
        if 1023 < e \<or> (e = 1023 \<and> n = 9007199254740992) then (if neg then NegInf else PosInf)
        else if n = 0 then (if neg then NegZero else Fin 0)
        else Fin ((if neg then - 1 else 1) * of_int n * pow2 u))"

definition f64_round :: "rat \<Rightarrow> f64" where
  "f64_round q = round_magnitude (q < 0) \<bar>q\<bar>"

section \<open>Operations\<close>

fun f64_negative :: "f64 \<Rightarrow> bool" where
  "f64_negative (Fin q) = (q < 0)"
| "f64_negative NegZero = True"
| "f64_negative PosInf = False"
| "f64_negative NegInf = True"
| "f64_negative NaN = False"

fun f64_neg :: "f64 \<Rightarrow> f64" where
  "f64_neg (Fin q) = (if q = 0 then NegZero else Fin (- q))"
| "f64_neg NegZero = Fin 0"
| "f64_neg PosInf = NegInf"
| "f64_neg NegInf = PosInf"
| "f64_neg NaN = NaN"

definition f64_abs :: "f64 \<Rightarrow> f64" where
  "f64_abs a = (if f64_negative a then f64_neg a else a)"

definition f64_add :: "f64 \<Rightarrow> f64 \<Rightarrow> f64" where
  "f64_add a b =
     (if a = NaN \<or> b = NaN then NaN
      else if a = PosInf then (if b = NegInf then NaN else PosInf)
      else if a = NegInf then (if b = PosInf then NaN else NegInf)
      else if b = PosInf \<or> b = NegInf then b
      else if a = NegZero \<and> b = NegZero then NegZero
      else f64_round (f64_value a + f64_value b))"

definition f64_sub :: "f64 \<Rightarrow> f64 \<Rightarrow> f64" where
  "f64_sub a b = f64_add a (f64_neg b)"

definition f64_is_zero :: "f64 \<Rightarrow> bool" where
  "f64_is_zero a = (a = Fin 0 \<or> a = NegZero)"

definition signed_inf :: "bool \<Rightarrow> f64" where
  "signed_inf neg = (if neg then NegInf else PosInf)"

definition f64_mul :: "f64 \<Rightarrow> f64 \<Rightarrow> f64" where
  "f64_mul a b =
     (let neg = (f64_negative a \<noteq> f64_negative b) in
      if a = NaN \<or> b = NaN then NaN
      else if \<not> f64_finite a \<or> \<not> f64_finite b then
        (if f64_is_zero a \<or> f64_is_zero b then NaN else signed_inf neg)
      else round_magnitude neg \<bar>f64_value a * f64_value b\<bar>)"

definition f64_div :: "f64 \<Rightarrow> f64 \<Rightarrow> f64" where
  "f64_div a b =
     (let neg = (f64_negative a \<noteq> f64_negative b) in
      if a = NaN \<or> b = NaN then NaN
      else if \<not> f64_finite a then (if f64_finite b then signed_inf neg else NaN)
      else if \<not> f64_finite b then round_magnitude neg 0
      else if f64_is_zero b then (if f64_is_zero a then NaN else signed_inf neg)
      else round_magnitude neg \<bar>f64_value a / f64_value b\<bar>)"

function isqrt :: "int \<Rightarrow> int" where
  "isqrt n = (if n \<le> 0 then 0
     else let r = 2 * isqrt (n div 4) in if (r + 1) * (r + 1) \<le> n then r + 1 else r)"
  by auto
termination by (relation "measure nat") auto

declare isqrt.simps [simp del]

text \<open>The square root of a positive finite value, correctly rounded.\<close>

definition sqrt_magnitude :: "rat \<Rightarrow> f64" where
  "sqrt_magnitude q =
     (let u = exponent_of q div 2 - 52; m = q / (pow2 u * pow2 u); n = isqrt \<lfloor>m\<rfloor>;
          half = of_int n + 1 / 2 in
      Fin (of_int (if m < half * half then n
                   else if half * half < m then n + 1
                   else if even n then n else n + 1) * pow2 u))"

fun f64_sqrt :: "f64 \<Rightarrow> f64" where
  "f64_sqrt (Fin q) = (if q = 0 then Fin 0 else if q < 0 then NaN else sqrt_magnitude q)"
| "f64_sqrt NegZero = NegZero"
| "f64_sqrt PosInf = PosInf"
| "f64_sqrt NegInf = NaN"
| "f64_sqrt NaN = NaN"

text \<open>\<^verbatim>\<open>f64::max\<close> ignores a NaN operand; \<^verbatim>\<open>sum\<close> starts from the negative zero.\<close>

definition f64_max :: "f64 \<Rightarrow> f64 \<Rightarrow> f64" where
  "f64_max a b = (if a = NaN then b else if b = NaN then a else if f64_lt a b then b else a)"

definition f64_sum :: "f64 list \<Rightarrow> f64" where
  "f64_sum xs = foldl f64_add NegZero xs"

text \<open>\<^verbatim>\<open>total_cmp\<close> as a key: the order of \<open>-inf\<close>, the finite numbers with
  \<open>-0\<close> below \<open>0\<close>, \<open>inf\<close>, and NaN above.\<close>

fun f64_total_key :: "f64 \<Rightarrow> int \<times> rat \<times> int" where
  "f64_total_key (Fin q) = (1, q, 1)"
| "f64_total_key NegZero = (1, 0, 0)"
| "f64_total_key NegInf = (0, 0, 0)"
| "f64_total_key PosInf = (2, 0, 0)"
| "f64_total_key NaN = (3, 0, 0)"

text \<open>Literals of the source are rounded as the compiler rounds them.\<close>

definition f64_lit :: "rat \<Rightarrow> f64" where
  "f64_lit q = f64_round q"

definition f64_epsilon :: f64 where
  "f64_epsilon = Fin (pow2 (- 52))"

section \<open>Facts\<close>

lemma f64_total_key_inj: "f64_total_key a = f64_total_key b \<Longrightarrow> a = b"
  by (cases a; cases b) auto

lemma ipow2_pos: "0 < ipow2 e"
  by (induction e rule: ipow2.induct) (subst ipow2.simps, simp)

lemma pow2_pos: "0 < pow2 e"
  using ipow2_pos by (simp add: pow2_def)

lemma f64_neg_value: "f64_finite a \<Longrightarrow> f64_value (f64_neg a) = - f64_value a"
  by (cases a) auto

lemma f64_neg_finite [simp]: "f64_finite (f64_neg a) \<longleftrightarrow> f64_finite a"
  by (cases a) auto

lemma f64_sub_self:
  assumes "f64_finite a"
  shows "f64_value (f64_sub a a) = 0 \<and> f64_finite (f64_sub a a)"
  using assms
  by (cases a) (auto simp: f64_sub_def f64_add_def f64_round_def round_magnitude_def)

lemma f64_abs_sub_self:
  assumes "f64_finite a"
  shows "f64_abs (f64_sub a a) = Fin 0"
  using f64_sub_self [OF assms]
  by (cases "f64_sub a a") (auto simp: f64_abs_def)

end
