(* ===== verification/ReferenceProps.thy ===== *)
theory ReferenceProps
  imports References
begin

text \<open>
  What the reattachment of a face or an edge promises.  Both resolvers narrow the candidates by
  lineage, role and geometry in the same way, which the locale \<open>reattacher\<close> states; the
  meaning of the outcomes and their independence of the candidate order are proved there once.
\<close>

section \<open>Sorted identifier lists\<close>

lemma sort_mset_cong: "mset xs = mset ys \<Longrightarrow> sort xs = sort ys"
  by (metis mset_sort properties_for_sort sorted_sort)

lemma sort_map_perm: "mset xs = mset ys \<Longrightarrow> sort (map f xs) = sort (map f ys)"
  by (rule sort_mset_cong) simp

lemma two_elements: "2 \<le> length xs \<Longrightarrow> \<exists>a b ys. xs = a # b # ys"
  by (cases xs; cases "tl xs") auto

lemma filter_mset_cong: "mset xs = mset ys \<Longrightarrow> mset (filter P xs) = mset (filter P ys)"
  by simp

lemma list_ex_mset_cong: "mset xs = mset ys \<Longrightarrow> list_ex P xs = list_ex P ys"
  by (simp add: list_ex_iff) (metis mset_eq_setD)

section \<open>The interface of the resolvers\<close>

locale reattacher =
  fixes resolve :: "'r \<Rightarrow> 'c list \<Rightarrow> reattachment"
    and bad_reference :: "'r \<Rightarrow> bool"
    and bad :: "'c \<Rightarrow> bool"
    and same_lineage :: "'r \<Rightarrow> 'c \<Rightarrow> bool"
    and same_role :: "'r \<Rightarrow> 'c \<Rightarrow> bool"
    and same_shape :: "'r \<Rightarrow> 'c \<Rightarrow> bool"
    and name :: "'c \<Rightarrow> string"
    and report :: "string list \<Rightarrow> string list"
    and report_ambiguous :: "string list \<Rightarrow> string list"
  assumes resolve_steps: "resolve r cs =
      (let lineage = filter (same_lineage r) cs;
           role_matches = filter (same_role r) lineage;
           matches = filter (same_shape r) role_matches in
       if bad_reference r then Incompatible []
       else if list_ex bad cs then Incompatible (report (map name cs))
       else if lineage = [] then Lost
       else case matches of
           [] \<Rightarrow> Incompatible (report (map name lineage))
         | [c] \<Rightarrow> Resolved (name c)
         | _ \<Rightarrow> Ambiguous (report_ambiguous (map name matches)))"
    and report_perm: "mset xs = mset ys \<Longrightarrow> report xs = report ys"
    and report_ambiguous_perm: "mset xs = mset ys \<Longrightarrow> report_ambiguous xs = report_ambiguous ys"
begin

definition matches :: "'r \<Rightarrow> 'c \<Rightarrow> bool" where
  "matches r c \<longleftrightarrow> same_lineage r c \<and> same_role r c \<and> same_shape r c"

lemma matches_filter:
  "filter (same_shape r) (filter (same_role r) (filter (same_lineage r) cs)) = filter (matches r) cs"
  by (simp add: matches_def [abs_def] conj_commute conj_left_commute)

lemma resolve_eq:
  "resolve r cs =
     (if bad_reference r then Incompatible []
      else if list_ex bad cs then Incompatible (report (map name cs))
      else if filter (same_lineage r) cs = [] then Lost
      else case filter (matches r) cs of
          [] \<Rightarrow> Incompatible (report (map name (filter (same_lineage r) cs)))
        | [c] \<Rightarrow> Resolved (name c)
        | _ \<Rightarrow> Ambiguous (report_ambiguous (map name (filter (matches r) cs))))"
  by (simp only: resolve_steps Let_def matches_filter)

lemma resolved_iff:
  "resolve r cs = Resolved i \<longleftrightarrow>
     \<not> bad_reference r \<and> \<not> list_ex bad cs \<and>
     (\<exists>c. filter (matches r) cs = [c] \<and> i = name c)"
proof -
  have "filter (same_lineage r) cs \<noteq> []" if "filter (matches r) cs = [c]" for c
  proof -
    from that have "c \<in> set (filter (matches r) cs)" by simp
    then have "c \<in> set (filter (same_lineage r) cs)" by (simp add: matches_def)
    then show ?thesis by (metis empty_iff list.set(1))
  qed
  then show ?thesis
    by (auto simp: resolve_eq split: list.splits)
qed

lemma lost_iff:
  "resolve r cs = Lost \<longleftrightarrow>
     \<not> bad_reference r \<and> \<not> list_ex bad cs \<and> (\<forall>c\<in>set cs. \<not> same_lineage r c)"
  by (auto simp: resolve_eq filter_empty_conv split: list.splits)

lemma ambiguous_iff:
  "(\<exists>ids. resolve r cs = Ambiguous ids) \<longleftrightarrow>
     \<not> bad_reference r \<and> \<not> list_ex bad cs \<and> 2 \<le> length (filter (matches r) cs)"
proof -
  have "filter (same_lineage r) cs \<noteq> []" if "2 \<le> length (filter (matches r) cs)"
  proof -
    from that obtain c where "c \<in> set (filter (matches r) cs)"
      by (cases "filter (matches r) cs") auto
    then have "c \<in> set (filter (same_lineage r) cs)" by (simp add: matches_def)
    then show ?thesis by (metis empty_iff list.set(1))
  qed
  then show ?thesis
    by (auto simp: resolve_eq split: list.splits)
qed

lemma order_independent:
  assumes "mset cs = mset cs'"
  shows "resolve r cs = resolve r cs'"
proof -
  let ?m = "filter (matches r)" and ?l = "filter (same_lineage r)"
  have m: "mset (?m cs) = mset (?m cs')" and l: "mset (?l cs) = mset (?l cs')"
    using assms by simp_all
  have bad: "list_ex bad cs = list_ex bad cs'" using assms by (rule list_ex_mset_cong)
  have names: "report (map name cs) = report (map name cs')"
      "report (map name (?l cs)) = report (map name (?l cs'))"
      "report_ambiguous (map name (?m cs)) = report_ambiguous (map name (?m cs'))"
    using assms l m by (auto intro!: report_perm report_ambiguous_perm)
  have empty: "?l cs = [] \<longleftrightarrow> ?l cs' = []" using l by (metis mset_zero_iff)
  show ?thesis
  proof (cases "?m cs")
    case Nil
    then have "?m cs' = []" using m by simp
    with Nil show ?thesis using bad names empty by (simp add: resolve_eq)
  next
    case (Cons c rest)
    show ?thesis
    proof (cases rest)
      case Nil
      with Cons m have "mset (?m cs') = {#c#}" by (metis mset_single_iff_right)
      then have "?m cs' = [c]" by (simp del: mset_filter)
      with Cons Nil show ?thesis using bad names empty by (simp add: resolve_eq)
    next
      case (Cons d rest')
      have several: "resolve r ds =
          (if bad_reference r then Incompatible []
           else if list_ex bad ds then Incompatible (report (map name ds))
           else if ?l ds = [] then Lost
           else Ambiguous (report_ambiguous (map name (?m ds))))" if "2 \<le> length (?m ds)" for ds
        using two_elements [OF that] by (auto simp: resolve_eq)
      have "2 \<le> length (?m cs)" using \<open>?m cs = c # rest\<close> Cons by simp
      moreover from this have "2 \<le> length (?m cs')" using m by (metis size_mset)
      ultimately show ?thesis using bad names empty by (simp only: several)
    qed
  qed
qed

end

lemma remdups_sort_perm:
  "mset xs = mset ys \<Longrightarrow> remdups_adj (sort xs) = remdups_adj (sort ys)" for xs :: "string list"
  by (drule sort_mset_cong) simp

interpretation faces: reattacher resolve_planar_face_reference
  "\<lambda>r. \<not> is_ok (validate_face_reference r)" "\<lambda>c. \<not> is_ok (validate_face_candidate c)"
  "\<lambda>r c. pf_provenance c = pf_provenance r" "\<lambda>r c. pf_role c = pf_role r"
  "\<lambda>r c. frame_matches (pf_evidence r) (pf_evidence c)" pf_semantic_id
  "\<lambda>ids. remdups_adj (sort ids)" sort
proof (unfold_locales, goal_cases)
  case (1 r cs)
  show ?case
    by (auto simp: resolve_planar_face_reference_def Let_def face_candidate_ids_def
        simp del: filter_filter split: list.splits)
next
  case (2 xs ys)
  then show ?case by (rule remdups_sort_perm)
next
  case (3 xs ys)
  then show ?case by (rule sort_mset_cong)
qed

interpretation edges: reattacher resolve_edge_reference edge_invalid edge_invalid
  "\<lambda>r c. ed_provenance c = ed_provenance r" "\<lambda>r c. ed_role c = ed_role r"
  "\<lambda>r c. geometric_match (ed_evidence r) (ed_evidence c)" ed_semantic_id
  "\<lambda>ids. remdups_adj (sort ids)" "\<lambda>ids. remdups_adj (sort ids)"
proof (unfold_locales, goal_cases)
  case (1 r cs)
  show ?case
    by (auto simp: resolve_edge_reference_def Let_def sorted_candidate_ids_def
        simp del: filter_filter split: list.splits)
next
  case (2 xs ys)
  then show ?case by (rule remdups_sort_perm)
qed

section \<open>Properties\<close>

definition edge_matches :: "edge \<Rightarrow> edge \<Rightarrow> bool" where
  "edge_matches r c =
     (ed_provenance c = ed_provenance r \<and> ed_role c = ed_role r \<and>
      geometric_match (ed_evidence r) (ed_evidence c))"

lemma edge_matches_eq: "edges.matches = edge_matches"
  by (intro ext) (simp add: edges.matches_def edge_matches_def)

text \<open>
  C10.  A selected edge is reattached exactly when the reference and all candidates are valid and
  one candidate alone agrees in lineage, role and geometry; it is lost exactly when no valid
  candidate shares its lineage, and ambiguous exactly when several candidates agree.  The resolver
  for split edges attaches nothing more.
\<close>

theorem edge_outcomes:
  "(resolve_edge_reference r cs = Resolved i \<longleftrightarrow>
      list_all (\<lambda>c. \<not> edge_invalid c) (r # cs) \<and>
      (\<exists>c. filter (edge_matches r) cs = [c] \<and> i = ed_semantic_id c)) \<and>
   (resolve_edge_reference r cs = Lost \<longleftrightarrow>
      list_all (\<lambda>c. \<not> edge_invalid c) (r # cs) \<and>
      (\<forall>c\<in>set cs. ed_provenance c \<noteq> ed_provenance r)) \<and>
   ((\<exists>ids. resolve_edge_reference r cs = Ambiguous ids) \<longleftrightarrow>
      list_all (\<lambda>c. \<not> edge_invalid c) (r # cs) \<and> 2 \<le> length (filter (edge_matches r) cs)) \<and>
   (resolve_split_edge_reference r cs = Resolved i \<longleftrightarrow> resolve_edge_reference r cs = Resolved i)"
proof -
  have "resolve_split_edge_reference r cs = Resolved i \<longleftrightarrow> resolve_edge_reference r cs = Resolved i"
    by (auto simp: resolve_split_edge_reference_def Let_def split: reattachment.splits if_splits)
  moreover have "list_ex edge_invalid cs \<longleftrightarrow> \<not> list_all (\<lambda>c. \<not> edge_invalid c) cs"
    by (simp add: list_ex_iff list_all_iff)
  ultimately show ?thesis
    using edges.resolved_iff [of r cs i] edges.lost_iff [of r cs] edges.ambiguous_iff [of r cs]
    unfolding edge_matches_eq by (simp add: conj_assoc)
qed

definition demo_edge :: "string \<Rightarrow> f64 \<Rightarrow> edge" where
  "demo_edge i y = \<lparr>ed_semantic_id = i,
     ed_provenance = \<lparr>ep_source_feature_id = ''f'', ep_source_revision_id = ''r'',
                      ep_source_edge_id = ''e''\<rparr>,
     ed_role = ''side'',
     ed_evidence = \<lparr>ee_midpoint = (Fin 0, y, Fin 0), ee_tangent = (Fin 1, Fin 0, Fin 0),
                    ee_length = Fin 2\<rparr>\<rparr>"

theorem edge_outcomes_witness:
  "resolve_edge_reference (demo_edge ''e'' (Fin 0))
     [demo_edge ''far'' (Fin 1), demo_edge ''near'' (Fin 0)] = Resolved ''near''"
proof -
  have "list_all (\<lambda>c. \<not> edge_invalid c) (demo_edge ''e'' (Fin 0) #
      [demo_edge ''far'' (Fin 1), demo_edge ''near'' (Fin 0)])" by code_simp
  moreover have "filter (edge_matches (demo_edge ''e'' (Fin 0)))
      [demo_edge ''far'' (Fin 1), demo_edge ''near'' (Fin 0)] = [demo_edge ''near'' (Fin 0)]"
    by code_simp
  moreover have "''near'' = ed_semantic_id (demo_edge ''near'' (Fin 0))"
    by (simp add: demo_edge_def)
  ultimately show ?thesis
    using edge_outcomes [of "demo_edge ''e'' (Fin 0)"
        "[demo_edge ''far'' (Fin 1), demo_edge ''near'' (Fin 0)]" "''near''"] by blast
qed

text \<open>
  Reattachment never consults topology order: permuting the candidates changes the outcome
  of neither resolver, the reported identifiers included.
\<close>

theorem reattachment_ignores_order:
  assumes "mset cs = mset cs'" and "mset ds = mset ds'"
  shows "resolve_edge_reference r cs = resolve_edge_reference r cs' \<and>
    resolve_planar_face_reference q ds = resolve_planar_face_reference q ds'"
  using assms edges.order_independent faces.order_independent by blast

definition demo_face :: "string \<Rightarrow> f64 \<Rightarrow> planar_face" where
  "demo_face i z = \<lparr>pf_semantic_id = i,
     pf_provenance = \<lparr>fp_source_feature_id = ''box'', fp_source_revision_id = ''rev-1'',
                      fp_source_face_id = ''top''\<rparr>,
     pf_role = ''support'',
     pf_evidence = \<lparr>fe_topology_kind = ''planar_face'', fe_origin = (Fin 0, Fin 0, z),
       fe_normal = (Fin 0, Fin 0, Fin 1), fe_x_axis = (Fin 1, Fin 0, Fin 0),
       fe_y_axis = (Fin 0, Fin 1, Fin 0), fe_adjacent_feature_ids = []\<rparr>\<rparr>"

theorem reattachment_ignores_order_witness:
  "resolve_edge_reference (demo_edge ''e'' (Fin 0))
       [demo_edge ''b'' (Fin 0), demo_edge ''a'' (Fin 0)] =
     resolve_edge_reference (demo_edge ''e'' (Fin 0))
       [demo_edge ''a'' (Fin 0), demo_edge ''b'' (Fin 0)] \<and>
   resolve_planar_face_reference (demo_face ''top'' (Fin 0))
       [demo_face ''b'' (Fin 0), demo_face ''a'' (Fin 0)] =
     resolve_planar_face_reference (demo_face ''top'' (Fin 0))
       [demo_face ''a'' (Fin 0), demo_face ''b'' (Fin 0)]"
  by (rule reattachment_ignores_order) (simp_all add: add_mset_commute)

lemma frame_matches_refl:
  assumes "is_ok (validate_face_evidence e)"
  shows "frame_matches e e"
proof -
  have "list_all f64_finite (v3 (fe_origin e) @ v3 (fe_x_axis e) @ v3 (fe_y_axis e) @ v3 (fe_normal e))"
    using assms by (auto simp: validate_face_evidence_def validate_frame_def is_ok_iff and_then_Inr_iff)
  then have fin: "f64_finite a" if "a \<in> set (v3 (fe_origin e) @ v3 (fe_x_axis e) @
      v3 (fe_y_axis e) @ v3 (fe_normal e))" for a
    using that by (auto simp: list_all_iff)
  have tol: "f64_le (Fin 0) tolerance_6" by code_simp
  have same: "(a, b) \<in> set (zip xs xs) \<Longrightarrow> a = b \<and> a \<in> set xs" for a b :: f64 and xs
    by (metis in_set_zip nth_mem prod.collapse fst_conv snd_conv)
  have "f64_le (f64_abs (f64_sub a b)) tolerance_6"
    if "(a, b) \<in> set (zip (v3 (fe_origin e)) (v3 (fe_origin e)) @ zip (v3 (fe_normal e)) (v3 (fe_normal e)) @
        zip (v3 (fe_x_axis e)) (v3 (fe_x_axis e)) @ zip (v3 (fe_y_axis e)) (v3 (fe_y_axis e)))" for a b
  proof -
    from that same have "a = b" "f64_finite a" by (auto intro!: fin)
    then show ?thesis using tol by (simp add: f64_abs_sub_self)
  qed
  then show ?thesis
    by (auto simp: frame_matches_def frame_matches_placement_def list_all_iff)
qed

text \<open>
  A selected face that an edit leaves unchanged is reattached to itself, as long as every
  candidate is valid and no other one has the same lineage and role.
\<close>

theorem unchanged_face_reattached:
  assumes ok: "is_ok (validate_face_reference f)"
    and cands: "\<forall>c\<in>set (before @ after). is_ok (validate_face_candidate c) \<and>
      \<not> (pf_provenance c = pf_provenance f \<and> pf_role c = pf_role f)"
  shows "resolve_planar_face_reference f (before @ f # after) = Resolved (pf_semantic_id f)"
proof -
  have self: "is_ok (validate_face_candidate f)" "frame_matches (pf_evidence f) (pf_evidence f)"
    using ok
    by (auto simp: validate_face_reference_def validate_face_candidate_def
        validate_face_identity_def is_ok_iff and_then_Inr_iff intro!: frame_matches_refl)
  have "filter (faces.matches f) before = []" "filter (faces.matches f) after = []"
    using cands by (auto simp: faces.matches_def filter_empty_conv)
  with self have "filter (faces.matches f) (before @ f # after) = [f]"
    by (simp add: faces.matches_def)
  moreover have "\<not> list_ex (\<lambda>c. \<not> is_ok (validate_face_candidate c)) (before @ f # after)"
    using cands self by (auto simp: list_ex_iff)
  ultimately show ?thesis using ok by (simp add: faces.resolved_iff)
qed

theorem unchanged_face_reattached_witness:
  "resolve_planar_face_reference (demo_face ''top'' (Fin 5))
     [(demo_face ''side'' (Fin 0))\<lparr>pf_role := ''other''\<rparr>, demo_face ''top'' (Fin 5)] =
   Resolved ''top''"
proof -
  have "is_ok (validate_face_reference (demo_face ''top'' (Fin 5)))" by code_simp
  moreover have "\<forall>c\<in>set ([(demo_face ''side'' (Fin 0))\<lparr>pf_role := ''other''\<rparr>] @ []).
      is_ok (validate_face_candidate c) \<and> \<not> (pf_provenance c = pf_provenance (demo_face ''top'' (Fin 5)) \<and>
        pf_role c = pf_role (demo_face ''top'' (Fin 5)))" by code_simp
  ultimately show ?thesis
    using unchanged_face_reattached [of "demo_face ''top'' (Fin 5)"
        "[(demo_face ''side'' (Fin 0))\<lparr>pf_role := ''other''\<rparr>]" "[]"]
    by (simp add: demo_face_def)
qed

end
