(* ===== verification/Sketch.thy ===== *)
theory Sketch
  imports ReferenceProps OrderedMap
begin

text \<open>
  Sketches and the feature graph of \<^verbatim>\<open>crates/domain/src/lib.rs\<close>:
  \<^verbatim>\<open>SketchPayload::validate\<close>, \<^verbatim>\<open>FitDimension::validate\<close> and the operations of
  \<^verbatim>\<open>FeatureGraph\<close>.  An operation that takes \<^verbatim>\<open>&mut self\<close> returns the graph it
  leaves together with its result.
\<close>

section \<open>Data\<close>

datatype sketch_entity =
  Point string f64 f64
| LineSegment string string string
| Circle string string f64
| Arc string string string string

record sketch_constraint =
  sc_id :: string
  sc_kind :: string
  sc_entities :: "string list"
  sc_value :: "f64 option"

record solved_coordinate =
  so_entity_id :: string
  so_x :: f64
  so_y :: f64

record sketch_diagnostic =
  sd_code :: string
  sd_detail :: string
  sd_constraint_ids :: "string list"

record sketch_payload =
  sk_feature_id :: string
  sk_entities :: "sketch_entity list"
  sk_constraints :: "sketch_constraint list"
  sk_status :: string
  sk_dof :: int
  sk_entity_ids :: "string list"
  sk_related_constraint_ids :: "string list"
  sk_diagnostics :: "sketch_diagnostic list"
  sk_solved_coordinates :: "solved_coordinate list option"
  sk_support :: "planar_face option"
  sk_placement :: "sketch_placement option"
  sk_reattachment_outcome :: "reattachment option"

fun entity_id :: "sketch_entity \<Rightarrow> string" where
  "entity_id (Point i _ _) = i"
| "entity_id (LineSegment i _ _) = i"
| "entity_id (Circle i _ _) = i"
| "entity_id (Arc i _ _ _) = i"

section \<open>Validation of a sketch\<close>

definition known_entity :: "sketch_entity list \<Rightarrow> string \<Rightarrow> bool" where
  "known_entity entities i = list_ex (\<lambda>c. entity_id c = i) entities"

fun validate_entity :: "sketch_entity list \<Rightarrow> sketch_entity \<Rightarrow> string + unit" where
  "validate_entity entities (Point i x y) =
     ensure (f64_finite x \<and> f64_finite y) ''sketch point coordinates must be finite''"
| "validate_entity entities (LineSegment i start stop) =
     and_then (ensure (start \<noteq> stop) ''sketch line endpoints must differ'') (\<lambda>_.
     ensure (known_entity entities start \<and> known_entity entities stop)
       ''sketch line references an unknown point'')"
| "validate_entity entities (Circle i center radius) =
     ensure (known_entity entities center \<and> f64_finite radius \<and> \<not> f64_le radius (Fin 0))
       ''sketch circle must have a valid center and radius''"
| "validate_entity entities (Arc i center start stop) =
     ensure (known_entity entities center \<and> known_entity entities start \<and> known_entity entities stop)
       ''sketch arc references an unknown point''"

definition claim_id :: "string \<Rightarrow> string \<Rightarrow> string bset \<Rightarrow> string + string bset" where
  "claim_id msg i ids =
     and_then (ensure (i \<noteq> [] \<and> i \<notin> set ids) msg) (\<lambda>_. Inr (bs_insert i ids))"

definition entity_pass :: "sketch_entity list \<Rightarrow> sketch_entity \<Rightarrow> string bset \<Rightarrow> string + string bset"
where
  "entity_pass entities e ids =
     and_then (validate_entity entities e) (\<lambda>_.
     claim_id ''sketch entity IDs must be unique'' (entity_id e) ids)"

definition constraint_pass ::
  "sketch_entity list \<Rightarrow> sketch_constraint \<Rightarrow> string bset \<Rightarrow> string + string bset" where
  "constraint_pass entities c ids =
     and_then (claim_id ''sketch entity and constraint IDs must be globally unique'' (sc_id c) ids)
       (\<lambda>ids'.
     and_then (ensure (case sc_value c of None \<Rightarrow> True | Some v \<Rightarrow> f64_finite v)
                ''sketch constraint values must be finite'') (\<lambda>_.
     and_then (ensure (list_all (known_entity entities) (sc_entities c))
                ''sketch constraint references an unknown entity'') (\<lambda>_.
     Inr ids')))"

definition validate_attachment :: "sketch_payload \<Rightarrow> string + unit" where
  "validate_attachment s =
     and_then (ensure ((sk_support s \<noteq> None) = (sk_placement s \<noteq> None))
                ''sketch support and placement must be provided together'') (\<lambda>_.
     and_then (ensure (\<not> (sk_support s = None \<and> sk_reattachment_outcome s \<noteq> None))
                ''unattached sketches must not carry a reattachment outcome'') (\<lambda>_.
     case sk_support s of
       None \<Rightarrow> Inr ()
     | Some support \<Rightarrow>
         and_then (validate_face_placement support (the (sk_placement s))) (\<lambda>_.
         and_then (ensure (sk_reattachment_outcome s \<noteq> None)
                    ''attached sketches require a reattachment outcome'') (\<lambda>_.
         ensure (case sk_reattachment_outcome s of
                   Some (Resolved semantic_id) \<Rightarrow> semantic_id = pf_semantic_id support
                 | _ \<Rightarrow> False)
           ''attached sketches require a resolved support outcome''))))"

definition sketch_statuses :: "string list" where
  "sketch_statuses = [''solved'', ''underconstrained'', ''redundant'', ''inconsistent'',
     ''nonconvergent'', ''invalid_request'']"

definition point_ids :: "sketch_entity list \<Rightarrow> string list" where
  "point_ids entities =
     List.map_filter (\<lambda>e. case e of Point i _ _ \<Rightarrow> Some i | _ \<Rightarrow> None) entities"

definition validate_solution :: "sketch_payload \<Rightarrow> string + unit" where
  "validate_solution s =
     (if sk_status s = ''solved'' then
        and_then (ok_or (sk_solved_coordinates s) ''solved sketches require coordinates'')
          (\<lambda>coordinates.
        let coordinate_ids = bs_of (map so_entity_id coordinates) in
        ensure (\<not> (coordinate_ids \<noteq> bs_of (point_ids (sk_entities s)) \<or>
                   length coordinates \<noteq> length coordinate_ids \<or>
                   list_ex (\<lambda>c. \<not> f64_finite (so_x c) \<or> \<not> f64_finite (so_y c)) coordinates))
          ''solved sketch coordinates must be finite'')
      else ensure (sk_solved_coordinates s = None)
             ''failed sketches must not carry solved coordinates'')"

definition validate_sketch :: "sketch_payload \<Rightarrow> string + unit" where
  "validate_sketch s =
     and_then (ensure (\<not> (sk_feature_id s = [] \<or> sk_entities s = []))
                ''sketch feature and entities must not be empty'') (\<lambda>_.
     and_then (validate_attachment s) (\<lambda>_.
     and_then (ensure (\<not> sk_dof s < 0) ''sketch dof must not be negative'') (\<lambda>_.
     and_then (fold_ok (entity_pass (sk_entities s)) (sk_entities s) []) (\<lambda>ids.
     and_then (fold_ok (constraint_pass (sk_entities s)) (sk_constraints s) ids) (\<lambda>_.
     and_then (ensure (sk_status s \<in> set sketch_statuses) ''sketch status is not normalized'') (\<lambda>_.
     and_then (ensure (sk_entity_ids s = map entity_id (sk_entities s))
                ''sketch entity_ids must match entity order'') (\<lambda>_.
     and_then (ensure (\<not> (sk_status s = ''solved'' \<and> sk_dof s \<noteq> 0))
                ''solved sketches must have zero degrees of freedom'') (\<lambda>_.
     validate_solution s))))))))"

section \<open>Fit dimensions\<close>

record fit_dimension =
  fd_id :: string
  fd_source_feature_id :: string
  fd_target_feature_id :: string
  fd_source_dimension_id :: string
  fd_target_dimension_id :: string
  fd_dimension :: string
  fd_source_value :: f64
  fd_target_value :: f64
  fd_clearance :: f64

definition validate_fit :: "fit_dimension \<Rightarrow> string + unit" where
  "validate_fit d =
     and_then (ensure (\<not> (fd_id d = [] \<or> fd_source_feature_id d = [] \<or>
                          fd_target_feature_id d = [] \<or> fd_source_dimension_id d = [] \<or>
                          fd_target_dimension_id d = [] \<or> fd_dimension d = []))
                ''fit dimension IDs and dimension must not be empty'') (\<lambda>_.
     and_then (ensure (fd_source_feature_id d \<noteq> fd_target_feature_id d)
                ''fit dimension source and target must differ'') (\<lambda>_.
     and_then (ensure (list_all (\<lambda>v. f64_finite v \<and> f64_pos v)
                        [fd_source_value d, fd_target_value d, fd_clearance d])
                ''fit dimension values must be strictly positive and finite'') (\<lambda>_.
     let expected_target = f64_sub (fd_source_value d) (f64_mul (Fin 2) (fd_clearance d)) in
     ensure (\<not> (f64_le expected_target (Fin 0) \<or>
                f64_lt (f64_lit (1 / 1000000000))
                  (f64_abs (f64_sub expected_target (fd_target_value d)))))
       ''fit dimension target must equal source dimension minus twice the clearance'')))"

section \<open>Derived equality\<close>

definition vec3_eq :: "vec3 \<Rightarrow> vec3 \<Rightarrow> bool" where
  "vec3_eq v w = list_all2 f64_eq (v3 v) (v3 w)"

definition evidence_eq :: "planar_face_evidence \<Rightarrow> planar_face_evidence \<Rightarrow> bool" where
  "evidence_eq a b =
     (fe_topology_kind a = fe_topology_kind b \<and> vec3_eq (fe_origin a) (fe_origin b) \<and>
      vec3_eq (fe_normal a) (fe_normal b) \<and> vec3_eq (fe_x_axis a) (fe_x_axis b) \<and>
      vec3_eq (fe_y_axis a) (fe_y_axis b) \<and>
      fe_adjacent_feature_ids a = fe_adjacent_feature_ids b)"

definition face_eq :: "planar_face \<Rightarrow> planar_face \<Rightarrow> bool" where
  "face_eq a b =
     (pf_semantic_id a = pf_semantic_id b \<and> pf_provenance a = pf_provenance b \<and>
      pf_role a = pf_role b \<and> evidence_eq (pf_evidence a) (pf_evidence b))"

fun option_eq :: "('a \<Rightarrow> 'a \<Rightarrow> bool) \<Rightarrow> 'a option \<Rightarrow> 'a option \<Rightarrow> bool" where
  "option_eq R None None = True"
| "option_eq R (Some a) (Some b) = R a b"
| "option_eq R _ _ = False"

fun entity_eq :: "sketch_entity \<Rightarrow> sketch_entity \<Rightarrow> bool" where
  "entity_eq (Point i x y) (Point j x' y') = (i = j \<and> f64_eq x x' \<and> f64_eq y y')"
| "entity_eq (Circle i c r) (Circle j c' r') = (i = j \<and> c = c' \<and> f64_eq r r')"
| "entity_eq a b = (a = b)"

definition constraint_eq :: "sketch_constraint \<Rightarrow> sketch_constraint \<Rightarrow> bool" where
  "constraint_eq a b =
     (sc_id a = sc_id b \<and> sc_kind a = sc_kind b \<and> sc_entities a = sc_entities b \<and>
      option_eq f64_eq (sc_value a) (sc_value b))"

definition coordinate_eq :: "solved_coordinate \<Rightarrow> solved_coordinate \<Rightarrow> bool" where
  "coordinate_eq a b =
     (so_entity_id a = so_entity_id b \<and> f64_eq (so_x a) (so_x b) \<and> f64_eq (so_y a) (so_y b))"

text \<open>Placements are compared bit by bit, everything else by the derived equality.\<close>

definition sketch_eq :: "sketch_payload \<Rightarrow> sketch_payload \<Rightarrow> bool" where
  "sketch_eq a b =
     (sk_feature_id a = sk_feature_id b \<and> list_all2 entity_eq (sk_entities a) (sk_entities b) \<and>
      list_all2 constraint_eq (sk_constraints a) (sk_constraints b) \<and>
      sk_status a = sk_status b \<and> sk_dof a = sk_dof b \<and> sk_entity_ids a = sk_entity_ids b \<and>
      sk_related_constraint_ids a = sk_related_constraint_ids b \<and>
      sk_diagnostics a = sk_diagnostics b \<and>
      option_eq (list_all2 coordinate_eq) (sk_solved_coordinates a) (sk_solved_coordinates b) \<and>
      option_eq face_eq (sk_support a) (sk_support b) \<and> sk_placement a = sk_placement b \<and>
      sk_reattachment_outcome a = sk_reattachment_outcome b)"

definition fit_eq :: "fit_dimension \<Rightarrow> fit_dimension \<Rightarrow> bool" where
  "fit_eq a b =
     (fd_id a = fd_id b \<and> fd_source_feature_id a = fd_source_feature_id b \<and>
      fd_target_feature_id a = fd_target_feature_id b \<and>
      fd_source_dimension_id a = fd_source_dimension_id b \<and>
      fd_target_dimension_id a = fd_target_dimension_id b \<and> fd_dimension a = fd_dimension b \<and>
      f64_eq (fd_source_value a) (fd_source_value b) \<and>
      f64_eq (fd_target_value a) (fd_target_value b) \<and> f64_eq (fd_clearance a) (fd_clearance b))"

section \<open>The feature graph\<close>

datatype domain_error = EmptyId | EmptyKind

record feature =
  ft_id :: string
  ft_kind :: string

definition feature_id_new :: "string \<Rightarrow> domain_error + string" where
  "feature_id_new value = and_then (ensure (value \<noteq> []) EmptyId) (\<lambda>_. Inr value)"

definition feature_new :: "string \<Rightarrow> string \<Rightarrow> domain_error + feature" where
  "feature_new i kind =
     and_then (ensure (kind \<noteq> []) EmptyKind) (\<lambda>_.
     and_then (feature_id_new i) (\<lambda>i'. Inr \<lparr>ft_id = i', ft_kind = kind\<rparr>))"

record feature_graph =
  fg_features :: "(string, string) btree"
  fg_sketches :: "(string, sketch_payload) btree"
  fg_fit_dimensions :: "(string, fit_dimension) btree"

definition empty_graph :: feature_graph where
  "empty_graph = \<lparr>fg_features = [], fg_sketches = [], fg_fit_dimensions = []\<rparr>"

definition graph_features :: "feature_graph \<Rightarrow> feature list" where
  "graph_features g = map (\<lambda>(i, kind). \<lparr>ft_id = i, ft_kind = kind\<rparr>) (fg_features g)"

definition add_feature :: "feature_graph \<Rightarrow> feature \<Rightarrow> feature_graph \<times> bool" where
  "add_feature g f =
     (g\<lparr>fg_features := bt_insert (ft_id f) (ft_kind f) (fg_features g)\<rparr>,
      bt_get (fg_features g) (ft_id f) \<noteq> Some (ft_kind f))"

definition contains_feature :: "feature_graph \<Rightarrow> string \<Rightarrow> bool" where
  "contains_feature g i = list_ex (\<lambda>k. k = i) (bt_keys (fg_features g))"

definition set_feature :: "feature_graph \<Rightarrow> feature \<Rightarrow> feature_graph \<times> bool" where
  "set_feature g f = add_feature g f"

definition remove_feature :: "feature_graph \<Rightarrow> string \<Rightarrow> feature_graph \<times> bool" where
  "remove_feature g i =
     (case find (\<lambda>k. k = i) (bt_keys (fg_features g)) of
        None \<Rightarrow> (g, False)
      | Some k \<Rightarrow> (g\<lparr>fg_features := bt_remove k (fg_features g),
                     fg_sketches := bt_remove k (fg_sketches g)\<rparr>, True))"

definition add_sketch ::
  "feature_graph \<Rightarrow> feature \<Rightarrow> sketch_payload \<Rightarrow> feature_graph \<times> (string + bool)" where
  "add_sketch g f s =
     (if sk_feature_id s \<noteq> ft_id f then (g, Inl ''sketch feature ID does not match its graph feature'')
      else case validate_sketch s of
          Inl e \<Rightarrow> (g, Inl e)
        | Inr _ \<Rightarrow>
            let sketch_changed =
                (\<not> option_eq sketch_eq (bt_get (fg_sketches g) (ft_id f)) (Some s)) in
            (case add_feature g f of
               (g', feature_changed) \<Rightarrow>
                 (g'\<lparr>fg_sketches := bt_insert (ft_id f) s (fg_sketches g')\<rparr>,
                  Inr (feature_changed \<or> sketch_changed))))"

definition sketch_of :: "feature_graph \<Rightarrow> string \<Rightarrow> sketch_payload option" where
  "sketch_of g i = map_option snd (find (\<lambda>e. fst e = i) (fg_sketches g))"

definition add_fit_dimension ::
  "feature_graph \<Rightarrow> fit_dimension \<Rightarrow> feature_graph \<times> (string + bool)" where
  "add_fit_dimension g d =
     (case validate_fit d of
        Inl e \<Rightarrow> (g, Inl e)
      | Inr _ \<Rightarrow>
          (case bt_get (fg_fit_dimensions g) (fd_id d) of
             Some existing \<Rightarrow>
               (if fit_eq existing d then (g, Inr False)
                else (g, Inl ''fit dimension ID already exists with different values''))
           | None \<Rightarrow>
               (g\<lparr>fg_fit_dimensions := bt_insert (fd_id d) d (fg_fit_dimensions g)\<rparr>, Inr True)))"

definition fit_dimensions :: "feature_graph \<Rightarrow> fit_dimension list" where
  "fit_dimensions g = map snd (fg_fit_dimensions g)"

text \<open>
  Identity of a graph: the digest (crate \<^verbatim>\<open>sha2\<close>, parameter \<open>sha\<close>) of its JSON
  (crate \<^verbatim>\<open>serde_json\<close>, the parameters \<open>jf\<close>, \<open>js\<close>, \<open>jd\<close>), where
  absent sketches and fit dimensions leave no bytes.
\<close>

definition graph_hash_hex ::
  "(string \<Rightarrow> string) \<Rightarrow> ((string, string) btree \<Rightarrow> string) \<Rightarrow>
   ((string, sketch_payload) btree \<Rightarrow> string) \<Rightarrow> ((string, fit_dimension) btree \<Rightarrow> string) \<Rightarrow>
   feature_graph \<Rightarrow> string" where
  "graph_hash_hex sha jf js jd g =
     sha (jf (fg_features g) @
          (if fg_sketches g \<noteq> [] then CHR 0x0A # js (fg_sketches g) else []) @
          (if fg_fit_dimensions g \<noteq> [] then CHR 0x0A # jd (fg_fit_dimensions g) else []))"

definition revision_hash_hex ::
  "(string \<Rightarrow> string) \<Rightarrow> ((string, string) btree \<Rightarrow> string) \<Rightarrow>
   ((string, sketch_payload) btree \<Rightarrow> string) \<Rightarrow> ((string, fit_dimension) btree \<Rightarrow> string) \<Rightarrow>
   feature_graph \<Rightarrow> string \<Rightarrow> string" where
  "revision_hash_hex sha jf js jd g terminal_log_digest_hex =
     sha (graph_hash_hex sha jf js jd g @ terminal_log_digest_hex)"

end
