(* ===== verification/SketchProps.thy ===== *)
theory SketchProps
  imports Sketch
begin

text \<open>
  The sketch validator against a declarative specification, and the invariant of the feature graph
  under its operations.
\<close>

section \<open>Specification of a valid sketch\<close>

definition entity_wf :: "sketch_entity list \<Rightarrow> sketch_entity \<Rightarrow> bool" where
  "entity_wf entities e =
     (let known = entity_id ` set entities in
      case e of
        Point i x y \<Rightarrow> f64_finite x \<and> f64_finite y
      | LineSegment i a b \<Rightarrow> a \<noteq> b \<and> a \<in> known \<and> b \<in> known
      | Circle i c r \<Rightarrow> c \<in> known \<and> f64_finite r \<and> f64_pos r
      | Arc i c a b \<Rightarrow> c \<in> known \<and> a \<in> known \<and> b \<in> known)"

definition attachment_wf :: "sketch_payload \<Rightarrow> bool" where
  "attachment_wf s =
     (sk_support s = None \<and> sk_placement s = None \<and> sk_reattachment_outcome s = None \<or>
      (\<exists>f p. sk_support s = Some f \<and> sk_placement s = Some p \<and>
         validate_face_placement f p = Inr () \<and>
         sk_reattachment_outcome s = Some (Resolved (pf_semantic_id f))))"

definition solution_wf :: "sketch_payload \<Rightarrow> bool" where
  "solution_wf s =
     (if sk_status s = ''solved'' then sk_dof s = 0 \<and>
        (\<exists>cs. sk_solved_coordinates s = Some cs \<and> distinct (map so_entity_id cs) \<and>
           so_entity_id ` set cs = {i. \<exists>x y. Point i x y \<in> set (sk_entities s)} \<and>
           (\<forall>c\<in>set cs. f64_finite (so_x c) \<and> f64_finite (so_y c)))
      else sk_solved_coordinates s = None)"

definition sketch_ids :: "sketch_payload \<Rightarrow> string list" where
  "sketch_ids s = map entity_id (sk_entities s) @ map sc_id (sk_constraints s)"

definition sketch_wf :: "sketch_payload \<Rightarrow> bool" where
  "sketch_wf s =
     (sk_feature_id s \<noteq> [] \<and> sk_entities s \<noteq> [] \<and> attachment_wf s \<and> 0 \<le> sk_dof s \<and>
      distinct (sketch_ids s) \<and> [] \<notin> set (sketch_ids s) \<and>
      (\<forall>e\<in>set (sk_entities s). entity_wf (sk_entities s) e) \<and>
      (\<forall>c\<in>set (sk_constraints s). (\<forall>v. sc_value c = Some v \<longrightarrow> f64_finite v) \<and>
         set (sc_entities c) \<subseteq> entity_id ` set (sk_entities s)) \<and>
      sk_status s \<in> set sketch_statuses \<and>
      sk_entity_ids s = map entity_id (sk_entities s) \<and> solution_wf s)"

section \<open>The passes over entities and constraints\<close>

lemma known_entity_iff: "known_entity es i \<longleftrightarrow> i \<in> entity_id ` set es"
  by (auto simp: known_entity_def list_ex_iff)

lemma validate_entity_iff: "validate_entity es e = Inr () \<longleftrightarrow> entity_wf es e"
  using f64_not_le_zero_pos
  by (cases e) (auto simp: entity_wf_def known_entity_iff and_then_Inr_iff Let_def)

lemma claim_id_iff:
  "claim_id msg i ids = Inr ids' \<longleftrightarrow> i \<noteq> [] \<and> i \<notin> set ids \<and> ids' = bs_insert i ids"
  by (auto simp: claim_id_def and_then_Inr_iff)

text \<open>A pass that claims one identifier per element under a side condition.\<close>

lemma claim_pass:
  assumes step: "\<And>x ids ids'. pass x ids = Inr ids' \<longleftrightarrow>
      P x \<and> nm x \<noteq> [] \<and> nm x \<notin> set ids \<and> ids' = bs_insert (nm x) ids"
  shows "(\<exists>ids'. fold_ok pass xs ids = Inr ids' \<and> Q ids') \<longleftrightarrow>
    (\<forall>x\<in>set xs. P x) \<and> distinct (map nm xs) \<and> [] \<notin> set (map nm xs) \<and>
    set (map nm xs) \<inter> set ids = {} \<and> Q (fold (\<lambda>x. bs_insert (nm x)) xs ids)"
proof (induction xs arbitrary: ids)
  case Nil
  then show ?case by simp
next
  case (Cons x xs)
  have "(\<exists>ids'. fold_ok pass (x # xs) ids = Inr ids' \<and> Q ids') \<longleftrightarrow>
      (P x \<and> nm x \<noteq> [] \<and> nm x \<notin> set ids \<and>
       (\<exists>ids'. fold_ok pass xs (bs_insert (nm x) ids) = Inr ids' \<and> Q ids'))"
    by (auto simp: and_then_Inr_iff step)
  also have "\<dots> \<longleftrightarrow> (\<forall>y\<in>set (x # xs). P y) \<and> distinct (map nm (x # xs)) \<and>
      [] \<notin> set (map nm (x # xs)) \<and> set (map nm (x # xs)) \<inter> set ids = {} \<and>
      Q (fold (\<lambda>x. bs_insert (nm x)) (x # xs) ids)"
    unfolding Cons.IH by auto
  finally show ?case .
qed

lemma set_fold_bs_insert: "set (fold (\<lambda>x. bs_insert (nm x)) xs ids) = set (map nm xs) \<union> set ids"
  by (induction xs arbitrary: ids) auto

definition constraint_wf :: "sketch_entity list \<Rightarrow> sketch_constraint \<Rightarrow> bool" where
  "constraint_wf es c =
     ((\<forall>v. sc_value c = Some v \<longrightarrow> f64_finite v) \<and> set (sc_entities c) \<subseteq> entity_id ` set es)"

lemma entity_pass_iff:
  "entity_pass es e ids = Inr ids' \<longleftrightarrow>
     entity_wf es e \<and> entity_id e \<noteq> [] \<and> entity_id e \<notin> set ids \<and> ids' = bs_insert (entity_id e) ids"
  by (auto simp: entity_pass_def and_then_Inr_iff validate_entity_iff claim_id_iff)

lemma constraint_pass_iff:
  "constraint_pass es c ids = Inr ids' \<longleftrightarrow>
     constraint_wf es c \<and> sc_id c \<noteq> [] \<and> sc_id c \<notin> set ids \<and> ids' = bs_insert (sc_id c) ids"
  by (auto simp: constraint_pass_def and_then_Inr_iff claim_id_iff constraint_wf_def list_all_iff
      known_entity_iff split: option.splits)

lemma passes_iff:
  "(\<exists>ids. fold_ok (entity_pass es) es [] = Inr ids \<and>
     (\<exists>ids'. fold_ok (constraint_pass es) cs ids = Inr ids')) \<longleftrightarrow>
   (\<forall>e\<in>set es. entity_wf es e) \<and> (\<forall>c\<in>set cs. constraint_wf es c) \<and>
   distinct (map entity_id es @ map sc_id cs) \<and> [] \<notin> set (map entity_id es @ map sc_id cs)"
proof -
  note c = claim_pass [of "constraint_pass es" "constraint_wf es" sc_id, OF constraint_pass_iff,
      where Q = "\<lambda>_. True", simplified]
  note e = claim_pass [of "entity_pass es" "entity_wf es" entity_id, OF entity_pass_iff]
  show ?thesis
    unfolding c e by (auto simp: set_fold_bs_insert)
qed

lemma validate_attachment_iff: "validate_attachment s = Inr () \<longleftrightarrow> attachment_wf s"
  by (auto simp: validate_attachment_def attachment_wf_def and_then_Inr_iff
      split: option.splits reattachment.splits)

lemma point_ids_set: "set (point_ids es) = {i. \<exists>x y. Point i x y \<in> set es}"
  by (induction es) (auto simp: point_ids_def map_filter_simps split: sketch_entity.splits)

lemma length_bs_of: "length (bs_of xs) = length xs \<longleftrightarrow> distinct xs"
  by (metis bs_of_def card_distinct distinct_card length_remdups_card_conv length_sort)

lemma bs_of_eq_iff: "bs_of xs = bs_of ys \<longleftrightarrow> set xs = set ys"
  by (metis set_bs_of sorted_bs_of strict_sorted_equal)

lemma validate_solution_iff:
  "validate_solution s = Inr () \<and> \<not> (sk_status s = ''solved'' \<and> sk_dof s \<noteq> 0) \<longleftrightarrow> solution_wf s"
proof (cases "sk_status s = ''solved''")
  case True
  have "length cs = length (bs_of (map so_entity_id cs)) \<longleftrightarrow> distinct (map so_entity_id cs)" for cs
    using length_bs_of [of "map so_entity_id cs"] by auto
  with True show ?thesis
    by (auto simp: validate_solution_def solution_wf_def and_then_Inr_iff Let_def bs_of_eq_iff
        point_ids_set list_ex_iff)
next
  case False
  then show ?thesis by (simp add: validate_solution_def solution_wf_def)
qed

lemma validate_sketch_iff: "is_ok (validate_sketch s) \<longleftrightarrow> sketch_wf s"
proof -
  let ?es = "sk_entities s" and ?cs = "sk_constraints s"
  have "is_ok (validate_sketch s) \<longleftrightarrow>
      \<not> (sk_feature_id s = [] \<or> ?es = []) \<and> validate_attachment s = Inr () \<and> \<not> sk_dof s < 0 \<and>
      (\<exists>ids. fold_ok (entity_pass ?es) ?es [] = Inr ids \<and>
         (\<exists>ids'. fold_ok (constraint_pass ?es) ?cs ids = Inr ids')) \<and>
      sk_status s \<in> set sketch_statuses \<and> sk_entity_ids s = map entity_id ?es \<and>
      validate_solution s = Inr () \<and> \<not> (sk_status s = ''solved'' \<and> sk_dof s \<noteq> 0)"
    unfolding is_ok_iff validate_sketch_def by (auto simp: and_then_Inr_iff)
  then show ?thesis
    unfolding passes_iff validate_attachment_iff validate_solution_iff sketch_wf_def
      sketch_ids_def constraint_wf_def
    by auto
qed

text \<open>
  C12.  \<^verbatim>\<open>SketchPayload::validate\<close> accepts a sketch exactly when it is well-formed:
  globally unique non-empty identifiers, references that exist, finite values, a consistent support,
  and a solution for exactly the points when (and only when) it is solved.
\<close>

theorem validate_sketch_decides: "is_ok (validate_sketch s) \<longleftrightarrow> sketch_wf s"
  by (rule validate_sketch_iff)

text \<open>
  The validator's message speaks of points, but it accepts any entity as the end of a line, the
  line itself included.
\<close>

definition self_line :: sketch_payload where
  "self_line = \<lparr>sk_feature_id = ''s'',
     sk_entities = [LineSegment ''l'' ''l'' ''c'', Circle ''c'' ''c'' (Fin 1)],
     sk_constraints = [], sk_status = ''underconstrained'', sk_dof = 1,
     sk_entity_ids = [''l'', ''c''], sk_related_constraint_ids = [], sk_diagnostics = [],
     sk_solved_coordinates = None, sk_support = None, sk_placement = None,
     sk_reattachment_outcome = None\<rparr>"

lemma line_ends_need_not_be_points:
  "validate_sketch self_line = Inr () \<and> point_ids (sk_entities self_line) = []"
  by code_simp

section \<open>The feature graph\<close>

definition graph_wf :: "feature_graph \<Rightarrow> bool" where
  "graph_wf g =
     (bt_ok (fg_features g) \<and> bt_ok (fg_sketches g) \<and> bt_ok (fg_fit_dimensions g) \<and>
      (\<forall>i s. bt_get (fg_sketches g) i = Some s \<longrightarrow>
         bt_contains (fg_features g) i \<and> sk_feature_id s = i \<and> sketch_wf s) \<and>
      (\<forall>i d. bt_get (fg_fit_dimensions g) i = Some d \<longrightarrow> fd_id d = i \<and> validate_fit d = Inr ()))"

inductive graph_step :: "feature_graph \<Rightarrow> feature_graph \<Rightarrow> bool" where
  add: "graph_step g (fst (add_feature g f))"
| remove: "graph_step g (fst (remove_feature g i))"
| sketch: "graph_step g (fst (add_sketch g f s))"
| fit: "graph_step g (fst (add_fit_dimension g d))"

inductive graph_reachable :: "feature_graph \<Rightarrow> bool" where
  empty: "graph_reachable empty_graph"
| step: "graph_reachable g \<Longrightarrow> graph_step g g' \<Longrightarrow> graph_reachable g'"

lemma find_key: "find (\<lambda>k. k = i) (bt_keys m) = (if bt_contains m i then Some i else None)"
  by (induction m) (auto simp: bt_keys_def)

lemma remove_feature_eq:
  "remove_feature g i =
     (if bt_contains (fg_features g) i
      then (g\<lparr>fg_features := bt_remove i (fg_features g), fg_sketches := bt_remove i (fg_sketches g)\<rparr>, True)
      else (g, False))"
  by (simp add: remove_feature_def find_key)

lemma contains_feature_eq: "contains_feature g i = bt_contains (fg_features g) i"
  by (auto simp: contains_feature_def list_ex_iff bt_keys_iff)

lemma add_sketch_cases:
  obtains (err) e where "add_sketch g f s = (g, Inl e)"
  | (ok) b where "sk_feature_id s = ft_id f" "sketch_wf s"
    "add_sketch g f s = (g\<lparr>fg_features := bt_insert (ft_id f) (ft_kind f) (fg_features g),
       fg_sketches := bt_insert (ft_id f) s (fg_sketches g)\<rparr>, Inr b)"
    "b = (bt_get (fg_features g) (ft_id f) \<noteq> Some (ft_kind f) \<or>
          \<not> option_eq sketch_eq (bt_get (fg_sketches g) (ft_id f)) (Some s))"
proof (cases "validate_sketch s")
  case (Inl e)
  then show ?thesis
    by (cases "sk_feature_id s = ft_id f") (auto simp: add_sketch_def intro: err)
next
  case (Inr u)
  then have "sketch_wf s" by (simp flip: validate_sketch_iff)
  with Inr show ?thesis
    by (cases "sk_feature_id s = ft_id f")
      (auto simp: add_sketch_def add_feature_def Let_def intro: err ok)
qed

lemma add_fit_cases:
  obtains (err) e where "add_fit_dimension g d = (g, Inl e)"
  | (same) "add_fit_dimension g d = (g, Inr False)"
  | (new) "validate_fit d = Inr ()" "\<not> bt_contains (fg_fit_dimensions g) (fd_id d)"
    "add_fit_dimension g d =
       (g\<lparr>fg_fit_dimensions := bt_insert (fd_id d) d (fg_fit_dimensions g)\<rparr>, Inr True)"
proof (cases "validate_fit d")
  case (Inl e)
  then show ?thesis by (intro err) (simp add: add_fit_dimension_def)
next
  case (Inr u)
  show ?thesis
  proof (cases "bt_get (fg_fit_dimensions g) (fd_id d)")
    case None
    with Inr show ?thesis
      by (intro new) (simp_all add: add_fit_dimension_def flip: bt_get_None_iff)
  next
    case (Some x)
    with Inr show ?thesis
      by (cases "fit_eq x d") (auto simp: add_fit_dimension_def intro: err same)
  qed
qed

lemma graph_step_wf:
  assumes "graph_step g g'" and wf: "graph_wf g"
  shows "graph_wf g'"
  using assms(1)
proof cases
  case (add f)
  with wf show ?thesis
    by (auto simp: graph_wf_def add_feature_def bt_ok_insert bt.has_ins)
next
  case (remove i)
  with wf show ?thesis
    by (auto simp: graph_wf_def remove_feature_eq bt_ok_remove bt_get_remove bt.has_del)
next
  case (sketch f s)
  show ?thesis
  proof (cases rule: add_sketch_cases [of g f s])
    case (err e)
    with sketch wf show ?thesis by simp
  next
    case (ok b)
    with sketch wf show ?thesis
      by (auto simp: graph_wf_def bt_ok_insert bt_get_insert bt.has_ins)
  qed
next
  case (fit d)
  with wf show ?thesis
    by (cases rule: add_fit_cases [of g d]) (auto simp: graph_wf_def bt_ok_insert bt_get_insert)
qed

text \<open>
  C13.  Whatever sequence of operations built it, a feature graph holds only valid sketches, each
  under the identifier of a feature of the graph, and only valid fit dimensions under their own
  identifier.
\<close>

theorem graph_reachable_wf: "graph_reachable g \<Longrightarrow> graph_wf g"
  by (induction rule: graph_reachable.induct)
    (simp add: graph_wf_def empty_graph_def, rule graph_step_wf)

definition demo_graph :: feature_graph where
  "demo_graph = fst (add_sketch empty_graph \<lparr>ft_id = ''s'', ft_kind = ''sketch''\<rparr> self_line)"

theorem graph_reachable_wf_witness:
  "bt_contains (fg_sketches demo_graph) ''s'' \<and> graph_wf demo_graph"
proof -
  have "graph_reachable demo_graph"
    unfolding demo_graph_def by (rule graph_reachable.step [OF graph_reachable.empty graph_step.sketch])
  from graph_reachable_wf [OF this] have "graph_wf demo_graph" .
  moreover have "bt_contains (fg_sketches demo_graph) ''s''" by code_simp
  ultimately show ?thesis by blast
qed

lemma bt_insert_same_iff: "bt_ok m \<Longrightarrow> bt_insert k v m = m \<longleftrightarrow> bt_get m k = Some v"
  using bt.ins_same by (metis bt_get_insert)

lemma bt_remove_same_iff: "bt_ok m \<Longrightarrow> bt_remove k m = m \<longleftrightarrow> \<not> bt_contains m k"
  using bt.del_absent by (metis bt.has_del)

text \<open>
  The operations report truthfully whether they changed the graph, and a rejected sketch or
  fit dimension leaves it as it was; an accepted sketch that reports no change left the features
  alone and replaced an equal sketch.
\<close>

theorem graph_changes_reported:
  assumes "graph_wf g"
  shows "(snd (add_feature g f) \<longleftrightarrow> fst (add_feature g f) \<noteq> g) \<and>
    (snd (remove_feature g i) \<longleftrightarrow> fst (remove_feature g i) \<noteq> g) \<and>
    (snd (add_fit_dimension g d) = Inr True \<longleftrightarrow> fst (add_fit_dimension g d) \<noteq> g) \<and>
    (case snd (add_sketch g f s) of
       Inl _ \<Rightarrow> fst (add_sketch g f s) = g
     | Inr changed \<Rightarrow> sketch_of (fst (add_sketch g f s)) (ft_id f) = Some s \<and>
         (changed \<or> fg_features (fst (add_sketch g f s)) = fg_features g \<and>
            (\<exists>old. bt_get (fg_sketches g) (ft_id f) = Some old \<and> sketch_eq old s)))"
proof -
  have ok: "bt_ok (fg_features g)" "bt_ok (fg_sketches g)" "bt_ok (fg_fit_dimensions g)"
    using assms by (simp_all add: graph_wf_def)
  have eq: "h\<lparr>fg_features := m\<rparr> = h \<longleftrightarrow> m = fg_features h" for h m
    by (cases h) auto
  have "snd (add_feature g f) \<longleftrightarrow> fst (add_feature g f) \<noteq> g"
    by (simp add: add_feature_def eq bt_insert_same_iff [OF ok(1)])
  moreover have "snd (remove_feature g i) \<longleftrightarrow> fst (remove_feature g i) \<noteq> g"
  proof -
    have "bt_contains (fg_features g) i \<Longrightarrow> bt_remove i (fg_features g) \<noteq> fg_features g"
      by (simp add: bt_remove_same_iff [OF ok(1)])
    then show ?thesis
      by (cases g) (auto simp: remove_feature_eq)
  qed
  moreover have "snd (add_fit_dimension g d) = Inr True \<longleftrightarrow> fst (add_fit_dimension g d) \<noteq> g"
  proof (cases rule: add_fit_cases [of g d])
    case new
    then have "bt_insert (fd_id d) d (fg_fit_dimensions g) \<noteq> fg_fit_dimensions g"
      by (simp add: bt_insert_same_iff [OF ok(3)] bt_contains_iff)
    with new show ?thesis by (cases g) auto
  qed auto
  moreover have "case snd (add_sketch g f s) of
       Inl _ \<Rightarrow> fst (add_sketch g f s) = g
     | Inr changed \<Rightarrow> sketch_of (fst (add_sketch g f s)) (ft_id f) = Some s \<and>
         (changed \<or> fg_features (fst (add_sketch g f s)) = fg_features g \<and>
            (\<exists>old. bt_get (fg_sketches g) (ft_id f) = Some old \<and> sketch_eq old s))"
  proof (cases rule: add_sketch_cases [of g f s])
    case (err e)
    then show ?thesis by simp
  next
    case (ok b)
    have find_get: "map_option snd (find (\<lambda>e. fst e = k) m) = bt_get m k"
      for k and m :: "(string, sketch_payload) btree"
      by (induction m) auto
    from ok show ?thesis
      using bt_insert_same_iff [of "fg_features g" "ft_id f" "ft_kind f"] \<open>bt_ok (fg_features g)\<close>
      by (cases "bt_get (fg_sketches g) (ft_id f)")
        (auto simp: sketch_of_def find_get bt_get_insert)
  qed
  ultimately show ?thesis by blast
qed

theorem graph_changes_reported_witness:
  "snd (remove_feature demo_graph ''s'') \<and> fst (remove_feature demo_graph ''s'') \<noteq> demo_graph"
proof -
  have "graph_wf demo_graph"
    unfolding demo_graph_def graph_wf_def
    by (rule graph_step_wf [OF graph_step.sketch, unfolded graph_wf_def])
      (simp add: empty_graph_def)
  moreover have "snd (remove_feature demo_graph ''s'')" by code_simp
  ultimately show ?thesis using graph_changes_reported by blast
qed

end
