(* ===== verification/Components.thy ===== *)
theory Components
  imports References OrderedMap
begin

text \<open>
  The component graph of \<^verbatim>\<open>crates/domain/src/lib.rs\<close>: parametric definitions and their
  placed instances, changed by \<^verbatim>\<open>ComponentGraph::apply\<close>.  Each branch of the command
  returns the graph it leaves together with its result, so that a branch which failed after a
  partial update would show it.
\<close>

section \<open>Data\<close>

record bracket_descriptor =
  bd_feature_id :: string
  bd_length :: f64
  bd_width :: f64
  bd_height :: f64
  bd_thickness :: f64

record component_definition =
  cd_id :: string
  cd_selected_feature_ids :: "string list"
  cd_descriptor :: bracket_descriptor

datatype component_reuse = Linked | Independent string string

record component_instance =
  ci_id :: string
  ci_definition_id :: string
  ci_transform :: vec3
  ci_reuse :: component_reuse

datatype component_command =
  Define component_definition
| Capture string "string list" bracket_descriptor
| CreateInstance component_instance
| TransformInstance string vec3
| MakeIndependent string string string string
| EditParameter string string f64

record component_graph =
  cg_definitions :: "(string, component_definition) btree"
  cg_instances :: "(string, component_instance) btree"

definition empty_components :: component_graph where
  "empty_components = \<lparr>cg_definitions = [], cg_instances = []\<rparr>"

section \<open>Identifiers and references\<close>

definition valid_component_identifier :: "string \<Rightarrow> bool" where
  "valid_component_identifier v =
     (v \<noteq> [] \<and> list_all (\<lambda>b. is_ascii_alphanumeric b \<or> b = CHR ''_'' \<or> b = CHR ''-'') v)"

fun strictly_increasing :: "string list \<Rightarrow> bool" where
  "strictly_increasing (a # b # xs) = (a < b \<and> strictly_increasing (b # xs))"
| "strictly_increasing _ = True"

definition validate_selected_feature_ids :: "string list \<Rightarrow> string + unit" where
  "validate_selected_feature_ids ids =
     ensure (list_all valid_component_identifier ids \<and> strictly_increasing ids)
       ''selected component feature IDs must be non-empty, unique, and sorted''"

definition component_candidates :: "component_graph \<Rightarrow> (string \<times> string) list" where
  "component_candidates g =
     map (\<lambda>i. (i, ''definition'')) (bt_keys (cg_definitions g)) @
     map (\<lambda>i. (i, ''instance'')) (bt_keys (cg_instances g))"

definition require_definition :: "component_graph \<Rightarrow> string \<Rightarrow> string + component_definition" where
  "require_definition g i =
     (case resolve_semantic_reference i ''definition'' (component_candidates g) of
        RefResolved _ \<Rightarrow> ok_or (bt_get (cg_definitions g) i) ''component definition reference is lost''
      | RefAmbiguous \<Rightarrow> Inl ''component definition reference is ambiguous''
      | RefLost \<Rightarrow> Inl ''component definition reference is lost''
      | RefIncompatible \<Rightarrow> Inl ''component definition reference is incompatible'')"

definition require_instance :: "component_graph \<Rightarrow> string \<Rightarrow> string + component_instance" where
  "require_instance g i =
     (case resolve_semantic_reference i ''instance'' (component_candidates g) of
        RefResolved _ \<Rightarrow> ok_or (bt_get (cg_instances g) i) ''component instance reference is lost''
      | RefAmbiguous \<Rightarrow> Inl ''component instance reference is ambiguous''
      | RefLost \<Rightarrow> Inl ''component instance reference is lost''
      | RefIncompatible \<Rightarrow> Inl ''component instance reference is incompatible'')"

definition id_is_in_use :: "component_graph \<Rightarrow> string \<Rightarrow> bool" where
  "id_is_in_use g i = (bt_contains (cg_definitions g) i \<or> bt_contains (cg_instances g) i)"

definition feature_id_is_in_use :: "component_graph \<Rightarrow> string \<Rightarrow> bool" where
  "feature_id_is_in_use g i =
     list_ex (\<lambda>(_, d). bd_feature_id (cd_descriptor d) = i) (cg_definitions g)"

section \<open>Commands\<close>

type_synonym component_result = "component_graph \<times> (string + unit)"

text \<open>A chain of checks before the first update, and the update itself.\<close>

definition checked ::
  "component_graph \<Rightarrow> string + 'a \<Rightarrow> ('a \<Rightarrow> component_result) \<Rightarrow> component_result" where
  "checked g r k = (case r of Inl e \<Rightarrow> (g, Inl e) | Inr x \<Rightarrow> k x)"

definition dimensions :: "bracket_descriptor \<Rightarrow> f64 list" where
  "dimensions d = [bd_length d, bd_width d, bd_height d, bd_thickness d]"

definition define_component :: "component_graph \<Rightarrow> component_definition \<Rightarrow> component_result" where
  "define_component g d =
     checked g (ensure (valid_component_identifier (cd_id d) \<and>
                        valid_component_identifier (bd_feature_id (cd_descriptor d)))
                 ''component IDs must be plain identifiers'') (\<lambda>_.
     checked g (validate_selected_feature_ids (cd_selected_feature_ids d)) (\<lambda>_.
     checked g (ensure (list_all (\<lambda>v. f64_finite v \<and> f64_pos v) (dimensions (cd_descriptor d)))
                 ''component dimensions must be strictly positive finite numbers'') (\<lambda>_.
     checked g (ensure (\<not> id_is_in_use g (cd_id d)) ''component ID already exists'') (\<lambda>_.
     checked g (ensure (\<not> feature_id_is_in_use g (bd_feature_id (cd_descriptor d)))
                 ''component feature ID already exists'') (\<lambda>_.
     (g\<lparr>cg_definitions := bt_insert (cd_id d) d (cg_definitions g)\<rparr>, Inr ()))))))"

definition create_instance :: "component_graph \<Rightarrow> component_instance \<Rightarrow> component_result" where
  "create_instance g i =
     checked g (ensure (ci_reuse i = Linked)
                 ''component instances created from a definition must use linked reuse'') (\<lambda>_.
     checked g (ensure (\<not> (ci_id i = [] \<or> ci_definition_id i = [] \<or>
                           \<not> list_all (\<lambda>b. is_ascii_alphanumeric b \<or> b = CHR ''_'' \<or> b = CHR ''-'')
                               (ci_id i) \<or>
                           \<not> list_all f64_finite (v3 (ci_transform i))))
                 ''component instance ID must be a plain identifier and transform must be finite'') (\<lambda>_.
     checked g (require_definition g (ci_definition_id i)) (\<lambda>_.
     checked g (ensure (\<not> id_is_in_use g (ci_id i)) ''component ID already exists'') (\<lambda>_.
     (g\<lparr>cg_instances := bt_insert (ci_id i) i (cg_instances g)\<rparr>, Inr ())))))"

definition transform_instance :: "component_graph \<Rightarrow> string \<Rightarrow> vec3 \<Rightarrow> component_result" where
  "transform_instance g i t =
     checked g (ensure (list_all f64_finite (v3 t))
                 ''component transform must contain finite numbers'') (\<lambda>_.
     checked g (require_instance g i) (\<lambda>x.
     (g\<lparr>cg_instances := bt_insert i (x\<lparr>ci_transform := t\<rparr>) (cg_instances g)\<rparr>, Inr ())))"

definition make_independent ::
  "component_graph \<Rightarrow> string \<Rightarrow> string \<Rightarrow> string \<Rightarrow> string \<Rightarrow> component_result" where
  "make_independent g source_instance_id definition_id instance_id feature_id =
     checked g (require_instance g source_instance_id) (\<lambda>source.
     checked g (require_definition g (ci_definition_id source)) (\<lambda>d.
     checked g (ensure (\<not> (instance_id = [] \<or> \<not> valid_component_identifier instance_id \<or>
                           \<not> valid_component_identifier definition_id \<or>
                           \<not> valid_component_identifier feature_id \<or>
                           definition_id = instance_id \<or> id_is_in_use g definition_id \<or>
                           id_is_in_use g instance_id \<or> feature_id_is_in_use g feature_id))
                 ''independent component IDs already exist'') (\<lambda>_.
     let d' = d\<lparr>cd_id := definition_id,
                cd_descriptor := (cd_descriptor d)\<lparr>bd_feature_id := feature_id\<rparr>\<rparr>;
         g' = g\<lparr>cg_definitions := bt_insert definition_id d' (cg_definitions g)\<rparr> in
     (g'\<lparr>cg_instances := bt_insert instance_id
           \<lparr>ci_id = instance_id, ci_definition_id = definition_id,
            ci_transform = ci_transform source,
            ci_reuse = Independent source_instance_id (ci_definition_id source)\<rparr>
           (cg_instances g')\<rparr>, Inr ()))))"

definition set_dimension :: "string \<Rightarrow> f64 \<Rightarrow> bracket_descriptor \<Rightarrow> string + bracket_descriptor" where
  "set_dimension parameter v d =
     (if parameter = ''length'' then Inr (d\<lparr>bd_length := v\<rparr>)
      else if parameter = ''width'' then Inr (d\<lparr>bd_width := v\<rparr>)
      else if parameter = ''height'' then Inr (d\<lparr>bd_height := v\<rparr>)
      else if parameter = ''thickness'' then Inr (d\<lparr>bd_thickness := v\<rparr>)
      else Inl ''unknown component parameter'')"

definition edit_parameter :: "component_graph \<Rightarrow> string \<Rightarrow> string \<Rightarrow> f64 \<Rightarrow> component_result" where
  "edit_parameter g definition_id parameter v =
     checked g (ensure (\<not> (\<not> f64_finite v \<or> f64_le v (Fin 0)))
                 ''component parameter value must be a strictly positive finite number'') (\<lambda>_.
     checked g (require_definition g definition_id) (\<lambda>d.
     checked g (set_dimension parameter v (cd_descriptor d)) (\<lambda>desc.
     (g\<lparr>cg_definitions := bt_insert definition_id (d\<lparr>cd_descriptor := desc\<rparr>) (cg_definitions g)\<rparr>,
      Inr ()))))"

fun component_apply :: "component_graph \<Rightarrow> component_command \<Rightarrow> component_result" where
  "component_apply g (Define d) = define_component g d"
| "component_apply g (Capture i selected desc) =
     define_component g \<lparr>cd_id = i, cd_selected_feature_ids = selected, cd_descriptor = desc\<rparr>"
| "component_apply g (CreateInstance i) = create_instance g i"
| "component_apply g (TransformInstance i t) = transform_instance g i t"
| "component_apply g (MakeIndependent source d i f) = make_independent g source d i f"
| "component_apply g (EditParameter d parameter v) = edit_parameter g d parameter v"

end
