(* ===== verification/ComponentProps.thy ===== *)
theory ComponentProps
  imports Components
begin

text \<open>
  The component graph keeps its invariant under every command, a failed command changes nothing,
  and an independent copy shares nothing with its source.
\<close>

section \<open>References in a graph\<close>

lemma filter_key:
  "bt_ok m \<Longrightarrow> filter (\<lambda>(i, _). i = k) (map (\<lambda>i. (i, c)) (bt_keys m)) =
     (if bt_contains m k then [(k, c)] else [])"
proof (induction m)
  case Nil
  then show ?case by (simp add: bt_keys_def)
next
  case (Cons e m)
  obtain k' v where e: "e = (k', v)" by (cases e)
  from Cons.prems e have "bt_ok m" "k' \<notin> set (map fst m)" by (auto simp: bt_ok_Cons)
  with Cons.IH e show ?case by (auto simp: bt_keys_def bt_contains_def)
qed

lemma resolve_in_graph:
  assumes "bt_ok (cg_definitions g)" "bt_ok (cg_instances g)"
  shows "resolve_semantic_reference i kind (component_candidates g) =
    (if bt_contains (cg_definitions g) i then
       (if bt_contains (cg_instances g) i then RefAmbiguous
        else if kind = ''definition'' then RefResolved i else RefIncompatible)
     else if bt_contains (cg_instances g) i then
       (if kind = ''instance'' then RefResolved i else RefIncompatible)
     else RefLost)"
  using assms by (auto simp: resolve_semantic_reference_def component_candidates_def filter_key Let_def)

definition disjoint_keys :: "component_graph \<Rightarrow> bool" where
  "disjoint_keys g = (\<forall>i. \<not> (bt_contains (cg_definitions g) i \<and> bt_contains (cg_instances g) i))"

definition definition_wf :: "component_graph \<Rightarrow> string \<Rightarrow> component_definition \<Rightarrow> bool" where
  "definition_wf g k d =
     (cd_id d = k \<and> valid_component_identifier k \<and>
      valid_component_identifier (bd_feature_id (cd_descriptor d)) \<and>
      sorted_wrt (<) (cd_selected_feature_ids d) \<and>
      list_all valid_component_identifier (cd_selected_feature_ids d) \<and>
      list_all (\<lambda>v. f64_finite v \<and> f64_pos v) (dimensions (cd_descriptor d)))"

definition instance_wf :: "component_graph \<Rightarrow> string \<Rightarrow> component_instance \<Rightarrow> bool" where
  "instance_wf g k x =
     (ci_id x = k \<and> valid_component_identifier k \<and> list_all f64_finite (v3 (ci_transform x)) \<and>
      bt_contains (cg_definitions g) (ci_definition_id x) \<and>
      (case ci_reuse x of
         Linked \<Rightarrow> True
       | Independent si sd \<Rightarrow> si \<noteq> k \<and> sd \<noteq> ci_definition_id x \<and>
           bt_contains (cg_instances g) si \<and> bt_contains (cg_definitions g) sd))"

definition feature_ids_unique :: "component_graph \<Rightarrow> bool" where
  "feature_ids_unique g =
     (\<forall>k k' d d'. bt_get (cg_definitions g) k = Some d \<longrightarrow> bt_get (cg_definitions g) k' = Some d' \<longrightarrow>
        bd_feature_id (cd_descriptor d) = bd_feature_id (cd_descriptor d') \<longrightarrow> k = k')"

definition component_wf :: "component_graph \<Rightarrow> bool" where
  "component_wf g =
     (bt_ok (cg_definitions g) \<and> bt_ok (cg_instances g) \<and> disjoint_keys g \<and> feature_ids_unique g \<and>
      (\<forall>k d. bt_get (cg_definitions g) k = Some d \<longrightarrow> definition_wf g k d) \<and>
      (\<forall>k x. bt_get (cg_instances g) k = Some x \<longrightarrow> instance_wf g k x))"

lemma strictly_increasing_iff: "strictly_increasing xs \<longleftrightarrow> sorted_wrt (<) xs"
  by (induction xs rule: strictly_increasing.induct) (auto dest: order.strict_trans)

lemma require_definition_iff:
  assumes "component_wf g"
  shows "require_definition g i = Inr d \<longleftrightarrow> bt_get (cg_definitions g) i = Some d"
proof -
  have "bt_ok (cg_definitions g)" "bt_ok (cg_instances g)" "disjoint_keys g"
    using assms by (simp_all add: component_wf_def)
  then show ?thesis
    by (simp add: require_definition_def resolve_in_graph bt_contains_iff disjoint_keys_def)
      (metis not_Some_eq option.inject)
qed

lemma require_instance_iff:
  assumes "component_wf g"
  shows "require_instance g i = Inr x \<longleftrightarrow> bt_get (cg_instances g) i = Some x"
proof -
  have "bt_ok (cg_definitions g)" "bt_ok (cg_instances g)" "disjoint_keys g"
    using assms by (simp_all add: component_wf_def)
  then show ?thesis
    by (simp add: require_instance_def resolve_in_graph bt_contains_iff disjoint_keys_def)
      (metis not_Some_eq option.inject)
qed

lemma feature_id_in_use_iff:
  "bt_ok (cg_definitions g) \<Longrightarrow> feature_id_is_in_use g f \<longleftrightarrow>
     (\<exists>k d. bt_get (cg_definitions g) k = Some d \<and> bd_feature_id (cd_descriptor d) = f)"
  by (fastforce simp: feature_id_is_in_use_def list_ex_iff bt_in_set_iff)

lemma checked_Inr_iff:
  "checked g r k = (g', Inr u) \<longleftrightarrow> (\<exists>x. r = Inr x \<and> k x = (g', Inr u))"
  by (cases r) (auto simp: checked_def)

section \<open>Commands that succeed\<close>

lemma define_component_ok:
  "define_component g d = (g', Inr ()) \<longleftrightarrow>
     valid_component_identifier (cd_id d) \<and>
     valid_component_identifier (bd_feature_id (cd_descriptor d)) \<and>
     list_all valid_component_identifier (cd_selected_feature_ids d) \<and>
     sorted_wrt (<) (cd_selected_feature_ids d) \<and>
     list_all (\<lambda>v. f64_finite v \<and> f64_pos v) (dimensions (cd_descriptor d)) \<and>
     \<not> id_is_in_use g (cd_id d) \<and> \<not> feature_id_is_in_use g (bd_feature_id (cd_descriptor d)) \<and>
     g' = g\<lparr>cg_definitions := bt_insert (cd_id d) d (cg_definitions g)\<rparr>"
  by (auto simp: define_component_def checked_Inr_iff validate_selected_feature_ids_def
      strictly_increasing_iff)

lemma create_instance_ok:
  assumes "component_wf g"
  shows "create_instance g x = (g', Inr ()) \<longleftrightarrow>
     ci_reuse x = Linked \<and> valid_component_identifier (ci_id x) \<and> ci_definition_id x \<noteq> [] \<and>
     list_all f64_finite (v3 (ci_transform x)) \<and>
     bt_contains (cg_definitions g) (ci_definition_id x) \<and> \<not> id_is_in_use g (ci_id x) \<and>
     g' = g\<lparr>cg_instances := bt_insert (ci_id x) x (cg_instances g)\<rparr>"
  using assms
  by (auto simp: create_instance_def checked_Inr_iff require_definition_iff bt_contains_iff
      valid_component_identifier_def)

lemma transform_instance_ok:
  assumes "component_wf g"
  shows "transform_instance g i t = (g', Inr ()) \<longleftrightarrow>
     list_all f64_finite (v3 t) \<and>
     (\<exists>x. bt_get (cg_instances g) i = Some x \<and>
        g' = g\<lparr>cg_instances := bt_insert i (x\<lparr>ci_transform := t\<rparr>) (cg_instances g)\<rparr>)"
  using assms by (auto simp: transform_instance_def checked_Inr_iff require_instance_iff)

definition independent_definition :: "component_definition \<Rightarrow> string \<Rightarrow> string \<Rightarrow> component_definition"
where
  "independent_definition d di f =
     d\<lparr>cd_id := di, cd_descriptor := (cd_descriptor d)\<lparr>bd_feature_id := f\<rparr>\<rparr>"

definition independent_instance :: "component_instance \<Rightarrow> string \<Rightarrow> string \<Rightarrow> string \<Rightarrow> component_instance"
where
  "independent_instance x si di i =
     \<lparr>ci_id = i, ci_definition_id = di, ci_transform = ci_transform x,
      ci_reuse = Independent si (ci_definition_id x)\<rparr>"

lemma make_independent_ok:
  assumes "component_wf g"
  shows "make_independent g si di i f = (g', Inr ()) \<longleftrightarrow>
     (\<exists>x d. bt_get (cg_instances g) si = Some x \<and>
        bt_get (cg_definitions g) (ci_definition_id x) = Some d \<and>
        valid_component_identifier i \<and> valid_component_identifier di \<and>
        valid_component_identifier f \<and> di \<noteq> i \<and> \<not> id_is_in_use g di \<and> \<not> id_is_in_use g i \<and>
        \<not> feature_id_is_in_use g f \<and>
        g' = g\<lparr>cg_definitions := bt_insert di (independent_definition d di f) (cg_definitions g),
               cg_instances := bt_insert i (independent_instance x si di i) (cg_instances g)\<rparr>)"
  using assms
  by (auto simp: make_independent_def checked_Inr_iff require_instance_iff require_definition_iff
      Let_def independent_definition_def independent_instance_def valid_component_identifier_def)

lemma set_dimension_ok:
  assumes "set_dimension p v d = Inr d'"
  shows "bd_feature_id d' = bd_feature_id d"
    "f64_finite v \<Longrightarrow> f64_pos v \<Longrightarrow> list_all (\<lambda>v. f64_finite v \<and> f64_pos v) (dimensions d) \<Longrightarrow>
     list_all (\<lambda>v. f64_finite v \<and> f64_pos v) (dimensions d')"
  using assms by (auto simp: set_dimension_def dimensions_def split: if_splits)

lemma edit_parameter_ok:
  assumes "component_wf g"
  shows "edit_parameter g i p v = (g', Inr ()) \<longleftrightarrow>
     f64_finite v \<and> f64_pos v \<and>
     (\<exists>d desc. bt_get (cg_definitions g) i = Some d \<and> set_dimension p v (cd_descriptor d) = Inr desc \<and>
        g' = g\<lparr>cg_definitions := bt_insert i (d\<lparr>cd_descriptor := desc\<rparr>) (cg_definitions g)\<rparr>)"
  using assms f64_not_le_zero_pos [of v]
  by (auto simp: edit_parameter_def checked_Inr_iff require_definition_iff)

lemmas component_ok = define_component_ok create_instance_ok transform_instance_ok
  make_independent_ok edit_parameter_ok

lemma component_error_unchanged:
  "snd (component_apply g c) = Inl e \<Longrightarrow> fst (component_apply g c) = g"
  by (cases c)
    (auto simp: define_component_def create_instance_def transform_instance_def
      make_independent_def edit_parameter_def checked_def Let_def split: sum.splits)

text \<open>
  C15.  A component command that fails leaves the graph exactly as it was, whatever the graph:
  every check of \<^verbatim>\<open>ComponentGraph::apply\<close> comes before the first update.
\<close>

theorem component_apply_atomic:
  "snd (component_apply g c) = Inl e \<Longrightarrow> fst (component_apply g c) = g"
  by (rule component_error_unchanged)

theorem component_apply_atomic_witness:
  "fst (component_apply empty_components (EditParameter ''a'' ''length'' (Fin 1))) = empty_components"
proof -
  have "snd (component_apply empty_components (EditParameter ''a'' ''length'' (Fin 1))) =
      Inl ''component definition reference is lost''" by code_simp
  from component_apply_atomic [OF this] show ?thesis .
qed

section \<open>The invariant\<close>

lemma component_wf_parts:
  assumes "component_wf g"
  shows "bt_ok (cg_definitions g)" "bt_ok (cg_instances g)" "disjoint_keys g" "feature_ids_unique g"
    "bt_get (cg_definitions g) k = Some d \<Longrightarrow> definition_wf g k d"
    "bt_get (cg_instances g) k = Some x \<Longrightarrow> instance_wf g k x"
  using assms by (simp_all add: component_wf_def)

lemma definition_not_instance:
  "component_wf g \<Longrightarrow> bt_get (cg_definitions g) k = Some d \<Longrightarrow> \<not> bt_contains (cg_instances g) k"
  by (metis component_wf_parts(3) disjoint_keys_def bt_contains_iff)

lemma instance_not_definition:
  "component_wf g \<Longrightarrow> bt_get (cg_instances g) k = Some x \<Longrightarrow> \<not> bt_contains (cg_definitions g) k"
  by (metis component_wf_parts(3) disjoint_keys_def bt_contains_iff)

lemma definition_wf_graph: "definition_wf g k d \<longleftrightarrow> definition_wf h k d"
  by (simp add: definition_wf_def)

lemma instance_wf_mono:
  "instance_wf g k x \<Longrightarrow>
   (\<And>i. bt_contains (cg_definitions g) i \<Longrightarrow> bt_contains (cg_definitions h) i) \<Longrightarrow>
   (\<And>i. bt_contains (cg_instances g) i \<Longrightarrow> bt_contains (cg_instances h) i) \<Longrightarrow> instance_wf h k x"
  by (auto simp: instance_wf_def split: component_reuse.splits)

text \<open>Adding or replacing a definition, and adding or replacing an instance.\<close>

lemma insert_definition_wf:
  assumes wf: "component_wf g" and d: "definition_wf g k d"
    and key: "\<not> bt_contains (cg_instances g) k"
    and feature: "\<And>k' d'. bt_get (cg_definitions g) k' = Some d' \<Longrightarrow>
      bd_feature_id (cd_descriptor d') = bd_feature_id (cd_descriptor d) \<Longrightarrow> k' = k"
  shows "component_wf (g\<lparr>cg_definitions := bt_insert k d (cg_definitions g)\<rparr>)"
proof -
  let ?h = "g\<lparr>cg_definitions := bt_insert k d (cg_definitions g)\<rparr>"
  note p = component_wf_parts [OF wf]
  have "disjoint_keys ?h" using p(3) key by (auto simp: disjoint_keys_def bt.has_ins)
  moreover have "feature_ids_unique ?h"
    using p(4) feature unfolding feature_ids_unique_def
    by (auto simp: bt_get_insert)
  moreover have "definition_wf ?h k' d'" if "bt_get (cg_definitions ?h) k' = Some d'" for k' d'
    using that p(5) d definition_wf_graph [of g _ _ ?h] by (auto simp: bt_get_insert split: if_splits)
  moreover have "instance_wf ?h k' x" if "bt_get (cg_instances ?h) k' = Some x" for k' x
    by (rule instance_wf_mono [OF p(6)]) (use that in \<open>simp_all add: bt.has_ins\<close>)
  ultimately show ?thesis using p(1,2) by (simp add: component_wf_def bt_ok_insert)
qed

lemma insert_instance_wf:
  assumes wf: "component_wf g" and x: "instance_wf g k x"
    and key: "\<not> bt_contains (cg_definitions g) k"
  shows "component_wf (g\<lparr>cg_instances := bt_insert k x (cg_instances g)\<rparr>)"
proof -
  let ?h = "g\<lparr>cg_instances := bt_insert k x (cg_instances g)\<rparr>"
  note p = component_wf_parts [OF wf]
  have "disjoint_keys ?h" using p(3) key by (auto simp: disjoint_keys_def bt.has_ins)
  moreover have "feature_ids_unique ?h"
    using p(4) by (simp add: feature_ids_unique_def)
  moreover have "definition_wf ?h k' d'" if "bt_get (cg_definitions ?h) k' = Some d'" for k' d'
    using that p(5) definition_wf_graph [of g _ _ ?h] by auto
  moreover have "instance_wf ?h k' y" if "bt_get (cg_instances ?h) k' = Some y" for k' y
  proof -
    have "instance_wf g k' y"
      using that p(6) x by (auto simp: bt_get_insert split: if_splits)
    then show ?thesis by (rule instance_wf_mono) (simp_all add: bt.has_ins)
  qed
  ultimately show ?thesis using p(1,2) by (simp add: component_wf_def bt_ok_insert)
qed

lemma fresh_ids:
  "\<not> id_is_in_use g k \<longleftrightarrow> \<not> bt_contains (cg_definitions g) k \<and> \<not> bt_contains (cg_instances g) k"
  by (simp add: id_is_in_use_def)

lemma fresh_feature:
  assumes "component_wf g" "\<not> feature_id_is_in_use g f" "bt_get (cg_definitions g) k' = Some d'"
    "bd_feature_id (cd_descriptor d') = f"
  shows "k' = k"
  using assms by (auto simp: feature_id_in_use_iff component_wf_def)

lemma define_wf:
  assumes "component_wf g" "define_component g d = (g', Inr ())"
  shows "component_wf g'"
  using assms
  by (auto simp: define_component_ok fresh_ids definition_wf_def
      intro!: insert_definition_wf dest: fresh_feature)

lemma create_wf:
  assumes wf: "component_wf g" and "create_instance g x = (g', Inr ())"
  shows "component_wf g'"
  using assms
  by (auto simp: create_instance_ok fresh_ids instance_wf_def intro!: insert_instance_wf)

lemma transform_wf:
  assumes wf: "component_wf g" and "transform_instance g i t = (g', Inr ())"
  shows "component_wf g'"
proof -
  from assms obtain x where t: "list_all f64_finite (v3 t)" and x: "bt_get (cg_instances g) i = Some x"
    and g': "g' = g\<lparr>cg_instances := bt_insert i (x\<lparr>ci_transform := t\<rparr>) (cg_instances g)\<rparr>"
    by (auto simp: transform_instance_ok)
  from component_wf_parts(6) [OF wf x] t have "instance_wf g i (x\<lparr>ci_transform := t\<rparr>)"
    by (simp add: instance_wf_def split: component_reuse.splits)
  moreover have "\<not> bt_contains (cg_definitions g) i" using wf x by (rule instance_not_definition)
  ultimately show ?thesis using g' wf by (simp add: insert_instance_wf)
qed

lemma edit_wf:
  assumes wf: "component_wf g" and "edit_parameter g i p v = (g', Inr ())"
  shows "component_wf g'"
proof -
  from assms obtain d desc where v: "f64_finite v" "f64_pos v" and d: "bt_get (cg_definitions g) i = Some d"
    and desc: "set_dimension p v (cd_descriptor d) = Inr desc"
    and g': "g' = g\<lparr>cg_definitions := bt_insert i (d\<lparr>cd_descriptor := desc\<rparr>) (cg_definitions g)\<rparr>"
    by (auto simp: edit_parameter_ok)
  note s = set_dimension_ok [OF desc]
  from component_wf_parts(5) [OF wf d] v have "definition_wf g i (d\<lparr>cd_descriptor := desc\<rparr>)"
    using s(2) by (simp add: definition_wf_def s(1))
  moreover have "\<not> bt_contains (cg_instances g) i" using wf d by (rule definition_not_instance)
  moreover have "k' = i" if "bt_get (cg_definitions g) k' = Some d'"
      "bd_feature_id (cd_descriptor d') = bd_feature_id (cd_descriptor (d\<lparr>cd_descriptor := desc\<rparr>))" for k' d'
    using component_wf_parts(4) [OF wf] that d by (auto simp: feature_ids_unique_def s(1))
  ultimately show ?thesis using g' wf by (simp add: insert_definition_wf)
qed

lemma independent_wf:
  assumes wf: "component_wf g" and ok: "make_independent g si di i f = (g', Inr ())"
  shows "component_wf g'"
proof -
  from assms obtain x d where x: "bt_get (cg_instances g) si = Some x"
    and d: "bt_get (cg_definitions g) (ci_definition_id x) = Some d"
    and ids: "valid_component_identifier i" "valid_component_identifier di"
      "valid_component_identifier f" "di \<noteq> i" "\<not> id_is_in_use g di" "\<not> id_is_in_use g i"
      "\<not> feature_id_is_in_use g f"
    and g': "g' = g\<lparr>cg_definitions := bt_insert di (independent_definition d di f) (cg_definitions g),
               cg_instances := bt_insert i (independent_instance x si di i) (cg_instances g)\<rparr>"
    by (auto simp: make_independent_ok)
  let ?h = "g\<lparr>cg_definitions := bt_insert di (independent_definition d di f) (cg_definitions g)\<rparr>"
  have "definition_wf g di (independent_definition d di f)"
    using component_wf_parts(5) [OF wf d] ids
    by (simp add: definition_wf_def independent_definition_def dimensions_def)
  then have h: "component_wf ?h"
    using wf ids fresh_feature [OF wf ids(7)]
    by (intro insert_definition_wf) (auto simp: fresh_ids independent_definition_def)
  have "di \<noteq> ci_definition_id x" "si \<noteq> i"
    using x d ids by (auto simp: fresh_ids bt_contains_iff)
  then have "instance_wf ?h i (independent_instance x si di i)"
    using component_wf_parts(6) [OF wf x] x ids
    by (auto simp: instance_wf_def independent_instance_def bt_get_insert bt_contains_iff)
  moreover have "\<not> bt_contains (cg_definitions ?h) i"
    using ids by (simp add: fresh_ids bt.has_ins)
  ultimately have "component_wf (?h\<lparr>cg_instances :=
      bt_insert i (independent_instance x si di i) (cg_instances ?h)\<rparr>)"
    by (rule insert_instance_wf [OF h])
  then show ?thesis using g' by simp
qed

lemma component_apply_wf:
  assumes "component_wf g"
  shows "component_wf (fst (component_apply g c))"
proof (cases "snd (component_apply g c)")
  case (Inl e)
  from component_error_unchanged [OF this] assms show ?thesis by simp
next
  case (Inr u)
  then have "component_apply g c = (fst (component_apply g c), Inr ())"
    by (cases "component_apply g c") simp
  with assms show ?thesis
    by (cases c) (auto intro: define_wf create_wf transform_wf independent_wf edit_wf)
qed

definition component_run :: "component_graph \<Rightarrow> component_command list \<Rightarrow> component_graph" where
  "component_run g cs = fold (\<lambda>c g. fst (component_apply g c)) cs g"

lemma component_run_wf: "component_wf g \<Longrightarrow> component_wf (component_run g cs)"
  unfolding component_run_def by (induction cs arbitrary: g) (auto intro: component_apply_wf)

lemma empty_components_wf: "component_wf empty_components"
  by (simp add: component_wf_def empty_components_def disjoint_keys_def feature_ids_unique_def)

text \<open>
  C16.  After any sequence of component commands, accepted or not, the graph is well-formed: every
  definition has positive dimensions, identifiers and feature identifiers are unique, every instance
  refers to a definition of the graph and an independent one to its sources; so no reference into
  the graph is ever ambiguous.
\<close>

theorem component_graph_sound:
  "component_wf (component_run empty_components cs) \<and>
   resolve_semantic_reference i kind (component_candidates (component_run empty_components cs)) \<noteq>
     RefAmbiguous"
proof -
  have wf: "component_wf (component_run empty_components cs)"
    by (rule component_run_wf [OF empty_components_wf])
  then show ?thesis
    using component_wf_parts(1-3) [OF wf] by (auto simp: resolve_in_graph disjoint_keys_def)
qed

section \<open>Isolation\<close>

lemma definition_frame:
  assumes wf: "component_wf g" and d: "bt_get (cg_definitions g) k = Some d"
    and other: "\<And>p v. c \<noteq> EditParameter k p v"
  shows "bt_get (cg_definitions (fst (component_apply g c))) k = Some d"
proof (cases "snd (component_apply g c)")
  case (Inl e)
  from component_error_unchanged [OF this] d show ?thesis by simp
next
  case (Inr u)
  then obtain g' where ok: "component_apply g c = (g', Inr ())"
    by (cases "component_apply g c") simp
  have used: "bt_contains (cg_definitions g) k" using d by (simp add: bt_contains_iff)
  have "\<forall>p v. c \<noteq> EditParameter k p v" using other by simp
  with ok wf d used have "bt_get (cg_definitions g') k = Some d"
    by (cases c) (auto simp: component_ok fresh_ids bt_get_insert)
  with ok show ?thesis by simp
qed

lemma definition_frame_run:
  assumes "component_wf g" "bt_get (cg_definitions g) k = Some d"
    and "\<And>p v. EditParameter k p v \<notin> set cs"
  shows "bt_get (cg_definitions (component_run g cs)) k = Some d"
  using assms
proof (induction cs arbitrary: g)
  case Nil
  then show ?case by (simp add: component_run_def)
next
  case (Cons c cs)
  have "bt_get (cg_definitions (fst (component_apply g c))) k = Some d"
    using Cons.prems by (intro definition_frame) auto
  with Cons.IH [of "fst (component_apply g c)"] Cons.prems component_apply_wf show ?case
    by (simp add: component_run_def)
qed

text \<open>
  C17.  Making an instance independent gives it a definition of its own with the same dimensions
  and the same placement; from then on no command that edits one of the two definitions can change
  the other.
\<close>

theorem independent_copy_isolated:
  assumes wf: "component_wf g"
    and ok: "component_apply g (MakeIndependent si di i f) = (g', Inr ())"
    and source: "bt_get (cg_instances g) si = Some x"
      "bt_get (cg_definitions g) (ci_definition_id x) = Some d"
  shows "(\<exists>y d'. bt_get (cg_instances g') i = Some y \<and> ci_definition_id y = di \<and>
       ci_transform y = ci_transform x \<and> bt_get (cg_definitions g') di = Some d' \<and>
       dimensions (cd_descriptor d') = dimensions (cd_descriptor d) \<and>
       (\<forall>cs. (\<forall>p v. EditParameter di p v \<notin> set cs) \<longrightarrow>
          bt_get (cg_definitions (component_run g' cs)) di = Some d')) \<and>
    (\<forall>cs. (\<forall>p v. EditParameter (ci_definition_id x) p v \<notin> set cs) \<longrightarrow>
       bt_get (cg_definitions (component_run g' cs)) (ci_definition_id x) = Some d)"
proof -
  from ok wf have mi: "make_independent g si di i f = (g', Inr ())" by simp
  note wf' = independent_wf [OF wf mi]
  from mi source have g': "g' = g\<lparr>cg_definitions := bt_insert di (independent_definition d di f) (cg_definitions g),
       cg_instances := bt_insert i (independent_instance x si di i) (cg_instances g)\<rparr>"
    and fresh: "\<not> id_is_in_use g di"
    by (auto simp: make_independent_ok [OF wf])
  have new: "bt_get (cg_definitions g') di = Some (independent_definition d di f)"
    by (simp add: g' bt_get_insert)
  have "ci_definition_id x \<noteq> di" using fresh source(2) by (auto simp: fresh_ids bt_contains_iff)
  then have old: "bt_get (cg_definitions g') (ci_definition_id x) = Some d"
    using source(2) by (simp add: g' bt_get_insert)
  have inst: "bt_get (cg_instances g') i = Some (independent_instance x si di i)"
    by (simp add: g' bt_get_insert)
  have "dimensions (cd_descriptor (independent_definition d di f)) = dimensions (cd_descriptor d)"
    by (simp add: independent_definition_def dimensions_def)
  with inst new definition_frame_run [OF wf' new] definition_frame_run [OF wf' old] show ?thesis
    by (auto simp: independent_instance_def)
qed

definition demo_bracket :: component_definition where
  "demo_bracket = \<lparr>cd_id = ''base'', cd_selected_feature_ids = [],
     cd_descriptor = \<lparr>bd_feature_id = ''f0'', bd_length = Fin 4, bd_width = Fin 3, bd_height = Fin 2,
                     bd_thickness = Fin 1\<rparr>\<rparr>"

definition demo_instance :: component_instance where
  "demo_instance = \<lparr>ci_id = ''one'', ci_definition_id = ''base'',
     ci_transform = (Fin 0, Fin 0, Fin 0), ci_reuse = Linked\<rparr>"

definition demo_components :: component_graph where
  "demo_components =
     component_run empty_components [Define demo_bracket, CreateInstance demo_instance]"

theorem independent_copy_isolated_witness:
  "bt_get (cg_definitions (component_run
      (fst (component_apply demo_components (MakeIndependent ''one'' ''copy'' ''two'' ''f1'')))
      [EditParameter ''copy'' ''length'' (Fin 9)])) ''base'' = Some demo_bracket"
proof -
  let ?g = "fst (component_apply demo_components (MakeIndependent ''one'' ''copy'' ''two'' ''f1''))"
  have wf: "component_wf demo_components"
    unfolding demo_components_def by (rule component_run_wf [OF empty_components_wf])
  have ok: "component_apply demo_components (MakeIndependent ''one'' ''copy'' ''two'' ''f1'') = (?g, Inr ())"
    by code_simp
  have x: "bt_get (cg_instances demo_components) ''one'' = Some demo_instance" by code_simp
  have d: "bt_get (cg_definitions demo_components) (ci_definition_id demo_instance) = Some demo_bracket"
    by code_simp
  from independent_copy_isolated [OF wf ok x d] show ?thesis by (simp add: demo_instance_def)
qed

end
