(* ===== verification/TuiTypes.thy ===== *)
theory TuiTypes
  imports Prelude
begin

text \<open>
  The vocabulary of the terminal session of \<^verbatim>\<open>crates/tui/src/lib.rs\<close>: the six state
  axes, the events that drive them, diagnostics and acknowledgements, with the part of
  \<^verbatim>\<open>crates/theme/src/lib.rs\<close> that styles an acknowledgement.  A diagnostic of the source
  renders the value of an axis with \<^verbatim>\<open>Debug\<close>; here it keeps the value itself.
\<close>

section \<open>Theme\<close>

datatype semantic_token =
  ViewportBackground | ViewportBody | ViewportEdge | ViewportGrid | ViewportSelectedBody
| ViewportSelectedEdge | ViewportCandidateBody | ViewportCandidateEdge | ViewportDragFeedback
| ViewportOverlay | ViewportWarning | ViewportError | TuiForeground | TuiBackground | TuiMuted
| TuiAccent | TuiWarning | TuiError | TuiSelectionForeground | TuiSelectionBackground

datatype transient_state =
  Hover | Candidate | Drag | Selected | Warning | Error | Cancelled | FocusRecovery
| ResizeRecovery | Ready

datatype non_color_marker =
  Outline | DashedOutline | MotionTrail | SelectionGlyph | WarningGlyph | ErrorGlyph
| CancellationGlyph | FocusRecoveryBanner | ResizeRecoveryGlyph | ReadyStatus

fun marker_text :: "non_color_marker \<Rightarrow> string" where
  "marker_text Outline = ''outline''"
| "marker_text DashedOutline = ''dashed-outline''"
| "marker_text MotionTrail = ''motion-trail''"
| "marker_text SelectionGlyph = ''selection-glyph''"
| "marker_text WarningGlyph = ''warning-glyph''"
| "marker_text ErrorGlyph = ''error-glyph''"
| "marker_text CancellationGlyph = ''cancellation-glyph''"
| "marker_text FocusRecoveryBanner = ''focus-recovery-banner''"
| "marker_text ResizeRecoveryGlyph = ''resize-recovery-glyph''"
| "marker_text ReadyStatus = ''ready-status''"

record transient_visual =
  tv_state :: transient_state
  tv_color :: "semantic_token option"
  tv_background :: "semantic_token option"
  tv_marker :: "non_color_marker option"

definition visual ::
  "transient_state \<Rightarrow> semantic_token \<Rightarrow> semantic_token \<Rightarrow> non_color_marker \<Rightarrow> transient_visual" where
  "visual s fg bg m =
     \<lparr>tv_state = s, tv_color = Some fg, tv_background = Some bg, tv_marker = Some m\<rparr>"

definition transient_visuals :: "transient_visual list" where
  "transient_visuals =
     [visual Hover TuiForeground TuiBackground Outline,
      visual Candidate TuiAccent TuiBackground DashedOutline,
      visual Drag TuiAccent TuiBackground MotionTrail,
      visual Selected TuiSelectionForeground TuiSelectionBackground SelectionGlyph,
      visual Warning TuiWarning TuiBackground WarningGlyph,
      visual Error TuiError TuiBackground ErrorGlyph,
      visual Cancelled TuiMuted TuiBackground CancellationGlyph,
      visual FocusRecovery TuiAccent TuiBackground FocusRecoveryBanner,
      visual ResizeRecovery TuiAccent TuiBackground ResizeRecoveryGlyph,
      visual Ready TuiForeground TuiBackground ReadyStatus]"

record rgb_color =
  rgb_red :: nat
  rgb_green :: nat
  rgb_blue :: nat

section \<open>State axes\<close>

datatype lifecycle_state =
  Probing | InteractiveReady | HeadlessOnly | Restoring | Resizing | Closing | Closed

datatype focus_state = Focused | FocusWasLost

datatype interaction_tool =
  SelectionTool | Orbit | Pan | Zoom | SketchPlacementTool | PropertyEdit

record pointer_origin =
  po_column :: nat
  po_row :: nat

record pointer_capture =
  pc_tool :: interaction_tool
  pc_origin :: pointer_origin
  pc_candidate :: "string option"

datatype capture_state = NoCapture | Captured pointer_capture

datatype interaction_mode =
  ModelessReady | DragActive interaction_tool | CommandModal | HistoryApplying | RecoveryReady

datatype command_outcome = Committed string | CommandRejected string | CommandCancelled string

datatype command_phase =
  Idle
| Draft string string
| Previewing string
| PreviewReady string
| Committing string
| Cancelling
| Outcome command_outcome

datatype history_direction = DirUndo | DirRedo | DirNamed string

datatype tui_history =
  Linear bool bool
| Applying history_direction bool bool

text \<open>A candidate selection remembers the verified selection that it displaced.\<close>

datatype selection_state =
  NoSelection
| SelCandidate "string list" "string list option"
| SelSelected "string list"

section \<open>Events\<close>

datatype preview_result = PreviewOk | PreviewFailed string

datatype command_event =
  OpenCommandEv string
| DraftUpdated string
| PreviewRequested
| PreviewCompleted preview_result
| CommitRequested
| CommitAccepted string string string
| CommitRejected string
| CancelRequested
| CancellationCompleted string
| OutcomeDismissed

datatype history_apply_result =
  Applied string bool bool
| ApplyRejected string

datatype tui_history_event =
  UndoRequested
| RedoRequested
| RestoreNamed string
| ApplyCompleted history_apply_result
| DivergentCommit string string

datatype lifecycle_event =
  ProbeStarted | ProbeFailed string | ResizeStarted | ResizeCompleted | ResizeFailed string
| ProbeSucceeded | RuntimeFailure string | RestoreCompleted | CloseRequested | CleanupCompleted

datatype focus_capture_event =
  FocusLost | FocusIn | RecoveryCompleted
| PointerPressed interaction_tool pointer_origin "string option"
| PointerMoved "string option"
| PointerReleased | DragStarted | DragFinished | CaptureCancelled

datatype selection_verification =
  Exact "string list" | AmbiguousIds "string list" | LostReference | IncompatibleReference

datatype selection_event =
  Nominate "string list" | Verify selection_verification | ClearSelection

datatype interaction_event =
  StartDrag interaction_tool | FinishDrag | IOpenCommand string | CloseCommand
| StartHistory history_direction | IRecoveryCompleted

datatype state_event =
  LifecycleEv lifecycle_event
| FocusCaptureEv focus_capture_event
| SelectionEv selection_event
| CommandEv command_event
| InteractionEv interaction_event
| HistoryEv tui_history_event

section \<open>Event kinds\<close>

datatype command_event_kind =
  KOpen | KDraftUpdated | KPreviewRequested | KPreviewReady | KPreviewRejected | KCommitRequested
| KCommitAccepted | KCommitRejected | KCancelRequested | KCancellationCompleted | KOutcomeDismissed

fun command_kind :: "command_event \<Rightarrow> command_event_kind" where
  "command_kind (OpenCommandEv _) = KOpen"
| "command_kind (DraftUpdated _) = KDraftUpdated"
| "command_kind PreviewRequested = KPreviewRequested"
| "command_kind (PreviewCompleted PreviewOk) = KPreviewReady"
| "command_kind (PreviewCompleted (PreviewFailed _)) = KPreviewRejected"
| "command_kind CommitRequested = KCommitRequested"
| "command_kind (CommitAccepted _ _ _) = KCommitAccepted"
| "command_kind (CommitRejected _) = KCommitRejected"
| "command_kind CancelRequested = KCancelRequested"
| "command_kind (CancellationCompleted _) = KCancellationCompleted"
| "command_kind OutcomeDismissed = KOutcomeDismissed"

datatype history_event_kind =
  KUndoRequested | KRedoRequested | KRestoreNamedRevision | KApplyCompleted | KDivergentCommit

fun history_kind :: "tui_history_event \<Rightarrow> history_event_kind" where
  "history_kind UndoRequested = KUndoRequested"
| "history_kind RedoRequested = KRedoRequested"
| "history_kind (RestoreNamed _) = KRestoreNamedRevision"
| "history_kind (ApplyCompleted _) = KApplyCompleted"
| "history_kind (DivergentCommit _ _) = KDivergentCommit"

datatype lifecycle_event_kind =
  KProbeStarted | KProbeFailed | KResizeStarted | KResizeCompleted | KResizeFailed
| KProbeSucceeded | KRuntimeFailure | KRestoreCompleted | KCloseRequested | KCleanupCompleted

fun lifecycle_kind :: "lifecycle_event \<Rightarrow> lifecycle_event_kind" where
  "lifecycle_kind ProbeStarted = KProbeStarted"
| "lifecycle_kind (ProbeFailed _) = KProbeFailed"
| "lifecycle_kind ResizeStarted = KResizeStarted"
| "lifecycle_kind ResizeCompleted = KResizeCompleted"
| "lifecycle_kind (ResizeFailed _) = KResizeFailed"
| "lifecycle_kind ProbeSucceeded = KProbeSucceeded"
| "lifecycle_kind (RuntimeFailure _) = KRuntimeFailure"
| "lifecycle_kind RestoreCompleted = KRestoreCompleted"
| "lifecycle_kind CloseRequested = KCloseRequested"
| "lifecycle_kind CleanupCompleted = KCleanupCompleted"

datatype focus_capture_event_kind =
  KFocusLost | KFocusIn | KRecoveryCompleted | KPointerPressed | KPointerMoved | KPointerReleased
| KDragStarted | KDragFinished | KCaptureCancelled

fun focus_capture_kind :: "focus_capture_event \<Rightarrow> focus_capture_event_kind" where
  "focus_capture_kind FocusLost = KFocusLost"
| "focus_capture_kind FocusIn = KFocusIn"
| "focus_capture_kind RecoveryCompleted = KRecoveryCompleted"
| "focus_capture_kind (PointerPressed _ _ _) = KPointerPressed"
| "focus_capture_kind (PointerMoved _) = KPointerMoved"
| "focus_capture_kind PointerReleased = KPointerReleased"
| "focus_capture_kind DragStarted = KDragStarted"
| "focus_capture_kind DragFinished = KDragFinished"
| "focus_capture_kind CaptureCancelled = KCaptureCancelled"

datatype selection_event_kind =
  KNominate | KVerifyExact | KVerifyAmbiguous | KVerifyLost | KVerifyIncompatible | KClear

fun selection_kind :: "selection_event \<Rightarrow> selection_event_kind" where
  "selection_kind (Nominate _) = KNominate"
| "selection_kind (Verify (Exact _)) = KVerifyExact"
| "selection_kind (Verify (AmbiguousIds _)) = KVerifyAmbiguous"
| "selection_kind (Verify LostReference) = KVerifyLost"
| "selection_kind (Verify IncompatibleReference) = KVerifyIncompatible"
| "selection_kind ClearSelection = KClear"

datatype interaction_event_kind =
  KStartDrag | KFinishDrag | KOpenCommand | KCloseCommand | KStartHistory | KIRecoveryCompleted

fun interaction_kind :: "interaction_event \<Rightarrow> interaction_event_kind" where
  "interaction_kind (StartDrag _) = KStartDrag"
| "interaction_kind FinishDrag = KFinishDrag"
| "interaction_kind (IOpenCommand _) = KOpenCommand"
| "interaction_kind CloseCommand = KCloseCommand"
| "interaction_kind (StartHistory _) = KStartHistory"
| "interaction_kind IRecoveryCompleted = KIRecoveryCompleted"

datatype state_event_kind =
  LifecycleK lifecycle_event_kind
| FocusCaptureK focus_capture_event_kind
| SelectionK selection_event_kind
| CommandK command_event_kind
| InteractionK interaction_event_kind
| HistoryK history_event_kind

datatype state_axis =
  AxisLifecycle | AxisFocusCapture | AxisSelection | AxisInteractionMode | AxisCommandPhase
| AxisHistory

section \<open>Diagnostics and acknowledgements\<close>

datatype diagnostic_code =
  NoFeatureTarget | InvalidArrowInput | InvalidTransition | AmbiguousSelection
| CommandWasRejected | HistoryWasRejected | LifecycleFailure | CommandWasCancelled | SelectionLost
| SelectionIncompatible | StalePreview | ThemeRenderingFailure | StalePick

fun diagnostic_text :: "diagnostic_code \<Rightarrow> string" where
  "diagnostic_text NoFeatureTarget = ''no_feature_target''"
| "diagnostic_text InvalidArrowInput = ''invalid_arrow_input''"
| "diagnostic_text InvalidTransition = ''invalid_transition''"
| "diagnostic_text AmbiguousSelection = ''ambiguous_selection''"
| "diagnostic_text CommandWasRejected = ''command_rejected''"
| "diagnostic_text HistoryWasRejected = ''history_rejected''"
| "diagnostic_text LifecycleFailure = ''lifecycle_failure''"
| "diagnostic_text CommandWasCancelled = ''command_cancelled''"
| "diagnostic_text SelectionLost = ''selection_lost''"
| "diagnostic_text SelectionIncompatible = ''selection_incompatible''"
| "diagnostic_text StalePreview = ''stale_preview''"
| "diagnostic_text ThemeRenderingFailure = ''theme_rendering_failure''"
| "diagnostic_text StalePick = ''stale_pick''"

text \<open>Where a diagnostic comes from: a name, or the value of an axis.\<close>

datatype diagnostic_from =
  FromName string
| FromLifecycle lifecycle_state
| FromFocusCapture focus_state capture_state
| FromSelection selection_state
| FromInteraction interaction_mode
| FromCommand command_phase
| FromHistory tui_history

datatype diagnostic_detail =
  Detail string
| NotValidFrom state_event_kind diagnostic_from
| ThemeFailure "semantic_token option" string

record tui_diagnostic =
  dg_code :: diagnostic_code
  dg_detail :: diagnostic_detail
  dg_canonical_revision :: string
  dg_axis :: "state_axis option"
  dg_event :: "state_event_kind option"
  dg_from :: "diagnostic_from option"

record state_acknowledgement =
  sa_sequence :: nat
  sa_event :: state_event_kind
  sa_text :: string
  sa_marker :: non_color_marker
  sa_color :: "semantic_token option"
  sa_background :: "semantic_token option"

datatype arrow_key = ArrowUp | ArrowDown | ArrowLeft | ArrowRight

datatype navigation_direction = Previous | Next

datatype navigation_result = Moved | Boundary | NoTarget

fun arrow_direction :: "arrow_key \<Rightarrow> navigation_direction" where
  "arrow_direction ArrowUp = Previous"
| "arrow_direction ArrowLeft = Previous"
| "arrow_direction ArrowDown = Next"
| "arrow_direction ArrowRight = Next"

record gesture_acknowledgement =
  ga_sequence :: nat
  ga_key :: arrow_key
  ga_result :: navigation_result
  ga_text :: string
  ga_marker :: non_color_marker
  ga_color :: "semantic_token option"
  ga_background :: "semantic_token option"

record feature_target =
  tg_id :: string
  tg_label :: string

record feature_timeline_revision =
  fr_ordinal :: nat
  fr_revision_id :: string
  fr_operation :: string
  fr_status :: string
  fr_stale_fingerprint :: string
  fr_named_revision_names :: "string list"

record feature_timeline_view =
  fv_feature_id :: string
  fv_active_revision :: string
  fv_revisions :: "feature_timeline_revision list"
  fv_named_revisions :: "string list"
  fv_named_revision_provenance :: "(string \<times> string) list"

record stale_geometry_view =
  sg_feature_id :: string
  sg_status :: string
  sg_active_revision :: string
  sg_last_valid_fingerprint :: string

end
