(* ===== verification/TuiSession.thy ===== *)
theory TuiSession
  imports TuiTypes
begin

text \<open>
  \<^verbatim>\<open>TuiSession\<close> of \<^verbatim>\<open>crates/tui/src/lib.rs\<close>: the session and its six
  transition handlers, arrow navigation and the feature timeline panel.  A handler returns the
  session it leaves together with its result, or \<open>None\<close> where the source panics (the
  \<^verbatim>\<open>expect\<close> on the active command).  The colours of the palette
  (\<^verbatim>\<open>Palette::rgb\<close> of the theme) are the parameter \<open>rgb\<close>, whose error is the
  text of the theme's error; a transition whose overlay cannot be coloured fails after it changed
  the session, as in the source.
\<close>

type_synonym palette_rgb = "semantic_token \<Rightarrow> string + rgb_color"

section \<open>The session\<close>

record tui_session =
  s_targets :: "feature_target list"
  s_selected_index :: "nat option"
  s_lifecycle :: lifecycle_state
  s_focus :: focus_state
  s_capture :: capture_state
  s_selection :: selection_state
  s_mode :: interaction_mode
  s_phase :: command_phase
  s_active_command :: "string option"
  s_source_revision :: "string option"
  s_history :: tui_history
  s_recoverable :: "string list"
  s_timeline :: "feature_timeline_view option"
  s_stale_geometry :: "stale_geometry_view list"
  s_generation :: nat
  s_canonical_revision :: string
  s_acknowledgement_sequence :: nat
  s_last_acknowledgement :: "gesture_acknowledgement option"
  s_transition_sequence :: nat
  s_last_transition :: "state_acknowledgement option"

record tui_state =
  t_lifecycle :: lifecycle_state
  t_focus :: focus_state
  t_capture :: capture_state
  t_selected_target :: "string option"
  t_selection :: selection_state
  t_mode :: interaction_mode
  t_phase :: command_phase
  t_source_revision :: "string option"
  t_history :: tui_history
  t_recoverable :: "string list"
  t_timeline :: "feature_timeline_view option"
  t_stale_geometry :: "stale_geometry_view list"
  t_generation :: nat
  t_canonical_revision :: string
  t_last_acknowledgement :: "gesture_acknowledgement option"
  t_last_transition :: "state_acknowledgement option"

record state_transition =
  st_state :: tui_state
  st_acknowledgement :: state_acknowledgement
  st_overlay :: string
  st_diagnostic :: "tui_diagnostic option"

type_synonym outcome = "(tui_session \<times> (tui_diagnostic + state_transition)) option"

definition new_session :: "feature_target list \<Rightarrow> string \<Rightarrow> tui_session" where
  "new_session targets revision =
     \<lparr>s_targets = targets, s_selected_index = None, s_lifecycle = InteractiveReady,
      s_focus = Focused, s_capture = NoCapture, s_selection = NoSelection, s_mode = ModelessReady,
      s_phase = Idle, s_active_command = None, s_source_revision = None,
      s_history = Linear False False, s_recoverable = [], s_timeline = None,
      s_stale_geometry = [], s_generation = 0, s_canonical_revision = revision,
      s_acknowledgement_sequence = 0, s_last_acknowledgement = None, s_transition_sequence = 0,
      s_last_transition = None\<rparr>"

definition new_probing :: "feature_target list \<Rightarrow> string \<Rightarrow> tui_session" where
  "new_probing targets revision = (new_session targets revision)\<lparr>s_lifecycle := Probing\<rparr>"

definition selected_target :: "tui_session \<Rightarrow> string option" where
  "selected_target s =
     (case s_selection s of SelSelected (i # _) \<Rightarrow> Some i | _ \<Rightarrow> None)"

definition selected_ids :: "tui_session \<Rightarrow> string list option" where
  "selected_ids s =
     (case s_selection s of
        SelSelected ids \<Rightarrow> Some ids
      | SelCandidate _ previous \<Rightarrow> previous
      | NoSelection \<Rightarrow> None)"

definition state_of :: "tui_session \<Rightarrow> tui_state" where
  "state_of s =
     \<lparr>t_lifecycle = s_lifecycle s, t_focus = s_focus s, t_capture = s_capture s,
      t_selected_target = selected_target s, t_selection = s_selection s, t_mode = s_mode s,
      t_phase = s_phase s, t_source_revision = s_source_revision s, t_history = s_history s,
      t_recoverable = s_recoverable s, t_timeline = s_timeline s,
      t_stale_geometry = s_stale_geometry s, t_generation = s_generation s,
      t_canonical_revision = s_canonical_revision s,
      t_last_acknowledgement = s_last_acknowledgement s,
      t_last_transition = s_last_transition s\<rparr>"

section \<open>Acknowledgements\<close>

definition visual_for :: "transient_state \<Rightarrow> transient_visual" where
  "visual_for state = the (find (\<lambda>v. tv_state v = state) transient_visuals)"

definition overlay_escape :: "rgb_color \<Rightarrow> string \<Rightarrow> string" where
  "overlay_escape c ground =
     CHR 0x1B # ''['' @ ground @ '';2;'' @ show_nat (rgb_red c) @ '';'' @ show_nat (rgb_green c) @
       '';'' @ show_nat (rgb_blue c) @ ''m''"

type_synonym theme_error = "semantic_token option \<times> string"

definition render_overlay_text ::
  "palette_rgb \<Rightarrow> non_color_marker \<Rightarrow> string \<Rightarrow> semantic_token option \<Rightarrow> semantic_token option \<Rightarrow>
   theme_error + string" where
  "render_overlay_text rgb marker text foreground background =
     and_then (ok_or foreground (None, ''overlay has no foreground token'')) (\<lambda>fg.
     and_then (ok_or background (None, ''overlay has no background token'')) (\<lambda>bg.
     and_then (case rgb fg of Inl e \<Rightarrow> Inl (Some fg, e) | Inr c \<Rightarrow> Inr c) (\<lambda>fg_rgb.
     and_then (case rgb bg of Inl e \<Rightarrow> Inl (Some bg, e) | Inr c \<Rightarrow> Inr c) (\<lambda>bg_rgb.
     Inr (overlay_escape fg_rgb ''38'' @ overlay_escape bg_rgb ''48'' @ ''['' @ marker_text marker @
          ''] '' @ text @ CHR 0x1B # ''[0m'')))))"

definition theme_diagnostic :: "tui_session \<Rightarrow> theme_error \<Rightarrow> tui_diagnostic" where
  "theme_diagnostic s e =
     \<lparr>dg_code = ThemeRenderingFailure, dg_detail = ThemeFailure (fst e) (snd e),
      dg_canonical_revision = s_canonical_revision s, dg_axis = None, dg_event = None,
      dg_from = None\<rparr>"

definition stale_geometry_overlay :: "tui_session \<Rightarrow> string option" where
  "stale_geometry_overlay s =
     (case s_stale_geometry s of
        [] \<Rightarrow> None
      | g # _ \<Rightarrow> Some (''[warning-glyph] stale-last-valid-geometry feature='' @ sg_feature_id g @
          '' status='' @ sg_status g @ '' revision='' @ sg_active_revision g @
          '' last_valid='' @ sg_last_valid_fingerprint g))"

definition append_stale_overlay :: "tui_session \<Rightarrow> string \<Rightarrow> string" where
  "append_stale_overlay s overlay =
     (case stale_geometry_overlay s of
        None \<Rightarrow> overlay | Some stale \<Rightarrow> overlay @ CHR 0x0A # stale)"

definition operation_diagnostic ::
  "tui_session \<Rightarrow> diagnostic_code \<Rightarrow> state_axis \<Rightarrow> state_event_kind \<Rightarrow> string \<Rightarrow> diagnostic_from \<Rightarrow>
   tui_diagnostic" where
  "operation_diagnostic s code axis event detail from_axis =
     \<lparr>dg_code = code, dg_detail = Detail detail, dg_canonical_revision = s_canonical_revision s,
      dg_axis = Some axis, dg_event = Some event, dg_from = Some from_axis\<rparr>"

definition finish_with ::
  "palette_rgb \<Rightarrow> tui_session \<Rightarrow> state_event_kind \<Rightarrow> string \<Rightarrow> transient_state \<Rightarrow>
   tui_diagnostic option \<Rightarrow> outcome" where
  "finish_with rgb s event text state diagnostic =
     (let v = visual_for state;
          ack = \<lparr>sa_sequence = s_transition_sequence s + 1, sa_event = event, sa_text = text,
                 sa_marker = the (tv_marker v), sa_color = tv_color v,
                 sa_background = tv_background v\<rparr>;
          s' = s\<lparr>s_transition_sequence := s_transition_sequence s + 1,
                 s_last_transition := Some ack\<rparr> in
      case render_overlay_text rgb (sa_marker ack) (sa_text ack) (sa_color ack) (sa_background ack) of
        Inl e \<Rightarrow> Some (s', Inl (theme_diagnostic s' e))
      | Inr overlay \<Rightarrow> Some (s', Inr \<lparr>st_state = state_of s', st_acknowledgement = ack,
          st_overlay = append_stale_overlay s' overlay, st_diagnostic = diagnostic\<rparr>))"

definition finish_transition ::
  "palette_rgb \<Rightarrow> tui_session \<Rightarrow> state_event_kind \<Rightarrow> string \<Rightarrow> transient_state \<Rightarrow> outcome" where
  "finish_transition rgb s event text state = finish_with rgb s event text state None"

fun axis_from :: "tui_session \<Rightarrow> state_axis \<Rightarrow> diagnostic_from" where
  "axis_from s AxisLifecycle = FromLifecycle (s_lifecycle s)"
| "axis_from s AxisFocusCapture = FromFocusCapture (s_focus s) (s_capture s)"
| "axis_from s AxisSelection = FromSelection (s_selection s)"
| "axis_from s AxisInteractionMode = FromInteraction (s_mode s)"
| "axis_from s AxisCommandPhase = FromCommand (s_phase s)"
| "axis_from s AxisHistory = FromHistory (s_history s)"

definition invalid_diagnostic ::
  "tui_session \<Rightarrow> state_axis \<Rightarrow> state_event_kind \<Rightarrow> tui_diagnostic" where
  "invalid_diagnostic s axis event =
     \<lparr>dg_code = InvalidTransition, dg_detail = NotValidFrom event (axis_from s axis),
      dg_canonical_revision = s_canonical_revision s, dg_axis = Some axis, dg_event = Some event,
      dg_from = Some (axis_from s axis)\<rparr>"

definition invalid_transition :: "tui_session \<Rightarrow> state_axis \<Rightarrow> state_event_kind \<Rightarrow> outcome" where
  "invalid_transition s axis event = Some (s, Inl (invalid_diagnostic s axis event))"

definition rejected :: "tui_session \<Rightarrow> tui_diagnostic \<Rightarrow> outcome" where
  "rejected s d = Some (s, Inl d)"

text \<open>The guard that every handler but the lifecycle's opens with.\<close>

definition guard_blocks :: "tui_session \<Rightarrow> bool \<Rightarrow> bool" where
  "guard_blocks s allows_focus_recovery =
     (s_lifecycle s \<noteq> InteractiveReady \<or> (s_focus s = FocusWasLost \<and> \<not> allows_focus_recovery))"

section \<open>Shared updates\<close>

definition target_position :: "tui_session \<Rightarrow> string \<Rightarrow> nat option" where
  "target_position s i = find (\<lambda>n. tg_id (s_targets s ! n) = i) [0..<length (s_targets s)]"

definition is_target :: "tui_session \<Rightarrow> string \<Rightarrow> bool" where
  "is_target s i = list_ex (\<lambda>t. tg_id t = i) (s_targets s)"

definition first_position :: "tui_session \<Rightarrow> string list \<Rightarrow> nat option" where
  "first_position s ids = (case ids of [] \<Rightarrow> None | i # _ \<Rightarrow> target_position s i)"

definition restore_selection :: "tui_session \<Rightarrow> tui_session" where
  "restore_selection s =
     (case s_selection s of
        SelCandidate _ (Some ids) \<Rightarrow>
          s\<lparr>s_selected_index := first_position s ids, s_selection := SelSelected ids\<rparr>
      | SelCandidate _ None \<Rightarrow> s\<lparr>s_selection := NoSelection\<rparr>
      | _ \<Rightarrow> s)"

fun history_availability :: "tui_history \<Rightarrow> bool \<times> bool" where
  "history_availability (Linear u r) = (u, r)"
| "history_availability (Applying _ u r) = (u, r)"

fun is_linear :: "tui_history \<Rightarrow> bool" where
  "is_linear (Linear _ _) = True"
| "is_linear _ = False"

fun can_undo_now :: "tui_history \<Rightarrow> bool" where
  "can_undo_now (Linear u _) = u"
| "can_undo_now _ = False"

fun can_redo_now :: "tui_history \<Rightarrow> bool" where
  "can_redo_now (Linear _ r) = r"
| "can_redo_now _ = False"

definition linearized :: "tui_history \<Rightarrow> tui_history" where
  "linearized h = (case history_availability h of (u, r) \<Rightarrow> Linear u r)"

definition cancel_history_application :: "tui_session \<Rightarrow> tui_session" where
  "cancel_history_application s =
     (if is_linear (s_history s) then s
      else s\<lparr>s_history := linearized (s_history s),
             s_mode := (if s_mode s = HistoryApplying then ModelessReady else s_mode s)\<rparr>)"

fun is_drag :: "interaction_mode \<Rightarrow> bool" where
  "is_drag (DragActive _) = True"
| "is_drag _ = False"

fun preview_fingerprint :: "command_phase \<Rightarrow> string option" where
  "preview_fingerprint (Previewing f) = Some f"
| "preview_fingerprint (PreviewReady f) = Some f"
| "preview_fingerprint _ = None"

fun is_outcome :: "command_phase \<Rightarrow> bool" where
  "is_outcome (Outcome _) = True"
| "is_outcome _ = False"

definition end_drag :: "tui_session \<Rightarrow> tui_session" where
  "end_drag s = (if is_drag (s_mode s) then s\<lparr>s_mode := ModelessReady\<rparr> else s)"

text \<open>
  A preview that is invalidated goes back to the draft of the active command; without an active
  command the source panics.
\<close>

definition preview_to_draft :: "tui_session \<Rightarrow> tui_session option" where
  "preview_to_draft s =
     (case preview_fingerprint (s_phase s) of
        None \<Rightarrow> Some s
      | Some f \<Rightarrow> (case s_active_command s of
                    None \<Rightarrow> None
                  | Some command \<Rightarrow> Some (s\<lparr>s_phase := Draft command f\<rparr>)))"

definition invalidate_for_resize :: "tui_session \<Rightarrow> tui_session option" where
  "invalidate_for_resize s =
     (let s1 = s\<lparr>s_generation := s_generation s + 1, s_capture := NoCapture\<rparr>;
          s2 = end_drag (cancel_history_application (restore_selection s1)) in
      case preview_to_draft s2 of
        None \<Rightarrow> None
      | Some s3 \<Rightarrow> Some (if preview_fingerprint (s_phase s2) = None then s3
                         else s3\<lparr>s_mode := CommandModal\<rparr>))"

definition clear_command :: "tui_session \<Rightarrow> tui_session" where
  "clear_command s = s\<lparr>s_phase := Idle, s_active_command := None, s_source_revision := None\<rparr>"

definition recovered_mode :: "tui_session \<Rightarrow> interaction_mode" where
  "recovered_mode s = (if s_phase s = Idle then ModelessReady else CommandModal)"

section \<open>Lifecycle\<close>

definition resize_failed :: "palette_rgb \<Rightarrow> tui_session \<Rightarrow> state_event_kind \<Rightarrow> string \<Rightarrow> diagnostic_from \<Rightarrow>
   string \<Rightarrow> transient_state \<Rightarrow> outcome" where
  "resize_failed rgb s kind detail from_axis text state =
     (case invalidate_for_resize s of
        None \<Rightarrow> None
      | Some t \<Rightarrow>
          let t' = t\<lparr>s_lifecycle := Restoring\<rparr> in
          finish_with rgb t' kind text state
            (Some (operation_diagnostic t' LifecycleFailure AxisLifecycle kind detail from_axis)))"

fun handle_lifecycle :: "palette_rgb \<Rightarrow> tui_session \<Rightarrow> lifecycle_event \<Rightarrow> outcome" where
  "handle_lifecycle rgb s ProbeStarted =
     (let kind = LifecycleK KProbeStarted in
      if s_lifecycle s = HeadlessOnly then
        finish_transition rgb (s\<lparr>s_lifecycle := Probing\<rparr>) kind ''probing'' Ready
      else invalid_transition s AxisLifecycle kind)"
| "handle_lifecycle rgb s ProbeSucceeded =
     (let kind = LifecycleK KProbeSucceeded in
      if s_lifecycle s = Probing then
        finish_transition rgb
          (clear_command (s\<lparr>s_lifecycle := InteractiveReady, s_focus := Focused,
             s_capture := NoCapture, s_mode := ModelessReady\<rparr>))
          kind ''interactive readiness'' Ready
      else invalid_transition s AxisLifecycle kind)"
| "handle_lifecycle rgb s (ProbeFailed detail) =
     (let kind = LifecycleK KProbeFailed in
      if s_lifecycle s = Probing then
        let t = s\<lparr>s_lifecycle := HeadlessOnly\<rparr> in
        finish_with rgb t kind ''headless-only recovery'' Error
          (Some (operation_diagnostic t LifecycleFailure AxisLifecycle kind detail
                   (FromName ''Probing'')))
      else invalid_transition s AxisLifecycle kind)"
| "handle_lifecycle rgb s ResizeStarted =
     (let kind = LifecycleK KResizeStarted in
      if s_lifecycle s = InteractiveReady then
        (case invalidate_for_resize s of
           None \<Rightarrow> None
         | Some t \<Rightarrow>
             finish_transition rgb (t\<lparr>s_lifecycle := Resizing\<rparr>) kind ''resizing'' ResizeRecovery)
      else invalid_transition s AxisLifecycle kind)"
| "handle_lifecycle rgb s ResizeCompleted =
     (let kind = LifecycleK KResizeCompleted in
      if s_lifecycle s = Resizing then
        let t = s\<lparr>s_lifecycle := InteractiveReady\<rparr> in
        finish_transition rgb
          (if s_phase t = Idle then t\<lparr>s_mode := ModelessReady\<rparr>
           else if \<not> is_outcome (s_phase t) then t\<lparr>s_mode := CommandModal\<rparr> else t)
          kind ''resize recovery complete'' Ready
      else invalid_transition s AxisLifecycle kind)"
| "handle_lifecycle rgb s (ResizeFailed detail) =
     (let kind = LifecycleK KResizeFailed in
      if s_lifecycle s = Resizing then
        resize_failed rgb s kind detail (FromName ''Resizing'') ''resize recovery failed'' Error
      else invalid_transition s AxisLifecycle kind)"
| "handle_lifecycle rgb s (RuntimeFailure detail) =
     (let kind = LifecycleK KRuntimeFailure in
      if s_lifecycle s = InteractiveReady \<or> s_lifecycle s = Resizing then
        resize_failed rgb s kind detail (FromLifecycle (s_lifecycle s))
          ''restoring after runtime failure'' Warning
      else invalid_transition s AxisLifecycle kind)"
| "handle_lifecycle rgb s RestoreCompleted =
     (let kind = LifecycleK KRestoreCompleted in
      if s_lifecycle s = Restoring then
        finish_transition rgb (s\<lparr>s_lifecycle := HeadlessOnly\<rparr>) kind ''headless-only recovery'' Error
      else invalid_transition s AxisLifecycle kind)"
| "handle_lifecycle rgb s CloseRequested =
     (let kind = LifecycleK KCloseRequested in
      if s_lifecycle s \<noteq> Closing \<and> s_lifecycle s \<noteq> Closed then
        let t = clear_command ((restore_selection (s\<lparr>s_capture := NoCapture\<rparr>))\<lparr>s_mode := ModelessReady\<rparr>) in
        finish_transition rgb
          (t\<lparr>s_history := (if is_linear (s_history t) then s_history t else linearized (s_history t)),
             s_lifecycle := Closing\<rparr>)
          kind ''closing'' Cancelled
      else invalid_transition s AxisLifecycle kind)"
| "handle_lifecycle rgb s CleanupCompleted =
     (let kind = LifecycleK KCleanupCompleted in
      if s_lifecycle s = Closing then
        finish_transition rgb (s\<lparr>s_lifecycle := Closed\<rparr>) kind ''closed'' Ready
      else invalid_transition s AxisLifecycle kind)"

section \<open>Focus and capture\<close>

fun is_captured :: "capture_state \<Rightarrow> bool" where
  "is_captured (Captured _) = True"
| "is_captured NoCapture = False"

text \<open>A pointer candidate replaces the selection and remembers it.\<close>

definition nominate :: "tui_session \<Rightarrow> string list option \<Rightarrow> string list \<Rightarrow> tui_session" where
  "nominate s previous candidates =
     s\<lparr>s_selected_index := None, s_selection := SelCandidate candidates previous\<rparr>"

definition pointer_candidate :: "tui_session \<Rightarrow> string option \<Rightarrow> tui_session" where
  "pointer_candidate s candidate =
     (case candidate of None \<Rightarrow> s | Some c \<Rightarrow> nominate s (selected_ids s) [c])"

fun focus_capture_step :: "palette_rgb \<Rightarrow> tui_session \<Rightarrow> focus_capture_event \<Rightarrow> outcome" where
  "focus_capture_step rgb s (PointerPressed tool origin candidate) =
     (let kind = FocusCaptureK KPointerPressed in
      if s_capture s = NoCapture \<and> s_mode s = ModelessReady then
        finish_transition rgb
          (pointer_candidate
             (s\<lparr>s_capture := Captured \<lparr>pc_tool = tool, pc_origin = origin, pc_candidate = candidate\<rparr>\<rparr>)
             candidate)
          kind ''pointer candidate'' Candidate
      else invalid_transition s AxisFocusCapture kind)"
| "focus_capture_step rgb s (PointerMoved candidate) =
     (let kind = FocusCaptureK KPointerMoved in
      case s_capture s of
        Captured capture \<Rightarrow>
          (if s_focus s = Focused then
             finish_transition rgb
               (pointer_candidate
                  (s\<lparr>s_capture := Captured (capture\<lparr>pc_candidate := candidate\<rparr>)\<rparr>) candidate)
               kind ''pointer capture updated'' Candidate
           else invalid_transition s AxisFocusCapture kind)
      | NoCapture \<Rightarrow> invalid_transition s AxisFocusCapture kind)"
| "focus_capture_step rgb s DragStarted =
     (let kind = FocusCaptureK KDragStarted in
      case s_capture s of
        Captured capture \<Rightarrow>
          (if s_mode s = ModelessReady then
             finish_transition rgb (s\<lparr>s_mode := DragActive (pc_tool capture)\<rparr>) kind ''drag active'' Drag
           else invalid_transition s AxisFocusCapture kind)
      | NoCapture \<Rightarrow> invalid_transition s AxisFocusCapture kind)"
| "focus_capture_step rgb s DragFinished =
     (let kind = FocusCaptureK KDragFinished in
      if is_drag (s_mode s) \<and> is_captured (s_capture s) then
        finish_transition rgb (s\<lparr>s_mode := ModelessReady, s_capture := NoCapture\<rparr>)
          kind ''drag finished'' Ready
      else invalid_transition s AxisFocusCapture kind)"
| "focus_capture_step rgb s PointerReleased =
     (let kind = FocusCaptureK KPointerReleased in
      if is_captured (s_capture s) then
        finish_transition rgb (end_drag (s\<lparr>s_capture := NoCapture\<rparr>))
          kind ''pointer release acknowledged'' Ready
      else invalid_transition s AxisFocusCapture kind)"
| "focus_capture_step rgb s FocusLost =
     (let kind = FocusCaptureK KFocusLost in
      if s_focus s = Focused then
        (case preview_to_draft (restore_selection (s\<lparr>s_focus := FocusWasLost, s_capture := NoCapture\<rparr>)) of
           None \<Rightarrow> None
         | Some t \<Rightarrow>
             finish_transition rgb (end_drag (cancel_history_application t))
               kind ''focus lost; capture cancelled'' FocusRecovery)
      else invalid_transition s AxisFocusCapture kind)"
| "focus_capture_step rgb s FocusIn =
     (let kind = FocusCaptureK KFocusIn in
      if s_focus s = FocusWasLost then
        finish_transition rgb (s\<lparr>s_focus := Focused, s_capture := NoCapture, s_mode := RecoveryReady\<rparr>)
          kind ''focus recovery ready'' FocusRecovery
      else invalid_transition s AxisFocusCapture kind)"
| "focus_capture_step rgb s RecoveryCompleted =
     (let kind = FocusCaptureK KRecoveryCompleted in
      if s_mode s = RecoveryReady \<and> s_focus s = Focused then
        finish_transition rgb (s\<lparr>s_mode := recovered_mode s\<rparr>) kind ''focus recovery complete'' Ready
      else invalid_transition s AxisFocusCapture kind)"
| "focus_capture_step rgb s CaptureCancelled =
     (let kind = FocusCaptureK KCaptureCancelled in
      if is_captured (s_capture s) \<or> is_drag (s_mode s) then
        finish_transition rgb (restore_selection (s\<lparr>s_capture := NoCapture, s_mode := ModelessReady\<rparr>))
          kind ''capture cancelled'' Cancelled
      else invalid_transition s AxisFocusCapture kind)"

definition handle_focus_capture :: "palette_rgb \<Rightarrow> tui_session \<Rightarrow> focus_capture_event \<Rightarrow> outcome" where
  "handle_focus_capture rgb s event =
     (if guard_blocks s (event = FocusIn)
      then invalid_transition s AxisFocusCapture (FocusCaptureK (focus_capture_kind event))
      else focus_capture_step rgb s event)"

section \<open>Selection\<close>

definition authoritative :: "tui_session \<Rightarrow> string list \<Rightarrow> string list \<Rightarrow> bool" where
  "authoritative s candidates ids =
     (distinct ids \<and> list_all (\<lambda>i. i \<in> set candidates \<and> is_target s i) ids)"

definition drop_selection :: "tui_session \<Rightarrow> tui_session" where
  "drop_selection s = s\<lparr>s_selected_index := None, s_selection := NoSelection, s_timeline := None\<rparr>"

definition verify_exact ::
  "palette_rgb \<Rightarrow> tui_session \<Rightarrow> state_event_kind \<Rightarrow> string list \<Rightarrow> string list \<Rightarrow> outcome" where
  "verify_exact rgb s kind candidates ids =
     (if ids \<noteq> [] \<and> authoritative s candidates ids then
        let previous_target = selected_target s;
            t = s\<lparr>s_selected_index := first_position s ids, s_selection := SelSelected ids\<rparr> in
        finish_transition rgb
          (if previous_target \<noteq> selected_target t then t\<lparr>s_timeline := None\<rparr> else t)
          kind ''selection verified'' Selected
      else rejected s (operation_diagnostic s SelectionIncompatible AxisSelection kind
             ''verified selection is not an authoritative candidate'' (FromName ''Candidate'')))"

definition verify_ambiguous ::
  "palette_rgb \<Rightarrow> tui_session \<Rightarrow> state_event_kind \<Rightarrow> string list \<Rightarrow> string list \<Rightarrow> outcome" where
  "verify_ambiguous rgb s kind candidates ids =
     (if 1 < length ids \<and> authoritative s candidates ids then
        let t = nominate s (selected_ids s) ids in
        finish_with rgb t kind ''selection remains pending'' Warning
          (Some (operation_diagnostic t AmbiguousSelection AxisSelection kind
                   ''authoritative selection has multiple candidates'' (FromName ''Candidate'')))
      else rejected s (operation_diagnostic s SelectionIncompatible AxisSelection kind
             ''ambiguous selection contains an unauthoritative id'' (FromName ''Candidate'')))"

fun selection_step :: "palette_rgb \<Rightarrow> tui_session \<Rightarrow> selection_event \<Rightarrow> outcome" where
  "selection_step rgb s (Nominate candidates) =
     (let kind = SelectionK KNominate in
      if candidates \<noteq> [] then
        finish_transition rgb (nominate s (selected_ids s) candidates)
          kind ''selection candidate'' Candidate
      else invalid_transition s AxisSelection kind)"
| "selection_step rgb s (Verify v) =
     (let kind = SelectionK (selection_kind (Verify v)) in
      case s_selection s of
        SelCandidate candidates _ \<Rightarrow>
          (case v of
             Exact ids \<Rightarrow> verify_exact rgb s kind candidates ids
           | AmbiguousIds ids \<Rightarrow> verify_ambiguous rgb s kind candidates ids
           | LostReference \<Rightarrow>
               let t = drop_selection s in
               finish_with rgb t kind ''selection reference lost'' Error
                 (Some (operation_diagnostic t SelectionLost AxisSelection kind
                          ''authoritative selection reference was lost'' (FromName ''Candidate'')))
           | IncompatibleReference \<Rightarrow>
               let t = drop_selection s in
               finish_with rgb t kind ''selection reference incompatible'' Error
                 (Some (operation_diagnostic t SelectionIncompatible AxisSelection kind
                          ''authoritative selection reference is incompatible'' (FromName ''Candidate''))))
      | _ \<Rightarrow> invalid_transition s AxisSelection kind)"
| "selection_step rgb s ClearSelection =
     (let kind = SelectionK KClear in
      if s_selection s \<noteq> NoSelection then
        finish_transition rgb (drop_selection s) kind ''selection cleared'' Ready
      else invalid_transition s AxisSelection kind)"

definition handle_selection :: "palette_rgb \<Rightarrow> tui_session \<Rightarrow> selection_event \<Rightarrow> outcome" where
  "handle_selection rgb s event =
     (if guard_blocks s False
      then invalid_transition s AxisSelection (SelectionK (selection_kind event))
      else selection_step rgb s event)"

section \<open>Interaction\<close>

definition open_command ::
  "palette_rgb \<Rightarrow> tui_session \<Rightarrow> string \<Rightarrow> state_axis \<Rightarrow> state_event_kind \<Rightarrow> outcome" where
  "open_command rgb s command axis kind =
     (if s_focus s \<noteq> Focused \<or> s_mode s \<noteq> ModelessReady \<or> s_phase s \<noteq> Idle \<or> command = []
      then invalid_transition s axis kind
      else finish_transition rgb
        (s\<lparr>s_active_command := Some command, s_source_revision := Some (s_canonical_revision s),
           s_mode := CommandModal, s_phase := Draft command []\<rparr>)
        kind ''command draft open'' Hover)"

definition dismiss_outcome :: "tui_session \<Rightarrow> tui_session" where
  "dismiss_outcome s = (clear_command s)\<lparr>s_mode := ModelessReady\<rparr>"

definition start_applying :: "tui_session \<Rightarrow> history_direction \<Rightarrow> tui_session" where
  "start_applying s direction =
     (case history_availability (s_history s) of
        (u, r) \<Rightarrow> s\<lparr>s_history := Applying direction u r, s_mode := HistoryApplying\<rparr>)"

definition ready_for_history :: "tui_session \<Rightarrow> bool" where
  "ready_for_history s = (s_mode s = ModelessReady \<and> s_phase s = Idle)"

fun direction_available :: "tui_session \<Rightarrow> history_direction \<Rightarrow> bool" where
  "direction_available s DirUndo = can_undo_now (s_history s)"
| "direction_available s DirRedo = can_redo_now (s_history s)"
| "direction_available s (DirNamed name) = (name \<in> set (s_recoverable s))"

fun interaction_step :: "palette_rgb \<Rightarrow> tui_session \<Rightarrow> interaction_event \<Rightarrow> outcome" where
  "interaction_step rgb s (IOpenCommand command) =
     open_command rgb s command AxisInteractionMode (InteractionK KOpenCommand)"
| "interaction_step rgb s (StartDrag tool) =
     (let kind = InteractionK KStartDrag in
      case s_capture s of
        Captured capture \<Rightarrow>
          (if s_mode s = ModelessReady \<and> pc_tool capture = tool then
             finish_transition rgb (s\<lparr>s_mode := DragActive tool\<rparr>) kind ''drag active'' Drag
           else invalid_transition s AxisInteractionMode kind)
      | NoCapture \<Rightarrow> invalid_transition s AxisInteractionMode kind)"
| "interaction_step rgb s FinishDrag =
     (let kind = InteractionK KFinishDrag in
      if is_drag (s_mode s) \<and> is_captured (s_capture s) then
        finish_transition rgb (s\<lparr>s_mode := ModelessReady, s_capture := NoCapture\<rparr>)
          kind ''drag finished'' Ready
      else invalid_transition s AxisInteractionMode kind)"
| "interaction_step rgb s IRecoveryCompleted =
     (let kind = InteractionK KIRecoveryCompleted in
      if s_mode s = RecoveryReady \<and> s_focus s = Focused then
        finish_transition rgb (s\<lparr>s_mode := recovered_mode s\<rparr>) kind ''focus recovery complete'' Ready
      else invalid_transition s AxisInteractionMode kind)"
| "interaction_step rgb s CloseCommand =
     (let kind = InteractionK KCloseCommand in
      if is_outcome (s_phase s) \<and> s_mode s = CommandModal then
        finish_transition rgb (dismiss_outcome s) kind ''command outcome dismissed'' Ready
      else invalid_transition s AxisInteractionMode kind)"
| "interaction_step rgb s (StartHistory direction) =
     (let kind = InteractionK KStartHistory in
      if direction_available s direction \<and> is_linear (s_history s) \<and> ready_for_history s then
        finish_transition rgb (start_applying s direction) kind ''history application started'' Ready
      else invalid_transition s AxisInteractionMode kind)"

definition handle_interaction :: "palette_rgb \<Rightarrow> tui_session \<Rightarrow> interaction_event \<Rightarrow> outcome" where
  "handle_interaction rgb s event =
     (if guard_blocks s False
      then invalid_transition s AxisInteractionMode (InteractionK (interaction_kind event))
      else interaction_step rgb s event)"

section \<open>Commands\<close>

fun is_cancellable :: "command_phase \<Rightarrow> bool" where
  "is_cancellable (Draft _ _) = True"
| "is_cancellable (Previewing _) = True"
| "is_cancellable (PreviewReady _) = True"
| "is_cancellable (Committing _) = True"
| "is_cancellable _ = False"

definition accept_commit ::
  "palette_rgb \<Rightarrow> tui_session \<Rightarrow> state_event_kind \<Rightarrow> string \<Rightarrow> string \<Rightarrow> string \<Rightarrow> outcome" where
  "accept_commit rgb s kind source validated revision =
     (if s_source_revision s \<noteq> Some source \<or> validated \<noteq> source then
        rejected s (operation_diagnostic s StalePreview AxisCommandPhase kind
          (''commit source revision '' @ source @ '' does not match preview revision'')
          (FromName ''Committing''))
      else finish_transition rgb
        (s\<lparr>s_canonical_revision := revision, s_history := Linear True False,
           s_phase := Outcome (Committed revision)\<rparr>)
        kind ''command committed'' Selected)"

text \<open>The guard \<^verbatim>\<open>interaction_mode == CommandModal\<close> that every command event but
  opening carries.\<close>

definition modal :: "tui_session \<Rightarrow> state_event_kind \<Rightarrow> outcome \<Rightarrow> outcome" where
  "modal s kind accepted =
     (if s_mode s = CommandModal then accepted else invalid_transition s AxisCommandPhase kind)"

fun command_step :: "palette_rgb \<Rightarrow> tui_session \<Rightarrow> command_event \<Rightarrow> outcome" where
  "command_step rgb s (OpenCommandEv command) =
     open_command rgb s command AxisCommandPhase (CommandK KOpen)"
| "command_step rgb s (DraftUpdated fingerprint) =
     (let kind = CommandK KDraftUpdated in
      case s_phase s of
        Draft command _ \<Rightarrow> modal s kind
          (finish_transition rgb (s\<lparr>s_phase := Draft command fingerprint\<rparr>)
             kind ''command draft updated'' Hover)
      | _ \<Rightarrow> invalid_transition s AxisCommandPhase kind)"
| "command_step rgb s PreviewRequested =
     (let kind = CommandK KPreviewRequested in
      case s_phase s of
        Draft _ fingerprint \<Rightarrow> modal s kind
          (finish_transition rgb (s\<lparr>s_phase := Previewing fingerprint\<rparr>)
             kind ''command previewing'' Candidate)
      | _ \<Rightarrow> invalid_transition s AxisCommandPhase kind)"
| "command_step rgb s (PreviewCompleted PreviewOk) =
     (let kind = CommandK KPreviewReady in
      case s_phase s of
        Previewing fingerprint \<Rightarrow> modal s kind
          (finish_transition rgb (s\<lparr>s_phase := PreviewReady fingerprint\<rparr>)
             kind ''command preview ready'' Candidate)
      | _ \<Rightarrow> invalid_transition s AxisCommandPhase kind)"
| "command_step rgb s (PreviewCompleted (PreviewFailed detail)) =
     (let kind = CommandK KPreviewRejected in
      case s_phase s of
        Previewing fingerprint \<Rightarrow> modal s kind
          (case s_active_command s of
             None \<Rightarrow> None
           | Some command \<Rightarrow>
               let t = s\<lparr>s_phase := Draft command fingerprint\<rparr> in
               finish_with rgb t kind ''command preview rejected'' Error
                 (Some (operation_diagnostic t CommandWasRejected AxisCommandPhase kind detail
                          (FromName ''Previewing''))))
      | _ \<Rightarrow> invalid_transition s AxisCommandPhase kind)"
| "command_step rgb s CommitRequested =
     (let kind = CommandK KCommitRequested in
      case s_phase s of
        PreviewReady fingerprint \<Rightarrow> modal s kind
          (finish_transition rgb (s\<lparr>s_phase := Committing fingerprint\<rparr>)
             kind ''command committing'' Drag)
      | _ \<Rightarrow> invalid_transition s AxisCommandPhase kind)"
| "command_step rgb s (CommitAccepted source validated revision) =
     (let kind = CommandK KCommitAccepted in
      case s_phase s of
        Committing _ \<Rightarrow> modal s kind
          (if revision \<noteq> [] then accept_commit rgb s kind source validated revision
           else invalid_transition s AxisCommandPhase kind)
      | _ \<Rightarrow> invalid_transition s AxisCommandPhase kind)"
| "command_step rgb s (CommitRejected detail) =
     (let kind = CommandK KCommitRejected in
      case s_phase s of
        Committing _ \<Rightarrow> modal s kind
          (let t = s\<lparr>s_phase := Outcome (CommandRejected detail)\<rparr> in
           finish_with rgb t kind ''command rejected'' Error
             (Some (operation_diagnostic t CommandWasRejected AxisCommandPhase kind detail
                      (FromName ''Committing''))))
      | _ \<Rightarrow> invalid_transition s AxisCommandPhase kind)"
| "command_step rgb s CancelRequested =
     (let kind = CommandK KCancelRequested in
      if is_cancellable (s_phase s) then modal s kind
        (finish_transition rgb (s\<lparr>s_phase := Cancelling\<rparr>) kind ''command cancelling'' Cancelled)
      else invalid_transition s AxisCommandPhase kind)"
| "command_step rgb s (CancellationCompleted detail) =
     (let kind = CommandK KCancellationCompleted in
      if s_phase s = Cancelling then modal s kind
        (let t = s\<lparr>s_phase := Outcome (CommandCancelled detail)\<rparr> in
         finish_with rgb t kind ''command cancelled'' Cancelled
           (Some (operation_diagnostic t CommandWasCancelled AxisCommandPhase kind detail
                    (FromName ''Cancelling''))))
      else invalid_transition s AxisCommandPhase kind)"
| "command_step rgb s OutcomeDismissed =
     (let kind = CommandK KOutcomeDismissed in
      if is_outcome (s_phase s) then modal s kind
        (finish_transition rgb (dismiss_outcome s) kind ''command outcome dismissed'' Ready)
      else invalid_transition s AxisCommandPhase kind)"

definition handle_command :: "palette_rgb \<Rightarrow> tui_session \<Rightarrow> command_event \<Rightarrow> outcome" where
  "handle_command rgb s event =
     (if guard_blocks s False
      then invalid_transition s AxisCommandPhase (CommandK (command_kind event))
      else command_step rgb s event)"

section \<open>History\<close>

definition restorable :: "tui_session \<Rightarrow> string \<Rightarrow> bool" where
  "restorable s name =
     (case s_timeline s of
        None \<Rightarrow> name \<in> set (s_recoverable s)
      | Some view \<Rightarrow> name \<in> set (fv_named_revisions view))"

fun history_step :: "palette_rgb \<Rightarrow> tui_session \<Rightarrow> tui_history_event \<Rightarrow> outcome" where
  "history_step rgb s UndoRequested =
     (let kind = HistoryK KUndoRequested in
      if can_undo_now (s_history s) \<and> ready_for_history s then
        finish_transition rgb (start_applying s DirUndo) kind ''history undo applying'' Ready
      else invalid_transition s AxisHistory kind)"
| "history_step rgb s RedoRequested =
     (let kind = HistoryK KRedoRequested in
      if can_redo_now (s_history s) \<and> ready_for_history s then
        finish_transition rgb (start_applying s DirRedo) kind ''history redo applying'' Ready
      else invalid_transition s AxisHistory kind)"
| "history_step rgb s (RestoreNamed name) =
     (let kind = HistoryK KRestoreNamedRevision in
      if restorable s name \<and> is_linear (s_history s) \<and> ready_for_history s then
        finish_transition rgb (start_applying s (DirNamed name)) kind ''named revision applying'' Ready
      else if s_timeline s \<noteq> None then
        finish_with rgb s kind ''named revision rejected by feature timeline'' Error
          (Some (operation_diagnostic s HistoryWasRejected AxisHistory kind
                   (''named revision is outside the selected feature timeline: '' @ name)
                   (FromName ''Linear'')))
      else invalid_transition s AxisHistory kind)"
| "history_step rgb s (ApplyCompleted (Applied revision u r)) =
     (let kind = HistoryK KApplyCompleted in
      if \<not> is_linear (s_history s) \<and> revision \<noteq> [] then
        finish_transition rgb
          (s\<lparr>s_canonical_revision := revision, s_history := Linear u r, s_mode := ModelessReady,
             s_timeline := None\<rparr>)
          kind ''history application complete'' Ready
      else invalid_transition s AxisHistory kind)"
| "history_step rgb s (ApplyCompleted (ApplyRejected detail)) =
     (let kind = HistoryK KApplyCompleted in
      if \<not> is_linear (s_history s) then
        let t = s\<lparr>s_history := linearized (s_history s), s_mode := ModelessReady\<rparr> in
        finish_with rgb t kind ''history application rejected'' Error
          (Some (operation_diagnostic t HistoryWasRejected AxisHistory kind detail
                   (FromName ''Applying'')))
      else invalid_transition s AxisHistory kind)"
| "history_step rgb s (DivergentCommit revision preserved) =
     (let kind = HistoryK KDivergentCommit in
      if can_redo_now (s_history s) \<and> ready_for_history s \<and> revision \<noteq> [] \<and> preserved \<noteq> [] then
        finish_transition rgb
          (s\<lparr>s_canonical_revision := revision,
             s_recoverable := (if preserved \<in> set (s_recoverable s) then s_recoverable s
                               else s_recoverable s @ [preserved]),
             s_history := Linear True False\<rparr>)
          kind ''named revision preserved'' Selected
      else invalid_transition s AxisHistory kind)"

definition handle_history :: "palette_rgb \<Rightarrow> tui_session \<Rightarrow> tui_history_event \<Rightarrow> outcome" where
  "handle_history rgb s event =
     (if guard_blocks s False
      then invalid_transition s AxisHistory (HistoryK (history_kind event))
      else history_step rgb s event)"

fun transition :: "palette_rgb \<Rightarrow> tui_session \<Rightarrow> state_event \<Rightarrow> outcome" where
  "transition rgb s (LifecycleEv e) = handle_lifecycle rgb s e"
| "transition rgb s (FocusCaptureEv e) = handle_focus_capture rgb s e"
| "transition rgb s (SelectionEv e) = handle_selection rgb s e"
| "transition rgb s (InteractionEv e) = handle_interaction rgb s e"
| "transition rgb s (CommandEv e) = handle_command rgb s e"
| "transition rgb s (HistoryEv e) = handle_history rgb s e"

end
