(* ===== verification/Utf8.thy ===== *)
theory Utf8
  imports Prelude
begin

text \<open>
  UTF-8 as \<^verbatim>\<open>str::from_utf8\<close> checks it: the well-formed byte sequences of the
  Unicode standard (table 3-7), over bytes as characters; and the characters that
  \<^verbatim>\<open>str::chars\<close> walks over, as the pieces of a valid text.
\<close>

section \<open>Well-formed sequences\<close>

definition in_range :: "nat \<Rightarrow> nat \<Rightarrow> char \<Rightarrow> bool" where
  "in_range lo hi c = (lo \<le> of_char c \<and> of_char c \<le> hi)"

definition continuation :: "char \<Rightarrow> bool" where
  "continuation = in_range 0x80 0xBF"

fun utf8_char_length :: "string \<Rightarrow> nat option" where
  "utf8_char_length [] = None"
| "utf8_char_length (a # xs) =
     (if in_range 0x00 0x7F a then Some 1
      else case xs of
        [] \<Rightarrow> None
      | b # ys \<Rightarrow>
          if in_range 0xC2 0xDF a then (if continuation b then Some 2 else None)
          else case ys of
            [] \<Rightarrow> None
          | c # zs \<Rightarrow>
              if (a = CHR 0xE0 \<and> in_range 0xA0 0xBF b \<or>
                  in_range 0xE1 0xEC a \<and> continuation b \<or>
                  a = CHR 0xED \<and> in_range 0x80 0x9F b \<or>
                  in_range 0xEE 0xEF a \<and> continuation b) \<and> continuation c then Some 3
              else case zs of
                [] \<Rightarrow> None
              | d # _ \<Rightarrow>
                  if (a = CHR 0xF0 \<and> in_range 0x90 0xBF b \<or>
                      in_range 0xF1 0xF3 a \<and> continuation b \<or>
                      a = CHR 0xF4 \<and> in_range 0x80 0x8F b) \<and> continuation c \<and> continuation d
                  then Some 4 else None)"

lemma utf8_char_length_bounds:
  "utf8_char_length xs = Some n \<Longrightarrow> 0 < n \<and> n \<le> length xs"
  by (cases xs rule: utf8_char_length.cases) (auto split: if_splits list.splits)

declare utf8_char_length.simps [simp del]

function valid_utf8 :: "string \<Rightarrow> bool" where
  "valid_utf8 xs =
     (xs = [] \<or> (case utf8_char_length xs of None \<Rightarrow> False | Some n \<Rightarrow> valid_utf8 (drop n xs)))"
  by auto
termination
  by (relation "measure length") (auto dest: utf8_char_length_bounds)

declare valid_utf8.simps [simp del]

section \<open>Characters\<close>

text \<open>The characters of a text; bytes after an invalid one are not looked at.\<close>

function utf8_chars :: "string \<Rightarrow> string list" where
  "utf8_chars xs =
     (case utf8_char_length xs of None \<Rightarrow> []
      | Some n \<Rightarrow> take n xs # utf8_chars (drop n xs))"
  by auto
termination
  by (relation "measure length") (auto dest: utf8_char_length_bounds)

declare utf8_chars.simps [simp del]

lemma utf8_char_length_le: "utf8_char_length xs = Some n \<Longrightarrow> n \<le> 4"
  by (cases xs rule: utf8_char_length.cases)
    (auto simp: utf8_char_length.simps split: if_splits list.splits)

lemma utf8_chars_width: "c \<in> set (utf8_chars xs) \<Longrightarrow> length c \<le> 4"
proof (induction xs rule: utf8_chars.induct)
  case (1 xs)
  show ?case
  proof (cases "utf8_char_length xs")
    case None
    with "1.prems" show ?thesis by (simp add: utf8_chars.simps [of xs])
  next
    case (Some n)
    with "1.prems" have "c = take n xs \<or> c \<in> set (utf8_chars (drop n xs))"
      by (simp add: utf8_chars.simps [of xs])
    with "1.IH" [OF Some] utf8_char_length_le [OF Some] show ?thesis by auto
  qed
qed

lemma concat_utf8_chars: "valid_utf8 xs \<Longrightarrow> concat (utf8_chars xs) = xs"
proof (induction xs rule: utf8_chars.induct)
  case (1 xs)
  show ?case
  proof (cases "utf8_char_length xs")
    case None
    with "1.prems" have "xs = []" by (simp add: valid_utf8.simps [of xs])
    with None show ?thesis by (simp add: utf8_chars.simps [of "[]"])
  next
    case (Some n)
    then have "xs \<noteq> []" by (auto simp: utf8_char_length.simps)
    with "1.prems" Some have "valid_utf8 (drop n xs)" by (simp add: valid_utf8.simps [of xs])
    from "1.IH" [OF Some this] Some show ?thesis by (simp add: utf8_chars.simps [of xs])
  qed
qed

section \<open>White space and lines\<close>

text \<open>A text that \<^verbatim>\<open>trim\<close> makes empty: only characters with the property White_Space.\<close>

definition is_white_space :: "string \<Rightarrow> bool" where
  "is_white_space c =
     (case map of_char c of
        [a :: nat] \<Rightarrow> 9 \<le> a \<and> a \<le> 13 \<or> a = 32
      | [a, b] \<Rightarrow> a = 0xC2 \<and> (b = 0x85 \<or> b = 0xA0)
      | [a, b, d] \<Rightarrow>
          a = 0xE1 \<and> b = 0x9A \<and> d = 0x80 \<or>
          a = 0xE2 \<and> b = 0x80 \<and> (0x80 \<le> d \<and> d \<le> 0x8A \<or> d = 0xA8 \<or> d = 0xA9 \<or> d = 0xAF) \<or>
          a = 0xE2 \<and> b = 0x81 \<and> d = 0x9F \<or>
          a = 0xE3 \<and> b = 0x80 \<and> d = 0x80
      | _ \<Rightarrow> False)"

definition is_blank :: "string \<Rightarrow> bool" where
  "is_blank s = list_all is_white_space (utf8_chars s)"

fun split_words :: "string list \<Rightarrow> string \<Rightarrow> string list" where
  "split_words [] word = (if word = [] then [] else [word])"
| "split_words (c # cs) word =
     (if is_white_space c then (if word = [] then split_words cs [] else word # split_words cs [])
      else split_words cs (word @ c))"

definition split_whitespace :: "string \<Rightarrow> string list" where
  "split_whitespace s = split_words (utf8_chars s) []"

text \<open>\<^verbatim>\<open>str::lines\<close>: a line ends with a line feed, and loses a carriage return in front of it.\<close>

definition strip_carriage_return :: "string \<Rightarrow> string" where
  "strip_carriage_return s =
     (if s \<noteq> [] \<and> last s = CHR 0x0D then butlast s else s)"

fun text_lines_from :: "string \<Rightarrow> string \<Rightarrow> string list" where
  "text_lines_from line [] = (if line = [] then [] else [line])"
| "text_lines_from line (c # s) =
     (if c = CHR 0x0A then strip_carriage_return line # text_lines_from [] s
      else text_lines_from (line @ [c]) s)"

definition text_lines :: "string \<Rightarrow> string list" where
  "text_lines = text_lines_from []"

section \<open>Unsigned numbers\<close>

definition digit_value :: "char \<Rightarrow> int option" where
  "digit_value c = (if in_range 48 57 c then Some (of_char c - 48) else None)"

text \<open>A \<^verbatim>\<open>u32\<close> is an integer from 0 below \<open>2 ^ 32\<close>.  \<^verbatim>\<open>str::parse::<u32>\<close> reads an optional plus sign, at least one digit, no overflow.\<close>

fun parse_digits :: "int \<Rightarrow> string \<Rightarrow> int option" where
  "parse_digits acc [] = Some acc"
| "parse_digits acc (c # cs) =
     (case digit_value c of
        None \<Rightarrow> None
      | Some d \<Rightarrow>
          let n = acc * 10 + d in if n < 4294967296 then parse_digits n cs else None)"

definition parse_u32 :: "string \<Rightarrow> int option" where
  "parse_u32 text =
     (let digits = (if text \<noteq> [] \<and> hd text = CHR ''+'' then tl text else text) in
      if digits = [] then None else parse_digits 0 digits)"

end
