(* ===== verification/TuiInput.thy ===== *)
theory TuiInput
  imports TuiSession OrderedMap Utf8
begin

text \<open>
  Input of the terminal session (\<^verbatim>\<open>crates/tui/src/lib.rs\<close>): arrow navigation over the
  feature targets, the feature timeline panel, the byte decoder that cuts the terminal stream into
  events, and the decoding of one event.  Bytes are characters; the check that
  \<^verbatim>\<open>str::from_utf8\<close> makes is \<open>valid_utf8\<close> of theory \<open>Utf8\<close>.
\<close>

section \<open>Arrow navigation\<close>

record tui_frame =
  tf_selected_target :: "string option"
  tf_acknowledgement :: gesture_acknowledgement

record input_outcome =
  io_frame :: tui_frame
  io_diagnostic :: "tui_diagnostic option"

definition saturating_succ :: "nat \<Rightarrow> nat" where
  "saturating_succ n = (if int n < 18446744073709551615 then n + 1 else n)"

definition gesture ::
  "nat \<Rightarrow> arrow_key \<Rightarrow> navigation_result \<Rightarrow> string \<Rightarrow> transient_state \<Rightarrow> gesture_acknowledgement" where
  "gesture sequence key result text state =
     (let v = visual_for state in
      \<lparr>ga_sequence = sequence, ga_key = key, ga_result = result, ga_text = text,
       ga_marker = the (tv_marker v), ga_color = tv_color v, ga_background = tv_background v\<rparr>)"

definition finish_input ::
  "tui_session \<Rightarrow> gesture_acknowledgement \<Rightarrow> tui_diagnostic option \<Rightarrow> tui_session \<times> input_outcome"
where
  "finish_input s ack diagnostic =
     (let s' = s\<lparr>s_last_acknowledgement := Some ack\<rparr> in
      (s', \<lparr>io_frame = \<lparr>tf_selected_target = selected_target s', tf_acknowledgement = ack\<rparr>,
            io_diagnostic = diagnostic\<rparr>))"

definition navigation_blocked :: "tui_session \<Rightarrow> bool" where
  "navigation_blocked s =
     (s_lifecycle s \<noteq> InteractiveReady \<or> s_focus s \<noteq> Focused \<or> s_capture s \<noteq> NoCapture \<or>
      s_mode s \<noteq> ModelessReady \<or> s_phase s \<noteq> Idle \<or> \<not> is_linear (s_history s))"

definition acknowledgement_prefix :: "nat \<Rightarrow> string" where
  "acknowledgement_prefix sequence = ''Acknowledgement '' @ show_nat sequence"

definition reject_input ::
  "tui_session \<Rightarrow> nat \<Rightarrow> arrow_key \<Rightarrow> tui_diagnostic \<Rightarrow> tui_session \<times> input_outcome" where
  "reject_input s sequence key d =
     finish_input s (gesture sequence key NoTarget
       (acknowledgement_prefix sequence @ '': arrow navigation rejected'') Error) (Some d)"

fun next_index :: "nat \<Rightarrow> nat option \<Rightarrow> navigation_direction \<Rightarrow> nat \<times> navigation_result" where
  "next_index last_index None Previous = (last_index, Moved)"
| "next_index last_index None Next = (0, Moved)"
| "next_index last_index (Some i) Previous = (if 0 < i then (i - 1, Moved) else (i, Boundary))"
| "next_index last_index (Some i) Next = (if i < last_index then (i + 1, Moved) else (i, Boundary))"

fun navigation_text :: "nat \<Rightarrow> feature_target \<Rightarrow> nat \<Rightarrow> navigation_result \<Rightarrow> string" where
  "navigation_text sequence target index Boundary =
     acknowledgement_prefix sequence @ '': selection boundary at feature '' @ tg_id target @
       '' ('' @ show_nat (index + 1) @ '')''"
| "navigation_text sequence target index _ =
     acknowledgement_prefix sequence @ '': selected feature '' @ tg_id target @
       '' ('' @ show_nat (index + 1) @ '')''"

text \<open>Nominating the target and verifying it, the second only when the first is accepted.\<close>

definition select_target :: "palette_rgb \<Rightarrow> tui_session \<Rightarrow> string \<Rightarrow> outcome" where
  "select_target rgb s i =
     (case handle_selection rgb s (Nominate [i]) of
        None \<Rightarrow> None
      | Some (t, Inl d) \<Rightarrow> Some (t, Inl d)
      | Some (t, Inr _) \<Rightarrow> handle_selection rgb t (Verify (Exact [i])))"

definition press :: "palette_rgb \<Rightarrow> tui_session \<Rightarrow> arrow_key \<Rightarrow> (tui_session \<times> input_outcome) option"
where
  "press rgb s0 key =
     (let s = s0\<lparr>s_acknowledgement_sequence := s_acknowledgement_sequence s0 + 1\<rparr>;
          sequence = s_acknowledgement_sequence s in
      if s_targets s = [] then
        Some (finish_input s
          (gesture sequence key NoTarget
             (acknowledgement_prefix sequence @ '': no feature target is available'') Error)
          (Some \<lparr>dg_code = NoFeatureTarget,
             dg_detail = Detail ''arrow navigation requires at least one feature target'',
             dg_canonical_revision = s_canonical_revision s, dg_axis = None, dg_event = None,
             dg_from = None\<rparr>))
      else if navigation_blocked s then
        Some (reject_input s sequence key
          (invalid_diagnostic s AxisSelection (SelectionK KNominate)))
      else
        case next_index (length (s_targets s) - 1) (s_selected_index s) (arrow_direction key) of
          (index, result) \<Rightarrow>
            if length (s_targets s) \<le> index then None
            else
              let target = s_targets s ! index in
              case select_target rgb s (tg_id target) of
                None \<Rightarrow> None
              | Some (t, Inl d) \<Rightarrow> Some (reject_input t sequence key d)
              | Some (t, Inr _) \<Rightarrow>
                  Some (finish_input (t\<lparr>s_generation := saturating_succ (s_generation t)\<rparr>)
                    (gesture sequence key result (navigation_text sequence target index result) Selected)
                    None))"

definition decode_arrow :: "string \<Rightarrow> arrow_key option" where
  "decode_arrow bytes =
     (if bytes = CHR 0x1B # ''[A'' then Some ArrowUp
      else if bytes = CHR 0x1B # ''[B'' then Some ArrowDown
      else if bytes = CHR 0x1B # ''[C'' then Some ArrowRight
      else if bytes = CHR 0x1B # ''[D'' then Some ArrowLeft
      else None)"

section \<open>The feature timeline panel\<close>

definition role_suffixes :: "string list" where
  "role_suffixes = [''-independent-finish'', ''-independent-base'', ''-finish'', ''-bend'', ''-base'',
     ''-plate-vertical'', ''-plate-horizontal'']"

definition strip_suffix :: "string \<Rightarrow> string \<Rightarrow> string option" where
  "strip_suffix suffix v =
     (let n = length v - length suffix in
      if length suffix \<le> length v \<and> drop n v = suffix then Some (take n v) else None)"

definition canonical_feature_id :: "string \<Rightarrow> string" where
  "canonical_feature_id v =
     (case List.map_filter (\<lambda>suffix. strip_suffix suffix v) role_suffixes of
        [] \<Rightarrow> v | stem # _ \<Rightarrow> stem)"

definition show_feature_timeline ::
  "tui_session \<Rightarrow> feature_timeline_view \<Rightarrow> tui_session \<times> (tui_diagnostic + unit)" where
  "show_feature_timeline s view =
     (let kind = HistoryK KRestoreNamedRevision in
      if fv_active_revision view = [] then
        (s, Inl (operation_diagnostic s HistoryWasRejected AxisHistory kind
               ''timeline active revision must not be empty'' (FromName ''timeline'')))
      else if (case selected_target s of
                 None \<Rightarrow> True
               | Some selected \<Rightarrow> selected \<noteq> fv_feature_id view \<and>
                   canonical_feature_id selected \<noteq> fv_feature_id view) then
        (s, Inl (operation_diagnostic s HistoryWasRejected AxisHistory kind
               ''timeline feature must be the selected target'' (FromName ''timeline'')))
      else (s\<lparr>s_timeline := Some view\<rparr>, Inr ()))"

definition validate_semantic_candidates ::
  "tui_session \<Rightarrow> string list \<Rightarrow> tui_diagnostic + unit" where
  "validate_semantic_candidates s ids =
     ensure (ids \<noteq> [] \<and> distinct ids \<and> list_all (is_target s) ids)
       (operation_diagnostic s SelectionIncompatible AxisSelection (SelectionK KNominate)
          ''pick candidates are not authoritative semantic identities'' (FromName ''viewport-pick''))"

definition refresh_canonical_presentation ::
  "tui_session \<Rightarrow> feature_target list \<Rightarrow> string \<Rightarrow> tui_session" where
  "refresh_canonical_presentation s targets revision =
     (let prior = selected_ids s;
          t = s\<lparr>s_targets := targets, s_canonical_revision := revision,
                s_generation := saturating_succ (s_generation s)\<rparr> in
      case prior of
        Some ids \<Rightarrow>
          (if list_all (is_target t) ids
           then t\<lparr>s_selected_index := first_position t ids, s_selection := SelSelected ids\<rparr>
           else t\<lparr>s_selected_index := None, s_selection := NoSelection\<rparr>)
      | None \<Rightarrow> t\<lparr>s_selected_index := None, s_selection := NoSelection\<rparr>)"

section \<open>Cutting the stream into events\<close>

definition starts_with :: "string \<Rightarrow> string \<Rightarrow> bool" where
  "starts_with p xs = (take (length p) xs = p)"

fun find_window :: "string \<Rightarrow> string \<Rightarrow> nat option" where
  "find_window w [] = None"
| "find_window w (x # xs) =
     (if starts_with w (x # xs) then Some 0 else map_option Suc (find_window w xs))"

fun find_byte :: "(char \<Rightarrow> bool) \<Rightarrow> string \<Rightarrow> nat option" where
  "find_byte P [] = None"
| "find_byte P (x # xs) = (if P x then Some 0 else map_option Suc (find_byte P xs))"

definition is_ascii_control :: "char \<Rightarrow> bool" where
  "is_ascii_control c = (of_char c < (32 :: nat) \<or> of_char c = (127 :: nat))"

definition esc_sequences :: "string list" where
  "esc_sequences =
     [CHR 0x1B # ''[A'', CHR 0x1B # ''[B'', CHR 0x1B # ''[C'', CHR 0x1B # ''[D'',
      CHR 0x1B # ''[I'', CHR 0x1B # ''[O'', CHR 0x1B # ''[13;5u'', CHR 0x1B # ''c'']"

definition ack_prefix :: string where "ack_prefix = CHR 0x1B # ''_G''"

definition ack_suffix :: string where "ack_suffix = '';OK'' @ [CHR 0x1B, CHR 0x5C]"

definition mouse_prefix :: string where "mouse_prefix = CHR 0x1B # ''[<''"

definition resize_prefix :: string where "resize_prefix = CHR 0x1B # ''[8;''"

definition next_event_length :: "string \<Rightarrow> nat option" where
  "next_event_length pending =
     (case pending of
        [] \<Rightarrow> None
      | first # _ \<Rightarrow>
          if first = CHR 0x1B then
            (if starts_with ack_prefix pending then
               map_option (\<lambda>n. length ack_prefix + n + length ack_suffix)
                 (find_window ack_suffix (drop (length ack_prefix) pending))
             else if starts_with mouse_prefix pending then
               map_option (\<lambda>n. length mouse_prefix + n + 1)
                 (find_byte (\<lambda>b. b = CHR ''M'' \<or> b = CHR ''m'') (drop (length mouse_prefix) pending))
             else if starts_with resize_prefix pending then
               map_option (\<lambda>n. 4 + n + 1) (find_byte (\<lambda>b. b = CHR ''t'') (drop 4 pending))
             else case find (\<lambda>q. starts_with q pending) esc_sequences of
                 Some q \<Rightarrow> Some (length q)
               | None \<Rightarrow>
                   if list_ex (\<lambda>q. starts_with pending q) esc_sequences then None else Some 1)
          else if is_ascii_control first then Some 1
          else if valid_utf8 pending then utf8_char_length pending
          else None)"

text \<open>The feeding loop; \<open>drain_fuel\<close> events are enough (each takes at least one byte).\<close>

fun drain_events :: "nat \<Rightarrow> string \<Rightarrow> string list \<times> string" where
  "drain_events 0 pending = ([], pending)"
| "drain_events (Suc fuel) pending =
     (case next_event_length pending of
        None \<Rightarrow> ([], pending)
      | Some n \<Rightarrow>
          (case drain_events fuel (drop n pending) of
             (events, rest) \<Rightarrow> (take n pending # events, rest)))"

definition feed :: "string \<Rightarrow> string \<Rightarrow> string list \<times> string" where
  "feed pending bytes =
     (let input = pending @ bytes in drain_events (length input) input)"

definition flush :: "string \<Rightarrow> string list \<times> string" where
  "flush pending = (if pending = [CHR 0x1B] then ([pending], []) else ([], pending))"

section \<open>Decoding one event\<close>

datatype terminal_input =
  Character string
| Backspace
| Arrow arrow_key
| Pick int int
| PointerPress int int int
| PointerMove int int
| PointerRelease int int
| InputFocusLost
| InputFocusIn
| ResizeTo int int
| TerminalReset
| Escape
| OpenPalette
| InputPreview
| InputCommit
| Enter

fun split_byte :: "char \<Rightarrow> string \<Rightarrow> string list" where
  "split_byte sep [] = [[]]"
| "split_byte sep (x # xs) =
     (if x = sep then [] # split_byte sep xs
      else case split_byte sep xs of
          part # parts \<Rightarrow> (x # part) # parts
        | [] \<Rightarrow> [[x]])"

definition checked_pred :: "int \<Rightarrow> int option" where
  "checked_pred n = (if n = 0 then None else Some (n - 1))"

definition parse_position :: "string \<Rightarrow> int option" where
  "parse_position field = Option.bind (parse_u32 field) checked_pred"

definition mouse_fields :: "string \<Rightarrow> (char \<times> string list) option" where
  "mouse_fields bytes =
     (if \<not> starts_with mouse_prefix bytes then None
      else let payload = drop (length mouse_prefix) bytes in
        if payload = [] then None
        else Some (last payload, split_byte (CHR '';'') (butlast payload)))"

definition decode_sgr_pick :: "string \<Rightarrow> (int \<times> int) option" where
  "decode_sgr_pick bytes =
     (case mouse_fields bytes of
        Some (terminator, [button, fx, fy]) \<Rightarrow>
          (if terminator = CHR ''M'' \<and> button = ''0'' then
             Option.bind (parse_position fx) (\<lambda>x. map_option (\<lambda>y. (x, y)) (parse_position fy))
           else None)
      | _ \<Rightarrow> None)"

datatype mouse_action = MousePress | MouseMove | MouseRelease

definition decode_sgr_mouse :: "string \<Rightarrow> (mouse_action \<times> int \<times> int \<times> int) option" where
  "decode_sgr_mouse bytes =
     (case mouse_fields bytes of
        Some (terminator, [fb, fx, fy]) \<Rightarrow>
          (if terminator = CHR ''M'' \<or> terminator = CHR ''m'' then
             Option.bind (parse_u32 fb) (\<lambda>button.
             Option.bind (parse_position fx) (\<lambda>x.
             map_option (\<lambda>y.
               (if terminator = CHR ''m'' then MouseRelease
                else if odd (button div 32) then MouseMove else MousePress,
                button, x, y)) (parse_position fy)))
           else None)
      | _ \<Rightarrow> None)"

definition decode_resize :: "string \<Rightarrow> (int \<times> int) option" where
  "decode_resize bytes =
     (if starts_with resize_prefix bytes \<and> length resize_prefix < length bytes \<and> last bytes = CHR ''t''
      then case split_byte (CHR '';'') (butlast (drop (length resize_prefix) bytes)) of
          [fr, fc] \<Rightarrow>
            Option.bind (parse_u32 fr) (\<lambda>rows. Option.bind (parse_u32 fc) (\<lambda>columns.
              if rows = 0 \<or> columns = 0 then None else Some (rows, columns)))
        | _ \<Rightarrow> None
      else None)"

text \<open>One printable character: neither a C0 nor a C1 control (\<^verbatim>\<open>char::is_control\<close>).\<close>

definition single_character :: "string \<Rightarrow> bool" where
  "single_character bytes =
     (utf8_char_length bytes = Some (length bytes) \<and>
      \<not> (length bytes = 1 \<and> is_ascii_control (hd bytes)) \<and>
      \<not> (length bytes = 2 \<and> hd bytes = CHR 0xC2 \<and> in_range 0x80 0x9F (bytes ! 1)))"

definition decode_terminal_input :: "string \<Rightarrow> terminal_input option" where
  "decode_terminal_input bytes =
     (case decode_arrow bytes of Some key \<Rightarrow> Some (Arrow key) | None \<Rightarrow>
      case decode_sgr_pick bytes of Some (x, y) \<Rightarrow> Some (Pick x y) | None \<Rightarrow>
      case decode_sgr_mouse bytes of
        Some (MousePress, button, x, y) \<Rightarrow> Some (PointerPress button x y)
      | Some (MouseMove, button, x, y) \<Rightarrow> Some (PointerMove x y)
      | Some (MouseRelease, button, x, y) \<Rightarrow> Some (PointerRelease x y)
      | None \<Rightarrow>
          if bytes = CHR 0x1B # ''[I'' then Some InputFocusIn
          else if bytes = CHR 0x1B # ''[O'' then Some InputFocusLost
          else if bytes = CHR 0x1B # ''c'' then Some TerminalReset
          else case decode_resize bytes of Some (rows, columns) \<Rightarrow> Some (ResizeTo rows columns) | None \<Rightarrow>
            if bytes = [CHR 0x10] then Some OpenPalette
            else if bytes = [CHR 0x16] then Some InputPreview
            else if bytes = CHR 0x1B # ''[13;5u'' then Some InputCommit
            else if bytes = [CHR 0x1B] \<or> bytes = [CHR 0x03] then Some Escape
            else if bytes = [CHR 0x7F] \<or> bytes = [CHR 0x08] then Some Backspace
            else if bytes = [CHR 0x0D] \<or> bytes = [CHR 0x0A] then Some Enter
            else if single_character bytes then Some (Character bytes) else None)"

end
