(* ===== verification/TuiFacts.thy ===== *)
theory TuiFacts
  imports TuiSession
begin

text \<open>
  Reasoning about the transition handlers.  Every accepted transition ends by stamping the session
  with an acknowledgement; the locale \<open>session_property\<close> lets a property that ignores the stamp
  be checked on the update alone.  Its interpretations are the well-formedness of a session (which
  excludes the panics), and the coherence of its modes.
\<close>

section \<open>Outcomes\<close>

definition stamp :: "tui_session \<Rightarrow> nat \<Rightarrow> state_acknowledgement option \<Rightarrow> tui_session" where
  "stamp s n a = s\<lparr>s_transition_sequence := n, s_last_transition := a\<rparr>"

definition outcome_all :: "(tui_session \<Rightarrow> bool) \<Rightarrow> outcome \<Rightarrow> bool" where
  "outcome_all P x = (case x of None \<Rightarrow> False | Some (s, _) \<Rightarrow> P s)"

lemma outcome_all_iff: "outcome_all P x \<longleftrightarrow> (\<exists>s r. x = Some (s, r) \<and> P s)"
  by (auto simp: outcome_all_def split: option.splits)

lemma outcome_all_invalid [simp]: "outcome_all P (invalid_transition s axis event) = P s"
  by (simp add: outcome_all_def invalid_transition_def)

lemma outcome_all_rejected [simp]: "outcome_all P (rejected s d) = P s"
  by (simp add: outcome_all_def rejected_def)

lemma finish_with_stamp:
  "\<exists>r. finish_with rgb s event text state d =
     Some (stamp s (s_transition_sequence s + 1) (Some \<lparr>sa_sequence = s_transition_sequence s + 1,
        sa_event = event, sa_text = text, sa_marker = the (tv_marker (visual_for state)),
        sa_color = tv_color (visual_for state), sa_background = tv_background (visual_for state)\<rparr>), r)"
  by (auto simp: finish_with_def Let_def stamp_def split: sum.splits)

locale session_property =
  fixes P :: "tui_session \<Rightarrow> bool"
  assumes ignores_stamp: "P (stamp s n a) = P s"
begin

lemma finish_with: "outcome_all P (finish_with rgb s event msg state d) = P s"
  using finish_with_stamp [of rgb s event msg state d] ignores_stamp
  by (auto simp: outcome_all_def)

lemma finish: "outcome_all P (finish_transition rgb s event text state) = P s"
  by (simp add: finish_transition_def finish_with)

lemma outcome_modal:
  "outcome_all P (modal s kind x) = (if s_mode s = CommandModal then outcome_all P x else P s)"
  by (simp add: modal_def)

lemmas outcomes = finish_with finish outcome_modal

end

section \<open>Well-formed sessions\<close>

definition ids_ok :: "feature_target list \<Rightarrow> string list \<Rightarrow> bool" where
  "ids_ok targets ids = (ids \<noteq> [] \<and> distinct ids \<and> set ids \<subseteq> tg_id ` set targets)"

definition index_of :: "feature_target list \<Rightarrow> string list \<Rightarrow> nat option" where
  "index_of targets ids = (case ids of [] \<Rightarrow> None
     | i # _ \<Rightarrow> find (\<lambda>n. tg_id (targets ! n) = i) [0..<length targets])"

fun selection_wf :: "feature_target list \<Rightarrow> selection_state \<Rightarrow> nat option \<Rightarrow> bool" where
  "selection_wf targets NoSelection index = (index = None)"
| "selection_wf targets (SelCandidate cs previous) index =
     (index = None \<and> cs \<noteq> [] \<and> (\<forall>ids. previous = Some ids \<longrightarrow> ids_ok targets ids))"
| "selection_wf targets (SelSelected ids) index =
     (ids_ok targets ids \<and> index = index_of targets ids)"

definition session_wf :: "tui_session \<Rightarrow> bool" where
  "session_wf s =
     ((s_phase s = Idle \<or> s_active_command s \<noteq> None) \<and>
      selection_wf (s_targets s) (s_selection s) (s_selected_index s))"

lemma first_position_eq: "first_position s ids = index_of (s_targets s) ids"
  by (simp add: first_position_def index_of_def target_position_def split: list.splits)

lemma is_target_iff: "is_target s i \<longleftrightarrow> i \<in> tg_id ` set (s_targets s)"
  by (auto simp: is_target_def list_ex_iff)

lemma index_of_bound: "index_of targets ids = Some n \<Longrightarrow> n < length targets"
  by (auto simp: index_of_def find_Some_iff split: list.splits)

lemma new_session_wf: "session_wf (new_session targets revision)"
  by (simp add: session_wf_def new_session_def)

lemma selected_ids_ok:
  "session_wf s \<Longrightarrow> selected_ids s = Some ids \<Longrightarrow> ids_ok (s_targets s) ids"
  by (cases "s_selection s") (auto simp: session_wf_def selected_ids_def)

lemma restore_selection_fields [simp]:
  "s_phase (restore_selection s) = s_phase s" "s_mode (restore_selection s) = s_mode s"
  "s_history (restore_selection s) = s_history s" "s_focus (restore_selection s) = s_focus s"
  "s_lifecycle (restore_selection s) = s_lifecycle s"
  "s_active_command (restore_selection s) = s_active_command s"
  "s_source_revision (restore_selection s) = s_source_revision s"
  "s_canonical_revision (restore_selection s) = s_canonical_revision s"
  "s_targets (restore_selection s) = s_targets s"
  by (simp_all add: restore_selection_def split: selection_state.splits option.splits)

lemma cancel_history_fields [simp]:
  "s_phase (cancel_history_application s) = s_phase s"
  "s_focus (cancel_history_application s) = s_focus s"
  "s_lifecycle (cancel_history_application s) = s_lifecycle s"
  "s_active_command (cancel_history_application s) = s_active_command s"
  "s_source_revision (cancel_history_application s) = s_source_revision s"
  "s_canonical_revision (cancel_history_application s) = s_canonical_revision s"
  "s_targets (cancel_history_application s) = s_targets s"
  "s_selection (cancel_history_application s) = s_selection s"
  "s_selected_index (cancel_history_application s) = s_selected_index s"
  by (simp_all add: cancel_history_application_def)

lemma end_drag_fields [simp]:
  "s_phase (end_drag s) = s_phase s" "s_history (end_drag s) = s_history s"
  "s_focus (end_drag s) = s_focus s" "s_lifecycle (end_drag s) = s_lifecycle s"
  "s_active_command (end_drag s) = s_active_command s"
  "s_source_revision (end_drag s) = s_source_revision s"
  "s_canonical_revision (end_drag s) = s_canonical_revision s"
  "s_targets (end_drag s) = s_targets s" "s_selection (end_drag s) = s_selection s"
  "s_selected_index (end_drag s) = s_selected_index s"
  by (simp_all add: end_drag_def)

lemma clear_command_fields [simp]:
  "s_phase (clear_command s) = Idle" "s_history (clear_command s) = s_history s"
  "s_focus (clear_command s) = s_focus s" "s_lifecycle (clear_command s) = s_lifecycle s"
  "s_mode (clear_command s) = s_mode s"
  "s_canonical_revision (clear_command s) = s_canonical_revision s"
  "s_targets (clear_command s) = s_targets s" "s_selection (clear_command s) = s_selection s"
  "s_selected_index (clear_command s) = s_selected_index s"
  by (simp_all add: clear_command_def)

lemma is_linear_linearized [simp]: "is_linear (linearized h)"
  by (simp add: linearized_def split: prod.splits)

lemma cancel_history_linear [simp]: "is_linear (s_history (cancel_history_application s))"
  by (simp add: cancel_history_application_def)

lemma restore_selection_wf: "session_wf s \<Longrightarrow> session_wf (restore_selection s)"
  by (auto simp: session_wf_def restore_selection_def first_position_eq
      split: selection_state.splits option.splits)

lemma session_wf_cong:
  "s_targets t = s_targets s \<Longrightarrow> s_selection t = s_selection s \<Longrightarrow>
   s_selected_index t = s_selected_index s \<Longrightarrow> session_wf s \<Longrightarrow>
   (s_phase t \<noteq> Idle \<Longrightarrow> s_active_command t \<noteq> None) \<Longrightarrow> session_wf t"
  by (auto simp: session_wf_def)

lemma preview_to_draft_cases:
  assumes "session_wf s"
  obtains t where "preview_to_draft s = Some t" "session_wf t"
    "s_mode t = s_mode s" "s_history t = s_history s" "s_focus t = s_focus s"
    "s_lifecycle t = s_lifecycle s" "s_canonical_revision t = s_canonical_revision s"
    "s_source_revision t = s_source_revision s" "s_targets t = s_targets s"
    "s_phase t = s_phase s \<or> preview_fingerprint (s_phase s) \<noteq> None \<and> (\<exists>c f. s_phase t = Draft c f)"
proof (cases "preview_fingerprint (s_phase s)")
  case None
  then show ?thesis using assms that by (simp add: preview_to_draft_def)
next
  case (Some f)
  then have "s_phase s \<noteq> Idle" by auto
  with assms obtain c where c: "s_active_command s = Some c" by (auto simp: session_wf_def)
  have "session_wf (s\<lparr>s_phase := Draft c f\<rparr>)"
    using assms c by (auto simp: session_wf_def)
  with Some c show ?thesis using that by (simp add: preview_to_draft_def)
qed

interpretation wf: session_property session_wf
  by unfold_locales (simp add: stamp_def session_wf_def)

lemma nominate_wf:
  assumes "session_wf s" "cs \<noteq> []"
  shows "session_wf (nominate s (selected_ids s) cs)"
  using assms selected_ids_ok [OF assms(1)] by (simp add: nominate_def session_wf_def)

lemma pointer_candidate_wf:
  assumes "session_wf s"
  shows "session_wf (pointer_candidate s c)"
  using assms by (cases c) (simp_all add: pointer_candidate_def nominate_wf)

lemma field_wf [simp]:
  "session_wf (s\<lparr>s_mode := m\<rparr>) = session_wf s"
  "session_wf (s\<lparr>s_capture := c\<rparr>) = session_wf s"
  "session_wf (s\<lparr>s_history := h\<rparr>) = session_wf s"
  "session_wf (s\<lparr>s_focus := f\<rparr>) = session_wf s"
  "session_wf (s\<lparr>s_lifecycle := l\<rparr>) = session_wf s"
  "session_wf (s\<lparr>s_timeline := v\<rparr>) = session_wf s"
  "session_wf (s\<lparr>s_generation := n\<rparr>) = session_wf s"
  "session_wf (s\<lparr>s_canonical_revision := r\<rparr>) = session_wf s"
  "session_wf (s\<lparr>s_recoverable := rs\<rparr>) = session_wf s"
  "session_wf (s\<lparr>s_source_revision := sr\<rparr>) = session_wf s"
  by (simp_all add: session_wf_def)

lemma clear_command_wf: "session_wf s \<Longrightarrow> session_wf (clear_command s)"
  by (simp add: session_wf_def)

lemma cancel_history_wf: "session_wf s \<Longrightarrow> session_wf (cancel_history_application s)"
  by (simp add: session_wf_def)

lemma end_drag_wf: "session_wf s \<Longrightarrow> session_wf (end_drag s)"
  by (simp add: session_wf_def)

lemma drop_selection_wf: "session_wf s \<Longrightarrow> session_wf (drop_selection s)"
  by (simp add: session_wf_def drop_selection_def)

lemma start_applying_wf: "session_wf s \<Longrightarrow> session_wf (start_applying s d)"
  by (simp add: start_applying_def split: prod.splits)

lemma phase_wf:
  "session_wf s \<Longrightarrow> s_phase s \<noteq> Idle \<Longrightarrow> session_wf (s\<lparr>s_phase := p\<rparr>)"
  by (auto simp: session_wf_def)

lemmas session_wf_intros = nominate_wf pointer_candidate_wf clear_command_wf cancel_history_wf
  end_drag_wf drop_selection_wf start_applying_wf restore_selection_wf

text \<open>What resizing and failing leave of a well-formed session.\<close>

lemma invalidate_for_resize_cases:
  assumes "session_wf s"
  obtains t where "invalidate_for_resize s = Some t" "session_wf t" "is_linear (s_history t)"
    "s_canonical_revision t = s_canonical_revision s"
    "s_source_revision t = s_source_revision s" "s_focus t = s_focus s" "s_targets t = s_targets s"
    "s_phase t = s_phase s \<or> preview_fingerprint (s_phase s) \<noteq> None \<and> (\<exists>c f. s_phase t = Draft c f)"
proof -
  let ?s = "end_drag (cancel_history_application
    (restore_selection (s\<lparr>s_generation := s_generation s + 1, s_capture := NoCapture\<rparr>)))"
  have "session_wf ?s" using assms by (auto intro!: session_wf_intros)
  then obtain t where "preview_to_draft ?s = Some t" "session_wf t"
      "s_history t = s_history ?s" "s_canonical_revision t = s_canonical_revision ?s"
      "s_source_revision t = s_source_revision ?s" "s_focus t = s_focus ?s" "s_targets t = s_targets ?s"
      "s_phase t = s_phase ?s \<or> preview_fingerprint (s_phase ?s) \<noteq> None \<and> (\<exists>c f. s_phase t = Draft c f)"
    by (rule preview_to_draft_cases)
  then show ?thesis
    by (intro that [of "if preview_fingerprint (s_phase ?s) = None then t else t\<lparr>s_mode := CommandModal\<rparr>"])
      (auto simp: invalidate_for_resize_def Let_def)
qed

lemma lifecycle_wf:
  assumes "session_wf s"
  shows "outcome_all session_wf (handle_lifecycle rgb s e)"
proof -
  obtain t where t: "invalidate_for_resize s = Some t" "session_wf t"
    using assms by (rule invalidate_for_resize_cases)
  show ?thesis
    using assms t
    by (cases e) (auto simp: Let_def wf.outcomes resize_failed_def intro!: session_wf_intros)
qed

lemma focus_capture_wf:
  assumes "session_wf s"
  shows "outcome_all session_wf (handle_focus_capture rgb s e)"
proof -
  have "session_wf (restore_selection (s\<lparr>s_focus := FocusWasLost, s_capture := NoCapture\<rparr>))"
    using assms by (auto intro!: session_wf_intros)
  then obtain t where t: "preview_to_draft
      (restore_selection (s\<lparr>s_focus := FocusWasLost, s_capture := NoCapture\<rparr>)) = Some t" "session_wf t"
    by (rule preview_to_draft_cases)
  show ?thesis
    using assms t
    by (cases e) (auto simp: Let_def handle_focus_capture_def wf.outcomes split: capture_state.splits
        intro!: session_wf_intros)
qed

lemma authoritative_iff:
  "authoritative s cs ids \<longleftrightarrow> distinct ids \<and> set ids \<subseteq> set cs \<inter> tg_id ` set (s_targets s)"
  by (auto simp: authoritative_def list_all_iff is_target_iff)

lemma selection_wf_step:
  assumes "session_wf s"
  shows "outcome_all session_wf (handle_selection rgb s e)"
proof -
  have exact: "outcome_all session_wf (verify_exact rgb s kind cs ids)" for kind cs ids
    using assms
    by (auto simp: verify_exact_def wf.outcomes Let_def authoritative_iff session_wf_def ids_ok_def
        first_position_eq)
  have ambiguous: "outcome_all session_wf (verify_ambiguous rgb s kind cs ids)" for kind cs ids
    using assms
    by (auto simp: verify_ambiguous_def wf.outcomes Let_def intro!: session_wf_intros)
  show ?thesis
    using assms exact ambiguous
    by (cases e) (auto simp: Let_def handle_selection_def wf.outcomes
        split: selection_state.splits selection_verification.splits intro!: session_wf_intros)
qed

lemma open_command_wf:
  "session_wf s \<Longrightarrow> outcome_all session_wf (open_command rgb s c axis kind)"
  by (auto simp: open_command_def wf.outcomes session_wf_def)

lemma dismiss_outcome_wf: "session_wf s \<Longrightarrow> session_wf (dismiss_outcome s)"
  by (simp add: dismiss_outcome_def clear_command_wf)

lemma interaction_wf:
  assumes "session_wf s"
  shows "outcome_all session_wf (handle_interaction rgb s e)"
  using assms
  by (cases e) (auto simp: Let_def handle_interaction_def wf.outcomes open_command_wf dismiss_outcome_wf
      split: capture_state.splits intro!: session_wf_intros)

lemma is_outcome_not_Idle: "is_outcome p \<Longrightarrow> p \<noteq> Idle"
  by auto

lemma command_wf:
  assumes "session_wf s"
  shows "outcome_all session_wf (handle_command rgb s e)"
proof (cases "guard_blocks s False")
  case True
  with assms show ?thesis by (simp add: handle_command_def)
next
  case False
  have active: "s_phase s \<noteq> Idle \<Longrightarrow> \<exists>c. s_active_command s = Some c"
    using assms by (auto simp: session_wf_def)
  have "outcome_all session_wf (command_step rgb s e)"
  proof (cases "s_phase s")
    case Idle
    with assms show ?thesis
      by (cases "(rgb, s, e)" rule: command_step.cases)
        (auto simp: Let_def wf.outcomes open_command_wf)
  next
    case (Previewing f)
    with active obtain c where "s_active_command s = Some c" by auto
    with Previewing assms show ?thesis
      by (cases "(rgb, s, e)" rule: command_step.cases)
        (auto simp: Let_def wf.outcomes open_command_wf intro!: phase_wf)
  qed (use assms in \<open>cases "(rgb, s, e)" rule: command_step.cases,
      auto simp: Let_def wf.outcomes open_command_wf dismiss_outcome_wf accept_commit_def
        intro!: phase_wf\<close>)+
  with False show ?thesis by (simp add: handle_command_def)
qed

lemma history_wf_step:
  assumes "session_wf s"
  shows "outcome_all session_wf (handle_history rgb s e)"
  using assms
  by (cases "(rgb, s, e)" rule: history_step.cases)
    (auto simp: Let_def handle_history_def wf.outcomes intro!: session_wf_intros)

lemma transition_wf: "session_wf s \<Longrightarrow> outcome_all session_wf (transition rgb s e)"
  by (cases e) (simp_all add: lifecycle_wf focus_capture_wf selection_wf_step interaction_wf
      command_wf history_wf_step)

end
