(* ===== verification/TuiProps.thy ===== *)
theory TuiProps
  imports TuiFacts
begin

text \<open>
  Properties of the session's state machine: no reachable state panics, a refused event changes
  nothing, which events may move the canonical revision, when an accepted commit is fresh, and how
  a session closes.
\<close>

section \<open>Reachable sessions\<close>

inductive session_step :: "palette_rgb \<Rightarrow> tui_session \<Rightarrow> state_event \<Rightarrow> tui_session \<Rightarrow> bool" for rgb where
  step: "transition rgb s e = Some (s', r) \<Longrightarrow> session_step rgb s e s'"

text \<open>Sessions reachable by events that the environment delivers only when \<open>ok\<close> holds.\<close>

inductive session_reachable ::
  "palette_rgb \<Rightarrow> (tui_session \<Rightarrow> state_event \<Rightarrow> bool) \<Rightarrow> tui_session \<Rightarrow> bool" for rgb ok where
  new: "session_reachable rgb ok (new_session targets revision)"
| probing: "session_reachable rgb ok (new_probing targets revision)"
| step: "session_reachable rgb ok s \<Longrightarrow> ok s e \<Longrightarrow> session_step rgb s e s' \<Longrightarrow>
    session_reachable rgb ok s'"

inductive_cases session_stepE: "session_step rgb s e s'"

lemma reachable_wf: "session_reachable rgb ok s \<Longrightarrow> session_wf s"
proof (induction rule: session_reachable.induct)
  case (new targets revision)
  show ?case by (rule new_session_wf)
next
  case (probing targets revision)
  show ?case using new_session_wf by (simp add: new_probing_def)
next
  case (step s e s')
  from step.hyps(3) obtain r where "transition rgb s e = Some (s', r)" by (rule session_stepE)
  with transition_wf [OF step.IH, of rgb e] show ?case by (simp add: outcome_all_def)
qed

text \<open>
  C24.  No event makes a reachable session panic, and every reachable session is well-formed: a
  command in progress has its command name, and a selection names distinct existing targets that
  the selected index agrees with.  The counters of the session are natural numbers: the source keeps
  them in 64 bits, which as many events would use up.
\<close>

theorem session_never_panics:
  assumes "session_reachable rgb ok s"
  shows "transition rgb s e \<noteq> None \<and> session_wf s"
  using transition_wf [OF reachable_wf [OF assms], of rgb e] reachable_wf [OF assms]
  by (auto simp: outcome_all_iff)

definition plain_rgb :: palette_rgb where
  "plain_rgb token = Inr \<lparr>rgb_red = 1, rgb_green = 2, rgb_blue = 3\<rparr>"

definition demo_targets :: "feature_target list" where
  "demo_targets = [\<lparr>tg_id = ''a'', tg_label = ''box''\<rparr>, \<lparr>tg_id = ''b'', tg_label = ''box''\<rparr>]"

definition demo_session :: tui_session where
  "demo_session = new_session demo_targets ''r1''"

theorem session_never_panics_witness:
  "transition plain_rgb demo_session (CommandEv (OpenCommandEv ''x'')) \<noteq> None"
  using session_never_panics [OF session_reachable.new [of plain_rgb "\<lambda>_ _. True" demo_targets "''r1''"]]
  unfolding demo_session_def by blast

section \<open>Refused events\<close>

definition refuses_cleanly :: "tui_session \<Rightarrow> outcome \<Rightarrow> bool" where
  "refuses_cleanly s x =
     (\<forall>s' d. x = Some (s', Inl d) \<longrightarrow> dg_code d = ThemeRenderingFailure \<or> s' = s)"

lemma refuses_finish [simp]:
  "refuses_cleanly s (finish_with rgb t k msg st d)"
  "refuses_cleanly s (finish_transition rgb t k msg st)"
  by (auto simp: refuses_cleanly_def finish_transition_def finish_with_def Let_def theme_diagnostic_def
      split: sum.splits)

lemma refuses_invalid [simp]:
  "refuses_cleanly s (invalid_transition s axis k)" "refuses_cleanly s (rejected s d)"
  "refuses_cleanly s None"
  by (simp_all add: refuses_cleanly_def invalid_transition_def rejected_def)

lemma refuses_modal [simp]: "refuses_cleanly s x \<Longrightarrow> refuses_cleanly s (modal s k x)"
  by (simp add: modal_def)

lemma refuses_open [simp]: "refuses_cleanly s (open_command rgb s c axis k)"
  by (simp add: open_command_def)

lemma refuses_resize [simp]: "refuses_cleanly s (resize_failed rgb s k d f msg st)"
  by (simp add: resize_failed_def Let_def split: option.splits)

lemma transition_refuses_cleanly: "refuses_cleanly s (transition rgb s e)"
proof (cases e)
  case (LifecycleEv l)
  then show ?thesis by (cases l) (simp_all add: Let_def split: option.splits)
next
  case (FocusCaptureEv f)
  then show ?thesis
    by (cases f) (simp_all add: handle_focus_capture_def Let_def split: option.splits capture_state.splits)
next
  case (SelectionEv x)
  then show ?thesis
    by (cases x) (simp_all add: handle_selection_def Let_def verify_exact_def verify_ambiguous_def
        split: selection_state.splits selection_verification.splits)
next
  case (CommandEv c)
  have "refuses_cleanly s (command_step rgb s c)"
    by (cases "(rgb, s, c)" rule: command_step.cases)
      (auto simp: Let_def accept_commit_def split: command_phase.splits option.splits)
  with CommandEv show ?thesis by (simp add: handle_command_def)
next
  case (InteractionEv i)
  then show ?thesis
    by (cases i) (simp_all add: handle_interaction_def Let_def split: capture_state.splits)
next
  case (HistoryEv h)
  have "refuses_cleanly s (history_step rgb s h)"
    by (cases "(rgb, s, h)" rule: history_step.cases) (auto simp: Let_def)
  with HistoryEv show ?thesis by (simp add: handle_history_def)
qed

text \<open>
  C25.  A refused event leaves the session exactly as it was, unless what failed is the colouring of
  the acknowledgement (which happens after the update).
\<close>

theorem refused_event_changes_nothing:
  assumes "transition rgb s e = Some (s', Inl d)" and "dg_code d \<noteq> ThemeRenderingFailure"
  shows "s' = s"
  using transition_refuses_cleanly [of s rgb e] assms by (simp add: refuses_cleanly_def)

theorem refused_event_changes_nothing_witness:
  "fst (the (transition plain_rgb demo_session (HistoryEv UndoRequested))) = demo_session"
proof -
  have t: "transition plain_rgb demo_session (HistoryEv UndoRequested) =
      Some (demo_session, Inl (invalid_diagnostic demo_session AxisHistory (HistoryK KUndoRequested)))"
    by (simp add: handle_history_def guard_blocks_def demo_session_def new_session_def Let_def
        invalid_transition_def)
  have "dg_code (invalid_diagnostic demo_session AxisHistory (HistoryK KUndoRequested)) \<noteq>
      ThemeRenderingFailure" by (simp add: invalid_diagnostic_def)
  from refused_event_changes_nothing [OF t this] t show ?thesis by simp
qed

section \<open>The canonical revision\<close>

text \<open>The events that report a sealed change, with the state each requires.\<close>

fun reports_revision :: "tui_session \<Rightarrow> state_event \<Rightarrow> string \<Rightarrow> bool" where
  "reports_revision s (CommandEv (CommitAccepted source validated revision)) r =
     (r = revision \<and> s_mode s = CommandModal \<and> (\<exists>f. s_phase s = Committing f) \<and>
      s_source_revision s = Some source \<and> validated = source)"
| "reports_revision s (HistoryEv (ApplyCompleted (Applied revision u v))) r =
     (r = revision \<and> \<not> is_linear (s_history s))"
| "reports_revision s (HistoryEv (DivergentCommit revision preserved)) r =
     (r = revision \<and> can_redo_now (s_history s) \<and> ready_for_history s \<and> preserved \<noteq> [])"
| "reports_revision s _ r = False"

definition revision_kept :: "tui_session \<Rightarrow> state_event \<Rightarrow> tui_session \<Rightarrow> bool" where
  "revision_kept s e s' =
     (s_canonical_revision s' = s_canonical_revision s \<or>
      reports_revision s e (s_canonical_revision s') \<and> s_canonical_revision s' \<noteq> [] \<and>
      s_lifecycle s = InteractiveReady \<and> s_focus s = Focused)"

interpretation kept: session_property "revision_kept s e" for s e
  by unfold_locales (simp add: stamp_def revision_kept_def)

lemma not_blocked: "\<not> guard_blocks s False \<longleftrightarrow> s_lifecycle s = InteractiveReady \<and> s_focus s = Focused"
  by (cases "s_focus s") (auto simp: guard_blocks_def)

lemma revision_kept_same: "s_canonical_revision s' = s_canonical_revision s \<Longrightarrow> revision_kept s e s'"
  by (simp add: revision_kept_def)

lemma canonical_fields [simp]:
  "s_canonical_revision (nominate s p cs) = s_canonical_revision s"
  "s_canonical_revision (pointer_candidate s c) = s_canonical_revision s"
  "s_canonical_revision (drop_selection s) = s_canonical_revision s"
  "s_canonical_revision (dismiss_outcome s) = s_canonical_revision s"
  "s_canonical_revision (start_applying s d) = s_canonical_revision s"
  by (simp_all add: nominate_def pointer_candidate_def drop_selection_def dismiss_outcome_def
      start_applying_def split: option.splits prod.splits)

lemma transition_revision:
  assumes wf: "session_wf s"
  shows "outcome_all (revision_kept s e) (transition rgb s e)"
proof (cases e)
  case (LifecycleEv l)
  obtain t where "invalidate_for_resize s = Some t" "s_canonical_revision t = s_canonical_revision s"
    using wf by (rule invalidate_for_resize_cases)
  with LifecycleEv show ?thesis
    by (cases l) (auto simp: Let_def kept.outcomes resize_failed_def intro!: revision_kept_same)
next
  case (FocusCaptureEv f)
  have "session_wf (restore_selection (s\<lparr>s_focus := FocusWasLost, s_capture := NoCapture\<rparr>))"
    using wf by (auto intro!: session_wf_intros)
  then obtain t where "preview_to_draft
      (restore_selection (s\<lparr>s_focus := FocusWasLost, s_capture := NoCapture\<rparr>)) = Some t"
      "s_canonical_revision t = s_canonical_revision s"
    by (rule preview_to_draft_cases) simp
  with FocusCaptureEv show ?thesis
    by (cases f) (auto simp: Let_def handle_focus_capture_def kept.outcomes split: capture_state.splits
        intro!: revision_kept_same)
next
  case (SelectionEv x)
  then show ?thesis
    by (cases x) (auto simp: Let_def handle_selection_def verify_exact_def verify_ambiguous_def
        kept.outcomes split: selection_state.splits selection_verification.splits
        intro!: revision_kept_same)
next
  case (InteractionEv i)
  then show ?thesis
    by (cases i) (auto simp: Let_def handle_interaction_def open_command_def kept.outcomes
        split: capture_state.splits intro!: revision_kept_same)
next
  case (CommandEv c)
  have active: "s_phase s \<noteq> Idle \<Longrightarrow> \<exists>c. s_active_command s = Some c"
    using wf by (auto simp: session_wf_def)
  show ?thesis
    using CommandEv active
    by (cases "(rgb, s, c)" rule: command_step.cases)
      (auto simp: Let_def handle_command_def open_command_def accept_commit_def kept.outcomes not_blocked
        revision_kept_def split: command_phase.splits)
next
  case (HistoryEv h)
  then show ?thesis
    by (cases "(rgb, s, h)" rule: history_step.cases)
      (auto simp: Let_def handle_history_def kept.outcomes not_blocked revision_kept_def)
qed

text \<open>
  In a reachable session the canonical revision changes only when a commit is accepted in the
  committing phase for the revision its preview started from, when a running history application
  completes, or when a divergent commit preserves the undone future.
\<close>

theorem canonical_revision_changes:
  assumes "session_reachable rgb ok s" and "transition rgb s e = Some (s', r)"
    and "s_canonical_revision s' \<noteq> s_canonical_revision s"
  shows "reports_revision s e (s_canonical_revision s')"
  using transition_revision [OF reachable_wf [OF assms(1)], of e rgb] assms(2,3)
  by (auto simp: outcome_all_def revision_kept_def)

text \<open>Concrete runs.\<close>

fun run_events :: "palette_rgb \<Rightarrow> tui_session \<Rightarrow> state_event list \<Rightarrow> tui_session option" where
  "run_events rgb s [] = Some s"
| "run_events rgb s (e # es) =
     (case transition rgb s e of None \<Rightarrow> None | Some (s', _) \<Rightarrow> run_events rgb s' es)"

lemma run_events_reachable:
  "session_reachable rgb ok s \<Longrightarrow> run_events rgb s es = Some s' \<Longrightarrow>
   (\<And>t e. e \<in> set es \<Longrightarrow> ok t e) \<Longrightarrow> session_reachable rgb ok s'"
proof (induction es arbitrary: s)
  case Nil
  then show ?case by simp
next
  case (Cons e es)
  then obtain t r where t: "transition rgb s e = Some (t, r)" "run_events rgb t es = Some s'"
    by (auto split: option.splits)
  from Cons.prems(1) have "session_reachable rgb ok t"
    by (rule session_reachable.step [where e = e]) (use t(1) Cons.prems in \<open>auto intro: session_step.step\<close>)
  with t(2) Cons.IH Cons.prems(3) show ?case by auto
qed

definition demo_run :: "state_event list \<Rightarrow> tui_session" where
  "demo_run es = the (run_events plain_rgb demo_session es)"

lemma demo_run_reachable:
  assumes "run_events plain_rgb demo_session es \<noteq> None" and "\<And>t e. e \<in> set es \<Longrightarrow> ok t e"
  shows "session_reachable plain_rgb ok (demo_run es)"
  unfolding demo_run_def demo_session_def
  by (rule run_events_reachable [OF session_reachable.new])
    (use assms in \<open>auto simp: demo_session_def\<close>)

definition commit_events :: "state_event list" where
  "commit_events = [CommandEv (OpenCommandEv ''extrude''), CommandEv (DraftUpdated ''in''),
     CommandEv PreviewRequested, CommandEv (PreviewCompleted PreviewOk), CommandEv CommitRequested]"

definition demo_commit :: state_event where
  "demo_commit = CommandEv (CommitAccepted ''r1'' ''r1'' ''r2'')"

theorem canonical_revision_changes_witness:
  "reports_revision (demo_run commit_events) demo_commit ''r2''"
proof -
  have ok: "run_events plain_rgb demo_session commit_events \<noteq> None" by code_simp
  let ?s' = "fst (the (transition plain_rgb (demo_run commit_events) demo_commit))"
  have t: "transition plain_rgb (demo_run commit_events) demo_commit =
      Some (?s', snd (the (transition plain_rgb (demo_run commit_events) demo_commit)))" by code_simp
  have n: "s_canonical_revision ?s' \<noteq> s_canonical_revision (demo_run commit_events)" by code_simp
  have r: "s_canonical_revision ?s' = ''r2''" by code_simp
  have "session_reachable plain_rgb (\<lambda>_ _. True) (demo_run commit_events)"
    by (rule demo_run_reachable [OF ok]) simp
  from canonical_revision_changes [OF this t n] show ?thesis unfolding r .
qed

section \<open>Freshness of accepted commits\<close>

definition in_progress :: "command_phase \<Rightarrow> bool" where
  "in_progress p = (p \<noteq> Idle \<and> \<not> is_outcome p)"

definition coherent :: "tui_session \<Rightarrow> bool" where
  "coherent s =
     ((is_linear (s_history s) \<or> s_mode s = HistoryApplying \<and> s_phase s = Idle \<and>
         s_focus s = Focused \<and> s_lifecycle s = InteractiveReady) \<and>
      (in_progress (s_phase s) \<longrightarrow> s_source_revision s = Some (s_canonical_revision s)))"

definition capture_not_cancelled_in_history :: "tui_session \<Rightarrow> state_event \<Rightarrow> bool" where
  "capture_not_cancelled_in_history s e =
     (\<not> (e = FocusCaptureEv CaptureCancelled \<and> s_mode s = HistoryApplying))"

interpretation coh: session_property coherent
  by unfold_locales (simp add: stamp_def coherent_def)

lemma in_progress_simps [simp]:
  "\<not> in_progress Idle" "\<not> in_progress (Outcome x)" "in_progress (Draft c f)"
  "in_progress (Previewing f)" "in_progress (PreviewReady f)" "in_progress (Committing f)"
  "in_progress Cancelling"
  by (simp_all add: in_progress_def)

lemma fingerprint_in_progress: "preview_fingerprint p \<noteq> None \<Longrightarrow> in_progress p"
  by (cases p) auto

lemma cancellable_in_progress: "is_cancellable p \<Longrightarrow> in_progress p"
  by (cases p) auto

lemma coherent_idle:
  "s_phase t = Idle \<Longrightarrow> is_linear (s_history t) \<Longrightarrow> coherent t"
  by (simp add: coherent_def)

lemma coherent_linear:
  assumes "coherent s" "is_linear (s_history t)" "s_canonical_revision t = s_canonical_revision s"
    "s_source_revision t = s_source_revision s"
    "s_phase t = s_phase s \<or> preview_fingerprint (s_phase s) \<noteq> None \<and> (\<exists>c f. s_phase t = Draft c f)"
  shows "coherent t"
  using assms fingerprint_in_progress [of "s_phase s"] by (auto simp: coherent_def)

lemma coherent_same:
  assumes "coherent s" "s_history t = s_history s" "s_canonical_revision t = s_canonical_revision s"
    "s_source_revision t = s_source_revision s" "s_phase t = s_phase s" "s_mode t = s_mode s"
    "s_focus t = s_focus s" "s_lifecycle t = s_lifecycle s"
  shows "coherent t"
  using assms by (simp add: coherent_def)

lemma coherent_not_interactive:
  "coherent s \<Longrightarrow> s_lifecycle s \<noteq> InteractiveReady \<or> s_focus s \<noteq> Focused \<or> s_mode s \<noteq> HistoryApplying \<or>
     s_phase s \<noteq> Idle \<Longrightarrow> is_linear (s_history s)"
  by (auto simp: coherent_def)

lemma same_fields [simp]:
  "s_history (nominate s p cs) = s_history s" "s_mode (nominate s p cs) = s_mode s"
  "s_phase (nominate s p cs) = s_phase s" "s_source_revision (nominate s p cs) = s_source_revision s"
  "s_focus (nominate s p cs) = s_focus s" "s_lifecycle (nominate s p cs) = s_lifecycle s"
  "s_history (pointer_candidate s c) = s_history s" "s_mode (pointer_candidate s c) = s_mode s"
  "s_phase (pointer_candidate s c) = s_phase s"
  "s_source_revision (pointer_candidate s c) = s_source_revision s"
  "s_focus (pointer_candidate s c) = s_focus s" "s_lifecycle (pointer_candidate s c) = s_lifecycle s"
  "s_history (drop_selection s) = s_history s" "s_mode (drop_selection s) = s_mode s"
  "s_phase (drop_selection s) = s_phase s" "s_source_revision (drop_selection s) = s_source_revision s"
  "s_focus (drop_selection s) = s_focus s" "s_lifecycle (drop_selection s) = s_lifecycle s"
  by (simp_all add: nominate_def pointer_candidate_def drop_selection_def split: option.splits)

lemma lifecycle_coherent:
  assumes wf: "session_wf s" and co: "coherent s"
  shows "outcome_all coherent (handle_lifecycle rgb s l)"
proof -
  obtain t where t: "invalidate_for_resize s = Some t" "is_linear (s_history t)"
      "s_canonical_revision t = s_canonical_revision s" "s_source_revision t = s_source_revision s"
      "s_phase t = s_phase s \<or> preview_fingerprint (s_phase s) \<noteq> None \<and> (\<exists>c f. s_phase t = Draft c f)"
    using wf by (rule invalidate_for_resize_cases)
  have "coherent (t\<lparr>s_lifecycle := x\<rparr>)" for x
    by (rule coherent_linear [OF co]) (use t in simp_all)
  moreover have "s_lifecycle s \<noteq> InteractiveReady \<Longrightarrow> is_linear (s_history s)"
    using coherent_not_interactive [OF co] by blast
  ultimately show ?thesis
    using co t(1)
    by (cases l) (auto simp: Let_def coh.outcomes resize_failed_def coherent_def)
qed

lemma focus_capture_coherent:
  assumes wf: "session_wf s" and co: "coherent s"
    and ok: "capture_not_cancelled_in_history s (FocusCaptureEv f)"
  shows "outcome_all coherent (handle_focus_capture rgb s f)"
proof -
  have "session_wf (restore_selection (s\<lparr>s_focus := FocusWasLost, s_capture := NoCapture\<rparr>))"
    using wf by (auto intro!: session_wf_intros)
  then obtain t where t: "preview_to_draft
      (restore_selection (s\<lparr>s_focus := FocusWasLost, s_capture := NoCapture\<rparr>)) = Some t"
      "s_canonical_revision t = s_canonical_revision s" "s_source_revision t = s_source_revision s"
      "s_phase t = s_phase s \<or> preview_fingerprint (s_phase s) \<noteq> None \<and> (\<exists>c f. s_phase t = Draft c f)"
    by (rule preview_to_draft_cases) simp
  have lost: "coherent (end_drag (cancel_history_application t))"
    by (rule coherent_linear [OF co]) (use t in simp_all)
  have drag: "is_drag (s_mode s) \<Longrightarrow> is_linear (s_history s)"
    using coherent_not_interactive [OF co] by (cases "s_mode s") auto
  have idle: "s_mode s \<noteq> HistoryApplying \<Longrightarrow> is_linear (s_history s)"
    using coherent_not_interactive [OF co] by blast
  have moved: "coherent (pointer_candidate (s\<lparr>s_capture := x\<rparr>) c)" for x c
    by (rule coherent_same [OF co]) simp_all
  have released: "coherent (end_drag (s\<lparr>s_capture := NoCapture\<rparr>))"
    using co drag by (auto simp: coherent_def end_drag_def)
  show ?thesis
    using co t(1) lost drag idle moved released ok coherent_not_interactive [OF co]
    by (cases f)
      (auto simp: Let_def handle_focus_capture_def coh.outcomes coherent_def recovered_mode_def
        capture_not_cancelled_in_history_def split: capture_state.splits)
qed

lemma transition_coherent:
  assumes wf: "session_wf s" and co: "coherent s" and ok: "capture_not_cancelled_in_history s e"
  shows "outcome_all coherent (transition rgb s e)"
proof (cases e)
  case (LifecycleEv l)
  with wf co show ?thesis by (simp add: lifecycle_coherent)
next
  case (FocusCaptureEv f)
  with wf co ok show ?thesis by (simp add: focus_capture_coherent)
next
  case (SelectionEv x)
  with co show ?thesis
    by (cases x) (auto simp: Let_def handle_selection_def verify_exact_def verify_ambiguous_def
        coh.outcomes coherent_def split: selection_state.splits selection_verification.splits)
next
  case (InteractionEv i)
  with co show ?thesis
    by (cases i) (auto simp: Let_def handle_interaction_def open_command_def coh.outcomes not_blocked
        coherent_def dismiss_outcome_def start_applying_def ready_for_history_def recovered_mode_def
        split: capture_state.splits prod.splits)
next
  case (CommandEv c)
  have active: "s_phase s \<noteq> Idle \<Longrightarrow> \<exists>c. s_active_command s = Some c"
    using wf by (auto simp: session_wf_def)
  show ?thesis
    using CommandEv active co
    by (cases "(rgb, s, c)" rule: command_step.cases)
      (auto simp: Let_def handle_command_def open_command_def accept_commit_def coh.outcomes not_blocked
        coherent_def dismiss_outcome_def dest: cancellable_in_progress split: command_phase.splits)
next
  case (HistoryEv h)
  with co show ?thesis
    by (cases "(rgb, s, h)" rule: history_step.cases)
      (auto simp: Let_def handle_history_def coh.outcomes not_blocked coherent_def start_applying_def
        ready_for_history_def split: prod.splits)
qed

lemma reachable_coherent:
  "session_reachable rgb capture_not_cancelled_in_history s \<Longrightarrow> coherent s"
proof (induction rule: session_reachable.induct)
  case (new targets revision)
  show ?case by (simp add: coherent_def new_session_def)
next
  case (probing targets revision)
  show ?case by (simp add: coherent_def new_probing_def new_session_def)
next
  case (step s e s')
  from step.hyps(3) obtain r where "transition rgb s e = Some (s', r)" by (rule session_stepE)
  with transition_coherent [OF reachable_wf [OF step.hyps(1)] step.IH step.hyps(2), of rgb] show ?case
    by (simp add: outcome_all_def)
qed

text \<open>
  C26.  As long as no pointer capture is cancelled while a history application runs, every accepted
  commit started from the revision that is still canonical, and the host validated that revision.
\<close>

theorem accepted_commit_is_fresh:
  assumes "session_reachable rgb capture_not_cancelled_in_history s"
    and "transition rgb s (CommandEv (CommitAccepted source validated revision)) = Some (s', Inr t)"
  shows "source = s_canonical_revision s \<and> validated = s_canonical_revision s \<and>
    s_canonical_revision s' = revision"
proof -
  from assms(2) obtain f where f: "s_phase s = Committing f" "s_source_revision s = Some source"
      "validated = source" "s_canonical_revision s' = revision"
    by (auto simp: handle_command_def invalid_transition_def modal_def accept_commit_def rejected_def
        finish_transition_def finish_with_def Let_def split: if_splits command_phase.splits sum.splits)
  with reachable_coherent [OF assms(1)] show ?thesis by (simp add: coherent_def)
qed

theorem accepted_commit_is_fresh_witness: "s_canonical_revision (demo_run commit_events) = ''r1''"
proof -
  have ok: "run_events plain_rgb demo_session commit_events \<noteq> None" by code_simp
  have r: "session_reachable plain_rgb capture_not_cancelled_in_history (demo_run commit_events)"
    by (rule demo_run_reachable [OF ok])
      (auto simp: commit_events_def capture_not_cancelled_in_history_def)
  let ?x = "the (transition plain_rgb (demo_run commit_events) demo_commit)"
  have t: "transition plain_rgb (demo_run commit_events) (CommandEv (CommitAccepted ''r1'' ''r1'' ''r2'')) =
      Some (fst ?x, Inr (projr (snd ?x)))" by code_simp
  from accepted_commit_is_fresh [OF r t] show ?thesis by simp
qed

definition press_event :: state_event where
  "press_event = FocusCaptureEv (PointerPressed SelectionTool \<lparr>po_column = 1, po_row = 1\<rparr> None)"

definition stale_events :: "state_event list" where
  "stale_events = commit_events @ [demo_commit, CommandEv OutcomeDismissed, press_event,
     HistoryEv UndoRequested, FocusCaptureEv CaptureCancelled,
     CommandEv (OpenCommandEv ''extrude''), HistoryEv (ApplyCompleted (Applied ''r1'' False True)),
     FocusCaptureEv FocusLost, FocusCaptureEv FocusIn, FocusCaptureEv RecoveryCompleted,
     CommandEv (DraftUpdated ''in''), CommandEv PreviewRequested,
     CommandEv (PreviewCompleted PreviewOk), CommandEv CommitRequested]"

text \<open>
  Without that proviso a stale commit is accepted: cancelling a pointer capture while an undo
  runs lets a command open on the old revision, and its commit passes the source-revision check
  although the undo has moved the canonical revision since.
\<close>

theorem stale_commit_accepted:
  "\<exists>rgb s source s' t. session_reachable rgb (\<lambda>_ _. True) s \<and>
     transition rgb s (CommandEv (CommitAccepted source source ''r3'')) = Some (s', Inr t) \<and>
     source \<noteq> s_canonical_revision s"
proof -
  have ok: "run_events plain_rgb demo_session stale_events \<noteq> None" by code_simp
  let ?x = "the (transition plain_rgb (demo_run stale_events)
      (CommandEv (CommitAccepted ''r2'' ''r2'' ''r3'')))"
  have t: "transition plain_rgb (demo_run stale_events) (CommandEv (CommitAccepted ''r2'' ''r2'' ''r3'')) =
      Some (fst ?x, Inr (projr (snd ?x)))" by code_simp
  have c: "''r2'' \<noteq> s_canonical_revision (demo_run stale_events)" by code_simp
  have "session_reachable plain_rgb (\<lambda>_ _. True) (demo_run stale_events)"
    by (rule demo_run_reachable [OF ok]) simp
  with t c show ?thesis by blast
qed

section \<open>A command stranded by a cancelled capture\<close>

lemma stranded_command:
  assumes "s_mode s = ModelessReady" "s_phase s \<noteq> Idle"
  shows "\<exists>d. transition rgb s (CommandEv c) = Some (s, Inl d)"
  using assms
  by (cases "(rgb, s, c)" rule: command_step.cases)
    (auto simp: handle_command_def open_command_def modal_def invalid_transition_def Let_def
      split: command_phase.splits)

definition stranding_events :: "state_event list" where
  "stranding_events = [press_event, CommandEv (OpenCommandEv ''extrude''),
     FocusCaptureEv CaptureCancelled]"

text \<open>
  Cancelling a pointer capture while a command is open leaves the draft with no modal
  interaction: a reachable session with focus, in which a command is in progress and every command
  event, cancelling included, is refused.
\<close>

theorem cancelled_capture_strands_command:
  "\<exists>rgb s. session_reachable rgb (\<lambda>_ _. True) s \<and> s_lifecycle s = InteractiveReady \<and>
     s_focus s = Focused \<and> in_progress (s_phase s) \<and>
     (\<forall>c. \<exists>d. transition rgb s (CommandEv c) = Some (s, Inl d))"
proof -
  let ?s = "demo_run stranding_events"
  have ok: "run_events plain_rgb demo_session stranding_events \<noteq> None" by code_simp
  have m: "s_mode ?s = ModelessReady" "s_lifecycle ?s = InteractiveReady" "s_focus ?s = Focused"
    by code_simp+
  have p: "s_phase ?s = Draft ''extrude'' []" by code_simp
  have "session_reachable plain_rgb (\<lambda>_ _. True) ?s"
    by (rule demo_run_reachable [OF ok]) simp
  with m p stranded_command [of ?s plain_rgb] show ?thesis by (intro exI [of _ plain_rgb] exI [of _ ?s]) simp
qed

section \<open>Closing\<close>

definition total_palette :: "palette_rgb \<Rightarrow> bool" where
  "total_palette rgb = (\<forall>token. \<exists>c. rgb token = Inr c)"

lemma visual_for_total: "\<exists>fg bg m. visual_for st = visual st fg bg m"
  by (cases st) (simp_all add: visual_for_def transient_visuals_def visual_def)

lemma finish_total:
  assumes "total_palette rgb"
  shows "\<exists>n a r. finish_with rgb s k msg st d = Some (stamp s n a, Inr r)"
proof -
  obtain fg bg m where v: "visual_for st = visual st fg bg m" using visual_for_total by blast
  obtain c1 c2 where "rgb fg = Inr c1" "rgb bg = Inr c2"
    using assms by (meson total_palette_def)
  then show ?thesis
    by (simp add: finish_with_def v visual_def render_overlay_text_def Let_def stamp_def) blast
qed

lemma closed_refuses: "s_lifecycle s = Closed \<Longrightarrow> \<exists>d. transition rgb s e = Some (s, Inl d)"
proof (cases e)
  case (LifecycleEv l)
  assume "s_lifecycle s = Closed"
  with LifecycleEv show ?thesis by (cases l) (simp_all add: invalid_transition_def Let_def)
qed (simp_all add: handle_focus_capture_def handle_selection_def handle_interaction_def handle_command_def
    handle_history_def guard_blocks_def invalid_transition_def)

text \<open>
  C28.  From every session that is not closing, a close request and the end of the cleanup lead to a
  closed session with no command, capture or history application, at the same canonical revision,
  which accepts no further event.  The palette has a colour for every token: both events are
  acknowledged in a colour.
\<close>

theorem session_closes:
  assumes rgb: "total_palette rgb" and open_state: "s_lifecycle s \<noteq> Closing" "s_lifecycle s \<noteq> Closed"
  shows "\<exists>s1 r1 s2 r2. transition rgb s (LifecycleEv CloseRequested) = Some (s1, Inr r1) \<and>
    transition rgb s1 (LifecycleEv CleanupCompleted) = Some (s2, Inr r2) \<and>
    s_lifecycle s2 = Closed \<and> s_phase s2 = Idle \<and> s_capture s2 = NoCapture \<and>
    is_linear (s_history s2) \<and> s_canonical_revision s2 = s_canonical_revision s \<and>
    (\<forall>e. \<exists>d. transition rgb s2 e = Some (s2, Inl d))"
proof -
  let ?t = "clear_command ((restore_selection (s\<lparr>s_capture := NoCapture\<rparr>))\<lparr>s_mode := ModelessReady\<rparr>)"
  let ?u = "?t\<lparr>s_history := (if is_linear (s_history ?t) then s_history ?t else linearized (s_history ?t)),
      s_lifecycle := Closing\<rparr>"
  have capture: "s_capture (restore_selection (s\<lparr>s_capture := NoCapture\<rparr>)) = NoCapture"
    by (simp add: restore_selection_def split: selection_state.splits option.splits)
  obtain n a r1 where one: "transition rgb s (LifecycleEv CloseRequested) = Some (stamp ?u n a, Inr r1)"
    using open_state finish_total [OF rgb, of ?u "LifecycleK KCloseRequested" "''closing''" Cancelled None]
    by (auto simp: Let_def finish_transition_def)
  let ?v = "(stamp ?u n a)\<lparr>s_lifecycle := Closed\<rparr>"
  obtain m b r2 where two: "transition rgb (stamp ?u n a) (LifecycleEv CleanupCompleted) =
      Some (stamp ?v m b, Inr r2)"
    using finish_total [OF rgb, of ?v "LifecycleK KCleanupCompleted" "''closed''" Ready None]
    by (auto simp: Let_def finish_transition_def stamp_def)
  have "s_lifecycle (stamp ?v m b) = Closed" by (simp add: stamp_def)
  moreover from closed_refuses [OF this]
  have "\<forall>e. \<exists>d. transition rgb (stamp ?v m b) e = Some (stamp ?v m b, Inl d)" by blast
  moreover have "s_phase (stamp ?v m b) = Idle" "s_capture (stamp ?v m b) = NoCapture"
      "is_linear (s_history (stamp ?v m b))"
      "s_canonical_revision (stamp ?v m b) = s_canonical_revision s"
    using capture by (simp_all add: stamp_def clear_command_def)
  ultimately show ?thesis using one two by blast
qed

theorem session_closes_witness:
  "\<exists>s1 r1 s2 r2. transition plain_rgb demo_session (LifecycleEv CloseRequested) = Some (s1, Inr r1) \<and>
     transition plain_rgb s1 (LifecycleEv CleanupCompleted) = Some (s2, Inr r2) \<and> s_lifecycle s2 = Closed"
proof -
  have "total_palette plain_rgb" by (simp add: total_palette_def plain_rgb_def)
  moreover have "s_lifecycle demo_session \<noteq> Closing" "s_lifecycle demo_session \<noteq> Closed" by code_simp+
  ultimately show ?thesis using session_closes [of plain_rgb demo_session] by blast
qed

end
