(* ===== verification/TuiInputProps.thy ===== *)
theory TuiInputProps
  imports TuiInput TuiProps
begin

text \<open>
  Arrow navigation selects the neighbouring target and never leaves the list; the byte decoder
  neither loses nor invents input, and the inputs that wedge it.
\<close>

section \<open>Arrow navigation\<close>

lemma next_index_bound:
  assumes "targets \<noteq> []" "\<And>i. index = Some i \<Longrightarrow> i < length targets"
    "next_index (length targets - 1) index dir = (j, res)"
  shows "j < length targets"
  using assms by (cases index; cases dir) (auto split: if_splits)

lemma selected_index_bound:
  "session_wf s \<Longrightarrow> s_selected_index s = Some i \<Longrightarrow> i < length (s_targets s)"
  by (cases "s_selection s") (auto simp: session_wf_def intro: index_of_bound [OF sym])

lemma find_distinct:
  assumes "distinct (map tg_id ts)" "j < length ts"
  shows "find (\<lambda>n. tg_id (ts ! n) = tg_id (ts ! j)) [0..<length ts] = Some j"
proof -
  have "find (\<lambda>n. tg_id (ts ! n) = tg_id (ts ! j)) [0..<length ts] \<noteq> None"
    using assms(2) by (auto simp: find_None_iff)
  then obtain k where k: "find (\<lambda>n. tg_id (ts ! n) = tg_id (ts ! j)) [0..<length ts] = Some k" by auto
  then have "k < length ts" "tg_id (ts ! k) = tg_id (ts ! j)"
    by (auto simp: find_Some_iff)
  with assms have "k = j"
    by (metis distinct_conv_nth length_map nth_map)
  with k show ?thesis by simp
qed

lemma select_target_total:
  assumes rgb: "total_palette rgb" and unblocked: "\<not> navigation_blocked s"
    and target: "is_target s i"
  shows "\<exists>t r. select_target rgb s i = Some (t, Inr r) \<and> s_targets t = s_targets s \<and>
    s_selection t = SelSelected [i] \<and> s_selected_index t = first_position s [i] \<and>
    s_phase t = s_phase s \<and> s_active_command t = s_active_command s \<and>
    s_canonical_revision t = s_canonical_revision s"
proof -
  have g: "guard_blocks s False = False"
    using unblocked by (simp add: navigation_blocked_def guard_blocks_def)
  let ?n = "nominate s (selected_ids s) [i]"
  obtain n a r where one: "handle_selection rgb s (Nominate [i]) = Some (stamp ?n n a, Inr r)"
    using finish_total [OF rgb, of ?n "SelectionK KNominate" "''selection candidate''" Candidate None]
    by (auto simp: handle_selection_def g Let_def finish_transition_def)
  let ?m = "stamp ?n n a"
  have m: "guard_blocks ?m False = False" "s_selection ?m = SelCandidate [i] (selected_ids s)"
      "s_targets ?m = s_targets s"
    using g by (simp_all add: guard_blocks_def stamp_def nominate_def)
  then have auth: "authoritative ?m [i] [i]"
    using target by (simp add: authoritative_def is_target_def)
  let ?t = "?m\<lparr>s_selected_index := first_position ?m [i], s_selection := SelSelected [i]\<rparr>"
  let ?u = "if selected_target ?m \<noteq> selected_target ?t then ?t\<lparr>s_timeline := None\<rparr> else ?t"
  obtain k b q where two: "handle_selection rgb ?m (Verify (Exact [i])) = Some (stamp ?u k b, Inr q)"
    using finish_total [OF rgb, of ?u "SelectionK KVerifyExact" "''selection verified''" Selected None] auth
    by (auto simp: handle_selection_def m Let_def verify_exact_def finish_transition_def)
  have "s_targets ?u = s_targets s" "s_selection ?u = SelSelected [i]"
      "s_selected_index ?u = first_position s [i]" "s_phase ?u = s_phase s"
      "s_active_command ?u = s_active_command s" "s_canonical_revision ?u = s_canonical_revision s"
    by (simp_all add: stamp_def nominate_def first_position_def target_position_def)
  with one two show ?thesis by (auto simp: select_target_def stamp_def)
qed

text \<open>
  With targets of distinct identifiers and a session ready for navigation, an arrow key always
  selects the target that the key and the current index ask for (the neighbour, or the same target at
  the ends of the list), reports a boundary exactly there, and touches nothing canonical.
\<close>

theorem arrow_key_selects:
  assumes wf: "session_wf s" and rgb: "total_palette rgb" and unblocked: "\<not> navigation_blocked s"
    and targets: "s_targets s \<noteq> []" "distinct (map tg_id (s_targets s))"
    and index: "next_index (length (s_targets s) - 1) (s_selected_index s) (arrow_direction key) = (j, res)"
  shows "\<exists>s' x. press rgb s key = Some (s', x) \<and> io_diagnostic x = None \<and>
    ga_result (tf_acknowledgement (io_frame x)) = res \<and> j < length (s_targets s) \<and>
    s_selected_index s' = Some j \<and> s_selection s' = SelSelected [tg_id (s_targets s ! j)] \<and>
    tf_selected_target (io_frame x) = Some (tg_id (s_targets s ! j)) \<and> session_wf s' \<and>
    s_canonical_revision s' = s_canonical_revision s"
proof -
  let ?a = "s\<lparr>s_acknowledgement_sequence := s_acknowledgement_sequence s + 1\<rparr>"
  have j: "j < length (s_targets s)"
    using next_index_bound [OF targets(1) _ index] selected_index_bound [OF wf] by blast
  have "\<not> navigation_blocked ?a" using unblocked by (simp add: navigation_blocked_def)
  moreover have "is_target ?a (tg_id (s_targets s ! j))"
    using j by (auto simp: is_target_def list_ex_iff)
  ultimately obtain t r where t: "select_target rgb ?a (tg_id (s_targets s ! j)) = Some (t, Inr r)"
      "s_targets t = s_targets s" "s_selection t = SelSelected [tg_id (s_targets s ! j)]"
      "s_selected_index t = first_position ?a [tg_id (s_targets s ! j)]"
      "s_phase t = s_phase s" "s_active_command t = s_active_command s"
      "s_canonical_revision t = s_canonical_revision s"
    using select_target_total [OF rgb] by fastforce
  have pos: "first_position ?a [tg_id (s_targets s ! j)] = Some j"
    using find_distinct [OF targets(2) j] by (simp add: first_position_def target_position_def)
  have "session_wf t"
    using wf t pos j find_distinct [OF targets(2) j]
    by (auto simp: session_wf_def ids_ok_def index_of_def)
  with t pos j unblocked targets(1) index show ?thesis
    by (simp add: press_def Let_def finish_input_def gesture_def selected_target_def
        navigation_blocked_def session_wf_def)
qed

theorem arrow_key_selects_witness:
  "\<exists>s' x. press plain_rgb demo_session ArrowDown = Some (s', x) \<and> s_selected_index s' = Some 0"
proof -
  have wf: "session_wf demo_session" unfolding demo_session_def by (rule new_session_wf)
  have rgb: "total_palette plain_rgb" by (simp add: total_palette_def plain_rgb_def)
  have unblocked: "\<not> navigation_blocked demo_session" by code_simp
  have targets: "s_targets demo_session \<noteq> []" "distinct (map tg_id (s_targets demo_session))"
    by code_simp+
  have index: "next_index (length (s_targets demo_session) - 1) (s_selected_index demo_session)
      (arrow_direction ArrowDown) = (0, Moved)" by code_simp
  from arrow_key_selects [OF wf rgb unblocked targets index] show ?thesis by blast
qed

section \<open>The byte decoder\<close>

lemma find_byte_bound: "find_byte P xs = Some n \<Longrightarrow> n < length xs"
  by (induction xs arbitrary: n) (auto split: if_splits)

lemma starts_with_length: "starts_with p xs \<Longrightarrow> length p \<le> length xs"
  by (metis length_take min.cobounded1 starts_with_def)

lemma find_window_bound: "find_window w xs = Some n \<Longrightarrow> n + length w \<le> length xs"
  by (induction xs arbitrary: n) (auto split: if_splits dest: starts_with_length)

lemma esc_sequence_length: "q \<in> set esc_sequences \<Longrightarrow> 0 < length q"
  by (auto simp: esc_sequences_def)

lemma next_event_length_bounds:
  assumes "next_event_length p = Some n"
  shows "0 < n \<and> n \<le> length p"
proof -
  have lens: "length ack_prefix = 3" "length mouse_prefix = 3" "length resize_prefix = 4"
      "length ack_suffix = 5"
    by (simp_all add: ack_prefix_def mouse_prefix_def resize_prefix_def ack_suffix_def)
  obtain a q where p: "p = a # q" using assms by (cases p) (auto simp: next_event_length_def)
  show ?thesis
  proof (cases "a = CHR 0x1B")
    case False
    with assms p show ?thesis
      by (auto simp: next_event_length_def dest: utf8_char_length_bounds split: if_splits)
  next
    case True
    then have esc: "next_event_length p =
        (if starts_with ack_prefix p then
           map_option (\<lambda>n. 3 + n + 5) (find_window ack_suffix (drop 3 p))
         else if starts_with mouse_prefix p then
           map_option (\<lambda>n. 3 + n + 1) (find_byte (\<lambda>b. b = CHR ''M'' \<or> b = CHR ''m'') (drop 3 p))
         else if starts_with resize_prefix p then
           map_option (\<lambda>n. 4 + n + 1) (find_byte (\<lambda>b. b = CHR ''t'') (drop 4 p))
         else case find (\<lambda>w. starts_with w p) esc_sequences of
             Some w \<Rightarrow> Some (length w)
           | None \<Rightarrow> if list_ex (\<lambda>w. starts_with p w) esc_sequences then None else Some 1)"
      unfolding p next_event_length_def by (simp only: list.case lens if_True refl)
    have window: "0 < n \<and> n \<le> length p"
      if "map_option (\<lambda>n. 3 + n + 5) (find_window ack_suffix (drop 3 p)) = Some n"
      using that by (auto simp: lens dest!: find_window_bound)
    have mouse: "0 < n \<and> n \<le> length p"
      if "map_option (\<lambda>n. 3 + n + 1) (find_byte (\<lambda>b. b = CHR ''M'' \<or> b = CHR ''m'') (drop 3 p)) = Some n"
      using that by (auto dest!: find_byte_bound)
    have resize: "0 < n \<and> n \<le> length p"
      if "map_option (\<lambda>n. 4 + n + 1) (find_byte (\<lambda>b. b = CHR ''t'') (drop 4 p)) = Some n"
      using that by (auto dest!: find_byte_bound)
    have single: "0 < n \<and> n \<le> length p" if "n = 1" using that p by simp
    have complete: "0 < length w \<and> length w \<le> length p"
      if "find (\<lambda>w. starts_with w p) esc_sequences = Some w" for w
    proof -
      from that have "w \<in> set esc_sequences" "starts_with w p" by (auto simp: find_Some_iff)
      then show ?thesis using esc_sequence_length starts_with_length by blast
    qed
    show ?thesis
    proof (cases "find (\<lambda>w. starts_with w p) esc_sequences")
      case None
      show ?thesis
        using assms unfolding esc None
        by (simp only: option.case split: if_splits) (use window mouse resize single in auto)
    next
      case (Some w)
      show ?thesis
        using assms unfolding esc Some
        by (simp only: option.case split: if_splits) (use window mouse resize complete [OF Some] in auto)
    qed
  qed
qed

lemma drain_events_conserve:
  "drain_events fuel p = (events, rest) \<Longrightarrow> concat events @ rest = p \<and> [] \<notin> set events"
proof (induction fuel arbitrary: p events rest)
  case 0
  then show ?case by simp
next
  case (Suc fuel)
  show ?case
  proof (cases "next_event_length p")
    case None
    with Suc.prems show ?thesis by simp
  next
    case (Some n)
    then obtain es where es: "drain_events fuel (drop n p) = (es, rest)" "events = take n p # es"
      using Suc.prems by (auto split: prod.splits)
    from next_event_length_bounds [OF Some] have "take n p \<noteq> []" by auto
    with Suc.IH [OF es(1)] es(2) show ?thesis by auto
  qed
qed

lemma drain_events_complete:
  "length p \<le> fuel \<Longrightarrow> drain_events fuel p = (events, rest) \<Longrightarrow> next_event_length rest = None"
proof (induction fuel arbitrary: p events)
  case 0
  then show ?case by (simp add: next_event_length_def)
next
  case (Suc fuel)
  show ?case
  proof (cases "next_event_length p")
    case None
    with Suc.prems show ?thesis by simp
  next
    case (Some n)
    then obtain es where es: "drain_events fuel (drop n p) = (es, rest)"
      using Suc.prems by (auto split: prod.splits)
    from next_event_length_bounds [OF Some] Suc.prems(1) have "length (drop n p) \<le> fuel" by auto
    from Suc.IH [OF this es] show ?thesis .
  qed
qed

text \<open>
  C30.  Feeding bytes to the decoder neither loses nor invents input: the events it returns and the
  bytes it keeps are the pending bytes followed by the new ones, no event is empty, and the loop
  stops only when no complete event is left.
\<close>

theorem decoder_conserves_input:
  "case feed pending bytes of (events, rest) \<Rightarrow>
     concat events @ rest = pending @ bytes \<and> [] \<notin> set events \<and> next_event_length rest = None"
proof -
  obtain events rest where f: "feed pending bytes = (events, rest)" by (cases "feed pending bytes")
  then have d: "drain_events (length (pending @ bytes)) (pending @ bytes) = (events, rest)"
    by (simp add: feed_def Let_def)
  from drain_events_conserve [OF d] drain_events_complete [OF order_refl d] f show ?thesis by simp
qed

lemma utf8_length_head:
  "\<not> in_range 0x00 0x7F a \<Longrightarrow> \<not> in_range 0xC2 0xF4 a \<Longrightarrow> utf8_char_length (a # xs) = None"
proof -
  assume a: "\<not> in_range 0x00 0x7F a" "\<not> in_range 0xC2 0xF4 a"
  then have "\<not> in_range 0xC2 0xDF a" "a \<noteq> CHR 0xE0" "\<not> in_range 0xE1 0xEC a" "a \<noteq> CHR 0xED"
      "\<not> in_range 0xEE 0xEF a" "a \<noteq> CHR 0xF0" "\<not> in_range 0xF1 0xF3 a" "a \<noteq> CHR 0xF4"
    by (auto simp: in_range_def)
  with a show ?thesis by (simp add: utf8_char_length.simps split: list.splits)
qed

lemma wedged:
  assumes "a \<noteq> CHR 0x1B" "\<not> is_ascii_control a" "\<not> valid_utf8 (a # p)"
  shows "next_event_length (a # p) = None"
  using assms by (simp add: next_event_length_def)

text \<open>
  One byte that can never occur in UTF-8 wedges the decoder for good: once it is the first
  pending byte, no later input, arrow keys and escapes included, is ever delivered.
\<close>

theorem invalid_byte_wedges_decoder:
  assumes "\<not> in_range 0x00 0x7F a" and "\<not> in_range 0xC2 0xF4 a"
  shows "feed (a # p) bytes = ([], a # p @ bytes)"
proof -
  have "a \<noteq> CHR 0x1B" "\<not> is_ascii_control a"
    using assms by (auto simp: in_range_def is_ascii_control_def)
  moreover have "\<not> valid_utf8 (a # p @ bytes)"
    using utf8_length_head [OF assms, of "p @ bytes"] by (subst valid_utf8.simps) simp
  ultimately have "next_event_length (a # p @ bytes) = None" by (rule wedged)
  then show ?thesis by (simp add: feed_def Let_def)
qed

theorem invalid_byte_wedges_decoder_witness:
  "feed [CHR 0xFF] (CHR 0x1B # ''[A'') = ([], [CHR 0xFF, CHR 0x1B] @ ''[A'')"
proof -
  have "\<not> in_range 0x00 0x7F (CHR 0xFF)" "\<not> in_range 0xC2 0xF4 (CHR 0xFF)" by code_simp+
  from invalid_byte_wedges_decoder [OF this, of "[]" "CHR 0x1B # ''[A''"] show ?thesis by simp
qed

text \<open>
  A resize report that a read boundary cuts after \<^verbatim>\<open>ESC [ 8\<close> is taken for an Escape key
  followed by text.
\<close>

lemma split_resize_report_misread:
  "fst (feed [] (CHR 0x1B # ''[8;24;80t'')) = [CHR 0x1B # ''[8;24;80t''] \<and>
   fst (feed [] (CHR 0x1B # ''[8'')) = [[CHR 0x1B], ''['', ''8''] \<and>
   decode_terminal_input [CHR 0x1B] = Some Escape"
  by code_simp

end

