(* ===== verification/Viewport.thy ===== *)
theory Viewport
  imports Prelude
begin

text \<open>
  \<^verbatim>\<open>crates/viewport/src/renderer.rs\<close> with \<^verbatim>\<open>diagnostic.rs\<close>: the coordinator
  that keeps at most one frame in flight and one pending in front of a terminal renderer.  The
  trait \<^verbatim>\<open>Renderer\<close> is a record of state-passing functions over the renderer's own
  state \<open>'r\<close>; the coordinator is modelled over any such record.  An operation returns the
  coordinator it leaves with its result.  A \<^verbatim>\<open>u64\<close> is an integer below
  \<open>2 ^ 64\<close>.
\<close>

section \<open>Diagnostics\<close>

datatype viewport_code =
  InvalidDimensions | InvalidScene | PaletteInvalid | ProjectionFailed | FrameDropped
| FrameCancelled | RendererBusy | AcknowledgementMismatch | AcknowledgementTimeout
| TransportWriteFailed | CapabilityDenied | CapabilityTimeout | CapabilityMalformed
| CapabilityInvalidated | CleanupFailed

record viewport_diagnostic =
  vd_code :: viewport_code
  vd_detail :: string
  vd_schema_version :: string
  vd_source_revision :: string
  vd_frame_token :: "int option"
  vd_generation :: "int option"
  vd_image_id :: "int option"
  vd_evidence :: "string option"
  vd_recovery :: string

definition new_diagnostic ::
  "viewport_code \<Rightarrow> string \<Rightarrow> string \<Rightarrow> string \<Rightarrow> viewport_diagnostic" where
  "new_diagnostic code detail source_revision recovery =
     \<lparr>vd_code = code, vd_detail = detail, vd_schema_version = ''threeterm.viewport/1'',
      vd_source_revision = source_revision, vd_frame_token = None, vd_generation = None,
      vd_image_id = None, vd_evidence = None, vd_recovery = recovery\<rparr>"

definition with_generation :: "int \<Rightarrow> viewport_diagnostic \<Rightarrow> viewport_diagnostic" where
  "with_generation g d = d\<lparr>vd_generation := Some g\<rparr>"

definition with_frame_token :: "int \<Rightarrow> viewport_diagnostic \<Rightarrow> viewport_diagnostic" where
  "with_frame_token t d = d\<lparr>vd_frame_token := Some t\<rparr>"

definition with_image_id :: "int \<Rightarrow> viewport_diagnostic \<Rightarrow> viewport_diagnostic" where
  "with_image_id i d = d\<lparr>vd_image_id := Some i\<rparr>"

section \<open>Frames and the renderer interface\<close>

record viewport_frame =
  vf_revision :: string
  vf_generation :: int
  vf_width :: int
  vf_height :: int
  vf_rgb :: string
  vf_frame_token :: "int option"

record frame_identity =
  fi_frame_token :: int
  fi_generation :: int
  fi_revision :: string
  fi_image_id :: int

record frame_acknowledgement =
  fa_frame_token :: int
  fa_image_id :: int

type_synonym ('s, 'a) fallible = "'s \<times> (viewport_diagnostic + 'a)"

record 'r renderer =
  rd_submit :: "'r \<Rightarrow> viewport_frame \<Rightarrow> int \<Rightarrow> ('r, frame_identity) fallible"
  rd_cancel :: "'r \<Rightarrow> frame_identity option \<Rightarrow> ('r, unit) fallible"
  rd_acknowledge :: "'r \<Rightarrow> frame_acknowledgement \<Rightarrow> ('r, unit) fallible"
  rd_cleanup :: "'r \<Rightarrow> ('r, unit) fallible"

definition pending_identity :: "viewport_frame \<Rightarrow> int \<Rightarrow> frame_identity" where
  "pending_identity frame token =
     \<lparr>fi_frame_token = token, fi_generation = vf_generation frame,
      fi_revision = vf_revision frame, fi_image_id = 0\<rparr>"

section \<open>The coordinator\<close>

record in_flight =
  if_frame :: viewport_frame
  if_identity :: frame_identity
  if_cancelled :: bool

record pending =
  pe_frame :: viewport_frame
  pe_identity :: frame_identity

record 'r coordinator =
  co_renderer :: 'r
  co_next_frame_token :: int
  co_in_flight :: "in_flight option"
  co_pending :: "pending option"
  co_visible :: "viewport_frame option"
  co_dropped_frames :: "frame_identity list"
  co_valid :: bool

record submit_outcome =
  su_started :: "frame_identity option"
  su_queued :: "frame_identity option"
  su_replaced :: "frame_identity option"
  su_dropped :: "viewport_diagnostic option"

record acknowledge_outcome =
  ak_visible :: "viewport_frame option"
  ak_started :: "frame_identity option"

record cancel_outcome =
  ca_cancelled_pending :: "frame_identity option"
  ca_active :: "frame_identity option"

definition new_coordinator :: "'r \<Rightarrow> 'r coordinator" where
  "new_coordinator r =
     \<lparr>co_renderer = r, co_next_frame_token = 0, co_in_flight = None, co_pending = None,
      co_visible = None, co_dropped_frames = [], co_valid = True\<rparr>"

text \<open>The results of the renderer's own cancel and cleanup are ignored here, as in the source.\<close>

definition invalidate_and_cleanup :: "'r renderer \<Rightarrow> 'r coordinator \<Rightarrow> 'r coordinator" where
  "invalidate_and_cleanup rd c =
     (let active = map_option if_identity (co_in_flight c);
          r1 = fst (rd_cancel rd (co_renderer c) active);
          r2 = fst (rd_cleanup rd r1) in
      c\<lparr>co_valid := False, co_renderer := r2, co_pending := None, co_in_flight := None,
        co_visible := None\<rparr>)"

text \<open>Starting a frame: a renderer that answers with another token, or with image 0, is refused.\<close>

definition start ::
  "'r renderer \<Rightarrow> 'r coordinator \<Rightarrow> viewport_frame \<Rightarrow> ('r coordinator, frame_identity) fallible"
where
  "start rd c frame =
     (let token = the (vf_frame_token frame) in
      case rd_submit rd (co_renderer c) frame token of
        (r, Inl e) \<Rightarrow> (c\<lparr>co_renderer := r, co_valid := False\<rparr>, Inl e)
      | (r, Inr identity) \<Rightarrow>
          if fi_frame_token identity \<noteq> token \<or> fi_image_id identity = 0 then
            (c\<lparr>co_renderer := r\<rparr>,
             Inl (with_generation (vf_generation frame) (with_frame_token token
               (new_diagnostic ProjectionFailed ''renderer returned an invalid frame identity''
                 (vf_revision frame)
                 ''discard the disposable frame and retry from the canonical projection''))))
          else (c\<lparr>co_renderer := r,
                  co_in_flight := Some \<lparr>if_frame = frame, if_identity = identity,
                    if_cancelled = False\<rparr>\<rparr>, Inr identity))"

definition checked_succ :: "int \<Rightarrow> int option" where
  "checked_succ n = (if n < 18446744073709551615 then Some (n + 1) else None)"

definition in_flight_generations :: "'r coordinator \<Rightarrow> int list" where
  "in_flight_generations c =
     (case co_pending c of None \<Rightarrow> [] | Some p \<Rightarrow> [fi_generation (pe_identity p)]) @
     (case co_in_flight c of None \<Rightarrow> [] | Some a \<Rightarrow> [fi_generation (if_identity a)])"

definition newest_generation :: "'r coordinator \<Rightarrow> int option" where
  "newest_generation c =
     (case in_flight_generations c of [] \<Rightarrow> None | g # gs \<Rightarrow> Some (fold max gs g))"

definition dropped_diagnostic :: "string \<Rightarrow> string \<Rightarrow> frame_identity \<Rightarrow> viewport_diagnostic" where
  "dropped_diagnostic detail recovery identity =
     with_generation (fi_generation identity) (with_frame_token (fi_frame_token identity)
       (new_diagnostic FrameDropped detail (fi_revision identity) recovery))"

definition queue_frame ::
  "'r coordinator \<Rightarrow> viewport_frame \<Rightarrow> frame_identity \<Rightarrow> ('r coordinator, submit_outcome) fallible"
where
  "queue_frame c frame identity =
     (let replaced = map_option pe_identity (co_pending c) in
      (c\<lparr>co_pending := Some \<lparr>pe_frame = frame, pe_identity = identity\<rparr>,
         co_dropped_frames := co_dropped_frames c @ (case replaced of None \<Rightarrow> [] | Some i \<Rightarrow> [i])\<rparr>,
       Inr \<lparr>su_started = None, su_queued = Some identity, su_replaced = replaced,
            su_dropped = map_option
              (dropped_diagnostic ''pending viewport frame was replaced by a newer state''
                 ''continue with the newest pending presentation'') replaced\<rparr>))"

definition submit ::
  "'r renderer \<Rightarrow> 'r coordinator \<Rightarrow> viewport_frame \<Rightarrow> ('r coordinator, submit_outcome) fallible"
where
  "submit rd c frame0 =
     (if \<not> co_valid c then
        (c, Inl (with_generation (vf_generation frame0)
          (new_diagnostic CapabilityInvalidated ''renderer attachment is invalid''
            (vf_revision frame0) ''run a fresh capability probe before submitting a frame'')))
      else case checked_succ (co_next_frame_token c) of
        None \<Rightarrow>
          (c\<lparr>co_valid := False\<rparr>, Inl (with_generation (vf_generation frame0)
            (new_diagnostic TransportWriteFailed ''renderer frame token exhausted''
              (vf_revision frame0) ''restart the interactive attachment'')))
      | Some token \<Rightarrow>
          let c1 = c\<lparr>co_next_frame_token := token\<rparr>;
              frame = frame0\<lparr>vf_frame_token := Some token\<rparr>;
              identity = pending_identity frame token in
          if (case newest_generation c1 of None \<Rightarrow> False | Some g \<Rightarrow> vf_generation frame < g) then
            (c1\<lparr>co_dropped_frames := co_dropped_frames c1 @ [identity]\<rparr>,
             Inr \<lparr>su_started = None, su_queued = None, su_replaced = None,
               su_dropped = Some (dropped_diagnostic
                 ''stale viewport frame was older than the current renderer state''
                 ''continue with the newest accepted presentation generation'' identity)\<rparr>)
          else if co_in_flight c1 \<noteq> None then queue_frame c1 frame identity
          else case start rd c1 frame of
              (c2, Inl e) \<Rightarrow> (invalidate_and_cleanup rd c2, Inl e)
            | (c2, Inr started) \<Rightarrow>
                (c2, Inr \<lparr>su_started = Some started, su_queued = None, su_replaced = None,
                          su_dropped = None\<rparr>))"

definition acknowledge ::
  "'r renderer \<Rightarrow> 'r coordinator \<Rightarrow> frame_acknowledgement \<Rightarrow>
   ('r coordinator, acknowledge_outcome) fallible" where
  "acknowledge rd c ack =
     (case co_in_flight c of
        None \<Rightarrow>
          (invalidate_and_cleanup rd c,
           Inl (with_image_id (fa_image_id ack) (with_frame_token (fa_frame_token ack)
             (new_diagnostic AcknowledgementMismatch
               ''acknowledgement arrived with no in-flight frame'' ''unknown''
               ''discard the late acknowledgement and await a current frame''))))
      | Some active \<Rightarrow>
          if fi_frame_token (if_identity active) \<noteq> fa_frame_token ack \<or>
             fi_image_id (if_identity active) \<noteq> fa_image_id ack then
            (invalidate_and_cleanup rd c,
             Inl (with_image_id (fa_image_id ack)
               (with_generation (fi_generation (if_identity active))
               (with_frame_token (fa_frame_token ack)
               (new_diagnostic AcknowledgementMismatch
                 ''acknowledgement does not match the in-flight frame''
                 (fi_revision (if_identity active))
                 ''discard the acknowledgement and retain the current frame'')))))
          else case rd_acknowledge rd (co_renderer c) ack of
              (r, Inl e) \<Rightarrow> (invalidate_and_cleanup rd (c\<lparr>co_renderer := r\<rparr>), Inl e)
            | (r, Inr _) \<Rightarrow>
                let c1 = c\<lparr>co_renderer := r, co_in_flight := None\<rparr> in
                if if_cancelled active then
                  (c1\<lparr>co_pending := None\<rparr>, Inr \<lparr>ak_visible = None, ak_started = None\<rparr>)
                else
                  let c2 = c1\<lparr>co_visible := Some (if_frame active), co_pending := None\<rparr> in
                  case co_pending c1 of
                    None \<Rightarrow>
                      (c2, Inr \<lparr>ak_visible = Some (if_frame active), ak_started = None\<rparr>)
                  | Some p \<Rightarrow>
                      case start rd c2 (pe_frame p) of
                        (c3, Inl e) \<Rightarrow> (invalidate_and_cleanup rd c3, Inl e)
                      | (c3, Inr started) \<Rightarrow>
                          (c3, Inr \<lparr>ak_visible = Some (if_frame active),
                                   ak_started = Some started\<rparr>))"

definition request_cancel ::
  "'r renderer \<Rightarrow> 'r coordinator \<Rightarrow> ('r coordinator, cancel_outcome) fallible" where
  "request_cancel rd c =
     (let cancelled_pending = map_option pe_identity (co_pending c);
          active = map_option if_identity (co_in_flight c);
          c1 = c\<lparr>co_pending := None,
                 co_dropped_frames := co_dropped_frames c @
                   (case cancelled_pending of None \<Rightarrow> [] | Some i \<Rightarrow> [i]),
                 co_in_flight := map_option (if_cancelled_update (\<lambda>_. True)) (co_in_flight c)\<rparr> in
      case rd_cancel rd (co_renderer c1) active of
        (r, Inl e) \<Rightarrow> (invalidate_and_cleanup rd (c1\<lparr>co_renderer := r\<rparr>), Inl e)
      | (r, Inr _) \<Rightarrow>
          (c1\<lparr>co_renderer := r\<rparr>,
           Inr \<lparr>ca_cancelled_pending = cancelled_pending, ca_active = active\<rparr>))"

definition active_diagnostic :: "'r coordinator \<Rightarrow> viewport_code \<Rightarrow> string \<Rightarrow> string \<Rightarrow> viewport_diagnostic"
where
  "active_diagnostic c code detail idle_detail =
     (let recovery = ''restore the terminal and run a fresh capability probe'' in
      case co_in_flight c of
        Some active \<Rightarrow>
          (let i = if_identity active in
           with_image_id (fi_image_id i) (with_generation (fi_generation i)
             (with_frame_token (fi_frame_token i)
               (new_diagnostic code detail (fi_revision i) recovery))))
      | None \<Rightarrow> new_diagnostic code idle_detail ''unknown'' recovery)"

definition acknowledgement_timeout ::
  "'r renderer \<Rightarrow> 'r coordinator \<Rightarrow> 'r coordinator \<times> viewport_diagnostic" where
  "acknowledgement_timeout rd c =
     (invalidate_and_cleanup rd c,
      active_diagnostic c AcknowledgementTimeout ''renderer acknowledgement deadline expired''
        ''renderer acknowledgement deadline expired without an active frame'')"

definition terminal_reset ::
  "'r renderer \<Rightarrow> 'r coordinator \<Rightarrow> string \<Rightarrow> 'r coordinator \<times> viewport_diagnostic" where
  "terminal_reset rd c detail =
     (invalidate_and_cleanup rd c, active_diagnostic c CapabilityInvalidated detail detail)"

definition cleanup :: "'r renderer \<Rightarrow> 'r coordinator \<Rightarrow> ('r coordinator, unit) fallible" where
  "cleanup rd c =
     (case rd_cleanup rd (co_renderer c) of
        (r, result) \<Rightarrow>
          (c\<lparr>co_valid := False, co_pending := None, co_in_flight := None, co_visible := None,
             co_renderer := r\<rparr>, result))"

text \<open>One call of the coordinator, as the viewport session makes them.\<close>

datatype coordinator_call =
  CallSubmit viewport_frame
| CallAcknowledge frame_acknowledgement
| CallCancel
| CallTimeout
| CallReset string
| CallCleanup
| CallInvalidate

fun coordinator_step :: "'r renderer \<Rightarrow> 'r coordinator \<Rightarrow> coordinator_call \<Rightarrow> 'r coordinator" where
  "coordinator_step rd c (CallSubmit frame) = fst (submit rd c frame)"
| "coordinator_step rd c (CallAcknowledge ack) = fst (acknowledge rd c ack)"
| "coordinator_step rd c CallCancel = fst (request_cancel rd c)"
| "coordinator_step rd c CallTimeout = fst (acknowledgement_timeout rd c)"
| "coordinator_step rd c (CallReset detail) = fst (terminal_reset rd c detail)"
| "coordinator_step rd c CallCleanup = fst (cleanup rd c)"
| "coordinator_step rd c CallInvalidate = invalidate_and_cleanup rd c"

definition coordinator_run ::
  "'r renderer \<Rightarrow> 'r \<Rightarrow> coordinator_call list \<Rightarrow> 'r coordinator" where
  "coordinator_run rd r calls = foldl (coordinator_step rd) (new_coordinator r) calls"

end
