(* ===== verification/Kitty.thy ===== *)
theory Kitty
  imports Viewport
begin

text \<open>
  \<^verbatim>\<open>crates/viewport/src/kitty.rs\<close>: the renderer for the Kitty graphics protocol, which
  implements the trait of \<open>Viewport\<close>.  Bytes are characters.  The terminal's writer
  (\<open>write_all\<close> followed by \<open>flush\<close>, or the text of its I/O error), the restoration
  of the terminal modes and the zlib compression (crate \<^verbatim>\<open>flate2\<close>) are the parameters
  \<open>terminal\<close>.
\<close>

section \<open>Base64\<close>

definition base64_table :: string where
  "base64_table = ''ABCDEFGHIJKLMNOPQRSTUVWXYZabcdefghijklmnopqrstuvwxyz0123456789+/''"

definition base64_digit :: "nat \<Rightarrow> char" where
  "base64_digit n = base64_table ! n"

text \<open>The two shifted halves of a byte: \<^verbatim>\<open>x >> k\<close> is a division by \<open>2 ^ k\<close> and
  a mask with \<^verbatim>\<open>2 ^ k - 1\<close> a remainder.\<close>

fun base64_encode :: "string \<Rightarrow> string" where
  "base64_encode [] = []"
| "base64_encode [a] =
     (let x = of_char a in
      [base64_digit (x div 4), base64_digit (x mod 4 * 16), CHR ''='', CHR ''=''])"
| "base64_encode [a, b] =
     (let x = of_char a; y = of_char b in
      [base64_digit (x div 4), base64_digit (x mod 4 * 16 + y div 16),
       base64_digit (y mod 16 * 4), CHR ''=''])"
| "base64_encode (a # b # c # rest) =
     (let x = of_char a; y = of_char b; z = of_char c in
      [base64_digit (x div 4), base64_digit (x mod 4 * 16 + y div 16),
       base64_digit (y mod 16 * 4 + z div 64), base64_digit (z mod 64)] @ base64_encode rest)"

section \<open>The renderer\<close>

record ('w, 't) terminal =
  tm_write :: "'w \<Rightarrow> string \<Rightarrow> 'w \<times> (string + unit)"
  tm_restore :: "'t \<Rightarrow> 't \<times> (string + unit)"
  tm_compress :: "string \<Rightarrow> string + string"

record ('w, 't) ghostty =
  gh_writer :: 'w
  gh_termios :: 't
  gh_columns :: int
  gh_rows :: int
  gh_next_image_id :: int
  gh_active_submission :: "frame_identity option"
  gh_entered :: bool
  gh_cleaned :: bool
  gh_valid :: bool
  gh_admitted :: bool
  gh_probe_mode :: bool

definition new_ghostty :: "'w \<Rightarrow> 't \<Rightarrow> ('w, 't) ghostty" where
  "new_ghostty w t =
     \<lparr>gh_writer = w, gh_termios = t, gh_columns = 1, gh_rows = 1, gh_next_image_id = 1,
      gh_active_submission = None, gh_entered = False, gh_cleaned = False, gh_valid = True,
      gh_admitted = False, gh_probe_mode = False\<rparr>"

definition max_base64_chunk :: nat where "max_base64_chunk = 4096"

definition max_compressed_payload :: int where "max_compressed_payload = 67108864"

definition max_pixels :: int where "max_pixels = 16777216"

definition enter_sequence :: string where
  "enter_sequence =
     concat (map (\<lambda>q. CHR 0x1B # q)
       [''[?1049h'', ''[>3u'', ''[?1002h'', ''[?1006h'', ''[?1016h'', ''[?1004h'', ''[?2026h'',
        ''[?25l''])"

definition write_raw ::
  "('w, 't) terminal \<Rightarrow> ('w, 't) ghostty \<Rightarrow> string \<Rightarrow> string \<Rightarrow> int option \<Rightarrow> int option \<Rightarrow>
   int option \<Rightarrow> (('w, 't) ghostty, unit) fallible" where
  "write_raw tm g bytes revision token generation image_id =
     (case tm_write tm (gh_writer g) bytes of
        (w, Inl e) \<Rightarrow>
          (g\<lparr>gh_writer := w, gh_valid := False\<rparr>,
           Inl ((new_diagnostic TransportWriteFailed e revision
                   ''invalidate the attachment and restore the terminal'')
                \<lparr>vd_frame_token := token, vd_generation := generation, vd_image_id := image_id\<rparr>))
      | (w, Inr _) \<Rightarrow> (g\<lparr>gh_writer := w\<rparr>, Inr ()))"

definition graphics_command :: "string \<Rightarrow> string" where
  "graphics_command command = CHR 0x1B # ''_G'' @ command @ [CHR 0x1B, CHR 0x5C]"

definition write_command ::
  "('w, 't) terminal \<Rightarrow> ('w, 't) ghostty \<Rightarrow> string \<Rightarrow> string \<Rightarrow> int option \<Rightarrow> int option \<Rightarrow>
   int option \<Rightarrow> (('w, 't) ghostty, unit) fallible" where
  "write_command tm g command = write_raw tm g (graphics_command command)"

definition delete_command :: "int \<Rightarrow> string" where
  "delete_command image_id = ''a=d,d=I,i='' @ show_int image_id"

definition admit :: "('w, 't) ghostty \<Rightarrow> bool \<Rightarrow> (('w, 't) ghostty, unit) fallible" where
  "admit g supports_interactive =
     (if \<not> supports_interactive then
        (g, Inl (new_diagnostic CapabilityDenied
          ''terminal capability vector is not sufficient for Interactive Modeling''
          ''capability-probe'' ''complete a fresh direct-Ghostty capability probe''))
      else if gh_cleaned g then
        (g, Inl (new_diagnostic CapabilityInvalidated
          ''Ghostty renderer has already been cleaned up'' ''capability-probe''
          ''create a new renderer for the fresh direct-Ghostty attachment''))
      else (g\<lparr>gh_admitted := True, gh_valid := True\<rparr>, Inr ()))"

definition enter ::
  "('w, 't) terminal \<Rightarrow> ('w, 't) ghostty \<Rightarrow> (('w, 't) ghostty, unit) fallible" where
  "enter tm g =
     (if gh_entered g then (g, Inr ())
      else case write_raw tm g enter_sequence ''unknown'' None None None of
          (g', Inl e) \<Rightarrow> (g', Inl e)
        | (g', Inr _) \<Rightarrow> (g'\<lparr>gh_entered := True, gh_cleaned := False\<rparr>, Inr ()))"

definition frame_diagnostic ::
  "viewport_frame \<Rightarrow> int \<Rightarrow> viewport_code \<Rightarrow> string \<Rightarrow> string \<Rightarrow> viewport_diagnostic" where
  "frame_diagnostic frame token code detail recovery =
     with_generation (vf_generation frame) (with_frame_token token
       (new_diagnostic code detail (vf_revision frame) recovery))"

text \<open>The checks before anything is written.\<close>

definition emit_checks :: "('w, 't) ghostty \<Rightarrow> viewport_frame \<Rightarrow> int \<Rightarrow> viewport_diagnostic + unit"
where
  "emit_checks g frame token =
     (let pixel_count = vf_width frame * vf_height frame in
      and_then (ensure (gh_valid g) (frame_diagnostic frame token CapabilityInvalidated
        ''Ghostty attachment is invalid''
        ''run a fresh capability probe before submitting a frame'')) (\<lambda>_.
      and_then (ensure (gh_admitted g \<or> gh_probe_mode g)
        (frame_diagnostic frame token CapabilityDenied
          ''Ghostty renderer has not been admitted by a capability probe''
          ''complete a direct-Ghostty capability probe before submitting a frame'')) (\<lambda>_.
      and_then (ensure (\<not> (pixel_count = 0 \<or> max_pixels < pixel_count))
        (frame_diagnostic frame token InvalidDimensions
          ''frame dimensions exceed the renderer bound''
          ''discard the frame and rebuild it with supported dimensions'')) (\<lambda>_.
      ensure (int (length (vf_rgb frame)) = pixel_count * 3)
        (frame_diagnostic frame token ProjectionFailed
          ''RGB payload length does not match frame dimensions''
          ''discard the disposable frame and rebuild the projection'')))))"

definition chunk_command ::
  "('w, 't) ghostty \<Rightarrow> viewport_frame \<Rightarrow> int \<Rightarrow> bool \<Rightarrow> string \<Rightarrow> string" where
  "chunk_command g frame image_id continues payload =
     ''a=T,t=d,f=24,s='' @ show_int (vf_width frame) @ '',v='' @ show_int (vf_height frame) @
     '',i='' @ show_int image_id @ '',o=z,q=0,c='' @ show_int (gh_columns g) @ '',r='' @
     show_int (gh_rows g) @ '',m='' @ (if continues then ''1'' else ''0'') @ '';'' @ payload"

text \<open>
  The payload is cut into chunks of at most \<open>max_base64_chunk\<close> characters; each carries
  whether more follow.  The empty payload is one empty chunk.
\<close>

function cut_chunks :: "string \<Rightarrow> (bool \<times> string) list" where
  "cut_chunks encoded =
     (if length encoded \<le> max_base64_chunk then [(False, encoded)]
      else (True, take max_base64_chunk encoded) # cut_chunks (drop max_base64_chunk encoded))"
  by auto
termination
  by (relation "measure length") (auto simp: max_base64_chunk_def)

declare cut_chunks.simps [simp del]

fun write_chunks ::
  "('w, 't) terminal \<Rightarrow> ('w, 't) ghostty \<Rightarrow> viewport_frame \<Rightarrow> int \<Rightarrow> int \<Rightarrow> (bool \<times> string) list \<Rightarrow>
   (('w, 't) ghostty, unit) fallible" where
  "write_chunks tm g frame token image_id [] = (g, Inr ())"
| "write_chunks tm g frame token image_id ((continues, payload) # rest) =
     (case write_command tm g (chunk_command g frame image_id continues payload) (vf_revision frame)
             (Some token) (Some (vf_generation frame)) (Some image_id) of
        (g', Inl e) \<Rightarrow> (g', Inl e)
      | (g', Inr _) \<Rightarrow> write_chunks tm g' frame token image_id rest)"

definition delete_image ::
  "('w, 't) terminal \<Rightarrow> ('w, 't) ghostty \<Rightarrow> frame_identity \<Rightarrow> (('w, 't) ghostty, unit) fallible"
where
  "delete_image tm g active =
     write_command tm g (delete_command (fi_image_id active)) (fi_revision active)
       (Some (fi_frame_token active)) (Some (fi_generation active)) (Some (fi_image_id active))"

definition transmit ::
  "('w, 't) terminal \<Rightarrow> ('w, 't) ghostty \<Rightarrow> viewport_frame \<Rightarrow> int \<Rightarrow> int \<Rightarrow>
   (('w, 't) ghostty, frame_identity) fallible" where
  "transmit tm g frame token image_id =
     (case tm_compress tm (vf_rgb frame) of
        Inl e \<Rightarrow> (g, Inl (frame_diagnostic frame token ProjectionFailed
          (''RGB zlib compression failed: '' @ e)
          ''discard the disposable frame and retry projection''))
      | Inr compressed \<Rightarrow>
          if max_compressed_payload < int (length compressed) then
            (g, Inl (frame_diagnostic frame token ProjectionFailed
              ''compressed RGB payload exceeds the renderer bound''
              ''reduce viewport quality or dimensions''))
          else case write_chunks tm g frame token image_id (cut_chunks (base64_encode compressed)) of
              (g', Inl e) \<Rightarrow> (g', Inl e)
            | (g', Inr _) \<Rightarrow>
                let identity = \<lparr>fi_frame_token = token, fi_generation = vf_generation frame,
                      fi_revision = vf_revision frame, fi_image_id = image_id\<rparr> in
                (g'\<lparr>gh_active_submission := Some identity\<rparr>, Inr identity))"

definition emit_frame ::
  "('w, 't) terminal \<Rightarrow> ('w, 't) ghostty \<Rightarrow> viewport_frame \<Rightarrow> int \<Rightarrow>
   (('w, 't) ghostty, frame_identity) fallible" where
  "emit_frame tm g frame token =
     (case emit_checks g frame token of
        Inl e \<Rightarrow> (g, Inl e)
      | Inr _ \<Rightarrow>
          case (case gh_active_submission g of
                  None \<Rightarrow> (g, Inr ()) | Some active \<Rightarrow> delete_image tm g active) of
            (g1, Inl e) \<Rightarrow> (g1, Inl e)
          | (g1, Inr _) \<Rightarrow>
              case checked_succ (gh_next_image_id g1) of
                None \<Rightarrow> (g1, Inl (new_diagnostic TransportWriteFailed
                  ''Kitty image identity exhausted'' (vf_revision frame)
                  ''restart the interactive attachment''))
              | Some next \<Rightarrow>
                  transmit tm (g1\<lparr>gh_next_image_id := next\<rparr>) frame token (gh_next_image_id g1))"

definition restore_sequences :: "string list" where
  "restore_sequences =
     [CHR 0x1B # ''[<u'',
      concat (map (\<lambda>q. CHR 0x1B # q) [''[?1016l'', ''[?1006l'', ''[?1002l'', ''[?1004l'']),
      CHR 0x1B # ''[?2026l'',
      concat (map (\<lambda>q. CHR 0x1B # q) [''[?25h'', ''[0m'', ''[?1049l''])]"

fun write_all_sequences ::
  "('w, 't) terminal \<Rightarrow> ('w, 't) ghostty \<Rightarrow> string \<Rightarrow> string list \<Rightarrow> ('w, 't) ghostty \<times> string list"
where
  "write_all_sequences tm g revision [] = (g, [])"
| "write_all_sequences tm g revision (q # qs) =
     (case write_raw tm g q revision None None None of
        (g', result) \<Rightarrow>
          case write_all_sequences tm g' revision qs of
            (g'', failures) \<Rightarrow>
              (g'', (case result of Inl e \<Rightarrow> vd_detail e # failures | Inr _ \<Rightarrow> failures)))"

fun join_failures :: "string list \<Rightarrow> string" where
  "join_failures [] = []"
| "join_failures [f] = f"
| "join_failures (f # fs) = f @ ''; '' @ join_failures fs"

definition delete_active ::
  "('w, 't) terminal \<Rightarrow> ('w, 't) ghostty \<Rightarrow> ('w, 't) ghostty \<times> string list" where
  "delete_active tm g =
     (case gh_active_submission g of
        None \<Rightarrow> (g, [])
      | Some active \<Rightarrow>
          (case delete_image tm (g\<lparr>gh_active_submission := None\<rparr>) active of
             (g', Inl e) \<Rightarrow> (g'\<lparr>gh_active_submission := Some active\<rparr>, [vd_detail e])
           | (g', Inr _) \<Rightarrow> (g', [])))"

definition cleanup_inner ::
  "('w, 't) terminal \<Rightarrow> ('w, 't) ghostty \<Rightarrow> (('w, 't) ghostty, unit) fallible" where
  "cleanup_inner tm g =
     (if gh_cleaned g then (g, Inr ())
      else
        let revision = (case gh_active_submission g of
              None \<Rightarrow> ''unknown'' | Some active \<Rightarrow> fi_revision active) in
        case delete_active tm g of
          (g1, f1) \<Rightarrow>
            case write_all_sequences tm g1 revision restore_sequences of
              (g2, f2) \<Rightarrow>
                case tm_restore tm (gh_termios g2) of
                  (t, result) \<Rightarrow>
                    let failures = f1 @ f2 @ (case result of Inl e \<Rightarrow> [e] | Inr _ \<Rightarrow> []);
                        g3 = g2\<lparr>gh_termios := t, gh_valid := False, gh_admitted := False\<rparr> in
                    if failures = [] then (g3\<lparr>gh_cleaned := True, gh_entered := False\<rparr>, Inr ())
                    else (g3, Inl (new_diagnostic CleanupFailed (join_failures failures) revision
                      ''retry terminal restoration from the owning lifecycle boundary'')))"

definition initialize ::
  "('w, 't) terminal \<Rightarrow> ('w, 't) ghostty \<Rightarrow> (('w, 't) ghostty, unit) fallible" where
  "initialize tm g =
     (case enter tm g of
        (g', Inl e) \<Rightarrow> (fst (cleanup_inner tm g'), Inl e)
      | (g', Inr _) \<Rightarrow> (g', Inr ()))"

definition ghostty_cancel ::
  "('w, 't) terminal \<Rightarrow> ('w, 't) ghostty \<Rightarrow> frame_identity option \<Rightarrow> (('w, 't) ghostty, unit) fallible"
where
  "ghostty_cancel tm g active =
     (case (active, gh_active_submission g) of
        (Some a, Some current) \<Rightarrow>
          if current \<noteq> a then
            (g, Inl (with_image_id (fi_image_id a) (with_generation (fi_generation current)
              (with_frame_token (fi_frame_token a)
                (new_diagnostic AcknowledgementMismatch
                  ''cancel request does not match the active Kitty image'' (fi_revision current)
                  ''discard the stale cancellation request'')))))
          else delete_image tm g current
      | _ \<Rightarrow> (g, Inr ()))"

definition ghostty_acknowledge ::
  "('w, 't) ghostty \<Rightarrow> frame_acknowledgement \<Rightarrow> (('w, 't) ghostty, unit) fallible" where
  "ghostty_acknowledge g ack =
     (case gh_active_submission g of
        None \<Rightarrow>
          (g\<lparr>gh_valid := False\<rparr>,
           Inl (with_image_id (fa_image_id ack) (with_frame_token (fa_frame_token ack)
             (new_diagnostic AcknowledgementMismatch
               ''Kitty acknowledgement arrived with no active image'' ''unknown''
               ''discard the late acknowledgement''))))
      | Some current \<Rightarrow>
          if fi_frame_token current \<noteq> fa_frame_token ack \<or> fi_image_id current \<noteq> fa_image_id ack then
            (g\<lparr>gh_valid := False\<rparr>,
             Inl (with_image_id (fa_image_id ack) (with_generation (fi_generation current)
               (with_frame_token (fa_frame_token ack)
                 (new_diagnostic AcknowledgementMismatch
                   ''Kitty acknowledgement does not match the active image'' (fi_revision current)
                   ''discard the acknowledgement and retain the current image'')))))
          else (g, Inr ()))"

definition ghostty_renderer :: "('w, 't) terminal \<Rightarrow> ('w, 't) ghostty renderer" where
  "ghostty_renderer tm =
     \<lparr>rd_submit = emit_frame tm, rd_cancel = ghostty_cancel tm,
      rd_acknowledge = ghostty_acknowledge, rd_cleanup = cleanup_inner tm\<rparr>"

section \<open>Acknowledgements\<close>

definition starts_with_prefix :: "string \<Rightarrow> string \<Rightarrow> bool" where
  "starts_with_prefix p xs = (take (length p) xs = p)"

definition ends_with_suffix :: "string \<Rightarrow> string \<Rightarrow> bool" where
  "ends_with_suffix q xs = (length q \<le> length xs \<and> drop (length xs - length q) xs = q)"

definition is_digit :: "char \<Rightarrow> bool" where
  "is_digit c = (CHR ''0'' \<le> c \<and> c \<le> CHR ''9'')"

fun decimal_value :: "int \<Rightarrow> string \<Rightarrow> int" where
  "decimal_value acc [] = acc"
| "decimal_value acc (c # cs) = decimal_value (acc * 10 + (of_char c - 48)) cs"

definition malformed_ack :: "string \<Rightarrow> viewport_diagnostic" where
  "malformed_ack detail =
     new_diagnostic CapabilityMalformed detail ''unknown''
       ''discard the response and re-probe the attachment''"

definition ack_id_prefix :: string where "ack_id_prefix = CHR 0x1B # ''_Gi=''"

definition ack_ok_suffix :: string where "ack_ok_suffix = '';OK'' @ [CHR 0x1B, CHR 0x5C]"

definition parse_ack :: "string \<Rightarrow> viewport_diagnostic + int" where
  "parse_ack bytes =
     (if \<not> starts_with_prefix ack_id_prefix bytes \<or> \<not> ends_with_suffix ack_ok_suffix bytes then
        Inl (malformed_ack ''Kitty acknowledgement has an unsupported shape'')
      else
        let id_bytes = take (length bytes - length ack_ok_suffix - length ack_id_prefix)
              (drop (length ack_id_prefix) bytes) in
        if id_bytes = [] \<or> \<not> list_all is_digit id_bytes then
          Inl (malformed_ack ''Kitty acknowledgement image identity is not numeric'')
        else
          let image_id = decimal_value 0 id_bytes in
          if 18446744073709551615 < image_id then
            Inl (malformed_ack ''Kitty acknowledgement image identity is out of range'')
          else if image_id = 0 then
            Inl (malformed_ack ''Kitty acknowledgement image identity must be non-zero'')
          else Inr image_id)"

definition acknowledge_bytes ::
  "('w, 't) ghostty \<Rightarrow> int \<Rightarrow> string \<Rightarrow> (('w, 't) ghostty, unit) fallible" where
  "acknowledge_bytes g token bytes =
     (case parse_ack bytes of
        Inl d \<Rightarrow> (g, Inl (d\<lparr>vd_frame_token := Some token\<rparr>))
      | Inr image_id \<Rightarrow>
          ghostty_acknowledge g \<lparr>fa_frame_token = token, fa_image_id = image_id\<rparr>)"

end
