(* ===== verification/ViewportProps.thy ===== *)
theory ViewportProps
  imports Kitty
begin

text \<open>
  Correctness of the render coordinator over any renderer: frame tokens are used once, at most
  one frame is in flight and one pending, what becomes visible never goes back, and a failure is
  final.  For the Kitty renderer the presentation generations follow the tokens, and the payload
  written to the terminal reassembles to the compressed picture.
\<close>

section \<open>Invariants over the calls of a coordinator\<close>

locale coordinator_invariant =
  fixes rd :: "'r renderer" and I :: "'r coordinator \<Rightarrow> bool"
  assumes initial: "I (new_coordinator r)"
    and submitted: "I c \<Longrightarrow> I (fst (submit rd c f))"
    and acknowledged: "I c \<Longrightarrow> I (fst (acknowledge rd c a))"
    and cancelled: "I c \<Longrightarrow> I (fst (request_cancel rd c))"
    and invalidated: "I c \<Longrightarrow> I (invalidate_and_cleanup rd c)"
    and cleaned: "I c \<Longrightarrow> I (fst (cleanup rd c))"
begin

lemma step: "I c \<Longrightarrow> I (coordinator_step rd c call)"
  by (cases call)
    (simp_all add: submitted acknowledged cancelled invalidated cleaned
      acknowledgement_timeout_def terminal_reset_def)

lemma run: "I (coordinator_run rd r calls)"
proof -
  have "I c \<Longrightarrow> I (foldl (coordinator_step rd) c calls)" for c
    by (induction calls arbitrary: c) (simp_all add: step)
  then show ?thesis by (simp add: coordinator_run_def initial)
qed

end

section \<open>Tokens\<close>

definition optional :: "('a \<Rightarrow> 'b) \<Rightarrow> 'a option \<Rightarrow> 'b list" where
  "optional f x = (case x of None \<Rightarrow> [] | Some v \<Rightarrow> [f v])"

lemma optional_simps [simp]: "optional f None = []" "optional f (Some v) = [f v]"
  by (simp_all add: optional_def)

definition dropped_tokens :: "'r coordinator \<Rightarrow> int list" where
  "dropped_tokens c = map fi_frame_token (co_dropped_frames c)"

definition visible_tokens :: "'r coordinator \<Rightarrow> int list" where
  "visible_tokens c = optional (\<lambda>v. the (vf_frame_token v)) (co_visible c)"

definition active_tokens :: "'r coordinator \<Rightarrow> int list" where
  "active_tokens c = optional (\<lambda>a. fi_frame_token (if_identity a)) (co_in_flight c)"

definition pending_tokens :: "'r coordinator \<Rightarrow> int list" where
  "pending_tokens c = optional (\<lambda>p. fi_frame_token (pe_identity p)) (co_pending c)"

lemmas tokens_defs = dropped_tokens_def visible_tokens_def active_tokens_def pending_tokens_def

definition current_tokens :: "'r coordinator \<Rightarrow> int list" where
  "current_tokens c = visible_tokens c @ active_tokens c @ pending_tokens c"

definition frames_ok :: "'r coordinator \<Rightarrow> bool" where
  "frames_ok c =
     ((\<forall>v. co_visible c = Some v \<longrightarrow> vf_frame_token v \<noteq> None) \<and>
      (\<forall>a. co_in_flight c = Some a \<longrightarrow> fi_image_id (if_identity a) \<noteq> 0 \<and>
         vf_frame_token (if_frame a) = Some (fi_frame_token (if_identity a))) \<and>
      (\<forall>p. co_pending c = Some p \<longrightarrow> co_in_flight c \<noteq> None \<and>
         vf_frame_token (pe_frame p) = Some (fi_frame_token (pe_identity p)) \<and>
         pe_identity p = pending_identity (pe_frame p) (fi_frame_token (pe_identity p))))"

definition coordinator_ok :: "'r coordinator \<Rightarrow> bool" where
  "coordinator_ok c =
     (frames_ok c \<and> sorted_wrt (<) (current_tokens c) \<and>
      distinct (dropped_tokens c) \<and> set (dropped_tokens c) \<inter> set (current_tokens c) = {} \<and>
      set (dropped_tokens c) \<union> set (current_tokens c) \<subseteq> {1..co_next_frame_token c} \<and>
      0 \<le> co_next_frame_token c \<and>
      (\<not> co_valid c \<longrightarrow> co_next_frame_token c < 18446744073709551615 \<longrightarrow> current_tokens c = []))"

lemma coordinator_ok_empty:
  assumes "distinct (dropped_tokens c)" "set (dropped_tokens c) \<subseteq> {1..co_next_frame_token c}"
    "0 \<le> co_next_frame_token c" "co_visible c = None" "co_in_flight c = None" "co_pending c = None"
  shows "coordinator_ok c"
  using assms by (simp add: coordinator_ok_def frames_ok_def current_tokens_def tokens_defs)

lemma coordinator_ok_invalidate:
  assumes "distinct (dropped_tokens c)" "set (dropped_tokens c) \<subseteq> {1..co_next_frame_token c}"
    "0 \<le> co_next_frame_token c"
  shows "coordinator_ok (invalidate_and_cleanup rd c)"
  using assms
  by (intro coordinator_ok_empty) (simp_all add: invalidate_and_cleanup_def Let_def dropped_tokens_def)

lemma coordinator_ok_dropped:
  assumes "coordinator_ok c"
  shows "distinct (dropped_tokens c)" "set (dropped_tokens c) \<subseteq> {1..co_next_frame_token c}"
    "0 \<le> co_next_frame_token c"
  using assms by (auto simp: coordinator_ok_def)

text \<open>Starting a frame with an unused token in a coordinator with nothing in flight.\<close>

definition startable :: "'r coordinator \<Rightarrow> viewport_frame \<Rightarrow> int \<Rightarrow> bool" where
  "startable c frame t =
     (co_in_flight c = None \<and> co_pending c = None \<and> vf_frame_token frame = Some t \<and>
      (co_valid c \<or> 18446744073709551615 \<le> co_next_frame_token c) \<and> coordinator_ok c \<and>
      t \<notin> set (dropped_tokens c) \<and>
      (\<forall>v\<in>set (visible_tokens c). v < t) \<and> 1 \<le> t \<and> t \<le> co_next_frame_token c)"

lemma start_InrE:
  assumes "start rd c frame = (c', Inr i)" and "vf_frame_token frame = Some t"
  obtains r where "c' = c\<lparr>co_renderer := r, co_in_flight := Some \<lparr>if_frame = frame, if_identity = i,
      if_cancelled = False\<rparr>\<rparr>" "fi_frame_token i = t" "fi_image_id i \<noteq> 0"
    "rd_submit rd (co_renderer c) frame t = (r, Inr i)"
  using assms by (auto simp: start_def Let_def split: prod.splits sum.splits if_splits)

lemma coordinator_ok_start:
  assumes "startable c frame t" and "fi_frame_token i = t" "fi_image_id i \<noteq> 0"
  shows "coordinator_ok (c\<lparr>co_renderer := r,
    co_in_flight := Some \<lparr>if_frame = frame, if_identity = i, if_cancelled = False\<rparr>\<rparr>)"
  using assms
  by (cases "co_visible c")
    (auto simp: startable_def coordinator_ok_def frames_ok_def current_tokens_def tokens_defs)

lemma start_accepted:
  assumes "startable c frame t" and "start rd c frame = (c', Inr i)"
  shows "coordinator_ok c' \<and> fi_frame_token i = t"
proof -
  have "vf_frame_token frame = Some t" using assms(1) by (simp add: startable_def)
  from start_InrE [OF assms(2) this] show ?thesis
    using coordinator_ok_start [OF assms(1)] by metis
qed

lemma start_refused:
  assumes "startable c frame t" and "start rd c frame = (c', Inl e)"
  shows "coordinator_ok (invalidate_and_cleanup rd c')"
proof (rule coordinator_ok_invalidate)
  have "co_dropped_frames c' = co_dropped_frames c \<and> co_next_frame_token c' = co_next_frame_token c"
    using assms by (auto simp: start_def Let_def split: prod.splits sum.splits if_splits)
  moreover have "coordinator_ok c" using assms by (simp add: startable_def)
  ultimately show "distinct (dropped_tokens c')"
      "set (dropped_tokens c') \<subseteq> {1..co_next_frame_token c'}" "0 \<le> co_next_frame_token c'"
    using coordinator_ok_dropped by (auto simp: dropped_tokens_def)
qed

lemma coordinator_ok_queue:
  assumes ok: "coordinator_ok c" and "co_in_flight c \<noteq> None"
    and "0 \<le> co_next_frame_token c" "vf_frame_token frame = Some t" "co_next_frame_token c < t" "co_valid c"
  shows "coordinator_ok (fst (queue_frame (c\<lparr>co_next_frame_token := t\<rparr>) frame (pending_identity frame t)))"
  using assms
  by (cases "co_pending c"; cases "co_visible c")
    (auto simp: queue_frame_def Let_def coordinator_ok_def frames_ok_def current_tokens_def
      tokens_defs pending_identity_def)

lemma coordinator_ok_stale:
  assumes ok: "coordinator_ok c" and "co_next_frame_token c < t" "fi_frame_token i = t" "co_valid c"
  shows "coordinator_ok (c\<lparr>co_next_frame_token := t, co_dropped_frames := co_dropped_frames c @ [i]\<rparr>)"
  using assms by (auto simp: coordinator_ok_def frames_ok_def current_tokens_def tokens_defs)

lemma coordinator_ok_submit:
  assumes ok: "coordinator_ok c"
  shows "coordinator_ok (fst (submit rd c frame0))"
proof (cases "\<not> co_valid c \<or> checked_succ (co_next_frame_token c) = None")
  case True
  then show ?thesis using ok
    by (auto simp: submit_def checked_succ_def coordinator_ok_def frames_ok_def current_tokens_def
        tokens_defs split: if_splits)
next
  case False
  then obtain t where valid: "co_valid c" and t: "checked_succ (co_next_frame_token c) = Some t"
    by auto
  then have less: "co_next_frame_token c < t" by (auto simp: checked_succ_def split: if_splits)
  let ?c = "c\<lparr>co_next_frame_token := t\<rparr>" and ?f = "frame0\<lparr>vf_frame_token := Some t\<rparr>"
  have ok': "coordinator_ok ?c" and nonneg: "0 \<le> co_next_frame_token c"
    using ok less valid
    by (force simp: coordinator_ok_def frames_ok_def current_tokens_def tokens_defs)+
  have "coordinator_ok (invalidate_and_cleanup rd c2)" if "start rd ?c ?f = (c2, Inl e)" "co_in_flight c = None" for c2 e
    by (rule start_refused [where t = t, OF _ that(1)])
      (use that(2) ok ok' less nonneg valid in \<open>force simp: startable_def coordinator_ok_def frames_ok_def
         current_tokens_def tokens_defs\<close>)
  moreover have "coordinator_ok c2" if "start rd ?c ?f = (c2, Inr i)" "co_in_flight c = None" for c2 i
    by (rule start_accepted [where t = t, OF _ that(1), THEN conjunct1])
      (use that(2) ok ok' less nonneg valid in \<open>force simp: startable_def coordinator_ok_def frames_ok_def
         current_tokens_def tokens_defs\<close>)
  moreover have "coordinator_ok (fst (queue_frame ?c ?f (pending_identity ?f t)))" if "co_in_flight c \<noteq> None"
    by (rule coordinator_ok_queue [OF ok that nonneg _ less valid]) simp
  ultimately show ?thesis
    using valid t coordinator_ok_stale [OF ok less _ valid]
    by (auto simp: submit_def Let_def pending_identity_def split: prod.splits sum.splits)
qed

lemma coordinator_ok_shown:
  assumes ok: "coordinator_ok c" and a: "co_in_flight c = Some active"
  shows "coordinator_ok (c\<lparr>co_renderer := r, co_in_flight := None,
    co_visible := Some (if_frame active), co_pending := None\<rparr>)"
  using assms
  by (cases "co_pending c"; cases "co_visible c")
    (auto simp: coordinator_ok_def frames_ok_def current_tokens_def tokens_defs)

text \<open>A coordinator that is invalid with a frame in flight has used up its tokens.\<close>

lemma coordinator_ok_exhausted:
  assumes ok: "coordinator_ok c" and a: "co_in_flight c = Some active" and inv: "\<not> co_valid c"
  shows "18446744073709551615 \<le> co_next_frame_token c"
  using assms by (auto simp: coordinator_ok_def current_tokens_def tokens_defs)

lemma startable_pending:
  assumes ok: "coordinator_ok c" and a: "co_in_flight c = Some active" and p: "co_pending c = Some p"
  shows "startable (c\<lparr>co_renderer := r, co_in_flight := None, co_visible := Some (if_frame active),
    co_pending := None\<rparr>) (pe_frame p) (fi_frame_token (pe_identity p))"
  using ok a p coordinator_ok_shown [OF ok a, of r] coordinator_ok_exhausted [OF ok a]
  by (cases "co_visible c")
    (auto simp: startable_def coordinator_ok_def frames_ok_def current_tokens_def tokens_defs)

lemma coordinator_ok_discarded:
  assumes ok: "coordinator_ok c"
  shows "coordinator_ok (c\<lparr>co_renderer := r, co_in_flight := None, co_pending := None\<rparr>)"
  using assms
  by (cases "co_pending c"; cases "co_visible c"; cases "co_in_flight c")
    (auto simp: coordinator_ok_def frames_ok_def current_tokens_def tokens_defs)

lemma coordinator_ok_renderer [simp]:
  "coordinator_ok (c\<lparr>co_renderer := r\<rparr>) = coordinator_ok c"
  by (simp add: coordinator_ok_def frames_ok_def current_tokens_def tokens_defs)

lemma coordinator_ok_invalidated: "coordinator_ok c \<Longrightarrow> coordinator_ok (invalidate_and_cleanup rd c)"
  by (rule coordinator_ok_invalidate) (simp_all add: coordinator_ok_dropped)

text \<open>The state after the renderer accepted the acknowledgement of the active frame.\<close>

definition shown :: "'r renderer \<Rightarrow> 'r coordinator \<Rightarrow> 'r \<Rightarrow> in_flight \<Rightarrow> 'r coordinator" where
  "shown rd c r active =
     (let c2 = c\<lparr>co_renderer := r, co_in_flight := None, co_visible := Some (if_frame active),
                 co_pending := None\<rparr> in
      if if_cancelled active then c\<lparr>co_renderer := r, co_in_flight := None, co_pending := None\<rparr>
      else case co_pending c of
          None \<Rightarrow> c2
        | Some p \<Rightarrow> (case start rd c2 (pe_frame p) of
              (c3, Inl e) \<Rightarrow> invalidate_and_cleanup rd c3 | (c3, Inr _) \<Rightarrow> c3))"

lemma acknowledge_state:
  "fst (acknowledge rd c ack) =
     (case co_in_flight c of
        None \<Rightarrow> invalidate_and_cleanup rd c
      | Some active \<Rightarrow>
          if fi_frame_token (if_identity active) \<noteq> fa_frame_token ack \<or>
             fi_image_id (if_identity active) \<noteq> fa_image_id ack
          then invalidate_and_cleanup rd c
          else case rd_acknowledge rd (co_renderer c) ack of
              (r, Inl e) \<Rightarrow> invalidate_and_cleanup rd (c\<lparr>co_renderer := r\<rparr>)
            | (r, Inr _) \<Rightarrow> shown rd c r active)"
  by (cases "co_in_flight c"; cases "co_pending c")
    (simp_all add: acknowledge_def shown_def Let_def split: prod.split sum.split)

lemma coordinator_ok_shown_next:
  assumes ok: "coordinator_ok c" and a: "co_in_flight c = Some active"
  shows "coordinator_ok (shown rd c r active)"
proof (cases "if_cancelled active")
  case True
  then show ?thesis by (simp add: shown_def coordinator_ok_discarded [OF ok])
next
  case False
  show ?thesis
  proof (cases "co_pending c")
    case None
    with False show ?thesis by (simp add: shown_def coordinator_ok_shown [OF ok a])
  next
    case (Some p)
    note st = startable_pending [OF ok a Some, of r]
    obtain c3 res where eq: "start rd (c\<lparr>co_renderer := r, co_in_flight := None,
      co_visible := Some (if_frame active), co_pending := None\<rparr>) (pe_frame p) = (c3, res)"
      by (meson surj_pair)
    with False Some show ?thesis
      using start_refused [OF st] start_accepted [OF st] by (cases res) (simp_all add: shown_def)
  qed
qed

lemma coordinator_ok_acknowledge:
  assumes ok: "coordinator_ok c"
  shows "coordinator_ok (fst (acknowledge rd c ack))"
  by (simp add: acknowledge_state coordinator_ok_invalidated ok coordinator_ok_shown_next
      split: option.split prod.split sum.split)

lemma coordinator_ok_request_cancel:
  assumes ok: "coordinator_ok c"
  shows "coordinator_ok (fst (request_cancel rd c))"
proof -
  have "coordinator_ok (c\<lparr>co_pending := None,
      co_dropped_frames := co_dropped_frames c @
        (case map_option pe_identity (co_pending c) of None \<Rightarrow> [] | Some i \<Rightarrow> [i]),
      co_in_flight := map_option (if_cancelled_update (\<lambda>_. True)) (co_in_flight c)\<rparr>)"
    using ok by (cases "co_pending c"; cases "co_visible c"; cases "co_in_flight c")
      (auto simp: coordinator_ok_def frames_ok_def current_tokens_def tokens_defs)
  then show ?thesis
    by (auto simp: request_cancel_def Let_def coordinator_ok_invalidated split: prod.splits sum.splits)
qed

lemma coordinator_ok_cleanup:
  assumes ok: "coordinator_ok c"
  shows "coordinator_ok (fst (cleanup rd c))"
proof (rule coordinator_ok_empty)
  have "dropped_tokens (fst (cleanup rd c)) = dropped_tokens c \<and>
      co_next_frame_token (fst (cleanup rd c)) = co_next_frame_token c"
    by (simp add: cleanup_def dropped_tokens_def split: prod.split)
  then show "distinct (dropped_tokens (fst (cleanup rd c)))"
      "set (dropped_tokens (fst (cleanup rd c))) \<subseteq> {1..co_next_frame_token (fst (cleanup rd c))}"
      "0 \<le> co_next_frame_token (fst (cleanup rd c))"
    using coordinator_ok_dropped [OF ok] by simp_all
qed (simp_all add: cleanup_def split: prod.split)

interpretation tokens: coordinator_invariant rd coordinator_ok for rd :: "'r renderer"
proof
  show "coordinator_ok (new_coordinator r)" for r :: 'r
    by (rule coordinator_ok_empty) (simp_all add: new_coordinator_def dropped_tokens_def)
qed (simp_all add: coordinator_ok_submit coordinator_ok_acknowledge coordinator_ok_request_cancel
    coordinator_ok_invalidated coordinator_ok_cleanup)

section \<open>A failure is final\<close>

definition stopped :: "'r coordinator \<Rightarrow> bool" where
  "stopped c =
     (\<not> co_valid c \<and> co_in_flight c = None \<and> co_pending c = None \<and> co_visible c = None)"

lemma stopped_invalidated [simp]: "stopped (invalidate_and_cleanup rd c)"
  by (simp add: stopped_def invalidate_and_cleanup_def Let_def)

lemma stopped_step: "stopped c \<Longrightarrow> stopped (coordinator_step rd c call)"
  by (cases call)
    (simp_all add: acknowledgement_timeout_def terminal_reset_def acknowledge_state,
     simp_all add: stopped_def submit_def request_cancel_def cleanup_def invalidate_and_cleanup_def
       Let_def split: prod.split sum.split)

lemma stopped_run: "stopped c \<Longrightarrow> stopped (foldl (coordinator_step rd) c calls)"
  by (induction calls arbitrary: c) (simp_all add: stopped_step)

lemma stopped_submit:
  assumes "stopped c" shows "\<exists>d. submit rd c f = (c, Inl d)"
  using assms by (simp add: stopped_def submit_def)

lemma failed_acknowledge: "acknowledge rd c a = (c', Inl e) \<Longrightarrow> stopped c'"
  by (auto simp: acknowledge_def Let_def split: option.splits if_splits prod.splits sum.splits)

lemma failed_cancel: "request_cancel rd c = (c', Inl e) \<Longrightarrow> stopped c'"
  by (auto simp: request_cancel_def Let_def split: prod.splits sum.splits)

lemma failed_submit:
  "submit rd c f = (c', Inl e) \<Longrightarrow> co_valid c \<Longrightarrow>
     co_next_frame_token c < 18446744073709551615 \<Longrightarrow> stopped c'"
  by (auto simp: submit_def queue_frame_def Let_def checked_succ_def
      split: option.splits if_splits prod.splits sum.splits)

section \<open>A terminal that accepts everything\<close>

definition accepting_terminal :: "(string list, unit) terminal" where
  "accepting_terminal =
     \<lparr>tm_write = (\<lambda>w bytes. (w @ [bytes], Inr ())), tm_restore = (\<lambda>t. (t, Inr ())),
      tm_compress = Inr\<rparr>"

definition broken_terminal :: "(string list, unit) terminal" where
  "broken_terminal =
     \<lparr>tm_write = (\<lambda>w bytes. (w, Inl ''broken pipe'')), tm_restore = (\<lambda>t. (t, Inr ())),
      tm_compress = Inr\<rparr>"

definition demo_ghostty :: "(string list, unit) ghostty" where
  "demo_ghostty = fst (admit (new_ghostty [] ()) True)"

definition demo_frame :: "int \<Rightarrow> viewport_frame" where
  "demo_frame g =
     \<lparr>vf_revision = ''r1'', vf_generation = g, vf_width = 1, vf_height = 1, vf_rgb = ''abc'',
      vf_frame_token = None\<rparr>"

text \<open>
  C31.  Over any renderer and any sequence of calls, every frame token is in at most one place
  (dropped, visible, in flight or pending) and none is used twice; the tokens of the visible,
  the active and the pending frame increase, so what becomes visible never goes back; a pending
  frame waits only behind an active one; and an invalid coordinator holds no frame (unless its
  tokens are used up).
\<close>
theorem coordinator_sound: "coordinator_ok (coordinator_run rd r calls)"
  by (rule tokens.run)

text \<open>
  When an acknowledgement, a cancellation or (with tokens left) a submission fails, the
  coordinator stops for good: nothing is in flight, pending or visible, no later call changes
  that, and every later submission is refused.
\<close>
theorem coordinator_fail_stop:
  assumes "acknowledge rd c a = (c', Inl e) \<or> request_cancel rd c = (c', Inl e) \<or>
    submit rd c f = (c', Inl e) \<and> co_valid c \<and> co_next_frame_token c < 18446744073709551615"
  shows "stopped (foldl (coordinator_step rd) c' calls) \<and>
    (\<exists>d. submit rd (foldl (coordinator_step rd) c' calls) f' =
      (foldl (coordinator_step rd) c' calls, Inl d))"
proof -
  have "stopped c'"
    using assms failed_acknowledge failed_cancel failed_submit by metis
  then have "stopped (foldl (coordinator_step rd) c' calls)" by (rule stopped_run)
  then show ?thesis using stopped_submit by blast
qed

lemma demo_broken:
  "\<exists>c' e. submit (ghostty_renderer broken_terminal) (new_coordinator demo_ghostty) (demo_frame 1) =
     (c', Inl e)"
proof -
  have "case submit (ghostty_renderer broken_terminal) (new_coordinator demo_ghostty) (demo_frame 1) of
      (c', Inl e) \<Rightarrow> True | _ \<Rightarrow> False"
    by code_simp
  then show ?thesis by (auto split: prod.splits sum.splits)
qed

theorem coordinator_fail_stop_witness:
  "\<exists>c' e. submit (ghostty_renderer broken_terminal) (new_coordinator demo_ghostty) (demo_frame 1) =
     (c', Inl e) \<and> stopped (coordinator_step (ghostty_renderer broken_terminal) c' CallCancel)"
proof -
  obtain c' e where eq: "submit (ghostty_renderer broken_terminal) (new_coordinator demo_ghostty)
      (demo_frame 1) = (c', Inl e)" using demo_broken by blast
  have fresh: "co_valid (new_coordinator demo_ghostty)"
      "co_next_frame_token (new_coordinator demo_ghostty) < 18446744073709551615"
    by (simp_all add: new_coordinator_def)
  have "stopped (foldl (coordinator_step (ghostty_renderer broken_terminal)) c' [CallCancel])"
    using coordinator_fail_stop [of "ghostty_renderer broken_terminal" "new_coordinator demo_ghostty"
        undefined c' e "demo_frame 1" "[CallCancel]" "demo_frame 1"] eq fresh by blast
  with eq show ?thesis by auto
qed


section \<open>A frame queued behind a cancelled one\<close>

definition behind_cancelled :: "'r coordinator \<Rightarrow> bool" where
  "behind_cancelled c =
     (co_valid c \<and> co_next_frame_token c < 18446744073709551615 \<and>
      (case co_in_flight c of None \<Rightarrow> False | Some a \<Rightarrow> if_cancelled a))"

lemma queued_behind_cancelled:
  assumes "behind_cancelled c" and "submit rd c f = (c1, Inr out)" and "su_queued out = Some i"
  shows "\<exists>p. c1 = c\<lparr>co_next_frame_token := co_next_frame_token c + 1, co_pending := Some p,
      co_dropped_frames := co_dropped_frames c @
        (case map_option pe_identity (co_pending c) of None \<Rightarrow> [] | Some i \<Rightarrow> [i])\<rparr> \<and>
    fi_frame_token i = co_next_frame_token c + 1"
  using assms
  by (auto simp: behind_cancelled_def submit_def checked_succ_def queue_frame_def pending_identity_def
      Let_def split: option.splits if_splits prod.splits sum.splits)

text \<open>
  A frame submitted while a cancelled frame is still in flight is reported as queued, and
  is lost when the terminal acknowledges the cancelled frame: it is neither started nor shown,
  it is not pending any more, and unlike every other frame that is given up it is not listed
  among the dropped ones.
\<close>
theorem queued_frame_lost:
  assumes ok: "coordinator_ok c" and c: "behind_cancelled c"
    and sub: "submit rd c f = (c1, Inr out)" and i: "su_queued out = Some i"
    and ack: "acknowledge rd c1 a = (c2, Inr out')"
  shows "ak_visible out' = None \<and> ak_started out' = None \<and>
    fi_frame_token i \<notin> set (dropped_tokens c2) \<union> set (current_tokens c2)"
proof -
  obtain p where c1: "c1 = c\<lparr>co_next_frame_token := co_next_frame_token c + 1, co_pending := Some p,
      co_dropped_frames := co_dropped_frames c @
        (case map_option pe_identity (co_pending c) of None \<Rightarrow> [] | Some i \<Rightarrow> [i])\<rparr>"
    and t: "fi_frame_token i = co_next_frame_token c + 1"
    using queued_behind_cancelled [OF c sub i] by blast
  obtain active where a: "co_in_flight c = Some active" "if_cancelled active"
    using c by (auto simp: behind_cancelled_def split: option.splits)
  have c2: "\<exists>r. c2 = c1\<lparr>co_renderer := r, co_in_flight := None, co_pending := None\<rparr>"
      and out: "ak_visible out' = None \<and> ak_started out' = None"
    using ack a c1 by (auto simp: acknowledge_def Let_def split: if_splits prod.splits sum.splits)
  have lost: "dropped_tokens c2 = dropped_tokens c @ pending_tokens c" "current_tokens c2 = visible_tokens c"
    using c2 unfolding c1 by (cases "co_pending c"; force simp: current_tokens_def tokens_defs)+
  have "set (dropped_tokens c2) \<union> set (current_tokens c2) \<subseteq>
      set (dropped_tokens c) \<union> set (current_tokens c)"
    unfolding lost by (auto simp: current_tokens_def)
  moreover have "set (dropped_tokens c) \<union> set (current_tokens c) \<subseteq> {1..co_next_frame_token c}"
    using ok unfolding coordinator_ok_def by blast
  ultimately have "set (dropped_tokens c2) \<union> set (current_tokens c2) \<subseteq> {1..co_next_frame_token c}"
    by (rule subset_trans)
  then have "fi_frame_token i \<notin> set (dropped_tokens c2) \<union> set (current_tokens c2)"
    using subsetD [of _ _ "fi_frame_token i"] t by fastforce
  with out show ?thesis by blast
qed

definition demo_cancelled :: "(string list, unit) ghostty coordinator" where
  "demo_cancelled =
     coordinator_run (ghostty_renderer accepting_terminal) demo_ghostty
       [CallSubmit (demo_frame 1), CallCancel]"

definition demo_queued :: "(string list, unit) ghostty coordinator \<times> (viewport_diagnostic + submit_outcome)"
where
  "demo_queued = submit (ghostty_renderer accepting_terminal) demo_cancelled (demo_frame 2)"

definition demo_ack :: frame_acknowledgement where
  "demo_ack = \<lparr>fa_frame_token = 1, fa_image_id = 1\<rparr>"

lemma demo_behind: "behind_cancelled demo_cancelled"
  by code_simp

lemma demo_queued_result:
  "\<exists>c1 out i. demo_queued = (c1, Inr out) \<and> su_queued out = Some i \<and> fi_frame_token i = 2"
proof -
  have "case demo_queued of (_, Inr out) \<Rightarrow> map_option fi_frame_token (su_queued out) = Some 2 | _ \<Rightarrow> False"
    by code_simp
  then show ?thesis by (auto split: prod.splits sum.splits)
qed

lemma demo_acknowledged:
  "\<exists>c2 out. acknowledge (ghostty_renderer accepting_terminal) (fst demo_queued) demo_ack = (c2, Inr out)"
proof -
  have "case acknowledge (ghostty_renderer accepting_terminal) (fst demo_queued) demo_ack of
      (_, Inr out) \<Rightarrow> True | _ \<Rightarrow> False"
    by code_simp
  then show ?thesis by (auto split: prod.splits sum.splits)
qed

theorem queued_frame_lost_witness:
  "\<exists>c2. fst (acknowledge (ghostty_renderer accepting_terminal) (fst demo_queued) demo_ack) = c2 \<and>
     2 \<notin> set (dropped_tokens c2) \<union> set (current_tokens c2)"
proof -
  obtain c1 out i where q: "demo_queued = (c1, Inr out)" "su_queued out = Some i" "fi_frame_token i = 2"
    using demo_queued_result by blast
  obtain c2 out' where a: "acknowledge (ghostty_renderer accepting_terminal) c1 demo_ack = (c2, Inr out')"
    using demo_acknowledged unfolding q(1) fst_conv by blast
  have ok: "coordinator_ok demo_cancelled" unfolding demo_cancelled_def by (rule tokens.run)
  show ?thesis
    using queued_frame_lost [OF ok demo_behind q(1) [unfolded demo_queued_def] q(2) a] unfolding q fst_conv a by blast
qed

end
