(* ===== verification/KittyProps.thy ===== *)
theory KittyProps
  imports ViewportProps
begin

text \<open>
  What the Kitty renderer puts on the wire: the chunks of a frame can be put together and decoded
  to the compressed pixels, and an acknowledgement is read back to the image it was written for.
  \<open>base64_decode\<close> is a reference decoder, written from the alphabet alone.
\<close>

section \<open>Base64 decodes\<close>

definition base64_value :: "char \<Rightarrow> nat" where
  "base64_value c = length (takeWhile (\<lambda>d. d \<noteq> c) base64_table)"

fun base64_decode :: "string \<Rightarrow> string option" where
  "base64_decode [] = Some []"
| "base64_decode (a # b # c # d # rest) =
     (let w = base64_value a; x = base64_value b; y = base64_value c; z = base64_value d;
          first = char_of (w * 4 + x div 16); second = char_of (x mod 16 * 16 + y div 4);
          third = char_of (y mod 4 * 64 + z) in
      if d \<noteq> CHR ''='' then map_option (\<lambda>bs. first # second # third # bs) (base64_decode rest)
      else if rest \<noteq> [] then None
      else if c \<noteq> CHR ''='' then Some [first, second]
      else Some [first])"
| "base64_decode _ = None"

lemma digit_values:
  "list_all (\<lambda>n. base64_value (base64_digit n) = n \<and> base64_digit n \<noteq> CHR ''='') [0..<64]"
  by code_simp

lemma base64_value_digit [simp]: "n < 64 \<Longrightarrow> base64_value (base64_digit n) = n"
  using digit_values by (simp add: list_all_iff)

lemma base64_digit_not_pad [simp]: "n < 64 \<Longrightarrow> base64_digit n \<noteq> CHR ''=''"
  using digit_values by (simp add: list_all_iff)

lemma sextets:
  fixes x y z :: nat
  assumes "x < 256" "y < 256" "z < 256"
  shows "x div 4 < 64" "x mod 4 * 16 + y div 16 < 64" "y mod 16 * 4 + z div 64 < 64" "z mod 64 < 64"
    "x mod 4 * 16 < 64" "y mod 16 * 4 < 64"
    "x div 4 * 4 + (x mod 4 * 16 + y div 16) div 16 = x"
    "(x mod 4 * 16 + y div 16) mod 16 * 16 + (y mod 16 * 4 + z div 64) div 4 = y"
    "(y mod 16 * 4 + z div 64) mod 4 * 64 + z mod 64 = z"
    "x div 4 * 4 + x mod 4 * 16 div 16 = x"
    "(x mod 4 * 16 + y div 16) mod 16 * 16 + y mod 16 * 4 div 4 = y"
proof -
  have low: "y div 16 < 16" "z div 64 < 4" "x mod 4 < 4" "y mod 16 < 16" "x div 4 < 64"
    using assms by (simp_all add: less_mult_imp_div_less)
  show "x div 4 < 64" by (rule low)
  show "x mod 4 * 16 + y div 16 < 64" "y mod 16 * 4 + z div 64 < 64" "z mod 64 < 64"
    "x mod 4 * 16 < 64" "y mod 16 * 4 < 64"
    using low by auto
  have "(x mod 4 * 16 + y div 16) div 16 = x mod 4" "(x mod 4 * 16 + y div 16) mod 16 = y div 16"
    "(y mod 16 * 4 + z div 64) div 4 = y mod 16" "(y mod 16 * 4 + z div 64) mod 4 = z div 64"
    using low by simp_all
  then show "x div 4 * 4 + (x mod 4 * 16 + y div 16) div 16 = x"
    "(x mod 4 * 16 + y div 16) mod 16 * 16 + (y mod 16 * 4 + z div 64) div 4 = y"
    "(y mod 16 * 4 + z div 64) mod 4 * 64 + z mod 64 = z"
    "(x mod 4 * 16 + y div 16) mod 16 * 16 + y mod 16 * 4 div 4 = y"
    by simp_all
  show "x div 4 * 4 + x mod 4 * 16 div 16 = x" by simp
qed

lemma byte_less: "(of_char c :: nat) < 256"
  by (metis mod_less_divisor of_char_mod_256 zero_less_numeral)

lemma base64_roundtrip: "base64_decode (base64_encode bs) = Some bs"
proof (induction bs rule: base64_encode.induct)
  case (2 a)
  show ?case using sextets [OF byte_less [of a] byte_less [of a] byte_less [of a]] by (simp add: Let_def)
next
  case (3 a b)
  show ?case using sextets [OF byte_less [of a] byte_less [of b] byte_less [of b]] by (simp add: Let_def)
next
  case (4 a b c rest)
  then show ?case using sextets [OF byte_less [of a] byte_less [of b] byte_less [of c]] by (simp add: Let_def)
qed simp

section \<open>Chunks\<close>

lemma concat_chunks: "concat (map snd (cut_chunks e)) = e"
  by (induction e rule: cut_chunks.induct) (subst cut_chunks.simps, simp)

lemma chunk_bound: "(m, p) \<in> set (cut_chunks e) \<Longrightarrow> length p \<le> max_base64_chunk"
  by (induction e rule: cut_chunks.induct)
    (subst (asm) cut_chunks.simps, auto split: if_splits)

lemma chunk_flags:
  "cut_chunks e \<noteq> [] \<and> map fst (cut_chunks e) = replicate (length (cut_chunks e) - 1) True @ [False]"
proof (induction e rule: cut_chunks.induct)
  case (1 e)
  show ?case
  proof (cases "length e \<le> max_base64_chunk")
    case True
    then show ?thesis by (simp add: cut_chunks.simps [of e])
  next
    case False
    with 1 obtain n where "length (cut_chunks (drop max_base64_chunk e)) = Suc n"
      by (metis length_Suc_conv neq_Nil_conv)
    with False 1 show ?thesis by (simp add: cut_chunks.simps [of e])
  qed
qed

section \<open>A frame on the wire\<close>

text \<open>A terminal whose writer takes everything and keeps it.\<close>

definition recording :: "(string list, 't) terminal \<Rightarrow> bool" where
  "recording tm = (\<forall>w bytes. tm_write tm w bytes = (w @ [bytes], Inr ()))"

lemma recording_write:
  "recording tm \<Longrightarrow> write_command tm g command r t n i =
     (g\<lparr>gh_writer := gh_writer g @ [graphics_command command]\<rparr>, Inr ())"
  by (simp add: recording_def write_command_def write_raw_def)

lemma chunk_command_writer [simp]:
  "chunk_command (g\<lparr>gh_writer := w\<rparr>) frame i m p = chunk_command g frame i m p"
  "chunk_command (g\<lparr>gh_next_image_id := n\<rparr>) frame i m p = chunk_command g frame i m p"
  by (simp_all add: chunk_command_def)

lemma recording_chunks:
  "recording tm \<Longrightarrow> write_chunks tm g frame token i chunks =
     (g\<lparr>gh_writer := gh_writer g @
        map (\<lambda>(m, p). graphics_command (chunk_command g frame i m p)) chunks\<rparr>, Inr ())"
proof (induction chunks arbitrary: g)
  case Nil
  show ?case by simp
next
  case (Cons chunk chunks)
  then show ?case by (cases chunk) (simp add: recording_write case_prod_beta)
qed

definition deletion :: "('w, 't) ghostty \<Rightarrow> string list" where
  "deletion g =
     (case gh_active_submission g of
        None \<Rightarrow> [] | Some a \<Rightarrow> [graphics_command (delete_command (fi_image_id a))])"

lemma recording_emit:
  assumes "recording tm" and "emit_frame tm g frame token = (g', Inr identity)"
  shows "\<exists>z. tm_compress tm (vf_rgb frame) = Inr z \<and>
    identity = \<lparr>fi_frame_token = token, fi_generation = vf_generation frame,
      fi_revision = vf_revision frame, fi_image_id = gh_next_image_id g\<rparr> \<and>
    gh_active_submission g' = Some identity \<and>
    gh_writer g' = gh_writer g @ deletion g @
      map (\<lambda>(m, p). graphics_command (chunk_command g frame (gh_next_image_id g) m p))
        (cut_chunks (base64_encode z))"
  using assms
  by (auto simp: emit_frame_def transmit_def delete_image_def recording_write recording_chunks
      deletion_def checked_succ_def Let_def split: sum.splits option.splits if_splits)

section \<open>Acknowledgements are read back\<close>

lemma decimal_value_append:
  "decimal_value a (xs @ ys) = decimal_value (decimal_value a xs) ys"
  by (induction a xs rule: decimal_value.induct) simp_all

lemma digit_chars:
  "list_all (\<lambda>n. is_digit (char_of (48 + n)) \<and> of_char (char_of (48 + n) :: char) = 48 + int n) [0..<10]"
  by code_simp

lemma digit_char: "n < 10 \<Longrightarrow> is_digit (char_of (48 + n)) \<and> of_char (char_of (48 + n) :: char) = 48 + int n"
  for n :: nat
  using digit_chars by (simp add: list_all_iff)

lemma show_nat_digits: "list_all is_digit (show_nat n) \<and> decimal_value 0 (show_nat n) = int n"
proof (induction n rule: show_nat.induct)
  case (1 n)
  show ?case
  proof (cases "n < 10")
    case True
    then show ?thesis using digit_char [OF True] by (simp add: show_nat_small)
  next
    case False
    have "n mod 10 < 10" by simp
    note last_digit = digit_char [OF this]
    from 1 False have "list_all is_digit (show_nat (n div 10))"
      "decimal_value 0 (show_nat (n div 10)) = int (n div 10)" by simp_all
    with False last_digit show ?thesis
      by (simp add: show_nat_big decimal_value_append) (metis div_mult_mod_eq of_nat_add of_nat_mult of_nat_numeral)
  qed
qed

text \<open>What the terminal writes to acknowledge an image.\<close>

definition ack_bytes :: "int \<Rightarrow> string" where
  "ack_bytes image_id = ack_id_prefix @ show_int image_id @ ack_ok_suffix"

lemma parse_ack_bytes:
  assumes "0 < n" "n \<le> 18446744073709551615"
  shows "parse_ack (ack_bytes n) = Inr n"
proof -
  have "starts_with_prefix ack_id_prefix (ack_bytes n)" "ends_with_suffix ack_ok_suffix (ack_bytes n)"
    by (simp_all add: starts_with_prefix_def ends_with_suffix_def ack_bytes_def)
  moreover have "take (length (ack_bytes n) - length ack_ok_suffix - length ack_id_prefix)
      (drop (length ack_id_prefix) (ack_bytes n)) = show_nat (nat n)"
    using assms by (simp add: ack_bytes_def show_int_def)
  ultimately show ?thesis
    using show_nat_digits [of "nat n"] assms by (simp add: parse_ack_def Let_def)
qed

text \<open>
  C38.  When the terminal takes what is written, a frame that the renderer accepts goes out after
  the deletion of the image before it as a sequence of graphics commands with payloads of at most
  4096 characters, the flag that more follow set on all but the last; the payloads, put together,
  decode to the compressed pixels; and the acknowledgement of the image of the frame is accepted.
\<close>
theorem frame_on_the_wire:
  assumes tm: "recording tm" and emit: "emit_frame tm g frame token = (g', Inr identity)"
    and i: "0 < gh_next_image_id g"
  shows "\<exists>chunks z.
    gh_writer g' = gh_writer g @ deletion g @
      map (\<lambda>(m, p). graphics_command (chunk_command g frame (fi_image_id identity) m p)) chunks \<and>
    tm_compress tm (vf_rgb frame) = Inr z \<and> base64_decode (concat (map snd chunks)) = Some z \<and>
    (\<forall>(m, p) \<in> set chunks. length p \<le> 4096) \<and>
    map fst chunks = replicate (length chunks - 1) True @ [False] \<and>
    acknowledge_bytes g' token (ack_bytes (fi_image_id identity)) = (g', Inr ())"
proof -
  obtain z where z: "tm_compress tm (vf_rgb frame) = Inr z"
    and identity: "fi_image_id identity = gh_next_image_id g" "fi_frame_token identity = token"
    and active: "gh_active_submission g' = Some identity"
    and sent: "gh_writer g' = gh_writer g @ deletion g @
      map (\<lambda>(m, p). graphics_command (chunk_command g frame (gh_next_image_id g) m p))
        (cut_chunks (base64_encode z))"
    using recording_emit [OF tm emit] by force
  have "gh_next_image_id g < 18446744073709551615"
    using emit by (auto simp: emit_frame_def delete_image_def recording_write [OF tm] checked_succ_def
        split: sum.splits option.splits if_splits)
  then have "parse_ack (ack_bytes (fi_image_id identity)) = Inr (fi_image_id identity)"
    using i identity(1) by (intro parse_ack_bytes) simp_all
  then have ack: "acknowledge_bytes g' token (ack_bytes (fi_image_id identity)) = (g', Inr ())"
    using active identity(2) by (simp add: acknowledge_bytes_def ghostty_acknowledge_def)
  have "\<forall>(m, p) \<in> set (cut_chunks (base64_encode z)). length p \<le> 4096"
    using chunk_bound by (fastforce simp: max_base64_chunk_def)
  then show ?thesis
    using z sent ack chunk_flags [of "base64_encode z"] base64_roundtrip [of z]
    by (intro exI [of _ "cut_chunks (base64_encode z)"] exI [of _ z])
      (simp add: identity(1) concat_chunks)
qed

lemma demo_emitted:
  "\<exists>g' identity. emit_frame accepting_terminal demo_ghostty (demo_frame 1) 7 = (g', Inr identity) \<and>
    fi_image_id identity = 1"
proof -
  have "case emit_frame accepting_terminal demo_ghostty (demo_frame 1) 7 of
      (_, Inr identity) \<Rightarrow> fi_image_id identity = 1 | _ \<Rightarrow> False"
    by code_simp
  then show ?thesis by (auto split: prod.splits sum.splits)
qed

theorem frame_on_the_wire_witness:
  "\<exists>g'. fst (emit_frame accepting_terminal demo_ghostty (demo_frame 1) 7) = g' \<and>
     acknowledge_bytes g' 7 (ack_bytes 1) = (g', Inr ())"
proof -
  obtain g' identity where e: "emit_frame accepting_terminal demo_ghostty (demo_frame 1) 7 = (g', Inr identity)"
    "fi_image_id identity = 1" using demo_emitted by blast
  have "recording accepting_terminal" by (simp add: recording_def accepting_terminal_def)
  moreover have "0 < gh_next_image_id demo_ghostty" by code_simp
  ultimately show ?thesis using frame_on_the_wire [OF _ e(1)] e by auto
qed

end
