(* ===== verification/Text.thy ===== *)
theory Text
  imports Floats OrderedMap
begin

text \<open>
  The operations on strings that the persistence crate uses: \<^verbatim>\<open>strip_prefix\<close>,
  \<^verbatim>\<open>split\<close>, \<^verbatim>\<open>split_once\<close> and \<^verbatim>\<open>find\<close> of the standard
  library, \<^verbatim>\<open>str::parse\<close> for \<^verbatim>\<open>f64\<close>, and the accessors of a parsed
  JSON value.
\<close>

section \<open>Prefixes and pieces\<close>

definition strip_prefix :: "string \<Rightarrow> string \<Rightarrow> string option" where
  "strip_prefix p s =
     (if take (length p) s = p then Some (drop (length p) s) else None)"

definition starts_with_string :: "string \<Rightarrow> string \<Rightarrow> bool" where
  "starts_with_string p s = (take (length p) s = p)"

fun split_at_char :: "char \<Rightarrow> string \<Rightarrow> string list" where
  "split_at_char c [] = [[]]"
| "split_at_char c (x # xs) =
     (if x = c then [] # split_at_char c xs
      else (x # hd (split_at_char c xs)) # tl (split_at_char c xs))"

fun split_once :: "char \<Rightarrow> string \<Rightarrow> (string \<times> string) option" where
  "split_once c [] = None"
| "split_once c (x # xs) =
     (if x = c then Some ([], xs)
      else map_option (\<lambda>(a, b). (x # a, b)) (split_once c xs))"

text \<open>What follows the first occurrence of a non-empty needle.\<close>

fun after_first :: "string \<Rightarrow> string \<Rightarrow> string option" where
  "after_first needle [] = None"
| "after_first needle (c # s) =
     (case strip_prefix needle (c # s) of
        Some rest \<Rightarrow> Some rest
      | None \<Rightarrow> after_first needle s)"

lemma strip_prefix_Some: "strip_prefix p s = Some r \<longleftrightarrow> s = p @ r"
  by (auto simp: strip_prefix_def) (metis append_take_drop_id)

lemma strip_prefix_append [simp]: "strip_prefix p (p @ r) = Some r"
  by (simp add: strip_prefix_Some)

lemma starts_with_string_iff: "starts_with_string p s \<longleftrightarrow> strip_prefix p s \<noteq> None"
  by (simp add: starts_with_string_def strip_prefix_def)

lemma split_at_char_not_Nil [simp]: "split_at_char c s \<noteq> []"
  by (cases s) auto

lemma split_at_char_line:
  "c \<notin> set line \<Longrightarrow> split_at_char c (line @ c # rest) = line # split_at_char c rest"
  by (induction line) auto

lemma split_at_char_free: "c \<notin> set line \<Longrightarrow> split_at_char c line = [line]"
  by (induction line) auto

lemma split_at_char_pieces: "piece \<in> set (split_at_char c s) \<Longrightarrow> c \<notin> set piece"
proof (induction s arbitrary: piece)
  case Nil
  then show ?case by simp
next
  case (Cons x xs)
  obtain p ps where xs: "split_at_char c xs = p # ps"
    by (cases "split_at_char c xs") auto
  with Cons show ?case by (auto split: if_splits)
qed

text \<open>
  The \<^verbatim>\<open>{:?}\<close> of a string: quoted, with the ASCII characters that need it
  escaped; bytes above 127 are taken to be of printable characters.
\<close>

definition hex_digit_char :: "nat \<Rightarrow> char" where
  "hex_digit_char n = (if n < 10 then char_of (48 + n) else char_of (87 + n))"

definition debug_char :: "char \<Rightarrow> string" where
  "debug_char c =
     (let n = (of_char c :: nat) in
      if n = 34 \<or> n = 92 then [char_of (92 :: nat), c]
      else if n = 0 then [char_of (92 :: nat), CHR ''0'']
      else if n = 9 then [char_of (92 :: nat), CHR ''t'']
      else if n = 10 then [char_of (92 :: nat), CHR ''n'']
      else if n = 13 then [char_of (92 :: nat), CHR ''r'']
      else if n < 16 then [char_of (92 :: nat)] @ ''u{'' @ [hex_digit_char n] @ ''}''
      else if n < 32 \<or> n = 127 then
        [char_of (92 :: nat)] @ ''u{'' @ [hex_digit_char (n div 16), hex_digit_char (n mod 16)] @ ''}''
      else [c])"

definition debug_string :: "string \<Rightarrow> string" where
  "debug_string s = CHR 0x22 # concat (map debug_char s) @ [CHR 0x22]"

section \<open>Floating-point literals\<close>

text \<open>
  An optional sign, then a special word in any case or digits with an optional point and an
  optional exponent; at least one digit of the mantissa must be there.  The value is the exact
  decimal, rounded once.
\<close>

definition is_ascii_digit :: "char \<Rightarrow> bool" where
  "is_ascii_digit c = (let n = (of_char c :: nat) in 48 \<le> n \<and> n \<le> 57)"

definition ascii_lowercase :: "char \<Rightarrow> char" where
  "ascii_lowercase c =
     (let n = (of_char c :: nat) in if 65 \<le> n \<and> n \<le> 90 then char_of (n + 32) else c)"

definition decimal_digits :: "string \<Rightarrow> int" where
  "decimal_digits ds = foldl (\<lambda>n c. 10 * n + (of_char c - 48)) 0 ds"

definition power_of_ten :: "int \<Rightarrow> rat" where
  "power_of_ten e = (if 0 \<le> e then 10 ^ nat e else 1 / 10 ^ nat (- e))"

fun signed_digits :: "string \<Rightarrow> (bool \<times> string)" where
  "signed_digits [] = (False, [])"
| "signed_digits (c # s) =
     (if c = CHR ''-'' then (True, s) else if c = CHR ''+'' then (False, s) else (False, c # s))"

fun parse_exponent :: "string \<Rightarrow> int option" where
  "parse_exponent [] = Some 0"
| "parse_exponent (c # s) =
     (case signed_digits s of (neg, ds) \<Rightarrow>
        if ascii_lowercase c = CHR ''e'' \<and> ds \<noteq> [] \<and> list_all is_ascii_digit ds
        then Some (if neg then - decimal_digits ds else decimal_digits ds) else None)"

definition parse_magnitude :: "string \<Rightarrow> rat option" where
  "parse_magnitude s =
     (let whole = takeWhile is_ascii_digit s; rest = dropWhile is_ascii_digit s;
          point = (case rest of [] \<Rightarrow> False | c # _ \<Rightarrow> c = CHR ''.'');
          frac = (if point then takeWhile is_ascii_digit (tl rest) else []);
          tail = (if point then dropWhile is_ascii_digit (tl rest) else rest) in
      if whole = [] \<and> frac = [] then None
      else map_option
        (\<lambda>e. of_int (decimal_digits (whole @ frac)) * power_of_ten (e - int (length frac)))
        (parse_exponent tail))"

definition parse_f64 :: "string \<Rightarrow> f64 option" where
  "parse_f64 s =
     (case signed_digits s of (neg, body) \<Rightarrow>
        let word = map ascii_lowercase body in
        if word = ''inf'' \<or> word = ''infinity'' then Some (signed_inf neg)
        else if word = ''nan'' then Some NaN
        else map_option (round_magnitude neg) (parse_magnitude body))"

section \<open>JSON values\<close>

text \<open>
  A parsed JSON document, as \<^verbatim>\<open>serde_json::Value\<close> presents it: an object maps each
  key once, in the order of the keys, and a number is an unsigned, a negative or a floating one.
\<close>

datatype jnumber = PosInt nat | NegInt int | Float f64

datatype json =
    JNull
  | JBool bool
  | JNumber jnumber
  | JString string
  | JArray "json list"
  | JObject "(string, json) btree"

fun json_get :: "string \<Rightarrow> json \<Rightarrow> json option" where
  "json_get key (JObject fields) = bt_get fields key"
| "json_get key _ = None"

fun json_str :: "json \<Rightarrow> string option" where
  "json_str (JString s) = Some s"
| "json_str _ = None"

fun json_is_object :: "json \<Rightarrow> bool" where
  "json_is_object (JObject _) = True"
| "json_is_object _ = False"

definition json_str_at :: "string \<Rightarrow> json \<Rightarrow> string option" where
  "json_str_at key value = Option.bind (json_get key value) json_str"

end
