(* ===== verification/Protocol.thy ===== *)
theory Protocol
  imports Text Utf8
begin

text \<open>
  The wire protocol between host and workers (\<^verbatim>\<open>crates/protocol/src\<close>): artifact
  headers and the cache identity of \<^verbatim>\<open>artifact.rs\<close>, the envelopes of
  \<^verbatim>\<open>worker.rs\<close>, and the newline-framed parser of \<^verbatim>\<open>frame.rs\<close>.
  SHA-256 and serde_json (a text to a value, a value to an envelope, an envelope to its text) are
  the record \<open>frame_codecs\<close>.
\<close>

section \<open>Artifacts\<close>

definition protocol_schema_identity :: string where
  "protocol_schema_identity = ''threeterm.protocol/1''"

record worker_fingerprint =
  wf_worker_kind :: string
  wf_worker_schema_version :: string
  wf_protocol_schema_version :: string

record artifact_request =
  aq_request_id :: string
  aq_source_revision_id :: string
  aq_operation :: string
  aq_feature_id :: string
  aq_artifact_kind :: string
  aq_staging_name :: string
  aq_semantic_input_sha256 :: string
  aq_deterministic_settings_sha256 :: string

record layer1_cache_key =
  lc_source_revision_id :: string
  lc_worker_fingerprint :: worker_fingerprint
  lc_operation :: string
  lc_feature_id :: string
  lc_artifact_kind :: string
  lc_semantic_input_sha256 :: string
  lc_deterministic_settings_sha256 :: string

record artifact_header =
  ah_request_id :: string
  ah_source_revision_id :: string
  ah_operation :: string
  ah_feature_id :: string
  ah_cache_key :: layer1_cache_key
  ah_worker_fingerprint :: worker_fingerprint
  ah_artifact_kind :: string
  ah_staging_name :: string
  ah_byte_count :: nat
  ah_sha256 :: string

definition issue_cache_key :: "artifact_request \<Rightarrow> worker_fingerprint \<Rightarrow> layer1_cache_key" where
  "issue_cache_key r w =
     \<lparr>lc_source_revision_id = aq_source_revision_id r, lc_worker_fingerprint = w,
      lc_operation = aq_operation r, lc_feature_id = aq_feature_id r,
      lc_artifact_kind = aq_artifact_kind r,
      lc_semantic_input_sha256 = aq_semantic_input_sha256 r,
      lc_deterministic_settings_sha256 = aq_deterministic_settings_sha256 r\<rparr>"

text \<open>Every field of the identity goes after its length, eight bytes with the highest first.\<close>

fun big_endian :: "nat \<Rightarrow> nat \<Rightarrow> string" where
  "big_endian 0 n = []"
| "big_endian (Suc k) n = big_endian k (n div 256) @ [char_of (n mod 256)]"

definition sized_field :: "string \<Rightarrow> string" where
  "sized_field s = big_endian 8 (length s) @ s"

definition cache_identity :: "layer1_cache_key \<Rightarrow> string" where
  "cache_identity k =
     concat (map sized_field
       [lc_source_revision_id k, wf_worker_kind (lc_worker_fingerprint k),
        wf_worker_schema_version (lc_worker_fingerprint k),
        wf_protocol_schema_version (lc_worker_fingerprint k), lc_operation k, lc_feature_id k,
        lc_artifact_kind k, lc_semantic_input_sha256 k, lc_deterministic_settings_sha256 k])"

definition final_artifact_name :: "(string \<Rightarrow> string) \<Rightarrow> layer1_cache_key \<Rightarrow> string" where
  "final_artifact_name sha k = ''derived-'' @ sha (cache_identity k)"

section \<open>Envelopes\<close>

datatype envelope =
    WorkerReady string string
  | RequestEnvelope string string string json string
  | CancelEnvelope string string string
  | ProgressEnvelope string string string nat
  | ArtifactEnvelope string artifact_header
  | CompletedEnvelope string string json
  | CancelledEnvelope string string string
  | FailedEnvelope string string string string

fun envelope_schema_version :: "envelope \<Rightarrow> string" where
  "envelope_schema_version (WorkerReady v _) = v"
| "envelope_schema_version (RequestEnvelope v _ _ _ _) = v"
| "envelope_schema_version (CancelEnvelope v _ _) = v"
| "envelope_schema_version (ProgressEnvelope v _ _ _) = v"
| "envelope_schema_version (ArtifactEnvelope v _) = v"
| "envelope_schema_version (CompletedEnvelope v _ _) = v"
| "envelope_schema_version (CancelledEnvelope v _ _) = v"
| "envelope_schema_version (FailedEnvelope v _ _ _) = v"

fun envelope_request_id :: "envelope \<Rightarrow> string option" where
  "envelope_request_id (WorkerReady _ _) = None"
| "envelope_request_id (RequestEnvelope _ r _ _ _) = Some r"
| "envelope_request_id (CancelEnvelope _ r _) = Some r"
| "envelope_request_id (ProgressEnvelope _ r _ _) = Some r"
| "envelope_request_id (ArtifactEnvelope _ h) = Some (ah_request_id h)"
| "envelope_request_id (CompletedEnvelope _ r _) = Some r"
| "envelope_request_id (CancelledEnvelope _ r _) = Some r"
| "envelope_request_id (FailedEnvelope _ r _ _) = Some r"

section \<open>Frames\<close>

record frame_codecs =
  value_of_text :: "string \<Rightarrow> string + json"
  envelope_of_value :: "json \<Rightarrow> string + envelope"
  text_of_envelope :: "envelope \<Rightarrow> string"

datatype frame_error =
    NonUtf8
  | InvalidJson string string
  | MissingKind
  | UnknownKind string
  | PayloadTooLarge nat nat

definition max_frame_buffer :: nat where "max_frame_buffer = 4 * 1024 * 1024"
definition max_excerpt_chars :: nat where "max_excerpt_chars = 2048"
definition line_feed :: char where "line_feed = CHR 0x0A"

definition excerpt_frame :: "string \<Rightarrow> string" where
  "excerpt_frame line =
     (let chars = utf8_chars line; total = length chars in
      if total \<le> max_excerpt_chars then line
      else concat (take max_excerpt_chars chars) @ ''...[truncated '' @ show_nat total @
        '' chars total]'')"

definition contains_text :: "string \<Rightarrow> string \<Rightarrow> bool" where
  "contains_text needle s = (after_first needle s \<noteq> None)"

definition decode_frame :: "frame_codecs \<Rightarrow> string \<Rightarrow> frame_error + envelope" where
  "decode_frame cd line =
     (if \<not> valid_utf8 line then Inl NonUtf8
      else case value_of_text cd line of
        Inl e \<Rightarrow> Inl (InvalidJson e (excerpt_frame line))
      | Inr value \<Rightarrow>
          (case json_str_at ''kind'' value of
             None \<Rightarrow> Inl MissingKind
           | Some kind \<Rightarrow>
               (case envelope_of_value cd value of
                  Inl e \<Rightarrow>
                    if contains_text ''unknown variant'' e \<or> contains_text ''unknown kind'' e
                    then Inl (UnknownKind kind) else Inl (InvalidJson e (excerpt_frame line))
                | Inr v \<Rightarrow> Inr v)))"

lemma split_once_shorter: "split_once c s = Some (a, b) \<Longrightarrow> length b < length s"
  by (induction s arbitrary: a b) (auto split: if_splits)

function drain_frames ::
  "frame_codecs \<Rightarrow> string \<Rightarrow> envelope list \<Rightarrow> string \<times> (frame_error + envelope list)" where
  "drain_frames cd buffer envelopes =
     (case split_once line_feed buffer of
        None \<Rightarrow> (buffer, Inr envelopes)
      | Some (line, rest) \<Rightarrow>
          if line = [] then drain_frames cd rest envelopes
          else case decode_frame cd line of
            Inl e \<Rightarrow> ([], Inl e)
          | Inr v \<Rightarrow> drain_frames cd rest (envelopes @ [v]))"
  by auto
termination
  by (relation "measure (\<lambda>(cd, buffer, envelopes). length buffer)") (auto dest: split_once_shorter)

declare drain_frames.simps [simp del]

record frame_parser =
  fp_buffer :: string

definition new_frame_parser :: frame_parser where "new_frame_parser = \<lparr>fp_buffer = []\<rparr>"

definition saturating_add :: "nat \<Rightarrow> nat \<Rightarrow> nat" where
  "saturating_add m n = min (m + n) (2 ^ 64 - 1)"

definition push_bytes ::
  "frame_codecs \<Rightarrow> string \<Rightarrow> frame_parser \<Rightarrow> frame_parser \<times> (frame_error + envelope list)" where
  "push_bytes cd bytes p =
     (let n = saturating_add (length (fp_buffer p)) (length bytes) in
      if max_frame_buffer < n then (p\<lparr>fp_buffer := []\<rparr>, Inl (PayloadTooLarge n max_frame_buffer))
      else let buffer = fp_buffer p @ bytes in
        if line_feed \<notin> set bytes then (p\<lparr>fp_buffer := buffer\<rparr>, Inr [])
        else case drain_frames cd buffer [] of (rest, result) \<Rightarrow> (p\<lparr>fp_buffer := rest\<rparr>, result))"

definition reset_parser :: "frame_parser \<Rightarrow> frame_parser" where
  "reset_parser p = p\<lparr>fp_buffer := []\<rparr>"

definition has_buffered_bytes :: "frame_parser \<Rightarrow> bool" where
  "has_buffered_bytes p = (fp_buffer p \<noteq> [])"

fun frame_error_text :: "frame_error \<Rightarrow> string" where
  "frame_error_text NonUtf8 = ''frame contains non-UTF8 bytes''"
| "frame_error_text (InvalidJson e excerpt) =
     ''frame is not valid JSON: '' @ e @ ''; offending frame excerpt: '' @ excerpt"
| "frame_error_text MissingKind =
     ''frame is missing the '' @ [CHR 0x60] @ ''kind'' @ [CHR 0x60] @ '' discriminator''"
| "frame_error_text (UnknownKind kind) =
     ''frame carries an unknown envelope kind: '' @ debug_string kind"
| "frame_error_text (PayloadTooLarge n bound) =
     ''frame buffer exceeded maximum size: '' @ show_nat n @ '' > '' @ show_nat bound"

text \<open>A frame is serialised through a writer that refuses to pass the bound.\<close>

definition serialize_capped :: "nat \<Rightarrow> string \<Rightarrow> string option" where
  "serialize_capped limit text = (if length text \<le> limit then Some text else None)"

definition encode_frame :: "frame_codecs \<Rightarrow> envelope \<Rightarrow> string option" where
  "encode_frame cd v =
     map_option (\<lambda>bytes. bytes @ [line_feed]) (serialize_capped max_frame_buffer (text_of_envelope cd v))"

text \<open>The chunks that a stream is read in, pushed one after the other until one is refused.\<close>

fun push_chunks ::
  "frame_codecs \<Rightarrow> string list \<Rightarrow> frame_parser \<Rightarrow> frame_parser \<times> (frame_error + envelope list)" where
  "push_chunks cd [] p = (p, Inr [])"
| "push_chunks cd (chunk # chunks) p =
     (case push_bytes cd chunk p of
        (p', Inl e) \<Rightarrow> (p', Inl e)
      | (p', Inr vs) \<Rightarrow>
          (case push_chunks cd chunks p' of
             (p'', Inl e) \<Rightarrow> (p'', Inl e)
           | (p'', Inr ws) \<Rightarrow> (p'', Inr (vs @ ws))))"

end
