(* ===== verification/FrameCache.thy ===== *)
theory FrameCache
  imports Viewport Protocol "HOL-Library.Word" "HOL-Library.AList" "HOL-Library.Product_Lexorder"
    "HOL-Library.Signed_Division"
begin

text \<open>
  \<^verbatim>\<open>crates/viewport/src/cache.rs\<close>, with the camera of \<^verbatim>\<open>projection.rs\<close>: the
  cache of projected frames, its invalidation and its eviction.  A \<^verbatim>\<open>HashMap\<close> is an
  association list with distinct keys, in the order in which an iteration visits it
  (\<open>FrameCacheProps\<close> shows that the order does not matter).  The counters and the band
  are words of their width; the other integers of a key are only compared.  The scene and the
  colours are opaque, and the projection is an argument of each lookup as it is in the source.
\<close>

section \<open>Camera\<close>

record camera_state =
  cam_yaw :: int
  cam_pitch :: int
  cam_zoom :: int
  cam_pan_x :: int
  cam_pan_y :: int

definition default_camera :: camera_state where
  "default_camera = \<lparr>cam_yaw = 0, cam_pitch = 20, cam_zoom = 100, cam_pan_x = 0, cam_pan_y = 0\<rparr>"

definition clamp :: "int \<Rightarrow> int \<Rightarrow> int \<Rightarrow> int" where
  "clamp low high x = (if x < low then low else if high < x then high else x)"

text \<open>\<^verbatim>\<open>i16::saturating_add\<close> and the wrapping of an \<^verbatim>\<open>i16\<close> sum.\<close>

definition saturating_add16 :: "int \<Rightarrow> int \<Rightarrow> int" where
  "saturating_add16 x y = clamp (- 32768) 32767 (x + y)"

definition wrapping_add16 :: "int \<Rightarrow> int \<Rightarrow> int" where
  "wrapping_add16 x y = (x + y + 32768) mod 65536 - 32768"

definition min_zoom :: int where "min_zoom = 25"
definition max_zoom :: int where "max_zoom = 400"
definition min_pan :: int where "min_pan = - 10000"
definition max_pan :: int where "max_pan = 10000"

definition normalize_yaw :: "int \<Rightarrow> int" where
  "normalize_yaw yaw = yaw mod 360"

definition new_camera :: "int \<Rightarrow> int \<Rightarrow> int \<Rightarrow> camera_state" where
  "new_camera yaw pitch zoom =
     \<lparr>cam_yaw = normalize_yaw yaw, cam_pitch = clamp (- 89) 89 pitch,
      cam_zoom = clamp min_zoom max_zoom zoom, cam_pan_x = 0, cam_pan_y = 0\<rparr>"

definition rotated :: "camera_state \<Rightarrow> int \<Rightarrow> int \<Rightarrow> camera_state" where
  "rotated c yaw_delta pitch_delta =
     (new_camera (saturating_add16 (cam_yaw c) yaw_delta) (saturating_add16 (cam_pitch c) pitch_delta)
       (cam_zoom c)) \<lparr>cam_pan_x := cam_pan_x c, cam_pan_y := cam_pan_y c\<rparr>"

definition panned :: "camera_state \<Rightarrow> int \<Rightarrow> int \<Rightarrow> camera_state" where
  "panned c x_delta y_delta =
     c\<lparr>cam_pan_x := clamp min_pan max_pan (saturating_add16 (cam_pan_x c) x_delta),
       cam_pan_y := clamp min_pan max_pan (saturating_add16 (cam_pan_y c) y_delta)\<rparr>"

definition zoomed :: "camera_state \<Rightarrow> int \<Rightarrow> camera_state" where
  "zoomed c delta = c\<lparr>cam_zoom := clamp min_zoom max_zoom (cam_zoom c + delta)\<rparr>"

text \<open>
  The band of a camera is one byte.  The sum with 89 is an \<^verbatim>\<open>i16\<close> (it wraps in a
  release build; no camera that \<open>new_camera\<close> builds comes near), the division
  truncates, and the multiplication and the last addition wrap at 256.
\<close>

definition frustum_band_from_camera :: "camera_state \<Rightarrow> 8 word" where
  "frustum_band_from_camera c =
     (let yaw_band = word_of_int (cam_yaw c mod 360 div 15) :: 8 word;
          pitch_band = word_of_int (clamp 0 11 (wrapping_add16 (cam_pitch c) 89 sdiv 15)) :: 8 word in
      yaw_band * 13 + pitch_band)"

section \<open>Keys, triggers and outcomes\<close>

record preview_scope =
  ps_command_schema :: string
  ps_input_fingerprint :: string

record cache_key =
  ck_revision :: string
  ck_worker_fingerprint :: worker_fingerprint
  ck_layer1_reference :: string
  ck_width :: int
  ck_height :: int
  ck_frustum_band :: "8 word"
  ck_quality_level :: int
  ck_selection_fingerprint :: string
  ck_preview_scope :: "preview_scope option"

datatype invalidation_trigger =
    RevisionChanged string
  | Resize
  | FrustumBandChanged "8 word" "8 word"
  | QualityChanged int
  | SelectionChanged string
  | PreviewEvent preview_scope
  | CapabilityLost
  | MemoryPressure string nat

record invalidation_outcome =
  io_evicted :: nat
  io_retained :: nat
  io_code :: viewport_code
  io_detail :: string

record 'c viewport_request =
  vr_revision :: string
  vr_generation :: int
  vr_width :: int
  vr_height :: int
  vr_camera :: camera_state
  vr_colors :: 'c

section \<open>The cache\<close>

record display_cache =
  dc_entries :: "(cache_key \<times> viewport_frame) list"
  dc_recency :: "(cache_key \<times> 64 word) list"
  dc_next_counter :: "64 word"

definition empty_cache :: display_cache where
  "empty_cache = \<lparr>dc_entries = [], dc_recency = [], dc_next_counter = 0\<rparr>"

definition contains_key :: "(cache_key \<times> 'v) list \<Rightarrow> cache_key \<Rightarrow> bool" where
  "contains_key m k = (map_of m k \<noteq> None)"

text \<open>\<^verbatim>\<open>retain\<close> on the entries, then on the recency of the keys that are left.\<close>

definition retain_keys :: "(cache_key \<Rightarrow> bool) \<Rightarrow> display_cache \<Rightarrow> display_cache" where
  "retain_keys keep c =
     (let es = filter (\<lambda>(k, _). keep k) (dc_entries c) in
      c\<lparr>dc_entries := es, dc_recency := filter (\<lambda>(k, _). contains_key es k) (dc_recency c)\<rparr>)"

definition clear :: "display_cache \<Rightarrow> display_cache" where
  "clear c = c\<lparr>dc_entries := [], dc_recency := []\<rparr>"

definition outcome :: "display_cache \<Rightarrow> nat \<Rightarrow> viewport_code \<Rightarrow> string \<Rightarrow> invalidation_outcome" where
  "outcome c evicted code detail =
     \<lparr>io_evicted = evicted, io_retained = length (dc_entries c), io_code = code, io_detail = detail\<rparr>"

definition invalidate_keys ::
  "(cache_key \<Rightarrow> bool) \<Rightarrow> viewport_code \<Rightarrow> string \<Rightarrow> display_cache \<Rightarrow> display_cache \<times> invalidation_outcome"
where
  "invalidate_keys keep code detail c =
     (let c' = retain_keys keep c; evicted = length (dc_entries c) - length (dc_entries c') in
      (c', outcome c' evicted code (detail @ '': evicted '' @ show_nat evicted)))"

definition invalidate_preview_scope ::
  "preview_scope \<Rightarrow> display_cache \<Rightarrow> display_cache \<times> invalidation_outcome" where
  "invalidate_preview_scope scope =
     invalidate_keys (\<lambda>k. ck_preview_scope k \<noteq> Some scope) FrameDropped ''preview scope invalidated''"

definition invalidate_revision :: "string \<Rightarrow> display_cache \<Rightarrow> display_cache \<times> invalidation_outcome"
where
  "invalidate_revision revision =
     invalidate_keys (\<lambda>k. ck_revision k \<noteq> revision) InvalidScene
       (''revision '' @ revision @ '' invalidated'')"

definition invalidate_all ::
  "viewport_code \<Rightarrow> string \<Rightarrow> display_cache \<Rightarrow> display_cache \<times> invalidation_outcome" where
  "invalidate_all code detail c =
     (let evicted = length (dc_entries c) in
      (clear c, outcome (clear c) evicted code (detail @ '': evicted '' @ show_nat evicted)))"

definition invalidate_for_resize :: "display_cache \<Rightarrow> display_cache \<times> invalidation_outcome" where
  "invalidate_for_resize = invalidate_all InvalidDimensions ''resize invalidated all''"

definition invalidate_for_capability_loss :: "display_cache \<Rightarrow> display_cache \<times> invalidation_outcome"
where
  "invalidate_for_capability_loss = invalidate_all CapabilityInvalidated ''capability loss''"

definition invalidate_frustum_band ::
  "8 word \<Rightarrow> 8 word \<Rightarrow> display_cache \<Rightarrow> display_cache \<times> invalidation_outcome" where
  "invalidate_frustum_band old new c =
     (if old = new then (c, outcome c 0 FrameDropped ''frustum band unchanged'')
      else invalidate_keys (\<lambda>k. ck_frustum_band k = new) FrameDropped
        (''frustum band '' @ show_nat (unat old) @ ''->'' @ show_nat (unat new)) c)"

definition invalidate_quality :: "int \<Rightarrow> display_cache \<Rightarrow> display_cache \<times> invalidation_outcome" where
  "invalidate_quality old =
     invalidate_keys (\<lambda>k. ck_quality_level k \<noteq> old) FrameDropped
       (''quality '' @ show_nat (nat old) @ '' invalidated'')"

definition invalidate_selection :: "string \<Rightarrow> display_cache \<Rightarrow> display_cache \<times> invalidation_outcome"
where
  "invalidate_selection old =
     invalidate_keys (\<lambda>k. ck_selection_fingerprint k \<noteq> old) FrameDropped ''selection invalidated''"

text \<open>Entries of other revisions first, the least recently used first.\<close>

definition ranked :: "string \<Rightarrow> display_cache \<Rightarrow> (cache_key \<times> 64 word) list" where
  "ranked active c = sort_key (\<lambda>(k, r). (ck_revision k = active, r)) (dc_recency c)"

definition remove_key :: "cache_key \<Rightarrow> display_cache \<Rightarrow> display_cache" where
  "remove_key k c =
     c\<lparr>dc_entries := AList.delete k (dc_entries c), dc_recency := AList.delete k (dc_recency c)\<rparr>"

definition evict_for_memory_pressure ::
  "string \<Rightarrow> nat \<Rightarrow> display_cache \<Rightarrow> display_cache \<times> invalidation_outcome" where
  "evict_for_memory_pressure active capacity c =
     (if length (dc_entries c) \<le> capacity then (c, outcome c 0 FrameDropped ''within capacity'')
      else
        let to_evict = length (dc_entries c) - capacity;
            evict_keys = map fst (take to_evict (ranked active c));
            c' = fold remove_key evict_keys c in
        (c', outcome c' to_evict FrameDropped
          (''memory pressure: evicted '' @ show_nat to_evict @ '' to capacity '' @ show_nat capacity)))"

definition invalidate ::
  "invalidation_trigger \<Rightarrow> display_cache \<Rightarrow> display_cache \<times> invalidation_outcome" where
  "invalidate t =
     (case t of
        RevisionChanged revision \<Rightarrow> invalidate_revision revision
      | Resize \<Rightarrow> invalidate_for_resize
      | FrustumBandChanged old new \<Rightarrow> invalidate_frustum_band old new
      | QualityChanged old \<Rightarrow> invalidate_quality old
      | SelectionChanged old \<Rightarrow> invalidate_selection old
      | PreviewEvent scope \<Rightarrow> invalidate_preview_scope scope
      | CapabilityLost \<Rightarrow> invalidate_for_capability_loss
      | MemoryPressure active capacity \<Rightarrow> evict_for_memory_pressure active capacity)"

section \<open>Exclusions\<close>

definition ascii_lower :: "char \<Rightarrow> char" where
  "ascii_lower c =
     (if CHR ''A'' \<le> c \<and> c \<le> CHR ''Z'' then char_of (of_char c + 32 :: nat) else c)"

fun contains_string :: "string \<Rightarrow> string \<Rightarrow> bool" where
  "contains_string p [] = (p = [])"
| "contains_string p (x # xs) = (take (length p) (x # xs) = p \<or> contains_string p xs)"

definition excluded_markers :: "string list" where
  "excluded_markers =
     [''draft'', ''hover'', ''candidate'', ''pointer'', ''stale'', ''preview-only'',
      ''worker-internal'', ''tmp/'', ''stderr'']"

definition mentions_marker :: "string \<Rightarrow> bool" where
  "mentions_marker s = list_ex (\<lambda>p. contains_string p (map ascii_lower s)) excluded_markers"

definition is_excluded :: "string \<Rightarrow> preview_scope option \<Rightarrow> bool" where
  "is_excluded layer1_reference scope =
     (layer1_reference = [] \<or> mentions_marker layer1_reference \<or>
      (case scope of None \<Rightarrow> False
       | Some s \<Rightarrow> mentions_marker (ps_command_schema s) \<or> mentions_marker (ps_input_fingerprint s)))"

section \<open>Lookup\<close>

text \<open>The arguments of a lookup apart from the projection.\<close>

record ('s, 'c) lookup =
  lk_scene :: 's
  lk_request :: "'c viewport_request"
  lk_worker_fingerprint :: worker_fingerprint
  lk_layer1_reference :: string
  lk_quality_level :: int
  lk_selection_fingerprint :: string
  lk_preview_scope :: "preview_scope option"

definition lookup_key :: "('s, 'c) lookup \<Rightarrow> cache_key" where
  "lookup_key q =
     \<lparr>ck_revision = vr_revision (lk_request q), ck_worker_fingerprint = lk_worker_fingerprint q,
      ck_layer1_reference = lk_layer1_reference q, ck_width = vr_width (lk_request q),
      ck_height = vr_height (lk_request q),
      ck_frustum_band = frustum_band_from_camera (vr_camera (lk_request q)),
      ck_quality_level = lk_quality_level q,
      ck_selection_fingerprint = lk_selection_fingerprint q, ck_preview_scope = lk_preview_scope q\<rparr>"

definition touch :: "cache_key \<Rightarrow> display_cache \<Rightarrow> display_cache" where
  "touch k c =
     c\<lparr>dc_next_counter := dc_next_counter c + 1,
       dc_recency := AList.update k (dc_next_counter c) (dc_recency c)\<rparr>"

definition get_or_project ::
  "('s \<Rightarrow> 'c viewport_request \<Rightarrow> viewport_diagnostic + viewport_frame) \<Rightarrow> ('s, 'c) lookup \<Rightarrow>
   display_cache \<Rightarrow> (display_cache, viewport_frame \<times> bool) fallible" where
  "get_or_project projection q c =
     (if is_excluded (lk_layer1_reference q) (lk_preview_scope q) then
        (case projection (lk_scene q) (lk_request q) of
           Inl e \<Rightarrow> (c, Inl e) | Inr frame \<Rightarrow> (c, Inr (frame, False)))
      else
        let key = lookup_key q in
        case map_of (dc_entries c) key of
          Some cached \<Rightarrow> (touch key c, Inr (cached, True))
        | None \<Rightarrow>
            (case projection (lk_scene q) (lk_request q) of
               Inl e \<Rightarrow> (c, Inl e)
             | Inr frame \<Rightarrow>
                 (let c' = touch key c in
                  (c'\<lparr>dc_entries := AList.update key frame (dc_entries c')\<rparr>, Inr (frame, False)))))"

text \<open>
  The calls of a client of the cache.  Each lookup brings a projection of its own, which is called
  at most once.
\<close>

datatype ('s, 'c) cache_call =
    Lookup "'s \<Rightarrow> 'c viewport_request \<Rightarrow> viewport_diagnostic + viewport_frame" "('s, 'c) lookup"
  | Invalidate invalidation_trigger
  | Clear

fun cache_step :: "display_cache \<Rightarrow> ('s, 'c) cache_call \<Rightarrow> display_cache" where
  "cache_step c (Lookup projection q) = fst (get_or_project projection q c)"
| "cache_step c (Invalidate t) = fst (invalidate t c)"
| "cache_step c Clear = clear c"

end
