(* ===== verification/FrameCacheProps.thy ===== *)
theory FrameCacheProps
  imports FrameCache "HOL-Library.Multiset"
begin

text \<open>
  What the frame cache promises: its two tables stay in step, every frame it returns was made by
  the projection of a lookup with the same key, and memory pressure evicts exactly the surplus,
  entries of other revisions and the least recently used first, whatever order the hash maps are
  visited in.  A key holds less than the projection depends on; the last section shows what a hit
  can return because of that.
\<close>

section \<open>Contract of a cache\<close>

text \<open>A frame that one of the lookups among the calls made with its projection, with the given key.\<close>

definition made_by :: "('s, 'c) cache_call list \<Rightarrow> cache_key \<Rightarrow> viewport_frame \<Rightarrow> bool" where
  "made_by calls k f =
     (\<exists>projection q. Lookup projection q \<in> set calls \<and> lookup_key q = k \<and>
        \<not> is_excluded (lk_layer1_reference q) (lk_preview_scope q) \<and>
        projection (lk_scene q) (lk_request q) = Inr f)"

text \<open>
  What a cache may do to its contents: a lookup adds the projected frame under the key of the
  lookup, everything else only forgets.
\<close>

locale cache_contract =
  fixes step :: "'m \<Rightarrow> ('s, 'c) cache_call \<Rightarrow> 'm"
    and contents :: "'m \<Rightarrow> cache_key \<Rightarrow> viewport_frame option"
    and ok :: "'m \<Rightarrow> bool"
  assumes ok_step: "ok m \<Longrightarrow> ok (step m call)"
    and lookup_adds: "contents (step m (Lookup projection q)) k = Some f \<Longrightarrow> contents m k = Some f \<or>
      k = lookup_key q \<and> \<not> is_excluded (lk_layer1_reference q) (lk_preview_scope q) \<and>
      projection (lk_scene q) (lk_request q) = Inr f"
    and invalidate_forgets:
      "ok m \<Longrightarrow> contents (step m (Invalidate t)) k = Some f \<Longrightarrow> contents m k = Some f"
    and clear_forgets: "contents (step m Clear) k = None"
begin

lemma ok_run: "ok m \<Longrightarrow> ok (foldl step m calls)"
  by (induction calls arbitrary: m) (simp_all add: ok_step)

lemma provenance:
  assumes "contents (foldl step m calls) k = Some f" and "ok m" and "\<And>k. contents m k = None"
  shows "made_by calls k f"
  using assms(1)
proof (induction calls rule: rev_induct)
  case Nil
  then show ?case using assms(3) by simp
next
  case (snoc call calls)
  have keep: "made_by calls k f \<Longrightarrow> made_by (calls @ [call]) k f" by (auto simp: made_by_def)
  show ?case
  proof (cases call)
    case (Lookup projection q)
    with lookup_adds [of "foldl step m calls" projection q k f] snoc keep show ?thesis
      by (auto simp: made_by_def)
  next
    case (Invalidate t)
    with invalidate_forgets [OF ok_run [OF assms(2)], of calls t k f] snoc keep show ?thesis by simp
  next
    case Clear
    with clear_forgets [of "foldl step m calls" k] snoc.prems show ?thesis by simp
  qed
qed

end

section \<open>Association lists\<close>

lemma map_of_filter_keys:
  "map_of (filter (\<lambda>(k, _). P k) xs) k = (if P k then map_of xs k else None)"
  by (induction xs) auto

lemma fst_filter_keys: "fst ` {x \<in> set xs. case x of (k, _) \<Rightarrow> P k} = {k \<in> fst ` set xs. P k}"
  by force

lemma distinct_filter_keys: "distinct (map fst xs) \<Longrightarrow> distinct (map fst (filter P xs))"
  by (induction xs) auto

lemma distinct_filter_values: "distinct (map snd xs) \<Longrightarrow> distinct (map snd (filter P xs))"
  by (induction xs) auto

lemma values_update: "snd ` set (AList.update k v xs) \<subseteq> insert v (snd ` set xs)"
  by (induction xs) auto

lemma distinct_values_update:
  "distinct (map snd xs) \<Longrightarrow> v \<notin> snd ` set xs \<Longrightarrow> distinct (map snd (AList.update k v xs))"
proof (induction xs)
  case Nil
  show ?case by simp
next
  case (Cons p xs)
  then have "snd p \<notin> snd ` set (AList.update k v xs)"
    using subsetD [OF values_update, of "snd p" k v xs] by auto
  with Cons show ?case by (cases p) auto
qed

lemma contains_key_iff: "contains_key m k \<longleftrightarrow> k \<in> fst ` set m"
  by (simp add: contains_key_def map_of_eq_None_iff)

section \<open>Well-formed caches\<close>

definition cache_wf :: "display_cache \<Rightarrow> bool" where
  "cache_wf c =
     (distinct (map fst (dc_entries c)) \<and> distinct (map fst (dc_recency c)) \<and>
      fst ` set (dc_entries c) = fst ` set (dc_recency c))"

text \<open>As long as the counter has not wrapped, no two entries have the same recency.\<close>

definition counters_fresh :: "display_cache \<Rightarrow> bool" where
  "counters_fresh c =
     (distinct (map snd (dc_recency c)) \<and> (\<forall>r \<in> snd ` set (dc_recency c). r < dc_next_counter c))"

lemma retain_keys_entries:
  "map_of (dc_entries (retain_keys keep c)) k = (if keep k then map_of (dc_entries c) k else None)"
  by (simp add: retain_keys_def Let_def map_of_filter_keys)

lemma retain_keys_eq:
  assumes "cache_wf c"
  shows "retain_keys keep c =
    c\<lparr>dc_entries := filter (\<lambda>(k, _). keep k) (dc_entries c),
      dc_recency := filter (\<lambda>(k, _). keep k) (dc_recency c)\<rparr>"
proof -
  have "contains_key (filter (\<lambda>(k, _). keep k) (dc_entries c)) k = keep k" if "(k, r) \<in> set (dc_recency c)"
    for k r
  proof -
    have "k \<in> fst ` set (dc_entries c)" using assms that by (force simp: cache_wf_def)
    then show ?thesis by (simp add: contains_key_iff fst_filter_keys)
  qed
  then have "filter (\<lambda>(k, _). contains_key (filter (\<lambda>(k, _). keep k) (dc_entries c)) k) (dc_recency c) =
      filter (\<lambda>(k, _). keep k) (dc_recency c)"
    by (intro filter_cong) auto
  then show ?thesis by (simp add: retain_keys_def Let_def)
qed

lemma retain_keys_wf: "cache_wf c \<Longrightarrow> cache_wf (retain_keys keep c)"
  by (simp add: retain_keys_eq) (simp add: cache_wf_def distinct_filter_keys fst_filter_keys)

lemma retain_keys_fresh: "counters_fresh c \<Longrightarrow> counters_fresh (retain_keys keep c)"
  by (auto simp: counters_fresh_def retain_keys_def Let_def distinct_filter_values)

lemma retain_keys_counter: "dc_next_counter (retain_keys keep c) = dc_next_counter c"
  by (simp add: retain_keys_def Let_def)

lemma delete_is_filter: "AList.delete k xs = filter (\<lambda>(k', _). k' \<noteq> k) xs"
  by (induction xs) auto

lemma remove_keys_filter:
  "fold remove_key ks c =
     c\<lparr>dc_entries := filter (\<lambda>(k, _). k \<notin> set ks) (dc_entries c),
       dc_recency := filter (\<lambda>(k, _). k \<notin> set ks) (dc_recency c)\<rparr>"
proof (induction ks arbitrary: c)
  case Nil
  show ?case by (simp add: case_prod_beta)
next
  case (Cons k ks)
  show ?case
    by (simp only: fold_Cons comp_apply Cons)
      (simp add: remove_key_def delete_is_filter case_prod_beta conj_commute)
qed

lemma remove_keys_retain:
  "cache_wf c \<Longrightarrow> fold remove_key ks c = retain_keys (\<lambda>k. k \<notin> set ks) c"
  by (simp add: remove_keys_filter retain_keys_eq)

section \<open>What each invalidation keeps\<close>

text \<open>Every invalidation keeps the entries that some test on the keys accepts.\<close>

lemma clear_retain: "clear c = retain_keys (\<lambda>k. False) c"
  by (simp add: clear_def retain_keys_def Let_def contains_key_def case_prod_beta)

definition survives :: "invalidation_trigger \<Rightarrow> display_cache \<Rightarrow> cache_key \<Rightarrow> bool" where
  "survives t c k =
     (case t of
        RevisionChanged revision \<Rightarrow> ck_revision k \<noteq> revision
      | Resize \<Rightarrow> False
      | FrustumBandChanged old new \<Rightarrow> old = new \<or> ck_frustum_band k = new
      | QualityChanged old \<Rightarrow> ck_quality_level k \<noteq> old
      | SelectionChanged old \<Rightarrow> ck_selection_fingerprint k \<noteq> old
      | PreviewEvent scope \<Rightarrow> ck_preview_scope k \<noteq> Some scope
      | CapabilityLost \<Rightarrow> False
      | MemoryPressure active capacity \<Rightarrow>
          k \<notin> fst ` set (take (length (dc_entries c) - capacity) (ranked active c)))"

lemma retain_keys_all:
  assumes "cache_wf c" and "\<And>k. k \<in> fst ` set (dc_entries c) \<Longrightarrow> keep k"
  shows "retain_keys keep c = c"
proof -
  have es: "filter (\<lambda>(k, _). keep k) (dc_entries c) = dc_entries c"
    using assms(2) by (intro filter_True) force
  have "filter (\<lambda>(k, _). contains_key (dc_entries c) k) (dc_recency c) = dc_recency c"
    using assms(1) by (intro filter_True) (force simp: contains_key_iff cache_wf_def)
  then show ?thesis by (simp add: retain_keys_def es)
qed

lemma invalidate_retains:
  assumes "cache_wf c"
  shows "fst (invalidate t c) = retain_keys (survives t c) c"
proof (cases t)
  case (MemoryPressure active capacity)
  show ?thesis
  proof (cases "length (dc_entries c) \<le> capacity")
    case True
    then have "survives t c k" for k by (simp add: survives_def MemoryPressure)
    with True assms show ?thesis
      by (simp add: MemoryPressure invalidate_def evict_for_memory_pressure_def retain_keys_all)
  next
    case False
    then show ?thesis
      using assms
      by (simp add: MemoryPressure invalidate_def evict_for_memory_pressure_def Let_def
          remove_keys_retain survives_def [abs_def])
  qed
next
  case (FrustumBandChanged old new)
  then show ?thesis
    using assms
    by (auto simp: invalidate_def invalidate_frustum_band_def invalidate_keys_def Let_def
        survives_def [abs_def] retain_keys_all)
qed (simp_all add: invalidate_def invalidate_revision_def invalidate_for_resize_def
    invalidate_quality_def invalidate_selection_def invalidate_preview_scope_def
    invalidate_for_capability_loss_def invalidate_all_def invalidate_keys_def survives_def [abs_def] Let_def
    clear_retain)

section \<open>The invariant of the cache\<close>

lemma touch_wf:
  assumes "cache_wf c" and "map_of (dc_entries c) k = Some f"
  shows "cache_wf (touch k c)"
proof -
  have "k \<in> fst ` set (dc_entries c)" using assms(2) by (force dest: map_of_SomeD)
  with assms(1) show ?thesis
    by (auto simp: cache_wf_def touch_def distinct_update dom_update insert_absorb)
qed

lemma store_wf:
  "cache_wf c \<Longrightarrow> cache_wf ((touch k c)\<lparr>dc_entries := AList.update k f (dc_entries c)\<rparr>)"
  by (simp add: cache_wf_def touch_def distinct_update dom_update)

text \<open>A lookup either leaves the cache alone, refreshes an entry or stores a new one.\<close>

lemma get_or_project_cases:
  obtains (same) "fst (get_or_project projection q c) = c"
  | (hit) f where "map_of (dc_entries c) (lookup_key q) = Some f"
      "fst (get_or_project projection q c) = touch (lookup_key q) c"
  | (store) f where "map_of (dc_entries c) (lookup_key q) = None"
      "\<not> is_excluded (lk_layer1_reference q) (lk_preview_scope q)"
      "projection (lk_scene q) (lk_request q) = Inr f"
      "fst (get_or_project projection q c) =
        (touch (lookup_key q) c)\<lparr>dc_entries := AList.update (lookup_key q) f (dc_entries c)\<rparr>"
proof (cases "is_excluded (lk_layer1_reference q) (lk_preview_scope q)")
  case True
  then have "fst (get_or_project projection q c) = c"
    by (simp add: get_or_project_def split: sum.split)
  then show thesis by (rule same)
next
  case False
  show thesis
  proof (cases "map_of (dc_entries c) (lookup_key q)")
    case None
    show thesis
    proof (cases "projection (lk_scene q) (lk_request q)")
      case (Inl e)
      with None False have "fst (get_or_project projection q c) = c" by (simp add: get_or_project_def)
      then show thesis by (rule same)
    next
      case (Inr f)
      with None False show thesis
        by (intro store) (simp_all add: get_or_project_def Let_def touch_def)
    qed
  next
    case (Some f)
    with False show thesis by (intro hit) (simp_all add: get_or_project_def)
  qed
qed

lemma lookup_wf: "cache_wf c \<Longrightarrow> cache_wf (fst (get_or_project projection q c))"
  by (cases rule: get_or_project_cases [of projection q c])
    (simp_all add: store_wf touch_wf)

lemma cache_step_wf: "cache_wf c \<Longrightarrow> cache_wf (cache_step c call)"
  by (cases call) (simp_all add: lookup_wf invalidate_retains retain_keys_wf clear_retain)

lemma cache_run_wf: "cache_wf c \<Longrightarrow> cache_wf (foldl cache_step c calls)"
  by (induction calls arbitrary: c) (simp_all add: cache_step_wf)

lemma empty_cache_wf: "cache_wf empty_cache"
  by (simp add: cache_wf_def empty_cache_def)

text \<open>Each call advances the counter by at most one.\<close>

lemma touch_fresh:
  assumes "counters_fresh c" and "unat (dc_next_counter c) < 2 ^ 64 - 1"
  shows "counters_fresh (touch k c)"
proof -
  let ?n = "dc_next_counter c"
  have less: "?n < ?n + 1"
    using assms(2) by (simp add: word_less_nat_alt unat_word_ariths)
  have "?n \<notin> snd ` set (dc_recency c)" using assms(1) by (auto simp: counters_fresh_def)
  then have "distinct (map snd (AList.update k ?n (dc_recency c)))"
    using assms(1) by (intro distinct_values_update) (simp_all add: counters_fresh_def)
  moreover have "r < ?n + 1" if "r \<in> snd ` set (AList.update k ?n (dc_recency c))" for r
  proof -
    have "r = ?n \<or> r \<in> snd ` set (dc_recency c)" using that values_update [of k ?n "dc_recency c"] by blast
    then show ?thesis using assms(1) less by (auto simp: counters_fresh_def)
  qed
  ultimately show ?thesis by (simp add: counters_fresh_def touch_def)
qed

lemma touch_counter: "unat (dc_next_counter (touch k c)) \<le> unat (dc_next_counter c) + 1"
  by (simp add: touch_def unat_word_ariths mod_le_divisor)

lemma step_counter:
  assumes "cache_wf c"
  shows "unat (dc_next_counter (cache_step c call)) \<le> unat (dc_next_counter c) + 1"
proof (cases call)
  case (Lookup projection q)
  then show ?thesis
    using touch_counter [of "lookup_key q" c]
    by (cases rule: get_or_project_cases [of projection q c]) simp_all
qed (simp_all add: assms invalidate_retains retain_keys_counter clear_retain)

lemma step_fresh:
  assumes "cache_wf c" and "counters_fresh c" and "unat (dc_next_counter c) < 2 ^ 64 - 1"
  shows "counters_fresh (cache_step c call)"
proof (cases call)
  case (Lookup projection q)
  have "counters_fresh ((touch k c)\<lparr>dc_entries := es\<rparr>)" for k es
    using touch_fresh [OF assms(2,3), of k] by (simp add: counters_fresh_def)
  with Lookup assms show ?thesis
    by (cases rule: get_or_project_cases [of projection q c]) (simp_all add: touch_fresh)
qed (simp_all add: assms invalidate_retains retain_keys_fresh clear_retain)

lemma run_fresh:
  assumes "length calls < 2 ^ 64"
  shows "counters_fresh (foldl cache_step empty_cache calls) \<and>
    unat (dc_next_counter (foldl cache_step empty_cache calls)) \<le> length calls"
  using assms
proof (induction calls rule: rev_induct)
  case Nil
  show ?case by (simp add: counters_fresh_def empty_cache_def)
next
  case (snoc call calls)
  let ?c = "foldl cache_step empty_cache calls"
  have wf: "cache_wf ?c" by (rule cache_run_wf [OF empty_cache_wf])
  have fresh: "counters_fresh ?c" and bound: "unat (dc_next_counter ?c) \<le> length calls"
    using snoc by simp_all
  have "unat (dc_next_counter ?c) < 2 ^ 64 - 1" using bound snoc.prems by simp
  with step_fresh [OF wf fresh] step_counter [OF wf, of call] bound show ?case by force
qed

section \<open>Soundness of hits\<close>

interpretation frames: cache_contract cache_step "\<lambda>c. map_of (dc_entries c)" cache_wf
proof
  show "cache_wf (cache_step c call)" if "cache_wf c" for c call
    using that by (rule cache_step_wf)
next
  fix projection :: "'a \<Rightarrow> 'b viewport_request \<Rightarrow> viewport_diagnostic + viewport_frame"
  fix q k f and c :: display_cache
  assume "map_of (dc_entries (cache_step c (Lookup projection q))) k = Some f"
  then show "map_of (dc_entries c) k = Some f \<or>
      k = lookup_key q \<and> \<not> is_excluded (lk_layer1_reference q) (lk_preview_scope q) \<and>
      projection (lk_scene q) (lk_request q) = Inr f"
    by (cases rule: get_or_project_cases [of projection q c])
      (auto simp: touch_def update_conv' split: if_splits)
next
  show "map_of (dc_entries c) k = Some f"
    if "cache_wf c" "map_of (dc_entries (cache_step c (Invalidate t))) k = Some f" for c t k f
    using that by (simp add: invalidate_retains retain_keys_entries split: if_splits)
next
  show "map_of (dc_entries (cache_step c Clear)) k = None" for c k
    by (simp add: clear_def)
qed

lemma lookup_results:
  "get_or_project projection q c = (c', Inr (f, True)) \<Longrightarrow>
     map_of (dc_entries c) (lookup_key q) = Some f \<and>
     \<not> is_excluded (lk_layer1_reference q) (lk_preview_scope q)"
  "get_or_project projection q c = (c', Inr (f, False)) \<Longrightarrow> projection (lk_scene q) (lk_request q) = Inr f"
  "get_or_project projection q c = (c', Inl e) \<Longrightarrow>
     projection (lk_scene q) (lk_request q) = Inl e \<and> c' = c"
  by (auto simp: get_or_project_def Let_def split: if_splits option.splits sum.splits)

lemma hit_iff:
  "(\<exists>c'. get_or_project projection q c = (c', Inr (f, True))) \<longleftrightarrow>
     \<not> is_excluded (lk_layer1_reference q) (lk_preview_scope q) \<and>
     map_of (dc_entries c) (lookup_key q) = Some f"
  by (auto simp: get_or_project_def Let_def split: option.splits sum.splits)

text \<open>
  C39.  Whatever was looked up and invalidated before, the two tables of the cache have the same
  keys, a frame returned as a hit was made by the projection of an earlier lookup with the same
  key that is not excluded, a frame not returned as a hit is what the projection of this lookup
  gives, and a failed lookup reports the error of its projection and changes nothing.
\<close>
theorem cache_sound:
  fixes projection :: "'s \<Rightarrow> 'c viewport_request \<Rightarrow> viewport_diagnostic + viewport_frame"
  defines "run \<equiv> foldl cache_step empty_cache"
  shows "cache_wf (run calls) \<and>
    (case get_or_project projection q (run calls) of
       (c', Inl e) \<Rightarrow> projection (lk_scene q) (lk_request q) = Inl e \<and> c' = run calls
     | (c', Inr (f, hit)) \<Rightarrow>
         if hit then made_by calls (lookup_key q) f
         else projection (lk_scene q) (lk_request q) = Inr f)"
proof -
  have "made_by calls k f" if "map_of (dc_entries (run calls)) k = Some f" for k f
    using frames.provenance [of empty_cache calls k f] that empty_cache_wf
    by (simp add: run_def empty_cache_def)
  then show ?thesis
    using cache_run_wf [OF empty_cache_wf, of calls]
      lookup_results [of projection q "run calls"]
    by (auto simp: run_def split: prod.split sum.split)
qed

section \<open>Eviction\<close>

lemma take_sorted_le:
  assumes "sorted (map f xs)" "x \<in> set (take n xs)" "y \<in> set (drop n xs)"
  shows "f x \<le> f y"
proof -
  have "sorted (map f (take n xs) @ map f (drop n xs))" using assms(1) by (simp flip: map_append)
  with assms(2,3) show ?thesis by (auto simp: sorted_append)
qed

lemma length_filter_not_in:
  assumes "distinct (map fst xs)" "K \<subseteq> fst ` set xs"
  shows "length (filter (\<lambda>(k, _). k \<notin> K) xs) = length xs - card K"
proof -
  let ?ys = "filter (\<lambda>(k, _). k \<notin> K) xs"
  have "length ?ys = card (fst ` set ?ys)"
    using distinct_card [OF distinct_filter_keys [OF assms(1)], of "\<lambda>(k, _). k \<notin> K"] by simp
  also have "fst ` set ?ys = fst ` set xs - K" by (force simp: case_prod_beta)
  also have "card (fst ` set xs - K) = card (fst ` set xs) - card K"
    using assms(2) finite_subset [OF assms(2)] by (intro card_Diff_subset) auto
  also have "card (fst ` set xs) = length xs" using distinct_card [OF assms(1)] by simp
  finally show ?thesis .
qed

lemma ranked_facts:
  assumes "cache_wf c"
  shows "set (ranked active c) = set (dc_recency c)" "length (ranked active c) = length (dc_entries c)"
    "distinct (map fst (ranked active c))"
    "sorted (map (\<lambda>(k, r). (ck_revision k = active, r)) (ranked active c))"
proof -
  show "set (ranked active c) = set (dc_recency c)" by (simp add: ranked_def)
  have "length (dc_recency c) = card (fst ` set (dc_recency c))"
    "length (dc_entries c) = card (fst ` set (dc_entries c))"
    using assms distinct_card unfolding cache_wf_def by (metis length_map list.set_map)+
  then show "length (ranked active c) = length (dc_entries c)"
    using assms by (simp add: ranked_def cache_wf_def)
  have "mset (map fst (ranked active c)) = mset (map fst (dc_recency c))" by (simp add: ranked_def)
  then show "distinct (map fst (ranked active c))"
    using assms mset_eq_imp_distinct_iff unfolding cache_wf_def by blast
  show "sorted (map (\<lambda>(k, r). (ck_revision k = active, r)) (ranked active c))"
    unfolding ranked_def by (rule sorted_sort_key)
qed

lemma evicted_size:
  assumes "cache_wf c"
  shows "length (dc_entries (fst (evict_for_memory_pressure active capacity c))) =
    min capacity (length (dc_entries c))"
proof (cases "length (dc_entries c) \<le> capacity")
  case True
  then show ?thesis by (simp add: evict_for_memory_pressure_def)
next
  case False
  let ?m = "length (dc_entries c) - capacity"
  let ?K = "fst ` set (take ?m (ranked active c))"
  have eq: "dc_entries (fst (evict_for_memory_pressure active capacity c)) =
      filter (\<lambda>(k, _). k \<notin> ?K) (dc_entries c)"
    using False by (simp add: evict_for_memory_pressure_def Let_def remove_keys_filter)
  have "?K = set (take ?m (map fst (ranked active c)))" by (simp add: take_map)
  then have "card ?K = ?m"
    using distinct_card [of "take ?m (map fst (ranked active c))"] ranked_facts(2,3) [OF assms, of active]
    by simp
  moreover have "?K \<subseteq> fst ` set (dc_entries c)"
    using assms ranked_facts(1) [OF assms, of active] set_take_subset [of ?m "ranked active c"]
    unfolding cache_wf_def by blast
  ultimately show ?thesis
    using assms False unfolding eq by (subst length_filter_not_in) (simp_all add: cache_wf_def)
qed

lemma evicted_before_kept:
  assumes wf: "cache_wf c" and fresh: "counters_fresh c"
    and k: "map_of (dc_recency c) k = Some r" and k': "map_of (dc_recency c) k' = Some r'"
    and drop: "map_of (dc_entries (fst (evict_for_memory_pressure active capacity c))) k = None"
    and keep: "map_of (dc_entries (fst (evict_for_memory_pressure active capacity c))) k' \<noteq> None"
  shows "(ck_revision k = active, r) < (ck_revision k' = active, r')"
proof -
  let ?m = "length (dc_entries c) - capacity"
  let ?rank = "\<lambda>(k, r). (ck_revision k = active, r)"
  have in_entries: "map_of (dc_entries c) k \<noteq> None"
    using wf map_of_SomeD [OF k] by (force simp: cache_wf_def map_of_eq_None_iff)
  have retains: "map_of (dc_entries (fst (evict_for_memory_pressure active capacity c))) x =
      (if survives (MemoryPressure active capacity) c x then map_of (dc_entries c) x else None)" for x
    using invalidate_retains [OF wf, of "MemoryPressure active capacity"]
    by (simp add: invalidate_def retain_keys_entries)
  have "k \<in> fst ` set (take ?m (ranked active c))" "k' \<notin> fst ` set (take ?m (ranked active c))"
    using drop keep in_entries by (auto simp: retains survives_def split: if_splits)
  then obtain r0 where "(k, r0) \<in> set (take ?m (ranked active c))"
    and not_k': "(k', r') \<notin> set (take ?m (ranked active c))" by force
  moreover from this(1) have "(k, r0) \<in> set (dc_recency c)"
    using ranked_facts(1) [OF wf] by (blast dest: in_set_takeD)
  then have "r0 = r" using k wf unfolding cache_wf_def by (metis map_of_is_SomeI option.inject)
  ultimately have taken: "(k, r) \<in> set (take ?m (ranked active c))" by simp
  have "(k', r') \<in> set (ranked active c)"
    using map_of_SomeD [OF k'] ranked_facts(1) [OF wf] by simp
  with not_k' have "(k', r') \<in> set (drop ?m (ranked active c))"
    by (metis Un_iff append_take_drop_id set_append)
  from take_sorted_le [OF ranked_facts(4) [OF wf] taken this]
  have "(ck_revision k = active, r) \<le> (ck_revision k' = active, r')" by simp
  moreover have "r \<noteq> r'"
  proof
    assume "r = r'"
    moreover have "inj_on snd (set (dc_recency c))"
      using fresh by (simp add: counters_fresh_def distinct_map)
    ultimately have "k = k'"
      using map_of_SomeD [OF k] map_of_SomeD [OF k'] by (force dest: inj_onD [of snd _ "(k, r)" "(k', r')"])
    with drop keep show False by simp
  qed
  ultimately show ?thesis by auto
qed

text \<open>Two caches that differ only in the order in which their tables are visited.\<close>

definition same_tables :: "display_cache \<Rightarrow> display_cache \<Rightarrow> bool" where
  "same_tables c d =
     (mset (dc_entries d) = mset (dc_entries c) \<and> mset (dc_recency d) = mset (dc_recency c))"

lemma eviction_ignores_order:
  assumes wf: "cache_wf c" and fresh: "counters_fresh c" and same: "same_tables c d"
  shows "map_of (dc_entries (fst (evict_for_memory_pressure active capacity d))) =
    map_of (dc_entries (fst (evict_for_memory_pressure active capacity c)))"
proof -
  have tables: "set (dc_entries d) = set (dc_entries c)" "length (dc_entries d) = length (dc_entries c)"
    using same unfolding same_tables_def by (metis mset_eq_setD) (metis mset_eq_length same same_tables_def)
  have "distinct (map fst (dc_entries d))"
    using same wf unfolding same_tables_def cache_wf_def by (metis mset_eq_imp_distinct_iff mset_map)
  then have maps: "map_of (dc_entries d) = map_of (dc_entries c)"
    using wf tables(1) unfolding cache_wf_def by (simp add: map_of_inject_set)
  have "inj_on (\<lambda>(k, r). (ck_revision k = active, r)) (set (dc_recency d))"
  proof -
    have "inj_on snd (set (dc_recency c))" using fresh by (simp add: counters_fresh_def distinct_map)
    moreover have "set (dc_recency d) = set (dc_recency c)"
      using same unfolding same_tables_def by (metis mset_eq_setD)
    ultimately show ?thesis by (force simp: inj_on_def)
  qed
  then have "ranked active d = ranked active c"
    using same unfolding ranked_def same_tables_def by (intro sort_key_inj_key_eq) simp_all
  with tables(2) maps show ?thesis
    by (simp add: evict_for_memory_pressure_def Let_def remove_keys_filter map_of_filter_keys fun_eq_iff)
qed

text \<open>
  With fewer than \<open>2 ^ 64\<close> calls so far, memory pressure leaves exactly the capacity (or
  everything, when that is less), reports the numbers truthfully and alters no frame that stays.
  Every evicted entry ranks before every kept one: entries of the active revision go last, and of
  two entries of the same kind the one used longer ago goes first.  The order in which the hash
  maps are visited makes no difference.
\<close>
theorem eviction_keeps_newest:
  assumes "length calls < 2 ^ 64" and c: "c = foldl cache_step empty_cache calls"
    and e: "evict_for_memory_pressure active capacity c = (c', out)"
  shows "length (dc_entries c') = min capacity (length (dc_entries c)) \<and>
    io_retained out = length (dc_entries c') \<and>
    io_evicted out = length (dc_entries c) - length (dc_entries c') \<and>
    (\<forall>k f. map_of (dc_entries c') k = Some f \<longrightarrow> map_of (dc_entries c) k = Some f) \<and>
    (\<forall>k r k' r'. map_of (dc_recency c) k = Some r \<longrightarrow> map_of (dc_recency c) k' = Some r' \<longrightarrow>
       map_of (dc_entries c') k = None \<longrightarrow> map_of (dc_entries c') k' \<noteq> None \<longrightarrow>
       (ck_revision k = active, r) < (ck_revision k' = active, r')) \<and>
    (\<forall>d. same_tables c d \<longrightarrow>
       map_of (dc_entries (fst (evict_for_memory_pressure active capacity d))) = map_of (dc_entries c'))"
proof -
  have wf: "cache_wf c" unfolding c by (rule cache_run_wf [OF empty_cache_wf])
  have fresh: "counters_fresh c" unfolding c using run_fresh [OF assms(1)] by blast
  have c': "c' = fst (evict_for_memory_pressure active capacity c)" by (simp add: e)
  have size: "length (dc_entries c') = min capacity (length (dc_entries c))"
    using evicted_size [OF wf] c' by simp
  moreover have "io_retained out = length (dc_entries c')"
    using e by (auto simp: evict_for_memory_pressure_def outcome_def Let_def split: if_splits)
  moreover have "io_evicted out = length (dc_entries c) - length (dc_entries c')"
    using e size by (auto simp: evict_for_memory_pressure_def outcome_def Let_def split: if_splits)
  moreover have "map_of (dc_entries c') k = Some f \<Longrightarrow> map_of (dc_entries c) k = Some f" for k f
    using invalidate_retains [OF wf, of "MemoryPressure active capacity"] c'
    by (simp add: invalidate_def retain_keys_entries split: if_splits)
  ultimately show ?thesis
    using evicted_before_kept [OF wf fresh] eviction_ignores_order [OF wf fresh] unfolding c' by blast
qed

definition demo_projection :: "unit \<Rightarrow> unit viewport_request \<Rightarrow> viewport_diagnostic + viewport_frame"
where
  "demo_projection scene r =
     Inr \<lparr>vf_revision = vr_revision r, vf_generation = vr_generation r, vf_width = vr_width r,
       vf_height = vr_height r, vf_rgb = show_nat (nat (cam_yaw (vr_camera r))),
       vf_frame_token = None\<rparr>"

definition demo_lookup :: "string \<Rightarrow> int \<Rightarrow> camera_state \<Rightarrow> (unit, unit) lookup" where
  "demo_lookup revision generation camera =
     \<lparr>lk_scene = (),
      lk_request = \<lparr>vr_revision = revision, vr_generation = generation, vr_width = 4, vr_height = 4,
        vr_camera = camera, vr_colors = ()\<rparr>,
      lk_worker_fingerprint = \<lparr>wf_worker_kind = ''occt'', wf_worker_schema_version = ''1'',
        wf_protocol_schema_version = ''1''\<rparr>,
      lk_layer1_reference = ''derived-abc'', lk_quality_level = 0, lk_selection_fingerprint = [],
      lk_preview_scope = None\<rparr>"

definition demo_calls :: "(unit, unit) cache_call list" where
  "demo_calls =
     [Lookup demo_projection (demo_lookup ''r1'' 1 default_camera),
      Lookup demo_projection (demo_lookup ''r2'' 2 default_camera),
      Lookup demo_projection (demo_lookup ''r1'' 3 default_camera)]"

definition demo_cache :: display_cache where
  "demo_cache = foldl cache_step empty_cache demo_calls"

lemma demo_eviction: "length (dc_entries demo_cache) = 2"
  by code_simp

theorem eviction_keeps_newest_witness:
  "length (dc_entries (fst (evict_for_memory_pressure ''r2'' 1 demo_cache))) = 1"
proof -
  have "length demo_calls < 2 ^ 64" by (simp add: demo_calls_def)
  from eviction_keeps_newest [OF this demo_cache_def, of "''r2''" 1]
  have "length (dc_entries (fst (evict_for_memory_pressure ''r2'' 1 demo_cache))) =
      min 1 (length (dc_entries demo_cache))"
    by (metis prod.collapse)
  then show ?thesis using demo_eviction by simp
qed

section \<open>What a key leaves out\<close>

definition camera_ok :: "camera_state \<Rightarrow> bool" where
  "camera_ok c = (0 \<le> cam_yaw c \<and> cam_yaw c < 360 \<and> - 89 \<le> cam_pitch c \<and> cam_pitch c \<le> 89)"

lemma new_camera_ok: "camera_ok (new_camera yaw pitch zoom)"
  by (simp add: camera_ok_def new_camera_def normalize_yaw_def clamp_def)

lemma camera_ops_ok:
  "camera_ok (rotated c x y)" "camera_ok c \<Longrightarrow> camera_ok (panned c x y)"
  "camera_ok c \<Longrightarrow> camera_ok (zoomed c d)"
  using new_camera_ok by (simp_all add: camera_ok_def rotated_def panned_def zoomed_def)

text \<open>The band before it is cut to a byte.\<close>

definition full_band :: "camera_state \<Rightarrow> int" where
  "full_band c = cam_yaw c div 15 * 13 + (cam_pitch c + 89) div 15"

lemma frustum_band_full:
  assumes "camera_ok c"
  shows "frustum_band_from_camera c = word_of_int (full_band c)"
proof -
  have pitch: "0 \<le> cam_pitch c + 89" "cam_pitch c + 89 \<le> 178" and yaw: "cam_yaw c mod 360 = cam_yaw c"
    using assms by (simp_all add: camera_ok_def)
  have "wrapping_add16 (cam_pitch c) 89 = cam_pitch c + 89"
    using pitch by (simp add: wrapping_add16_def)
  moreover have "(cam_pitch c + 89) sdiv 15 = (cam_pitch c + 89) div 15"
    using pitch by (simp add: signed_divide_int_def sgn_if)
  moreover have "clamp 0 11 ((cam_pitch c + 89) div 15) = (cam_pitch c + 89) div 15"
  proof -
    have "0 \<le> (cam_pitch c + 89) div 15 \<and> (cam_pitch c + 89) div 15 \<le> 11" using pitch by linarith
    then show ?thesis by (simp add: clamp_def)
  qed
  ultimately show ?thesis
    unfolding frustum_band_from_camera_def full_band_def Let_def yaw by simp
qed

lemma frustum_band_eq_iff:
  assumes "camera_ok c" "camera_ok d"
  shows "frustum_band_from_camera c = frustum_band_from_camera d \<longleftrightarrow>
    full_band c mod 256 = full_band d mod 256"
  unfolding frustum_band_full [OF assms(1)] frustum_band_full [OF assms(2)]
  by (simp add: word_of_int_eq_iff take_bit_eq_mod)

text \<open>
  After one lookup in an empty cache, a lookup that differs from it only in its scene,
  generation, colours and camera is a hit, and returns the first frame whatever its own projection
  would give, exactly when the two bands agree modulo 256.  Zoom and pan play no part, and the
  bands of views on different sides of the model can agree: there are 24 times 12 of them and the
  key holds one byte.
\<close>
theorem hit_from_another_view:
  assumes "\<not> is_excluded (lk_layer1_reference q) (lk_preview_scope q)"
    and "projection (lk_scene q) (lk_request q) = Inr f"
    and q': "q' = q\<lparr>lk_scene := scene,
      lk_request := (lk_request q)\<lparr>vr_generation := g, vr_camera := cam, vr_colors := colors\<rparr>\<rparr>"
    and cams: "camera_ok (vr_camera (lk_request q))" "camera_ok cam"
  shows "(\<exists>c. get_or_project projection' q' (fst (get_or_project projection q empty_cache)) =
      (c, Inr (f, True))) \<longleftrightarrow>
    full_band cam mod 256 = full_band (vr_camera (lk_request q)) mod 256"
proof -
  have first: "dc_entries (fst (get_or_project projection q empty_cache)) = [(lookup_key q, f)]"
    using assms(1,2) by (simp add: get_or_project_def empty_cache_def touch_def Let_def)
  have key: "lookup_key q' = lookup_key q \<longleftrightarrow>
      full_band cam mod 256 = full_band (vr_camera (lk_request q)) mod 256"
    using frustum_band_eq_iff [OF cams(2,1)] by (simp add: q' lookup_key_def)
  have "\<not> is_excluded (lk_layer1_reference q') (lk_preview_scope q')" using assms(1) by (simp add: q')
  then show ?thesis unfolding hit_iff first key [symmetric] by simp
qed

definition front_view :: camera_state where
  "front_view = new_camera 345 76 100"

definition back_view :: camera_state where
  "back_view = zoomed (new_camera 60 (- 59) 100) 300"

theorem hit_from_another_view_witness:
  "\<exists>c f. get_or_project demo_projection (demo_lookup ''r1'' 9 back_view)
       (fst (get_or_project demo_projection (demo_lookup ''r1'' 1 front_view) empty_cache)) =
       (c, Inr (f, True)) \<and> vf_rgb f = ''345'' \<and> vf_generation f = 1"
proof -
  let ?q = "demo_lookup ''r1'' 1 front_view" and ?q' = "demo_lookup ''r1'' 9 back_view"
  have q': "?q' = ?q\<lparr>lk_scene := (),
      lk_request := (lk_request ?q)\<lparr>vr_generation := 9, vr_camera := back_view, vr_colors := ()\<rparr>\<rparr>"
    by (simp add: demo_lookup_def)
  have no_marker: "\<not> is_excluded (lk_layer1_reference ?q) (lk_preview_scope ?q)" by code_simp
  have bands: "full_band back_view mod 256 = full_band (vr_camera (lk_request ?q)) mod 256" by code_simp
  have cams: "camera_ok (vr_camera (lk_request ?q))" "camera_ok back_view"
    by (simp_all add: demo_lookup_def front_view_def back_view_def new_camera_ok camera_ops_ok)
  have "vf_rgb (projr (demo_projection () (lk_request ?q))) = ''345''" by code_simp
  then obtain f where f: "demo_projection (lk_scene ?q) (lk_request ?q) = Inr f"
      "vf_rgb f = ''345''" "vf_generation f = 1"
    by (simp add: demo_projection_def demo_lookup_def)
  show ?thesis
    using hit_from_another_view [where q = ?q and q' = ?q' and projection = demo_projection and
          projection' = demo_projection and f = f,
        OF no_marker f(1) q' cams] bands f(2,3) by blast
qed

end
