(* ===== verification/Intents.thy ===== *)
theory Intents
  imports Sketch FrameCache
begin

text \<open>
  Canonical command intents of the persistence crate: the fifteen \<^verbatim>\<open>Canonical*Intent\<close>
  structs of \<^verbatim>\<open>src/crates/persistence/src/lib.rs\<close>, their \<^verbatim>\<open>validate\<close>
  methods and the accessors of the enum \<^verbatim>\<open>CanonicalIntent\<close>.  The six fields that every
  struct has are the record \<open>intent_base\<close>, which the other records extend; the
  \<^verbatim>\<open>deterministic_inputs\<close> of a struct is a record of its own where the struct has one.
  The hash function and the JSON of the edge evidence are the record \<open>intent_codecs\<close>; the
  deserializers that \<^verbatim>\<open>serde\<close> derives are the record \<open>intent_decoders\<close>.  The enum of
  the same name under \<^verbatim>\<open>cfg(any())\<close> is never compiled and is not modelled.
\<close>

section \<open>Errors and identities\<close>

text \<open>
  The variants of \<^verbatim>\<open>BundleError\<close> that intents, log entries, replay and the opening of a
  generation produce.  Where the source renders a worker identity as JSON, the model keeps the
  identity.
\<close>

datatype identity_value = ScalarIdentity string | WorkerIdentity worker_fingerprint

datatype log_error =
    ManifestMissing
  | LogMissing
  | SchemaGenerationUnsupported nat
  | LogDigestMismatch
  | LogBrokenLink nat string
  | Invalid string
  | ManifestFieldUnknown string string
  | CompatibilityIdentityMismatch string identity_value identity_value
  | CompatibilityIdentityMissing string
  | CanonicalFieldUnknown "nat option" string
  | CanonicalOperationUnknown "nat option" string
  | FeatureKindUnknown "nat option" string
  | CanonicalVersionUnsupported "nat option" string

definition extrude_schema :: string where "extrude_schema = ''threeterm.intent.extrude/2''"
definition legacy_extrude_schema :: string where
  "legacy_extrude_schema = ''threeterm.intent.extrude/1''"
definition revolve_schema :: string where "revolve_schema = ''threeterm.intent.revolve/1''"
definition mirror_schema :: string where "mirror_schema = ''threeterm.intent.mirror/1''"
definition linear_pattern_schema :: string where
  "linear_pattern_schema = ''threeterm.intent.linear-pattern/1''"
definition circular_pattern_schema :: string where
  "circular_pattern_schema = ''threeterm.intent.circular-pattern/1''"
definition hole_schema :: string where "hole_schema = ''threeterm.intent.hole/1''"
definition boolean_schema :: string where "boolean_schema = ''threeterm.intent.boolean/1''"
definition boolean_pattern_schema :: string where
  "boolean_pattern_schema = ''threeterm.intent.boolean-pattern/1''"
definition split_schema :: string where "split_schema = ''threeterm.intent.split/1''"
definition bracket_schema :: string where "bracket_schema = ''threeterm.intent.bracket/1''"
definition fillet_schema :: string where "fillet_schema = ''threeterm.intent.fillet/1''"
definition chamfer_schema :: string where "chamfer_schema = ''threeterm.intent.chamfer/1''"
definition shell_schema :: string where "shell_schema = ''threeterm.intent.shell/1''"
definition draft_schema :: string where "draft_schema = ''threeterm.intent.draft/1''"
definition loft_schema :: string where "loft_schema = ''threeterm.intent.loft/1''"

lemmas intent_schemas = extrude_schema_def legacy_extrude_schema_def revolve_schema_def
  mirror_schema_def linear_pattern_schema_def circular_pattern_schema_def hole_schema_def
  boolean_schema_def boolean_pattern_schema_def split_schema_def bracket_schema_def
  fillet_schema_def chamfer_schema_def shell_schema_def draft_schema_def loft_schema_def

definition occt_worker_identity :: worker_fingerprint where
  "occt_worker_identity =
     \<lparr>wf_worker_kind = ''occt'', wf_worker_schema_version = ''threeterm.workers.occt/1'',
      wf_protocol_schema_version = protocol_schema_identity\<rparr>"

section \<open>The data of the intents\<close>

record intent_base =
  ib_schema_version :: string
  ib_command :: string
  ib_request_id :: string
  ib_affected_semantic_ids :: "string list"
  ib_source_revision :: string
  ib_worker_requirements :: worker_fingerprint

record intent_edge_provenance =
  iep_source_feature_id :: string
  iep_source_revision_id :: string
  iep_source_edge_id :: string

record intent_edge_evidence =
  iee_midpoint :: vec3
  iee_tangent :: vec3
  iee_length :: f64

record canonical_edge_reference =
  cer_semantic_id :: string
  cer_provenance :: intent_edge_provenance
  cer_role :: string
  cer_evidence :: intent_edge_evidence

record fillet_intent = intent_base +
  fillet_operation :: string
  fillet_base_feature_id :: string
  fillet_selected_edge :: canonical_edge_reference
  fillet_edit_target :: "canonical_edge_reference option"
  fillet_radius :: f64

record chamfer_intent = intent_base +
  chamfer_operation :: string
  chamfer_base_feature_id :: string
  chamfer_selected_edge :: canonical_edge_reference
  chamfer_distance :: f64

record shell_intent = intent_base +
  shell_operation :: string
  shell_base_feature_id :: string
  shell_thickness :: f64

record draft_intent = intent_base +
  draft_operation :: string
  draft_base_feature_id :: string
  draft_angle :: f64
  draft_pull_direction :: vec3

record loft_intent = intent_base +
  loft_operation :: string
  loft_profiles :: "vec3 list list"
  loft_is_solid :: bool
  loft_ruled :: bool

record extrude_inputs =
  ei_profile :: "(f64 \<times> f64) list"
  ei_height :: f64

record extrude_intent = intent_base +
  extrude_operation :: string
  extrude_mode :: string
  extrude_target_feature_id :: "string option"
  extrude_inputs :: extrude_inputs

record revolve_inputs =
  ri_profile :: "(f64 \<times> f64) list"
  ri_axis_point :: vec3
  ri_axis_direction :: vec3
  ri_angle :: f64

record revolve_intent = intent_base +
  revolve_operation :: string
  revolve_inputs :: revolve_inputs

record mirror_inputs =
  mi_base_feature_id :: string
  mi_plane_point :: vec3
  mi_plane_normal :: vec3

record mirror_intent = intent_base +
  mirror_operation :: string
  mirror_inputs :: mirror_inputs

record linear_pattern_inputs =
  lpi_base_feature_id :: string
  lpi_direction :: vec3
  lpi_count :: int
  lpi_spacing :: f64

record linear_pattern_intent = intent_base +
  linear_pattern_operation :: string
  linear_pattern_inputs :: linear_pattern_inputs

record circular_pattern_inputs =
  cpi_base_feature_id :: string
  cpi_axis_point :: vec3
  cpi_axis_normal :: vec3
  cpi_angle_step :: f64
  cpi_count :: int

record circular_pattern_intent = intent_base +
  circular_pattern_operation :: string
  circular_pattern_inputs :: circular_pattern_inputs

record bracket_inputs =
  bi_length :: f64
  bi_width :: f64
  bi_height :: f64
  bi_thickness :: f64

record bracket_intent = intent_base +
  bracket_operation :: string
  bracket_inputs :: bracket_inputs

record hole_inputs =
  hi_position :: vec3
  hi_direction :: vec3
  hi_diameter :: f64
  hi_thread_designation :: "string option"
  hi_thread_pitch :: "f64 option"
  hi_thread_depth :: "f64 option"

record hole_intent = intent_base +
  hole_kind :: string
  hole_base_feature_id :: string
  hole_inputs :: hole_inputs

record boolean_intent = intent_base +
  boolean_operation :: string
  boolean_base_feature_id :: string
  boolean_tool_feature_id :: string

record boolean_pattern_inputs =
  bpi_origin :: vec3
  bpi_spacing :: "f64 \<times> f64"
  bpi_columns :: int
  bpi_rows :: int
  bpi_diameter :: f64

record boolean_pattern_intent = intent_base +
  boolean_pattern_operation :: string
  boolean_pattern_base_feature_id :: string
  boolean_pattern_inputs :: boolean_pattern_inputs

record split_intent = intent_base +
  split_operation :: string
  split_base_feature_id :: string
  split_selected_edge :: canonical_edge_reference
  split_edit_target :: "canonical_edge_reference option"
  split_plane_point :: vec3
  split_plane_normal :: vec3

section \<open>Parameters\<close>

text \<open>
  Code that is not under \<^verbatim>\<open>src/\<close>: SHA-256 in hexadecimal, and the JSON text of the
  triple of midpoint, tangent and length.
\<close>

record intent_codecs =
  sha256_hex :: "string \<Rightarrow> string"
  evidence_json :: "vec3 \<Rightarrow> vec3 \<Rightarrow> f64 \<Rightarrow> string"

section \<open>Helpers of the validators\<close>

text \<open>
  Every error of a validator is \<^verbatim>\<open>BundleError::Invalid\<close> with a message; the model
  carries the message.
\<close>

definition is_hex_digit :: "char \<Rightarrow> bool" where
  "is_hex_digit c =
     (let n = (of_char c :: nat) in (48 \<le> n \<and> n \<le> 57) \<or> (97 \<le> n \<and> n \<le> 102))"

definition valid_sha256 :: "string \<Rightarrow> bool" where
  "valid_sha256 value = (length value = 64 \<and> list_all is_hex_digit value)"

definition is_revision_hex :: "string \<Rightarrow> bool" where
  "is_revision_hex value = (length value = 64 \<and> list_all is_hex_digit value)"

definition valid_feature_path_component :: "string \<Rightarrow> bool" where
  "valid_feature_path_component value =
     (value \<noteq> [] \<and> list_all (\<lambda>c. is_ascii_alphanumeric c \<or> c \<in> set ''_-'') value)"

definition is_plain_feature_id :: "string \<Rightarrow> bool" where
  "is_plain_feature_id value =
     (value \<noteq> [] \<and> list_all (\<lambda>c. is_ascii_alphanumeric c \<or> c \<in> set ''_-'') value)"

definition is_finite_vec3 :: "vec3 \<Rightarrow> bool" where
  "is_finite_vec3 v = list_all f64_finite (v3 v)"

definition is_nonzero_vec3 :: "vec3 \<Rightarrow> bool" where
  "is_nonzero_vec3 v = (is_finite_vec3 v \<and> \<not> f64_eq (squares (v3 v)) (Fin 0))"

definition flatten_pairs :: "('a \<times> 'a) list \<Rightarrow> 'a list" where
  "flatten_pairs ps = concat (map (\<lambda>(a, b). [a, b]) ps)"

definition is_finite_profile :: "(f64 \<times> f64) list \<Rightarrow> bool" where
  "is_finite_profile ps = (3 \<le> length ps \<and> list_all f64_finite (flatten_pairs ps))"

definition giga :: f64 where "giga = f64_lit 1000000000"
definition mega :: f64 where "mega = f64_lit 1000000"

text \<open>\<^verbatim>\<open>FRAC_PI_2\<close> and \<^verbatim>\<open>TAU\<close> of the standard library.\<close>

definition frac_pi_2 :: f64 where
  "frac_pi_2 = f64_lit (157079632679489661923132169163975144 / 100000000000000000000000000000000000)"

definition tau :: f64 where
  "tau = f64_lit (628318530717958647692528676655900577 / 100000000000000000000000000000000000)"

definition open_range :: "f64 \<Rightarrow> f64 \<Rightarrow> bool" where
  "open_range x bound = (f64_finite x \<and> f64_lt (Fin 0) x \<and> f64_lt x bound)"

definition positive :: "f64 \<Rightarrow> bool" where
  "positive x = (f64_finite x \<and> \<not> f64_le x (Fin 0))"

definition occt_worker :: "worker_fingerprint \<Rightarrow> bool" where
  "occt_worker w =
     (wf_worker_kind w = ''occt'' \<and> wf_worker_schema_version w \<noteq> [] \<and>
      wf_protocol_schema_version w \<noteq> [])"

definition validate_intent_impact ::
  "string list \<Rightarrow> string \<Rightarrow> string option \<Rightarrow> string \<Rightarrow> worker_fingerprint \<Rightarrow> string
     \<Rightarrow> string + unit" where
  "validate_intent_impact affected feature_id dependency revision worker kind =
     and_then
       (case dependency of
          Some d \<Rightarrow>
            if d = [] then Inl (''canonical '' @ kind @ '' dependency is invalid'')
            else if \<not> is_plain_feature_id feature_id \<or> \<not> is_plain_feature_id d then
              Inl (''canonical '' @ kind @ '' semantic reference is invalid'')
            else Inr [feature_id, d]
        | None \<Rightarrow>
            if is_plain_feature_id feature_id then Inr [feature_id]
            else Inl (''canonical '' @ kind @ '' semantic reference is invalid''))
       (\<lambda>expected.
          and_then (ensure (affected = expected \<and> is_revision_hex revision)
             (''canonical '' @ kind @
                       '' semantic impact or source revision is invalid''))
          (\<lambda>_. ensure (occt_worker worker)
             (''canonical '' @ kind @ '' worker requirements are invalid'')))"

definition validate_common_operation ::
  "'a intent_base_scheme \<Rightarrow> string \<Rightarrow> string \<Rightarrow> string \<Rightarrow> string + unit" where
  "validate_common_operation i expected operation feature_id =
     ensure
       (ib_schema_version i = expected \<and> ib_request_id i \<noteq> [] \<and>
        ib_affected_semantic_ids i = [feature_id] \<and> valid_sha256 (ib_source_revision i) \<and>
        occt_worker (ib_worker_requirements i))
       (''canonical '' @ ib_command i @ '' '' @ operation @ '' intent metadata is invalid'')"

definition validate_solid_operation ::
  "'a intent_base_scheme \<Rightarrow> string \<Rightarrow> string \<Rightarrow> string \<Rightarrow> string \<Rightarrow> string + unit" where
  "validate_solid_operation i expected operation base_id feature_id =
     and_then (validate_common_operation i expected operation feature_id)
     (\<lambda>_. ensure (ib_command i = operation \<and> base_id \<noteq> [])
        (''canonical '' @ ib_command i @ '' base feature is missing''))"

definition validate_edge_operation ::
  "'c intent_codecs_scheme \<Rightarrow> 'a intent_base_scheme \<Rightarrow> string \<Rightarrow> string \<Rightarrow> string
     \<Rightarrow> canonical_edge_reference \<Rightarrow> string \<Rightarrow> string + unit" where
  "validate_edge_operation cd i expected operation base_id edge feature_id =
     (let provenance = cer_provenance edge; evidence = cer_evidence edge;
          midpoint = iee_midpoint evidence; tangent = iee_tangent evidence;
          len = iee_length evidence in
      and_then (validate_solid_operation i expected operation base_id feature_id)
      (\<lambda>_. ensure
         (iep_source_feature_id provenance = base_id \<and>
          iep_source_revision_id provenance = ib_source_revision i \<and>
          cer_semantic_id edge \<noteq> [] \<and> iep_source_edge_id provenance \<noteq> [] \<and> cer_role edge \<noteq> [] \<and>
          list_all f64_finite (v3 midpoint) \<and>
          list_all (\<lambda>x. \<not> f64_lt giga (f64_abs x)) (v3 midpoint) \<and>
          list_all f64_finite (v3 tangent) \<and>
          \<not> f64_le (squares (v3 tangent)) f64_epsilon \<and>
          open_range len giga \<and>
          cer_semantic_id edge = ''edge-'' @ sha256_hex cd (evidence_json cd midpoint tangent len))
         (''canonical '' @ ib_command i @ '' selected edge is invalid'')))"

text \<open>The closure \<^verbatim>\<open>valid_edge\<close> of the fillet and the split validators.\<close>

definition valid_edge :: "string \<Rightarrow> string \<Rightarrow> canonical_edge_reference \<Rightarrow> bool" where
  "valid_edge base_id revision edge =
     (let provenance = cer_provenance edge; evidence = cer_evidence edge;
          tangent_norm = squares (v3 (iee_tangent evidence)) in
      iep_source_feature_id provenance = base_id \<and>
      iep_source_revision_id provenance = revision \<and>
      cer_semantic_id edge \<noteq> [] \<and> iep_source_edge_id provenance \<noteq> [] \<and> cer_role edge \<noteq> [] \<and>
      list_all f64_finite (v3 (iee_midpoint evidence)) \<and>
      list_all f64_finite (v3 (iee_tangent evidence)) \<and>
      list_all (\<lambda>x. f64_le (f64_abs x) giga) (v3 (iee_midpoint evidence)) \<and>
      f64_finite (iee_length evidence) \<and> f64_lt (Fin 0) (iee_length evidence) \<and>
      f64_lt (iee_length evidence) giga \<and>
      f64_finite tangent_norm \<and> f64_lt f64_epsilon tangent_norm)"

section \<open>Validation\<close>

definition validate_fillet :: "fillet_intent \<Rightarrow> string \<Rightarrow> string + unit" where
  "validate_fillet i feature_id =
     and_then (ensure
       (ib_schema_version i = fillet_schema \<and> ib_command i = ''fillet'' \<and>
        fillet_operation i = ''fillet'' \<and> fillet_base_feature_id i \<noteq> [] \<and> ib_request_id i \<noteq> [] \<and>
        open_range (fillet_radius i) mega)
       ''canonical fillet intent identity or parameter is invalid'')
     (\<lambda>_. and_then (ensure
       (ib_affected_semantic_ids i = [feature_id] \<and> valid_sha256 (ib_source_revision i) \<and>
        iep_source_feature_id (cer_provenance (fillet_selected_edge i)) = fillet_base_feature_id i \<and>
        iep_source_revision_id (cer_provenance (fillet_selected_edge i)) = ib_source_revision i)
       ''canonical fillet semantic impact or dependency is invalid'')
     (\<lambda>_. and_then (ensure
       (valid_edge (fillet_base_feature_id i) (ib_source_revision i) (fillet_selected_edge i) \<and>
        (case fillet_edit_target i of None \<Rightarrow> True
         | Some edge \<Rightarrow> valid_edge (fillet_base_feature_id i) (ib_source_revision i) edge))
       ''canonical fillet selected edge evidence is invalid'')
     (\<lambda>_. ensure (occt_worker (ib_worker_requirements i))
       ''canonical fillet worker requirements are invalid'')))"

definition validate_chamfer :: "'c intent_codecs_scheme \<Rightarrow> chamfer_intent \<Rightarrow> string \<Rightarrow> string + unit" where
  "validate_chamfer cd i feature_id =
     and_then (validate_edge_operation cd i chamfer_schema ''chamfer'' (chamfer_base_feature_id i)
                 (chamfer_selected_edge i) feature_id)
     (\<lambda>_. ensure (open_range (chamfer_distance i) mega)
        ''canonical chamfer distance is invalid'')"

definition validate_shell :: "shell_intent \<Rightarrow> string \<Rightarrow> string + unit" where
  "validate_shell i feature_id =
     and_then (validate_solid_operation i shell_schema ''shell'' (shell_base_feature_id i) feature_id)
     (\<lambda>_. ensure (open_range (shell_thickness i) mega)
        ''canonical shell thickness is invalid'')"

definition validate_draft :: "draft_intent \<Rightarrow> string \<Rightarrow> string + unit" where
  "validate_draft i feature_id =
     and_then (validate_solid_operation i draft_schema ''draft'' (draft_base_feature_id i) feature_id)
     (\<lambda>_. let norm = squares (v3 (draft_pull_direction i)) in
        ensure
          (open_range (draft_angle i) frac_pi_2 \<and>
           list_all f64_finite (v3 (draft_pull_direction i)) \<and>
           list_all (\<lambda>x. \<not> f64_lt giga (f64_abs x)) (v3 (draft_pull_direction i)) \<and>
           f64_finite norm \<and> \<not> f64_le norm f64_epsilon)
          ''canonical draft inputs are invalid'')"

definition loft_profile_ok :: "vec3 list \<Rightarrow> bool" where
  "loft_profile_ok profile =
     (3 \<le> length profile \<and> length profile \<le> 128 \<and>
      list_all (\<lambda>x. f64_finite x \<and> \<not> f64_lt giga (f64_abs x)) (concat (map v3 profile)) \<and>
      \<not> vec3_eq (hd profile) (last profile))"

definition validate_loft :: "loft_intent \<Rightarrow> string \<Rightarrow> string + unit" where
  "validate_loft i feature_id =
     and_then (validate_common_operation i loft_schema ''loft'' feature_id)
     (\<lambda>_. and_then (ensure (ib_command i = ''loft'' \<and> loft_operation i = ''loft'')
        ''canonical loft command identity is invalid'')
     (\<lambda>_. ensure
        (2 \<le> length (loft_profiles i) \<and> length (loft_profiles i) \<le> 32 \<and>
         list_all loft_profile_ok (loft_profiles i))
        ''canonical loft profiles are invalid''))"

definition validate_extrude :: "extrude_intent \<Rightarrow> string \<Rightarrow> string + unit" where
  "validate_extrude i feature_id =
     (let legacy = (ib_schema_version i = legacy_extrude_schema) in
      and_then (ensure
        ((ib_schema_version i = extrude_schema \<or> legacy) \<and> ib_command i = ''extrude'' \<and>
         extrude_operation i \<in> {''additive'', ''subtractive''} \<and> ib_request_id i \<noteq> [])
        ''canonical extrude intent identity is invalid'')
      (\<lambda>_. and_then
        (if extrude_mode i = [] then
           (if legacy then Inr (extrude_operation i)
            else Inl ''current canonical extrude intent must declare mode'')
         else if extrude_mode i \<noteq> extrude_operation i then
           Inl ''canonical extrude operation and mode do not match''
         else Inr (extrude_mode i))
      (\<lambda>mode. and_then (ensure
        (\<not> (mode = ''additive'' \<and> extrude_target_feature_id i \<noteq> None) \<and>
         \<not> (mode = ''subtractive'' \<and>
            (case extrude_target_feature_id i of None \<Rightarrow> True | Some target \<Rightarrow> target = [])) \<and>
         \<not> (legacy \<and> extrude_operation i \<noteq> ''additive''))
        ''canonical extrude mode and target do not match'')
      (\<lambda>_. and_then (ensure
        (3 \<le> length (ei_profile (extrude_inputs i)) \<and> positive (ei_height (extrude_inputs i)) \<and>
         list_all f64_finite (flatten_pairs (ei_profile (extrude_inputs i))))
        ''canonical extrude deterministic inputs are invalid'')
      (\<lambda>_. and_then (ensure
        (ib_affected_semantic_ids i = [feature_id] \<and> valid_sha256 (ib_source_revision i))
        ''canonical extrude semantic impact or source revision is invalid'')
      (\<lambda>_. ensure (occt_worker (ib_worker_requirements i))
        ''canonical extrude worker requirements are invalid''))))))"

definition validate_revolve :: "revolve_intent \<Rightarrow> string \<Rightarrow> string + unit" where
  "validate_revolve i feature_id =
     (let inputs = revolve_inputs i in
      and_then (ensure
        (ib_schema_version i = revolve_schema \<and> ib_command i = ''revolve'' \<and>
         revolve_operation i = ''revolve'' \<and> ib_request_id i \<noteq> [])
        ''canonical revolve intent identity is invalid'')
      (\<lambda>_. and_then (ensure
        (is_finite_profile (ri_profile inputs) \<and> is_finite_vec3 (ri_axis_point inputs) \<and>
         is_nonzero_vec3 (ri_axis_direction inputs) \<and> positive (ri_angle inputs))
        ''canonical revolve deterministic inputs are invalid'')
      (\<lambda>_. validate_intent_impact (ib_affected_semantic_ids i) feature_id None
        (ib_source_revision i) (ib_worker_requirements i) ''revolve'')))"

definition validate_mirror :: "mirror_intent \<Rightarrow> string \<Rightarrow> string + unit" where
  "validate_mirror i feature_id =
     (let inputs = mirror_inputs i in
      and_then (ensure
        (ib_schema_version i = mirror_schema \<and> ib_command i = ''mirror'' \<and>
         mirror_operation i = ''mirror'' \<and> ib_request_id i \<noteq> [])
        ''canonical mirror intent identity is invalid'')
      (\<lambda>_. and_then (ensure
        (mi_base_feature_id inputs \<noteq> [] \<and> is_finite_vec3 (mi_plane_point inputs) \<and>
         is_nonzero_vec3 (mi_plane_normal inputs))
        ''canonical mirror deterministic inputs are invalid'')
      (\<lambda>_. validate_intent_impact (ib_affected_semantic_ids i) feature_id
        (Some (mi_base_feature_id inputs)) (ib_source_revision i) (ib_worker_requirements i)
        ''mirror'')))"

definition validate_linear_pattern :: "linear_pattern_intent \<Rightarrow> string \<Rightarrow> string + unit" where
  "validate_linear_pattern i feature_id =
     (let inputs = linear_pattern_inputs i in
      and_then (ensure
        (ib_schema_version i = linear_pattern_schema \<and> ib_command i = ''linear-pattern'' \<and>
         linear_pattern_operation i = ''linear-pattern'' \<and> ib_request_id i \<noteq> [])
        ''canonical linear pattern intent identity is invalid'')
      (\<lambda>_. and_then (ensure
        (lpi_base_feature_id inputs \<noteq> [] \<and> is_nonzero_vec3 (lpi_direction inputs) \<and>
         1 \<le> lpi_count inputs \<and> positive (lpi_spacing inputs))
        ''canonical linear pattern deterministic inputs are invalid'')
      (\<lambda>_. validate_intent_impact (ib_affected_semantic_ids i) feature_id
        (Some (lpi_base_feature_id inputs)) (ib_source_revision i) (ib_worker_requirements i)
        ''linear pattern'')))"

definition validate_circular_pattern :: "circular_pattern_intent \<Rightarrow> string \<Rightarrow> string + unit" where
  "validate_circular_pattern i feature_id =
     (let inputs = circular_pattern_inputs i in
      and_then (ensure
        (ib_schema_version i = circular_pattern_schema \<and> ib_command i = ''circular-pattern'' \<and>
         circular_pattern_operation i = ''circular-pattern'' \<and> ib_request_id i \<noteq> [])
        ''canonical circular pattern intent identity is invalid'')
      (\<lambda>_. and_then (ensure
        (cpi_base_feature_id inputs \<noteq> [] \<and> is_finite_vec3 (cpi_axis_point inputs) \<and>
         is_nonzero_vec3 (cpi_axis_normal inputs) \<and> positive (cpi_angle_step inputs) \<and>
         \<not> f64_lt tau (cpi_angle_step inputs) \<and> 1 \<le> cpi_count inputs)
        ''canonical circular pattern deterministic inputs are invalid'')
      (\<lambda>_. validate_intent_impact (ib_affected_semantic_ids i) feature_id
        (Some (cpi_base_feature_id inputs)) (ib_source_revision i) (ib_worker_requirements i)
        ''circular pattern'')))"

text \<open>
  The format \<^verbatim>\<open>{:.17}\<close>: the exact decimal expansion of a finite value, rounded to
  seventeen places with ties to even; the sign of a negative zero is printed.
\<close>

definition pad_left :: "nat \<Rightarrow> string \<Rightarrow> string" where
  "pad_left n s = replicate (n - length s) CHR ''0'' @ s"

definition fixed17_magnitude :: "rat \<Rightarrow> string" where
  "fixed17_magnitude q =
     (let n = nat (round_half_even (q * 100000000000000000)) in
      show_nat (n div 100000000000000000) @ ''.'' @
      pad_left 17 (show_nat (n mod 100000000000000000)))"

definition fixed17 :: "f64 \<Rightarrow> string" where
  "fixed17 x =
     (if x = NaN then ''NaN''
      else (if f64_negative x then ''-'' else []) @
        (if f64_finite x then fixed17_magnitude \<bar>f64_value x\<bar> else ''inf''))"

definition canonical_bracket_request_id ::
  "'c intent_codecs_scheme \<Rightarrow> string \<Rightarrow> bracket_inputs \<Rightarrow> string" where
  "canonical_bracket_request_id cd feature_id inputs =
     ''bracket-'' @ sha256_hex cd
       (''bracket:'' @ feature_id @ '';length='' @ fixed17 (bi_length inputs) @
        '';width='' @ fixed17 (bi_width inputs) @ '';height='' @ fixed17 (bi_height inputs) @
        '';thickness='' @ fixed17 (bi_thickness inputs))"

definition bracket_affected_ids :: "string \<Rightarrow> string list" where
  "bracket_affected_ids feature_id =
     [feature_id, feature_id @ ''-base'', feature_id @ ''-bend'', feature_id @ ''-finish'',
      feature_id @ ''-independent-base'', feature_id @ ''-independent-finish'']"

definition validate_bracket :: "'c intent_codecs_scheme \<Rightarrow> bracket_intent \<Rightarrow> string \<Rightarrow> string + unit" where
  "validate_bracket cd i feature_id =
     (let inputs = bracket_inputs i in
      and_then (ensure
        (ib_schema_version i = bracket_schema \<and> ib_command i = ''bracket'' \<and>
         bracket_operation i = ''bracket'' \<and> ib_request_id i \<noteq> [])
        ''canonical bracket intent identity is invalid'')
      (\<lambda>_. and_then (ensure
        (positive (bi_length inputs) \<and> positive (bi_width inputs) \<and> positive (bi_height inputs) \<and>
         positive (bi_thickness inputs) \<and>
         \<not> f64_le (bi_length inputs) (bi_thickness inputs) \<and>
         \<not> f64_le (bi_width inputs) (bi_thickness inputs))
        ''canonical bracket deterministic inputs are invalid'')
      (\<lambda>_. and_then (ensure (ib_affected_semantic_ids i = bracket_affected_ids feature_id)
        ''canonical bracket semantic impact is invalid'')
      (\<lambda>_. and_then (ensure
        (valid_feature_path_component feature_id \<and>
         ib_request_id i = canonical_bracket_request_id cd feature_id inputs)
        ''canonical bracket request identity is invalid'')
      (\<lambda>_. validate_intent_impact [feature_id] feature_id None (ib_source_revision i)
        (ib_worker_requirements i) ''bracket'')))))"

definition validate_hole :: "hole_intent \<Rightarrow> string \<Rightarrow> string + unit" where
  "validate_hole i feature_id =
     (let inputs = hole_inputs i in
      and_then (ensure
        (ib_schema_version i = hole_schema \<and> ib_command i = ''hole'' \<and>
         hole_kind i \<in> {''drilled'', ''tapped''} \<and> ib_request_id i \<noteq> [] \<and>
         hole_base_feature_id i \<noteq> [])
        ''canonical hole intent identity is invalid'')
      (\<lambda>_. and_then (ensure
        (list_all f64_finite (v3 (hi_position inputs)) \<and>
         list_all f64_finite (v3 (hi_direction inputs)))
        ''canonical hole deterministic placement is invalid'')
      (\<lambda>_. and_then (ensure (\<not> f64_le (squares (v3 (hi_direction inputs))) f64_epsilon)
        ''canonical hole direction must be a non-zero vector'')
      (\<lambda>_. and_then (ensure (positive (hi_diameter inputs))
        ''canonical hole deterministic inputs are invalid'')
      (\<lambda>_. and_then
        (if hole_kind i = ''tapped'' then
           and_then (ensure
             (hi_thread_designation inputs \<notin> {None, Some []} \<and>
              positive (case hi_thread_pitch inputs of Some p \<Rightarrow> p | None \<Rightarrow> Fin 0))
             ''canonical tapped hole thread designation and pitch are invalid'')
           (\<lambda>_. ensure (positive (case hi_thread_depth inputs of Some d \<Rightarrow> d | None \<Rightarrow> Fin 0))
             ''canonical tapped hole thread depth is invalid'')
         else ensure
           (hi_thread_designation inputs = None \<and> hi_thread_pitch inputs = None \<and>
            hi_thread_depth inputs = None)
           ''canonical drilled hole must not carry thread metadata'')
      (\<lambda>_. and_then (ensure
        (ib_affected_semantic_ids i = [feature_id] \<and> valid_sha256 (ib_source_revision i))
        ''canonical hole semantic impact or source revision is invalid'')
      (\<lambda>_. ensure (occt_worker (ib_worker_requirements i))
        ''canonical hole worker requirements are invalid'')))))))"

definition validate_boolean :: "boolean_intent \<Rightarrow> string \<Rightarrow> string + unit" where
  "validate_boolean i feature_id =
     and_then (ensure
       (ib_schema_version i = boolean_schema \<and> ib_command i = ''boolean'' \<and>
        boolean_operation i \<in> {''fuse'', ''cut'', ''common''} \<and> ib_request_id i \<noteq> [] \<and>
        boolean_base_feature_id i \<noteq> [] \<and> boolean_tool_feature_id i \<noteq> [])
       ''canonical boolean intent identity is invalid'')
     (\<lambda>_. and_then (ensure
       (ib_affected_semantic_ids i = [feature_id] \<and> valid_sha256 (ib_source_revision i))
       ''canonical boolean semantic impact or source revision is invalid'')
     (\<lambda>_. ensure (occt_worker (ib_worker_requirements i))
       ''canonical boolean worker requirements are invalid''))"

definition validate_boolean_pattern :: "boolean_pattern_intent \<Rightarrow> string \<Rightarrow> string + unit" where
  "validate_boolean_pattern i feature_id =
     (let inputs = boolean_pattern_inputs i in
      and_then (ensure
        (ib_schema_version i = boolean_pattern_schema \<and> ib_command i = ''boolean-pattern'' \<and>
         boolean_pattern_operation i = ''boolean-pattern'' \<and>
         boolean_pattern_base_feature_id i \<noteq> [] \<and> ib_request_id i \<noteq> [] \<and>
         list_all (\<lambda>x. f64_finite x \<and> f64_lt (f64_abs x) giga) (v3 (bpi_origin inputs)) \<and>
         open_range (fst (bpi_spacing inputs)) giga \<and> open_range (snd (bpi_spacing inputs)) giga \<and>
         1 \<le> bpi_columns inputs \<and> bpi_columns inputs \<le> 1000 \<and>
         1 \<le> bpi_rows inputs \<and> bpi_rows inputs \<le> 1000 \<and> open_range (bpi_diameter inputs) giga)
        ''canonical Boolean Pattern intent identity or parameters are invalid'')
      (\<lambda>_. and_then (ensure
        (ib_affected_semantic_ids i = [feature_id] \<and> valid_sha256 (ib_source_revision i))
        ''canonical Boolean Pattern semantic impact or source revision is invalid'')
      (\<lambda>_. ensure (occt_worker (ib_worker_requirements i))
        ''canonical Boolean Pattern worker requirements are invalid'')))"

definition validate_split :: "split_intent \<Rightarrow> string \<Rightarrow> string + unit" where
  "validate_split i feature_id =
     and_then (ensure
       (ib_schema_version i = split_schema \<and> ib_command i = ''split'' \<and>
        split_operation i = ''split'' \<and> split_base_feature_id i \<noteq> [] \<and> ib_request_id i \<noteq> [] \<and>
        ib_affected_semantic_ids i = [feature_id] \<and> valid_sha256 (ib_source_revision i) \<and>
        valid_edge (split_base_feature_id i) (ib_source_revision i) (split_selected_edge i) \<and>
        (case split_edit_target i of None \<Rightarrow> True
         | Some edge \<Rightarrow> valid_edge (split_base_feature_id i) (ib_source_revision i) edge))
       ''canonical split intent identity or edge reference is invalid'')
     (\<lambda>_. and_then (ensure
       (list_all (\<lambda>x. f64_finite x \<and> f64_lt (f64_abs x) giga)
          (v3 (split_plane_point i) @ v3 (split_plane_normal i)) \<and>
        f64_finite (squares (v3 (split_plane_normal i))) \<and>
        \<not> f64_le (squares (v3 (split_plane_normal i))) f64_epsilon)
       ''canonical split plane is invalid'')
     (\<lambda>_. ensure (occt_worker (ib_worker_requirements i))
       ''canonical split worker requirements are invalid''))"

section \<open>The enum of intents\<close>

datatype canonical_intent =
    Extrude extrude_intent
  | Revolve revolve_intent
  | Mirror mirror_intent
  | LinearPattern linear_pattern_intent
  | CircularPattern circular_pattern_intent
  | Bracket bracket_intent
  | Boolean boolean_intent
  | BooleanPattern boolean_pattern_intent
  | Split split_intent
  | Hole hole_intent
  | Fillet fillet_intent
  | Chamfer chamfer_intent
  | Shell shell_intent
  | Draft draft_intent
  | Loft loft_intent

text \<open>
  Decoding looks at the string field \<^verbatim>\<open>command\<close> of a JSON value and hands the value to
  the deserializer of that command.
\<close>

record 'j intent_decoders =
  json_command :: "'j \<Rightarrow> string option"
  decode_extrude :: "'j \<Rightarrow> string + extrude_intent"
  decode_revolve :: "'j \<Rightarrow> string + revolve_intent"
  decode_mirror :: "'j \<Rightarrow> string + mirror_intent"
  decode_linear_pattern :: "'j \<Rightarrow> string + linear_pattern_intent"
  decode_circular_pattern :: "'j \<Rightarrow> string + circular_pattern_intent"
  decode_bracket :: "'j \<Rightarrow> string + bracket_intent"
  decode_boolean :: "'j \<Rightarrow> string + boolean_intent"
  decode_boolean_pattern :: "'j \<Rightarrow> string + boolean_pattern_intent"
  decode_split :: "'j \<Rightarrow> string + split_intent"
  decode_hole :: "'j \<Rightarrow> string + hole_intent"
  decode_fillet :: "'j \<Rightarrow> string + fillet_intent"
  decode_chamfer :: "'j \<Rightarrow> string + chamfer_intent"
  decode_shell :: "'j \<Rightarrow> string + shell_intent"
  decode_draft :: "'j \<Rightarrow> string + draft_intent"
  decode_loft :: "'j \<Rightarrow> string + loft_intent"

definition deserialize_intent :: "'j intent_decoders \<Rightarrow> 'j \<Rightarrow> string + canonical_intent" where
  "deserialize_intent d value =
     (case json_command d value of
        None \<Rightarrow> Inl ''canonical intent command is missing''
      | Some command \<Rightarrow>
          if command = ''extrude'' then and_then (decode_extrude d value) (Inr \<circ> Extrude)
          else if command = ''revolve'' then and_then (decode_revolve d value) (Inr \<circ> Revolve)
          else if command = ''mirror'' then and_then (decode_mirror d value) (Inr \<circ> Mirror)
          else if command = ''linear-pattern'' then and_then (decode_linear_pattern d value) (Inr \<circ> LinearPattern)
          else if command = ''circular-pattern'' then and_then (decode_circular_pattern d value) (Inr \<circ> CircularPattern)
          else if command = ''bracket'' then and_then (decode_bracket d value) (Inr \<circ> Bracket)
          else if command = ''boolean'' then and_then (decode_boolean d value) (Inr \<circ> Boolean)
          else if command = ''boolean-pattern'' then and_then (decode_boolean_pattern d value) (Inr \<circ> BooleanPattern)
          else if command = ''split'' then and_then (decode_split d value) (Inr \<circ> Split)
          else if command = ''hole'' then and_then (decode_hole d value) (Inr \<circ> Hole)
          else if command = ''fillet'' then and_then (decode_fillet d value) (Inr \<circ> Fillet)
          else if command = ''chamfer'' then and_then (decode_chamfer d value) (Inr \<circ> Chamfer)
          else if command = ''shell'' then and_then (decode_shell d value) (Inr \<circ> Shell)
          else if command = ''draft'' then and_then (decode_draft d value) (Inr \<circ> Draft)
          else if command = ''loft'' then and_then (decode_loft d value) (Inr \<circ> Loft)
          else Inl (''unknown canonical intent command: '' @ command))"

fun intent_command :: "canonical_intent \<Rightarrow> string" where
  "intent_command (Extrude i) = ib_command i"
| "intent_command (Revolve i) = ib_command i"
| "intent_command (Mirror i) = ib_command i"
| "intent_command (LinearPattern i) = ib_command i"
| "intent_command (CircularPattern i) = ib_command i"
| "intent_command (Bracket i) = ib_command i"
| "intent_command (Boolean i) = ib_command i"
| "intent_command (BooleanPattern i) = ib_command i"
| "intent_command (Split i) = ib_command i"
| "intent_command (Hole i) = ib_command i"
| "intent_command (Fillet i) = ib_command i"
| "intent_command (Chamfer i) = ib_command i"
| "intent_command (Shell i) = ib_command i"
| "intent_command (Draft i) = ib_command i"
| "intent_command (Loft i) = ib_command i"

fun intent_operation :: "canonical_intent \<Rightarrow> string" where
  "intent_operation (Extrude i) = extrude_operation i"
| "intent_operation (Revolve i) = revolve_operation i"
| "intent_operation (Mirror i) = mirror_operation i"
| "intent_operation (LinearPattern i) = linear_pattern_operation i"
| "intent_operation (CircularPattern i) = circular_pattern_operation i"
| "intent_operation (Bracket i) = bracket_operation i"
| "intent_operation (Boolean i) = boolean_operation i"
| "intent_operation (BooleanPattern i) = boolean_pattern_operation i"
| "intent_operation (Split i) = split_operation i"
| "intent_operation (Hole i) = hole_kind i"
| "intent_operation (Fillet i) = fillet_operation i"
| "intent_operation (Chamfer i) = chamfer_operation i"
| "intent_operation (Shell i) = shell_operation i"
| "intent_operation (Draft i) = draft_operation i"
| "intent_operation (Loft i) = loft_operation i"

fun intent_schema_version :: "canonical_intent \<Rightarrow> string" where
  "intent_schema_version (Extrude i) = ib_schema_version i"
| "intent_schema_version (Revolve i) = ib_schema_version i"
| "intent_schema_version (Mirror i) = ib_schema_version i"
| "intent_schema_version (LinearPattern i) = ib_schema_version i"
| "intent_schema_version (CircularPattern i) = ib_schema_version i"
| "intent_schema_version (Bracket i) = ib_schema_version i"
| "intent_schema_version (Boolean i) = ib_schema_version i"
| "intent_schema_version (BooleanPattern i) = ib_schema_version i"
| "intent_schema_version (Split i) = ib_schema_version i"
| "intent_schema_version (Hole i) = ib_schema_version i"
| "intent_schema_version (Fillet i) = ib_schema_version i"
| "intent_schema_version (Chamfer i) = ib_schema_version i"
| "intent_schema_version (Shell i) = ib_schema_version i"
| "intent_schema_version (Draft i) = ib_schema_version i"
| "intent_schema_version (Loft i) = ib_schema_version i"

fun intent_request_id :: "canonical_intent \<Rightarrow> string" where
  "intent_request_id (Extrude i) = ib_request_id i"
| "intent_request_id (Revolve i) = ib_request_id i"
| "intent_request_id (Mirror i) = ib_request_id i"
| "intent_request_id (LinearPattern i) = ib_request_id i"
| "intent_request_id (CircularPattern i) = ib_request_id i"
| "intent_request_id (Bracket i) = ib_request_id i"
| "intent_request_id (Boolean i) = ib_request_id i"
| "intent_request_id (BooleanPattern i) = ib_request_id i"
| "intent_request_id (Split i) = ib_request_id i"
| "intent_request_id (Hole i) = ib_request_id i"
| "intent_request_id (Fillet i) = ib_request_id i"
| "intent_request_id (Chamfer i) = ib_request_id i"
| "intent_request_id (Shell i) = ib_request_id i"
| "intent_request_id (Draft i) = ib_request_id i"
| "intent_request_id (Loft i) = ib_request_id i"

fun intent_affected_semantic_ids :: "canonical_intent \<Rightarrow> string list" where
  "intent_affected_semantic_ids (Extrude i) = ib_affected_semantic_ids i"
| "intent_affected_semantic_ids (Revolve i) = ib_affected_semantic_ids i"
| "intent_affected_semantic_ids (Mirror i) = ib_affected_semantic_ids i"
| "intent_affected_semantic_ids (LinearPattern i) = ib_affected_semantic_ids i"
| "intent_affected_semantic_ids (CircularPattern i) = ib_affected_semantic_ids i"
| "intent_affected_semantic_ids (Bracket i) = ib_affected_semantic_ids i"
| "intent_affected_semantic_ids (Boolean i) = ib_affected_semantic_ids i"
| "intent_affected_semantic_ids (BooleanPattern i) = ib_affected_semantic_ids i"
| "intent_affected_semantic_ids (Split i) = ib_affected_semantic_ids i"
| "intent_affected_semantic_ids (Hole i) = ib_affected_semantic_ids i"
| "intent_affected_semantic_ids (Fillet i) = ib_affected_semantic_ids i"
| "intent_affected_semantic_ids (Chamfer i) = ib_affected_semantic_ids i"
| "intent_affected_semantic_ids (Shell i) = ib_affected_semantic_ids i"
| "intent_affected_semantic_ids (Draft i) = ib_affected_semantic_ids i"
| "intent_affected_semantic_ids (Loft i) = ib_affected_semantic_ids i"

fun intent_source_revision :: "canonical_intent \<Rightarrow> string" where
  "intent_source_revision (Extrude i) = ib_source_revision i"
| "intent_source_revision (Revolve i) = ib_source_revision i"
| "intent_source_revision (Mirror i) = ib_source_revision i"
| "intent_source_revision (LinearPattern i) = ib_source_revision i"
| "intent_source_revision (CircularPattern i) = ib_source_revision i"
| "intent_source_revision (Bracket i) = ib_source_revision i"
| "intent_source_revision (Boolean i) = ib_source_revision i"
| "intent_source_revision (BooleanPattern i) = ib_source_revision i"
| "intent_source_revision (Split i) = ib_source_revision i"
| "intent_source_revision (Hole i) = ib_source_revision i"
| "intent_source_revision (Fillet i) = ib_source_revision i"
| "intent_source_revision (Chamfer i) = ib_source_revision i"
| "intent_source_revision (Shell i) = ib_source_revision i"
| "intent_source_revision (Draft i) = ib_source_revision i"
| "intent_source_revision (Loft i) = ib_source_revision i"

fun intent_worker_requirements :: "canonical_intent \<Rightarrow> worker_fingerprint" where
  "intent_worker_requirements (Extrude i) = ib_worker_requirements i"
| "intent_worker_requirements (Revolve i) = ib_worker_requirements i"
| "intent_worker_requirements (Mirror i) = ib_worker_requirements i"
| "intent_worker_requirements (LinearPattern i) = ib_worker_requirements i"
| "intent_worker_requirements (CircularPattern i) = ib_worker_requirements i"
| "intent_worker_requirements (Bracket i) = ib_worker_requirements i"
| "intent_worker_requirements (Boolean i) = ib_worker_requirements i"
| "intent_worker_requirements (BooleanPattern i) = ib_worker_requirements i"
| "intent_worker_requirements (Split i) = ib_worker_requirements i"
| "intent_worker_requirements (Hole i) = ib_worker_requirements i"
| "intent_worker_requirements (Fillet i) = ib_worker_requirements i"
| "intent_worker_requirements (Chamfer i) = ib_worker_requirements i"
| "intent_worker_requirements (Shell i) = ib_worker_requirements i"
| "intent_worker_requirements (Draft i) = ib_worker_requirements i"
| "intent_worker_requirements (Loft i) = ib_worker_requirements i"

fun base_reference :: "canonical_intent \<Rightarrow> string option" where
  "base_reference (Extrude i) = extrude_target_feature_id i"
| "base_reference (Revolve i) = None"
| "base_reference (Mirror i) = Some (mi_base_feature_id (mirror_inputs i))"
| "base_reference (LinearPattern i) = Some (lpi_base_feature_id (linear_pattern_inputs i))"
| "base_reference (CircularPattern i) = Some (cpi_base_feature_id (circular_pattern_inputs i))"
| "base_reference (Bracket i) = None"
| "base_reference (Boolean i) = Some (boolean_base_feature_id i)"
| "base_reference (BooleanPattern i) = Some (boolean_pattern_base_feature_id i)"
| "base_reference (Split i) = Some (split_base_feature_id i)"
| "base_reference (Hole i) = Some (hole_base_feature_id i)"
| "base_reference (Fillet i) = Some (fillet_base_feature_id i)"
| "base_reference (Chamfer i) = Some (chamfer_base_feature_id i)"
| "base_reference (Shell i) = Some (shell_base_feature_id i)"
| "base_reference (Draft i) = Some (draft_base_feature_id i)"
| "base_reference (Loft i) = None"

fun is_current_schema_version :: "canonical_intent \<Rightarrow> bool" where
  "is_current_schema_version (Extrude i) = (ib_schema_version i = extrude_schema)"
| "is_current_schema_version (Revolve i) = (ib_schema_version i = revolve_schema)"
| "is_current_schema_version (Mirror i) = (ib_schema_version i = mirror_schema)"
| "is_current_schema_version (LinearPattern i) = (ib_schema_version i = linear_pattern_schema)"
| "is_current_schema_version (CircularPattern i) = (ib_schema_version i = circular_pattern_schema)"
| "is_current_schema_version (Bracket i) = (ib_schema_version i = bracket_schema)"
| "is_current_schema_version (Boolean i) = (ib_schema_version i = boolean_schema)"
| "is_current_schema_version (BooleanPattern i) = (ib_schema_version i = boolean_pattern_schema)"
| "is_current_schema_version (Split i) = (ib_schema_version i = split_schema)"
| "is_current_schema_version (Hole i) = (ib_schema_version i = hole_schema)"
| "is_current_schema_version (Fillet i) = (ib_schema_version i = fillet_schema)"
| "is_current_schema_version (Chamfer i) = (ib_schema_version i = chamfer_schema)"
| "is_current_schema_version (Shell i) = (ib_schema_version i = shell_schema)"
| "is_current_schema_version (Draft i) = (ib_schema_version i = draft_schema)"
| "is_current_schema_version (Loft i) = (ib_schema_version i = loft_schema)"

fun is_readable_schema_version :: "canonical_intent \<Rightarrow> bool" where
  "is_readable_schema_version (Extrude i) = (ib_schema_version i = extrude_schema \<or> ib_schema_version i = legacy_extrude_schema)"
| "is_readable_schema_version (Revolve i) = (ib_schema_version i = revolve_schema)"
| "is_readable_schema_version (Mirror i) = (ib_schema_version i = mirror_schema)"
| "is_readable_schema_version (LinearPattern i) = (ib_schema_version i = linear_pattern_schema)"
| "is_readable_schema_version (CircularPattern i) = (ib_schema_version i = circular_pattern_schema)"
| "is_readable_schema_version (Bracket i) = (ib_schema_version i = bracket_schema)"
| "is_readable_schema_version (Boolean i) = (ib_schema_version i = boolean_schema)"
| "is_readable_schema_version (BooleanPattern i) = (ib_schema_version i = boolean_pattern_schema)"
| "is_readable_schema_version (Split i) = (ib_schema_version i = split_schema)"
| "is_readable_schema_version (Hole i) = (ib_schema_version i = hole_schema)"
| "is_readable_schema_version (Fillet i) = (ib_schema_version i = fillet_schema)"
| "is_readable_schema_version (Chamfer i) = (ib_schema_version i = chamfer_schema)"
| "is_readable_schema_version (Shell i) = (ib_schema_version i = shell_schema)"
| "is_readable_schema_version (Draft i) = (ib_schema_version i = draft_schema)"
| "is_readable_schema_version (Loft i) = (ib_schema_version i = loft_schema)"

fun validate_intent :: "'c intent_codecs_scheme \<Rightarrow> canonical_intent \<Rightarrow> string \<Rightarrow> string + unit" where
  "validate_intent cd (Extrude i) feature_id = validate_extrude i feature_id"
| "validate_intent cd (Revolve i) feature_id = validate_revolve i feature_id"
| "validate_intent cd (Mirror i) feature_id = validate_mirror i feature_id"
| "validate_intent cd (LinearPattern i) feature_id = validate_linear_pattern i feature_id"
| "validate_intent cd (CircularPattern i) feature_id = validate_circular_pattern i feature_id"
| "validate_intent cd (Bracket i) feature_id = validate_bracket cd i feature_id"
| "validate_intent cd (Boolean i) feature_id = validate_boolean i feature_id"
| "validate_intent cd (BooleanPattern i) feature_id = validate_boolean_pattern i feature_id"
| "validate_intent cd (Split i) feature_id = validate_split i feature_id"
| "validate_intent cd (Hole i) feature_id = validate_hole i feature_id"
| "validate_intent cd (Fillet i) feature_id = validate_fillet i feature_id"
| "validate_intent cd (Chamfer i) feature_id = validate_chamfer cd i feature_id"
| "validate_intent cd (Shell i) feature_id = validate_shell i feature_id"
| "validate_intent cd (Draft i) feature_id = validate_draft i feature_id"
| "validate_intent cd (Loft i) feature_id = validate_loft i feature_id"

section \<open>Brackets\<close>

definition bracket_kind :: "bracket_inputs \<Rightarrow> string" where
  "bracket_kind inputs =
     ''bracket:length='' @ fixed17 (bi_length inputs) @ '';width='' @ fixed17 (bi_width inputs) @
     '';height='' @ fixed17 (bi_height inputs) @ '';thickness='' @ fixed17 (bi_thickness inputs)"

text \<open>The entries of a transaction are pairs of a feature id and a kind.\<close>

definition bracket_transaction_entries_match ::
  "(string \<times> string) list \<Rightarrow> string \<Rightarrow> bracket_inputs \<Rightarrow> feature_graph \<Rightarrow> bool \<Rightarrow> bool" where
  "bracket_transaction_entries_match entries feature_id inputs graph allow_existing =
     (let has_root = (feature_id, bracket_kind inputs) \<in> set entries;
          vertical = feature_id @ ''-plate-vertical'';
          horizontal = feature_id @ ''-plate-horizontal'' in
      if length entries = 1 then
        allow_existing \<and> has_root \<and> contains_feature graph vertical \<and>
        contains_feature graph horizontal
      else length entries = 3 \<and> has_root \<and> (vertical, ''plate-vertical'') \<in> set entries \<and>
        (horizontal, ''plate-horizontal'') \<in> set entries)"

end
