(* ===== verification/CanonicalLog.thy ===== *)
theory CanonicalLog
  imports Intents Text History Components
begin

text \<open>
  The canonical transaction log of the persistence crate
  (\<^verbatim>\<open>src/crates/persistence/src/lib.rs\<close>): entries and their digest chain, the
  append operations, \<^verbatim>\<open>encode\<close> and \<^verbatim>\<open>decode_and_verify\<close>, and the
  checks that decide whether an entry is one this program may have written.  SHA-256 and
  \<^verbatim>\<open>serde_json\<close> are the record \<open>log_codecs\<close>; a \<^verbatim>\<open>TransactionLog\<close>
  is the list of its entries.
\<close>

section \<open>Entries\<close>

record log_entry =
  le_log_index :: nat
  le_previous_digest :: string
  le_feature_id :: string
  le_kind :: string
  le_operation :: "string option"
  le_brep_path :: "string option"
  le_brep_byte_count :: "nat option"
  le_brep_sha256 :: "string option"
  le_idempotency_key :: "string option"
  le_idempotency_payload :: "string option"
  le_intent :: "canonical_intent option"
  le_terminal_digest :: string

type_synonym transaction_log = "log_entry list"

text \<open>
  Third-party code: the JSON text of an entry and of the payloads inside its kind, the parsers that
  \<^verbatim>\<open>serde\<close> derives (with the text of their errors), and \<^verbatim>\<open>serde_json::Value\<close>.
\<close>

record log_codecs = intent_codecs +
  encode_entry :: "log_entry \<Rightarrow> string"
  decode_entry :: "string \<Rightarrow> string + log_entry"
  encode_event :: "history_event \<Rightarrow> string"
  decode_event :: "string \<Rightarrow> string + history_event"
  encode_fit :: "fit_dimension \<Rightarrow> string"
  decode_fit :: "string \<Rightarrow> string + fit_dimension"
  decode_sketch :: "string \<Rightarrow> string + sketch_payload"
  decode_component :: "string \<Rightarrow> string + component_command"
  parse_json :: "string \<Rightarrow> json option"

definition empty_log_digest :: string where
  "empty_log_digest = replicate 64 CHR ''0''"

definition component_prefix :: string where "component_prefix = ''component-command:''"
definition sketch_prefix :: string where "sketch_prefix = ''sketch-command:''"
definition fit_prefix :: string where "fit_prefix = ''fit-dimension/1:''"
definition history_prefix :: string where "history_prefix = ''history-event:''"
definition apply_set_prefix :: string where "apply_set_prefix = ''apply-set/1:''"
definition apply_add_prefix :: string where "apply_add_prefix = ''apply-add/1:''"
definition apply_remove_kind :: string where "apply_remove_kind = ''apply-remove/1''"

lemmas kind_prefixes = component_prefix_def sketch_prefix_def fit_prefix_def history_prefix_def
  apply_set_prefix_def apply_add_prefix_def apply_remove_kind_def

definition apply_kind :: "string \<Rightarrow> string option \<times> string" where
  "apply_kind kind =
     (case strip_prefix apply_add_prefix kind of
        Some rest \<Rightarrow> (Some ''add'', rest)
      | None \<Rightarrow>
          (case strip_prefix apply_set_prefix kind of
             Some rest \<Rightarrow> (Some ''set'', rest)
           | None \<Rightarrow>
               if kind = apply_remove_kind then (Some ''remove'', apply_remove_kind)
               else (None, kind)))"

definition recomputed_digest :: "'c log_codecs_scheme \<Rightarrow> log_entry \<Rightarrow> string" where
  "recomputed_digest cd e = sha256_hex cd (encode_entry cd (e\<lparr>le_terminal_digest := []\<rparr>))"

definition seal_entry :: "'c log_codecs_scheme \<Rightarrow> log_entry \<Rightarrow> log_entry" where
  "seal_entry cd e = e\<lparr>le_terminal_digest := recomputed_digest cd e\<rparr>"

definition new_entry ::
  "'c log_codecs_scheme \<Rightarrow> nat \<Rightarrow> string \<Rightarrow> string \<Rightarrow> string \<Rightarrow> log_entry" where
  "new_entry cd log_index previous_digest feature_id kind =
     (case apply_kind kind of (operation, kind') \<Rightarrow>
        seal_entry cd
          \<lparr>le_log_index = log_index, le_previous_digest = previous_digest,
           le_feature_id = feature_id, le_kind = kind', le_operation = operation,
           le_brep_path = None, le_brep_byte_count = None, le_brep_sha256 = None,
           le_idempotency_key = None, le_idempotency_payload = None, le_intent = None,
           le_terminal_digest = []\<rparr>)"

definition with_idempotency_key ::
  "'c log_codecs_scheme \<Rightarrow> string \<Rightarrow> string option \<Rightarrow> log_entry \<Rightarrow> log_entry" where
  "with_idempotency_key cd key payload e =
     seal_entry cd (e\<lparr>le_idempotency_key := Some key, le_idempotency_payload := payload\<rparr>)"

definition with_brep :: "'c log_codecs_scheme \<Rightarrow> string \<Rightarrow> log_entry \<Rightarrow> log_entry" where
  "with_brep cd bytes e =
     seal_entry cd (e\<lparr>le_brep_path := Some (''brep/'' @ le_feature_id e @ ''.brep''),
                      le_brep_byte_count := Some (length bytes),
                      le_brep_sha256 := Some (sha256_hex cd bytes)\<rparr>)"

definition with_intent :: "'c log_codecs_scheme \<Rightarrow> canonical_intent \<Rightarrow> log_entry \<Rightarrow> log_entry" where
  "with_intent cd intent e = seal_entry cd (e\<lparr>le_intent := Some intent\<rparr>)"

section \<open>The log\<close>

definition terminal_digest_hex :: "transaction_log \<Rightarrow> string" where
  "terminal_digest_hex tlog =
     (if tlog = [] then empty_log_digest else le_terminal_digest (last tlog))"

definition next_entry :: "'c log_codecs_scheme \<Rightarrow> transaction_log \<Rightarrow> string \<Rightarrow> string \<Rightarrow> log_entry" where
  "next_entry cd tlog feature_id kind =
     new_entry cd (length tlog) (terminal_digest_hex tlog) feature_id kind"

definition append_feature ::
  "'c log_codecs_scheme \<Rightarrow> string \<Rightarrow> string \<Rightarrow> transaction_log \<Rightarrow> transaction_log" where
  "append_feature cd feature_id kind tlog = tlog @ [next_entry cd tlog feature_id kind]"

definition append_feature_with_idempotency ::
  "'c log_codecs_scheme \<Rightarrow> string \<Rightarrow> string \<Rightarrow> string \<Rightarrow> string option \<Rightarrow> transaction_log
     \<Rightarrow> transaction_log" where
  "append_feature_with_idempotency cd feature_id kind key payload tlog =
     tlog @ [with_idempotency_key cd key payload (next_entry cd tlog feature_id kind)]"

definition append_feature_with_brep ::
  "'c log_codecs_scheme \<Rightarrow> string \<Rightarrow> string \<Rightarrow> string \<Rightarrow> string option \<Rightarrow> string option
     \<Rightarrow> canonical_intent option \<Rightarrow> transaction_log \<Rightarrow> transaction_log" where
  "append_feature_with_brep cd feature_id kind bytes key payload intent tlog =
     (let e = with_brep cd bytes (next_entry cd tlog feature_id kind);
          e' = (case key of Some k \<Rightarrow> with_idempotency_key cd k payload e | None \<Rightarrow> e) in
      tlog @ [case intent of Some i \<Rightarrow> with_intent cd i e' | None \<Rightarrow> e'])"

definition newline :: char where "newline = CHR 0x0A"

definition encode_log :: "'c log_codecs_scheme \<Rightarrow> transaction_log \<Rightarrow> string" where
  "encode_log cd tlog = concat (map (\<lambda>e. encode_entry cd e @ [newline]) tlog)"

section \<open>Kinds\<close>

fun first_some :: "('a \<Rightarrow> 'b option) \<Rightarrow> 'a list \<Rightarrow> 'b option" where
  "first_some f [] = None"
| "first_some f (x # xs) = (case f x of Some y \<Rightarrow> Some y | None \<Rightarrow> first_some f xs)"

definition unsupported_operation_version :: "string \<Rightarrow> string option" where
  "unsupported_operation_version kind =
     first_some
       (\<lambda>prefix.
          case strip_prefix prefix kind of
            None \<Rightarrow> None
          | Some rest \<Rightarrow>
              let version = hd (split_at_char CHR '':'' rest) in
              if version \<noteq> ''1'' then Some (prefix @ version) else None)
       [''apply-add/'', ''apply-set/'', ''apply-remove/'', ''fit-dimension/'']"

definition plain_feature_kinds :: "string list" where
  "plain_feature_kinds =
     [''box'', ''plate'', ''cube'', ''sphere'', ''marker'', ''brep'', ''sketch'', ''fillet'',
      ''chamfer'', ''hole'', ''revolve'', ''mirror'', ''linear-pattern'', ''circular-pattern'',
      ''boolean-fuse'', ''boolean-cut'', ''boolean-common'', ''boolean-pattern'',
      ''linear_pattern'', ''circular_pattern'', ''boolean_fuse'', ''boolean_cut'',
      ''boolean_common'', ''boolean_pattern'', ''shell'', ''draft'', ''loft'',
      ''history-feature'', ''checkpoint'']"

definition is_supported_brep_kind :: "string \<Rightarrow> bool" where
  "is_supported_brep_kind kind =
     (case strip_prefix ''brep:'' kind of None \<Rightarrow> False
      | Some i \<Rightarrow> i \<noteq> [] \<and> list_all (\<lambda>c. is_ascii_alphanumeric c \<or> c \<in> set ''_-'') i)"

definition is_supported_hole_kind :: "string \<Rightarrow> bool" where
  "is_supported_hole_kind kind = (kind \<in> {''hole:drilled'', ''hole:tapped''})"

definition is_supported_edge_reattachment_kind :: "'c log_codecs_scheme \<Rightarrow> string \<Rightarrow> bool" where
  "is_supported_edge_reattachment_kind cd kind =
     (case strip_prefix ''edge-reattachment:'' kind of None \<Rightarrow> False
      | Some payload \<Rightarrow>
          (case parse_json cd payload of None \<Rightarrow> False
           | Some value \<Rightarrow>
               json_str_at ''schema'' value = Some ''threeterm.reattach-edge/1'' \<and>
               json_str_at ''selected_edge_id'' value \<notin> {None, Some []} \<and>
               (case json_get ''reference'' value of None \<Rightarrow> False | Some r \<Rightarrow> json_is_object r)))"

definition finite_literal :: "string \<Rightarrow> bool" where
  "finite_literal s = (case parse_f64 s of Some x \<Rightarrow> f64_finite x | None \<Rightarrow> False)"

definition is_supported_sketch_segment_kind :: "string \<Rightarrow> bool" where
  "is_supported_sketch_segment_kind kind =
     (case strip_prefix ''sketch-segment:'' kind of None \<Rightarrow> False
      | Some coordinates \<Rightarrow>
          let values = split_at_char CHR '','' coordinates in
          length values = 4 \<and> list_all finite_literal values)"

fun bracket_parameters_ok :: "string list \<Rightarrow> string list \<Rightarrow> bool" where
  "bracket_parameters_ok keys [] = True"
| "bracket_parameters_ok keys (p # ps) =
     (case split_once CHR ''='' p of None \<Rightarrow> False
      | Some (key, value) \<Rightarrow>
          key \<in> {''length'', ''width'', ''height'', ''thickness''} \<and> key \<notin> set keys \<and>
          finite_literal value \<and> bracket_parameters_ok (key # keys) ps)"

definition is_supported_bracket_kind :: "string \<Rightarrow> bool" where
  "is_supported_bracket_kind kind =
     (case strip_prefix ''bracket:'' kind of None \<Rightarrow> False
      | Some parameters \<Rightarrow>
          parameters \<noteq> [] \<and> bracket_parameters_ok [] (split_at_char CHR '';'' parameters))"

definition is_supported_feature_kind :: "'c log_codecs_scheme \<Rightarrow> string \<Rightarrow> bool" where
  "is_supported_feature_kind cd kind =
     (kind \<in> set plain_feature_kinds \<or> is_supported_brep_kind kind \<or> is_supported_hole_kind kind \<or>
      is_supported_edge_reattachment_kind cd kind \<or> is_supported_bracket_kind kind \<or>
      kind \<in> {''plate-vertical'', ''plate-horizontal''} \<or> is_supported_sketch_segment_kind kind)"

text \<open>The field a deserialization error names as unknown.\<close>

definition unknown_field_in :: "string \<Rightarrow> string option" where
  "unknown_field_in message =
     first_some
       (\<lambda>closer.
          case after_first (''unknown field '' @ [closer]) message of
            None \<Rightarrow> None
          | Some rest \<Rightarrow> map_option fst (split_once closer rest))
       [CHR 0x60, CHR 0x27]"

definition index_or_zero :: "nat option \<Rightarrow> nat" where
  "index_or_zero i = (case i of Some n \<Rightarrow> n | None \<Rightarrow> 0)"

definition canonical_payload_error :: "nat option \<Rightarrow> string \<Rightarrow> string \<Rightarrow> log_error" where
  "canonical_payload_error log_index kind message =
     (case unknown_field_in message of
        Some field \<Rightarrow> CanonicalFieldUnknown log_index field
      | None \<Rightarrow> LogBrokenLink (index_or_zero log_index) (''invalid '' @ kind @ '': '' @ message))"

definition map_err :: "('e \<Rightarrow> 'f) \<Rightarrow> 'e + 'a \<Rightarrow> 'f + 'a" where
  "map_err f r = (case r of Inl e \<Rightarrow> Inl (f e) | Inr x \<Rightarrow> Inr x)"

lemma map_err_simps [simp, result_simps]: "map_err f (Inr x) = Inr x" "map_err f (Inl e) = Inl (f e)"
  by (simp_all add: map_err_def)

lemma map_err_Inr_iff [simp, result_dests]: "map_err f r = Inr x \<longleftrightarrow> r = Inr x"
  by (cases r) (auto simp: map_err_def)

definition component_operations :: "string list" where
  "component_operations =
     [''define'', ''capture'', ''create-instance'', ''transform-instance'', ''make-independent'',
      ''edit-parameter'']"

definition component_operation_of :: "'c log_codecs_scheme \<Rightarrow> string \<Rightarrow> string option" where
  "component_operation_of cd payload =
     Option.bind (parse_json cd payload) (json_str_at ''operation'')"

definition validate_canonical_kind ::
  "'c log_codecs_scheme \<Rightarrow> nat option \<Rightarrow> string \<Rightarrow> log_error + unit" where
  "validate_canonical_kind cd log_index kind =
     (case unsupported_operation_version kind of
        Some version \<Rightarrow> Inl (CanonicalVersionUnsupported log_index version)
      | None \<Rightarrow>
      case strip_prefix history_prefix kind of
        Some payload \<Rightarrow>
          and_then (map_err (canonical_payload_error log_index ''history event'')
                      (decode_event cd payload))
          (\<lambda>event. ensure (he_schema_version event = history_event_schema)
             (CanonicalVersionUnsupported log_index (he_schema_version event)))
      | None \<Rightarrow>
      case strip_prefix fit_prefix kind of
        Some payload \<Rightarrow>
          and_then (map_err (canonical_payload_error log_index ''fit dimension'')
                      (decode_fit cd payload)) (\<lambda>_. Inr ())
      | None \<Rightarrow>
      case strip_prefix sketch_prefix kind of
        Some payload \<Rightarrow>
          and_then (map_err (canonical_payload_error log_index ''sketch payload'')
                      (decode_sketch cd payload)) (\<lambda>_. Inr ())
      | None \<Rightarrow>
      case strip_prefix component_prefix kind of
        Some payload \<Rightarrow>
          and_then
            (case component_operation_of cd payload of
               None \<Rightarrow> Inr ()
             | Some operation \<Rightarrow> ensure (operation \<in> set component_operations)
                 (CanonicalOperationUnknown log_index operation))
          (\<lambda>_. and_then
            (map_err (canonical_payload_error log_index ''component command'')
               (decode_component cd payload)) (\<lambda>_. Inr ()))
      | None \<Rightarrow>
      case apply_kind kind of (operation, kind') \<Rightarrow>
        if operation = Some ''remove'' then
          ensure (kind = apply_remove_kind) (FeatureKindUnknown log_index kind)
        else ensure (is_supported_feature_kind cd kind') (FeatureKindUnknown log_index kind'))"

section \<open>Entries that may be read back\<close>

fun canonical_worker_name :: "canonical_intent \<Rightarrow> string" where
  "canonical_worker_name (Extrude _) = ''canonical_extrude_worker''"
| "canonical_worker_name (Revolve _) = ''canonical_revolve_worker''"
| "canonical_worker_name (Mirror _) = ''canonical_mirror_worker''"
| "canonical_worker_name (LinearPattern _) = ''canonical_linear_pattern_worker''"
| "canonical_worker_name (CircularPattern _) = ''canonical_circular_pattern_worker''"
| "canonical_worker_name (Bracket _) = ''canonical_bracket_worker''"
| "canonical_worker_name (Boolean _) = ''canonical_boolean_worker''"
| "canonical_worker_name (BooleanPattern _) = ''canonical_boolean_pattern_worker''"
| "canonical_worker_name (Split _) = ''canonical_split_worker''"
| "canonical_worker_name (Hole _) = ''canonical_hole_worker''"
| "canonical_worker_name (Fillet _) = ''canonical_fillet_worker''"
| "canonical_worker_name (Chamfer _) = ''canonical_chamfer_worker''"
| "canonical_worker_name (Shell _) = ''canonical_shell_worker''"
| "canonical_worker_name (Draft _) = ''canonical_draft_worker''"
| "canonical_worker_name (Loft _) = ''canonical_loft_worker''"

definition worker_check :: "string \<Rightarrow> worker_fingerprint \<Rightarrow> log_error + unit" where
  "worker_check identity worker =
     ensure (worker = occt_worker_identity)
       (CompatibilityIdentityMismatch identity (WorkerIdentity occt_worker_identity)
          (WorkerIdentity worker))"

definition operation_text :: "canonical_intent \<Rightarrow> string" where
  "operation_text i = intent_command i @ '':'' @ intent_operation i"

text \<open>
  The arms of the match on the intent.  The variants differ in whether a foreign schema version is
  reported as such or as an unknown operation, whether the intent is validated again and whether
  the worker is compared again.
\<close>

definition arm_version :: "nat \<Rightarrow> bool \<Rightarrow> canonical_intent \<Rightarrow> log_error + unit" where
  "arm_version k ok i = ensure ok (CanonicalVersionUnsupported (Some k) (intent_schema_version i))"

definition arm_operation :: "nat \<Rightarrow> bool \<Rightarrow> canonical_intent \<Rightarrow> log_error + unit" where
  "arm_operation k ok i = ensure ok (CanonicalOperationUnknown (Some k) (operation_text i))"

definition arm_worker :: "canonical_intent \<Rightarrow> log_error + unit" where
  "arm_worker i = worker_check (canonical_worker_name i) (intent_worker_requirements i)"

definition arm_validate :: "'c log_codecs_scheme \<Rightarrow> canonical_intent \<Rightarrow> string \<Rightarrow> log_error + unit" where
  "arm_validate cd i feature_id =
     map_err Invalid (validate_intent cd i feature_id)"

fun entry_arm :: "'c log_codecs_scheme \<Rightarrow> nat \<Rightarrow> string \<Rightarrow> canonical_intent \<Rightarrow> log_error + unit" where
  "entry_arm cd k feature_id (Extrude i) =
     and_then (arm_version k (ib_schema_version i \<in> {extrude_schema, legacy_extrude_schema})
                 (Extrude i)) (\<lambda>_.
     and_then (arm_operation k (ib_command i = ''extrude'' \<and>
                 extrude_operation i \<in> {''additive'', ''subtractive''}) (Extrude i)) (\<lambda>_.
     arm_worker (Extrude i)))"
| "entry_arm cd k feature_id (Boolean i) =
     and_then (arm_version k (ib_schema_version i = boolean_schema) (Boolean i)) (\<lambda>_.
     and_then (arm_operation k (ib_command i = ''boolean'' \<and>
                 boolean_operation i \<in> {''fuse'', ''cut'', ''common''}) (Boolean i)) (\<lambda>_.
     arm_worker (Boolean i)))"
| "entry_arm cd k feature_id (BooleanPattern i) =
     and_then (arm_operation k (ib_schema_version i = boolean_pattern_schema \<and>
                 ib_command i = ''boolean-pattern'' \<and>
                 boolean_pattern_operation i = ''boolean-pattern'') (BooleanPattern i)) (\<lambda>_.
     and_then (arm_validate cd (BooleanPattern i) feature_id) (\<lambda>_.
     arm_worker (BooleanPattern i)))"
| "entry_arm cd k feature_id (Split i) =
     and_then (arm_operation k (ib_schema_version i = split_schema \<and> ib_command i = ''split'' \<and>
                 split_operation i = ''split'') (Split i)) (\<lambda>_.
     arm_validate cd (Split i) feature_id)"
| "entry_arm cd k feature_id (Hole i) =
     and_then (arm_version k (ib_schema_version i = hole_schema) (Hole i)) (\<lambda>_.
     and_then (arm_operation k (ib_command i = ''hole'' \<and>
                 hole_kind i \<in> {''drilled'', ''tapped''}) (Hole i)) (\<lambda>_.
     arm_worker (Hole i)))"
| "entry_arm cd k feature_id (Bracket i) =
     and_then (arm_operation k (ib_schema_version i = bracket_schema \<and> ib_command i = ''bracket'' \<and>
                 bracket_operation i = ''bracket'') (Bracket i)) (\<lambda>_.
     and_then (arm_validate cd (Bracket i) feature_id) (\<lambda>_.
     arm_worker (Bracket i)))"
| "entry_arm cd k feature_id (Fillet i) =
     and_then (arm_version k (ib_schema_version i = fillet_schema) (Fillet i)) (\<lambda>_.
     and_then (arm_operation k (ib_command i = ''fillet'' \<and> fillet_operation i = ''fillet'')
                 (Fillet i)) (\<lambda>_.
     arm_worker (Fillet i)))"
| "entry_arm cd k feature_id (Chamfer i) =
     and_then (arm_operation k (ib_schema_version i = chamfer_schema \<and> ib_command i = ''chamfer'' \<and>
                 chamfer_operation i = ''chamfer'') (Chamfer i)) (\<lambda>_.
     arm_worker (Chamfer i))"
| "entry_arm cd k feature_id (Shell i) =
     and_then (arm_operation k (ib_schema_version i = shell_schema \<and> ib_command i = ''shell'' \<and>
                 shell_operation i = ''shell'') (Shell i)) (\<lambda>_.
     arm_worker (Shell i))"
| "entry_arm cd k feature_id (Draft i) =
     and_then (arm_operation k (ib_schema_version i = draft_schema \<and> ib_command i = ''draft'' \<and>
                 draft_operation i = ''draft'') (Draft i)) (\<lambda>_.
     arm_worker (Draft i))"
| "entry_arm cd k feature_id (Loft i) =
     and_then (arm_operation k (ib_schema_version i = loft_schema \<and> ib_command i = ''loft'' \<and>
                 loft_operation i = ''loft'') (Loft i)) (\<lambda>_.
     arm_worker (Loft i))"
| "entry_arm cd k feature_id (Revolve i) = Inr ()"
| "entry_arm cd k feature_id (Mirror i) = Inr ()"
| "entry_arm cd k feature_id (LinearPattern i) = Inr ()"
| "entry_arm cd k feature_id (CircularPattern i) = Inr ()"

definition validate_entry_intent ::
  "'c log_codecs_scheme \<Rightarrow> nat \<Rightarrow> string \<Rightarrow> canonical_intent \<Rightarrow> log_error + unit" where
  "validate_entry_intent cd k feature_id i =
     and_then (arm_version k (is_readable_schema_version i) i) (\<lambda>_.
     and_then (arm_operation k (is_ok (validate_intent cd i feature_id)) i) (\<lambda>_.
     and_then (arm_worker i) (\<lambda>_. entry_arm cd k feature_id i)))"

definition debug_option :: "string option \<Rightarrow> string" where
  "debug_option x =
     (case x of None \<Rightarrow> ''None'' | Some s \<Rightarrow> ''Some('' @ debug_string s @ '')'')"

definition validate_canonical_entry :: "'c log_codecs_scheme \<Rightarrow> log_entry \<Rightarrow> log_error + unit" where
  "validate_canonical_entry cd e =
     (let k = le_log_index e; operation = le_operation e; kind = le_kind e;
          encoded = fst (apply_kind kind);
          shown = (case operation of Some s \<Rightarrow> s | None \<Rightarrow> ''none'') in
      and_then
        (case operation of None \<Rightarrow> Inr ()
         | Some s \<Rightarrow> ensure (s \<in> {''add'', ''set'', ''remove''}) (CanonicalOperationUnknown (Some k) s))
      (\<lambda>_. and_then
        (case operation of None \<Rightarrow> Inr ()
         | Some s \<Rightarrow> ensure
             (\<not> (starts_with_string history_prefix kind \<or> starts_with_string fit_prefix kind \<or>
                 starts_with_string sketch_prefix kind \<or> starts_with_string component_prefix kind))
             (CanonicalOperationUnknown (Some k) s))
      (\<lambda>_. and_then
        (case unsupported_operation_version kind of None \<Rightarrow> Inr ()
         | Some version \<Rightarrow> Inl (CanonicalVersionUnsupported (Some k) version))
      (\<lambda>_. and_then
        (ensure
          ((operation = None \<and> encoded = None) \<or>
           (operation \<in> {Some ''add'', Some ''set'', Some ''remove''} \<and> encoded = None) \<or>
           (operation = Some ''remove'' \<and> encoded = Some ''remove''))
          (CanonicalOperationUnknown (Some k) (shown @ '':'' @ debug_option encoded)))
      (\<lambda>_. and_then
        (case le_intent e of None \<Rightarrow> Inr ()
         | Some i \<Rightarrow> validate_entry_intent cd k (le_feature_id e) i)
      (\<lambda>_. validate_canonical_kind cd (Some k) kind))))))"

section \<open>Decoding\<close>

definition decode_line ::
  "'c log_codecs_scheme \<Rightarrow> nat \<Rightarrow> string \<Rightarrow> transaction_log \<Rightarrow> log_error + transaction_log" where
  "decode_line cd line_index line entries =
     and_then
       (map_err
          (\<lambda>message. case unknown_field_in message of
             Some field \<Rightarrow> CanonicalFieldUnknown (Some line_index) field
           | None \<Rightarrow> LogBrokenLink line_index message)
          (decode_entry cd line))
     (\<lambda>entry. and_then
       (ensure
          (le_log_index entry = length entries \<and>
           le_previous_digest entry = terminal_digest_hex entries \<and>
           le_terminal_digest entry = recomputed_digest cd entry)
          (LogBrokenLink (le_log_index entry) ''digest chain verification failed''))
     (\<lambda>_. and_then (validate_canonical_entry cd entry) (\<lambda>_. Inr (entries @ [entry]))))"

fun decode_lines ::
  "'c log_codecs_scheme \<Rightarrow> nat \<Rightarrow> string list \<Rightarrow> transaction_log \<Rightarrow> log_error + transaction_log" where
  "decode_lines cd line_index [] entries = Inr entries"
| "decode_lines cd line_index (line # lines) entries =
     (if line = [] then decode_lines cd (Suc line_index) lines entries
      else and_then (decode_line cd line_index line entries) (decode_lines cd (Suc line_index) lines))"

definition decode_and_verify :: "'c log_codecs_scheme \<Rightarrow> string \<Rightarrow> log_error + transaction_log" where
  "decode_and_verify cd bytes = decode_lines cd 0 (split_at_char newline bytes) []"

end
