(* ===== verification/Replay.thy ===== *)
theory Replay
  imports CanonicalLog
begin

text \<open>
  Rebuilding the canonical state from the transaction log: \<^verbatim>\<open>replay_canonical_state\<close>
  and the admission of new entries, \<^verbatim>\<open>validate_feature_entries\<close>, of
  \<^verbatim>\<open>src/crates/persistence/src/lib.rs\<close>.  Replay drives the feature graph, the
  component graph and the history of the domain crate, each through the operations that the
  theories \<open>Sketch\<close>, \<open>Components\<close> and \<open>History\<close> model.
\<close>

section \<open>State\<close>

text \<open>The JSON of the three tables of a feature graph, over which its identity is computed.\<close>

record state_codecs = log_codecs +
  features_json :: "(string, string) btree \<Rightarrow> string"
  sketches_json :: "(string, sketch_payload) btree \<Rightarrow> string"
  fits_json :: "(string, fit_dimension) btree \<Rightarrow> string"

definition revision_of :: "'c state_codecs_scheme \<Rightarrow> feature_graph \<Rightarrow> string \<Rightarrow> string" where
  "revision_of cd g digest =
     revision_hash_hex (sha256_hex cd) (features_json cd) (sketches_json cd) (fits_json cd) g digest"

record canonical_state =
  cs_graph :: feature_graph
  cs_components :: component_graph
  cs_history :: history_state
  cs_history_events :: "history_event list"
  cs_feature_ids :: "string list"

record replay_state = canonical_state +
  rs_geometry :: "string bset"

definition replay_start :: replay_state where
  "replay_start =
     \<lparr>cs_graph = empty_graph, cs_components = empty_components, cs_history = default_history,
      cs_history_events = [], cs_feature_ids = [], rs_geometry = []\<rparr>"

section \<open>Error texts\<close>

fun history_error_text :: "history_error \<Rightarrow> string" where
  "history_error_text (InvalidEvent detail) = ''invalid history event: '' @ detail"
| "history_error_text (FeatureNotFound i) = ''history feature not found: '' @ i"
| "history_error_text (DuplicateName name) = ''named revision already exists: '' @ name"
| "history_error_text EmptyName = ''named revision name must not be empty''"
| "history_error_text (NamedRevisionNotFound name) = ''named revision not found: '' @ name"
| "history_error_text (FeatureNotInNamedRevision i name) =
     ''feature '' @ i @ '' is not present in named revision '' @ name"
| "history_error_text InvalidValue = ''historical edit value must be finite''"
| "history_error_text NothingToUndo = ''history has nothing to undo''"
| "history_error_text NothingToRedo = ''history has nothing to redo''"

fun domain_error_text :: "domain_error \<Rightarrow> string" where
  "domain_error_text EmptyId = ''feature id must not be empty''"
| "domain_error_text EmptyKind = ''feature kind must not be empty''"

section \<open>Intents\<close>

text \<open>
  The digest that an intent's source revision is computed with: the one before the entry, or,
  for a bracket published together with a history event, the one before that event.
\<close>

fun is_bracket :: "canonical_intent \<Rightarrow> bool" where
  "is_bracket (Bracket _) = True"
| "is_bracket _ = False"

definition source_revision_digest :: "transaction_log \<Rightarrow> log_entry \<Rightarrow> canonical_intent \<Rightarrow> string" where
  "source_revision_digest tlog e i =
     (let k = le_log_index e - 1 in
      if is_bracket i \<and> k < length tlog \<and> starts_with_string history_prefix (le_kind (tlog ! k))
      then le_previous_digest (tlog ! k) else le_previous_digest e)"

definition require_base :: "nat \<Rightarrow> string \<Rightarrow> bool \<Rightarrow> string \<Rightarrow> log_error + unit" where
  "require_base k what present i =
     ensure present (LogBrokenLink k (''canonical '' @ what @ '' feature is missing: '' @ i))"

fun replay_arm :: "nat \<Rightarrow> feature_graph \<Rightarrow> string bset \<Rightarrow> canonical_intent \<Rightarrow> log_error + unit" where
  "replay_arm k g geometry (Extrude i) =
     (case extrude_target_feature_id i of None \<Rightarrow> Inr ()
      | Some target \<Rightarrow> require_base k ''extrude target'' (contains_feature g target) target)"
| "replay_arm k g geometry (Boolean i) =
     and_then (require_base k ''boolean base'' (contains_feature g (boolean_base_feature_id i))
                 (boolean_base_feature_id i)) (\<lambda>_.
     require_base k ''boolean tool'' (contains_feature g (boolean_tool_feature_id i))
       (boolean_tool_feature_id i))"
| "replay_arm k g geometry (BooleanPattern i) =
     require_base k ''Boolean Pattern base'' (contains_feature g (boolean_pattern_base_feature_id i))
       (boolean_pattern_base_feature_id i)"
| "replay_arm k g geometry (Split i) =
     require_base k ''split base'' (contains_feature g (split_base_feature_id i) \<and>
       split_base_feature_id i \<in> set geometry) (split_base_feature_id i)"
| "replay_arm k g geometry (Hole i) =
     require_base k ''hole base'' (contains_feature g (hole_base_feature_id i)) (hole_base_feature_id i)"
| "replay_arm k g geometry (Fillet i) =
     require_base k ''fillet base'' (contains_feature g (fillet_base_feature_id i) \<and>
       fillet_base_feature_id i \<in> set geometry) (fillet_base_feature_id i)"
| "replay_arm k g geometry (Chamfer i) =
     require_base k ''chamfer base'' (contains_feature g (chamfer_base_feature_id i) \<and>
       chamfer_base_feature_id i \<in> set geometry) (chamfer_base_feature_id i)"
| "replay_arm k g geometry (Shell i) =
     require_base k ''shell base'' (contains_feature g (shell_base_feature_id i) \<and>
       shell_base_feature_id i \<in> set geometry) (shell_base_feature_id i)"
| "replay_arm k g geometry (Draft i) =
     require_base k ''draft base'' (contains_feature g (draft_base_feature_id i) \<and>
       draft_base_feature_id i \<in> set geometry) (draft_base_feature_id i)"
| "replay_arm k g geometry (Bracket i) = Inr ()"
| "replay_arm k g geometry (Revolve i) = Inr ()"
| "replay_arm k g geometry (Mirror i) = Inr ()"
| "replay_arm k g geometry (LinearPattern i) = Inr ()"
| "replay_arm k g geometry (CircularPattern i) = Inr ()"
| "replay_arm k g geometry (Loft i) = Inr ()"

definition replay_intent ::
  "'c state_codecs_scheme \<Rightarrow> transaction_log \<Rightarrow> log_entry \<Rightarrow> canonical_intent \<Rightarrow> replay_state
     \<Rightarrow> log_error + replay_state" where
  "replay_intent cd tlog e i s =
     (let k = le_log_index e; g = cs_graph s in
      and_then (map_err (LogBrokenLink k) (validate_intent cd i (le_feature_id e)))
      (\<lambda>_. and_then (worker_check ''canonical_transform_worker'' (intent_worker_requirements i))
      (\<lambda>_. and_then
        (ensure (le_idempotency_key e = Some (intent_request_id i))
          (LogBrokenLink k (''canonical '' @ intent_command i @
             '' intent request ID does not match transaction provenance'')))
      (\<lambda>_. and_then
        (ensure (intent_source_revision i = revision_of cd g (source_revision_digest tlog e i))
          (LogBrokenLink k (''canonical '' @ intent_command i @
             '' intent source revision does not match the log prefix'')))
      (\<lambda>_. and_then
        (case base_reference i of None \<Rightarrow> Inr ()
         | Some base \<Rightarrow> require_base k (intent_command i @ '' base'') (contains_feature g base) base)
      (\<lambda>_. and_then (replay_arm k g (rs_geometry s) i)
      (\<lambda>_. Inr (s\<lparr>rs_geometry := bs_insert (le_feature_id e) (rs_geometry s)\<rparr>))))))))"

section \<open>One entry\<close>

definition replay_history ::
  "'c state_codecs_scheme \<Rightarrow> nat \<Rightarrow> string \<Rightarrow> replay_state \<Rightarrow> log_error + replay_state" where
  "replay_history cd k payload s =
     and_then (map_err (\<lambda>m. LogBrokenLink k (''invalid history event: '' @ m)) (decode_event cd payload))
     (\<lambda>event. and_then (map_err (LogBrokenLink k \<circ> history_error_text) (apply_event (cs_history s) event))
     (\<lambda>h. Inr (s\<lparr>cs_history := h, cs_history_events := cs_history_events s @ [event]\<rparr>)))"

definition graph_result :: "(string \<Rightarrow> 'e) \<Rightarrow> feature_graph \<times> (string + bool) \<Rightarrow> 'e + feature_graph" where
  "graph_result f r = (case r of (g, Inl detail) \<Rightarrow> Inl (f detail) | (g, Inr _) \<Rightarrow> Inr g)"

definition replay_fit ::
  "'c state_codecs_scheme \<Rightarrow> nat \<Rightarrow> string \<Rightarrow> replay_state \<Rightarrow> log_error + replay_state" where
  "replay_fit cd k payload s =
     and_then (map_err (\<lambda>m. LogBrokenLink k (''invalid fit dimension: '' @ m)) (decode_fit cd payload))
     (\<lambda>fit. and_then (graph_result (LogBrokenLink k) (add_fit_dimension (cs_graph s) fit))
     (\<lambda>g. Inr (s\<lparr>cs_graph := g\<rparr>)))"

definition replay_component ::
  "'c state_codecs_scheme \<Rightarrow> nat \<Rightarrow> string \<Rightarrow> component_graph \<Rightarrow> log_error + component_graph" where
  "replay_component cd k kind components =
     (case strip_prefix component_prefix kind of None \<Rightarrow> Inr components
      | Some payload \<Rightarrow>
          and_then (map_err (\<lambda>m. LogBrokenLink k (''invalid component command: '' @ m))
                      (decode_component cd payload))
          (\<lambda>command. case component_apply components command of
             (_, Inl detail) \<Rightarrow> Inl (LogBrokenLink k detail)
           | (components', Inr _) \<Rightarrow> Inr components'))"

definition replay_add ::
  "'c state_codecs_scheme \<Rightarrow> log_entry \<Rightarrow> sketch_payload option \<Rightarrow> feature \<Rightarrow> replay_state
     \<Rightarrow> log_error + replay_state" where
  "replay_add cd e sketch f s =
     (let k = le_log_index e; i = le_feature_id e in
      and_then
        (case sketch of
           Some payload \<Rightarrow> graph_result (LogBrokenLink k) (add_sketch (cs_graph s) f payload)
         | None \<Rightarrow> Inr (fst (add_feature (cs_graph s) f)))
      (\<lambda>g. and_then
        (if list_ex (\<lambda>j. j = i) (cs_feature_ids s) then Inr (cs_feature_ids s)
         else and_then (map_err (LogBrokenLink k \<circ> domain_error_text) (feature_id_new i))
                (\<lambda>j. Inr (cs_feature_ids s @ [j])))
      (\<lambda>ids. and_then (replay_component cd k (le_kind e) (cs_components s))
      (\<lambda>components.
         Inr (s\<lparr>cs_graph := g, cs_feature_ids := ids, cs_components := components\<rparr>)))))"

definition replay_remove :: "log_entry \<Rightarrow> replay_state \<Rightarrow> log_error + replay_state" where
  "replay_remove e s =
     (case remove_feature (cs_graph s) (le_feature_id e) of (g, removed) \<Rightarrow>
        if removed then
          Inr (s\<lparr>cs_graph := g,
                 cs_feature_ids := filter (\<lambda>i. i \<noteq> le_feature_id e) (cs_feature_ids s)\<rparr>)
        else Inl (LogBrokenLink (le_log_index e) ''remove operation targets a missing feature''))"

definition replay_set :: "log_entry \<Rightarrow> feature \<Rightarrow> replay_state \<Rightarrow> log_error + replay_state" where
  "replay_set e f s =
     (if contains_feature (cs_graph s) (le_feature_id e) then
        Inr (s\<lparr>cs_graph := fst (set_feature (cs_graph s) f)\<rparr>)
      else Inl (LogBrokenLink (le_log_index e) ''set operation targets a missing feature''))"

definition replay_feature ::
  "'c state_codecs_scheme \<Rightarrow> log_entry \<Rightarrow> replay_state \<Rightarrow> log_error + replay_state" where
  "replay_feature cd e s =
     (let k = le_log_index e in
      and_then
        (case strip_prefix sketch_prefix (le_kind e) of None \<Rightarrow> Inr None
         | Some payload \<Rightarrow>
             and_then (map_err (\<lambda>m. LogBrokenLink k (''invalid sketch payload: '' @ m))
                         (decode_sketch cd payload)) (\<lambda>p. Inr (Some p)))
      (\<lambda>sketch. and_then
        (map_err (LogBrokenLink k \<circ> domain_error_text)
          (feature_new (le_feature_id e) (if sketch \<noteq> None then ''sketch'' else le_kind e)))
      (\<lambda>f. case le_operation e of
           None \<Rightarrow> replay_add cd e sketch f s
         | Some operation \<Rightarrow>
             if operation = ''remove'' then replay_remove e s
             else if operation = ''set'' then replay_set e f s
             else if operation = ''add'' then replay_add cd e sketch f s
             else Inl (LogBrokenLink k (''unknown transaction operation: '' @ operation)))))"

definition replay_entry ::
  "'c state_codecs_scheme \<Rightarrow> transaction_log \<Rightarrow> log_entry \<Rightarrow> replay_state \<Rightarrow> log_error + replay_state" where
  "replay_entry cd tlog e s =
     and_then (case le_intent e of None \<Rightarrow> Inr s | Some i \<Rightarrow> replay_intent cd tlog e i s)
     (\<lambda>s'.
        case strip_prefix history_prefix (le_kind e) of
          Some payload \<Rightarrow> replay_history cd (le_log_index e) payload s'
        | None \<Rightarrow>
        case strip_prefix fit_prefix (le_kind e) of
          Some payload \<Rightarrow> replay_fit cd (le_log_index e) payload s'
        | None \<Rightarrow> replay_feature cd e s')"

definition replay_canonical_state ::
  "'c state_codecs_scheme \<Rightarrow> transaction_log \<Rightarrow> log_error + canonical_state" where
  "replay_canonical_state cd tlog =
     and_then (fold_ok (replay_entry cd tlog) tlog replay_start)
       (\<lambda>s. Inr (canonical_state.truncate s))"

section \<open>Admission of new entries\<close>

definition canonical_geometry_feature_exists ::
  "feature_graph \<Rightarrow> transaction_log \<Rightarrow> string \<Rightarrow> bool" where
  "canonical_geometry_feature_exists g tlog i =
     (list_ex (\<lambda>f. ft_id f = i \<and> starts_with_string ''brep:'' (ft_kind f)) (graph_features g) \<and>
      list_ex (\<lambda>e. le_feature_id e = i \<and> le_intent e \<noteq> None) tlog)"

definition admit_entry ::
  "'c log_codecs_scheme \<Rightarrow> feature_graph \<Rightarrow> transaction_log \<Rightarrow> string list \<Rightarrow> bool \<Rightarrow> string \<times> string
     \<Rightarrow> string bset \<Rightarrow> log_error + string bset" where
  "admit_entry cd g tlog allow_bracket allow_sketch entry ids =
     (case entry of (i, kind) \<Rightarrow>
      and_then (validate_canonical_kind cd None kind)
      (\<lambda>_. case apply_kind kind of (operation, canonical_kind) \<Rightarrow>
      and_then
        (ensure (\<not> (operation = Some ''remove'' \<and> canonical_kind \<noteq> apply_remove_kind))
          (Invalid ''invalid remove transaction''))
      (\<lambda>_. and_then (map_err (Invalid \<circ> domain_error_text) (feature_new i canonical_kind))
      (\<lambda>_. and_then
        (ensure (i \<notin> set ids)
          (Invalid (''feature ID '' @ debug_string i @ '' is duplicated in one transaction'')))
      (\<lambda>_.
        let ids' = bs_insert i ids;
            existing = map_option ft_kind (find (\<lambda>f. ft_id f = i) (graph_features g));
            historical = list_ex (\<lambda>e. le_feature_id e = i) tlog in
        case operation of
          Some op \<Rightarrow>
            if op = ''add'' then
              and_then (ensure (existing = None)
                (Invalid (''feature ID '' @ debug_string i @ '' already exists''))) (\<lambda>_. Inr ids')
            else
              and_then (ensure (existing \<noteq> None)
                (Invalid (''feature ID '' @ debug_string i @ '' does not exist''))) (\<lambda>_. Inr ids')
        | None \<Rightarrow>
            let sketch_update = starts_with_string sketch_prefix kind \<and> allow_sketch \<and>
                  existing = Some ''sketch'';
                bracket_update = i \<in> set allow_bracket in
            and_then
              (ensure (\<not> ((existing \<noteq> None \<or> historical) \<and> \<not> bracket_update \<and> \<not> sketch_update))
                (Invalid (''feature ID '' @ debug_string i @ '' already exists'')))
              (\<lambda>_. Inr ids'))))))"

definition validate_feature_entries ::
  "'c log_codecs_scheme \<Rightarrow> feature_graph \<Rightarrow> transaction_log \<Rightarrow> (string \<times> string) list \<Rightarrow> string list
     \<Rightarrow> bool \<Rightarrow> log_error + unit" where
  "validate_feature_entries cd g tlog entries allow_bracket allow_sketch =
     and_then (fold_ok (admit_entry cd g tlog allow_bracket allow_sketch) entries []) (\<lambda>_. Inr ())"

end
