(* ===== verification/Bundle.thy ===== *)
theory Bundle
  imports Replay
begin

text \<open>
  A sealed bundle generation (\<^verbatim>\<open>src/crates/persistence/src/lib.rs\<close>): its manifest
  with the seals, and \<^verbatim>\<open>open_sealed\<close>, which authenticates the files of a generation
  and rebuilds the state.  A generation is the value \<open>generation_files\<close>: the two canonical files
  and the promoted BREP files by file name; that a promoted BREP is a regular file is taken for
  granted, and the last check, that the log is UTF-8, always succeeds on a log that was parsed.
\<close>

section \<open>Manifests\<close>

record manifest =
  mf_schema_version :: string
  mf_schema_generation :: nat
  mf_generation_id :: string
  mf_revision_id :: string
  mf_revision_count :: nat
  mf_transaction_count :: nat
  mf_transaction_bytes :: nat
  mf_transaction_sha256 :: string
  mf_terminal_log_digest :: string
  mf_feature_graph_hash :: string
  mf_revision_hash :: string
  mf_canonical_root_sha256 :: string
  mf_seal_sha256 :: string
  mf_command_registry_hash :: string
  mf_feature_schema_version :: string
  mf_protocol_schema_version :: string
  mf_occt_worker :: worker_fingerprint
  mf_occt_kernel_version :: string
  mf_slvs_worker :: worker_fingerprint
  mf_slvs_solver_version :: string

text \<open>
  The JSON of a manifest, compact for the seals and pretty for the file, its parser, and the
  registry hash that \<^verbatim>\<open>src/crates/protocol/src/schema.rs\<close> computes over its documents.
\<close>

record bundle_codecs = state_codecs +
  manifest_json :: "manifest \<Rightarrow> string"
  manifest_pretty :: "manifest \<Rightarrow> string"
  decode_manifest :: "string \<Rightarrow> string + manifest"
  command_registry_identity :: string

definition schema_epoch :: string where "schema_epoch = ''threeterm.persistence/1''"
definition manifest_schema_generation :: nat where "manifest_schema_generation = 1"
definition feature_schema_identity :: string where "feature_schema_identity = ''threeterm.domain/1''"
definition occt_kernel_identity :: string where
  "occt_kernel_identity = ''occt/V7_9_2+c5f20409c52bf8f658314d205a0e5d6f0be0969c''"
definition slvs_solver_identity :: string where
  "slvs_solver_identity = ''libslvs/v3.2+27b6a080c8b669421bd4d444650c3b8eddec5687''"
definition legacy_command_registry_hash :: string where
  "legacy_command_registry_hash = ''cd22969af81db009ba1ecfb4b2976df9b9d01aa9fea57e5b05c40f21c1c958d6''"

definition slvs_worker_identity :: worker_fingerprint where
  "slvs_worker_identity =
     \<lparr>wf_worker_kind = ''slvs'', wf_worker_schema_version = ''threeterm.workers.slvs/1'',
      wf_protocol_schema_version = protocol_schema_identity\<rparr>"

definition canonical_manifest_bytes :: "'c bundle_codecs_scheme \<Rightarrow> manifest \<Rightarrow> string" where
  "canonical_manifest_bytes cd m =
     manifest_json cd (m\<lparr>mf_canonical_root_sha256 := [], mf_seal_sha256 := []\<rparr>)"

definition sealed_manifest_bytes :: "'c bundle_codecs_scheme \<Rightarrow> manifest \<Rightarrow> string" where
  "sealed_manifest_bytes cd m = manifest_json cd (m\<lparr>mf_seal_sha256 := []\<rparr>)"

definition graph_hash :: "'c state_codecs_scheme \<Rightarrow> feature_graph \<Rightarrow> string" where
  "graph_hash cd g =
     graph_hash_hex (sha256_hex cd) (features_json cd) (sketches_json cd) (fits_json cd) g"

definition seal_manifest ::
  "'c bundle_codecs_scheme \<Rightarrow> string \<Rightarrow> string \<Rightarrow> transaction_log \<Rightarrow> feature_graph \<Rightarrow> manifest" where
  "seal_manifest cd generation_id revision_id tlog g =
     (let transactions = encode_log cd tlog; digest = terminal_digest_hex tlog;
          m = \<lparr>mf_schema_version = schema_epoch,
               mf_schema_generation = manifest_schema_generation,
               mf_generation_id = sha256_hex cd (''generation/'' @ generation_id @ ''/'' @
                 revision_id @ ''/'' @ digest),
               mf_revision_id = revision_id, mf_revision_count = 1,
               mf_transaction_count = length tlog,
               mf_transaction_bytes = length transactions,
               mf_transaction_sha256 = sha256_hex cd transactions,
               mf_terminal_log_digest = digest, mf_feature_graph_hash = graph_hash cd g,
               mf_revision_hash = revision_of cd g digest,
               mf_canonical_root_sha256 = [], mf_seal_sha256 = [],
               mf_command_registry_hash = command_registry_identity cd,
               mf_feature_schema_version = feature_schema_identity,
               mf_protocol_schema_version = protocol_schema_identity,
               mf_occt_worker = occt_worker_identity, mf_occt_kernel_version = occt_kernel_identity,
               mf_slvs_worker = slvs_worker_identity, mf_slvs_solver_version = slvs_solver_identity\<rparr>;
          m' = m\<lparr>mf_canonical_root_sha256 := sha256_hex cd (canonical_manifest_bytes cd m)\<rparr> in
      m'\<lparr>mf_seal_sha256 := sha256_hex cd (sealed_manifest_bytes cd m')\<rparr>)"

definition missing_identity_in :: "string \<Rightarrow> string option" where
  "missing_identity_in message =
     (case after_first (''missing field '' @ [CHR 0x60]) message of None \<Rightarrow> None
      | Some rest \<Rightarrow>
          (case split_once CHR 0x60 rest of None \<Rightarrow> None
           | Some (identity, _) \<Rightarrow>
               if identity \<in> {''command_registry_hash'', ''feature_schema_version'',
                   ''protocol_schema_version'', ''occt_worker'', ''occt_kernel_version'',
                   ''slvs_worker'', ''slvs_solver_version''}
               then Some identity else None))"

definition scalar_identity :: "string \<Rightarrow> string \<Rightarrow> string \<Rightarrow> log_error + unit" where
  "scalar_identity identity expected found =
     ensure (expected = found)
       (CompatibilityIdentityMismatch identity (ScalarIdentity expected) (ScalarIdentity found))"

definition worker_identity :: "string \<Rightarrow> worker_fingerprint \<Rightarrow> worker_fingerprint \<Rightarrow> log_error + unit" where
  "worker_identity identity expected found =
     ensure (expected = found)
       (CompatibilityIdentityMismatch identity (WorkerIdentity expected) (WorkerIdentity found))"

definition validate_compatibility_identities ::
  "'c bundle_codecs_scheme \<Rightarrow> manifest \<Rightarrow> bool \<Rightarrow> log_error + unit" where
  "validate_compatibility_identities cd m legacy =
     and_then
       (if mf_command_registry_hash m = legacy_command_registry_hash \<and> legacy then Inr ()
        else scalar_identity ''command_registry_hash'' (command_registry_identity cd)
               (mf_command_registry_hash m))
     (\<lambda>_. and_then (scalar_identity ''feature_schema_version'' feature_schema_identity
                      (mf_feature_schema_version m))
     (\<lambda>_. and_then (scalar_identity ''protocol_schema_version'' protocol_schema_identity
                      (mf_protocol_schema_version m))
     (\<lambda>_. and_then (scalar_identity ''occt_kernel_version'' occt_kernel_identity
                      (mf_occt_kernel_version m))
     (\<lambda>_. and_then (scalar_identity ''slvs_solver_version'' slvs_solver_identity
                      (mf_slvs_solver_version m))
     (\<lambda>_. and_then (worker_identity ''occt_worker'' occt_worker_identity (mf_occt_worker m))
     (\<lambda>_. worker_identity ''slvs_worker'' slvs_worker_identity (mf_slvs_worker m)))))))"

section \<open>Opening a generation\<close>

record generation_files =
  gf_manifest :: "string option"
  gf_log :: "string option"
  gf_breps :: "(string, string) btree option"

text \<open>Keep the latest BREP entry of each feature the graph still has.\<close>

definition latest_brep_entries :: "transaction_log \<Rightarrow> feature_graph \<Rightarrow> (string, log_entry) btree" where
  "latest_brep_entries tlog g =
     fold (\<lambda>e latest.
       if contains_feature g (le_feature_id e) \<and>
          (le_brep_path e \<noteq> None \<or> le_brep_byte_count e \<noteq> None \<or> le_brep_sha256 e \<noteq> None)
       then bt_insert (le_feature_id e) e latest else latest) tlog []"

definition file_name :: "string \<Rightarrow> string" where
  "file_name path = last (split_at_char CHR ''/'' path)"

definition verify_brep ::
  "'c bundle_codecs_scheme \<Rightarrow> (string, string) btree \<Rightarrow> log_entry \<Rightarrow> log_error + unit" where
  "verify_brep cd breps e =
     (let k = le_log_index e; i = le_feature_id e in
      and_then (ok_or (le_brep_path e) (LogBrokenLink k ''BREP transaction is missing its path''))
      (\<lambda>path. and_then
        (ok_or (le_brep_byte_count e) (LogBrokenLink k ''BREP path is missing its byte count''))
      (\<lambda>bytes. and_then
        (ok_or (le_brep_sha256 e) (LogBrokenLink k ''BREP path is missing its digest''))
      (\<lambda>sha. and_then
        (ensure (path = ''brep/'' @ i @ ''.brep'')
          (LogBrokenLink k ''BREP path does not match its feature ID''))
      (\<lambda>_. case bt_get breps (file_name path) of None \<Rightarrow> Inr ()
         | Some content \<Rightarrow>
             ensure (length content = bytes \<and> sha256_hex cd content = sha)
               (Invalid (''promoted BREP for '' @ i @ '' failed integrity verification'')))))))"

definition verify_brep_provenance ::
  "'c bundle_codecs_scheme \<Rightarrow> generation_files \<Rightarrow> transaction_log \<Rightarrow> feature_graph \<Rightarrow> log_error + unit" where
  "verify_brep_provenance cd files tlog g =
     (case gf_breps files of None \<Rightarrow> Inr ()
      | Some breps \<Rightarrow> each_ok (verify_brep cd breps) (map snd (latest_brep_entries tlog g)))"

record loaded_bundle = canonical_state +
  lb_manifest :: manifest
  lb_transactions :: string
  lb_log :: transaction_log

definition manifest_error :: "string \<Rightarrow> log_error" where
  "manifest_error message =
     (case unknown_field_in message of
        Some field \<Rightarrow> ManifestFieldUnknown ''v1'' field
      | None \<Rightarrow>
          (case missing_identity_in message of
             Some identity \<Rightarrow> CompatibilityIdentityMissing identity
           | None \<Rightarrow> Invalid message))"

definition seals_match ::
  "'c bundle_codecs_scheme \<Rightarrow> manifest \<Rightarrow> string \<Rightarrow> transaction_log \<Rightarrow> feature_graph \<Rightarrow> bool" where
  "seals_match cd m transactions tlog g =
     (mf_transaction_count m = length tlog \<and>
      mf_transaction_bytes m = length transactions \<and>
      mf_transaction_sha256 m = sha256_hex cd transactions \<and>
      mf_feature_graph_hash m = graph_hash cd g \<and>
      mf_revision_hash m = revision_of cd g (terminal_digest_hex tlog) \<and>
      mf_canonical_root_sha256 m = sha256_hex cd (canonical_manifest_bytes cd m) \<and>
      mf_seal_sha256 m = sha256_hex cd (sealed_manifest_bytes cd m))"

definition open_sealed_files ::
  "'c bundle_codecs_scheme \<Rightarrow> generation_files \<Rightarrow> log_error + loaded_bundle" where
  "open_sealed_files cd files =
     and_then (ok_or (gf_manifest files) ManifestMissing)
     (\<lambda>bytes. and_then (map_err manifest_error (decode_manifest cd bytes))
     (\<lambda>m. and_then (ensure (mf_schema_generation m = manifest_schema_generation)
        (SchemaGenerationUnsupported (mf_schema_generation m)))
     (\<lambda>_. and_then (ensure (mf_schema_version m = schema_epoch)
        (SchemaGenerationUnsupported (mf_schema_generation m)))
     (\<lambda>_. and_then (ok_or (gf_log files) LogMissing)
     (\<lambda>transactions. and_then (decode_and_verify cd transactions)
     (\<lambda>tlog. and_then (ensure (terminal_digest_hex tlog = mf_terminal_log_digest m) LogDigestMismatch)
     (\<lambda>_. and_then (validate_compatibility_identities cd m
        (mf_command_registry_hash m = legacy_command_registry_hash \<and>
         list_all (\<lambda>e. le_intent e = None) tlog))
     (\<lambda>_. and_then (replay_canonical_state cd tlog)
     (\<lambda>s. and_then (ensure (seals_match cd m transactions tlog (cs_graph s)) LogDigestMismatch)
     (\<lambda>_. and_then (verify_brep_provenance cd files tlog (cs_graph s))
     (\<lambda>_. Inr (canonical_state.extend s (loaded_bundle.fields m transactions tlog)))))))))))))"

text \<open>A new bundle: the empty log and its manifest.\<close>

definition create_inner :: "'c bundle_codecs_scheme \<Rightarrow> string \<Rightarrow> string \<Rightarrow> generation_files" where
  "create_inner cd generation_id revision_id =
     \<lparr>gf_manifest = Some (manifest_pretty cd
        (seal_manifest cd generation_id revision_id [] empty_graph)),
      gf_log = Some (encode_log cd []), gf_breps = None\<rparr>"

end
