(* ===== verification/Append.thy ===== *)
theory Append
  imports Bundle
begin

text \<open>
  The write transaction of a bundle, \<^verbatim>\<open>append_features_locked_with_fit_and_component_geometry\<close>
  of \<^verbatim>\<open>src/crates/persistence/src/lib.rs\<close>: idempotency and revision checks, the gate that
  an intent must pass, the admission of the entries, the history event, the entries themselves,
  the fit dimension and the sealed result.  The model takes the loaded bundle, its files and whether
  they were recovered from the previous slot, and answers with the next files, which the
  publication protocol (theory \<open>Publication\<close>) puts on disk.  Checkpoint copies and
  component geometries are derived files that nothing reads back here; they are left out.
\<close>

section \<open>Requests\<close>

record append_request =
  ar_entries :: "(string \<times> string) list"
  ar_expected_revision :: "string option"
  ar_breps :: "(string \<times> string) list"
  ar_source_breps :: "(string \<times> string) list"
  ar_idempotency_key :: "string option"
  ar_idempotency_payload :: "string option"
  ar_history_event :: "history_event option"
  ar_fit_dimension :: "fit_dimension option"
  ar_reject_existing_brep :: bool
  ar_allow_existing_sketch_update :: bool
  ar_allow_existing_bracket_edit :: bool
  ar_intent :: "canonical_intent option"

definition brep_file :: "string \<Rightarrow> string" where
  "brep_file feature_id = feature_id @ ''.brep''"

definition has_brep :: "generation_files \<Rightarrow> string \<Rightarrow> bool" where
  "has_brep files i =
     (case gf_breps files of None \<Rightarrow> False | Some breps \<Rightarrow> bt_contains breps (brep_file i))"

section \<open>Idempotency\<close>

definition key_used :: "transaction_log \<Rightarrow> string \<Rightarrow> bool" where
  "key_used tlog key = list_ex (\<lambda>e. le_idempotency_key e = Some key) tlog"

definition same_transaction :: "transaction_log \<Rightarrow> append_request \<Rightarrow> string \<Rightarrow> bool" where
  "same_transaction tlog r key =
     (ar_entries r \<noteq> [] \<and>
      list_all (\<lambda>(i, kind).
        list_ex (\<lambda>e. le_idempotency_key e = Some key \<and> le_feature_id e = i \<and> le_kind e = kind \<and>
          le_idempotency_payload e = ar_idempotency_payload r) tlog) (ar_entries r))"

section \<open>The gate of intents\<close>

fun known_operation :: "canonical_intent \<Rightarrow> bool" where
  "known_operation (Extrude i) = (extrude_operation i \<in> {''additive'', ''subtractive''})"
| "known_operation (Revolve i) = (revolve_operation i = ''revolve'')"
| "known_operation (Mirror i) = (mirror_operation i = ''mirror'')"
| "known_operation (LinearPattern i) = (linear_pattern_operation i = ''linear-pattern'')"
| "known_operation (CircularPattern i) = (circular_pattern_operation i = ''circular-pattern'')"
| "known_operation (Bracket i) = (bracket_operation i = ''bracket'')"
| "known_operation (Boolean i) = (boolean_operation i \<in> {''fuse'', ''cut'', ''common''})"
| "known_operation (BooleanPattern i) = (boolean_pattern_operation i = ''boolean-pattern'')"
| "known_operation (Split i) = (split_operation i = ''split'')"
| "known_operation (Hole i) = (hole_kind i \<in> {''drilled'', ''tapped''})"
| "known_operation (Fillet i) = True"
| "known_operation (Chamfer i) = True"
| "known_operation (Shell i) = True"
| "known_operation (Draft i) = True"
| "known_operation (Loft i) = True"

text \<open>
  The BREP files are looked up under the root of the bundle.  A generation that was recovered from
  the previous slot is not there: the root has no files then.
\<close>

definition root_files :: "generation_files \<times> bool \<Rightarrow> generation_files" where
  "root_files opened =
     (case opened of (files, recovered) \<Rightarrow>
        if recovered then \<lparr>gf_manifest = None, gf_log = None, gf_breps = None\<rparr> else files)"

definition gate_base ::
  "'c bundle_codecs_scheme \<Rightarrow> generation_files \<Rightarrow> loaded_bundle \<Rightarrow> canonical_intent \<Rightarrow> log_error + unit" where
  "gate_base cd at_root b i =
     (case base_reference i of None \<Rightarrow> Inr ()
      | Some base \<Rightarrow>
          and_then (ensure (contains_feature (cs_graph b) base)
            (Invalid (''canonical '' @ intent_command i @ '' base feature is missing: '' @ base)))
          (\<lambda>_. and_then (ensure (valid_feature_path_component base)
            (Invalid (''canonical '' @ intent_command i @
               '' base feature ID is not a plain path component: '' @ base)))
          (\<lambda>_. and_then (ensure (has_brep at_root base)
            (Invalid (''canonical '' @ intent_command i @
               '' base feature has no available BREP: '' @ base)))
          (\<lambda>_. verify_brep_provenance cd at_root (lb_log b) (cs_graph b)))))"

definition gate_common ::
  "'c bundle_codecs_scheme \<Rightarrow> generation_files \<Rightarrow> loaded_bundle \<Rightarrow> append_request \<Rightarrow> canonical_intent
     \<Rightarrow> log_error + string" where
  "gate_common cd at_root b r i =
     and_then (ensure (is_current_schema_version i)
       (CanonicalVersionUnsupported None (intent_schema_version i)))
     (\<lambda>_. and_then (ensure (known_operation i)
       (CanonicalOperationUnknown None (operation_text i)))
     (\<lambda>_. and_then (gate_base cd at_root b i)
     (\<lambda>_. and_then
       (ok_or (case intent_affected_semantic_ids i of [] \<Rightarrow> None | x # _ \<Rightarrow> Some x)
         (Invalid (''canonical '' @ intent_command i @ '' intent has no affected feature'')))
     (\<lambda>feature_id. and_then
       (ensure
         ((is_bracket i \<or> length (ar_entries r) = 1) \<and>
          list_ex (\<lambda>(j, _). j = feature_id) (ar_entries r) \<and>
          is_ok (validate_intent cd i feature_id))
         (Invalid (''canonical '' @ intent_command i @ '' intent does not match its transaction'')))
     (\<lambda>_. and_then
       (ensure (ar_idempotency_key r = Some (intent_request_id i))
         (Invalid (''canonical '' @ intent_command i @
            '' intent request ID does not match transaction provenance'')))
     (\<lambda>_. and_then (arm_worker i)
     (\<lambda>_. and_then
       (ensure (intent_source_revision i = mf_revision_hash (lb_manifest b))
         (Invalid (''canonical '' @ intent_command i @
            '' intent source revision does not match the transaction source'')))
     (\<lambda>_. Inr feature_id))))))))"

text \<open>
  The arms of the match on the intent.  Four variants repeat the common checks one by one with
  messages of their own; the others join them in one condition.
\<close>

definition single_valid ::
  "'c bundle_codecs_scheme \<Rightarrow> append_request \<Rightarrow> canonical_intent \<Rightarrow> bool" where
  "single_valid cd r i =
     (length (ar_entries r) = 1 \<and> is_ok (validate_intent cd i (fst (hd (ar_entries r)))))"

definition gate_repeat ::
  "'c bundle_codecs_scheme \<Rightarrow> loaded_bundle \<Rightarrow> append_request \<Rightarrow> canonical_intent \<Rightarrow> log_error + unit" where
  "gate_repeat cd b r i =
     and_then (ensure (single_valid cd r i)
       (Invalid (''canonical '' @ intent_command i @ '' intent does not match its transaction'')))
     (\<lambda>_. and_then (ensure (ar_idempotency_key r = Some (intent_request_id i))
       (Invalid (''canonical '' @ intent_command i @
          '' intent request ID does not match transaction provenance'')))
     (\<lambda>_. and_then (arm_worker i)
     (\<lambda>_. ensure (intent_source_revision i = mf_revision_hash (lb_manifest b))
       (Invalid (''canonical '' @ intent_command i @
          '' intent source revision does not match the transaction source'')))))"

definition joined ::
  "'c bundle_codecs_scheme \<Rightarrow> loaded_bundle \<Rightarrow> append_request \<Rightarrow> canonical_intent \<Rightarrow> bool \<Rightarrow> string
     \<Rightarrow> log_error + unit" where
  "joined cd b r i extra what =
     ensure
       (extra \<and> single_valid cd r i \<and> ar_idempotency_key r = Some (intent_request_id i) \<and>
        intent_worker_requirements i = occt_worker_identity \<and>
        intent_source_revision i = mf_revision_hash (lb_manifest b))
       (Invalid (''canonical '' @ what @ '' intent does not match its transaction''))"

definition geometry_base :: "loaded_bundle \<Rightarrow> string \<Rightarrow> bool" where
  "geometry_base b i =
     (contains_feature (cs_graph b) i \<and> canonical_geometry_feature_exists (cs_graph b) (lb_log b) i)"

definition missing_feature :: "loaded_bundle \<Rightarrow> string \<Rightarrow> string \<Rightarrow> log_error + unit" where
  "missing_feature b what i =
     ensure (contains_feature (cs_graph b) i)
       (Invalid (''canonical '' @ what @ '' feature is missing: '' @ i))"

definition gate_version :: "canonical_intent \<Rightarrow> string \<Rightarrow> log_error + unit" where
  "gate_version i expected =
     ensure (intent_schema_version i = expected)
       (CanonicalVersionUnsupported None (intent_schema_version i))"

definition gate_operation :: "canonical_intent \<Rightarrow> bool \<Rightarrow> log_error + unit" where
  "gate_operation i ok = ensure ok (CanonicalOperationUnknown None (operation_text i))"

fun gate_arm ::
  "'c bundle_codecs_scheme \<Rightarrow> loaded_bundle \<Rightarrow> append_request \<Rightarrow> string \<Rightarrow> canonical_intent
     \<Rightarrow> log_error + unit" where
  "gate_arm cd b r feature_id (Extrude i) =
     and_then (gate_version (Extrude i) extrude_schema) (\<lambda>_.
     and_then (gate_operation (Extrude i) (ib_command i = ''extrude'' \<and>
       extrude_operation i \<in> {''additive'', ''subtractive''})) (\<lambda>_.
     and_then (case extrude_target_feature_id i of None \<Rightarrow> Inr ()
       | Some target \<Rightarrow> missing_feature b ''extrude target'' target) (\<lambda>_.
     gate_repeat cd b r (Extrude i))))"
| "gate_arm cd b r feature_id (Boolean i) =
     and_then (gate_version (Boolean i) boolean_schema) (\<lambda>_.
     and_then (gate_operation (Boolean i) (ib_command i = ''boolean'' \<and>
       boolean_operation i \<in> {''fuse'', ''cut'', ''common''})) (\<lambda>_.
     and_then (missing_feature b ''boolean base'' (boolean_base_feature_id i)) (\<lambda>_.
     and_then (missing_feature b ''boolean tool'' (boolean_tool_feature_id i)) (\<lambda>_.
     gate_repeat cd b r (Boolean i)))))"
| "gate_arm cd b r feature_id (BooleanPattern i) =
     joined cd b r (BooleanPattern i) (geometry_base b (boolean_pattern_base_feature_id i))
       ''Boolean Pattern''"
| "gate_arm cd b r feature_id (Split i) =
     joined cd b r (Split i) (geometry_base b (split_base_feature_id i)) ''split''"
| "gate_arm cd b r feature_id (Hole i) =
     and_then (gate_version (Hole i) hole_schema) (\<lambda>_.
     and_then (gate_operation (Hole i) (ib_command i = ''hole'' \<and>
       hole_kind i \<in> {''drilled'', ''tapped''})) (\<lambda>_.
     and_then (missing_feature b ''hole base'' (hole_base_feature_id i)) (\<lambda>_.
     gate_repeat cd b r (Hole i))))"
| "gate_arm cd b r feature_id (Bracket i) =
     ensure
       (bracket_transaction_entries_match (ar_entries r) feature_id (bracket_inputs i) (cs_graph b)
          (ar_allow_existing_bracket_edit r) \<and>
        is_ok (validate_intent cd (Bracket i) feature_id) \<and>
        ar_idempotency_key r = Some (ib_request_id i) \<and>
        ib_worker_requirements i = occt_worker_identity \<and>
        ib_source_revision i = mf_revision_hash (lb_manifest b))
       (Invalid ''canonical bracket intent does not match its transaction'')"
| "gate_arm cd b r feature_id (Fillet i) =
     and_then (gate_version (Fillet i) fillet_schema) (\<lambda>_.
     and_then (ensure (geometry_base b (fillet_base_feature_id i))
       (Invalid (''canonical fillet base feature is missing: '' @ fillet_base_feature_id i))) (\<lambda>_.
     gate_repeat cd b r (Fillet i)))"
| "gate_arm cd b r feature_id (Chamfer i) =
     joined cd b r (Chamfer i) (geometry_base b (chamfer_base_feature_id i)) ''chamfer''"
| "gate_arm cd b r feature_id (Shell i) =
     joined cd b r (Shell i) (geometry_base b (shell_base_feature_id i)) ''shell''"
| "gate_arm cd b r feature_id (Draft i) =
     joined cd b r (Draft i) (geometry_base b (draft_base_feature_id i)) ''draft''"
| "gate_arm cd b r feature_id (Loft i) = joined cd b r (Loft i) True ''loft''"
| "gate_arm cd b r feature_id (Revolve i) = Inr ()"
| "gate_arm cd b r feature_id (Mirror i) = Inr ()"
| "gate_arm cd b r feature_id (LinearPattern i) = Inr ()"
| "gate_arm cd b r feature_id (CircularPattern i) = Inr ()"

definition gate_intent ::
  "'c bundle_codecs_scheme \<Rightarrow> generation_files \<Rightarrow> loaded_bundle \<Rightarrow> append_request \<Rightarrow> log_error + unit" where
  "gate_intent cd at_root b r =
     (case ar_intent r of None \<Rightarrow> Inr ()
      | Some i \<Rightarrow> and_then (gate_common cd at_root b r i) (\<lambda>feature_id. gate_arm cd b r feature_id i))"

section \<open>Entries\<close>

definition starts_bracket :: "string \<Rightarrow> bool" where
  "starts_bracket kind = starts_with_string ''bracket:'' kind"

definition bracket_edits :: "loaded_bundle \<Rightarrow> append_request \<Rightarrow> string list" where
  "bracket_edits b r =
     (if ar_allow_existing_bracket_edit r \<and> ar_idempotency_key r \<noteq> None \<and>
         ar_source_breps r \<noteq> [] \<and> ar_entries r \<noteq> [] \<and>
         list_all (\<lambda>(_, kind). starts_bracket kind) (ar_entries r) \<and>
         list_all (\<lambda>(i, _).
           case find (\<lambda>f. ft_id f = i) (graph_features (cs_graph b)) of None \<Rightarrow> False
           | Some f \<Rightarrow> starts_bracket (ft_kind f)) (ar_entries r)
      then map fst (ar_entries r) else [])"

definition check_breps :: "loaded_bundle \<Rightarrow> append_request \<Rightarrow> log_error + unit" where
  "check_breps b r =
     and_then
       (each_ok (\<lambda>(i, _). ensure (list_ex (\<lambda>(j, _). j = i) (ar_entries r))
          (Invalid ''BREP feature ID is not part of the transaction'')) (ar_breps r))
     (\<lambda>_. if ar_reject_existing_brep r then
        each_ok (\<lambda>(i, _). ensure (\<not> list_ex (\<lambda>f. ft_id f = i) (graph_features (cs_graph b)))
          (Invalid (''feature ID '' @ debug_string i @ '' already exists''))) (ar_breps r)
      else Inr ())"

text \<open>The digest of a source BREP; the text of a read error is left out.\<close>

definition check_source_brep ::
  "'c bundle_codecs_scheme \<Rightarrow> generation_files \<Rightarrow> string \<times> string \<Rightarrow> log_error + unit" where
  "check_source_brep cd at_root source =
     (case source of (i, expected) \<Rightarrow>
        and_then (ok_or (Option.bind (gf_breps at_root) (\<lambda>breps. bt_get breps (brep_file i)))
          (Invalid ''source BREP could not be read''))
        (\<lambda>content. ensure (sha256_hex cd content = expected)
          (Invalid (''source BREP digest mismatch for '' @ i @ '': expected '' @ expected @
             '', actual '' @ sha256_hex cd content))))"

text \<open>
  The history event goes first, rebased when it initialises a bracket and its ordinal is stale.
\<close>

definition rebase_event ::
  "geometry_digest \<Rightarrow> history_state \<Rightarrow> history_event \<Rightarrow> log_error + history_event" where
  "rebase_event fp h event =
     (if he_ordinal event = h_event_ordinal h + 1 then Inr event
      else case he_operation event of
          InitializeLBracket bid len width height thickness \<Rightarrow>
            map_err (Invalid \<circ> history_error_text)
              (initialize_l_bracket fp h bid len width height thickness)
        | _ \<Rightarrow> Inl (Invalid (''stale history event ordinal '' @ show_nat (he_ordinal event) @
                 '', current ordinal '' @ show_nat (h_event_ordinal h))))"

definition append_history ::
  "'c bundle_codecs_scheme \<Rightarrow> geometry_digest \<Rightarrow> loaded_bundle \<Rightarrow> history_event option
     \<Rightarrow> log_error + transaction_log" where
  "append_history cd fp b event =
     (case event of None \<Rightarrow> Inr (lb_log b)
      | Some event \<Rightarrow>
          and_then (rebase_event fp (cs_history b) event)
          (\<lambda>rebased. and_then (map_err (Invalid \<circ> history_error_text)
             (apply_event (cs_history b) rebased))
          (\<lambda>_. Inr (append_feature cd (''history-event-'' @ show_nat (length (lb_log b)))
             (history_prefix @ encode_event cd rebased) (lb_log b)))))"

definition staged_brep :: "append_request \<Rightarrow> string \<Rightarrow> string option" where
  "staged_brep r i = map_option snd (find (\<lambda>e. fst e = i) (ar_breps r))"

definition log_entry_for ::
  "'c bundle_codecs_scheme \<Rightarrow> append_request \<Rightarrow> string \<Rightarrow> string \<Rightarrow> transaction_log \<Rightarrow> transaction_log" where
  "log_entry_for cd r i kind tlog =
     (case ar_idempotency_key r of
        Some key \<Rightarrow>
          (case staged_brep r i of
             Some bytes \<Rightarrow> append_feature_with_brep cd i kind bytes (Some key)
               (ar_idempotency_payload r) (ar_intent r) tlog
           | None \<Rightarrow> append_feature_with_idempotency cd i kind key (ar_idempotency_payload r) tlog)
      | None \<Rightarrow>
          (case staged_brep r i of
             Some bytes \<Rightarrow> append_feature_with_brep cd i kind bytes None None (ar_intent r) tlog
           | None \<Rightarrow> append_feature cd i kind tlog))"

definition change_graph ::
  "feature_graph \<Rightarrow> string option \<Rightarrow> sketch_payload option \<Rightarrow> feature \<Rightarrow> log_error + feature_graph \<times> bool" where
  "change_graph g operation sketch f =
     (if operation = Some ''remove'' then
        and_then (ensure (contains_feature g (ft_id f))
          (Invalid (''feature ID '' @ debug_string (ft_id f) @ '' does not exist'')))
        (\<lambda>_. Inr (remove_feature g (ft_id f)))
      else if operation = Some ''set'' then
        and_then (ensure (contains_feature g (ft_id f))
          (Invalid (''feature ID '' @ debug_string (ft_id f) @ '' does not exist'')))
        (\<lambda>_. Inr (fst (set_feature g f), True))
      else case sketch of
          Some payload \<Rightarrow>
            (case add_sketch g f payload of
               (_, Inl detail) \<Rightarrow> Inl (Invalid detail)
             | (g', Inr changed) \<Rightarrow> Inr (g', changed))
        | None \<Rightarrow> Inr (add_feature g f))"

definition transaction_entry ::
  "'c bundle_codecs_scheme \<Rightarrow> append_request \<Rightarrow> string \<times> string \<Rightarrow> feature_graph \<times> transaction_log
     \<Rightarrow> log_error + feature_graph \<times> transaction_log" where
  "transaction_entry cd r entry s =
     (case (entry, s) of ((i, kind), (g, tlog)) \<Rightarrow>
      and_then
        (case strip_prefix sketch_prefix kind of None \<Rightarrow> Inr None
         | Some payload \<Rightarrow>
             and_then (map_err (\<lambda>m. Invalid (''invalid sketch payload: '' @ m))
               (decode_sketch cd payload)) (\<lambda>p. Inr (Some p)))
      (\<lambda>sketch. case apply_kind kind of (operation, canonical_kind) \<Rightarrow>
      and_then
        (map_err (Invalid \<circ> domain_error_text)
          (feature_new i (if sketch \<noteq> None then ''sketch'' else canonical_kind)))
      (\<lambda>f. and_then (change_graph g operation sketch f)
      (\<lambda>(g', changed). Inr (g', if changed then log_entry_for cd r i kind tlog else tlog)))))"

definition append_fit ::
  "'c bundle_codecs_scheme \<Rightarrow> fit_dimension option \<Rightarrow> feature_graph \<times> transaction_log
     \<Rightarrow> log_error + feature_graph \<times> transaction_log" where
  "append_fit cd fit s =
     (case (fit, s) of
        (None, s) \<Rightarrow> Inr s
      | (Some d, (g, tlog)) \<Rightarrow>
          (case add_fit_dimension g d of
             (_, Inl detail) \<Rightarrow> Inl (Invalid detail)
           | (g', Inr added) \<Rightarrow>
               Inr (g', if added then append_feature cd (''fit-dimension-'' @ show_nat (length tlog))
                          (fit_prefix @ encode_fit cd d) tlog else tlog)))"

section \<open>The transaction\<close>

definition staged_files ::
  "'c bundle_codecs_scheme \<Rightarrow> generation_files \<Rightarrow> loaded_bundle \<Rightarrow> append_request
     \<Rightarrow> feature_graph \<Rightarrow> transaction_log \<Rightarrow> generation_files" where
  "staged_files cd files b r g tlog =
     \<lparr>gf_manifest = Some (manifest_pretty cd
        (seal_manifest cd (mf_generation_id (lb_manifest b)) (mf_revision_id (lb_manifest b)) tlog g)),
      gf_log = Some (encode_log cd tlog),
      gf_breps =
        (if ar_breps r = [] then gf_breps files
         else Some (fold (\<lambda>(i, bytes). bt_insert (brep_file i) bytes) (ar_breps r)
                (case gf_breps files of None \<Rightarrow> [] | Some breps \<Rightarrow> breps)))\<rparr>"

definition check_idempotency :: "loaded_bundle \<Rightarrow> append_request \<Rightarrow> log_error + bool" where
  "check_idempotency b r =
     (case ar_idempotency_key r of None \<Rightarrow> Inr False
      | Some key \<Rightarrow>
          if \<not> key_used (lb_log b) key then Inr False
          else if same_transaction (lb_log b) r key then Inr True
          else Inl (Invalid (''idempotency key '' @ debug_string key @
                 '' is already bound to another transaction'')))"

definition check_revision :: "loaded_bundle \<Rightarrow> append_request \<Rightarrow> log_error + unit" where
  "check_revision b r =
     (case ar_expected_revision r of None \<Rightarrow> Inr ()
      | Some expected \<Rightarrow>
          ensure (mf_revision_hash (lb_manifest b) = expected)
            (Invalid (''worker result belongs to revision '' @ debug_string expected @
               '', but current revision is '' @ debug_string (mf_revision_hash (lb_manifest b)))))"

definition transaction_body ::
  "'c bundle_codecs_scheme \<Rightarrow> geometry_digest \<Rightarrow> loaded_bundle \<Rightarrow> append_request
     \<Rightarrow> log_error + feature_graph \<times> transaction_log" where
  "transaction_body cd fp b r =
     and_then (append_history cd fp b (ar_history_event r))
     (\<lambda>tlog. and_then (fold_ok (transaction_entry cd r) (ar_entries r) (cs_graph b, tlog))
     (\<lambda>s. append_fit cd (ar_fit_dimension r) s))"

text \<open>
  What a request makes of an opened bundle: \<open>None\<close> when it has been applied before, otherwise the
  graph and the log of the next generation.
\<close>

definition plan_append ::
  "'c bundle_codecs_scheme \<Rightarrow> geometry_digest \<Rightarrow> generation_files \<Rightarrow> loaded_bundle \<Rightarrow> append_request
     \<Rightarrow> log_error + (feature_graph \<times> transaction_log) option" where
  "plan_append cd fp at_root b r =
     and_then (check_idempotency b r)
     (\<lambda>applied. if applied then Inr None else
     and_then (check_revision b r)
     (\<lambda>_. and_then (gate_intent cd at_root b r)
     (\<lambda>_. and_then (validate_feature_entries cd (cs_graph b) (lb_log b) (ar_entries r)
        (bracket_edits b r) (ar_allow_existing_sketch_update r))
     (\<lambda>_. and_then (check_breps b r)
     (\<lambda>_. and_then (each_ok (check_source_brep cd at_root) (ar_source_breps r))
     (\<lambda>_. and_then (transaction_body cd fp b r) (\<lambda>result. Inr (Some result))))))))"

definition append_files ::
  "'c bundle_codecs_scheme \<Rightarrow> geometry_digest \<Rightarrow> append_request \<Rightarrow> generation_files \<times> bool
     \<Rightarrow> log_error + generation_files" where
  "append_files cd fp r opened =
     and_then (open_sealed_files cd (fst opened))
     (\<lambda>b. and_then (plan_append cd fp (root_files opened) b r)
     (\<lambda>plan. case plan of None \<Rightarrow> Inr (fst opened)
      | Some (g, tlog) \<Rightarrow>
          let staged = staged_files cd (fst opened) b r g tlog in
          and_then (open_sealed_files cd staged) (\<lambda>_. Inr staged)))"

end
