(* ===== verification/CanonicalLogProps.thy ===== *)
theory CanonicalLogProps
  imports CanonicalLog
begin

text \<open>
  Facts on the canonical transaction log: what the append operations write is linked into one
  digest chain, \<open>decode_and_verify\<close> accepts exactly the linked and valid logs, reading back
  what was written, and the evidence of tampering that the chain gives.
\<close>

section \<open>The digest chain\<close>

definition linked :: "'c log_codecs_scheme \<Rightarrow> transaction_log \<Rightarrow> log_entry \<Rightarrow> bool" where
  "linked cd before e \<longleftrightarrow>
     le_log_index e = length before \<and> le_previous_digest e = terminal_digest_hex before \<and>
     le_terminal_digest e = recomputed_digest cd e"

inductive chained :: "'c log_codecs_scheme \<Rightarrow> transaction_log \<Rightarrow> bool" for cd where
  chained_Nil: "chained cd []"
| chained_snoc: "chained cd tlog \<Longrightarrow> linked cd tlog e \<Longrightarrow> chained cd (tlog @ [e])"

inductive_cases chained_snocE: "chained cd (tlog @ [e])"

lemma chained_snoc_iff [simp]: "chained cd (tlog @ [e]) \<longleftrightarrow> chained cd tlog \<and> linked cd tlog e"
  by (auto elim: chained_snocE intro: chained_snoc)

declare chained_Nil [simp]

lemma chained_prefix: "chained cd (xs @ ys) \<Longrightarrow> chained cd xs"
  by (induction ys rule: rev_induct) (auto simp flip: append_assoc)

lemma chained_index: "chained cd tlog \<Longrightarrow> k < length tlog \<Longrightarrow> le_log_index (tlog ! k) = k"
  by (induction tlog rule: rev_induct) (auto simp: nth_append linked_def less_Suc_eq)

lemma seal_entry_fields [simp]:
  "le_log_index (seal_entry cd e) = le_log_index e"
  "le_previous_digest (seal_entry cd e) = le_previous_digest e"
  "le_feature_id (seal_entry cd e) = le_feature_id e"
  "le_kind (seal_entry cd e) = le_kind e"
  "le_operation (seal_entry cd e) = le_operation e"
  "le_intent (seal_entry cd e) = le_intent e"
  "le_idempotency_key (seal_entry cd e) = le_idempotency_key e"
  "le_brep_path (seal_entry cd e) = le_brep_path e"
  "le_terminal_digest (seal_entry cd e) = recomputed_digest cd e"
  "recomputed_digest cd (seal_entry cd e) = recomputed_digest cd e"
  by (simp_all add: seal_entry_def recomputed_digest_def)

lemma linked_seal:
  "linked cd before (seal_entry cd e) \<longleftrightarrow>
     le_log_index e = length before \<and> le_previous_digest e = terminal_digest_hex before"
  by (simp add: linked_def)

lemmas entry_makers = new_entry_def with_idempotency_key_def with_brep_def with_intent_def

lemma next_entry_position [simp]:
  "le_log_index (next_entry cd tlog f k) = length tlog"
  "le_previous_digest (next_entry cd tlog f k) = terminal_digest_hex tlog"
  by (simp_all add: next_entry_def entry_makers split: prod.split)

text \<open>Logs that the append operations can produce.\<close>

inductive written :: "'c log_codecs_scheme \<Rightarrow> transaction_log \<Rightarrow> bool" for cd where
  written_empty: "written cd []"
| written_plain: "written cd tlog \<Longrightarrow> written cd (append_feature cd f k tlog)"
| written_key:
    "written cd tlog \<Longrightarrow> written cd (append_feature_with_idempotency cd f k key payload tlog)"
| written_brep:
    "written cd tlog \<Longrightarrow> written cd (append_feature_with_brep cd f k bytes key payload intent tlog)"

lemma linked_next: "linked cd tlog (next_entry cd tlog f k)"
  unfolding next_entry_def new_entry_def by (simp add: linked_seal split: prod.split)

lemma append_feature_chained [simp]: "chained cd (append_feature cd f k tlog) \<longleftrightarrow> chained cd tlog"
  by (simp add: append_feature_def linked_next)

lemma append_with_idempotency_chained [simp]:
  "chained cd (append_feature_with_idempotency cd f k key payload tlog) \<longleftrightarrow> chained cd tlog"
  by (simp add: append_feature_with_idempotency_def with_idempotency_key_def linked_seal)

lemma append_with_brep_chained [simp]:
  "chained cd (append_feature_with_brep cd f k bytes key payload intent tlog) \<longleftrightarrow> chained cd tlog"
  by (auto simp: append_feature_with_brep_def with_idempotency_key_def with_brep_def with_intent_def
      linked_seal Let_def split: option.splits)

lemma written_chained: "written cd tlog \<Longrightarrow> chained cd tlog"
  by (induction rule: written.induct) simp_all

section \<open>Decoding\<close>

definition accepted_entry :: "'c log_codecs_scheme \<Rightarrow> log_entry \<Rightarrow> bool" where
  "accepted_entry cd e \<longleftrightarrow> validate_canonical_entry cd e = Inr ()"

lemma decode_line_Inr:
  "decode_line cd k line es = Inr es' \<longleftrightarrow>
     (\<exists>e. decode_entry cd line = Inr e \<and> linked cd es e \<and> accepted_entry cd e \<and> es' = es @ [e])"
  by (auto simp: decode_line_def and_then_Inr_iff linked_def accepted_entry_def)

lemma decode_lines_Inr:
  assumes "chained cd es"
  shows "decode_lines cd k lines es = Inr es' \<longleftrightarrow>
    (\<exists>news. es' = es @ news \<and> chained cd es' \<and> list_all (accepted_entry cd) news \<and>
       map (decode_entry cd) (filter (\<lambda>l. l \<noteq> []) lines) = map Inr news)"
  using assms
proof (induction lines arbitrary: k es)
  case Nil
  then show ?case by auto
next
  case (Cons line lines)
  show ?case
  proof (cases "line = []")
    case True
    with Cons show ?thesis by simp
  next
    case False
    have "decode_lines cd k (line # lines) es = Inr es' \<longleftrightarrow>
        (\<exists>e. decode_entry cd line = Inr e \<and> linked cd es e \<and> accepted_entry cd e \<and>
           decode_lines cd (Suc k) lines (es @ [e]) = Inr es')"
      using False by (auto simp: and_then_Inr_iff decode_line_Inr)
    also have "\<dots> \<longleftrightarrow> (\<exists>e news. decode_entry cd line = Inr e \<and> linked cd es e \<and>
        accepted_entry cd e \<and> es' = (es @ [e]) @ news \<and> chained cd es' \<and>
        list_all (accepted_entry cd) news \<and>
        map (decode_entry cd) (filter (\<lambda>l. l \<noteq> []) lines) = map Inr news)"
      using Cons.IH Cons.prems by (metis chained_snoc_iff)
    also have "\<dots> \<longleftrightarrow> (\<exists>news. es' = es @ news \<and> chained cd es' \<and> list_all (accepted_entry cd) news \<and>
        map (decode_entry cd) (filter (\<lambda>l. l \<noteq> []) (line # lines)) = map Inr news)"
      (is "?L \<longleftrightarrow> ?R")
    proof
      assume ?L
      then obtain e news where "decode_entry cd line = Inr e" "accepted_entry cd e"
        "es' = (es @ [e]) @ news" "chained cd es'" "list_all (accepted_entry cd) news"
        "map (decode_entry cd) (filter (\<lambda>l. l \<noteq> []) lines) = map Inr news"
        by blast
      then show ?R using False by (intro exI [of _ "e # news"]) simp
    next
      assume ?R
      then obtain news where n: "es' = es @ news" "chained cd es'" "list_all (accepted_entry cd) news"
        "map (decode_entry cd) (filter (\<lambda>l. l \<noteq> []) (line # lines)) = map Inr news"
        by blast
      with False obtain e rest where news: "news = e # rest" by (cases news) auto
      with n(1,2) have "chained cd (es @ [e])" using chained_prefix [of cd "es @ [e]" rest] by simp
      with n news False show ?L by (intro exI [of _ e] exI [of _ rest]) simp
    qed
    finally show ?thesis .
  qed
qed

lemma decode_and_verify_Inr:
  "decode_and_verify cd bytes = Inr tlog \<longleftrightarrow>
     chained cd tlog \<and> list_all (accepted_entry cd) tlog \<and>
     map (decode_entry cd) (filter (\<lambda>l. l \<noteq> []) (split_at_char newline bytes)) = map Inr tlog"
  by (auto simp: decode_and_verify_def decode_lines_Inr)

lemma split_encoded:
  assumes "\<forall>e\<in>set tlog. newline \<notin> set (encode_entry cd e)"
  shows "split_at_char newline (encode_log cd tlog) = map (encode_entry cd) tlog @ [[]]"
  using assms
proof (induction tlog)
  case Nil
  show ?case by (simp add: encode_log_def)
next
  case (Cons e es)
  have "encode_log cd (e # es) = encode_entry cd e @ newline # encode_log cd es"
    by (simp add: encode_log_def)
  with Cons show ?case by (simp add: split_at_char_line)
qed

lemma filter_not_Nil: "[] \<notin> set xs \<Longrightarrow> filter (\<lambda>x. x \<noteq> []) xs = xs"
  by (induction xs) auto

lemma decode_encoded:
  assumes "written cd tlog"
    and "\<forall>e\<in>set tlog. encode_entry cd e \<noteq> [] \<and> newline \<notin> set (encode_entry cd e)"
    and "\<forall>e\<in>set tlog. validate_canonical_entry cd e = Inr ()"
  shows "decode_and_verify cd (encode_log cd tlog) = Inr tlog \<longleftrightarrow>
    (\<forall>e\<in>set tlog. decode_entry cd (encode_entry cd e) = Inr e)"
proof -
  have "filter (\<lambda>l. l \<noteq> []) (split_at_char newline (encode_log cd tlog)) = map (encode_entry cd) tlog"
    using assms(2) by (subst split_encoded) (auto simp: filter_not_Nil)
  moreover have "list_all (accepted_entry cd) tlog"
    using assms(3) by (simp add: list_all_iff accepted_entry_def)
  ultimately show ?thesis
    using written_chained [OF assms(1)] by (auto simp: decode_and_verify_Inr)
qed

section \<open>Tampering\<close>

definition digested :: "'c log_codecs_scheme \<Rightarrow> log_entry \<Rightarrow> string" where
  "digested cd e = encode_entry cd (e\<lparr>le_terminal_digest := []\<rparr>)"

lemma recomputed_digested: "recomputed_digest cd e = sha256_hex cd (digested cd e)"
  by (simp add: recomputed_digest_def digested_def)

lemma cleared_eq:
  assumes "e\<lparr>le_terminal_digest := []\<rparr> = e'\<lparr>le_terminal_digest := []\<rparr>"
    and "le_terminal_digest e = le_terminal_digest e'"
  shows "e = e'"
  using assms by (cases e; cases e') simp

lemma terminal_snoc [simp]: "terminal_digest_hex (tlog @ [e]) = le_terminal_digest e"
  by (simp add: terminal_digest_hex_def)

lemma terminal_Nil [simp]: "terminal_digest_hex [] = empty_log_digest"
  by (simp add: terminal_digest_hex_def)

lemma chains_with_equal_heads:
  assumes "chained cd l" "chained cd m" "terminal_digest_hex l = terminal_digest_hex m"
    and "\<forall>e\<in>set l. \<forall>e'\<in>set m. digested cd e = digested cd e' \<longrightarrow>
      e\<lparr>le_terminal_digest := []\<rparr> = e'\<lparr>le_terminal_digest := []\<rparr>"
    and "\<forall>e\<in>set l. \<forall>e'\<in>set m. sha256_hex cd (digested cd e) = sha256_hex cd (digested cd e') \<longrightarrow>
      digested cd e = digested cd e'"
    and "\<forall>e\<in>set l \<union> set m. sha256_hex cd (digested cd e) \<noteq> empty_log_digest"
  shows "l = m"
  using assms
proof (induction l arbitrary: m rule: rev_induct)
  case Nil
  show ?case
  proof (cases m rule: rev_cases)
    case (snoc m' e)
    with Nil show ?thesis by (auto simp: linked_def recomputed_digested)
  qed simp
next
  case (snoc e l)
  show ?case
  proof (cases m rule: rev_cases)
    case Nil
    with snoc.prems show ?thesis by (auto simp: linked_def recomputed_digested)
  next
    case m: (snoc m' e')
    from snoc.prems m have links: "linked cd l e" "linked cd m' e'"
      and chains: "chained cd l" "chained cd m'" and digest: "le_terminal_digest e = le_terminal_digest e'"
      by simp_all
    with snoc.prems(5) m have "digested cd e = digested cd e'"
      by (simp add: linked_def recomputed_digested)
    moreover have "e \<in> set (l @ [e])" "e' \<in> set m" by (simp_all add: m)
    ultimately have "e\<lparr>le_terminal_digest := []\<rparr> = e'\<lparr>le_terminal_digest := []\<rparr>"
      using snoc.prems(4) by blast
    with digest have "e = e'" by (rule cleared_eq [rotated])
    with links have "terminal_digest_hex l = terminal_digest_hex m'" by (simp add: linked_def)
    moreover have "\<forall>e\<in>set l. \<forall>e'\<in>set m'. digested cd e = digested cd e' \<longrightarrow>
        e\<lparr>le_terminal_digest := []\<rparr> = e'\<lparr>le_terminal_digest := []\<rparr>"
      using snoc.prems(4) by (simp add: m)
    moreover have "\<forall>e\<in>set l. \<forall>e'\<in>set m'.
        sha256_hex cd (digested cd e) = sha256_hex cd (digested cd e') \<longrightarrow>
        digested cd e = digested cd e'"
      using snoc.prems(5) by (simp add: m)
    moreover have "\<forall>e\<in>set l \<union> set m'. sha256_hex cd (digested cd e) \<noteq> empty_log_digest"
      using snoc.prems(6) by (simp add: m)
    ultimately have "l = m'" by (rule snoc.IH [OF chains])
    then show ?thesis using \<open>e = e'\<close> by (simp add: m)
  qed
qed

section \<open>A concrete codec\<close>

text \<open>
  A codec under which the hypotheses of the two theorems hold: the JSON of an entry is its index in
  braces, its digest the same text after an \<open>h\<close>.
\<close>

definition demo_json :: "nat \<Rightarrow> string" where
  "demo_json k = ''{'' @ show_nat k @ ''}''"

definition demo_part :: log_entry where
  "demo_part =
     \<lparr>le_log_index = 0, le_previous_digest = empty_log_digest, le_feature_id = ''part'',
      le_kind = ''box'', le_operation = Some ''add'', le_brep_path = None, le_brep_byte_count = None,
      le_brep_sha256 = None, le_idempotency_key = None, le_idempotency_payload = None,
      le_intent = None, le_terminal_digest = ''h{0}''\<rparr>"

definition demo_mark :: log_entry where
  "demo_mark =
     \<lparr>le_log_index = 1, le_previous_digest = ''h{0}'', le_feature_id = ''mark'',
      le_kind = ''marker'', le_operation = None, le_brep_path = None, le_brep_byte_count = None,
      le_brep_sha256 = None, le_idempotency_key = Some ''k'', le_idempotency_payload = None,
      le_intent = None, le_terminal_digest = ''h{1}''\<rparr>"

definition demo_codecs :: log_codecs where
  "demo_codecs =
     \<lparr>sha256_hex = (\<lambda>s. CHR ''h'' # s), evidence_json = (\<lambda>_ _ _. []),
      encode_entry = (\<lambda>e. demo_json (le_log_index e)),
      decode_entry = (\<lambda>s. if s = demo_json 0 then Inr demo_part
                           else if s = demo_json 1 then Inr demo_mark else Inl ''expected value''),
      encode_event = (\<lambda>_. []), decode_event = (\<lambda>_. Inl ''expected value''),
      encode_fit = (\<lambda>_. []), decode_fit = (\<lambda>_. Inl ''expected value''),
      decode_sketch = (\<lambda>_. Inl ''expected value''), decode_component = (\<lambda>_. Inl ''expected value''),
      parse_json = (\<lambda>_. None)\<rparr>"

lemma demo_log:
  "append_feature_with_idempotency demo_codecs ''mark'' ''marker'' ''k'' None
     (append_feature demo_codecs ''part'' ''apply-add/1:box'' []) = [demo_part, demo_mark]"
  by code_simp

lemma demo_written: "written demo_codecs [demo_part, demo_mark]"
  using written_key [OF written_plain [OF written_empty], of demo_codecs "''mark''" "''marker''" "''k''"
      None "''part''" "''apply-add/1:box''"]
  by (simp add: demo_log)

lemma demo_lines:
  "\<forall>e\<in>set [demo_part, demo_mark]. encode_entry demo_codecs e \<noteq> [] \<and>
     newline \<notin> set (encode_entry demo_codecs e)"
  by code_simp

lemma demo_valid: "\<forall>e\<in>set [demo_part, demo_mark]. validate_canonical_entry demo_codecs e = Inr ()"
  by code_simp

section \<open>The guarantees\<close>

text \<open>
  C11.  C16: a log made by the append operations, whose entries pass the validity check and whose JSON
  lines are not empty and contain no newline, is read back as it was written exactly when every
  entry survives its own JSON, that is, when the parser returns the entry that was printed.  A
  single entry with a number that the parser rounds differently from the printer is enough to
  make the file unreadable as that log.
\<close>

theorem log_roundtrip:
  assumes "written cd tlog"
    and "\<forall>e\<in>set tlog. encode_entry cd e \<noteq> [] \<and> newline \<notin> set (encode_entry cd e)"
    and "\<forall>e\<in>set tlog. validate_canonical_entry cd e = Inr ()"
  shows "decode_and_verify cd (encode_log cd tlog) = Inr tlog \<longleftrightarrow>
    (\<forall>e\<in>set tlog. decode_entry cd (encode_entry cd e) = Inr e)"
  using assms by (rule decode_encoded)

theorem log_roundtrip_witness:
  "decode_and_verify demo_codecs (encode_log demo_codecs [demo_part, demo_mark])
     = Inr [demo_part, demo_mark]"
proof -
  have "\<forall>e\<in>set [demo_part, demo_mark].
      decode_entry demo_codecs (encode_entry demo_codecs e) = Inr e"
    by code_simp
  then show ?thesis
    using log_roundtrip [OF demo_written demo_lines demo_valid] by blast
qed

text \<open>
  C14.  C19: the chain is evidence of tampering.  Two files that both verify and end in the same
  digest hold the same entries, unless two of their entries with different digested bytes have
  the same hash, or an entry hashes to the digest that stands for the empty log.  The JSON
  printer is assumed not to give two of these entries the same bytes.
\<close>

theorem chain_shows_tampering:
  assumes "decode_and_verify cd b = Inr l" and "decode_and_verify cd b' = Inr l'"
    and "terminal_digest_hex l = terminal_digest_hex l'"
    and "\<forall>e\<in>set l. \<forall>e'\<in>set l'. digested cd e = digested cd e' \<longrightarrow>
      e\<lparr>le_terminal_digest := []\<rparr> = e'\<lparr>le_terminal_digest := []\<rparr>"
  shows "l = l' \<or>
    (\<exists>e\<in>set l. \<exists>e'\<in>set l'. digested cd e \<noteq> digested cd e' \<and>
       sha256_hex cd (digested cd e) = sha256_hex cd (digested cd e')) \<or>
    (\<exists>e\<in>set l \<union> set l'. sha256_hex cd (digested cd e) = empty_log_digest)"
proof -
  have "chained cd l" "chained cd l'" using assms(1,2) by (simp_all add: decode_and_verify_Inr)
  from chains_with_equal_heads [OF this assms(3,4)] show ?thesis by blast
qed

theorem chain_shows_tampering_witness:
  "decode_and_verify demo_codecs (demo_json 0 @ [newline]) = Inr [demo_part] \<and>
   decode_and_verify demo_codecs (newline # demo_json 0) = Inr [demo_part] \<and>
   \<not> (\<exists>e\<in>set [demo_part] \<union> set [demo_part].
      sha256_hex demo_codecs (digested demo_codecs e) = empty_log_digest)"
proof -
  have d: "decode_and_verify demo_codecs (demo_json 0 @ [newline]) = Inr [demo_part]"
    "decode_and_verify demo_codecs (newline # demo_json 0) = Inr [demo_part]"
    by code_simp+
  have "\<forall>e\<in>set [demo_part]. \<forall>e'\<in>set [demo_part].
      digested demo_codecs e = digested demo_codecs e' \<longrightarrow>
      e\<lparr>le_terminal_digest := []\<rparr> = e'\<lparr>le_terminal_digest := []\<rparr>"
    by simp
  from chain_shows_tampering [OF d refl this]
  have "[demo_part] = [demo_part] \<or> \<not> (\<forall>e\<in>set [demo_part]. True)" by simp
  moreover have "\<not> (\<exists>e\<in>set [demo_part] \<union> set [demo_part].
      sha256_hex demo_codecs (digested demo_codecs e) = empty_log_digest)"
    by code_simp
  ultimately show ?thesis using d by blast
qed

end
