(* ===== verification/ReplayProps.thy ===== *)
theory ReplayProps
  imports Replay CanonicalLogProps SketchProps ComponentProps HistoryTimeline
begin

text \<open>
  What replay guarantees.  \<open>replay_ok\<close> is the invariant of the replay loop: it joins the
  invariants of the feature graph, the component graph and the history with the agreement of the
  list of feature ids with the graph and of the history with its recorded events.
\<close>

section \<open>The invariant\<close>

text \<open>Decoded events hold ordered maps, as \<^verbatim>\<open>serde\<close> builds a \<^verbatim>\<open>BTreeMap\<close>.\<close>

definition events_ordered :: "'c log_codecs_scheme \<Rightarrow> bool" where
  "events_ordered cd \<longleftrightarrow> (\<forall>payload e. decode_event cd payload = Inr e \<longrightarrow> event_maps_ok e)"

definition state_ok :: "'a canonical_state_scheme \<Rightarrow> bool" where
  "state_ok s \<longleftrightarrow>
     graph_wf (cs_graph s) \<and> component_wf (cs_components s) \<and> history_wf (cs_history s) \<and>
     replay (cs_history_events s) = Inr (cs_history s) \<and>
     distinct (cs_feature_ids s) \<and> set (cs_feature_ids s) = set (bt_keys (fg_features (cs_graph s)))"

lemma state_ok_start: "state_ok replay_start"
  by (simp add: state_ok_def replay_start_def empty_components_wf default_history_wf replay_def
      graph_wf_def empty_graph_def bt_keys_def)

lemma state_ok_truncate [simp]: "state_ok (canonical_state.truncate s) \<longleftrightarrow> state_ok s"
  by (simp add: state_ok_def canonical_state.defs)

lemma replay_intent_state:
  assumes "replay_intent cd tlog e i s = Inr s'"
  shows "\<exists>geometry. s' = s\<lparr>rs_geometry := geometry\<rparr>"
  using assms by (auto simp: replay_intent_def Let_def and_then_Inr_iff)

lemma state_ok_geometry [simp]: "state_ok (s\<lparr>rs_geometry := geometry\<rparr>) \<longleftrightarrow> state_ok s"
  by (simp add: state_ok_def)

lemma state_ok_history:
  assumes "replay_history cd k payload s = Inr s'" "state_ok s" "events_ordered cd"
  shows "state_ok s'"
proof -
  from assms(1) obtain event h where d: "decode_event cd payload = Inr event"
    and a: "apply_event (cs_history s) event = Inr h"
    and s': "s' = s\<lparr>cs_history := h, cs_history_events := cs_history_events s @ [event]\<rparr>"
    by (auto simp: replay_history_def and_then_Inr_iff)
  from assms(3) d have maps: "event_maps_ok event" by (auto simp: events_ordered_def)
  from a apply_event_iff [OF maps] have "history_wf h" by (auto simp: history_wf_def)
  moreover from assms(2) a have "replay (cs_history_events s @ [event]) = Inr h"
    by (simp add: state_ok_def replay_snoc)
  ultimately show ?thesis using assms(2) s' by (simp add: state_ok_def)
qed

lemma graph_result_Inr: "graph_result f r = Inr g \<longleftrightarrow> (\<exists>b. r = (g, Inr b))"
  by (auto simp: graph_result_def split: prod.splits sum.splits)

lemma state_ok_fit:
  assumes "replay_fit cd k payload s = Inr s'" "state_ok s"
  shows "state_ok s'"
proof -
  from assms(1) obtain fit g b where g: "add_fit_dimension (cs_graph s) fit = (g, Inr b)"
    and s': "s' = s\<lparr>cs_graph := g\<rparr>"
    by (auto simp: replay_fit_def and_then_Inr_iff graph_result_Inr)
  from g have step: "graph_step (cs_graph s) g" using graph_step.fit [of "cs_graph s" fit] by simp
  have "fg_features g = fg_features (cs_graph s)"
    using g by (cases rule: add_fit_cases [of "cs_graph s" fit]) auto
  with assms(2) s' graph_step_wf [OF step] show ?thesis by (simp add: state_ok_def)
qed

lemma feature_new_Inr: "feature_new i kind = Inr f \<longleftrightarrow> kind \<noteq> [] \<and> i \<noteq> [] \<and> f = \<lparr>ft_id = i, ft_kind = kind\<rparr>"
  by (auto simp: feature_new_def feature_id_new_def and_then_Inr_iff)

lemma replay_component_wf:
  assumes "replay_component cd k kind c = Inr c'" "component_wf c"
  shows "component_wf c'"
proof (cases "strip_prefix component_prefix kind")
  case None
  with assms show ?thesis by (simp add: replay_component_def)
next
  case (Some payload)
  with assms(1) obtain command where
    c: "(case component_apply c command of (_, Inl detail) \<Rightarrow> Inl (LogBrokenLink k detail)
         | (components', Inr _) \<Rightarrow> Inr components') = Inr c'"
    by (auto simp: replay_component_def and_then_Inr_iff)
  from c have "fst (component_apply c command) = c'"
    by (cases "component_apply c command"; cases "snd (component_apply c command)") auto
  with component_apply_wf [OF assms(2), of command] show ?thesis by simp
qed

lemma replay_add_cases:
  assumes "replay_add cd e sketch f s = Inr s'" "ft_id f = le_feature_id e"
  obtains g c where "graph_step (cs_graph s) g"
    "fg_features g = bt_insert (le_feature_id e) (ft_kind f) (fg_features (cs_graph s))"
    "replay_component cd (le_log_index e) (le_kind e) (cs_components s) = Inr c"
    "s' = s\<lparr>cs_graph := g,
      cs_feature_ids := (if le_feature_id e \<in> set (cs_feature_ids s) then cs_feature_ids s
                         else cs_feature_ids s @ [le_feature_id e]), cs_components := c\<rparr>"
proof -
  from assms(1) obtain g ids c where
    g: "(case sketch of
           Some payload \<Rightarrow> graph_result (LogBrokenLink (le_log_index e)) (add_sketch (cs_graph s) f payload)
         | None \<Rightarrow> Inr (fst (add_feature (cs_graph s) f))) = Inr g"
    and ids: "(if list_ex (\<lambda>j. j = le_feature_id e) (cs_feature_ids s) then Inr (cs_feature_ids s)
         else and_then (map_err (LogBrokenLink (le_log_index e) \<circ> domain_error_text)
                (feature_id_new (le_feature_id e))) (\<lambda>j. Inr (cs_feature_ids s @ [j]))) = Inr ids"
    and c: "replay_component cd (le_log_index e) (le_kind e) (cs_components s) = Inr c"
    and s': "s' = s\<lparr>cs_graph := g, cs_feature_ids := ids, cs_components := c\<rparr>"
    by (auto simp: replay_add_def Let_def and_then_Inr_iff)
  have step: "graph_step (cs_graph s) g \<and>
      fg_features g = bt_insert (le_feature_id e) (ft_kind f) (fg_features (cs_graph s))"
  proof (cases sketch)
    case None
    with g assms(2) show ?thesis
      using graph_step.add [of "cs_graph s" f] by (auto simp: add_feature_def)
  next
    case (Some payload)
    with g obtain b where b: "add_sketch (cs_graph s) f payload = (g, Inr b)"
      by (auto simp: graph_result_Inr)
    then show ?thesis
      using assms(2) graph_step.sketch [of "cs_graph s" f payload]
      by (cases rule: add_sketch_cases [of "cs_graph s" f payload]) auto
  qed
  have "ids = (if le_feature_id e \<in> set (cs_feature_ids s) then cs_feature_ids s
      else cs_feature_ids s @ [le_feature_id e])"
    using ids by (auto simp: list_ex_iff feature_id_new_def and_then_Inr_iff split: if_splits)
  with that step c s' show ?thesis by blast
qed

lemma keys_insert_set: "set (bt_keys (bt_insert k v m)) = insert k (set (bt_keys m))"
  by (auto simp: bt_keys_iff bt_contains_iff bt_get_insert split: if_splits)

lemma state_ok_add:
  assumes "replay_add cd e sketch f s = Inr s'" "ft_id f = le_feature_id e" "state_ok s"
  shows "state_ok s'"
  using assms(1,2)
proof (cases rule: replay_add_cases)
  case (1 g c)
  with assms(3) graph_step_wf [OF 1(1)] replay_component_wf [OF 1(3)] show ?thesis
    by (auto simp: state_ok_def keys_insert_set)
qed

lemma state_ok_remove:
  assumes "replay_remove e s = Inr s'" "state_ok s"
  shows "state_ok s'"
proof -
  let ?i = "le_feature_id e"
  from assms(1) obtain g where g: "remove_feature (cs_graph s) ?i = (g, True)"
    and s': "s' = s\<lparr>cs_graph := g, cs_feature_ids := filter (\<lambda>i. i \<noteq> ?i) (cs_feature_ids s)\<rparr>"
    by (auto simp: replay_remove_def split: prod.splits if_splits)
  from g have step: "graph_step (cs_graph s) g" using graph_step.remove [of "cs_graph s" ?i] by simp
  from g have "fg_features g = bt_remove ?i (fg_features (cs_graph s))"
    by (auto simp: remove_feature_eq split: if_splits)
  then have "set (bt_keys (fg_features g)) = set (bt_keys (fg_features (cs_graph s))) - {?i}"
    by (auto simp: bt_keys_iff bt_contains_iff bt_get_remove split: if_splits)
  with assms(2) s' graph_step_wf [OF step] show ?thesis by (auto simp: state_ok_def)
qed

lemma state_ok_set:
  assumes "replay_set e f s = Inr s'" "ft_id f = le_feature_id e" "state_ok s"
  shows "state_ok s'"
proof -
  from assms(1) have c: "bt_contains (fg_features (cs_graph s)) (le_feature_id e)"
    and s': "s' = s\<lparr>cs_graph := fst (add_feature (cs_graph s) f)\<rparr>"
    by (auto simp: replay_set_def set_feature_def contains_feature_eq split: if_splits)
  have "graph_step (cs_graph s) (fst (add_feature (cs_graph s) f))" by (rule graph_step.add)
  then have wf: "graph_wf (fst (add_feature (cs_graph s) f))"
    using assms(3) graph_step_wf unfolding state_ok_def by blast
  have "fg_features (fst (add_feature (cs_graph s) f)) =
      bt_insert (le_feature_id e) (ft_kind f) (fg_features (cs_graph s))"
    using assms(2) by (simp add: add_feature_def)
  then have "set (bt_keys (fg_features (fst (add_feature (cs_graph s) f)))) =
      set (bt_keys (fg_features (cs_graph s)))"
    using c by (simp add: keys_insert_set insert_absorb bt_keys_iff)
  with wf assms(3) show ?thesis by (simp add: s' state_ok_def)
qed

lemma state_ok_feature:
  assumes "replay_feature cd e s = Inr s'" "state_ok s"
  shows "state_ok s'"
proof -
  from assms(1) obtain sketch f where
    new: "feature_new (le_feature_id e) (if sketch \<noteq> None then ''sketch'' else le_kind e) = Inr f"
    and op: "(case le_operation e of
           None \<Rightarrow> replay_add cd e sketch f s
         | Some operation \<Rightarrow>
             if operation = ''remove'' then replay_remove e s
             else if operation = ''set'' then replay_set e f s
             else if operation = ''add'' then replay_add cd e sketch f s
             else Inl (LogBrokenLink (le_log_index e)
                    (''unknown transaction operation: '' @ operation))) = Inr s'"
    unfolding replay_feature_def Let_def and_then_Inr_iff map_err_Inr_iff by blast
  from new have f: "ft_id f = le_feature_id e" by (auto simp: feature_new_Inr)
  show ?thesis
  proof (cases "le_operation e")
    case None
    with op have "replay_add cd e sketch f s = Inr s'" by simp
    from state_ok_add [OF this f assms(2)] show ?thesis .
  next
    case (Some operation)
    with op consider "replay_remove e s = Inr s'" | "replay_set e f s = Inr s'"
      | "replay_add cd e sketch f s = Inr s'"
      by (simp split: if_splits)
    then show ?thesis
      using state_ok_remove state_ok_set state_ok_add f assms(2) by cases blast+
  qed
qed

lemma state_ok_entry:
  assumes "replay_entry cd tlog e s = Inr s'" "state_ok s" "events_ordered cd"
  shows "state_ok s'"
proof -
  from assms(1) obtain t where t: "(case le_intent e of None \<Rightarrow> Inr s
        | Some i \<Rightarrow> replay_intent cd tlog e i s) = Inr t"
    and rest: "(case strip_prefix history_prefix (le_kind e) of
          Some payload \<Rightarrow> replay_history cd (le_log_index e) payload t
        | None \<Rightarrow> case strip_prefix fit_prefix (le_kind e) of
          Some payload \<Rightarrow> replay_fit cd (le_log_index e) payload t
        | None \<Rightarrow> replay_feature cd e t) = Inr s'"
    by (auto simp: replay_entry_def and_then_Inr_iff)
  have "state_ok t"
    using t assms(2) by (cases "le_intent e") (auto dest: replay_intent_state)
  with rest show ?thesis
    by (auto split: option.splits
        intro: state_ok_history [OF _ _ assms(3)] state_ok_fit state_ok_feature)
qed

lemma replay_fold_ok:
  assumes "fold_ok (replay_entry cd tlog) es s = Inr s'" "state_ok s" "events_ordered cd"
  shows "state_ok s'"
  using assms(1,2) by (rule fold_ok_invariant) (auto intro: state_ok_entry [OF _ _ assms(3)])

section \<open>Prefixes of the log\<close>

lemma fold_ok_cong:
  "(\<And>x. x \<in> set xs \<Longrightarrow> f x = g x) \<Longrightarrow> fold_ok f xs s = fold_ok g xs s"
proof (induction xs arbitrary: s)
  case Nil
  show ?case by simp
next
  case (Cons x xs)
  then have "f x = g x" "\<And>s. fold_ok f xs s = fold_ok g xs s" by simp_all
  then show ?case by (cases "g x s") simp_all
qed

lemma source_digest_prefix:
  "le_log_index e < length p \<Longrightarrow>
     source_revision_digest (p @ r) e i = source_revision_digest p e i"
proof -
  assume "le_log_index e < length p"
  then have "le_log_index e - 1 < length p" by simp
  then show ?thesis by (simp add: source_revision_digest_def Let_def nth_append)
qed

lemma replay_entry_prefix:
  assumes "le_log_index e < length p"
  shows "replay_entry cd (p @ r) e = replay_entry cd p e"
  using source_digest_prefix [OF assms]
  by (intro ext) (simp add: replay_entry_def replay_intent_def Let_def cong: option.case_cong)

definition replay_run :: "'c state_codecs_scheme \<Rightarrow> transaction_log \<Rightarrow> log_error + replay_state" where
  "replay_run cd tlog = fold_ok (replay_entry cd tlog) tlog replay_start"

lemma replay_canonical_run:
  "replay_canonical_state cd tlog = Inr s \<longleftrightarrow>
     (\<exists>t. replay_run cd tlog = Inr t \<and> s = canonical_state.truncate t)"
  by (auto simp: replay_canonical_state_def replay_run_def and_then_Inr_iff)

lemma replay_run_append:
  assumes "chained cd (p @ r)"
  shows "replay_run cd (p @ r) = and_then (replay_run cd p) (fold_ok (replay_entry cd (p @ r)) r)"
proof -
  have "replay_entry cd (p @ r) e = replay_entry cd p e" if "e \<in> set p" for e
  proof -
    from that obtain k where k: "k < length p" "e = p ! k" by (auto simp: in_set_conv_nth)
    with chained_index [OF chained_prefix [OF assms]] show ?thesis
      by (intro replay_entry_prefix) simp
  qed
  then show ?thesis
    by (simp add: replay_run_def fold_ok_append fold_ok_cong [of p "replay_entry cd (p @ r)"
        "replay_entry cd p"])
qed

definition same_history :: "replay_state \<Rightarrow> replay_state \<Rightarrow> bool" where
  "same_history s t \<longleftrightarrow> cs_history_events t = cs_history_events s"

lemma replay_feature_history:
  assumes "replay_feature cd e s = Inr s'"
  shows "cs_history_events s' = cs_history_events s \<and> cs_history s' = cs_history s"
proof -
  from assms obtain sketch f where
    op: "(case le_operation e of
           None \<Rightarrow> replay_add cd e sketch f s
         | Some operation \<Rightarrow>
             if operation = ''remove'' then replay_remove e s
             else if operation = ''set'' then replay_set e f s
             else if operation = ''add'' then replay_add cd e sketch f s
             else Inl (LogBrokenLink (le_log_index e)
                    (''unknown transaction operation: '' @ operation))) = Inr s'"
    unfolding replay_feature_def Let_def and_then_Inr_iff by blast
  then consider "replay_remove e s = Inr s'" | "replay_set e f s = Inr s'"
    | "replay_add cd e sketch f s = Inr s'"
    by (simp split: option.splits if_splits)
  then show ?thesis
    by cases (auto simp: replay_remove_def replay_set_def replay_add_def Let_def and_then_Inr_iff
        split: prod.splits if_splits)
qed

lemma replay_entry_events:
  assumes "replay_entry cd tlog e s = Inr s'"
  shows "\<exists>news. cs_history_events s' = cs_history_events s @ news"
proof -
  from assms obtain t where t: "(case le_intent e of None \<Rightarrow> Inr s
        | Some i \<Rightarrow> replay_intent cd tlog e i s) = Inr t"
    and rest: "(case strip_prefix history_prefix (le_kind e) of
          Some payload \<Rightarrow> replay_history cd (le_log_index e) payload t
        | None \<Rightarrow> case strip_prefix fit_prefix (le_kind e) of
          Some payload \<Rightarrow> replay_fit cd (le_log_index e) payload t
        | None \<Rightarrow> replay_feature cd e t) = Inr s'"
    by (auto simp: replay_entry_def and_then_Inr_iff)
  have "cs_history_events t = cs_history_events s"
    using t by (cases "le_intent e") (auto dest: replay_intent_state)
  with rest show ?thesis
    by (auto split: option.splits dest: replay_feature_history
        simp: replay_history_def replay_fit_def and_then_Inr_iff)
qed

lemma replay_fold_events:
  assumes "fold_ok (replay_entry cd tlog) es s = Inr s'"
  shows "\<exists>news. cs_history_events s' = cs_history_events s @ news"
  using assms
proof (rule fold_ok_invariant
    [where P = "\<lambda>t. \<exists>news. cs_history_events t = cs_history_events s @ news"])
  fix e t t'
  assume "\<exists>news. cs_history_events t = cs_history_events s @ news" "replay_entry cd tlog e t = Inr t'"
  then show "\<exists>news. cs_history_events t' = cs_history_events s @ news"
    using replay_entry_events by fastforce
qed simp

lemma replay_at_position:
  assumes "chained cd tlog" "replay_canonical_state cd tlog = Inr s"
  shows "\<exists>t news. replay_canonical_state cd (take n tlog) = Inr t \<and>
    cs_history_events s = cs_history_events t @ news"
proof -
  let ?p = "take n tlog" and ?r = "drop n tlog"
  from assms(2) obtain u where u: "replay_run cd tlog = Inr u" "s = canonical_state.truncate u"
    by (auto simp: replay_canonical_run)
  have "chained cd (?p @ ?r)" using assms(1) by simp
  from replay_run_append [OF this] u(1)
  have "and_then (replay_run cd ?p) (fold_ok (replay_entry cd tlog) ?r) = Inr u" by simp
  then obtain t where t: "replay_run cd ?p = Inr t"
    and rest: "fold_ok (replay_entry cd tlog) ?r t = Inr u"
    by (auto simp: and_then_Inr_iff)
  from replay_fold_events [OF rest] obtain news where
    "cs_history_events u = cs_history_events t @ news" by blast
  with t u(2) show ?thesis
    by (intro exI [of _ "canonical_state.truncate t"] exI [of _ news])
      (auto simp: replay_canonical_run canonical_state.defs)
qed

section \<open>Soundness of replay\<close>

definition demo_state_codecs :: state_codecs where
  "demo_state_codecs = log_codecs.extend demo_codecs
     (state_codecs.fields (\<lambda>_. []) (\<lambda>_. []) (\<lambda>_. []))"

text \<open>
  C27.  C28: replaying a verified log gives a sound state.  The feature graph holds only valid
  sketches and fit dimensions of its features, the component graph is well-formed, the history is
  well-formed and is what the recorded events alone give, and the list of feature ids names each
  feature of the graph once.  Replay also succeeds at every earlier position of the log, which is
  what named revisions rely on, and the events recorded there come first in the final list.
\<close>

theorem replay_sound:
  assumes "decode_and_verify cd bytes = Inr tlog" and "replay_canonical_state cd tlog = Inr s"
    and "events_ordered cd"
  shows "graph_wf (cs_graph s) \<and> component_wf (cs_components s) \<and> history_wf (cs_history s) \<and>
    replay (cs_history_events s) = Inr (cs_history s) \<and>
    distinct (cs_feature_ids s) \<and> set (cs_feature_ids s) = set (bt_keys (fg_features (cs_graph s))) \<and>
    (\<forall>n. \<exists>t news. replay_canonical_state cd (take n tlog) = Inr t \<and>
       cs_history_events s = cs_history_events t @ news)"
proof -
  from assms(2) obtain u where u: "fold_ok (replay_entry cd tlog) tlog replay_start = Inr u"
    "s = canonical_state.truncate u"
    by (auto simp: replay_canonical_run replay_run_def)
  from replay_fold_ok [OF u(1) state_ok_start assms(3)] u(2) have "state_ok s" by simp
  moreover from assms(1) have "chained cd tlog" by (simp add: decode_and_verify_Inr)
  ultimately show ?thesis
    using replay_at_position [OF _ assms(2)] by (simp add: state_ok_def)
qed

theorem replay_sound_witness:
  "\<exists>s. replay_canonical_state demo_state_codecs [demo_part, demo_mark] = Inr s \<and>
     cs_feature_ids s = [''part'', ''mark''] \<and> graph_wf (cs_graph s)"
proof -
  have d: "decode_and_verify demo_state_codecs (demo_json 0 @ newline # demo_json 1)
      = Inr [demo_part, demo_mark]"
    by code_simp
  have r: "replay_canonical_state demo_state_codecs [demo_part, demo_mark] =
      Inr (canonical_state.truncate (replay_start
        \<lparr>cs_graph := empty_graph\<lparr>fg_features := [(''mark'', ''marker''), (''part'', ''box'')]\<rparr>,
         cs_feature_ids := [''part'', ''mark'']\<rparr>))"
    by code_simp
  have "events_ordered demo_state_codecs"
    by (simp add: events_ordered_def demo_state_codecs_def demo_codecs_def log_codecs.defs)
  from replay_sound [OF d r this] r show ?thesis
    by (simp add: canonical_state.defs)
qed

end
