(* ===== verification/IntentProps.thy ===== *)
theory IntentProps
  imports Intents
begin

text \<open>
  What the validators of \<open>Intents\<close> guarantee.  \<open>intent_tag\<close> is the command name of
  a variant, \<open>bound_ids\<close> the identifiers a valid intent of a feature must declare, and
  \<open>intent_floats\<close> every floating-point number an intent carries to the geometry worker.
\<close>

section \<open>Vocabulary\<close>

fun intent_tag :: "canonical_intent \<Rightarrow> string" where
  "intent_tag (Extrude i) = ''extrude''"
| "intent_tag (Revolve i) = ''revolve''"
| "intent_tag (Mirror i) = ''mirror''"
| "intent_tag (LinearPattern i) = ''linear-pattern''"
| "intent_tag (CircularPattern i) = ''circular-pattern''"
| "intent_tag (Bracket i) = ''bracket''"
| "intent_tag (Boolean i) = ''boolean''"
| "intent_tag (BooleanPattern i) = ''boolean-pattern''"
| "intent_tag (Split i) = ''split''"
| "intent_tag (Hole i) = ''hole''"
| "intent_tag (Fillet i) = ''fillet''"
| "intent_tag (Chamfer i) = ''chamfer''"
| "intent_tag (Shell i) = ''shell''"
| "intent_tag (Draft i) = ''draft''"
| "intent_tag (Loft i) = ''loft''"

fun bound_ids :: "canonical_intent \<Rightarrow> string \<Rightarrow> string list" where
  "bound_ids (Bracket i) feature_id = bracket_affected_ids feature_id"
| "bound_ids (Mirror i) feature_id = [feature_id, mi_base_feature_id (mirror_inputs i)]"
| "bound_ids (LinearPattern i) feature_id = [feature_id, lpi_base_feature_id (linear_pattern_inputs i)]"
| "bound_ids (CircularPattern i) feature_id = [feature_id, cpi_base_feature_id (circular_pattern_inputs i)]"
| "bound_ids _ feature_id = [feature_id]"

definition edge_floats :: "canonical_edge_reference \<Rightarrow> f64 list" where
  "edge_floats e =
     v3 (iee_midpoint (cer_evidence e)) @ v3 (iee_tangent (cer_evidence e)) @
     [iee_length (cer_evidence e)]"

definition option_list :: "'a option \<Rightarrow> 'a list" where
  "option_list x = (case x of None \<Rightarrow> [] | Some y \<Rightarrow> [y])"

fun intent_floats :: "canonical_intent \<Rightarrow> f64 list" where
  "intent_floats (Extrude i) =
     ei_height (extrude_inputs i) # flatten_pairs (ei_profile (extrude_inputs i))"
| "intent_floats (Revolve i) =
     (let p = revolve_inputs i in
      ri_angle p # v3 (ri_axis_point p) @ v3 (ri_axis_direction p) @ flatten_pairs (ri_profile p))"
| "intent_floats (Mirror i) =
     (let p = mirror_inputs i in v3 (mi_plane_point p) @ v3 (mi_plane_normal p))"
| "intent_floats (LinearPattern i) =
     (let p = linear_pattern_inputs i in lpi_spacing p # v3 (lpi_direction p))"
| "intent_floats (CircularPattern i) =
     (let p = circular_pattern_inputs i in
      cpi_angle_step p # v3 (cpi_axis_point p) @ v3 (cpi_axis_normal p))"
| "intent_floats (Bracket i) =
     (let p = bracket_inputs i in [bi_length p, bi_width p, bi_height p, bi_thickness p])"
| "intent_floats (Boolean i) = []"
| "intent_floats (BooleanPattern i) =
     (let p = boolean_pattern_inputs i in
      bpi_diameter p # fst (bpi_spacing p) # snd (bpi_spacing p) # v3 (bpi_origin p))"
| "intent_floats (Split i) =
     edge_floats (split_selected_edge i) @
     concat (map edge_floats (option_list (split_edit_target i))) @
     v3 (split_plane_point i) @ v3 (split_plane_normal i)"
| "intent_floats (Hole i) =
     (let p = hole_inputs i in
      hi_diameter p # v3 (hi_position p) @ v3 (hi_direction p) @
      option_list (hi_thread_pitch p) @ option_list (hi_thread_depth p))"
| "intent_floats (Fillet i) =
     fillet_radius i # edge_floats (fillet_selected_edge i) @
     concat (map edge_floats (option_list (fillet_edit_target i)))"
| "intent_floats (Chamfer i) = chamfer_distance i # edge_floats (chamfer_selected_edge i)"
| "intent_floats (Shell i) = [shell_thickness i]"
| "intent_floats (Draft i) = draft_angle i # v3 (draft_pull_direction i)"
| "intent_floats (Loft i) = concat (map v3 (concat (loft_profiles i)))"

definition intent_bound :: "canonical_intent \<Rightarrow> string \<Rightarrow> bool" where
  "intent_bound i feature_id =
     (intent_command i = intent_tag i \<and> is_readable_schema_version i \<and>
      intent_request_id i \<noteq> [] \<and> intent_affected_semantic_ids i = bound_ids i feature_id \<and>
      is_revision_hex (intent_source_revision i) \<and> occt_worker (intent_worker_requirements i) \<and>
      base_reference i \<noteq> Some [] \<and> list_all f64_finite (intent_floats i))"

section \<open>The validators, one by one\<close>

lemma valid_sha256_eq: "valid_sha256 = is_revision_hex"
  by (auto simp: valid_sha256_def is_revision_hex_def)

lemma list_all_conj: "list_all (\<lambda>x. P x \<and> Q x) xs \<longleftrightarrow> list_all P xs \<and> list_all Q xs"
  by (auto simp: list_all_iff)

lemmas validation_simps = list_all_conj valid_edge_def Let_def and_then_Inr_iff valid_sha256_eq validate_intent_impact_def
  validate_common_operation_def validate_solid_operation_def validate_edge_operation_def
  open_range_def positive_def is_nonzero_vec3_def is_finite_vec3_def is_finite_profile_def

lemmas bound_simps = intent_bound_def edge_floats_def option_list_def

lemma extrude_bound:
  "validate_extrude i feature_id = Inr u \<Longrightarrow> intent_bound (Extrude i) feature_id"
  by (auto simp: validate_extrude_def validation_simps bound_simps split: if_splits option.splits)

lemma revolve_bound:
  "validate_revolve i feature_id = Inr u \<Longrightarrow> intent_bound (Revolve i) feature_id"
  by (auto simp: validate_revolve_def validation_simps bound_simps split: if_splits option.splits)

lemma mirror_bound:
  "validate_mirror i feature_id = Inr u \<Longrightarrow> intent_bound (Mirror i) feature_id"
  by (auto simp: validate_mirror_def validation_simps bound_simps split: if_splits option.splits)

lemma linear_pattern_bound:
  "validate_linear_pattern i feature_id = Inr u \<Longrightarrow> intent_bound (LinearPattern i) feature_id"
  by (auto simp: validate_linear_pattern_def validation_simps bound_simps split: if_splits option.splits)

lemma circular_pattern_bound:
  "validate_circular_pattern i feature_id = Inr u \<Longrightarrow> intent_bound (CircularPattern i) feature_id"
  by (auto simp: validate_circular_pattern_def validation_simps bound_simps split: if_splits option.splits)

lemma bracket_bound:
  "validate_bracket cd i feature_id = Inr u \<Longrightarrow> intent_bound (Bracket i) feature_id"
  by (auto simp: validate_bracket_def validation_simps bound_simps split: if_splits option.splits)

lemma boolean_bound:
  "validate_boolean i feature_id = Inr u \<Longrightarrow> intent_bound (Boolean i) feature_id"
  by (auto simp: validate_boolean_def validation_simps bound_simps split: if_splits option.splits)

lemma boolean_pattern_bound:
  "validate_boolean_pattern i feature_id = Inr u \<Longrightarrow> intent_bound (BooleanPattern i) feature_id"
  by (auto simp: validate_boolean_pattern_def validation_simps bound_simps split: if_splits option.splits)

lemma split_bound:
  "validate_split i feature_id = Inr u \<Longrightarrow> intent_bound (Split i) feature_id"
  by (auto simp: validate_split_def validation_simps bound_simps split: if_splits option.splits)

lemma hole_bound:
  "validate_hole i feature_id = Inr u \<Longrightarrow> intent_bound (Hole i) feature_id"
  by (auto simp: validate_hole_def validation_simps bound_simps split: if_splits option.splits)

lemma fillet_bound:
  "validate_fillet i feature_id = Inr u \<Longrightarrow> intent_bound (Fillet i) feature_id"
  by (auto simp: validate_fillet_def validation_simps bound_simps split: if_splits option.splits)

lemma chamfer_bound:
  "validate_chamfer cd i feature_id = Inr u \<Longrightarrow> intent_bound (Chamfer i) feature_id"
  by (auto simp: validate_chamfer_def validation_simps bound_simps split: if_splits option.splits)

lemma shell_bound:
  "validate_shell i feature_id = Inr u \<Longrightarrow> intent_bound (Shell i) feature_id"
  by (auto simp: validate_shell_def validation_simps bound_simps split: if_splits option.splits)

lemma draft_bound:
  "validate_draft i feature_id = Inr u \<Longrightarrow> intent_bound (Draft i) feature_id"
  by (auto simp: validate_draft_def validation_simps bound_simps split: if_splits option.splits)

lemma loft_bound:
  "validate_loft i feature_id = Inr u \<Longrightarrow> intent_bound (Loft i) feature_id"
  by (auto simp: validate_loft_def validation_simps bound_simps list_all_iff loft_profile_ok_def split: if_splits option.splits)

section \<open>Every intent\<close>

lemmas intent_bounds = extrude_bound revolve_bound mirror_bound linear_pattern_bound
  circular_pattern_bound bracket_bound boolean_bound boolean_pattern_bound split_bound hole_bound
  fillet_bound chamfer_bound shell_bound draft_bound loft_bound

lemma validate_intent_bound:
  "validate_intent cd i feature_id = Inr u \<Longrightarrow> intent_bound i feature_id"
  by (cases i) (auto dest: intent_bounds)

lemma deserialize_tag:
  assumes "deserialize_intent d value = Inr i"
  shows "json_command d value = Some (intent_tag i)"
  using assms
  by (cases "json_command d value")
    (auto simp: deserialize_intent_def and_then_Inr_iff split: if_splits)

lemma current_is_readable: "is_current_schema_version i \<Longrightarrow> is_readable_schema_version i"
  by (cases i) auto

section \<open>A concrete intent\<close>

definition demo_revision :: string where
  "demo_revision = replicate 64 CHR ''a''"

definition demo_mirror :: mirror_intent where
  "demo_mirror =
     \<lparr>ib_schema_version = mirror_schema, ib_command = ''mirror'', ib_request_id = ''req-1'',
      ib_affected_semantic_ids = [''part-m'', ''part''], ib_source_revision = demo_revision,
      ib_worker_requirements = occt_worker_identity, mirror_operation = ''mirror'',
      mirror_inputs = \<lparr>mi_base_feature_id = ''part'', mi_plane_point = (Fin 0, Fin 0, Fin 0),
        mi_plane_normal = (Fin 1, NegZero, Fin 0)\<rparr>\<rparr>"

text \<open>
  C6.  An intent that the validator of its variant accepts for a feature is bound to that feature
  and to its command.  The command name is the one of the variant, so that a decoded intent cannot
  pass under another command; the schema version is a readable one; the request id is not empty;
  the declared semantic ids are exactly those the variant must touch (the feature, for mirror and
  patterns also the base, for a bracket its six roles); the source revision is a hash in
  hexadecimal; the worker is the OCCT worker; a base reference is never empty; and no infinity
  or NaN reaches the geometry worker in any of the intent's numbers.
\<close>

theorem accepted_intent_is_bound:
  assumes "validate_intent cd i feature_id = Inr ()"
  shows "intent_command i = intent_tag i \<and> is_readable_schema_version i \<and>
    intent_request_id i \<noteq> [] \<and> intent_affected_semantic_ids i = bound_ids i feature_id \<and>
    is_revision_hex (intent_source_revision i) \<and> occt_worker (intent_worker_requirements i) \<and>
    base_reference i \<noteq> Some [] \<and> list_all f64_finite (intent_floats i)"
  using validate_intent_bound [OF assms] by (simp add: intent_bound_def)

theorem accepted_intent_is_bound_witness:
  "validate_intent \<lparr>sha256_hex = id, evidence_json = \<lambda>_ _ _. []\<rparr> (Mirror demo_mirror) ''part-m''
     = Inr () \<and>
   intent_affected_semantic_ids (Mirror demo_mirror) = [''part-m'', ''part''] \<and>
   list_all f64_finite (intent_floats (Mirror demo_mirror))"
proof -
  have ok: "validate_intent \<lparr>sha256_hex = id, evidence_json = \<lambda>_ _ _. []\<rparr> (Mirror demo_mirror)
      ''part-m'' = Inr ()"
    by code_simp
  from accepted_intent_is_bound [OF ok] ok show ?thesis
    by (simp add: demo_mirror_def)
qed

end
