(* ===== verification/Publication.thy ===== *)
theory Publication
  imports Prelude
begin

text \<open>
  The publication of generations of a bundle in \<^verbatim>\<open>crates/persistence/src/lib.rs\<close>: the
  four directories a generation passes through, the file-system operations on them, the rotation
  that replaces the current generation, and what a later open finds.  Every operation can fail or
  be the point at which the process dies, and the removal of a directory can do either half-way;
  the faults of a run are a list that the operations consume.  A generation is opaque; whether its
  manifest, log and geometry authenticate (\<^verbatim>\<open>open_sealed\<close>) is the parameter \<open>sealed\<close>,
  and what a command makes of the loaded generation is the parameter \<open>change\<close>.  Writers hold
  the lock of the bundle throughout, so one runs at a time.  The order in which a power failure
  makes renames durable is not modelled.
\<close>

section \<open>Directories and faults\<close>

datatype slot = Staging | Destination | Previous | Retired

text \<open>A directory holds a whole generation, or what is left of one.\<close>

datatype 'g directory = Whole 'g | Rubble

type_synonym 'g slots = "slot \<Rightarrow> 'g directory option"

datatype fault = Works | Fails | Dies | FailsPartly | DiesPartly

record 'g disk =
  dk_slots :: "'g slots"
  dk_faults :: "fault list"

text \<open>
  An operation leaves a disk, and a result unless the process died.  The operations and their
  composition.
\<close>

type_synonym ('g, 'a) action = "'g disk \<Rightarrow> 'g disk \<times> 'a option"

datatype io_error = IoError

definition ret :: "'a \<Rightarrow> ('g, 'a) action" where
  "ret x d = (d, Some x)"

definition perform :: "('g, 'a) action \<Rightarrow> ('a \<Rightarrow> ('g, 'b) action) \<Rightarrow> ('g, 'b) action" where
  "perform m k d = (case m d of (d', None) \<Rightarrow> (d', None) | (d', Some x) \<Rightarrow> k x d')"

definition if_exists :: "slot \<Rightarrow> ('g, 'a) action \<Rightarrow> ('g, 'a) action \<Rightarrow> ('g, 'a) action" where
  "if_exists s m m' d = (if dk_slots d s \<noteq> None then m d else m' d)"

definition next_fault :: "'g disk \<Rightarrow> fault \<times> 'g disk" where
  "next_fault d =
     (case dk_faults d of [] \<Rightarrow> (Works, d) | f # fs \<Rightarrow> (f, d\<lparr>dk_faults := fs\<rparr>))"

text \<open>Renaming fails when there is no source, and when a directory is in the way.\<close>

definition fs_rename :: "slot \<Rightarrow> slot \<Rightarrow> ('g, io_error + unit) action" where
  "fs_rename source target d =
     (case next_fault d of (f, d') \<Rightarrow>
        (case f of
           Works \<Rightarrow>
             (case (dk_slots d' source, dk_slots d' target) of
                (Some x, None) \<Rightarrow>
                  (d'\<lparr>dk_slots := (dk_slots d')(source := None, target := Some x)\<rparr>, Some (Inr ()))
              | _ \<Rightarrow> (d', Some (Inl IoError)))
         | Fails \<Rightarrow> (d', Some (Inl IoError)) | FailsPartly \<Rightarrow> (d', Some (Inl IoError))
         | Dies \<Rightarrow> (d', None) | DiesPartly \<Rightarrow> (d', None)))"

definition fs_remove :: "slot \<Rightarrow> ('g, io_error + unit) action" where
  "fs_remove s d =
     (case next_fault d of (f, d') \<Rightarrow>
        let partly = d'\<lparr>dk_slots := (dk_slots d')(s := Some Rubble)\<rparr> in
        (case f of
           Works \<Rightarrow> (d'\<lparr>dk_slots := (dk_slots d')(s := None)\<rparr>, Some (Inr ()))
         | Fails \<Rightarrow> (d', Some (Inl IoError)) | FailsPartly \<Rightarrow> (partly, Some (Inl IoError))
         | Dies \<Rightarrow> (d', None) | DiesPartly \<Rightarrow> (partly, None)))"

definition sync_directory :: "('g, io_error + unit) action" where
  "sync_directory d =
     (case next_fault d of (f, d') \<Rightarrow>
        (case f of
           Works \<Rightarrow> (d', Some (Inr ()))
         | Fails \<Rightarrow> (d', Some (Inl IoError)) | FailsPartly \<Rightarrow> (d', Some (Inl IoError))
         | Dies \<Rightarrow> (d', None) | DiesPartly \<Rightarrow> (d', None)))"

section \<open>The rotation\<close>

datatype publication_error = PublicationIo | PublicationMaybe

definition remove_retired_generation :: "('g, io_error + unit) action" where
  "remove_retired_generation = if_exists Retired (fs_remove Retired) (ret (Inr ()))"

definition retire_previous :: "('g, io_error + unit) action" where
  "retire_previous = if_exists Previous (fs_rename Previous Retired) (ret (Inr ()))"

definition restore_previous :: "('g, io_error + unit) action" where
  "restore_previous = if_exists Retired (fs_rename Retired Previous) (ret (Inr ()))"

text \<open>After the promotion an error only leaves it open whether the rename is durable.\<close>

definition sync_parent :: "('g, publication_error + unit) action" where
  "sync_parent =
     perform sync_directory (\<lambda>r. ret (case r of Inl _ \<Rightarrow> Inl PublicationMaybe | Inr _ \<Rightarrow> Inr ()))"

definition promote_staging :: "('g, publication_error + unit) action" where
  "promote_staging =
     perform (fs_rename Staging Destination) (\<lambda>r.
       case r of
         Inl _ \<Rightarrow>
           perform (fs_rename Previous Destination) (\<lambda>_.
           perform restore_previous (\<lambda>_. ret (Inl PublicationIo)))
       | Inr _ \<Rightarrow> perform remove_retired_generation (\<lambda>_. sync_parent))"

definition replace_current :: "('g, publication_error + unit) action" where
  "replace_current =
     perform (fs_rename Destination Previous) (\<lambda>r.
       case r of
         Inl _ \<Rightarrow> perform restore_previous (\<lambda>_. ret (Inl PublicationIo))
       | Inr _ \<Rightarrow> promote_staging)"

definition publish_staged :: "('g, publication_error + unit) action" where
  "publish_staged =
     if_exists Destination
       (perform remove_retired_generation (\<lambda>r.
          case r of Inl _ \<Rightarrow> ret (Inl PublicationIo)
          | Inr _ \<Rightarrow> perform retire_previous (\<lambda>r.
              case r of Inl _ \<Rightarrow> ret (Inl PublicationIo) | Inr _ \<Rightarrow> replace_current)))
       (perform (fs_rename Staging Destination) (\<lambda>r.
          case r of Inl _ \<Rightarrow> ret (Inl PublicationIo) | Inr _ \<Rightarrow> sync_parent))"

section \<open>Opening\<close>

datatype open_error = ManifestMissing | NotAuthentic | OpenIo

definition open_sealed :: "('g \<Rightarrow> bool) \<Rightarrow> slot \<Rightarrow> ('g, open_error + 'g) action" where
  "open_sealed sealed s d =
     ret (case dk_slots d s of
            None \<Rightarrow> Inl ManifestMissing
          | Some Rubble \<Rightarrow> Inl NotAuthentic
          | Some (Whole g) \<Rightarrow> if sealed g then Inr g else Inl NotAuthentic) d"

definition reconcile_interrupted_rotation :: "('g \<Rightarrow> bool) \<Rightarrow> ('g, open_error + unit) action" where
  "reconcile_interrupted_rotation sealed =
     if_exists Destination
       (if_exists Previous (ret (Inr ()))
         (if_exists Retired
            (perform (open_sealed sealed Retired) (\<lambda>r.
               case r of Inl e \<Rightarrow> ret (Inl e)
               | Inr _ \<Rightarrow> perform (fs_rename Retired Previous) (\<lambda>r.
                   ret (case r of Inl _ \<Rightarrow> Inl OpenIo | Inr _ \<Rightarrow> Inr ()))))
            (ret (Inr ()))))
       (ret (Inr ()))"

text \<open>The generation, and whether it was recovered from the previous slot.\<close>

definition open_locked :: "('g \<Rightarrow> bool) \<Rightarrow> ('g, open_error + 'g \<times> bool) action" where
  "open_locked sealed =
     perform (reconcile_interrupted_rotation sealed) (\<lambda>r.
       case r of Inl e \<Rightarrow> ret (Inl e)
       | Inr _ \<Rightarrow>
           if_exists Destination
             (perform (open_sealed sealed Destination) (\<lambda>r. ret (map_sum id (\<lambda>g. (g, False)) r)))
             (perform (open_sealed sealed Previous) (\<lambda>r. ret (map_sum id (\<lambda>g. (g, True)) r))))"

section \<open>Creating and appending\<close>

datatype bundle_error = Refused | AlreadyExists | CannotOpen open_error | Io | PublicationUnknown

text \<open>
  The next generation is written to a fresh staging directory; when that fails it is removed
  again, and death may leave it half-written.  A staged generation that does not authenticate is
  removed.
\<close>

definition write_staging :: "'g \<Rightarrow> ('g, io_error + unit) action" where
  "write_staging g d =
     (case next_fault (d\<lparr>dk_slots := (dk_slots d)(Staging := None)\<rparr>) of (f, d') \<Rightarrow>
        let partly = d'\<lparr>dk_slots := (dk_slots d')(Staging := Some Rubble)\<rparr> in
        (case f of
           Works \<Rightarrow> (d'\<lparr>dk_slots := (dk_slots d')(Staging := Some (Whole g))\<rparr>, Some (Inr ()))
         | Fails \<Rightarrow> (d', Some (Inl IoError)) | FailsPartly \<Rightarrow> (partly, Some (Inl IoError))
         | Dies \<Rightarrow> (d', None) | DiesPartly \<Rightarrow> (partly, None)))"

definition prepare_staging :: "('g \<Rightarrow> bool) \<Rightarrow> 'g \<Rightarrow> ('g, io_error + unit) action" where
  "prepare_staging sealed g =
     perform (write_staging g) (\<lambda>r.
       case r of
         Inr _ \<Rightarrow>
           perform (open_sealed sealed Staging) (\<lambda>r.
             case r of
               Inr _ \<Rightarrow> ret (Inr ())
             | Inl _ \<Rightarrow> perform (fs_remove Staging) (\<lambda>_. ret (Inl IoError)))
       | Inl _ \<Rightarrow> perform (fs_remove Staging) (\<lambda>_. ret (Inl IoError)))"

definition bundle_error_of :: "publication_error \<Rightarrow> bundle_error" where
  "bundle_error_of e = (case e of PublicationIo \<Rightarrow> Io | PublicationMaybe \<Rightarrow> PublicationUnknown)"

definition publish_generation :: "('g \<Rightarrow> bool) \<Rightarrow> 'g \<Rightarrow> ('g, bundle_error + unit) action" where
  "publish_generation sealed g =
     perform (prepare_staging sealed g) (\<lambda>r.
       case r of
         Inl _ \<Rightarrow> ret (Inl Io)
       | Inr _ \<Rightarrow> perform publish_staged (\<lambda>r. ret (map_sum bundle_error_of id r)))"

definition create_staged :: "('g \<Rightarrow> bool) \<Rightarrow> 'g \<Rightarrow> ('g, bundle_error + unit) action" where
  "create_staged sealed fresh =
     if_exists Destination (ret (Inl AlreadyExists)) (publish_generation sealed fresh)"

text \<open>
  A command refuses the loaded generation, finds that it has been applied to it already, or makes
  the next one.  It also sees whether the generation was recovered from the previous slot: then
  there is no directory at the destination.
\<close>

datatype 'g decision = Refuse | Keep | Replace 'g

definition load_or_create ::
  "('g \<Rightarrow> bool) \<Rightarrow> 'g \<Rightarrow> ('g, bundle_error + 'g \<times> bool) action" where
  "load_or_create sealed fresh =
     (let load = perform (open_locked sealed) (\<lambda>r. ret (map_sum CannotOpen id r)) in
      if_exists Destination load
        (if_exists Previous load
          (perform (create_staged sealed fresh) (\<lambda>r.
             case r of Inl e \<Rightarrow> ret (Inl e) | Inr _ \<Rightarrow> load))))"

definition append_locked ::
  "('g \<Rightarrow> bool) \<Rightarrow> 'g \<Rightarrow> ('g \<times> bool \<Rightarrow> 'g decision) \<Rightarrow> ('g, bundle_error + 'g) action" where
  "append_locked sealed fresh change =
     perform (load_or_create sealed fresh) (\<lambda>r.
       case r of
         Inl e \<Rightarrow> ret (Inl e)
       | Inr x \<Rightarrow>
           (case change x of
              Refuse \<Rightarrow> ret (Inl Refused)
            | Keep \<Rightarrow> ret (Inr (fst x))
            | Replace g' \<Rightarrow>
                perform (publish_generation sealed g') (\<lambda>r.
                  case r of
                    Inl e \<Rightarrow> ret (Inl e)
                  | Inr _ \<Rightarrow>
                      perform (open_locked sealed) (\<lambda>r.
                        ret (case r of Inl _ \<Rightarrow> Inl PublicationUnknown | Inr (g, _) \<Rightarrow> Inr g)))))"

end
