(* ===== verification/PublicationProps.thy ===== *)
theory PublicationProps
  imports Publication
begin

text \<open>
  Publications are durable.  \<open>after m Q s\<close> says that however the operations of \<open>m\<close>
  fail or die, started on the directories \<open>s\<close> it ends with a result (or dead) and directories
  that satisfy \<open>Q\<close>; the rules \<open>after_rules\<close> compute it.  The contract of a durable
  register is a locale, with its consequence for any series of updates and crashes, and the
  bundle is an instance of it.
\<close>

section \<open>Demonic execution\<close>

named_theorems after_rules \<open>weakest preconditions of actions\<close>

definition after :: "('g, 'a) action \<Rightarrow> ('a option \<Rightarrow> 'g slots \<Rightarrow> bool) \<Rightarrow> 'g slots \<Rightarrow> bool" where
  "after m Q s = (\<forall>d. dk_slots d = s \<longrightarrow> Q (snd (m d)) (dk_slots (fst (m d))))"

lemma after_ret [after_rules]: "Q (Some x) s \<Longrightarrow> after (ret x) Q s"
  by (simp add: after_def ret_def)

lemma after_perform [after_rules]:
  assumes "after m (\<lambda>r s'. case r of None \<Rightarrow> Q None s' | Some x \<Rightarrow> after (k x) Q s') s"
  shows "after (perform m k) Q s"
  using assms by (auto simp: after_def perform_def split: prod.split option.splits)

lemma after_if_exists [after_rules]:
  "(s x \<noteq> None \<Longrightarrow> after m Q s) \<Longrightarrow> (s x = None \<Longrightarrow> after m' Q s) \<Longrightarrow> after (if_exists x m m') Q s"
  by (auto simp: after_def if_exists_def)

lemma after_rename [after_rules]:
  assumes "Q None s" "Q (Some (Inl IoError)) s"
    "\<And>x. s a = Some x \<Longrightarrow> s b = None \<Longrightarrow> Q (Some (Inr ())) (s(a := None, b := Some x))"
  shows "after (fs_rename a b) Q s"
  using assms
  by (auto simp: after_def fs_rename_def next_fault_def split: list.split fault.split option.split)

lemma after_remove [after_rules]:
  assumes "Q None s" "Q (Some (Inl IoError)) s" "Q None (s(a := Some Rubble))"
    "Q (Some (Inl IoError)) (s(a := Some Rubble))" "Q (Some (Inr ())) (s(a := None))"
  shows "after (fs_remove a) Q s"
  using assms
  by (auto simp: after_def fs_remove_def next_fault_def Let_def split: list.split fault.split)

lemma after_sync [after_rules]:
  "Q None s \<Longrightarrow> Q (Some (Inl IoError)) s \<Longrightarrow> Q (Some (Inr ())) s \<Longrightarrow> after sync_directory Q s"
  by (auto simp: after_def sync_directory_def next_fault_def split: list.split fault.split)

lemma after_write [after_rules]:
  assumes "Q None (s(Staging := None))" "Q (Some (Inl IoError)) (s(Staging := None))"
    "Q None (s(Staging := Some Rubble))" "Q (Some (Inl IoError)) (s(Staging := Some Rubble))"
    "Q (Some (Inr ())) (s(Staging := Some (Whole g)))"
  shows "after (write_staging g) Q s"
  using assms
  by (auto simp: after_def write_staging_def next_fault_def Let_def split: list.split fault.split)

lemma after_open [after_rules]:
  "(\<And>e. Q (Some (Inl e)) s) \<Longrightarrow>
   (\<And>g. s a = Some (Whole g) \<Longrightarrow> sealed g \<Longrightarrow> Q (Some (Inr g)) s) \<Longrightarrow>
   after (open_sealed sealed a) Q s"
  by (auto simp: after_def open_sealed_def ret_def split: option.split directory.split)

lemma after_mono: "after m P s \<Longrightarrow> (\<And>r s'. P r s' \<Longrightarrow> Q r s') \<Longrightarrow> after m Q s"
  by (auto simp: after_def)

section \<open>The state of the directories\<close>

text \<open>
  The generation that a bundle stands for: the one at the destination, or the previous one when
  a replacement was interrupted.
\<close>

definition selected :: "'g slots \<Rightarrow> 'g directory option" where
  "selected s = (case s Destination of None \<Rightarrow> s Previous | Some x \<Rightarrow> Some x)"

definition authentic :: "('g \<Rightarrow> bool) \<Rightarrow> 'g directory \<Rightarrow> bool" where
  "authentic sealed x = (case x of Rubble \<Rightarrow> False | Whole g \<Rightarrow> sealed g)"

text \<open>
  No whole generation is ever half-removed where it could be selected: only a retired one, and
  only while there is a previous one.
\<close>

definition slots_ok :: "('g \<Rightarrow> bool) \<Rightarrow> 'g slots \<Rightarrow> bool" where
  "slots_ok sealed s =
     ((\<forall>x. s Destination = Some x \<longrightarrow> authentic sealed x) \<and>
      (\<forall>x. s Previous = Some x \<longrightarrow> authentic sealed x) \<and>
      (\<forall>x. s Previous = None \<longrightarrow> s Retired = Some x \<longrightarrow> authentic sealed x))"

definition holds :: "('g \<Rightarrow> bool) \<Rightarrow> 'g \<Rightarrow> 'g slots \<Rightarrow> bool" where
  "holds sealed g s = (slots_ok sealed s \<and> selected s = Some (Whole g))"

lemmas holds_defs = holds_def slots_ok_def selected_def authentic_def

definition publication_post ::
  "('g \<Rightarrow> bool) \<Rightarrow> 'g \<Rightarrow> 'g \<Rightarrow> (publication_error + unit) option \<Rightarrow> 'g slots \<Rightarrow> bool" where
  "publication_post sealed old new r s =
     (case r of
        None \<Rightarrow> holds sealed old s \<or> holds sealed new s
      | Some (Inl PublicationIo) \<Rightarrow> holds sealed old s
      | Some (Inl PublicationMaybe) \<Rightarrow> holds sealed new s
      | Some (Inr _) \<Rightarrow> holds sealed new s)"

lemma sync_parent_post:
  "holds sealed new s \<Longrightarrow> after sync_parent (publication_post sealed old new) s"
  unfolding sync_parent_def publication_post_def by (rule after_rules | simp)+

text \<open>What the slots look like between the two renames of a replacement.\<close>

definition between_renames :: "('g \<Rightarrow> bool) \<Rightarrow> 'g \<Rightarrow> 'g \<Rightarrow> 'g slots \<Rightarrow> bool" where
  "between_renames sealed old new s =
     (s Destination = None \<and> s Previous = Some (Whole old) \<and> sealed old \<and>
      s Staging = Some (Whole new) \<and> sealed new \<and>
      (\<forall>x. s Retired = Some x \<longrightarrow> authentic sealed x))"

lemma between_renames_holds: "between_renames sealed old new s \<Longrightarrow> holds sealed old s"
  by (simp add: between_renames_def holds_defs)

lemma cleanup_post:
  assumes "holds sealed new s" "s Previous \<noteq> None"
  shows "after remove_retired_generation (\<lambda>r s'. case r of
      None \<Rightarrow> publication_post sealed old new None s'
    | Some x \<Rightarrow> after sync_parent (publication_post sealed old new) s') s"
proof -
  have "holds sealed new (s(Retired := x))" for x
    using assms by (auto simp: holds_defs split: option.splits)
  with assms(1) show ?thesis
    unfolding remove_retired_generation_def
    by - (rule after_rules | simp add: sync_parent_post publication_post_def)+
qed

lemma promote_staging_post:
  assumes "between_renames sealed old new s"
  shows "after promote_staging (publication_post sealed old new) s"
proof -
  have old: "holds sealed old s" by (rule between_renames_holds [OF assms])
  have "after (perform remove_retired_generation (\<lambda>_. sync_parent))
      (publication_post sealed old new) (s(Staging := None, Destination := Some (Whole new)))"
    by (rule after_perform, rule cleanup_post) (use assms in \<open>auto simp: between_renames_def holds_defs\<close>)
  moreover have "after (perform (fs_rename Previous Destination)
      (\<lambda>_. perform restore_previous (\<lambda>_. ret (Inl PublicationIo)))) (publication_post sealed old new) s"
    unfolding restore_previous_def publication_post_def
    using assms old
    by - (rule after_rules | simp add: holds_defs between_renames_def authentic_def)+
  ultimately show ?thesis
    unfolding promote_staging_def using assms old
    by - (rule after_rules | simp add: publication_post_def between_renames_def)+
qed

definition before_replace :: "('g \<Rightarrow> bool) \<Rightarrow> 'g \<Rightarrow> 'g \<Rightarrow> 'g slots \<Rightarrow> bool" where
  "before_replace sealed old new s =
     (s Destination = Some (Whole old) \<and> sealed old \<and> s Previous = None \<and>
      s Staging = Some (Whole new) \<and> sealed new \<and>
      (\<forall>x. s Retired = Some x \<longrightarrow> authentic sealed x))"

lemma before_replace_holds: "before_replace sealed old new s \<Longrightarrow> holds sealed old s"
  by (simp add: before_replace_def holds_defs)

lemma replace_current_post:
  assumes "before_replace sealed old new s"
  shows "after replace_current (publication_post sealed old new) s"
proof -
  have old: "holds sealed old s" by (rule before_replace_holds [OF assms])
  have "after (perform restore_previous (\<lambda>_. ret (Inl PublicationIo))) (publication_post sealed old new) s"
    unfolding restore_previous_def publication_post_def
    using assms old
    by - (rule after_rules | simp add: holds_defs before_replace_def)+
  moreover have "between_renames sealed old new (s(Destination := None, Previous := Some (Whole old)))"
    using assms by (simp add: before_replace_def between_renames_def)
  then have "after promote_staging (publication_post sealed old new)
      (s(Destination := None, Previous := Some (Whole old)))"
    by (rule promote_staging_post)
  ultimately show ?thesis
    unfolding replace_current_def using assms old
    by - (rule after_rules | simp add: publication_post_def before_replace_def)+
qed

lemma retire_previous_post:
  assumes old: "holds sealed old s" and new: "s Staging = Some (Whole new)" "sealed new"
    and "s Destination \<noteq> None" "s Retired = None"
  shows "after (perform retire_previous (\<lambda>r.
      case r of Inl _ \<Rightarrow> ret (Inl PublicationIo) | Inr _ \<Rightarrow> replace_current))
    (publication_post sealed old new) s"
proof -
  have d: "s Destination = Some (Whole old)" "sealed old"
    using assms by (auto simp: holds_defs)
  have "after replace_current (publication_post sealed old new) (s(Previous := None, Retired := s Previous))"
    by (rule replace_current_post) (use assms d in \<open>auto simp: before_replace_def holds_defs\<close>)
  moreover have "s(Previous := None, Retired := None) = s" if "s Previous = None"
    using that assms by auto
  ultimately show ?thesis
    unfolding retire_previous_def using old
    by - (rule after_rules | simp add: publication_post_def)+
qed

lemma publish_staged_post:
  assumes old: "holds sealed old s" and new: "s Staging = Some (Whole new)" "sealed new"
    and reconciled: "s Destination \<noteq> None \<Longrightarrow> s Previous = None \<Longrightarrow> s Retired = None"
  shows "after publish_staged (publication_post sealed old new) s"
proof -
  have rubble: "holds sealed old (s(Retired := Some Rubble))" if "s Previous \<noteq> None"
    using that old by (auto simp: holds_defs split: option.splits)
  have gone: "holds sealed old (s(Retired := None))" using old by (auto simp: holds_defs split: option.splits)
  have "after (perform retire_previous (\<lambda>r.
      case r of Inl _ \<Rightarrow> ret (Inl PublicationIo) | Inr _ \<Rightarrow> replace_current))
      (publication_post sealed old new) (s(Retired := None))" if "s Destination \<noteq> None"
    by (rule retire_previous_post) (use gone new that in auto)
  moreover have "s(Retired := None) = s" if "s Retired = None" using that by auto
  moreover have "after sync_parent (publication_post sealed old new)
      (s(Staging := None, Destination := Some (Whole new)))" if "s Destination = None"
    by (rule sync_parent_post) (use old new that in \<open>auto simp: holds_defs\<close>)
  ultimately show ?thesis
    unfolding publish_staged_def remove_retired_generation_def using old new rubble reconciled
    by - (rule after_rules | simp add: publication_post_def | blast)+
qed

section \<open>Opening and appending\<close>

definition reconciled :: "'g slots \<Rightarrow> bool" where
  "reconciled s = (s Destination \<noteq> None \<longrightarrow> s Previous = None \<longrightarrow> s Retired = None)"

text \<open>Without a destination an open recovers the previous generation.\<close>

definition recovering :: "'g slots \<Rightarrow> bool" where
  "recovering s = (s Destination = None)"

lemma reconcile_post:
  assumes "holds sealed g s"
  shows "after (reconcile_interrupted_rotation sealed)
    (\<lambda>r s'. holds sealed g s' \<and> recovering s' = recovering s \<and> (r = Some (Inr ()) \<longrightarrow> reconciled s')) s"
proof -
  have "holds sealed g (s(Retired := None, Previous := s Retired))"
    if "s Destination \<noteq> None" "s Previous = None"
    using that assms by (auto simp: holds_defs)
  then show ?thesis
    unfolding reconcile_interrupted_rotation_def reconciled_def recovering_def using assms
    by - (rule after_rules | clarsimp)+
qed

definition opened_post ::
  "('g \<Rightarrow> bool) \<Rightarrow> 'g \<times> bool \<Rightarrow> (open_error + 'g \<times> bool) option \<Rightarrow> 'g slots \<Rightarrow> bool" where
  "opened_post sealed x r s =
     (holds sealed (fst x) s \<and> recovering s = snd x \<and>
      (case r of Some (Inr x') \<Rightarrow> x' = x \<and> reconciled s | _ \<Rightarrow> True))"

lemma open_locked_post:
  assumes "holds sealed g s"
  shows "after (open_locked sealed) (opened_post sealed (g, recovering s)) s" (is "after _ ?Q s")
  unfolding open_locked_def
proof (rule after_perform, rule after_mono [OF reconcile_post [OF assms]])
  fix r :: "(open_error + unit) option" and s'
  assume s': "holds sealed g s' \<and> recovering s' = recovering s \<and> (r = Some (Inr ()) \<longrightarrow> reconciled s')"
  have at: "s' x = Some (Whole g) \<and> sealed g"
    if "x = Destination \<and> s' Destination \<noteq> None \<or> x = Previous \<and> s' Destination = None" for x
    using s' that by (auto simp: holds_defs split: option.splits directory.splits)
  show "case r of None \<Rightarrow> ?Q None s'
    | Some x \<Rightarrow> after (case x of Inl e \<Rightarrow> ret (Inl e)
       | Inr _ \<Rightarrow> if_exists Destination
          (perform (open_sealed sealed Destination) (\<lambda>r. ret (map_sum id (\<lambda>g. (g, False)) r)))
          (perform (open_sealed sealed Previous) (\<lambda>r. ret (map_sum id (\<lambda>g. (g, True)) r))))
        ?Q s'"
  proof (cases r)
    case None
    then show ?thesis using s' by (simp add: opened_post_def)
  next
    case (Some x)
    show ?thesis
    proof (cases x)
      case (Inl e)
      with Some s' show ?thesis by (simp add: opened_post_def after_rules)
    next
      case (Inr u)
      have "s' Destination = None \<longleftrightarrow> recovering s" using s' by (simp add: recovering_def)
      with Inr Some s' at show ?thesis
        by - (rule after_rules | simp add: opened_post_def)+
    qed
  qed
qed

lemma prepare_staging_post:
  assumes "holds sealed g s" "reconciled s"
  shows "after (prepare_staging sealed g')
    (\<lambda>r s'. holds sealed g s' \<and> reconciled s' \<and>
       (r = Some (Inr ()) \<longrightarrow> s' Staging = Some (Whole g') \<and> sealed g')) s"
proof -
  have "holds sealed g (s(Staging := x)) \<and> reconciled (s(Staging := x))" for x
    using assms by (auto simp: holds_defs reconciled_def split: option.splits)
  then show ?thesis
    unfolding prepare_staging_def by - (rule after_rules | simp)+
qed

definition published_post ::
  "('g \<Rightarrow> bool) \<Rightarrow> 'g \<Rightarrow> 'g \<Rightarrow> (bundle_error + unit) option \<Rightarrow> 'g slots \<Rightarrow> bool" where
  "published_post sealed old new r s =
     (case r of
        None \<Rightarrow> holds sealed old s \<or> sealed new \<and> holds sealed new s
      | Some (Inl PublicationUnknown) \<Rightarrow> sealed new \<and> holds sealed new s
      | Some (Inl _) \<Rightarrow> holds sealed old s
      | Some (Inr _) \<Rightarrow> sealed new \<and> holds sealed new s)"

lemma publish_generation_post:
  assumes "holds sealed g s" "reconciled s"
  shows "after (publish_generation sealed g') (published_post sealed g g') s"
  unfolding publish_generation_def
proof (rule after_perform, rule after_mono [OF prepare_staging_post [OF assms, of g']])
  fix r :: "(io_error + unit) option" and s'
  assume s': "holds sealed g s' \<and> reconciled s' \<and>
    (r = Some (Inr ()) \<longrightarrow> s' Staging = Some (Whole g') \<and> sealed g')"
  have "after (perform publish_staged (\<lambda>r. ret (map_sum bundle_error_of id r))) (published_post sealed g g') s'"
    if r: "r = Some (Inr ())"
  proof (rule after_perform, rule after_mono [OF publish_staged_post [of sealed g s' g']])
    fix q :: "(publication_error + unit) option" and s''
    assume "publication_post sealed g g' q s''"
    with s' r show "case q of None \<Rightarrow> published_post sealed g g' None s''
      | Some x \<Rightarrow> after (ret (map_sum bundle_error_of id x)) (published_post sealed g g') s''"
      by (auto simp: publication_post_def published_post_def bundle_error_of_def
          split: option.splits sum.splits publication_error.splits intro!: after_ret)
  qed (use s' r in \<open>auto simp: reconciled_def\<close>)
  with s' show "case r of None \<Rightarrow> published_post sealed g g' None s'
    | Some x \<Rightarrow> after (case x of Inl _ \<Rightarrow> ret (Inl Io)
        | Inr _ \<Rightarrow> perform publish_staged (\<lambda>r. ret (map_sum bundle_error_of id r)))
      (published_post sealed g g') s'"
    by (auto simp: published_post_def split: option.split sum.split intro!: after_ret)
qed

definition bundle_effect :: "('g \<Rightarrow> bool) \<Rightarrow> ('g \<times> bool \<Rightarrow> 'g decision) \<Rightarrow> 'g \<times> bool \<Rightarrow> 'g" where
  "bundle_effect sealed change x =
     (case change x of Replace g' \<Rightarrow> if sealed g' then g' else fst x | _ \<Rightarrow> fst x)"

text \<open>
  Which generation a command may leave, given what it reported, the generation before and the one
  the command makes of it.
\<close>

definition bundle_outcome :: "(bundle_error + 'g) option \<Rightarrow> 'g \<Rightarrow> 'g \<Rightarrow> 'g \<Rightarrow> bool" where
  "bundle_outcome r old new g =
     (case r of
        None \<Rightarrow> g = old \<or> g = new
      | Some (Inl PublicationUnknown) \<Rightarrow> g = new
      | Some (Inl _) \<Rightarrow> g = old
      | Some (Inr x) \<Rightarrow> g = new \<and> x = new)"

definition appended_post ::
  "('g \<Rightarrow> bool) \<Rightarrow> 'g \<Rightarrow> 'g \<Rightarrow> (bundle_error + 'g) option \<Rightarrow> 'g slots \<Rightarrow> bool" where
  "appended_post sealed old new r s = (\<exists>g. bundle_outcome r old new g \<and> holds sealed g s)"

lemma load_post:
  assumes "holds sealed g s"
  shows "after (load_or_create sealed fresh)
    (\<lambda>r s'. holds sealed g s' \<and>
       (case r of Some (Inr x) \<Rightarrow> x = (g, recovering s) \<and> reconciled s'
        | Some (Inl e) \<Rightarrow> e \<noteq> PublicationUnknown | _ \<Rightarrow> True)) s"
    (is "after _ ?Q s")
proof -
  have "after (perform (open_locked sealed) (\<lambda>r. ret (map_sum CannotOpen id r))) ?Q s"
  proof (rule after_perform, rule after_mono [OF open_locked_post [OF assms]])
    fix r :: "(open_error + 'a \<times> bool) option" and s'
    assume "opened_post sealed (g, recovering s) r s'"
    then show "case r of None \<Rightarrow> ?Q None s' | Some x \<Rightarrow> after (ret (map_sum CannotOpen id x)) ?Q s'"
      by (auto simp: opened_post_def split: option.splits sum.splits intro!: after_ret)
  qed
  moreover have "s Destination \<noteq> None \<or> s Previous \<noteq> None"
    using assms by (auto simp: holds_defs split: option.splits)
  ultimately show ?thesis
    unfolding load_or_create_def Let_def by (auto intro!: after_if_exists)
qed

lemma replace_post:
  assumes "holds sealed g s" "reconciled s"
  shows "after (perform (publish_generation sealed g') (\<lambda>r.
      case r of Inl e \<Rightarrow> ret (Inl e)
      | Inr _ \<Rightarrow> perform (open_locked sealed) (\<lambda>r.
          ret (case r of Inl _ \<Rightarrow> Inl PublicationUnknown | Inr (g, _) \<Rightarrow> Inr g))))
    (appended_post sealed g (if sealed g' then g' else g)) s" (is "after _ ?Q s")
proof (rule after_perform, rule after_mono [OF publish_generation_post [OF assms, of g']])
  fix r :: "(bundle_error + unit) option" and s'
  assume r: "published_post sealed g g' r s'"
  have "after (perform (open_locked sealed) (\<lambda>r.
      ret (case r of Inl _ \<Rightarrow> Inl PublicationUnknown | Inr (g, _) \<Rightarrow> Inr g))) ?Q s'"
    if "sealed g'" "holds sealed g' s'"
  proof (rule after_perform, rule after_mono [OF open_locked_post [OF that(2)]])
    fix q :: "(open_error + 'a \<times> bool) option" and s''
    assume "opened_post sealed (g', recovering s') q s''"
    with that show "case q of None \<Rightarrow> ?Q None s''
      | Some x \<Rightarrow> after (ret (case x of Inl _ \<Rightarrow> Inl PublicationUnknown | Inr (g, _) \<Rightarrow> Inr g)) ?Q s''"
      by (auto simp: opened_post_def appended_post_def bundle_outcome_def
          split: option.splits sum.splits intro!: after_ret)
  qed
  with r show "case r of None \<Rightarrow> ?Q None s'
    | Some x \<Rightarrow> after (case x of Inl e \<Rightarrow> ret (Inl e)
        | Inr _ \<Rightarrow> perform (open_locked sealed) (\<lambda>r.
            ret (case r of Inl _ \<Rightarrow> Inl PublicationUnknown | Inr (g, _) \<Rightarrow> Inr g))) ?Q s'"
    by (auto simp: published_post_def appended_post_def bundle_outcome_def
        split: option.splits sum.splits bundle_error.splits if_splits intro!: after_ret)
qed

lemma append_post:
  assumes "holds sealed g s"
  shows "after (append_locked sealed fresh change)
    (appended_post sealed g (bundle_effect sealed change (g, recovering s))) s" (is "after _ ?Q s")
  unfolding append_locked_def
proof (rule after_perform, rule after_mono [OF load_post [OF assms, of fresh]])
  fix r :: "(bundle_error + 'a \<times> bool) option" and s'
  assume r: "holds sealed g s' \<and>
    (case r of Some (Inr x) \<Rightarrow> x = (g, recovering s) \<and> reconciled s'
     | Some (Inl e) \<Rightarrow> e \<noteq> PublicationUnknown | _ \<Rightarrow> True)"
  show "case r of None \<Rightarrow> ?Q None s'
    | Some x \<Rightarrow> after (case x of Inl e \<Rightarrow> ret (Inl e)
        | Inr x \<Rightarrow> (case change x of Refuse \<Rightarrow> ret (Inl Refused) | Keep \<Rightarrow> ret (Inr (fst x))
          | Replace g' \<Rightarrow> perform (publish_generation sealed g') (\<lambda>r.
              case r of Inl e \<Rightarrow> ret (Inl e)
              | Inr _ \<Rightarrow> perform (open_locked sealed) (\<lambda>r.
                  ret (case r of Inl _ \<Rightarrow> Inl PublicationUnknown | Inr (g, _) \<Rightarrow> Inr g))))) ?Q s'"
  proof (cases r)
    case None
    with r show ?thesis by (auto simp: appended_post_def bundle_outcome_def)
  next
    case (Some x)
    show ?thesis
    proof (cases x)
      case (Inl e)
      with Some r show ?thesis
        by (auto simp: appended_post_def bundle_outcome_def split: bundle_error.splits intro!: after_ret)
    next
      case (Inr x0)
      with Some r have "x0 = (g, recovering s)" "holds sealed g s'" "reconciled s'" by auto
      note facts = Some Inr this
      show ?thesis
      proof (cases "change (g, recovering s)")
        case (Replace g')
        then show ?thesis
          using replace_post [OF facts(4,5), of g']
          by (simp only: facts(1-3) option.case sum.case decision.case bundle_effect_def fst_conv)
      qed (use facts in \<open>auto simp: bundle_effect_def appended_post_def bundle_outcome_def intro!: after_ret\<close>)
    qed
  qed
qed

section \<open>Durable registers\<close>

text \<open>Updates run one after the other, each leaving a store and what it reported.\<close>

fun run_all :: "('u \<Rightarrow> 'd \<Rightarrow> 'd \<times> 'r) \<Rightarrow> 'u list \<Rightarrow> 'd \<Rightarrow> 'd \<times> 'r list" where
  "run_all update [] d = (d, [])"
| "run_all update (u # us) d =
     (case update u d of (d1, r) \<Rightarrow> case run_all update us d1 of (d2, rs) \<Rightarrow> (d2, r # rs))"

text \<open>
  A value explains what a series of updates reported when each report allows the step it makes
  from the value before, given what the update makes of that value.
\<close>

fun explained ::
  "('u \<Rightarrow> 'g \<Rightarrow> 'v) \<Rightarrow> ('r \<Rightarrow> 'g \<Rightarrow> 'v \<Rightarrow> 'g \<Rightarrow> bool) \<Rightarrow> 'g \<Rightarrow> ('u \<times> 'r) list \<Rightarrow> 'g \<Rightarrow> bool" where
  "explained effect allowed g [] g' = (g' = g)"
| "explained effect allowed g ((u, r) # rest) g' =
     (\<exists>g1. allowed r g (effect u g) g1 \<and> explained effect allowed g1 rest g')"

locale durable_register =
  fixes represents :: "'g \<Rightarrow> 'd \<Rightarrow> bool"
    and update :: "'u \<Rightarrow> 'd \<Rightarrow> 'd \<times> 'r"
    and effect :: "'u \<Rightarrow> 'g \<Rightarrow> 'v"
    and allowed :: "'r \<Rightarrow> 'g \<Rightarrow> 'v \<Rightarrow> 'g \<Rightarrow> bool"
  assumes update_represents: "represents g d \<Longrightarrow>
    \<exists>g'. allowed (snd (update u d)) g (effect u g) g' \<and> represents g' (fst (update u d))"
begin

lemma run_explained:
  assumes "represents g d" and "run_all update us d = (d', rs)"
  shows "\<exists>g'. explained effect allowed g (zip us rs) g' \<and> represents g' d'"
  using assms
proof (induction us arbitrary: g d d' rs)
  case Nil
  then show ?case by auto
next
  case (Cons u us)
  obtain d1 r where u: "update u d = (d1, r)" by fastforce
  obtain d2 rs' where us: "run_all update us d1 = (d2, rs')" by fastforce
  with Cons.prems(2) u have d': "d' = d2" and rs: "rs = r # rs'" by auto
  obtain g1 where g1: "allowed r g (effect u g) g1" "represents g1 d1"
    using update_represents [OF Cons.prems(1), of u] u by auto
  obtain g' where "explained effect allowed g1 (zip us rs') g'" "represents g' d2"
    using Cons.IH [OF g1(2) us] by blast
  with g1(1) d' rs show ?case by auto
qed

end

text \<open>A command together with the faults that its operations meet.\<close>

type_synonym 'g faulty_command = "('g \<times> bool \<Rightarrow> 'g decision) \<times> fault list"

definition append_with_faults ::
  "('g \<Rightarrow> bool) \<Rightarrow> 'g \<Rightarrow> 'g faulty_command \<Rightarrow> 'g disk \<Rightarrow> 'g disk \<times> (bundle_error + 'g) option" where
  "append_with_faults sealed fresh u d =
     append_locked sealed fresh (fst u) (d\<lparr>dk_faults := snd u\<rparr>)"

text \<open>
  The register holds a generation and whether an open would recover it from the previous slot.
\<close>

definition bundle_holds :: "('g \<Rightarrow> bool) \<Rightarrow> 'g \<times> bool \<Rightarrow> 'g disk \<Rightarrow> bool" where
  "bundle_holds sealed x d \<longleftrightarrow> holds sealed (fst x) (dk_slots d) \<and> snd x = recovering (dk_slots d)"

definition bundle_step :: "(bundle_error + 'g) option \<Rightarrow> 'g \<times> bool \<Rightarrow> 'g \<Rightarrow> 'g \<times> bool \<Rightarrow> bool" where
  "bundle_step r old new x \<longleftrightarrow> bundle_outcome r (fst old) new (fst x)"

interpretation publication: durable_register
  "bundle_holds sealed" "append_with_faults sealed fresh"
  "\<lambda>u :: 'g faulty_command. bundle_effect sealed (fst u)" bundle_step
  for sealed :: "'g \<Rightarrow> bool" and fresh :: 'g
proof
  fix x and u :: "'g faulty_command" and d :: "'g disk"
  let ?after = "append_with_faults sealed fresh u d"
  assume "bundle_holds sealed x d"
  then have x: "x = (fst x, recovering (dk_slots d))" and h: "holds sealed (fst x) (dk_slots d)"
    by (auto simp: bundle_holds_def prod_eq_iff)
  have "after (append_locked sealed fresh (fst u))
      (appended_post sealed (fst x) (bundle_effect sealed (fst u) x)) (dk_slots d)"
    using append_post [OF h] unfolding x [symmetric] .
  then have "appended_post sealed (fst x) (bundle_effect sealed (fst u) x) (snd ?after) (dk_slots (fst ?after))"
    unfolding after_def append_with_faults_def by (elim allE [of _ "d\<lparr>dk_faults := snd u\<rparr>"]) simp
  then obtain g' where "bundle_outcome (snd ?after) (fst x) (bundle_effect sealed (fst u) x) g'"
    "holds sealed g' (dk_slots (fst ?after))"
    by (auto simp: appended_post_def)
  then show "\<exists>x'. bundle_step (snd ?after) x (bundle_effect sealed (fst u) x) x' \<and>
      bundle_holds sealed x' (fst ?after)"
    by (intro exI [of _ "(g', recovering (dk_slots (fst ?after)))"]) (simp add: bundle_step_def bundle_holds_def)
qed

text \<open>Without faults an open succeeds and finds the generation.\<close>

lemma open_without_faults:
  assumes "bundle_holds sealed x d" and "dk_faults d = []"
  shows "\<exists>d'. open_locked sealed d = (d', Some (Inr x))"
  using assms
  by (cases x) (auto simp: open_locked_def reconcile_interrupted_rotation_def perform_def if_exists_def ret_def
      open_sealed_def fs_rename_def next_fault_def holds_defs bundle_holds_def recovering_def
      split: option.splits directory.splits if_splits)

lemma reopened: "bundle_holds sealed x (d\<lparr>dk_faults := fs\<rparr>) \<longleftrightarrow> bundle_holds sealed x d"
  by (simp add: bundle_holds_def)

text \<open>
  C40.  Start from directories that hold a generation, and run any commands, with any of their
  file-system operations failing and the process dying anywhere (inside the removal of a directory
  included).  A command is given the generation and whether it had to be recovered from the previous
  slot.  An open then finds a generation that explains the reports: a command that succeeded,
  or reported that the publication is unknown, has taken effect, a command that reported any other
  error has not, one during which the process died has done one or the other, and every
  generation that a command returned is the one it left.
\<close>
theorem publications_durable:
  assumes "holds sealed g (dk_slots d)"
    and "run_all (append_with_faults sealed fresh) us d = (d', reports)"
  shows "\<exists>x. explained (\<lambda>u. bundle_effect sealed (fst u)) bundle_step
      (g, recovering (dk_slots d)) (zip us reports) x \<and>
    (\<exists>d''. open_locked sealed (d'\<lparr>dk_faults := []\<rparr>) = (d'', Some (Inr x)))"
proof -
  have "bundle_holds sealed (g, recovering (dk_slots d)) d" using assms(1) by (simp add: bundle_holds_def)
  from publication.run_explained [OF this assms(2)] obtain x where
    "explained (\<lambda>u. bundle_effect sealed (fst u)) bundle_step (g, recovering (dk_slots d)) (zip us reports) x"
    and "bundle_holds sealed x d'" by blast
  moreover from this(2) have "\<exists>d''. open_locked sealed (d'\<lparr>dk_faults := []\<rparr>) = (d'', Some (Inr x))"
    by (intro open_without_faults) (simp_all add: reopened)
  ultimately show ?thesis by blast
qed

text \<open>
  The first command dies after the first rename of its replacement, the second one recovers the
  previous generation and succeeds, the third one cannot sync.
\<close>

definition demo_disk :: "nat disk" where
  "demo_disk = \<lparr>dk_slots = (\<lambda>_. None)(Destination := Some (Whole 0)), dk_faults = []\<rparr>"

definition demo_updates :: "nat faulty_command list" where
  "demo_updates =
     [(\<lambda>x. Replace (fst x + 1), [Works, Works, Dies]),
      (\<lambda>x. if snd x then Replace (fst x + 10) else Refuse, []),
      (\<lambda>x. Replace (fst x + 100), [Works, Works, Works, Works, Works, Fails])]"

lemma demo_reports:
  "snd (run_all (append_with_faults (\<lambda>_. True) 0) demo_updates demo_disk) =
     [None, Some (Inr 10), Some (Inl PublicationUnknown)]"
  by code_simp

theorem publications_durable_witness:
  "\<exists>d' x. explained (\<lambda>u. bundle_effect (\<lambda>_. True) (fst u)) bundle_step (0, False)
       (zip demo_updates [None, Some (Inr 10), Some (Inl PublicationUnknown)]) x \<and>
     (\<exists>d''. open_locked (\<lambda>_. True) (d'\<lparr>dk_faults := []\<rparr>) = (d'', Some (Inr x)))"
proof -
  obtain d' where run: "run_all (append_with_faults (\<lambda>_. True) 0) demo_updates demo_disk =
      (d', [None, Some (Inr 10), Some (Inl PublicationUnknown)])"
    using demo_reports by (metis prod.collapse)
  have "holds (\<lambda>_. True) 0 (dk_slots demo_disk)" "recovering (dk_slots demo_disk) = False"
    by (simp_all add: demo_disk_def holds_defs recovering_def)
  with publications_durable [OF this(1) run] show ?thesis by auto
qed

end
