(* ===== verification/AppendProps.thy ===== *)
theory AppendProps
  imports Append ReplayProps IntentProps PublicationProps "HOL-Library.Sublist"
begin

text \<open>
  The write transaction on top of the log, replay and the publication protocol: an accepted
  transaction extends the log, opening what it sealed gives that log back, and across failing file
  operations and process deaths no committed transaction is lost.
\<close>

section \<open>Logs that a transaction makes\<close>

definition finite_entry :: "log_entry \<Rightarrow> bool" where
  "finite_entry e \<longleftrightarrow>
     (case le_intent e of None \<Rightarrow> True | Some i \<Rightarrow> list_all f64_finite (intent_floats i))"

definition sound_log :: "'c log_codecs_scheme \<Rightarrow> transaction_log \<Rightarrow> bool" where
  "sound_log cd tlog \<longleftrightarrow> chained cd tlog \<and> list_all finite_entry tlog"

definition extends_log :: "'c log_codecs_scheme \<Rightarrow> transaction_log \<Rightarrow> transaction_log \<Rightarrow> bool" where
  "extends_log cd old new \<longleftrightarrow> (\<exists>news. new = old @ news) \<and> (sound_log cd old \<longrightarrow> sound_log cd new)"

lemma extends_log_refl [simp]: "extends_log cd tlog tlog"
  by (simp add: extends_log_def)

lemma extends_log_trans: "extends_log cd a b \<Longrightarrow> extends_log cd b c \<Longrightarrow> extends_log cd a c"
  by (auto simp: extends_log_def)

lemma next_entry_intent [simp]: "le_intent (next_entry cd tlog f k) = None"
  by (simp add: next_entry_def new_entry_def split: prod.split)

lemma makers_intent [simp]:
  "le_intent (with_idempotency_key cd key payload e) = le_intent e"
  "le_intent (with_brep cd bytes e) = le_intent e"
  "le_intent (with_intent cd i e) = Some i"
  by (simp_all add: with_idempotency_key_def with_brep_def with_intent_def)

lemma extends_append_feature [simp]: "extends_log cd tlog (append_feature cd f k tlog)"
  unfolding extends_log_def sound_log_def
  by (auto simp: append_feature_def finite_entry_def linked_next)

lemma extends_append_idempotency [simp]:
  "extends_log cd tlog (append_feature_with_idempotency cd f k key payload tlog)"
  unfolding extends_log_def sound_log_def append_with_idempotency_chained
  by (auto simp: append_feature_with_idempotency_def finite_entry_def)

lemma extends_append_brep:
  assumes "case intent of None \<Rightarrow> True | Some i \<Rightarrow> list_all f64_finite (intent_floats i)"
  shows "extends_log cd tlog (append_feature_with_brep cd f k bytes key payload intent tlog)"
  using assms unfolding extends_log_def sound_log_def append_with_brep_chained
  by (auto simp: append_feature_with_brep_def finite_entry_def Let_def split: option.splits)

definition finite_request :: "append_request \<Rightarrow> bool" where
  "finite_request r \<longleftrightarrow>
     (case ar_intent r of None \<Rightarrow> True | Some i \<Rightarrow> list_all f64_finite (intent_floats i))"

lemma extends_entry_for: "finite_request r \<Longrightarrow> extends_log cd tlog (log_entry_for cd r i kind tlog)"
  by (auto simp: log_entry_for_def finite_request_def split: option.splits intro: extends_append_brep)

lemma gate_intent_finite:
  assumes "gate_intent cd files b r = Inr u"
  shows "finite_request r"
proof (cases "ar_intent r")
  case None
  then show ?thesis by (simp add: finite_request_def)
next
  case (Some i)
  with assms obtain feature_id where "is_ok (validate_intent cd i feature_id)"
    by (auto simp: gate_intent_def gate_common_def and_then_Inr_iff)
  then have "intent_bound i feature_id" by (auto simp: is_ok_iff intro: validate_intent_bound)
  with Some show ?thesis by (simp add: finite_request_def intent_bound_def)
qed

lemma append_history_extends:
  "append_history cd fp b event = Inr tlog \<Longrightarrow> extends_log cd (lb_log b) tlog"
  by (auto simp: append_history_def and_then_Inr_iff split: option.splits)

definition entry_sketch :: "'c log_codecs_scheme \<Rightarrow> string \<Rightarrow> log_error + sketch_payload option" where
  "entry_sketch cd kind =
     (case strip_prefix sketch_prefix kind of None \<Rightarrow> Inr None
      | Some payload \<Rightarrow>
          and_then (map_err (\<lambda>m. Invalid (''invalid sketch payload: '' @ m))
            (decode_sketch cd payload)) (\<lambda>p. Inr (Some p)))"

lemma transaction_entry_Inr:
  "transaction_entry cd r (i, kind) (g, tlog) = Inr (g', tlog') \<longleftrightarrow>
     (\<exists>sketch f changed. entry_sketch cd kind = Inr sketch \<and>
        feature_new i (if sketch \<noteq> None then ''sketch'' else snd (apply_kind kind)) = Inr f \<and>
        change_graph g (fst (apply_kind kind)) sketch f = Inr (g', changed) \<and>
        tlog' = (if changed then log_entry_for cd r i kind tlog else tlog))"
  unfolding transaction_entry_def entry_sketch_def
  by (simp add: and_then_Inr_iff case_prod_beta) (auto; blast)

lemma transaction_entry_extends:
  assumes "transaction_entry cd r entry (g, tlog) = Inr (g', tlog')" "finite_request r"
  shows "extends_log cd tlog tlog'"
proof (cases entry)
  case (Pair i kind)
  with assms(1) have "tlog' = log_entry_for cd r i kind tlog \<or> tlog' = tlog"
    by (auto simp: transaction_entry_Inr)
  with extends_entry_for [OF assms(2)] show ?thesis by auto
qed

lemma transaction_entries_extend:
  assumes "fold_ok (transaction_entry cd r) entries s = Inr s'" "finite_request r"
  shows "extends_log cd (snd s) (snd s')"
  using assms(1)
proof (rule fold_ok_invariant [where P = "\<lambda>t. extends_log cd (snd s) (snd t)"])
  fix entry t t'
  assume "extends_log cd (snd s) (snd t)" "transaction_entry cd r entry t = Inr t'"
  then show "extends_log cd (snd s) (snd t')"
    using transaction_entry_extends [of cd r entry "fst t" "snd t" "fst t'" "snd t'"] assms(2)
    by (auto intro: extends_log_trans)
qed simp

lemma append_fit_extends:
  "append_fit cd fit (g, tlog) = Inr (g', tlog') \<Longrightarrow> extends_log cd tlog tlog'"
  by (auto simp: append_fit_def split: option.splits prod.splits sum.splits if_splits)

lemma plan_append_extends:
  assumes "plan_append cd fp files b r = Inr (Some (g, tlog))"
  shows "extends_log cd (lb_log b) tlog"
proof -
  from assms have gate: "gate_intent cd files b r = Inr ()"
    and body: "transaction_body cd fp b r = Inr (g, tlog)"
    by (auto simp: plan_append_def and_then_Inr_iff split: if_splits)
  from gate have fin: "finite_request r" by (rule gate_intent_finite)
  from body obtain tlog1 g2 tlog2 where
    "append_history cd fp b (ar_history_event r) = Inr tlog1"
    "fold_ok (transaction_entry cd r) (ar_entries r) (cs_graph b, tlog1) = Inr (g2, tlog2)"
    "append_fit cd (ar_fit_dimension r) (g2, tlog2) = Inr (g, tlog)"
    by (auto simp: transaction_body_def and_then_Inr_iff)
  with append_history_extends transaction_entries_extend [OF _ fin] append_fit_extends
  have "extends_log cd (lb_log b) tlog1" "extends_log cd tlog1 tlog2" "extends_log cd tlog2 tlog"
    by fastforce+
  then show ?thesis by (blast intro: extends_log_trans)
qed

section \<open>Opening what was sealed\<close>

lemma open_sealed_facts:
  assumes "open_sealed_files cd files = Inr b"
  obtains bytes transactions where "gf_manifest files = Some bytes"
    "decode_manifest cd bytes = Inr (lb_manifest b)" "gf_log files = Some transactions"
    "decode_and_verify cd transactions = Inr (lb_log b)"
    "terminal_digest_hex (lb_log b) = mf_terminal_log_digest (lb_manifest b)"
  using assms
  by (auto simp: open_sealed_files_def and_then_Inr_iff canonical_state.defs loaded_bundle.defs)

lemma accepted_entry_finite:
  assumes "accepted_entry cd e"
  shows "finite_entry e"
proof (cases "le_intent e")
  case None
  then show ?thesis by (simp add: finite_entry_def)
next
  case (Some i)
  with assms have "validate_entry_intent cd (le_log_index e) (le_feature_id e) i = Inr ()"
    by (auto simp: accepted_entry_def validate_canonical_entry_def Let_def and_then_Inr_iff)
  then have "is_ok (validate_intent cd i (le_feature_id e))"
    by (auto simp: validate_entry_intent_def arm_operation_def and_then_Inr_iff)
  then have "intent_bound i (le_feature_id e)" by (auto simp: is_ok_iff intro: validate_intent_bound)
  with Some show ?thesis by (simp add: finite_entry_def intent_bound_def)
qed

lemma opened_log_sound:
  assumes "open_sealed_files cd files = Inr b"
  shows "sound_log cd (lb_log b)"
proof -
  from assms obtain transactions where "decode_and_verify cd transactions = Inr (lb_log b)"
    by (rule open_sealed_facts)
  then show ?thesis
    by (auto simp: sound_log_def decode_and_verify_Inr list_all_iff intro: accepted_entry_finite)
qed

text \<open>
  What is asked of the third-party code: a printed entry is a line, an entry that the parser
  returns for a printed one and that agrees with its own digest is the printed one (a number
  that comes back changed is caught by the digest).
\<close>

definition honest_codecs :: "'c bundle_codecs_scheme \<Rightarrow> bool" where
  "honest_codecs cd \<longleftrightarrow>
     (\<forall>e. finite_entry e \<longrightarrow> encode_entry cd e \<noteq> [] \<and> newline \<notin> set (encode_entry cd e)) \<and>
     (\<forall>e e'. finite_entry e \<longrightarrow> le_terminal_digest e = recomputed_digest cd e \<longrightarrow>
        decode_entry cd (encode_entry cd e) = Inr e' \<longrightarrow>
        le_terminal_digest e' = recomputed_digest cd e' \<longrightarrow> e' = e)"

lemma chained_digest: "chained cd tlog \<Longrightarrow> e \<in> set tlog \<Longrightarrow> le_terminal_digest e = recomputed_digest cd e"
  by (induction rule: chained.induct) (auto simp: linked_def)

lemma verified_copy:
  assumes "honest_codecs cd" "sound_log cd tlog" "decode_and_verify cd (encode_log cd tlog) = Inr l"
  shows "l = tlog"
proof -
  have lines: "\<forall>e\<in>set tlog. encode_entry cd e \<noteq> [] \<and> newline \<notin> set (encode_entry cd e)"
    using assms(1,2) by (auto simp: honest_codecs_def sound_log_def list_all_iff)
  then have "filter (\<lambda>l. l \<noteq> []) (split_at_char newline (encode_log cd tlog)) = map (encode_entry cd) tlog"
    by (subst split_encoded) (auto simp: filter_not_Nil)
  with assms(3) have l: "chained cd l" "map (decode_entry cd) (map (encode_entry cd) tlog) = map Inr l"
    by (simp_all add: decode_and_verify_Inr)
  show ?thesis
  proof (rule nth_equalityI)
    from l(2) show len: "length l = length tlog" by (metis length_map)
    fix k
    assume k: "k < length l"
    with l(2) len have "decode_entry cd (encode_entry cd (tlog ! k)) = Inr (l ! k)"
      by (metis length_map nth_map)
    moreover have "le_terminal_digest (l ! k) = recomputed_digest cd (l ! k)"
      using chained_digest [OF l(1)] k by simp
    moreover have "le_terminal_digest (tlog ! k) = recomputed_digest cd (tlog ! k)" "finite_entry (tlog ! k)"
      using assms(2) k len by (auto simp: sound_log_def list_all_iff intro: chained_digest)
    ultimately show "l ! k = tlog ! k" using assms(1) by (auto simp: honest_codecs_def)
  qed
qed

lemma staged_log:
  assumes "honest_codecs cd" "sound_log cd tlog"
    and "open_sealed_files cd (staged_files cd files b r g tlog) = Inr b'"
  shows "lb_log b' = tlog"
proof -
  from assms(3) obtain transactions where
    "gf_log (staged_files cd files b r g tlog) = Some transactions"
    "decode_and_verify cd transactions = Inr (lb_log b')"
    by (rule open_sealed_facts)
  then show ?thesis using verified_copy [OF assms(1,2)] by (simp add: staged_files_def)
qed

lemma append_files_extends:
  assumes "honest_codecs cd" "append_files cd fp r opened = Inr files'"
  shows "\<exists>b b' news. open_sealed_files cd (fst opened) = Inr b \<and> open_sealed_files cd files' = Inr b' \<and>
    lb_log b' = lb_log b @ news"
proof -
  from assms(2) obtain b plan where b: "open_sealed_files cd (fst opened) = Inr b"
    and plan: "plan_append cd fp (root_files opened) b r = Inr plan"
    and rest: "(case plan of None \<Rightarrow> Inr (fst opened)
      | Some (g, tlog) \<Rightarrow>
          let staged = staged_files cd (fst opened) b r g tlog in
          and_then (open_sealed_files cd staged) (\<lambda>_. Inr staged)) = Inr files'"
    by (auto simp: append_files_def and_then_Inr_iff)
  show ?thesis
  proof (cases plan)
    case None
    with b rest show ?thesis by auto
  next
    case (Some p)
    obtain g tlog where p: "p = (g, tlog)" by (cases p)
    from rest have "and_then (open_sealed_files cd (staged_files cd (fst opened) b r g tlog))
        (\<lambda>_. Inr (staged_files cd (fst opened) b r g tlog)) = Inr files'"
      by (simp add: Some p Let_def)
    then obtain b' where b': "open_sealed_files cd (staged_files cd (fst opened) b r g tlog) = Inr b'"
      and files': "files' = staged_files cd (fst opened) b r g tlog"
      unfolding and_then_Inr_iff by blast
    from plan Some p have "extends_log cd (lb_log b) tlog" by (auto intro: plan_append_extends)
    with opened_log_sound [OF b] obtain news where
      "tlog = lb_log b @ news" "sound_log cd tlog"
      by (auto simp: extends_log_def)
    moreover have "lb_log b' = tlog" by (rule staged_log [OF assms(1) calculation(2) b'])
    ultimately show ?thesis using b b' files' by blast
  qed
qed

section \<open>Durability\<close>

text \<open>A request as a command of the publication protocol.\<close>

definition append_command ::
  "'c bundle_codecs_scheme \<Rightarrow> geometry_digest \<Rightarrow> append_request \<Rightarrow> generation_files \<times> bool
     \<Rightarrow> generation_files decision" where
  "append_command cd fp r opened =
     (case open_sealed_files cd (fst opened) of
        Inl _ \<Rightarrow> Refuse
      | Inr b \<Rightarrow>
          (case plan_append cd fp (root_files opened) b r of
             Inl _ \<Rightarrow> Refuse
           | Inr None \<Rightarrow> Keep
           | Inr (Some (g, tlog)) \<Rightarrow> Replace (staged_files cd (fst opened) b r g tlog)))"

definition opens :: "'c bundle_codecs_scheme \<Rightarrow> generation_files \<Rightarrow> bool" where
  "opens cd files \<longleftrightarrow> is_ok (open_sealed_files cd files)"

definition log_of :: "'c bundle_codecs_scheme \<Rightarrow> generation_files \<Rightarrow> transaction_log" where
  "log_of cd files = (case open_sealed_files cd files of Inl _ \<Rightarrow> [] | Inr b \<Rightarrow> lb_log b)"

lemma command_extends:
  assumes "honest_codecs cd" "opens cd (fst x)"
  shows "opens cd (bundle_effect (opens cd) (append_command cd fp r) x) \<and>
    prefix (log_of cd (fst x)) (log_of cd (bundle_effect (opens cd) (append_command cd fp r) x))"
proof (cases "append_command cd fp r x")
  case (Replace files')
  from assms(2) obtain b where b: "open_sealed_files cd (fst x) = Inr b"
    by (auto simp: opens_def is_ok_iff)
  with Replace obtain g tlog where plan: "plan_append cd fp (root_files x) b r = Inr (Some (g, tlog))"
    and files': "files' = staged_files cd (fst x) b r g tlog"
    by (auto simp: append_command_def split: sum.splits option.splits prod.splits)
  show ?thesis
  proof (cases "opens cd files'")
    case True
    then obtain b' where b': "open_sealed_files cd files' = Inr b'"
      by (auto simp: opens_def is_ok_iff)
    from plan_append_extends [OF plan] opened_log_sound [OF b] obtain news where
      "tlog = lb_log b @ news" "sound_log cd tlog"
      by (auto simp: extends_log_def)
    moreover have "lb_log b' = tlog"
      by (rule staged_log [OF assms(1) calculation(2) b' [unfolded files']])
    ultimately show ?thesis
      using True Replace b b' by (simp add: bundle_effect_def log_of_def)
  next
    case False
    with Replace assms(2) show ?thesis by (simp add: bundle_effect_def)
  qed
qed (use assms in \<open>simp_all add: bundle_effect_def\<close>)

type_synonym faulty_request = "append_request \<times> fault list"

definition command_of ::
  "'c bundle_codecs_scheme \<Rightarrow> geometry_digest \<Rightarrow> faulty_request \<Rightarrow> generation_files faulty_command" where
  "command_of cd fp u = (append_command cd fp (fst u), snd u)"

lemma outcome_cases:
  "bundle_outcome r old new g \<Longrightarrow> g = old \<or> g = new"
  by (auto simp: bundle_outcome_def split: option.splits sum.splits bundle_error.splits)

lemma outcome_returned: "bundle_outcome (Some (Inr x)) old new g \<Longrightarrow> g = x"
  by (simp add: bundle_outcome_def)

lemma fst_command_of: "fst (command_of cd fp u) = append_command cd fp (fst u)"
  by (simp add: command_of_def)

lemma explained_logs:
  assumes "honest_codecs cd" "opens cd (fst x)" "length us = length rs"
    and "explained (\<lambda>u. bundle_effect (opens cd) (fst u)) bundle_step x
      (zip (map (command_of cd fp) us) rs) x'"
  shows "opens cd (fst x') \<and> prefix (log_of cd (fst x)) (log_of cd (fst x')) \<and>
    (\<forall>y. Some (Inr y) \<in> set rs \<longrightarrow> opens cd y \<and> prefix (log_of cd y) (log_of cd (fst x')))"
  using assms(3,2,4)
proof (induction us rs arbitrary: x rule: list_induct2)
  case Nil
  then show ?case by simp
next
  case (Cons u us r rs)
  let ?effect = "bundle_effect (opens cd) (append_command cd fp (fst u)) x"
  from Cons.prems(2) obtain z where "bundle_step r x ?effect z"
    and rest: "explained (\<lambda>u. bundle_effect (opens cd) (fst u)) bundle_step z
      (zip (map (command_of cd fp) us) rs) x'"
    by (auto simp: fst_command_of)
  then have z: "bundle_outcome r (fst x) ?effect (fst z)" by (simp add: bundle_step_def)
  have first: "opens cd (fst z)" "prefix (log_of cd (fst x)) (log_of cd (fst z))"
    using outcome_cases [OF z] command_extends [OF assms(1) Cons.prems(1), of fp "fst u"]
      Cons.prems(1) by auto
  note IH = Cons.IH [OF first(1) rest]
  show ?case
  proof (intro conjI allI impI)
    show "opens cd (fst x')" using IH by simp
    show "prefix (log_of cd (fst x)) (log_of cd (fst x'))"
      using IH first(2) by (auto intro: prefix_order.trans)
  next
    fix y
    assume y: "Some (Inr y) \<in> set (r # rs)"
    have "y = fst z \<or> Some (Inr y) \<in> set rs"
      using y z by (auto dest: outcome_returned)
    with IH first(1) show "opens cd y" "prefix (log_of cd y) (log_of cd (fst x'))" by auto
  qed
qed

lemma run_all_length: "run_all update us d = (d', rs) \<Longrightarrow> length rs = length us"
  by (induction us arbitrary: d d' rs) (auto split: prod.splits)

text \<open>
  C29.  Take any bundle that opens, and any series of append requests, with any of the file
  operations of each failing and the process dying anywhere.  The bundle then opens again, and its
  log begins with the log there was at the start and with the log of every generation that a
  request reported as committed: no committed entry is ever lost, altered or reordered.
\<close>

theorem committed_entries_survive:
  assumes "honest_codecs cd" and "holds (opens cd) files (dk_slots d)" and "opens cd files"
    and "run_all (append_with_faults (opens cd) fresh) (map (command_of cd fp) us) d = (d', reports)"
  shows "\<exists>files' d'' recovered.
    open_locked (opens cd) (d'\<lparr>dk_faults := []\<rparr>) = (d'', Some (Inr (files', recovered))) \<and>
    opens cd files' \<and> prefix (log_of cd files) (log_of cd files') \<and>
    (\<forall>x. Some (Inr x) \<in> set reports \<longrightarrow> opens cd x \<and> prefix (log_of cd x) (log_of cd files'))"
proof -
  have "bundle_holds (opens cd) (files, recovering (dk_slots d)) d"
    using assms(2) by (simp add: bundle_holds_def)
  from publication.run_explained [OF this assms(4)] obtain x where
    explained: "explained (\<lambda>u. bundle_effect (opens cd) (fst u)) bundle_step
      (files, recovering (dk_slots d)) (zip (map (command_of cd fp) us) reports) x"
    and holds: "bundle_holds (opens cd) x d'"
    by blast
  from run_all_length [OF assms(4)] have "length us = length reports" by simp
  note logs = explained_logs [OF assms(1) _ this explained]
  from holds obtain d'' where "open_locked (opens cd) (d'\<lparr>dk_faults := []\<rparr>) = (d'', Some (Inr x))"
    using open_without_faults [of "opens cd" x "d'\<lparr>dk_faults := []\<rparr>"] by (auto simp: reopened)
  with logs assms(3) show ?thesis by (cases x) auto
qed

section \<open>A concrete bundle\<close>

definition demo_entry :: log_entry where
  "demo_entry =
     \<lparr>le_log_index = 0, le_previous_digest = empty_log_digest, le_feature_id = ''part'',
      le_kind = ''box'', le_operation = None, le_brep_path = None, le_brep_byte_count = None,
      le_brep_sha256 = None, le_idempotency_key = Some ''k'', le_idempotency_payload = None,
      le_intent = None, le_terminal_digest = ''h{0}''\<rparr>"

definition unsealed :: "log_entry \<Rightarrow> log_entry" where
  "unsealed e = e\<lparr>le_terminal_digest := []\<rparr>"

definition manifest_after :: "(manifest \<Rightarrow> string) \<Rightarrow> (string \<Rightarrow> string + manifest) \<Rightarrow> bundle_codecs" where
  "manifest_after pretty decode =
     \<lparr>sha256_hex = (\<lambda>s. CHR ''h'' # s), evidence_json = (\<lambda>_ _ _. []),
      encode_entry = (\<lambda>e. if unsealed e = unsealed demo_entry then ''{0}'' else ''{}''),
      decode_entry = (\<lambda>s. if s = ''{0}'' then Inr demo_entry else Inl ''expected value''),
      encode_event = (\<lambda>_. []), decode_event = (\<lambda>_. Inl ''expected value''),
      encode_fit = (\<lambda>_. []), decode_fit = (\<lambda>_. Inl ''expected value''),
      decode_sketch = (\<lambda>_. Inl ''expected value''), decode_component = (\<lambda>_. Inl ''expected value''),
      parse_json = (\<lambda>_. None), features_json = concat \<circ> map fst, sketches_json = (\<lambda>_. ''s''),
      fits_json = (\<lambda>_. ''f''), manifest_json = mf_revision_hash, manifest_pretty = pretty,
      decode_manifest = decode, command_registry_identity = ''registry''\<rparr>"

definition demo_base :: bundle_codecs where
  "demo_base = manifest_after (\<lambda>_. []) (\<lambda>_. Inl ''expected value'')"

definition demo_empty_manifest :: manifest where
  "demo_empty_manifest = seal_manifest demo_base empty_log_digest ''revision-0'' [] empty_graph"

definition demo_part_manifest :: manifest where
  "demo_part_manifest =
     seal_manifest demo_base (mf_generation_id demo_empty_manifest) ''revision-0'' [demo_entry]
       (empty_graph\<lparr>fg_features := [(''part'', ''box'')]\<rparr>)"

definition demo_bundle_codecs :: bundle_codecs where
  "demo_bundle_codecs =
     manifest_after
       (\<lambda>m. if m = demo_empty_manifest then ''m0'' else if m = demo_part_manifest then ''m1'' else ''m'')
       (\<lambda>s. if s = ''m0'' then Inr demo_empty_manifest
             else if s = ''m1'' then Inr demo_part_manifest else Inl ''expected value'')"

definition demo_files :: generation_files where
  "demo_files = create_inner demo_bundle_codecs empty_log_digest ''revision-0''"

definition demo_request :: append_request where
  "demo_request =
     \<lparr>ar_entries = [(''part'', ''box'')], ar_expected_revision = None, ar_breps = [],
      ar_source_breps = [], ar_idempotency_key = Some ''k'', ar_idempotency_payload = None,
      ar_history_event = None, ar_fit_dimension = None, ar_reject_existing_brep = False,
      ar_allow_existing_sketch_update = False, ar_allow_existing_bracket_edit = False,
      ar_intent = None\<rparr>"

definition demo_fingerprint :: geometry_digest where
  "demo_fingerprint = (\<lambda>_ _ _ _. [])"

definition demo_bundle_disk :: "generation_files disk" where
  "demo_bundle_disk = \<lparr>dk_slots = (\<lambda>_. None)(Destination := Some (Whole demo_files)), dk_faults = []\<rparr>"

lemma demo_honest: "honest_codecs demo_bundle_codecs"
proof -
  have "e = demo_entry"
    if "unsealed e = unsealed demo_entry" "le_terminal_digest e = recomputed_digest demo_bundle_codecs e"
    for e
  proof (rule cleared_eq)
    from that(1) show "e\<lparr>le_terminal_digest := []\<rparr> = demo_entry\<lparr>le_terminal_digest := []\<rparr>"
      by (simp add: unsealed_def)
    from that(1) have "unsealed (e\<lparr>le_terminal_digest := []\<rparr>) = unsealed demo_entry"
      by (simp add: unsealed_def)
    with that(2) show "le_terminal_digest e = le_terminal_digest demo_entry"
      by (simp add: recomputed_digest_def demo_bundle_codecs_def manifest_after_def demo_entry_def)
  qed
  then show ?thesis
    unfolding honest_codecs_def
    by (auto simp: demo_bundle_codecs_def manifest_after_def newline_def split: if_splits)
qed

definition demo_run :: "faulty_request list" where
  "demo_run = [(demo_request, [Works, Works, Dies]), (demo_request, [])]"

lemma demo_opens: "holds (opens demo_bundle_codecs) demo_files (dk_slots demo_bundle_disk)"
  "opens demo_bundle_codecs demo_files"
proof -
  show "opens demo_bundle_codecs demo_files" by code_simp
  then show "holds (opens demo_bundle_codecs) demo_files (dk_slots demo_bundle_disk)"
    by (simp add: demo_bundle_disk_def holds_defs)
qed

lemma demo_run_reports:
  "map (map_option (map_sum id (log_of demo_bundle_codecs)))
     (snd (run_all (append_with_faults (opens demo_bundle_codecs) demo_files)
        (map (command_of demo_bundle_codecs demo_fingerprint) demo_run) demo_bundle_disk)) =
   [None, Some (Inr [demo_entry])]"
  by code_simp

lemma map_sum_Inr_iff: "map_sum id f z = Inr y \<longleftrightarrow> (\<exists>x. z = Inr x \<and> f x = y)"
  by (cases z) auto

lemma committed_entries_survive_witness:
  "\<exists>files' d'' recovered.
     open_locked (opens demo_bundle_codecs)
       (fst (run_all (append_with_faults (opens demo_bundle_codecs) demo_files)
          (map (command_of demo_bundle_codecs demo_fingerprint) demo_run) demo_bundle_disk)\<lparr>dk_faults := []\<rparr>) =
       (d'', Some (Inr (files', recovered))) \<and>
     demo_entry \<in> set (log_of demo_bundle_codecs files')"
proof -
  let ?run = "run_all (append_with_faults (opens demo_bundle_codecs) demo_files)
    (map (command_of demo_bundle_codecs demo_fingerprint) demo_run) demo_bundle_disk"
  obtain d' reports where run: "?run = (d', reports)" by (cases ?run)
  with demo_run_reports obtain x where x: "Some (Inr x) \<in> set reports"
    "log_of demo_bundle_codecs x = [demo_entry]"
    by (auto simp: map_eq_Cons_conv map_sum_Inr_iff)
  from committed_entries_survive [OF demo_honest demo_opens run] obtain files' d'' recovered where
    opened: "open_locked (opens demo_bundle_codecs) (d'\<lparr>dk_faults := []\<rparr>) =
      (d'', Some (Inr (files', recovered)))"
    and extended: "prefix (log_of demo_bundle_codecs x) (log_of demo_bundle_codecs files')"
    using x(1) by blast
  from extended x(2) have "demo_entry \<in> set (log_of demo_bundle_codecs files')"
    by (auto simp: prefix_def)
  with opened show ?thesis unfolding run by auto
qed

end
