(* ===== verification/Supervisor.thy ===== *)
theory Supervisor
  imports Protocol
begin

text \<open>
  The supervisor of one disposable worker (\<^verbatim>\<open>crates/protocol/src/supervisor.rs\<close>): the
  request lifecycle from the handshake to a terminal envelope and the cooperative cancellation.
  The trait \<^verbatim>\<open>WorkerHost\<close> is the record \<open>worker\<close>, functions over a state \<open>'h\<close> that
  also holds the clock, the cancellation flag that other threads set and the observer of progress;
  a stage (a directory of staged files) is a value \<open>'s\<close> that can be discarded.  Instants and
  durations are natural numbers of milliseconds.  The receive loops have no bound of their own: they
  are \<open>run_loop\<close>, whose value is \<open>None\<close> when it never returns.
\<close>

section \<open>Workers\<close>

datatype worker_error =
    TimedOut
  | Closed
  | ProtocolViolation string
  | StreamOverflow string nat
  | Signalled int
  | SchemaMismatchError string string
  | TerminationUnsupported
  | WorkerIo string

fun worker_error_text :: "worker_error \<Rightarrow> string" where
  "worker_error_text TimedOut = ''worker receive deadline exceeded''"
| "worker_error_text Closed = ''worker closed before delivering envelope''"
| "worker_error_text (ProtocolViolation detail) = ''worker protocol violation: '' @ detail"
| "worker_error_text (StreamOverflow stream limit) =
     ''worker '' @ stream @ '' exceeded the '' @ show_nat limit @ '' byte bound''"
| "worker_error_text (Signalled signal) = ''worker exited by signal '' @ show_int signal"
| "worker_error_text (SchemaMismatchError received expected) =
     ''worker schema mismatch: received '' @ debug_string received @ '', expected '' @
     debug_string expected"
| "worker_error_text TerminationUnsupported = ''worker transport cannot terminate and reap a process''"
| "worker_error_text (WorkerIo e) = ''worker io error: '' @ e"

record progress =
  pg_stage :: string
  pg_percent :: nat

record ('h, 's) worker =
  wk_now :: "'h \<Rightarrow> 'h \<times> nat"
  wk_cancel_flag :: "'h \<Rightarrow> 'h \<times> bool"
  wk_on_progress :: "progress \<Rightarrow> 'h \<Rightarrow> 'h"
  wk_discard :: "'s \<Rightarrow> 'h \<Rightarrow> 'h"
  wk_send :: "envelope \<Rightarrow> 'h \<Rightarrow> 'h \<times> (worker_error + unit)"
  wk_recv :: "nat \<Rightarrow> 'h \<Rightarrow> 'h \<times> (worker_error + envelope)"
  wk_cancel :: "string \<Rightarrow> string \<Rightarrow> 'h \<Rightarrow> 'h \<times> (worker_error + unit)"
  wk_terminate :: "'h \<Rightarrow> 'h \<times> (worker_error + unit)"
  wk_finish_terminal :: "'h \<Rightarrow> 'h \<times> (worker_error + unit)"
  wk_exit_signal :: "'h \<Rightarrow> 'h \<times> int option"
  wk_exit_code :: "'h \<Rightarrow> 'h \<times> int option"
  wk_stderr_tail :: "'h \<Rightarrow> 'h \<times> string"
  wk_stream_overflowed :: "'h \<Rightarrow> 'h \<times> string option"

section \<open>Requests, outcomes and records\<close>

record worker_request =
  wr_request_id :: string
  wr_command_id :: string
  wr_args :: json
  wr_revision_id :: string

record grace_policy =
  gp_default :: nat
  gp_operations :: "(string, nat) btree"

definition new_grace_policy :: "nat \<Rightarrow> grace_policy" where
  "new_grace_policy grace = \<lparr>gp_default = grace, gp_operations = []\<rparr>"

definition with_operation :: "string \<Rightarrow> nat \<Rightarrow> grace_policy \<Rightarrow> grace_policy" where
  "with_operation command grace p = p\<lparr>gp_operations := bt_insert command grace (gp_operations p)\<rparr>"

definition grace_for_operation :: "grace_policy \<Rightarrow> string \<Rightarrow> nat" where
  "grace_for_operation p command =
     (case bt_get (gp_operations p) command of None \<Rightarrow> gp_default p | Some grace \<Rightarrow> grace)"

record staged_artifact =
  sa_schema_version :: string
  sa_header :: artifact_header

datatype exit_kind = Cooperative | ForceAfterGrace

datatype protocol_diagnostic_code =
    MalformedAcknowledgement
  | MismatchedRequestId
  | AckSchemaMismatch
  | InvalidCancellationState
  | EmptyCancellationReason

record protocol_diagnostic =
  pd_code :: protocol_diagnostic_code
  pd_detail :: string

record termination_record =
  tr_request_id :: string
  tr_stage :: string
  tr_cancel_reason :: "string option"
  tr_elapsed :: nat
  tr_last_progress :: "progress option"
  tr_last_artifact_error :: "string option"
  tr_exit_signal :: "int option"
  tr_exit_code :: "int option"
  tr_stderr_tail :: string
  tr_failed_code :: "string option"
  tr_failed_detail :: "string option"
  tr_protocol_diagnostic :: "protocol_diagnostic option"
  tr_termination_error :: "string option"
  tr_exit_kind :: exit_kind

record acknowledgement =
  ak_request_id :: string
  ak_reason :: string
  ak_elapsed :: nat
  ak_last_progress :: "progress option"
  ak_stderr_tail :: string
  ak_exit_signal :: "int option"
  ak_exit_code :: "int option"

datatype supervisor_outcome =
    Completed string json "staged_artifact list"
  | Acknowledged acknowledgement
  | ForceTerminated termination_record

record termination_context =
  tc_last_progress :: "progress option"
  tc_last_artifact_error :: "string option"
  tc_failed :: "(string \<times> string) option"

section \<open>Acknowledgements\<close>

fun envelope_kind_label :: "envelope \<Rightarrow> string" where
  "envelope_kind_label (WorkerReady _ w) = ''worker_ready:'' @ w"
| "envelope_kind_label (RequestEnvelope _ r _ _ _) = ''request:'' @ r"
| "envelope_kind_label (CancelEnvelope _ r _) = ''cancel:'' @ r"
| "envelope_kind_label (ProgressEnvelope _ _ stage _) = ''progress:'' @ stage"
| "envelope_kind_label (ArtifactEnvelope _ h) = ''artifact:'' @ ah_staging_name h"
| "envelope_kind_label (CompletedEnvelope _ r _) = ''completed:'' @ r"
| "envelope_kind_label (CancelledEnvelope _ r _) = ''cancelled:'' @ r"
| "envelope_kind_label (FailedEnvelope _ r _ _) = ''failed:'' @ r"

definition schema_detail :: "string \<Rightarrow> string" where
  "schema_detail received =
     ''received='' @ debug_string received @ '' expected='' @ debug_string protocol_schema_identity"

definition validate_cancellation_ack ::
  "envelope \<Rightarrow> string \<Rightarrow> protocol_diagnostic + string \<times> string" where
  "validate_cancellation_ack v expected =
     (case v of
        CancelledEnvelope version request_id reason \<Rightarrow>
          if version \<noteq> protocol_schema_identity then
            Inl \<lparr>pd_code = AckSchemaMismatch, pd_detail = schema_detail version\<rparr>
          else if request_id \<noteq> expected then
            Inl \<lparr>pd_code = MismatchedRequestId,
                 pd_detail = ''received='' @ debug_string request_id @ '' expected='' @
                   debug_string expected\<rparr>
          else if is_blank reason then
            Inl \<lparr>pd_code = EmptyCancellationReason,
                 pd_detail = ''cancellation acknowledgement reason must not be empty''\<rparr>
          else Inr (request_id, reason)
      | _ \<Rightarrow> Inl \<lparr>pd_code = InvalidCancellationState,
                 pd_detail = ''received='' @ envelope_kind_label v @ '' expected=cancelled''\<rparr>)"

definition protocol_diagnostic_stage :: "protocol_diagnostic \<Rightarrow> string" where
  "protocol_diagnostic_stage d =
     (case pd_code d of
        MismatchedRequestId \<Rightarrow> ''protocol_violation:mismatched_request_id:'' @ pd_detail d
      | EmptyCancellationReason \<Rightarrow> ''protocol_violation:empty_cancel_reason''
      | AckSchemaMismatch \<Rightarrow> ''envelope_schema_mismatch''
      | InvalidCancellationState \<Rightarrow> ''protocol_violation:expected_cancelled_ack''
      | MalformedAcknowledgement \<Rightarrow> ''worker_recv_error:malformed_cancel_acknowledgement'')"

section \<open>The supervisor\<close>

record ('h, 's) supervisor =
  sv_request_grace :: nat
  sv_cancellation_grace :: grace_policy
  sv_host :: 'h
  sv_stage :: "'s option"
  sv_expected_worker_id :: "string option"
  sv_artifact_headers :: "staged_artifact list"
  sv_completed :: bool
  sv_last_artifact_error :: "string option"

definition new_supervisor :: "nat \<Rightarrow> 'h \<Rightarrow> 's option \<Rightarrow> ('h, 's) supervisor" where
  "new_supervisor grace host stage =
     \<lparr>sv_request_grace = grace, sv_cancellation_grace = new_grace_policy grace, sv_host = host,
      sv_stage = stage, sv_expected_worker_id = None, sv_artifact_headers = [],
      sv_completed = False, sv_last_artifact_error = None\<rparr>"

definition ask :: "('h \<Rightarrow> 'h \<times> 'a) \<Rightarrow> ('h, 's) supervisor \<Rightarrow> ('h, 's) supervisor \<times> 'a" where
  "ask f s = (case f (sv_host s) of (h, x) \<Rightarrow> (s\<lparr>sv_host := h\<rparr>, x))"

definition discard_stage :: "('h, 's) worker \<Rightarrow> ('h, 's) supervisor \<Rightarrow> ('h, 's) supervisor" where
  "discard_stage w s =
     (let s = s\<lparr>sv_artifact_headers := [], sv_completed := False\<rparr> in
      case sv_stage s of
        None \<Rightarrow> s
      | Some stage \<Rightarrow> s\<lparr>sv_stage := None, sv_host := wk_discard w stage (sv_host s)\<rparr>)"

definition take_stage :: "('h, 's) supervisor \<Rightarrow> ('h, 's) supervisor \<times> 's option" where
  "take_stage s = (if sv_completed s then (s\<lparr>sv_stage := None\<rparr>, sv_stage s) else (s, None))"

definition make_record ::
  "('h, 's) worker \<Rightarrow> ('h, 's) supervisor \<Rightarrow> string \<Rightarrow> string \<Rightarrow> nat \<Rightarrow> termination_context \<Rightarrow>
   exit_kind \<Rightarrow> ('h, 's) supervisor \<times> termination_record" where
  "make_record w s request_id stage started context kind =
     (case ask (wk_now w) s of (s, now) \<Rightarrow>
      case ask (wk_exit_signal w) s of (s, signal) \<Rightarrow>
      case ask (wk_exit_code w) s of (s, code) \<Rightarrow>
      case ask (wk_stderr_tail w) s of (s, tail) \<Rightarrow>
      (s, \<lparr>tr_request_id = request_id, tr_stage = stage, tr_cancel_reason = None,
           tr_elapsed = now - started, tr_last_progress = tc_last_progress context,
           tr_last_artifact_error = tc_last_artifact_error context, tr_exit_signal = signal,
           tr_exit_code = code, tr_stderr_tail = tail,
           tr_failed_code = map_option fst (tc_failed context),
           tr_failed_detail = map_option snd (tc_failed context),
           tr_protocol_diagnostic = None, tr_termination_error = None, tr_exit_kind = kind\<rparr>))"

text \<open>The context of a record takes the last artifact error out of the supervisor.\<close>

definition taken_context ::
  "('h, 's) supervisor \<Rightarrow> progress option \<Rightarrow> (string \<times> string) option \<Rightarrow>
   ('h, 's) supervisor \<times> termination_context" where
  "taken_context s last_progress failed =
     (s\<lparr>sv_last_artifact_error := None\<rparr>,
      \<lparr>tc_last_progress = last_progress, tc_last_artifact_error = sv_last_artifact_error s,
       tc_failed = failed\<rparr>)"

definition forced_record ::
  "('h, 's) worker \<Rightarrow> ('h, 's) supervisor \<Rightarrow> string \<Rightarrow> string \<Rightarrow> nat \<Rightarrow> progress option \<Rightarrow>
   ('h, 's) supervisor \<times> termination_record" where
  "forced_record w s request_id stage started last_progress =
     (case taken_context s last_progress None of (s, context) \<Rightarrow>
      make_record w s request_id stage started context ForceAfterGrace)"

definition force_terminate ::
  "('h, 's) worker \<Rightarrow> ('h, 's) supervisor \<Rightarrow> string \<Rightarrow> nat \<Rightarrow> string \<Rightarrow> string option \<Rightarrow>
   progress option \<Rightarrow> ('h, 's) supervisor \<times> termination_record" where
  "force_terminate w s request_id started stage detail last_progress =
     (let s = discard_stage w s;
          label = (case detail of None \<Rightarrow> stage | Some d \<Rightarrow> stage @ '':'' @ d) in
      case ask (wk_terminate w) s of (s, ended) \<Rightarrow>
      case forced_record w s request_id label started last_progress of (s, record) \<Rightarrow>
      (s, record\<lparr>tr_termination_error :=
            (case ended of Inl e \<Rightarrow> Some (worker_error_text e) | Inr _ \<Rightarrow> None)\<rparr>))"

definition force_terminate_outcome ::
  "('h, 's) worker \<Rightarrow> ('h, 's) supervisor \<Rightarrow> string \<Rightarrow> nat \<Rightarrow> string \<Rightarrow> string option \<Rightarrow>
   progress option \<Rightarrow> ('h, 's) supervisor \<times> supervisor_outcome" where
  "force_terminate_outcome w s request_id started stage detail last_progress =
     (case force_terminate w s request_id started stage detail last_progress of (s, record) \<Rightarrow>
      (s, ForceTerminated record))"

definition force_terminate_with_protocol_diagnostic ::
  "('h, 's) worker \<Rightarrow> ('h, 's) supervisor \<Rightarrow> string \<Rightarrow> nat \<Rightarrow> string \<Rightarrow> protocol_diagnostic \<Rightarrow>
   progress option \<Rightarrow> ('h, 's) supervisor \<times> supervisor_outcome" where
  "force_terminate_with_protocol_diagnostic w s request_id started stage diagnostic last_progress =
     (case force_terminate w s request_id started stage None last_progress of (s, record) \<Rightarrow>
      (s, ForceTerminated (record\<lparr>tr_protocol_diagnostic := Some diagnostic\<rparr>)))"

definition cooperative_termination_outcome ::
  "('h, 's) worker \<Rightarrow> ('h, 's) supervisor \<Rightarrow> string \<Rightarrow> string \<Rightarrow> nat \<Rightarrow> termination_context \<Rightarrow>
   ('h, 's) supervisor \<times> supervisor_outcome" where
  "cooperative_termination_outcome w s request_id stage started context =
     (case ask (wk_finish_terminal w) s of (s, finished) \<Rightarrow>
      case make_record w s request_id
          (case finished of Inl e \<Rightarrow> stage @ ''_reap_failed:'' @ worker_error_text e | Inr _ \<Rightarrow> stage)
          started context (case finished of Inl _ \<Rightarrow> ForceAfterGrace | Inr _ \<Rightarrow> Cooperative)
        of (s, record) \<Rightarrow> (s, ForceTerminated record))"

section \<open>Receive loops\<close>

text \<open>
  A loop repeats a step until the step is done; a step that never returns, or a loop that is never
  done, is \<open>None\<close>.
\<close>

partial_function (option) run_loop :: "('a \<Rightarrow> ('a + 'b) option) \<Rightarrow> 'a \<Rightarrow> 'b option" where
  [code]: "run_loop step x =
     Option.bind (step x) (\<lambda>r. case r of Inl y \<Rightarrow> run_loop step y | Inr z \<Rightarrow> Some z)"

text \<open>After a terminal envelope: wait for the stream to close and accept no further frame.\<close>

definition drain_deadline :: nat where "drain_deadline = 200"

definition drain_failed ::
  "('h, 's) worker \<Rightarrow> string \<Rightarrow> nat \<Rightarrow> string \<Rightarrow> progress option \<Rightarrow> worker_error \<Rightarrow> ('h, 's) supervisor \<Rightarrow>
   ('h, 's) supervisor \<times> supervisor_outcome option" where
  "drain_failed w request_id started prefix last_progress e s =
     (case taken_context s last_progress None of (s, context) \<Rightarrow>
      case ask (wk_stream_overflowed w) s of (s, overflow) \<Rightarrow>
      case make_record w s request_id
          (case overflow of
             Some stream \<Rightarrow> prefix @ '':stream_overflow:'' @ stream
           | None \<Rightarrow> prefix @ '':trailing_drain_failed:'' @ worker_error_text e)
          started context ForceAfterGrace of (s, record) \<Rightarrow>
      (s, Some (ForceTerminated record)))"

definition drain_step ::
  "('h, 's) worker \<Rightarrow> string \<Rightarrow> nat \<Rightarrow> string \<Rightarrow> progress option \<Rightarrow> nat \<Rightarrow> ('h, 's) supervisor \<Rightarrow>
   (('h, 's) supervisor + ('h, 's) supervisor \<times> supervisor_outcome option) option" where
  "drain_step w request_id started prefix last_progress deadline s =
     (let fail = (\<lambda>s stage.
            case forced_record w s request_id (prefix @ stage) started last_progress of (s, record) \<Rightarrow>
            Some (Inr (s, Some (ForceTerminated record)))) in
      case ask (wk_stream_overflowed w) s of
        (s, Some stream) \<Rightarrow> fail s ('':stream_overflow:'' @ stream)
      | (s, None) \<Rightarrow>
          (case ask (wk_recv w deadline) s of
             (s, Inr v) \<Rightarrow> fail s ('':trailing_envelope:'' @ envelope_kind_label v)
           | (s, Inl Closed) \<Rightarrow> Some (Inr (s, None))
           | (s, Inl (StreamOverflow stream _)) \<Rightarrow> fail s ('':stream_overflow:'' @ stream)
           | (s, Inl TimedOut) \<Rightarrow>
               (case ask (wk_now w) s of (s, now) \<Rightarrow>
                if now < deadline then Some (Inl s)
                else Some (Inr (drain_failed w request_id started prefix last_progress TimedOut s)))
           | (s, Inl e) \<Rightarrow>
               Some (Inr (drain_failed w request_id started prefix last_progress e s))))"

definition verify_no_trailing_frames ::
  "('h, 's) worker \<Rightarrow> ('h, 's) supervisor \<Rightarrow> string \<Rightarrow> nat \<Rightarrow> string \<Rightarrow> progress option \<Rightarrow>
   (('h, 's) supervisor \<times> supervisor_outcome option) option" where
  "verify_no_trailing_frames w s request_id started prefix last_progress =
     (case ask (wk_now w) s of (s, now) \<Rightarrow>
      run_loop (drain_step w request_id started prefix last_progress (now + drain_deadline)) s)"

definition verify_clean_exit ::
  "('h, 's) worker \<Rightarrow> ('h, 's) supervisor \<Rightarrow> string \<Rightarrow> nat \<Rightarrow> string \<Rightarrow> progress option \<Rightarrow>
   (('h, 's) supervisor \<times> supervisor_outcome option) option" where
  "verify_clean_exit w s request_id started prefix last_progress =
     Option.bind (verify_no_trailing_frames w s request_id started prefix last_progress)
     (\<lambda>r. case r of
        (s, Some outcome) \<Rightarrow> Some (s, Some outcome)
      | (s, None) \<Rightarrow>
          (case ask (wk_stream_overflowed w) s of
             (s, None) \<Rightarrow> Some (s, None)
           | (s, Some stream) \<Rightarrow>
               (case forced_record w s request_id (prefix @ '':stream_overflow:'' @ stream) started
                       last_progress of
                  (s, record) \<Rightarrow> Some (s, Some (ForceTerminated record)))))"

section \<open>Cancellation\<close>

text \<open>A failed terminal finalization keeps its error in the record.\<close>

definition finalize_failed ::
  "('h, 's) worker \<Rightarrow> ('h, 's) supervisor \<Rightarrow> string \<Rightarrow> string \<Rightarrow> nat \<Rightarrow> progress option \<Rightarrow> worker_error \<Rightarrow>
   ('h, 's) supervisor \<times> supervisor_outcome" where
  "finalize_failed w s request_id stage started last_progress e =
     (case forced_record w s request_id (stage @ worker_error_text e) started last_progress of
        (s, record) \<Rightarrow>
          (s, ForceTerminated (record\<lparr>tr_termination_error := Some (worker_error_text e)\<rparr>)))"

definition acknowledge_cancellation ::
  "('h, 's) worker \<Rightarrow> ('h, 's) supervisor \<Rightarrow> string \<Rightarrow> string \<Rightarrow> nat \<Rightarrow> progress option \<Rightarrow>
   (('h, 's) supervisor \<times> supervisor_outcome) option" where
  "acknowledge_cancellation w s request_id reason started last_progress =
     (case ask (wk_finish_terminal w) (discard_stage w s) of
        (s, Inl e) \<Rightarrow>
          Some (finalize_failed w s request_id ''cancel_terminal_finalize_failed:'' started
            last_progress e)
      | (s, Inr _) \<Rightarrow>
          Option.bind (verify_clean_exit w s request_id started ''cancelled_reap'' last_progress)
          (\<lambda>r. case r of
             (s, Some outcome) \<Rightarrow> Some (s, outcome)
           | (s, None) \<Rightarrow>
               (case ask (wk_now w) s of (s, now) \<Rightarrow>
                case ask (wk_stderr_tail w) s of (s, tail) \<Rightarrow>
                case ask (wk_exit_signal w) s of (s, signal) \<Rightarrow>
                case ask (wk_exit_code w) s of (s, code) \<Rightarrow>
                Some (s, Acknowledged
                  \<lparr>ak_request_id = request_id, ak_reason = reason, ak_elapsed = now - started,
                   ak_last_progress = last_progress, ak_stderr_tail = tail,
                   ak_exit_signal = signal, ak_exit_code = code\<rparr>))))"

text \<open>One envelope, or none yet, while waiting for the acknowledgement: keep waiting with the
  latest progress, or end.\<close>

definition cancel_receive ::
  "('h, 's) worker \<Rightarrow> string \<Rightarrow> nat \<Rightarrow> nat \<Rightarrow> ('h, 's) supervisor \<times> progress option \<Rightarrow>
   (('h, 's) supervisor \<times> progress option + ('h, 's) supervisor \<times> supervisor_outcome) option" where
  "cancel_receive w request_id started deadline x =
     (case x of (s, last_progress) \<Rightarrow>
      let refuse = (\<lambda>s d. Some (Inr (force_terminate_with_protocol_diagnostic w s request_id started
            (protocol_diagnostic_stage d) d last_progress)));
          misbound = (\<lambda>s r. Some (Inr (force_terminate_outcome w s request_id started
            (''protocol_violation:mismatched_request_id:'' @ r) None last_progress))) in
      case ask (wk_recv w deadline) s of
        (s, Inr v) \<Rightarrow>
          if envelope_schema_version v \<noteq> protocol_schema_identity then
            Some (Inr (force_terminate_with_protocol_diagnostic w s request_id started
              ''envelope_schema_mismatch''
              \<lparr>pd_code = AckSchemaMismatch, pd_detail = schema_detail (envelope_schema_version v)\<rparr>
              last_progress))
          else (case v of
            CancelledEnvelope _ _ _ \<Rightarrow>
              (case validate_cancellation_ack v request_id of
                 Inl d \<Rightarrow> refuse s d
               | Inr (ack_id, reason) \<Rightarrow>
                   map_option Inr (acknowledge_cancellation w s ack_id reason started last_progress))
          | ProgressEnvelope _ r stage percent \<Rightarrow>
              if r \<noteq> request_id then misbound s r
              else let progress = \<lparr>pg_stage = stage, pg_percent = percent\<rparr> in
                Some (Inl (s\<lparr>sv_host := wk_on_progress w progress (sv_host s)\<rparr>, Some progress))
          | ArtifactEnvelope _ header \<Rightarrow>
              if ah_request_id header \<noteq> request_id then misbound s (ah_request_id header)
              else Some (Inl (s, last_progress))
          | WorkerReady _ _ \<Rightarrow> Some (Inl (s, last_progress))
          | _ \<Rightarrow>
              (case validate_cancellation_ack v request_id of
                 Inl d \<Rightarrow> refuse s d | Inr _ \<Rightarrow> None))
      | (s, Inl Closed) \<Rightarrow>
          Some (Inr (force_terminate_outcome w s request_id started ''worker_closed'' None last_progress))
      | (s, Inl TimedOut) \<Rightarrow> Some (Inl (s, last_progress))
      | (s, Inl (ProtocolViolation detail)) \<Rightarrow>
          refuse s \<lparr>pd_code = MalformedAcknowledgement, pd_detail = detail\<rparr>
      | (s, Inl e) \<Rightarrow>
          Some (Inr (force_terminate_outcome w s request_id started ''worker_recv_error''
            (Some (worker_error_text e)) last_progress)))"

definition cancel_step ::
  "('h, 's) worker \<Rightarrow> string \<Rightarrow> nat \<Rightarrow> nat \<Rightarrow> ('h, 's) supervisor \<times> progress option \<Rightarrow>
   (('h, 's) supervisor \<times> progress option + ('h, 's) supervisor \<times> supervisor_outcome) option" where
  "cancel_step w request_id started deadline x =
     Option.bind (cancel_receive w request_id started deadline x)
     (\<lambda>r. case r of
        Inr z \<Rightarrow> Some (Inr z)
      | Inl (s, last_progress) \<Rightarrow>
          (case ask (wk_now w) s of (s, now) \<Rightarrow>
           if deadline \<le> now then
             Some (Inr (force_terminate_outcome w s request_id started ''cancel_grace_exceeded'' None
               last_progress))
           else Some (Inl (s, last_progress))))"

definition cancel_with_deadline ::
  "('h, 's) worker \<Rightarrow> ('h, 's) supervisor \<Rightarrow> string \<Rightarrow> string \<Rightarrow> nat \<Rightarrow> nat \<Rightarrow> progress option \<Rightarrow>
   (('h, 's) supervisor \<times> supervisor_outcome) option" where
  "cancel_with_deadline w s request_id reason started deadline last_progress =
     (case ask (wk_now w) s of (s, now) \<Rightarrow>
      if deadline \<le> now then
        Some (force_terminate_outcome w s request_id started ''cancel_grace_exceeded'' None last_progress)
      else case ask (wk_cancel w request_id reason) s of
        (s, Inl e) \<Rightarrow>
          Some (force_terminate_outcome w s request_id started ''host_cancel_failed''
            (Some (worker_error_text e)) last_progress)
      | (s, Inr _) \<Rightarrow>
          run_loop (cancel_step w request_id started deadline) (s, last_progress))"

text \<open>Cancelling without a request in progress has no observer of progress.\<close>

definition cancel_worker ::
  "('h, 's) worker \<Rightarrow> ('h, 's) supervisor \<Rightarrow> string \<Rightarrow> string \<Rightarrow>
   (('h, 's) supervisor \<times> supervisor_outcome) option" where
  "cancel_worker w s request_id reason =
     (case ask (wk_now w) s of (s, started) \<Rightarrow>
      cancel_with_deadline (w\<lparr>wk_on_progress := \<lambda>_ h. h\<rparr>) s request_id reason started
        (started + gp_default (sv_cancellation_grace s)) None)"

section \<open>Requests\<close>

definition record_artifact ::
  "string \<Rightarrow> artifact_header \<Rightarrow> ('h, 's) supervisor \<Rightarrow> ('h, 's) supervisor" where
  "record_artifact version header s =
     s\<lparr>sv_artifact_headers := sv_artifact_headers s @
         [\<lparr>sa_schema_version = version, sa_header = header\<rparr>]\<rparr>"

definition complete_with_artifact_facts ::
  "('h, 's) worker \<Rightarrow> ('h, 's) supervisor \<Rightarrow> string \<Rightarrow> json \<Rightarrow> worker_request \<Rightarrow> nat \<Rightarrow>
   progress option \<Rightarrow> (('h, 's) supervisor \<times> supervisor_outcome) option" where
  "complete_with_artifact_facts w s request_id result req started last_progress =
     (if request_id \<noteq> wr_request_id req then
        let s = discard_stage w (s\<lparr>sv_last_artifact_error := Some ''completed_request_id_mismatch''\<rparr>) in
        case taken_context s last_progress None of (s, context) \<Rightarrow>
        Some (cooperative_termination_outcome w s (wr_request_id req)
          ''protocol_violation:completed_request_id_mismatch'' started context)
      else case ask (wk_finish_terminal w) s of
        (s, Inl e) \<Rightarrow>
          Some (finalize_failed w (discard_stage w s) request_id ''completed_terminal_finalize_failed:''
            started last_progress e)
      | (s, Inr _) \<Rightarrow>
          Option.bind (verify_clean_exit w s request_id started ''completed_reap'' last_progress)
          (\<lambda>r. case r of
             (s, Some outcome) \<Rightarrow> Some (discard_stage w s, outcome)
           | (s, None) \<Rightarrow>
               Some (s\<lparr>sv_completed := True, sv_artifact_headers := []\<rparr>,
                     Completed request_id result (sv_artifact_headers s))))"

definition violation_progress :: "string \<Rightarrow> progress option" where
  "violation_progress stage = Some \<lparr>pg_stage = stage, pg_percent = 0\<rparr>"

definition receive_request_envelope ::
  "('h, 's) worker \<Rightarrow> worker_request \<Rightarrow> nat \<Rightarrow> nat \<Rightarrow> ('h, 's) supervisor \<times> progress option \<Rightarrow>
   (('h, 's) supervisor \<times> progress option + ('h, 's) supervisor \<times> supervisor_outcome) option" where
  "receive_request_envelope w req started deadline x =
     (case x of (s, last_progress) \<Rightarrow>
      let request_id = wr_request_id req;
          stop = (\<lambda>s stage detail progress. Some (Inr (force_terminate_outcome w s request_id started
                    stage detail progress)));
          misbound = (\<lambda>s r. let stage = ''protocol_violation:mismatched_request_id:'' @ r in
                    stop s stage None (violation_progress stage)) in
      case ask (wk_recv w deadline) s of
        (s, Inr v) \<Rightarrow>
          if envelope_schema_version v \<noteq> protocol_schema_identity then
            stop s ''envelope_schema_mismatch'' (Some (schema_detail (envelope_schema_version v))) None
          else (case v of
            ProgressEnvelope _ r stage percent \<Rightarrow>
              if r \<noteq> request_id then misbound s r
              else let progress = \<lparr>pg_stage = stage, pg_percent = percent\<rparr> in
                Some (Inl (s\<lparr>sv_host := wk_on_progress w progress (sv_host s)\<rparr>, Some progress))
          | ArtifactEnvelope version header \<Rightarrow>
              if ah_request_id header \<noteq> request_id then misbound s (ah_request_id header)
              else Some (Inl (record_artifact version header s, last_progress))
          | CancelledEnvelope _ r _ \<Rightarrow>
              stop s (''protocol_violation:unsolicited_cancelled:'' @ r) None None
          | CompletedEnvelope _ r result \<Rightarrow>
              map_option Inr (complete_with_artifact_facts w s r result req started last_progress)
          | FailedEnvelope _ r code detail \<Rightarrow>
              if r \<noteq> request_id then misbound s r
              else (case taken_context (discard_stage w s) last_progress (Some (code, detail)) of
                (s, context) \<Rightarrow>
                  Some (Inr (cooperative_termination_outcome w s r
                    (''failed:'' @ code @ '':'' @ detail) started context)))
          | WorkerReady _ worker_id \<Rightarrow>
              Some (Inl (s, Some \<lparr>pg_stage = ''unexpected_worker_ready:'' @ worker_id, pg_percent = 0\<rparr>))
          | _ \<Rightarrow> stop s ''protocol_violation:worker_sent_host_only_envelope'' None None)
      | (s, Inl Closed) \<Rightarrow> stop s ''worker_closed'' None last_progress
      | (s, Inl TimedOut) \<Rightarrow> Some (Inl (s, last_progress))
      | (s, Inl e) \<Rightarrow> stop s ''worker_recv_error'' (Some (worker_error_text e)) last_progress)"

definition request_step ::
  "('h, 's) worker \<Rightarrow> worker_request \<Rightarrow> nat \<Rightarrow> nat \<Rightarrow> ('h, 's) supervisor \<times> progress option \<Rightarrow>
   (('h, 's) supervisor \<times> progress option + ('h, 's) supervisor \<times> supervisor_outcome) option" where
  "request_step w req started deadline x =
     (case x of (s, last_progress) \<Rightarrow>
      case ask (wk_cancel_flag w) s of
        (s, True) \<Rightarrow>
          (case ask (wk_now w) s of (s, now) \<Rightarrow>
           map_option Inr (cancel_with_deadline w s (wr_request_id req) ''cancelled by host'' started
             (now + grace_for_operation (sv_cancellation_grace s) (wr_command_id req)) last_progress))
      | (s, False) \<Rightarrow>
          Option.bind (receive_request_envelope w req started deadline (s, last_progress))
          (\<lambda>r. case r of
             Inr z \<Rightarrow> Some (Inr z)
           | Inl (s, last_progress) \<Rightarrow>
               (case ask (wk_now w) s of (s, now) \<Rightarrow>
                if deadline \<le> now then
                  Some (Inr (force_terminate_outcome w s (wr_request_id req) started ''grace_exceeded''
                    None last_progress))
                else Some (Inl (s, last_progress)))))"

text \<open>The handshake: wait for the first envelope and check it.\<close>

definition handshake_step ::
  "('h, 's) worker \<Rightarrow> string \<Rightarrow> nat \<Rightarrow> nat \<Rightarrow> ('h, 's) supervisor \<Rightarrow>
   (('h, 's) supervisor + ('h, 's) supervisor \<times> (supervisor_outcome + envelope)) option" where
  "handshake_step w request_id started deadline s =
     (let stop = (\<lambda>s stage detail.
            case force_terminate_outcome w s request_id started stage detail None of (s, outcome) \<Rightarrow>
            Some (Inr (s, Inl outcome))) in
      case ask (wk_now w) s of (s, now) \<Rightarrow>
      if deadline \<le> now then stop s ''handshake_grace_exceeded'' None
      else case ask (wk_recv w deadline) s of
        (s, Inr v) \<Rightarrow> Some (Inr (s, Inr v))
      | (s, Inl Closed) \<Rightarrow> stop s ''handshake_worker_closed'' None
      | (s, Inl TimedOut) \<Rightarrow> Some (Inl s)
      | (s, Inl e) \<Rightarrow> stop s ''handshake_worker_recv_error'' (Some (worker_error_text e)))"

definition consume_worker_ready ::
  "('h, 's) worker \<Rightarrow> ('h, 's) supervisor \<Rightarrow> string \<Rightarrow> nat \<Rightarrow> nat \<Rightarrow>
   (('h, 's) supervisor \<times> supervisor_outcome option) option" where
  "consume_worker_ready w s request_id started deadline =
     Option.bind (run_loop (handshake_step w request_id started deadline) s)
     (\<lambda>r. let stop = (\<lambda>s stage detail.
            case force_terminate_outcome w s request_id started stage (Some detail) None of
              (s, outcome) \<Rightarrow> Some (s, Some outcome)) in
      case r of
        (s, Inl outcome) \<Rightarrow> Some (s, Some outcome)
      | (s, Inr (WorkerReady version worker_id)) \<Rightarrow>
          if version \<noteq> protocol_schema_identity then
            stop s ''handshake_schema_mismatch'' (schema_detail version)
          else (case sv_expected_worker_id s of
             None \<Rightarrow> Some (s, None)
           | Some expected \<Rightarrow>
               if worker_id \<noteq> expected then
                 stop s ''handshake_worker_id_mismatch''
                   (''received='' @ debug_string worker_id @ '' expected='' @ debug_string expected)
               else Some (s, None))
      | (s, Inr v) \<Rightarrow> stop s ''handshake_unexpected_envelope'' (envelope_kind_label v))"

definition request_envelope :: "worker_request \<Rightarrow> envelope" where
  "request_envelope req =
     RequestEnvelope protocol_schema_identity (wr_request_id req) (wr_command_id req) (wr_args req)
       (wr_revision_id req)"

definition request_with_cancel_and_progress ::
  "('h, 's) worker \<Rightarrow> ('h, 's) supervisor \<Rightarrow> worker_request \<Rightarrow>
   (('h, 's) supervisor \<times> supervisor_outcome) option" where
  "request_with_cancel_and_progress w s req =
     (case ask (wk_now w) s of (s, started) \<Rightarrow>
      let deadline = started + sv_request_grace s; request_id = wr_request_id req in
      Option.bind (consume_worker_ready w s request_id started deadline)
      (\<lambda>r. case r of
         (s, Some outcome) \<Rightarrow> Some (s, outcome)
       | (s, None) \<Rightarrow>
           (case ask (wk_now w) s of (s, now) \<Rightarrow>
            if deadline \<le> now then
              Some (force_terminate_outcome w s request_id started ''handshake_grace_exceeded'' None None)
            else case ask (wk_send w (request_envelope req)) s of
              (s, Inl e) \<Rightarrow>
                Some (force_terminate_outcome w s request_id started ''host_send_failed''
                  (Some (worker_error_text e)) None)
            | (s, Inr _) \<Rightarrow>
                run_loop (request_step w req started deadline) (s, None))))"

end
