(* ===== verification/Transport.thy ===== *)
theory Transport
  imports Supervisor
begin

text \<open>
  The transport of frames (\<^verbatim>\<open>FramedWorkerHost\<close> in
  \<^verbatim>\<open>crates/protocol/src/worker.rs\<close>) over two byte channels.  The channels are the
  environment: chunks with the time they arrive, the time the sender goes away, and how much time
  passes at successive reads of the clock.
\<close>

section \<open>Channels\<close>

record channels =
  ch_clock :: nat
  ch_ticks :: "nat list"
  ch_inbound :: "(nat \<times> string) list"
  ch_closed :: "nat option"
  ch_outbound :: "string list"
  ch_listening :: bool
  ch_cancelled :: "nat option"

definition read_clock :: "channels \<Rightarrow> channels \<times> nat" where
  "read_clock c =
     (case ch_ticks c of
        [] \<Rightarrow> (c, ch_clock c)
      | t # ts \<Rightarrow> (c\<lparr>ch_clock := ch_clock c + t, ch_ticks := ts\<rparr>, ch_clock c + t))"

datatype chunk_error = ChunkTimeout | ChunkDisconnected

text \<open>
  \<^verbatim>\<open>recv_timeout\<close>; with no time left it is \<^verbatim>\<open>try_recv\<close>.  A channel is
  disconnected only when it is empty.
\<close>

definition recv_chunk :: "nat \<Rightarrow> channels \<Rightarrow> channels \<times> (chunk_error + string)" where
  "recv_chunk remaining c =
     (let limit = ch_clock c + remaining in
      case ch_inbound c of
        (arrival, bytes) # rest \<Rightarrow>
          if arrival \<le> limit
          then (c\<lparr>ch_clock := max (ch_clock c) arrival, ch_inbound := rest\<rparr>, Inr bytes)
          else (c\<lparr>ch_clock := limit\<rparr>, Inl ChunkTimeout)
      | [] \<Rightarrow>
          (case ch_closed c of
             None \<Rightarrow> (c\<lparr>ch_clock := limit\<rparr>, Inl ChunkTimeout)
           | Some t \<Rightarrow>
               if t \<le> limit then (c\<lparr>ch_clock := max (ch_clock c) t\<rparr>, Inl ChunkDisconnected)
               else (c\<lparr>ch_clock := limit\<rparr>, Inl ChunkTimeout)))"

section \<open>The host\<close>

record framed_host =
  fw_channels :: channels
  fw_parser :: frame_parser
  fw_pending :: "envelope list"

definition new_framed_host :: "channels \<Rightarrow> framed_host" where
  "new_framed_host c = \<lparr>fw_channels = c, fw_parser = new_frame_parser, fw_pending = []\<rparr>"

definition framed_send :: "frame_codecs \<Rightarrow> envelope \<Rightarrow> framed_host \<Rightarrow> framed_host \<times> (worker_error + unit)" where
  "framed_send cd v h =
     (case encode_frame cd v of
        None \<Rightarrow> (h, Inl (ProtocolViolation ''encode_frame failed: frame bound exceeded''))
      | Some frame \<Rightarrow>
          if max_frame_buffer < length frame then
            (h, Inl (ProtocolViolation (''host frame of '' @ show_nat (length frame) @
               '' bytes exceeds the '' @ show_nat max_frame_buffer @ '' byte bound'')))
          else let c = fw_channels h in
            if ch_listening c then (h\<lparr>fw_channels := c\<lparr>ch_outbound := ch_outbound c @ [frame]\<rparr>\<rparr>, Inr ())
            else (h, Inl Closed))"

lemma recv_chunk_shorter:
  "recv_chunk remaining c = (c', Inr bytes) \<Longrightarrow> length (ch_inbound c') < length (ch_inbound c)"
  by (auto simp: recv_chunk_def Let_def split: list.splits option.splits if_splits)

lemma read_clock_inbound: "read_clock c = (c', now) \<Longrightarrow> ch_inbound c' = ch_inbound c"
  by (auto simp: read_clock_def split: list.splits)

function framed_recv ::
  "frame_codecs \<Rightarrow> nat \<Rightarrow> framed_host \<Rightarrow> framed_host \<times> (worker_error + envelope)" where
  "framed_recv cd deadline h =
     (case read_clock (fw_channels h) of (c, now) \<Rightarrow>
      if deadline \<le> now then (h\<lparr>fw_channels := c\<rparr>, Inl TimedOut)
      else case fw_pending h of
        v # vs \<Rightarrow> (h\<lparr>fw_channels := c, fw_pending := vs\<rparr>, Inr v)
      | [] \<Rightarrow>
          (case read_clock c of (c, now) \<Rightarrow>
           case recv_chunk (deadline - now) c of
             (c, Inl ChunkTimeout) \<Rightarrow> (h\<lparr>fw_channels := c\<rparr>, Inl TimedOut)
           | (c, Inl ChunkDisconnected) \<Rightarrow> (h\<lparr>fw_channels := c\<rparr>, Inl Closed)
           | (c, Inr bytes) \<Rightarrow>
               (case push_bytes cd bytes (fw_parser h) of
                  (p, Inl e) \<Rightarrow>
                    (h\<lparr>fw_channels := c, fw_parser := p\<rparr>, Inl (ProtocolViolation (frame_error_text e)))
                | (p, Inr vs) \<Rightarrow>
                    framed_recv cd deadline (h\<lparr>fw_channels := c, fw_parser := p, fw_pending := vs\<rparr>))))"
  by auto
termination
  by (relation "measure (\<lambda>(cd, deadline, h). length (ch_inbound (fw_channels h)))")
    (auto dest!: sym [THEN recv_chunk_shorter] sym [THEN read_clock_inbound])

declare framed_recv.simps [simp del]

definition framed_cancel ::
  "frame_codecs \<Rightarrow> string \<Rightarrow> string \<Rightarrow> framed_host \<Rightarrow> framed_host \<times> (worker_error + unit)" where
  "framed_cancel cd request_id reason =
     framed_send cd (CancelEnvelope protocol_schema_identity request_id reason)"

definition framed_now :: "framed_host \<Rightarrow> framed_host \<times> nat" where
  "framed_now h = (case read_clock (fw_channels h) of (c, now) \<Rightarrow> (h\<lparr>fw_channels := c\<rparr>, now))"

definition framed_cancel_flag :: "framed_host \<Rightarrow> framed_host \<times> bool" where
  "framed_cancel_flag h =
     (h, case ch_cancelled (fw_channels h) of None \<Rightarrow> False | Some t \<Rightarrow> t \<le> ch_clock (fw_channels h))"

text \<open>The operations that the transport does not define are those of the trait.\<close>

definition framed_worker :: "frame_codecs \<Rightarrow> (framed_host, 's) worker" where
  "framed_worker cd =
     \<lparr>wk_now = framed_now, wk_cancel_flag = framed_cancel_flag, wk_on_progress = (\<lambda>_ h. h),
      wk_discard = (\<lambda>_ h. h), wk_send = framed_send cd, wk_recv = framed_recv cd,
      wk_cancel = framed_cancel cd, wk_terminate = (\<lambda>h. (h, Inl TerminationUnsupported)),
      wk_finish_terminal = (\<lambda>h. (h, Inr ())), wk_exit_signal = (\<lambda>h. (h, None)),
      wk_exit_code = (\<lambda>h. (h, None)), wk_stderr_tail = (\<lambda>h. (h, [])),
      wk_stream_overflowed = (\<lambda>h. (h, None))\<rparr>"

end
