(* ===== verification/SupervisorProps.thy ===== *)
theory SupervisorProps
  imports Supervisor
begin

text \<open>
  What a request to a worker can end in.  The runs are those of a recorded worker, which behaves as
  the worker it wraps and keeps the list of what was received, sent, terminated and discarded, with
  the answers on which the supervisor relies: \<open>Sent\<close> is an envelope that was accepted,
  \<open>Reaped\<close> a terminal finalization that succeeded, \<open>StreamClosed\<close> a receive that
  found the stream at its end, \<open>WithinBounds\<close> an overflow check that found none.
\<close>

section \<open>Loops\<close>

lemma run_loop_result:
  assumes "run_loop step x = Some z" and "I x"
    and "\<And>x y. I x \<Longrightarrow> step x = Some (Inl y) \<Longrightarrow> I y"
    and "\<And>x z. I x \<Longrightarrow> step x = Some (Inr z) \<Longrightarrow> Q z"
  shows "Q z"
proof -
  have "(case (step, x) of (step', x) \<Rightarrow> \<lambda>z. step' = step \<longrightarrow> I x \<longrightarrow> Q z) z"
  proof (rule run_loop.raw_induct
      [where P = "\<lambda>step' x z. step' = step \<longrightarrow> I x \<longrightarrow> Q z" and xa = "(step, x)" and y = z])
    fix loop step' x z
    assume IH: "\<And>step' x z. loop step' x = Some z \<Longrightarrow> step' = step \<longrightarrow> I x \<longrightarrow> Q z"
      and body: "Option.bind (step' x) (\<lambda>r. case r of Inl y \<Rightarrow> loop step' y | Inr z \<Rightarrow> Some z) = Some z"
    show "step' = step \<longrightarrow> I x \<longrightarrow> Q z"
    proof (intro impI)
      assume "step' = step" "I x"
      with body obtain r where
        "step x = Some r" "(case r of Inl y \<Rightarrow> loop step y | Inr z \<Rightarrow> Some z) = Some z"
        by (auto simp: Option.bind_eq_Some_conv)
      with IH \<open>I x\<close> assms(3,4) show "Q z" by (cases r) auto
    qed
  qed (simp add: assms(1))
  with assms(2) show ?thesis by simp
qed

lemma run_loop_returns:
  assumes "I x" and "\<And>x. I x \<Longrightarrow> \<exists>r. step x = Some r \<and> (\<forall>y. r = Inl y \<longrightarrow> I y \<and> m y < (m x :: nat))"
  shows "\<exists>z. run_loop step x = Some z"
  using assms(1)
proof (induction "m x" arbitrary: x rule: less_induct)
  case less
  from assms(2) [OF less.prems] obtain r where
    r: "step x = Some r" "\<forall>y. r = Inl y \<longrightarrow> I y \<and> m y < m x" by blast
  show ?case
  proof (cases r)
    case (Inl y)
    with r less.hyps [of y] show ?thesis by (simp add: run_loop.simps)
  next
    case (Inr z)
    with r show ?thesis by (simp add: run_loop.simps)
  qed
qed

section \<open>Recording a worker\<close>

text \<open>
  The trace notes what the supervisor asked of the worker and how it was answered: an accepted send
  apart from a refused one, a finalization apart from one that succeeded (the worker is then
  reaped), the end of the worker's stream, and each answer that its output stayed within bounds.
\<close>

datatype 's worker_event =
    Received envelope
  | Sent envelope
  | CancelSent string string
  | EndRequested
  | NotSent envelope
  | Reaped
  | StreamClosed
  | WithinBounds
  | StageDiscarded 's

fun sent_events :: "envelope \<Rightarrow> worker_error + unit \<Rightarrow> 's worker_event list" where
  "sent_events v (Inr _) = [Sent v]"
| "sent_events v (Inl _) = [NotSent v]"

fun received_events :: "worker_error + envelope \<Rightarrow> 's worker_event list" where
  "received_events (Inr v) = [Received v]"
| "received_events (Inl e) = (if e = Closed then [StreamClosed] else [])"

fun finished_events :: "worker_error + unit \<Rightarrow> 's worker_event list" where
  "finished_events (Inr _) = [EndRequested, Reaped]"
| "finished_events (Inl _) = [EndRequested]"

fun overflow_events :: "string option \<Rightarrow> 's worker_event list" where
  "overflow_events None = [WithinBounds]"
| "overflow_events (Some _) = []"

definition noted :: "('a \<Rightarrow> 'e list) \<Rightarrow> ('h \<Rightarrow> 'h \<times> 'a) \<Rightarrow> 'h \<times> 'e list \<Rightarrow> ('h \<times> 'e list) \<times> 'a" where
  "noted events f x = (case f (fst x) of (h, r) \<Rightarrow> ((h, snd x @ events r), r))"

definition recorded :: "('h, 's) worker \<Rightarrow> ('h \<times> 's worker_event list, 's) worker" where
  "recorded w =
     \<lparr>wk_now = noted (\<lambda>_. []) (wk_now w), wk_cancel_flag = noted (\<lambda>_. []) (wk_cancel_flag w),
      wk_on_progress = (\<lambda>p (h, t). (wk_on_progress w p h, t)),
      wk_discard = (\<lambda>stage (h, t). (wk_discard w stage h, t @ [StageDiscarded stage])),
      wk_send = (\<lambda>v. noted (sent_events v) (wk_send w v)),
      wk_recv = (\<lambda>d. noted received_events (wk_recv w d)),
      wk_cancel = (\<lambda>i r. noted (\<lambda>_. [CancelSent i r]) (wk_cancel w i r)),
      wk_terminate = noted (\<lambda>_. [EndRequested]) (wk_terminate w),
      wk_finish_terminal = noted finished_events (wk_finish_terminal w),
      wk_exit_signal = noted (\<lambda>_. []) (wk_exit_signal w),
      wk_exit_code = noted (\<lambda>_. []) (wk_exit_code w),
      wk_stderr_tail = noted (\<lambda>_. []) (wk_stderr_tail w),
      wk_stream_overflowed = noted overflow_events (wk_stream_overflowed w)\<rparr>"

type_synonym ('h, 's) recording = "('h \<times> 's worker_event list, 's) supervisor"

definition trace :: "('h, 's) recording \<Rightarrow> 's worker_event list" where
  "trace s = snd (sv_host s)"

text \<open>Only the host, the trace and the last artifact error change.\<close>

definition moved :: "'s worker_event list \<Rightarrow> ('h, 's) recording \<Rightarrow> ('h, 's) recording \<Rightarrow> bool" where
  "moved events s s' \<longleftrightarrow>
     (\<exists>h e. s' = s\<lparr>sv_host := (h, trace s @ events), sv_last_artifact_error := e\<rparr>)"

lemma moved_refl [intro]: "moved [] s s"
proof -
  have "s = s\<lparr>sv_host := (fst (sv_host s), trace s @ []), sv_last_artifact_error := sv_last_artifact_error s\<rparr>"
    by (simp add: trace_def)
  then show ?thesis unfolding moved_def by blast
qed

lemma moved_trans: "moved a s t \<Longrightarrow> moved b t u \<Longrightarrow> moved (a @ b) s u"
proof -
  assume "moved a s t" "moved b t u"
  then obtain h e where "u = s\<lparr>sv_host := (h, trace s @ (a @ b)), sv_last_artifact_error := e\<rparr>"
    by (auto simp: moved_def trace_def)
  then show ?thesis unfolding moved_def by blast
qed

lemma moved_quiet: "moved a s t \<Longrightarrow> moved [] t u \<Longrightarrow> moved a s u"
  using moved_trans [of a s t "[]" u] by simp

lemma moved_fields:
  assumes "moved events s s'"
  shows "sv_stage s' = sv_stage s" "sv_artifact_headers s' = sv_artifact_headers s"
    "sv_completed s' = sv_completed s" "sv_expected_worker_id s' = sv_expected_worker_id s"
    "trace s' = trace s @ events"
  using assms by (auto simp: moved_def trace_def)

lemma ask_noted: "ask (noted events f) s = (s', r) \<Longrightarrow> moved (events r) s s'"
  unfolding moved_def
  by (rule exI [of _ "fst (sv_host s')"], rule exI [of _ "sv_last_artifact_error s'"])
     (auto simp: ask_def noted_def trace_def split: prod.splits)

lemma recorded_asks:
  "ask (wk_now (recorded w)) s = (s', now) \<Longrightarrow> moved [] s s'"
  "ask (wk_cancel_flag (recorded w)) s = (s', flag) \<Longrightarrow> moved [] s s'"
  "ask (wk_exit_signal (recorded w)) s = (s', signal) \<Longrightarrow> moved [] s s'"
  "ask (wk_exit_code (recorded w)) s = (s', code) \<Longrightarrow> moved [] s s'"
  "ask (wk_stderr_tail (recorded w)) s = (s', tail) \<Longrightarrow> moved [] s s'"
  "ask (wk_stream_overflowed (recorded w)) s = (s', overflow) \<Longrightarrow> moved (overflow_events overflow) s s'"
  "ask (wk_send (recorded w) v) s = (s', sent) \<Longrightarrow> moved (sent_events v sent) s s'"
  "ask (wk_cancel (recorded w) i reason) s = (s', sent) \<Longrightarrow> moved [CancelSent i reason] s s'"
  "ask (wk_terminate (recorded w)) s = (s', ended) \<Longrightarrow> moved [EndRequested] s s'"
  "ask (wk_finish_terminal (recorded w)) s = (s', ended) \<Longrightarrow> moved (finished_events ended) s s'"
  "ask (wk_recv (recorded w) d) s = (s', Inr v) \<Longrightarrow> moved [Received v] s s'"
  "ask (wk_recv (recorded w) d) s = (s', Inl e) \<Longrightarrow> moved (received_events (Inl e)) s s'"
  by (simp_all split del: if_split add: recorded_def del: received_events.simps)
    ((drule ask_noted, simp)+)

lemma observed: "moved [] s (s\<lparr>sv_host := wk_on_progress (recorded w) p (sv_host s)\<rparr>)"
proof -
  have "s\<lparr>sv_host := wk_on_progress (recorded w) p (sv_host s)\<rparr> =
      s\<lparr>sv_host := (wk_on_progress w p (fst (sv_host s)), trace s @ []),
        sv_last_artifact_error := sv_last_artifact_error s\<rparr>"
    by (cases "sv_host s") (simp add: recorded_def trace_def)
  then show ?thesis unfolding moved_def by blast
qed

lemma taken_context_moved: "taken_context s p f = (s', c) \<Longrightarrow> moved [] s s'"
  by (auto simp: taken_context_def moved_def trace_def intro!: exI [of _ "fst (sv_host s)"])

lemma make_record_moved:
  assumes "make_record (recorded w) s i stage started c kind = (s', rc)"
  shows "moved [] s s'" "tr_request_id rc = i"
proof -
  from assms obtain s1 s2 s3 now signal code tail where
    "ask (wk_now (recorded w)) s = (s1, now)" "ask (wk_exit_signal (recorded w)) s1 = (s2, signal)"
    "ask (wk_exit_code (recorded w)) s2 = (s3, code)" "ask (wk_stderr_tail (recorded w)) s3 = (s', tail)"
    and "tr_request_id rc = i"
    by (auto simp: make_record_def split: prod.splits)
  then show "moved [] s s'" "tr_request_id rc = i"
    by (blast intro: moved_quiet dest: recorded_asks)+
qed

lemma forced_record_moved:
  assumes "forced_record (recorded w) s i stage started p = (s', rc)"
  shows "moved [] s s'" "tr_request_id rc = i"
  using assms
  by (auto simp: forced_record_def split: prod.splits
      dest: make_record_moved taken_context_moved intro: moved_quiet)

section \<open>Stages\<close>

fun discards :: "'s worker_event list \<Rightarrow> 's list" where
  "discards [] = []"
| "discards (StageDiscarded stage # es) = stage # discards es"
| "discards (e # es) = discards es"

lemma discards_append: "discards (xs @ ys) = discards xs @ discards ys"
  by (induction xs rule: discards.induct) auto

lemma discards_answers [simp]:
  "discards (received_events (Inl e)) = []" "discards (sent_events v sent) = []"
  "discards (finished_events ended) = []" "discards (overflow_events overflow) = []"
  "discards (replicate n WithinBounds) = []"
  by (simp, (cases sent; simp), (cases ended; simp), (cases overflow; simp), (induction n; simp))

definition held :: "'s option \<Rightarrow> ('h, 's) recording \<Rightarrow> bool" where
  "held stage s \<longleftrightarrow> sv_stage s = stage \<and> \<not> sv_completed s \<and> discards (trace s) = []"

definition gone :: "'s option \<Rightarrow> ('h, 's) recording \<Rightarrow> bool" where
  "gone stage s \<longleftrightarrow> sv_stage s = None \<and> sv_artifact_headers s = [] \<and> \<not> sv_completed s \<and>
     discards (trace s) = (case stage of None \<Rightarrow> [] | Some st \<Rightarrow> [st])"

lemma stage_moved:
  assumes "moved events s s'" "discards events = []"
  shows "held stage s \<Longrightarrow> held stage s'" "gone stage s \<Longrightarrow> gone stage s'"
  using moved_fields [OF assms(1)] assms(2) by (auto simp: held_def gone_def discards_append)

lemma discard_stage_gone:
  assumes "held stage s \<or> gone stage s"
  shows "gone stage (discard_stage (recorded w) s)"
  using assms
  by (cases "sv_host s")
    (auto simp: discard_stage_def held_def gone_def recorded_def trace_def Let_def discards_append
       split: option.splits)

lemma discard_stage_trace: "\<exists>es. trace (discard_stage (recorded w) s) = trace s @ es"
  by (cases "sv_host s") (auto simp: discard_stage_def recorded_def trace_def Let_def split: option.splits)

text \<open>How a request ends without being completed.\<close>

definition abandoned :: "'s option \<Rightarrow> string \<Rightarrow> ('h, 's) recording \<Rightarrow> supervisor_outcome \<Rightarrow> bool" where
  "abandoned stage i s out \<longleftrightarrow> gone stage s \<and> EndRequested \<in> set (trace s) \<and>
     (case out of
        Completed _ _ _ \<Rightarrow> False
      | ForceTerminated rc \<Rightarrow> tr_request_id rc = i
      | Acknowledged a \<Rightarrow> ak_request_id a = i \<and> \<not> is_blank (ak_reason a) \<and>
          (\<exists>reason. CancelSent i reason \<in> set (trace s)) \<and>
          Received (CancelledEnvelope protocol_schema_identity i (ak_reason a)) \<in> set (trace s))"

lemma force_terminate_abandons:
  assumes "force_terminate (recorded w) s i started stage detail p = (s', rc)"
    and "held st s \<or> gone st s"
  shows "gone st s' \<and> EndRequested \<in> set (trace s') \<and> tr_request_id rc = i"
proof -
  from assms(1) obtain s1 s2 ended rc' label where
    steps: "ask (wk_terminate (recorded w)) (discard_stage (recorded w) s) = (s1, ended)"
      "forced_record (recorded w) s1 i label started p = (s', rc')"
    and "tr_request_id rc = tr_request_id rc'"
    by (auto simp: force_terminate_def Let_def split: prod.splits)
  from recorded_asks(9) [OF steps(1)] forced_record_moved [OF steps(2)] this(3)
  have moved: "moved [EndRequested] (discard_stage (recorded w) s) s'" "tr_request_id rc = i"
    by (auto intro: moved_quiet)
  with stage_moved(2) [OF moved(1), of st] discard_stage_gone [OF assms(2)] moved_fields(5) [OF moved(1)]
  show ?thesis by simp
qed

lemma force_terminate_outcome_abandons:
  assumes "force_terminate_outcome (recorded w) s i started stage detail p = (s', out)"
    and "held st s \<or> gone st s"
  shows "abandoned st i s' out"
  using assms force_terminate_abandons [OF _ assms(2)]
  by (auto simp: force_terminate_outcome_def abandoned_def split: prod.splits)

lemma protocol_diagnostic_abandons:
  assumes "force_terminate_with_protocol_diagnostic (recorded w) s i started stage d p = (s', out)"
    and "held st s \<or> gone st s"
  shows "abandoned st i s' out"
  using assms force_terminate_abandons [OF _ assms(2)]
  by (auto simp: force_terminate_with_protocol_diagnostic_def abandoned_def split: prod.splits)

lemma cooperative_termination_abandons:
  assumes "cooperative_termination_outcome (recorded w) s i stage started c = (s', out)" and "gone st s"
  shows "abandoned st i s' out"
proof -
  from assms(1) obtain s1 finished rc label kind where
    steps: "ask (wk_finish_terminal (recorded w)) s = (s1, finished)"
      "make_record (recorded w) s1 i label started c kind = (s', rc)" "out = ForceTerminated rc"
    by (auto simp: cooperative_termination_outcome_def split: prod.splits)
  from recorded_asks(10) [OF steps(1)] make_record_moved [OF steps(2)]
  have m: "moved (finished_events finished) s s'" "tr_request_id rc = i" by (auto intro: moved_quiet)
  with assms(2) steps(3) stage_moved(2) [OF m(1), of st] moved_fields(5) [OF m(1)]
  show ?thesis by (cases finished) (simp_all add: abandoned_def)
qed

section \<open>After the terminal envelope\<close>

text \<open>
  A drain that finds nothing has polled the stream until its end and has found it within its bounds
  before every poll; then the events \<open>rest\<close> follow.
\<close>

definition drain_events :: "nat \<Rightarrow> 's worker_event list" where
  "drain_events n = replicate (Suc n) WithinBounds @ [StreamClosed]"

lemma discards_drain [simp]: "discards (drain_events n) = []"
  unfolding drain_events_def discards_append discards_answers by simp

definition drained ::
  "'s worker_event list \<Rightarrow> string \<Rightarrow> ('h, 's) recording \<Rightarrow>
   ('h, 's) recording \<times> supervisor_outcome option \<Rightarrow> bool" where
  "drained rest i s z \<longleftrightarrow>
     (case z of
        (s', None) \<Rightarrow> (\<exists>n. moved (drain_events n @ rest) s s')
      | (s', Some out) \<Rightarrow> (\<exists>events. moved events s s' \<and> discards events = []) \<and>
          (\<exists>rc. out = ForceTerminated rc \<and> tr_request_id rc = i))"

lemma drained_forced:
  assumes "forced_record (recorded w) t i stage started p = (s', rc)" "moved events s t" "discards events = []"
  shows "drained rest i s (s', Some (ForceTerminated rc))"
  using forced_record_moved [OF assms(1)] assms(2,3) by (auto simp: drained_def dest: moved_quiet)

lemma drain_failed_drained:
  assumes "moved events s t" "discards events = []"
  shows "drained rest i s (drain_failed (recorded w) i started prefix p e t)"
proof -
  obtain t1 c t2 o' where steps: "taken_context t p None = (t1, c)"
    "ask (wk_stream_overflowed (recorded w)) t1 = (t2, o')"
    by (cases "taken_context t p None"; cases "ask (wk_stream_overflowed (recorded w)) (fst (taken_context t p None))")
       auto
  let ?label = "case o' of Some stream \<Rightarrow> prefix @ '':stream_overflow:'' @ stream
    | None \<Rightarrow> prefix @ '':trailing_drain_failed:'' @ worker_error_text e"
  obtain t3 rc where rc: "make_record (recorded w) t2 i ?label started c ForceAfterGrace = (t3, rc)"
    by (cases "make_record (recorded w) t2 i ?label started c ForceAfterGrace")
  from moved_trans [OF moved_quiet [OF assms(1) taken_context_moved [OF steps(1)]]
      recorded_asks(6) [OF steps(2)]] make_record_moved(1) [OF rc]
  have "moved (events @ overflow_events o') s t3" by (rule moved_quiet)
  moreover have "discards (events @ overflow_events o') = []"
    using assms(2) by (simp add: discards_append)
  moreover have "drain_failed (recorded w) i started prefix p e t = (t3, Some (ForceTerminated rc))"
    using steps rc by (simp add: drain_failed_def)
  ultimately show ?thesis using make_record_moved(2) [OF rc] by (auto simp: drained_def)
qed

text \<open>One poll of the stream: nothing yet, or the end of the drain.\<close>

definition drain_poll ::
  "string \<Rightarrow> ('h, 's) recording \<Rightarrow> (('h, 's) recording + ('h, 's) recording \<times> supervisor_outcome option) option
     \<Rightarrow> bool" where
  "drain_poll i s r \<longleftrightarrow>
     (case r of
        Some (Inl s') \<Rightarrow> (\<exists>n. moved (replicate n WithinBounds) s s')
      | Some (Inr z) \<Rightarrow> drained [] i s z
      | None \<Rightarrow> False)"

lemma drain_polls [simp]:
  "drain_poll i s (Some (Inl s')) \<longleftrightarrow> (\<exists>n. moved (replicate n WithinBounds) s s')"
  "drain_poll i s (Some (Inr z)) \<longleftrightarrow> drained [] i s z"
  "drained rest i s (s', None) \<longleftrightarrow> (\<exists>n. moved (drain_events n @ rest) s s')"
  by (simp_all add: drain_poll_def drained_def)

lemma drain_step_polls:
  assumes "moved (replicate n WithinBounds) s t"
  shows "drain_poll i s (drain_step (recorded w) i started prefix p deadline t)"
proof (cases "ask (wk_stream_overflowed (recorded w)) t")
  case (Pair t1 overflow)
  note t1 = moved_trans [OF assms recorded_asks(6) [OF Pair]]
  show ?thesis
  proof (cases overflow)
    case (Some stream)
    with Pair t1 show ?thesis
      by (auto simp: drain_step_def drain_poll_def Let_def split: prod.splits intro: drained_forced)
  next
    case None
    with t1 have polled: "moved (replicate (Suc n) WithinBounds) s t1"
      by (simp add: replicate_append_same)
    obtain t2 r where recv: "ask (wk_recv (recorded w) deadline) t1 = (t2, r)"
      by (cases "ask (wk_recv (recorded w) deadline) t1")
    show ?thesis
    proof (cases r)
      case (Inr v)
      with recv have "moved (replicate (Suc n) WithinBounds @ [Received v]) s t2"
        using moved_trans [OF polled recorded_asks(11)] by blast
      moreover have "discards (replicate (Suc n) WithinBounds @ [Received v]) = []"
        unfolding discards_append discards_answers by simp
      ultimately show ?thesis
        using Pair None recv Inr
        by (auto simp: drain_step_def drain_poll_def Let_def split: prod.splits intro: drained_forced)
    next
      case (Inl e)
      with recv have t2: "moved (replicate (Suc n) WithinBounds @ received_events (Inl e)) s t2"
        using moved_trans [OF polled recorded_asks(12)] by blast
      have none: "discards (replicate (Suc n) WithinBounds @ received_events (Inl e)) = []"
        unfolding discards_append discards_answers by simp
      have forced: "drain_poll i s (case forced_record (recorded w) t2 i stage started p of
          (s', rc) \<Rightarrow> Some (Inr (s', Some (ForceTerminated rc))))" for stage
        using t2 none by (auto simp: drain_poll_def split: prod.splits intro: drained_forced)
      obtain t3 now where t3: "ask (wk_now (recorded w)) t2 = (t3, now)"
        by (cases "ask (wk_now (recorded w)) t2")
      have failed: "drained [] i s (drain_failed (recorded w) i started prefix p e' u)"
        if "u = t2 \<or> u = t3" for u e'
        using that drain_failed_drained [OF t2 none] drain_failed_drained [OF moved_quiet [OF t2
            recorded_asks(1) [OF t3]] none] by blast
      have closed: "\<exists>n. moved (drain_events n) s t2" if "e = Closed"
        using t2 that unfolding drain_events_def by auto
      have again: "\<exists>n. moved (replicate n WithinBounds) s t3" if "e = TimedOut"
        using moved_quiet [OF t2 recorded_asks(1) [OF t3]] that by (auto intro: exI [of _ "Suc n"])
      show ?thesis
        using Pair None recv Inl t3 forced failed closed again
        by (cases e) (simp_all add: drain_step_def Let_def)
    qed
  qed
qed

lemma verify_clean_exit_drained:
  assumes "verify_clean_exit (recorded w) s i started prefix p = Some z"
  shows "drained [WithinBounds] i s z"
proof -
  from assms obtain y where y: "verify_no_trailing_frames (recorded w) s i started prefix p = Some y"
    and z: "(case y of (s, Some out) \<Rightarrow> Some (s, Some out)
      | (s, None) \<Rightarrow> (case ask (wk_stream_overflowed (recorded w)) s of
          (s, None) \<Rightarrow> Some (s, None)
        | (s, Some stream) \<Rightarrow>
            (case forced_record (recorded w) s i (prefix @ '':stream_overflow:'' @ stream) started p of
               (s, rc) \<Rightarrow> Some (s, Some (ForceTerminated rc))))) = Some z"
    unfolding verify_clean_exit_def Option.bind_eq_Some_conv by blast
  from y obtain s0 now where s0: "ask (wk_now (recorded w)) s = (s0, now)"
    and loop: "run_loop (drain_step (recorded w) i started prefix p (now + drain_deadline)) s0 = Some y"
    by (auto simp: verify_no_trailing_frames_def split: prod.splits)
  have "drained [] i s y"
  proof (rule run_loop_result [OF loop, where I = "\<lambda>x. \<exists>n. moved (replicate n WithinBounds) s x"])
    show "\<exists>n. moved (replicate n WithinBounds) s s0"
      using recorded_asks(1) [OF s0] by (auto intro: exI [of _ 0])
  next
    fix x r
    assume "\<exists>n. moved (replicate n WithinBounds) s x"
    then obtain n where "moved (replicate n WithinBounds) s x" by blast
    note poll = drain_step_polls [OF this, of i w started prefix p "now + drain_deadline"]
    show "\<exists>n. moved (replicate n WithinBounds) s y"
      if "drain_step (recorded w) i started prefix p (now + drain_deadline) x = Some (Inl y)" for y
      using poll that by simp
    show "drained [] i s z" if "drain_step (recorded w) i started prefix p (now + drain_deadline) x = Some (Inr z)" for z
      using poll that by simp
  qed
  show ?thesis
  proof (cases y)
    case (Pair s1 out)
    show ?thesis
    proof (cases out)
      case (Some o')
      with z Pair \<open>drained [] i s y\<close> show ?thesis by (auto simp: drained_def)
    next
      case None
      with Pair \<open>drained [] i s y\<close> obtain n where s1: "moved (drain_events n) s s1" by auto
      obtain s2 overflow where s2: "ask (wk_stream_overflowed (recorded w)) s1 = (s2, overflow)"
        by (cases "ask (wk_stream_overflowed (recorded w)) s1")
      note m = moved_trans [OF s1 recorded_asks(6) [OF s2]]
      show ?thesis
      proof (cases overflow)
        case None
        with z Pair \<open>out = None\<close> s2 m show ?thesis by auto
      next
        case (Some stream)
        have "discards (drain_events n @ overflow_events overflow) = []"
          unfolding discards_append discards_answers discards_drain by simp
        with z Pair \<open>out = None\<close> s2 Some m show ?thesis
          by (auto split: prod.splits intro: drained_forced)
      qed
    qed
  qed
qed

section \<open>Cancellation\<close>

definition cancelling :: "'s option \<Rightarrow> string \<Rightarrow> string \<Rightarrow> ('h, 's) recording \<Rightarrow> bool" where
  "cancelling st i reason s \<longleftrightarrow>
     (held st s \<or> gone st s) \<and> CancelSent i reason \<in> set (trace s)"

lemma cancelling_moved:
  "cancelling st i reason s \<Longrightarrow> moved events s s' \<Longrightarrow> discards events = [] \<Longrightarrow> cancelling st i reason s'"
  using stage_moved [of events s s' st] moved_fields(5) [of events s s']
  by (auto simp: cancelling_def)

lemma abandoned_moved:
  "moved events s s' \<Longrightarrow> discards events = [] \<Longrightarrow> abandoned st i s out \<Longrightarrow> abandoned st i s' out"
  using stage_moved(2) [of events s s' st] moved_fields(5) [of events s s']
  by (auto simp: abandoned_def split: supervisor_outcome.splits)

lemma gone_ended:
  assumes "moved events s s'" "discards events = []" "EndRequested \<in> set events \<union> set (trace s)" "gone st s"
    "tr_request_id rc = i"
  shows "abandoned st i s' (ForceTerminated rc)"
  using stage_moved(2) [OF assms(1,2,4)] moved_fields(5) [OF assms(1)] assms(3,5)
  by (auto simp: abandoned_def)

lemma finalize_failed_abandons:
  assumes "finalize_failed w' s i stage started p e = (s', out)" "w' = recorded w"
    and "gone st s" "EndRequested \<in> set (trace s)"
  shows "abandoned st i s' out"
proof -
  from assms(1) obtain rc where
    rc: "forced_record (recorded w) s i (stage @ worker_error_text e) started p = (s', rc)"
    and out: "out = ForceTerminated (rc\<lparr>tr_termination_error := Some (worker_error_text e)\<rparr>)"
    unfolding finalize_failed_def assms(2) by (auto split: prod.splits)
  note moved = forced_record_moved [OF rc]
  show ?thesis
    unfolding out by (rule gone_ended [OF moved(1)]) (use assms(3,4) moved(2) in auto)
qed

lemma acknowledged_abandons:
  assumes "acknowledge_cancellation (recorded w) s i reason started p = Some (s', out)"
    and "cancelling st i why s"
    and "Received (CancelledEnvelope protocol_schema_identity i reason) \<in> set (trace s)"
    and "\<not> is_blank reason"
  shows "abandoned st i s' out"
proof -
  let ?d = "discard_stage (recorded w) s"
  from assms(2) have d: "gone st ?d" using discard_stage_gone by (auto simp: cancelling_def)
  obtain es where es: "trace ?d = trace s @ es" using discard_stage_trace by blast
  obtain s1 finished where s1: "ask (wk_finish_terminal (recorded w)) ?d = (s1, finished)"
    by (cases "ask (wk_finish_terminal (recorded w)) ?d")
  note m1 = recorded_asks(10) [OF s1]
  have g1: "gone st s1" using stage_moved(2) [OF m1 _ d] by simp
  have t1: "trace s1 = trace s @ es @ finished_events finished"
    "EndRequested \<in> set (finished_events finished)"
    using moved_fields(5) [OF m1] es by (simp_all, cases finished) simp_all
  show ?thesis
  proof (cases finished)
    case (Inl e)
    with assms(1) s1 have "finalize_failed (recorded w) s1 i ''cancel_terminal_finalize_failed:'' started p e = (s', out)"
      by (simp add: acknowledge_cancellation_def)
    then show ?thesis using g1 t1 by (auto intro: finalize_failed_abandons)
  next
    case (Inr u)
    with assms(1) s1 obtain s2 r where
      r: "verify_clean_exit (recorded w) s1 i started ''cancelled_reap'' p = Some (s2, r)"
      and rest: "(case (s2, r) of
             (s, Some outcome) \<Rightarrow> Some (s, outcome)
           | (s, None) \<Rightarrow>
               (case ask (wk_now (recorded w)) s of (s, now) \<Rightarrow>
                case ask (wk_stderr_tail (recorded w)) s of (s, tail) \<Rightarrow>
                case ask (wk_exit_signal (recorded w)) s of (s, signal) \<Rightarrow>
                case ask (wk_exit_code (recorded w)) s of (s, code) \<Rightarrow>
                Some (s, Acknowledged
                  \<lparr>ak_request_id = i, ak_reason = reason, ak_elapsed = now - started,
                   ak_last_progress = p, ak_stderr_tail = tail,
                   ak_exit_signal = signal, ak_exit_code = code\<rparr>))) = Some (s', out)"
      unfolding acknowledge_cancellation_def by (auto simp: Option.bind_eq_Some_conv)
    note clean = verify_clean_exit_drained [OF r]
    show ?thesis
    proof (cases r)
      case (Some o')
      with clean obtain events rc where m2: "moved events s1 s2" "discards events = []"
        "o' = ForceTerminated rc" "tr_request_id rc = i"
        by (auto simp: drained_def)
      from rest Some have same: "s' = s2" "out = o'" by auto
      have ended: "EndRequested \<in> set events \<union> set (trace s1)" unfolding t1(1) using t1(2) by auto
      show ?thesis unfolding same m2(3) by (rule gone_ended [OF m2(1,2) ended g1 m2(4)])
    next
      case None
      with clean obtain n where m2: "moved (drain_events n @ [WithinBounds]) s1 s2" by auto
      from rest None obtain s3 s4 s5 now tail signal code where
        steps: "ask (wk_now (recorded w)) s2 = (s3, now)" "ask (wk_stderr_tail (recorded w)) s3 = (s4, tail)"
        "ask (wk_exit_signal (recorded w)) s4 = (s5, signal)" "ask (wk_exit_code (recorded w)) s5 = (s', code)"
        and out: "out = Acknowledged
                  \<lparr>ak_request_id = i, ak_reason = reason, ak_elapsed = now - started,
                   ak_last_progress = p, ak_stderr_tail = tail,
                   ak_exit_signal = signal, ak_exit_code = code\<rparr>"
        by (auto split: prod.splits)
      from m2 recorded_asks(1) [OF steps(1)] recorded_asks(5) [OF steps(2)] recorded_asks(3) [OF steps(3)]
        recorded_asks(4) [OF steps(4)] have m: "moved (drain_events n @ [WithinBounds]) s1 s'"
        by (blast intro: moved_quiet)
      have "gone st s'" using stage_moved(2) [OF m _ g1] by (simp add: discards_append)
      moreover have "trace s' = trace s @ es @ finished_events finished @ drain_events n @ [WithinBounds]"
        using moved_fields(5) [OF m] t1 by simp
      ultimately show ?thesis
        using assms(2,3,4) t1(2) out by (auto simp: abandoned_def cancelling_def)
    qed
  qed
qed

lemma ack_bound:
  "validate_cancellation_ack v i = Inr (r, reason) \<Longrightarrow>
   v = CancelledEnvelope protocol_schema_identity i reason \<and> r = i \<and> \<not> is_blank reason"
  by (auto simp: validate_cancellation_ack_def split: envelope.splits if_splits)

definition cancel_poll ::
  "'s option \<Rightarrow> string \<Rightarrow> string \<Rightarrow> (('h, 's) recording \<times> progress option + ('h, 's) recording \<times> supervisor_outcome) option
     \<Rightarrow> bool" where
  "cancel_poll st i why r \<longleftrightarrow>
     (case r of None \<Rightarrow> True | Some (Inl x) \<Rightarrow> cancelling st i why (fst x)
      | Some (Inr z) \<Rightarrow> abandoned st i (fst z) (snd z))"

lemma cancel_polls [simp]:
  "cancel_poll st i why None"
  "cancel_poll st i why (Some (Inl x)) \<longleftrightarrow> cancelling st i why (fst x)"
  "cancel_poll st i why (Some (Inr z)) \<longleftrightarrow> abandoned st i (fst z) (snd z)"
  by (simp_all add: cancel_poll_def)

lemma cancelling_ends:
  assumes "cancelling st i why s"
  shows "abandoned st i (fst (force_terminate_outcome (recorded w) s i started stage detail p))
      (snd (force_terminate_outcome (recorded w) s i started stage detail p))"
    "abandoned st i (fst (force_terminate_with_protocol_diagnostic (recorded w) s i started stage d p))
      (snd (force_terminate_with_protocol_diagnostic (recorded w) s i started stage d p))"
  using assms force_terminate_outcome_abandons protocol_diagnostic_abandons
  unfolding cancelling_def by (metis prod.collapse)+

lemma cancel_receive_polls:
  assumes "cancelling st i why s"
  shows "cancel_poll st i why (cancel_receive (recorded w) i started deadline (s, p))"
proof -
  obtain t r where recv: "ask (wk_recv (recorded w) deadline) s = (t, r)"
    by (cases "ask (wk_recv (recorded w) deadline) s")
  show ?thesis
  proof (cases r)
    case (Inl e)
    with recv have "cancelling st i why t"
      using cancelling_moved [OF assms recorded_asks(12)] by fastforce
    with recv Inl show ?thesis
      by (cases e) (simp_all add: cancel_receive_def Let_def cancelling_ends)
  next
    case (Inr v)
    with recv have m: "moved [Received v] s t" using recorded_asks(11) by blast
    have t: "cancelling st i why t" using cancelling_moved [OF assms m] by simp
    have heard: "Received v \<in> set (trace t)" using moved_fields(5) [OF m] by simp
    have seen: "cancelling st i why (t\<lparr>sv_host := wk_on_progress (recorded w) q (sv_host t)\<rparr>)" for q
      using cancelling_moved [OF t observed] by simp
    have ack: "cancel_poll st i why (map_option Inr
        (acknowledge_cancellation (recorded w) t r reason started p))"
      if "validate_cancellation_ack v i = Inr (r, reason)" for r reason
      using acknowledged_abandons [OF _ t] heard ack_bound [OF that]
      by (cases "acknowledge_cancellation (recorded w) t r reason started p") auto
    show ?thesis
      using recv Inr t seen ack
      by (cases v) (auto simp: cancel_receive_def Let_def cancelling_ends split: sum.splits)
  qed
qed

lemma cancel_step_polls:
  assumes "cancelling st i why (fst x)"
  shows "cancel_poll st i why (cancel_step (recorded w) i started deadline x)"
proof -
  obtain s p where x: "x = (s, p)" by (cases x)
  note poll = cancel_receive_polls [of st i why s w started deadline p]
  show ?thesis
  proof (cases "cancel_receive (recorded w) i started deadline x")
    case None
    then show ?thesis by (simp add: cancel_step_def)
  next
    case (Some r)
    show ?thesis
    proof (cases r)
      case (Inr z)
      with Some poll assms x show ?thesis by (simp add: cancel_step_def)
    next
      case (Inl y)
      obtain t q where y: "y = (t, q)" by (cases y)
      with Some Inl poll assms x have t: "cancelling st i why t" by simp
      obtain t' now where t': "ask (wk_now (recorded w)) t = (t', now)"
        by (cases "ask (wk_now (recorded w)) t")
      from cancelling_moved [OF t recorded_asks(1) [OF t']] have "cancelling st i why t'" by simp
      with Some Inl y t' show ?thesis by (simp add: cancel_step_def cancelling_ends)
    qed
  qed
qed

lemma cancel_with_deadline_abandons:
  fixes w :: "('h, 's) worker"
  assumes "cancel_with_deadline (recorded w) s i why started deadline p = Some (s', out)"
    and "held st s \<or> gone st s"
  shows "abandoned st i s' out"
proof -
  obtain s1 now where s1: "ask (wk_now (recorded w)) s = (s1, now)"
    by (cases "ask (wk_now (recorded w)) s")
  have h1: "held st s1 \<or> gone st s1"
    using assms(2) stage_moved [OF recorded_asks(1) [OF s1]] by auto
  obtain s2 sent where s2: "ask (wk_cancel (recorded w) i why) s1 = (s2, sent)"
    by (cases "ask (wk_cancel (recorded w) i why) s1")
  note m2 = recorded_asks(8) [OF s2]
  have c2: "cancelling st i why s2"
    using h1 stage_moved [OF m2, of st] moved_fields(5) [OF m2] by (auto simp: cancelling_def)
  show ?thesis
  proof (cases "deadline \<le> now \<or> (\<exists>e. sent = Inl e)")
    case True
    with assms(1) s1 s2 show ?thesis
      using force_terminate_outcome_abandons [OF _ h1] cancelling_ends(1) [OF c2]
      by (auto simp: cancel_with_deadline_def split: if_splits) (metis fst_conv snd_conv)+
  next
    case False
    with assms(1) s1 s2 have loop: "run_loop (cancel_step (recorded w) i started deadline) (s2, p) = Some (s', out)"
      by (cases sent) (auto simp: cancel_with_deadline_def)
    have "abandoned st i (fst (s', out)) (snd (s', out))"
    proof (rule run_loop_result [OF loop, where I = "\<lambda>x. cancelling st i why (fst x)"])
      show "cancelling st i why (fst (s2, p))" using c2 by simp
      fix x :: "('h, 's) recording \<times> progress option"
      assume "cancelling st i why (fst x)"
      note poll = cancel_step_polls [OF this, of w started deadline]
      show "cancelling st i why (fst y)" if "cancel_step (recorded w) i started deadline x = Some (Inl y)" for y
        using poll that by simp
      show "abandoned st i (fst z) (snd z)" if "cancel_step (recorded w) i started deadline x = Some (Inr z)" for z
        using poll that by simp
    qed
    then show ?thesis by simp
  qed
qed

section \<open>Requests\<close>

definition bound_envelope :: "string \<Rightarrow> envelope \<Rightarrow> bool" where
  "bound_envelope i v \<longleftrightarrow>
     envelope_schema_version v = protocol_schema_identity \<and>
     (case v of
        ProgressEnvelope _ r _ _ \<Rightarrow> r = i
      | ArtifactEnvelope _ header \<Rightarrow> ah_request_id header = i
      | WorkerReady _ _ \<Rightarrow> True
      | _ \<Rightarrow> False)"

fun artifacts_of :: "envelope list \<Rightarrow> staged_artifact list" where
  "artifacts_of [] = []"
| "artifacts_of (ArtifactEnvelope version header # vs) =
     \<lparr>sa_schema_version = version, sa_header = header\<rparr> # artifacts_of vs"
| "artifacts_of (_ # vs) = artifacts_of vs"

lemma artifacts_of_append: "artifacts_of (us @ vs) = artifacts_of us @ artifacts_of vs"
  by (induction us rule: artifacts_of.induct) auto

definition running ::
  "'s option \<Rightarrow> 's worker_event list \<Rightarrow> string \<Rightarrow> envelope list \<Rightarrow> ('h, 's) recording \<Rightarrow> bool" where
  "running st base i mid s \<longleftrightarrow> held st s \<and> trace s = base @ map Received mid \<and>
     list_all (bound_envelope i) mid \<and> sv_artifact_headers s = artifacts_of mid"

definition completed_run ::
  "'s option \<Rightarrow> 's worker_event list \<Rightarrow> string \<Rightarrow> ('h, 's) recording \<Rightarrow> string \<Rightarrow> json \<Rightarrow>
   staged_artifact list \<Rightarrow> bool" where
  "completed_run st base i s r result headers \<longleftrightarrow>
     r = i \<and> take_stage s = (s\<lparr>sv_stage := None\<rparr>, st) \<and>
     (\<exists>mid n. list_all (bound_envelope i) mid \<and> headers = artifacts_of mid \<and>
        trace s = base @ map Received mid @
          [Received (CompletedEnvelope protocol_schema_identity i result), EndRequested, Reaped] @
          drain_events n @ [WithinBounds])"

definition ended ::
  "'s option \<Rightarrow> 's worker_event list \<Rightarrow> string \<Rightarrow> ('h, 's) recording \<Rightarrow> supervisor_outcome \<Rightarrow> bool" where
  "ended st base i s out \<longleftrightarrow>
     (case out of
        Completed r result headers \<Rightarrow> completed_run st base i s r result headers
      | _ \<Rightarrow> abandoned st i s out)"

lemma abandoned_ended: "abandoned st i s out \<Longrightarrow> ended st base i s out"
  by (auto simp: ended_def abandoned_def split: supervisor_outcome.splits)

lemma running_moved: "running st base i mid s \<Longrightarrow> moved [] s s' \<Longrightarrow> running st base i mid s'"
  using stage_moved(1) [of "[]" s s' st] moved_fields [of "[]" s s'] by (auto simp: running_def)

lemma running_heard:
  assumes "running st base i mid s" "moved [Received v] s t" "bound_envelope i v" "artifacts_of [v] = []"
  shows "running st base i (mid @ [v]) t"
  using assms stage_moved(1) [OF assms(2), of st] moved_fields [OF assms(2)]
  by (auto simp: running_def artifacts_of_append)

lemma running_artifact:
  assumes "running st base i mid s" "moved [Received (ArtifactEnvelope version header)] s t"
    and "bound_envelope i (ArtifactEnvelope version header)"
  shows "running st base i (mid @ [ArtifactEnvelope version header]) (record_artifact version header t)"
  using assms stage_moved(1) [OF assms(2), of st] moved_fields [OF assms(2)]
  by (auto simp: running_def artifacts_of_append record_artifact_def held_def trace_def)

lemma discards_received [simp]: "discards (map Received vs) = []"
  by (induction vs) auto

lemma discarded_clean:
  assumes "held st s" "EndRequested \<in> set (trace s)" "tr_request_id rc = i"
  shows "abandoned st i (discard_stage (recorded w) s) (ForceTerminated rc)"
  using discard_stage_gone [of st s w] discard_stage_trace [of w s] assms
  by (auto simp: abandoned_def)

lemma completion_ends:
  assumes "complete_with_artifact_facts (recorded w) s r result req started p = Some (s', out)"
    and "held st s" "list_all (bound_envelope (wr_request_id req)) mid"
    and "sv_artifact_headers s = artifacts_of mid"
    and "trace s = base @ map Received mid @ [Received (CompletedEnvelope protocol_schema_identity r result)]"
  shows "ended st base (wr_request_id req) s' out"
proof (cases "r = wr_request_id req")
  case False
  let ?s = "s\<lparr>sv_last_artifact_error := Some ''completed_request_id_mismatch''\<rparr>"
  have "held st ?s" using assms(2) by (simp add: held_def trace_def)
  then have d: "gone st (discard_stage (recorded w) ?s)" using discard_stage_gone by blast
  obtain t c where t: "taken_context (discard_stage (recorded w) ?s) p None = (t, c)"
    by (cases "taken_context (discard_stage (recorded w) ?s) p None")
  have "gone st t" using stage_moved(2) [OF taken_context_moved [OF t] _ d] by simp
  with assms(1) False t show ?thesis
    by (auto simp: complete_with_artifact_facts_def Let_def
        intro: abandoned_ended cooperative_termination_abandons)
next
  case True
  obtain s1 finished where s1: "ask (wk_finish_terminal (recorded w)) s = (s1, finished)"
    by (cases "ask (wk_finish_terminal (recorded w)) s")
  note m1 = recorded_asks(10) [OF s1]
  have h1: "held st s1" using stage_moved(1) [OF m1 _ assms(2)] by simp
  have t1: "trace s1 = trace s @ finished_events finished" using moved_fields(5) [OF m1] by simp
  show ?thesis
  proof (cases finished)
    case (Inl e)
    from h1 have g: "gone st (discard_stage (recorded w) s1)" using discard_stage_gone by blast
    moreover have "EndRequested \<in> set (trace (discard_stage (recorded w) s1))"
      using discard_stage_trace [of w s1] t1 Inl by auto
    ultimately show ?thesis
      using assms(1) True s1 Inl
      by (auto simp: complete_with_artifact_facts_def intro: abandoned_ended finalize_failed_abandons)
  next
    case (Inr u)
    with assms(1) True s1 obtain s2 o' where
      clean: "verify_clean_exit (recorded w) s1 r started ''completed_reap'' p = Some (s2, o')"
      and rest: "(case (s2, o') of
             (s, Some outcome) \<Rightarrow> Some (discard_stage (recorded w) s, outcome)
           | (s, None) \<Rightarrow>
               Some (s\<lparr>sv_completed := True, sv_artifact_headers := []\<rparr>,
                     Completed r result (sv_artifact_headers s))) = Some (s', out)"
      unfolding complete_with_artifact_facts_def by (auto simp: Option.bind_eq_Some_conv)
    note drained = verify_clean_exit_drained [OF clean]
    show ?thesis
    proof (cases o')
      case (Some o'')
      with drained obtain events rc where m2: "moved events s1 s2" "discards events = []"
        "o'' = ForceTerminated rc" "tr_request_id rc = r"
        by (auto simp: drained_def)
      have "held st s2" using stage_moved(1) [OF m2(1,2) h1] .
      moreover have "EndRequested \<in> set (trace s2)" using moved_fields(5) [OF m2(1)] t1 Inr by simp
      ultimately show ?thesis
        using rest Some m2(3,4) True by (auto intro!: abandoned_ended discarded_clean)
    next
      case None
      with drained obtain n where m2: "moved (drain_events n @ [WithinBounds]) s1 s2" by auto
      have h2: "held st s2" using stage_moved(1) [OF m2 _ h1] by (simp add: discards_append)
      have t2: "trace s2 = base @ map Received mid @
          [Received (CompletedEnvelope protocol_schema_identity r result), EndRequested, Reaped] @
          drain_events n @ [WithinBounds]"
        and headers: "sv_artifact_headers s2 = artifacts_of mid"
        using moved_fields [OF m2] moved_fields [OF m1] assms(4,5) Inr by auto
      from rest None have "out = Completed r result (artifacts_of mid)"
        and s': "s' = s2\<lparr>sv_completed := True, sv_artifact_headers := []\<rparr>"
        using headers by auto
      moreover have "trace s' = trace s2" "take_stage s' = (s'\<lparr>sv_stage := None\<rparr>, st)"
        using h2 s' by (simp_all add: trace_def held_def take_stage_def)
      ultimately show ?thesis
        using t2 True assms(3) by (auto simp: ended_def completed_run_def)
    qed
  qed
qed

definition request_poll ::
  "'s option \<Rightarrow> 's worker_event list \<Rightarrow> string \<Rightarrow>
   (('h, 's) recording \<times> progress option + ('h, 's) recording \<times> supervisor_outcome) option \<Rightarrow> bool" where
  "request_poll st base i r \<longleftrightarrow>
     (case r of None \<Rightarrow> True | Some (Inl x) \<Rightarrow> \<exists>mid. running st base i mid (fst x)
      | Some (Inr z) \<Rightarrow> ended st base i (fst z) (snd z))"

lemma request_polls [simp]:
  "request_poll st base i None"
  "request_poll st base i (Some (Inl x)) \<longleftrightarrow> (\<exists>mid. running st base i mid (fst x))"
  "request_poll st base i (Some (Inr z)) \<longleftrightarrow> ended st base i (fst z) (snd z)"
  by (simp_all add: request_poll_def)

lemma held_stops:
  assumes "held st s"
  shows "ended st base i (fst (force_terminate_outcome (recorded w) s i started stage detail p))
    (snd (force_terminate_outcome (recorded w) s i started stage detail p))"
  using force_terminate_outcome_abandons [OF _ disjI1 [OF assms]] abandoned_ended
  by (metis prod.collapse)

lemma failed_ends:
  assumes "held st s"
  shows "ended st base i
    (fst (case taken_context (discard_stage (recorded w) s) p f of (t, c) \<Rightarrow>
       cooperative_termination_outcome (recorded w) t i stage started c))
    (snd (case taken_context (discard_stage (recorded w) s) p f of (t, c) \<Rightarrow>
       cooperative_termination_outcome (recorded w) t i stage started c))"
proof -
  obtain t c where t: "taken_context (discard_stage (recorded w) s) p f = (t, c)"
    by (cases "taken_context (discard_stage (recorded w) s) p f")
  have "gone st (discard_stage (recorded w) s)" using assms discard_stage_gone by blast
  then have "gone st t" using stage_moved(2) [OF taken_context_moved [OF t]] by simp
  then have "abandoned st i u out" if "cooperative_termination_outcome (recorded w) t i stage started c = (u, out)" for u out
    using cooperative_termination_abandons [OF that] by blast
  then show ?thesis
    using t abandoned_ended
    by (cases "cooperative_termination_outcome (recorded w) t i stage started c") simp
qed

lemma receive_polls:
  fixes w :: "('h, 's) worker"
  assumes "running st base (wr_request_id req) mid s"
  shows "request_poll st base (wr_request_id req)
    (receive_request_envelope (recorded w) req started deadline (s, p))"
proof -
  let ?i = "wr_request_id req"
  obtain t r where recv: "ask (wk_recv (recorded w) deadline) s = (t, r)"
    by (cases "ask (wk_recv (recorded w) deadline) s")
  show ?thesis
  proof (cases r)
    case (Inl e)
    with recv have m: "moved (received_events (Inl e)) s t" using recorded_asks(12) by blast
    have "held st t" using stage_moved(1) [OF m discards_answers(1)] assms by (simp add: running_def)
    moreover have "running st base ?i mid t" if "e \<noteq> Closed"
      using running_moved [OF assms] m that by simp
    ultimately show ?thesis
      using recv Inl
      by (cases e) (auto simp: receive_request_envelope_def Let_def held_stops)
  next
    case (Inr v)
    with recv have m: "moved [Received v] s t" using recorded_asks(11) by blast
    have t: "held st t" using stage_moved(1) [OF m] assms by (simp add: running_def)
    have observed: "running st base ?i ms (t\<lparr>sv_host := wk_on_progress (recorded w) q (sv_host t)\<rparr>)"
      if "running st base ?i ms t" for ms q
      using running_moved [OF that observed] .
    have completed: "request_poll st base ?i
        (map_option Inr (complete_with_artifact_facts (recorded w) t r result req started p))"
      if "v = CompletedEnvelope protocol_schema_identity r result" for r result
    proof -
      have facts: "list_all (bound_envelope ?i) mid" "sv_artifact_headers t = artifacts_of mid"
        "trace t = base @ map Received mid @ [Received (CompletedEnvelope protocol_schema_identity r result)]"
        using assms moved_fields [OF m] that by (auto simp: running_def)
      show ?thesis
        using completion_ends [OF _ t facts]
        by (cases "complete_with_artifact_facts (recorded w) t r result req started p") auto
    qed
    show ?thesis
    proof (cases "envelope_schema_version v = protocol_schema_identity")
      case False
      with recv Inr t show ?thesis by (simp add: receive_request_envelope_def Let_def held_stops)
    next
      case True
      note heard = running_heard [OF assms m]
      show ?thesis
      proof (cases v)
        case (WorkerReady version worker_id)
        with heard True have "running st base ?i (mid @ [v]) t" by (simp add: bound_envelope_def)
        with recv Inr True WorkerReady show ?thesis
          by (auto simp: receive_request_envelope_def Let_def)
      next
        case (ProgressEnvelope version r' stage percent)
        show ?thesis
        proof (cases "r' = ?i")
          case same: True
          with heard True ProgressEnvelope have "running st base ?i (mid @ [v]) t"
            by (simp add: bound_envelope_def)
          with recv Inr True ProgressEnvelope same observed show ?thesis
            by (fastforce simp: receive_request_envelope_def Let_def)
        next
          case False
          with recv Inr True ProgressEnvelope t show ?thesis
            by (simp add: receive_request_envelope_def Let_def held_stops)
        qed
      next
        case (ArtifactEnvelope version header)
        show ?thesis
        proof (cases "ah_request_id header = ?i")
          case same: True
          with running_artifact [OF assms] m True ArtifactEnvelope
          have "running st base ?i (mid @ [v]) (record_artifact version header t)"
            by (simp add: bound_envelope_def)
          with recv Inr True ArtifactEnvelope same show ?thesis
            by (auto simp: receive_request_envelope_def Let_def)
        next
          case False
          with recv Inr True ArtifactEnvelope t show ?thesis
            by (simp add: receive_request_envelope_def Let_def held_stops)
        qed
      next
        case (CompletedEnvelope version r' result)
        with recv Inr True completed show ?thesis
          by (simp add: receive_request_envelope_def Let_def)
      next
        case (FailedEnvelope version r' code detail)
        with recv Inr True t show ?thesis
          using failed_ends [OF t, where base = base and i = ?i and w = w and p = p and f = "Some (code, detail)"]
          by (auto simp: receive_request_envelope_def Let_def held_stops case_prod_beta)
      qed (use recv Inr True t in \<open>simp_all add: receive_request_envelope_def Let_def held_stops\<close>)
    qed
  qed
qed

lemma request_step_polls:
  fixes w :: "('h, 's) worker"
  assumes "running st base (wr_request_id req) mid (fst x)"
  shows "request_poll st base (wr_request_id req) (request_step (recorded w) req started deadline x)"
proof -
  let ?i = "wr_request_id req"
  obtain s p where x: "x = (s, p)" by (cases x)
  obtain t flag where flag: "ask (wk_cancel_flag (recorded w)) s = (t, flag)"
    by (cases "ask (wk_cancel_flag (recorded w)) s")
  have t: "running st base ?i mid t"
    using running_moved [OF _ recorded_asks(2) [OF flag]] assms x by simp
  obtain t' now where t': "ask (wk_now (recorded w)) t = (t', now)"
    by (cases "ask (wk_now (recorded w)) t")
  show ?thesis
  proof (cases flag)
    case True
    have "held st t'" using running_moved [OF t recorded_asks(1) [OF t']] by (simp add: running_def)
    then have "request_poll st base ?i (map_option Inr (cancel_with_deadline (recorded w) t' ?i
        ''cancelled by host'' started d p))" for d
      using cancel_with_deadline_abandons abandoned_ended
      by (cases "cancel_with_deadline (recorded w) t' ?i ''cancelled by host'' started d p") fastforce+
    with x flag True t' show ?thesis by (simp add: request_step_def)
  next
    case False
    note poll = receive_polls [OF t, of w started deadline p]
    show ?thesis
    proof (cases "receive_request_envelope (recorded w) req started deadline (t, p)")
      case None
      with x flag False show ?thesis by (simp add: request_step_def)
    next
      case (Some r)
      show ?thesis
      proof (cases r)
        case (Inr z)
        with x flag False Some poll show ?thesis by (simp add: request_step_def)
      next
        case (Inl y)
        obtain u q where y: "y = (u, q)" by (cases y)
        with Inl Some poll obtain ms where u: "running st base ?i ms u" by auto
        obtain u' now where u': "ask (wk_now (recorded w)) u = (u', now)"
          by (cases "ask (wk_now (recorded w)) u")
        have "running st base ?i ms u'" using running_moved [OF u recorded_asks(1) [OF u']] .
        moreover from this have "held st u'" by (simp add: running_def)
        ultimately show ?thesis
          using x flag False Some Inl y u' by (auto simp: request_step_def held_stops)
      qed
    qed
  qed
qed

definition handshake_poll ::
  "'s option \<Rightarrow> string \<Rightarrow> (('h, 's) recording + ('h, 's) recording \<times> (supervisor_outcome + envelope)) option \<Rightarrow> bool"
where
  "handshake_poll st i r \<longleftrightarrow>
     (case r of
        None \<Rightarrow> True
      | Some (Inl s) \<Rightarrow> running st [] i [] s
      | Some (Inr (s, Inl out)) \<Rightarrow> abandoned st i s out
      | Some (Inr (s, Inr v)) \<Rightarrow> held st s \<and> trace s = [Received v] \<and> sv_artifact_headers s = [])"

lemma handshake_step_polls:
  assumes "running st [] i [] s"
  shows "handshake_poll st i (handshake_step (recorded w) i started deadline s)"
proof -
  obtain t now where t: "ask (wk_now (recorded w)) s = (t, now)"
    by (cases "ask (wk_now (recorded w)) s")
  have rt: "running st [] i [] t" using running_moved [OF assms recorded_asks(1) [OF t]] .
  then have ht: "held st t" by (simp add: running_def)
  obtain u r where u: "ask (wk_recv (recorded w) deadline) t = (u, r)"
    by (cases "ask (wk_recv (recorded w) deadline) t")
  have stop: "handshake_poll st i (case force_terminate_outcome (recorded w) a i started stage detail None of
      (s, out) \<Rightarrow> Some (Inr (s, Inl out)))" if "held st a" for a stage detail
    using that force_terminate_outcome_abandons [of w a i started stage detail None _ _ st]
    by (auto simp: handshake_poll_def split: prod.splits)
  show ?thesis
  proof (cases r)
    case (Inr v)
    have "moved [Received v] t u" using u Inr recorded_asks(11) by blast
    with rt stage_moved(1) [OF this _ ht] moved_fields [OF this] t u Inr ht show ?thesis
      by (simp add: handshake_step_def Let_def stop) (simp add: handshake_poll_def running_def)
  next
    case (Inl e)
    with u have m: "moved (received_events (Inl e)) t u" using recorded_asks(12) by blast
    have "held st u" using stage_moved(1) [OF m discards_answers(1) ht] .
    moreover have "running st [] i [] u" if "e \<noteq> Closed" using running_moved [OF rt] m that by simp
    ultimately show ?thesis using t u Inl ht
      by (cases e) (auto simp: handshake_step_def Let_def stop, auto simp: handshake_poll_def)
  qed
qed

section \<open>The lifecycle of a request\<close>

definition request_opening :: "worker_request \<Rightarrow> string \<Rightarrow> 's worker_event list" where
  "request_opening req worker_id =
     [Received (WorkerReady protocol_schema_identity worker_id), Sent (request_envelope req)]"

definition expects :: "string option \<Rightarrow> string \<Rightarrow> bool" where
  "expects expected worker_id \<longleftrightarrow> expected = None \<or> expected = Some worker_id"

lemma handshake_expected:
  "handshake_step (recorded w) i started deadline s = Some (Inr (s', Inr v)) \<Longrightarrow>
     sv_expected_worker_id s' = sv_expected_worker_id s"
  "handshake_step (recorded w) i started deadline s = Some (Inl s') \<Longrightarrow>
     sv_expected_worker_id s' = sv_expected_worker_id s"
  by (auto simp: handshake_step_def Let_def ask_def
      split: prod.splits sum.splits worker_error.splits if_splits)

lemma worker_ready_ends:
  fixes w :: "('h, 's) worker"
  assumes "consume_worker_ready (recorded w) s i started deadline = Some (s', out)"
    and "running st [] i [] s"
  shows "case out of
      Some o' \<Rightarrow> abandoned st i s' o'
    | None \<Rightarrow> (\<exists>worker_id. expects (sv_expected_worker_id s) worker_id \<and> held st s' \<and>
        sv_artifact_headers s' = [] \<and> trace s' = [Received (WorkerReady protocol_schema_identity worker_id)])"
proof -
  from assms(1) obtain t r where
    loop: "run_loop (handshake_step (recorded w) i started deadline) s = Some (t, r)"
    unfolding consume_worker_ready_def by (auto simp: Option.bind_eq_Some_conv)
  have "handshake_poll st i (Some (Inr (t, r))) \<and>
      (\<forall>v. snd (t, r) = Inr v \<longrightarrow> sv_expected_worker_id (fst (t, r)) = sv_expected_worker_id s)"
  proof (rule run_loop_result [OF loop, where
        I = "\<lambda>x. running st [] i [] x \<and> sv_expected_worker_id x = sv_expected_worker_id s"
        and Q = "\<lambda>z. handshake_poll st i (Some (Inr z)) \<and>
          (\<forall>v. snd z = Inr v \<longrightarrow> sv_expected_worker_id (fst z) = sv_expected_worker_id s)"])
    show "running st [] i [] s \<and> sv_expected_worker_id s = sv_expected_worker_id s"
      using assms(2) by blast
    fix x :: "('h, 's) recording"
    assume x: "running st [] i [] x \<and> sv_expected_worker_id x = sv_expected_worker_id s"
    note poll = handshake_step_polls [of st i x w started deadline]
    show "running st [] i [] y \<and> sv_expected_worker_id y = sv_expected_worker_id s"
      if "handshake_step (recorded w) i started deadline x = Some (Inl y)" for y
      using poll x that handshake_expected(2) [OF that] by (simp add: handshake_poll_def)
    show "handshake_poll st i (Some (Inr z)) \<and>
        (\<forall>v. snd z = Inr v \<longrightarrow> sv_expected_worker_id (fst z) = sv_expected_worker_id s)"
      if "handshake_step (recorded w) i started deadline x = Some (Inr z)" for z
      using poll x that handshake_expected(1) [of w i started deadline x "fst z"]
      by (cases z) auto
  qed
  then have t: "handshake_poll st i (Some (Inr (t, r)))"
    and expected: "\<And>v. r = Inr v \<Longrightarrow> sv_expected_worker_id t = sv_expected_worker_id s" by auto
  have stop: "\<exists>o'. out = Some o' \<and> abandoned st i s' o'"
    if "held st t" "(case force_terminate_outcome (recorded w) t i started stage detail None of
        (a, o') \<Rightarrow> Some (a, Some o')) = Some (s', out)" for stage detail
    using that force_terminate_outcome_abandons [of w t i started stage detail None _ _ st]
    by (auto split: prod.splits)
  show ?thesis
  proof (cases r)
    case (Inl o')
    with assms(1) loop t show ?thesis by (auto simp: consume_worker_ready_def handshake_poll_def)
  next
    case (Inr v)
    with t have held: "held st t" "trace t = [Received v]" "sv_artifact_headers t = []"
      by (auto simp: handshake_poll_def)
    show ?thesis
    proof (cases v)
      case (WorkerReady version worker_id)
      with assms(1) loop Inr held expected [OF Inr] show ?thesis
        by (auto simp: consume_worker_ready_def Let_def expects_def dest!: stop [OF held(1)]
            split: if_splits option.splits)
    qed (use assms(1) loop Inr in
      \<open>auto simp: consume_worker_ready_def Let_def dest!: stop [OF held(1)]\<close>)
  qed
qed

lemma request_ends:
  fixes w :: "('h, 's) worker"
  assumes "request_with_cancel_and_progress (recorded w) s req = Some (s', out)"
    and "running st [] (wr_request_id req) [] s"
  shows "\<exists>worker_id. expects (sv_expected_worker_id s) worker_id \<and>
    ended st (request_opening req worker_id) (wr_request_id req) s' out"
proof -
  let ?i = "wr_request_id req"
  have expectable: "\<exists>worker_id. expects (sv_expected_worker_id s) worker_id"
    by (cases "sv_expected_worker_id s") (auto simp: expects_def)
  have early: ?thesis if "abandoned st ?i s' out"
    using abandoned_ended [OF that] expectable by blast
  obtain s1 started where s1: "ask (wk_now (recorded w)) s = (s1, started)"
    by (cases "ask (wk_now (recorded w)) s")
  note m1 = recorded_asks(1) [OF s1]
  let ?deadline = "started + sv_request_grace s1"
  from assms(1) s1 obtain s2 ready where
    ready: "consume_worker_ready (recorded w) s1 ?i started ?deadline = Some (s2, ready)"
    unfolding request_with_cancel_and_progress_def by (auto simp: Let_def Option.bind_eq_Some_conv)
  note handshake = worker_ready_ends [OF ready running_moved [OF assms(2) m1]]
  show ?thesis
  proof (cases ready)
    case (Some o')
    with assms(1) s1 ready handshake show ?thesis
      by (intro early) (simp add: request_with_cancel_and_progress_def Let_def)
  next
    case None
    with handshake moved_fields(4) [OF m1] obtain worker_id where
      id: "expects (sv_expected_worker_id s) worker_id" and h2: "held st s2" "sv_artifact_headers s2 = []"
        "trace s2 = [Received (WorkerReady protocol_schema_identity worker_id)]"
      by auto
    obtain s3 now where s3: "ask (wk_now (recorded w)) s2 = (s3, now)"
      by (cases "ask (wk_now (recorded w)) s2")
    note m3 = recorded_asks(1) [OF s3]
    have h3: "held st s3" using stage_moved(1) [OF m3 _ h2(1)] by simp
    obtain s4 sent where s4: "ask (wk_send (recorded w) (request_envelope req)) s3 = (s4, sent)"
      by (cases "ask (wk_send (recorded w) (request_envelope req)) s3")
    note m4 = recorded_asks(7) [OF s4]
    have h4: "held st s4" using stage_moved(1) [OF m4 _ h3] by simp
    show ?thesis
    proof (cases "?deadline \<le> now \<or> (\<exists>e. sent = Inl e)")
      case True
      with assms(1) s1 ready None s3 s4 have "abandoned st ?i s' out"
        using force_terminate_outcome_abandons [OF _ disjI1 [OF h3]]
          force_terminate_outcome_abandons [OF _ disjI1 [OF h4]]
        by (auto simp: request_with_cancel_and_progress_def Let_def split: if_splits)
      then show ?thesis by (rule early)
    next
      case False
      with assms(1) s1 ready None s3 s4 have
        loop: "run_loop (request_step (recorded w) req started ?deadline) (s4, None) = Some (s', out)"
        by (cases sent) (auto simp: request_with_cancel_and_progress_def Let_def)
      have start: "running st (request_opening req worker_id) ?i [] s4"
        using h4 moved_fields [OF m3] moved_fields [OF m4] h2(2,3) False
        by (cases sent) (simp_all add: running_def request_opening_def)
      have "ended st (request_opening req worker_id) ?i (fst (s', out)) (snd (s', out))"
      proof (rule run_loop_result [OF loop, where
            I = "\<lambda>x. \<exists>mid. running st (request_opening req worker_id) ?i mid (fst x)"])
        show "\<exists>mid. running st (request_opening req worker_id) ?i mid (fst (s4, None))" using start by auto
        fix x :: "('h, 's) recording \<times> progress option"
        assume "\<exists>mid. running st (request_opening req worker_id) ?i mid (fst x)"
        then obtain mid where "running st (request_opening req worker_id) ?i mid (fst x)" by blast
        note poll = request_step_polls [OF this, of w started ?deadline]
        show "\<exists>mid. running st (request_opening req worker_id) ?i mid (fst y)"
          if "request_step (recorded w) req started ?deadline x = Some (Inl y)" for y
          using poll that by simp
        show "ended st (request_opening req worker_id) ?i (fst z) (snd z)"
          if "request_step (recorded w) req started ?deadline x = Some (Inr z)" for z
          using poll that by simp
      qed
      with id show ?thesis by auto
    qed
  qed
qed

definition fresh_supervisor ::
  "nat \<Rightarrow> grace_policy \<Rightarrow> string option \<Rightarrow> 'h \<Rightarrow> 's option \<Rightarrow> ('h \<times> 's worker_event list, 's) supervisor" where
  "fresh_supervisor grace policy expected host stage =
     (new_supervisor grace (host, []) stage)\<lparr>sv_cancellation_grace := policy, sv_expected_worker_id := expected\<rparr>"

lemma fresh_running: "running stage [] i [] (fresh_supervisor grace policy expected host stage)"
  by (simp add: fresh_supervisor_def new_supervisor_def running_def held_def trace_def)

end
