(* ===== verification/SupervisorTime.thy ===== *)
theory SupervisorTime
  imports SupervisorProps
begin

text \<open>
  A request to a worker returns.  The clock of the worker never goes back, and a receive that leaves
  it standing before the deadline takes some of the finitely many inputs that have arrived.
\<close>

section \<open>Clocks\<close>

text \<open>The time of a host is its clock with a count of the inputs that wait to be received.\<close>

definition later :: "('h \<Rightarrow> nat \<times> nat) \<Rightarrow> 'h \<Rightarrow> 'h \<Rightarrow> bool" where
  "later time h h' \<longleftrightarrow>
     fst (time h) < fst (time h') \<or> fst (time h) = fst (time h') \<and> snd (time h') \<le> snd (time h)"

definition strictly_later :: "('h \<Rightarrow> nat \<times> nat) \<Rightarrow> 'h \<Rightarrow> 'h \<Rightarrow> bool" where
  "strictly_later time h h' \<longleftrightarrow>
     fst (time h) < fst (time h') \<or> fst (time h) = fst (time h') \<and> snd (time h') < snd (time h)"

text \<open>What a receive with a deadline does.\<close>

definition waited :: "('h \<Rightarrow> nat \<times> nat) \<Rightarrow> nat \<Rightarrow> 'h \<Rightarrow> 'h \<Rightarrow> bool" where
  "waited time deadline h h' \<longleftrightarrow>
     strictly_later time h h' \<or> later time h h' \<and> deadline \<le> fst (time h')"

text \<open>The answers of a receive after which the supervisor goes on waiting.\<close>

definition keeps_waiting :: "worker_error + envelope \<Rightarrow> bool" where
  "keeps_waiting r = (case r of Inl e \<Rightarrow> e = TimedOut | Inr _ \<Rightarrow> True)"

definition ticking :: "('h \<Rightarrow> nat \<times> nat) \<Rightarrow> ('h, 's) worker \<Rightarrow> bool" where
  "ticking time w \<longleftrightarrow>
     (\<forall>h. later time h (fst (wk_now w h)) \<and> snd (wk_now w h) = fst (time (fst (wk_now w h)))) \<and>
     (\<forall>h deadline. keeps_waiting (snd (wk_recv w deadline h)) \<longrightarrow>
       waited time deadline h (fst (wk_recv w deadline h))) \<and>
     (\<forall>h. later time h (fst (wk_cancel_flag w h))) \<and>
     (\<forall>h p. later time h (wk_on_progress w p h)) \<and>
     (\<forall>h stage. later time h (wk_discard w stage h)) \<and>
     (\<forall>h v. later time h (fst (wk_send w v h))) \<and>
     (\<forall>h i reason. later time h (fst (wk_cancel w i reason h))) \<and>
     (\<forall>h. later time h (fst (wk_terminate w h))) \<and>
     (\<forall>h. later time h (fst (wk_finish_terminal w h))) \<and>
     (\<forall>h. later time h (fst (wk_stream_overflowed w h)))"

lemma later_refl [simp]: "later time h h"
  by (simp add: later_def)

lemma later_trans: "later time a b \<Longrightarrow> later time b c \<Longrightarrow> later time a c"
  by (auto simp: later_def)

lemma strictly_later_trans:
  "strictly_later time a b \<Longrightarrow> later time b c \<Longrightarrow> strictly_later time a c"
  "later time a b \<Longrightarrow> strictly_later time b c \<Longrightarrow> strictly_later time a c"
  by (auto simp: later_def strictly_later_def)

lemma waited_trans:
  "waited time deadline a b \<Longrightarrow> later time b c \<Longrightarrow> waited time deadline a c"
  "later time a b \<Longrightarrow> waited time deadline b c \<Longrightarrow> waited time deadline a c"
  by (auto simp: waited_def later_def strictly_later_def)

definition waiting :: "('h \<Rightarrow> nat \<times> nat) \<Rightarrow> nat \<Rightarrow> ('h \<times> 'h) set" where
  "waiting time deadline =
     inv_image (less_than <*lex*> less_than) (\<lambda>h. (deadline - fst (time h), snd (time h)))"

lemma waiting_wf: "wf (waiting time deadline)"
  by (simp add: waiting_def wf_inv_image wf_lex_prod)

lemma waiting_less:
  "waited time deadline h h' \<Longrightarrow> fst (time h) < deadline \<or> fst (time h') < deadline \<Longrightarrow>
     (h', h) \<in> waiting time deadline"
  by (auto simp: waiting_def waited_def strictly_later_def later_def)

lemma run_loop_ends:
  assumes "wf R" and "\<And>x. \<exists>r. step x = Some r \<and> (\<forall>y. r = Inl y \<longrightarrow> (f y, f x) \<in> R)"
  shows "\<exists>z. run_loop step x = Some z"
proof (induction x rule: wf_induct [OF wf_inv_image [OF assms(1), of f]])
  case (1 x)
  from assms(2) [of x] obtain r where
    r: "step x = Some r" "\<And>y. r = Inl y \<Longrightarrow> (f y, f x) \<in> R" by blast
  show ?case
  proof (cases r)
    case (Inl y)
    with r 1 show ?thesis by (simp add: run_loop.simps)
  next
    case (Inr z)
    with r show ?thesis by (simp add: run_loop.simps)
  qed
qed

section \<open>The waits of a request\<close>

lemma asked_later:
  assumes "ticking time w"
  shows "ask (wk_now w) s = (s', now) \<Longrightarrow>
      later time (sv_host s) (sv_host s') \<and> now = fst (time (sv_host s'))"
    "ask (wk_recv w deadline) s = (s', received) \<Longrightarrow> keeps_waiting received \<Longrightarrow>
      waited time deadline (sv_host s) (sv_host s')"
    "ask (wk_cancel_flag w) s = (s', flag) \<Longrightarrow> later time (sv_host s) (sv_host s')"
    "ask (wk_stream_overflowed w) s = (s', overflow) \<Longrightarrow> later time (sv_host s) (sv_host s')"
  using assms
  by (auto simp: ask_def ticking_def split: prod.splits)
    (metis fst_conv snd_conv)+


lemma waiting_round:
  assumes "ticking time w" and "waited time deadline (sv_host s) (sv_host u)"
    and "ask (wk_now w) u = (v, now)" "now < deadline" and "later time (sv_host r) (sv_host s)"
  shows "(sv_host v, sv_host r) \<in> waiting time deadline"
proof (rule waiting_less)
  note now = asked_later(1) [OF assms(1,3)]
  show "waited time deadline (sv_host r) (sv_host v)"
    using waited_trans(1) [OF waited_trans(2) [OF assms(5,2)]] now by blast
  show "fst (time (sv_host r)) < deadline \<or> fst (time (sv_host v)) < deadline"
    using now assms(4) by blast
qed

lemma drain_step_ends:
  assumes "ticking time w"
  shows "\<exists>r. drain_step w i started prefix p deadline s = Some r \<and>
    (\<forall>y. r = Inl y \<longrightarrow> (sv_host y, sv_host s) \<in> waiting time deadline)"
proof -
  obtain t overflow where t: "ask (wk_stream_overflowed w) s = (t, overflow)"
    by (cases "ask (wk_stream_overflowed w) s")
  obtain u received where u: "ask (wk_recv w deadline) t = (u, received)"
    by (cases "ask (wk_recv w deadline) t")
  obtain v now where v: "ask (wk_now w) u = (v, now)" by (cases "ask (wk_now w) u")
  have "now < deadline \<Longrightarrow> received = Inl TimedOut \<Longrightarrow> (sv_host v, sv_host s) \<in> waiting time deadline"
    using waiting_round [OF assms asked_later(2) [OF assms u] v _ asked_later(4) [OF assms t]]
    by (simp add: keeps_waiting_def)
  with t u v show ?thesis
    by (cases overflow; cases received)
      (auto simp: drain_step_def Let_def split: prod.splits worker_error.splits)
qed

lemma verify_clean_exit_ends:
  assumes "ticking time w"
  shows "\<exists>r. verify_clean_exit w s i started prefix p = Some r"
proof -
  obtain t now where t: "ask (wk_now w) s = (t, now)" by (cases "ask (wk_now w) s")
  obtain z where "run_loop (drain_step w i started prefix p (now + drain_deadline)) t = Some z"
    using run_loop_ends [where step = "drain_step w i started prefix p (now + drain_deadline)" and f = sv_host,
        OF waiting_wf drain_step_ends [OF assms]] by blast
  with t show ?thesis
    by (cases z) (auto simp: verify_clean_exit_def verify_no_trailing_frames_def
        split: option.splits prod.splits)
qed

lemma acknowledge_cancellation_ends:
  assumes "ticking time w"
  shows "\<exists>r. acknowledge_cancellation w s i reason started p = Some r"
proof -
  obtain t ended where "ask (wk_finish_terminal w) (discard_stage w s) = (t, ended)"
    by (cases "ask (wk_finish_terminal w) (discard_stage w s)")
  moreover obtain z where "verify_clean_exit w t i started ''cancelled_reap'' p = Some z"
    using verify_clean_exit_ends [OF assms] by blast
  ultimately show ?thesis
    by (cases ended; cases z) (auto simp: acknowledge_cancellation_def split: option.splits prod.splits)
qed

lemma complete_with_artifact_facts_ends:
  assumes "ticking time w"
  shows "\<exists>r. complete_with_artifact_facts w s i result req started p = Some r"
proof -
  obtain t ended where "ask (wk_finish_terminal w) s = (t, ended)"
    by (cases "ask (wk_finish_terminal w) s")
  moreover obtain z where "verify_clean_exit w t i started ''completed_reap'' p = Some z"
    using verify_clean_exit_ends [OF assms] by blast
  ultimately show ?thesis
    by (cases ended; cases z)
      (auto simp: complete_with_artifact_facts_def Let_def split: option.splits prod.splits)
qed


section \<open>Every round returns\<close>

lemma ack_only_from_cancelled:
  "(\<And>version r reason. v \<noteq> CancelledEnvelope version r reason) \<Longrightarrow>
     \<exists>d. validate_cancellation_ack v i = Inl d"
  by (cases v) (auto simp: validate_cancellation_ack_def)

definition round_ends :: "('h \<Rightarrow> nat \<times> nat) \<Rightarrow> nat \<Rightarrow> ('h, 's) supervisor \<Rightarrow>
    (('h, 's) supervisor \<times> progress option + 'b) option \<Rightarrow> bool" where
  "round_ends time deadline s r \<longleftrightarrow>
     (\<exists>z. r = Some z \<and> (\<forall>y. z = Inl y \<longrightarrow> waited time deadline (sv_host s) (sv_host (fst y))))"

lemma round_ended [simp]:
  "round_ends time deadline s (Some (Inr z))"
  "round_ends time deadline s (Some (Inl y)) \<longleftrightarrow> waited time deadline (sv_host s) (sv_host (fst y))"
  "round_ends time deadline s (map_option Inr m) \<longleftrightarrow> (\<exists>z. m = Some z)"
  "\<not> round_ends time deadline s None"
  by (cases y, auto simp: round_ends_def)+

lemma observed_later:
  assumes "ticking time w" and "waited time deadline h (sv_host s)"
  shows "waited time deadline h (wk_on_progress w p (sv_host s))"
  using assms waited_trans(1) [OF assms(2)] by (auto simp: ticking_def)

lemma progress_later:
  "ticking time w \<Longrightarrow> ask (wk_recv w deadline) s = (t, Inr v) \<Longrightarrow>
     waited time deadline (sv_host s) (wk_on_progress w p (sv_host t))"
  by (rule observed_later) (auto dest: asked_later simp: keeps_waiting_def)

lemma cancel_receive_ends:
  assumes "ticking time w"
  shows "round_ends time deadline s (cancel_receive w i started deadline (s, p))"
proof -
  obtain t received where t: "ask (wk_recv w deadline) s = (t, received)"
    by (cases "ask (wk_recv w deadline) s")
  note later = asked_later(2) [OF assms t]
  show ?thesis
  proof (cases received)
    case (Inl e)
    with t later show ?thesis by (cases e) (simp_all add: cancel_receive_def Let_def keeps_waiting_def)
  next
    case (Inr v)
    show ?thesis
    proof (cases "\<exists>version r reason. v = CancelledEnvelope version r reason")
      case True
      with t Inr acknowledge_cancellation_ends [OF assms] show ?thesis
        by (auto simp: cancel_receive_def Let_def split: sum.splits)
    next
      case False
      then obtain d where "validate_cancellation_ack v i = Inl d"
        using ack_only_from_cancelled by blast
      with t Inr later False progress_later [OF assms t [unfolded Inr]] show ?thesis
        by (cases v) (auto simp: cancel_receive_def Let_def keeps_waiting_def)
    qed
  qed
qed

lemma receive_request_envelope_ends:
  assumes "ticking time w"
  shows "round_ends time deadline s (receive_request_envelope w req started deadline (s, p))"
proof -
  obtain t received where t: "ask (wk_recv w deadline) s = (t, received)"
    by (cases "ask (wk_recv w deadline) s")
  note later = asked_later(2) [OF assms t]
  show ?thesis
  proof (cases received)
    case (Inl e)
    with t later show ?thesis by (cases e) (simp_all add: receive_request_envelope_def Let_def keeps_waiting_def)
  next
    case (Inr v)
    with t later progress_later [OF assms t [unfolded Inr]] complete_with_artifact_facts_ends [OF assms]
    show ?thesis
      by (cases v)
        (auto simp: receive_request_envelope_def Let_def record_artifact_def keeps_waiting_def split: prod.splits)
  qed
qed

text \<open>A round that does not end and leaves the deadline ahead has used some of the time.\<close>

lemma round_then_clock:
  assumes "ticking time w" and "round_ends time deadline s r" and "later time (sv_host s0) (sv_host s)"
  shows "\<exists>z. Option.bind r (\<lambda>r. case r of
      Inr z \<Rightarrow> Some (Inr z)
    | Inl (t, p) \<Rightarrow>
        (case ask (wk_now w) t of (u, now) \<Rightarrow>
         if deadline \<le> now then Some (Inr (over u p)) else Some (Inl (u, p)))) = Some z \<and>
    (\<forall>y. z = Inl y \<longrightarrow> (sv_host (fst y), sv_host s0) \<in> waiting time deadline)"
proof -
  from assms(2) obtain x where
    r: "r = Some x" and x: "\<And>y. x = Inl y \<Longrightarrow> waited time deadline (sv_host s) (sv_host (fst y))"
    by (auto simp: round_ends_def)
  show ?thesis
  proof (cases x)
    case (Inr z)
    with r show ?thesis by simp
  next
    case (Inl y)
    obtain t p where y: "y = (t, p)" by (cases y)
    obtain u now where u: "ask (wk_now w) t = (u, now)" by (cases "ask (wk_now w) t")
    have "(sv_host u, sv_host s0) \<in> waiting time deadline" if "\<not> deadline \<le> now"
      using waiting_round [OF assms(1) _ u _ assms(3)] x [OF Inl] y that by simp
    with r Inl y u show ?thesis by simp
  qed
qed

lemma cancel_with_deadline_ends:
  assumes "ticking time w"
  shows "\<exists>z. cancel_with_deadline w s i reason started deadline p = Some z"
proof -
  have "\<exists>z. run_loop (cancel_step w i started deadline) x = Some z" for x
  proof (rule run_loop_ends [OF waiting_wf, where f = "\<lambda>x. sv_host (fst x)"])
    show "\<exists>r. cancel_step w i started deadline x = Some r \<and>
        (\<forall>y. r = Inl y \<longrightarrow> (sv_host (fst y), sv_host (fst x)) \<in> waiting time deadline)" for x
      using round_then_clock [OF assms cancel_receive_ends [OF assms] later_refl]
      unfolding cancel_step_def by (cases x) simp
  qed
  then show ?thesis by (auto simp: cancel_with_deadline_def split: prod.splits sum.splits)
qed

lemma request_step_ends:
  assumes "ticking time w"
  shows "\<exists>r. request_step w req started deadline x = Some r \<and>
    (\<forall>y. r = Inl y \<longrightarrow> (sv_host (fst y), sv_host (fst x)) \<in> waiting time deadline)"
proof -
  obtain s p where x: "x = (s, p)" by (cases x)
  obtain t flag where t: "ask (wk_cancel_flag w) s = (t, flag)" by (cases "ask (wk_cancel_flag w) s")
  note later = asked_later(3) [OF assms t]
  show ?thesis
  proof (cases flag)
    case True
    obtain u now where u: "ask (wk_now w) t = (u, now)" by (cases "ask (wk_now w) t")
    obtain z where z: "cancel_with_deadline w u (wr_request_id req) ''cancelled by host'' started
        (now + grace_for_operation (sv_cancellation_grace u) (wr_command_id req)) p = Some z"
      using cancel_with_deadline_ends [OF assms] by blast
    from True have flag: "flag = True" by simp
    show ?thesis
      unfolding request_step_def x prod.case t flag bool.case u z by simp
  next
    case False
    then have flag: "flag = False" by simp
    show ?thesis
      using round_then_clock [OF assms receive_request_envelope_ends [OF assms] later,
          where over = "\<lambda>u p. force_terminate_outcome w u (wr_request_id req) started
            ''grace_exceeded'' None p"]
      unfolding request_step_def x prod.case t flag bool.case fst_conv .
  qed
qed


section \<open>A request returns\<close>

lemma consume_worker_ready_ends:
  fixes w :: "('a, 'b) worker"
  assumes "ticking time w"
  shows "\<exists>r. consume_worker_ready w s i started deadline = Some r"
proof -
  have "\<exists>z. run_loop (handshake_step w i started deadline) s = Some z"
  proof (rule run_loop_ends [OF waiting_wf, where f = sv_host])
    fix s :: "('a, 'b) supervisor"
    obtain t now where t: "ask (wk_now w) s = (t, now)" by (cases "ask (wk_now w) s")
    obtain u received where u: "ask (wk_recv w deadline) t = (u, received)"
      by (cases "ask (wk_recv w deadline) t")
    note early = asked_later(1) [OF assms t] and late = asked_later(2) [OF assms u]
    have "(sv_host u, sv_host s) \<in> waiting time deadline" if "\<not> deadline \<le> now" "received = Inl TimedOut"
      using waiting_less waited_trans(2) [OF conjunct1 [OF early] late] early that
      by (fastforce simp: later_def keeps_waiting_def)
    with t u show "\<exists>r. handshake_step w i started deadline s = Some r \<and>
        (\<forall>y. r = Inl y \<longrightarrow> (sv_host y, sv_host s) \<in> waiting time deadline)"
      by (cases received)
        (auto simp: handshake_step_def Let_def split: prod.splits worker_error.splits)
  qed
  then obtain t r where loop: "run_loop (handshake_step w i started deadline) s = Some (t, r)" by auto
  show ?thesis
  proof (cases r)
    case (Inl outcome)
    with loop show ?thesis by (simp add: consume_worker_ready_def)
  next
    case (Inr v)
    with loop show ?thesis
      by (cases v) (auto simp: consume_worker_ready_def Let_def split: prod.splits option.splits)
  qed
qed

section \<open>Scripted workers\<close>

text \<open>
  A worker that answers a script of envelopes and errors, one a tick, then times out; the host
  cancels at a given time.
\<close>

type_synonym script = "nat \<times> nat \<times> (worker_error + envelope) list"

fun scripted_recv :: "nat \<Rightarrow> script \<Rightarrow> script \<times> (worker_error + envelope)" where
  "scripted_recv deadline (now, cancel_at, []) = ((max (Suc now) deadline, cancel_at, []), Inl TimedOut)"
| "scripted_recv deadline (now, cancel_at, r # rs) = ((Suc now, cancel_at, rs), r)"

definition scripted :: "(script, string) worker" where
  "scripted =
     \<lparr>wk_now = (\<lambda>h. (h, fst h)), wk_cancel_flag = (\<lambda>h. (h, fst (snd h) \<le> fst h)),
      wk_on_progress = (\<lambda>_ h. h), wk_discard = (\<lambda>_ h. h), wk_send = (\<lambda>_ h. (h, Inr ())),
      wk_recv = scripted_recv, wk_cancel = (\<lambda>_ _ h. (h, Inr ())),
      wk_terminate = (\<lambda>h. (h, Inr ())), wk_finish_terminal = (\<lambda>h. (h, Inr ())),
      wk_exit_signal = (\<lambda>h. (h, None)), wk_exit_code = (\<lambda>h. (h, Some 0)),
      wk_stderr_tail = (\<lambda>h. (h, '''')), wk_stream_overflowed = (\<lambda>h. (h, None))\<rparr>"

definition sample_request :: worker_request where
  "sample_request =
     \<lparr>wr_request_id = ''r1'', wr_command_id = ''project'', wr_args = JObject [], wr_revision_id = ''v1''\<rparr>"

definition sample_run :: "(worker_error + envelope) list \<Rightarrow> ((script, string) recording \<times> supervisor_outcome) option" where
  "sample_run answers =
     request_with_cancel_and_progress (recorded scripted)
       (fresh_supervisor 1000 (new_grace_policy 100) (Some ''w1'') (0, 500, answers) (Some ''stage''))
       sample_request"

definition ready_answer :: "worker_error + envelope" where
  "ready_answer = Inr (WorkerReady protocol_schema_identity ''w1'')"

definition completed_answer :: "string \<Rightarrow> worker_error + envelope" where
  "completed_answer i = Inr (CompletedEnvelope protocol_schema_identity i (JObject []))"

text \<open>Evaluation of a run: a round at a time, the rest of the run left alone.\<close>

lemma bind_weak: "m = m' \<Longrightarrow> Option.bind m f = Option.bind m' f"
  by simp

lemma run_loop_round:
  "step x = Some (Inr z) \<Longrightarrow> run_loop step x = Some z"
  "step x = Some (Inl y) \<Longrightarrow> run_loop step x = run_loop step y"
  by (simp_all add: run_loop.simps)

lemmas run_simps =
  Let_def run_loop_round sample_run_def sample_request_def ready_answer_def completed_answer_def
  request_with_cancel_and_progress_def consume_worker_ready_def handshake_step_def
  request_step_def receive_request_envelope_def complete_with_artifact_facts_def
  verify_clean_exit_def verify_no_trailing_frames_def drain_step_def drain_deadline_def
  record_artifact_def force_terminate_outcome_def force_terminate_def forced_record_def
  make_record_def taken_context_def discard_stage_def cooperative_termination_outcome_def
  ask_def noted_def recorded_def scripted_def fresh_supervisor_def new_supervisor_def
  new_grace_policy_def request_envelope_def trace_def

lemma sample_completes:
  "\<exists>s. sample_run [ready_answer, completed_answer ''r1'', Inl Closed] =
     Some (s, Completed ''r1'' (JObject []) [])"
  by (simp add: run_simps cong: bind_weak)

lemma sample_misbound:
  "\<exists>s record. sample_run [ready_answer, completed_answer ''r2''] = Some (s, ForceTerminated record)"
  by (simp add: run_simps cong: bind_weak)

section \<open>The claims\<close>

text \<open>
  C32.  A request completes only when the worker identified itself as expected under the protocol
  version, was sent the request once, with success, and nothing else, answered with frames of the
  same version bound to this request alone, ended with its completion, and was finalized with
  success.  After that its stream was polled to its end: the worker's output stayed within bounds
  at every poll and once more at the end, and no further frame came.  The staged artifacts reported
  are those the frames announced, in order, and the stage can be taken.
\<close>

theorem completion_is_bound:
  assumes "request_with_cancel_and_progress (recorded w)
      (fresh_supervisor grace policy expected host stage) req = Some (s, Completed r result headers)"
  shows "r = wr_request_id req \<and> take_stage s = (s\<lparr>sv_stage := None\<rparr>, stage) \<and>
    (\<exists>worker_id frames. expects expected worker_id \<and> list_all (bound_envelope r) frames \<and>
      headers = artifacts_of frames \<and>
      (\<exists>n. trace s = request_opening req worker_id @ map Received frames @
        [Received (CompletedEnvelope protocol_schema_identity r result), EndRequested, Reaped] @
        replicate (Suc n) WithinBounds @ [StreamClosed, WithinBounds]))"
  using request_ends [OF assms fresh_running]
  by (auto simp: ended_def completed_run_def drain_events_def fresh_supervisor_def new_supervisor_def
      simp del: replicate_Suc)

text \<open>
  C33.  Every other end (a refusal, a violation of the protocol, a timeout, an overflow, a
  cancellation) discards the stage, once, offers none to take, reports no artifact, has asked the
  worker to terminate or to be reaped, and is reported for this request.  It counts as acknowledged
  only when the host asked for the cancellation and the worker answered for this request, with a
  reason.
\<close>

theorem nothing_kept_without_completion:
  assumes "request_with_cancel_and_progress (recorded w)
      (fresh_supervisor grace policy expected host stage) req = Some (s, out)"
    and "\<And>r result headers. out \<noteq> Completed r result headers"
  shows "take_stage s = (s, None) \<and> sv_stage s = None \<and> sv_artifact_headers s = [] \<and>
    discards (trace s) = (case stage of None \<Rightarrow> [] | Some st \<Rightarrow> [st]) \<and> EndRequested \<in> set (trace s) \<and>
    (case out of
       Completed _ _ _ \<Rightarrow> False
     | ForceTerminated record \<Rightarrow> tr_request_id record = wr_request_id req
     | Acknowledged a \<Rightarrow> ak_request_id a = wr_request_id req \<and> \<not> is_blank (ak_reason a) \<and>
         (\<exists>reason. CancelSent (wr_request_id req) reason \<in> set (trace s)) \<and>
         Received (CancelledEnvelope protocol_schema_identity (wr_request_id req) (ak_reason a)) \<in> set (trace s))"
proof -
  from request_ends [OF assms(1) fresh_running] obtain base where
    "ended stage base (wr_request_id req) s out" by blast
  with assms(2) have "abandoned stage (wr_request_id req) s out"
    by (cases out) (auto simp: ended_def)
  then show ?thesis by (auto simp: abandoned_def gone_def take_stage_def)
qed

theorem completion_is_bound_witness:
  "\<exists>s. sample_run [ready_answer, completed_answer ''r1'', Inl Closed] =
       Some (s, Completed ''r1'' (JObject []) []) \<and>
     take_stage s = (s\<lparr>sv_stage := None\<rparr>, Some ''stage'')"
proof -
  from sample_completes obtain s where
    s: "sample_run [ready_answer, completed_answer ''r1'', Inl Closed] =
      Some (s, Completed ''r1'' (JObject []) [])" by blast
  from s completion_is_bound [OF s [unfolded sample_run_def]] show ?thesis by blast
qed

theorem nothing_kept_without_completion_witness:
  "\<exists>s record. sample_run [ready_answer, completed_answer ''r2''] = Some (s, ForceTerminated record) \<and>
     take_stage s = (s, None) \<and> discards (trace s) = [''stage'']"
proof -
  from sample_misbound obtain s rc where
    s: "sample_run [ready_answer, completed_answer ''r2''] = Some (s, ForceTerminated rc)" by blast
  have "take_stage s = (s, None) \<and> discards (trace s) = [''stage'']"
    using nothing_kept_without_completion [OF s [unfolded sample_run_def]] by simp
  with s show ?thesis by blast
qed


text \<open>
  A worker that acknowledges the cancellation and then dies by a signal is reported as having
  acknowledged it: the exit status is not looked at.
\<close>

definition killed_run :: "((script, string) recording \<times> supervisor_outcome) option" where
  "killed_run =
     request_with_cancel_and_progress (recorded (scripted\<lparr>wk_exit_signal := \<lambda>h. (h, Some 9)\<rparr>))
       (fresh_supervisor 1000 (new_grace_policy 100) (Some ''w1'')
          (0, 0, [ready_answer, Inr (CancelledEnvelope protocol_schema_identity ''r1'' ''stopped''), Inl Closed])
          (Some ''stage''))
       sample_request"

lemma signalled_worker_acknowledges:
  "\<exists>s a. killed_run = Some (s, Acknowledged a) \<and> ak_exit_signal a = Some 9"
proof -
  have "validate_cancellation_ack (CancelledEnvelope protocol_schema_identity ''r1'' ''stopped'') ''r1'' =
      Inr (''r1'', ''stopped'')"
    by code_simp
  then show ?thesis
    by (simp add: killed_run_def run_simps cancel_with_deadline_def cancel_step_def cancel_receive_def
        acknowledge_cancellation_def grace_for_operation_def cong: bind_weak)
qed

end
