(* ===== verification/FrameProps.thy ===== *)
theory FrameProps
  imports Protocol "HOL-Library.Sublist"
begin

text \<open>
  The frame parser against its specification: the envelopes it yields and the bytes it keeps are a
  function of the concatenated input, however the stream is cut into chunks; its buffer and its
  error messages are bounded; and what the encoder wrote comes back.
\<close>

section \<open>Lines of a stream\<close>

definition frame_lines :: "string \<Rightarrow> string list" where
  "frame_lines s = filter (\<lambda>l. l \<noteq> []) (butlast (split_at_char line_feed s))"

definition frame_rest :: "string \<Rightarrow> string" where
  "frame_rest s = last (split_at_char line_feed s)"

fun decode_frames :: "frame_codecs \<Rightarrow> string list \<Rightarrow> frame_error + envelope list" where
  "decode_frames cd [] = Inr []"
| "decode_frames cd (l # ls) =
     and_then (decode_frame cd l) (\<lambda>v. and_then (decode_frames cd ls) (\<lambda>vs. Inr (v # vs)))"

lemma split_once_None: "split_once c s = None \<longleftrightarrow> c \<notin> set s"
  by (induction s) auto

lemma split_once_Some: "split_once c s = Some (a, b) \<longleftrightarrow> s = a @ c # b \<and> c \<notin> set a"
proof (induction s arbitrary: a)
  case Nil
  then show ?case by simp
next
  case (Cons x xs)
  then show ?case by (cases a) auto
qed

lemma lines_free: "line_feed \<notin> set s \<Longrightarrow> frame_lines s = [] \<and> frame_rest s = s"
  by (simp add: frame_lines_def frame_rest_def split_at_char_free)

lemma lines_line:
  assumes "line_feed \<notin> set l"
  shows "frame_lines (l @ line_feed # s) = (if l = [] then [] else [l]) @ frame_lines s"
    "frame_rest (l @ line_feed # s) = frame_rest s"
  by (simp_all add: frame_lines_def frame_rest_def split_at_char_line [OF assms])

lemma rest_free: "line_feed \<notin> set (frame_rest s)"
  unfolding frame_rest_def
  by (rule split_at_char_pieces [of _ line_feed s]) (simp add: last_in_set)

lemma rest_suffix: "\<exists>t. s = t @ frame_rest s"
proof (induction "length s" arbitrary: s rule: less_induct)
  case less
  show ?case
  proof (cases "split_once line_feed s")
    case None
    then have "frame_rest s = s" using lines_free split_once_None by blast
    then show ?thesis by simp
  next
    case (Some p)
    then obtain l r where s: "s = l @ line_feed # r" "line_feed \<notin> set l"
      by (cases p) (auto simp: split_once_Some)
    with less.hyps [of r] obtain t where "r = t @ frame_rest r" by auto
    with s lines_line(2) [of l r] show ?thesis by (metis append_Cons append_assoc)
  qed
qed

lemma lines_append:
  "frame_lines (s @ t) = frame_lines s @ frame_lines (frame_rest s @ t) \<and>
   frame_rest (s @ t) = frame_rest (frame_rest s @ t)"
proof (induction "length s" arbitrary: s rule: less_induct)
  case less
  show ?case
  proof (cases "split_once line_feed s")
    case None
    then show ?thesis using lines_free [of s] by (simp add: split_once_None)
  next
    case (Some p)
    then obtain l r where s: "s = l @ line_feed # r" "line_feed \<notin> set l"
      by (cases p) (auto simp: split_once_Some)
    with less.hyps [of r] show ?thesis by (simp add: lines_line)
  qed
qed

lemma decode_frames_append:
  "decode_frames cd (ls @ ks) =
     and_then (decode_frames cd ls) (\<lambda>vs. and_then (decode_frames cd ks) (\<lambda>ws. Inr (vs @ ws)))"
proof (induction ls)
  case Nil
  show ?case by (cases "decode_frames cd ks") auto
next
  case (Cons l ls)
  then show ?case
    by (cases "decode_frame cd l"; cases "decode_frames cd ls"; cases "decode_frames cd ks") auto
qed

lemma drain_line:
  assumes "line_feed \<notin> set l"
  shows "drain_frames cd (l @ line_feed # r) vs =
    (if l = [] then drain_frames cd r vs
     else case decode_frame cd l of Inl e \<Rightarrow> ([], Inl e) | Inr v \<Rightarrow> drain_frames cd r (vs @ [v]))"
proof -
  have "split_once line_feed (l @ line_feed # r) = Some (l, r)"
    using assms by (simp add: split_once_Some)
  then show ?thesis by (simp add: drain_frames.simps [of cd "l @ line_feed # r"])
qed

lemma drain_frames_spec:
  "drain_frames cd s vs =
     (case decode_frames cd (frame_lines s) of
        Inl e \<Rightarrow> ([], Inl e) | Inr ws \<Rightarrow> (frame_rest s, Inr (vs @ ws)))"
proof (induction "length s" arbitrary: s vs rule: less_induct)
  case less
  show ?case
  proof (cases "split_once line_feed s")
    case None
    then show ?thesis
      using None lines_free [of s] split_once_None [of line_feed s]
      by (simp add: drain_frames.simps [of cd s])
  next
    case (Some p)
    then obtain l r where p: "p = (l, r)" and s: "s = l @ line_feed # r" "line_feed \<notin> set l"
      by (cases p) (auto simp: split_once_Some)
    note IH = less.hyps [of r]
    show ?thesis
      using s(2) IH unfolding s(1) drain_line [OF s(2)]
      by (cases "decode_frame cd l"; cases "decode_frames cd (frame_lines r)")
        (simp_all add: lines_line lines_line(2) [of "[]", simplified])
  qed
qed

section \<open>One push\<close>

definition parser_ok :: "frame_parser \<Rightarrow> bool" where
  "parser_ok p \<longleftrightarrow> length (fp_buffer p) \<le> max_frame_buffer \<and> line_feed \<notin> set (fp_buffer p)"

lemma saturating_add_le: "k < 2 ^ 64 - 1 \<Longrightarrow> saturating_add m n \<le> k \<longleftrightarrow> m + n \<le> k"
  by (auto simp: saturating_add_def)

lemma fits_iff: "\<not> max_frame_buffer < saturating_add m n \<longleftrightarrow> m + n \<le> max_frame_buffer"
  using saturating_add_le [of max_frame_buffer m n] by (simp add: max_frame_buffer_def not_less)

lemma push_bytes_spec:
  assumes "line_feed \<notin> set (fp_buffer p)"
  shows "push_bytes cd bytes p =
    (if length (fp_buffer p) + length bytes \<le> max_frame_buffer then
       case decode_frames cd (frame_lines (fp_buffer p @ bytes)) of
         Inl e \<Rightarrow> (p\<lparr>fp_buffer := []\<rparr>, Inl e)
       | Inr vs \<Rightarrow> (p\<lparr>fp_buffer := frame_rest (fp_buffer p @ bytes)\<rparr>, Inr vs)
     else (p\<lparr>fp_buffer := []\<rparr>,
       Inl (PayloadTooLarge (saturating_add (length (fp_buffer p)) (length bytes)) max_frame_buffer)))"
proof (cases "line_feed \<in> set bytes")
  case True
  then show ?thesis
    using fits_iff [of "length (fp_buffer p)" "length bytes"]
    by (auto simp: push_bytes_def Let_def drain_frames_spec split: sum.splits)
next
  case False
  with assms have "frame_lines (fp_buffer p @ bytes) = []" "frame_rest (fp_buffer p @ bytes) = fp_buffer p @ bytes"
    using lines_free [of "fp_buffer p @ bytes"] by auto
  with False show ?thesis
    using fits_iff [of "length (fp_buffer p)" "length bytes"] by (auto simp: push_bytes_def Let_def)
qed

lemma rest_length: "length (frame_rest s) \<le> length s"
  using rest_suffix [of s] by (metis length_append le_add2)

lemma push_bytes_ok: "parser_ok p \<Longrightarrow> parser_ok (fst (push_bytes cd bytes p))"
  using rest_free [of "fp_buffer p @ bytes"] rest_length [of "fp_buffer p @ bytes"]
  by (auto simp: parser_ok_def push_bytes_spec split: sum.splits)

section \<open>The claims\<close>

fun pushed :: "frame_codecs \<Rightarrow> string list \<Rightarrow> frame_parser \<Rightarrow> frame_parser" where
  "pushed cd [] p = p"
| "pushed cd (chunk # chunks) p = pushed cd chunks (fst (push_bytes cd chunk p))"

lemma pushed_ok: "parser_ok p \<Longrightarrow> parser_ok (pushed cd chunks p)"
  by (induction chunks arbitrary: p) (simp_all add: push_bytes_ok)

lemma show_nat_length: "n < 10 ^ k \<Longrightarrow> 0 < k \<Longrightarrow> length (show_nat n) \<le> k"
proof (induction n arbitrary: k rule: show_nat.induct)
  case (1 n)
  show ?case
  proof (cases "n < 10")
    case True
    with "1.prems" show ?thesis by (simp add: show_nat_small)
  next
    case False
    with "1.prems" obtain j where k: "k = Suc j" "0 < j"
      by (cases k; cases "k - 1") auto
    with "1.prems" have "n div 10 < 10 ^ j" by (simp add: less_mult_imp_div_less mult.commute)
    from "1.IH" [OF False this k(2)] k show ?thesis by (simp add: show_nat_big [OF False])
  qed
qed

lemma concat_length: "(\<And>c. c \<in> set cs \<Longrightarrow> length c \<le> w) \<Longrightarrow> length (concat cs) \<le> w * length cs"
proof (induction cs)
  case Nil
  then show ?case by simp
next
  case (Cons c cs)
  then have "length c \<le> w" "length (concat cs) \<le> w * length cs" by auto
  then show ?case by simp
qed

lemma utf8_chars_count: "length (utf8_chars xs) \<le> length xs"
proof (induction xs rule: utf8_chars.induct)
  case (1 xs)
  show ?case
  proof (cases "utf8_char_length xs")
    case None
    then show ?thesis by (simp add: utf8_chars.simps [of xs])
  next
    case (Some n)
    from "1.IH" [OF Some] utf8_char_length_bounds [OF Some]
    have "Suc (length (utf8_chars (drop n xs))) \<le> length xs" unfolding length_drop by linarith
    with Some show ?thesis by (simp add: utf8_chars.simps [of xs])
  qed
qed

lemma excerpt_bounded:
  assumes "valid_utf8 line" "length line \<le> max_frame_buffer"
  shows "length (excerpt_frame line) \<le> 4 * max_excerpt_chars + 34"
proof -
  have width: "length (concat cs) \<le> 4 * length cs" if "set cs \<subseteq> set (utf8_chars line)" for cs
    using that by (intro concat_length) (auto dest: utf8_chars_width)
  have short: "length (concat (take max_excerpt_chars (utf8_chars line))) \<le> 4 * max_excerpt_chars"
    using width [OF set_take_subset, of max_excerpt_chars] by simp
  show ?thesis
  proof (cases "length (utf8_chars line) \<le> max_excerpt_chars")
    case True
    with short concat_utf8_chars [OF assms(1)] show ?thesis by (simp add: excerpt_frame_def Let_def)
  next
    case False
    have "length (utf8_chars line) < 10 ^ 7"
      using utf8_chars_count [of line] assms(2) by (simp add: max_frame_buffer_def)
    then have "length (show_nat (length (utf8_chars line))) \<le> 7" by (rule show_nat_length) simp
    with False short show ?thesis by (simp add: excerpt_frame_def Let_def)
  qed
qed

lemma decode_frame_excerpt:
  assumes "decode_frame cd line = Inl (InvalidJson e excerpt)" "length line \<le> max_frame_buffer"
  shows "length excerpt \<le> 4 * max_excerpt_chars + 34"
  using assms excerpt_bounded [of line]
  by (auto simp: decode_frame_def split: if_splits sum.splits option.splits)

lemma decode_frames_error:
  "decode_frames cd ls = Inl e \<Longrightarrow> \<exists>l\<in>set ls. decode_frame cd l = Inl e"
proof (induction ls)
  case Nil
  then show ?case by simp
next
  case (Cons l ls)
  then show ?case by (cases "decode_frame cd l"; cases "decode_frames cd ls") auto
qed

lemma frame_lines_length: "l \<in> set (frame_lines s) \<Longrightarrow> length l \<le> length s"
proof (induction "length s" arbitrary: s rule: less_induct)
  case less
  show ?case
  proof (cases "split_once line_feed s")
    case None
    with less.prems show ?thesis using lines_free [of s] by (simp add: split_once_None)
  next
    case (Some p)
    then obtain k r where s: "s = k @ line_feed # r" "line_feed \<notin> set k"
      by (cases p) (auto simp: split_once_Some)
    with less.prems less.hyps [of r] show ?thesis by (auto simp: lines_line split: if_splits)
  qed
qed

text \<open>
  C37.  Whatever bytes arrive and however often frames are refused, the parser never holds more than
  \<^verbatim>\<open>MAX_FRAME_BUFFER\<close> bytes, holds no complete line, drops everything it holds when it
  refuses a frame, and reports at most 8,226 bytes of the offending line.
\<close>

theorem frame_memory_bounded:
  "length (fp_buffer (pushed cd chunks new_frame_parser)) \<le> max_frame_buffer \<and>
   line_feed \<notin> set (fp_buffer (pushed cd chunks new_frame_parser)) \<and>
   (case push_bytes cd bytes (pushed cd chunks new_frame_parser) of
      (p, Inl e) \<Rightarrow> \<not> has_buffered_bytes p \<and>
        (case e of InvalidJson _ excerpt \<Rightarrow> length excerpt \<le> 8226 | _ \<Rightarrow> True)
    | (p, Inr vs) \<Rightarrow> True)"
proof -
  let ?p = "pushed cd chunks new_frame_parser"
  have ok: "parser_ok ?p" by (rule pushed_ok) (simp add: parser_ok_def new_frame_parser_def)
  have "\<not> has_buffered_bytes p \<and> (case e of InvalidJson _ excerpt \<Rightarrow> length excerpt \<le> 8226 | _ \<Rightarrow> True)"
    if push: "push_bytes cd bytes ?p = (p, Inl e)" for p e
  proof (cases "length (fp_buffer ?p) + length bytes \<le> max_frame_buffer")
    case True
    with push ok have p: "fp_buffer p = []"
      and e: "decode_frames cd (frame_lines (fp_buffer ?p @ bytes)) = Inl e"
      by (auto simp: push_bytes_spec parser_ok_def split: sum.splits)
    from decode_frames_error [OF e] obtain l where l: "l \<in> set (frame_lines (fp_buffer ?p @ bytes))"
      "decode_frame cd l = Inl e" by blast
    from frame_lines_length [OF l(1)] True have "length l \<le> max_frame_buffer" by simp
    with l(2) p show ?thesis
      by (cases e) (auto simp: has_buffered_bytes_def max_excerpt_chars_def dest: decode_frame_excerpt)
  next
    case False
    with push ok show ?thesis
      by (auto simp: push_bytes_spec parser_ok_def has_buffered_bytes_def)
  qed
  with ok show ?thesis
    by (cases "push_bytes cd bytes ?p"; cases "snd (push_bytes cd bytes ?p)")
      (auto simp: parser_ok_def)
qed

text \<open>What fits: no chunk makes the parser hold more than it may.\<close>

fun fits :: "string \<Rightarrow> string list \<Rightarrow> bool" where
  "fits buffer [] = True"
| "fits buffer (chunk # chunks) =
     (length buffer + length chunk \<le> max_frame_buffer \<and> fits (frame_rest (buffer @ chunk)) chunks)"

lemma push_chunks_spec:
  assumes "line_feed \<notin> set (fp_buffer p)"
  shows "push_chunks cd chunks p = (q, Inr vs) \<longleftrightarrow>
    fits (fp_buffer p) chunks \<and> decode_frames cd (frame_lines (fp_buffer p @ concat chunks)) = Inr vs \<and>
    q = p\<lparr>fp_buffer := frame_rest (fp_buffer p @ concat chunks)\<rparr>"
  using assms
proof (induction chunks arbitrary: p q vs)
  case Nil
  then show ?case using lines_free [OF Nil] by auto
next
  case (Cons chunk chunks)
  let ?b = "fp_buffer p @ chunk"
  have split: "frame_lines (?b @ concat chunks) =
      frame_lines ?b @ frame_lines (frame_rest ?b @ concat chunks)"
    "frame_rest (?b @ concat chunks) = frame_rest (frame_rest ?b @ concat chunks)"
    using lines_append [of ?b "concat chunks"] by auto
  show ?case
  proof (cases "length (fp_buffer p) + length chunk \<le> max_frame_buffer")
    case False
    with Cons.prems show ?thesis by (simp add: push_bytes_spec)
  next
    case True
    show ?thesis
    proof (cases "decode_frames cd (frame_lines ?b)")
      case (Inl e)
      with True Cons.prems show ?thesis
        using split by (simp add: push_bytes_spec decode_frames_append)
    next
      case (Inr ws)
      let ?p = "p\<lparr>fp_buffer := frame_rest ?b\<rparr>"
      have "line_feed \<notin> set (fp_buffer ?p)" using rest_free by simp
      note IH = Cons.IH [OF this]
      have "push_chunks cd (chunk # chunks) p = (q, Inr vs) \<longleftrightarrow>
          (\<exists>us. push_chunks cd chunks ?p = (q, Inr us) \<and> vs = ws @ us)"
        using True Inr Cons.prems by (auto simp: push_bytes_spec split: prod.splits sum.splits)
      also have "\<dots> \<longleftrightarrow> fits (frame_rest ?b) chunks \<and>
          (\<exists>us. decode_frames cd (frame_lines (frame_rest ?b @ concat chunks)) = Inr us \<and> vs = ws @ us) \<and>
          q = ?p\<lparr>fp_buffer := frame_rest (frame_rest ?b @ concat chunks)\<rparr>"
        by (auto simp: IH)
      finally show ?thesis
        using True Inr split by (auto simp: decode_frames_append and_then_Inr_iff)
    qed
  qed
qed

text \<open>
  A stream read in any chunks is accepted exactly when no chunk overfills the buffer and every
  non-empty line of the concatenation decodes; then the envelopes and the bytes kept depend on the
  concatenation alone, not on where it was cut.
\<close>

theorem chunking_irrelevant:
  "push_chunks cd chunks new_frame_parser = (p, Inr vs) \<longleftrightarrow>
     fits [] chunks \<and> decode_frames cd (frame_lines (concat chunks)) = Inr vs \<and>
     fp_buffer p = frame_rest (concat chunks)"
  using push_chunks_spec [of new_frame_parser cd chunks p vs]
  by (auto simp: new_frame_parser_def)

section \<open>Frames on the wire\<close>

definition honest_frame :: "frame_codecs \<Rightarrow> envelope \<Rightarrow> bool" where
  "honest_frame cd v \<longleftrightarrow>
     (let line = text_of_envelope cd v in
      valid_utf8 line \<and> line \<noteq> [] \<and> line_feed \<notin> set line \<and>
      (case value_of_text cd line of
         Inl _ \<Rightarrow> False
       | Inr value \<Rightarrow> json_str_at ''kind'' value \<noteq> None \<and> envelope_of_value cd value = Inr v))"

lemma honest_decodes: "honest_frame cd v \<Longrightarrow> decode_frame cd (text_of_envelope cd v) = Inr v"
  by (auto simp: honest_frame_def decode_frame_def Let_def split: sum.splits)

definition frame_stream :: "string list \<Rightarrow> string" where
  "frame_stream ls = concat (map (\<lambda>l. l @ [line_feed]) ls)"

lemma stream_lines:
  assumes "\<forall>l\<in>set ls. l \<noteq> [] \<and> line_feed \<notin> set l"
  shows "frame_lines (frame_stream ls) = ls \<and> frame_rest (frame_stream ls) = []"
  using assms
proof (induction ls)
  case Nil
  show ?case by (simp add: frame_stream_def frame_lines_def frame_rest_def)
next
  case (Cons l ls)
  then show ?case by (simp add: frame_stream_def lines_line)
qed

lemma partial_frame:
  assumes "\<forall>l\<in>set ls. line_feed \<notin> set l \<and> length l \<le> b" "prefix t (frame_stream ls)"
  shows "length (frame_rest t) \<le> b"
  using assms
proof (induction ls arbitrary: t)
  case Nil
  then show ?case by (simp add: frame_stream_def frame_rest_def)
next
  case (Cons l ls)
  have l: "line_feed \<notin> set l" "length l \<le> b" using Cons.prems(1) by auto
  from Cons.prems(2) have "prefix t (l @ line_feed # frame_stream ls)"
    by (simp add: frame_stream_def)
  then consider "prefix t l" | t' where "t = l @ line_feed # t'" "prefix t' (frame_stream ls)"
    by (auto simp: prefix_append prefix_Cons)
  then show ?case
  proof cases
    case 1
    with l(1) have "line_feed \<notin> set t" using set_mono_prefix by blast
    with 1 l(2) lines_free [of t] show ?thesis
      using prefix_length_le [OF 1] by simp
  next
    case 2
    with Cons.IH Cons.prems(1) l(1) show ?thesis by (simp add: lines_line)
  qed
qed

lemma small_chunks_fit:
  assumes "\<forall>l\<in>set ls. line_feed \<notin> set l \<and> length l \<le> b"
    and "\<forall>c\<in>set chunks. length c \<le> k" and "b + k \<le> max_frame_buffer"
    and "prefix (t @ concat chunks) (frame_stream ls)"
  shows "fits (frame_rest t) chunks"
  using assms(2,4)
proof (induction chunks arbitrary: t)
  case Nil
  show ?case by simp
next
  case (Cons c chunks)
  have "prefix t (frame_stream ls)" using Cons.prems(2) by (rule append_prefixD)
  from partial_frame [OF assms(1) this] Cons.prems(1) assms(3)
  have "length (frame_rest t) + length c \<le> max_frame_buffer" by auto
  moreover from Cons.IH [of "t @ c"] Cons.prems have "fits (frame_rest (t @ c)) chunks" by simp
  ultimately show ?case using lines_append [of t c] by simp
qed

text \<open>
  Envelopes that a peer encodes, each with a text of at most 4 MiB less one read buffer, are parsed
  complete and in order whatever the cuts between the reads of at most 4,096 bytes, and leave the
  parser empty.  What is asked of serde_json: the text of an envelope is a line of UTF-8 that parses
  back to it.
\<close>

lemma frames_parse:
  assumes "\<forall>v\<in>set vs. honest_frame cd v \<and> length (text_of_envelope cd v) + 4096 \<le> max_frame_buffer"
    and "map Some frames = map (encode_frame cd) vs" and "concat chunks = concat frames"
    and "\<forall>c\<in>set chunks. length c \<le> 4096"
  shows "push_chunks cd chunks new_frame_parser = (new_frame_parser, Inr vs)"
proof -
  let ?ls = "map (text_of_envelope cd) vs"
  have lines: "\<forall>l\<in>set ?ls. l \<noteq> [] \<and> line_feed \<notin> set l"
    "\<forall>l\<in>set ?ls. line_feed \<notin> set l \<and> length l \<le> max_frame_buffer - 4096"
    using assms(1) by (auto simp: honest_frame_def Let_def)
  have "map Some frames = map (\<lambda>v. Some (text_of_envelope cd v @ [line_feed])) vs"
    unfolding assms(2) using assms(1) by (force simp: encode_frame_def serialize_capped_def)
  then have "map the (map Some frames) =
      map the (map (\<lambda>v. Some (text_of_envelope cd v @ [line_feed])) vs)"
    by (rule arg_cong)
  then have "frames = map (\<lambda>v. text_of_envelope cd v @ [line_feed]) vs"
    by (simp add: comp_def)
  then have stream: "concat chunks = frame_stream ?ls"
    by (simp add: assms(3) frame_stream_def comp_def)
  have "fits (frame_rest []) chunks"
    using small_chunks_fit [OF lines(2) assms(4), of "[]"] stream
    by (simp add: max_frame_buffer_def)
  moreover have "frame_rest [] = []" by (simp add: frame_rest_def)
  moreover have "decode_frames cd ?ls = Inr vs"
    using assms(1) by (induction vs) (simp_all add: honest_decodes)
  ultimately show ?thesis
    using push_chunks_spec [of new_frame_parser cd chunks new_frame_parser vs] stream_lines [OF lines(1)] stream
    by (simp add: new_frame_parser_def)
qed

definition demo_frames :: frame_codecs where
  "demo_frames =
     \<lparr>value_of_text = (\<lambda>s. Inr (JObject [(''id'', JString s), (''kind'', JString ''worker_ready'')])),
      envelope_of_value = (\<lambda>v. case json_str_at ''id'' v of
        None \<Rightarrow> Inl ''missing field'' | Some s \<Rightarrow> Inr (WorkerReady protocol_schema_identity s)),
      text_of_envelope = (\<lambda>v. case v of WorkerReady _ s \<Rightarrow> s | _ \<Rightarrow> ''x'')\<rparr>"

text \<open>
  The encoder lets a text of exactly 4 MiB pass and then adds the line feed; the parser refuses the
  frame.
\<close>

lemma full_frame_refused:
  assumes "length (text_of_envelope cd v) = max_frame_buffer"
  shows "\<exists>frame. encode_frame cd v = Some frame \<and>
    push_bytes cd frame new_frame_parser =
      (new_frame_parser, Inl (PayloadTooLarge (max_frame_buffer + 1) max_frame_buffer))"
  using assms
  by (simp add: encode_frame_def serialize_capped_def push_bytes_spec new_frame_parser_def
      saturating_add_def max_frame_buffer_def)

section \<open>Cache identities\<close>

lemma big_endian_length [simp]: "length (big_endian k n) = k"
  by (induction k arbitrary: n) auto

lemma char_of_mod_inj: "(char_of (m mod 256) :: char) = char_of (n mod 256) \<Longrightarrow> m mod 256 = n mod 256"
  for m n :: nat
  by (drule arg_cong [where f = "of_char :: char \<Rightarrow> nat"]) simp

lemma big_endian_inj: "m < 256 ^ k \<Longrightarrow> n < 256 ^ k \<Longrightarrow> big_endian k m = big_endian k n \<Longrightarrow> m = n"
proof (induction k arbitrary: m n)
  case 0
  then show ?case by simp
next
  case (Suc k)
  from Suc.prems have "big_endian k (m div 256) = big_endian k (n div 256)" "m mod 256 = n mod 256"
    by (auto dest: char_of_mod_inj)
  moreover from Suc.prems have "m div 256 < 256 ^ k" "n div 256 < 256 ^ k"
    by (simp_all add: less_mult_imp_div_less mult.commute)
  ultimately have "m div 256 = n div 256" "m mod 256 = n mod 256" using Suc.IH by auto
  then show ?case by (metis div_mult_mod_eq)
qed

lemma sized_field_append:
  assumes "length s < 2 ^ 64" "length t < 2 ^ 64"
    and "sized_field s @ xs = sized_field t @ ys"
  shows "s = t \<and> xs = ys"
proof -
  from assms(3) have be: "big_endian 8 (length s) = big_endian 8 (length t)"
    and rest: "s @ xs = t @ ys"
    by (simp_all add: sized_field_def append_eq_append_conv)
  from assms(1,2) have "length s < 256 ^ 8" "length t < 256 ^ 8" by simp_all
  then have "length s = length t" using be by (rule big_endian_inj)
  with rest show ?thesis by simp
qed

definition identity_fields :: "layer1_cache_key \<Rightarrow> string list" where
  "identity_fields k =
     [lc_source_revision_id k, wf_worker_kind (lc_worker_fingerprint k),
      wf_worker_schema_version (lc_worker_fingerprint k),
      wf_protocol_schema_version (lc_worker_fingerprint k), lc_operation k, lc_feature_id k,
      lc_artifact_kind k, lc_semantic_input_sha256 k, lc_deterministic_settings_sha256 k]"

lemma sized_fields_inj:
  assumes "\<forall>s\<in>set ss. length s < 2 ^ 64" "\<forall>t\<in>set ts. length t < 2 ^ 64" "length ss = length ts"
    and "concat (map sized_field ss) = concat (map sized_field ts)"
  shows "ss = ts"
  using assms(3,1,2,4)
proof (induction ss ts rule: list_induct2)
  case Nil
  show ?case by simp
next
  case (Cons s ss t ts)
  then show ?case
    using sized_field_append [of s t "concat (map sized_field ss)" "concat (map sized_field ts)"]
    by simp
qed

lemma identity_fields_inj: "identity_fields j = identity_fields k \<Longrightarrow> j = k"
  by (cases j; cases k; cases "lc_worker_fingerprint j"; cases "lc_worker_fingerprint k")
    (simp add: identity_fields_def)

text \<open>
  Different cache keys are hashed over different bytes, whatever their fields hold (the length
  in front of a field keeps the fields apart), so their artifacts get the same file name only when
  SHA-256 collides.
\<close>

theorem artifact_names_distinct:
  assumes "\<forall>s\<in>set (identity_fields j) \<union> set (identity_fields k). length s < 2 ^ 64" and "j \<noteq> k"
  shows "cache_identity j \<noteq> cache_identity k \<and>
    (final_artifact_name sha j = final_artifact_name sha k \<longleftrightarrow>
       sha (cache_identity j) = sha (cache_identity k))"
proof -
  have "cache_identity j \<noteq> cache_identity k"
  proof
    assume eq: "cache_identity j = cache_identity k"
    have "identity_fields j = identity_fields k"
    proof (rule sized_fields_inj)
      show "length (identity_fields j) = length (identity_fields k)" by (simp add: identity_fields_def)
      show "concat (map sized_field (identity_fields j)) = concat (map sized_field (identity_fields k))"
        using eq by (simp add: cache_identity_def identity_fields_def)
    qed (use assms(1) in auto)
    with assms(2) show False by (simp add: identity_fields_inj)
  qed
  then show ?thesis by (simp add: final_artifact_name_def)
qed

definition demo_key :: "string \<Rightarrow> string \<Rightarrow> layer1_cache_key" where
  "demo_key operation feature_id =
     \<lparr>lc_source_revision_id = ''r'', lc_worker_fingerprint =
        \<lparr>wf_worker_kind = ''occt'', wf_worker_schema_version = ''1'', wf_protocol_schema_version = ''1''\<rparr>,
      lc_operation = operation, lc_feature_id = feature_id, lc_artifact_kind = ''brep'',
      lc_semantic_input_sha256 = [], lc_deterministic_settings_sha256 = []\<rparr>"

theorem artifact_names_distinct_witness:
  "cache_identity (demo_key ''cut'' ''a'') \<noteq> cache_identity (demo_key ''cu'' ''ta'')"
proof -
  have "\<forall>s\<in>set (identity_fields (demo_key ''cut'' ''a'')) \<union> set (identity_fields (demo_key ''cu'' ''ta'')).
      length s < 2 ^ 64"
    by (simp add: identity_fields_def demo_key_def)
  moreover have "demo_key ''cut'' ''a'' \<noteq> demo_key ''cu'' ''ta''" by (simp add: demo_key_def)
  ultimately show ?thesis using artifact_names_distinct by blast
qed

end
