(* ===== verification/TransportProps.thy ===== *)
theory TransportProps
  imports Transport SupervisorTime FrameProps
begin

text \<open>
  The transport keeps the clock's contract, so a request over it returns; and what a worker writes is
  received complete and in order.
\<close>

section \<open>The transport keeps time\<close>

definition inbound_work :: "framed_host \<Rightarrow> nat" where
  "inbound_work h =
     length (fw_pending h) + length (fp_buffer (fw_parser h)) +
     (\<Sum>(arrival, bytes) \<leftarrow> ch_inbound (fw_channels h). Suc (length bytes))"

definition transport_time :: "framed_host \<Rightarrow> nat \<times> nat" where
  "transport_time h = (ch_clock (fw_channels h), inbound_work h)"

lemma drained_size:
  "drain_frames cd s vs = (r, result) \<Longrightarrow>
     length r + (case result of Inl _ \<Rightarrow> 0 | Inr ws \<Rightarrow> length ws) \<le> length s + length vs"
proof (induction cd s vs arbitrary: r result rule: drain_frames.induct)
  case (1 cd s vs)
  show ?case
  proof (cases "split_once line_feed s")
    case None
    with "1.prems" show ?thesis by (auto simp: drain_frames.simps [of cd s])
  next
    case (Some p)
    obtain l t where p: "p = (l, t)" by (cases p)
    note shorter = split_once_shorter [OF Some [unfolded p]]
    show ?thesis
    proof (cases "l = []")
      case True
      with "1.prems" Some p have "drain_frames cd t vs = (r, result)"
        by (simp add: drain_frames.simps [of cd s])
      with "1.IH"(1) [OF Some p [symmetric] True] shorter show ?thesis by fastforce
    next
      case False
      show ?thesis
      proof (cases "decode_frame cd l")
        case (Inl e)
        with "1.prems" Some p False show ?thesis by (auto simp: drain_frames.simps [of cd s])
      next
        case (Inr v)
        with "1.prems" Some p False have "drain_frames cd t (vs @ [v]) = (r, result)"
          by (simp add: drain_frames.simps [of cd s])
        with "1.IH"(2) [OF Some p [symmetric] False Inr] shorter show ?thesis by fastforce
      qed
    qed
  qed
qed

lemma pushed_size:
  assumes "push_bytes cd bytes p = (p', result)"
  shows "length (fp_buffer p') + (case result of Inl _ \<Rightarrow> 0 | Inr vs \<Rightarrow> length vs) \<le>
    length (fp_buffer p) + length bytes"
  using assms drained_size [of cd "fp_buffer p @ bytes" "[]"]
  by (auto simp: push_bytes_def Let_def split: if_splits prod.splits)

lemma clock_read:
  "read_clock c = (c', now) \<Longrightarrow>
     now = ch_clock c' \<and> ch_clock c \<le> ch_clock c' \<and> ch_inbound c' = ch_inbound c"
  by (auto simp: read_clock_def split: list.splits)

lemma chunk_received:
  assumes "recv_chunk remaining c = (c', r)"
  shows "case r of
      Inl ChunkTimeout \<Rightarrow> ch_clock c' = ch_clock c + remaining \<and> ch_inbound c' = ch_inbound c
    | Inl ChunkDisconnected \<Rightarrow> ch_clock c \<le> ch_clock c' \<and> ch_inbound c' = ch_inbound c
    | Inr bytes \<Rightarrow> ch_clock c \<le> ch_clock c' \<and>
        (\<exists>arrival. ch_inbound c = (arrival, bytes) # ch_inbound c')"
  using assms by (auto simp: recv_chunk_def Let_def split: list.splits option.splits if_splits)

lemma framed_recv_later:
  "framed_recv cd deadline h = (h', r) \<Longrightarrow>
     later transport_time h h' \<and> (keeps_waiting r \<longrightarrow> waited transport_time deadline h h')"
proof (induction cd deadline h arbitrary: h' r rule: framed_recv.induct)
  case (1 cd deadline h)
  obtain c now where c: "read_clock (fw_channels h) = (c, now)" by (cases "read_clock (fw_channels h)")
  note now = clock_read [OF c]
  show ?case
  proof (cases "deadline \<le> now \<or> fw_pending h \<noteq> []")
    case True
    with "1.prems" c now show ?thesis
      by (auto simp: framed_recv.simps [of cd deadline h] later_def waited_def strictly_later_def
          transport_time_def inbound_work_def neq_Nil_conv split: if_splits)
  next
    case False
    then have idle: "\<not> deadline \<le> now" "fw_pending h = []" by auto
    obtain c2 now2 where c2: "read_clock c = (c2, now2)" by (cases "read_clock c")
    note now2 = clock_read [OF c2]
    obtain c3 r3 where c3: "recv_chunk (deadline - now2) c2 = (c3, r3)"
      by (cases "recv_chunk (deadline - now2) c2")
    note chunk = chunk_received [OF c3]
    show ?thesis
    proof (cases r3)
      case (Inl e)
      with "1.prems" c idle c2 c3 chunk now now2 show ?thesis
        by (cases e)
          (auto simp: framed_recv.simps [of cd deadline h] later_def waited_def keeps_waiting_def
            transport_time_def inbound_work_def)
    next
      case (Inr bytes)
      obtain p result where push: "push_bytes cd bytes (fw_parser h) = (p, result)"
        by (cases "push_bytes cd bytes (fw_parser h)")
      note size = pushed_size [OF push]
      show ?thesis
      proof (cases result)
        case (Inl e)
        with "1.prems" c idle c2 c3 Inr push size chunk now now2 show ?thesis
          by (auto simp: framed_recv.simps [of cd deadline h] later_def keeps_waiting_def
              transport_time_def inbound_work_def)
      next
        case result: (Inr vs)
        let ?h = "h\<lparr>fw_channels := c3, fw_parser := p, fw_pending := vs\<rparr>"
        have rec: "framed_recv cd deadline ?h = (h', r)"
          using "1.prems" c idle c2 c3 Inr push result
          by (simp add: framed_recv.simps [of cd deadline h])
        have "later transport_time h ?h"
          using size chunk now now2 Inr result idle
          by (auto simp: later_def transport_time_def inbound_work_def)
        moreover have "later transport_time ?h h' \<and>
            (keeps_waiting r \<longrightarrow> waited transport_time deadline ?h h')"
          using "1.IH" [OF c [symmetric] idle c2 [symmetric] c3 [symmetric] Inr push [symmetric] result] rec
          by simp
        ultimately show ?thesis by (blast intro: later_trans waited_trans)
      qed
    qed
  qed
qed

lemma framed_send_later: "later transport_time h (fst (framed_send cd v h))"
  by (auto simp: framed_send_def Let_def later_def transport_time_def inbound_work_def
      split: option.splits)

lemma framed_ticking: "ticking transport_time (framed_worker cd)"
proof -
  have "later transport_time h (fst (framed_now h)) \<and>
      snd (framed_now h) = fst (transport_time (fst (framed_now h)))" for h
    by (cases "read_clock (fw_channels h)")
      (use clock_read in \<open>fastforce simp: framed_now_def later_def transport_time_def inbound_work_def\<close>)
  moreover have "keeps_waiting (snd (framed_recv cd deadline h)) \<longrightarrow>
      waited transport_time deadline h (fst (framed_recv cd deadline h))" for deadline h
    using framed_recv_later by (metis prod.collapse)
  ultimately show ?thesis
    by (auto simp: ticking_def framed_worker_def framed_cancel_flag_def framed_cancel_def
        framed_send_later)
qed


section \<open>Delivery\<close>

text \<open>Everything the worker writes, and its end, comes before the deadline.\<close>

definition timely :: "nat \<Rightarrow> channels \<Rightarrow> bool" where
  "timely deadline c \<longleftrightarrow>
     ch_clock c + sum_list (ch_ticks c) < deadline \<and>
     (\<forall>(arrival, bytes)\<in>set (ch_inbound c). arrival + sum_list (ch_ticks c) < deadline) \<and>
     (\<exists>t. ch_closed c = Some t \<and> t + sum_list (ch_ticks c) < deadline)"

lemma timely_clock: "timely deadline c \<Longrightarrow> read_clock c = (c', now) \<Longrightarrow> now < deadline \<and> timely deadline c'"
  by (fastforce simp: timely_def read_clock_def split: list.splits)

lemma timely_chunk:
  assumes "timely deadline c" "recv_chunk (deadline - ch_clock c) c = (c', r)"
  shows "timely deadline c' \<and>
    (case ch_inbound c of
       [] \<Rightarrow> r = Inl ChunkDisconnected \<and> ch_inbound c' = []
     | (arrival, bytes) # rest \<Rightarrow> r = Inr bytes \<and> ch_inbound c' = rest)"
  using assms
  by (auto simp: timely_def recv_chunk_def Let_def split: list.splits option.splits if_splits)
    fastforce+

lemma framed_recv_delivers:
  assumes "timely deadline (fw_channels h)"
    and "push_chunks cd (map snd (ch_inbound (fw_channels h))) (fw_parser h) = (p, Inr vs)"
  shows "\<exists>h'. timely deadline (fw_channels h') \<and>
    (case fw_pending h @ vs of
       [] \<Rightarrow> framed_recv cd deadline h = (h', Inl Closed)
     | v # rest \<Rightarrow> framed_recv cd deadline h = (h', Inr v) \<and>
         (\<exists>vs'. push_chunks cd (map snd (ch_inbound (fw_channels h'))) (fw_parser h') = (p, Inr vs') \<and>
            fw_pending h' @ vs' = rest))"
  using assms
proof (induction cd deadline h arbitrary: vs rule: framed_recv.induct)
  case (1 cd deadline h)
  obtain c now where c: "read_clock (fw_channels h) = (c, now)" by (cases "read_clock (fw_channels h)")
  note now = clock_read [OF c] timely_clock [OF "1.prems"(1) c]
  show ?case
  proof (cases "fw_pending h")
    case (Cons v rest)
    with c now "1.prems" show ?thesis
      by (intro exI [of _ "h\<lparr>fw_channels := c, fw_pending := rest\<rparr>"])
        (simp add: framed_recv.simps [of cd deadline h])
  next
    case Nil
    obtain c2 now2 where c2: "read_clock c = (c2, now2)" by (cases "read_clock c")
    note now2 = clock_read [OF c2] timely_clock [OF conjunct2 [OF now(2)] c2]
    obtain c3 r3 where c3: "recv_chunk (deadline - now2) c2 = (c3, r3)"
      by (cases "recv_chunk (deadline - now2) c2")
    have chunk: "timely deadline c3"
      "case ch_inbound c2 of
         [] \<Rightarrow> r3 = Inl ChunkDisconnected \<and> ch_inbound c3 = []
       | (arrival, bytes) # rest \<Rightarrow> r3 = Inr bytes \<and> ch_inbound c3 = rest"
      using timely_chunk [of deadline c2 c3 r3] c3 now2 by auto
    show ?thesis
    proof (cases "ch_inbound (fw_channels h)")
      case none: Nil
      with "1.prems"(2) Nil c c2 c3 chunk now now2 show ?thesis
        by (intro exI [of _ "h\<lparr>fw_channels := c3\<rparr>"]) (simp add: framed_recv.simps [of cd deadline h])
    next
      case (Cons x rest)
      obtain arrival bytes where x: "x = (arrival, bytes)" by (cases x)
      obtain q result where push: "push_bytes cd bytes (fw_parser h) = (q, result)"
        by (cases "push_bytes cd bytes (fw_parser h)")
      with "1.prems"(2) Cons x obtain us ws where
        result: "result = Inr us" and more: "push_chunks cd (map snd rest) q = (p, Inr ws)" "vs = us @ ws"
        by (auto split: sum.splits prod.splits)
      let ?h = "h\<lparr>fw_channels := c3, fw_parser := q, fw_pending := us\<rparr>"
      have r3: "r3 = Inr bytes" "ch_inbound c3 = rest" using chunk(2) now(1) now2(1) Cons x by auto
      have step: "framed_recv cd deadline h = framed_recv cd deadline ?h"
        using c now Nil c2 c3 r3 push result by (simp add: framed_recv.simps [of cd deadline h])
      have "timely deadline (fw_channels ?h)"
        "push_chunks cd (map snd (ch_inbound (fw_channels ?h))) (fw_parser ?h) = (p, Inr ws)"
        using chunk(1) more(1) r3(2) by simp_all
      moreover have "\<not> deadline \<le> now" using now(2) by simp
      ultimately show ?thesis
        using "1.IH" [OF c [symmetric] _ Nil c2 [symmetric] c3 [symmetric] r3(1) push [symmetric] result, of ws]
        unfolding step more(2) Nil by simp
    qed
  qed
qed

fun receives :: "frame_codecs \<Rightarrow> nat \<Rightarrow> nat \<Rightarrow> framed_host \<Rightarrow> (worker_error + envelope) list" where
  "receives cd deadline 0 h = []"
| "receives cd deadline (Suc n) h =
     (case framed_recv cd deadline h of (h', r) \<Rightarrow> r # receives cd deadline n h')"

lemma receives_all:
  assumes "timely deadline (fw_channels h)"
    and "push_chunks cd (map snd (ch_inbound (fw_channels h))) (fw_parser h) = (p, Inr vs)"
  shows "receives cd deadline (Suc (length (fw_pending h @ vs))) h =
    map Inr (fw_pending h @ vs) @ [Inl Closed]"
  using assms
proof (induction "fw_pending h @ vs" arbitrary: h vs)
  case Nil
  from Nil.hyps have "fw_pending h = []" "vs = []" by auto
  with framed_recv_delivers [OF Nil.prems] show ?case by auto
next
  case (Cons v rest)
  note eq = Cons.hyps(2) [symmetric]
  from framed_recv_delivers [OF Cons.prems] obtain h' vs' where
    h': "timely deadline (fw_channels h')" "framed_recv cd deadline h = (h', Inr v)"
      "push_chunks cd (map snd (ch_inbound (fw_channels h'))) (fw_parser h') = (p, Inr vs')"
      "fw_pending h' @ vs' = rest"
    unfolding eq by auto
  from Cons.hyps(1) [OF h'(4) [symmetric] h'(1,3)] h'(2,4) show ?case
    unfolding eq by simp
qed


section \<open>The claims\<close>

text \<open>
  C34.  A request returns, whatever the worker answers and however it behaves: the handshake, the
  wait for the terminal envelope, a cancellation and the drain that follows all end, when the clock
  of the worker never goes back and a receive that yields an envelope or times out moves it,
  reaches its deadline or takes some of finitely many inputs.  So does
  a cancellation without a request.
\<close>

theorem request_returns:
  assumes "ticking time w"
  shows "(\<exists>s' out. request_with_cancel_and_progress w s req = Some (s', out)) \<and>
    (\<exists>s' out. cancel_worker w s i reason = Some (s', out))"
proof
  obtain t started where t: "ask (wk_now w) s = (t, started)" by (cases "ask (wk_now w) s")
  let ?deadline = "started + sv_request_grace t"
  obtain u ready where u: "consume_worker_ready w t (wr_request_id req) started ?deadline = Some (u, ready)"
    using consume_worker_ready_ends [OF assms] by fast
  have loop: "\<exists>z. run_loop (request_step w req started ?deadline) x = Some z" for x
    using run_loop_ends [OF waiting_wf request_step_ends [OF assms]] .
  show "\<exists>s' out. request_with_cancel_and_progress w s req = Some (s', out)"
    unfolding request_with_cancel_and_progress_def Let_def t prod.case u Option.bind.bind_lunit
    using loop by (auto split: option.splits prod.splits sum.splits)
next
  have "ticking time (w\<lparr>wk_on_progress := \<lambda>_ h. h\<rparr>)"
    using assms by (simp add: ticking_def)
  from cancel_with_deadline_ends [OF this] show "\<exists>s' out. cancel_worker w s i reason = Some (s', out)"
    unfolding cancel_worker_def by (auto split: prod.splits)
qed

theorem request_returns_witness:
  "\<exists>s out. request_with_cancel_and_progress (framed_worker demo_frames)
     (new_supervisor 1000 (new_framed_host
        \<lparr>ch_clock = 0, ch_ticks = [1], ch_inbound = [(5, ''occt'' @ [line_feed])], ch_closed = None,
         ch_outbound = [], ch_listening = True, ch_cancelled = None\<rparr>) (Some ''stage''))
     sample_request = Some (s, out)"
  using request_returns [OF framed_ticking] by blast

text \<open>
  C35.  Envelopes that a worker encodes, each with a text of at most 4 MiB less one read buffer, are
  received by the host complete, once and in order, and then the end of the stream, however the
  frames are cut into chunks of at most 4,096 bytes and whenever the chunks arrive before the
  deadline.  What is asked of serde_json: the text of an envelope is a line of UTF-8 that parses back
  to it.
\<close>

theorem frames_delivered:
  assumes "\<forall>v\<in>set vs. honest_frame cd v \<and> length (text_of_envelope cd v) + 4096 \<le> max_frame_buffer"
    and "map Some frames = map (encode_frame cd) vs"
    and "concat (map snd (ch_inbound c)) = concat frames"
    and "\<forall>(arrival, bytes)\<in>set (ch_inbound c). length bytes \<le> 4096"
    and "timely deadline c"
  shows "receives cd deadline (Suc (length vs)) (new_framed_host c) = map Inr vs @ [Inl Closed]"
proof -
  have "\<forall>bytes\<in>set (map snd (ch_inbound c)). length bytes \<le> 4096"
    using assms(4) by auto
  from frames_parse [OF assms(1,2,3) this]
  have "push_chunks cd (map snd (ch_inbound (fw_channels (new_framed_host c))))
      (fw_parser (new_framed_host c)) = (new_frame_parser, Inr vs)"
    by (simp add: new_framed_host_def)
  from receives_all [OF _ this] assms(5) show ?thesis by (simp add: new_framed_host_def)
qed

theorem frames_delivered_witness:
  "receives demo_frames 1000 3 (new_framed_host
     \<lparr>ch_clock = 0, ch_ticks = [1, 2],
      ch_inbound = [(5, ''oc''), (9, ''ct'' @ [line_feed] @ ''sl''), (9, ''vs'' @ [line_feed])],
      ch_closed = Some 20, ch_outbound = [], ch_listening = True, ch_cancelled = None\<rparr>) =
   [Inr (WorkerReady protocol_schema_identity ''occt''),
    Inr (WorkerReady protocol_schema_identity ''slvs''), Inl Closed]"
proof -
  let ?vs = "[WorkerReady protocol_schema_identity ''occt'', WorkerReady protocol_schema_identity ''slvs'']"
  let ?c = "\<lparr>ch_clock = 0, ch_ticks = [1, 2],
    ch_inbound = [(5, ''oc''), (9, ''ct'' @ [line_feed] @ ''sl''), (9, ''vs'' @ [line_feed])],
    ch_closed = Some 20, ch_outbound = [], ch_listening = True, ch_cancelled = None\<rparr>"
  have "receives demo_frames 1000 (Suc (length ?vs)) (new_framed_host ?c) = map Inr ?vs @ [Inl Closed]"
  proof (rule frames_delivered)
    have honest: "\<forall>v\<in>set ?vs. honest_frame demo_frames v" by code_simp
    have short: "\<forall>v\<in>set ?vs. length (text_of_envelope demo_frames v) \<le> 4"
      by (simp add: demo_frames_def)
    from honest short show "\<forall>v\<in>set ?vs. honest_frame demo_frames v \<and>
        length (text_of_envelope demo_frames v) + 4096 \<le> max_frame_buffer"
      by (force simp: max_frame_buffer_def)
    show "map Some [''occt'' @ [line_feed], ''slvs'' @ [line_feed]] = map (encode_frame demo_frames) ?vs"
      by (simp add: encode_frame_def serialize_capped_def demo_frames_def max_frame_buffer_def)
  qed (simp_all add: timely_def)
  then show ?thesis by (simp add: numeral_3_eq_3)
qed

end
