(* ===== verification/Stl.thy ===== *)
theory Stl
  imports Text Utf8
begin

text \<open>
  The strict STL parser (\<^verbatim>\<open>crates/host/src/stl_integrity.rs\<close>): ASCII and binary
  meshes, decoded to facets of three points, with the reason and place of each refusal.  Coordinates
  are \<^verbatim>\<open>f64\<close> values; the \<^verbatim>\<open>f32\<close> of a binary mesh are
  decoded exactly.
\<close>

section \<open>Reports\<close>

datatype stl_format = AsciiStl | BinaryStl

datatype integrity_reason =
    Io | Empty | Format | Truncated | SizeMismatch | NonFinite | Degenerate | DuplicateFacet
  | OpenBoundary | NonManifold | InconsistentOrientation | MaterialBodyCount | CavityContainment
  | NonPositiveVolume

record integrity_location =
  il_byte_offset :: "nat option"
  il_line :: "nat option"
  il_triangle :: "nat option"
  il_shell :: "nat option"

record integrity_error =
  ie_reason :: integrity_reason
  ie_detail :: string
  ie_location :: "integrity_location option"

text \<open>A failure is a structured rejection, or a panic of the verifier.\<close>

datatype mesh_failure = Panicked | Rejected integrity_error

type_synonym 'a checked = "mesh_failure + 'a"

definition no_location :: integrity_location where
  "no_location = \<lparr>il_byte_offset = None, il_line = None, il_triangle = None, il_shell = None\<rparr>"

definition reject :: "integrity_reason \<Rightarrow> string \<Rightarrow> 'a checked" where
  "reject reason detail =
     Inl (Rejected \<lparr>ie_reason = reason, ie_detail = detail, ie_location = None\<rparr>)"

definition reject_line :: "integrity_reason \<Rightarrow> nat \<Rightarrow> string \<Rightarrow> 'a checked" where
  "reject_line reason line detail =
     Inl (Rejected \<lparr>ie_reason = reason, ie_detail = detail,
       ie_location = Some (no_location\<lparr>il_line := Some line\<rparr>)\<rparr>)"

definition reject_triangle :: "integrity_reason \<Rightarrow> nat \<Rightarrow> string \<Rightarrow> 'a checked" where
  "reject_triangle reason triangle detail =
     Inl (Rejected \<lparr>ie_reason = reason, ie_detail = detail,
       ie_location = Some (no_location\<lparr>il_triangle := Some triangle\<rparr>)\<rparr>)"

type_synonym point = "f64 \<times> f64 \<times> f64"
type_synonym facet = "point \<times> point \<times> point"

record parsed_stl =
  ps_format :: stl_format
  ps_triangles :: "facet list"

section \<open>Binary meshes\<close>

fun little_endian :: "string \<Rightarrow> nat" where
  "little_endian [] = 0"
| "little_endian (c # s) = of_char c + 256 * little_endian s"

text \<open>\<^verbatim>\<open>f32::from_bits\<close>, widened.\<close>

definition f32_bits :: "nat \<Rightarrow> f64" where
  "f32_bits bits =
     (let neg = (2 ^ 31 \<le> bits); exponent = bits div 2 ^ 23 mod 2 ^ 8; mantissa = bits mod 2 ^ 23;
          magnitude = (if exponent = 0 then of_nat mantissa * pow2 (- 149)
                       else of_nat (2 ^ 23 + mantissa) * pow2 (int exponent - 150)) in
      if exponent = 255 then (if mantissa = 0 then signed_inf neg else NaN)
      else if magnitude = 0 then (if neg then NegZero else Fin 0)
      else Fin (if neg then - magnitude else magnitude))"

definition slice :: "nat \<Rightarrow> nat \<Rightarrow> string \<Rightarrow> string" where
  "slice from width s = take width (drop from s)"

definition checked_size :: "nat \<Rightarrow> nat option" where
  "checked_size n = (if n < 2 ^ 64 then Some n else None)"

definition declared_count :: "string \<Rightarrow> nat" where
  "declared_count bytes = little_endian (slice 80 4 bytes)"

fun binary_values :: "string \<Rightarrow> nat \<Rightarrow> nat \<Rightarrow> nat \<Rightarrow> (f64 list) checked" where
  "binary_values bytes triangle offset 0 = Inr []"
| "binary_values bytes triangle offset (Suc n) =
     (let v = f32_bits (little_endian (slice offset 4 bytes)) in
      if \<not> f64_finite v then
        reject_triangle NonFinite triangle ''binary STL normal and vertices must be finite''
      else and_then (binary_values bytes triangle (offset + 4) n) (\<lambda>vs. Inr (v # vs)))"

definition facet_of_values :: "f64 list \<Rightarrow> facet" where
  "facet_of_values vs =
     ((vs ! 3, vs ! 4, vs ! 5), (vs ! 6, vs ! 7, vs ! 8), (vs ! 9, vs ! 10, vs ! 11))"

fun binary_facets :: "string \<Rightarrow> nat list \<Rightarrow> (facet list) checked" where
  "binary_facets bytes [] = Inr []"
| "binary_facets bytes (triangle # triangles) =
     and_then (binary_values bytes triangle (84 + triangle * 50) 12)
     (\<lambda>vs. and_then (binary_facets bytes triangles) (\<lambda>fs. Inr (facet_of_values vs # fs)))"

definition parse_binary :: "string \<Rightarrow> parsed_stl checked" where
  "parse_binary bytes =
     (let n = length bytes; count = declared_count bytes in
      if n < 84 then
        reject Truncated (''binary STL header is truncated at '' @ show_nat n @ '' bytes'')
      else case checked_size (count * 50) of
        None \<Rightarrow> reject SizeMismatch ''binary STL triangle count overflows the declared size''
      | Some body \<Rightarrow>
      case checked_size (84 + body) of
        None \<Rightarrow> reject SizeMismatch ''binary STL declared size overflows the host address space''
      | Some expected \<Rightarrow>
      if n < expected then
        reject Truncated (''binary STL declares '' @ show_nat count @ '' triangles but ends at '' @
          show_nat n @ '' bytes'')
      else if expected < n then
        reject SizeMismatch (''binary STL declares '' @ show_nat count @ '' triangles for '' @
          show_nat expected @ '' bytes but contains '' @ show_nat n)
      else if count = 0 then reject Empty ''binary STL declares zero triangles''
      else and_then (binary_facets bytes [0..<count])
        (\<lambda>fs. Inr \<lparr>ps_format = BinaryStl, ps_triangles = fs\<rparr>))"

definition binary_size_matches :: "string \<Rightarrow> bool" where
  "binary_size_matches bytes =
     (84 \<le> length bytes \<and>
      min (84 + min (declared_count bytes * 50) (2 ^ 64 - 1)) (2 ^ 64 - 1) = length bytes)"

section \<open>ASCII meshes\<close>

text \<open>The lines that are left, with their numbers from 1.\<close>

type_synonym numbered = "(nat \<times> string) list"

definition next_ascii_tokens :: "numbered \<Rightarrow> ((nat \<times> string list) \<times> numbered) checked" where
  "next_ascii_tokens ls =
     (case ls of
        [] \<Rightarrow> reject Truncated ''ASCII STL facet is truncated''
      | (line, txt) # rest \<Rightarrow> Inr ((line, split_whitespace txt), rest))"

definition expect_ascii_line :: "numbered \<Rightarrow> string \<Rightarrow> numbered checked" where
  "expect_ascii_line ls expected =
     and_then (next_ascii_tokens ls)
     (\<lambda>((line, tokens), rest).
        if tokens \<noteq> split_whitespace expected then
          reject_line Format line (''expected '' @ expected)
        else Inr rest)"

definition parse_ascii_number :: "string \<Rightarrow> nat \<Rightarrow> f64 checked" where
  "parse_ascii_number token line =
     (case parse_f64 token of
        None \<Rightarrow> reject_line Format line
          (''invalid numeric token '' @ debug_string token @ '': invalid float literal'')
      | Some v \<Rightarrow>
          if \<not> f64_finite v then reject_line NonFinite line ''STL numeric values must be finite''
          else Inr v)"

definition parse_point :: "string list \<Rightarrow> nat \<Rightarrow> point checked" where
  "parse_point tokens line =
     and_then (parse_ascii_number (tokens ! 0) line) (\<lambda>x.
     and_then (parse_ascii_number (tokens ! 1) line) (\<lambda>y.
     and_then (parse_ascii_number (tokens ! 2) line) (\<lambda>z. Inr (x, y, z))))"

definition parse_vertex :: "numbered \<Rightarrow> (point \<times> numbered) checked" where
  "parse_vertex ls =
     and_then (next_ascii_tokens ls)
     (\<lambda>((line, tokens), rest).
        if length tokens \<noteq> 4 \<or> hd tokens \<noteq> ''vertex'' then
          reject_line Format line ''outer loop must contain exactly three vertex records''
        else and_then (parse_point (tl tokens) line) (\<lambda>p. Inr (p, rest)))"

definition parse_facet :: "nat \<Rightarrow> string list \<Rightarrow> numbered \<Rightarrow> (facet \<times> numbered) checked" where
  "parse_facet line tokens ls =
     (if length tokens \<noteq> 5 \<or> tokens ! 1 \<noteq> ''normal'' then
        reject_line Format line ''facet must be followed by normal and three values''
      else
        and_then (parse_point (drop 2 tokens) line) (\<lambda>normal.
        and_then (expect_ascii_line ls ''outer loop'') (\<lambda>ls.
        and_then (parse_vertex ls) (\<lambda>(a, ls).
        and_then (parse_vertex ls) (\<lambda>(b, ls).
        and_then (parse_vertex ls) (\<lambda>(c, ls).
        and_then (expect_ascii_line ls ''endloop'') (\<lambda>ls.
        and_then (expect_ascii_line ls ''endfacet'') (\<lambda>ls.
          Inr ((a, b, c), ls)))))))))"

fun only_blank_lines :: "numbered \<Rightarrow> unit checked" where
  "only_blank_lines [] = Inr ()"
| "only_blank_lines ((line, txt) # ls) =
     (if \<not> is_blank txt then reject_line Format line ''data follows endsolid''
      else only_blank_lines ls)"

lemma next_ascii_tokens_rest:
  "next_ascii_tokens ls = Inr (t, rest) \<Longrightarrow> length rest < length ls"
  by (auto simp: next_ascii_tokens_def reject_def split: list.splits)

lemma expect_ascii_line_rest: "expect_ascii_line ls e = Inr rest \<Longrightarrow> length rest < length ls"
  by (auto simp: expect_ascii_line_def and_then_Inr_iff reject_line_def
      dest: next_ascii_tokens_rest split: if_splits)

lemma parse_vertex_rest: "parse_vertex ls = Inr (p, rest) \<Longrightarrow> length rest < length ls"
  by (auto simp: parse_vertex_def and_then_Inr_iff reject_line_def
      dest: next_ascii_tokens_rest split: if_splits)

lemma parse_facet_rest: "parse_facet line tokens ls = Inr (f, rest) \<Longrightarrow> length rest < length ls"
  unfolding parse_facet_def
  by (auto simp: and_then_Inr_iff reject_line_def split: if_splits
      dest!: expect_ascii_line_rest parse_vertex_rest)

function parse_facets :: "numbered \<Rightarrow> facet list \<Rightarrow> (facet list) checked" where
  "parse_facets ls facets =
     (case ls of
        [] \<Rightarrow> reject Truncated ''ASCII STL is missing endsolid''
      | (line, txt) # rest \<Rightarrow>
          (let tokens = split_whitespace txt in
           case tokens of
             [] \<Rightarrow> reject_line Format line ''expected facet or endsolid''
           | first # _ \<Rightarrow>
               if first = ''endsolid'' then
                 (if facets = [] then reject Empty ''ASCII STL has no facets''
                  else and_then (only_blank_lines rest) (\<lambda>_. Inr facets))
               else if first = ''facet'' then
                 (case parse_facet line tokens rest of
                    Inl e \<Rightarrow> Inl e
                  | Inr (f, rest') \<Rightarrow> parse_facets rest' (facets @ [f]))
               else reject_line Format line ''expected facet or endsolid''))"
  by auto
termination
  by (relation "measure (\<lambda>(ls, facets). length ls)") (auto dest!: sym [THEN parse_facet_rest] parse_facet_rest)

declare parse_facets.simps [simp del]

definition is_ascii :: "string \<Rightarrow> bool" where
  "is_ascii s = list_all (\<lambda>c. of_char c < (128 :: nat)) s"

definition first_word :: "string \<Rightarrow> string option" where
  "first_word line = (case split_whitespace line of [] \<Rightarrow> None | w # _ \<Rightarrow> Some w)"

definition parse_ascii :: "string \<Rightarrow> parsed_stl checked" where
  "parse_ascii bytes =
     (if \<not> is_ascii bytes then reject Format ''ASCII STL contains a non-ASCII byte''
      else case enumerate 1 (text_lines bytes) of
        [] \<Rightarrow> reject Empty ''STL has no header''
      | (line, header) # rest \<Rightarrow>
          if first_word header \<noteq> Some ''solid'' then
            reject_line Format line ''ASCII STL must begin with solid''
          else and_then (parse_facets rest [])
            (\<lambda>fs. Inr \<lparr>ps_format = AsciiStl, ps_triangles = fs\<rparr>))"

definition looks_like_ascii :: "string \<Rightarrow> bool" where
  "looks_like_ascii bytes =
     (valid_utf8 bytes \<and> CHR 0x00 \<notin> set bytes \<and>
      (case text_lines bytes of [] \<Rightarrow> False | line # _ \<Rightarrow> first_word line = Some ''solid''))"

definition parse_stl :: "string \<Rightarrow> parsed_stl checked" where
  "parse_stl bytes =
     (if bytes = [] then reject Empty ''STL is empty''
      else if looks_like_ascii bytes then
        (let ascii = parse_ascii bytes in
         if is_ok ascii \<or> \<not> binary_size_matches bytes then ascii else parse_binary bytes)
      else parse_binary bytes)"

end
