(* ===== verification/Mesh.thy ===== *)
theory Mesh
  imports Stl
begin

text \<open>
  The integrity of a parsed mesh (\<^verbatim>\<open>verify_mesh\<close> in
  \<^verbatim>\<open>crates/host/src/stl_integrity.rs\<close>): vertices are identified by their exact
  coordinates, every edge must be shared by two facets with opposite windings, the facets around a
  vertex must form one cycle, and the shells must be one material exterior with disjoint cavities.
  An index out of range, a missing key and the unreachable arm of the source are \<open>Panicked\<close>.
\<close>

section \<open>Vectors\<close>

definition point_sub :: "point \<Rightarrow> point \<Rightarrow> point" where
  "point_sub l r =
     (case (l, r) of ((a, b, c), (x, y, z)) \<Rightarrow> (f64_sub a x, f64_sub b y, f64_sub c z))"

definition point_cross :: "point \<Rightarrow> point \<Rightarrow> point" where
  "point_cross l r =
     (case (l, r) of ((a, b, c), (x, y, z)) \<Rightarrow>
        (f64_sub (f64_mul b z) (f64_mul c y), f64_sub (f64_mul c x) (f64_mul a z),
         f64_sub (f64_mul a y) (f64_mul b x)))"

definition point_dot :: "point \<Rightarrow> point \<Rightarrow> f64" where
  "point_dot l r =
     (case (l, r) of ((a, b, c), (x, y, z)) \<Rightarrow>
        f64_add (f64_add (f64_mul a x) (f64_mul b y)) (f64_mul c z))"

definition signed_triangle_volume :: "facet \<Rightarrow> f64" where
  "signed_triangle_volume f =
     (case f of (a, b, c) \<Rightarrow> f64_div (point_dot a (point_cross b c)) (Fin 6))"

definition geometric_epsilon :: f64 where
  "geometric_epsilon = f64_lit (1 / 10 ^ 10)"

section \<open>Vertices and facets\<close>

record mesh_triangle =
  mt_vertices :: facet
  mt_indices :: "nat \<times> nat \<times> nat"

record edge_use =
  eu_triangle :: nat
  eu_from :: nat
  eu_to :: nat

definition canonical_zero :: "f64 \<Rightarrow> f64" where
  "canonical_zero v = (if f64_is_zero v then Fin 0 else v)"

definition vertex_key :: "point \<Rightarrow> point" where
  "vertex_key p = (case p of (x, y, z) \<Rightarrow> (canonical_zero x, canonical_zero y, canonical_zero z))"

type_synonym vertex_table = "point list \<times> (point \<rightharpoonup> nat)"

definition vertex_id :: "point \<Rightarrow> vertex_table \<Rightarrow> vertex_table \<times> nat" where
  "vertex_id v t =
     (case t of (vertices, ids) \<Rightarrow>
        case ids (vertex_key v) of
          Some i \<Rightarrow> (t, i)
        | None \<Rightarrow> ((vertices @ [v], ids(vertex_key v \<mapsto> length vertices)), length vertices))"

record mesh =
  ms_table :: vertex_table
  ms_triangles :: "mesh_triangle list"
  ms_facets :: "nat list list"

definition add_facet :: "nat \<times> facet \<Rightarrow> mesh \<Rightarrow> mesh checked" where
  "add_facet nf m =
     (case nf of (n, (a, b, c)) \<Rightarrow>
      case vertex_id a (ms_table m) of (t, i) \<Rightarrow>
      case vertex_id b t of (t, j) \<Rightarrow>
      case vertex_id c t of (t, k) \<Rightarrow>
      let across = point_cross (point_sub b a) (point_sub c a);
          area_squared = point_dot across across;
          facet = sort [i, j, k] in
      if i = j \<or> j = k \<or> k = i then reject_triangle Degenerate n ''triangle has repeated vertices''
      else if \<not> f64_finite area_squared then
        reject_triangle NonFinite n ''triangle area is not finite''
      else if f64_eq area_squared (Fin 0) then
        reject_triangle Degenerate n ''triangle area is zero or below the strict threshold''
      else if facet \<in> set (ms_facets m) then
        reject_triangle DuplicateFacet n ''facet repeats an earlier triangle''
      else Inr (m\<lparr>ms_table := t,
        ms_triangles := ms_triangles m @ [\<lparr>mt_vertices = (a, b, c), mt_indices = (i, j, k)\<rparr>],
        ms_facets := ms_facets m @ [facet]\<rparr>))"

definition build_mesh :: "facet list \<Rightarrow> mesh checked" where
  "build_mesh facets =
     fold_ok add_facet (enumerate 0 facets) \<lparr>ms_table = ([], \<lambda>_. None), ms_triangles = [], ms_facets = []\<rparr>"

section \<open>Edges\<close>

type_synonym edge = "nat \<times> nat"
type_synonym edge_map = "(edge, edge_use list) btree"
type_synonym incidence = "(nat, nat list) btree"

definition bt_push :: "'k::linorder \<Rightarrow> 'v \<Rightarrow> ('k, 'v list) btree \<Rightarrow> ('k, 'v list) btree" where
  "bt_push k v m = bt_insert k ((case bt_get m k of None \<Rightarrow> [] | Some vs \<Rightarrow> vs) @ [v]) m"

definition edge_uses :: "nat \<times> nat \<times> nat \<times> nat \<Rightarrow> edge_use list" where
  "edge_uses nt =
     (case nt of (n, i, j, k) \<Rightarrow>
        [\<lparr>eu_triangle = n, eu_from = i, eu_to = j\<rparr>, \<lparr>eu_triangle = n, eu_from = j, eu_to = k\<rparr>,
         \<lparr>eu_triangle = n, eu_from = k, eu_to = i\<rparr>])"

definition edge_key :: "edge_use \<Rightarrow> edge" where
  "edge_key u =
     (if eu_from u < eu_to u then (eu_from u, eu_to u) else (eu_to u, eu_from u))"

definition record_edge :: "edge_use \<Rightarrow> edge_map \<Rightarrow> edge_map" where
  "record_edge u = bt_push (edge_key u) u"

definition edge_map :: "(nat \<times> nat \<times> nat) list \<Rightarrow> edge_map" where
  "edge_map ts = fold record_edge (concat (map edge_uses (enumerate 0 ts))) []"

definition vertex_incidence :: "(nat \<times> nat \<times> nat) list \<Rightarrow> incidence" where
  "vertex_incidence ts =
     fold (\<lambda>(n, i, j, k) m. bt_push k n (bt_push j n (bt_push i n m))) (enumerate 0 ts) []"

definition index_at :: "'a list \<Rightarrow> nat \<Rightarrow> 'a checked" where
  "index_at xs i = (if i < length xs then Inr (xs ! i) else Inl Panicked)"

definition push_at :: "nat \<Rightarrow> 'a \<Rightarrow> 'a list list \<Rightarrow> ('a list list) checked" where
  "push_at i x xs = and_then (index_at xs i) (\<lambda>ys. Inr (xs[i := ys @ [x]]))"

definition edge_text :: "edge \<Rightarrow> string" where
  "edge_text e = ''('' @ show_nat (fst e) @ '', '' @ show_nat (snd e) @ '')''"

definition join_edge :: "edge \<times> edge_use list \<Rightarrow> nat list list \<Rightarrow> (nat list list) checked" where
  "join_edge eu neighbors =
     (case eu of (edge, uses) \<Rightarrow>
      case uses of
        [] \<Rightarrow> Inl Panicked
      | [_] \<Rightarrow> reject OpenBoundary (''edge '' @ edge_text edge @ '' has only one incident facet'')
      | [first, second] \<Rightarrow>
          if eu_from first = eu_from second \<and> eu_to first = eu_to second then
            reject_triangle InconsistentOrientation (eu_triangle second)
              (''shared edge '' @ edge_text edge @ '' has the same winding on both facets'')
          else and_then (push_at (eu_triangle first) (eu_triangle second) neighbors)
            (push_at (eu_triangle second) (eu_triangle first))
      | _ \<Rightarrow> reject NonManifold (''edge '' @ edge_text edge @ '' has more than two incident facets''))"

definition join_edges :: "nat \<Rightarrow> edge_map \<Rightarrow> (nat list list) checked" where
  "join_edges n edges = fold_ok join_edge edges (replicate n [])"

section \<open>Links of the vertices\<close>

type_synonym link = "(nat, nat bset) btree"

definition or_default :: "'k \<Rightarrow> ('k, 'v list) btree \<Rightarrow> 'v list" where
  "or_default k m = (case bt_get m k of None \<Rightarrow> [] | Some v \<Rightarrow> v)"

definition link_insert :: "nat \<Rightarrow> nat \<Rightarrow> link \<Rightarrow> link" where
  "link_insert a b l = bt_insert a (bs_insert b (or_default a l)) l"

definition link_vertex :: "nat \<Rightarrow> nat \<Rightarrow> nat \<Rightarrow> (nat, link) btree \<Rightarrow> (nat, link) btree" where
  "link_vertex v a b links =
     bt_insert v (link_insert b a (link_insert a b (or_default v links))) links"

definition link_edge :: "edge \<times> edge_use list \<Rightarrow> (nat, link) btree \<Rightarrow> (nat, link) btree" where
  "link_edge eu links =
     (case eu of ((v, w), uses) \<Rightarrow>
      case uses of
        [first, second] \<Rightarrow>
          link_vertex w (eu_triangle first) (eu_triangle second)
            (link_vertex v (eu_triangle first) (eu_triangle second) links)
      | _ \<Rightarrow> links)"

definition vertex_links :: "edge_map \<Rightarrow> (nat, link) btree" where
  "vertex_links edges = fold link_edge edges []"

text \<open>The walk around a vertex; the stack has its top in front.\<close>

function link_walk :: "link \<Rightarrow> nat list \<Rightarrow> nat bset \<Rightarrow> (nat bset) checked" where
  "link_walk l pending seen =
     (case pending of
        [] \<Rightarrow> Inr seen
      | t # rest \<Rightarrow>
          if t \<in> set seen then link_walk l rest seen
          else case bt_get l t of
            None \<Rightarrow> Inl Panicked
          | Some neighbors \<Rightarrow> link_walk l (rev neighbors @ rest) (bs_insert t seen))"
  by auto
termination
proof (relation "inv_image (less_than <*lex*> less_than)
    (\<lambda>(l, pending, seen). (card (set (bt_keys l) - set seen), length pending))", goal_cases)
  case 1
  show ?case by (simp add: wf_lex_prod)
next
  case (2 l pending seen t rest)
  then show ?case by simp
next
  case (3 l pending seen t rest neighbors)
  then have "t \<in> set (bt_keys l)" by (auto simp: bt_keys_iff bt_contains_iff)
  with 3 have "set (bt_keys l) - set (bs_insert t seen) \<subset> set (bt_keys l) - set seen"
    by (auto simp: bs_insert_def set_insort_key split: if_splits)
  then show ?case by (simp add: psubset_card_mono)
qed

declare link_walk.simps [simp del]

definition check_vertex :: "(nat, link) btree \<Rightarrow> nat \<times> nat list \<Rightarrow> unit checked" where
  "check_vertex links vi =
     (case vi of (vertex, incident) \<Rightarrow>
      case bt_get links vertex of
        None \<Rightarrow> reject NonManifold (''vertex '' @ show_nat vertex @ '' has no link neighborhood'')
      | Some l \<Rightarrow>
          if length l \<noteq> length incident \<or> list_ex (\<lambda>e. length (snd e) \<noteq> 2) l then
            reject NonManifold (''vertex '' @ show_nat vertex @ '' does not have a degree-two link'')
          else and_then (index_at incident 0) (\<lambda>start.
            and_then (link_walk l [start] []) (\<lambda>seen.
              if length seen \<noteq> length incident then
                reject NonManifold (''vertex '' @ show_nat vertex @
                  '' has a disconnected link neighborhood'')
              else Inr ())))"

definition check_vertex_links :: "edge_map \<Rightarrow> incidence \<Rightarrow> unit checked" where
  "check_vertex_links edges incidence = each_ok (check_vertex (vertex_links edges)) incidence"

text \<open>The checks on the indices alone; the result is the neighbours of each facet.\<close>

definition check_topology :: "(nat \<times> nat \<times> nat) list \<Rightarrow> (nat list list) checked" where
  "check_topology ts =
     (let edges = edge_map ts in
      and_then (join_edges (length ts) edges) (\<lambda>neighbors.
      and_then (check_vertex_links edges (vertex_incidence ts)) (\<lambda>_. Inr neighbors)))"


section \<open>Shells\<close>

fun visit_neighbors :: "nat list \<Rightarrow> bool list \<Rightarrow> nat list \<Rightarrow> (bool list \<times> nat list) checked" where
  "visit_neighbors [] visited pending = Inr (visited, pending)"
| "visit_neighbors (n # ns) visited pending =
     and_then (index_at visited n) (\<lambda>v.
       if v then visit_neighbors ns visited pending
       else visit_neighbors ns (visited[n := True]) (pending @ [n]))"

lemma count_flip:
  "n < length xs \<Longrightarrow> \<not> xs ! n \<Longrightarrow>
     length (filter Not xs) = Suc (length (filter Not (xs[n := True])))"
proof (induction xs arbitrary: n)
  case Nil
  then show ?case by simp
next
  case (Cons x xs)
  then show ?case by (cases n) auto
qed

lemma visit_neighbors_work:
  "visit_neighbors ns visited pending = Inr (visited', pending') \<Longrightarrow>
     length pending' + length (filter Not visited') = length pending + length (filter Not visited)"
proof (induction ns visited pending rule: visit_neighbors.induct)
  case (1 visited pending)
  then show ?case by simp
next
  case (2 n ns visited pending)
  show ?case
  proof (cases "n < length visited \<and> \<not> visited ! n")
    case True
    then have n: "n < length visited" "\<not> visited ! n" by auto
    note flips = count_flip [OF n]
    have "length pending' + length (filter Not visited') =
        length (pending @ [n]) + length (filter Not (visited[n := True]))"
      using "2.IH"(2) [of "visited ! n"] "2.prems" n by (simp add: index_at_def)
    with flips show ?thesis by simp
  next
    case False
    with "2.prems" "2.IH"(1) [of "visited ! n"] show ?thesis
      by (auto simp: index_at_def split: if_splits)
  qed
qed

text \<open>The breadth-first walk over the facets that edges connect.\<close>

function shell_walk ::
  "nat list list \<Rightarrow> bool list \<Rightarrow> nat list \<Rightarrow> nat list \<Rightarrow> (bool list \<times> nat list) checked" where
  "shell_walk neighbors visited pending shell =
     (case pending of
        [] \<Rightarrow> Inr (visited, shell)
      | t # rest \<Rightarrow>
          (case and_then (index_at neighbors t) (\<lambda>ns. visit_neighbors ns visited rest) of
             Inl e \<Rightarrow> Inl e
           | Inr (visited', pending') \<Rightarrow> shell_walk neighbors visited' pending' (shell @ [t])))"
  by auto
termination
  by (relation "measure (\<lambda>(neighbors, visited, pending, shell). length pending + length (filter Not visited))")
    (auto simp: and_then_Inr_iff dest!: sym [of "Inr _"] visit_neighbors_work)

declare shell_walk.simps [simp del]

definition shell_from ::
  "nat list list \<Rightarrow> nat \<Rightarrow> bool list \<times> nat list list \<Rightarrow> (bool list \<times> nat list list) checked" where
  "shell_from neighbors start x =
     (case x of (visited, shells) \<Rightarrow>
      and_then (index_at visited start) (\<lambda>v.
        if v then Inr (visited, shells)
        else and_then (shell_walk neighbors (visited[start := True]) [start] [])
          (\<lambda>(visited, shell). Inr (visited, shells @ [shell]))))"

definition connected_shells :: "nat list list \<Rightarrow> nat \<Rightarrow> (nat list list) checked" where
  "connected_shells neighbors n =
     and_then (fold_ok (shell_from neighbors) [0..<n] (replicate n False, []))
     (\<lambda>(visited, shells). Inr shells)"

section \<open>Containment and intersection\<close>

type_synonym point2 = "f64 \<times> f64"

definition dominant_axis :: "point \<Rightarrow> nat" where
  "dominant_axis normal =
     (case normal of (a, b, c) \<Rightarrow>
      let x = f64_abs a; y = f64_abs b; z = f64_abs c in
      if f64_lt x y \<and> f64_le z y then 1
      else if f64_lt x z \<and> f64_lt y z then 2
      else 0)"

definition project_point :: "nat \<Rightarrow> point \<Rightarrow> point2" where
  "project_point axis p =
     (case p of (x, y, z) \<Rightarrow> if axis = 0 then (y, z) else if axis = 1 then (x, z) else (x, y))"

definition orient_2d :: "point2 \<Rightarrow> point2 \<Rightarrow> point2 \<Rightarrow> f64" where
  "orient_2d a b c =
     f64_sub (f64_mul (f64_sub (fst b) (fst a)) (f64_sub (snd c) (snd a)))
       (f64_mul (f64_sub (snd b) (snd a)) (f64_sub (fst c) (fst a)))"

definition at_least_minus_epsilon :: "f64 \<Rightarrow> bool" where
  "at_least_minus_epsilon v = f64_le (f64_neg geometric_epsilon) v"

definition point_in_triangle_2d :: "point2 \<Rightarrow> point2 \<times> point2 \<times> point2 \<Rightarrow> bool" where
  "point_in_triangle_2d p t =
     (case t of (a, b, c) \<Rightarrow>
      let os = [orient_2d a b p, orient_2d b c p, orient_2d c a p] in
      list_all at_least_minus_epsilon os \<or> list_all (\<lambda>v. f64_le v geometric_epsilon) os)"

definition f64_min :: "f64 \<Rightarrow> f64 \<Rightarrow> f64" where
  "f64_min a b = (if a = NaN then b else if b = NaN then a else if f64_lt b a then b else a)"

definition point_on_segment_2d :: "point2 \<Rightarrow> point2 \<Rightarrow> point2 \<Rightarrow> bool" where
  "point_on_segment_2d p s e =
     (f64_le (f64_sub (f64_min (fst s) (fst e)) geometric_epsilon) (fst p) \<and>
      f64_le (fst p) (f64_add (f64_max (fst s) (fst e)) geometric_epsilon) \<and>
      f64_le (f64_sub (f64_min (snd s) (snd e)) geometric_epsilon) (snd p) \<and>
      f64_le (snd p) (f64_add (f64_max (snd s) (snd e)) geometric_epsilon))"

definition within_epsilon :: "f64 \<Rightarrow> bool" where
  "within_epsilon v = f64_le (f64_abs v) geometric_epsilon"

definition segments_intersect_2d :: "point2 \<Rightarrow> point2 \<Rightarrow> point2 \<Rightarrow> point2 \<Rightarrow> bool" where
  "segments_intersect_2d ls le rs re =
     (let first = orient_2d ls le rs; second = orient_2d ls le re;
          third = orient_2d rs re ls; fourth = orient_2d rs re le in
      within_epsilon first \<and> point_on_segment_2d rs ls le \<or>
      within_epsilon second \<and> point_on_segment_2d re ls le \<or>
      within_epsilon third \<and> point_on_segment_2d ls rs re \<or>
      within_epsilon fourth \<and> point_on_segment_2d le rs re \<or>
      f64_pos first \<noteq> f64_pos second \<and> f64_pos third \<noteq> f64_pos fourth)"

definition segment_intersects_triangle :: "point \<Rightarrow> point \<Rightarrow> facet \<Rightarrow> bool" where
  "segment_intersects_triangle s e f =
     (case f of (a, b, c) \<Rightarrow>
      let direction = point_sub e s; edge1 = point_sub b a; edge2 = point_sub c a;
          pvec = point_cross direction edge2; determinant = point_dot edge1 pvec in
      if within_epsilon determinant then
        (let normal = point_cross edge1 edge2 in
         if f64_lt geometric_epsilon (f64_abs (point_dot (point_sub s a) normal)) \<or>
            f64_lt geometric_epsilon (f64_abs (point_dot (point_sub e a) normal)) then False
         else
           let axis = dominant_axis normal; s2 = project_point axis s; e2 = project_point axis e;
               a2 = project_point axis a; b2 = project_point axis b; c2 = project_point axis c in
           point_in_triangle_2d s2 (a2, b2, c2) \<or> point_in_triangle_2d e2 (a2, b2, c2) \<or>
           segments_intersect_2d s2 e2 a2 b2 \<or> segments_intersect_2d s2 e2 b2 c2 \<or>
           segments_intersect_2d s2 e2 c2 a2)
      else
        let inverse = f64_div (Fin 1) determinant; tvec = point_sub s a;
            u = f64_mul (point_dot tvec pvec) inverse; qvec = point_cross tvec edge1;
            v = f64_mul (point_dot direction qvec) inverse;
            t = f64_mul (point_dot edge2 qvec) inverse in
        at_least_minus_epsilon t \<and> f64_le t (f64_add (Fin 1) geometric_epsilon) \<and>
        at_least_minus_epsilon u \<and> at_least_minus_epsilon v \<and>
        f64_le (f64_add u v) (f64_add (Fin 1) geometric_epsilon))"

definition facet_edges :: "facet \<Rightarrow> (point \<times> point) list" where
  "facet_edges f = (case f of (a, b, c) \<Rightarrow> [(a, b), (b, c), (c, a)])"

definition triangles_intersect :: "facet \<Rightarrow> facet \<Rightarrow> bool" where
  "triangles_intersect l r =
     (list_ex (\<lambda>(s, e). segment_intersects_triangle s e r) (facet_edges l) \<or>
      list_ex (\<lambda>(s, e). segment_intersects_triangle s e l) (facet_edges r))"

definition point_on_triangle :: "point \<Rightarrow> facet \<Rightarrow> bool" where
  "point_on_triangle p f =
     (case f of (a, b, c) \<Rightarrow>
      let v0 = point_sub b a; v1 = point_sub c a; normal = point_cross v0 v1;
          normal_length = f64_sqrt (point_dot normal normal) in
      if f64_eq normal_length (Fin 0) then False
      else if f64_lt (f64_mul geometric_epsilon normal_length)
          (f64_abs (point_dot (point_sub p a) normal)) then False
      else
        let v2 = point_sub p a; dot00 = point_dot v0 v0; dot01 = point_dot v0 v1;
            dot02 = point_dot v0 v2; dot11 = point_dot v1 v1; dot12 = point_dot v1 v2;
            denominator = f64_sub (f64_mul dot00 dot11) (f64_mul dot01 dot01) in
        if f64_le (f64_abs denominator) f64_epsilon then False
        else
          let inverse = f64_div (Fin 1) denominator;
              u = f64_mul (f64_sub (f64_mul dot11 dot02) (f64_mul dot01 dot12)) inverse;
              v = f64_mul (f64_sub (f64_mul dot00 dot12) (f64_mul dot01 dot02)) inverse in
          at_least_minus_epsilon u \<and> at_least_minus_epsilon v \<and>
          f64_le (f64_add u v) (f64_add (Fin 1) geometric_epsilon))"

text \<open>The parity of the crossings of a ray; \<open>None\<close> when it touches the border of a facet.\<close>

fun ray_parity :: "point \<Rightarrow> point \<Rightarrow> facet list \<Rightarrow> nat \<Rightarrow> bool option" where
  "ray_parity p direction [] n = Some (odd n)"
| "ray_parity p direction ((a, b, c) # fs) n =
     (let edge1 = point_sub b a; edge2 = point_sub c a; pvec = point_cross direction edge2;
          determinant = point_dot edge1 pvec in
      if within_epsilon determinant then ray_parity p direction fs n
      else
        let inverse = f64_div (Fin 1) determinant; tvec = point_sub p a;
            u = f64_mul (point_dot tvec pvec) inverse; qvec = point_cross tvec edge1;
            v = f64_mul (point_dot direction qvec) inverse;
            t = f64_mul (point_dot edge2 qvec) inverse in
        if f64_le t geometric_epsilon then ray_parity p direction fs n
        else if f64_lt u (f64_neg geometric_epsilon) \<or> f64_lt v (f64_neg geometric_epsilon) \<or>
            f64_lt (f64_add (Fin 1) geometric_epsilon) (f64_add u v) then
          ray_parity p direction fs n
        else if f64_le u geometric_epsilon \<or> f64_le v geometric_epsilon \<or>
            f64_le (f64_sub (f64_sub (Fin 1) u) v) geometric_epsilon then None
        else ray_parity p direction fs (Suc n))"

definition ray_directions :: "point list" where
  "ray_directions =
     [(Fin 1, f64_lit (3713906763541037 / 10 ^ 16), f64_lit (1732050807568877 / 10 ^ 16)),
      (f64_lit (219871 / 10 ^ 6), Fin 1, f64_lit (414213 / 10 ^ 6)),
      (f64_lit (137503 / 10 ^ 6), f64_lit (281731 / 10 ^ 6), Fin 1)]"

fun first_parity :: "point \<Rightarrow> facet list \<Rightarrow> point list \<Rightarrow> bool" where
  "first_parity p fs [] = False"
| "first_parity p fs (d # ds) =
     (case ray_parity p d fs 0 of Some inside \<Rightarrow> inside | None \<Rightarrow> first_parity p fs ds)"

definition point_inside_shell :: "point \<Rightarrow> facet list \<Rightarrow> bool" where
  "point_inside_shell p fs =
     (if list_ex (point_on_triangle p) fs then False else first_parity p fs ray_directions)"


section \<open>Verification\<close>

fun map_ok :: "('a \<Rightarrow> 'e + 'b) \<Rightarrow> 'a list \<Rightarrow> 'e + 'b list" where
  "map_ok f [] = Inr []"
| "map_ok f (x # xs) = and_then (f x) (\<lambda>y. and_then (map_ok f xs) (\<lambda>ys. Inr (y # ys)))"

fun all_ok :: "('a \<Rightarrow> 'e + bool) \<Rightarrow> 'a list \<Rightarrow> 'e + bool" where
  "all_ok f [] = Inr True"
| "all_ok f (x # xs) = and_then (f x) (\<lambda>b. if b then all_ok f xs else Inr False)"

definition shell_triangles :: "mesh \<Rightarrow> nat list \<Rightarrow> (mesh_triangle list) checked" where
  "shell_triangles m shell = map_ok (index_at (ms_triangles m)) shell"

definition index_list :: "mesh_triangle \<Rightarrow> nat list" where
  "index_list t = (case mt_indices t of (i, j, k) \<Rightarrow> [i, j, k])"

definition shell_vertices_strictly_inside :: "mesh \<Rightarrow> nat list \<Rightarrow> nat list \<Rightarrow> bool checked" where
  "shell_vertices_strictly_inside m inner outer =
     and_then (shell_triangles m inner) (\<lambda>ins.
     and_then (shell_triangles m outer) (\<lambda>outs.
       all_ok (\<lambda>v. and_then (index_at (fst (ms_table m)) v)
           (\<lambda>p. Inr (point_inside_shell p (map mt_vertices outs))))
         (bs_of (concat (map index_list ins)))))"

definition shells_intersect :: "mesh \<Rightarrow> nat list \<Rightarrow> nat list \<Rightarrow> bool checked" where
  "shells_intersect m left right =
     and_then (shell_triangles m left) (\<lambda>ls.
     and_then (shell_triangles m right) (\<lambda>rs.
       Inr (list_ex (\<lambda>l. list_ex (\<lambda>r.
         triangles_intersect (mt_vertices l) (mt_vertices r)) rs) ls)))"

text \<open>The disjunction that evaluates its right side only when it must.\<close>

definition or_else :: "'e + bool \<Rightarrow> 'e + bool \<Rightarrow> 'e + bool" where
  "or_else a b = and_then a (\<lambda>x. if x then Inr True else b)"

definition shell_volume :: "mesh \<Rightarrow> nat list \<Rightarrow> f64 checked" where
  "shell_volume m shell =
     and_then (shell_triangles m shell)
     (\<lambda>ts. Inr (f64_sum (map (\<lambda>t. signed_triangle_volume (mt_vertices t)) ts)))"

definition check_cavity :: "mesh \<Rightarrow> nat list list \<Rightarrow> nat \<Rightarrow> nat \<times> f64 \<Rightarrow> nat \<Rightarrow> nat checked" where
  "check_cavity m shells exterior iv cavities =
     (case iv of (i, volume) \<Rightarrow>
      if i = exterior then Inr cavities
      else if f64_le (Fin 0) volume then
        reject NonPositiveVolume (''shell '' @ show_nat i @ '' has no strictly negative cavity orientation'')
      else
        and_then (index_at shells i) (\<lambda>shell.
        and_then (index_at shells exterior) (\<lambda>outer.
        and_then (or_else
          (and_then (shell_vertices_strictly_inside m shell outer) (\<lambda>inside. Inr (\<not> inside)))
          (shells_intersect m shell outer)) (\<lambda>escapes.
          if escapes then
            reject CavityContainment (''cavity shell '' @ show_nat i @
              '' is not strictly contained by the exterior'')
          else Inr (cavities + 1)))))"

definition check_cavity_pair :: "mesh \<Rightarrow> nat list list \<Rightarrow> nat \<Rightarrow> nat \<times> f64 \<Rightarrow> unit checked" where
  "check_cavity_pair m shells i jv =
     (case jv of (j, volume) \<Rightarrow>
      if \<not> f64_lt volume (Fin 0) then Inr ()
      else
        and_then (index_at shells i) (\<lambda>l.
        and_then (index_at shells j) (\<lambda>r.
        and_then (or_else (shells_intersect m l r)
          (or_else (shell_vertices_strictly_inside m l r) (shell_vertices_strictly_inside m r l)))
        (\<lambda>overlap.
          if overlap then
            reject CavityContainment (''cavity shells '' @ show_nat i @ '' and '' @ show_nat j @
              '' overlap or nest'')
          else Inr ()))))"

definition check_cavity_pairs :: "mesh \<Rightarrow> nat list list \<Rightarrow> f64 list \<Rightarrow> unit checked" where
  "check_cavity_pairs m shells volumes =
     each_ok (\<lambda>(i, volume).
       if f64_le (Fin 0) volume then Inr ()
       else each_ok (check_cavity_pair m shells i) (drop (i + 1) (enumerate 0 volumes)))
     (enumerate 0 volumes)"

record integrity_report =
  ir_format :: stl_format
  ir_triangle_count :: nat
  ir_unique_vertex_count :: nat
  ir_shell_count :: nat
  ir_cavity_shell_count :: nat
  ir_shell_signed_volumes :: "f64 list"
  ir_signed_volume :: f64
  ir_material_volume :: f64

definition check_volumes ::
  "(f64 \<Rightarrow> string) \<Rightarrow> stl_format \<Rightarrow> mesh \<Rightarrow> nat list list \<Rightarrow> f64 list \<Rightarrow> integrity_report checked" where
  "check_volumes show_f64 fmt m shells volumes =
     (case map fst (filter (\<lambda>iv. f64_pos (snd iv)) (enumerate 0 volumes)) of
        [] \<Rightarrow> reject NonPositiveVolume ''mesh has no positively oriented material exterior''
      | exterior # others \<Rightarrow>
          if others \<noteq> [] then
            reject MaterialBodyCount (''mesh has '' @ show_nat (Suc (length others)) @
              '' positively oriented material shells'')
          else
            and_then (fold_ok (check_cavity m shells exterior) (enumerate 0 volumes) 0) (\<lambda>cavities.
            and_then (check_cavity_pairs m shells volumes) (\<lambda>_.
            let signed = f64_sum volumes in
            if \<not> f64_finite signed \<or> f64_le signed (Fin 0) then
              reject NonPositiveVolume (''material volume is not positive: '' @ show_f64 signed)
            else Inr
              \<lparr>ir_format = fmt, ir_triangle_count = length (ms_triangles m),
               ir_unique_vertex_count = length (fst (ms_table m)), ir_shell_count = length shells,
               ir_cavity_shell_count = cavities, ir_shell_signed_volumes = volumes,
               ir_signed_volume = signed, ir_material_volume = signed\<rparr>)))"

definition verify_mesh :: "(f64 \<Rightarrow> string) \<Rightarrow> parsed_stl \<Rightarrow> integrity_report checked" where
  "verify_mesh show_f64 parsed =
     and_then (build_mesh (ps_triangles parsed)) (\<lambda>m.
     and_then (check_topology (map mt_indices (ms_triangles m))) (\<lambda>neighbors.
     and_then (connected_shells neighbors (length (ms_triangles m))) (\<lambda>shells.
     and_then (map_ok (shell_volume m) shells) (\<lambda>volumes.
       check_volumes show_f64 (ps_format parsed) m shells volumes))))"

definition verify_bytes :: "(f64 \<Rightarrow> string) \<Rightarrow> string \<Rightarrow> integrity_report checked" where
  "verify_bytes show_f64 bytes = and_then (parse_stl bytes) (verify_mesh show_f64)"

section \<open>Observations\<close>

record mesh_observation =
  mo_format :: stl_format
  mo_facets :: "facet list"
  mo_bounds_min :: point
  mo_bounds_max :: point

definition point_with :: "(f64 \<Rightarrow> f64 \<Rightarrow> f64) \<Rightarrow> point \<Rightarrow> point \<Rightarrow> point" where
  "point_with f p q = (case (p, q) of ((a, b, c), (x, y, z)) \<Rightarrow> (f a x, f b y, f c z))"

definition facet_points :: "facet \<Rightarrow> point list" where
  "facet_points f = (case f of (a, b, c) \<Rightarrow> [a, b, c])"

definition observe_bytes :: "string \<Rightarrow> mesh_observation checked" where
  "observe_bytes bytes =
     and_then (parse_stl bytes) (\<lambda>parsed.
       let points = concat (map facet_points (ps_triangles parsed)) in
       Inr \<lparr>mo_format = ps_format parsed, mo_facets = ps_triangles parsed,
            mo_bounds_min = foldl (point_with f64_min) (PosInf, PosInf, PosInf) points,
            mo_bounds_max = foldl (point_with f64_max) (NegInf, NegInf, NegInf) points\<rparr>)"

end
