(* ===== verification/MeshTopology.thy ===== *)
theory MeshTopology
  imports Mesh
begin

text \<open>
  The topological checks against their meaning: the facets are a closed oriented surface, and the
  facets around every vertex are connected through the edges at the vertex.
\<close>

section \<open>Counting edges\<close>

definition directed :: "edge_use \<Rightarrow> edge" where
  "directed u = (eu_from u, eu_to u)"

definition corners :: "nat \<times> nat \<times> nat \<Rightarrow> nat list" where
  "corners t = (case t of (i, j, k) \<Rightarrow> [i, j, k])"

definition borders :: "nat \<times> nat \<times> nat \<Rightarrow> edge list" where
  "borders t = (case t of (i, j, k) \<Rightarrow> [(i, j), (j, k), (k, i)])"

definition all_uses :: "(nat \<times> nat \<times> nat) list \<Rightarrow> edge_use list" where
  "all_uses ts = concat (map edge_uses (enumerate 0 ts))"

definition nondegenerate :: "(nat \<times> nat \<times> nat) list \<Rightarrow> bool" where
  "nondegenerate ts \<longleftrightarrow> (\<forall>t\<in>set ts. distinct (corners t))"

definition closed_oriented :: "(nat \<times> nat \<times> nat) list \<Rightarrow> bool" where
  "closed_oriented ts \<longleftrightarrow>
     distinct (concat (map borders ts)) \<and>
     (\<forall>(a, b)\<in>set (concat (map borders ts)). (b, a) \<in> set (concat (map borders ts)))"

lemma or_default_push: "or_default k (bt_push j v m) = (if k = j then or_default k m @ [v] else or_default k m)"
  by (simp add: or_default_def bt_push_def bt_get_insert)

lemma bt_ok_push: "bt_ok m \<Longrightarrow> bt_ok (bt_push k v m)"
  by (simp add: bt_push_def bt_ok_insert)

lemma contains_push: "bt_contains (bt_push j v m) k \<longleftrightarrow> k = j \<or> bt_contains m k"
  by (simp add: bt_push_def bt_contains_iff bt_get_insert)

lemma fold_push:
  "or_default k (fold (\<lambda>u. bt_push (f u) u) us m) = or_default k m @ filter (\<lambda>u. f u = k) us"
  "bt_ok m \<Longrightarrow> bt_ok (fold (\<lambda>u. bt_push (f u) u) us m)"
  "bt_contains (fold (\<lambda>u. bt_push (f u) u) us m) k \<longleftrightarrow> bt_contains m k \<or> k \<in> f ` set us"
  by (induction us arbitrary: m) (auto simp: or_default_push bt_ok_push contains_push)

lemma get_default: "bt_get m k = (if bt_contains m k then Some (or_default k m) else None)"
  by (cases "bt_get m k") (simp_all add: or_default_def bt_contains_iff)

lemma edge_map_ok: "bt_ok (edge_map ts)"
  unfolding edge_map_def record_edge_def by (rule fold_push) simp

lemma edge_map_get:
  "bt_get (edge_map ts) k =
     (let us = filter (\<lambda>u. edge_key u = k) (all_uses ts) in if us = [] then None else Some us)"
proof -
  have default: "or_default k (edge_map ts) = filter (\<lambda>u. edge_key u = k) (all_uses ts)"
    unfolding edge_map_def record_edge_def all_uses_def fold_push(1) by (simp add: or_default_def)
  have "bt_contains (edge_map ts) k \<longleftrightarrow> k \<in> edge_key ` set (all_uses ts)"
    unfolding edge_map_def record_edge_def all_uses_def fold_push(3) by simp
  then have "bt_contains (edge_map ts) k \<longleftrightarrow> filter (\<lambda>u. edge_key u = k) (all_uses ts) \<noteq> []"
    unfolding filter_empty_conv by blast
  then show ?thesis by (simp add: get_default default Let_def)
qed

lemma edge_map_entry:
  "(k, us) \<in> set (edge_map ts) \<longleftrightarrow> us \<noteq> [] \<and> us = filter (\<lambda>u. edge_key u = k) (all_uses ts)"
  by (auto simp: bt_in_set_iff [OF edge_map_ok] edge_map_get Let_def)

lemma directed_uses: "map directed (all_uses ts) = concat (map borders ts)"
proof -
  have "map directed (edge_uses nt) = borders (snd nt)" for nt
    by (cases nt) (simp add: edge_uses_def borders_def directed_def)
  then have "map directed (all_uses ts) = concat (map (borders \<circ> snd) (enumerate 0 ts))"
    by (simp add: all_uses_def map_concat comp_def)
  also have "map (borders \<circ> snd) (enumerate 0 ts) = map borders (map snd (enumerate 0 ts))"
    by (simp only: map_map)
  finally show ?thesis by simp
qed

definition border_count :: "(nat \<times> nat \<times> nat) list \<Rightarrow> edge \<Rightarrow> nat" where
  "border_count ts d = length (filter (\<lambda>u. directed u = d) (all_uses ts))"

lemma border_count_list: "border_count ts d = count_list (concat (map borders ts)) d"
proof -
  have "length (filter (\<lambda>u. directed u = d) us) = count_list (map directed us) d" for us
    by (induction us) auto
  then show ?thesis by (simp add: border_count_def directed_uses)
qed

lemma border_count_zero: "border_count ts d = 0 \<longleftrightarrow> d \<notin> set (concat (map borders ts))"
  unfolding border_count_list by (rule count_list_0_iff)

lemma use_directions: "nondegenerate ts \<Longrightarrow> u \<in> set (all_uses ts) \<Longrightarrow> eu_from u \<noteq> eu_to u"
proof -
  assume "nondegenerate ts" "u \<in> set (all_uses ts)"
  then obtain n i j k where "(n, i, j, k) \<in> set (enumerate 0 ts)" "u \<in> set (edge_uses (n, i, j, k))"
    by (auto simp: all_uses_def)
  moreover from this(1) have "(i, j, k) \<in> set ts" by (auto simp: in_set_enumerate_eq dest: nth_mem)
  then have "distinct (corners (i, j, k))" using \<open>nondegenerate ts\<close> by (simp add: nondegenerate_def)
  ultimately show ?thesis by (auto simp: edge_uses_def corners_def)
qed

lemma no_loops: "nondegenerate ts \<Longrightarrow> border_count ts (a, a) = 0"
  using use_directions [of ts] by (fastforce simp: border_count_def filter_empty_conv directed_def)

lemma key_uses:
  assumes "a < b"
  shows "length (filter (\<lambda>u. edge_key u = (a, b)) us) =
    length (filter (\<lambda>u. directed u = (a, b)) us) + length (filter (\<lambda>u. directed u = (b, a)) us)"
  using assms by (induction us) (auto simp: edge_key_def directed_def)

definition paired :: "edge_use list \<Rightarrow> bool" where
  "paired us \<longleftrightarrow> (\<exists>x y. us = [x, y] \<and> directed x \<noteq> directed y)"

lemma paired_iff:
  assumes "a < b" "us = filter (\<lambda>u. edge_key u = (a, b)) vs"
  shows "paired us \<longleftrightarrow>
    length (filter (\<lambda>u. directed u = (a, b)) vs) = 1 \<and> length (filter (\<lambda>u. directed u = (b, a)) vs) = 1"
proof -
  have key: "directed u = (a, b) \<or> directed u = (b, a)" if "u \<in> set us" for u
    using that assms(2) by (auto simp: edge_key_def directed_def split: if_splits)
  have part: "filter (\<lambda>u. directed u = d) us = filter (\<lambda>u. directed u = d) vs"
    if "d = (a, b) \<or> d = (b, a)" for d
    unfolding assms(2) filter_filter
    by (rule filter_cong) (use that assms(1) in \<open>auto simp: edge_key_def directed_def\<close>)
  have len: "length us = length (filter (\<lambda>u. directed u = (a, b)) vs) + length (filter (\<lambda>u. directed u = (b, a)) vs)"
    unfolding assms(2) by (rule key_uses [OF assms(1)])
  have ne: "(a, b) \<noteq> (b, a)" using assms(1) by simp
  show ?thesis
  proof
    assume "paired us"
    then obtain x y where us: "us = [x, y]" "directed x \<noteq> directed y" by (auto simp: paired_def)
    with key [of x] key [of y] ne show "length (filter (\<lambda>u. directed u = (a, b)) vs) = 1 \<and>
        length (filter (\<lambda>u. directed u = (b, a)) vs) = 1"
      by (auto simp flip: part)
  next
    assume one: "length (filter (\<lambda>u. directed u = (a, b)) vs) = 1 \<and>
        length (filter (\<lambda>u. directed u = (b, a)) vs) = 1"
    with len obtain x y where us: "us = [x, y]" by (auto simp: length_Suc_conv numeral_2_eq_2)
    have "directed x \<noteq> directed y"
    proof
      assume "directed x = directed y"
      with us key [of x] have "filter (\<lambda>u. directed u = (a, b)) us = [] \<or> filter (\<lambda>u. directed u = (b, a)) us = []"
        using ne by auto
      then have "filter (\<lambda>u. directed u = (a, b)) vs = [] \<or> filter (\<lambda>u. directed u = (b, a)) vs = []"
        by (simp add: part)
      with one show False by auto
    qed
    with us show "paired us" by (simp add: paired_def)
  qed
qed

lemma distinct_count: "distinct xs \<longleftrightarrow> (\<forall>x. count_list xs x \<le> 1)"
proof (induction xs)
  case Nil
  show ?case by simp
next
  case (Cons y ys)
  have "(\<forall>x. count_list (y # ys) x \<le> 1) \<longleftrightarrow> count_list ys y = 0 \<and> (\<forall>x. count_list ys x \<le> 1)"
  proof
    assume few: "\<forall>x. count_list (y # ys) x \<le> 1"
    have "count_list ys x \<le> 1" for x using few [rule_format, of x] by (simp split: if_splits)
    then show "count_list ys y = 0 \<and> (\<forall>x. count_list ys x \<le> 1)"
      using few [rule_format, of y] by simp
  qed simp
  then have "(\<forall>x. count_list (y # ys) x \<le> 1) \<longleftrightarrow> y \<notin> set ys \<and> (\<forall>x. count_list ys x \<le> 1)"
    by (simp only: count_list_0_iff)
  with Cons show ?case by simp
qed

lemma closed_oriented_counts:
  assumes "nondegenerate ts"
  shows "closed_oriented ts \<longleftrightarrow>
    (\<forall>a b. a < b \<longrightarrow> border_count ts (a, b) + border_count ts (b, a) \<noteq> 0 \<longrightarrow>
       border_count ts (a, b) = 1 \<and> border_count ts (b, a) = 1)"
    (is "_ \<longleftrightarrow> ?counts")
proof
  assume c: "closed_oriented ts"
  have one: "border_count ts d \<le> 1" for d
    using c unfolding closed_oriented_def distinct_count border_count_list by blast
  have swap: "border_count ts (b, a) \<noteq> 0" if "border_count ts (a, b) \<noteq> 0" for a b
    using c that unfolding closed_oriented_def border_count_zero by blast
  show ?counts
    using one swap by (metis One_nat_def Suc_leI add_is_0 gr0I le_antisym)
next
  assume counts: ?counts
  have one: "border_count ts (a, b) \<le> 1 \<and> (border_count ts (a, b) \<noteq> 0 \<longrightarrow> border_count ts (b, a) \<noteq> 0)" for a b
  proof (cases a b rule: linorder_cases)
    case less
    with counts show ?thesis by (metis One_nat_def add_is_0 le_numeral_extra(4) nat.distinct(1) le0)
  next
    case equal
    with no_loops [OF assms] show ?thesis by simp
  next
    case greater
    with counts show ?thesis by (metis One_nat_def add_is_0 le_numeral_extra(4) nat.distinct(1) le0)
  qed
  have "distinct (concat (map borders ts))"
    using one unfolding distinct_count border_count_list by (metis surj_pair)
  then show "closed_oriented ts"
    using one unfolding closed_oriented_def border_count_zero by blast
qed

lemma edges_paired:
  assumes "nondegenerate ts"
  shows "(\<forall>(k, us)\<in>set (edge_map ts). paired us) \<longleftrightarrow> closed_oriented ts"
proof -
  have some: "filter (\<lambda>u. edge_key u = (a, b)) (all_uses ts) \<noteq> [] \<longleftrightarrow>
      border_count ts (a, b) + border_count ts (b, a) \<noteq> 0" if "a < b" for a b
    using key_uses [OF that, of "all_uses ts"] unfolding border_count_def length_0_conv [symmetric]
    by (rule arg_cong)
  have ordered: "a < b" if "((a, b), us) \<in> set (edge_map ts)" for a b us
  proof -
    from that obtain u where "u \<in> set (all_uses ts)" "edge_key u = (a, b)"
      by (auto simp: edge_map_entry filter_empty_conv)
    with use_directions [OF assms, of u] show ?thesis by (auto simp: edge_key_def split: if_splits)
  qed
  show ?thesis
    unfolding closed_oriented_counts [OF assms]
  proof (intro iffI allI impI)
    fix a b :: nat
    assume all: "\<forall>(k, us)\<in>set (edge_map ts). paired us" and ab: "a < b"
      and used: "border_count ts (a, b) + border_count ts (b, a) \<noteq> 0"
    let ?us = "filter (\<lambda>u. edge_key u = (a, b)) (all_uses ts)"
    from some [OF ab] used have "((a, b), ?us) \<in> set (edge_map ts)" by (simp add: edge_map_entry)
    with all have "paired ?us" by blast
    with paired_iff [OF ab refl, of "all_uses ts"]
    show "border_count ts (a, b) = 1 \<and> border_count ts (b, a) = 1" by (simp add: border_count_def)
  next
    assume counts: "\<forall>a b. a < b \<longrightarrow> border_count ts (a, b) + border_count ts (b, a) \<noteq> 0 \<longrightarrow>
        border_count ts (a, b) = 1 \<and> border_count ts (b, a) = 1"
    have "paired us" if entry: "((a, b), us) \<in> set (edge_map ts)" for a b us
    proof -
      from ordered [OF entry] have ab: "a < b" .
      from entry have us: "us \<noteq> []" "us = filter (\<lambda>u. edge_key u = (a, b)) (all_uses ts)"
        by (auto simp: edge_map_entry)
      have "border_count ts (a, b) + border_count ts (b, a) \<noteq> 0"
        using iffD1 [OF some [OF ab]] us by simp
      with counts ab have "border_count ts (a, b) = 1 \<and> border_count ts (b, a) = 1" by blast
      then show "paired us"
        unfolding paired_iff [OF ab us(2)] by (simp add: border_count_def)
    qed
    then show "\<forall>(k, us)\<in>set (edge_map ts). paired us" by auto
  qed
qed

section \<open>The neighbours of the facets\<close>

text \<open>An edge makes its two facets neighbours.\<close>

definition joins :: "edge_use list \<Rightarrow> nat \<Rightarrow> nat \<Rightarrow> bool" where
  "joins us t t' \<longleftrightarrow>
     (\<exists>x y. us = [x, y] \<and> (eu_triangle x = t \<and> eu_triangle y = t' \<or> eu_triangle y = t \<and> eu_triangle x = t'))"

lemma push_at_result:
  "i < length ns \<Longrightarrow> push_at i x ns = Inr (ns[i := ns ! i @ [x]])"
  by (simp add: push_at_def index_at_def)

lemma reject_not_Inr [simp]:
  "reject r d \<noteq> Inr x" "reject_triangle r n d \<noteq> Inr x" "reject_line r n d \<noteq> Inr x"
  "reject r d \<noteq> Inl Panicked" "reject_triangle r n d \<noteq> Inl Panicked" "reject_line r n d \<noteq> Inl Panicked"
  by (simp_all add: reject_def reject_triangle_def reject_line_def)

definition joined_by :: "edge_use list \<Rightarrow> nat list list \<Rightarrow> nat list list \<Rightarrow> bool" where
  "joined_by us ns ns' \<longleftrightarrow> length ns' = length ns \<and>
     (\<forall>t < length ns. \<forall>t'. t' \<in> set (ns' ! t) \<longleftrightarrow> t' \<in> set (ns ! t) \<or> joins us t t')"

lemma join_pair:
  assumes "eu_triangle x < length ns" "eu_triangle y < length ns"
  shows "join_edge (k, [x, y]) ns =
    (if directed x = directed y then
       reject_triangle InconsistentOrientation (eu_triangle y)
         (''shared edge '' @ edge_text k @ '' has the same winding on both facets'')
     else let ms = ns[eu_triangle x := ns ! eu_triangle x @ [eu_triangle y]] in
       Inr (ms[eu_triangle y := ms ! eu_triangle y @ [eu_triangle x]]))"
  using assms by (simp add: join_edge_def directed_def push_at_result Let_def)

lemma pair_joined:
  assumes "eu_triangle x < length ns" "eu_triangle y < length ns"
    and "ms = ns[eu_triangle x := ns ! eu_triangle x @ [eu_triangle y]]"
  shows "joined_by [x, y] ns (ms[eu_triangle y := ms ! eu_triangle y @ [eu_triangle x]])"
  using assms unfolding joined_by_def joins_def
  by (auto simp: nth_list_update)

lemma join_edge_result:
  assumes "us \<noteq> []" "\<forall>u\<in>set us. eu_triangle u < length ns"
  shows "case join_edge (k, us) ns of
      Inl e \<Rightarrow> e \<noteq> Panicked \<and> \<not> paired us
    | Inr ns' \<Rightarrow> paired us \<and> joined_by us ns ns'"
proof -
  consider (one) x where "us = [x]" | (two) x y where "us = [x, y]" | (more) x y z zs where "us = x # y # z # zs"
    using assms(1) by (metis neq_Nil_conv)
  then show ?thesis
  proof cases
    case one
    then show ?thesis by (simp add: join_edge_def paired_def reject_def)
  next
    case two
    then have range: "eu_triangle x < length ns" "eu_triangle y < length ns" using assms(2) by auto
    from pair_joined [OF range refl] two show ?thesis
      by (simp add: join_pair [OF range] paired_def reject_triangle_def Let_def)
  next
    case more
    then show ?thesis by (simp add: join_edge_def paired_def reject_def)
  qed
qed

lemma join_edges_result:
  assumes "\<forall>(k, us)\<in>set es. us \<noteq> [] \<and> (\<forall>u\<in>set us. eu_triangle u < length ns)"
  shows "((\<exists>ns'. fold_ok join_edge es ns = Inr ns') \<longleftrightarrow> (\<forall>(k, us)\<in>set es. paired us)) \<and>
    fold_ok join_edge es ns \<noteq> Inl Panicked \<and>
    (\<forall>ns'. fold_ok join_edge es ns = Inr ns' \<longrightarrow> length ns' = length ns \<and>
       (\<forall>t < length ns. \<forall>t'. t' \<in> set (ns' ! t) \<longleftrightarrow>
          t' \<in> set (ns ! t) \<or> (\<exists>(k, us)\<in>set es. joins us t t')))"
  using assms
proof (induction es arbitrary: ns)
  case Nil
  then show ?case by simp
next
  case (Cons e es)
  obtain k us where e: "e = (k, us)" by (cases e)
  with Cons.prems have us: "us \<noteq> []" "\<forall>u\<in>set us. eu_triangle u < length ns" by auto
  note one = join_edge_result [OF us, of k]
  show ?case
  proof (cases "join_edge (k, us) ns")
    case (Inl err)
    with one e show ?thesis by simp
  next
    case (Inr ms)
    with one have paired: "paired us" and len: "length ms = length ns" and
      new: "\<And>t t'. t < length ns \<Longrightarrow> t' \<in> set (ms ! t) \<longleftrightarrow> t' \<in> set (ns ! t) \<or> joins us t t'"
      by (auto simp: joined_by_def)
    have "\<forall>(k, us)\<in>set es. us \<noteq> [] \<and> (\<forall>u\<in>set us. eu_triangle u < length ms)"
      using Cons.prems len by auto
    from Cons.IH [OF this] Inr paired e len new show ?thesis by simp
  qed
qed

lemma use_triangle: "u \<in> set (all_uses ts) \<Longrightarrow> eu_triangle u < length ts"
  by (auto simp: all_uses_def edge_uses_def in_set_enumerate_eq split: prod.splits)

lemma edge_map_uses:
  "(k, us) \<in> set (edge_map ts) \<Longrightarrow> us \<noteq> [] \<and> (\<forall>u\<in>set us. eu_triangle u < length ts)"
  by (auto simp: edge_map_entry use_triangle)


definition adjacent_at :: "(nat \<times> nat \<times> nat) list \<Rightarrow> nat \<Rightarrow> nat \<Rightarrow> nat \<Rightarrow> bool" where
  "adjacent_at ts v t t' \<longleftrightarrow> t < length ts \<and> t' < length ts \<and>
     (\<exists>a b. (a, b) \<in> set (borders (ts ! t)) \<and> (b, a) \<in> set (borders (ts ! t')) \<and> (v = a \<or> v = b))"

lemma all_uses_iff:
  "u \<in> set (all_uses ts) \<longleftrightarrow> eu_triangle u < length ts \<and> directed u \<in> set (borders (ts ! eu_triangle u))"
proof -
  have member: "u \<in> set (edge_uses (n, t)) \<longleftrightarrow> eu_triangle u = n \<and> directed u \<in> set (borders t)" for n t
    by (cases t; cases u) (auto simp: edge_uses_def borders_def directed_def)
  have "u \<in> set (all_uses ts) \<longleftrightarrow> (\<exists>n t. (n, t) \<in> set (enumerate 0 ts) \<and> u \<in> set (edge_uses (n, t)))"
    by (force simp: all_uses_def)
  then show ?thesis by (auto simp: member in_set_enumerate_eq)
qed

definition edge_joins :: "(nat \<times> nat \<times> nat) list \<Rightarrow> nat \<Rightarrow> nat \<Rightarrow> nat \<Rightarrow> bool" where
  "edge_joins ts v t t' \<longleftrightarrow>
     (\<exists>a b us. ((a, b), us) \<in> set (edge_map ts) \<and> (v = a \<or> v = b) \<and> joins us t t')"

lemma edge_joins_iff:
  assumes "nondegenerate ts" "closed_oriented ts"
  shows "edge_joins ts v t t' \<longleftrightarrow> adjacent_at ts v t t'"
proof
  assume "edge_joins ts v t t'"
  then obtain a b us where entry: "((a, b), us) \<in> set (edge_map ts)" and v: "v = a \<or> v = b"
    and joins: "joins us t t'" by (auto simp: edge_joins_def)
  from entry edges_paired [OF assms(1)] assms(2) have "paired us" by blast
  then obtain x y where us: "us = [x, y]" "directed x \<noteq> directed y" by (auto simp: paired_def)
  have used: "u \<in> set (all_uses ts) \<and> (directed u = (a, b) \<or> directed u = (b, a))" if "u \<in> set us" for u
    using that entry by (auto simp: edge_map_entry edge_key_def directed_def split: if_splits)
  from used [of x] used [of y] us have "directed x = (a, b) \<and> directed y = (b, a) \<or>
      directed x = (b, a) \<and> directed y = (a, b)" by auto
  with used [of x] used [of y] us joins v show "adjacent_at ts v t t'"
    by (auto simp: joins_def adjacent_at_def all_uses_iff; blast)
next
  assume "adjacent_at ts v t t'"
  then obtain a b where t: "t < length ts" "t' < length ts"
    and ab: "(a, b) \<in> set (borders (ts ! t))" "(b, a) \<in> set (borders (ts ! t'))" and v: "v = a \<or> v = b"
    by (auto simp: adjacent_at_def)
  let ?x = "\<lparr>eu_triangle = t, eu_from = a, eu_to = b\<rparr>"
  let ?y = "\<lparr>eu_triangle = t', eu_from = b, eu_to = a\<rparr>"
  have uses: "?x \<in> set (all_uses ts)" "?y \<in> set (all_uses ts)"
    using t ab by (simp_all add: all_uses_iff directed_def)
  have ne: "a \<noteq> b" using use_directions [OF assms(1) uses(1)] by simp
  let ?us = "filter (\<lambda>u. edge_key u = edge_key ?x) (all_uses ts)"
  have key: "edge_key ?y = edge_key ?x" by (simp add: edge_key_def)
  with uses have both: "?x \<in> set ?us" "?y \<in> set ?us" by auto
  then have entry: "(edge_key ?x, ?us) \<in> set (edge_map ts)" by (auto simp: edge_map_entry filter_empty_conv)
  with edges_paired [OF assms(1)] assms(2) have "paired ?us" by blast
  then obtain p q where pq: "?us = [p, q]" by (auto simp: paired_def)
  have "?x \<noteq> ?y" using ne by simp
  with both pq have "joins ?us t t'" unfolding joins_def by (cases p; cases q) force
  moreover have "v = fst (edge_key ?x) \<or> v = snd (edge_key ?x)" using v by (auto simp: edge_key_def)
  ultimately show "edge_joins ts v t t'"
    unfolding edge_joins_def using entry by (metis prod.collapse)
qed

section \<open>Links\<close>

definition linked :: "(nat, link) btree \<Rightarrow> nat \<Rightarrow> nat \<Rightarrow> nat \<Rightarrow> bool" where
  "linked ls v t t' \<longleftrightarrow> t' \<in> set (or_default t (or_default v ls))"

definition links_ok :: "(nat, link) btree \<Rightarrow> bool" where
  "links_ok ls \<longleftrightarrow> bt_ok ls \<and>
     (\<forall>v l. bt_get ls v = Some l \<longrightarrow> l \<noteq> [] \<and> bt_ok l \<and> (\<forall>t ns. bt_get l t = Some ns \<longrightarrow> ns \<noteq> [] \<and> distinct ns))"

definition link_ok :: "link \<Rightarrow> bool" where
  "link_ok l \<longleftrightarrow> bt_ok l \<and> (\<forall>t ns. bt_get l t = Some ns \<longrightarrow> ns \<noteq> [] \<and> distinct ns)"

lemma links_ok_get: "links_ok ls \<Longrightarrow> link_ok (or_default v ls)"
  by (auto simp: links_ok_def link_ok_def or_default_def split: option.splits)

lemma link_insert_ok: "link_ok l \<Longrightarrow> link_ok (link_insert a b l)"
  by (auto simp: link_ok_def link_insert_def bt_ok_insert bt_get_insert bs_insert_def or_default_def
      distinct_insort set_insort_key split: if_splits option.splits)

lemma link_insert_get:
  "or_default t (link_insert a b l) = (if t = a then bs_insert b (or_default a l) else or_default t l)"
  by (simp add: or_default_def link_insert_def bt_get_insert)

lemma link_insert_not_Nil: "link_insert a b l \<noteq> []"
  by (cases l) (auto simp: link_insert_def split: if_splits)

lemma bs_insert_set [simp]: "set (bs_insert b s) = insert b (set s)"
  by (auto simp: bs_insert_def set_insort_key)

lemma link_vertex_linked:
  "linked (link_vertex v a b ls) w t t' \<longleftrightarrow>
     linked ls w t t' \<or> w = v \<and> (t = a \<and> t' = b \<or> t = b \<and> t' = a)"
  by (auto simp: linked_def link_vertex_def or_default_def [of _ "bt_insert _ _ _"] bt_get_insert
      link_insert_get) (auto simp: or_default_def)

lemma link_vertex_ok:
  assumes "links_ok ls"
  shows "links_ok (link_vertex v a b ls)"
proof -
  have "link_ok (link_insert b a (link_insert a b (or_default v ls)))"
    using links_ok_get [OF assms, of v] by (simp add: link_insert_ok)
  then show ?thesis
    using assms link_insert_not_Nil
    by (auto simp: links_ok_def link_vertex_def bt_ok_insert bt_get_insert link_ok_def split: if_splits)
qed

lemma link_edge_linked:
  "linked (link_edge ((a, b), us) ls) v t t' \<longleftrightarrow> linked ls v t t' \<or> (v = a \<or> v = b) \<and> joins us t t'"
proof (cases "\<exists>x y. us = [x, y]")
  case True
  then obtain x y where "us = [x, y]" by blast
  then show ?thesis by (simp add: link_edge_def link_vertex_linked joins_def) blast
next
  case False
  then have "link_edge ((a, b), us) ls = ls" "\<not> joins us t t'"
    by (auto simp: link_edge_def joins_def split: list.splits)
  then show ?thesis by simp
qed

lemma link_edge_ok: "links_ok ls \<Longrightarrow> links_ok (link_edge e ls)"
  by (simp add: link_edge_def link_vertex_ok split: prod.split list.split)

lemma vertex_links_result:
  "links_ok (vertex_links (edge_map ts))"
  "linked (vertex_links (edge_map ts)) v t t' \<longleftrightarrow> edge_joins ts v t t'"
proof -
  have keeps: "links_ok (fold link_edge es ls)" if "links_ok ls" for es ls
    using that by (induction es arbitrary: ls) (simp_all add: link_edge_ok)
  have "links_ok []" by (simp add: links_ok_def)
  then show "links_ok (vertex_links (edge_map ts))"
    unfolding vertex_links_def by (rule keeps)
  have "linked (fold link_edge es ls) v t t' \<longleftrightarrow>
      linked ls v t t' \<or> (\<exists>e\<in>set es. (v = fst (fst e) \<or> v = snd (fst e)) \<and> joins (snd e) t t')" for es ls
  proof (induction es arbitrary: ls)
    case Nil
    then show ?case by simp
  next
    case (Cons e es)
    have "linked (link_edge e ls) v t t' \<longleftrightarrow>
        linked ls v t t' \<or> (v = fst (fst e) \<or> v = snd (fst e)) \<and> joins (snd e) t t'"
      using link_edge_linked [of "fst (fst e)" "snd (fst e)" "snd e"] by simp
    with Cons show ?case by simp
  qed
  then show "linked (vertex_links (edge_map ts)) v t t' \<longleftrightarrow> edge_joins ts v t t'"
    unfolding vertex_links_def edge_joins_def by (fastforce simp: linked_def or_default_def)
qed

section \<open>The walk around a vertex\<close>

definition steps :: "link \<Rightarrow> (nat \<times> nat) set" where
  "steps l = {(t, t'). t' \<in> set (or_default t l)}"

lemma link_walk_result:
  assumes "set pending \<subseteq> set (bt_keys l)" and "\<forall>t. set (or_default t l) \<subseteq> set (bt_keys l)"
    and "\<forall>t\<in>set seen. set (or_default t l) \<subseteq> set seen \<union> set pending" and "distinct seen"
  shows "\<exists>seen'. link_walk l pending seen = Inr seen' \<and> distinct seen' \<and>
    set seen \<union> set pending \<subseteq> set seen' \<and> (\<forall>t\<in>set seen'. set (or_default t l) \<subseteq> set seen') \<and>
    set seen' \<subseteq> set seen \<union> (steps l)\<^sup>* `` set pending"
  using assms
proof (induction l pending seen rule: link_walk.induct)
  case (1 l pending seen)
  show ?case
  proof (cases pending)
    case Nil
    with "1.prems" show ?thesis by (simp add: link_walk.simps [of l])
  next
    case (Cons t rest)
    show ?thesis
    proof (cases "t \<in> set seen")
      case True
      have "set rest \<subseteq> set (bt_keys l)" using "1.prems"(1) Cons by simp
      moreover have "\<forall>s\<in>set seen. set (or_default s l) \<subseteq> set seen \<union> set rest"
        using "1.prems"(3) Cons True by auto
      ultimately obtain seen' where
        "link_walk l rest seen = Inr seen'" "distinct seen'" "set seen \<union> set rest \<subseteq> set seen'"
        "\<forall>t\<in>set seen'. set (or_default t l) \<subseteq> set seen'" "set seen' \<subseteq> set seen \<union> (steps l)\<^sup>* `` set rest"
        using "1.IH"(1) [OF Cons True _ "1.prems"(2) _ "1.prems"(4)] by blast
      with Cons True show ?thesis
        by (intro exI [of _ seen']) (auto simp: link_walk.simps [of l "t # rest"])
    next
      case False
      from "1.prems"(1) Cons obtain ns where ns: "bt_get l t = Some ns"
        by (auto simp: bt_keys_iff bt_contains_iff)
      then have default: "or_default t l = ns" by (simp add: or_default_def)
      have "\<exists>seen'. link_walk l (rev ns @ rest) (bs_insert t seen) = Inr seen' \<and> distinct seen' \<and>
          set (bs_insert t seen) \<union> set (rev ns @ rest) \<subseteq> set seen' \<and>
          (\<forall>t\<in>set seen'. set (or_default t l) \<subseteq> set seen') \<and>
          set seen' \<subseteq> set (bs_insert t seen) \<union> (steps l)\<^sup>* `` set (rev ns @ rest)"
      proof (rule "1.IH"(2) [OF Cons False ns])
        show "set (rev ns @ rest) \<subseteq> set (bt_keys l)" using "1.prems"(1,2) Cons default by auto
        show "\<forall>s\<in>set (bs_insert t seen). set (or_default s l) \<subseteq> set (bs_insert t seen) \<union> set (rev ns @ rest)"
          using "1.prems"(3) Cons default by auto
        show "distinct (bs_insert t seen)" using "1.prems"(4) by (simp add: bs_insert_def distinct_insort)
      qed (rule "1.prems"(2))
      then obtain seen' where
        walk: "link_walk l (rev ns @ rest) (bs_insert t seen) = Inr seen'" "distinct seen'"
        and up: "insert t (set seen) \<union> (set ns \<union> set rest) \<subseteq> set seen'"
        and closed: "\<forall>t\<in>set seen'. set (or_default t l) \<subseteq> set seen'"
        and down: "set seen' \<subseteq> insert t (set seen) \<union> (steps l)\<^sup>* `` (set ns \<union> set rest)" by auto
      have "(steps l)\<^sup>* `` set ns \<subseteq> (steps l)\<^sup>* `` {t}"
      proof -
        have "(t, n) \<in> steps l" if "n \<in> set ns" for n using that default by (simp add: steps_def)
        then show ?thesis by (auto intro: converse_rtrancl_into_rtrancl)
      qed
      then have "insert t (set seen) \<union> (steps l)\<^sup>* `` (set ns \<union> set rest) \<subseteq>
          set seen \<union> (steps l)\<^sup>* `` set pending"
        using Cons by (auto simp: Image_def)
      with down have "set seen' \<subseteq> set seen \<union> (steps l)\<^sup>* `` set pending" by (rule order_trans)
      moreover have "set seen \<union> set pending \<subseteq> set seen'" using up Cons by auto
      moreover have "link_walk l pending seen = Inr seen'"
        using walk(1) Cons False ns by (simp add: link_walk.simps [of l "t # rest"])
      ultimately show ?thesis using walk(2) closed by blast
    qed
  qed
qed

text \<open>From one facet the walk sees exactly the facets that can be reached.\<close>

lemma link_walk_reaches:
  assumes "start \<in> set (bt_keys l)" and "\<forall>t. set (or_default t l) \<subseteq> set (bt_keys l)"
  shows "\<exists>seen. link_walk l [start] [] = Inr seen \<and> distinct seen \<and> set seen = (steps l)\<^sup>* `` {start}"
proof -
  from link_walk_result [of "[start]" l "[]"] assms obtain seen where
    seen: "link_walk l [start] [] = Inr seen" "distinct seen" "start \<in> set seen"
      "\<forall>t\<in>set seen. set (or_default t l) \<subseteq> set seen" "set seen \<subseteq> (steps l)\<^sup>* `` {start}"
    by auto
  have "t \<in> set seen" if "(start, t) \<in> (steps l)\<^sup>*" for t
    using that seen(3,4) by (induction rule: rtrancl_induct) (auto simp: steps_def)
  with seen show ?thesis by blast
qed


section \<open>Facets around a vertex\<close>

definition around :: "(nat \<times> nat \<times> nat) list \<Rightarrow> nat \<Rightarrow> nat set" where
  "around ts v = {t. t < length ts \<and> v \<in> set (corners (ts ! t))}"

definition umbrella :: "(nat \<times> nat \<times> nat) list \<Rightarrow> nat \<Rightarrow> bool" where
  "umbrella ts v \<longleftrightarrow>
     (\<forall>t\<in>around ts v. \<forall>t'\<in>around ts v. (t, t') \<in> {(t, t'). adjacent_at ts v t t'}\<^sup>*)"

definition distinct_facets :: "(nat \<times> nat \<times> nat) list \<Rightarrow> bool" where
  "distinct_facets ts \<longleftrightarrow> distinct (map (\<lambda>t. sort (corners t)) ts)"

lemma incidence_result:
  assumes "nondegenerate ts"
  shows "bt_ok (vertex_incidence ts)"
    "or_default v (vertex_incidence ts) = map fst (filter (\<lambda>nt. v \<in> set (corners (snd nt))) (enumerate 0 ts))"
    "bt_contains (vertex_incidence ts) v \<longleftrightarrow> around ts v \<noteq> {}"
proof -
  let ?add = "\<lambda>(n, i, j, k) m. bt_push k n (bt_push j n (bt_push i n m))"
  have keeps: "bt_ok (fold ?add nts m)" if "bt_ok m" for nts m
    using that by (induction nts arbitrary: m) (auto simp: bt_ok_push)
  show "bt_ok (vertex_incidence ts)" unfolding vertex_incidence_def by (rule keeps) simp
  have list: "or_default v (fold ?add nts m) =
      or_default v m @ map fst (filter (\<lambda>nt. v \<in> set (corners (snd nt))) nts)"
    if "\<forall>nt\<in>set nts. distinct (corners (snd nt))" for nts m
    using that
  proof (induction nts arbitrary: m)
    case Nil
    then show ?case by simp
  next
    case (Cons nt nts)
    obtain n i j k where nt: "nt = (n, i, j, k)" by (metis surj_pair)
    with Cons.prems have "distinct [i, j, k]" by (simp add: corners_def)
    with Cons nt show ?case by (auto simp: corners_def or_default_push)
  qed
  have "\<forall>nt\<in>set (enumerate 0 ts). distinct (corners (snd nt))"
  proof
    fix nt assume "nt \<in> set (enumerate 0 ts)"
    then have "snd nt \<in> set (map snd (enumerate 0 ts))" unfolding set_map by (rule imageI)
    with assms show "distinct (corners (snd nt))" by (simp add: nondegenerate_def)
  qed
  from list [OF this, of "[]"]
  show "or_default v (vertex_incidence ts) = map fst (filter (\<lambda>nt. v \<in> set (corners (snd nt))) (enumerate 0 ts))"
    by (simp add: vertex_incidence_def or_default_def)
  have contains: "bt_contains (fold ?add nts m) v \<longleftrightarrow>
      bt_contains m v \<or> (\<exists>nt\<in>set nts. v \<in> set (corners (snd nt)))" for nts m
  proof (induction nts arbitrary: m)
    case Nil
    then show ?case by simp
  next
    case (Cons nt nts)
    obtain n i j k where "nt = (n, i, j, k)" by (metis surj_pair)
    with Cons show ?case by (auto simp: corners_def contains_push)
  qed
  show "bt_contains (vertex_incidence ts) v \<longleftrightarrow> around ts v \<noteq> {}"
  proof -
    have "(\<exists>nt\<in>set (enumerate 0 ts). v \<in> set (corners (snd nt))) \<longleftrightarrow>
        (\<exists>t\<in>set (map snd (enumerate 0 ts)). v \<in> set (corners t))"
      unfolding set_map by blast
    also have "\<dots> \<longleftrightarrow> around ts v \<noteq> {}"
      unfolding map_snd_enumerate around_def by (metis (mono_tags, lifting) empty_Collect_eq in_set_conv_nth)
    finally show ?thesis
      unfolding vertex_incidence_def contains by simp
  qed
qed

lemma incident_facets:
  "set (map fst (filter (\<lambda>nt. v \<in> set (corners (snd nt))) (enumerate 0 ts))) = around ts v"
  "distinct (map fst (filter (\<lambda>nt. v \<in> set (corners (snd nt))) (enumerate 0 ts)))"
proof -
  show "set (map fst (filter (\<lambda>nt. v \<in> set (corners (snd nt))) (enumerate 0 ts))) = around ts v"
  proof -
    have "x \<in> fst ` {nt \<in> set (enumerate 0 ts). v \<in> set (corners (snd nt))} \<longleftrightarrow> x \<in> around ts v" for x
      by (force simp: around_def in_set_enumerate_eq image_iff)
    then show ?thesis unfolding set_map set_filter by blast
  qed
  show "distinct (map fst (filter (\<lambda>nt. v \<in> set (corners (snd nt))) (enumerate 0 ts)))"
    by (rule distinct_map_filter) simp
qed

lemma corner_borders:
  assumes "distinct (corners t)" "v \<in> set (corners t)"
  obtains p q where "set (borders t) = {(v, p), (p, q), (q, v)}" "set (corners t) = {v, p, q}"
    "distinct [v, p, q]"
proof -
  obtain i j k where t: "t = (i, j, k)" by (metis surj_pair)
  have d: "i \<noteq> j" "j \<noteq> k" "i \<noteq> k" using assms(1) t by (auto simp: corners_def)
  consider "v = i" | "v = j" | "v = k" using assms(2) t by (auto simp: corners_def)
  then show thesis
  proof cases
    case 1
    with t d show thesis by (intro that [of j k]) (auto simp: corners_def borders_def)
  next
    case 2
    with t d show thesis by (intro that [of k i]) (auto simp: corners_def borders_def)
  next
    case 3
    with t d show thesis by (intro that [of i j]) (auto simp: corners_def borders_def)
  qed
qed

lemma border_owner:
  assumes "closed_oriented ts" "x < length ts" "y < length ts"
    and "d \<in> set (borders (ts ! x))" "d \<in> set (borders (ts ! y))"
  shows "x = y"
proof (rule ccontr)
  assume "x \<noteq> y"
  have "distinct (concat (map borders ts))" using assms(1) by (simp add: closed_oriented_def)
  with \<open>x \<noteq> y\<close> assms(2,3) have "set (borders (ts ! x)) \<inter> set (borders (ts ! y)) = {}"
  proof (induction ts arbitrary: x y)
    case Nil
    then show ?case by simp
  next
    case (Cons t ts)
    then show ?case by (cases x; cases y) (auto simp: nth_mem; blast intro: nth_mem)+
  qed
  with assms(4,5) show False by blast
qed

lemma border_mate:
  assumes "closed_oriented ts" "x < length ts" "(a, b) \<in> set (borders (ts ! x))"
  obtains y where "y < length ts" "(b, a) \<in> set (borders (ts ! y))"
proof -
  have "(a, b) \<in> set (concat (map borders ts))" using assms(2,3) by (auto intro: nth_mem)
  with assms(1) have "(b, a) \<in> set (concat (map borders ts))" unfolding closed_oriented_def by blast
  then obtain t where "t \<in> set ts" "(b, a) \<in> set (borders t)" by auto
  then show thesis using that by (metis in_set_conv_nth)
qed

text \<open>Every facet at a vertex has exactly two neighbours there.\<close>

lemma two_neighbors:
  assumes "nondegenerate ts" "closed_oriented ts" "distinct_facets ts" "t \<in> around ts v"
  shows "card {t'. adjacent_at ts v t t'} = 2"
proof -
  have t: "t < length ts" "v \<in> set (corners (ts ! t))" "distinct (corners (ts ! t))"
    using assms(1,4) by (auto simp: around_def nondegenerate_def)
  from corner_borders [OF t(3,2)] obtain p q where
    b: "set (borders (ts ! t)) = {(v, p), (p, q), (q, v)}" and c: "set (corners (ts ! t)) = {v, p, q}"
    and d: "distinct [v, p, q]" by metis
  obtain x where x: "x < length ts" "(p, v) \<in> set (borders (ts ! x))"
    using border_mate [OF assms(2) t(1), of v p] b by auto
  obtain y where y: "y < length ts" "(v, q) \<in> set (borders (ts ! y))"
    using border_mate [OF assms(2) t(1), of q v] b by auto
  have "x \<noteq> y"
  proof
    assume "x = y"
    have dx: "distinct (corners (ts ! x))" using assms(1) x(1) by (simp add: nondegenerate_def)
    have vx: "v \<in> set (corners (ts ! x))"
      using x(2) by (cases "ts ! x") (auto simp: borders_def corners_def)
    from corner_borders [OF dx vx] obtain r s where
      bx: "set (borders (ts ! x)) = {(v, r), (r, s), (s, v)}" and cx: "set (corners (ts ! x)) = {v, r, s}"
      and rs: "distinct [v, r, s]" by metis
    from x(2) y(2) \<open>x = y\<close> bx rs d have "r = q" "s = p" by auto
    with cx c have "set (corners (ts ! x)) = set (corners (ts ! t))" by auto
    then have "sort (corners (ts ! x)) = sort (corners (ts ! t))"
      using dx t(3) by (metis sorted_list_of_set_sort_remdups distinct_remdups_id)
    with assms(3) x(1) t(1) have "x = t"
      by (simp add: distinct_facets_def distinct_conv_nth) metis
    with x(2) b d show False by auto
  qed
  have "{t'. adjacent_at ts v t t'} = {x, y}"
  proof (intro equalityI subsetI)
    fix z assume "z \<in> {t'. adjacent_at ts v t t'}"
    then obtain a b' where z: "z < length ts" "(a, b') \<in> set (borders (ts ! t))"
      "(b', a) \<in> set (borders (ts ! z))" "v = a \<or> v = b'" by (auto simp: adjacent_at_def)
    with b d have "(b', a) = (p, v) \<or> (b', a) = (v, q)" by auto
    with border_owner [OF assms(2) z(1) x(1)] border_owner [OF assms(2) z(1) y(1)] z x y
    show "z \<in> {x, y}" by auto
  next
    fix z assume "z \<in> {x, y}"
    with x y t(1) b show "z \<in> {t'. adjacent_at ts v t t'}" unfolding adjacent_at_def by blast
  qed
  with \<open>x \<noteq> y\<close> show ?thesis by simp
qed


section \<open>What the checks decide\<close>

lemma link_keys:
  assumes "nondegenerate ts" "closed_oriented ts"
  shows "set (bt_keys (or_default v (vertex_links (edge_map ts)))) = around ts v"
    "\<forall>t. set (or_default t (or_default v (vertex_links (edge_map ts)))) = {t'. adjacent_at ts v t t'}"
proof -
  let ?l = "or_default v (vertex_links (edge_map ts))"
  show neighbors: "\<forall>t. set (or_default t ?l) = {t'. adjacent_at ts v t t'}"
    using vertex_links_result(2) [of ts v] edge_joins_iff [OF assms, of v] by (auto simp: linked_def)
  have ok: "link_ok ?l" by (rule links_ok_get [OF vertex_links_result(1)])
  have key: "t \<in> set (bt_keys ?l) \<longleftrightarrow> (\<exists>t'. adjacent_at ts v t t')" for t
  proof -
    have "t \<in> set (bt_keys ?l) \<longleftrightarrow> or_default t ?l \<noteq> []"
      using ok by (auto simp: bt_keys_iff bt_contains_iff or_default_def link_ok_def split: option.splits)
    then show ?thesis using neighbors by (metis empty_Collect_eq set_empty)
  qed
  show "set (bt_keys ?l) = around ts v"
  proof (intro equalityI subsetI)
    fix t assume "t \<in> set (bt_keys ?l)"
    then obtain t' a b where "t < length ts" "(a, b) \<in> set (borders (ts ! t))" "v = a \<or> v = b"
      by (auto simp: key adjacent_at_def)
    then show "t \<in> around ts v" by (cases "ts ! t") (auto simp: around_def borders_def corners_def)
  next
    fix t assume "t \<in> around ts v"
    then have t: "t < length ts" "v \<in> set (corners (ts ! t))" "distinct (corners (ts ! t))"
      using assms(1) by (auto simp: around_def nondegenerate_def)
    from corner_borders [OF t(3,2)] obtain p where p: "(v, p) \<in> set (borders (ts ! t))" by (metis insertI1)
    from border_mate [OF assms(2) t(1) p] obtain x where "x < length ts" "(p, v) \<in> set (borders (ts ! x))" .
    with t(1) p show "t \<in> set (bt_keys ?l)" unfolding key adjacent_at_def by blast
  qed
qed

lemma check_vertex_result:
  assumes "nondegenerate ts" "closed_oriented ts" "distinct_facets ts" "around ts v \<noteq> {}"
  shows "check_vertex (vertex_links (edge_map ts)) (v, or_default v (vertex_incidence ts)) \<noteq> Inl Panicked"
    "(check_vertex (vertex_links (edge_map ts)) (v, or_default v (vertex_incidence ts)) = Inr ()) \<longleftrightarrow> umbrella ts v"
proof -
  let ?l = "or_default v (vertex_links (edge_map ts))"
  let ?inc = "or_default v (vertex_incidence ts)"
  note keys = link_keys [OF assms(1,2), of v]
  have ok: "link_ok ?l" by (rule links_ok_get [OF vertex_links_result(1)])
  have inc: "set ?inc = around ts v" "distinct ?inc"
    unfolding incidence_result(2) [OF assms(1)] by (rule incident_facets)+
  have "?l \<noteq> []" using keys(1) assms(4) by (auto simp: bt_keys_def)
  then have get: "bt_get (vertex_links (edge_map ts)) v = Some ?l"
    by (auto simp: or_default_def split: option.splits)
  have "length ?l = card (set (bt_keys ?l))"
    using ok bt_ok_distinct [of ?l] distinct_card [of "map fst ?l"] by (simp add: link_ok_def bt_keys_def)
  then have len: "length ?l = length ?inc" using keys(1) inc distinct_card [OF inc(2)] by simp
  have degree: "\<not> list_ex (\<lambda>e. length (snd e) \<noteq> 2) ?l"
  proof -
    have "length ns = 2" if "(t, ns) \<in> set ?l" for t ns
    proof -
      from that ok have g: "bt_get ?l t = Some ns" by (auto simp: link_ok_def bt_in_set_iff)
      then have "distinct ns" "or_default t ?l = ns" using ok by (auto simp: link_ok_def or_default_def)
      moreover have "t \<in> around ts v"
        using keys(1) g by (auto simp: bt_keys_iff bt_contains_iff)
      ultimately show ?thesis
        using two_neighbors [OF assms(1-3)] keys(2) distinct_card [of ns] by metis
    qed
    then show ?thesis by (auto simp: list_ex_iff)
  qed
  obtain start where start: "?inc ! 0 = start" "?inc \<noteq> []" "start \<in> around ts v"
    using inc assms(4) by (metis length_greater_0_conv nth_mem set_empty)
  have closed: "\<forall>t. set (or_default t ?l) \<subseteq> set (bt_keys ?l)"
    unfolding keys using keys by (auto simp: around_def adjacent_at_def borders_def corners_def split: prod.splits)
  have steps: "steps ?l = {(t, t'). adjacent_at ts v t t'}" using keys(2) by (auto simp: steps_def)
  from link_walk_reaches [OF _ closed, of start] start keys(1) obtain seen where
    seen: "link_walk ?l [start] [] = Inr seen" "distinct seen"
      "set seen = {(t, t'). adjacent_at ts v t t'}\<^sup>* `` {start}"
    unfolding steps by blast
  have within: "set seen \<subseteq> around ts v"
  proof
    fix t assume "t \<in> set seen"
    then have "(start, t) \<in> {(t, t'). adjacent_at ts v t t'}\<^sup>*" using seen(3) by blast
    then show "t \<in> around ts v"
      by (induction rule: rtrancl_induct) (use start(3) closed keys in auto)
  qed
  have whole: "length seen = length ?inc \<longleftrightarrow> set seen = around ts v"
    using within inc seen(2) by (metis card_subset_eq distinct_card finite_set)
  have result: "check_vertex (vertex_links (edge_map ts)) (v, ?inc) =
    (if length seen \<noteq> length ?inc then
       reject NonManifold (''vertex '' @ show_nat v @ '' has a disconnected link neighborhood'')
     else Inr ())"
    using get len degree start seen(1) by (simp add: check_vertex_def index_at_def)
  then show "check_vertex (vertex_links (edge_map ts)) (v, ?inc) \<noteq> Inl Panicked" by simp
  have "sym {(t, t'). adjacent_at ts v t t'}" by (auto simp: sym_def adjacent_at_def)
  then have "sym ({(t, t'). adjacent_at ts v t t'}\<^sup>*)" by (rule sym_rtrancl)
  then have home: "(t, start) \<in> {(t, t'). adjacent_at ts v t t'}\<^sup>*" if "t \<in> set seen" for t
    using that unfolding seen(3) by (auto dest: symD)
  have "set seen = around ts v \<longleftrightarrow> umbrella ts v"
  proof
    assume whole_umbrella: "set seen = around ts v"
    show "umbrella ts v"
      unfolding umbrella_def
    proof (intro ballI)
      fix t t' assume "t \<in> around ts v" "t' \<in> around ts v"
      then have "(t, start) \<in> {(t, t'). adjacent_at ts v t t'}\<^sup>*"
        "(start, t') \<in> {(t, t'). adjacent_at ts v t t'}\<^sup>*"
        using home whole_umbrella seen(3) by auto
      then show "(t, t') \<in> {(t, t'). adjacent_at ts v t t'}\<^sup>*" by (rule rtrancl_trans)
    qed
  next
    assume "umbrella ts v"
    with start(3) have "around ts v \<subseteq> set seen" unfolding umbrella_def seen(3) by blast
    with within show "set seen = around ts v" by blast
  qed
  with result whole show "(check_vertex (vertex_links (edge_map ts)) (v, ?inc) = Inr ()) \<longleftrightarrow> umbrella ts v"
    by simp
qed


definition closed_manifold :: "(nat \<times> nat \<times> nat) list \<Rightarrow> bool" where
  "closed_manifold ts \<longleftrightarrow> closed_oriented ts \<and> (\<forall>v. umbrella ts v)"

lemma join_edges_decides:
  assumes "nondegenerate ts"
  shows "join_edges (length ts) (edge_map ts) \<noteq> Inl Panicked"
    "(\<exists>ns. join_edges (length ts) (edge_map ts) = Inr ns) \<longleftrightarrow> closed_oriented ts"
    "join_edges (length ts) (edge_map ts) = Inr ns \<Longrightarrow> length ns = length ts \<and>
       (\<forall>t < length ts. \<forall>t'. t' \<in> set (ns ! t) \<longleftrightarrow> (\<exists>(k, us)\<in>set (edge_map ts). joins us t t'))"
proof -
  have "\<forall>(k, us)\<in>set (edge_map ts). us \<noteq> [] \<and>
      (\<forall>u\<in>set us. eu_triangle u < length (replicate (length ts) ([] :: nat list)))"
    using edge_map_uses by auto
  note joined = join_edges_result [OF this]
  show "join_edges (length ts) (edge_map ts) \<noteq> Inl Panicked"
    using joined unfolding join_edges_def by blast
  show "(\<exists>ns. join_edges (length ts) (edge_map ts) = Inr ns) \<longleftrightarrow> closed_oriented ts"
    using joined edges_paired [OF assms] unfolding join_edges_def by blast
  show "length ns = length ts \<and>
      (\<forall>t < length ts. \<forall>t'. t' \<in> set (ns ! t) \<longleftrightarrow> (\<exists>(k, us)\<in>set (edge_map ts). joins us t t'))"
    if "join_edges (length ts) (edge_map ts) = Inr ns"
    using joined that unfolding join_edges_def by auto
qed

lemma each_ok_unit: "each_ok f xs = Inr () \<longleftrightarrow> (\<forall>x\<in>set xs. f x = Inr ())"
  by (induction xs) (auto simp: and_then_Inr_iff)

lemma each_ok_failure: "each_ok f xs = Inl e \<Longrightarrow> \<exists>x\<in>set xs. f x = Inl e"
proof (induction xs)
  case Nil
  then show ?case by simp
next
  case (Cons x xs)
  then show ?case by (cases "f x") auto
qed

lemma check_links_decides:
  assumes "nondegenerate ts" "closed_oriented ts" "distinct_facets ts"
  shows "check_vertex_links (edge_map ts) (vertex_incidence ts) \<noteq> Inl Panicked"
    "check_vertex_links (edge_map ts) (vertex_incidence ts) = Inr () \<longleftrightarrow> (\<forall>v. umbrella ts v)"
proof -
  have entry: "(v, inc) \<in> set (vertex_incidence ts) \<longleftrightarrow>
      around ts v \<noteq> {} \<and> inc = or_default v (vertex_incidence ts)" for v inc
    using incidence_result(3) [OF assms(1), of v]
    by (auto simp: bt_in_set_iff [OF incidence_result(1) [OF assms(1)]] get_default split: if_splits)
  note vertex = check_vertex_result [OF assms]
  show "check_vertex_links (edge_map ts) (vertex_incidence ts) \<noteq> Inl Panicked"
  proof
    assume "check_vertex_links (edge_map ts) (vertex_incidence ts) = Inl Panicked"
    then obtain v inc where "(v, inc) \<in> set (vertex_incidence ts)"
      "check_vertex (vertex_links (edge_map ts)) (v, inc) = Inl Panicked"
      unfolding check_vertex_links_def by (metis each_ok_failure surj_pair)
    with vertex(1) show False by (auto simp: entry)
  qed
  have "umbrella ts v" if "around ts v = {}" for v
    using that by (simp add: umbrella_def)
  then show "check_vertex_links (edge_map ts) (vertex_incidence ts) = Inr () \<longleftrightarrow> (\<forall>v. umbrella ts v)"
    unfolding check_vertex_links_def each_ok_unit using vertex(2) entry by (metis surj_pair)
qed

lemma topology_result:
  assumes "nondegenerate ts" "distinct_facets ts"
  shows "check_topology ts \<noteq> Inl Panicked"
    "(\<exists>ns. check_topology ts = Inr ns) \<longleftrightarrow> closed_manifold ts"
    "check_topology ts = Inr ns \<Longrightarrow> length ns = length ts \<and>
       (\<forall>t < length ts. \<forall>t'. t' \<in> set (ns ! t) \<longleftrightarrow> (\<exists>v. adjacent_at ts v t t'))"
proof -
  note join = join_edges_decides [OF assms(1)]
  have result: "check_topology ts = Inr ns \<longleftrightarrow> join_edges (length ts) (edge_map ts) = Inr ns \<and>
      check_vertex_links (edge_map ts) (vertex_incidence ts) = Inr ()" for ns
    by (auto simp: check_topology_def Let_def and_then_Inr_iff)
  show "check_topology ts \<noteq> Inl Panicked"
  proof (cases "join_edges (length ts) (edge_map ts)")
    case (Inl e)
    with join(1) show ?thesis by (simp add: check_topology_def)
  next
    case (Inr ns)
    with join(2) have "closed_oriented ts" by blast
    from check_links_decides(1) [OF assms(1) this assms(2)] Inr show ?thesis
      by (cases "check_vertex_links (edge_map ts) (vertex_incidence ts)") (auto simp: check_topology_def Let_def)
  qed
  show "(\<exists>ns. check_topology ts = Inr ns) \<longleftrightarrow> closed_manifold ts"
    unfolding result closed_manifold_def using join(2) check_links_decides(2) [OF assms(1) _ assms(2)] by blast
  show "length ns = length ts \<and>
      (\<forall>t < length ts. \<forall>t'. t' \<in> set (ns ! t) \<longleftrightarrow> (\<exists>v. adjacent_at ts v t t'))"
    if "check_topology ts = Inr ns"
  proof -
    from that have ns: "join_edges (length ts) (edge_map ts) = Inr ns" by (simp add: result)
    with join(2) have closed: "closed_oriented ts" by blast
    have "(\<exists>(k, us)\<in>set (edge_map ts). joins us t t') \<longleftrightarrow> (\<exists>v. adjacent_at ts v t t')" for t t'
      using edge_joins_iff [OF assms(1) closed, of _ t t'] unfolding edge_joins_def by fastforce
    with join(3) [OF ns] show ?thesis by simp
  qed
qed

end
