(* ===== verification/MeshProps.thy ===== *)
theory MeshProps
  imports MeshTopology
begin

text \<open>
  What a verified mesh is: exact vertex identity without welding, a closed oriented surface whose
  shells are its connected components, one of them the material exterior and the others cavities.
  The verifier itself never panics.
\<close>

section \<open>Shells\<close>

definition marked :: "bool list \<Rightarrow> nat set" where
  "marked visited = {t. t < length visited \<and> visited ! t}"

definition neighbor_steps :: "nat list list \<Rightarrow> (nat \<times> nat) set" where
  "neighbor_steps ns = {(t, t'). t < length ns \<and> t' \<in> set (ns ! t)}"

definition neighbors_ok :: "nat list list \<Rightarrow> bool" where
  "neighbors_ok ns \<longleftrightarrow> (\<forall>t < length ns. set (ns ! t) \<subseteq> {..<length ns}) \<and> sym (neighbor_steps ns)"

lemma marked_update: "n < length visited \<Longrightarrow> marked (visited[n := True]) = insert n (marked visited)"
  by (auto simp: marked_def nth_list_update)

lemma visit_neighbors_result:
  assumes "set ns \<subseteq> {..<length visited}"
  shows "\<exists>visited' new. visit_neighbors ns visited pending = Inr (visited', pending @ new) \<and>
    length visited' = length visited \<and> distinct new \<and> set new = set ns - marked visited \<and>
    marked visited' = marked visited \<union> set new"
  using assms
proof (induction ns arbitrary: visited pending)
  case Nil
  then show ?case by simp
next
  case (Cons n ns)
  then have n: "n < length visited" "set ns \<subseteq> {..<length visited}" by auto
  show ?case
  proof (cases "visited ! n")
    case True
    from Cons.IH [OF n(2), of pending] obtain visited' new where
      "visit_neighbors ns visited pending = Inr (visited', pending @ new)"
      "length visited' = length visited" "distinct new" "set new = set ns - marked visited"
      "marked visited' = marked visited \<union> set new" by blast
    moreover have "n \<in> marked visited" using n True by (simp add: marked_def)
    ultimately show ?thesis using n True by (intro exI [of _ visited'] exI [of _ new]) (auto simp: index_at_def)
  next
    case False
    have "set ns \<subseteq> {..<length (visited[n := True])}" using n(2) by simp
    from Cons.IH [OF this, of "pending @ [n]"] obtain visited' new where
      v: "visit_neighbors ns (visited[n := True]) (pending @ [n]) = Inr (visited', (pending @ [n]) @ new)"
      "length visited' = length visited" "distinct new" "set new = set ns - insert n (marked visited)"
      "marked visited' = insert n (marked visited) \<union> set new"
      using n(1) by (auto simp: marked_update)
    moreover have "n \<notin> marked visited" using False by (simp add: marked_def)
    ultimately show ?thesis
      using n False by (intro exI [of _ visited'] exI [of _ "n # new"]) (auto simp: index_at_def)
  qed
qed

lemma shell_walk_result:
  assumes "neighbors_ok ns" "length ns = length visited"
    and "marked visited = V \<union> set shell \<union> set pending" "distinct (shell @ pending)"
    and "(set shell \<union> set pending) \<inter> V = {}" "\<forall>t\<in>set shell. set (ns ! t) \<subseteq> marked visited"
    and "set shell \<union> set pending \<subseteq> (neighbor_steps ns)\<^sup>* `` {start}"
  shows "\<exists>visited' shell'. shell_walk ns visited pending shell = Inr (visited', shell') \<and>
    length visited' = length visited \<and> marked visited' = V \<union> set shell' \<and> distinct shell' \<and>
    set shell' \<inter> V = {} \<and> set shell \<union> set pending \<subseteq> set shell' \<and>
    (\<forall>t\<in>set shell'. set (ns ! t) \<subseteq> marked visited') \<and>
    set shell' \<subseteq> (neighbor_steps ns)\<^sup>* `` {start}"
  using assms
proof (induction ns visited pending shell rule: shell_walk.induct)
  case (1 ns visited pending shell)
  show ?case
  proof (cases pending)
    case Nil
    with "1.prems" show ?thesis by (simp add: shell_walk.simps [of ns])
  next
    case (Cons t rest)
    with "1.prems"(3) have t: "t < length ns" using "1.prems"(2) by (auto simp: marked_def)
    then have range: "set (ns ! t) \<subseteq> {..<length visited}"
      using "1.prems"(1,2) by (simp add: neighbors_ok_def)
    from visit_neighbors_result [OF range, of rest] obtain visited' new where
      visit: "visit_neighbors (ns ! t) visited rest = Inr (visited', rest @ new)"
      and len: "length visited' = length visited" and new: "distinct new" "set new = set (ns ! t) - marked visited"
      and marks: "marked visited' = marked visited \<union> set new" by blast
    have step: "and_then (index_at ns t) (\<lambda>ns. visit_neighbors ns visited rest) = Inr (visited', rest @ new)"
      using t visit by (simp add: index_at_def)
    have "\<exists>visited'' shell'. shell_walk ns visited' (rest @ new) (shell @ [t]) = Inr (visited'', shell') \<and>
        length visited'' = length visited' \<and> marked visited'' = V \<union> set shell' \<and> distinct shell' \<and>
        set shell' \<inter> V = {} \<and> set (shell @ [t]) \<union> set (rest @ new) \<subseteq> set shell' \<and>
        (\<forall>t\<in>set shell'. set (ns ! t) \<subseteq> marked visited'') \<and>
        set shell' \<subseteq> (neighbor_steps ns)\<^sup>* `` {start}"
    proof (rule "1.IH" [OF Cons step refl])
      show "neighbors_ok ns" by (rule "1.prems"(1))
      show "length ns = length visited'" using "1.prems"(2) len by simp
      show "marked visited' = V \<union> set (shell @ [t]) \<union> set (rest @ new)"
        using "1.prems"(3) Cons marks by auto
      show "distinct ((shell @ [t]) @ rest @ new)"
        using "1.prems"(3,4) Cons new by auto
      show "(set (shell @ [t]) \<union> set (rest @ new)) \<inter> V = {}"
        using "1.prems"(3,5) Cons new by auto
      show "\<forall>s\<in>set (shell @ [t]). set (ns ! s) \<subseteq> marked visited'"
        using "1.prems"(6) marks new by auto
      have "(start, x) \<in> (neighbor_steps ns)\<^sup>*" if "x \<in> set new" for x
      proof -
        have "(start, t) \<in> (neighbor_steps ns)\<^sup>*" using "1.prems"(7) Cons by auto
        moreover have "(t, x) \<in> neighbor_steps ns" using that new t by (simp add: neighbor_steps_def)
        ultimately show ?thesis by (rule rtrancl_into_rtrancl)
      qed
      then show "set (shell @ [t]) \<union> set (rest @ new) \<subseteq> (neighbor_steps ns)\<^sup>* `` {start}"
        using "1.prems"(7) Cons by auto
    qed
    moreover have "shell_walk ns visited pending shell = shell_walk ns visited' (rest @ new) (shell @ [t])"
      using step Cons by (simp add: shell_walk.simps [of ns visited "t # rest"])
    moreover have more: "set shell \<union> set pending \<subseteq> set (shell @ [t]) \<union> set (rest @ new)" using Cons by auto
    ultimately show ?thesis unfolding len
      by (elim exE conjE, intro exI conjI) ((simp; fail) | assumption | (rule order_trans [OF more], assumption))+
  qed
qed

text \<open>A shell is the set of facets that can be reached from any of its facets.\<close>

definition is_component :: "(nat \<times> nat) set \<Rightarrow> nat list \<Rightarrow> bool" where
  "is_component E s \<longleftrightarrow> s \<noteq> [] \<and> (\<forall>t\<in>set s. set s = E\<^sup>* `` {t})"

lemma component_of:
  assumes "sym E" "start \<in> set s" "set s \<subseteq> E\<^sup>* `` {start}" "\<forall>t\<in>set s. E `` {t} \<subseteq> set s"
  shows "is_component E s"
proof -
  have "set s = E\<^sup>* `` {start}"
  proof
    have "x \<in> set s" if "(start, x) \<in> E\<^sup>*" for x
      using that by (induction rule: rtrancl_induct) (use assms(2,4) in auto)
    then show "E\<^sup>* `` {start} \<subseteq> set s" by blast
  qed (rule assms(3))
  moreover have "E\<^sup>* `` {t} = E\<^sup>* `` {start}" if "(start, t) \<in> E\<^sup>*" for t
  proof -
    have "(t, start) \<in> E\<^sup>*" using sym_rtrancl [OF assms(1)] that by (rule symD)
    have "(t, x) \<in> E\<^sup>* \<longleftrightarrow> (start, x) \<in> E\<^sup>*" for x
      using rtrancl_trans [OF \<open>(t, start) \<in> E\<^sup>*\<close>] rtrancl_trans [OF that] by blast
    then show ?thesis by blast
  qed
  ultimately have "set s = E\<^sup>* `` {t}" if "t \<in> set s" for t using that by blast
  with assms(2) show ?thesis unfolding is_component_def by fastforce
qed

definition shells_so_far :: "nat list list \<Rightarrow> nat \<Rightarrow> bool list \<times> nat list list \<Rightarrow> bool" where
  "shells_so_far ns n x \<longleftrightarrow>
     (case x of (visited, shells) \<Rightarrow>
        length visited = length ns \<and> marked visited = set (concat shells) \<and> distinct (concat shells) \<and>
        {..<n} \<subseteq> marked visited \<and> (\<forall>s\<in>set shells. is_component (neighbor_steps ns) s))"

lemma shell_from_result:
  assumes "neighbors_ok ns" "shells_so_far ns n x" "n < length ns"
  shows "\<exists>y. shell_from ns n x = Inr y \<and> shells_so_far ns (Suc n) y"
proof -
  obtain visited shells where x: "x = (visited, shells)" by (cases x)
  let ?E = "neighbor_steps ns"
  from assms(2) x have len: "length visited = length ns" and marks: "marked visited = set (concat shells)"
    and dist: "distinct (concat shells)" and below: "{..<n} \<subseteq> marked visited"
    and comps: "\<forall>s\<in>set shells. is_component ?E s" by (auto simp: shells_so_far_def)
  have closed: "?E `` marked visited \<subseteq> marked visited"
  proof
    fix t' assume "t' \<in> ?E `` marked visited"
    then obtain t s where "s \<in> set shells" "t \<in> set s" "(t, t') \<in> ?E" by (auto simp: marks)
    moreover from this comps have "set s = ?E\<^sup>* `` {t}" unfolding is_component_def by blast
    ultimately show "t' \<in> marked visited" unfolding marks by auto
  qed
  show ?thesis
  proof (cases "visited ! n")
    case True
    with assms(3) len have "n \<in> marked visited" by (simp add: marked_def)
    with True below assms(2,3) len x show ?thesis
      by (auto simp: shell_from_def index_at_def shells_so_far_def lessThan_Suc)
  next
    case False
    have fresh: "n \<notin> marked visited" using False by (simp add: marked_def)
    have sym: "sym ?E" using assms(1) by (simp add: neighbors_ok_def)
    have "\<exists>visited' shell'. shell_walk ns (visited[n := True]) [n] [] = Inr (visited', shell') \<and>
        length visited' = length (visited[n := True]) \<and> marked visited' = marked visited \<union> set shell' \<and>
        distinct shell' \<and> set shell' \<inter> marked visited = {} \<and> set [] \<union> set [n] \<subseteq> set shell' \<and>
        (\<forall>t\<in>set shell'. set (ns ! t) \<subseteq> marked visited') \<and> set shell' \<subseteq> ?E\<^sup>* `` {n}"
      by (rule shell_walk_result) (use assms(1,3) len fresh in \<open>auto simp: marked_update\<close>)
    then obtain visited' shell' where
      walk: "shell_walk ns (visited[n := True]) [n] [] = Inr (visited', shell')"
        "length visited' = length visited" "marked visited' = marked visited \<union> set shell'" "distinct shell'"
        "set shell' \<inter> marked visited = {}" "n \<in> set shell'"
        "\<forall>t\<in>set shell'. set (ns ! t) \<subseteq> marked visited'" "set shell' \<subseteq> ?E\<^sup>* `` {n}" by auto
    have "?E `` {t} \<subseteq> set shell'" if "t \<in> set shell'" for t
    proof
      fix t' assume "t' \<in> ?E `` {t}"
      then have "(t, t') \<in> ?E" "(t', t) \<in> ?E" using sym by (auto dest: symD)
      then have "t' \<in> marked visited'" "t' \<notin> marked visited"
        using walk(5,7) that closed by (auto simp: neighbor_steps_def)
      with walk(3) show "t' \<in> set shell'" by blast
    qed
    then have "is_component ?E shell'" using component_of [OF sym walk(6,8)] by blast
    then have "shells_so_far ns (Suc n) (visited', shells @ [shell'])"
      using walk len marks dist below comps by (auto simp: shells_so_far_def lessThan_Suc)
    with walk(1) False assms(3) len x show ?thesis by (simp add: shell_from_def index_at_def)
  qed
qed

lemma connected_shells_result:
  assumes "neighbors_ok ns"
  shows "\<exists>shells. connected_shells ns (length ns) = Inr shells \<and> distinct (concat shells) \<and>
    set (concat shells) = {..<length ns} \<and> (\<forall>s\<in>set shells. is_component (neighbor_steps ns) s)"
proof -
  have "\<exists>y. fold_ok (shell_from ns) [0..<n] (replicate (length ns) False, []) = Inr y \<and> shells_so_far ns n y"
    if "n \<le> length ns" for n
    using that
  proof (induction n)
    case 0
    show ?case by (simp add: shells_so_far_def marked_def)
  next
    case (Suc n)
    then obtain y where "fold_ok (shell_from ns) [0..<n] (replicate (length ns) False, []) = Inr y"
      "shells_so_far ns n y" by auto
    with shell_from_result [OF assms this(2)] Suc.prems show ?case
      by (auto simp: fold_ok_append)
  qed
  from this [of "length ns"] obtain visited shells where
    "fold_ok (shell_from ns) [0..<length ns] (replicate (length ns) False, []) = Inr (visited, shells)"
    "shells_so_far ns (length ns) (visited, shells)" by auto
  then show ?thesis
    by (intro exI [of _ shells])
      (auto simp: connected_shells_def shells_so_far_def marked_def)
qed

end
