(* ===== verification/MeshVerify.thy ===== *)
theory MeshVerify
  imports MeshProps
begin

text \<open>
  The verdict of \<^verbatim>\<open>verify_mesh\<close>: the construction of the mesh identifies vertices by
  their exact coordinates and nothing else, no input makes the verifier panic, and what it accepts
  is a closed oriented manifold with one material exterior.
\<close>

section \<open>Construction of the mesh\<close>

definition table_ok :: "vertex_table \<Rightarrow> bool" where
  "table_ok t \<longleftrightarrow>
     (\<forall>k i. snd t k = Some i \<longleftrightarrow> i < length (fst t) \<and> vertex_key (fst t ! i) = k)"

lemma table_get: "table_ok t \<Longrightarrow> snd t k = Some i \<longleftrightarrow> i < length (fst t) \<and> vertex_key (fst t ! i) = k"
  unfolding table_ok_def by blast

definition located :: "vertex_table \<Rightarrow> point \<Rightarrow> nat \<Rightarrow> bool" where
  "located t p i \<longleftrightarrow> i < length (fst t) \<and> vertex_key (fst t ! i) = vertex_key p"

definition extends :: "vertex_table \<Rightarrow> vertex_table \<Rightarrow> bool" where
  "extends t t' \<longleftrightarrow> (\<exists>vs. fst t' = fst t @ vs)"

lemma table_extends_refl [simp]: "extends t t"
  by (auto simp: extends_def)

lemma table_extends_trans: "extends t u \<Longrightarrow> extends u v \<Longrightarrow> extends t v"
  by (auto simp: extends_def)

lemma located_extends: "located t p i \<Longrightarrow> extends t t' \<Longrightarrow> located t' p i"
  by (auto simp: located_def extends_def nth_append)

lemma located_unique:
  assumes "table_ok t" "located t p i" "located t q j"
  shows "i = j \<longleftrightarrow> vertex_key p = vertex_key q"
proof -
  have "snd t (vertex_key p) = Some i" "snd t (vertex_key q) = Some j"
    using assms by (simp_all add: table_get located_def)
  with assms show ?thesis by (auto simp: located_def)
qed

lemma vertex_id_result:
  assumes "table_ok t"
  obtains t' i where "vertex_id p t = (t', i)" "table_ok t'" "extends t t'" "located t' p i"
    "\<forall>v\<in>set (fst t'). v \<in> set (fst t) \<or> v = p"
proof (cases t)
  case (Pair vs ids)
  show ?thesis
  proof (cases "ids (vertex_key p)")
    case None
    have old: "ids k = Some i \<longleftrightarrow> i < length vs \<and> vertex_key (vs ! i) = k" for k i
      using table_get [OF assms, of k i] Pair by simp
    let ?t = "(vs @ [p], ids(vertex_key p \<mapsto> length vs))"
    have "vertex_key (vs ! i) \<noteq> vertex_key p" if "i < length vs" for i
      using None old [of "vertex_key p" i] that by auto
    then have "snd ?t k = Some i \<longleftrightarrow> i < length (fst ?t) \<and> vertex_key (fst ?t ! i) = k" for k i
      by (auto simp: old nth_append less_Suc_eq)
    then have "table_ok ?t" unfolding table_ok_def by blast
    moreover have "vertex_id p t = (?t, length vs)" using None Pair by (simp add: vertex_id_def)
    moreover have "extends t ?t" "located ?t p (length vs)"
      using Pair by (auto simp: extends_def located_def)
    ultimately show ?thesis using that Pair by auto
  next
    case (Some i)
    then have "vertex_id p t = (t, i)" using Pair by (simp add: vertex_id_def)
    moreover have "located t p i" using Some table_get [OF assms, of "vertex_key p" i] Pair by (simp add: located_def)
    ultimately show ?thesis using that assms by auto
  qed
qed

fun located_facet :: "vertex_table \<Rightarrow> mesh_triangle \<Rightarrow> bool" where
  "located_facet t f =
     (case (mt_vertices f, mt_indices f) of ((a, b, c), (i, j, k)) \<Rightarrow>
        located t a i \<and> located t b j \<and> located t c k)"

declare located_facet.simps [simp del]

lemma located_facet_extends: "located_facet t f \<Longrightarrow> extends t t' \<Longrightarrow> located_facet t' f"
  by (auto simp: located_facet.simps located_extends split: prod.splits)

abbreviation indices :: "mesh \<Rightarrow> (nat \<times> nat \<times> nat) list" where
  "indices m \<equiv> map mt_indices (ms_triangles m)"

definition mesh_ok :: "mesh \<Rightarrow> bool" where
  "mesh_ok m \<longleftrightarrow> table_ok (ms_table m) \<and> (\<forall>f\<in>set (ms_triangles m). located_facet (ms_table m) f) \<and>
     ms_facets m = map (\<lambda>t. sort (corners t)) (indices m) \<and> distinct_facets (indices m) \<and>
     nondegenerate (indices m) \<and>
     set (fst (ms_table m)) \<subseteq> set (concat (map (facet_points \<circ> mt_vertices) (ms_triangles m)))"

lemma add_facet_result:
  assumes "mesh_ok m"
  shows "add_facet (n, f) m \<noteq> Inl Panicked"
    "add_facet (n, f) m = Inr m' \<Longrightarrow> mesh_ok m' \<and>
       map mt_vertices (ms_triangles m') = map mt_vertices (ms_triangles m) @ [f]"
proof -
  obtain a b c where f: "f = (a, b, c)" by (cases f)
  from assms have ok: "table_ok (ms_table m)" by (simp add: mesh_ok_def)
  obtain t i where t: "vertex_id a (ms_table m) = (t, i)" "table_ok t" "extends (ms_table m) t" "located t a i"
    "\<forall>v\<in>set (fst t). v \<in> set (fst (ms_table m)) \<or> v = a"
    using vertex_id_result [OF ok] by blast
  obtain u j where u: "vertex_id b t = (u, j)" "table_ok u" "extends t u" "located u b j"
    "\<forall>v\<in>set (fst u). v \<in> set (fst t) \<or> v = b"
    using vertex_id_result [OF t(2)] by blast
  obtain w k where w: "vertex_id c u = (w, k)" "table_ok w" "extends u w" "located w c k"
    "\<forall>v\<in>set (fst w). v \<in> set (fst u) \<or> v = c"
    using vertex_id_result [OF u(2)] by blast
  have later: "extends (ms_table m) w" "located w a i" "located w b j"
    using t u w by (meson table_extends_trans located_extends)+
  show "add_facet (n, f) m \<noteq> Inl Panicked"
    by (auto simp: add_facet_def f t(1) u(1) w(1) Let_def reject_triangle_def)
  assume added: "add_facet (n, f) m = Inr m'"
  let ?new = "\<lparr>mt_vertices = (a, b, c), mt_indices = (i, j, k)\<rparr>"
  from added have m': "m' = m\<lparr>ms_table := w, ms_triangles := ms_triangles m @ [?new],
      ms_facets := ms_facets m @ [sort [i, j, k]]\<rparr>"
    and corners: "distinct [i, j, k]" and fresh: "sort [i, j, k] \<notin> set (ms_facets m)"
    by (auto simp: add_facet_def f t(1) u(1) w(1) Let_def reject_triangle_def split: if_splits)
  have "\<forall>g\<in>set (ms_triangles m). located_facet w g"
    using assms located_facet_extends [OF _ later(1)] by (auto simp: mesh_ok_def)
  moreover have "located_facet w ?new" using later w(4) by (simp add: located_facet.simps)
  moreover have "set (fst w) \<subseteq> set (concat (map (facet_points \<circ> mt_vertices) (ms_triangles m @ [?new])))"
    using t(5) u(5) w(5) assms by (fastforce simp: mesh_ok_def facet_points_def)
  ultimately show "mesh_ok m' \<and> map mt_vertices (ms_triangles m') = map mt_vertices (ms_triangles m) @ [f]"
    using assms w(2) corners fresh
    by (auto simp: m' f mesh_ok_def distinct_facets_def nondegenerate_def corners_def)
qed

lemma build_mesh_result:
  "build_mesh facets \<noteq> Inl Panicked"
  "build_mesh facets = Inr m \<Longrightarrow> mesh_ok m \<and> map mt_vertices (ms_triangles m) = facets"
proof -
  have main: "fold_ok add_facet (enumerate n fs) m \<noteq> Inl Panicked \<and>
      (\<forall>m'. fold_ok add_facet (enumerate n fs) m = Inr m' \<longrightarrow>
        mesh_ok m' \<and> map mt_vertices (ms_triangles m') = map mt_vertices (ms_triangles m) @ fs)"
    if "mesh_ok m" for n fs m
    using that
  proof (induction fs arbitrary: n m)
    case Nil
    then show ?case by simp
  next
    case (Cons f fs)
    show ?case
    proof (cases "add_facet (n, f) m")
      case (Inl e)
      with add_facet_result(1) [OF Cons.prems, of n f] show ?thesis by simp
    next
      case (Inr m')
      with add_facet_result(2) [OF Cons.prems Inr] Cons.IH [of m' "Suc n"] show ?thesis by simp
    qed
  qed
  let ?m = "\<lparr>ms_table = ([], \<lambda>_. None), ms_triangles = [], ms_facets = []\<rparr>"
  have "mesh_ok ?m"
    by (simp add: mesh_ok_def table_ok_def distinct_facets_def nondegenerate_def)
  from main [OF this, of 0 facets] show "build_mesh facets \<noteq> Inl Panicked"
    "build_mesh facets = Inr m \<Longrightarrow> mesh_ok m \<and> map mt_vertices (ms_triangles m) = facets"
    by (simp_all add: build_mesh_def)
qed

section \<open>No input makes the verifier panic\<close>

definition safe :: "'a checked \<Rightarrow> bool" where
  "safe r \<longleftrightarrow> r \<noteq> Inl Panicked"

lemma safe_Inr [simp]: "safe (Inr x)"
  by (simp add: safe_def)

lemma safe_reject [simp]: "safe (reject r s)" "safe (reject_triangle r n s)"
  by (simp_all add: safe_def reject_def reject_triangle_def)

lemma safe_and_then: "safe r \<Longrightarrow> (\<And>x. r = Inr x \<Longrightarrow> safe (f x)) \<Longrightarrow> safe (and_then r f)"
  by (cases r) (auto simp: safe_def)

lemma safe_index_at [simp]: "safe (index_at xs i) \<longleftrightarrow> i < length xs"
  by (simp add: safe_def index_at_def)

lemma index_at_Inr [simp]: "index_at xs i = Inr x \<longleftrightarrow> i < length xs \<and> x = xs ! i"
  by (auto simp: index_at_def)

lemma map_ok_Inr: "map_ok f xs = Inr ys \<longleftrightarrow> list_all2 (\<lambda>x y. f x = Inr y) xs ys"
  by (induction xs arbitrary: ys) (auto simp: and_then_Inr_iff list_all2_Cons1)

lemma safe_map_ok: "(\<And>x. x \<in> set xs \<Longrightarrow> safe (f x)) \<Longrightarrow> safe (map_ok f xs)"
  by (induction xs) (auto intro!: safe_and_then)

lemma safe_all_ok: "(\<And>x. x \<in> set xs \<Longrightarrow> safe (f x)) \<Longrightarrow> safe (all_ok f xs)"
  by (induction xs) (auto intro!: safe_and_then)

lemma safe_each_ok: "(\<And>x. x \<in> set xs \<Longrightarrow> safe (f x)) \<Longrightarrow> safe (each_ok f xs)"
  by (induction xs) (auto intro!: safe_and_then)

lemma safe_fold_ok: "(\<And>x s. x \<in> set xs \<Longrightarrow> safe (f x s)) \<Longrightarrow> safe (fold_ok f xs s)"
  by (induction xs arbitrary: s) (auto intro!: safe_and_then)

lemma safe_or_else: "safe a \<Longrightarrow> safe b \<Longrightarrow> safe (or_else a b)"
  unfolding or_else_def by (rule safe_and_then) auto

definition shells_in :: "mesh \<Rightarrow> nat list list \<Rightarrow> bool" where
  "shells_in m shells \<longleftrightarrow> (\<forall>s\<in>set shells. set s \<subseteq> {..<length (ms_triangles m)})"

lemma shell_triangles_Inr:
  "set s \<subseteq> {..<length (ms_triangles m)} \<Longrightarrow> shell_triangles m s = Inr (map ((!) (ms_triangles m)) s)"
  unfolding shell_triangles_def map_ok_Inr by (auto simp: list_all2_map2 list_all2_same)

lemma corner_index:
  assumes "mesh_ok m" "t \<in> set (ms_triangles m)" "i \<in> set (index_list t)"
  shows "i < length (fst (ms_table m))"
proof -
  have "located_facet (ms_table m) t" using assms(1,2) by (simp add: mesh_ok_def)
  with assms(3) show ?thesis
    by (auto simp: located_facet.simps located_def index_list_def split: prod.splits)
qed

lemma safe_inside:
  assumes "mesh_ok m" "set inner \<subseteq> {..<length (ms_triangles m)}" "set outer \<subseteq> {..<length (ms_triangles m)}"
  shows "safe (shell_vertices_strictly_inside m inner outer)"
proof -
  have "i < length (fst (ms_table m))"
    if "i \<in> set (concat (map index_list (map ((!) (ms_triangles m)) inner)))" for i
  proof -
    from that obtain t where "t \<in> set inner" "i \<in> set (index_list (ms_triangles m ! t))" by auto
    with assms(2) corner_index [OF assms(1)] show ?thesis by (meson lessThan_iff nth_mem subsetD)
  qed
  then show ?thesis
    unfolding shell_vertices_strictly_inside_def shell_triangles_Inr [OF assms(2)]
      shell_triangles_Inr [OF assms(3)]
    by (auto intro!: safe_all_ok safe_and_then)
qed

lemma safe_intersect:
  assumes "set l \<subseteq> {..<length (ms_triangles m)}" "set r \<subseteq> {..<length (ms_triangles m)}"
  shows "safe (shells_intersect m l r)"
  by (simp add: shells_intersect_def shell_triangles_Inr assms)

lemma safe_cavity:
  assumes "mesh_ok m" "shells_in m shells" "fst iv < length shells" "exterior < length shells"
  shows "safe (check_cavity m shells exterior iv n)"
proof -
  have "set (shells ! i) \<subseteq> {..<length (ms_triangles m)}" if "i < length shells" for i
    using that assms(2) by (simp add: shells_in_def)
  note inner = this [OF assms(3)] and outer = this [OF assms(4)]
  show ?thesis
    using assms(3,4) safe_inside [OF assms(1) inner outer] safe_intersect [OF inner outer]
    by (auto simp: check_cavity_def case_prod_unfold intro!: safe_and_then safe_or_else)
qed

lemma safe_cavity_pair:
  assumes "mesh_ok m" "shells_in m shells" "i < length shells" "fst jv < length shells"
  shows "safe (check_cavity_pair m shells i jv)"
proof -
  have "set (shells ! i) \<subseteq> {..<length (ms_triangles m)}" if "i < length shells" for i
    using that assms(2) by (simp add: shells_in_def)
  note l = this [OF assms(3)] and r = this [OF assms(4)]
  show ?thesis
    using assms(3,4) safe_inside [OF assms(1) l r] safe_inside [OF assms(1) r l] safe_intersect [OF l r]
    by (auto simp: check_cavity_pair_def case_prod_unfold intro!: safe_and_then safe_or_else)
qed

lemma enumerate_fst: "x \<in> set (enumerate 0 xs) \<Longrightarrow> fst x < length xs"
  by (cases x) (simp add: in_set_enumerate_eq)

lemma safe_volumes:
  assumes "mesh_ok m" "shells_in m shells" "length volumes = length shells"
  shows "safe (check_volumes show_f64 fmt m shells volumes)"
proof (cases "map fst (filter (\<lambda>iv. f64_pos (snd iv)) (enumerate 0 volumes))")
  case Nil
  then show ?thesis by (simp add: check_volumes_def)
next
  case (Cons exterior others)
  then have "exterior \<in> set (map fst (filter (\<lambda>iv. f64_pos (snd iv)) (enumerate 0 volumes)))" by simp
  then have exterior: "exterior < length shells" using assms(3) enumerate_fst by fastforce
  have "safe (fold_ok (check_cavity m shells exterior) (enumerate 0 volumes) 0)"
    by (rule safe_fold_ok, rule safe_cavity [OF assms(1,2) _ exterior]) (simp add: assms(3) [symmetric] enumerate_fst)
  moreover have "safe (check_cavity_pairs m shells volumes)"
    unfolding check_cavity_pairs_def
  proof (rule safe_each_ok)
    fix iv assume iv: "iv \<in> set (enumerate 0 volumes)"
    have "safe (check_cavity_pair m shells (fst iv) jv)"
      if "jv \<in> set (drop (fst iv + 1) (enumerate 0 volumes))" for jv
      using safe_cavity_pair [OF assms(1,2)] enumerate_fst [OF iv]
        enumerate_fst [OF in_set_dropD [OF that]] assms(3) by simp
    then show "safe (case iv of (i, volume) \<Rightarrow> if f64_le (Fin 0) volume then Inr ()
        else each_ok (check_cavity_pair m shells i) (drop (i + 1) (enumerate 0 volumes)))"
      by (cases iv) (simp add: safe_each_ok)
  qed
  ultimately show ?thesis
    using Cons by (auto simp: check_volumes_def Let_def intro!: safe_and_then)
qed

definition facet_steps :: "(nat \<times> nat \<times> nat) list \<Rightarrow> (nat \<times> nat) set" where
  "facet_steps ts = {(t, t'). \<exists>v. adjacent_at ts v t t'}"

definition shell_partition :: "(nat \<times> nat \<times> nat) list \<Rightarrow> nat list list \<Rightarrow> bool" where
  "shell_partition ts shells \<longleftrightarrow>
     distinct (concat shells) \<and> set (concat shells) = {..<length ts} \<and>
     (\<forall>s\<in>set shells. is_component (facet_steps ts) s)"

lemma adjacent_sym: "adjacent_at ts v t t' \<Longrightarrow> adjacent_at ts v t' t"
  by (auto simp: adjacent_at_def)

lemma shells_result:
  assumes "nondegenerate ts" "distinct_facets ts" "check_topology ts = Inr ns"
  shows "\<exists>shells. connected_shells ns (length ts) = Inr shells \<and> shell_partition ts shells"
proof -
  note top = topology_result(3) [OF assms]
  then have len: "length ns = length ts" by blast
  have steps: "neighbor_steps ns = facet_steps ts"
  proof -
    have "t < length ns \<and> t' \<in> set (ns ! t) \<longleftrightarrow> (\<exists>v. adjacent_at ts v t t')" for t t'
    proof -
      have "adjacent_at ts v t t' \<Longrightarrow> t < length ts" for v by (simp add: adjacent_at_def)
      with top show ?thesis by auto
    qed
    then show ?thesis by (auto simp: neighbor_steps_def facet_steps_def)
  qed
  have "sym (facet_steps ts)"
    using adjacent_sym by (fastforce simp: sym_def facet_steps_def)
  moreover have "set (ns ! t) \<subseteq> {..<length ns}" if "t < length ns" for t
    using top that by (auto simp: adjacent_at_def)
  ultimately have "neighbors_ok ns" by (simp add: neighbors_ok_def steps)
  from connected_shells_result [OF this] show ?thesis
    by (simp add: shell_partition_def steps len)
qed

lemma verify_mesh_steps:
  assumes "build_mesh (ps_triangles parsed) = Inr m" "check_topology (indices m) = Inr ns"
  obtains shells volumes where "shell_partition (indices m) shells"
    "connected_shells ns (length (ms_triangles m)) = Inr shells" "shells_in m shells"
    "map_ok (shell_volume m) shells = Inr volumes" "length volumes = length shells"
proof -
  from build_mesh_result(2) [OF assms(1)] have ok: "mesh_ok m" by blast
  then obtain shells where shells: "shell_partition (indices m) shells"
    "connected_shells ns (length (ms_triangles m)) = Inr shells"
    using shells_result [OF _ _ assms(2)] unfolding mesh_ok_def by auto
  then have inside: "shells_in m shells" by (fastforce simp: shell_partition_def shells_in_def)
  let ?volume = "\<lambda>s. f64_sum (map (\<lambda>t. signed_triangle_volume (mt_vertices (ms_triangles m ! t))) s)"
  have "map_ok (shell_volume m) shells = Inr (map ?volume shells)"
    using inside unfolding map_ok_Inr
    by (auto simp: list_all2_map2 list_all2_same shells_in_def shell_volume_def shell_triangles_Inr comp_def)
  with that [OF shells inside this] show thesis by simp
qed

lemma verify_mesh_safe: "safe (verify_mesh show_f64 parsed)"
  unfolding verify_mesh_def
proof (rule safe_and_then)
  show "safe (build_mesh (ps_triangles parsed))"
    using build_mesh_result(1) by (simp add: safe_def)
  fix m assume built: "build_mesh (ps_triangles parsed) = Inr m"
  then have ok: "mesh_ok m" using build_mesh_result(2) by blast
  then have ts: "nondegenerate (indices m)" "distinct_facets (indices m)" by (auto simp: mesh_ok_def)
  show "safe (and_then (check_topology (indices m)) (\<lambda>neighbors.
      and_then (connected_shells neighbors (length (ms_triangles m))) (\<lambda>shells.
      and_then (map_ok (shell_volume m) shells)
        (check_volumes show_f64 (ps_format parsed) m shells))))"
  proof (rule safe_and_then)
    show "safe (check_topology (indices m))" using topology_result(1) [OF ts] by (simp add: safe_def)
    fix ns assume "check_topology (indices m) = Inr ns"
    from verify_mesh_steps [OF built this] obtain shells volumes where
      "connected_shells ns (length (ms_triangles m)) = Inr shells" "shells_in m shells"
      "map_ok (shell_volume m) shells = Inr volumes" "length volumes = length shells" by metis
    with safe_volumes [OF ok] show "safe (and_then (connected_shells ns (length (ms_triangles m))) (\<lambda>shells.
      and_then (map_ok (shell_volume m) shells)
        (check_volumes show_f64 (ps_format parsed) m shells)))" by simp
  qed
qed

section \<open>What an accepted mesh is\<close>

definition contained :: "mesh \<Rightarrow> nat list \<Rightarrow> nat list \<Rightarrow> bool" where
  "contained m inner outer \<longleftrightarrow>
     shell_vertices_strictly_inside m inner outer = Inr True \<and> shells_intersect m inner outer = Inr False"

definition apart :: "mesh \<Rightarrow> nat list \<Rightarrow> nat list \<Rightarrow> bool" where
  "apart m l r \<longleftrightarrow> shells_intersect m l r = Inr False \<and>
     shell_vertices_strictly_inside m l r = Inr False \<and> shell_vertices_strictly_inside m r l = Inr False"

definition cavity_layout :: "mesh \<Rightarrow> nat list list \<Rightarrow> f64 list \<Rightarrow> nat \<Rightarrow> bool" where
  "cavity_layout m shells volumes x \<longleftrightarrow>
     x < length shells \<and> f64_pos (volumes ! x) \<and>
     (\<forall>i < length shells. i \<noteq> x \<longrightarrow>
        f64_lt (volumes ! i) (Fin 0) \<and> contained m (shells ! i) (shells ! x)) \<and>
     (\<forall>i < length shells. \<forall>j < length shells. i < j \<and> i \<noteq> x \<and> j \<noteq> x \<longrightarrow>
        apart m (shells ! i) (shells ! j))"

lemma or_else_False: "or_else a b = Inr False \<longleftrightarrow> a = Inr False \<and> b = Inr False"
  by (auto simp: or_else_def and_then_Inr_iff)

lemma add_finite: "f64_finite (f64_add a b) \<Longrightarrow> f64_finite a \<and> f64_finite b"
  by (cases a; cases b) (simp_all add: f64_add_def)

lemma foldl_add_finite: "f64_finite (foldl f64_add a xs) \<Longrightarrow> f64_finite a \<and> (\<forall>v\<in>set xs. f64_finite v)"
proof (induction xs arbitrary: a)
  case Nil
  then show ?case by simp
next
  case (Cons x xs)
  from Cons.IH [of "f64_add a x"] Cons.prems add_finite [of a x] show ?case unfolding foldl_Cons by fastforce
qed

lemma sum_finite: "f64_finite (f64_sum xs) \<Longrightarrow> v \<in> set xs \<Longrightarrow> f64_finite v"
  unfolding f64_sum_def by (blast dest: foldl_add_finite)

lemma negative_finite: "f64_finite v \<Longrightarrow> \<not> f64_le (Fin 0) v \<Longrightarrow> f64_lt v (Fin 0)"
  by (cases v) (auto simp: f64_le_def f64_lt_def f64_eq_def)

lemma check_cavity_Inr:
  "check_cavity m shells x (i, v) n = Inr n' \<Longrightarrow>
     (if i = x then n' = n
      else n' = n + 1 \<and> \<not> f64_le (Fin 0) v \<and> contained m (shells ! i) (shells ! x))"
  by (auto simp: check_cavity_def and_then_Inr_iff or_else_False reject_def contained_def split: if_splits)

lemma check_cavities:
  "fold_ok (check_cavity m shells x) ivs n = Inr n' \<Longrightarrow>
     n' = n + length (filter (\<lambda>iv. fst iv \<noteq> x) ivs) \<and>
     (\<forall>(i, v)\<in>set ivs. i \<noteq> x \<longrightarrow> \<not> f64_le (Fin 0) v \<and> contained m (shells ! i) (shells ! x))"
proof (induction ivs arbitrary: n)
  case Nil
  then show ?case by simp
next
  case (Cons iv ivs)
  obtain i v where iv: "iv = (i, v)" by (cases iv)
  from Cons.prems obtain k where k: "check_cavity m shells x (i, v) n = Inr k"
    "fold_ok (check_cavity m shells x) ivs k = Inr n'" by (auto simp: and_then_Inr_iff iv)
  from Cons.IH [OF k(2)] check_cavity_Inr [OF k(1)] show ?case by (auto simp: iv split: if_splits)
qed

lemma enumerate_filter:
  assumes "x < length xs"
  shows "length (filter (\<lambda>iv. fst iv \<noteq> x) (enumerate 0 xs)) = length xs - 1"
proof -
  have "map fst (filter (\<lambda>iv. fst iv \<noteq> x) (enumerate 0 xs)) = filter (\<lambda>i. i \<noteq> x) (map fst (enumerate 0 xs))"
    unfolding filter_map comp_def ..
  then have "length (filter (\<lambda>iv. fst iv \<noteq> x) (enumerate 0 xs)) =
      length (filter (\<lambda>i. i \<noteq> x) (map fst (enumerate 0 xs)))"
    by (metis length_map)
  also have "\<dots> = card (set (filter (\<lambda>i. i \<noteq> x) [0..<length xs]))"
    by (metis add_0 distinct_card distinct_filter distinct_upt map_fst_enumerate)
  also have "set (filter (\<lambda>i. i \<noteq> x) [0..<length xs]) = {..<length xs} - {x}" by auto
  finally show ?thesis using assms by simp
qed

lemma check_pairs:
  assumes "check_cavity_pairs m shells volumes = Inr ()" "i < j" "j < length volumes"
    "\<not> f64_le (Fin 0) (volumes ! i)" "f64_lt (volumes ! j) (Fin 0)"
  shows "apart m (shells ! i) (shells ! j)"
proof -
  have i: "(i, volumes ! i) \<in> set (enumerate 0 volumes)" using assms(2,3) by (simp add: in_set_enumerate_eq)
  have "drop (i + 1) (enumerate 0 volumes) ! (j - (i + 1)) = (j, volumes ! j)"
    using assms(2,3) by (simp add: nth_enumerate_eq)
  then have j: "(j, volumes ! j) \<in> set (drop (i + 1) (enumerate 0 volumes))"
    using assms(2,3) by (metis (no_types, lifting) Suc_eq_plus1 Suc_leI diff_less_mono length_drop length_enumerate nth_mem)
  have "each_ok (check_cavity_pair m shells i) (drop (i + 1) (enumerate 0 volumes)) = Inr ()"
    using assms(1,4) i by (auto simp: check_cavity_pairs_def)
  with j have "check_cavity_pair m shells i (j, volumes ! j) = Inr ()" by simp
  with assms(5) show ?thesis
    by (auto simp: check_cavity_pair_def and_then_Inr_iff or_else_False reject_def apart_def split: if_splits)
qed

lemma check_volumes_sound:
  assumes "check_volumes show_f64 fmt m shells volumes = Inr r" "length volumes = length shells"
  obtains x where "cavity_layout m shells volumes x"
    "r = \<lparr>ir_format = fmt, ir_triangle_count = length (ms_triangles m),
       ir_unique_vertex_count = length (fst (ms_table m)), ir_shell_count = length shells,
       ir_cavity_shell_count = length shells - 1, ir_shell_signed_volumes = volumes,
       ir_signed_volume = f64_sum volumes, ir_material_volume = f64_sum volumes\<rparr>"
    "f64_finite (f64_sum volumes)" "f64_pos (f64_sum volumes)"
proof -
  obtain x others where split: "map fst (filter (\<lambda>iv. f64_pos (snd iv)) (enumerate 0 volumes)) = x # others"
    using assms(1) by (cases "map fst (filter (\<lambda>iv. f64_pos (snd iv)) (enumerate 0 volumes))")
      (auto simp: check_volumes_def reject_def)
  from assms(1) split obtain cavities where
    cavities: "fold_ok (check_cavity m shells x) (enumerate 0 volumes) 0 = Inr cavities"
    and pairs: "check_cavity_pairs m shells volumes = Inr ()"
    and sum: "f64_finite (f64_sum volumes)" "\<not> f64_le (f64_sum volumes) (Fin 0)"
    and r: "r = \<lparr>ir_format = fmt, ir_triangle_count = length (ms_triangles m),
       ir_unique_vertex_count = length (fst (ms_table m)), ir_shell_count = length shells,
       ir_cavity_shell_count = cavities, ir_shell_signed_volumes = volumes,
       ir_signed_volume = f64_sum volumes, ir_material_volume = f64_sum volumes\<rparr>"
    by (auto simp: check_volumes_def Let_def and_then_Inr_iff reject_def split: if_splits)
  have "x \<in> set (map fst (filter (\<lambda>iv. f64_pos (snd iv)) (enumerate 0 volumes)))" by (simp add: split)
  then have x: "x < length volumes" "f64_pos (volumes ! x)" by (auto simp: in_set_enumerate_eq)
  note facts = check_cavities [OF cavities]
  have cavity: "f64_lt (volumes ! i) (Fin 0) \<and> contained m (shells ! i) (shells ! x)"
    if "i < length volumes" "i \<noteq> x" for i
  proof -
    have "(i, volumes ! i) \<in> set (enumerate 0 volumes)" using that by (simp add: in_set_enumerate_eq)
    with facts that have "\<not> f64_le (Fin 0) (volumes ! i) \<and> contained m (shells ! i) (shells ! x)" by blast
    with negative_finite sum_finite [OF sum(1)] that(1) show ?thesis by simp
  qed
  have "apart m (shells ! i) (shells ! j)" if "i < j" "j < length volumes" "i \<noteq> x" "j \<noteq> x" for i j
  proof (rule check_pairs [OF pairs that(1,2)])
    have "f64_lt v (Fin 0) \<Longrightarrow> \<not> f64_le (Fin 0) v" for v by (cases v) (auto simp: f64_le_def f64_lt_def f64_eq_def)
    then show "\<not> f64_le (Fin 0) (volumes ! i)" using cavity [of i] that by simp
    show "f64_lt (volumes ! j) (Fin 0)" using cavity [of j] that by simp
  qed
  then have "cavity_layout m shells volumes x"
    using x cavity assms(2) by (simp add: cavity_layout_def)
  moreover have "cavities = length shells - 1"
    using facts enumerate_filter [OF x(1)] assms(2) by simp
  moreover have "f64_pos (f64_sum volumes)"
    using sum by (cases "f64_sum volumes") (auto simp: f64_pos_def f64_le_def f64_lt_def f64_eq_def)
  ultimately show thesis using that r sum(1) by blast
qed

lemma vertex_count:
  assumes "mesh_ok m"
  shows "length (fst (ms_table m)) =
    card (vertex_key ` set (concat (map facet_points (map mt_vertices (ms_triangles m)))))"
proof -
  let ?vs = "fst (ms_table m)" and ?points = "set (concat (map facet_points (map mt_vertices (ms_triangles m))))"
  have ok: "table_ok (ms_table m)" using assms by (simp add: mesh_ok_def)
  have "distinct (map vertex_key ?vs)"
  proof (rule distinct_conv_nth [THEN iffD2], intro allI impI)
    fix i j assume "i < length (map vertex_key ?vs)" "j < length (map vertex_key ?vs)" "i \<noteq> j"
    then show "map vertex_key ?vs ! i \<noteq> map vertex_key ?vs ! j"
      using table_get [OF ok, of "vertex_key (?vs ! i)" i] table_get [OF ok, of "vertex_key (?vs ! j)" j] by auto
  qed
  then have "length ?vs = card (set (map vertex_key ?vs))" using distinct_card by fastforce
  moreover have "vertex_key ` ?points \<subseteq> set (map vertex_key ?vs)"
  proof
    fix k assume "k \<in> vertex_key ` ?points"
    then obtain f p where f: "f \<in> set (ms_triangles m)" "p \<in> set (facet_points (mt_vertices f))" "k = vertex_key p"
      by auto
    then have "located_facet (ms_table m) f" using assms by (simp add: mesh_ok_def)
    then obtain i where "located (ms_table m) p i"
      using f(2) by (auto simp: located_facet.simps facet_points_def split: prod.splits)
    then have "i < length ?vs" "k = vertex_key (?vs ! i)" using f(3) by (auto simp: located_def)
    then show "k \<in> set (map vertex_key ?vs)" by simp
  qed
  moreover have "set (map vertex_key ?vs) \<subseteq> vertex_key ` ?points"
    using assms by (auto simp: mesh_ok_def)
  ultimately show ?thesis by (metis subset_antisym)
qed

section \<open>The verdict\<close>

text \<open>
  C36.  No mesh makes the verifier panic: every index it uses is in range, every edge has a facet and
  every facet that a walk around a vertex reaches has a neighbourhood in the link of that vertex.
\<close>

theorem mesh_verifier_total:
  "verify_mesh show_f64 parsed \<noteq> Inl Panicked"
  using verify_mesh_safe by (simp add: safe_def)

text \<open>
  C8.  For the facets of a mesh that was built, the checks on edges and vertices accept exactly the closed
  oriented manifolds: every directed edge of a facet occurs once and its reverse occurs as well, and
  any two facets that share a vertex are connected through edges at that vertex. Two corners carry
  the same index exactly when their coordinates are the same up to the sign of zero, so that nothing
  is welded by a tolerance.
\<close>

theorem topology_decides:
  assumes "build_mesh facets = Inr m"
  shows "((\<exists>ns. check_topology (map mt_indices (ms_triangles m)) = Inr ns) \<longleftrightarrow>
      closed_manifold (map mt_indices (ms_triangles m))) \<and>
    map mt_vertices (ms_triangles m) = facets \<and>
    (\<forall>t\<in>set (ms_triangles m). \<forall>t'\<in>set (ms_triangles m). \<forall>c < 3. \<forall>c' < 3.
      index_list t ! c = index_list t' ! c' \<longleftrightarrow>
      vertex_key (facet_points (mt_vertices t) ! c) = vertex_key (facet_points (mt_vertices t') ! c'))"
proof -
  from build_mesh_result(2) [OF assms] have ok: "mesh_ok m" and facets: "map mt_vertices (ms_triangles m) = facets"
    by auto
  then have ts: "nondegenerate (indices m)" "distinct_facets (indices m)" by (auto simp: mesh_ok_def)
  have corner: "located (ms_table m) (facet_points (mt_vertices t) ! c) (index_list t ! c)"
    if t: "t \<in> set (ms_triangles m)" and c: "c < 3" for t c
  proof -
    have "located_facet (ms_table m) t" using ok t by (simp add: mesh_ok_def)
    moreover have "c = 0 \<or> c = 1 \<or> c = 2" using c by auto
    ultimately show ?thesis
      by (auto simp: located_facet.simps facet_points_def index_list_def split: prod.splits)
  qed
  have "table_ok (ms_table m)" using ok by (simp add: mesh_ok_def)
  then have "index_list t ! c = index_list t' ! c' \<longleftrightarrow>
      vertex_key (facet_points (mt_vertices t) ! c) = vertex_key (facet_points (mt_vertices t') ! c')"
    if "t \<in> set (ms_triangles m)" "t' \<in> set (ms_triangles m)" "c < 3" "c' < 3" for t t' c c'
    using located_unique corner that by blast
  with topology_result(2) [OF ts] facets show ?thesis by blast
qed

definition tetrahedron :: "facet list" where
  "tetrahedron =
     (let a = (Fin 0, Fin 0, Fin 0); b = (Fin 1, Fin 0, Fin 0); c = (Fin 0, Fin 1, Fin 0);
          d = (Fin 0, NegZero, Fin 1) in
      [(a, c, b), (a, b, d), (a, d, c), (b, c, d)])"

lemma tetrahedron_built: "is_ok (build_mesh tetrahedron)"
  by code_simp

lemma topology_decides_witness:
  "\<exists>m. build_mesh tetrahedron = Inr m \<and> closed_manifold (map mt_indices (ms_triangles m))"
proof -
  have "case build_mesh tetrahedron of Inl _ \<Rightarrow> False
      | Inr m \<Rightarrow> is_ok (check_topology (map mt_indices (ms_triangles m)))"
    by code_simp
  then obtain m ns where m: "build_mesh tetrahedron = Inr m"
    and ns: "check_topology (map mt_indices (ms_triangles m)) = Inr ns"
    by (auto simp: is_ok_def split: sum.splits)
  from topology_decides [OF m] ns have "closed_manifold (map mt_indices (ms_triangles m))" by blast
  with m show ?thesis by blast
qed

text \<open>
  C7.  What the verifier accepts is a closed oriented manifold whose shells are the classes of the facets
  under edge adjacency, every facet in one shell. One shell has a positive signed volume, every
  other shell has a negative one, lies strictly inside it without touching it, and apart from the
  other cavities, as the tests of the verifier for points, boxes and facets tell it; the report carries the format, the number of facets, of vertices that differ
  exactly, of shells and of cavities, and the volumes, whose sum is finite and positive.
\<close>

theorem verified_mesh_sound:
  assumes "verify_mesh show_f64 parsed = Inr r"
  shows "\<exists>m shells x. build_mesh (ps_triangles parsed) = Inr m \<and>
    map mt_vertices (ms_triangles m) = ps_triangles parsed \<and>
    closed_manifold (map mt_indices (ms_triangles m)) \<and>
    shell_partition (map mt_indices (ms_triangles m)) shells \<and>
    map_ok (shell_volume m) shells = Inr (ir_shell_signed_volumes r) \<and>
    cavity_layout m shells (ir_shell_signed_volumes r) x \<and>
    ir_format r = ps_format parsed \<and> ir_triangle_count r = length (ps_triangles parsed) \<and>
    ir_unique_vertex_count r = card (vertex_key ` set (concat (map facet_points (ps_triangles parsed)))) \<and>
    ir_shell_count r = length shells \<and> ir_cavity_shell_count r = length shells - 1 \<and>
    ir_signed_volume r = f64_sum (ir_shell_signed_volumes r) \<and>
    ir_material_volume r = ir_signed_volume r \<and>
    f64_finite (ir_signed_volume r) \<and> f64_pos (ir_signed_volume r)"
proof -
  from assms obtain m ns where m: "build_mesh (ps_triangles parsed) = Inr m"
    and ns: "check_topology (indices m) = Inr ns"
    and rest: "and_then (connected_shells ns (length (ms_triangles m))) (\<lambda>shells.
      and_then (map_ok (shell_volume m) shells)
        (check_volumes show_f64 (ps_format parsed) m shells)) = Inr r"
    unfolding verify_mesh_def and_then_Inr_iff by blast
  from build_mesh_result(2) [OF m] have ok: "mesh_ok m"
    and facets: "map mt_vertices (ms_triangles m) = ps_triangles parsed" by auto
  have manifold: "closed_manifold (indices m)"
    using topology_result(2) [of "indices m"] ok ns by (auto simp: mesh_ok_def)
  from verify_mesh_steps [OF m ns] obtain shells volumes where
    part: "shell_partition (indices m) shells"
    and shells: "connected_shells ns (length (ms_triangles m)) = Inr shells"
    and vols: "map_ok (shell_volume m) shells = Inr volumes" "length volumes = length shells" by metis
  from rest shells vols have "check_volumes show_f64 (ps_format parsed) m shells volumes = Inr r" by simp
  from check_volumes_sound [OF this vols(2)] obtain x where
    "cavity_layout m shells volumes x" and
    "r = \<lparr>ir_format = ps_format parsed, ir_triangle_count = length (ms_triangles m),
       ir_unique_vertex_count = length (fst (ms_table m)), ir_shell_count = length shells,
       ir_cavity_shell_count = length shells - 1, ir_shell_signed_volumes = volumes,
       ir_signed_volume = f64_sum volumes, ir_material_volume = f64_sum volumes\<rparr>"
    and "f64_finite (f64_sum volumes)" "f64_pos (f64_sum volumes)" by metis
  moreover have "length (ms_triangles m) = length (ps_triangles parsed)"
    using arg_cong [OF facets, of length] by simp
  ultimately show ?thesis
    using m facets manifold part vols vertex_count [OF ok]
    by (intro exI [of _ m] exI [of _ shells] exI [of _ x]) simp
qed

lemma verified_mesh_sound_witness:
  "\<exists>r. verify_mesh (\<lambda>_. []) \<lparr>ps_format = BinaryStl, ps_triangles = tetrahedron\<rparr> = Inr r \<and>
     ir_unique_vertex_count r = 4 \<and> ir_triangle_count r = 4 \<and> f64_pos (ir_signed_volume r)"
proof -
  have "case verify_mesh (\<lambda>_. []) \<lparr>ps_format = BinaryStl, ps_triangles = tetrahedron\<rparr> of
      Inl _ \<Rightarrow> False | Inr r \<Rightarrow> ir_unique_vertex_count r = 4"
    by code_simp
  then obtain r where r: "verify_mesh (\<lambda>_. []) \<lparr>ps_format = BinaryStl, ps_triangles = tetrahedron\<rparr> = Inr r"
    and "ir_unique_vertex_count r = 4" by (auto split: sum.splits)
  moreover have "length tetrahedron = 4" by (simp add: tetrahedron_def Let_def)
  ultimately show ?thesis using verified_mesh_sound [OF r] by auto
qed

end
