(* ===== verification/Schema.thy ===== *)
theory Schema
  imports Text Utf8
begin

text \<open>
  The validator of \<^verbatim>\<open>crates/protocol/src/schema_validator.rs\<close>, which walks a
  schema document and a value in lockstep.  Both are \<^verbatim>\<open>serde_json::Value\<close>s.  The
  text of a value and of an \<^verbatim>\<open>f64\<close>, and the \<^verbatim>\<open>regex\<close> crate, are
  parameters.  A violation carries its message; indexing an empty list of types is the panic
  \<open>SchemaPanicked\<close>.
\<close>

datatype schema_failure = SchemaPanicked | Violation string

type_synonym verdict = "schema_failure + unit"

record schema_codecs =
  sc_show :: "json \<Rightarrow> string"
  sc_show_f64 :: "f64 \<Rightarrow> string"
  sc_regex :: "string \<Rightarrow> string + (string \<Rightarrow> bool)"

type_synonym document = "(string, json) btree"

section \<open>Values\<close>

text \<open>The derived \<^verbatim>\<open>PartialEq\<close>.\<close>

fun number_eq :: "jnumber \<Rightarrow> jnumber \<Rightarrow> bool" where
  "number_eq (PosInt m) (PosInt n) = (m = n)"
| "number_eq (NegInt m) (NegInt n) = (m = n)"
| "number_eq (Float a) (Float b) = f64_eq a b"
| "number_eq _ _ = False"

fun json_eq :: "json \<Rightarrow> json \<Rightarrow> bool"
  and jsons_eq :: "json list \<Rightarrow> json list \<Rightarrow> bool"
  and entries_eq :: "document \<Rightarrow> document \<Rightarrow> bool"
where
  "json_eq JNull JNull = True"
| "json_eq (JBool a) (JBool b) = (a = b)"
| "json_eq (JNumber m) (JNumber n) = number_eq m n"
| "json_eq (JString s) (JString t) = (s = t)"
| "json_eq (JArray xs) (JArray ys) = jsons_eq xs ys"
| "json_eq (JObject m) (JObject n) = entries_eq m n"
| "json_eq _ _ = False"
| "jsons_eq [] [] = True"
| "jsons_eq (x # xs) (y # ys) = (json_eq x y \<and> jsons_eq xs ys)"
| "jsons_eq _ _ = False"
| "entries_eq [] [] = True"
| "entries_eq ((k, x) # m) ((l, y) # n) = (k = l \<and> json_eq x y \<and> entries_eq m n)"
| "entries_eq _ _ = False"

fun number_value :: "jnumber \<Rightarrow> f64" where
  "number_value (PosInt n) = f64_lit (of_nat n)"
| "number_value (NegInt n) = f64_lit (of_int n)"
| "number_value (Float a) = a"

fun as_f64 :: "json \<Rightarrow> f64 option" where
  "as_f64 (JNumber n) = Some (number_value n)"
| "as_f64 _ = None"

fun as_u64 :: "json \<Rightarrow> nat option" where
  "as_u64 (JNumber (PosInt n)) = Some n"
| "as_u64 _ = None"

fun as_array :: "json \<Rightarrow> json list option" where
  "as_array (JArray xs) = Some xs"
| "as_array _ = None"

fun as_object :: "json \<Rightarrow> document option" where
  "as_object (JObject m) = Some m"
| "as_object _ = None"

fun type_matches :: "string \<Rightarrow> json \<Rightarrow> bool" where
  "type_matches kind value =
     (if kind = ''object'' then (case value of JObject _ \<Rightarrow> True | _ \<Rightarrow> False)
      else if kind = ''array'' then (case value of JArray _ \<Rightarrow> True | _ \<Rightarrow> False)
      else if kind = ''string'' then (case value of JString _ \<Rightarrow> True | _ \<Rightarrow> False)
      else if kind = ''number'' then (case value of JNumber _ \<Rightarrow> True | _ \<Rightarrow> False)
      else if kind = ''boolean'' then (case value of JBool _ \<Rightarrow> True | _ \<Rightarrow> False)
      else if kind = ''null'' then (case value of JNull \<Rightarrow> True | _ \<Rightarrow> False)
      else if kind = ''integer'' then
        (case value of JNumber (PosInt _) \<Rightarrow> True | JNumber (NegInt _) \<Rightarrow> True | _ \<Rightarrow> False)
      else False)"

declare type_matches.simps [simp del]

section \<open>Scalar constraints\<close>

definition violation :: "string \<Rightarrow> schema_failure + 'a" where
  "violation message = Inl (Violation message)"

definition prefixed :: "string \<Rightarrow> verdict \<Rightarrow> verdict" where
  "prefixed prefix r =
     (case r of Inl (Violation message) \<Rightarrow> violation (prefix @ message) | _ \<Rightarrow> r)"

definition keyword :: "document \<Rightarrow> string \<Rightarrow> (json \<Rightarrow> 'a option) \<Rightarrow> 'a option" where
  "keyword schema name read = Option.bind (bt_get schema name) read"

definition char_count :: "string \<Rightarrow> nat" where
  "char_count s = length (utf8_chars s)"

definition validate_string :: "schema_codecs \<Rightarrow> document \<Rightarrow> json \<Rightarrow> verdict" where
  "validate_string cd schema value =
     (case json_str value of
        None \<Rightarrow> violation (''expected string, got '' @ sc_show cd value)
      | Some s \<Rightarrow>
          and_then
            (case keyword schema ''minLength'' as_u64 of
               None \<Rightarrow> Inr ()
             | Some n \<Rightarrow> ensure (n \<le> char_count s)
                 (Violation (''string must have at least '' @ show_nat n @ '' characters'')))
          (\<lambda>_. case keyword schema ''pattern'' json_str of
                 None \<Rightarrow> Inr ()
               | Some pattern \<Rightarrow>
                   (case sc_regex cd pattern of
                      Inl e \<Rightarrow> violation (''invalid pattern '' @ debug_string pattern @ '': '' @ e)
                    | Inr is_match \<Rightarrow> ensure (is_match s)
                        (Violation (''string '' @ debug_string s @ '' does not match pattern '' @
                           debug_string pattern)))))"

definition bound_ok :: "document \<Rightarrow> string \<Rightarrow> (f64 \<Rightarrow> bool) \<Rightarrow> bool" where
  "bound_ok schema name test =
     (case keyword schema name as_f64 of None \<Rightarrow> True | Some bound \<Rightarrow> test bound)"

definition validate_number :: "schema_codecs \<Rightarrow> document \<Rightarrow> json \<Rightarrow> verdict" where
  "validate_number cd schema value =
     (case as_f64 value of
        None \<Rightarrow> Inl SchemaPanicked
      | Some number \<Rightarrow>
          each_ok (\<lambda>(name, valid). ensure valid
              (Violation (''number '' @ sc_show_f64 cd number @ '' violates '' @ name)))
            [(''minimum'', bound_ok schema ''minimum'' (\<lambda>m. f64_le m number)),
             (''maximum'', bound_ok schema ''maximum'' (\<lambda>m. f64_le number m)),
             (''exclusiveMinimum'', bound_ok schema ''exclusiveMinimum'' (\<lambda>m. f64_lt m number))])"

section \<open>Objects and arrays\<close>

text \<open>The recursive call is the parameter \<open>rec\<close>.\<close>

definition check_required :: "schema_codecs \<Rightarrow> document \<Rightarrow> document \<Rightarrow> json \<Rightarrow> verdict" where
  "check_required cd schema members value =
     (case bt_get schema ''required'' of
        None \<Rightarrow> Inr ()
      | Some required \<Rightarrow>
          (case as_array required of
             None \<Rightarrow> violation (''`required` must be an array, got '' @ sc_show cd required)
           | Some keys \<Rightarrow>
               each_ok (\<lambda>key.
                   case json_str key of
                     None \<Rightarrow> violation (''required keys must be strings, got '' @ sc_show cd key)
                   | Some k \<Rightarrow> ensure (bt_contains members k)
                       (Violation (''missing required key '' @ debug_string k @ '' on object '' @
                          sc_show cd value))) keys))"

definition check_properties ::
  "schema_codecs \<Rightarrow> (json \<Rightarrow> json \<Rightarrow> verdict) \<Rightarrow> document \<Rightarrow> document \<Rightarrow> schema_failure + document option"
where
  "check_properties cd rec schema members =
     (case bt_get schema ''properties'' of
        None \<Rightarrow> Inr None
      | Some properties \<Rightarrow>
          (case properties of
             JObject props \<Rightarrow>
               and_then
                 (each_ok (\<lambda>(key, property_schema).
                     case bt_get members key of
                       None \<Rightarrow> Inr ()
                     | Some item \<Rightarrow>
                         prefixed (''property '' @ debug_string key @ '': '') (rec property_schema item)) props)
               (\<lambda>_. Inr (Some props))
           | _ \<Rightarrow> violation (''`properties` must be an object, got '' @ sc_show cd properties)))"

definition check_additional :: "document \<Rightarrow> document \<Rightarrow> document option \<Rightarrow> verdict" where
  "check_additional schema members properties =
     (if bt_get schema ''additionalProperties'' = Some (JBool False) then
        each_ok (\<lambda>key.
            ensure (case properties of None \<Rightarrow> False | Some props \<Rightarrow> bt_contains props key)
              (Violation (''additional key '' @ debug_string key @
                 '' is not allowed by `additionalProperties: false`'')))
          (bt_keys members)
      else Inr ())"

definition validate_object_type ::
  "schema_codecs \<Rightarrow> (json \<Rightarrow> json \<Rightarrow> verdict) \<Rightarrow> document \<Rightarrow> json \<Rightarrow> verdict" where
  "validate_object_type cd rec schema value =
     (case as_object value of
        None \<Rightarrow> violation (''expected object, got '' @ sc_show cd value)
      | Some members \<Rightarrow>
          and_then (check_required cd schema members value) (\<lambda>_.
          and_then (check_properties cd rec schema members) (check_additional schema members)))"

definition validate_array_type ::
  "schema_codecs \<Rightarrow> (json \<Rightarrow> json \<Rightarrow> verdict) \<Rightarrow> document \<Rightarrow> json \<Rightarrow> verdict" where
  "validate_array_type cd rec schema value =
     (case as_array value of
        None \<Rightarrow> violation (''expected array, got '' @ sc_show cd value)
      | Some xs \<Rightarrow>
          and_then
            (case keyword schema ''minItems'' as_u64 of
               None \<Rightarrow> Inr ()
             | Some n \<Rightarrow> ensure (n \<le> length xs)
                 (Violation (''array must have at least '' @ show_nat n @ '' items''))) (\<lambda>_.
          and_then
            (case keyword schema ''maxItems'' as_u64 of
               None \<Rightarrow> Inr ()
             | Some n \<Rightarrow> ensure (length xs \<le> n)
                 (Violation (''array must have at most '' @ show_nat n @ '' items''))) (\<lambda>_.
          case bt_get schema ''items'' of
            None \<Rightarrow> Inr ()
          | Some items \<Rightarrow>
              each_ok (\<lambda>(index, item). prefixed (''items['' @ show_nat index @ '']: '') (rec items item))
                (enumerate 0 xs))))"

section \<open>The validator\<close>

definition check_const :: "schema_codecs \<Rightarrow> document \<Rightarrow> json \<Rightarrow> verdict" where
  "check_const cd schema value =
     (case bt_get schema ''const'' of
        None \<Rightarrow> Inr ()
      | Some expected \<Rightarrow> ensure (json_eq expected value)
          (Violation (''value '' @ sc_show cd value @ '' does not match const '' @ sc_show cd expected)))"

definition check_enum :: "schema_codecs \<Rightarrow> document \<Rightarrow> json \<Rightarrow> verdict" where
  "check_enum cd schema value =
     (case bt_get schema ''enum'' of
        None \<Rightarrow> Inr ()
      | Some expected \<Rightarrow>
          (case as_array expected of
             None \<Rightarrow> violation (''schema `enum` must be an array, got '' @ sc_show cd expected)
           | Some candidates \<Rightarrow> ensure (list_ex (\<lambda>c. json_eq c value) candidates)
               (Violation (''value '' @ sc_show cd value @ '' is not one of '' @ sc_show cd expected))))"

definition expected_types :: "json \<Rightarrow> string list option" where
  "expected_types t =
     (case t of
        JString s \<Rightarrow> Some [s]
      | JArray xs \<Rightarrow> Some (List.map_filter json_str xs)
      | _ \<Rightarrow> None)"

definition check_type ::
  "schema_codecs \<Rightarrow> (json \<Rightarrow> json \<Rightarrow> verdict) \<Rightarrow> document \<Rightarrow> string \<Rightarrow> json \<Rightarrow> verdict" where
  "check_type cd rec schema kind value =
     (if kind = ''object'' then validate_object_type cd rec schema value
      else if kind = ''array'' then validate_array_type cd rec schema value
      else if kind = ''string'' then validate_string cd schema value
      else if kind = ''number'' then
        and_then (ensure (type_matches ''number'' value)
          (Violation (''expected number, got '' @ sc_show cd value))) (\<lambda>_. validate_number cd schema value)
      else if kind = ''integer'' then
        and_then (ensure (type_matches ''integer'' value)
          (Violation (''expected integer, got '' @ sc_show cd value))) (\<lambda>_. validate_number cd schema value)
      else if kind = ''boolean'' then
        ensure (type_matches ''boolean'' value) (Violation (''expected boolean, got '' @ sc_show cd value))
      else if kind = ''null'' then
        ensure (type_matches ''null'' value) (Violation (''expected null, got '' @ sc_show cd value))
      else violation (''unsupported schema type '' @ debug_string kind))"

text \<open>How many alternatives accept the value.\<close>

fun count_ok :: "('a \<Rightarrow> verdict) \<Rightarrow> 'a list \<Rightarrow> schema_failure + nat" where
  "count_ok f [] = Inr 0"
| "count_ok f (x # xs) =
     (case f x of
        Inl SchemaPanicked \<Rightarrow> Inl SchemaPanicked
      | Inl (Violation _) \<Rightarrow> count_ok f xs
      | Inr _ \<Rightarrow> and_then (count_ok f xs) (\<lambda>n. Inr (Suc n)))"

definition check_one_of ::
  "schema_codecs \<Rightarrow> (json \<Rightarrow> json \<Rightarrow> verdict) \<Rightarrow> document \<Rightarrow> json \<Rightarrow> verdict" where
  "check_one_of cd rec schema value =
     (case bt_get schema ''oneOf'' of
        None \<Rightarrow> Inr ()
      | Some alternatives \<Rightarrow>
          (case alternatives of
             JArray alts \<Rightarrow>
               and_then (count_ok (\<lambda>alt. rec alt value) alts) (\<lambda>matches.
                 ensure (matches = 1)
                   (Violation (''value '' @ sc_show cd value @ '' matches '' @ show_nat matches @
                      '' `oneOf` alternatives'')))
           | _ \<Rightarrow> violation (''schema `oneOf` must be an array, got '' @ sc_show cd alternatives)))"

text \<open>With more than one type the remaining keywords are not looked at.\<close>

definition validate_document ::
  "schema_codecs \<Rightarrow> (json \<Rightarrow> json \<Rightarrow> verdict) \<Rightarrow> document \<Rightarrow> json \<Rightarrow> verdict" where
  "validate_document cd rec schema value =
     and_then (check_const cd schema value) (\<lambda>_.
     and_then (check_enum cd schema value) (\<lambda>_.
     and_then
       (if bt_get schema ''type'' = None \<and>
           (bt_contains schema ''required'' \<or> bt_contains schema ''properties'')
        then validate_object_type cd rec schema value else Inr ()) (\<lambda>_.
     case bt_get schema ''type'' of
       None \<Rightarrow> check_one_of cd rec schema value
     | Some t \<Rightarrow>
         (case expected_types t of
            None \<Rightarrow> violation (''schema `type` must be a string or array, got '' @ sc_show cd t)
          | Some kinds \<Rightarrow>
              if 1 < length kinds then
                ensure (list_ex (\<lambda>kind. type_matches kind value) kinds)
                  (Violation (''value '' @ sc_show cd value @ '' does not match type '' @ sc_show cd t))
              else
                (case kinds of
                   [] \<Rightarrow> Inl SchemaPanicked
                 | kind # _ \<Rightarrow>
                     and_then (check_type cd rec schema kind value)
                       (\<lambda>_. check_one_of cd rec schema value))))))"

text \<open>Every recursive call is on a part of the document.\<close>

lemma size_entry: "(k, s) \<in> set m \<Longrightarrow> size s < size (JObject m)"
  by (induction m) auto

lemma size_keyword: "bt_get schema k = Some s \<Longrightarrow> size s < size (JObject schema)"
  by (metis bt_get_def map_of_SomeD size_entry)

lemma size_element: "s \<in> set xs \<Longrightarrow> size s < size (JArray xs)"
  by (induction xs) auto

definition agree_below :: "document \<Rightarrow> (json \<Rightarrow> json \<Rightarrow> 'a) \<Rightarrow> (json \<Rightarrow> json \<Rightarrow> 'a) \<Rightarrow> bool" where
  "agree_below schema f g \<longleftrightarrow> (\<forall>s v. size s < size (JObject schema) \<longrightarrow> f s v = g s v)"

lemma agree_below_property:
  "agree_below schema f g \<Longrightarrow> bt_get schema k = Some (JObject props) \<Longrightarrow> (key, s) \<in> set props \<Longrightarrow> f s v = g s v"
  unfolding agree_below_def using size_keyword size_entry by (meson less_trans)

lemma agree_below_keyword:
  "agree_below schema f g \<Longrightarrow> bt_get schema k = Some s \<Longrightarrow> f s v = g s v"
  unfolding agree_below_def using size_keyword by blast

lemma agree_below_element:
  "agree_below schema f g \<Longrightarrow> bt_get schema k = Some (JArray xs) \<Longrightarrow> s \<in> set xs \<Longrightarrow> f s v = g s v"
  unfolding agree_below_def using size_keyword size_element by (meson less_trans)

lemma each_ok_cong [fundef_cong]:
  "xs = ys \<Longrightarrow> (\<And>x. x \<in> set ys \<Longrightarrow> f x = g x) \<Longrightarrow> each_ok f xs = each_ok g ys"
  by (induction xs arbitrary: ys) auto

lemma count_ok_cong [fundef_cong]:
  "xs = ys \<Longrightarrow> (\<And>x. x \<in> set ys \<Longrightarrow> f x = g x) \<Longrightarrow> count_ok f xs = count_ok g ys"
proof (induction xs arbitrary: ys)
  case (Cons x xs)
  then have "count_ok f xs = count_ok g xs" "f x = g x" by auto
  then show ?case unfolding Cons.prems(1) [symmetric] count_ok.simps by (simp only:)
qed simp

lemma validate_document_cong [fundef_cong]:
  assumes "schema = schema'" "value = value'"
    and "\<And>s v. size s < size (JObject schema') \<Longrightarrow> rec s v = rec' s v"
  shows "validate_document cd rec schema value = validate_document cd rec' schema' value'"
proof -
  have agree: "agree_below schema' rec rec'" using assms(3) by (simp add: agree_below_def)
  have "check_properties cd rec schema' members = check_properties cd rec' schema' members" for members
    unfolding check_properties_def
    by (auto simp: agree_below_property [OF agree] split: option.splits json.splits
        intro!: arg_cong2 [where f = and_then] each_ok_cong)
  then have "check_properties cd rec schema' = check_properties cd rec' schema'" by (rule ext)
  then have objects: "validate_object_type cd rec schema' = validate_object_type cd rec' schema'"
    unfolding validate_object_type_def by (simp only:)
  have "validate_array_type cd rec schema' v = validate_array_type cd rec' schema' v" for v
  proof (cases "bt_get schema' ''items''")
    case None
    then show ?thesis unfolding validate_array_type_def by (simp only: option.case)
  next
    case (Some items)
    have "rec items = rec' items" using agree_below_keyword [OF agree Some] by (rule ext)
    with Some show ?thesis unfolding validate_array_type_def by (simp only: option.case)
  qed
  then have "validate_array_type cd rec schema' = validate_array_type cd rec' schema'" by (rule ext)
  then have types: "check_type cd rec schema' = check_type cd rec' schema'"
    unfolding check_type_def objects by (simp only:)
  have "check_one_of cd rec schema' v = check_one_of cd rec' schema' v" for v
    unfolding check_one_of_def
    by (auto simp: agree_below_element [OF agree] split: option.splits json.splits
        intro!: arg_cong2 [where f = and_then] count_ok_cong)
  then have "check_one_of cd rec schema' = check_one_of cd rec' schema'" by (rule ext)
  then show ?thesis
    unfolding assms(1,2) validate_document_def objects types by (simp only:)
qed

function validate :: "schema_codecs \<Rightarrow> json \<Rightarrow> json \<Rightarrow> verdict" where
  "validate cd (JBool b) value =
     (if b then Inr () else violation ''schema explicitly rejects every value'')"
| "validate cd (JObject schema) value = validate_document cd (validate cd) schema value"
| "validate cd JNull value = violation ''schema must be an object or `true`''"
| "validate cd (JNumber n) value = violation ''schema must be an object or `true`''"
| "validate cd (JString s) value = violation ''schema must be an object or `true`''"
| "validate cd (JArray xs) value = violation ''schema must be an object or `true`''"
  by pat_completeness auto
termination
  by (relation "measure (\<lambda>(cd, schema, value). size schema)") auto

end
