(* ===== verification/Documents.thy ===== *)
theory Documents
  imports Schema
begin

text \<open>
  The schema documents of \<^verbatim>\<open>crates/protocol/src/schema.rs\<close>, one definition for
  each static of the source under its name in lower case.  \<^verbatim>\<open>json!\<close> builds an
  object as a sorted map, so the members stand in the order of their keys.  The fragments that
  recur in the source (a text that is not empty, a hash, an object without further members) have
  names of their own.
\<close>

section \<open>Recurring fragments\<close>

abbreviation texts :: "string list \<Rightarrow> json" where
  "texts ss \<equiv> JArray (map JString ss)"

definition text_schema :: json where
  "text_schema = JObject [(''type'', JString ''string'')]"

definition nonempty_text :: json where
  "nonempty_text = JObject [(''minLength'', JNumber (PosInt 1)), (''type'', JString ''string'')]"

definition hash_pattern :: string where
  "hash_pattern = ''^[0-9a-f]{64}$''"

definition hash_text :: json where
  "hash_text = JObject [(''pattern'', JString hash_pattern), (''type'', JString ''string'')]"

definition boolean_schema :: json where
  "boolean_schema = JObject [(''type'', JString ''boolean'')]"

definition object_schema :: json where
  "object_schema = JObject [(''type'', JString ''object'')]"

definition number_schema :: json where
  "number_schema = JObject [(''type'', JString ''number'')]"

definition positive_number :: json where
  "positive_number =
     JObject [(''exclusiveMinimum'', JNumber (PosInt 0)), (''type'', JString ''number'')]"

definition nonnegative_number :: json where
  "nonnegative_number = JObject [(''minimum'', JNumber (PosInt 0)), (''type'', JString ''number'')]"

definition count_schema :: json where
  "count_schema = JObject [(''minimum'', JNumber (PosInt 0)), (''type'', JString ''integer'')]"

definition positive_count :: json where
  "positive_count = JObject [(''minimum'', JNumber (PosInt 1)), (''type'', JString ''integer'')]"

definition exactly :: "string \<Rightarrow> json" where
  "exactly s = JObject [(''const'', JString s)]"

definition array_of :: "json \<Rightarrow> json" where
  "array_of items = JObject [(''items'', items), (''type'', JString ''array'')]"

definition number_triple :: json where
  "number_triple =
     JObject [(''items'', number_schema), (''maxItems'', JNumber (PosInt 3)),
              (''minItems'', JNumber (PosInt 3)), (''type'', JString ''array'')]"

definition closed_object :: "string list \<Rightarrow> document \<Rightarrow> json" where
  "closed_object required properties =
     JObject [(''additionalProperties'', JBool False), (''properties'', JObject properties),
              (''required'', texts required), (''type'', JString ''object'')]"

definition circular_pattern_angle_step_max :: f64 where
  "circular_pattern_angle_step_max = f64_lit (6283185307179586 / 10 ^ 15)"

text \<open>
  Assignment through a path of keys (\<^verbatim>\<open>value["a"]["b"] = v\<close>), which creates the
  members it does not find; the source panics when a step is neither an object nor null, which no
  path below meets.
\<close>

fun put_at :: "string list \<Rightarrow> json \<Rightarrow> json \<Rightarrow> json" where
  "put_at [] v _ = v"
| "put_at (k # ks) v (JObject m) =
     JObject (bt_insert k (put_at ks v (case bt_get m k of None \<Rightarrow> JNull | Some w \<Rightarrow> w)) m)"
| "put_at (k # ks) v JNull = JObject [(k, put_at ks v JNull)]"
| "put_at (k # ks) v w = w"

definition component_field :: "string \<Rightarrow> json" where
  "component_field field =
     (if field = ''transform'' then number_triple
      else if field = ''selected_feature_ids'' then
        JObject [(''items'', nonempty_text), (''minItems'', JNumber (PosInt 1)),
                 (''type'', JString ''array''), (''uniqueItems'', JBool True)]
      else if field \<in> {''length'', ''width'', ''height'', ''thickness'', ''value''} then positive_number
      else nonempty_text)"

definition component_request_schema :: "string list \<Rightarrow> json" where
  "component_request_schema names =
     closed_object names (fold (\<lambda>field. bt_insert field (component_field field)) names [])"

section \<open>Documents\<close>

definition list_request_schema :: json where
  "list_request_schema =
     JObject [(''additionalProperties'', JBool False), (''properties'', JObject []),
              (''type'', JString ''object'')]"

definition list_response_schema :: json where
  "list_response_schema =
     JObject [(''description'',
                JString ''Array of every registered command with its schema version.''),
              (''items'',
                JObject [(''properties'',
                           JObject [(''id'', text_schema), (''name'', text_schema),
                                    (''request_schema'', object_schema),
                                    (''request_schema_version'', text_schema),
                                    (''response_schema'', object_schema),
                                    (''response_schema_version'', text_schema),
                                    (''schema_version'', text_schema)]),
                         (''required'',
                           texts [''id'', ''name'', ''schema_version'',
                                  ''request_schema_version'', ''request_schema'',
                                  ''response_schema_version'', ''response_schema'']),
                         (''type'', JString ''object'')]),
              (''type'', JString ''array'')]"

definition new_project_request_schema :: json where
  "new_project_request_schema =
     closed_object [''destination''] [(''destination'', nonempty_text)]"

definition new_project_response_schema :: json where
  "new_project_response_schema =
     closed_object
       [''generation_id'', ''manifest'']
       [(''generation_id'', text_schema), (''manifest'', object_schema)]"

definition identity_request_schema :: json where
  "identity_request_schema =
     closed_object [''bundle_path''] [(''bundle_path'', nonempty_text)]"

definition identity_response_schema :: json where
  "identity_response_schema =
     closed_object
       [''generation_id'', ''revision_id'', ''feature_graph_hash'', ''revision_hash'',
        ''transaction_count'', ''terminal_log_digest'', ''schema_version'']
       [(''feature_graph_hash'', hash_text), (''generation_id'', hash_text),
        (''revision_hash'', hash_text), (''revision_id'', nonempty_text),
        (''schema_version'', nonempty_text), (''terminal_log_digest'', hash_text),
        (''transaction_count'', count_schema)]"

definition apply_request_schema :: json where
  "apply_request_schema =
     closed_object
       [''bundle_path'', ''expected_revision'', ''operation'', ''feature_id'']
       [(''bundle_path'', nonempty_text), (''expected_revision'', hash_text),
        (''feature_id'', nonempty_text), (''kind'', nonempty_text),
        (''operation'',
          JObject [(''enum'', texts [''add'', ''set'', ''remove'']),
                   (''type'', JString ''string'')])]"

definition apply_response_schema :: json where
  "apply_response_schema =
     closed_object
       [''status'', ''operation'', ''feature_id'', ''generation_id'', ''revision_id'',
        ''feature_graph_hash'', ''revision_hash'', ''transaction_count'',
        ''terminal_log_digest'', ''schema_version'']
       [(''feature_graph_hash'', hash_text), (''feature_id'', nonempty_text),
        (''generation_id'', hash_text),
        (''operation'',
          JObject [(''enum'', texts [''add'', ''set'', ''remove'']),
                   (''type'', JString ''string'')]),
        (''revision_hash'', hash_text), (''revision_id'', nonempty_text),
        (''schema_version'', nonempty_text), (''status'', exactly ''committed''),
        (''terminal_log_digest'', hash_text), (''transaction_count'', count_schema)]"

definition rehearse_request_schema :: json where
  "rehearse_request_schema =
     closed_object
       [''output_dir'', ''release_candidate'']
       [(''output_dir'', nonempty_text), (''release_candidate'', nonempty_text)]"

definition rehearsal_timing_classes :: json where
  "rehearsal_timing_classes =
     texts [''project_create'', ''bracket_create'', ''edit_open'', ''edit_update'',
            ''edit_preview'', ''edit_commit'', ''reload'', ''export'', ''catalog'']"

definition rehearse_run_response_schema :: json where
  "rehearse_run_response_schema =
     closed_object
       [''schema_version'', ''release_candidate'', ''project_path'', ''export_path'',
        ''catalog_path'', ''timings'', ''artifacts'']
       [(''artifacts'',
          array_of
            (closed_object
               [''relative_path'', ''bytes'', ''sha256'']
               [(''bytes'', count_schema), (''relative_path'', nonempty_text),
                (''sha256'', hash_text)])),
        (''catalog_path'', nonempty_text), (''export_path'', nonempty_text),
        (''project_path'', nonempty_text), (''release_candidate'', nonempty_text),
        (''schema_version'', exactly ''threeterm.command.rehearse.run.response/1''),
        (''timings'',
          JObject [(''items'',
                     closed_object
                       [''class'', ''unit'', ''sample_count'', ''samples_ms'', ''p50_ms'',
                        ''p95_ms'', ''p99_ms'']
                       [(''class'', JObject [(''enum'', rehearsal_timing_classes)]),
                        (''p50_ms'', nonnegative_number), (''p95_ms'', nonnegative_number),
                        (''p99_ms'', nonnegative_number),
                        (''sample_count'', JObject [(''const'', JNumber (PosInt 1))]),
                        (''samples_ms'',
                          JObject [(''items'', nonnegative_number),
                                   (''maxItems'', JNumber (PosInt 1)),
                                   (''minItems'', JNumber (PosInt 1)),
                                   (''type'', JString ''array'')]),
                        (''unit'', exactly ''ms'')]),
                   (''minItems'', JNumber (PosInt 1)), (''type'', JString ''array'')])]"

definition aggregate_run_schema :: json where
  "aggregate_run_schema =
     put_at [''properties'', ''artifacts'', ''items'', ''properties'', ''relative_path'']
       (JObject [(''minLength'', JNumber (PosInt 1)),
                 (''pattern'', JString (''^run-[12]/(project|project'' @ [CHR 0x5C] @
                    ''.previous-generation|export)/.+$'')),
                 (''type'', JString ''string'')])
     (put_at [''properties'', ''catalog_path'', ''pattern'']
       (JString (''^run-[12]/sha256-manifest'' @ [CHR 0x5C] @ ''.json$''))
     (put_at [''properties'', ''export_path'', ''pattern''] (JString ''^run-[12]/export$'')
     (put_at [''properties'', ''project_path'', ''pattern''] (JString ''^run-[12]/project$'')
       rehearse_run_response_schema)))"


definition rehearse_response_schema :: json where
  "rehearse_response_schema =
     closed_object
       [''schema_version'', ''release_candidates'', ''fixture'', ''run_count'',
        ''sample_policy'', ''promoted'', ''runs'', ''comparisons'']
       [(''comparisons'',
          JObject [(''items'',
                     closed_object
                       [''class'', ''run_1'', ''run_2'', ''same_order_of_magnitude'']
                       [(''class'', JObject [(''enum'', rehearsal_timing_classes)]),
                        (''run_1'',
                          closed_object
                            [''p50_ms'', ''p95_ms'', ''p99_ms'']
                            [(''p50_ms'', nonnegative_number), (''p95_ms'', nonnegative_number),
                             (''p99_ms'', nonnegative_number)]),
                        (''run_2'',
                          closed_object
                            [''p50_ms'', ''p95_ms'', ''p99_ms'']
                            [(''p50_ms'', nonnegative_number), (''p95_ms'', nonnegative_number),
                             (''p99_ms'', nonnegative_number)]),
                        (''same_order_of_magnitude'', JObject [(''const'', JBool True)])]),
                   (''maxItems'', JNumber (PosInt 9)), (''minItems'', JNumber (PosInt 9)),
                   (''type'', JString ''array'')]),
        (''fixture'', exactly ''l-bracket''),
        (''promoted'', JObject [(''const'', JBool False)]),
        (''release_candidates'',
          JObject [(''items'', nonempty_text), (''maxItems'', JNumber (PosInt 2)),
                   (''minItems'', JNumber (PosInt 2)), (''type'', JString ''array'')]),
        (''run_count'', JObject [(''const'', JNumber (PosInt 2))]),
        (''runs'',
          JObject [(''items'', aggregate_run_schema), (''maxItems'', JNumber (PosInt 2)),
                   (''minItems'', JNumber (PosInt 2)), (''type'', JString ''array'')]),
        (''sample_policy'', exactly ''nearest-rank''),
        (''schema_version'', exactly ''threeterm.command.rehearse.response/2'')]"

definition rehearse_failure_diagnostic_schema :: json where
  "rehearse_failure_diagnostic_schema =
     closed_object
       [''schema_version'', ''code'', ''stage'', ''detail'', ''current_revision'', ''recovery'']
       [(''code'', exactly ''rehearsal_failure''), (''current_revision'', JObject []),
        (''detail'', object_schema), (''recovery'', nonempty_text),
        (''schema_version'', exactly ''threeterm.protocol/1''), (''stage'', nonempty_text)]"

definition save_request_schema :: json where
  "save_request_schema =
     closed_object
       [''bundle_path'', ''feature_id'', ''kind'', ''expected_revision'']
       [(''bundle_path'', nonempty_text), (''expected_revision'', nonempty_text),
        (''feature_id'', nonempty_text), (''kind'', nonempty_text)]"

definition load_request_schema :: json where
  "load_request_schema =
     closed_object [''bundle_path''] [(''bundle_path'', nonempty_text)]"

definition validate_request_schema :: json where
  "validate_request_schema =
     closed_object
       [''bundle_path'', ''feature_id'']
       [(''bundle_path'', nonempty_text), (''feature_id'', nonempty_text)]"

definition validate_response_schema :: json where
  "validate_response_schema =
     closed_object
       [''status'', ''feature_id'', ''revision_id'', ''feature_graph_hash'', ''revision_hash'',
        ''brep_path'', ''brep_sha256'', ''valid'', ''schema_version'']
       [(''brep_path'', nonempty_text), (''brep_sha256'', hash_text),
        (''feature_graph_hash'', hash_text), (''feature_id'', text_schema),
        (''revision_hash'', hash_text), (''revision_id'', nonempty_text),
        (''schema_version'', text_schema), (''status'', text_schema),
        (''valid'', boolean_schema)]"

definition extrude_request_schema :: json where
  "extrude_request_schema =
     JObject [(''additionalProperties'', JBool False),
              (''oneOf'',
                JArray [JObject [(''properties'',
                                   JObject [(''mode'', exactly ''additive''),
                                            (''target_feature_id'', JBool False)]),
                                 (''required'', texts [''mode''])],
                        JObject [(''properties'',
                                   JObject [(''mode'', exactly ''subtractive'')]),
                                 (''required'', texts [''mode'', ''target_feature_id''])]]),
              (''properties'',
                JObject [(''bundle_path'', nonempty_text), (''expected_revision'', hash_text),
                         (''feature_id'', nonempty_text), (''height'', positive_number),
                         (''mode'',
                           JObject [(''enum'', texts [''additive'', ''subtractive''])]),
                         (''profile'',
                           JObject [(''items'',
                                      JObject [(''items'', number_schema),
                                               (''maxItems'', JNumber (PosInt 2)),
                                               (''minItems'', JNumber (PosInt 2)),
                                               (''type'', JString ''array'')]),
                                    (''minItems'', JNumber (PosInt 3)),
                                    (''type'', JString ''array'')]),
                         (''target_feature_id'', nonempty_text)]),
              (''required'',
                texts [''bundle_path'', ''feature_id'', ''profile'', ''height'', ''mode'']),
              (''type'', JString ''object'')]"

definition fit_dimension_request_schema :: json where
  "fit_dimension_request_schema =
     closed_object
       [''bundle_path'', ''expected_revision'', ''source_feature_id'', ''target_feature_id'',
        ''source_dimension_id'', ''target_dimension_id'', ''dimension'', ''clearance'']
       [(''bundle_path'', nonempty_text), (''clearance'', positive_number),
        (''dimension'', nonempty_text), (''expected_revision'', nonempty_text),
        (''source_dimension_id'', nonempty_text), (''source_feature_id'', nonempty_text),
        (''target_dimension_id'', nonempty_text), (''target_feature_id'', nonempty_text)]"

definition fit_dimension_response_schema :: json where
  "fit_dimension_response_schema =
     closed_object
       [''fit'', ''feature_graph_hash'', ''revision_hash'', ''schema_version'']
       [(''feature_graph_hash'',
          JObject [(''minLength'', JNumber (PosInt 64)), (''type'', JString ''string'')]),
        (''fit'',
          closed_object
            [''id'', ''source_feature_id'', ''target_feature_id'', ''source_dimension_id'',
             ''target_dimension_id'', ''dimension'', ''source_value'', ''target_value'',
             ''clearance'']
            [(''clearance'', number_schema), (''dimension'', text_schema),
             (''id'', text_schema), (''source_dimension_id'', text_schema),
             (''source_feature_id'', text_schema), (''source_value'', number_schema),
             (''target_dimension_id'', text_schema), (''target_feature_id'', text_schema),
             (''target_value'', number_schema)]),
        (''revision_hash'',
          JObject [(''minLength'', JNumber (PosInt 64)), (''type'', JString ''string'')]),
        (''schema_version'', text_schema)]"

definition boolean_fuse_request_schema :: json where
  "boolean_fuse_request_schema =
     closed_object
       [''bundle_path'', ''feature_id'', ''base_feature_id'', ''tool_feature_id'']
       [(''base_feature_id'', nonempty_text), (''bundle_path'', nonempty_text),
        (''feature_id'', nonempty_text), (''tool_feature_id'', nonempty_text)]"

definition boolean_cut_request_schema :: json where
  "boolean_cut_request_schema =
     closed_object
       [''bundle_path'', ''feature_id'', ''base_feature_id'', ''tool_feature_id'']
       [(''base_feature_id'', nonempty_text), (''bundle_path'', nonempty_text),
        (''feature_id'', nonempty_text), (''tool_feature_id'', nonempty_text)]"

definition boolean_common_request_schema :: json where
  "boolean_common_request_schema =
     closed_object
       [''bundle_path'', ''feature_id'', ''base_feature_id'', ''tool_feature_id'']
       [(''base_feature_id'', nonempty_text), (''bundle_path'', nonempty_text),
        (''feature_id'', nonempty_text), (''tool_feature_id'', nonempty_text)]"

definition boolean_pattern_request_schema :: json where
  "boolean_pattern_request_schema =
     closed_object
       [''bundle_path'', ''feature_id'', ''base_feature_id'', ''origin'', ''spacing'',
        ''columns'', ''rows'', ''diameter'']
       [(''base_feature_id'', nonempty_text), (''bundle_path'', nonempty_text),
        (''columns'',
          JObject [(''maximum'', JNumber (PosInt 1000)), (''minimum'', JNumber (PosInt 1)),
                   (''type'', JString ''integer'')]),
        (''diameter'', positive_number), (''feature_id'', nonempty_text),
        (''origin'', number_triple),
        (''rows'',
          JObject [(''maximum'', JNumber (PosInt 1000)), (''minimum'', JNumber (PosInt 1)),
                   (''type'', JString ''integer'')]),
        (''spacing'',
          JObject [(''items'', positive_number), (''maxItems'', JNumber (PosInt 2)),
                   (''minItems'', JNumber (PosInt 2)), (''type'', JString ''array'')])]"

definition edge_provenance_schema :: json where
  "edge_provenance_schema =
     closed_object
       [''source_feature_id'', ''source_revision_id'', ''source_edge_id'']
       [(''source_edge_id'', nonempty_text), (''source_feature_id'', nonempty_text),
        (''source_revision_id'', nonempty_text)]"

definition edge_evidence_schema :: json where
  "edge_evidence_schema =
     closed_object
       [''midpoint'', ''tangent'', ''length'']
       [(''length'', positive_number), (''midpoint'', number_triple),
        (''tangent'', number_triple)]"

definition selected_edge_schema :: json where
  "selected_edge_schema =
     closed_object
       [''semantic_id'', ''provenance'', ''role'', ''evidence'']
       [(''evidence'', edge_evidence_schema), (''provenance'', edge_provenance_schema),
        (''role'', nonempty_text), (''semantic_id'', nonempty_text)]"

definition fillet_request_schema :: json where
  "fillet_request_schema =
     closed_object
       [''bundle_path'', ''feature_id'', ''base_feature_id'', ''radius'', ''expected_revision'',
        ''selected_edge'']
       [(''base_feature_id'', nonempty_text), (''bundle_path'', nonempty_text),
        (''expected_revision'', hash_text), (''feature_id'', nonempty_text),
        (''radius'', positive_number), (''selected_edge'', selected_edge_schema)]"

definition chamfer_request_schema :: json where
  "chamfer_request_schema =
     closed_object
       [''bundle_path'', ''feature_id'', ''base_feature_id'', ''distance'',
        ''expected_revision'', ''selected_edge'']
       [(''base_feature_id'', nonempty_text), (''bundle_path'', nonempty_text),
        (''distance'', positive_number), (''expected_revision'', hash_text),
        (''feature_id'', nonempty_text), (''selected_edge'', selected_edge_schema)]"

definition edge_candidates_schema :: json where
  "edge_candidates_schema =
     array_of selected_edge_schema"

definition reattach_edge_request_schema :: json where
  "reattach_edge_request_schema =
     closed_object
       [''bundle_path'', ''expected_revision'', ''edit_feature_id'', ''edit_kind'',
        ''base_feature_id'', ''radius'', ''reference'', ''edit_target'']
       [(''base_feature_id'', nonempty_text), (''bundle_path'', nonempty_text),
        (''edit_feature_id'', nonempty_text),
        (''edit_kind'', JObject [(''enum'', texts [''fillet'', ''split''])]),
        (''edit_target'', selected_edge_schema), (''expected_revision'', hash_text),
        (''plane_normal'', number_triple), (''plane_point'', number_triple),
        (''radius'', positive_number), (''reference'', selected_edge_schema)]"

definition reattach_edge_response_schema :: json where
  "reattach_edge_response_schema =
     closed_object
       [''outcome'', ''selected_edge_id'', ''candidate_edge_ids'', ''affected_ids'',
        ''recovery'', ''committed'', ''edit_feature_id'', ''source_revision'',
        ''revision_hash'', ''schema_version'']
       [(''affected_ids'', array_of nonempty_text),
        (''candidate_edge_ids'', array_of text_schema), (''committed'', boolean_schema),
        (''edit_feature_id'', nonempty_text),
        (''outcome'',
          JObject [(''enum'',
                     texts [''resolved'', ''ambiguous'', ''lost'', ''incompatible''])]),
        (''recovery'', nonempty_text), (''revision_hash'', hash_text),
        (''schema_version'',
          JObject [(''const'', JString ''threeterm.command.reattach-edge.response/2''),
                   (''type'', JString ''string'')]),
        (''selected_edge_id'', text_schema), (''source_revision'', hash_text)]"

definition hole_request_schema :: json where
  "hole_request_schema =
     JObject [(''additionalProperties'', JBool False),
              (''allOf'',
                JArray [JObject [(''else'',
                                   JObject [(''not'',
                                              JObject [(''anyOf'',
                                                         JArray [JObject [(''required'',
                                                                            texts [''thread_designation''])],
                                                                 JObject [(''required'',
                                                                            texts [''thread_pitch''])],
                                                                 JObject [(''required'',
                                                                            texts [''thread_depth''])]])])]),
                                 (''if'',
                                   JObject [(''properties'',
                                              JObject [(''hole_kind'', exactly ''tapped'')]),
                                            (''required'', texts [''hole_kind''])]),
                                 (''then'',
                                   JObject [(''required'',
                                              texts [''thread_designation'', ''thread_pitch'',
                                                     ''thread_depth''])])]]),
              (''properties'',
                JObject [(''base_feature_id'', nonempty_text), (''bundle_path'', nonempty_text),
                         (''diameter'', positive_number), (''direction'', number_triple),
                         (''expected_revision'', hash_text), (''feature_id'', nonempty_text),
                         (''hole_kind'', JObject [(''enum'', texts [''drilled'', ''tapped''])]),
                         (''measure_removed_volume'', boolean_schema),
                         (''position'', number_triple), (''thread_depth'', positive_number),
                         (''thread_designation'', nonempty_text),
                         (''thread_pitch'', positive_number)]),
              (''required'',
                texts [''bundle_path'', ''feature_id'', ''base_feature_id'', ''position'',
                       ''direction'', ''diameter'']),
              (''type'', JString ''object'')]"

definition revolve_request_schema :: json where
  "revolve_request_schema =
     closed_object
       [''bundle_path'', ''feature_id'', ''profile'', ''axis_point'', ''axis_direction'',
        ''angle'']
       [(''angle'', positive_number), (''axis_direction'', number_triple),
        (''axis_point'', number_triple), (''bundle_path'', nonempty_text),
        (''expected_revision'', hash_text), (''feature_id'', nonempty_text),
        (''profile'',
          JObject [(''items'',
                     JObject [(''items'', number_schema), (''maxItems'', JNumber (PosInt 2)),
                              (''minItems'', JNumber (PosInt 2)),
                              (''type'', JString ''array'')]),
                   (''minItems'', JNumber (PosInt 3)), (''type'', JString ''array'')])]"

definition derived_result_schema :: json where
  "derived_result_schema =
     closed_object
       [''request_id'', ''operation'', ''feature_id'', ''source_revision_id'',
        ''worker_fingerprint'', ''artifact_kind'', ''artifact_name'', ''byte_count'',
        ''sha256'']
       [(''artifact_kind'', exactly ''brep''), (''artifact_name'', nonempty_text),
        (''byte_count'', count_schema), (''feature_id'', nonempty_text),
        (''operation'', nonempty_text), (''request_id'', nonempty_text),
        (''sha256'', hash_text), (''source_revision_id'', hash_text),
        (''worker_fingerprint'',
          closed_object
            [''worker_kind'', ''worker_schema_version'', ''protocol_schema_version'']
            [(''protocol_schema_version'', exactly ''threeterm.protocol/1''),
             (''worker_kind'', exactly ''occt''),
             (''worker_schema_version'', exactly ''threeterm.workers.occt/1'')])]"

definition extrude_response_schema :: json where
  "extrude_response_schema =
     closed_object
       [''status'', ''operation'', ''feature_id'', ''request_id'', ''mode'',
        ''target_feature_id'', ''source_snapshot'', ''feature_graph_hash'', ''revision_hash'',
        ''authoritative'', ''artifact_kind'', ''artifact_name'', ''brep_path'', ''brep_sha256'',
        ''brep_bytes'', ''worker_fingerprint'', ''schema_version'']
       [(''artifact_kind'', exactly ''brep''), (''artifact_name'', nonempty_text),
        (''authoritative'', JObject [(''const'', JBool True)]), (''brep_bytes'', count_schema),
        (''brep_path'', nonempty_text), (''brep_sha256'', hash_text),
        (''derived_result'', derived_result_schema), (''feature_graph_hash'', hash_text),
        (''feature_id'', nonempty_text),
        (''mode'', JObject [(''enum'', texts [''additive'', ''subtractive''])]),
        (''operation'', nonempty_text), (''request_id'', nonempty_text),
        (''revision_hash'', hash_text), (''schema_version'', text_schema),
        (''source_snapshot'',
          closed_object
            [''feature_graph_hash'', ''revision_hash'']
            [(''feature_graph_hash'', hash_text), (''revision_hash'', hash_text)]),
        (''status'', nonempty_text),
        (''target_feature_id'', JObject [(''type'', texts [''string'', ''null''])]),
        (''worker_fingerprint'',
          closed_object
            [''worker_kind'', ''worker_schema_version'', ''protocol_schema_version'']
            [(''protocol_schema_version'', exactly ''threeterm.protocol/1''),
             (''worker_kind'', exactly ''occt''),
             (''worker_schema_version'', exactly ''threeterm.workers.occt/1'')])]"

definition boolean_fuse_response_schema :: json where
  "boolean_fuse_response_schema =
     closed_object
       [''status'', ''operation'', ''feature_id'', ''feature_graph_hash'', ''revision_hash'',
        ''brep_path'', ''brep_sha256'', ''schema_version'']
       [(''brep_bytes'', count_schema), (''brep_path'', nonempty_text),
        (''brep_sha256'', hash_text), (''derived_result'', derived_result_schema),
        (''feature_graph_hash'', hash_text), (''feature_id'', nonempty_text),
        (''operation'', nonempty_text), (''revision_hash'', hash_text),
        (''schema_version'', text_schema), (''status'', nonempty_text)]"

definition boolean_cut_response_schema :: json where
  "boolean_cut_response_schema =
     closed_object
       [''status'', ''operation'', ''feature_id'', ''feature_graph_hash'', ''revision_hash'',
        ''brep_path'', ''brep_sha256'', ''schema_version'']
       [(''brep_bytes'', count_schema), (''brep_path'', nonempty_text),
        (''brep_sha256'', hash_text), (''derived_result'', derived_result_schema),
        (''feature_graph_hash'', hash_text), (''feature_id'', nonempty_text),
        (''operation'', nonempty_text), (''revision_hash'', hash_text),
        (''schema_version'', text_schema), (''status'', nonempty_text)]"

definition boolean_common_response_schema :: json where
  "boolean_common_response_schema =
     closed_object
       [''status'', ''operation'', ''feature_id'', ''feature_graph_hash'', ''revision_hash'',
        ''brep_path'', ''brep_sha256'', ''schema_version'']
       [(''brep_bytes'', count_schema), (''brep_path'', nonempty_text),
        (''brep_sha256'', hash_text), (''derived_result'', derived_result_schema),
        (''feature_graph_hash'', hash_text), (''feature_id'', nonempty_text),
        (''operation'', nonempty_text), (''revision_hash'', hash_text),
        (''schema_version'', text_schema), (''status'', nonempty_text)]"

definition boolean_pattern_response_schema :: json where
  "boolean_pattern_response_schema =
     closed_object
       [''status'', ''operation'', ''feature_id'', ''request_id'', ''cut_count'',
        ''source_snapshot'', ''generation_id'', ''revision_id'', ''feature_graph_hash'',
        ''revision_hash'', ''transaction_count'', ''terminal_log_digest'', ''authoritative'',
        ''artifact_kind'', ''artifact_name'', ''brep_path'', ''brep_sha256'', ''brep_bytes'',
        ''worker_fingerprint'', ''derived_result'', ''schema_version'']
       [(''artifact_kind'', exactly ''brep''), (''artifact_name'', nonempty_text),
        (''authoritative'', JObject [(''const'', JBool True)]), (''brep_bytes'', count_schema),
        (''brep_path'', nonempty_text), (''brep_sha256'', hash_text),
        (''cut_count'', positive_count), (''derived_result'', derived_result_schema),
        (''feature_graph_hash'', hash_text), (''feature_id'', nonempty_text),
        (''generation_id'', hash_text), (''operation'', exactly ''boolean_pattern''),
        (''request_id'', nonempty_text), (''revision_hash'', hash_text),
        (''revision_id'', nonempty_text), (''schema_version'', text_schema),
        (''source_snapshot'',
          closed_object
            [''feature_graph_hash'', ''revision_hash'']
            [(''feature_graph_hash'', hash_text), (''revision_hash'', hash_text)]),
        (''status'', exactly ''ok''), (''terminal_log_digest'', hash_text),
        (''transaction_count'', count_schema),
        (''worker_fingerprint'',
          closed_object
            [''worker_kind'', ''worker_schema_version'', ''protocol_schema_version'']
            [(''protocol_schema_version'', exactly ''threeterm.protocol/1''),
             (''worker_kind'', exactly ''occt''),
             (''worker_schema_version'', exactly ''threeterm.workers.occt/1'')])]"

definition fillet_response_schema :: json where
  "fillet_response_schema =
     closed_object
       [''status'', ''operation'', ''feature_id'', ''request_id'', ''source_snapshot'',
        ''feature_graph_hash'', ''revision_hash'', ''authoritative'', ''artifact_kind'',
        ''artifact_name'', ''brep_path'', ''brep_sha256'', ''brep_bytes'', ''edge_candidates'',
        ''derived_result'', ''schema_version'']
       [(''artifact_kind'', exactly ''brep''), (''artifact_name'', nonempty_text),
        (''authoritative'', JObject [(''const'', JBool True)]), (''brep_bytes'', count_schema),
        (''brep_path'', nonempty_text), (''brep_sha256'', hash_text),
        (''derived_result'', derived_result_schema),
        (''edge_candidates'', edge_candidates_schema), (''feature_graph_hash'', hash_text),
        (''feature_id'', nonempty_text), (''operation'', nonempty_text),
        (''request_id'', nonempty_text), (''revision_hash'', hash_text),
        (''schema_version'', text_schema),
        (''source_snapshot'',
          closed_object
            [''feature_graph_hash'', ''revision_hash'']
            [(''feature_graph_hash'', hash_text), (''revision_hash'', hash_text)]),
        (''status'', nonempty_text)]"

definition chamfer_response_schema :: json where
  "chamfer_response_schema =
     closed_object
       [''status'', ''operation'', ''feature_id'', ''request_id'', ''source_snapshot'',
        ''feature_graph_hash'', ''revision_hash'', ''authoritative'', ''artifact_kind'',
        ''artifact_name'', ''brep_path'', ''brep_sha256'', ''brep_bytes'', ''edge_candidates'',
        ''derived_result'', ''schema_version'']
       [(''artifact_kind'', exactly ''brep''), (''artifact_name'', nonempty_text),
        (''authoritative'', JObject [(''const'', JBool True)]), (''brep_bytes'', count_schema),
        (''brep_path'', nonempty_text), (''brep_sha256'', hash_text),
        (''derived_result'', derived_result_schema),
        (''edge_candidates'', edge_candidates_schema), (''feature_graph_hash'', hash_text),
        (''feature_id'', nonempty_text), (''operation'', nonempty_text),
        (''request_id'', nonempty_text), (''revision_hash'', hash_text),
        (''schema_version'', text_schema),
        (''source_snapshot'',
          closed_object
            [''feature_graph_hash'', ''revision_hash'']
            [(''feature_graph_hash'', hash_text), (''revision_hash'', hash_text)]),
        (''status'', nonempty_text)]"

definition hole_response_schema :: json where
  "hole_response_schema =
     closed_object
       [''status'', ''operation'', ''feature_id'', ''feature_graph_hash'', ''revision_hash'',
        ''brep_path'', ''brep_sha256'', ''schema_version'']
       [(''brep_bytes'', count_schema), (''brep_path'', nonempty_text),
        (''brep_sha256'', hash_text), (''derived_result'', derived_result_schema),
        (''feature_graph_hash'', hash_text), (''feature_id'', nonempty_text),
        (''operation'', nonempty_text), (''removed_volume'', number_schema),
        (''revision_hash'', hash_text), (''schema_version'', text_schema),
        (''status'', nonempty_text)]"

definition revolve_response_schema :: json where
  "revolve_response_schema =
     closed_object
       [''status'', ''operation'', ''feature_id'', ''feature_graph_hash'', ''revision_hash'',
        ''brep_path'', ''brep_sha256'', ''schema_version'']
       [(''brep_bytes'', count_schema), (''brep_path'', nonempty_text),
        (''brep_sha256'', hash_text), (''derived_result'', derived_result_schema),
        (''feature_graph_hash'', hash_text), (''feature_id'', nonempty_text),
        (''operation'', nonempty_text), (''revision_hash'', hash_text),
        (''schema_version'', text_schema), (''status'', nonempty_text)]"

definition mirror_request_schema :: json where
  "mirror_request_schema =
     closed_object
       [''bundle_path'', ''feature_id'', ''base_feature_id'', ''plane_point'', ''plane_normal'']
       [(''base_feature_id'', nonempty_text), (''bundle_path'', nonempty_text),
        (''expected_revision'', hash_text), (''feature_id'', nonempty_text),
        (''plane_normal'', number_triple), (''plane_point'', number_triple)]"

definition linear_pattern_request_schema :: json where
  "linear_pattern_request_schema =
     closed_object
       [''bundle_path'', ''feature_id'', ''base_feature_id'', ''direction'', ''count'',
        ''spacing'']
       [(''base_feature_id'', nonempty_text), (''bundle_path'', nonempty_text),
        (''count'', positive_count), (''direction'', number_triple),
        (''expected_revision'', hash_text), (''feature_id'', nonempty_text),
        (''spacing'', positive_number)]"

definition circular_pattern_request_schema :: json where
  "circular_pattern_request_schema =
     closed_object
       [''bundle_path'', ''feature_id'', ''base_feature_id'', ''axis_point'', ''axis_normal'',
        ''angle_step'', ''count'']
       [(''angle_step'',
          JObject [(''exclusiveMinimum'', JNumber (PosInt 0)),
                   (''maximum'', JNumber (Float circular_pattern_angle_step_max)),
                   (''type'', JString ''number'')]),
        (''axis_normal'', number_triple), (''axis_point'', number_triple),
        (''base_feature_id'', nonempty_text), (''bundle_path'', nonempty_text),
        (''count'', positive_count), (''expected_revision'', hash_text),
        (''feature_id'', nonempty_text)]"

definition mirror_response_schema :: json where
  "mirror_response_schema =
     closed_object
       [''status'', ''operation'', ''feature_id'', ''feature_graph_hash'', ''revision_hash'',
        ''brep_path'', ''brep_sha256'', ''schema_version'']
       [(''brep_bytes'', count_schema), (''brep_path'', nonempty_text),
        (''brep_sha256'', hash_text), (''derived_result'', derived_result_schema),
        (''feature_graph_hash'', hash_text), (''feature_id'', nonempty_text),
        (''operation'', nonempty_text), (''revision_hash'', hash_text),
        (''schema_version'', text_schema), (''status'', nonempty_text)]"

definition linear_pattern_response_schema :: json where
  "linear_pattern_response_schema =
     closed_object
       [''status'', ''operation'', ''feature_id'', ''feature_graph_hash'', ''revision_hash'',
        ''brep_path'', ''brep_sha256'', ''schema_version'']
       [(''brep_bytes'', count_schema), (''brep_path'', nonempty_text),
        (''brep_sha256'', hash_text), (''derived_result'', derived_result_schema),
        (''feature_graph_hash'', hash_text), (''feature_id'', nonempty_text),
        (''operation'', nonempty_text), (''revision_hash'', hash_text),
        (''schema_version'', text_schema), (''status'', nonempty_text)]"

definition circular_pattern_response_schema :: json where
  "circular_pattern_response_schema =
     closed_object
       [''status'', ''operation'', ''feature_id'', ''feature_graph_hash'', ''revision_hash'',
        ''brep_path'', ''brep_sha256'', ''schema_version'']
       [(''brep_bytes'', count_schema), (''brep_path'', nonempty_text),
        (''brep_sha256'', hash_text), (''derived_result'', derived_result_schema),
        (''feature_graph_hash'', hash_text), (''feature_id'', nonempty_text),
        (''operation'', nonempty_text), (''revision_hash'', hash_text),
        (''schema_version'', text_schema), (''status'', nonempty_text)]"

definition shell_request_schema :: json where
  "shell_request_schema =
     closed_object
       [''bundle_path'', ''feature_id'', ''base_feature_id'', ''thickness'',
        ''expected_revision'']
       [(''base_feature_id'', nonempty_text), (''bundle_path'', nonempty_text),
        (''expected_revision'', hash_text), (''feature_id'', nonempty_text),
        (''thickness'', positive_number)]"

definition shell_response_schema :: json where
  "shell_response_schema =
     closed_object
       [''status'', ''operation'', ''feature_id'', ''request_id'', ''source_snapshot'',
        ''feature_graph_hash'', ''revision_hash'', ''authoritative'', ''artifact_kind'',
        ''artifact_name'', ''brep_path'', ''brep_sha256'', ''brep_bytes'', ''derived_result'',
        ''schema_version'']
       [(''artifact_kind'', exactly ''brep''), (''artifact_name'', nonempty_text),
        (''authoritative'', JObject [(''const'', JBool True)]), (''brep_bytes'', count_schema),
        (''brep_path'', nonempty_text), (''brep_sha256'', hash_text),
        (''derived_result'', derived_result_schema), (''feature_graph_hash'', hash_text),
        (''feature_id'', nonempty_text), (''material_volume'', number_schema),
        (''operation'', nonempty_text), (''request_id'', nonempty_text),
        (''revision_hash'', hash_text), (''schema_version'', text_schema),
        (''source_snapshot'',
          closed_object
            [''feature_graph_hash'', ''revision_hash'']
            [(''feature_graph_hash'', hash_text), (''revision_hash'', hash_text)]),
        (''status'', nonempty_text)]"

definition draft_request_schema :: json where
  "draft_request_schema =
     closed_object
       [''bundle_path'', ''feature_id'', ''base_feature_id'', ''angle'', ''pull_direction'',
        ''expected_revision'']
       [(''angle'', positive_number), (''base_feature_id'', nonempty_text),
        (''bundle_path'', nonempty_text), (''expected_revision'', hash_text),
        (''feature_id'', nonempty_text), (''pull_direction'', number_triple)]"

definition draft_response_schema :: json where
  "draft_response_schema =
     closed_object
       [''status'', ''operation'', ''feature_id'', ''request_id'', ''source_snapshot'',
        ''feature_graph_hash'', ''revision_hash'', ''authoritative'', ''artifact_kind'',
        ''artifact_name'', ''brep_path'', ''brep_sha256'', ''brep_bytes'', ''derived_result'',
        ''schema_version'']
       [(''artifact_kind'', exactly ''brep''), (''artifact_name'', nonempty_text),
        (''authoritative'', JObject [(''const'', JBool True)]), (''brep_bytes'', count_schema),
        (''brep_path'', nonempty_text), (''brep_sha256'', hash_text),
        (''derived_result'', derived_result_schema), (''feature_graph_hash'', hash_text),
        (''feature_id'', nonempty_text), (''operation'', nonempty_text),
        (''request_id'', nonempty_text), (''revision_hash'', hash_text),
        (''schema_version'', text_schema),
        (''source_snapshot'',
          closed_object
            [''feature_graph_hash'', ''revision_hash'']
            [(''feature_graph_hash'', hash_text), (''revision_hash'', hash_text)]),
        (''status'', nonempty_text)]"

definition loft_request_schema :: json where
  "loft_request_schema =
     closed_object
       [''bundle_path'', ''feature_id'', ''profiles'', ''expected_revision'', ''is_solid'',
        ''ruled'']
       [(''bundle_path'', nonempty_text), (''expected_revision'', hash_text),
        (''feature_id'', nonempty_text), (''is_solid'', boolean_schema),
        (''profiles'',
          JObject [(''items'',
                     JObject [(''items'', number_triple), (''minItems'', JNumber (PosInt 3)),
                              (''type'', JString ''array'')]),
                   (''minItems'', JNumber (PosInt 2)), (''type'', JString ''array'')]),
        (''ruled'', boolean_schema)]"

definition loft_response_schema :: json where
  "loft_response_schema =
     closed_object
       [''status'', ''operation'', ''feature_id'', ''request_id'', ''source_snapshot'',
        ''feature_graph_hash'', ''revision_hash'', ''authoritative'', ''artifact_kind'',
        ''artifact_name'', ''brep_path'', ''brep_sha256'', ''brep_bytes'', ''derived_result'',
        ''schema_version'']
       [(''artifact_kind'', exactly ''brep''), (''artifact_name'', nonempty_text),
        (''authoritative'', JObject [(''const'', JBool True)]), (''brep_bytes'', count_schema),
        (''brep_path'', nonempty_text), (''brep_sha256'', hash_text),
        (''derived_result'', derived_result_schema), (''feature_graph_hash'', hash_text),
        (''feature_id'', nonempty_text), (''operation'', nonempty_text),
        (''request_id'', nonempty_text), (''revision_hash'', hash_text),
        (''schema_version'', text_schema),
        (''source_snapshot'',
          closed_object
            [''feature_graph_hash'', ''revision_hash'']
            [(''feature_graph_hash'', hash_text), (''revision_hash'', hash_text)]),
        (''status'', nonempty_text)]"

definition export_request_schema :: json where
  "export_request_schema =
     closed_object
       [''bundle_path'', ''feature_id'', ''formats'', ''output_dir'',
        ''tessellation_deflection'', ''override_warnings'', ''accept_stale_geometry'']
       [(''accept_stale_geometry'', boolean_schema), (''body_ids'', array_of nonempty_text),
        (''bundle_path'', nonempty_text), (''feature_id'', nonempty_text),
        (''formats'',
          JObject [(''items'',
                     JObject [(''enum'', texts [''stl'', ''3mf'', ''step'']),
                              (''type'', JString ''string'')]),
                   (''minItems'', JNumber (PosInt 1)), (''type'', JString ''array'')]),
        (''output_dir'', nonempty_text), (''override_warnings'', boolean_schema),
        (''tessellation_deflection'', positive_number)]"

definition export_response_schema :: json where
  "export_response_schema =
     closed_object
       [''status'', ''feature_id'', ''artifacts'', ''source_revision_id'', ''validation'',
        ''tessellation'', ''derived_artifacts'', ''accepted_stale_last_valid_geometry'',
        ''stale_last_valid_geometry'', ''schema_version'']
       [(''accepted_stale_last_valid_geometry'', boolean_schema),
        (''artifacts'', JObject [(''type'', JString ''array'')]),
        (''derived_artifacts'',
          array_of
            (closed_object
               [''request_id'', ''source_revision_id'', ''operation'', ''feature_id'',
                ''artifact_kind'', ''artifact_name'', ''output_path'', ''byte_count'',
                ''sha256'']
               [(''artifact_kind'', nonempty_text), (''artifact_name'', nonempty_text),
                (''byte_count'', count_schema), (''feature_id'', nonempty_text),
                (''operation'', nonempty_text), (''output_path'', nonempty_text),
                (''request_id'', nonempty_text), (''sha256'', hash_text),
                (''source_revision_id'', nonempty_text)])),
        (''feature_id'', text_schema), (''schema_version'', text_schema),
        (''source_revision_id'', nonempty_text),
        (''stale_last_valid_geometry'',
          closed_object
            [''feature_id'', ''active_revision'', ''stale_features'']
            [(''active_revision'', nonempty_text), (''feature_id'', nonempty_text),
             (''stale_features'',
               array_of
                 (closed_object
                    [''feature_id'', ''status'', ''last_valid_geometry_fingerprint'']
                    [(''feature_id'', nonempty_text),
                     (''last_valid_geometry_fingerprint'', nonempty_text),
                     (''status'',
                       JObject [(''enum'', texts [''broken'', ''blocked-by-failure'']),
                                (''type'', JString ''string'')])]))]),
        (''status'', text_schema),
        (''tessellation'',
          closed_object
            [''units'', ''deflection'', ''relative'', ''angular_deflection_radians'']
            [(''angular_deflection_radians'', positive_number),
             (''deflection'', positive_number),
             (''relative'', JObject [(''const'', JBool False)]),
             (''units'', exactly ''millimetres'')]),
        (''validation'',
          closed_object
            [''feature_id'', ''revision_id'', ''feature_graph_hash'', ''revision_hash'',
             ''brep_path'', ''brep_sha256'', ''valid'']
            [(''brep_path'', nonempty_text), (''brep_sha256'', hash_text),
             (''feature_graph_hash'', hash_text), (''feature_id'', nonempty_text),
             (''revision_hash'', hash_text), (''revision_id'', nonempty_text),
             (''valid'', JObject [(''const'', JBool True)])])]"

definition snapshot_response_schema :: json where
  "snapshot_response_schema =
     closed_object
       [''feature_graph_hash'', ''revision_hash'', ''schema_version'']
       [(''feature_graph_hash'', hash_text), (''revision_hash'', hash_text),
        (''schema_version'', text_schema)]"

definition historical_edit_request_schema :: json where
  "historical_edit_request_schema =
     closed_object
       [''bundle_path'', ''feature_id'', ''parameter'', ''value'']
       [(''bundle_path'', nonempty_text), (''feature_id'', nonempty_text),
        (''parameter'', nonempty_text), (''value'', number_schema)]"

definition history_commit_response_schema :: json where
  "history_commit_response_schema =
     closed_object
       [''status'', ''operation'', ''active_revision'', ''dirty_features'',
        ''evaluated_features'', ''blocked_features'', ''diagnostics'', ''named_revisions'',
        ''features'', ''feature_graph_hash'', ''revision_hash'', ''schema_version'']
       [(''active_revision'', nonempty_text), (''blocked_features'', array_of text_schema),
        (''diagnostics'',
          array_of
            (closed_object
               [''code'', ''feature_id'', ''detail'', ''affected_ids'', ''recovery'']
               [(''affected_ids'', array_of nonempty_text), (''code'', nonempty_text),
                (''detail'', nonempty_text), (''feature_id'', nonempty_text),
                (''recovery'', nonempty_text)])),
        (''dirty_features'', array_of text_schema),
        (''evaluated_features'', array_of text_schema), (''feature_graph_hash'', hash_text),
        (''features'',
          array_of
            (closed_object
               [''id'', ''status'', ''geometry_fingerprint'',
                ''last_valid_geometry_fingerprint'', ''stale_last_valid_geometry'']
               [(''diagnostic'', object_schema), (''geometry_fingerprint'', text_schema),
                (''id'', nonempty_text), (''last_valid_geometry_fingerprint'', text_schema),
                (''stale_last_valid_geometry'', boolean_schema), (''status'', nonempty_text)])),
        (''named_revisions'',
          array_of
            (closed_object
               [''name'', ''revision_id'', ''provenance'']
               [(''name'', nonempty_text), (''provenance'', nonempty_text),
                (''revision_id'', nonempty_text)])),
        (''operation'', text_schema), (''revision_hash'', hash_text),
        (''schema_version'', text_schema), (''status'', text_schema)]"

definition named_revision_request_schema :: json where
  "named_revision_request_schema =
     closed_object
       [''bundle_path'', ''name'']
       [(''bundle_path'', nonempty_text), (''name'', nonempty_text)]"

definition restore_revision_request_schema :: json where
  "restore_revision_request_schema =
     closed_object
       [''bundle_path'', ''feature_id'', ''name'']
       [(''bundle_path'', nonempty_text), (''feature_id'', nonempty_text),
        (''name'', nonempty_text)]"

definition timeline_request_schema :: json where
  "timeline_request_schema =
     closed_object
       [''bundle_path'', ''feature_id'']
       [(''bundle_path'', nonempty_text), (''feature_id'', nonempty_text)]"

definition timeline_response_schema :: json where
  "timeline_response_schema =
     closed_object
       [''feature_id'', ''active_revision'', ''revisions'', ''named_revisions'',
        ''feature_graph_hash'', ''revision_hash'', ''schema_version'']
       [(''active_revision'', nonempty_text), (''feature_graph_hash'', hash_text),
        (''feature_id'', nonempty_text),
        (''named_revisions'',
          array_of
            (closed_object
               [''name'', ''revision_id'', ''provenance'']
               [(''name'', nonempty_text), (''provenance'', nonempty_text),
                (''revision_id'', nonempty_text)])),
        (''revision_hash'', hash_text),
        (''revisions'',
          array_of
            (closed_object
               [''ordinal'', ''revision_id'', ''operation'', ''status'',
                ''stale_last_valid_geometry_fingerprint'', ''named_revision_names'']
               [(''named_revision_names'', array_of nonempty_text),
                (''operation'', nonempty_text), (''ordinal'', positive_count),
                (''revision_id'', nonempty_text),
                (''stale_last_valid_geometry_fingerprint'', text_schema),
                (''status'', nonempty_text)])),
        (''schema_version'', text_schema)]"

definition replay_verify_request_schema :: json where
  "replay_verify_request_schema =
     closed_object [''bundle_path''] [(''bundle_path'', nonempty_text)]"

definition cursor_move_request_schema :: json where
  "cursor_move_request_schema =
     closed_object [''bundle_path''] [(''bundle_path'', nonempty_text)]"

definition replay_verify_response_schema :: json where
  "replay_verify_response_schema =
     closed_object
       [''deterministic'', ''fingerprint'', ''model_state_fingerprint'',
        ''geometry_fingerprints'', ''mismatch'', ''schema_version'']
       [(''deterministic'', boolean_schema), (''fingerprint'', hash_text),
        (''geometry_fingerprints'', array_of hash_text), (''mismatch'', text_schema),
        (''model_state_fingerprint'', hash_text), (''schema_version'', text_schema)]"

definition bracket_request_schema :: json where
  "bracket_request_schema =
     closed_object
       [''bundle_path'', ''bracket_id'', ''length'', ''width'', ''height'', ''thickness'']
       [(''bracket_id'', nonempty_text), (''bundle_path'', nonempty_text),
        (''expected_revision'', hash_text),
        (''height'',
          JObject [(''exclusiveMinimum'', JNumber (PosInt 0)),
                   (''minimum'', JNumber (PosInt 0)), (''type'', JString ''number'')]),
        (''length'',
          JObject [(''exclusiveMinimum'', JNumber (PosInt 0)),
                   (''minimum'', JNumber (PosInt 0)), (''type'', JString ''number'')]),
        (''preview_revision'', hash_text),
        (''thickness'',
          JObject [(''exclusiveMinimum'', JNumber (PosInt 0)),
                   (''minimum'', JNumber (PosInt 0)), (''type'', JString ''number'')]),
        (''width'',
          JObject [(''exclusiveMinimum'', JNumber (PosInt 0)),
                   (''minimum'', JNumber (PosInt 0)), (''type'', JString ''number'')])]"

definition bracket_response_schema :: json where
  "bracket_response_schema =
     closed_object
       [''status'', ''operation'', ''feature_id'', ''request_id'', ''source_snapshot'',
        ''feature_graph_hash'', ''revision_hash'', ''authoritative'', ''artifact_kind'',
        ''artifact_name'', ''brep_path'', ''brep_sha256'', ''brep_bytes'',
        ''worker_fingerprint'', ''derived_result'', ''schema_version'']
       [(''artifact_kind'', exactly ''brep''), (''artifact_name'', nonempty_text),
        (''authoritative'', JObject [(''const'', JBool True)]), (''brep_bytes'', count_schema),
        (''brep_path'', nonempty_text), (''brep_sha256'', hash_text),
        (''derived_result'', derived_result_schema), (''feature_graph_hash'', hash_text),
        (''feature_id'', nonempty_text), (''operation'', nonempty_text),
        (''request_id'', nonempty_text), (''revision_hash'', hash_text),
        (''schema_version'', text_schema),
        (''source_snapshot'',
          closed_object
            [''feature_graph_hash'', ''revision_hash'']
            [(''feature_graph_hash'', hash_text), (''revision_hash'', hash_text)]),
        (''status'', nonempty_text),
        (''worker_fingerprint'',
          closed_object
            [''worker_kind'', ''worker_schema_version'', ''protocol_schema_version'']
            [(''protocol_schema_version'', exactly ''threeterm.protocol/1''),
             (''worker_kind'', exactly ''occt''),
             (''worker_schema_version'', exactly ''threeterm.workers.occt/1'')])]"

definition bracket_edit_request_schema :: json where
  "bracket_edit_request_schema =
     closed_object
       [''phase'', ''bundle_path'', ''draft_id'', ''bracket_id'', ''length'', ''width'',
        ''height'', ''thickness'']
       [(''bracket_id'', nonempty_text), (''bundle_path'', nonempty_text),
        (''draft_id'', nonempty_text), (''draft_sequence'', count_schema),
        (''height'', positive_number), (''input_fingerprint'', hash_text),
        (''length'', positive_number),
        (''phase'',
          JObject [(''enum'',
                     texts [''open'', ''update'', ''preview'', ''commit'', ''discard'']),
                   (''type'', JString ''string'')]),
        (''source_revision'', hash_text), (''thickness'', positive_number),
        (''width'', positive_number)]"

definition bracket_edit_response_schema :: json where
  "bracket_edit_response_schema =
     closed_object
       [''status'', ''phase'', ''draft_id'', ''source_revision'', ''schema_version'']
       [(''current_revision'', hash_text), (''diagnostic'', object_schema),
        (''draft_id'', nonempty_text), (''draft_sequence'', count_schema),
        (''input_fingerprint'', hash_text), (''phase'', nonempty_text),
        (''preview_revision'', hash_text), (''schema_version'', nonempty_text),
        (''source_revision'', hash_text),
        (''status'',
          JObject [(''enum'', texts [''ok'', ''rejected'', ''unknown'']),
                   (''type'', JString ''string'')])]"

definition load_response_schema :: json where
  "load_response_schema =
     closed_object
       [''feature_graph_hash'', ''revision_hash'', ''recovered_from_previous'',
        ''schema_version'']
       [(''feature_graph_hash'', hash_text), (''recovered_from_previous'', boolean_schema),
        (''revision_hash'', hash_text), (''schema_version'', text_schema)]"

definition component_state_response_schema :: json where
  "component_state_response_schema =
     closed_object
       [''definitions'', ''instances'', ''schema_version'']
       [(''definitions'', object_schema), (''instances'', object_schema),
        (''schema_version'', text_schema)]"

definition sketch_solve_request_schema :: json where
  "sketch_solve_request_schema =
     closed_object
       [''bundle_path'', ''feature_id'', ''entities'', ''constraints'']
       [(''bundle_path'', nonempty_text),
        (''constraints'',
          JObject [(''items'',
                     closed_object
                       [''id'', ''kind'', ''entities'']
                       [(''entities'', array_of nonempty_text), (''id'', nonempty_text),
                        (''kind'',
                          JObject [(''enum'',
                                     texts [''coincident'', ''distance'', ''horizontal'',
                                            ''vertical'', ''equal_length'', ''parallel'',
                                            ''perpendicular'', ''fixed'']),
                                   (''type'', JString ''string'')]),
                        (''value'', number_schema)]),
                   (''type'', JString ''array''), (''uniqueItems'', JBool True)]),
        (''entities'',
          JObject [(''items'',
                     JObject [(''oneOf'',
                                JArray [closed_object
                                          [''kind'', ''id'', ''x'', ''y'']
                                          [(''id'', nonempty_text),
                                           (''kind'', exactly ''point''),
                                           (''x'', number_schema), (''y'', number_schema)],
                                        closed_object
                                          [''kind'', ''id'', ''start'', ''end'']
                                          [(''end'', nonempty_text), (''id'', nonempty_text),
                                           (''kind'', exactly ''line_segment''),
                                           (''start'', nonempty_text)],
                                        closed_object
                                          [''kind'', ''id'', ''center'', ''radius'']
                                          [(''center'', nonempty_text), (''id'', nonempty_text),
                                           (''kind'', exactly ''circle''),
                                           (''radius'', positive_number)],
                                        closed_object
                                          [''kind'', ''id'', ''center'', ''start'', ''end'']
                                          [(''center'', nonempty_text),
                                           (''end'', nonempty_text), (''id'', nonempty_text),
                                           (''kind'', exactly ''arc''),
                                           (''start'', nonempty_text)]])]),
                   (''minItems'', JNumber (PosInt 1)), (''type'', JString ''array''),
                   (''uniqueItems'', JBool True)]),
        (''expected_revision'', nonempty_text), (''feature_id'', nonempty_text),
        (''phase'',
          JObject [(''enum'', texts [''preview'', ''commit'']),
                   (''type'', JString ''string'')]),
        (''placement'',
          closed_object
            [''origin'', ''normal'', ''x_axis'', ''y_axis'']
            [(''normal'', number_triple), (''origin'', number_triple),
             (''x_axis'', number_triple), (''y_axis'', number_triple)]),
        (''preview_revision'', nonempty_text), (''request_id'', nonempty_text),
        (''source_revision'', nonempty_text),
        (''support'',
          closed_object
            [''semantic_id'', ''provenance'', ''role'', ''evidence'']
            [(''evidence'',
               closed_object
                 [''topology_kind'', ''origin'', ''normal'', ''x_axis'', ''y_axis'',
                  ''adjacent_feature_ids'']
                 [(''adjacent_feature_ids'',
                    JObject [(''items'', nonempty_text), (''type'', JString ''array''),
                             (''uniqueItems'', JBool True)]),
                  (''normal'', number_triple), (''origin'', number_triple),
                  (''topology_kind'', exactly ''planar_face''), (''x_axis'', number_triple),
                  (''y_axis'', number_triple)]),
             (''provenance'',
               closed_object
                 [''source_feature_id'', ''source_revision_id'', ''source_face_id'']
                 [(''source_face_id'', nonempty_text), (''source_feature_id'', nonempty_text),
                  (''source_revision_id'', nonempty_text)]),
             (''role'', nonempty_text), (''semantic_id'', nonempty_text)])]"

definition sketch_solve_response_schema :: json where
  "sketch_solve_response_schema =
     closed_object
       [''status'', ''dof'', ''entity_ids'', ''related_constraint_ids'', ''diagnostics'',
        ''schema_version'']
       [(''diagnostics'',
          array_of
            (closed_object
               [''code'', ''detail'', ''constraint_ids'']
               [(''code'', nonempty_text), (''constraint_ids'', array_of nonempty_text),
                (''detail'', nonempty_text)])),
        (''dof'', count_schema),
        (''entity_ids'',
          JObject [(''items'', nonempty_text), (''type'', JString ''array''),
                   (''uniqueItems'', JBool True)]),
        (''feature_id'', nonempty_text), (''operation'', exactly ''sketch-solve''),
        (''placement'',
          closed_object
            [''origin'', ''normal'', ''x_axis'', ''y_axis'']
            [(''normal'', number_triple), (''origin'', number_triple),
             (''x_axis'', number_triple), (''y_axis'', number_triple)]),
        (''reattachment_outcome'',
          JObject [(''enum'', texts [''resolved'', ''ambiguous'', ''lost'', ''incompatible'']),
                   (''type'', JString ''string'')]),
        (''related_constraint_ids'',
          JObject [(''items'', nonempty_text), (''type'', JString ''array''),
                   (''uniqueItems'', JBool True)]),
        (''request_id'', nonempty_text), (''revision_hash'', nonempty_text),
        (''schema_version'', nonempty_text),
        (''solved_coordinates'',
          JObject [(''items'',
                     closed_object
                       [''entity_id'', ''x'', ''y'']
                       [(''entity_id'', nonempty_text), (''x'', number_schema),
                        (''y'', number_schema)]),
                   (''minItems'', JNumber (PosInt 1)), (''type'', JString ''array'')]),
        (''source_revision'', nonempty_text),
        (''status'',
          JObject [(''enum'',
                     texts [''solved'', ''underconstrained'', ''redundant'', ''inconsistent'',
                            ''nonconvergent'', ''invalid_request'']),
                   (''type'', JString ''string'')]),
        (''support'',
          closed_object
            [''semantic_id'', ''provenance'', ''role'', ''evidence'']
            [(''evidence'',
               closed_object
                 [''topology_kind'', ''origin'', ''normal'', ''x_axis'', ''y_axis'',
                  ''adjacent_feature_ids'']
                 [(''adjacent_feature_ids'',
                    JObject [(''items'', nonempty_text), (''type'', JString ''array''),
                             (''uniqueItems'', JBool True)]),
                  (''normal'', number_triple), (''origin'', number_triple),
                  (''topology_kind'', exactly ''planar_face''), (''x_axis'', number_triple),
                  (''y_axis'', number_triple)]),
             (''provenance'',
               closed_object
                 [''source_feature_id'', ''source_revision_id'', ''source_face_id'']
                 [(''source_face_id'', nonempty_text), (''source_feature_id'', nonempty_text),
                  (''source_revision_id'', nonempty_text)]),
             (''role'', nonempty_text), (''semantic_id'', nonempty_text)])]"

end
