(* ===== verification/Registry.thy ===== *)
theory Registry
  imports Documents
begin

text \<open>
  The command registry of \<^verbatim>\<open>crates/protocol/src/schema.rs\<close>, one definition for each
  row, and the execution guard of \<^verbatim>\<open>crates/protocol/src/command_execution.rs\<close>
  through which every adapter runs a command.  The handler is any function on the state of the
  host.
\<close>

record command_schema =
  cs_id :: string
  cs_name :: string
  cs_schema_version :: string
  cs_request_schema_version :: string
  cs_request_schema :: json
  cs_response_schema_version :: string
  cs_response_schema :: json

definition component_command :: "string \<Rightarrow> string list \<Rightarrow> command_schema" where
  "component_command name names =
     \<lparr>cs_id = name, cs_name = name, cs_schema_version = ''threeterm.command.'' @ name @ ''/1'',
      cs_request_schema_version = ''threeterm.command.'' @ name @ ''.request/1'',
      cs_request_schema = component_request_schema names,
      cs_response_schema_version = ''threeterm.command.'' @ name @ ''.response/1'',
      cs_response_schema = snapshot_response_schema\<rparr>"

section \<open>Rows\<close>

definition list_command :: command_schema where
  "list_command =
     \<lparr>cs_id = ''list'', cs_name = ''list'', cs_schema_version = ''threeterm.command.list/1'',
      cs_request_schema_version = ''threeterm.command.list.request/1'',
      cs_request_schema = list_request_schema,
      cs_response_schema_version = ''threeterm.command.list.response/1'',
      cs_response_schema = list_response_schema\<rparr>"

definition new_project_command :: command_schema where
  "new_project_command =
     \<lparr>cs_id = ''new-project'', cs_name = ''new-project'', cs_schema_version = ''threeterm.command.new-project/1'',
      cs_request_schema_version = ''threeterm.command.new-project.request/1'',
      cs_request_schema = new_project_request_schema,
      cs_response_schema_version = ''threeterm.command.new-project.response/1'',
      cs_response_schema = new_project_response_schema\<rparr>"

definition identity_command :: command_schema where
  "identity_command =
     \<lparr>cs_id = ''identity'', cs_name = ''identity'', cs_schema_version = ''threeterm.command.identity/1'',
      cs_request_schema_version = ''threeterm.command.identity.request/1'',
      cs_request_schema = identity_request_schema,
      cs_response_schema_version = ''threeterm.command.identity.response/1'',
      cs_response_schema = identity_response_schema\<rparr>"

definition apply_command :: command_schema where
  "apply_command =
     \<lparr>cs_id = ''apply'', cs_name = ''apply'', cs_schema_version = ''threeterm.command.apply/1'',
      cs_request_schema_version = ''threeterm.command.apply.request/1'',
      cs_request_schema = apply_request_schema,
      cs_response_schema_version = ''threeterm.command.apply.response/1'',
      cs_response_schema = apply_response_schema\<rparr>"

definition rehearse_command :: command_schema where
  "rehearse_command =
     \<lparr>cs_id = ''rehearse'', cs_name = ''rehearse'', cs_schema_version = ''threeterm.command.rehearse/1'',
      cs_request_schema_version = ''threeterm.command.rehearse.request/1'',
      cs_request_schema = rehearse_request_schema,
      cs_response_schema_version = ''threeterm.command.rehearse.response/2'',
      cs_response_schema = rehearse_response_schema\<rparr>"

definition save_command :: command_schema where
  "save_command =
     \<lparr>cs_id = ''save'', cs_name = ''save'', cs_schema_version = ''threeterm.command.save/1'',
      cs_request_schema_version = ''threeterm.command.save.request/1'',
      cs_request_schema = save_request_schema,
      cs_response_schema_version = ''threeterm.command.save.response/1'',
      cs_response_schema = snapshot_response_schema\<rparr>"

definition load_command :: command_schema where
  "load_command =
     \<lparr>cs_id = ''load'', cs_name = ''load'', cs_schema_version = ''threeterm.command.load/1'',
      cs_request_schema_version = ''threeterm.command.load.request/1'',
      cs_request_schema = load_request_schema,
      cs_response_schema_version = ''threeterm.command.load.response/2'',
      cs_response_schema = load_response_schema\<rparr>"

definition bracket_command :: command_schema where
  "bracket_command =
     \<lparr>cs_id = ''bracket'', cs_name = ''bracket'', cs_schema_version = ''threeterm.command.bracket/1'',
      cs_request_schema_version = ''threeterm.command.bracket.request/1'',
      cs_request_schema = bracket_request_schema,
      cs_response_schema_version = ''threeterm.command.bracket.response/1'',
      cs_response_schema = bracket_response_schema\<rparr>"

definition define_component_command :: command_schema where
  "define_component_command = component_command ''define-component''
     [''bundle_path'', ''definition_id'', ''feature_id'', ''length'', ''width'', ''height'', ''thickness'']"

definition create_component_instance_command :: command_schema where
  "create_component_instance_command = component_command ''create-component-instance''
     [''bundle_path'', ''instance_id'', ''definition_id'', ''transform'']"

definition transform_component_instance_command :: command_schema where
  "transform_component_instance_command = component_command ''transform-component-instance''
     [''bundle_path'', ''instance_id'', ''transform'']"

definition make_component_independent_command :: command_schema where
  "make_component_independent_command = component_command ''make-component-independent''
     [''bundle_path'', ''source_instance_id'', ''definition_id'', ''instance_id'', ''feature_id'']"

definition edit_component_parameter_command :: command_schema where
  "edit_component_parameter_command = component_command ''edit-component-parameter''
     [''bundle_path'', ''definition_id'', ''parameter'', ''value'']"

definition component_state_command :: command_schema where
  "component_state_command =
     \<lparr>cs_id = ''component-state'', cs_name = ''component-state'', cs_schema_version = ''threeterm.command.component-state/1'',
      cs_request_schema_version = ''threeterm.command.component-state.request/1'',
      cs_request_schema = component_request_schema [''bundle_path''],
      cs_response_schema_version = ''threeterm.command.component-state.response/1'',
      cs_response_schema = component_state_response_schema\<rparr>"

definition sketch_solve_command :: command_schema where
  "sketch_solve_command =
     \<lparr>cs_id = ''sketch-solve'', cs_name = ''sketch-solve'', cs_schema_version = ''threeterm.command.sketch-solve/1'',
      cs_request_schema_version = ''threeterm.command.sketch-solve.request/1'',
      cs_request_schema = sketch_solve_request_schema,
      cs_response_schema_version = ''threeterm.command.sketch-solve.response/1'',
      cs_response_schema = sketch_solve_response_schema\<rparr>"

definition bracket_edit_command :: command_schema where
  "bracket_edit_command =
     \<lparr>cs_id = ''bracket-edit'', cs_name = ''bracket-edit'', cs_schema_version = ''threeterm.command.bracket-edit/1'',
      cs_request_schema_version = ''threeterm.command.bracket-edit.request/1'',
      cs_request_schema = bracket_edit_request_schema,
      cs_response_schema_version = ''threeterm.command.bracket-edit.response/1'',
      cs_response_schema = bracket_edit_response_schema\<rparr>"

definition capture_component_command :: command_schema where
  "capture_component_command =
     \<lparr>cs_id = ''capture-component'', cs_name = ''capture-component'', cs_schema_version = ''threeterm.command.capture-component/1'',
      cs_request_schema_version = ''threeterm.command.capture-component.request/1'',
      cs_request_schema = component_request_schema [''bundle_path'', ''definition_id'', ''selected_feature_ids''],
      cs_response_schema_version = ''threeterm.command.capture-component.response/1'',
      cs_response_schema = snapshot_response_schema\<rparr>"

definition historical_edit_command :: command_schema where
  "historical_edit_command =
     \<lparr>cs_id = ''historical-edit'', cs_name = ''historical-edit'', cs_schema_version = ''threeterm.command.historical-edit/1'',
      cs_request_schema_version = ''threeterm.command.historical-edit.request/1'',
      cs_request_schema = historical_edit_request_schema,
      cs_response_schema_version = ''threeterm.command.history.response/3'',
      cs_response_schema = history_commit_response_schema\<rparr>"

definition create_revision_command :: command_schema where
  "create_revision_command =
     \<lparr>cs_id = ''create-revision'', cs_name = ''create-revision'', cs_schema_version = ''threeterm.command.create-revision/1'',
      cs_request_schema_version = ''threeterm.command.create-revision.request/1'',
      cs_request_schema = named_revision_request_schema,
      cs_response_schema_version = ''threeterm.command.history.response/3'',
      cs_response_schema = history_commit_response_schema\<rparr>"

definition restore_revision_command :: command_schema where
  "restore_revision_command =
     \<lparr>cs_id = ''restore-revision'', cs_name = ''restore-revision'', cs_schema_version = ''threeterm.command.restore-revision/1'',
      cs_request_schema_version = ''threeterm.command.restore-revision.request/2'',
      cs_request_schema = restore_revision_request_schema,
      cs_response_schema_version = ''threeterm.command.history.response/3'',
      cs_response_schema = history_commit_response_schema\<rparr>"

definition undo_command :: command_schema where
  "undo_command =
     \<lparr>cs_id = ''undo'', cs_name = ''undo'', cs_schema_version = ''threeterm.command.undo/1'',
      cs_request_schema_version = ''threeterm.command.undo.request/1'',
      cs_request_schema = cursor_move_request_schema,
      cs_response_schema_version = ''threeterm.command.history.response/3'',
      cs_response_schema = history_commit_response_schema\<rparr>"

definition redo_command :: command_schema where
  "redo_command =
     \<lparr>cs_id = ''redo'', cs_name = ''redo'', cs_schema_version = ''threeterm.command.redo/1'',
      cs_request_schema_version = ''threeterm.command.redo.request/1'',
      cs_request_schema = cursor_move_request_schema,
      cs_response_schema_version = ''threeterm.command.history.response/3'',
      cs_response_schema = history_commit_response_schema\<rparr>"

definition timeline_command :: command_schema where
  "timeline_command =
     \<lparr>cs_id = ''timeline'', cs_name = ''timeline'', cs_schema_version = ''threeterm.command.timeline/1'',
      cs_request_schema_version = ''threeterm.command.timeline.request/1'',
      cs_request_schema = timeline_request_schema,
      cs_response_schema_version = ''threeterm.command.timeline.response/2'',
      cs_response_schema = timeline_response_schema\<rparr>"

definition replay_verify_command :: command_schema where
  "replay_verify_command =
     \<lparr>cs_id = ''replay-verify'', cs_name = ''replay-verify'', cs_schema_version = ''threeterm.command.replay-verify/1'',
      cs_request_schema_version = ''threeterm.command.replay-verify.request/1'',
      cs_request_schema = replay_verify_request_schema,
      cs_response_schema_version = ''threeterm.command.replay-verify.response/1'',
      cs_response_schema = replay_verify_response_schema\<rparr>"

definition extrude_command :: command_schema where
  "extrude_command =
     \<lparr>cs_id = ''extrude'', cs_name = ''extrude'', cs_schema_version = ''threeterm.command.extrude/2'',
      cs_request_schema_version = ''threeterm.command.extrude.request/2'',
      cs_request_schema = extrude_request_schema,
      cs_response_schema_version = ''threeterm.command.extrude.response/4'',
      cs_response_schema = extrude_response_schema\<rparr>"

definition fit_dimension_command :: command_schema where
  "fit_dimension_command =
     \<lparr>cs_id = ''fit-dimension'', cs_name = ''fit-dimension'', cs_schema_version = ''threeterm.command.fit-dimension/1'',
      cs_request_schema_version = ''threeterm.command.fit-dimension.request/1'',
      cs_request_schema = fit_dimension_request_schema,
      cs_response_schema_version = ''threeterm.command.fit-dimension.response/1'',
      cs_response_schema = fit_dimension_response_schema\<rparr>"

definition boolean_fuse_command :: command_schema where
  "boolean_fuse_command =
     \<lparr>cs_id = ''boolean-fuse'', cs_name = ''boolean-fuse'', cs_schema_version = ''threeterm.command.boolean-fuse/1'',
      cs_request_schema_version = ''threeterm.command.boolean-fuse.request/1'',
      cs_request_schema = boolean_fuse_request_schema,
      cs_response_schema_version = ''threeterm.command.boolean-fuse.response/1'',
      cs_response_schema = boolean_fuse_response_schema\<rparr>"

definition boolean_cut_command :: command_schema where
  "boolean_cut_command =
     \<lparr>cs_id = ''boolean-cut'', cs_name = ''boolean-cut'', cs_schema_version = ''threeterm.command.boolean-cut/1'',
      cs_request_schema_version = ''threeterm.command.boolean-cut.request/1'',
      cs_request_schema = boolean_cut_request_schema,
      cs_response_schema_version = ''threeterm.command.boolean-cut.response/1'',
      cs_response_schema = boolean_cut_response_schema\<rparr>"

definition boolean_common_command :: command_schema where
  "boolean_common_command =
     \<lparr>cs_id = ''boolean-common'', cs_name = ''boolean-common'', cs_schema_version = ''threeterm.command.boolean-common/1'',
      cs_request_schema_version = ''threeterm.command.boolean-common.request/1'',
      cs_request_schema = boolean_common_request_schema,
      cs_response_schema_version = ''threeterm.command.boolean-common.response/1'',
      cs_response_schema = boolean_common_response_schema\<rparr>"

definition boolean_pattern_command :: command_schema where
  "boolean_pattern_command =
     \<lparr>cs_id = ''boolean-pattern'', cs_name = ''boolean-pattern'', cs_schema_version = ''threeterm.command.boolean-pattern/1'',
      cs_request_schema_version = ''threeterm.command.boolean-pattern.request/1'',
      cs_request_schema = boolean_pattern_request_schema,
      cs_response_schema_version = ''threeterm.command.boolean-pattern.response/1'',
      cs_response_schema = boolean_pattern_response_schema\<rparr>"

definition fillet_command :: command_schema where
  "fillet_command =
     \<lparr>cs_id = ''fillet'', cs_name = ''fillet'', cs_schema_version = ''threeterm.command.fillet/1'',
      cs_request_schema_version = ''threeterm.command.fillet.request/1'',
      cs_request_schema = fillet_request_schema,
      cs_response_schema_version = ''threeterm.command.fillet.response/1'',
      cs_response_schema = fillet_response_schema\<rparr>"

definition chamfer_command :: command_schema where
  "chamfer_command =
     \<lparr>cs_id = ''chamfer'', cs_name = ''chamfer'', cs_schema_version = ''threeterm.command.chamfer/1'',
      cs_request_schema_version = ''threeterm.command.chamfer.request/1'',
      cs_request_schema = chamfer_request_schema,
      cs_response_schema_version = ''threeterm.command.chamfer.response/1'',
      cs_response_schema = chamfer_response_schema\<rparr>"

definition reattach_edge_command :: command_schema where
  "reattach_edge_command =
     \<lparr>cs_id = ''reattach-edge'', cs_name = ''reattach-edge'', cs_schema_version = ''threeterm.command.reattach-edge/2'',
      cs_request_schema_version = ''threeterm.command.reattach-edge.request/2'',
      cs_request_schema = reattach_edge_request_schema,
      cs_response_schema_version = ''threeterm.command.reattach-edge.response/2'',
      cs_response_schema = reattach_edge_response_schema\<rparr>"

definition hole_command :: command_schema where
  "hole_command =
     \<lparr>cs_id = ''hole'', cs_name = ''hole'', cs_schema_version = ''threeterm.command.hole/1'',
      cs_request_schema_version = ''threeterm.command.hole.request/1'',
      cs_request_schema = hole_request_schema,
      cs_response_schema_version = ''threeterm.command.hole.response/1'',
      cs_response_schema = hole_response_schema\<rparr>"

definition revolve_command :: command_schema where
  "revolve_command =
     \<lparr>cs_id = ''revolve'', cs_name = ''revolve'', cs_schema_version = ''threeterm.command.revolve/1'',
      cs_request_schema_version = ''threeterm.command.revolve.request/1'',
      cs_request_schema = revolve_request_schema,
      cs_response_schema_version = ''threeterm.command.revolve.response/1'',
      cs_response_schema = revolve_response_schema\<rparr>"

definition mirror_command :: command_schema where
  "mirror_command =
     \<lparr>cs_id = ''mirror'', cs_name = ''mirror'', cs_schema_version = ''threeterm.command.mirror/1'',
      cs_request_schema_version = ''threeterm.command.mirror.request/1'',
      cs_request_schema = mirror_request_schema,
      cs_response_schema_version = ''threeterm.command.mirror.response/1'',
      cs_response_schema = mirror_response_schema\<rparr>"

definition linear_pattern_command :: command_schema where
  "linear_pattern_command =
     \<lparr>cs_id = ''linear-pattern'', cs_name = ''linear-pattern'', cs_schema_version = ''threeterm.command.linear-pattern/1'',
      cs_request_schema_version = ''threeterm.command.linear-pattern.request/1'',
      cs_request_schema = linear_pattern_request_schema,
      cs_response_schema_version = ''threeterm.command.linear-pattern.response/1'',
      cs_response_schema = linear_pattern_response_schema\<rparr>"

definition circular_pattern_command :: command_schema where
  "circular_pattern_command =
     \<lparr>cs_id = ''circular-pattern'', cs_name = ''circular-pattern'', cs_schema_version = ''threeterm.command.circular-pattern/1'',
      cs_request_schema_version = ''threeterm.command.circular-pattern.request/1'',
      cs_request_schema = circular_pattern_request_schema,
      cs_response_schema_version = ''threeterm.command.circular-pattern.response/1'',
      cs_response_schema = circular_pattern_response_schema\<rparr>"

definition shell_command :: command_schema where
  "shell_command =
     \<lparr>cs_id = ''shell'', cs_name = ''shell'', cs_schema_version = ''threeterm.command.shell/1'',
      cs_request_schema_version = ''threeterm.command.shell.request/1'',
      cs_request_schema = shell_request_schema,
      cs_response_schema_version = ''threeterm.command.shell.response/1'',
      cs_response_schema = shell_response_schema\<rparr>"

definition draft_command :: command_schema where
  "draft_command =
     \<lparr>cs_id = ''draft'', cs_name = ''draft'', cs_schema_version = ''threeterm.command.draft/1'',
      cs_request_schema_version = ''threeterm.command.draft.request/1'',
      cs_request_schema = draft_request_schema,
      cs_response_schema_version = ''threeterm.command.draft.response/1'',
      cs_response_schema = draft_response_schema\<rparr>"

definition loft_command :: command_schema where
  "loft_command =
     \<lparr>cs_id = ''loft'', cs_name = ''loft'', cs_schema_version = ''threeterm.command.loft/1'',
      cs_request_schema_version = ''threeterm.command.loft.request/1'',
      cs_request_schema = loft_request_schema,
      cs_response_schema_version = ''threeterm.command.loft.response/1'',
      cs_response_schema = loft_response_schema\<rparr>"

definition export_command :: command_schema where
  "export_command =
     \<lparr>cs_id = ''export'', cs_name = ''export'', cs_schema_version = ''threeterm.command.export/1'',
      cs_request_schema_version = ''threeterm.command.export.request/2'',
      cs_request_schema = export_request_schema,
      cs_response_schema_version = ''threeterm.command.export.response/3'',
      cs_response_schema = export_response_schema\<rparr>"

definition validate_command :: command_schema where
  "validate_command =
     \<lparr>cs_id = ''validate'', cs_name = ''validate'', cs_schema_version = ''threeterm.command.validate/1'',
      cs_request_schema_version = ''threeterm.command.validate.request/1'',
      cs_request_schema = validate_request_schema,
      cs_response_schema_version = ''threeterm.command.validate.response/2'',
      cs_response_schema = validate_response_schema\<rparr>"

section \<open>The table\<close>

definition command_rows :: "command_schema list" where
  "command_rows =
     [list_command, new_project_command, identity_command, apply_command, rehearse_command,
      save_command, load_command, bracket_command, define_component_command,
      create_component_instance_command, transform_component_instance_command,
      make_component_independent_command, edit_component_parameter_command,
      component_state_command, sketch_solve_command, bracket_edit_command,
      capture_component_command, historical_edit_command, create_revision_command,
      restore_revision_command, undo_command, redo_command, timeline_command,
      replay_verify_command, extrude_command, fit_dimension_command, boolean_fuse_command,
      boolean_cut_command, boolean_common_command, boolean_pattern_command, fillet_command,
      chamfer_command, reattach_edge_command, hole_command, revolve_command, mirror_command,
      linear_pattern_command, circular_pattern_command, shell_command, draft_command,
      loft_command, export_command, validate_command]"

definition command_registry :: "(string, command_schema) btree" where
  "command_registry = fold (\<lambda>row. bt_insert (cs_id row) row) command_rows []"

definition find_command :: "string \<Rightarrow> command_schema option" where
  "find_command command = bt_get command_registry command"

definition registered_commands :: "command_schema list" where
  "registered_commands = map snd command_registry"

definition find_by_name :: "string \<Rightarrow> command_schema option" where
  "find_by_name name = List.find (\<lambda>row. cs_name row = name) registered_commands"

definition registry_hash :: "(string \<Rightarrow> string) \<Rightarrow> (command_schema \<Rightarrow> string) \<Rightarrow> string" where
  "registry_hash sha256 serialized =
     sha256 (concat (map (\<lambda>row. serialized row @ [CHR 0x0A]) registered_commands))"

section \<open>The execution guard\<close>

datatype 'e execution_error =
    UnknownCommand string
  | InvalidRequest string
  | HandlerFailed 'e
  | InvalidResponse string
  | GuardPanicked

definition guarded ::
  "(string \<Rightarrow> 'e execution_error) \<Rightarrow> verdict \<Rightarrow> 'e execution_error + unit" where
  "guarded wrap r =
     (case r of
        Inl (Violation message) \<Rightarrow> Inl (wrap message)
      | Inl SchemaPanicked \<Rightarrow> Inl GuardPanicked
      | Inr u \<Rightarrow> Inr u)"

definition validate_request :: "schema_codecs \<Rightarrow> string \<Rightarrow> json \<Rightarrow> unit execution_error + unit" where
  "validate_request cd command request =
     and_then (ok_or (find_command command) (UnknownCommand command))
     (\<lambda>row. guarded InvalidRequest (validate cd (cs_request_schema row) request))"

type_synonym ('s, 'e) handler = "json \<Rightarrow> 's \<Rightarrow> 's \<times> ('e + json)"

definition execute_command ::
  "schema_codecs \<Rightarrow> string \<Rightarrow> json \<Rightarrow> ('s, 'e) handler \<Rightarrow> 's \<Rightarrow> 's \<times> ('e execution_error + json)"
where
  "execute_command cd command request handler s =
     (case and_then (ok_or (find_command command) (UnknownCommand command))
         (\<lambda>row. and_then (guarded InvalidRequest (validate cd (cs_request_schema row) request))
           (\<lambda>_. Inr row)) of
        Inl e \<Rightarrow> (s, Inl e)
      | Inr row \<Rightarrow>
          (case handler request s of
             (s', Inl e) \<Rightarrow> (s', Inl (HandlerFailed e))
           | (s', Inr response) \<Rightarrow>
               (s', and_then (guarded InvalidResponse (validate cd (cs_response_schema row) response))
                  (\<lambda>_. Inr response))))"

end
