(* ===== verification/Arguments.thy ===== *)
theory Arguments
  imports Registry References
begin

text \<open>
  What the parser of the machine-mode command line (\<^verbatim>\<open>crates/cli/src/dispatch.rs\<close>)
  reads an argument with: the conversions of \<^verbatim>\<open>OsString\<close>, the readers of one value,
  and the loops over flags that the parsers of the commands share.  An \<^verbatim>\<open>OsString\<close> is
  its bytes; the option variables of a parser are the slots under the names of its flags.
\<close>

section \<open>Operating system strings\<close>

type_synonym os_string = string

definition to_str :: "os_string \<Rightarrow> string option" where
  "to_str a = (if valid_utf8 a then Some a else None)"

text \<open>
  \<^verbatim>\<open>to_string_lossy\<close> puts U+FFFD for every maximal piece that begins a well-formed
  sequence, or for one byte.
\<close>

definition replacement_character :: string where
  "replacement_character = [CHR 0xEF, CHR 0xBF, CHR 0xBD]"

fun broken_length :: "string \<Rightarrow> nat" where
  "broken_length (a # b # xs) =
     (if a = CHR 0xE0 \<and> in_range 0xA0 0xBF b \<or>
         in_range 0xE1 0xEC a \<and> continuation b \<or>
         a = CHR 0xED \<and> in_range 0x80 0x9F b \<or>
         in_range 0xEE 0xEF a \<and> continuation b then 2
      else if a = CHR 0xF0 \<and> in_range 0x90 0xBF b \<or>
         in_range 0xF1 0xF3 a \<and> continuation b \<or>
         a = CHR 0xF4 \<and> in_range 0x80 0x8F b then
        (case xs of c # _ \<Rightarrow> if continuation c then 3 else 2 | [] \<Rightarrow> 2)
      else 1)"
| "broken_length _ = 1"

lemma broken_length_pos: "0 < broken_length s"
  by (cases s rule: broken_length.cases) (auto split: list.splits)

function lossy :: "os_string \<Rightarrow> string" where
  "lossy a =
     (if a = [] then []
      else case utf8_char_length a of
        Some n \<Rightarrow> take n a @ lossy (drop n a)
      | None \<Rightarrow> replacement_character @ lossy (drop (broken_length a) a))"
  by auto
termination
  by (relation "measure length") (auto dest: utf8_char_length_bounds simp: broken_length_pos)

declare lossy.simps [simp del]

lemma lossy_valid: "valid_utf8 a \<Longrightarrow> lossy a = a"
proof (induction a rule: lossy.induct)
  case (1 a)
  then show ?case
    by (cases "utf8_char_length a"; cases "a = []")
      (auto simp: lossy.simps [of a] lossy.simps [of "[]"] valid_utf8.simps [of a])
qed

lemma to_str_lossy: "to_str a = Some s \<Longrightarrow> lossy a = s"
  by (auto simp: to_str_def lossy_valid split: if_splits)

definition is_flag :: "string \<Rightarrow> bool" where
  "is_flag a = starts_with_string ''--'' a"

section \<open>Values\<close>

definition trim_text :: "string \<Rightarrow> string" where
  "trim_text s =
     concat (rev (dropWhile is_white_space (rev (dropWhile is_white_space (utf8_chars s)))))"

definition parse_bool :: "string \<Rightarrow> bool option" where
  "parse_bool s = (if s = ''true'' then Some True else if s = ''false'' then Some False else None)"

definition in_message :: "string \<Rightarrow> string \<Rightarrow> string" where
  "in_message flag v = flag @ '' '' @ v"

definition parse_vec3 :: "string \<Rightarrow> string \<Rightarrow> string + vec3" where
  "parse_vec3 v flag =
     (case map (\<lambda>part. parse_f64 (trim_text part)) (split_at_char (CHR '','') v) of
        [Some x, Some y, Some z] \<Rightarrow> Inr (x, y, z)
      | _ \<Rightarrow> Inl (in_message flag v))"

definition pull_component :: "nat \<times> string \<Rightarrow> string + f64" where
  "pull_component e =
     (case e of (i, part) \<Rightarrow>
        (case parse_f64 part of
           Some x \<Rightarrow>
             if f64_finite x then Inr x
             else Inl (''pull_direction component '' @ show_nat i @ '' ('' @ debug_string part @
               '') is not a finite number'')
         | None \<Rightarrow>
             Inl (''pull_direction component '' @ show_nat i @ '' ('' @ debug_string part @
               '') is not a finite number'')))"

definition parse_pull_direction :: "string \<Rightarrow> string + vec3" where
  "parse_pull_direction v =
     (case map trim_text (split_at_char (CHR '','') v) of
        [a, b, c] \<Rightarrow>
          and_then (pull_component (0, a)) (\<lambda>x.
          and_then (pull_component (1, b)) (\<lambda>y.
          and_then (pull_component (2, c)) (\<lambda>z. Inr (x, y, z))))
      | _ \<Rightarrow> Inl (''pull_direction must be three comma-separated numbers (got '' @ debug_string v @ '')''))"

section \<open>Slots\<close>

datatype flag_value =
    TextValue string | NumberValue f64 | VectorValue vec3 | CountValue int | BoolValue bool
  | JsonValue json | TextsValue "string list"

type_synonym flag_slots = "string \<Rightarrow> flag_value option"

definition no_slots :: flag_slots where
  "no_slots = (\<lambda>_. None)"

definition text_at :: "flag_slots \<Rightarrow> string \<Rightarrow> string option" where
  "text_at s f = (case s f of Some (TextValue v) \<Rightarrow> Some v | _ \<Rightarrow> None)"

definition number_at :: "flag_slots \<Rightarrow> string \<Rightarrow> f64 option" where
  "number_at s f = (case s f of Some (NumberValue v) \<Rightarrow> Some v | _ \<Rightarrow> None)"

definition vector_at :: "flag_slots \<Rightarrow> string \<Rightarrow> vec3 option" where
  "vector_at s f = (case s f of Some (VectorValue v) \<Rightarrow> Some v | _ \<Rightarrow> None)"

definition count_at :: "flag_slots \<Rightarrow> string \<Rightarrow> int option" where
  "count_at s f = (case s f of Some (CountValue v) \<Rightarrow> Some v | _ \<Rightarrow> None)"

definition bool_at :: "flag_slots \<Rightarrow> string \<Rightarrow> bool option" where
  "bool_at s f = (case s f of Some (BoolValue v) \<Rightarrow> Some v | _ \<Rightarrow> None)"

definition json_at :: "flag_slots \<Rightarrow> string \<Rightarrow> json option" where
  "json_at s f = (case s f of Some (JsonValue v) \<Rightarrow> Some v | _ \<Rightarrow> None)"

definition texts_at :: "flag_slots \<Rightarrow> string \<Rightarrow> string list" where
  "texts_at s f = (case s f of Some (TextsValue v) \<Rightarrow> v | _ \<Rightarrow> [])"

text \<open>\<^verbatim>\<open>let Some(x) = x else { return Unknown \{ arg: flag \} }\<close>.\<close>

definition need :: "(flag_slots \<Rightarrow> string \<Rightarrow> 'a option) \<Rightarrow> flag_slots \<Rightarrow> string \<Rightarrow> string + 'a" where
  "need get s f = ok_or (get s f) f"

text \<open>The arm of one flag: what it does with the argument that follows; an error is the text shown.\<close>

type_synonym flag_arm = "os_string \<Rightarrow> flag_slots \<Rightarrow> string + flag_slots"
type_synonym flag_table = "(string \<times> flag_arm) list"

definition text_flag :: "string \<Rightarrow> string \<times> flag_arm" where
  "text_flag f = (f, \<lambda>a s. Inr (s(f \<mapsto> TextValue (lossy a))))"

definition number_flag :: "string \<Rightarrow> string \<times> flag_arm" where
  "number_flag f = (f, \<lambda>a s.
     case parse_f64 (lossy a) of
       Some x \<Rightarrow> Inr (s(f \<mapsto> NumberValue x))
     | None \<Rightarrow> Inl (in_message f (lossy a)))"

definition finite_flag :: "string \<Rightarrow> string \<times> flag_arm" where
  "finite_flag f = (f, \<lambda>a s.
     case parse_f64 (lossy a) of
       Some x \<Rightarrow>
         if f64_finite x then Inr (s(f \<mapsto> NumberValue x)) else Inl (in_message f (lossy a))
     | None \<Rightarrow> Inl (in_message f (lossy a)))"

definition count_flag :: "string \<Rightarrow> string \<times> flag_arm" where
  "count_flag f = (f, \<lambda>a s.
     case parse_u32 (lossy a) of
       Some n \<Rightarrow> Inr (s(f \<mapsto> CountValue n))
     | None \<Rightarrow> Inl (in_message f (lossy a)))"

definition bool_flag :: "string \<Rightarrow> string \<times> flag_arm" where
  "bool_flag f = (f, \<lambda>a s.
     case parse_bool (lossy a) of
       Some b \<Rightarrow> Inr (s(f \<mapsto> BoolValue b))
     | None \<Rightarrow> Inl (in_message f (lossy a)))"

definition vector_flag :: "string \<Rightarrow> string \<times> flag_arm" where
  "vector_flag f = (f, \<lambda>a s.
     case parse_vec3 (lossy a) f of
       Inr v \<Rightarrow> Inr (s(f \<mapsto> VectorValue v))
     | Inl e \<Rightarrow> Inl e)"

definition pull_flag :: "string \<Rightarrow> string \<times> flag_arm" where
  "pull_flag f = (f, \<lambda>a s.
     case parse_pull_direction (lossy a) of
       Inr v \<Rightarrow> Inr (s(f \<mapsto> VectorValue v))
     | Inl _ \<Rightarrow> Inl (in_message f (lossy a)))"

definition json_flag :: "(string \<Rightarrow> string + json) \<Rightarrow> string \<Rightarrow> string \<times> flag_arm" where
  "json_flag from_str f = (f, \<lambda>a s.
     case from_str (lossy a) of
       Inr v \<Rightarrow> Inr (s(f \<mapsto> JsonValue v))
     | Inl _ \<Rightarrow> Inl (in_message f (lossy a)))"

definition push_flag :: "string \<Rightarrow> string \<times> flag_arm" where
  "push_flag f = (f, \<lambda>a s. Inr (s(f \<mapsto> TextsValue (texts_at s f @ [lossy a]))))"

definition choice_flag :: "string list \<Rightarrow> string \<Rightarrow> string \<times> flag_arm" where
  "choice_flag choices f = (f, \<lambda>a s.
     if lossy a \<in> set choices then Inr (s(f \<mapsto> TextValue (lossy a)))
     else Inl (in_message f (lossy a)))"

text \<open>Arms of the older loops: a number whose text does not parse is reported by its flag alone.\<close>

definition dimension_flag :: "string \<Rightarrow> string \<times> flag_arm" where
  "dimension_flag f = (f, \<lambda>a s.
     case parse_f64 (lossy a) of Some x \<Rightarrow> Inr (s(f \<mapsto> NumberValue x)) | None \<Rightarrow> Inl f)"

definition list_flag :: "string \<Rightarrow> string \<times> flag_arm" where
  "list_flag f = (f, \<lambda>a s. Inr (s(f \<mapsto> TextsValue (split_at_char (CHR '','') (lossy a)))))"

text \<open>The text of an argument that is not UTF-8 clears the variable.\<close>

definition strict_flag :: "string \<Rightarrow> string \<times> flag_arm" where
  "strict_flag f = (f, \<lambda>a s. Inr (s(f := map_option TextValue (to_str a))))"

section \<open>Loops\<close>

text \<open>
  The loop of the geometry commands: a flag of the table takes the argument behind it; otherwise an
  argument that is no flag is the bundle when there is none yet; anything else is an error.
\<close>

fun flag_loop :: "flag_table \<Rightarrow> os_string list \<Rightarrow> flag_slots \<Rightarrow> string + flag_slots" where
  "flag_loop table [] s = Inr s"
| "flag_loop table [a] s =
     (if text_at s ''--bundle'' = None \<and> \<not> is_flag (lossy a)
      then Inr (s(''--bundle'' \<mapsto> TextValue (lossy a))) else Inl (lossy a))"
| "flag_loop table (a # v # rest) s =
     (case map_of table (lossy a) of
        Some arm \<Rightarrow> and_then (arm v s) (flag_loop table rest)
      | None \<Rightarrow>
          if text_at s ''--bundle'' = None \<and> \<not> is_flag (lossy a)
          then flag_loop table (v # rest) (s(''--bundle'' \<mapsto> TextValue (lossy a)))
          else Inl (lossy a))"

text \<open>The loop of the older commands, which only takes flags of the table.\<close>

fun pair_loop :: "flag_table \<Rightarrow> os_string list \<Rightarrow> flag_slots \<Rightarrow> string + flag_slots" where
  "pair_loop table [] s = Inr s"
| "pair_loop table [a] s = Inl (lossy a)"
| "pair_loop table (a # v # rest) s =
     (case map_of table (lossy a) of
        Some arm \<Rightarrow> and_then (arm v s) (pair_loop table rest)
      | None \<Rightarrow> Inl (lossy a))"

text \<open>The loop that refuses a repeated flag, over a hash map of texts.\<close>

fun once_loop :: "string list \<Rightarrow> os_string list \<Rightarrow> flag_slots \<Rightarrow> string + flag_slots" where
  "once_loop names [] s = Inr s"
| "once_loop names [a] s = Inl (lossy a)"
| "once_loop names (a # v # rest) s =
     (let flag = lossy a in
      if flag \<notin> set names \<or> s flag \<noteq> None then Inl flag
      else once_loop names rest (s(flag \<mapsto> TextValue (lossy v))))"

end
