(* ===== verification/Objects.thy ===== *)
theory Objects
  imports Schema
begin

text \<open>
  Building JSON values as \<^verbatim>\<open>json!\<close> and \<^verbatim>\<open>serde_json::Map\<close> do: the
  members go, in the order of the source, into a map that is sorted by key.
\<close>

definition members_of :: "(string \<times> json) list \<Rightarrow> document" where
  "members_of entries = fold (\<lambda>(k, v). bt_insert k v) entries []"

definition object_of :: "(string \<times> json) list \<Rightarrow> json" where
  "object_of entries = JObject (members_of entries)"

text \<open>An entry that is written only when the option has a value, and one that is null without.\<close>

definition if_some :: "string \<Rightarrow> ('a \<Rightarrow> json) \<Rightarrow> 'a option \<Rightarrow> (string \<times> json) list" where
  "if_some k f x = (case x of None \<Rightarrow> [] | Some v \<Rightarrow> [(k, f v)])"

definition or_null :: "('a \<Rightarrow> json) \<Rightarrow> 'a option \<Rightarrow> json" where
  "or_null f x = (case x of None \<Rightarrow> JNull | Some v \<Rightarrow> f v)"

definition json_int :: "int \<Rightarrow> json" where
  "json_int n = JNumber (if 0 \<le> n then PosInt (nat n) else NegInt n)"

text \<open>A float that is not finite becomes null.\<close>

definition json_f64 :: "f64 \<Rightarrow> json" where
  "json_f64 x = (if f64_finite x then JNumber (Float x) else JNull)"

definition json_nat :: "nat \<Rightarrow> json" where
  "json_nat n = JNumber (PosInt n)"

section \<open>The members of a built object\<close>

lemma members_of_ok: "bt_ok (members_of entries)"
proof -
  have "bt_ok (fold (\<lambda>(k, v). bt_insert k v) entries m)" if "bt_ok m" for m
    using that by (induction entries arbitrary: m) (auto simp: bt.ok_ins)
  then show ?thesis by (simp add: members_of_def)
qed

lemma members_of_get: "bt_get (members_of entries) k = map_of (rev entries) k"
proof -
  have "bt_get (fold (\<lambda>(k, v). bt_insert k v) entries m) k =
      (case map_of (rev entries) k of None \<Rightarrow> bt_get m k | Some v \<Rightarrow> Some v)" for m
  proof (induction entries arbitrary: m)
    case Nil
    then show ?case by simp
  next
    case (Cons e entries)
    then show ?case
      by (cases e) (auto simp: bt.get_ins map_add_def split: option.splits)
  qed
  then show ?thesis by (simp add: members_of_def bt_get_def split: option.splits)
qed

lemma members_of_keys: "set (bt_keys (members_of entries)) = fst ` set entries"
proof -
  have "k \<in> set (bt_keys (members_of entries)) \<longleftrightarrow> bt_get (members_of entries) k \<noteq> None" for k
    by (auto simp: bt_get_def bt_keys_def map_of_eq_None_iff image_iff) 
  then show ?thesis by (auto simp: members_of_get map_of_eq_None_iff image_iff)
qed

end
