(* ===== verification/Plans.thy ===== *)
theory Plans
  imports Arguments Objects
begin

text \<open>
  The plans of \<^verbatim>\<open>crates/cli/src/dispatch.rs\<close>: what a command line asks for, one parser
  for each command, and \<^verbatim>\<open>plan\<close>, which looks the command up in the registry.  A parser
  stops with \<^verbatim>\<open>DispatchPlan::Unknown\<close> and the argument it objects to; reading JSON from
  a text is \<^verbatim>\<open>serde_json::from_str\<close>, the parameter \<open>from_str\<close>.
\<close>

section \<open>Plans\<close>

datatype dispatch_plan =
    Registered string dispatch_plan
  | ListPlan
  | NewProject string
  | Rehearse "string option" "string option" "string option"
  | Adversarial "string option" "string option" "string option"
  | Save string string string
  | Load string
  | Identity string
  | Apply string string string string "string option"
  | Bracket string string f64 f64 f64 f64
  | Component string json
  | HistoricalEditPlan string string string f64
  | CreateRevision string string
  | RestoreRevision string string string
  | Timeline string string
  | ReplayVerify string
  | UndoPlan string
  | RedoPlan string
  | Extrude string string string f64 string "string option"
  | ReattachEdge string string string string string f64 json json "vec3 option" "vec3 option"
  | FitDimension string string string string string string string f64
  | BooleanFuse string string string string
  | BooleanCut string string string string
  | BooleanCommon string string string string
  | BooleanPattern string string string vec3 "f64 \<times> f64" int int f64
  | Fillet string string string f64 "string option" "string option"
  | Chamfer string string string f64 "string option" "string option"
  | Hole string string string vec3 vec3 f64 string "string option" "f64 option" "f64 option"
  | Revolve string string string vec3 vec3 f64 "string option"
  | Mirror string string string vec3 vec3 "string option"
  | LinearPattern string string string vec3 int f64 "string option"
  | CircularPattern string string string vec3 vec3 f64 int "string option"
  | Shell string string string f64 "string option"
  | DraftPlan string string string f64 vec3 "string option"
  | Loft string string "string list" bool bool "string option"
  | Export string string "string list" "string list" string f64 bool bool
  | SketchSolve string string
  | Unknown string

definition or_unknown :: "string + dispatch_plan \<Rightarrow> dispatch_plan" where
  "or_unknown r = (case r of Inl arg \<Rightarrow> Unknown arg | Inr p \<Rightarrow> p)"

text \<open>The first argument as \<^verbatim>\<open>to_str\<close> reads it.\<close>

definition first_text :: "os_string list \<Rightarrow> string option" where
  "first_text args = (case args of [] \<Rightarrow> None | a # _ \<Rightarrow> to_str a)"

section \<open>Project commands\<close>

fun adversarial_loop ::
  "os_string list \<Rightarrow> string option \<Rightarrow> string option \<Rightarrow> string option \<times> string option \<times> string option" where
  "adversarial_loop [] kind out = (kind, out, None)"
| "adversarial_loop (a # rest) kind out =
     (let argument = lossy a in
      case strip_prefix ''--adversarial='' argument of
        Some v \<Rightarrow>
          if kind \<noteq> None then (Some v, out, Some argument) else adversarial_loop rest (Some v) out
      | None \<Rightarrow>
          (case rest of
             [] \<Rightarrow> (kind, out, Some argument)
           | v # rest' \<Rightarrow>
               if argument = ''--adversarial'' then
                 (if kind \<noteq> None then (Some (lossy v), out, Some argument)
                  else adversarial_loop rest' (Some (lossy v)) out)
               else if argument = ''--output-dir'' then
                 (if out \<noteq> None then (kind, Some (lossy v), Some argument)
                  else adversarial_loop rest' kind (Some (lossy v)))
               else (kind, out, Some argument)))"

definition parse_adversarial_run :: "os_string list \<Rightarrow> dispatch_plan" where
  "parse_adversarial_run args =
     (case args of
        [] \<Rightarrow> Unknown ''lbracket''
      | a # rest \<Rightarrow>
          if a \<noteq> ''lbracket'' then Unknown (lossy a)
          else (case adversarial_loop rest None None of (kind, out, e) \<Rightarrow> Adversarial kind out e))"

fun rehearse_loop ::
  "os_string list \<Rightarrow> string option \<Rightarrow> string option \<Rightarrow> string option \<times> string option \<times> string option" where
  "rehearse_loop [] out candidate = (out, candidate, None)"
| "rehearse_loop [a] out candidate = (out, candidate, Some (lossy a))"
| "rehearse_loop (a # v # rest) out candidate =
     (if lossy a = ''--output-dir'' then rehearse_loop rest (Some (lossy v)) candidate
      else if lossy a = ''--release-candidate'' then rehearse_loop rest out (Some (lossy v))
      else (out, candidate, Some (lossy a)))"

definition parse_rehearse :: "os_string list \<Rightarrow> dispatch_plan" where
  "parse_rehearse args =
     (case rehearse_loop args None None of (out, candidate, e) \<Rightarrow> Rehearse out candidate e)"

definition parse_save :: "os_string list \<Rightarrow> dispatch_plan" where
  "parse_save args =
     or_unknown (
       and_then (ok_or (first_text args) ''save'') (\<lambda>bundle.
       and_then (ensure (\<not> is_flag bundle) bundle) (\<lambda>_.
       and_then (pair_loop [text_flag ''--feature-id'', text_flag ''--kind''] (tl args) no_slots) (\<lambda>s.
       and_then (need text_at s ''--feature-id'') (\<lambda>feature_id.
       and_then (need text_at s ''--kind'') (\<lambda>kind.
       Inr (Save bundle feature_id kind)))))))"

definition parse_load :: "os_string list \<Rightarrow> dispatch_plan" where
  "parse_load args =
     (case args of
        [] \<Rightarrow> Unknown ''load''
      | a # rest \<Rightarrow> if rest = [] \<and> \<not> is_flag (lossy a) then Load (lossy a) else Unknown (lossy a))"

definition parse_identity :: "os_string list \<Rightarrow> dispatch_plan" where
  "parse_identity args =
     (case args of
        [] \<Rightarrow> Unknown ''identity''
      | [a] \<Rightarrow> if \<not> is_flag (lossy a) then Identity (lossy a) else Unknown (lossy a)
      | [a, b] \<Rightarrow> if a = ''--bundle'' then Identity (lossy b) else Unknown (lossy a)
      | a # _ \<Rightarrow> Unknown (lossy a))"

text \<open>In \<^verbatim>\<open>parse_apply\<close> the bundle is looked for before the flags are.\<close>

fun apply_loop :: "flag_table \<Rightarrow> os_string list \<Rightarrow> flag_slots \<Rightarrow> string + flag_slots" where
  "apply_loop table [] s = Inr s"
| "apply_loop table (a # rest) s =
     (if \<not> is_flag (lossy a) \<and> text_at s ''--bundle'' = None
      then apply_loop table rest (s(''--bundle'' \<mapsto> TextValue (lossy a)))
      else
        (case rest of
           [] \<Rightarrow> Inl (lossy a)
         | v # rest' \<Rightarrow>
             (case map_of table (lossy a) of
                Some arm \<Rightarrow> and_then (arm v s) (apply_loop table rest')
              | None \<Rightarrow> Inl (lossy a))))"

definition apply_flags :: flag_table where
  "apply_flags =
     [text_flag ''--bundle'', text_flag ''--expected-revision'', text_flag ''--operation'',
      text_flag ''--feature-id'', text_flag ''--kind'']"

definition parse_apply :: "os_string list \<Rightarrow> dispatch_plan" where
  "parse_apply args =
     or_unknown (
       and_then (apply_loop apply_flags args no_slots) (\<lambda>s.
       case (text_at s ''--bundle'', text_at s ''--expected-revision'', text_at s ''--operation'',
             text_at s ''--feature-id'') of
         (Some bundle, Some expected_revision, Some operation, Some feature_id) \<Rightarrow>
           Inr (Apply bundle expected_revision operation feature_id (text_at s ''--kind''))
       | _ \<Rightarrow> Inl ''apply''))"

definition bracket_flags :: flag_table where
  "bracket_flags =
     [text_flag ''--bracket-id'', dimension_flag ''--length'', dimension_flag ''--width'',
      dimension_flag ''--height'', dimension_flag ''--thickness'']"

definition parse_bracket :: "os_string list \<Rightarrow> dispatch_plan" where
  "parse_bracket args =
     or_unknown (
       and_then (ok_or (first_text args) ''bracket'') (\<lambda>bundle.
       and_then (ensure (\<not> is_flag bundle) bundle) (\<lambda>_.
       and_then (pair_loop bracket_flags (tl args) no_slots) (\<lambda>s.
       and_then (need text_at s ''--bracket-id'') (\<lambda>bracket_id.
       and_then (need number_at s ''--length'') (\<lambda>l.
       and_then (need number_at s ''--width'') (\<lambda>w.
       and_then (need number_at s ''--height'') (\<lambda>h.
       and_then (need number_at s ''--thickness'') (\<lambda>t.
       Inr (Bracket bundle bracket_id l w h t))))))))))"

section \<open>Component commands\<close>

definition dashes_to_underscores :: "string \<Rightarrow> string" where
  "dashes_to_underscores s = map (\<lambda>c. if c = CHR ''-'' then CHR ''_'' else c) s"

definition json_vec3 :: "vec3 \<Rightarrow> json" where
  "json_vec3 v = (case v of (x, y, z) \<Rightarrow> JArray [json_f64 x, json_f64 y, json_f64 z])"

definition component_value :: "string \<Rightarrow> string \<Rightarrow> string \<Rightarrow> string + json" where
  "component_value flag key v =
     (if key = ''transform'' then and_then (parse_vec3 v ''--transform'') (\<lambda>t. Inr (json_vec3 t))
      else if key \<in> {''length'', ''width'', ''height'', ''thickness'', ''value''} then
        (case parse_f64 v of
           Some x \<Rightarrow> if f64_finite x then Inr (json_f64 x) else Inl flag
         | None \<Rightarrow> Inl flag)
      else Inr (JString v))"

definition push_selected :: "string \<Rightarrow> document \<Rightarrow> document option" where
  "push_selected v request =
     (case bt_get request ''selected_feature_ids'' of
        None \<Rightarrow> Some (bt_insert ''selected_feature_ids'' (JArray [JString v]) request)
      | Some (JArray xs) \<Rightarrow>
          Some (bt_insert ''selected_feature_ids'' (JArray (xs @ [JString v])) request)
      | Some _ \<Rightarrow> None)"

text \<open>
  A flag \<^verbatim>\<open>--selected-feature-ids\<close> in front of a \<^verbatim>\<open>--feature-id\<close> of the capture
  command makes the \<^verbatim>\<open>expect\<close> of the source panic: the outer \<open>None\<close>.
\<close>

fun component_loop :: "string \<Rightarrow> os_string list \<Rightarrow> document \<Rightarrow> (string + document) option" where
  "component_loop command [] request = Some (Inr request)"
| "component_loop command (a # rest) request =
     (let flag = lossy a in
      case strip_prefix ''--'' flag of
        None \<Rightarrow> Some (Inl flag)
      | Some name \<Rightarrow>
          (case rest of
             [] \<Rightarrow> Some (Inl flag)
           | b # rest' \<Rightarrow>
               (case to_str b of
                  None \<Rightarrow> Some (Inl flag)
                | Some v \<Rightarrow>
                    let key = dashes_to_underscores name in
                    if command = ''capture-component'' \<and> key = ''feature_id'' then
                      Option.bind (push_selected v request) (component_loop command rest')
                    else
                      (case component_value flag key v of
                         Inl e \<Rightarrow> Some (Inl e)
                       | Inr member \<Rightarrow> component_loop command rest' (bt_insert key member request)))))"

definition parse_component :: "string \<Rightarrow> os_string list \<Rightarrow> dispatch_plan option" where
  "parse_component command args =
     (case first_text args of
        None \<Rightarrow> Some (Unknown command)
      | Some bundle \<Rightarrow>
          map_option (\<lambda>r. or_unknown (and_then r (\<lambda>request. Inr (Component command (JObject request)))))
            (component_loop command (tl args) [(''bundle_path'', JString bundle)]))"

section \<open>History commands\<close>

definition historical_edit_flags :: flag_table where
  "historical_edit_flags =
     [strict_flag ''--feature-id'', strict_flag ''--parameter'', dimension_flag ''--value'']"

definition parse_historical_edit :: "os_string list \<Rightarrow> dispatch_plan" where
  "parse_historical_edit args =
     or_unknown (
       and_then (ok_or (first_text args) ''historical-edit'') (\<lambda>bundle.
       and_then (pair_loop historical_edit_flags (tl args) no_slots) (\<lambda>s.
       and_then (need text_at s ''--feature-id'') (\<lambda>feature_id.
       and_then (need text_at s ''--parameter'') (\<lambda>parameter.
       and_then (need number_at s ''--value'') (\<lambda>v.
       Inr (HistoricalEditPlan bundle feature_id parameter v)))))))"

definition second_or :: "string \<Rightarrow> os_string list \<Rightarrow> string" where
  "second_or otherwise args = (case args of _ # a # _ \<Rightarrow> lossy a | _ \<Rightarrow> otherwise)"

definition parse_create_revision :: "os_string list \<Rightarrow> dispatch_plan" where
  "parse_create_revision args =
     or_unknown (
       and_then (ok_or (first_text args) ''create-revision'') (\<lambda>bundle.
       case args of
         [_, flag, n] \<Rightarrow>
           if flag \<noteq> ''--name'' then Inl (lossy flag)
           else and_then (ok_or (to_str n) ''--name'') (\<lambda>name. Inr (CreateRevision bundle name))
       | _ \<Rightarrow> Inl (second_or ''--name'' args)))"

definition parse_restore_revision :: "os_string list \<Rightarrow> dispatch_plan" where
  "parse_restore_revision args =
     or_unknown (
       and_then (ok_or (first_text args) ''restore-revision'') (\<lambda>bundle.
       case args of
         [_, flag, f, name_flag, n] \<Rightarrow>
           if flag \<noteq> ''--feature-id'' \<or> name_flag \<noteq> ''--name'' then Inl (lossy flag)
           else
             and_then (ok_or (to_str f) ''--feature-id'') (\<lambda>feature_id.
             and_then (ok_or (to_str n) ''--name'') (\<lambda>name.
             Inr (RestoreRevision bundle feature_id name)))
       | _ \<Rightarrow> Inl (second_or ''--feature-id'' args)))"

definition parse_named_revision :: "os_string list \<Rightarrow> bool \<Rightarrow> dispatch_plan" where
  "parse_named_revision args creates =
     (if creates then parse_create_revision args else parse_restore_revision args)"

definition parse_timeline :: "os_string list \<Rightarrow> dispatch_plan" where
  "parse_timeline args =
     or_unknown (
       and_then (ok_or (first_text args) ''timeline'') (\<lambda>bundle.
       case args of
         [_, flag, f] \<Rightarrow>
           if flag \<noteq> ''--feature-id'' then Inl (lossy flag)
           else
             and_then (ok_or (to_str f) ''--feature-id'') (\<lambda>feature_id.
             Inr (Timeline bundle feature_id))
       | _ \<Rightarrow> Inl (second_or ''--feature-id'' args)))"

definition parse_replay_verify :: "os_string list \<Rightarrow> dispatch_plan" where
  "parse_replay_verify args =
     (case args of
        [] \<Rightarrow> Unknown ''replay-verify''
      | a # rest \<Rightarrow>
          if rest = [] \<and> to_str a \<noteq> None then ReplayVerify (lossy a) else Unknown (lossy a))"

definition parse_cursor_move :: "os_string list \<Rightarrow> string \<Rightarrow> dispatch_plan" where
  "parse_cursor_move args command =
     (case args of
        [a] \<Rightarrow>
          (case to_str a of
             None \<Rightarrow> Unknown (lossy a)
           | Some bundle \<Rightarrow> if command = ''undo'' then UndoPlan bundle else RedoPlan bundle)
      | [] \<Rightarrow> Unknown command
      | a # _ \<Rightarrow> Unknown (lossy a))"

section \<open>Geometry commands\<close>

definition extrude_flags :: flag_table where
  "extrude_flags =
     [text_flag ''--bundle'', text_flag ''--feature-id'', text_flag ''--profile-file'',
      number_flag ''--height'', text_flag ''--mode'', text_flag ''--target-feature-id'']"

definition parse_extrude :: "os_string list \<Rightarrow> dispatch_plan" where
  "parse_extrude args =
     (if args = [] then Unknown ''extrude''
      else or_unknown (
       and_then (flag_loop extrude_flags args no_slots) (\<lambda>s.
       and_then (need text_at s ''--bundle'') (\<lambda>bundle.
       and_then (need text_at s ''--feature-id'') (\<lambda>feature_id.
       and_then (need text_at s ''--profile-file'') (\<lambda>profile.
       and_then (need number_at s ''--height'') (\<lambda>h.
       and_then (need text_at s ''--mode'') (\<lambda>mode.
       Inr (Extrude bundle feature_id profile h mode (text_at s ''--target-feature-id''))))))))))"

definition boolean_fuse_flags :: flag_table where
  "boolean_fuse_flags =
     [text_flag ''--bundle'', text_flag ''--feature-id'', text_flag ''--base'',
      text_flag ''--tool'']"

definition parse_boolean_fuse :: "os_string list \<Rightarrow> dispatch_plan" where
  "parse_boolean_fuse args =
     (if args = [] then Unknown ''boolean-fuse''
      else or_unknown (
       and_then (flag_loop boolean_fuse_flags args no_slots) (\<lambda>s.
       and_then (need text_at s ''--bundle'') (\<lambda>bundle.
       and_then (need text_at s ''--feature-id'') (\<lambda>feature_id.
       and_then (need text_at s ''--base'') (\<lambda>base.
       and_then (need text_at s ''--tool'') (\<lambda>tool.
       Inr (BooleanFuse bundle feature_id base tool))))))))"

definition boolean_cut_flags :: flag_table where
  "boolean_cut_flags =
     [text_flag ''--bundle'', text_flag ''--feature-id'', text_flag ''--base'',
      text_flag ''--tool'']"

definition parse_boolean_cut :: "os_string list \<Rightarrow> dispatch_plan" where
  "parse_boolean_cut args =
     (if args = [] then Unknown ''boolean-cut''
      else or_unknown (
       and_then (flag_loop boolean_cut_flags args no_slots) (\<lambda>s.
       and_then (need text_at s ''--bundle'') (\<lambda>bundle.
       and_then (need text_at s ''--feature-id'') (\<lambda>feature_id.
       and_then (need text_at s ''--base'') (\<lambda>base.
       and_then (need text_at s ''--tool'') (\<lambda>tool.
       Inr (BooleanCut bundle feature_id base tool))))))))"

definition boolean_common_flags :: flag_table where
  "boolean_common_flags =
     [text_flag ''--bundle'', text_flag ''--feature-id'', text_flag ''--base'',
      text_flag ''--tool'']"

definition parse_boolean_common :: "os_string list \<Rightarrow> dispatch_plan" where
  "parse_boolean_common args =
     (if args = [] then Unknown ''boolean-common''
      else or_unknown (
       and_then (flag_loop boolean_common_flags args no_slots) (\<lambda>s.
       and_then (need text_at s ''--bundle'') (\<lambda>bundle.
       and_then (need text_at s ''--feature-id'') (\<lambda>feature_id.
       and_then (need text_at s ''--base'') (\<lambda>base.
       and_then (need text_at s ''--tool'') (\<lambda>tool.
       Inr (BooleanCommon bundle feature_id base tool))))))))"

definition fillet_flags :: flag_table where
  "fillet_flags =
     [text_flag ''--bundle'', text_flag ''--feature-id'', text_flag ''--base'',
      number_flag ''--radius'', text_flag ''--selected-edge-file'',
      text_flag ''--expected-revision'']"

definition parse_fillet :: "os_string list \<Rightarrow> dispatch_plan" where
  "parse_fillet args =
     (if args = [] then Unknown ''fillet''
      else or_unknown (
       and_then (flag_loop fillet_flags args no_slots) (\<lambda>s.
       and_then (need text_at s ''--bundle'') (\<lambda>bundle.
       and_then (need text_at s ''--feature-id'') (\<lambda>feature_id.
       and_then (need text_at s ''--base'') (\<lambda>base.
       and_then (need number_at s ''--radius'') (\<lambda>radius.
       Inr (Fillet bundle feature_id base radius
         (text_at s ''--selected-edge-file'') (text_at s ''--expected-revision'')))))))))"

definition chamfer_flags :: flag_table where
  "chamfer_flags =
     [text_flag ''--bundle'', text_flag ''--feature-id'', text_flag ''--base'',
      number_flag ''--distance'', text_flag ''--selected-edge-file'',
      text_flag ''--expected-revision'']"

definition parse_chamfer :: "os_string list \<Rightarrow> dispatch_plan" where
  "parse_chamfer args =
     (if args = [] then Unknown ''chamfer''
      else or_unknown (
       and_then (flag_loop chamfer_flags args no_slots) (\<lambda>s.
       and_then (need text_at s ''--bundle'') (\<lambda>bundle.
       and_then (need text_at s ''--feature-id'') (\<lambda>feature_id.
       and_then (need text_at s ''--base'') (\<lambda>base.
       and_then (need number_at s ''--distance'') (\<lambda>distance.
       Inr (Chamfer bundle feature_id base distance
         (text_at s ''--selected-edge-file'') (text_at s ''--expected-revision'')))))))))"

definition hole_flags :: flag_table where
  "hole_flags =
     [text_flag ''--bundle'', text_flag ''--feature-id'', text_flag ''--base'',
      choice_flag [''drilled'', ''tapped''] ''--hole-kind'', text_flag ''--thread-designation'',
      number_flag ''--thread-pitch'', number_flag ''--thread-depth'', vector_flag ''--position'',
      vector_flag ''--direction'', number_flag ''--diameter'']"

definition parse_hole :: "os_string list \<Rightarrow> dispatch_plan" where
  "parse_hole args =
     (if args = [] then Unknown ''hole''
      else or_unknown (
       and_then (flag_loop hole_flags args no_slots) (\<lambda>s.
       and_then (need text_at s ''--bundle'') (\<lambda>bundle.
       and_then (need text_at s ''--feature-id'') (\<lambda>feature_id.
       and_then (need text_at s ''--base'') (\<lambda>base.
       and_then (need vector_at s ''--position'') (\<lambda>position.
       and_then (need vector_at s ''--direction'') (\<lambda>direction.
       and_then (need number_at s ''--diameter'') (\<lambda>diameter.
       Inr (Hole bundle feature_id base position direction diameter
         (case text_at s ''--hole-kind'' of None \<Rightarrow> ''drilled'' | Some k \<Rightarrow> k)
         (text_at s ''--thread-designation'') (number_at s ''--thread-pitch'')
         (number_at s ''--thread-depth'')))))))))))"

definition revolve_flags :: flag_table where
  "revolve_flags =
     [text_flag ''--bundle'', text_flag ''--feature-id'', text_flag ''--expected-revision'',
      text_flag ''--profile-file'', vector_flag ''--axis-point'',
      vector_flag ''--axis-direction'', number_flag ''--angle'']"

definition parse_revolve :: "os_string list \<Rightarrow> dispatch_plan" where
  "parse_revolve args =
     (if args = [] then Unknown ''revolve''
      else or_unknown (
       and_then (flag_loop revolve_flags args no_slots) (\<lambda>s.
       and_then (need text_at s ''--bundle'') (\<lambda>bundle.
       and_then (need text_at s ''--feature-id'') (\<lambda>feature_id.
       and_then (need text_at s ''--profile-file'') (\<lambda>profile.
       and_then (need vector_at s ''--axis-point'') (\<lambda>axis_point.
       and_then (need vector_at s ''--axis-direction'') (\<lambda>axis_direction.
       and_then (need number_at s ''--angle'') (\<lambda>angle.
       Inr (Revolve bundle feature_id profile axis_point axis_direction angle
         (text_at s ''--expected-revision'')))))))))))"

definition mirror_flags :: flag_table where
  "mirror_flags =
     [text_flag ''--bundle'', text_flag ''--feature-id'', text_flag ''--expected-revision'',
      text_flag ''--base'', vector_flag ''--plane-point'', vector_flag ''--plane-normal'']"

definition parse_mirror :: "os_string list \<Rightarrow> dispatch_plan" where
  "parse_mirror args =
     (if args = [] then Unknown ''mirror''
      else or_unknown (
       and_then (flag_loop mirror_flags args no_slots) (\<lambda>s.
       and_then (need text_at s ''--bundle'') (\<lambda>bundle.
       and_then (need text_at s ''--feature-id'') (\<lambda>feature_id.
       and_then (need text_at s ''--base'') (\<lambda>base.
       and_then (need vector_at s ''--plane-point'') (\<lambda>plane_point.
       and_then (need vector_at s ''--plane-normal'') (\<lambda>plane_normal.
       Inr (Mirror bundle feature_id base plane_point plane_normal
         (text_at s ''--expected-revision''))))))))))"

definition linear_pattern_flags :: flag_table where
  "linear_pattern_flags =
     [text_flag ''--bundle'', text_flag ''--feature-id'', text_flag ''--expected-revision'',
      text_flag ''--base'', vector_flag ''--direction'', count_flag ''--count'',
      number_flag ''--spacing'']"

definition parse_linear_pattern :: "os_string list \<Rightarrow> dispatch_plan" where
  "parse_linear_pattern args =
     (if args = [] then Unknown ''linear-pattern''
      else or_unknown (
       and_then (flag_loop linear_pattern_flags args no_slots) (\<lambda>s.
       and_then (need text_at s ''--bundle'') (\<lambda>bundle.
       and_then (need text_at s ''--feature-id'') (\<lambda>feature_id.
       and_then (need text_at s ''--base'') (\<lambda>base.
       and_then (need vector_at s ''--direction'') (\<lambda>direction.
       and_then (need count_at s ''--count'') (\<lambda>count.
       and_then (need number_at s ''--spacing'') (\<lambda>spacing.
       Inr (LinearPattern bundle feature_id base direction count spacing
         (text_at s ''--expected-revision'')))))))))))"

definition circular_pattern_flags :: flag_table where
  "circular_pattern_flags =
     [text_flag ''--bundle'', text_flag ''--feature-id'', text_flag ''--expected-revision'',
      text_flag ''--base'', vector_flag ''--axis-point'', vector_flag ''--axis-normal'',
      number_flag ''--angle-step'', count_flag ''--count'']"

definition parse_circular_pattern :: "os_string list \<Rightarrow> dispatch_plan" where
  "parse_circular_pattern args =
     (if args = [] then Unknown ''circular-pattern''
      else or_unknown (
       and_then (flag_loop circular_pattern_flags args no_slots) (\<lambda>s.
       and_then (need text_at s ''--bundle'') (\<lambda>bundle.
       and_then (need text_at s ''--feature-id'') (\<lambda>feature_id.
       and_then (need text_at s ''--base'') (\<lambda>base.
       and_then (need vector_at s ''--axis-point'') (\<lambda>axis_point.
       and_then (need vector_at s ''--axis-normal'') (\<lambda>axis_normal.
       and_then (need number_at s ''--angle-step'') (\<lambda>angle_step.
       and_then (need count_at s ''--count'') (\<lambda>count.
       Inr (CircularPattern bundle feature_id base axis_point axis_normal angle_step count
         (text_at s ''--expected-revision''))))))))))))"

definition shell_flags :: flag_table where
  "shell_flags =
     [text_flag ''--bundle'', text_flag ''--feature-id'', text_flag ''--base'',
      number_flag ''--thickness'', text_flag ''--expected-revision'']"

definition parse_shell :: "os_string list \<Rightarrow> dispatch_plan" where
  "parse_shell args =
     (if args = [] then Unknown ''shell''
      else or_unknown (
       and_then (flag_loop shell_flags args no_slots) (\<lambda>s.
       and_then (need text_at s ''--bundle'') (\<lambda>bundle.
       and_then (need text_at s ''--feature-id'') (\<lambda>feature_id.
       and_then (need text_at s ''--base'') (\<lambda>base.
       and_then (need number_at s ''--thickness'') (\<lambda>thickness.
       Inr (Shell bundle feature_id base thickness (text_at s ''--expected-revision'')))))))))"

definition draft_flags :: flag_table where
  "draft_flags =
     [text_flag ''--bundle'', text_flag ''--feature-id'', text_flag ''--base'',
      finite_flag ''--angle'', pull_flag ''--pull-direction'', text_flag ''--expected-revision'']"

definition parse_draft :: "os_string list \<Rightarrow> dispatch_plan" where
  "parse_draft args =
     (if args = [] then Unknown ''draft''
      else or_unknown (
       and_then (flag_loop draft_flags args no_slots) (\<lambda>s.
       and_then (need text_at s ''--bundle'') (\<lambda>bundle.
       and_then (need text_at s ''--feature-id'') (\<lambda>feature_id.
       and_then (need text_at s ''--base'') (\<lambda>base.
       and_then (need number_at s ''--angle'') (\<lambda>angle.
       and_then (need vector_at s ''--pull-direction'') (\<lambda>pull_direction.
       Inr (DraftPlan bundle feature_id base angle pull_direction (text_at s ''--expected-revision''))))))))))"

definition loft_flags :: flag_table where
  "loft_flags =
     [text_flag ''--bundle'', text_flag ''--feature-id'', push_flag ''--profile-file'',
      bool_flag ''--is-solid'', bool_flag ''--ruled'', text_flag ''--expected-revision'']"

definition parse_loft :: "os_string list \<Rightarrow> dispatch_plan" where
  "parse_loft args =
     (if args = [] then Unknown ''loft''
      else or_unknown (
       and_then (flag_loop loft_flags args no_slots) (\<lambda>s.
       and_then (need text_at s ''--bundle'') (\<lambda>bundle.
       and_then (need text_at s ''--feature-id'') (\<lambda>feature_id.
       and_then (ensure (2 \<le> length (texts_at s ''--profile-file'')) ''--profile-file'') (\<lambda>_.
       Inr (Loft bundle feature_id (texts_at s ''--profile-file'')
         (case bool_at s ''--is-solid'' of None \<Rightarrow> True | Some b \<Rightarrow> b)
         (case bool_at s ''--ruled'' of None \<Rightarrow> False | Some b \<Rightarrow> b)
         (text_at s ''--expected-revision''))))))))"

definition reattach_edge_flags :: "(string \<Rightarrow> string + json) \<Rightarrow> flag_table" where
  "reattach_edge_flags from_str =
     [text_flag ''--bundle'', text_flag ''--expected-revision'', text_flag ''--edit-feature-id'',
      text_flag ''--edit-kind'', text_flag ''--base'', number_flag ''--radius'',
      json_flag from_str ''--reference'', json_flag from_str ''--edit-target'',
      vector_flag ''--plane-point'', vector_flag ''--plane-normal'']"

definition parse_reattach_edge ::
  "(string \<Rightarrow> string + json) \<Rightarrow> os_string list \<Rightarrow> dispatch_plan" where
  "parse_reattach_edge from_str args =
     (if args = [] then Unknown ''reattach-edge''
      else or_unknown (
       and_then (flag_loop (reattach_edge_flags from_str) args no_slots) (\<lambda>s.
       and_then (need text_at s ''--bundle'') (\<lambda>bundle.
       and_then (need text_at s ''--expected-revision'') (\<lambda>expected_revision.
       and_then (need text_at s ''--edit-feature-id'') (\<lambda>edit_feature_id.
       and_then (need text_at s ''--edit-kind'') (\<lambda>edit_kind.
       and_then (need text_at s ''--base'') (\<lambda>base.
       and_then (need number_at s ''--radius'') (\<lambda>radius.
       and_then (need json_at s ''--reference'') (\<lambda>reference.
       and_then (need json_at s ''--edit-target'') (\<lambda>edit_target.
       let plane_point = vector_at s ''--plane-point''; plane_normal = vector_at s ''--plane-normal'' in
       and_then (ensure (\<not> (edit_kind = ''split'' \<and> (plane_point = None \<or> plane_normal = None)))
         ''--plane-point/--plane-normal'') (\<lambda>_.
       and_then (ensure (\<not> (edit_kind = ''fillet'' \<and> (plane_point \<noteq> None \<or> plane_normal \<noteq> None)))
         ''--plane-point/--plane-normal'') (\<lambda>_.
       Inr (ReattachEdge bundle expected_revision edit_feature_id edit_kind base radius reference
         edit_target plane_point plane_normal))))))))))))))"

section \<open>Commands with loops of their own\<close>

definition nonempty_at :: "flag_slots \<Rightarrow> string \<Rightarrow> string option" where
  "nonempty_at s f = (case text_at s f of Some [] \<Rightarrow> None | r \<Rightarrow> r)"

definition number_text_at :: "flag_slots \<Rightarrow> string \<Rightarrow> f64 option" where
  "number_text_at s f = Option.bind (text_at s f) parse_f64"

definition parse_fit_dimension :: "os_string list \<Rightarrow> dispatch_plan" where
  "parse_fit_dimension args =
     or_unknown (
       and_then (once_loop
         [''--bundle'', ''--expected-revision'', ''--source-feature-id'', ''--target-feature-id'',
          ''--source-dimension-id'', ''--target-dimension-id'', ''--dimension'', ''--clearance'']
         args no_slots) (\<lambda>s.
       and_then (need nonempty_at s ''--bundle'') (\<lambda>bundle.
       and_then (need nonempty_at s ''--expected-revision'') (\<lambda>expected_revision.
       and_then (need nonempty_at s ''--source-feature-id'') (\<lambda>source_feature_id.
       and_then (need nonempty_at s ''--target-feature-id'') (\<lambda>target_feature_id.
       and_then (need nonempty_at s ''--source-dimension-id'') (\<lambda>source_dimension_id.
       and_then (need nonempty_at s ''--target-dimension-id'') (\<lambda>target_dimension_id.
       and_then (need nonempty_at s ''--dimension'') (\<lambda>dimension.
       and_then (need number_text_at s ''--clearance'') (\<lambda>clearance.
       Inr (FitDimension bundle expected_revision source_feature_id target_feature_id
         source_dimension_id target_dimension_id dimension clearance)))))))))))"

fun sketch_solve_loop :: "os_string list \<Rightarrow> flag_slots \<Rightarrow> string + flag_slots" where
  "sketch_solve_loop [] s = Inr s"
| "sketch_solve_loop (a # rest) s =
     (case to_str a of
        None \<Rightarrow> Inl ''sketch-solve''
      | Some flag \<Rightarrow>
          (case rest of
             [] \<Rightarrow> Inl flag
           | b # rest' \<Rightarrow>
               (case to_str b of
                  None \<Rightarrow> Inl flag
                | Some v \<Rightarrow>
                    if flag \<in> {''--bundle'', ''--request-file''}
                    then sketch_solve_loop rest' (s(flag \<mapsto> TextValue v)) else Inl flag)))"

definition parse_sketch_solve :: "os_string list \<Rightarrow> dispatch_plan" where
  "parse_sketch_solve args =
     or_unknown (
       and_then (sketch_solve_loop args no_slots) (\<lambda>s.
       case (text_at s ''--bundle'', text_at s ''--request-file'') of
         (Some bundle, Some request_file) \<Rightarrow>
           if bundle \<noteq> [] \<and> request_file \<noteq> [] then Inr (SketchSolve bundle request_file)
           else Inl ''sketch-solve''
       | _ \<Rightarrow> Inl ''sketch-solve''))"

definition export_flags :: flag_table where
  "export_flags =
     [text_flag ''--bundle'', text_flag ''--feature-id'', list_flag ''--body-ids'',
      list_flag ''--formats'', text_flag ''--output-dir'',
      dimension_flag ''--tessellation-deflection'']"

fun export_loop :: "os_string list \<Rightarrow> flag_slots \<Rightarrow> string + flag_slots" where
  "export_loop [] s = Inr s"
| "export_loop (a # rest) s =
     (let flag = lossy a in
      if flag \<in> {''--override-warnings'', ''--accept-stale-geometry''}
      then export_loop rest (s(flag \<mapsto> BoolValue True))
      else
        (case rest of
           [] \<Rightarrow> Inl flag
         | v # rest' \<Rightarrow>
             (case map_of export_flags flag of
                Some arm \<Rightarrow> and_then (arm v s) (export_loop rest')
              | None \<Rightarrow> Inl flag)))"

definition default_deflection :: f64 where
  "default_deflection = f64_lit (1 / 2)"

definition parse_export :: "os_string list \<Rightarrow> dispatch_plan" where
  "parse_export args =
     or_unknown (
       and_then (export_loop args no_slots) (\<lambda>s.
       case (text_at s ''--bundle'', text_at s ''--feature-id'', s ''--formats'',
             text_at s ''--output-dir'') of
         (Some bundle, Some feature_id, Some _, Some output_dir) \<Rightarrow>
           Inr (Export bundle feature_id (texts_at s ''--body-ids'') (texts_at s ''--formats'')
             output_dir
             (case number_at s ''--tessellation-deflection'' of
                None \<Rightarrow> default_deflection | Some x \<Rightarrow> x)
             (bool_at s ''--override-warnings'' = Some True)
             (bool_at s ''--accept-stale-geometry'' = Some True))
       | _ \<Rightarrow> Inl ''export''))"

definition required_number :: "flag_slots \<Rightarrow> string \<Rightarrow> string + f64" where
  "required_number s f =
     and_then (need text_at s f) (\<lambda>v. ok_or (parse_f64 v) (in_message f v))"

definition required_count :: "flag_slots \<Rightarrow> string \<Rightarrow> string + int" where
  "required_count s f =
     and_then (need text_at s f) (\<lambda>v. ok_or (parse_u32 v) (in_message f v))"

definition required_numbers :: "flag_slots \<Rightarrow> string \<Rightarrow> nat \<Rightarrow> string + f64 list" where
  "required_numbers s f arity =
     and_then (need text_at s f) (\<lambda>v.
       let parts = split_at_char (CHR '','') v in
       and_then (ensure (length parts = arity) (in_message f v)) (\<lambda>_.
       ok_or (those (map parse_f64 parts)) (in_message f v)))"

definition parse_boolean_pattern :: "os_string list \<Rightarrow> dispatch_plan" where
  "parse_boolean_pattern args =
     or_unknown (
       and_then (once_loop
         [''--bundle'', ''--feature-id'', ''--base'', ''--origin'', ''--spacing'', ''--columns'',
          ''--rows'', ''--diameter''] args no_slots) (\<lambda>s.
       and_then (need text_at s ''--bundle'') (\<lambda>bundle.
       and_then (need text_at s ''--feature-id'') (\<lambda>feature_id.
       and_then (need text_at s ''--base'') (\<lambda>base.
       and_then (required_numbers s ''--origin'' 3) (\<lambda>origin.
       and_then (required_numbers s ''--spacing'' 2) (\<lambda>spacing.
       and_then (required_count s ''--columns'') (\<lambda>columns.
       and_then (required_count s ''--rows'') (\<lambda>rows.
       and_then (required_number s ''--diameter'') (\<lambda>diameter.
       and_then (ensure
         (list_all f64_finite origin \<and> list_all (\<lambda>x. f64_finite x \<and> f64_pos x) spacing \<and>
          1 \<le> columns \<and> columns \<le> 1000 \<and> 1 \<le> rows \<and> rows \<le> 1000 \<and>
          f64_finite diameter \<and> \<not> f64_le diameter (Fin 0))
         ''boolean-pattern numeric bounds'') (\<lambda>_.
       Inr (BooleanPattern bundle feature_id base (origin ! 0, origin ! 1, origin ! 2)
         (spacing ! 0, spacing ! 1) columns rows diameter))))))))))))"

section \<open>The plan of a command line\<close>

definition vec3_finite :: "vec3 \<Rightarrow> bool" where
  "vec3_finite v = (case v of (x, y, z) \<Rightarrow> f64_finite x \<and> f64_finite y \<and> f64_finite z)"

definition is_none_or :: "('a \<Rightarrow> bool) \<Rightarrow> 'a option \<Rightarrow> bool" where
  "is_none_or P x = (case x of None \<Rightarrow> True | Some y \<Rightarrow> P y)"

fun plan_finite :: "dispatch_plan \<Rightarrow> bool" where
  "plan_finite (Extrude _ _ _ h _ _) = f64_finite h"
| "plan_finite (Fillet _ _ _ r _ _) = f64_finite r"
| "plan_finite (Chamfer _ _ _ d _ _) = f64_finite d"
| "plan_finite (Shell _ _ _ t _) = f64_finite t"
| "plan_finite (DraftPlan _ _ _ a _ _) = f64_finite a"
| "plan_finite (Hole _ _ _ p d r _ _ tp td) =
     (vec3_finite p \<and> vec3_finite d \<and> f64_finite r \<and> is_none_or f64_finite tp \<and>
      is_none_or f64_finite td)"
| "plan_finite (Revolve _ _ _ p d a _) = (vec3_finite p \<and> vec3_finite d \<and> f64_finite a)"
| "plan_finite (Mirror _ _ _ p n _) = (vec3_finite p \<and> vec3_finite n)"
| "plan_finite (LinearPattern _ _ _ d _ x _) = (vec3_finite d \<and> f64_finite x)"
| "plan_finite (CircularPattern _ _ _ p n a _ _) = (vec3_finite p \<and> vec3_finite n \<and> f64_finite a)"
| "plan_finite (Export _ _ _ _ _ d _ _) = f64_finite d"
| "plan_finite (Bracket _ _ l w h t) = (f64_finite l \<and> f64_finite w \<and> f64_finite h \<and> f64_finite t)"
| "plan_finite (FitDimension _ _ _ _ _ _ _ c) = f64_finite c"
| "plan_finite (ReattachEdge _ _ _ _ _ r _ _ p n) =
     (f64_finite r \<and> is_none_or vec3_finite p \<and> is_none_or vec3_finite n)"
| "plan_finite (BooleanPattern _ _ _ og (sx, sy) _ _ d) =
     (vec3_finite og \<and> f64_finite sx \<and> f64_finite sy \<and> f64_finite d)"
| "plan_finite (HistoricalEditPlan _ _ _ v) = f64_finite v"
| "plan_finite _ = True"

definition reject_non_finite :: "dispatch_plan \<Rightarrow> dispatch_plan" where
  "reject_non_finite p = (if plan_finite p then p else Unknown ''non-finite numeric value'')"

text \<open>\<open>None\<close> is a panic.\<close>

definition command_parsers ::
  "(string \<Rightarrow> string + json) \<Rightarrow> (string \<times> (os_string list \<Rightarrow> dispatch_plan option)) list" where
  "command_parsers from_str =
     [(''rehearse'', Some \<circ> parse_rehearse), (''save'', Some \<circ> parse_save),
      (''load'', Some \<circ> parse_load), (''identity'', Some \<circ> parse_identity),
      (''apply'', Some \<circ> parse_apply), (''bracket'', Some \<circ> parse_bracket),
      (''define-component'', parse_component ''define-component''),
      (''create-component-instance'', parse_component ''create-component-instance''),
      (''transform-component-instance'', parse_component ''transform-component-instance''),
      (''make-component-independent'', parse_component ''make-component-independent''),
      (''edit-component-parameter'', parse_component ''edit-component-parameter''),
      (''component-state'', parse_component ''component-state''),
      (''capture-component'', parse_component ''capture-component''),
      (''historical-edit'', Some \<circ> parse_historical_edit),
      (''create-revision'', \<lambda>args. Some (parse_named_revision args True)),
      (''restore-revision'', \<lambda>args. Some (parse_named_revision args False)),
      (''timeline'', Some \<circ> parse_timeline), (''replay-verify'', Some \<circ> parse_replay_verify),
      (''undo'', \<lambda>args. Some (parse_cursor_move args ''undo'')),
      (''redo'', \<lambda>args. Some (parse_cursor_move args ''redo'')),
      (''extrude'', Some \<circ> parse_extrude),
      (''reattach-edge'', Some \<circ> parse_reattach_edge from_str),
      (''fit-dimension'', Some \<circ> parse_fit_dimension),
      (''boolean-fuse'', Some \<circ> parse_boolean_fuse), (''boolean-cut'', Some \<circ> parse_boolean_cut),
      (''boolean-common'', Some \<circ> parse_boolean_common),
      (''boolean-pattern'', Some \<circ> parse_boolean_pattern),
      (''fillet'', Some \<circ> parse_fillet), (''chamfer'', Some \<circ> parse_chamfer),
      (''hole'', Some \<circ> parse_hole), (''revolve'', Some \<circ> parse_revolve),
      (''mirror'', Some \<circ> parse_mirror), (''linear-pattern'', Some \<circ> parse_linear_pattern),
      (''circular-pattern'', Some \<circ> parse_circular_pattern), (''shell'', Some \<circ> parse_shell),
      (''draft'', Some \<circ> parse_draft), (''loft'', Some \<circ> parse_loft),
      (''export'', Some \<circ> parse_export), (''sketch-solve'', Some \<circ> parse_sketch_solve)]"

definition parse_command ::
  "(string \<Rightarrow> string + json) \<Rightarrow> string \<Rightarrow> os_string list \<Rightarrow> dispatch_plan option" where
  "parse_command from_str command args =
     (if command = ''list'' \<and> args = [] then Some ListPlan
      else if command = ''new-project'' \<and> length args = 1 then Some (NewProject (lossy (hd args)))
      else case map_of (command_parsers from_str) command of
        Some parser \<Rightarrow> parser args
      | None \<Rightarrow> Some (Unknown command))"

definition plan_unregistered ::
  "(string \<Rightarrow> string + json) \<Rightarrow> os_string list \<Rightarrow> dispatch_plan option" where
  "plan_unregistered from_str args =
     (case args of
        [] \<Rightarrow> Some (Unknown [])
      | a # rest \<Rightarrow>
          if a = ''new-project'' then
            Some (case rest of [path] \<Rightarrow> NewProject (lossy path)
                  | [] \<Rightarrow> Unknown ''new-project'' | other # _ \<Rightarrow> Unknown (lossy other))
          else if a = ''run'' then Some (parse_adversarial_run rest)
          else if a \<noteq> ''--machine'' then Some (Unknown (lossy a))
          else
            (case first_text rest of
               None \<Rightarrow> Some (Unknown ''--machine'')
             | Some command \<Rightarrow>
                 map_option reject_non_finite (parse_command from_str command (tl rest))))"

text \<open>The name under which the registry is asked: of the short form, or the word behind the switch.\<close>

definition command_word :: "os_string list \<Rightarrow> string option" where
  "command_word args =
     (case args of
        [] \<Rightarrow> None
      | a # rest \<Rightarrow>
          if a = ''new-project'' then to_str a
          else if a = ''--machine'' then first_text rest else None)"

definition plan :: "(string \<Rightarrow> string + json) \<Rightarrow> os_string list \<Rightarrow> dispatch_plan option" where
  "plan from_str args =
     map_option (\<lambda>p.
       case p of
         Unknown arg \<Rightarrow> p
       | Adversarial kind out e \<Rightarrow> p
       | _ \<Rightarrow>
           (case command_word args of
              None \<Rightarrow> Unknown ''command''
            | Some name \<Rightarrow>
                (case find_by_name name of
                   None \<Rightarrow> Unknown name
                 | Some row \<Rightarrow> Registered (cs_id row) p)))
       (plan_unregistered from_str args)"

end
