(* ===== verification/Requests.thy ===== *)
theory Requests
  imports Plans
begin

text \<open>
  \<^verbatim>\<open>request_for\<close> of \<^verbatim>\<open>crates/cli/src/dispatch.rs\<close>: the request that
  a plan sends to the host, with the profile and reference files it reads.  The file system,
  \<^verbatim>\<open>serde_json\<close> and the bundle that \<^verbatim>\<open>save\<close> asks for its revision are the
  parameter \<open>cli_world\<close>.
\<close>

record cli_world =
  cw_read_to_string :: "string \<Rightarrow> string + string"
  cw_read :: "string \<Rightarrow> string + string"
  cw_from_str :: "string \<Rightarrow> string + json"
  cw_from_slice :: "string \<Rightarrow> string + json"
  cw_debug :: "json \<Rightarrow> string"
  cw_exists :: "string \<Rightarrow> bool"
  cw_open_revision :: "string \<Rightarrow> string + string"

definition json_count :: "int \<Rightarrow> json" where
  "json_count n = JNumber (PosInt (nat n))"

section \<open>Files\<close>

definition map_err :: "('e \<Rightarrow> 'f) \<Rightarrow> 'e + 'a \<Rightarrow> 'f + 'a" where
  "map_err f r = (case r of Inl e \<Rightarrow> Inl (f e) | Inr x \<Rightarrow> Inr x)"

definition read_selected_edge_reference :: "cli_world \<Rightarrow> string \<Rightarrow> string + json" where
  "read_selected_edge_reference w path =
     and_then (map_err (\<lambda>e. ''selected edge file: '' @ e) (cw_read w path)) (\<lambda>bytes.
     and_then (map_err (\<lambda>e. ''selected edge file is not valid JSON: '' @ e) (cw_from_slice w bytes))
       (\<lambda>v.
     if json_get ''provenance'' v = None \<or> json_get ''evidence'' v = None then
       Inl ''selected edge file must contain the nested provenance and evidence objects''
     else Inr v))"

definition read_array :: "cli_world \<Rightarrow> string \<Rightarrow> string + json list" where
  "read_array w path =
     and_then (map_err (\<lambda>e. ''profile file read failed: '' @ e) (cw_read_to_string w path)) (\<lambda>raw.
     and_then (map_err (\<lambda>e. ''profile JSON parse failed: '' @ e) (cw_from_str w raw)) (\<lambda>v.
     ok_or (as_array v) ''profile JSON must be a top-level array''))"

definition coordinate :: "cli_world \<Rightarrow> string \<Rightarrow> json \<Rightarrow> string + f64" where
  "coordinate w axis v =
     ok_or (as_f64 v) (''profile entry '' @ axis @ '' '' @ cw_debug w v @ '' must be a number'')"

definition profile_pair :: "cli_world \<Rightarrow> json \<Rightarrow> string + (f64 \<times> f64)" where
  "profile_pair w entry =
     (case as_array entry of
        None \<Rightarrow> Inl (''profile entry '' @ cw_debug w entry @ '' must be a [x, y] array'')
      | Some [a, b] \<Rightarrow>
          and_then (coordinate w ''x'' a) (\<lambda>x. and_then (coordinate w ''y'' b) (\<lambda>y. Inr (x, y)))
      | Some _ \<Rightarrow> Inl (''profile entry '' @ cw_debug w entry @ '' must contain exactly two numbers''))"

definition profile_triple :: "cli_world \<Rightarrow> json \<Rightarrow> string + vec3" where
  "profile_triple w entry =
     (case as_array entry of
        None \<Rightarrow> Inl (''profile entry '' @ cw_debug w entry @ '' must be a [x, y, z] array'')
      | Some [a, b, c] \<Rightarrow>
          and_then (coordinate w ''x'' a) (\<lambda>x. and_then (coordinate w ''y'' b) (\<lambda>y.
          and_then (coordinate w ''z'' c) (\<lambda>z. Inr (x, y, z))))
      | Some _ \<Rightarrow> Inl (''profile entry '' @ cw_debug w entry @ '' must contain exactly three numbers''))"

fun collect_ok :: "('a \<Rightarrow> 'e + 'b) \<Rightarrow> 'a list \<Rightarrow> 'e + 'b list" where
  "collect_ok f [] = Inr []"
| "collect_ok f (x # xs) =
     and_then (f x) (\<lambda>y. and_then (collect_ok f xs) (\<lambda>ys. Inr (y # ys)))"

definition read_profile :: "cli_world \<Rightarrow> string \<Rightarrow> string + (f64 \<times> f64) list" where
  "read_profile w path = and_then (read_array w path) (collect_ok (profile_pair w))"

definition read_profile_3d :: "cli_world \<Rightarrow> string \<Rightarrow> string + vec3 list" where
  "read_profile_3d w path = and_then (read_array w path) (collect_ok (profile_triple w))"

text \<open>\<^verbatim>\<open>serde_json::to_value\<close> of a list of pairs does not fail.\<close>

definition profile_json :: "cli_world \<Rightarrow> string \<Rightarrow> string + json" where
  "profile_json w path =
     and_then (read_profile w path) (\<lambda>profile.
       Inr (JArray (map (\<lambda>(x, y). JArray [json_f64 x, json_f64 y]) profile)))"

section \<open>Requests\<close>

definition save_request :: "cli_world \<Rightarrow> string \<Rightarrow> string \<Rightarrow> string \<Rightarrow> string + json" where
  "save_request w bundle feature_id kind =
     and_then
       (if cw_exists w bundle then
          map_err (\<lambda>e. ''save bundle cannot be opened: '' @ e) (cw_open_revision w bundle)
        else Inr ''empty-project'') (\<lambda>expected_revision.
     Inr (object_of
       [(''bundle_path'', JString bundle), (''feature_id'', JString feature_id),
        (''kind'', JString kind), (''expected_revision'', JString expected_revision)]))"

definition boolean_request :: "string \<Rightarrow> string \<Rightarrow> string \<Rightarrow> string \<Rightarrow> json" where
  "boolean_request bundle feature_id base tool =
     object_of
       [(''bundle_path'', JString bundle), (''feature_id'', JString feature_id),
        (''base_feature_id'', JString base), (''tool_feature_id'', JString tool)]"

definition edge_request ::
  "cli_world \<Rightarrow> string \<Rightarrow> string \<Rightarrow> string \<Rightarrow> string \<Rightarrow> f64 \<Rightarrow> string option \<Rightarrow> string option \<Rightarrow> string + json"
where
  "edge_request w quantity bundle feature_id base x selected_edge_file expected_revision =
     and_then
       (case selected_edge_file of
          None \<Rightarrow> Inr None
        | Some path \<Rightarrow> and_then (read_selected_edge_reference w path) (\<lambda>v. Inr (Some v)))
     (\<lambda>selected_edge.
     Inr (object_of
       ([(''bundle_path'', JString bundle), (''feature_id'', JString feature_id),
         (''base_feature_id'', JString base), (quantity, json_f64 x)] @
        if_some ''expected_revision'' JString expected_revision @
        if_some ''selected_edge'' id selected_edge)))"

definition sketch_solve_request :: "cli_world \<Rightarrow> string \<Rightarrow> string \<Rightarrow> string + json" where
  "sketch_solve_request w bundle request_file =
     and_then (map_err (\<lambda>e. ''sketch request file could not be read: '' @ e)
       (cw_read_to_string w request_file)) (\<lambda>contents.
     and_then (map_err (\<lambda>e. ''sketch request file is not JSON: '' @ e) (cw_from_str w contents))
       (\<lambda>request.
     and_then (ok_or (as_object request) ''sketch request file must contain a JSON object'') (\<lambda>members.
     Inr (JObject (bt_insert ''bundle_path'' (JString bundle) members)))))"

definition or_default :: "string option \<Rightarrow> string" where
  "or_default x = (case x of None \<Rightarrow> [] | Some v \<Rightarrow> v)"

definition only_bundle :: "string \<Rightarrow> json" where
  "only_bundle bundle = object_of [(''bundle_path'', JString bundle)]"

definition rehearse_request :: "string option \<Rightarrow> string option \<Rightarrow> json" where
  "rehearse_request output_dir release_candidate =
     object_of
       [(''output_dir'', JString (or_default output_dir)),
        (''release_candidate'', JString (or_default release_candidate))]"

definition apply_request ::
  "string \<Rightarrow> string \<Rightarrow> string \<Rightarrow> string \<Rightarrow>
   string option \<Rightarrow> json"
where
  "apply_request bundle expected_revision operation feature_id kind =
     object_of
       ([(''bundle_path'', JString bundle), (''expected_revision'', JString expected_revision),
         (''operation'', JString operation), (''feature_id'', JString feature_id)] @
        if_some ''kind'' JString kind)"

definition bracket_request :: "string \<Rightarrow> string \<Rightarrow> f64 \<Rightarrow> f64 \<Rightarrow> f64 \<Rightarrow> f64 \<Rightarrow> json" where
  "bracket_request bundle bracket_id l wd h t =
     object_of
       [(''bundle_path'', JString bundle), (''bracket_id'', JString bracket_id),
        (''length'', json_f64 l), (''width'', json_f64 wd), (''height'', json_f64 h),
        (''thickness'', json_f64 t)]"

definition historical_edit_request :: "string \<Rightarrow> string \<Rightarrow> string \<Rightarrow> f64 \<Rightarrow> json" where
  "historical_edit_request bundle feature_id parameter v =
     object_of
       [(''bundle_path'', JString bundle), (''feature_id'', JString feature_id),
        (''parameter'', JString parameter), (''value'', json_f64 v)]"

definition restore_revision_request :: "string \<Rightarrow> string \<Rightarrow> string \<Rightarrow> json" where
  "restore_revision_request bundle feature_id name =
     object_of
       [(''bundle_path'', JString bundle), (''feature_id'', JString feature_id),
        (''name'', JString name)]"

definition extrude_request ::
  "cli_world \<Rightarrow> string \<Rightarrow> string \<Rightarrow> string \<Rightarrow> f64 \<Rightarrow>
   string \<Rightarrow> string option \<Rightarrow> string + json"
where
  "extrude_request w bundle feature_id profile_file h mode target_feature_id =
     and_then (profile_json w profile_file) (\<lambda>profile.
     Inr (object_of
       ([(''bundle_path'', JString bundle), (''feature_id'', JString feature_id),
         (''profile'', profile), (''height'', json_f64 h), (''mode'', JString mode)] @
        if_some ''target_feature_id'' JString target_feature_id)))"

definition reattach_edge_request ::
  "string \<Rightarrow> string \<Rightarrow> string \<Rightarrow> string \<Rightarrow> string \<Rightarrow> f64 \<Rightarrow>
   json \<Rightarrow> json \<Rightarrow> vec3 option \<Rightarrow> vec3 option \<Rightarrow> json"
where
  "reattach_edge_request bundle expected_revision edit_feature_id edit_kind base radius
       reference edit_target plane_point plane_normal =
     object_of
       ([(''bundle_path'', JString bundle), (''expected_revision'', JString expected_revision),
         (''edit_feature_id'', JString edit_feature_id), (''edit_kind'', JString edit_kind),
         (''base_feature_id'', JString base), (''radius'', json_f64 radius),
         (''reference'', reference), (''edit_target'', edit_target)] @
        if_some ''plane_point'' json_vec3 plane_point @
        if_some ''plane_normal'' json_vec3 plane_normal)"

definition fit_dimension_request ::
  "string \<Rightarrow> string \<Rightarrow> string \<Rightarrow> string \<Rightarrow> string \<Rightarrow>
   string \<Rightarrow> string \<Rightarrow> f64 \<Rightarrow> json"
where
  "fit_dimension_request bundle expected_revision source_feature_id target_feature_id
       source_dimension_id target_dimension_id dimension clearance =
     object_of
       [(''bundle_path'', JString bundle), (''expected_revision'', JString expected_revision),
        (''source_feature_id'', JString source_feature_id),
        (''target_feature_id'', JString target_feature_id),
        (''source_dimension_id'', JString source_dimension_id),
        (''target_dimension_id'', JString target_dimension_id),
        (''dimension'', JString dimension), (''clearance'', json_f64 clearance)]"

definition boolean_pattern_request ::
  "string \<Rightarrow> string \<Rightarrow> string \<Rightarrow> vec3 \<Rightarrow> (f64 \<times> f64) \<Rightarrow>
   int \<Rightarrow> int \<Rightarrow> f64 \<Rightarrow> json"
where
  "boolean_pattern_request bundle feature_id base og sp columns rows diameter =
     object_of
       [(''bundle_path'', JString bundle), (''feature_id'', JString feature_id),
        (''base_feature_id'', JString base), (''origin'', json_vec3 og),
        (''spacing'', JArray [json_f64 (fst sp), json_f64 (snd sp)]),
        (''columns'', json_count columns), (''rows'', json_count rows),
        (''diameter'', json_f64 diameter)]"

definition hole_request ::
  "string \<Rightarrow> string \<Rightarrow> string \<Rightarrow> vec3 \<Rightarrow> vec3 \<Rightarrow> f64 \<Rightarrow>
   string \<Rightarrow> string option \<Rightarrow> f64 option \<Rightarrow> f64 option \<Rightarrow> json"
where
  "hole_request bundle feature_id base position direction diameter hole_kind
       thread_designation thread_pitch thread_depth =
     object_of
       ([(''bundle_path'', JString bundle), (''feature_id'', JString feature_id),
         (''base_feature_id'', JString base), (''position'', json_vec3 position),
         (''direction'', json_vec3 direction), (''diameter'', json_f64 diameter),
         (''hole_kind'', JString hole_kind)] @
        if_some ''thread_designation'' JString thread_designation @
        if_some ''thread_pitch'' json_f64 thread_pitch @
        if_some ''thread_depth'' json_f64 thread_depth)"

definition revolve_request ::
  "cli_world \<Rightarrow> string \<Rightarrow> string \<Rightarrow> string \<Rightarrow> vec3 \<Rightarrow>
   vec3 \<Rightarrow> f64 \<Rightarrow> string option \<Rightarrow> string + json"
where
  "revolve_request w bundle feature_id profile_file axis_point axis_direction angle
       expected_revision =
     and_then (profile_json w profile_file) (\<lambda>profile.
     Inr (object_of
       ([(''bundle_path'', JString bundle), (''feature_id'', JString feature_id),
         (''profile'', profile), (''axis_point'', json_vec3 axis_point),
         (''axis_direction'', json_vec3 axis_direction), (''angle'', json_f64 angle)] @
        if_some ''expected_revision'' JString expected_revision)))"

definition mirror_request ::
  "string \<Rightarrow> string \<Rightarrow> string \<Rightarrow> vec3 \<Rightarrow>
   vec3 \<Rightarrow> string option \<Rightarrow> json"
where
  "mirror_request bundle feature_id base plane_point plane_normal expected_revision =
     object_of
       ([(''bundle_path'', JString bundle), (''feature_id'', JString feature_id),
         (''base_feature_id'', JString base), (''plane_point'', json_vec3 plane_point),
         (''plane_normal'', json_vec3 plane_normal)] @
        if_some ''expected_revision'' JString expected_revision)"

definition linear_pattern_request ::
  "string \<Rightarrow> string \<Rightarrow> string \<Rightarrow> vec3 \<Rightarrow> int \<Rightarrow>
   f64 \<Rightarrow> string option \<Rightarrow> json"
where
  "linear_pattern_request bundle feature_id base direction n spacing expected_revision =
     object_of
       ([(''bundle_path'', JString bundle), (''feature_id'', JString feature_id),
         (''base_feature_id'', JString base), (''direction'', json_vec3 direction),
         (''count'', json_count n), (''spacing'', json_f64 spacing)] @
        if_some ''expected_revision'' JString expected_revision)"

definition circular_pattern_request ::
  "string \<Rightarrow> string \<Rightarrow> string \<Rightarrow> vec3 \<Rightarrow> vec3 \<Rightarrow>
   f64 \<Rightarrow> int \<Rightarrow> string option \<Rightarrow> json"
where
  "circular_pattern_request bundle feature_id base axis_point axis_normal angle_step n
       expected_revision =
     object_of
       ([(''bundle_path'', JString bundle), (''feature_id'', JString feature_id),
         (''base_feature_id'', JString base), (''axis_point'', json_vec3 axis_point),
         (''axis_normal'', json_vec3 axis_normal), (''angle_step'', json_f64 angle_step),
         (''count'', json_count n)] @
        if_some ''expected_revision'' JString expected_revision)"

definition shell_request :: "string \<Rightarrow> string \<Rightarrow> string \<Rightarrow> f64 \<Rightarrow> string option \<Rightarrow> json" where
  "shell_request bundle feature_id base thickness expected_revision =
     object_of
       [(''bundle_path'', JString bundle), (''feature_id'', JString feature_id),
        (''base_feature_id'', JString base), (''thickness'', json_f64 thickness),
        (''expected_revision'', or_null JString expected_revision)]"

definition draft_request ::
  "string \<Rightarrow> string \<Rightarrow> string \<Rightarrow> f64 \<Rightarrow>
   vec3 \<Rightarrow> string option \<Rightarrow> json"
where
  "draft_request bundle feature_id base angle pull_direction expected_revision =
     object_of
       [(''bundle_path'', JString bundle), (''feature_id'', JString feature_id),
        (''base_feature_id'', JString base), (''angle'', json_f64 angle),
        (''pull_direction'', json_vec3 pull_direction),
        (''expected_revision'', or_null JString expected_revision)]"

definition loft_request ::
  "cli_world \<Rightarrow> string \<Rightarrow> string \<Rightarrow> string list \<Rightarrow> bool \<Rightarrow>
   bool \<Rightarrow> string option \<Rightarrow> string + json"
where
  "loft_request w bundle feature_id profile_files is_solid ruled expected_revision =
     and_then (collect_ok (read_profile_3d w) profile_files) (\<lambda>profiles.
     Inr (object_of
       [(''bundle_path'', JString bundle), (''feature_id'', JString feature_id),
        (''profiles'', JArray (map (\<lambda>profile. JArray (map json_vec3 profile)) profiles)),
        (''is_solid'', JBool is_solid), (''ruled'', JBool ruled),
        (''expected_revision'', or_null JString expected_revision)]))"

definition export_request ::
  "string \<Rightarrow> string \<Rightarrow> string list \<Rightarrow> string list \<Rightarrow> string \<Rightarrow>
   f64 \<Rightarrow> bool \<Rightarrow> bool \<Rightarrow> json"
where
  "export_request bundle feature_id body_ids formats output_dir deflection override stale =
     object_of
       [(''bundle_path'', JString bundle), (''feature_id'', JString feature_id),
        (''body_ids'', JArray (map JString body_ids)), (''formats'', JArray (map JString formats)),
        (''output_dir'', JString output_dir), (''tessellation_deflection'', json_f64 deflection),
        (''override_warnings'', JBool override), (''accept_stale_geometry'', JBool stale)]"

fun request_for :: "cli_world \<Rightarrow> dispatch_plan \<Rightarrow> string + json" where
  "request_for w ListPlan = Inr (object_of [])"
| "request_for w (NewProject path) = Inr (object_of [(''destination'', JString path)])"
| "request_for w (Rehearse output_dir release_candidate _) =
     Inr (rehearse_request output_dir release_candidate)"
| "request_for w (Adversarial _ _ _) = Inl ''adversarial command is not a registered command''"
| "request_for w (Save bundle feature_id kind) = save_request w bundle feature_id kind"
| "request_for w (Load bundle) = Inr (only_bundle bundle)"
| "request_for w (Identity bundle) = Inr (only_bundle bundle)"
| "request_for w (Apply bundle expected_revision operation feature_id kind) =
     Inr (apply_request bundle expected_revision operation feature_id kind)"
| "request_for w (Bracket bundle bracket_id l wd h t) =
     Inr (bracket_request bundle bracket_id l wd h t)"
| "request_for w (Component _ request) = Inr request"
| "request_for w (HistoricalEditPlan bundle feature_id parameter v) =
     Inr (historical_edit_request bundle feature_id parameter v)"
| "request_for w (CreateRevision bundle name) =
     Inr (object_of [(''bundle_path'', JString bundle), (''name'', JString name)])"
| "request_for w (RestoreRevision bundle feature_id name) =
     Inr (restore_revision_request bundle feature_id name)"
| "request_for w (Timeline bundle feature_id) =
     Inr (object_of [(''bundle_path'', JString bundle), (''feature_id'', JString feature_id)])"
| "request_for w (ReplayVerify bundle) = Inr (only_bundle bundle)"
| "request_for w (UndoPlan bundle) = Inr (only_bundle bundle)"
| "request_for w (RedoPlan bundle) = Inr (only_bundle bundle)"
| "request_for w (Extrude bundle feature_id profile_file h mode target_feature_id) =
     extrude_request w bundle feature_id profile_file h mode target_feature_id"
| "request_for w (ReattachEdge bundle expected_revision edit_feature_id edit_kind base radius
       reference edit_target plane_point plane_normal) =
     Inr (reattach_edge_request bundle expected_revision edit_feature_id edit_kind base radius
       reference edit_target plane_point plane_normal)"
| "request_for w (FitDimension bundle expected_revision source_feature_id target_feature_id
       source_dimension_id target_dimension_id dimension clearance) =
     Inr (fit_dimension_request bundle expected_revision source_feature_id target_feature_id
       source_dimension_id target_dimension_id dimension clearance)"
| "request_for w (BooleanFuse bundle feature_id base tool) =
     Inr (boolean_request bundle feature_id base tool)"
| "request_for w (BooleanCut bundle feature_id base tool) =
     Inr (boolean_request bundle feature_id base tool)"
| "request_for w (BooleanCommon bundle feature_id base tool) =
     Inr (boolean_request bundle feature_id base tool)"
| "request_for w (BooleanPattern bundle feature_id base og sp columns rows diameter) =
     Inr (boolean_pattern_request bundle feature_id base og sp columns rows diameter)"
| "request_for w (Fillet bundle feature_id base radius selected_edge_file expected_revision) =
     edge_request w ''radius'' bundle feature_id base radius selected_edge_file expected_revision"
| "request_for w (Chamfer bundle feature_id base distance selected_edge_file expected_revision) =
     edge_request w ''distance'' bundle feature_id base distance selected_edge_file expected_revision"
| "request_for w (Hole bundle feature_id base position direction diameter hole_kind
       thread_designation thread_pitch thread_depth) =
     Inr (hole_request bundle feature_id base position direction diameter hole_kind
       thread_designation thread_pitch thread_depth)"
| "request_for w (Revolve bundle feature_id profile_file axis_point axis_direction angle
       expected_revision) =
     revolve_request w bundle feature_id profile_file axis_point axis_direction angle
       expected_revision"
| "request_for w (Mirror bundle feature_id base plane_point plane_normal expected_revision) =
     Inr (mirror_request bundle feature_id base plane_point plane_normal expected_revision)"
| "request_for w (LinearPattern bundle feature_id base direction n spacing
       expected_revision) =
     Inr (linear_pattern_request bundle feature_id base direction n spacing
       expected_revision)"
| "request_for w (CircularPattern bundle feature_id base axis_point axis_normal angle_step
       n expected_revision) =
     Inr (circular_pattern_request bundle feature_id base axis_point axis_normal angle_step n
       expected_revision)"
| "request_for w (Shell bundle feature_id base thickness expected_revision) =
     Inr (shell_request bundle feature_id base thickness expected_revision)"
| "request_for w (DraftPlan bundle feature_id base angle pull_direction expected_revision) =
     Inr (draft_request bundle feature_id base angle pull_direction expected_revision)"
| "request_for w (Loft bundle feature_id profile_files is_solid ruled expected_revision) =
     loft_request w bundle feature_id profile_files is_solid ruled expected_revision"
| "request_for w (Export bundle feature_id body_ids formats output_dir deflection override
       stale) =
     Inr (export_request bundle feature_id body_ids formats output_dir deflection override stale)"
| "request_for w (SketchSolve bundle request_file) = sketch_solve_request w bundle request_file"
| "request_for w (Registered _ _) = Inl ''parsed command has no registered request''"
| "request_for w (Unknown _) = Inl ''parsed command has no registered request''"

end
