(* ===== verification/Failures.thy ===== *)
theory Failures
  imports Registry Supervisor Arguments Objects
begin

text \<open>
  The failures of the program and their way to the user: the diagnostics of
  \<^verbatim>\<open>crates/protocol/src/diagnostic.rs\<close>, the bundle errors of the persistence crate,
  the errors of the two workers, \<^verbatim>\<open>HostError\<close> of \<^verbatim>\<open>crates/host/src/lib.rs\<close> with
  the conversions into it, and the projections of a host error to a diagnostic.  A path is its
  bytes; an error of the operating system is its text.
\<close>

section \<open>Diagnostics\<close>

datatype diagnostic_code =
    UnknownCommandCode | PersistenceFailure | IntegrityFailure | WorkerFailureCode
  | UnsupportedGeometryCode | BrepInvalidCode | ThemePaletteInvalid | ArtifactPromotionFailure
  | ArtifactHashMismatch | ArtifactRevisionMismatch | ArtifactRequestMismatch
  | ArtifactCacheKeyMismatch | InvalidRequestCode | ReferenceAmbiguous | ReferenceLost
  | ReferenceIncompatible

fun code_name :: "diagnostic_code \<Rightarrow> string" where
  "code_name UnknownCommandCode = ''unknown_command''"
| "code_name PersistenceFailure = ''persistence_failure''"
| "code_name IntegrityFailure = ''integrity_failure''"
| "code_name WorkerFailureCode = ''worker_failure''"
| "code_name UnsupportedGeometryCode = ''unsupported_geometry''"
| "code_name BrepInvalidCode = ''brep_invalid''"
| "code_name ThemePaletteInvalid = ''theme_palette_invalid''"
| "code_name ArtifactPromotionFailure = ''artifact_promotion_failure''"
| "code_name ArtifactHashMismatch = ''artifact_hash_mismatch''"
| "code_name ArtifactRevisionMismatch = ''artifact_revision_mismatch''"
| "code_name ArtifactRequestMismatch = ''artifact_request_mismatch''"
| "code_name ArtifactCacheKeyMismatch = ''artifact_cache_key_mismatch''"
| "code_name InvalidRequestCode = ''invalid_request''"
| "code_name ReferenceAmbiguous = ''reference_ambiguous''"
| "code_name ReferenceLost = ''reference_lost''"
| "code_name ReferenceIncompatible = ''reference_incompatible''"

text \<open>The derived \<^verbatim>\<open>Debug\<close> of a code: the name of its variant.\<close>

fun code_debug :: "diagnostic_code \<Rightarrow> string" where
  "code_debug UnknownCommandCode = ''UnknownCommand''"
| "code_debug PersistenceFailure = ''PersistenceFailure''"
| "code_debug IntegrityFailure = ''IntegrityFailure''"
| "code_debug WorkerFailureCode = ''WorkerFailure''"
| "code_debug UnsupportedGeometryCode = ''UnsupportedGeometry''"
| "code_debug BrepInvalidCode = ''BrepInvalid''"
| "code_debug ThemePaletteInvalid = ''ThemePaletteInvalid''"
| "code_debug ArtifactPromotionFailure = ''ArtifactPromotionFailure''"
| "code_debug ArtifactHashMismatch = ''ArtifactHashMismatch''"
| "code_debug ArtifactRevisionMismatch = ''ArtifactRevisionMismatch''"
| "code_debug ArtifactRequestMismatch = ''ArtifactRequestMismatch''"
| "code_debug ArtifactCacheKeyMismatch = ''ArtifactCacheKeyMismatch''"
| "code_debug InvalidRequestCode = ''InvalidRequest''"
| "code_debug ReferenceAmbiguous = ''ReferenceAmbiguous''"
| "code_debug ReferenceLost = ''ReferenceLost''"
| "code_debug ReferenceIncompatible = ''ReferenceIncompatible''"

record diagnostic =
  dg_code :: diagnostic_code
  dg_arg :: string
  dg_schema_version :: string
  dg_affected_ids :: "string list"
  dg_source :: "string option"
  dg_detail :: "string option"
  dg_recovery :: "string option"

definition protocol_schema_version :: string where
  "protocol_schema_version = ''threeterm.protocol/1''"

definition base_diagnostic :: "diagnostic_code \<Rightarrow> string \<Rightarrow> diagnostic" where
  "base_diagnostic code arg =
     \<lparr>dg_code = code, dg_arg = arg, dg_schema_version = protocol_schema_version,
      dg_affected_ids = [], dg_source = None, dg_detail = None, dg_recovery = None\<rparr>"

text \<open>The first occurrence of every identifier that is not empty.\<close>

fun first_occurrences :: "string set \<Rightarrow> string list \<Rightarrow> string list" where
  "first_occurrences seen [] = []"
| "first_occurrences seen (x # xs) =
     (if x \<noteq> [] \<and> x \<notin> seen then x # first_occurrences (insert x seen) xs
      else first_occurrences seen xs)"

definition with_context :: "string list \<Rightarrow> string \<Rightarrow> diagnostic \<Rightarrow> diagnostic" where
  "with_context ids recovery d =
     d\<lparr>dg_affected_ids := first_occurrences {} ids, dg_recovery := Some recovery\<rparr>"

definition theme_palette_invalid :: "string \<Rightarrow> string \<Rightarrow> string \<Rightarrow> string \<Rightarrow> diagnostic" where
  "theme_palette_invalid v source detail recovery =
     (base_diagnostic ThemePaletteInvalid v)
       \<lparr>dg_source := Some source, dg_detail := Some detail, dg_recovery := Some recovery\<rparr>"

definition artifact_hash_mismatch :: "string \<Rightarrow> string \<Rightarrow> diagnostic" where
  "artifact_hash_mismatch expected actual =
     base_diagnostic ArtifactHashMismatch (''expected='' @ expected @ '';actual='' @ actual)"

definition diagnostic_value :: "diagnostic \<Rightarrow> json" where
  "diagnostic_value d =
     object_of
       ([(''code'', JString (code_name (dg_code d))), (''arg'', JString (dg_arg d)),
         (''schema_version'', JString (dg_schema_version d))] @
        (if dg_affected_ids d = [] then []
         else [(''affected_ids'', JArray (map JString (dg_affected_ids d)))]) @
        if_some ''source'' JString (dg_source d) @ if_some ''detail'' JString (dg_detail d) @
        if_some ''recovery'' JString (dg_recovery d))"

section \<open>Bundle errors\<close>

datatype bundle_failure =
    ManifestAbsent
  | LogAbsent
  | BundleAbsent string
  | GenerationUnsupported nat
  | LogDigestDiffers
  | BrokenLink nat string
  | BundleIo string
  | BundleInvalid string
  | SchemaUnknown string string string
  | SchemaTooOld string string
  | SchemaTooNew string string
  | ManifestFieldUnknown string string
  | IdentityDiffers string string string
  | IdentityAbsent string
  | CanonicalFieldUnknown "nat option" string
  | CanonicalOperationUnknown "nat option" string
  | FeatureKindUnknown "nat option" string
  | CanonicalVersionUnsupported "nat option" string
  | BackupFailed string string
  | PublicationDoubtful string
  | SourceUnreadable string string
  | MigrationFailed bundle_failure
  | EpochZeroRequiresBackup

fun bundle_detail :: "bundle_failure \<Rightarrow> string" where
  "bundle_detail ManifestAbsent = ''manifest_missing''"
| "bundle_detail LogAbsent = ''log_missing''"
| "bundle_detail (BundleAbsent _) = ''bundle_path_missing''"
| "bundle_detail (GenerationUnsupported _) = ''schema_generation_unsupported''"
| "bundle_detail LogDigestDiffers = ''log_digest_mismatch''"
| "bundle_detail (BrokenLink _ _) = ''log_broken_link''"
| "bundle_detail (BundleIo _) = ''bundle_io_failure''"
| "bundle_detail (BundleInvalid _) = ''bundle_invalid''"
| "bundle_detail (SchemaUnknown _ _ _) = ''schema_unknown''"
| "bundle_detail (SchemaTooOld _ _) = ''schema_too_old''"
| "bundle_detail (SchemaTooNew _ _) = ''schema_too_new''"
| "bundle_detail (ManifestFieldUnknown _ _) = ''manifest_field_unknown''"
| "bundle_detail (IdentityDiffers _ _ _) = ''compatibility_identity_mismatch''"
| "bundle_detail (IdentityAbsent _) = ''compatibility_identity_missing''"
| "bundle_detail (CanonicalFieldUnknown _ _) = ''canonical_field_unknown''"
| "bundle_detail (CanonicalOperationUnknown _ _) = ''canonical_operation_unknown''"
| "bundle_detail (FeatureKindUnknown _ _) = ''feature_kind_unknown''"
| "bundle_detail (CanonicalVersionUnsupported _ _) = ''canonical_version_unsupported''"
| "bundle_detail (BackupFailed _ _) = ''backup_failed''"
| "bundle_detail (PublicationDoubtful _) = ''publication_unknown''"
| "bundle_detail (SourceUnreadable _ _) = ''source_unreadable''"
| "bundle_detail (MigrationFailed _) = ''migration_failed''"
| "bundle_detail EpochZeroRequiresBackup = ''SCHEMA_EPOCH_V0_REQUIRES_BACKUP''"

definition debug_option :: "('a \<Rightarrow> string) \<Rightarrow> 'a option \<Rightarrow> string" where
  "debug_option f x = (case x of None \<Rightarrow> ''None'' | Some v \<Rightarrow> ''Some('' @ f v @ '')'')"

fun bundle_text :: "bundle_failure \<Rightarrow> string" where
  "bundle_text ManifestAbsent = ''manifest missing''"
| "bundle_text LogAbsent = ''transaction log missing''"
| "bundle_text (BundleAbsent path) = ''bundle path missing: '' @ lossy path"
| "bundle_text (GenerationUnsupported found) = ''unsupported schema generation: '' @ show_nat found"
| "bundle_text LogDigestDiffers = ''log digest mismatch''"
| "bundle_text (BrokenLink i detail) =
     ''log broken link at entry '' @ show_nat i @ '': '' @ detail"
| "bundle_text (BundleIo detail) = detail"
| "bundle_text (BundleInvalid detail) = detail"
| "bundle_text (SchemaUnknown found current prior) =
     ''persistence.schema-unsupported: unknown schema '' @ debug_string found @
     ''; expected current '' @ debug_string current @ '' or prior '' @ debug_string prior"
| "bundle_text (SchemaTooOld found expected) =
     ''persistence.schema-too-old: found '' @ debug_string found @ '', expected '' @
     debug_string expected @ ''; open this project in a compatible release first''"
| "bundle_text (SchemaTooNew found expected) =
     ''persistence.schema-too-new: found '' @ debug_string found @ '', expected '' @
     debug_string expected @ ''; upgrade ThreeTerm to open this project''"
| "bundle_text (ManifestFieldUnknown kind field) =
     ''persistence.manifest-field-unknown: kind='' @ kind @ '' field='' @ debug_string field"
| "bundle_text (IdentityDiffers identity expected found) =
     ''persistence.compatibility-identity-mismatch: identity='' @ identity @ '' expected='' @
     debug_string expected @ '' found='' @ debug_string found"
| "bundle_text (IdentityAbsent identity) =
     ''persistence.compatibility-identity-missing: identity='' @ debug_string identity"
| "bundle_text (CanonicalFieldUnknown i field) =
     ''persistence.canonical-field-unknown: log_index='' @ debug_option show_nat i @ '' field='' @
     debug_string field"
| "bundle_text (CanonicalOperationUnknown i operation) =
     ''persistence.canonical-operation-unknown: log_index='' @ debug_option show_nat i @
     '' operation='' @ debug_string operation"
| "bundle_text (FeatureKindUnknown i kind) =
     ''persistence.feature-kind-unknown: log_index='' @ debug_option show_nat i @ '' kind='' @
     debug_string kind"
| "bundle_text (CanonicalVersionUnsupported i version) =
     ''persistence.canonical-version-unsupported: log_index='' @ debug_option show_nat i @
     '' version='' @ debug_string version"
| "bundle_text (BackupFailed path source) =
     ''persistence.backup-failed: path='' @ lossy path @ '' source='' @ source"
| "bundle_text (PublicationDoubtful detail) = detail"
| "bundle_text (SourceUnreadable path source) =
     ''persistence.source-unreadable: path='' @ lossy path @ '' source='' @ source"
| "bundle_text (MigrationFailed source) = ''persistence.migration-failed: '' @ bundle_text source"
| "bundle_text EpochZeroRequiresBackup = ''schema epoch v0 requires a backup before loading''"

fun structured_detail :: "bundle_failure \<Rightarrow> bool" where
  "structured_detail (ManifestFieldUnknown _ _) = True"
| "structured_detail (IdentityDiffers _ _ _) = True"
| "structured_detail (IdentityAbsent _) = True"
| "structured_detail (CanonicalFieldUnknown _ _) = True"
| "structured_detail (CanonicalOperationUnknown _ _) = True"
| "structured_detail (FeatureKindUnknown _ _) = True"
| "structured_detail (CanonicalVersionUnsupported _ _) = True"
| "structured_detail (BrokenLink _ _) = True"
| "structured_detail (MigrationFailed source) = structured_detail source"
| "structured_detail _ = False"

section \<open>Worker errors\<close>

record occt_diagnostic =
  od_code :: string
  od_arg :: string
  od_schema_version :: string

datatype occt_error =
    OcctSpawn string string "string option"
  | OcctIdentityMismatch string string string string
  | OcctRuntimeMismatch string string
  | OcctNonZeroExit "int option" string
  | OcctNonZeroExitFor string "int option" string
  | OcctSignalled int string
  | OcctSignalledFor string int string
  | OcctMalformed string
  | OcctMalformedFor string string
  | OcctDiagnosed occt_diagnostic
  | OcctDiagnosedFor string occt_diagnostic
  | OcctCancelled string string "progress option" nat string "int option" "int option"
  | OcctSupervised termination_record

text \<open>The \<^verbatim>\<open>Debug\<close> of a duration of whole milliseconds.\<close>

definition pad_three :: "nat \<Rightarrow> string" where
  "pad_three n = replicate (3 - length (show_nat n)) (CHR ''0'') @ show_nat n"

definition debug_duration :: "nat \<Rightarrow> string" where
  "debug_duration ms =
     (if ms = 0 then ''0ns''
      else if ms < 1000 then show_nat ms @ ''ms''
      else show_nat (ms div 1000) @
        (if ms mod 1000 = 0 then []
         else ''.'' @ rev (dropWhile (\<lambda>c. c = CHR ''0'') (rev (pad_three (ms mod 1000))))) @ ''s'')"

definition debug_progress :: "progress \<Rightarrow> string" where
  "debug_progress p =
     ''Progress { stage: '' @ debug_string (pg_stage p) @ '', percent: '' @ show_nat (pg_percent p) @
     '' }''"

definition exit_text :: "int option \<Rightarrow> string \<Rightarrow> string" where
  "exit_text code stderr =
     ''exited with code '' @ debug_option show_int code @ '': '' @ stderr"

definition signal_text :: "int \<Rightarrow> string \<Rightarrow> string" where
  "signal_text signal stderr = ''signalled with '' @ show_int signal @ '': '' @ stderr"

fun occt_error_text :: "occt_error \<Rightarrow> string" where
  "occt_error_text (OcctSpawn binary detail _) =
     ''worker spawn failed at '' @ lossy binary @ '': '' @ detail"
| "occt_error_text (OcctIdentityMismatch binary worker_kind expected actual) =
     ''worker identity mismatch for '' @ worker_kind @ '' at '' @ lossy binary @
     '': expected_sha256='' @ expected @ '' actual_sha256='' @ actual"
| "occt_error_text (OcctRuntimeMismatch binary detail) =
     ''worker runtime dependency mismatch at '' @ lossy binary @ '': '' @ detail"
| "occt_error_text (OcctNonZeroExit code stderr) = ''worker '' @ exit_text code stderr"
| "occt_error_text (OcctNonZeroExitFor request_id code stderr) =
     ''worker request '' @ request_id @ '' '' @ exit_text code stderr"
| "occt_error_text (OcctSignalled signal stderr) = ''worker '' @ signal_text signal stderr"
| "occt_error_text (OcctSignalledFor request_id signal stderr) =
     ''worker request '' @ request_id @ '' '' @ signal_text signal stderr"
| "occt_error_text (OcctMalformed detail) = ''malformed worker output: '' @ detail"
| "occt_error_text (OcctMalformedFor request_id detail) =
     ''malformed worker output for request '' @ request_id @ '': '' @ detail"
| "occt_error_text (OcctDiagnosed d) =
     ''worker diagnostic '' @ od_code d @ '' '' @ od_arg d @ '': '' @ od_schema_version d"
| "occt_error_text (OcctDiagnosedFor request_id d) =
     ''worker diagnostic for request '' @ request_id @ '' '' @ od_code d @ '' '' @ od_arg d @ '': '' @
     od_schema_version d"
| "occt_error_text (OcctCancelled request_id reason last_progress elapsed _ _ _) =
     ''worker request '' @ request_id @ '' cancelled after '' @ debug_duration elapsed @ '' reason='' @
     debug_string reason @ '' last_progress='' @ debug_option debug_progress last_progress"
| "occt_error_text (OcctSupervised termination) =
     ''supervised worker termination at stage '' @ debug_string (tr_stage termination) @ '' after '' @
     debug_duration (tr_elapsed termination)"

datatype slvs_error =
    SlvsSpawn string string
  | SlvsIdentityMismatch string string string
  | SlvsRuntimeMismatch string string
  | SlvsMalformed string
  | SlvsDiagnosed string string
  | SlvsSupervised string string

fun slvs_error_text :: "slvs_error \<Rightarrow> string" where
  "slvs_error_text (SlvsSpawn binary detail) = ''could not spawn '' @ lossy binary @ '': '' @ detail"
| "slvs_error_text (SlvsIdentityMismatch binary expected actual) =
     ''worker identity mismatch at '' @ lossy binary @ '': expected_sha256='' @ expected @
     '' actual_sha256='' @ actual"
| "slvs_error_text (SlvsRuntimeMismatch binary detail) =
     ''worker runtime dependency mismatch at '' @ lossy binary @ '': '' @ detail"
| "slvs_error_text (SlvsMalformed detail) = ''malformed libslvs worker response: '' @ detail"
| "slvs_error_text (SlvsDiagnosed code detail) = code @ '': '' @ detail"
| "slvs_error_text (SlvsSupervised stage request_id) =
     ''worker request '' @ request_id @ '' ended at '' @ stage"

end
