(* ===== verification/HostFailures.thy ===== *)
theory HostFailures
  imports Failures
begin

text \<open>
  \<^verbatim>\<open>HostError\<close> of \<^verbatim>\<open>crates/host/src/lib.rs\<close>: what the host reports, the
  conversions of the workers' errors into it, its texts and its projection to the shared
  diagnostics.  Writing JSON as a text is the parameter \<open>json_text\<close> and the hashes of
  \<^verbatim>\<open>Layer1FingerprintMismatch\<close> are compared elsewhere.
\<close>

section \<open>Host errors\<close>

record stale_entry =
  se_feature_id :: string
  se_status :: string
  se_last_valid_geometry_fingerprint :: string

datatype host_error =
    HostBundleMissing string
  | HostBundleNotDirectory string
  | HostValidation string
  | HostStaleGeometry string string "stale_entry list"
  | HostPersistence bundle_failure
  | HostWorkerFailure "string option" string
  | HostWorkerUnavailable string
  | HostUnsupportedGeometry "string option" string
  | HostBrepInvalid "string option" string
  | HostInvalidEdit string "string list" string
  | HostInvalidReference string "string list" string
  | HostBrepFileMissing string
  | HostBrepIo string
  | HostWorkerTerminated termination_record
  | DraftAlreadyExists string
  | DraftNotFound string
  | DraftStale string string string string
  | DraftSourceChanged string string string string string
  | DraftInvalid string string
  | DraftInputConflict string string string string
  | DraftSequenceConflict string nat nat
  | DraftIdempotencyConflict string string string string
  | DraftUnknownOutcome string string string string
  | HostDerivedResult diagnostic
  | HostFingerprintMismatch worker_fingerprint worker_fingerprint

definition debug_fingerprint :: "worker_fingerprint \<Rightarrow> string" where
  "debug_fingerprint f =
     ''WorkerFingerprint { worker_kind: '' @ debug_string (wf_worker_kind f) @
     '', worker_schema_version: '' @ debug_string (wf_worker_schema_version f) @
     '', protocol_schema_version: '' @ debug_string (wf_protocol_schema_version f) @ '' }''"

definition draft_revisions :: "string \<Rightarrow> string \<Rightarrow> string \<Rightarrow> string" where
  "draft_revisions source_revision current_revision recovery =
     '': source_revision='' @ source_revision @ '' current_revision='' @ current_revision @
     '' recovery='' @ recovery"

fun host_error_text :: "host_error \<Rightarrow> string" where
  "host_error_text (HostBundleMissing path) = ''bundle path missing: '' @ lossy path"
| "host_error_text (HostBundleNotDirectory path) = ''bundle path is not a directory: '' @ lossy path"
| "host_error_text (HostValidation detail) = ''host.validation: '' @ detail"
| "host_error_text (HostStaleGeometry feature_id active_revision stale) =
     ''stale last-valid geometry cannot be exported for '' @ feature_id @ '' at '' @ active_revision @
     '': '' @ show_nat (length stale) @ '' stale features; correct or restore the feature''"
| "host_error_text (HostPersistence e) = bundle_text e"
| "host_error_text (HostWorkerFailure _ detail) = ''occt worker failure: '' @ detail"
| "host_error_text (HostWorkerUnavailable detail) = ''occt worker unavailable: '' @ detail"
| "host_error_text (HostUnsupportedGeometry _ detail) = ''occt unsupported geometry: '' @ detail"
| "host_error_text (HostBrepInvalid _ detail) = ''occt brep invalid: '' @ detail"
| "host_error_text (HostInvalidEdit detail _ _) = ''invalid edit: '' @ detail"
| "host_error_text (HostInvalidReference detail _ _) = ''invalid reference: '' @ detail"
| "host_error_text (HostWorkerTerminated r) =
     ''occt worker terminated: stage='' @ tr_stage r @ '' elapsed='' @ debug_duration (tr_elapsed r) @
     '' exit_signal='' @ debug_option show_int (tr_exit_signal r) @ '' exit_code='' @
     debug_option show_int (tr_exit_code r) @ '' request_id='' @ tr_request_id r"
| "host_error_text (HostDerivedResult d) =
     ''derived result rejected: '' @ code_debug (dg_code d) @ '': '' @ dg_arg d"
| "host_error_text (HostFingerprintMismatch expected found) =
     ''LAYER_1_FINGERPRINT_MISMATCH: expected='' @ debug_fingerprint expected @ '' found='' @
     debug_fingerprint found"
| "host_error_text (HostBrepFileMissing path) = ''occt brep file missing: '' @ lossy path"
| "host_error_text (HostBrepIo detail) = ''occt brep io error: '' @ detail"
| "host_error_text (DraftAlreadyExists draft_id) = ''command draft already exists: '' @ draft_id"
| "host_error_text (DraftNotFound draft_id) = ''command draft not found: '' @ draft_id"
| "host_error_text (DraftStale draft_id source current recovery) =
     ''command draft '' @ draft_id @ '' is stale'' @ draft_revisions source current recovery"
| "host_error_text (DraftSourceChanged draft_id source_feature_id source current recovery) =
     ''command draft '' @ draft_id @ '' source '' @ source_feature_id @ '' changed'' @
     draft_revisions source current recovery"
| "host_error_text (DraftInvalid draft_id detail) =
     ''command draft '' @ draft_id @ '' is invalid: '' @ detail"
| "host_error_text (DraftInputConflict draft_id source current recovery) =
     ''command draft '' @ draft_id @ '' input conflicts'' @ draft_revisions source current recovery"
| "host_error_text (DraftSequenceConflict draft_id expected current) =
     ''command draft '' @ draft_id @ '' update conflicts: expected_sequence='' @ show_nat expected @
     '' current_sequence='' @ show_nat current"
| "host_error_text (DraftIdempotencyConflict draft_id source current recovery) =
     ''command draft '' @ draft_id @ '' idempotency key conflicts'' @
     draft_revisions source current recovery"
| "host_error_text (DraftUnknownOutcome draft_id source current recovery) =
     ''command draft '' @ draft_id @ '' has unknown publication outcome'' @
     draft_revisions source current recovery"

section \<open>Conversions\<close>

fun host_error_from_execution :: "host_error execution_error \<Rightarrow> host_error option" where
  "host_error_from_execution (UnknownCommand command) =
     Some (HostValidation (''unknown domain command: '' @ command))"
| "host_error_from_execution (InvalidRequest detail) = Some (HostValidation detail)"
| "host_error_from_execution (HandlerFailed e) = Some e"
| "host_error_from_execution (InvalidResponse detail) =
     Some (HostDerivedResult (base_diagnostic IntegrityFailure detail))"
| "host_error_from_execution GuardPanicked = None"

definition host_error_from_diagnostic :: "occt_diagnostic \<Rightarrow> string option \<Rightarrow> host_error" where
  "host_error_from_diagnostic d request_id =
     (if od_code d = ''brep_invalid''
      then HostBrepInvalid request_id (od_code d @ '' '' @ od_arg d)
      else if od_code d = ''unsupported_geometry''
      then HostUnsupportedGeometry request_id (od_arg d)
      else HostWorkerFailure request_id (od_code d @ '' '' @ od_arg d))"

fun host_error_from_occt :: "occt_error \<Rightarrow> host_error" where
  "host_error_from_occt (OcctDiagnosed d) = host_error_from_diagnostic d None"
| "host_error_from_occt (OcctDiagnosedFor request_id d) =
     host_error_from_diagnostic d (Some request_id)"
| "host_error_from_occt (OcctNonZeroExitFor request_id code stderr) =
     HostWorkerFailure (Some request_id) (''worker '' @ exit_text code stderr)"
| "host_error_from_occt (OcctSignalledFor request_id signal stderr) =
     HostWorkerFailure (Some request_id) (''worker '' @ signal_text signal stderr)"
| "host_error_from_occt (OcctMalformedFor request_id detail) =
     HostWorkerFailure (Some request_id) detail"
| "host_error_from_occt (OcctSpawn _ detail request_id) = HostWorkerFailure request_id detail"
| "host_error_from_occt
     (OcctCancelled request_id reason last_progress elapsed stderr_tail exit_signal exit_code) =
     HostWorkerTerminated
       \<lparr>tr_request_id = request_id, tr_stage = ''cancelled'', tr_cancel_reason = Some reason,
        tr_elapsed = elapsed, tr_last_progress = last_progress, tr_last_artifact_error = None,
        tr_exit_signal = exit_signal, tr_exit_code = exit_code, tr_stderr_tail = stderr_tail,
        tr_failed_code = None, tr_failed_detail = None, tr_protocol_diagnostic = None,
        tr_termination_error = None, tr_exit_kind = Cooperative\<rparr>"
| "host_error_from_occt (OcctSupervised r) = HostWorkerTerminated r"
| "host_error_from_occt e = HostWorkerFailure None (occt_error_text e)"

definition host_error_from_slvs :: "slvs_error \<Rightarrow> host_error" where
  "host_error_from_slvs e = HostWorkerFailure None (slvs_error_text e)"

definition geometry_recovery :: string where
  "geometry_recovery = ''correct_geometry_or_restore_revision''"

definition contains_text :: "string \<Rightarrow> string \<Rightarrow> bool" where
  "contains_text s needle = (needle = [] \<or> after_first needle s \<noteq> None)"

definition extrude_markers :: "string list" where
  "extrude_markers =
     [''could not build the 2D polygon'', ''could not build the planar face from the polygon'',
      ''could not prism the face to produce the solid'',
      ''subtractive extrusion did not produce a solid'']"

fun invalid_edit_from_extrude :: "host_error \<Rightarrow> string list \<Rightarrow> host_error" where
  "invalid_edit_from_extrude (HostBrepInvalid _ detail) ids =
     HostInvalidEdit detail ids geometry_recovery"
| "invalid_edit_from_extrude (HostWorkerFailure request_id detail) ids =
     (if list_ex (contains_text detail) extrude_markers
      then HostInvalidEdit (''brep_invalid: '' @ detail) ids geometry_recovery
      else HostWorkerFailure request_id detail)"
| "invalid_edit_from_extrude e ids = e"

section \<open>Projections\<close>

fun exit_kind_name :: "exit_kind \<Rightarrow> string" where
  "exit_kind_name Cooperative = ''cooperative''"
| "exit_kind_name ForceAfterGrace = ''force_after_grace''"

fun protocol_code_name :: "protocol_diagnostic_code \<Rightarrow> string" where
  "protocol_code_name MalformedAcknowledgement = ''malformed_cancellation_acknowledgement''"
| "protocol_code_name MismatchedRequestId = ''mismatched_cancellation_request_id''"
| "protocol_code_name AckSchemaMismatch = ''cancellation_acknowledgement_schema_mismatch''"
| "protocol_code_name InvalidCancellationState = ''invalid_cancellation_state''"
| "protocol_code_name EmptyCancellationReason = ''empty_cancellation_reason''"

definition termination_value :: "termination_record \<Rightarrow> json" where
  "termination_value r =
     object_of
       [(''kind'', JString ''worker_terminated''), (''request_id'', JString (tr_request_id r)),
        (''stage'', JString (tr_stage r)), (''elapsed_ms'', json_nat (tr_elapsed r)),
        (''last_progress'',
          or_null (\<lambda>p. object_of
            [(''stage'', JString (pg_stage p)), (''percent'', json_nat (pg_percent p))])
            (tr_last_progress r)),
        (''last_artifact_error'', or_null JString (tr_last_artifact_error r)),
        (''exit_signal'', or_null json_int (tr_exit_signal r)),
        (''exit_code'', or_null json_int (tr_exit_code r)),
        (''stderr_tail'', JString (tr_stderr_tail r)),
        (''failed_code'', or_null JString (tr_failed_code r)),
        (''failed_detail'', or_null JString (tr_failed_detail r)),
        (''protocol_diagnostic'',
          or_null (\<lambda>p. object_of
            [(''code'', JString (protocol_code_name (pd_code p))),
             (''detail'', JString (pd_detail p))]) (tr_protocol_diagnostic r)),
        (''termination_error'', or_null JString (tr_termination_error r)),
        (''exit_kind'', JString (exit_kind_name (tr_exit_kind r)))]"

fun domain_command_diagnostic :: "(json \<Rightarrow> string) \<Rightarrow> host_error \<Rightarrow> diagnostic" where
  "domain_command_diagnostic json_text (HostInvalidEdit detail ids recovery) =
     with_context ids recovery (base_diagnostic BrepInvalidCode detail)"
| "domain_command_diagnostic json_text (HostInvalidReference detail ids recovery) =
     with_context ids recovery (base_diagnostic InvalidRequestCode detail)"
| "domain_command_diagnostic json_text (HostBrepInvalid _ detail) =
     base_diagnostic BrepInvalidCode detail"
| "domain_command_diagnostic json_text (HostUnsupportedGeometry _ detail) =
     base_diagnostic UnsupportedGeometryCode detail"
| "domain_command_diagnostic json_text (HostWorkerFailure _ detail) =
     base_diagnostic WorkerFailureCode detail"
| "domain_command_diagnostic json_text (HostWorkerUnavailable detail) =
     base_diagnostic WorkerFailureCode detail"
| "domain_command_diagnostic json_text (HostWorkerTerminated r) =
     base_diagnostic WorkerFailureCode (json_text (termination_value r))"
| "domain_command_diagnostic json_text (HostBrepFileMissing path) =
     base_diagnostic PersistenceFailure (lossy path)"
| "domain_command_diagnostic json_text (HostBundleMissing path) =
     base_diagnostic PersistenceFailure (lossy path)"
| "domain_command_diagnostic json_text (HostBundleNotDirectory path) =
     base_diagnostic PersistenceFailure (lossy path)"
| "domain_command_diagnostic json_text (HostBrepIo detail) =
     base_diagnostic PersistenceFailure detail"
| "domain_command_diagnostic json_text (HostStaleGeometry a b c) =
     base_diagnostic InvalidRequestCode (host_error_text (HostStaleGeometry a b c))"
| "domain_command_diagnostic json_text (HostPersistence e) =
     base_diagnostic PersistenceFailure (bundle_text e)"
| "domain_command_diagnostic json_text (HostDerivedResult d) = d"
| "domain_command_diagnostic json_text (HostValidation detail) =
     base_diagnostic InvalidRequestCode detail"
| "domain_command_diagnostic json_text e = base_diagnostic IntegrityFailure (host_error_text e)"

fun domain_execution_diagnostic ::
  "(json \<Rightarrow> string) \<Rightarrow> host_error execution_error \<Rightarrow> diagnostic option" where
  "domain_execution_diagnostic json_text (UnknownCommand command) =
     Some (base_diagnostic UnknownCommandCode command)"
| "domain_execution_diagnostic json_text (InvalidRequest detail) =
     Some (base_diagnostic InvalidRequestCode detail)"
| "domain_execution_diagnostic json_text (HandlerFailed e) =
     Some (domain_command_diagnostic json_text e)"
| "domain_execution_diagnostic json_text (InvalidResponse detail) =
     Some (base_diagnostic IntegrityFailure detail)"
| "domain_execution_diagnostic json_text GuardPanicked = None"

definition stale_entry_value :: "stale_entry \<Rightarrow> json" where
  "stale_entry_value e =
     object_of
       [(''feature_id'', JString (se_feature_id e)), (''status'', JString (se_status e)),
        (''last_valid_geometry_fingerprint'', JString (se_last_valid_geometry_fingerprint e))]"

definition export_response_schema_version :: string where
  "export_response_schema_version = ''threeterm.command.export.response/3''"

definition stale_recovery :: string where
  "stale_recovery = ''correct or restore the feature and recompute current geometry''"

definition stale_geometry_value :: "string \<Rightarrow> string \<Rightarrow> stale_entry list \<Rightarrow> json" where
  "stale_geometry_value feature_id active_revision stale =
     object_of
       [(''severity'', JString ''error''), (''code'', JString ''stale_last_valid_geometry''),
        (''feature_id'', JString feature_id), (''active_revision'', JString active_revision),
        (''stale_features'', JArray (map stale_entry_value stale)),
        (''recovery'', JString stale_recovery), (''override_eligible'', JBool False),
        (''schema_version'', JString export_response_schema_version)]"

definition domain_command_failure_value :: "(json \<Rightarrow> string) \<Rightarrow> host_error \<Rightarrow> json" where
  "domain_command_failure_value json_text e =
     (case e of
        HostStaleGeometry feature_id active_revision stale \<Rightarrow>
          stale_geometry_value feature_id active_revision stale
      | _ \<Rightarrow> diagnostic_value (domain_command_diagnostic json_text e))"

end
