(* ===== verification/Palettes.thy ===== *)
theory Palettes
  imports Text Utf8
begin

text \<open>
  The themes of \<^verbatim>\<open>crates/theme/src/lib.rs\<close>: the five palettes with their semantic
  tokens, the visuals of the transient states, the contract a palette is verified against (colours
  in OKLCH, contrast and lightness by WCAG luminance) and the choice of the palette at startup.  The
  functions \<^verbatim>\<open>sin\<close>, \<^verbatim>\<open>cos\<close> and \<^verbatim>\<open>powf\<close>, whose precision the
  standard library leaves to the platform, are the parameter \<open>color_math\<close>.
\<close>

section \<open>Palettes\<close>

datatype color_scheme = Dark | Light

record viewport_tokens =
  vt_background :: "string option"
  vt_body :: "string option"
  vt_edge :: "string option"
  vt_grid :: "string option"
  vt_selected_body :: "string option"
  vt_selected_edge :: "string option"
  vt_candidate_body :: "string option"
  vt_candidate_edge :: "string option"
  vt_drag_feedback :: "string option"
  vt_overlay :: "string option"
  vt_warning :: "string option"
  vt_error :: "string option"

record tui_tokens =
  tt_foreground :: "string option"
  tt_background :: "string option"
  tt_muted :: "string option"
  tt_accent :: "string option"
  tt_warning :: "string option"
  tt_error :: "string option"
  tt_selection_foreground :: "string option"
  tt_selection_background :: "string option"

record semantic_palette =
  sp_viewport :: viewport_tokens
  sp_tui :: tui_tokens

record palette_variables =
  pv_background :: string
  pv_surface :: string
  pv_surface_2 :: string
  pv_surface_3 :: string
  pv_border :: string
  pv_text :: string
  pv_muted :: string
  pv_accent :: string
  pv_accent_weak :: string
  pv_accent_ink :: string
  pv_reviewing_accent :: string
  pv_success :: string
  pv_danger :: string
  pv_warning :: string
  pv_shadow :: string
  pv_page_top :: string
  pv_page_bottom :: string
  pv_semantic :: semantic_palette

record palette =
  pl_name :: string
  pl_scheme :: color_scheme
  pl_variables :: palette_variables

record rgb_color =
  rc_red :: nat
  rc_green :: nat
  rc_blue :: nat

datatype semantic_token =
    ViewportBackground | ViewportBody | ViewportEdge | ViewportGrid | ViewportSelectedBody
  | ViewportSelectedEdge | ViewportCandidateBody | ViewportCandidateEdge | ViewportDragFeedback
  | ViewportOverlay | ViewportWarning | ViewportError | TuiForeground | TuiBackground | TuiMuted
  | TuiAccent | TuiWarning | TuiError | TuiSelectionForeground | TuiSelectionBackground

fun token_name :: "semantic_token \<Rightarrow> string" where
  "token_name ViewportBackground = ''viewport.background''"
| "token_name ViewportBody = ''viewport.body''"
| "token_name ViewportEdge = ''viewport.edge''"
| "token_name ViewportGrid = ''viewport.grid''"
| "token_name ViewportSelectedBody = ''viewport.selected_body''"
| "token_name ViewportSelectedEdge = ''viewport.selected_edge''"
| "token_name ViewportCandidateBody = ''viewport.candidate_body''"
| "token_name ViewportCandidateEdge = ''viewport.candidate_edge''"
| "token_name ViewportDragFeedback = ''viewport.drag_feedback''"
| "token_name ViewportOverlay = ''viewport.overlay''"
| "token_name ViewportWarning = ''viewport.warning''"
| "token_name ViewportError = ''viewport.error''"
| "token_name TuiForeground = ''tui.fg''"
| "token_name TuiBackground = ''tui.bg''"
| "token_name TuiMuted = ''tui.muted''"
| "token_name TuiAccent = ''tui.accent''"
| "token_name TuiWarning = ''tui.warning''"
| "token_name TuiError = ''tui.error''"
| "token_name TuiSelectionForeground = ''tui.selection.foreground''"
| "token_name TuiSelectionBackground = ''tui.selection.background''"

fun token_value :: "semantic_palette \<Rightarrow> semantic_token \<Rightarrow> string option" where
  "token_value p ViewportBackground = vt_background (sp_viewport p)"
| "token_value p ViewportBody = vt_body (sp_viewport p)"
| "token_value p ViewportEdge = vt_edge (sp_viewport p)"
| "token_value p ViewportGrid = vt_grid (sp_viewport p)"
| "token_value p ViewportSelectedBody = vt_selected_body (sp_viewport p)"
| "token_value p ViewportSelectedEdge = vt_selected_edge (sp_viewport p)"
| "token_value p ViewportCandidateBody = vt_candidate_body (sp_viewport p)"
| "token_value p ViewportCandidateEdge = vt_candidate_edge (sp_viewport p)"
| "token_value p ViewportDragFeedback = vt_drag_feedback (sp_viewport p)"
| "token_value p ViewportOverlay = vt_overlay (sp_viewport p)"
| "token_value p ViewportWarning = vt_warning (sp_viewport p)"
| "token_value p ViewportError = vt_error (sp_viewport p)"
| "token_value p TuiForeground = tt_foreground (sp_tui p)"
| "token_value p TuiBackground = tt_background (sp_tui p)"
| "token_value p TuiMuted = tt_muted (sp_tui p)"
| "token_value p TuiAccent = tt_accent (sp_tui p)"
| "token_value p TuiWarning = tt_warning (sp_tui p)"
| "token_value p TuiError = tt_error (sp_tui p)"
| "token_value p TuiSelectionForeground = tt_selection_foreground (sp_tui p)"
| "token_value p TuiSelectionBackground = tt_selection_background (sp_tui p)"

definition inherited_reviewing_accent :: string where
  "inherited_reviewing_accent = ''oklch(0.65 0.16 285)''"

definition accent_weak_mix :: string where
  "accent_weak_mix = ''color-mix(in oklch, var(--accent) 14%, var(--surface))''"

definition catppuccin_semantic :: semantic_palette where
  "catppuccin_semantic =
     \<lparr>sp_viewport =
         \<lparr>vt_background = Some ''oklch(0.24 0.03 284)'',
           vt_body = Some ''oklch(0.60 0.04 284)'', vt_edge = Some ''oklch(0.75 0.04 24)'',
           vt_grid = Some ''oklch(0.66 0.04 184)'',
           vt_selected_body = Some ''oklch(0.82 0.04 284)'',
           vt_selected_edge = Some ''oklch(0.56 0.04 304)'',
           vt_candidate_body = Some ''oklch(0.70 0.04 304)'',
           vt_candidate_edge = Some ''oklch(0.86 0.04 84)'',
           vt_drag_feedback = Some ''oklch(0.72 0.04 250)'',
           vt_overlay = Some ''oklch(0.64 0.04 330)'', vt_warning = Some ''oklch(0.90 0.04 84)'',
           vt_error = Some ''oklch(0.78 0.04 24)''\<rparr>,
      sp_tui =
         \<lparr>tt_foreground = Some ''oklch(0.88 0.04 272)'',
           tt_background = Some ''oklch(0.24 0.03 284)'',
           tt_muted = Some ''oklch(0.70 0.04 274)'', tt_accent = Some ''oklch(0.78 0.04 305)'',
           tt_warning = Some ''oklch(0.90 0.04 84)'', tt_error = Some ''oklch(0.78 0.04 24)'',
           tt_selection_foreground = Some ''oklch(0.12 0.03 284)'',
           tt_selection_background = Some ''oklch(0.78 0.04 305)''\<rparr>\<rparr>"

definition tokyo_night_semantic :: semantic_palette where
  "tokyo_night_semantic =
     \<lparr>sp_viewport =
         \<lparr>vt_background = Some ''oklch(0.19 0.03 261)'',
           vt_body = Some ''oklch(0.60 0.04 261)'', vt_edge = Some ''oklch(0.75 0.04 1)'',
           vt_grid = Some ''oklch(0.66 0.04 161)'',
           vt_selected_body = Some ''oklch(0.82 0.04 261)'',
           vt_selected_edge = Some ''oklch(0.56 0.04 281)'',
           vt_candidate_body = Some ''oklch(0.70 0.04 281)'',
           vt_candidate_edge = Some ''oklch(0.86 0.04 61)'',
           vt_drag_feedback = Some ''oklch(0.72 0.04 227)'',
           vt_overlay = Some ''oklch(0.64 0.04 307)'', vt_warning = Some ''oklch(0.90 0.04 61)'',
           vt_error = Some ''oklch(0.78 0.04 1)''\<rparr>,
      sp_tui =
         \<lparr>tt_foreground = Some ''oklch(0.86 0.05 260)'',
           tt_background = Some ''oklch(0.19 0.03 261)'',
           tt_muted = Some ''oklch(0.70 0.04 260)'', tt_accent = Some ''oklch(0.78 0.04 260)'',
           tt_warning = Some ''oklch(0.90 0.04 61)'', tt_error = Some ''oklch(0.78 0.04 1)'',
           tt_selection_foreground = Some ''oklch(0.12 0.03 261)'',
           tt_selection_background = Some ''oklch(0.78 0.04 260)''\<rparr>\<rparr>"

definition evergreen_semantic :: semantic_palette where
  "evergreen_semantic =
     \<lparr>sp_viewport =
         \<lparr>vt_background = Some ''oklch(0.27 0.02 135)'',
           vt_body = Some ''oklch(0.60 0.04 135)'', vt_edge = Some ''oklch(0.75 0.04 15)'',
           vt_grid = Some ''oklch(0.66 0.04 35)'',
           vt_selected_body = Some ''oklch(0.82 0.04 135)'',
           vt_selected_edge = Some ''oklch(0.56 0.04 155)'',
           vt_candidate_body = Some ''oklch(0.70 0.04 155)'',
           vt_candidate_edge = Some ''oklch(0.86 0.04 95)'',
           vt_drag_feedback = Some ''oklch(0.72 0.04 225)'',
           vt_overlay = Some ''oklch(0.64 0.04 305)'', vt_warning = Some ''oklch(0.90 0.04 95)'',
           vt_error = Some ''oklch(0.78 0.04 15)''\<rparr>,
      sp_tui =
         \<lparr>tt_foreground = Some ''oklch(0.86 0.04 120)'',
           tt_background = Some ''oklch(0.27 0.02 135)'',
           tt_muted = Some ''oklch(0.70 0.03 120)'', tt_accent = Some ''oklch(0.78 0.04 145)'',
           tt_warning = Some ''oklch(0.90 0.04 95)'', tt_error = Some ''oklch(0.78 0.04 15)'',
           tt_selection_foreground = Some ''oklch(0.12 0.02 135)'',
           tt_selection_background = Some ''oklch(0.78 0.04 145)''\<rparr>\<rparr>"

definition gruvbox_semantic :: semantic_palette where
  "gruvbox_semantic =
     \<lparr>sp_viewport =
         \<lparr>vt_background = Some ''oklch(0.28 0.03 75)'', vt_body = Some ''oklch(0.60 0.04 75)'',
           vt_edge = Some ''oklch(0.75 0.04 255)'', vt_grid = Some ''oklch(0.66 0.04 195)'',
           vt_selected_body = Some ''oklch(0.82 0.04 75)'',
           vt_selected_edge = Some ''oklch(0.56 0.04 95)'',
           vt_candidate_body = Some ''oklch(0.70 0.04 95)'',
           vt_candidate_edge = Some ''oklch(0.86 0.04 35)'',
           vt_drag_feedback = Some ''oklch(0.72 0.04 230)'',
           vt_overlay = Some ''oklch(0.64 0.04 315)'', vt_warning = Some ''oklch(0.90 0.04 35)'',
           vt_error = Some ''oklch(0.72 0.04 255)''\<rparr>,
      sp_tui =
         \<lparr>tt_foreground = Some ''oklch(0.88 0.05 88)'',
           tt_background = Some ''oklch(0.28 0.03 75)'', tt_muted = Some ''oklch(0.70 0.04 88)'',
           tt_accent = Some ''oklch(0.78 0.04 85)'', tt_warning = Some ''oklch(0.90 0.04 35)'',
           tt_error = Some ''oklch(0.78 0.04 255)'',
           tt_selection_foreground = Some ''oklch(0.12 0 75)'',
           tt_selection_background = Some ''oklch(0.78 0.04 85)''\<rparr>\<rparr>"

definition sandman_light_semantic :: semantic_palette where
  "sandman_light_semantic =
     \<lparr>sp_viewport =
         \<lparr>vt_background = Some ''oklch(0.94 0.018 82)'', vt_body = Some ''oklch(0.35 0.01 82)'',
           vt_edge = Some ''oklch(0.22 0.01 262)'', vt_grid = Some ''oklch(0.40 0.01 162)'',
           vt_selected_body = Some ''oklch(0.18 0.01 82)'',
           vt_selected_edge = Some ''oklch(0.36 0.01 302)'',
           vt_candidate_body = Some ''oklch(0.28 0.01 302)'',
           vt_candidate_edge = Some ''oklch(0.20 0.01 62)'',
           vt_drag_feedback = Some ''oklch(0.30 0.01 250)'',
           vt_overlay = Some ''oklch(0.26 0.01 330)'', vt_warning = Some ''oklch(0.50 0.01 82)'',
           vt_error = Some ''oklch(0.16 0.01 22)''\<rparr>,
      sp_tui =
         \<lparr>tt_foreground = Some ''oklch(0.18 0.03 58)'',
           tt_background = Some ''oklch(0.94 0.018 82)'',
           tt_muted = Some ''oklch(0.38 0.03 61)'', tt_accent = Some ''oklch(0.30 0.01 75)'',
           tt_warning = Some ''oklch(0.50 0.01 82)'', tt_error = Some ''oklch(0.18 0.01 22)'',
           tt_selection_foreground = Some ''oklch(0.98 0.006 80)'',
           tt_selection_background = Some ''oklch(0.32 0.01 75)''\<rparr>\<rparr>"

definition catppuccin_palette :: palette where
  "catppuccin_palette =
     \<lparr>pl_name = ''catppuccin'', pl_scheme = Dark,
      pl_variables =
        \<lparr>pv_background = ''oklch(0.24 0.03 284)'', pv_surface = ''oklch(0.22 0.03 284)'',
          pv_surface_2 = ''oklch(0.32 0.03 282)'', pv_surface_3 = ''oklch(0.40 0.03 280)'',
          pv_border = ''oklch(0.48 0.03 279)'', pv_text = ''oklch(0.88 0.04 272)'',
          pv_muted = ''oklch(0.75 0.04 274)'', pv_accent = ''oklch(0.79 0.12 305)'',
          pv_accent_weak = accent_weak_mix, pv_accent_ink = ''oklch(0.14 0.03 284)'',
          pv_reviewing_accent = inherited_reviewing_accent,
          pv_success = ''oklch(0.86 0.11 143)'', pv_danger = ''oklch(0.76 0.13 3)'',
          pv_warning = ''oklch(0.92 0.07 87)'',
          pv_shadow = ''0 1px 0 oklch(0.97 0.01 245 / 0.05), 0 24px 48px oklch(0.11 0.01 245 / 0.3)'',
          pv_page_top = ''oklch(0.18 0.03 284)'', pv_page_bottom = ''var(--bg)'',
          pv_semantic = catppuccin_semantic\<rparr>\<rparr>"

definition tokyo_night_palette :: palette where
  "tokyo_night_palette =
     \<lparr>pl_name = ''tokyo-night'', pl_scheme = Dark,
      pl_variables =
        \<lparr>pv_background = ''oklch(0.19 0.03 261)'', pv_surface = ''oklch(0.23 0.03 261)'',
          pv_surface_2 = ''oklch(0.28 0.03 261)'', pv_surface_3 = ''oklch(0.34 0.03 261)'',
          pv_border = ''oklch(0.41 0.03 261)'', pv_text = ''oklch(0.86 0.05 260)'',
          pv_muted = ''oklch(0.71 0.04 260)'', pv_accent = ''oklch(0.69 0.16 260)'',
          pv_accent_weak = accent_weak_mix, pv_accent_ink = ''oklch(0.18 0.03 261)'',
          pv_reviewing_accent = inherited_reviewing_accent,
          pv_success = ''oklch(0.78 0.10 145)'', pv_danger = ''oklch(0.72 0.13 10)'',
          pv_warning = ''oklch(0.85 0.08 85)'',
          pv_shadow = ''0 1px 0 oklch(0.97 0.01 245 / 0.05), 0 24px 48px oklch(0.11 0.01 245 / 0.3)'',
          pv_page_top = ''oklch(0.16 0.03 261)'', pv_page_bottom = ''var(--bg)'',
          pv_semantic = tokyo_night_semantic\<rparr>\<rparr>"

definition evergreen_palette :: palette where
  "evergreen_palette =
     \<lparr>pl_name = ''evergreen'', pl_scheme = Dark,
      pl_variables =
        \<lparr>pv_background = ''oklch(0.27 0.02 135)'', pv_surface = ''oklch(0.31 0.02 135)'',
          pv_surface_2 = ''oklch(0.37 0.02 135)'', pv_surface_3 = ''oklch(0.43 0.02 135)'',
          pv_border = ''oklch(0.49 0.02 135)'', pv_text = ''oklch(0.86 0.04 120)'',
          pv_muted = ''oklch(0.71 0.03 120)'', pv_accent = ''oklch(0.70 0.11 145)'',
          pv_accent_weak = accent_weak_mix, pv_accent_ink = ''oklch(0.18 0.02 135)'',
          pv_reviewing_accent = inherited_reviewing_accent,
          pv_success = ''oklch(0.78 0.10 145)'', pv_danger = ''oklch(0.70 0.13 30)'',
          pv_warning = ''oklch(0.83 0.10 85)'',
          pv_shadow = ''0 1px 0 oklch(0.97 0.01 245 / 0.05), 0 24px 48px oklch(0.11 0.01 245 / 0.3)'',
          pv_page_top = ''oklch(0.23 0.02 135)'', pv_page_bottom = ''var(--bg)'',
          pv_semantic = evergreen_semantic\<rparr>\<rparr>"

definition gruvbox_palette :: palette where
  "gruvbox_palette =
     \<lparr>pl_name = ''gruvbox'', pl_scheme = Dark,
      pl_variables =
        \<lparr>pv_background = ''oklch(0.28 0.03 75)'', pv_surface = ''oklch(0.32 0.03 75)'',
          pv_surface_2 = ''oklch(0.38 0.03 75)'', pv_surface_3 = ''oklch(0.44 0.03 75)'',
          pv_border = ''oklch(0.50 0.03 75)'', pv_text = ''oklch(0.88 0.05 88)'',
          pv_muted = ''oklch(0.73 0.04 88)'', pv_accent = ''oklch(0.75 0.12 85)'',
          pv_accent_weak = accent_weak_mix, pv_accent_ink = ''oklch(0.20 0.03 75)'',
          pv_reviewing_accent = inherited_reviewing_accent,
          pv_success = ''oklch(0.78 0.12 140)'', pv_danger = ''oklch(0.68 0.14 30)'',
          pv_warning = ''oklch(0.82 0.12 60)'',
          pv_shadow = ''0 1px 0 oklch(0.97 0.01 245 / 0.05), 0 24px 48px oklch(0.11 0.01 245 / 0.3)'',
          pv_page_top = ''oklch(0.24 0.03 75)'', pv_page_bottom = ''var(--bg)'',
          pv_semantic = gruvbox_semantic\<rparr>\<rparr>"

definition sandman_light_palette :: palette where
  "sandman_light_palette =
     \<lparr>pl_name = ''sandman-light'', pl_scheme = Light,
      pl_variables =
        \<lparr>pv_background = ''oklch(0.94 0.018 82)'', pv_surface = ''oklch(0.97 0.015 82)'',
          pv_surface_2 = ''oklch(0.95 0.019 82)'', pv_surface_3 = ''oklch(0.90 0.034 79)'',
          pv_border = ''oklch(0.78 0.035 76)'', pv_text = ''oklch(0.18 0.030 58)'',
          pv_muted = ''oklch(0.38 0.026 61)'', pv_accent = ''oklch(0.56 0.145 75)'',
          pv_accent_weak = ''oklch(0.92 0.045 75)'', pv_accent_ink = ''oklch(0.98 0.006 80)'',
          pv_reviewing_accent = ''oklch(0.52 0.13 302)'', pv_success = ''oklch(0.46 0.14 145)'',
          pv_danger = ''oklch(0.48 0.18 22)'', pv_warning = ''oklch(0.52 0.145 75)'',
          pv_shadow = ''0 1px 0 oklch(0.99 0.006 80 / 0.65), 0 24px 54px oklch(0.30 0.028 58 / 0.13)'',
          pv_page_top = ''oklch(0.97 0.015 82)'', pv_page_bottom = ''oklch(0.90 0.034 79)'',
          pv_semantic = sandman_light_semantic\<rparr>\<rparr>"

definition palettes :: "palette list" where
  "palettes =
     [catppuccin_palette, tokyo_night_palette, evergreen_palette, gruvbox_palette,
      sandman_light_palette]"

definition palette_named :: "string \<Rightarrow> palette option" where
  "palette_named name = List.find (\<lambda>p. pl_name p = name) palettes"

definition default_dark :: palette where
  "default_dark = hd palettes"

definition semantic_of :: "palette \<Rightarrow> semantic_palette" where
  "semantic_of p = pv_semantic (pl_variables p)"

section \<open>Transient states\<close>

datatype transient_state =
    Hover | TransientCandidate | Drag | Selected | TransientWarning | TransientError | Cancelled
  | FocusRecovery | ResizeRecovery | Ready

datatype non_color_marker =
    Outline | DashedOutline | MotionTrail | SelectionGlyph | WarningGlyph | ErrorGlyph
  | CancellationGlyph | FocusRecoveryBanner | ResizeRecoveryGlyph | ReadyStatus

fun marker_name :: "non_color_marker \<Rightarrow> string" where
  "marker_name Outline = ''outline''"
| "marker_name DashedOutline = ''dashed-outline''"
| "marker_name MotionTrail = ''motion-trail''"
| "marker_name SelectionGlyph = ''selection-glyph''"
| "marker_name WarningGlyph = ''warning-glyph''"
| "marker_name ErrorGlyph = ''error-glyph''"
| "marker_name CancellationGlyph = ''cancellation-glyph''"
| "marker_name FocusRecoveryBanner = ''focus-recovery-banner''"
| "marker_name ResizeRecoveryGlyph = ''resize-recovery-glyph''"
| "marker_name ReadyStatus = ''ready-status''"

record transient_visual =
  tv_state :: transient_state
  tv_color :: "semantic_token option"
  tv_background :: "semantic_token option"
  tv_marker :: "non_color_marker option"

definition visual ::
  "transient_state \<Rightarrow> semantic_token \<Rightarrow> semantic_token \<Rightarrow> non_color_marker \<Rightarrow> transient_visual"
where
  "visual state color background marker =
     \<lparr>tv_state = state, tv_color = Some color, tv_background = Some background,
      tv_marker = Some marker\<rparr>"

definition expected_transient_states :: "transient_state list" where
  "expected_transient_states =
     [Hover, TransientCandidate, Drag, Selected, TransientWarning, TransientError, Cancelled,
      FocusRecovery, ResizeRecovery, Ready]"

definition transient_visuals :: "transient_visual list" where
  "transient_visuals =
     [visual Hover TuiForeground TuiBackground Outline,
      visual TransientCandidate TuiAccent TuiBackground DashedOutline,
      visual Drag TuiAccent TuiBackground MotionTrail,
      visual Selected TuiSelectionForeground TuiSelectionBackground SelectionGlyph,
      visual TransientWarning TuiWarning TuiBackground WarningGlyph,
      visual TransientError TuiError TuiBackground ErrorGlyph,
      visual Cancelled TuiMuted TuiBackground CancellationGlyph,
      visual FocusRecovery TuiAccent TuiBackground FocusRecoveryBanner,
      visual ResizeRecovery TuiAccent TuiBackground ResizeRecoveryGlyph,
      visual Ready TuiForeground TuiBackground ReadyStatus]"

section \<open>Verification\<close>

datatype theme_code =
    InvalidColor | OutOfGamut | MissingToken | ContrastBelowMinimum | LightnessShiftBelowMinimum
  | HueNotDistinct | MissingState | DuplicateState | MissingStateColor | MissingStateMarker

fun theme_code_name :: "theme_code \<Rightarrow> string" where
  "theme_code_name InvalidColor = ''invalid_color''"
| "theme_code_name OutOfGamut = ''out_of_gamut''"
| "theme_code_name MissingToken = ''missing_token''"
| "theme_code_name ContrastBelowMinimum = ''contrast_below_minimum''"
| "theme_code_name LightnessShiftBelowMinimum = ''lightness_shift_below_minimum''"
| "theme_code_name HueNotDistinct = ''hue_not_distinct''"
| "theme_code_name MissingState = ''missing_state''"
| "theme_code_name DuplicateState = ''duplicate_state''"
| "theme_code_name MissingStateColor = ''missing_state_color''"
| "theme_code_name MissingStateMarker = ''missing_state_marker''"

record theme_error =
  th_code :: theme_code
  th_palette :: string
  th_state :: "transient_state option"
  th_token :: "semantic_token option"
  th_related_token :: "semantic_token option"
  th_observed :: "f64 option"
  th_required :: "f64 option"
  th_value :: "string option"

definition token_error ::
  "theme_code \<Rightarrow> string \<Rightarrow> semantic_token \<Rightarrow> string option \<Rightarrow> theme_error" where
  "token_error code name token v =
     \<lparr>th_code = code, th_palette = name, th_state = None, th_token = Some token,
      th_related_token = None, th_observed = None, th_required = None, th_value = v\<rparr>"

definition state_error :: "theme_code \<Rightarrow> string \<Rightarrow> transient_state \<Rightarrow> theme_error" where
  "state_error code name state =
     \<lparr>th_code = code, th_palette = name, th_state = Some state, th_token = None,
      th_related_token = None, th_observed = None, th_required = None, th_value = None\<rparr>"

definition relation_error ::
  "theme_code \<Rightarrow> string \<Rightarrow> semantic_token \<Rightarrow> semantic_token \<Rightarrow> f64 \<Rightarrow> f64 \<Rightarrow> theme_error" where
  "relation_error code name first second observed required =
     \<lparr>th_code = code, th_palette = name, th_state = None, th_token = Some first,
      th_related_token = Some second, th_observed = Some observed, th_required = Some required,
      th_value = None\<rparr>"

definition verify_state ::
  "string \<Rightarrow> transient_visual list \<Rightarrow> transient_state \<Rightarrow> theme_error + unit" where
  "verify_state name visuals state =
     (case filter (\<lambda>v. tv_state v = state) visuals of
        [] \<Rightarrow> Inl (state_error MissingState name state)
      | v # others \<Rightarrow>
          and_then (ensure (others = []) (state_error DuplicateState name state)) (\<lambda>_.
          and_then (ensure (tv_color v \<noteq> None) (state_error MissingStateColor name state)) (\<lambda>_.
          and_then (ensure (tv_background v \<noteq> None) (state_error MissingStateColor name state)) (\<lambda>_.
          ensure (tv_marker v \<noteq> None) (state_error MissingStateMarker name state)))))"

definition verify_transient_marker_coverage ::
  "string \<Rightarrow> transient_visual list \<Rightarrow> theme_error + unit" where
  "verify_transient_marker_coverage name visuals =
     each_ok (verify_state name visuals) expected_transient_states"

section \<open>Colours\<close>

record color_math =
  cm_cos :: "f64 \<Rightarrow> f64"
  cm_sin :: "f64 \<Rightarrow> f64"
  cm_powf :: "f64 \<Rightarrow> f64 \<Rightarrow> f64"

definition f64_min :: "f64 \<Rightarrow> f64 \<Rightarrow> f64" where
  "f64_min a b = (if a = NaN then b else if b = NaN then a else if f64_lt b a then b else a)"

text \<open>The remainder of the division towards zero is exact and has the sign of the dividend.\<close>

definition f64_rem :: "f64 \<Rightarrow> rat \<Rightarrow> f64" where
  "f64_rem a r =
     (if f64_finite a then
        (let q = f64_value a / r;
             d = f64_value a - (if 0 \<le> q then of_int \<lfloor>q\<rfloor> else of_int \<lceil>q\<rceil>) * r in
         if d = 0 then (if f64_negative a then NegZero else Fin 0) else Fin d)
      else NaN)"

definition f64_rem_euclid :: "f64 \<Rightarrow> rat \<Rightarrow> f64" where
  "f64_rem_euclid a r =
     (let d = f64_rem a r in if f64_lt d (Fin 0) then f64_add d (Fin r) else d)"

definition f64_pi :: f64 where
  "f64_pi = Fin (884279719003555 / 281474976710656)"

definition to_radians :: "f64 \<Rightarrow> f64" where
  "to_radians a = f64_mul a (f64_div f64_pi (Fin 180))"

record parsed_oklch =
  ok_lightness :: f64
  ok_hue :: f64
  ok_luminance :: f64
  ok_rgb :: "f64 \<times> f64 \<times> f64"

definition weighted :: "f64 \<Rightarrow> (rat \<times> f64) list \<Rightarrow> f64" where
  "weighted start terms = foldl (\<lambda>acc (w, x). f64_add acc (f64_mul (f64_lit w) x)) start terms"

definition cube :: "f64 \<Rightarrow> f64" where
  "cube x = f64_mul (f64_mul x x) x"

definition channel_ok :: "f64 \<Rightarrow> bool" where
  "channel_ok c =
     (f64_le (f64_neg (f64_lit (1 / 10 ^ 6))) c \<and> f64_le c (f64_add (Fin 1) (f64_lit (1 / 10 ^ 6))))"

text \<open>
  \<open>x - w * y\<close> in floats is \<open>x + (- w) * y\<close>: the product and the sum are rounded alike.
\<close>

definition oklch_rgb :: "color_math \<Rightarrow> f64 \<Rightarrow> f64 \<Rightarrow> f64 \<Rightarrow> (f64 \<times> f64 \<times> f64) option" where
  "oklch_rgb cm lightness chroma hue_degrees =
     (let hue = to_radians hue_degrees;
          a = f64_mul chroma (cm_cos cm hue);
          b = f64_mul chroma (cm_sin cm hue);
          l = cube (weighted lightness [(3963377774 / 10 ^ 10, a), (2158037573 / 10 ^ 10, b)]);
          m = cube (weighted lightness [(- 1055613458 / 10 ^ 10, a), (- 638541728 / 10 ^ 10, b)]);
          s = cube (weighted lightness [(- 894841775 / 10 ^ 10, a), (- 1291485548 / 10 ^ 9, b)]);
          red = weighted (f64_mul (f64_lit (40767416621 / 10 ^ 10)) l)
            [(- 33077115913 / 10 ^ 10, m), (2309699292 / 10 ^ 10, s)];
          green = weighted (f64_mul (f64_lit (- 12684380046 / 10 ^ 10)) l)
            [(26097574011 / 10 ^ 10, m), (- 3413193965 / 10 ^ 10, s)];
          blue = weighted (f64_mul (f64_lit (- 41960863 / 10 ^ 10)) l)
            [(- 7034186147 / 10 ^ 10, m), (1707614701 / 10 ^ 9, s)] in
      if channel_ok red \<and> channel_ok green \<and> channel_ok blue then Some (red, green, blue) else None)"

definition parse_color_component ::
  "string \<Rightarrow> semantic_token \<Rightarrow> string \<Rightarrow> string option \<Rightarrow> theme_error + f64" where
  "parse_color_component name token v part =
     (case Option.bind part parse_f64 of
        Some x \<Rightarrow> if f64_finite x then Inr x else Inl (token_error InvalidColor name token (Some v))
      | None \<Rightarrow> Inl (token_error InvalidColor name token (Some v)))"

definition strip_suffix_char :: "char \<Rightarrow> string \<Rightarrow> string option" where
  "strip_suffix_char c s = (if s \<noteq> [] \<and> last s = c then Some (butlast s) else None)"

definition part_at :: "string list \<Rightarrow> nat \<Rightarrow> string option" where
  "part_at parts i = (if i < length parts then Some (parts ! i) else None)"

definition luminance_of :: "f64 \<times> f64 \<times> f64 \<Rightarrow> f64" where
  "luminance_of rgb =
     (case rgb of (r, g, b) \<Rightarrow>
        weighted (f64_mul (f64_lit (2126 / 10 ^ 4)) (f64_max r (Fin 0)))
          [(7152 / 10 ^ 4, f64_max g (Fin 0)), (722 / 10 ^ 4, f64_max b (Fin 0))])"

definition parse_oklch ::
  "color_math \<Rightarrow> string \<Rightarrow> semantic_token \<Rightarrow> string \<Rightarrow> theme_error + parsed_oklch" where
  "parse_oklch cm name token v =
     (case Option.bind (strip_prefix ''oklch('' v) (strip_suffix_char (CHR '')'')) of
        None \<Rightarrow> Inl (token_error InvalidColor name token (Some v))
      | Some contents \<Rightarrow>
          let parts = split_whitespace contents in
          and_then (parse_color_component name token v (part_at parts 0)) (\<lambda>lightness.
          and_then (parse_color_component name token v (part_at parts 1)) (\<lambda>chroma.
          and_then (parse_color_component name token v (part_at parts 2)) (\<lambda>hue_text.
          and_then
            (ensure (length parts \<le> 3 \<and> f64_le (Fin 0) lightness \<and> f64_le lightness (Fin 1) \<and>
                \<not> f64_lt chroma (Fin 0))
              (token_error InvalidColor name token (Some v))) (\<lambda>_.
          let hue = f64_rem_euclid hue_text 360 in
          and_then (ok_or (oklch_rgb cm lightness chroma hue)
              (token_error OutOfGamut name token (Some v))) (\<lambda>rgb.
          Inr \<lparr>ok_lightness = lightness, ok_hue = hue, ok_luminance = luminance_of rgb,
               ok_rgb = rgb\<rparr>))))))"

definition parse_token ::
  "color_math \<Rightarrow> string \<Rightarrow> semantic_palette \<Rightarrow> semantic_token \<Rightarrow> theme_error + parsed_oklch" where
  "parse_token cm name p token =
     and_then (ok_or (token_value p token) (token_error MissingToken name token None))
       (parse_oklch cm name token)"

definition srgb_channel :: "color_math \<Rightarrow> f64 \<Rightarrow> nat" where
  "srgb_channel cm value =
     (let linear = (if f64_lt value (Fin 0) then Fin 0 else if f64_lt (Fin 1) value then Fin 1 else value);
          encoded =
            (if f64_le linear (f64_lit (31308 / 10 ^ 7)) then f64_mul (f64_lit (1292 / 100)) linear
             else f64_sub
               (f64_mul (f64_lit (1055 / 1000)) (cm_powf cm linear (f64_div (Fin 1) (f64_lit (24 / 10)))))
               (f64_lit (55 / 1000)));
          scaled = f64_mul encoded (Fin 255) in
      case scaled of
        NaN \<Rightarrow> 0 | NegInf \<Rightarrow> 0 | PosInf \<Rightarrow> 255 | NegZero \<Rightarrow> 0
      | Fin q \<Rightarrow> nat (max 0 (min 255 (if 0 \<le> q then \<lfloor>q + 1 / 2\<rfloor> else \<lceil>q - 1 / 2\<rceil>))))"

definition palette_rgb :: "color_math \<Rightarrow> palette \<Rightarrow> semantic_token \<Rightarrow> theme_error + rgb_color" where
  "palette_rgb cm p token =
     and_then (parse_token cm (pl_name p) (semantic_of p) token) (\<lambda>c.
       case ok_rgb c of (r, g, b) \<Rightarrow>
         Inr \<lparr>rc_red = srgb_channel cm r, rc_green = srgb_channel cm g, rc_blue = srgb_channel cm b\<rparr>)"

definition contrast_ratio :: "f64 \<Rightarrow> f64 \<Rightarrow> f64" where
  "contrast_ratio a b =
     f64_div (f64_add (f64_max a b) (f64_lit (5 / 100))) (f64_add (f64_min a b) (f64_lit (5 / 100)))"

definition require_contrast ::
  "color_math \<Rightarrow> string \<Rightarrow> semantic_palette \<Rightarrow> semantic_token \<Rightarrow> semantic_token \<Rightarrow> f64 \<Rightarrow> theme_error + unit"
where
  "require_contrast cm name p foreground background minimum =
     and_then (parse_token cm name p foreground) (\<lambda>f.
     and_then (parse_token cm name p background) (\<lambda>b.
     let ratio = contrast_ratio (ok_luminance f) (ok_luminance b) in
     ensure (\<not> f64_lt ratio minimum)
       (relation_error ContrastBelowMinimum name foreground background ratio minimum)))"

definition lightness_shift :: "parsed_oklch \<Rightarrow> parsed_oklch \<Rightarrow> f64" where
  "lightness_shift a b =
     (if f64_le (f64_abs (f64_sub (ok_lightness a) (ok_lightness b))) f64_epsilon then Fin 1
      else contrast_ratio (ok_luminance a) (ok_luminance b))"

definition require_lightness_shift ::
  "color_math \<Rightarrow> string \<Rightarrow> semantic_palette \<Rightarrow> semantic_token \<Rightarrow> semantic_token \<Rightarrow> f64 \<Rightarrow> theme_error + unit"
where
  "require_lightness_shift cm name p first second minimum =
     and_then (parse_token cm name p first) (\<lambda>a.
     and_then (parse_token cm name p second) (\<lambda>b.
     let ratio = lightness_shift a b in
     ensure (\<not> f64_lt ratio minimum)
       (relation_error LightnessShiftBelowMinimum name first second ratio minimum)))"

definition hue_distance :: "f64 \<Rightarrow> f64 \<Rightarrow> f64" where
  "hue_distance a b =
     (let d = f64_rem_euclid (f64_abs (f64_sub a b)) 360 in f64_min d (f64_sub (Fin 360) d))"

definition require_hue_distinction ::
  "color_math \<Rightarrow> string \<Rightarrow> semantic_palette \<Rightarrow> semantic_token \<Rightarrow> semantic_token \<Rightarrow> theme_error + unit"
where
  "require_hue_distinction cm name p first second =
     and_then (parse_token cm name p first) (\<lambda>a.
     and_then (parse_token cm name p second) (\<lambda>b.
     let d = hue_distance (ok_hue a) (ok_hue b) in
     ensure (\<not> f64_le d f64_epsilon)
       (relation_error HueNotDistinct name first second d f64_epsilon)))"

section \<open>The contract of a palette\<close>

definition figure_tokens :: "semantic_token list" where
  "figure_tokens =
     [ViewportBody, ViewportEdge, ViewportGrid, ViewportSelectedBody, ViewportSelectedEdge,
      ViewportCandidateBody, ViewportCandidateEdge, ViewportDragFeedback, ViewportOverlay]"

definition verify_semantic_palette ::
  "color_math \<Rightarrow> string \<Rightarrow> semantic_palette \<Rightarrow> theme_error + unit" where
  "verify_semantic_palette cm name p =
     (let contrast = require_contrast cm name p; shift = require_lightness_shift cm name p in
      and_then (each_ok (\<lambda>t. contrast t ViewportBackground (Fin 3)) figure_tokens) (\<lambda>_.
      and_then (shift ViewportSelectedEdge ViewportEdge (Fin (3 / 2))) (\<lambda>_.
      and_then (require_hue_distinction cm name p ViewportSelectedEdge ViewportEdge) (\<lambda>_.
      and_then
        (each_ok (\<lambda>t.
            and_then (contrast t ViewportBackground (Fin (9 / 2))) (\<lambda>_.
              shift t ViewportSelectedEdge (Fin (3 / 2)))) [ViewportWarning, ViewportError]) (\<lambda>_.
      and_then (shift ViewportWarning ViewportError (Fin (3 / 2))) (\<lambda>_.
      and_then (shift ViewportSelectedBody ViewportBody (Fin (3 / 2))) (\<lambda>_.
      and_then
        (each_ok (\<lambda>t. contrast t TuiBackground (Fin (9 / 2)))
          [TuiForeground, TuiAccent, TuiWarning, TuiError]) (\<lambda>_.
      and_then (contrast TuiMuted TuiBackground (Fin 3)) (\<lambda>_.
      contrast TuiSelectionForeground TuiSelectionBackground (Fin (9 / 2)))))))))))"

definition verify_palette :: "color_math \<Rightarrow> palette \<Rightarrow> theme_error + unit" where
  "verify_palette cm p = verify_semantic_palette cm (pl_name p) (semantic_of p)"

definition verify_visual_token ::
  "palette \<Rightarrow> transient_state \<Rightarrow> semantic_token option \<Rightarrow> theme_error + unit" where
  "verify_visual_token p state token =
     (case token of
        None \<Rightarrow> Inl (state_error MissingStateColor (pl_name p) state)
      | Some t \<Rightarrow>
          ensure (token_value (semantic_of p) t \<noteq> None)
            ((token_error MissingToken (pl_name p) t None)\<lparr>th_state := Some state\<rparr>))"

definition verify_theme_contract :: "color_math \<Rightarrow> palette \<Rightarrow> theme_error + unit" where
  "verify_theme_contract cm p =
     and_then (verify_palette cm p) (\<lambda>_.
     and_then (verify_transient_marker_coverage (pl_name p) transient_visuals) (\<lambda>_.
     each_ok (\<lambda>v.
       and_then (verify_visual_token p (tv_state v) (tv_color v)) (\<lambda>_.
         verify_visual_token p (tv_state v) (tv_background v))) transient_visuals))"

section \<open>The palette of a session\<close>

datatype palette_source = CliSource | EnvironmentSource | ConfigSource | DefaultSource

fun source_name :: "palette_source \<Rightarrow> string" where
  "source_name CliSource = ''cli''"
| "source_name EnvironmentSource = ''environment''"
| "source_name ConfigSource = ''config''"
| "source_name DefaultSource = ''default''"

datatype palette_reason = EmptyValue | UnknownPalette | ThemeContractInvalid

fun reason_name :: "palette_reason \<Rightarrow> string" where
  "reason_name EmptyValue = ''missing_value''"
| "reason_name UnknownPalette = ''unknown_palette''"
| "reason_name ThemeContractInvalid = ''theme_contract_invalid''"

record palette_error =
  pe_source :: palette_source
  pe_value :: string
  pe_reason :: palette_reason
  pe_verification :: "theme_error option"

record palette_sources =
  ps_cli :: "string option"
  ps_environment :: "string option"
  ps_config :: "string option"

record resolved_palette =
  rp_palette :: palette
  rp_source :: palette_source

definition resolve_verified ::
  "color_math \<Rightarrow> palette \<Rightarrow> palette_source \<Rightarrow> palette_error + resolved_palette" where
  "resolve_verified cm p source =
     (case verify_theme_contract cm p of
        Inl e \<Rightarrow>
          Inl \<lparr>pe_source = source, pe_value = pl_name p, pe_reason = ThemeContractInvalid,
               pe_verification = Some e\<rparr>
      | Inr _ \<Rightarrow> Inr \<lparr>rp_palette = p, rp_source = source\<rparr>)"

definition resolve_named ::
  "color_math \<Rightarrow> string \<Rightarrow> palette_source \<Rightarrow> palette_error + resolved_palette" where
  "resolve_named cm v source =
     (if v = [] then
        Inl \<lparr>pe_source = source, pe_value = v, pe_reason = EmptyValue, pe_verification = None\<rparr>
      else
        (case palette_named v of
           None \<Rightarrow>
             Inl \<lparr>pe_source = source, pe_value = v, pe_reason = UnknownPalette,
                  pe_verification = None\<rparr>
         | Some p \<Rightarrow> resolve_verified cm p source))"

definition resolve_palette :: "color_math \<Rightarrow> palette_sources \<Rightarrow> palette_error + resolved_palette" where
  "resolve_palette cm sources =
     (case ps_cli sources of Some v \<Rightarrow> resolve_named cm v CliSource
      | None \<Rightarrow>
     (case ps_environment sources of Some v \<Rightarrow> resolve_named cm v EnvironmentSource
      | None \<Rightarrow>
     (case ps_config sources of Some v \<Rightarrow> resolve_named cm v ConfigSource
      | None \<Rightarrow> resolve_verified cm default_dark DefaultSource)))"

end
