(* ===== verification/CliDispatch.thy ===== *)
theory CliDispatch
  imports Requests HostFailures Palettes
begin

text \<open>
  The dispatcher of the command line (\<^verbatim>\<open>crates/cli/src/dispatch.rs\<close>): the palette
  option, the run of a registered command through the execution guard, and what is written where
  with which exit code.  The host is the record \<open>cli_host\<close> over a state \<open>'s\<close>: the handlers of the
  commands, the preview of a sketch, the rehearsal and the Lua bridge.  A result \<open>None\<close> is a panic.
\<close>

section \<open>The palette option\<close>

record palette_startup_error =
  su_value :: string
  su_source :: palette_source
  su_detail :: string

definition palette_startup_error :: "string \<Rightarrow> string \<Rightarrow> palette_startup_error" where
  "palette_startup_error v detail = \<lparr>su_value = v, su_source = CliSource, su_detail = detail\<rparr>"

definition parse_palette_value :: "string \<Rightarrow> palette_startup_error + string" where
  "parse_palette_value v =
     (if v = [] then Inl (palette_startup_error ''<missing>'' ''missing_value'') else Inr v)"

definition parse_palette_os_value :: "os_string \<Rightarrow> palette_startup_error + string" where
  "parse_palette_os_value a =
     (case to_str a of
        None \<Rightarrow> Inl (palette_startup_error ''<non-utf8>'' ''non_utf8_value'')
      | Some v \<Rightarrow> parse_palette_value v)"

definition parse_palette_argument ::
  "os_string \<Rightarrow> os_string list \<Rightarrow> bool \<Rightarrow> palette_startup_error + (string \<times> nat) option" where
  "parse_palette_argument a rest already_present =
     (if a = ''--palette'' then
        if already_present then Inl (palette_startup_error ''<duplicate>'' ''duplicate_option'')
        else
          (case rest of
             [] \<Rightarrow> Inl (palette_startup_error ''<missing>'' ''missing_value'')
           | v # _ \<Rightarrow> and_then (parse_palette_os_value v) (\<lambda>p. Inr (Some (p, 2))))
      else
        (case to_str a of
           None \<Rightarrow>
             if starts_with_string ''--palette='' a
             then Inl (palette_startup_error ''<non-utf8>'' ''non_utf8_value'') else Inr None
         | Some t \<Rightarrow>
             (case strip_prefix ''--palette='' t of
                None \<Rightarrow> Inr None
              | Some v \<Rightarrow>
                  if already_present
                  then Inl (palette_startup_error ''<duplicate>'' ''duplicate_option'')
                  else and_then (parse_palette_value v) (\<lambda>p. Inr (Some (p, 1))))))"

text \<open>The loop over the arguments; after \<^verbatim>\<open>--\<close> no option is looked for.\<close>

function palette_loop ::
  "os_string list \<Rightarrow> bool \<Rightarrow> string option \<Rightarrow> palette_startup_error + os_string list \<times> string option"
where
  "palette_loop [] global palette = Inr ([], palette)"
| "palette_loop (a # rest) global palette =
     (if global \<and> a = ''--'' then
        and_then (palette_loop rest False palette) (\<lambda>(filtered, p). Inr (a # filtered, p))
      else if global then
        (case parse_palette_argument a rest (palette \<noteq> None) of
           Inl e \<Rightarrow> Inl e
         | Inr (Some (v, consumed)) \<Rightarrow> palette_loop (drop (consumed - 1) rest) global (Some v)
         | Inr None \<Rightarrow>
             and_then (palette_loop rest global palette) (\<lambda>(filtered, p). Inr (a # filtered, p)))
      else and_then (palette_loop rest global palette) (\<lambda>(filtered, p). Inr (a # filtered, p)))"
  by pat_completeness auto
termination
  by (relation "measure (\<lambda>(args, _). length args)") auto

definition extract_palette ::
  "os_string list \<Rightarrow> palette_startup_error + os_string list \<times> string option" where
  "extract_palette args = palette_loop args True None"

definition palette_error_to_startup_error :: "palette_error \<Rightarrow> palette_startup_error" where
  "palette_error_to_startup_error e =
     \<lparr>su_value = (if pe_value e = [] then ''<missing>'' else pe_value e), su_source = pe_source e,
      su_detail = reason_name (pe_reason e)\<rparr>"

definition resolve_startup_palette ::
  "color_math \<Rightarrow> os_string list \<Rightarrow> os_string option \<Rightarrow> string option \<Rightarrow>
   palette_startup_error + os_string list \<times> resolved_palette"
where
  "resolve_startup_palette cm args environment config =
     and_then (extract_palette args) (\<lambda>(filtered, cli).
     and_then
       (case cli of
          Some v \<Rightarrow> Inr \<lparr>ps_cli = Some v, ps_environment = None, ps_config = None\<rparr>
        | None \<Rightarrow>
            (case environment of
               Some a \<Rightarrow>
                 (case to_str a of
                    None \<Rightarrow>
                      Inl \<lparr>su_value = ''<non-utf8>'', su_source = EnvironmentSource,
                           su_detail = ''non_utf8_value''\<rparr>
                  | Some v \<Rightarrow> Inr \<lparr>ps_cli = None, ps_environment = Some v, ps_config = None\<rparr>)
             | None \<Rightarrow> Inr \<lparr>ps_cli = None, ps_environment = None, ps_config = config\<rparr>))
     (\<lambda>sources.
     and_then (map_err palette_error_to_startup_error (resolve_palette cm sources)) (\<lambda>resolved.
     Inr (filtered, resolved))))"

section \<open>The configuration file\<close>

definition config_error :: "string \<Rightarrow> string \<Rightarrow> palette_startup_error" where
  "config_error v detail = \<lparr>su_value = v, su_source = ConfigSource, su_detail = detail\<rparr>"

definition between :: "char \<Rightarrow> string \<Rightarrow> string option" where
  "between q s = Option.bind (strip_prefix [q] s) (strip_suffix_char q)"

definition unquote :: "string \<Rightarrow> string" where
  "unquote s =
     (case between (CHR 0x22) s of
        Some v \<Rightarrow> v
      | None \<Rightarrow> (case between (CHR 0x27) s of Some v \<Rightarrow> v | None \<Rightarrow> s))"

definition config_entry :: "string \<Rightarrow> string option" where
  "config_entry line =
     (case split_once (CHR ''='') (trim_text (hd (split_at_char (CHR ''#'') line))) of
        None \<Rightarrow> None
      | Some (key, v) \<Rightarrow>
          if trim_text key = ''palette'' then Some (unquote (trim_text v)) else None)"

fun config_loop :: "string list \<Rightarrow> string option \<Rightarrow> palette_startup_error + string option" where
  "config_loop [] palette = Inr palette"
| "config_loop (line # rest) palette =
     (case config_entry line of
        None \<Rightarrow> config_loop rest palette
      | Some v \<Rightarrow>
          if palette \<noteq> None then Inl (config_error ''<duplicate>'' ''duplicate_option'')
          else config_loop rest (Some v))"

definition parse_config_palette :: "string \<Rightarrow> palette_startup_error + string option" where
  "parse_config_palette contents = config_loop (text_lines contents) None"

definition load_config_palette ::
  "cli_world \<Rightarrow> os_string option \<Rightarrow> palette_startup_error + string option" where
  "load_config_palette w variable =
     (case variable of
        None \<Rightarrow> Inr None
      | Some path \<Rightarrow>
          and_then (map_err (\<lambda>_. config_error
              (case to_str path of None \<Rightarrow> ''<non-utf8>'' | Some t \<Rightarrow> t) ''config_read_failure'')
            (cw_read w path)) (\<lambda>contents.
          and_then (ok_or (to_str contents) (config_error ''<non-utf8>'' ''non_utf8_value''))
            parse_config_palette))"

section \<open>What a run writes\<close>

datatype error_line = DiagnosticLine diagnostic | JsonLine json | TextLine string

record cli_outcome =
  co_exit :: int
  co_out :: "json list"
  co_err :: "error_line list"

definition failing :: "int \<Rightarrow> error_line \<Rightarrow> cli_outcome" where
  "failing code line = \<lparr>co_exit = code, co_out = [], co_err = [line]\<rparr>"

definition emit_unknown_command :: "string \<Rightarrow> cli_outcome" where
  "emit_unknown_command arg = failing 2 (DiagnosticLine (base_diagnostic UnknownCommandCode arg))"

definition emit_internal_error :: "string \<Rightarrow> cli_outcome" where
  "emit_internal_error detail =
     failing 2 (DiagnosticLine (base_diagnostic UnknownCommandCode detail))"

definition emit_persistence_error :: "string \<Rightarrow> cli_outcome" where
  "emit_persistence_error detail =
     failing 3 (DiagnosticLine (base_diagnostic PersistenceFailure detail))"

definition palette_recovery :: string where
  "palette_recovery = ''use --palette or THREETERM_PALETTE with one of: '' @
     ''catppuccin, tokyo-night, evergreen, gruvbox, sandman-light''"

definition emit_palette_error :: "palette_startup_error \<Rightarrow> cli_outcome" where
  "emit_palette_error e =
     failing 6 (DiagnosticLine (theme_palette_invalid (su_value e) (source_name (su_source e))
       (su_detail e) palette_recovery))"

text \<open>The standard output takes the response, or the write of it fails with the given text.\<close>

definition underscores_to_dashes :: "string \<Rightarrow> string" where
  "underscores_to_dashes s = map (\<lambda>c. if c = CHR ''_'' then CHR ''-'' else c) s"

definition shown_response :: "json \<Rightarrow> json" where
  "shown_response v =
     (case (v, json_str_at ''operation'' v) of
        (JObject members, Some operation) \<Rightarrow>
          JObject (bt_insert ''operation'' (JString (underscores_to_dashes operation)) members)
      | _ \<Rightarrow> v)"

definition write_success :: "string option \<Rightarrow> json \<Rightarrow> cli_outcome" where
  "write_success stdout_failure v =
     (case stdout_failure of
        None \<Rightarrow> \<lparr>co_exit = 0, co_out = [shown_response v], co_err = []\<rparr>
      | Some e \<Rightarrow> emit_internal_error (''response write failed: '' @ e))"

record rehearsal_error =
  rh_stage :: string
  rh_detail :: json
  rh_current_revision :: "string option"

definition rehearsal_diagnostic :: "rehearsal_error \<Rightarrow> json" where
  "rehearsal_diagnostic e =
     object_of
       [(''schema_version'', JString protocol_schema_version), (''code'', JString ''rehearsal_failure''),
        (''stage'', JString (rh_stage e)), (''detail'', rh_detail e),
        (''current_revision'', or_null JString (rh_current_revision e)),
        (''recovery'', JString (''canonical state remains at current_revision; '' @
          ''inspect the failed stage and retry with a fresh output root''))]"

text \<open>
  With debug assertions the diagnostic of a rehearsal is validated before it is written, and a
  diagnostic that does not conform to its document is a panic.
\<close>

definition write_rehearsal_diagnostic ::
  "bool \<Rightarrow> schema_codecs \<Rightarrow> json \<Rightarrow> cli_outcome option" where
  "write_rehearsal_diagnostic debug cd d =
     (if debug \<and> \<not> is_ok (validate cd rehearse_failure_diagnostic_schema d) then None
      else Some (failing 7 (JsonLine d)))"

definition write_rehearsal_failure ::
  "bool \<Rightarrow> schema_codecs \<Rightarrow> rehearsal_error \<Rightarrow> cli_outcome option" where
  "write_rehearsal_failure debug cd e = write_rehearsal_diagnostic debug cd (rehearsal_diagnostic e)"

definition argument_failure ::
  "bool \<Rightarrow> schema_codecs \<Rightarrow> string \<Rightarrow> cli_outcome option" where
  "argument_failure debug cd message =
     write_rehearsal_failure debug cd
       \<lparr>rh_stage = ''argument_parse'', rh_detail = object_of [(''message'', JString message)],
        rh_current_revision = None\<rparr>"

section \<open>Host errors on the standard error\<close>

definition semantic_reference_diagnostic :: "string \<Rightarrow> diagnostic option" where
  "semantic_reference_diagnostic detail =
     (if contains_text detail ''reference is ambiguous''
      then Some (base_diagnostic ReferenceAmbiguous detail)
      else if contains_text detail ''reference is lost''
      then Some (base_diagnostic ReferenceLost detail)
      else if contains_text detail ''reference is incompatible''
      then Some (base_diagnostic ReferenceIncompatible detail)
      else None)"

definition for_request :: "string option \<Rightarrow> string \<Rightarrow> string" where
  "for_request request_id detail =
     (case request_id of None \<Rightarrow> detail | Some r \<Rightarrow> ''request_id='' @ r @ ''; '' @ detail)"

definition validation_diagnostic :: "string \<Rightarrow> diagnostic" where
  "validation_diagnostic detail =
     (case semantic_reference_diagnostic detail of
        Some d \<Rightarrow> d | None \<Rightarrow> base_diagnostic InvalidRequestCode detail)"

fun host_error_diagnostic :: "(json \<Rightarrow> string) \<Rightarrow> host_error \<Rightarrow> diagnostic" where
  "host_error_diagnostic json_text (HostInvalidEdit detail ids recovery) =
     domain_command_diagnostic json_text (HostInvalidEdit detail ids recovery)"
| "host_error_diagnostic json_text (HostInvalidReference detail ids recovery) =
     domain_command_diagnostic json_text (HostInvalidReference detail ids recovery)"
| "host_error_diagnostic json_text (HostBrepInvalid r detail) =
     base_diagnostic BrepInvalidCode (host_error_text (HostBrepInvalid r detail))"
| "host_error_diagnostic json_text (HostBrepIo detail) =
     base_diagnostic BrepInvalidCode (host_error_text (HostBrepIo detail))"
| "host_error_diagnostic json_text (HostUnsupportedGeometry r detail) =
     base_diagnostic UnsupportedGeometryCode (host_error_text (HostUnsupportedGeometry r detail))"
| "host_error_diagnostic json_text (HostWorkerFailure r detail) =
     base_diagnostic WorkerFailureCode (for_request r detail)"
| "host_error_diagnostic json_text (HostWorkerUnavailable detail) =
     base_diagnostic WorkerFailureCode (host_error_text (HostWorkerUnavailable detail))"
| "host_error_diagnostic json_text (HostWorkerTerminated t) =
     base_diagnostic WorkerFailureCode (json_text (termination_value t))"
| "host_error_diagnostic json_text (HostStaleGeometry f a stale) =
     base_diagnostic InvalidRequestCode (host_error_text (HostStaleGeometry f a stale))"
| "host_error_diagnostic json_text (HostValidation detail) = validation_diagnostic detail"
| "host_error_diagnostic json_text (HostPersistence e) =
     (case e of
        LogDigestDiffers \<Rightarrow> base_diagnostic IntegrityFailure (bundle_detail e)
      | BrokenLink _ _ \<Rightarrow> base_diagnostic IntegrityFailure (bundle_detail e)
      | IdentityDiffers _ _ _ \<Rightarrow> base_diagnostic IntegrityFailure (bundle_detail e)
      | IdentityAbsent _ \<Rightarrow> base_diagnostic IntegrityFailure (bundle_detail e)
      | _ \<Rightarrow> base_diagnostic PersistenceFailure (bundle_detail e))"
| "host_error_diagnostic json_text (HostDerivedResult d) = d"
| "host_error_diagnostic json_text e = base_diagnostic IntegrityFailure (host_error_text e)"

definition draft_text :: "string \<Rightarrow> string \<Rightarrow> string \<Rightarrow> string" where
  "draft_text kind draft_id members =
     [CHR 0x7B] @ debug_string ''kind'' @ '':'' @ debug_string kind @ '','' @ debug_string ''draft_id'' @
     '':'' @ debug_string draft_id @ '','' @ debug_string ''idempotency_key'' @ '':'' @
     debug_string draft_id @ members @ [CHR 0x7D]"

definition draft_member :: "string \<Rightarrow> string \<Rightarrow> string" where
  "draft_member key v = '','' @ debug_string key @ '':'' @ debug_string v"

definition draft_count :: "string \<Rightarrow> nat \<Rightarrow> string" where
  "draft_count key n = '','' @ debug_string key @ '':'' @ show_nat n"

definition draft_recovery :: "string \<Rightarrow> string \<Rightarrow> string \<Rightarrow> string" where
  "draft_recovery source current recovery =
     draft_member ''source_revision'' source @ draft_member ''current_revision'' current @
     draft_member ''recovery'' recovery"

definition stale_detail_value :: "string \<Rightarrow> string \<Rightarrow> stale_entry list \<Rightarrow> json" where
  "stale_detail_value feature_id active_revision stale =
     object_of
       [(''code'', JString ''stale_last_valid_geometry''), (''feature_id'', JString feature_id),
        (''active_revision'', JString active_revision),
        (''stale_features'', JArray (map stale_entry_value stale)),
        (''recovery'', JString stale_recovery), (''override_eligible'', JBool False)]"

fun load_detail :: "(json \<Rightarrow> string) \<Rightarrow> host_error \<Rightarrow> string" where
  "load_detail json_text (HostValidation detail) = detail"
| "load_detail json_text (HostStaleGeometry f a stale) = json_text (stale_detail_value f a stale)"
| "load_detail json_text (HostBundleMissing _) = ''bundle_path_missing''"
| "load_detail json_text (HostBundleNotDirectory _) = ''bundle_path_not_directory''"
| "load_detail json_text (HostPersistence e) = bundle_detail e"
| "load_detail json_text (HostWorkerFailure r detail) = for_request r detail"
| "load_detail json_text (HostWorkerUnavailable detail) = detail"
| "load_detail json_text (HostUnsupportedGeometry r detail) = for_request r detail"
| "load_detail json_text (HostBrepInvalid r detail) = for_request r detail"
| "load_detail json_text (HostInvalidEdit detail _ _) = detail"
| "load_detail json_text (HostInvalidReference detail _ _) = detail"
| "load_detail json_text (HostBrepFileMissing path) = ''brep file missing: '' @ lossy path"
| "load_detail json_text (HostBrepIo detail) = detail"
| "load_detail json_text (HostFingerprintMismatch _ _) = ''LAYER_1_FINGERPRINT_MISMATCH''"
| "load_detail json_text (DraftAlreadyExists draft_id) = draft_text ''draft_already_exists'' draft_id []"
| "load_detail json_text (DraftNotFound draft_id) = draft_text ''draft_not_found'' draft_id []"
| "load_detail json_text (DraftStale draft_id source current recovery) =
     draft_text ''draft_stale'' draft_id (draft_recovery source current recovery)"
| "load_detail json_text (DraftSourceChanged draft_id f source current recovery) =
     draft_text ''draft_source_changed'' draft_id
       (draft_member ''source_feature_id'' f @ draft_recovery source current recovery)"
| "load_detail json_text (DraftInvalid draft_id detail) =
     draft_text ''draft_invalid'' draft_id (draft_member ''detail'' detail)"
| "load_detail json_text (DraftInputConflict draft_id source current recovery) =
     draft_text ''draft_input_conflict'' draft_id (draft_recovery source current recovery)"
| "load_detail json_text (DraftSequenceConflict draft_id expected current) =
     draft_text ''draft_sequence_conflict'' draft_id
       (draft_count ''expected_sequence'' expected @ draft_count ''current_sequence'' current @
        draft_member ''recovery'' ''refresh_draft_and_retry'')"
| "load_detail json_text (DraftIdempotencyConflict draft_id source current recovery) =
     draft_text ''draft_idempotency_conflict'' draft_id (draft_recovery source current recovery)"
| "load_detail json_text (DraftUnknownOutcome draft_id source current recovery) =
     draft_text ''draft_unknown_outcome'' draft_id (draft_recovery source current recovery)"
| "load_detail json_text (HostWorkerTerminated t) =
     dg_arg (host_error_diagnostic json_text (HostWorkerTerminated t))"
| "load_detail json_text (HostDerivedResult d) = dg_arg d"

definition load_diagnostic :: "(json \<Rightarrow> string) \<Rightarrow> host_error \<Rightarrow> diagnostic \<times> int" where
  "load_diagnostic json_text e =
     (let detail = load_detail json_text e in
      case e of
        HostInvalidEdit _ _ _ \<Rightarrow> (domain_command_diagnostic json_text e, 5)
      | HostInvalidReference _ _ _ \<Rightarrow> (domain_command_diagnostic json_text e, 2)
      | HostBrepInvalid _ _ \<Rightarrow> (base_diagnostic BrepInvalidCode detail, 5)
      | HostBrepIo _ \<Rightarrow> (base_diagnostic BrepInvalidCode detail, 5)
      | HostWorkerFailure _ _ \<Rightarrow> (base_diagnostic WorkerFailureCode detail, 4)
      | HostWorkerUnavailable _ \<Rightarrow> (base_diagnostic WorkerFailureCode detail, 4)
      | HostWorkerTerminated _ \<Rightarrow> (base_diagnostic WorkerFailureCode detail, 4)
      | HostUnsupportedGeometry _ _ \<Rightarrow> (base_diagnostic UnsupportedGeometryCode detail, 4)
      | HostStaleGeometry _ _ _ \<Rightarrow> (base_diagnostic InvalidRequestCode detail, 5)
      | HostDerivedResult d \<Rightarrow> (d, 5)
      | _ \<Rightarrow> (base_diagnostic IntegrityFailure detail, 2))"

definition emit_host_error :: "(json \<Rightarrow> string) \<Rightarrow> host_error \<Rightarrow> cli_outcome" where
  "emit_host_error json_text e =
     (case e of
        HostDerivedResult d \<Rightarrow> failing 2 (DiagnosticLine d)
      | _ \<Rightarrow>
          (case load_diagnostic json_text e of (d, code) \<Rightarrow>
             failing code (DiagnosticLine
               (case e of
                  HostPersistence b \<Rightarrow>
                    if structured_detail b then d\<lparr>dg_detail := Some (bundle_text b)\<rparr> else d
                | _ \<Rightarrow> d))))"

definition emit_export_error :: "string \<Rightarrow> host_error \<Rightarrow> cli_outcome" where
  "emit_export_error feature_id e =
     (case e of
        HostStaleGeometry f active_revision stale \<Rightarrow>
          failing 5 (JsonLine (stale_geometry_value f active_revision stale))
      | HostValidation detail \<Rightarrow>
          if starts_with_string [CHR 0x7B] detail then failing 5 (TextLine detail)
          else failing 2 (DiagnosticLine (validation_diagnostic detail))
      | _ \<Rightarrow>
          failing 5 (JsonLine (object_of
            [(''severity'', JString ''fatal''), (''code'', JString ''export_failed''),
             (''affected_feature_id'', JString feature_id),
             (''recovery'', JString ''fix the selected feature or output directory and retry''),
             (''override_eligible'', JBool False), (''detail'', JString (host_error_text e)),
             (''schema_version'', JString protocol_schema_version)])))"

end
