(* ===== verification/CliRun.thy ===== *)
theory CliRun
  imports CliDispatch
begin

text \<open>
  The run of one command line (\<^verbatim>\<open>dispatch\<close> of \<^verbatim>\<open>crates/cli/src/dispatch.rs\<close>),
  from the arguments to the exit code.
\<close>

record 's cli_host =
  ch_handler :: "string \<Rightarrow> ('s, host_error) handler"
  ch_preview :: "string \<Rightarrow> json \<Rightarrow> 's \<Rightarrow> 's \<times> (host_error execution_error + string)"
  ch_rehearse :: "string \<Rightarrow> string \<Rightarrow> 's \<Rightarrow> 's \<times> (rehearsal_error + json)"
  ch_adversarial :: "string \<Rightarrow> string \<Rightarrow> 's \<Rightarrow> 's \<times> (rehearsal_error + json)"
  ch_lua :: "string \<Rightarrow> string \<Rightarrow> 's \<Rightarrow> 's \<times> cli_outcome"
  ch_json_text :: "json \<Rightarrow> string"
  ch_debug_error :: "host_error execution_error \<Rightarrow> string"
  ch_stdout_failure :: "string option"
  ch_debug_assertions :: bool

section \<open>Dispatch errors\<close>

datatype dispatch_error =
    DispatchHost host_error
  | DispatchValidation string
  | DispatchUnknown string
  | UnsupportedTool string string

fun dispatch_error_of :: "host_error execution_error \<Rightarrow> dispatch_error option" where
  "dispatch_error_of (UnknownCommand command) = Some (DispatchUnknown command)"
| "dispatch_error_of (InvalidRequest detail) = Some (DispatchValidation detail)"
| "dispatch_error_of (HandlerFailed e) = Some (DispatchHost e)"
| "dispatch_error_of (InvalidResponse detail) =
     Some (DispatchValidation (''response violates registered schema: '' @ detail))"
| "dispatch_error_of GuardPanicked = None"

definition unsupported_tool_text :: "string \<Rightarrow> string \<Rightarrow> string" where
  "unsupported_tool_text wire_name version =
     ''tool '' @ debug_string wire_name @ '' (schema_version '' @ debug_string version @
     '') is not dispatched by this transport in the current slice''"

fun dispatch_detail :: "dispatch_error \<Rightarrow> string" where
  "dispatch_detail (DispatchHost e) =
     (case e of
        HostBundleMissing _ \<Rightarrow> ''bundle_path_missing''
      | HostBundleNotDirectory _ \<Rightarrow> ''bundle_path_not_directory''
      | HostValidation detail \<Rightarrow> ''host_validation: '' @ detail
      | HostPersistence b \<Rightarrow> bundle_detail b
      | _ \<Rightarrow> host_error_text e)"
| "dispatch_detail (DispatchValidation detail) = ''dispatch_validation: '' @ detail"
| "dispatch_detail (DispatchUnknown command) = ''unknown command: '' @ command"
| "dispatch_detail (UnsupportedTool wire_name version) = unsupported_tool_text wire_name version"

fun dispatch_error_text :: "dispatch_error \<Rightarrow> string" where
  "dispatch_error_text (DispatchHost e) = host_error_text e"
| "dispatch_error_text (DispatchValidation detail) = ''dispatch.validation: '' @ detail"
| "dispatch_error_text (DispatchUnknown command) = ''unknown command: '' @ command"
| "dispatch_error_text (UnsupportedTool wire_name version) = unsupported_tool_text wire_name version"

definition dispatch_diagnostic :: "(json \<Rightarrow> string) \<Rightarrow> dispatch_error \<Rightarrow> diagnostic" where
  "dispatch_diagnostic json_text e =
     (case e of
        DispatchHost h \<Rightarrow> host_error_diagnostic json_text h
      | _ \<Rightarrow>
          let detail = dispatch_detail e in
          if contains_text detail ''reference is ambiguous'' \<or> contains_text detail ''ID already exists''
          then base_diagnostic ReferenceAmbiguous detail
          else if contains_text detail ''reference is lost'' then base_diagnostic ReferenceLost detail
          else if contains_text detail ''reference is incompatible''
          then base_diagnostic ReferenceIncompatible detail
          else base_diagnostic InvalidRequestCode detail)"

definition emit_dispatch_error :: "(json \<Rightarrow> string) \<Rightarrow> dispatch_error \<Rightarrow> cli_outcome" where
  "emit_dispatch_error json_text e = failing 2 (DiagnosticLine (dispatch_diagnostic json_text e))"

section \<open>Running a registered command\<close>

text \<open>\<^verbatim>\<open>request["key"] = v\<close>, which panics on a value that is no object.\<close>

definition set_key :: "string \<Rightarrow> json \<Rightarrow> json \<Rightarrow> json option" where
  "set_key k v request =
     (case request of
        JObject members \<Rightarrow> Some (JObject (bt_insert k v members))
      | JNull \<Rightarrow> Some (JObject [(k, v)])
      | _ \<Rightarrow> None)"

definition wants_preview :: "string \<Rightarrow> json \<Rightarrow> bool" where
  "wants_preview command request =
     (command = ''sketch-solve'' \<and> json_str_at ''phase'' request \<noteq> Some ''preview'' \<and>
      json_get ''preview_revision'' request = None)"

text \<open>
  The document of the command makes both members texts, so the guard never lets the last branch
  run, where the source would panic on an \<^verbatim>\<open>expect\<close>.
\<close>

definition rehearsal_handler :: "'s cli_host \<Rightarrow> ('s, host_error) handler" where
  "rehearsal_handler host request s =
     (case (json_str_at ''output_dir'' request, json_str_at ''release_candidate'' request) of
        (Some output_dir, Some candidate) \<Rightarrow>
          (case ch_rehearse host output_dir candidate s of
             (s', Inl e) \<Rightarrow> (s', Inl (HostValidation (ch_json_text host (rehearsal_diagnostic e))))
           | (s', Inr report) \<Rightarrow> (s', Inr report))
      | _ \<Rightarrow> (s, Inl (HostValidation [])))"

definition run_command ::
  "'s cli_host \<Rightarrow> schema_codecs \<Rightarrow> string \<Rightarrow> json \<Rightarrow> 's \<Rightarrow> 's \<times> (dispatch_error + json) option" where
  "run_command host cd command request s =
     (case execute_command cd command request
         (if command = ''rehearse'' then rehearsal_handler host else ch_handler host command) s of
        (s', Inr response) \<Rightarrow> (s', Some (Inr response))
      | (s', Inl e) \<Rightarrow> (s', map_option Inl (dispatch_error_of e)))"

definition dispatch_registered_command ::
  "'s cli_host \<Rightarrow> schema_codecs \<Rightarrow> string \<Rightarrow> json \<Rightarrow> 's \<Rightarrow> 's \<times> (dispatch_error + json) option" where
  "dispatch_registered_command host cd command request s =
     (if wants_preview command request then
        (case set_key ''phase'' (JString ''preview'') request of
           None \<Rightarrow> (s, None)
         | Some preview_request \<Rightarrow>
             (case ch_preview host command preview_request s of
                (s', Inl e) \<Rightarrow>
                  (s', Some (Inl (DispatchValidation
                     (''sketch preview failed: '' @ ch_debug_error host e))))
              | (s', Inr revision) \<Rightarrow>
                  (case set_key ''preview_revision'' (JString revision) request of
                     None \<Rightarrow> (s', None)
                   | Some r \<Rightarrow> run_command host cd command r s')))
      else run_command host cd command request s)"

definition finishing_commands :: "string list" where
  "finishing_commands = [''fillet'', ''chamfer'', ''shell'', ''draft'', ''loft'']"

text \<open>A failure of the rehearsal is reported as one, any other by the command and the error.\<close>

definition reported_failure :: "'s cli_host \<Rightarrow> string \<Rightarrow> json \<Rightarrow> dispatch_error \<Rightarrow> cli_outcome" where
  "reported_failure host command request e =
     (case e of
        DispatchHost h \<Rightarrow>
          (case h of
             HostStaleGeometry _ _ _ \<Rightarrow>
               if command = ''export'' then
                 emit_export_error (or_default (json_str_at ''feature_id'' request)) h
               else if command = ''load'' then emit_host_error (ch_json_text host) h
               else emit_dispatch_error (ch_json_text host) e
           | _ \<Rightarrow>
               if command = ''load'' then emit_host_error (ch_json_text host) h
               else emit_dispatch_error (ch_json_text host) e)
      | _ \<Rightarrow> emit_dispatch_error (ch_json_text host) e)"

definition command_failure ::
  "'s cli_host \<Rightarrow> schema_codecs \<Rightarrow> (string \<Rightarrow> string + json) \<Rightarrow> string \<Rightarrow> json \<Rightarrow>
   dispatch_error \<Rightarrow> cli_outcome option" where
  "command_failure host cd from_str command request e =
     (if command = ''rehearse'' then
        (case e of
           DispatchValidation detail \<Rightarrow> argument_failure (ch_debug_assertions host) cd detail
         | DispatchHost (HostValidation detail) \<Rightarrow>
             write_rehearsal_diagnostic (ch_debug_assertions host) cd
               (case from_str detail of Inr d \<Rightarrow> d
                | Inl _ \<Rightarrow> object_of [(''message'', JString detail)])
         | _ \<Rightarrow> Some (reported_failure host command request e))
      else Some (reported_failure host command request e))"

definition execute_registered ::
  "'s cli_host \<Rightarrow> schema_codecs \<Rightarrow> cli_world \<Rightarrow> dispatch_plan \<Rightarrow> 's \<Rightarrow> 's \<times> cli_outcome option" where
  "execute_registered host cd w p s =
     (case p of
        Registered command inner \<Rightarrow>
          (case request_for w inner of
             Inl e \<Rightarrow> (s, Some (emit_persistence_error e))
           | Inr request \<Rightarrow>
               if command \<in> set finishing_commands \<and> json_str_at ''expected_revision'' request = None
               then (s, Some (emit_internal_error ''finishing command requires --expected-revision''))
               else
                 (case dispatch_registered_command host cd command request s of
                    (s', None) \<Rightarrow> (s', None)
                  | (s', Some (Inr response)) \<Rightarrow>
                      (s', Some (write_success (ch_stdout_failure host) response))
                  | (s', Some (Inl e)) \<Rightarrow>
                      (s', command_failure host cd (cw_from_str w) command request e)))
      | _ \<Rightarrow> (s, Some (emit_internal_error ''parsed command has no registered schema'')))"

definition adversarial_evidence_dir :: string where
  "adversarial_evidence_dir = ''docs/research/rehearsal-evidence/l-bracket/adversarial''"

definition adversarial_cases :: "string list" where
  "adversarial_cases = [''mismatch-cache'', ''schema-v0'', ''capability-loss'']"

definition emit_adversarial ::
  "'s cli_host \<Rightarrow> schema_codecs \<Rightarrow> string option \<Rightarrow> string option \<Rightarrow> string option \<Rightarrow> 's \<Rightarrow>
   's \<times> cli_outcome option" where
  "emit_adversarial host cd kind output_dir argument_error s =
     (case argument_error of
        Some a \<Rightarrow>
          (s, argument_failure (ch_debug_assertions host) cd
             (''unknown or duplicate argument '' @ debug_string a))
      | None \<Rightarrow>
          (case Option.bind kind (\<lambda>k. if k \<in> set adversarial_cases then Some k else None) of
             None \<Rightarrow>
               (s, argument_failure (ch_debug_assertions host) cd
                 ''--adversarial must be mismatch-cache, schema-v0, or capability-loss'')
           | Some k \<Rightarrow>
               (case ch_adversarial host
                   (case output_dir of None \<Rightarrow> adversarial_evidence_dir | Some d \<Rightarrow> d) k s of
                  (s', Inl e) \<Rightarrow> (s', write_rehearsal_failure (ch_debug_assertions host) cd e)
                | (s', Inr report) \<Rightarrow> (s', Some (write_success (ch_stdout_failure host) report)))))"

section \<open>The command line\<close>

definition parse_lua_key_args :: "os_string list \<Rightarrow> (string + string \<times> string) option" where
  "parse_lua_key_args args =
     (case args of
        [a, config, b, key] \<Rightarrow>
          if a = ''--lua-config'' \<and> b = ''--lua-key'' then
            Option.bind (to_str config) (\<lambda>c. map_option (\<lambda>k. Inr (c, k)) (to_str key))
          else if ''--lua-config'' \<in> set args \<or> ''--lua-key'' \<in> set args
          then Some (Inl ''--lua-config/--lua-key'') else None
      | _ \<Rightarrow>
          if ''--lua-config'' \<in> set args \<or> ''--lua-key'' \<in> set args
          then Some (Inl ''--lua-config/--lua-key'') else None)"

definition run_plan ::
  "'s cli_host \<Rightarrow> schema_codecs \<Rightarrow> cli_world \<Rightarrow> os_string list \<Rightarrow> 's \<Rightarrow> 's \<times> cli_outcome option" where
  "run_plan host cd w args s =
     (case plan (cw_from_str w) args of
        None \<Rightarrow> (s, None)
      | Some (Adversarial kind output_dir e) \<Rightarrow> emit_adversarial host cd kind output_dir e s
      | Some (Unknown arg) \<Rightarrow> (s, Some (emit_unknown_command arg))
      | Some p \<Rightarrow> execute_registered host cd w p s)"

definition dispatch_with_sources ::
  "'s cli_host \<Rightarrow> schema_codecs \<Rightarrow> cli_world \<Rightarrow> color_math \<Rightarrow> os_string list \<Rightarrow> os_string option \<Rightarrow>
   string option \<Rightarrow> 's \<Rightarrow> 's \<times> cli_outcome option"
where
  "dispatch_with_sources host cd w cm args environment config s =
     (case resolve_startup_palette cm args environment config of
        Inl e \<Rightarrow> (s, Some (emit_palette_error e))
      | Inr (args', _) \<Rightarrow>
          (case parse_lua_key_args args' of
             Some (Inr (c, k)) \<Rightarrow> (case ch_lua host c k s of (s', outcome) \<Rightarrow> (s', Some outcome))
           | Some (Inl arg) \<Rightarrow> (s, Some (emit_unknown_command arg))
           | None \<Rightarrow> run_plan host cd w args' s))"

text \<open>The variables \<^verbatim>\<open>THREETERM_PALETTE\<close> and \<^verbatim>\<open>THREETERM_CONFIG\<close> of the environment.\<close>

definition dispatch ::
  "'s cli_host \<Rightarrow> schema_codecs \<Rightarrow> cli_world \<Rightarrow> color_math \<Rightarrow> os_string option \<Rightarrow> os_string option \<Rightarrow>
   os_string list \<Rightarrow> 's \<Rightarrow> 's \<times> cli_outcome option"
where
  "dispatch host cd w cm palette_variable config_variable args s =
     (case extract_palette args of
        Inl e \<Rightarrow> (s, Some (emit_palette_error e))
      | Inr (_, cli) \<Rightarrow>
          (case (if cli = None \<and> palette_variable = None
                 then load_config_palette w config_variable else Inr None) of
             Inl e \<Rightarrow> (s, Some (emit_palette_error e))
           | Inr config \<Rightarrow>
               dispatch_with_sources host cd w cm args palette_variable config s))"

end
