(* ===== verification/SchemaProps.thy ===== *)
theory SchemaProps
  imports Registry
begin

text \<open>
  The validator against a specification of what it means for a value to conform to a document whose
  keywords have values that the validator can use, the registry as a whole, with the keywords that
  the validator does not look at, and the contract of the execution guard.
\<close>

section \<open>Documents the validator can use\<close>

text \<open>
  The keywords that the validator reads have values of the shapes it expects.  Other keywords may
  stand beside them; they constrain nothing and are told apart further down.
\<close>

definition known_kinds :: "string list" where
  "known_kinds = [''object'', ''array'', ''string'', ''number'', ''integer'', ''boolean'', ''null'']"

definition type_ok :: "document \<Rightarrow> bool" where
  "type_ok schema =
     (case bt_get schema ''type'' of
        None \<Rightarrow> True
      | Some (JString kind) \<Rightarrow> kind \<in> set known_kinds
      | Some (JArray kinds) \<Rightarrow> 1 < length kinds \<and> list_all (\<lambda>k. json_str k \<noteq> None) kinds
      | Some _ \<Rightarrow> False)"

definition array_or_absent :: "document \<Rightarrow> string \<Rightarrow> bool" where
  "array_or_absent schema k =
     (case bt_get schema k of None \<Rightarrow> True | Some (JArray _) \<Rightarrow> True | Some _ \<Rightarrow> False)"

definition required_ok :: "document \<Rightarrow> bool" where
  "required_ok schema =
     (case bt_get schema ''required'' of
        None \<Rightarrow> True | Some (JArray ks) \<Rightarrow> list_all (\<lambda>k. json_str k \<noteq> None) ks | Some _ \<Rightarrow> False)"

definition parts_ok :: "(json \<Rightarrow> bool) \<Rightarrow> document \<Rightarrow> bool" where
  "parts_ok rec schema =
     ((case bt_get schema ''properties'' of
         None \<Rightarrow> True | Some (JObject props) \<Rightarrow> list_all (\<lambda>e. rec (snd e)) props | Some _ \<Rightarrow> False) \<and>
      (case bt_get schema ''items'' of None \<Rightarrow> True | Some items \<Rightarrow> rec items) \<and>
      (case bt_get schema ''oneOf'' of
         None \<Rightarrow> True | Some (JArray alts) \<Rightarrow> list_all rec alts | Some _ \<Rightarrow> False))"

lemma parts_ok_cong [fundef_cong]:
  assumes "schema = schema'" "\<And>s. size s < size (JObject schema') \<Longrightarrow> rec s = rec' s"
  shows "parts_ok rec schema = parts_ok rec' schema'"
proof -
  have agree: "agree_below schema' (\<lambda>s _. rec s) (\<lambda>s _. rec' s)" using assms(2) by (simp add: agree_below_def)
  show ?thesis
    unfolding assms(1) parts_ok_def
    by (auto simp: list_all_iff agree_below_property [OF agree] agree_below_element [OF agree]
        agree_below_keyword [OF agree] split: option.splits json.splits)
qed

function schema_ok :: "(string \<Rightarrow> bool) \<Rightarrow> json \<Rightarrow> bool" where
  "schema_ok patterns (JBool b) = True"
| "schema_ok patterns (JObject schema) =
     (array_or_absent schema ''enum'' \<and> type_ok schema \<and> required_ok schema \<and>
      (case keyword schema ''pattern'' json_str of None \<Rightarrow> True | Some p \<Rightarrow> patterns p) \<and>
      parts_ok (schema_ok patterns) schema)"
| "schema_ok patterns JNull = False"
| "schema_ok patterns (JNumber n) = False"
| "schema_ok patterns (JString s) = False"
| "schema_ok patterns (JArray xs) = False"
  by pat_completeness auto
termination
  by (relation "measure (\<lambda>(patterns, schema). size schema)") auto

definition registry_patterns :: "string list" where
  "registry_patterns =
     [hash_pattern, ''^run-[12]/project$'', ''^run-[12]/export$'',
      ''^run-[12]/sha256-manifest'' @ [CHR 0x5C] @ ''.json$'',
      ''^run-[12]/(project|project'' @ [CHR 0x5C] @ ''.previous-generation|export)/.+$'']"

abbreviation supported :: "json \<Rightarrow> bool" where
  "supported \<equiv> schema_ok (\<lambda>p. p \<in> set registry_patterns)"

text \<open>The recurring fragments, so that a document is looked at once.\<close>

lemma fragments_supported [simp]:
  "schema_ok patterns text_schema" "schema_ok patterns nonempty_text" "schema_ok patterns object_schema"
  "schema_ok patterns boolean_schema" "schema_ok patterns number_schema"
  "schema_ok patterns positive_number" "schema_ok patterns nonnegative_number"
  "schema_ok patterns count_schema" "schema_ok patterns positive_count"
  "schema_ok patterns number_triple" "schema_ok patterns (exactly s)"
  "schema_ok patterns hash_text \<longleftrightarrow> patterns hash_pattern"
  by (simp_all add: text_schema_def nonempty_text_def object_schema_def boolean_schema_def
      number_schema_def positive_number_def nonnegative_number_def count_schema_def positive_count_def
      number_triple_def exactly_def hash_text_def bt_get_def array_or_absent_def type_ok_def
      required_ok_def parts_ok_def keyword_def known_kinds_def)

lemma array_of_supported [simp]: "schema_ok patterns (array_of s) \<longleftrightarrow> schema_ok patterns s"
  by (simp add: array_of_def bt_get_def array_or_absent_def type_ok_def required_ok_def parts_ok_def
      keyword_def known_kinds_def)

lemma closed_object_supported [simp]:
  "schema_ok patterns (closed_object required properties) \<longleftrightarrow>
     list_all (\<lambda>e. schema_ok patterns (snd e)) properties"
  by (simp add: closed_object_def bt_get_def array_or_absent_def type_ok_def required_ok_def
      parts_ok_def keyword_def known_kinds_def list_all_iff)

lemmas document_defs =
  list_request_schema_def list_response_schema_def new_project_request_schema_def
  new_project_response_schema_def identity_request_schema_def identity_response_schema_def
  apply_request_schema_def apply_response_schema_def rehearse_request_schema_def
  rehearsal_timing_classes_def rehearse_run_response_schema_def
  rehearse_failure_diagnostic_schema_def save_request_schema_def load_request_schema_def
  validate_request_schema_def validate_response_schema_def extrude_request_schema_def
  fit_dimension_request_schema_def fit_dimension_response_schema_def
  boolean_fuse_request_schema_def boolean_cut_request_schema_def
  boolean_common_request_schema_def boolean_pattern_request_schema_def
  edge_provenance_schema_def edge_evidence_schema_def selected_edge_schema_def
  fillet_request_schema_def chamfer_request_schema_def edge_candidates_schema_def
  reattach_edge_request_schema_def reattach_edge_response_schema_def hole_request_schema_def
  revolve_request_schema_def derived_result_schema_def extrude_response_schema_def
  boolean_fuse_response_schema_def boolean_cut_response_schema_def
  boolean_common_response_schema_def boolean_pattern_response_schema_def
  fillet_response_schema_def chamfer_response_schema_def hole_response_schema_def
  revolve_response_schema_def mirror_request_schema_def linear_pattern_request_schema_def
  circular_pattern_request_schema_def mirror_response_schema_def
  linear_pattern_response_schema_def circular_pattern_response_schema_def
  shell_request_schema_def shell_response_schema_def draft_request_schema_def
  draft_response_schema_def loft_request_schema_def loft_response_schema_def
  export_request_schema_def export_response_schema_def snapshot_response_schema_def
  historical_edit_request_schema_def history_commit_response_schema_def
  named_revision_request_schema_def restore_revision_request_schema_def
  timeline_request_schema_def timeline_response_schema_def replay_verify_request_schema_def
  cursor_move_request_schema_def replay_verify_response_schema_def bracket_request_schema_def
  bracket_response_schema_def bracket_edit_request_schema_def bracket_edit_response_schema_def
  load_response_schema_def component_state_response_schema_def sketch_solve_request_schema_def
  sketch_solve_response_schema_def rehearse_response_schema_def

lemmas row_defs =
  list_command_def new_project_command_def identity_command_def apply_command_def
  rehearse_command_def save_command_def load_command_def bracket_command_def
  define_component_command_def create_component_instance_command_def
  transform_component_instance_command_def make_component_independent_command_def
  edit_component_parameter_command_def component_state_command_def sketch_solve_command_def
  bracket_edit_command_def capture_component_command_def historical_edit_command_def
  create_revision_command_def restore_revision_command_def undo_command_def redo_command_def
  timeline_command_def replay_verify_command_def extrude_command_def fit_dimension_command_def
  boolean_fuse_command_def boolean_cut_command_def boolean_common_command_def
  boolean_pattern_command_def fillet_command_def chamfer_command_def reattach_edge_command_def
  hole_command_def revolve_command_def mirror_command_def linear_pattern_command_def
  circular_pattern_command_def shell_command_def draft_command_def loft_command_def
  export_command_def validate_command_def component_command_def

lemma aggregate_supported [simp]: "supported aggregate_run_schema"
  by code_simp

lemma component_request_supported [simp]: "supported (component_request_schema names)"
proof -
  have field: "supported (component_field field)" for field
    by (simp add: component_field_def hash_text_def nonempty_text_def bt_get_def array_or_absent_def
        type_ok_def required_ok_def parts_ok_def keyword_def known_kinds_def)
  have insert: "list_all Q m \<Longrightarrow> Q (k, v) \<Longrightarrow> list_all Q (bt_insert k v m)"
    for Q :: "string \<times> json \<Rightarrow> bool" and k v m
    by (induction m) auto
  have "list_all (\<lambda>e. supported (snd e)) m \<Longrightarrow>
      list_all (\<lambda>e. supported (snd e)) (fold (\<lambda>field. bt_insert field (component_field field)) names m)" for m
    using field insert by (induction names arbitrary: m) auto
  then show ?thesis by (simp add: component_request_schema_def)
qed

lemma hash_known [simp]: "hash_pattern \<in> set registry_patterns"
  by (simp add: registry_patterns_def)

lemma rows_supported:
  "list_all (\<lambda>row. supported (cs_request_schema row) \<and> supported (cs_response_schema row)) command_rows"
  by (simp add: command_rows_def row_defs document_defs bt_get_def array_or_absent_def type_ok_def
      required_ok_def parts_ok_def keyword_def known_kinds_def
)

lemma rows_distinct: "distinct (map cs_id command_rows)"
  by code_simp

section \<open>Keywords the validator does not look at\<close>

text \<open>
  The keywords that the validator reads in a document of the given types, and the values that it
  reads under a keyword; a keyword with another value constrains nothing.
\<close>

definition kind_keywords :: "string \<Rightarrow> string list" where
  "kind_keywords kind =
     (if kind = ''object'' then [''required'', ''properties'', ''additionalProperties'']
      else if kind = ''array'' then [''minItems'', ''maxItems'', ''items'']
      else if kind = ''string'' then [''minLength'', ''pattern'']
      else if kind \<in> {''number'', ''integer''} then [''minimum'', ''maximum'', ''exclusiveMinimum'']
      else [])"

definition read_keywords :: "document \<Rightarrow> string list" where
  "read_keywords schema =
     [''const'', ''enum'', ''type''] @
     (case Option.bind (bt_get schema ''type'') expected_types of
        None \<Rightarrow> ''oneOf'' #
          (if bt_contains schema ''required'' \<or> bt_contains schema ''properties''
           then kind_keywords ''object'' else [])
      | Some [kind] \<Rightarrow> ''oneOf'' # kind_keywords kind
      | Some _ \<Rightarrow> [])"

definition readable :: "string \<Rightarrow> json \<Rightarrow> bool" where
  "readable k v =
     (if k \<in> {''minItems'', ''maxItems'', ''minLength''} then as_u64 v \<noteq> None
      else if k \<in> {''minimum'', ''maximum'', ''exclusiveMinimum''} then as_f64 v \<noteq> None
      else if k = ''pattern'' then json_str v \<noteq> None
      else if k = ''additionalProperties'' then (case v of JBool _ \<Rightarrow> True | _ \<Rightarrow> False)
      else True)"

definition document_ignored :: "document \<Rightarrow> string list" where
  "document_ignored schema =
     map fst (filter (\<lambda>(k, v). k \<noteq> ''description'' \<and> \<not> (k \<in> set (read_keywords schema) \<and> readable k v))
       schema)"

text \<open>All of them, through every document inside a document.\<close>

definition parts_ignored :: "(json \<Rightarrow> string list) \<Rightarrow> document \<Rightarrow> string list" where
  "parts_ignored rec schema =
     (case bt_get schema ''properties'' of
        Some (JObject props) \<Rightarrow> concat (map (\<lambda>e. rec (snd e)) props) | _ \<Rightarrow> []) @
     (case bt_get schema ''items'' of None \<Rightarrow> [] | Some items \<Rightarrow> rec items) @
     (case bt_get schema ''oneOf'' of Some (JArray alts) \<Rightarrow> concat (map rec alts) | _ \<Rightarrow> [])"

lemma parts_ignored_cong [fundef_cong]:
  assumes "schema = schema'" "\<And>s. size s < size (JObject schema') \<Longrightarrow> rec s = rec' s"
  shows "parts_ignored rec schema = parts_ignored rec' schema'"
proof -
  have agree: "agree_below schema' (\<lambda>s _. rec s) (\<lambda>s _. rec' s)" using assms(2) by (simp add: agree_below_def)
  have "concat (map (\<lambda>e. rec (snd e)) props) = concat (map (\<lambda>e. rec' (snd e)) props)"
    if "bt_get schema' ''properties'' = Some (JObject props)" for props
    by (rule arg_cong [where f = concat]) (auto simp: agree_below_property [OF agree that])
  moreover have "concat (map rec alts) = concat (map rec' alts)" if "bt_get schema' ''oneOf'' = Some (JArray alts)" for alts
    by (rule arg_cong [where f = concat]) (auto simp: agree_below_element [OF agree that])
  ultimately show ?thesis
    unfolding assms(1) parts_ignored_def
    by (auto simp: agree_below_keyword [OF agree] split: option.splits json.splits)
qed

function ignored :: "json \<Rightarrow> string list" where
  "ignored (JObject schema) = document_ignored schema @ parts_ignored ignored schema"
| "ignored JNull = []"
| "ignored (JBool b) = []"
| "ignored (JNumber n) = []"
| "ignored (JString s) = []"
| "ignored (JArray xs) = []"
  by pat_completeness auto
termination
  by (relation "measure size") auto

lemmas ignored_defs =
  bt_get_def document_ignored_def parts_ignored_def read_keywords_def kind_keywords_def readable_def
  expected_types_def

lemma fragments_ignored [simp]:
  "ignored text_schema = []" "ignored nonempty_text = []" "ignored object_schema = []"
  "ignored boolean_schema = []" "ignored number_schema = []" "ignored positive_number = []"
  "ignored nonnegative_number = []" "ignored count_schema = []" "ignored positive_count = []"
  "ignored number_triple = []" "ignored (exactly s) = []" "ignored hash_text = []"
  by (simp_all add: text_schema_def nonempty_text_def object_schema_def boolean_schema_def
      number_schema_def positive_number_def nonnegative_number_def count_schema_def positive_count_def
      number_triple_def exactly_def hash_text_def ignored_defs)

lemma array_of_ignored [simp]: "ignored (array_of s) = ignored s"
  by (simp add: array_of_def ignored_defs)

lemma closed_object_ignored [simp]:
  "ignored (closed_object required properties) = concat (map (\<lambda>e. ignored (snd e)) properties)"
  by (simp add: closed_object_def ignored_defs)

lemma aggregate_ignored [simp]: "ignored aggregate_run_schema = []"
  by code_simp

text \<open>They have no part in the verdict.\<close>

definition kept_members :: "document \<Rightarrow> document" where
  "kept_members schema =
     filter (\<lambda>(k, v). k = ''description'' \<or> k \<in> set (read_keywords schema) \<and> readable k v) schema"

lemma kept_members_get:
  assumes "distinct (map fst schema)"
  shows "bt_get (kept_members schema) k =
    Option.bind (bt_get schema k) (\<lambda>v.
      if k = ''description'' \<or> k \<in> set (read_keywords schema) \<and> readable k v then Some v else None)"
proof -
  have "map_of (filter P m) k = Option.bind (map_of m k) (\<lambda>v. if P (k, v) then Some v else None)"
    if "distinct (map fst m)" for P and m :: document
    using that by (induction m) (auto simp: map_of_eq_None_iff split: bind_splits)
  then show ?thesis using assms by (simp add: kept_members_def bt_get_def)
qed

lemma kept_keyword:
  assumes "distinct (map fst schema)" "k \<in> set (read_keywords schema)"
    and "\<And>v. \<not> readable k v \<Longrightarrow> read v = None"
  shows "keyword (kept_members schema) k read = keyword schema k read"
  using assms(2,3) by (simp add: keyword_def kept_members_get [OF assms(1)] split: bind_splits)

lemma kept_bound:
  assumes "distinct (map fst schema)" "k \<in> set (read_keywords schema)" "k \<in> {''minimum'', ''maximum'', ''exclusiveMinimum''}"
  shows "bound_ok (kept_members schema) k test = bound_ok schema k test"
proof -
  have "keyword (kept_members schema) k as_f64 = keyword schema k as_f64"
    using assms by (intro kept_keyword) (auto simp: readable_def)
  then show ?thesis by (simp add: bound_ok_def)
qed

lemma kept_member:
  assumes "distinct (map fst schema)" "k \<in> set (read_keywords schema)" "\<And>v. readable k v"
  shows "bt_get (kept_members schema) k = bt_get schema k"
  using assms(2,3) by (simp add: kept_members_get [OF assms(1)])

lemma ignored_inert:
  assumes "distinct (map fst schema)"
  shows "validate cd (JObject (kept_members schema)) value = validate cd (JObject schema) value"
proof -
  let ?r = "validate cd"
  note member = kept_member [OF assms]
  have always: "bt_get (kept_members schema) k = bt_get schema k" if "k \<in> {''const'', ''enum'', ''type''}" for k
    using that by (intro member) (auto simp: read_keywords_def readable_def)
  have object: "validate_object_type cd ?r (kept_members schema) v = validate_object_type cd ?r schema v"
    if "set (kind_keywords ''object'') \<subseteq> set (read_keywords schema)" for v
  proof -
    have "bt_get (kept_members schema) k = bt_get schema k" if "k \<in> {''required'', ''properties''}" for k
      using that \<open>set _ \<subseteq> _\<close> by (intro member) (auto simp: kind_keywords_def readable_def)
    moreover have "bt_get (kept_members schema) ''additionalProperties'' = Some (JBool False) \<longleftrightarrow>
        bt_get schema ''additionalProperties'' = Some (JBool False)"
      using that by (auto simp: kept_members_get [OF assms] kind_keywords_def readable_def bind_eq_Some_conv)
    ultimately show ?thesis
      by (cases "as_object v")
        (simp_all add: validate_object_type_def check_required_def check_properties_def check_additional_def [abs_def])
  qed
  have one: "check_one_of cd ?r (kept_members schema) v = check_one_of cd ?r schema v"
    if "''oneOf'' \<in> set (read_keywords schema)" for v
    using member [OF that] by (simp add: check_one_of_def readable_def)
  have typed: "check_type cd ?r (kept_members schema) kind v = check_type cd ?r schema kind v"
    if "set (kind_keywords kind) \<subseteq> set (read_keywords schema)" for kind v
  proof -
    have arrays: "validate_array_type cd ?r (kept_members schema) v = validate_array_type cd ?r schema v" if "kind = ''array''"
    proof -
      have "keyword (kept_members schema) k as_u64 = keyword schema k as_u64" if "k \<in> {''minItems'', ''maxItems''}" for k
        using that \<open>kind = _\<close> \<open>set _ \<subseteq> _\<close> by (intro kept_keyword [OF assms]) (auto simp: kind_keywords_def readable_def)
      moreover have "bt_get (kept_members schema) ''items'' = bt_get schema ''items''"
        using that \<open>set _ \<subseteq> _\<close> by (intro member) (auto simp: kind_keywords_def readable_def)
      ultimately show ?thesis by (cases "as_array v") (simp_all add: validate_array_type_def)
    qed
    have strings: "validate_string cd (kept_members schema) v = validate_string cd schema v" if "kind = ''string''"
    proof -
      have "keyword (kept_members schema) ''minLength'' as_u64 = keyword schema ''minLength'' as_u64"
        "keyword (kept_members schema) ''pattern'' json_str = keyword schema ''pattern'' json_str"
        using that \<open>set _ \<subseteq> _\<close> by (auto intro!: kept_keyword [OF assms] simp: kind_keywords_def readable_def)
      then show ?thesis by (cases "json_str v") (simp_all add: validate_string_def)
    qed
    have numbers: "validate_number cd (kept_members schema) v = validate_number cd schema v"
      if "kind = ''number'' \<or> kind = ''integer''"
      using that \<open>set _ \<subseteq> _\<close> by (cases "as_f64 v") (auto simp: validate_number_def kept_bound [OF assms] kind_keywords_def)
    have objects: "validate_object_type cd ?r (kept_members schema) v = validate_object_type cd ?r schema v"
      if "kind = ''object''"
      using object \<open>set _ \<subseteq> _\<close> that by simp
    show ?thesis
      using objects arrays strings numbers by (simp add: check_type_def)
  qed
  have "validate_document cd ?r (kept_members schema) value = validate_document cd ?r schema value"
  proof (cases "bt_get schema ''type''")
    case None
    have implicit: "set (kind_keywords ''object'') \<subseteq> set (read_keywords schema)"
      if "bt_contains schema ''required'' \<or> bt_contains schema ''properties''"
      using that None by (auto simp: read_keywords_def)
    have "bt_contains (kept_members schema) ''required'' \<or> bt_contains (kept_members schema) ''properties'' \<longleftrightarrow>
        bt_contains schema ''required'' \<or> bt_contains schema ''properties''"
      using None by (auto simp: bt_contains_iff kept_members_get [OF assms] read_keywords_def readable_def
          kind_keywords_def split: bind_splits)
    moreover have "''oneOf'' \<in> set (read_keywords schema)" using None by (simp add: read_keywords_def)
    ultimately show ?thesis
      using None object [OF implicit]
      by (auto simp: validate_document_def check_const_def check_enum_def always one)
  next
    case (Some t)
    show ?thesis
    proof (cases "\<exists>kind. expected_types t = Some [kind]")
      case True
      then obtain kind where kind: "expected_types t = Some [kind]" by blast
      with Some have "set (kind_keywords kind) \<subseteq> set (read_keywords schema)"
        "''oneOf'' \<in> set (read_keywords schema)"
        by (auto simp: read_keywords_def)
      with Some kind show ?thesis
        by (simp add: validate_document_def check_const_def check_enum_def always one typed)
    next
      case False
      with Some show ?thesis
        by (auto simp: validate_document_def check_const_def check_enum_def always
            split: option.splits list.splits)
    qed
  qed
  then show ?thesis by simp
qed

text \<open>The registry has two: the condition on threads of a hole, and the uniqueness of array items.\<close>

lemma rows_ignored:
  "list_all (\<lambda>row.
     set (ignored (cs_request_schema row)) =
       (if cs_id row = ''hole'' then {''allOf''}
        else if cs_id row \<in> {''sketch-solve'', ''capture-component''} then {''uniqueItems''} else {}) \<and>
     set (ignored (cs_response_schema row)) = (if cs_id row = ''sketch-solve'' then {''uniqueItems''} else {}))
   command_rows"
  by (simp add: command_rows_def row_defs document_defs ignored_defs component_request_schema_def
      component_field_def)

section \<open>Conformance\<close>

text \<open>
  What the keywords mean.  A number and a text are constrained only under their types, an object
  also without a type; a list of several types is the whole constraint.
\<close>

definition text_conforms :: "(string \<Rightarrow> string \<Rightarrow> bool) \<Rightarrow> document \<Rightarrow> json \<Rightarrow> bool" where
  "text_conforms matches schema value \<longleftrightarrow>
     (\<exists>s. value = JString s \<and>
        (\<forall>n. keyword schema ''minLength'' as_u64 = Some n \<longrightarrow> n \<le> char_count s) \<and>
        (\<forall>p. keyword schema ''pattern'' json_str = Some p \<longrightarrow> matches p s))"

definition number_conforms :: "document \<Rightarrow> json \<Rightarrow> bool" where
  "number_conforms schema value \<longleftrightarrow>
     (\<exists>n. value = JNumber n \<and>
        (\<forall>m. keyword schema ''minimum'' as_f64 = Some m \<longrightarrow> f64_le m (number_value n)) \<and>
        (\<forall>m. keyword schema ''maximum'' as_f64 = Some m \<longrightarrow> f64_le (number_value n) m) \<and>
        (\<forall>m. keyword schema ''exclusiveMinimum'' as_f64 = Some m \<longrightarrow> f64_lt m (number_value n)))"

definition required_keys :: "document \<Rightarrow> string set" where
  "required_keys schema = {k. \<exists>ks. bt_get schema ''required'' = Some (JArray ks) \<and> JString k \<in> set ks}"

definition property_keys :: "document \<Rightarrow> string set" where
  "property_keys schema =
     {k. \<exists>props. bt_get schema ''properties'' = Some (JObject props) \<and> bt_contains props k}"

definition object_conforms :: "(json \<Rightarrow> json \<Rightarrow> bool) \<Rightarrow> document \<Rightarrow> json \<Rightarrow> bool" where
  "object_conforms rec schema value \<longleftrightarrow>
     (\<exists>members. value = JObject members \<and> required_keys schema \<subseteq> set (bt_keys members) \<and>
        (\<forall>props. bt_get schema ''properties'' = Some (JObject props) \<longrightarrow>
           (\<forall>(k, s)\<in>set props. \<forall>item. bt_get members k = Some item \<longrightarrow> rec s item)) \<and>
        (bt_get schema ''additionalProperties'' = Some (JBool False) \<longrightarrow>
           set (bt_keys members) \<subseteq> property_keys schema))"

definition array_conforms :: "(json \<Rightarrow> json \<Rightarrow> bool) \<Rightarrow> document \<Rightarrow> json \<Rightarrow> bool" where
  "array_conforms rec schema value \<longleftrightarrow>
     (\<exists>xs. value = JArray xs \<and>
        (\<forall>n. keyword schema ''minItems'' as_u64 = Some n \<longrightarrow> n \<le> length xs) \<and>
        (\<forall>n. keyword schema ''maxItems'' as_u64 = Some n \<longrightarrow> length xs \<le> n) \<and>
        (\<forall>items. bt_get schema ''items'' = Some items \<longrightarrow> (\<forall>x\<in>set xs. rec items x)))"

definition kind_conforms ::
  "(string \<Rightarrow> string \<Rightarrow> bool) \<Rightarrow> (json \<Rightarrow> json \<Rightarrow> bool) \<Rightarrow> document \<Rightarrow> string \<Rightarrow> json \<Rightarrow> bool" where
  "kind_conforms matches rec schema kind value \<longleftrightarrow>
     type_matches kind value \<and>
     (kind = ''object'' \<longrightarrow> object_conforms rec schema value) \<and>
     (kind = ''array'' \<longrightarrow> array_conforms rec schema value) \<and>
     (kind = ''string'' \<longrightarrow> text_conforms matches schema value) \<and>
     (kind \<in> {''number'', ''integer''} \<longrightarrow> number_conforms schema value)"

definition one_conforms :: "(json \<Rightarrow> json \<Rightarrow> bool) \<Rightarrow> document \<Rightarrow> json \<Rightarrow> bool" where
  "one_conforms rec schema value \<longleftrightarrow>
     (\<forall>alts. bt_get schema ''oneOf'' = Some (JArray alts) \<longrightarrow>
        (\<exists>!i. i < length alts \<and> rec (alts ! i) value))"

definition conforms_document ::
  "(string \<Rightarrow> string \<Rightarrow> bool) \<Rightarrow> (json \<Rightarrow> json \<Rightarrow> bool) \<Rightarrow> document \<Rightarrow> json \<Rightarrow> bool" where
  "conforms_document matches rec schema value \<longleftrightarrow>
     (\<forall>c. bt_get schema ''const'' = Some c \<longrightarrow> json_eq c value) \<and>
     (\<forall>cs. bt_get schema ''enum'' = Some (JArray cs) \<longrightarrow> (\<exists>c\<in>set cs. json_eq c value)) \<and>
     (case bt_get schema ''type'' of
        None \<Rightarrow>
          (bt_contains schema ''required'' \<or> bt_contains schema ''properties'' \<longrightarrow>
             object_conforms rec schema value) \<and> one_conforms rec schema value
      | Some (JString kind) \<Rightarrow> kind_conforms matches rec schema kind value \<and> one_conforms rec schema value
      | Some (JArray kinds) \<Rightarrow> (\<exists>kind. JString kind \<in> set kinds \<and> type_matches kind value)
      | Some _ \<Rightarrow> False)"

lemma conforms_document_cong [fundef_cong]:
  assumes "schema = schema'" "value = value'"
    and "\<And>s v. size s < size (JObject schema') \<Longrightarrow> rec s v = rec' s v"
  shows "conforms_document matches rec schema value = conforms_document matches rec' schema' value'"
proof -
  have agree: "agree_below schema' rec rec'" using assms(3) by (simp add: agree_below_def)
  have "(\<forall>props. bt_get schema' ''properties'' = Some (JObject props) \<longrightarrow>
      (\<forall>(k, s)\<in>set props. \<forall>item. bt_get m k = Some item \<longrightarrow> rec s item)) \<longleftrightarrow>
    (\<forall>props. bt_get schema' ''properties'' = Some (JObject props) \<longrightarrow>
      (\<forall>(k, s)\<in>set props. \<forall>item. bt_get m k = Some item \<longrightarrow> rec' s item))" for m
    using agree_below_property [OF agree] by fastforce
  then have objects: "object_conforms rec schema' = object_conforms rec' schema'"
    unfolding object_conforms_def by (simp only:)
  have "rec items = rec' items" if "bt_get schema' ''items'' = Some items" for items
    using agree_below_keyword [OF agree that] by (rule ext)
  then have "(\<forall>items. bt_get schema' ''items'' = Some items \<longrightarrow> (\<forall>x\<in>set xs. rec items x)) \<longleftrightarrow>
      (\<forall>items. bt_get schema' ''items'' = Some items \<longrightarrow> (\<forall>x\<in>set xs. rec' items x))" for xs
    by simp
  then have arrays: "array_conforms rec schema' = array_conforms rec' schema'"
    unfolding array_conforms_def by (simp only:)
  have "one_conforms rec schema' v = one_conforms rec' schema' v" for v
    unfolding one_conforms_def using agree_below_element [OF agree] nth_mem by metis
  then have ones: "one_conforms rec schema' = one_conforms rec' schema'" by (rule ext)
  show ?thesis
    unfolding assms(1,2) conforms_document_def kind_conforms_def objects arrays ones by (simp only:)
qed

function conforms :: "(string \<Rightarrow> string \<Rightarrow> bool) \<Rightarrow> json \<Rightarrow> json \<Rightarrow> bool" where
  "conforms matches (JBool b) value = b"
| "conforms matches (JObject schema) value =
     conforms_document matches (conforms matches) schema value"
| "conforms matches JNull value = False"
| "conforms matches (JNumber n) value = False"
| "conforms matches (JString s) value = False"
| "conforms matches (JArray xs) value = False"
  by pat_completeness auto
termination
  by (relation "measure (\<lambda>(matches, schema, value). size schema)") auto

section \<open>The validator decides conformance\<close>

definition matches_of :: "schema_codecs \<Rightarrow> string \<Rightarrow> string \<Rightarrow> bool" where
  "matches_of cd p s = (case sc_regex cd p of Inl e \<Rightarrow> False | Inr f \<Rightarrow> f s)"

definition compiles :: "schema_codecs \<Rightarrow> string \<Rightarrow> bool" where
  "compiles cd p = is_ok (sc_regex cd p)"

definition decides :: "verdict \<Rightarrow> bool \<Rightarrow> bool" where
  "decides r b \<longleftrightarrow> r \<noteq> Inl SchemaPanicked \<and> (r = Inr () \<longleftrightarrow> b)"

lemma decides_Inr: "decides (Inr u) True"
  by (simp add: decides_def)

lemma decides_violation: "decides (violation m) False"
  by (simp add: decides_def violation_def)

lemma decides_ensure: "decides (ensure b (Violation m)) b"
  by (simp add: decides_def ensure_def)

lemma decides_and_then: "decides r a \<Longrightarrow> (a \<Longrightarrow> decides (f ()) b) \<Longrightarrow> decides (and_then r f) (a \<and> b)"
  by (cases r) (auto simp: decides_def)

lemma and_then_Inr_step: "and_then (and_then r (\<lambda>x. Inr (h x))) f = and_then r (\<lambda>x. f (h x))"
  by (cases r) simp_all

lemma decides_each: "(\<And>x. x \<in> set xs \<Longrightarrow> decides (f x) (P x)) \<Longrightarrow> decides (each_ok f xs) (\<forall>x\<in>set xs. P x)"
proof (induction xs)
  case Nil
  then show ?case by (simp add: decides_def)
next
  case (Cons x xs)
  then have "decides (and_then (f x) (\<lambda>_. each_ok f xs)) (P x \<and> (\<forall>x\<in>set xs. P x))"
    by (intro decides_and_then) simp_all
  then show ?case by simp
qed

lemma decides_prefixed: "decides r b \<Longrightarrow> decides (prefixed p r) b"
  by (auto simp: decides_def prefixed_def violation_def split: sum.splits schema_failure.splits)

lemma decides_iff: "decides r a \<Longrightarrow> a \<longleftrightarrow> b \<Longrightarrow> decides r b"
  by simp

lemma decides_option:
  "(x = None \<Longrightarrow> decides r True) \<Longrightarrow> (\<And>y. x = Some y \<Longrightarrow> decides (f y) (P y)) \<Longrightarrow>
     decides (case x of None \<Rightarrow> r | Some y \<Rightarrow> f y) (\<forall>y. x = Some y \<longrightarrow> P y)"
  by (cases x) simp_all

lemma string_decides:
  assumes "case keyword schema ''pattern'' json_str of None \<Rightarrow> True | Some p \<Rightarrow> compiles cd p"
  shows "decides (validate_string cd schema value) (text_conforms (matches_of cd) schema value)"
proof (cases "json_str value")
  case None
  then have "\<not> text_conforms (matches_of cd) schema value" by (auto simp: text_conforms_def)
  with None show ?thesis using decides_violation by (simp add: validate_string_def)
next
  case (Some s)
  then have is_text: "value = JString s" by (cases "value") auto
  have "decides (validate_string cd schema value)
      ((\<forall>n. keyword schema ''minLength'' as_u64 = Some n \<longrightarrow> n \<le> char_count s) \<and>
       (\<forall>p. keyword schema ''pattern'' json_str = Some p \<longrightarrow> matches_of cd p s))"
    unfolding validate_string_def Some option.case
  proof (intro decides_and_then decides_option decides_Inr decides_ensure)
    fix p assume "keyword schema ''pattern'' json_str = Some p"
    with assms obtain f where "sc_regex cd p = Inr f" by (auto simp: compiles_def is_ok_def split: sum.splits)
    then show "decides (case sc_regex cd p of
          Inl e \<Rightarrow> violation (''invalid pattern '' @ debug_string p @ '': '' @ e)
        | Inr is_match \<Rightarrow> ensure (is_match s)
            (Violation (''string '' @ debug_string s @ '' does not match pattern '' @ debug_string p)))
        (matches_of cd p s)"
      using decides_ensure by (simp add: matches_of_def)
  qed
  then show ?thesis by (rule decides_iff) (simp add: text_conforms_def is_text)
qed

lemma number_decides:
  assumes "kind \<in> {''number'', ''integer''}"
  shows "decides
     (and_then (ensure (type_matches kind value) (Violation m)) (\<lambda>_. validate_number cd schema value))
     (type_matches kind value \<and> number_conforms schema value)"
proof (rule decides_and_then [OF decides_ensure])
  assume "type_matches kind value"
  with assms obtain n where n: "value = JNumber n" by (auto simp: type_matches.simps split: json.splits)
  have "decides (validate_number cd schema value)
      (\<forall>(name, valid)\<in>set
         [(''minimum'', bound_ok schema ''minimum'' (\<lambda>m. f64_le m (number_value n))),
          (''maximum'', bound_ok schema ''maximum'' (\<lambda>m. f64_le (number_value n) m)),
          (''exclusiveMinimum'', bound_ok schema ''exclusiveMinimum'' (\<lambda>m. f64_lt m (number_value n)))]. valid)"
    unfolding validate_number_def n as_f64.simps option.case
    by (rule decides_each) (auto intro: decides_ensure)
  then show "decides (validate_number cd schema value) (number_conforms schema value)"
    by (rule decides_iff) (auto simp: number_conforms_def n bound_ok_def split: option.splits)
qed

text \<open>What the induction over the document provides.\<close>

definition parts_decided ::
  "(json \<Rightarrow> json \<Rightarrow> verdict) \<Rightarrow> (json \<Rightarrow> json \<Rightarrow> bool) \<Rightarrow> document \<Rightarrow> bool" where
  "parts_decided f P schema \<longleftrightarrow>
     (\<forall>props. bt_get schema ''properties'' = Some (JObject props) \<longrightarrow>
        (\<forall>(k, s)\<in>set props. \<forall>v. decides (f s v) (P s v))) \<and>
     (\<forall>items. bt_get schema ''items'' = Some items \<longrightarrow> (\<forall>v. decides (f items v) (P items v))) \<and>
     (\<forall>alts. bt_get schema ''oneOf'' = Some (JArray alts) \<longrightarrow>
        (\<forall>s\<in>set alts. \<forall>v. decides (f s v) (P s v)))"

lemma required_decides:
  assumes "required_ok schema"
  shows "decides (check_required cd schema members v) (required_keys schema \<subseteq> set (bt_keys members))"
proof (cases "bt_get schema ''required''")
  case None
  then show ?thesis using decides_Inr by (simp add: check_required_def required_keys_def)
next
  case (Some r)
  with assms obtain ks where ks: "r = JArray ks" and texts: "\<forall>k\<in>set ks. json_str k \<noteq> None"
    by (cases r) (auto simp: required_ok_def list_all_iff)
  have "decides (check_required cd schema members v)
      (\<forall>k\<in>set ks. \<forall>s. json_str k = Some s \<longrightarrow> bt_contains members s)"
    unfolding check_required_def Some ks as_array.simps option.case
  proof (rule decides_each)
    fix k assume "k \<in> set ks"
    with texts obtain s where "json_str k = Some s" by auto
    then show "decides (case json_str k of
          None \<Rightarrow> violation (''required keys must be strings, got '' @ sc_show cd k)
        | Some k \<Rightarrow> ensure (bt_contains members k)
            (Violation (''missing required key '' @ debug_string k @ '' on object '' @ sc_show cd v)))
        (\<forall>s. json_str k = Some s \<longrightarrow> bt_contains members s)"
      using decides_ensure by simp
  qed
  moreover have "json_str k = Some s \<longleftrightarrow> k = JString s" for k s by (cases k) auto
  ultimately show ?thesis
    by (auto intro: decides_iff simp: required_keys_def Some ks bt_contains_def bt_keys_def)
qed

lemma object_decides:
  assumes "required_ok schema" "parts_decided f P schema"
    and "case bt_get schema ''properties'' of None \<Rightarrow> True | Some (JObject _) \<Rightarrow> True | Some _ \<Rightarrow> False"
  shows "decides (validate_object_type cd f schema v) (object_conforms P schema v)"
proof (cases "as_object v")
  case None
  then have "\<not> object_conforms P schema v" by (auto simp: object_conforms_def)
  with None show ?thesis using decides_violation by (simp add: validate_object_type_def)
next
  case (Some members)
  then have v: "v = JObject members" by (cases v) auto
  let ?closed = "bt_get schema ''additionalProperties'' = Some (JBool False)"
  let ?props_ok = "\<forall>props. bt_get schema ''properties'' = Some (JObject props) \<longrightarrow>
      (\<forall>(k, s)\<in>set props. \<forall>item. bt_get members k = Some item \<longrightarrow> P s item)"
  have closed: "decides (check_additional schema members properties)
      (?closed \<longrightarrow> set (bt_keys members) \<subseteq> {k. \<exists>props. properties = Some props \<and> bt_contains props k})"
    for properties
  proof (cases ?closed)
    case True
    have "decides (check_additional schema members properties)
      (\<forall>k\<in>set (bt_keys members). case properties of None \<Rightarrow> False | Some props \<Rightarrow> bt_contains props k)"
      unfolding check_additional_def if_P [OF True] by (rule decides_each) (rule decides_ensure)
    with True show ?thesis by (auto elim!: decides_iff split: option.splits)
  next
    case False
    then show ?thesis using decides_Inr by (simp add: check_additional_def)
  qed
  have "decides (and_then (check_properties cd f schema members) (check_additional schema members))
      (?props_ok \<and> (?closed \<longrightarrow> set (bt_keys members) \<subseteq> property_keys schema))"
  proof (cases "bt_get schema ''properties''")
    case None
    then show ?thesis using closed [of None] by (simp add: check_properties_def property_keys_def)
  next
    case (Some p)
    with assms(3) obtain props where p: "p = JObject props" by (cases p) auto
    let ?checks = "each_ok (\<lambda>(key, property_schema).
        case bt_get members key of None \<Rightarrow> Inr ()
        | Some item \<Rightarrow> prefixed (''property '' @ debug_string key @ '': '') (f property_schema item)) props"
    let ?holds = "\<forall>(k, s)\<in>set props. \<forall>item. bt_get members k = Some item \<longrightarrow> P s item"
    have checks: "decides ?checks ?holds"
    proof (rule decides_each, clarify)
      fix k s assume "(k, s) \<in> set props"
      with assms(2) Some p have "decides (f s item) (P s item)" for item
        by (fastforce simp: parts_decided_def)
      then show "decides (case bt_get members k of None \<Rightarrow> Inr ()
          | Some item \<Rightarrow> prefixed (''property '' @ debug_string k @ '': '') (f s item))
          (\<forall>item. bt_get members k = Some item \<longrightarrow> P s item)"
        by (cases "bt_get members k") (simp_all add: decides_Inr decides_prefixed)
    qed
    have "check_properties cd f schema members = and_then ?checks (\<lambda>_. Inr (Some props))"
      by (simp add: check_properties_def Some p)
    then have "and_then (check_properties cd f schema members) (check_additional schema members) =
        and_then ?checks (\<lambda>_. check_additional schema members (Some props))"
      by (simp only: and_then_Inr_step)
    moreover have "decides (and_then ?checks (\<lambda>_. check_additional schema members (Some props)))
        (?holds \<and> (?closed \<longrightarrow> set (bt_keys members) \<subseteq> {k. \<exists>ps. Some props = Some ps \<and> bt_contains ps k}))"
      by (rule decides_and_then [OF checks]) (rule closed)
    ultimately show ?thesis by (simp add: property_keys_def Some p)
  qed
  from decides_and_then [OF required_decides [OF assms(1), of cd members v] this]
  show ?thesis
    unfolding validate_object_type_def Some option.case
    by (rule decides_iff) (auto simp: object_conforms_def v)
qed

lemma array_decides:
  assumes "parts_decided f P schema"
  shows "decides (validate_array_type cd f schema v) (array_conforms P schema v)"
proof (cases "as_array v")
  case None
  then have "\<not> array_conforms P schema v" by (auto simp: array_conforms_def)
  with None show ?thesis using decides_violation by (simp add: validate_array_type_def)
next
  case (Some xs)
  then have v: "v = JArray xs" by (cases v) auto
  have "decides (each_ok (\<lambda>(index, item). prefixed (''items['' @ show_nat index @ '']: '') (f items item))
      (enumerate 0 xs)) (\<forall>(index, item)\<in>set (enumerate 0 xs). P items item)"
    if "bt_get schema ''items'' = Some items" for items
    using assms that by (intro decides_each) (auto simp: parts_decided_def intro: decides_prefixed)
  moreover have "(\<forall>(index, item)\<in>set (enumerate 0 xs). P items item) \<longleftrightarrow> (\<forall>x\<in>set xs. P items x)" for items
  proof -
    have "(\<forall>(index, item)\<in>set (enumerate 0 xs). P items item) \<longleftrightarrow>
        (\<forall>x\<in>set (map snd (enumerate 0 xs)). P items x)" by (simp add: case_prod_unfold del: map_snd_enumerate)
    then show ?thesis unfolding map_snd_enumerate .
  qed
  ultimately have "decides (validate_array_type cd f schema v)
     ((\<forall>n. keyword schema ''minItems'' as_u64 = Some n \<longrightarrow> n \<le> length xs) \<and>
      (\<forall>n. keyword schema ''maxItems'' as_u64 = Some n \<longrightarrow> length xs \<le> n) \<and>
      (\<forall>items. bt_get schema ''items'' = Some items \<longrightarrow> (\<forall>x\<in>set xs. P items x)))"
    unfolding validate_array_type_def Some option.case
    by (intro decides_and_then decides_option decides_Inr decides_ensure) auto
  then show ?thesis by (rule decides_iff) (simp add: array_conforms_def v)
qed

lemma count_decides:
  assumes "\<And>s. s \<in> set alts \<Longrightarrow> decides (g s) (Q s)"
  shows "count_ok g alts = Inr (length (filter Q alts))"
  using assms
proof (induction alts)
  case Nil
  then show ?case by simp
next
  case (Cons s alts)
  then have "count_ok g alts = Inr (length (filter Q alts))" "decides (g s) (Q s)" by auto
  then show ?case
    by (cases "g s") (auto simp: decides_def split: schema_failure.splits)
qed

lemma filter_one: "length (filter P xs) = 1 \<longleftrightarrow> (\<exists>!i. i < length xs \<and> P (xs ! i))"
proof -
  have "length (filter P xs) = card {i. i < length xs \<and> P (xs ! i)}" by (rule length_filter_conv_card)
  also have "\<dots> = 1 \<longleftrightarrow> (\<exists>!i. i < length xs \<and> P (xs ! i))"
  proof
    assume "card {i. i < length xs \<and> P (xs ! i)} = 1"
    then obtain j where "{i. i < length xs \<and> P (xs ! i)} = {j}" using card_1_singletonE by blast
    then show "\<exists>!i. i < length xs \<and> P (xs ! i)" by (intro ex1I [of _ j]) blast+
  next
    assume "\<exists>!i. i < length xs \<and> P (xs ! i)"
    then obtain j where "{i. i < length xs \<and> P (xs ! i)} = {j}" by blast
    then show "card {i. i < length xs \<and> P (xs ! i)} = 1" by simp
  qed
  finally show ?thesis .
qed

lemma one_of_decides:
  assumes "parts_decided f P schema"
    and "case bt_get schema ''oneOf'' of None \<Rightarrow> True | Some (JArray _) \<Rightarrow> True | Some _ \<Rightarrow> False"
  shows "decides (check_one_of cd f schema v) (one_conforms P schema v)"
proof (cases "bt_get schema ''oneOf''")
  case None
  then show ?thesis using decides_Inr by (simp add: check_one_of_def one_conforms_def)
next
  case (Some a)
  with assms(2) obtain alts where a: "a = JArray alts" by (cases a) auto
  have "count_ok (\<lambda>s. f s v) alts = Inr (length (filter (\<lambda>s. P s v) alts))"
    using assms(1) Some a by (intro count_decides) (auto simp: parts_decided_def)
  then have "check_one_of cd f schema v = ensure (length (filter (\<lambda>s. P s v) alts) = 1)
      (Violation (''value '' @ sc_show cd v @ '' matches '' @
        show_nat (length (filter (\<lambda>s. P s v) alts)) @ '' `oneOf` alternatives''))"
    unfolding check_one_of_def Some a option.case json.case by (simp only: and_then_simps Let_def)
  moreover have "one_conforms P schema v \<longleftrightarrow> length (filter (\<lambda>s. P s v) alts) = 1"
  proof -
    have "one_conforms P schema v \<longleftrightarrow> (\<exists>!i. i < length alts \<and> P (alts ! i) v)"
      by (simp add: one_conforms_def Some a)
    with filter_one [of "\<lambda>s. P s v" alts] show ?thesis by (simp only:)
  qed
  ultimately show ?thesis by (simp only: decides_ensure)
qed

lemma kind_decides:
  assumes "kind \<in> set known_kinds" "required_ok schema" "parts_decided f P schema"
    and "case bt_get schema ''properties'' of None \<Rightarrow> True | Some (JObject _) \<Rightarrow> True | Some _ \<Rightarrow> False"
    and "case keyword schema ''pattern'' json_str of None \<Rightarrow> True | Some p \<Rightarrow> compiles cd p"
  shows "decides (check_type cd f schema kind v) (kind_conforms (matches_of cd) P schema kind v)"
proof -
  have shape: "object_conforms P schema v \<Longrightarrow> type_matches ''object'' v"
    "array_conforms P schema v \<Longrightarrow> type_matches ''array'' v"
    "text_conforms (matches_of cd) schema v \<Longrightarrow> type_matches ''string'' v"
    by (auto simp: object_conforms_def array_conforms_def text_conforms_def type_matches.simps)
  have object: "check_type cd f schema ''object'' v = validate_object_type cd f schema v"
    "kind_conforms (matches_of cd) P schema ''object'' v \<longleftrightarrow> object_conforms P schema v"
    using shape(1) by (auto simp: check_type_def kind_conforms_def)
  have array: "check_type cd f schema ''array'' v = validate_array_type cd f schema v"
    "kind_conforms (matches_of cd) P schema ''array'' v \<longleftrightarrow> array_conforms P schema v"
    using shape(2) by (auto simp: check_type_def kind_conforms_def)
  have texts: "check_type cd f schema ''string'' v = validate_string cd schema v"
    "kind_conforms (matches_of cd) P schema ''string'' v \<longleftrightarrow> text_conforms (matches_of cd) schema v"
    using shape(3) by (auto simp: check_type_def kind_conforms_def)
  have number: "decides (check_type cd f schema kind v) (kind_conforms (matches_of cd) P schema kind v)"
    if kind: "kind \<in> {''number'', ''integer''}"
  proof -
    have "kind_conforms (matches_of cd) P schema kind v \<longleftrightarrow> type_matches kind v \<and> number_conforms schema v"
      using kind by (auto simp: kind_conforms_def)
    moreover have "check_type cd f schema kind v =
        and_then (ensure (type_matches kind v) (Violation (''expected '' @ kind @ '', got '' @ sc_show cd v)))
          (\<lambda>_. validate_number cd schema v)"
      using kind by (auto simp: check_type_def)
    ultimately show ?thesis using number_decides [OF kind] by (simp only:)
  qed
  have scalar: "decides (check_type cd f schema kind v) (kind_conforms (matches_of cd) P schema kind v)"
    if "kind \<in> {''boolean'', ''null''}"
    using that decides_ensure by (auto simp: check_type_def kind_conforms_def)
  show ?thesis
  proof (cases "kind = ''object'' \<or> kind = ''array'' \<or> kind = ''string''")
    case True
    then show ?thesis
      using object_decides [OF assms(2-4), of cd v] array_decides [OF assms(3), of cd v]
        string_decides [OF assms(5), of v] unfolding object [symmetric] array [symmetric] texts [symmetric]
      by (elim disjE) (hypsubst, assumption)+
  next
    case False
    with assms(1) have "kind \<in> {''number'', ''integer''} \<or> kind \<in> {''boolean'', ''null''}"
      by (simp add: known_kinds_def)
    with number scalar show ?thesis by argo
  qed
qed

lemma const_decides:
  "decides (check_const cd schema v) (\<forall>c. bt_get schema ''const'' = Some c \<longrightarrow> json_eq c v)"
  unfolding check_const_def by (intro decides_option decides_Inr decides_ensure)

lemma enum_decides:
  assumes "array_or_absent schema ''enum''"
  shows "decides (check_enum cd schema v)
    (\<forall>cs. bt_get schema ''enum'' = Some (JArray cs) \<longrightarrow> (\<exists>c\<in>set cs. json_eq c v))"
proof (cases "bt_get schema ''enum''")
  case None
  then show ?thesis using decides_Inr by (simp add: check_enum_def)
next
  case (Some e)
  with assms obtain cs where "e = JArray cs" by (cases e) (auto simp: array_or_absent_def)
  with Some show ?thesis using decides_ensure by (simp add: check_enum_def list_ex_iff)
qed

lemma document_decides:
  assumes "array_or_absent schema ''enum''" "type_ok schema" "required_ok schema" "parts_decided f P schema"
    and shape: "case bt_get schema ''properties'' of None \<Rightarrow> True | Some (JObject _) \<Rightarrow> True | Some _ \<Rightarrow> False"
      "case bt_get schema ''oneOf'' of None \<Rightarrow> True | Some (JArray _) \<Rightarrow> True | Some _ \<Rightarrow> False"
    and "case keyword schema ''pattern'' json_str of None \<Rightarrow> True | Some p \<Rightarrow> compiles cd p"
  shows "decides (validate_document cd f schema v) (conforms_document (matches_of cd) P schema v)"
proof -
  note objects = object_decides [OF assms(3,4) shape(1), of cd v]
  note ones = one_of_decides [OF assms(4) shape(2), of cd v]
  let ?implicit = "bt_get schema ''type'' = None \<and>
      (bt_contains schema ''required'' \<or> bt_contains schema ''properties'')"
  have implicit: "decides (if ?implicit then validate_object_type cd f schema v else Inr ())
      (?implicit \<longrightarrow> object_conforms P schema v)"
    using objects decides_Inr by (cases ?implicit) auto
  have "decides (case bt_get schema ''type'' of
       None \<Rightarrow> check_one_of cd f schema v
     | Some t \<Rightarrow>
         (case expected_types t of
            None \<Rightarrow> violation (''schema `type` must be a string or array, got '' @ sc_show cd t)
          | Some kinds \<Rightarrow>
              if 1 < length kinds then
                ensure (list_ex (\<lambda>kind. type_matches kind v) kinds)
                  (Violation (''value '' @ sc_show cd v @ '' does not match type '' @ sc_show cd t))
              else
                (case kinds of
                   [] \<Rightarrow> Inl SchemaPanicked
                 | kind # _ \<Rightarrow>
                     and_then (check_type cd f schema kind v) (\<lambda>_. check_one_of cd f schema v))))
     (case bt_get schema ''type'' of
        None \<Rightarrow> one_conforms P schema v
      | Some (JString kind) \<Rightarrow> kind_conforms (matches_of cd) P schema kind v \<and> one_conforms P schema v
      | Some (JArray kinds) \<Rightarrow> (\<exists>kind. JString kind \<in> set kinds \<and> type_matches kind v)
      | Some _ \<Rightarrow> False)" (is "decides ?rest ?typed")
  proof (cases "bt_get schema ''type''")
    case None
    with ones show ?thesis by simp
  next
    case (Some t)
    with assms(2) consider kind where "t = JString kind" "kind \<in> set known_kinds"
      | kinds where "t = JArray kinds" "1 < length kinds" "\<forall>k\<in>set kinds. json_str k \<noteq> None"
      by (cases t) (auto simp: type_ok_def list_all_iff)
    then show ?thesis
    proof cases
      case (1 kind)
      then show ?thesis
        using decides_and_then [OF kind_decides [OF 1(2) assms(3,4) shape(1) assms(7)] ones]
        by (simp add: Some expected_types_def)
    next
      case (2 kinds)
      have "kinds = map JString (List.map_filter json_str kinds)"
        using 2(3) by (induction kinds) (auto simp: map_filter_simps elim!: json_str.elims)
      then have texts: "kinds = map JString (List.map_filter json_str kinds)"
        "length (List.map_filter json_str kinds) = length kinds" by (metis length_map)+
      have "(\<exists>kind. JString kind \<in> set kinds \<and> type_matches kind v) \<longleftrightarrow>
          (\<exists>kind\<in>set (List.map_filter json_str kinds). type_matches kind v)"
        by (subst texts(1)) auto
      with 2(1,2) texts(2) show ?thesis
        by (simp add: Some expected_types_def list_ex_iff decides_ensure)
    qed
  qed
  then have "decides (and_then (check_const cd schema v) (\<lambda>_. and_then (check_enum cd schema v) (\<lambda>_.
      and_then (if ?implicit then validate_object_type cd f schema v else Inr ()) (\<lambda>_. ?rest))))
    ((\<forall>c. bt_get schema ''const'' = Some c \<longrightarrow> json_eq c v) \<and>
     (\<forall>cs. bt_get schema ''enum'' = Some (JArray cs) \<longrightarrow> (\<exists>c\<in>set cs. json_eq c v)) \<and>
     (?implicit \<longrightarrow> object_conforms P schema v) \<and> ?typed)"
    by (intro decides_and_then const_decides enum_decides implicit assms(1))
  then show ?thesis
    unfolding validate_document_def
    by (rule decides_iff) (auto simp: conforms_document_def split: option.splits)
qed

lemma validate_decides_ok:
  assumes "\<And>p. patterns p \<Longrightarrow> compiles cd p" "schema_ok patterns schema"
  shows "decides (validate cd schema v) (conforms (matches_of cd) schema v)"
  using assms(2)
proof (induction "size schema" arbitrary: schema v rule: less_induct)
  case less
  show ?case
  proof (cases schema)
    case (JBool b)
    then show ?thesis using decides_Inr decides_violation by (cases b) auto
  next
    case (JObject members)
    have below: "decides (validate cd s w) (conforms (matches_of cd) s w)"
      if "size s < size schema" "schema_ok patterns s" for s w
      using less.hyps that by blast
    from less.prems JObject have parts: "parts_ok (schema_ok patterns) members" by simp
    have "parts_decided (validate cd) (conforms (matches_of cd)) members"
      unfolding parts_decided_def
    proof (intro conjI allI impI ballI, goal_cases)
      case (1 props e)
      obtain k s where e: "e = (k, s)" by (cases e)
      with 1 parts have "schema_ok patterns s" by (auto simp: parts_ok_def list_all_iff)
      moreover have "size s < size schema"
        using size_keyword [OF 1(1)] size_entry [of k s props] 1(2) e JObject by auto
      ultimately show ?case using below e by simp
    next
      case (2 items v)
      with parts size_keyword [OF 2] JObject show ?case by (intro below) (auto simp: parts_ok_def)
    next
      case (3 alts s v)
      with parts size_keyword [OF 3(1)] size_element [OF 3(2)] JObject show ?case
        by (intro below) (auto simp: parts_ok_def list_all_iff)
    qed
    moreover have "case keyword members ''pattern'' json_str of None \<Rightarrow> True | Some p \<Rightarrow> compiles cd p"
      using less.prems JObject assms(1) by (auto split: option.splits)
    ultimately have "decides (validate_document cd (validate cd) members v)
        (conforms_document (matches_of cd) (conforms (matches_of cd)) members v)"
      using less.prems JObject parts
      by (intro document_decides) (auto simp: parts_ok_def split: option.splits json.splits)
    then show ?thesis by (simp add: JObject)
  qed (use less.prems in auto)
qed

section \<open>The registry\<close>

definition registry_of :: "command_schema list \<Rightarrow> (string, command_schema) btree \<Rightarrow> (string, command_schema) btree" where
  "registry_of rows m = fold (\<lambda>row. bt_insert (cs_id row) row) rows m"

lemma registry_of_simps [simp]:
  "registry_of [] m = m" "registry_of (row # rows) m = registry_of rows (bt_insert (cs_id row) row m)"
  by (simp_all add: registry_of_def)

lemma registry_of_ok: "bt_ok m \<Longrightarrow> bt_ok (registry_of rows m)"
  by (induction rows arbitrary: m) (simp_all add: bt.ok_ins)

lemma registry_of_other: "k \<notin> cs_id ` set rows \<Longrightarrow> bt_get (registry_of rows m) k = bt_get m k"
  by (induction rows arbitrary: m) (auto simp: bt.get_ins)

lemma registry_of_row:
  "distinct (map cs_id rows) \<Longrightarrow> row \<in> set rows \<Longrightarrow> bt_get (registry_of rows m) (cs_id row) = Some row"
proof (induction rows arbitrary: m)
  case Nil
  then show ?case by simp
next
  case (Cons r rows)
  then show ?case using registry_of_other [of "cs_id r" rows] by (auto simp: bt.get_ins)
qed

lemma registry_of_found:
  "bt_get (registry_of rows m) k = Some row \<Longrightarrow> row \<in> set rows \<and> cs_id row = k \<or> bt_get m k = Some row"
proof (induction rows arbitrary: m)
  case Nil
  then show ?case by simp
next
  case (Cons r rows)
  from Cons.IH [of "bt_insert (cs_id r) r m"] Cons.prems show ?case by (auto simp: bt.get_ins split: if_splits)
qed

lemma registry_is: "command_registry = registry_of command_rows []"
  by (simp add: command_registry_def registry_of_def)

lemma registry_row: "find_command command = Some row \<Longrightarrow> row \<in> set command_rows \<and> cs_id row = command"
  using registry_of_found [of command_rows "[]" command row]
  by (auto simp: find_command_def registry_is bt_get_def)

lemma names_are_ids: "row \<in> set command_rows \<Longrightarrow> cs_name row = cs_id row"
proof -
  have "list_all (\<lambda>row. cs_name row = cs_id row) command_rows"
    by (simp add: command_rows_def row_defs)
  then show "row \<in> set command_rows \<Longrightarrow> cs_name row = cs_id row" by (simp add: list_all_iff)
qed

lemma find_row: "row \<in> set command_rows \<Longrightarrow> find_command (cs_id row) = Some row"
  using registry_of_row [OF rows_distinct] by (simp add: find_command_def registry_is)

lemma registered_rows: "set registered_commands = set command_rows"
proof -
  have ok: "bt_ok command_registry" by (simp add: registry_is registry_of_ok)
  have "row \<in> set registered_commands \<longleftrightarrow> row \<in> set command_rows" for row
  proof
    assume "row \<in> set registered_commands"
    then obtain k where "(k, row) \<in> set command_registry" by (auto simp: registered_commands_def)
    then have "find_command k = Some row" using bt_in_set_iff [OF ok] by (simp add: find_command_def)
    then show "row \<in> set command_rows" using registry_row by blast
  next
    assume "row \<in> set command_rows"
    then have "(cs_id row, row) \<in> set command_registry"
      using find_row bt_in_set_iff [OF ok] by (simp add: find_command_def)
    then show "row \<in> set registered_commands" by (force simp: registered_commands_def)
  qed
  then show ?thesis by blast
qed

lemma find_row_by_name:
  assumes "row \<in> set command_rows"
  shows "find_by_name (cs_name row) = Some row"
proof -
  have "row \<in> set registered_commands" using assms by (simp add: registered_rows)
  then obtain r where r: "find_by_name (cs_name row) = Some r"
    unfolding find_by_name_def by (cases "List.find (\<lambda>r. cs_name r = cs_name row) registered_commands")
      (auto simp: find_None_iff)
  then have "r \<in> set command_rows" "cs_name r = cs_name row"
    by (auto simp: find_by_name_def find_Some_iff registered_rows [symmetric])
  with assms have "cs_id r = cs_id row" using names_are_ids by metis
  with find_row [OF assms] find_row [OF \<open>r \<in> set command_rows\<close>] r show ?thesis by simp
qed

definition patterns_compile :: "schema_codecs \<Rightarrow> bool" where
  "patterns_compile cd = list_all (compiles cd) registry_patterns"

lemma row_decides:
  assumes "patterns_compile cd" "find_command command = Some row"
  shows "decides (validate cd (cs_request_schema row) v) (conforms (matches_of cd) (cs_request_schema row) v)"
    "decides (validate cd (cs_response_schema row) v) (conforms (matches_of cd) (cs_response_schema row) v)"
proof -
  have "p \<in> set registry_patterns \<Longrightarrow> compiles cd p" for p
    using assms(1) by (simp add: patterns_compile_def list_all_iff)
  moreover have "supported (cs_request_schema row)" "supported (cs_response_schema row)"
    using rows_supported conjunct1 [OF registry_row [OF assms(2)]] by (simp_all add: list_all_iff)
  ultimately show
    "decides (validate cd (cs_request_schema row) v) (conforms (matches_of cd) (cs_request_schema row) v)"
    "decides (validate cd (cs_response_schema row) v) (conforms (matches_of cd) (cs_response_schema row) v)"
    using validate_decides_ok [of "\<lambda>p. p \<in> set registry_patterns" cd] by blast+
qed


lemma guard_runs:
  assumes "patterns_compile cd"
  shows "case execute_command cd command request handler s of (s', r) \<Rightarrow>
    r \<noteq> Inl GuardPanicked \<and>
    (case find_command command of
       None \<Rightarrow> s' = s \<and> r = Inl (UnknownCommand command)
     | Some row \<Rightarrow>
         if conforms (matches_of cd) (cs_request_schema row) request then
           s' = fst (handler request s) \<and>
           (\<forall>e. snd (handler request s) = Inl e \<longrightarrow> r = Inl (HandlerFailed e)) \<and>
           (\<forall>x. snd (handler request s) = Inr x \<longrightarrow>
              (if conforms (matches_of cd) (cs_response_schema row) x then r = Inr x
               else \<exists>message. r = Inl (InvalidResponse message)))
         else s' = s \<and> (\<exists>message. r = Inl (InvalidRequest message)))"
proof (cases "find_command command")
  case None
  then show ?thesis by (simp add: execute_command_def)
next
  case (Some row)
  have guard: "guarded wrap v = (if b then Inr () else Inl (wrap (case v of Inl (Violation m) \<Rightarrow> m | _ \<Rightarrow> [])))"
    if "decides v b" for wrap :: "string \<Rightarrow> 'b execution_error" and v b
    using that by (cases v) (auto simp: decides_def guarded_def split: schema_failure.splits)
  note request = guard [OF row_decides(1) [OF assms Some]] and response = guard [OF row_decides(2) [OF assms Some]]
  obtain s' a where h: "handler request s = (s', a)" by (cases "handler request s")
  show ?thesis
  proof (cases "conforms (matches_of cd) (cs_request_schema row) request")
    case False
    then show ?thesis by (simp add: execute_command_def Some request)
  next
    case True
    then show ?thesis
      by (cases a) (simp_all add: execute_command_def Some request response h)
  qed
qed

text \<open>
  C18.  Executing a command.  The guard never panics.  An identifier that is not registered and a request
  that does not conform to the request document leave the state of the host as it was: the handler
  has not run.  A request that conforms runs the handler once, and a response is delivered exactly
  when the handler answers with one that conforms to the response document.
\<close>

theorem guard_contract:
  assumes "patterns_compile cd"
  shows "case execute_command cd command request handler s of (s', r) \<Rightarrow>
    r \<noteq> Inl GuardPanicked \<and>
    (case find_command command of
       None \<Rightarrow> s' = s \<and> r = Inl (UnknownCommand command)
     | Some row \<Rightarrow>
         if conforms (matches_of cd) (cs_request_schema row) request then
           s' = fst (handler request s) \<and>
           (\<forall>e. snd (handler request s) = Inl e \<longrightarrow> r = Inl (HandlerFailed e)) \<and>
           (\<forall>x. snd (handler request s) = Inr x \<longrightarrow>
              (if conforms (matches_of cd) (cs_response_schema row) x then r = Inr x
               else \<exists>message. r = Inl (InvalidResponse message)))
         else s' = s \<and> (\<exists>message. r = Inl (InvalidRequest message)))"
  using assms by (rule guard_runs)

definition lower_hex :: "char \<Rightarrow> bool" where
  "lower_hex c = (let n = (of_char c :: nat) in 48 \<le> n \<and> n \<le> 57 \<or> 97 \<le> n \<and> n \<le> 102)"

definition demo_schema_codecs :: schema_codecs where
  "demo_schema_codecs =
     \<lparr>sc_show = (\<lambda>_. ''value''), sc_show_f64 = (\<lambda>_. ''number''),
      sc_regex = (\<lambda>p. if p = hash_pattern then Inr (\<lambda>s. length s = 64 \<and> list_all lower_hex s)
        else if p \<in> set registry_patterns then Inr (\<lambda>s. take 4 s = ''run-'')
        else Inl ''unsupported pattern'')\<rparr>"

lemma demo_patterns: "patterns_compile demo_schema_codecs"
  by (simp add: patterns_compile_def list_all_iff compiles_def demo_schema_codecs_def is_ok_def)

definition demo_creation :: json where
  "demo_creation = JObject [(''destination'', JString ''bracket'')]"

definition demo_created :: json where
  "demo_created = JObject [(''generation_id'', JString ''g1''), (''manifest'', JObject [])]"

lemma guard_contract_witness:
  "patterns_compile demo_schema_codecs \<and>
   execute_command demo_schema_codecs ''new-project'' demo_creation
     (\<lambda>_ n. (n + 1, Inr demo_created :: string + json)) (0 :: nat) = (1, Inr demo_created)"
proof -
  have row: "find_command ''new-project'' = Some new_project_command"
    using find_row [of new_project_command] by (simp add: command_rows_def new_project_command_def)
  have "validate demo_schema_codecs new_project_request_schema demo_creation = Inr ()"
    "validate demo_schema_codecs new_project_response_schema demo_created = Inr ()"
    by code_simp+
  then have "conforms (matches_of demo_schema_codecs) (cs_request_schema new_project_command) demo_creation"
    "conforms (matches_of demo_schema_codecs) (cs_response_schema new_project_command) demo_created"
    using row_decides [OF demo_patterns row] by (simp_all add: decides_def new_project_command_def)
  then show ?thesis
    using guard_contract [OF demo_patterns, where command = "''new-project''" and request = demo_creation
        and handler = "\<lambda>_ n. (n + 1, Inr demo_created :: string + json)" and s = "0 :: nat"] demo_patterns
    by (auto simp: row split: prod.splits)
qed

text \<open>
  C19.  The validator decides conformance to every document whose keywords have values it can use (by the
  keywords it reads, the others constrain nothing), whatever its messages
  are, and never panics on one.
\<close>

theorem validate_decides:
  assumes "schema_ok patterns schema" "\<And>p. patterns p \<Longrightarrow> compiles cd p"
  shows "validate cd schema v \<noteq> Inl SchemaPanicked \<and>
    (validate cd schema v = Inr () \<longleftrightarrow> conforms (matches_of cd) schema v)"
  using validate_decides_ok [OF assms(2,1)] by (simp add: decides_def)

lemma validate_decides_witness:
  "validate demo_schema_codecs new_project_request_schema demo_creation = Inr () \<and>
   conforms (matches_of demo_schema_codecs) new_project_request_schema demo_creation"
proof -
  have "schema_ok (\<lambda>p. False) new_project_request_schema"
    by (simp add: new_project_request_schema_def)
  from validate_decides [OF this, of demo_schema_codecs demo_creation]
  have "validate demo_schema_codecs new_project_request_schema demo_creation = Inr () \<longleftrightarrow>
      conforms (matches_of demo_schema_codecs) new_project_request_schema demo_creation" by simp
  moreover have "validate demo_schema_codecs new_project_request_schema demo_creation = Inr ()"
    by code_simp
  ultimately show ?thesis by blast
qed

text \<open>
  The validator knows no \<^verbatim>\<open>allOf\<close>, \<^verbatim>\<open>if\<close> or
  \<^verbatim>\<open>uniqueItems\<close>, which two documents rely on: the guard passes a tapped hole without
  its thread, which the document of the hole command excludes.
\<close>

definition unthreaded_hole :: json where
  "unthreaded_hole =
     (let triple = JArray (replicate 3 (JNumber (PosInt 0))) in
      JObject [(''base_feature_id'', JString ''plate''), (''bundle_path'', JString ''b''),
               (''diameter'', JNumber (PosInt 5)), (''direction'', triple),
               (''feature_id'', JString ''hole''), (''hole_kind'', JString ''tapped''),
               (''position'', triple)])"

lemma tapped_hole_without_thread:
  "validate demo_schema_codecs (cs_request_schema hole_command) unthreaded_hole = Inr ()"
  by code_simp

end
