(* ===== verification/CliProps.thy ===== *)
theory CliProps
  imports CliRun SchemaProps
begin

text \<open>
  The command line against the registry: a plan belongs to the command it was parsed for and holds
  only finite numbers, the request of a plan has the members that the request document of its
  command asks for, and the run of a parsed command ends with one response that conforms to its
  document or with one line on the error stream.
\<close>

section \<open>Plans and their commands\<close>

fun plan_command :: "dispatch_plan \<Rightarrow> string option" where
  "plan_command ListPlan = Some ''list''"
| "plan_command (NewProject _) = Some ''new-project''"
| "plan_command (Rehearse _ _ _) = Some ''rehearse''"
| "plan_command (Save _ _ _) = Some ''save''"
| "plan_command (Load _) = Some ''load''"
| "plan_command (Identity _) = Some ''identity''"
| "plan_command (Apply _ _ _ _ _) = Some ''apply''"
| "plan_command (Bracket _ _ _ _ _ _) = Some ''bracket''"
| "plan_command (Component command _) = Some command"
| "plan_command (HistoricalEditPlan _ _ _ _) = Some ''historical-edit''"
| "plan_command (CreateRevision _ _) = Some ''create-revision''"
| "plan_command (RestoreRevision _ _ _) = Some ''restore-revision''"
| "plan_command (Timeline _ _) = Some ''timeline''"
| "plan_command (ReplayVerify _) = Some ''replay-verify''"
| "plan_command (UndoPlan _) = Some ''undo''"
| "plan_command (RedoPlan _) = Some ''redo''"
| "plan_command (Extrude _ _ _ _ _ _) = Some ''extrude''"
| "plan_command (ReattachEdge _ _ _ _ _ _ _ _ _ _) = Some ''reattach-edge''"
| "plan_command (FitDimension _ _ _ _ _ _ _ _) = Some ''fit-dimension''"
| "plan_command (BooleanFuse _ _ _ _) = Some ''boolean-fuse''"
| "plan_command (BooleanCut _ _ _ _) = Some ''boolean-cut''"
| "plan_command (BooleanCommon _ _ _ _) = Some ''boolean-common''"
| "plan_command (BooleanPattern _ _ _ _ _ _ _ _) = Some ''boolean-pattern''"
| "plan_command (Fillet _ _ _ _ _ _) = Some ''fillet''"
| "plan_command (Chamfer _ _ _ _ _ _) = Some ''chamfer''"
| "plan_command (Hole _ _ _ _ _ _ _ _ _ _) = Some ''hole''"
| "plan_command (Revolve _ _ _ _ _ _ _) = Some ''revolve''"
| "plan_command (Mirror _ _ _ _ _ _) = Some ''mirror''"
| "plan_command (LinearPattern _ _ _ _ _ _ _) = Some ''linear-pattern''"
| "plan_command (CircularPattern _ _ _ _ _ _ _ _) = Some ''circular-pattern''"
| "plan_command (Shell _ _ _ _ _) = Some ''shell''"
| "plan_command (DraftPlan _ _ _ _ _ _) = Some ''draft''"
| "plan_command (Loft _ _ _ _ _ _) = Some ''loft''"
| "plan_command (Export _ _ _ _ _ _ _ _) = Some ''export''"
| "plan_command (SketchSolve _ _) = Some ''sketch-solve''"
| "plan_command (Registered _ _) = None"
| "plan_command (Adversarial _ _ _) = None"
| "plan_command (Unknown _) = None"

definition plans_for :: "string \<Rightarrow> dispatch_plan \<Rightarrow> bool" where
  "plans_for command p = ((\<exists>arg. p = Unknown arg) \<or> plan_command p = Some command)"

lemma plans_for_unknown [simp]: "plans_for command (Unknown arg)"
  by (simp add: plans_for_def)

lemma plans_for_known [simp]: "plan_command p = Some command \<Longrightarrow> plans_for command p"
  by (simp add: plans_for_def)

lemma or_unknown_simps [simp]: "or_unknown (Inl arg) = Unknown arg" "or_unknown (Inr p) = p"
  by (simp_all add: or_unknown_def)

lemma plans_for_step [simp]:
  "plans_for command (or_unknown (and_then r f)) \<longleftrightarrow>
     (\<forall>x. r = Inr x \<longrightarrow> plans_for command (or_unknown (f x)))"
  by (cases r) auto

lemma plans_for_fail [simp]: "plans_for command (or_unknown (Inl arg))"
  by simp

lemmas project_parsers =
  parse_rehearse_def parse_save_def parse_load_def parse_identity_def parse_apply_def
  parse_bracket_def parse_historical_edit_def parse_named_revision_def parse_create_revision_def
  parse_restore_revision_def parse_timeline_def parse_replay_verify_def parse_cursor_move_def

lemmas geometry_parsers =
  parse_extrude_def parse_reattach_edge_def parse_fit_dimension_def parse_boolean_fuse_def
  parse_boolean_cut_def parse_boolean_common_def parse_boolean_pattern_def parse_fillet_def
  parse_chamfer_def parse_hole_def parse_revolve_def parse_mirror_def parse_linear_pattern_def
  parse_circular_pattern_def parse_shell_def parse_draft_def parse_loft_def parse_export_def
  parse_sketch_solve_def

lemma project_plans:
  "plans_for ''rehearse'' (parse_rehearse args)" "plans_for ''save'' (parse_save args)"
  "plans_for ''load'' (parse_load args)" "plans_for ''identity'' (parse_identity args)"
  "plans_for ''apply'' (parse_apply args)" "plans_for ''bracket'' (parse_bracket args)"
  "plans_for ''historical-edit'' (parse_historical_edit args)"
  "plans_for ''create-revision'' (parse_named_revision args True)"
  "plans_for ''restore-revision'' (parse_named_revision args False)"
  "plans_for ''timeline'' (parse_timeline args)" "plans_for ''replay-verify'' (parse_replay_verify args)"
  "plans_for ''undo'' (parse_cursor_move args ''undo'')"
  "plans_for ''redo'' (parse_cursor_move args ''redo'')"
  by (auto simp: project_parsers split: prod.split list.split option.split)

lemma geometry_plans:
  "plans_for ''extrude'' (parse_extrude args)"
  "plans_for ''reattach-edge'' (parse_reattach_edge from_str args)"
  "plans_for ''fit-dimension'' (parse_fit_dimension args)"
  "plans_for ''boolean-fuse'' (parse_boolean_fuse args)"
  "plans_for ''boolean-cut'' (parse_boolean_cut args)"
  "plans_for ''boolean-common'' (parse_boolean_common args)"
  "plans_for ''boolean-pattern'' (parse_boolean_pattern args)"
  "plans_for ''fillet'' (parse_fillet args)" "plans_for ''chamfer'' (parse_chamfer args)"
  "plans_for ''hole'' (parse_hole args)" "plans_for ''revolve'' (parse_revolve args)"
  "plans_for ''mirror'' (parse_mirror args)" "plans_for ''linear-pattern'' (parse_linear_pattern args)"
  "plans_for ''circular-pattern'' (parse_circular_pattern args)"
  "plans_for ''shell'' (parse_shell args)" "plans_for ''draft'' (parse_draft args)"
  "plans_for ''loft'' (parse_loft args)" "plans_for ''export'' (parse_export args)"
  "plans_for ''sketch-solve'' (parse_sketch_solve args)"
  by (auto simp: geometry_parsers Let_def split: prod.split option.split)

lemma component_plans: "parse_component command args = Some p \<Longrightarrow> plans_for command p"
  by (auto simp: parse_component_def split: option.splits)

lemma parser_plans:
  "list_all (\<lambda>(command, parser). \<forall>args p. parser args = Some p \<longrightarrow> plans_for command p)
     (command_parsers from_str)"
  by (auto simp: command_parsers_def project_plans geometry_plans component_plans)

lemma parsed_plans: "parse_command from_str command args = Some p \<Longrightarrow> plans_for command p"
proof -
  assume p: "parse_command from_str command args = Some p"
  show ?thesis
  proof (cases "map_of (command_parsers from_str) command")
    case None
    with p show ?thesis by (auto simp: parse_command_def split: if_splits)
  next
    case (Some parser)
    then have "(command, parser) \<in> set (command_parsers from_str)" by (rule map_of_SomeD)
    with parser_plans [of from_str] have "parser args = Some p \<Longrightarrow> plans_for command p"
      by (auto simp: list_all_iff)
    with p Some show ?thesis by (auto simp: parse_command_def split: if_splits)
  qed
qed

lemma parsed_not_registered [simp]: "parse_command from_str command args \<noteq> Some (Registered c q)"
  using parsed_plans [of from_str command args "Registered c q"] by (auto simp: plans_for_def)

text \<open>Every word the parser knows names a command of the registry.\<close>

definition parsed_words :: "string list" where
  "parsed_words = ''list'' # ''new-project'' # map fst (command_parsers (\<lambda>_. Inl []))"

lemma parsed_words_of: "set (map fst (command_parsers from_str)) \<subseteq> set parsed_words"
  by (simp add: parsed_words_def command_parsers_def)

lemma words_are_names: "list_all (\<lambda>word. word \<in> set (map cs_name command_rows)) parsed_words"
  by (simp add: parsed_words_def command_parsers_def command_rows_def row_defs)

lemma word_registered:
  assumes "word \<in> set parsed_words"
  shows "\<exists>row. find_by_name word = Some row \<and> cs_id row = word \<and> find_command word = Some row"
proof -
  from assms words_are_names obtain row where "row \<in> set command_rows" "cs_name row = word"
    by (auto simp: list_all_iff)
  with find_row_by_name [of row] find_row [of row] names_are_ids [of row] show ?thesis by metis
qed

lemma parsed_word:
  assumes "parse_command from_str command args = Some p" "plan_command p = Some c"
  shows "c = command \<and> command \<in> set parsed_words"
proof
  from parsed_plans [OF assms(1)] assms(2) show "c = command" by (auto simp: plans_for_def)
  show "command \<in> set parsed_words"
  proof (cases "map_of (command_parsers from_str) command")
    case None
    with assms show ?thesis by (auto simp: parse_command_def parsed_words_def split: if_splits)
  next
    case (Some parser)
    then have "command \<in> set (map fst (command_parsers from_str))" by (force dest: map_of_SomeD)
    with parsed_words_of [of from_str] show ?thesis by blast
  qed
qed

lemma machine_words [simp]:
  "to_str ''new-project'' = Some ''new-project''" "to_str ''--machine'' = Some ''--machine''"
  by code_simp+

text \<open>What a line that is no adversarial run and no error was parsed for.\<close>

lemma unregistered_plan:
  assumes "plan_unregistered from_str args = Some p" "plan_command p = Some c"
  shows "command_word args = Some c \<and> c \<in> set parsed_words \<and> plan_finite p"
proof (cases args)
  case Nil
  with assms show ?thesis by (auto simp: plan_unregistered_def)
next
  case (Cons a rest)
  consider "a = ''new-project''" | "a = ''run''" | "a \<noteq> ''new-project''" "a \<noteq> ''run''" by blast
  then show ?thesis
  proof cases
    case 1
    with assms Cons show ?thesis
      by (auto simp: plan_unregistered_def command_word_def parsed_words_def split: list.splits)
  next
    case 2
    with assms Cons show ?thesis
      by (auto simp: plan_unregistered_def parse_adversarial_run_def split: list.splits if_splits prod.splits)
  next
    case 3
    with assms Cons obtain command q where machine: "a = ''--machine''" "first_text rest = Some command"
      and q: "parse_command from_str command (tl rest) = Some q" "p = reject_non_finite q"
      by (auto simp: plan_unregistered_def split: if_splits option.splits)
    with assms(2) have "plan_finite q" "p = q" by (auto simp: reject_non_finite_def split: if_splits)
    with parsed_word [OF q(1)] assms(2) Cons machine show ?thesis by (auto simp: command_word_def)
  qed
qed

text \<open>
  C23.  Planning a command line is total on the registry: a line that parses to a command becomes the plan
  of that command, under an identifier that is registered, and every number in it is finite; a line
  that does not parse, an adversarial run and a panic are passed on as they are.
\<close>

theorem plans_are_registered:
  "case plan_unregistered from_str args of
     None \<Rightarrow> plan from_str args = None
   | Some p \<Rightarrow>
       (case plan_command p of
          None \<Rightarrow> plan from_str args = Some p
        | Some c \<Rightarrow>
            plan from_str args = Some (Registered c p) \<and> find_command c \<noteq> None \<and> plan_finite p)"
proof (cases "plan_unregistered from_str args")
  case None
  then show ?thesis by (simp add: plan_def)
next
  case (Some p)
  show ?thesis
  proof (cases "plan_command p")
    case None
    have "\<not> (\<exists>c q. p = Registered c q)"
      using Some by (auto simp: plan_unregistered_def reject_non_finite_def
          parse_adversarial_run_def split: list.splits if_splits option.splits prod.splits)
    with None Some show ?thesis by (cases p) (auto simp: plan_def)
  next
    case (Some c)
    with \<open>plan_unregistered from_str args = Some p\<close> have word: "command_word args = Some c"
      "c \<in> set parsed_words" "plan_finite p" using unregistered_plan by blast+
    then obtain row where "find_by_name c = Some row" "cs_id row = c" "find_command c = Some row"
      using word_registered by blast
    with word Some \<open>plan_unregistered from_str args = Some p\<close> show ?thesis
      by (cases p) (auto simp: plan_def)
  qed
qed

text \<open>
  The capture command collects its feature identifiers in an array, which a flag of the same name
  has replaced by a text: the parser panics where it should report the argument.
\<close>

lemma capture_panics:
  "plan (\<lambda>_. Inl [])
     [''--machine'', ''capture-component'', ''part'', ''--selected-feature-ids'', ''rib'',
      ''--feature-id'', ''rib''] = None"
  by code_simp

section \<open>Requests and their documents\<close>

definition request_document :: "string \<Rightarrow> json" where
  "request_document command =
     (case find_command command of None \<Rightarrow> JNull | Some row \<Rightarrow> cs_request_schema row)"

lemma request_document_row: "row \<in> set command_rows \<Longrightarrow> request_document (cs_id row) = cs_request_schema row"
  by (simp add: request_document_def find_row)

lemma rows_listed:
  "list_command \<in> set command_rows" "new_project_command \<in> set command_rows"
  "rehearse_command \<in> set command_rows" "save_command \<in> set command_rows"
  "load_command \<in> set command_rows" "identity_command \<in> set command_rows"
  "apply_command \<in> set command_rows" "bracket_command \<in> set command_rows"
  "historical_edit_command \<in> set command_rows" "create_revision_command \<in> set command_rows"
  "restore_revision_command \<in> set command_rows" "timeline_command \<in> set command_rows"
  "replay_verify_command \<in> set command_rows" "undo_command \<in> set command_rows"
  "redo_command \<in> set command_rows" "extrude_command \<in> set command_rows"
  "reattach_edge_command \<in> set command_rows" "fit_dimension_command \<in> set command_rows"
  "boolean_fuse_command \<in> set command_rows" "boolean_cut_command \<in> set command_rows"
  "boolean_common_command \<in> set command_rows" "boolean_pattern_command \<in> set command_rows"
  "fillet_command \<in> set command_rows" "chamfer_command \<in> set command_rows"
  "hole_command \<in> set command_rows" "revolve_command \<in> set command_rows"
  "mirror_command \<in> set command_rows" "linear_pattern_command \<in> set command_rows"
  "circular_pattern_command \<in> set command_rows" "shell_command \<in> set command_rows"
  "draft_command \<in> set command_rows" "loft_command \<in> set command_rows"
  "export_command \<in> set command_rows"
  by (simp_all add: command_rows_def)

lemmas request_documents = rows_listed [THEN request_document_row, unfolded row_defs, simplified]


text \<open>
  What a document asks of the members of a request: those that must be there, and the JSON type of
  those that may be there.
\<close>

definition required_list :: "json \<Rightarrow> string list" where
  "required_list document =
     (case json_get ''required'' document of
        Some (JArray ks) \<Rightarrow> List.map_filter json_str ks | _ \<Rightarrow> [])"

definition json_type :: "json \<Rightarrow> string option" where
  "json_type document = json_str_at ''type'' document"

definition property_types :: "json \<Rightarrow> (string \<times> string option) list" where
  "property_types document =
     (case json_get ''properties'' document of
        Some (JObject props) \<Rightarrow> map (\<lambda>(k, p). (k, json_type p)) props | _ \<Rightarrow> [])"

text \<open>
  The members that a plan leaves out although the document requires them: the parser takes the edge
  of a fillet or chamfer and its revision as options.
\<close>

definition if_absent :: "string \<Rightarrow> 'a option \<Rightarrow> string list" where
  "if_absent k x = (if x = None then [k] else [])"

lemma if_absent_simps [simp]: "if_absent k None = [k]" "if_absent k (Some x) = []"
  by (simp_all add: if_absent_def)

fun omitted_members :: "dispatch_plan \<Rightarrow> string list" where
  "omitted_members (Fillet _ _ _ _ edge revision) =
     if_absent ''selected_edge'' edge @ if_absent ''expected_revision'' revision"
| "omitted_members (Chamfer _ _ _ _ edge revision) =
     if_absent ''selected_edge'' edge @ if_absent ''expected_revision'' revision"
| "omitted_members _ = []"

text \<open>
  The members whose type is left to the guards: the revision of a shell, draft or loft is null when
  its flag is not given, and the two references of a reattachment are JSON of the user.
\<close>

fun loose_members :: "dispatch_plan \<Rightarrow> string list" where
  "loose_members (Shell _ _ _ _ revision) = if_absent ''expected_revision'' revision"
| "loose_members (DraftPlan _ _ _ _ _ revision) = if_absent ''expected_revision'' revision"
| "loose_members (Loft _ _ _ _ _ revision) = if_absent ''expected_revision'' revision"
| "loose_members (ReattachEdge _ _ _ _ _ _ _ _ _ _) = [''reference'', ''edit_target'']"
| "loose_members _ = []"

definition member_fits :: "string list \<Rightarrow> string \<Rightarrow> string \<times> json \<Rightarrow> bool" where
  "member_fits loose command e =
     (case e of (k, item) \<Rightarrow>
        (case map_of (property_types (request_document command)) k of
           None \<Rightarrow> False
         | Some None \<Rightarrow> True
         | Some (Some kind) \<Rightarrow> k \<in> set loose \<or> type_matches kind item))"

definition fits :: "string list \<Rightarrow> string list \<Rightarrow> string \<Rightarrow> json \<Rightarrow> bool" where
  "fits omitted loose command request =
     (case request of
        JObject members \<Rightarrow>
          set (required_list (request_document command)) - set omitted \<subseteq> set (bt_keys members) \<and>
          list_all (member_fits loose command) members
      | _ \<Rightarrow> False)"

abbreviation fits_whole :: "string \<Rightarrow> json \<Rightarrow> bool" where
  "fits_whole \<equiv> fits [] []"

lemma members_of_subset: "set (members_of entries) \<subseteq> set entries"
proof
  fix e assume e: "e \<in> set (members_of entries)"
  obtain k v where kv: "e = (k, v)" by (cases e)
  with e members_of_ok [of entries] have "bt_get (members_of entries) k = Some v"
    by (simp add: bt_in_set_iff [symmetric])
  then have "map_of (rev entries) k = Some v" by (simp add: members_of_get)
  with kv show "e \<in> set entries" by (auto dest: map_of_SomeD)
qed

lemma fits_entries:
  assumes "set (required_list (request_document command)) - set omitted \<subseteq> fst ` set entries"
    and "list_all (member_fits loose command) entries"
  shows "fits omitted loose command (object_of entries)"
  using assms members_of_subset [of entries]
  by (auto simp: fits_def object_of_def members_of_keys list_all_iff)

lemma type_matches_values [simp]:
  "type_matches ''string'' (JString s)" "type_matches ''number'' (JNumber n)"
  "type_matches ''integer'' (JNumber (PosInt i))" "type_matches ''boolean'' (JBool b)"
  "type_matches ''array'' (JArray xs)" "type_matches ''object'' (JObject m)"
  by (simp_all add: type_matches.simps)

lemmas shape_simps =
  member_fits_def required_list_def property_types_def json_type_def request_documents document_defs closed_object_def
  json_str_at_def List.map_filter_simps(1) List.map_filter_simps(2)
  nonempty_text_def text_schema_def hash_text_def boolean_schema_def object_schema_def
  number_schema_def positive_number_def nonnegative_number_def count_schema_def positive_count_def
  exactly_def array_of_def number_triple_def

lemma boolean_fits:
  "fits_whole ''boolean-fuse'' (boolean_request bundle f base tool)"
  "fits_whole ''boolean-cut'' (boolean_request bundle f base tool)"
  "fits_whole ''boolean-common'' (boolean_request bundle f base tool)"
  unfolding boolean_request_def
  by (rule fits_entries; simp add: shape_simps)+


lemma list_all_if_some [simp]:
  "list_all P (if_some k f x) \<longleftrightarrow> (\<forall>v. x = Some v \<longrightarrow> P (k, f v))"
  by (simp add: if_some_def split: option.split)

lemma json_f64_finite [simp]: "f64_finite x \<Longrightarrow> json_f64 x = JNumber (Float x)"
  by (simp add: json_f64_def)

lemma and_then_Inr: "and_then r f = Inr y \<longleftrightarrow> (\<exists>x. r = Inr x \<and> f x = Inr y)"
  by (cases r) auto

lemmas request_defs =
  only_bundle_def rehearse_request_def apply_request_def bracket_request_def
  historical_edit_request_def restore_revision_request_def reattach_edge_request_def
  fit_dimension_request_def boolean_pattern_request_def hole_request_def mirror_request_def
  linear_pattern_request_def circular_pattern_request_def shell_request_def draft_request_def
  export_request_def json_count_def

lemma json_vec3_array [simp]: "type_matches ''array'' (json_vec3 v)"
  by (cases v) (simp add: json_vec3_def type_matches.simps)

lemma plain_fits:
  "fits_whole ''list'' (object_of [])"
  "fits_whole ''new-project'' (object_of [(''destination'', JString path)])"
  "fits_whole ''load'' (only_bundle bundle)" "fits_whole ''identity'' (only_bundle bundle)"
  "fits_whole ''replay-verify'' (only_bundle bundle)" "fits_whole ''undo'' (only_bundle bundle)"
  "fits_whole ''redo'' (only_bundle bundle)"
  "fits_whole ''rehearse'' (rehearse_request out candidate)"
  "fits_whole ''apply'' (apply_request bundle revision operation f kind)"
  "fits_whole ''create-revision'' (object_of [(''bundle_path'', JString bundle), (''name'', JString n)])"
  "fits_whole ''restore-revision'' (restore_revision_request bundle f n)"
  "fits_whole ''timeline'' (object_of [(''bundle_path'', JString bundle), (''feature_id'', JString f)])"
  unfolding request_defs
  by (rule fits_entries; simp add: shape_simps)+

lemma number_fits:
  "f64_finite l \<Longrightarrow> f64_finite wd \<Longrightarrow> f64_finite h \<Longrightarrow> f64_finite t \<Longrightarrow>
     fits_whole ''bracket'' (bracket_request bundle f l wd h t)"
  "f64_finite x \<Longrightarrow> fits_whole ''historical-edit'' (historical_edit_request bundle f parameter x)"
  "f64_finite x \<Longrightarrow>
     fits_whole ''fit-dimension'' (fit_dimension_request bundle revision f g i j dimension x)"
  "f64_finite x \<Longrightarrow>
     fits [] [''reference'', ''edit_target''] ''reattach-edge'' (reattach_edge_request bundle revision f k base x reference target pt nl)"
  "f64_finite x \<Longrightarrow>
     fits_whole ''export'' (export_request bundle f bodies formats out x override stale)"
  "f64_finite x \<Longrightarrow> fits [] (if_absent ''expected_revision'' er) ''shell'' (shell_request bundle f base x er)"
  "f64_finite x \<Longrightarrow> fits [] (if_absent ''expected_revision'' er) ''draft'' (draft_request bundle f base x pull er)"
  unfolding request_defs
  by (rule fits_entries; cases er; simp add: shape_simps or_null_def)+

lemma pattern_fits:
  "f64_finite x \<Longrightarrow>
     fits_whole ''boolean-pattern'' (boolean_pattern_request bundle f base og sp columns rows x)"
  "f64_finite x \<Longrightarrow> fits_whole ''linear-pattern'' (linear_pattern_request bundle f base d n x er)"
  "f64_finite x \<Longrightarrow>
     fits_whole ''circular-pattern'' (circular_pattern_request bundle f base pt nl x n er)"
  "fits_whole ''mirror'' (mirror_request bundle f base pt nl er)"
  "f64_finite x \<Longrightarrow> is_none_or f64_finite pitch \<Longrightarrow> is_none_or f64_finite depth \<Longrightarrow>
     fits_whole ''hole'' (hole_request bundle f base position direction x kind thread pitch depth)"
  unfolding request_defs
  by (rule fits_entries; auto simp add: shape_simps is_none_or_def)+


lemma save_fits: "save_request w bundle f kind = Inr request \<Longrightarrow> fits_whole ''save'' request"
  by (auto simp: save_request_def and_then_Inr shape_simps intro!: fits_entries)

lemma selected_edge_object:
  "read_selected_edge_reference w path = Inr v \<Longrightarrow> type_matches ''object'' v"
  by (cases v) (auto simp: read_selected_edge_reference_def and_then_Inr split: if_splits)

lemma edge_members:
  assumes "edge_request w quantity bundle f base x edge_file er = Inr request"
  obtains edge where "edge_file = None \<longleftrightarrow> edge = None" "is_none_or (type_matches ''object'') edge"
    "request = object_of
       ([(''bundle_path'', JString bundle), (''feature_id'', JString f),
         (''base_feature_id'', JString base), (quantity, json_f64 x)] @
        if_some ''expected_revision'' JString er @ if_some ''selected_edge'' id edge)"
proof (cases edge_file)
  case None
  with assms show ?thesis using that [of None] by (simp add: edge_request_def is_none_or_def)
next
  case (Some path)
  with assms obtain v where v: "read_selected_edge_reference w path = Inr v"
    by (auto simp: edge_request_def and_then_Inr)
  with assms Some that [of "Some v"] selected_edge_object [OF v] show ?thesis
    by (simp add: edge_request_def is_none_or_def)
qed

lemma edge_entries_fit:
  "f64_finite x \<Longrightarrow> edge_file = None \<longleftrightarrow> edge = None \<Longrightarrow> is_none_or (type_matches ''object'') edge \<Longrightarrow>
   fits (if_absent ''selected_edge'' edge_file @ if_absent ''expected_revision'' er) [] ''fillet'' (object_of
       ([(''bundle_path'', JString bundle), (''feature_id'', JString f),
         (''base_feature_id'', JString base), (''radius'', json_f64 x)] @
        if_some ''expected_revision'' JString er @ if_some ''selected_edge'' id edge))"
  "f64_finite x \<Longrightarrow> edge_file = None \<longleftrightarrow> edge = None \<Longrightarrow> is_none_or (type_matches ''object'') edge \<Longrightarrow>
   fits (if_absent ''selected_edge'' edge_file @ if_absent ''expected_revision'' er) [] ''chamfer'' (object_of
       ([(''bundle_path'', JString bundle), (''feature_id'', JString f),
         (''base_feature_id'', JString base), (''distance'', json_f64 x)] @
        if_some ''expected_revision'' JString er @ if_some ''selected_edge'' id edge))"
  by (rule fits_entries; cases er; cases edge; cases edge_file;
      simp add: shape_simps if_some_def is_none_or_def insert_Diff_if)+

lemma edge_fits:
  assumes "f64_finite x"
  shows "edge_request w ''radius'' bundle f base x edge_file er = Inr request \<Longrightarrow>
      fits (if_absent ''selected_edge'' edge_file @ if_absent ''expected_revision'' er) [] ''fillet'' request"
    "edge_request w ''distance'' bundle f base x edge_file er = Inr request \<Longrightarrow>
      fits (if_absent ''selected_edge'' edge_file @ if_absent ''expected_revision'' er) [] ''chamfer'' request"
  by (erule edge_members; simp only:; rule edge_entries_fit; (rule assms | simp))+

lemma profile_fits:
  assumes "f64_finite x"
  shows "extrude_request w bundle f file x mode target = Inr request \<Longrightarrow> fits_whole ''extrude'' request"
    "revolve_request w bundle f file pt dir x er = Inr request \<Longrightarrow> fits_whole ''revolve'' request"
  using assms
  by (auto simp: extrude_request_def revolve_request_def profile_json_def and_then_Inr shape_simps
      intro!: fits_entries)

lemma loft_fits: "loft_request w bundle f files is_solid ruled er = Inr request \<Longrightarrow>
     fits [] (if_absent ''expected_revision'' er) ''loft'' request"
  by (cases er) (auto simp: loft_request_def and_then_Inr shape_simps or_null_def intro!: fits_entries)


lemma pattern_diameter:
  "plan_finite (BooleanPattern bundle f base og sp columns rows x) \<Longrightarrow> f64_finite x"
  by (cases sp) simp

lemma registered_plan:
  assumes "plan from_str args = Some (Registered c p)"
  shows "plan_command p = Some c \<and> plan_finite p \<and> plan_unregistered from_str args = Some p"
proof (cases "plan_unregistered from_str args")
  case None
  with assms show ?thesis by (simp add: plan_def)
next
  case (Some q)
  show ?thesis
  proof (cases "plan_command q")
    case None
    with assms Some show ?thesis
      by (cases q) (auto simp: plan_def plan_unregistered_def reject_non_finite_def
          parse_adversarial_run_def split: list.splits if_splits option.splits prod.splits)
  next
    case (Some c')
    with \<open>plan_unregistered from_str args = Some q\<close> have word: "command_word args = Some c'"
      "c' \<in> set parsed_words" "plan_finite q" using unregistered_plan by blast+
    then obtain row where "find_by_name c' = Some row" "cs_id row = c'"
      using word_registered by blast
    with word Some \<open>plan_unregistered from_str args = Some q\<close> assms show ?thesis
      by (cases q) (auto simp: plan_def)
  qed
qed

text \<open>The plans whose request is JSON of the user: component commands and sketch files.\<close>

fun free_request :: "dispatch_plan \<Rightarrow> bool" where
  "free_request (Component _ _) = True"
| "free_request (SketchSolve _ _) = True"
| "free_request _ = False"

text \<open>
  C21.  The request of a command line with flags of its own has the members its document asks for: no
  member is there that the document does not know, every required member is there, and every member
  has the JSON type that its property names.  The exceptions are those of the flags: a fillet or a
  chamfer lacks the selected edge without \<^verbatim>\<open>--selected-edge-file\<close> and the
  expected revision without \<^verbatim>\<open>--expected-revision\<close>, the revision of a shell,
  draft or loft without that flag is null, and the two references of a reattachment are JSON of the
  user.  The component commands and sketch-solve, whose whole request is JSON of the user, are not
  meant.
\<close>

theorem requests_fit_documents:
  assumes "plan from_str args = Some (Registered c p)"
    and "request_for w p = Inr request" and "\<not> free_request p"
  shows "fits (omitted_members p) (loose_members p) c request"
proof -
  from registered_plan [OF assms(1)] have "plan_command p = Some c" "plan_finite p" by simp_all
  with assms(2,3) show ?thesis
    by (cases p) (auto simp: plain_fits number_fits pattern_fits boolean_fits pattern_diameter
        intro: save_fits edge_fits profile_fits loft_fits)
qed

definition demo_edge :: json where
  "demo_edge = JObject [(''evidence'', JObject []), (''provenance'', JObject [])]"

definition demo_cli_world :: cli_world where
  "demo_cli_world =
     \<lparr>cw_read_to_string = (\<lambda>_. Inl ''absent''), cw_read = (\<lambda>_. Inr ''edge''),
      cw_from_str = (\<lambda>_. Inl []), cw_from_slice = (\<lambda>_. Inr demo_edge), cw_debug = (\<lambda>_. []),
      cw_exists = (\<lambda>_. False), cw_open_revision = (\<lambda>_. Inl [])\<rparr>"

definition demo_fillet :: "os_string list" where
  "demo_fillet =
     [''--machine'', ''fillet'', ''part'', ''--feature-id'', ''f'', ''--base'', ''b'', ''--radius'',
      ''2.5'', ''--expected-revision'', ''r'']"

lemma fillet_plan:
  assumes "plan_unregistered from_str args = Some (Fillet bundle f base radius edge revision)"
    and "command_word args = Some ''fillet''"
  shows "plan from_str args = Some (Registered ''fillet'' (Fillet bundle f base radius edge revision))"
proof -
  have "cs_name fillet_command = ''fillet''" "cs_id fillet_command = ''fillet''"
    by (simp_all add: fillet_command_def)
  moreover have "find_by_name (cs_name fillet_command) = Some fillet_command"
    by (rule find_row_by_name) (rule rows_listed)
  ultimately show ?thesis using assms by (simp add: plan_def)
qed

lemma demo_fillet_plan:
  "plan (\<lambda>_. Inl []) demo_fillet =
     Some (Registered ''fillet'' (Fillet ''part'' ''f'' ''b'' (Fin (5 / 2)) None (Some ''r'')))"
  by (rule fillet_plan) code_simp+

lemma demo_edge_plan:
  "plan (\<lambda>_. Inl []) (demo_fillet @ [''--selected-edge-file'', ''edge.json'']) =
     Some (Registered ''fillet''
       (Fillet ''part'' ''f'' ''b'' (Fin (5 / 2)) (Some ''edge.json'') (Some ''r'')))"
  by (rule fillet_plan) code_simp+

theorem requests_fit_documents_witness:
  "fits [] [] ''fillet'' (object_of
     [(''bundle_path'', JString ''part''), (''feature_id'', JString ''f''),
      (''base_feature_id'', JString ''b''), (''radius'', JNumber (Float (Fin (5 / 2)))),
      (''expected_revision'', JString ''r''), (''selected_edge'', demo_edge)])"
proof -
  have "request_for demo_cli_world
      (Fillet ''part'' ''f'' ''b'' (Fin (5 / 2)) (Some ''edge.json'') (Some ''r'')) = Inr (object_of
     [(''bundle_path'', JString ''part''), (''feature_id'', JString ''f''),
      (''base_feature_id'', JString ''b''), (''radius'', JNumber (Float (Fin (5 / 2)))),
      (''expected_revision'', JString ''r''), (''selected_edge'', demo_edge)])"
    by (simp add: edge_request_def if_some_def json_f64_def read_selected_edge_reference_def
        demo_cli_world_def demo_edge_def map_err_def)
  from requests_fit_documents [OF demo_edge_plan this] show ?thesis by simp
qed


section \<open>Runs\<close>

definition ends_with_diagnostic :: "cli_outcome \<Rightarrow> bool" where
  "ends_with_diagnostic outcome \<longleftrightarrow>
     co_exit outcome \<in> {2, 3, 4, 5, 7} \<and> co_out outcome = [] \<and> length (co_err outcome) = 1"

definition ends_with_response :: "schema_codecs \<Rightarrow> command_schema \<Rightarrow> cli_outcome \<Rightarrow> bool" where
  "ends_with_response cd row outcome \<longleftrightarrow>
     co_exit outcome = 0 \<and> co_err outcome = [] \<and>
     (\<exists>response. conforms (matches_of cd) (cs_response_schema row) response \<and>
        co_out outcome = [shown_response response])"

lemma failing_ends [simp]:
  "ends_with_diagnostic (failing code line) \<longleftrightarrow> code \<in> {2, 3, 4, 5, 7}"
  by (simp add: ends_with_diagnostic_def failing_def)

lemmas emitter_defs =
  emit_unknown_command_def emit_internal_error_def emit_persistence_error_def emit_dispatch_error_def

lemma host_error_ends: "ends_with_diagnostic (emit_host_error json_text e)"
  by (cases e) (simp_all add: emit_host_error_def load_diagnostic_def Let_def)

lemma export_error_ends: "ends_with_diagnostic (emit_export_error f e)"
  by (cases e) (simp_all add: emit_export_error_def)

lemma reported_failure_ends: "ends_with_diagnostic (reported_failure host command request e)"
proof (cases e)
  case (DispatchHost h)
  then show ?thesis
    by (cases h) (simp_all add: reported_failure_def emitter_defs host_error_ends export_error_ends)
qed (simp_all add: reported_failure_def emitter_defs)

text \<open>
  The assertion on the diagnostic of a rehearsal: it holds of the diagnostics of this process, and
  fails at most on one that the rehearsal has left as text.
\<close>

abbreviation diagnostic_conforms :: "schema_codecs \<Rightarrow> json \<Rightarrow> bool" where
  "diagnostic_conforms cd \<equiv> conforms (matches_of cd) rehearse_failure_diagnostic_schema"

lemma diagnostic_decides:
  "is_ok (validate cd rehearse_failure_diagnostic_schema d) \<longleftrightarrow> diagnostic_conforms cd d"
proof -
  have "schema_ok (\<lambda>p. False) rehearse_failure_diagnostic_schema" by code_simp
  then have "decides (validate cd rehearse_failure_diagnostic_schema d) (diagnostic_conforms cd d)"
    by (rule validate_decides_ok [rotated]) simp
  then show ?thesis by (auto simp: decides_def is_ok_def split: sum.splits)
qed

lemma argument_diagnostic_ok:
  "is_ok (validate cd rehearse_failure_diagnostic_schema (rehearsal_diagnostic
     \<lparr>rh_stage = ''argument_parse'', rh_detail = object_of [(''message'', JString message)],
      rh_current_revision = None\<rparr>))"
  by code_simp

lemma argument_failure_ends [simp]:
  "argument_failure debug cd message = Some (failing 7 (JsonLine (rehearsal_diagnostic
     \<lparr>rh_stage = ''argument_parse'', rh_detail = object_of [(''message'', JString message)],
      rh_current_revision = None\<rparr>)))"
  by (simp add: argument_failure_def write_rehearsal_failure_def write_rehearsal_diagnostic_def
      argument_diagnostic_ok)

lemma command_failure_ends:
  "case command_failure host cd from_str command request e of
     Some outcome \<Rightarrow> ends_with_diagnostic outcome
   | None \<Rightarrow> ch_debug_assertions host \<and> command = ''rehearse'' \<and>
       (\<exists>detail. e = DispatchHost (HostValidation detail) \<and>
          (\<forall>d. from_str detail = Inr d \<longrightarrow> \<not> diagnostic_conforms cd d))"
proof (cases "command = ''rehearse'' \<and> (\<exists>detail. e = DispatchHost (HostValidation detail))")
  case True
  then obtain detail where "command = ''rehearse''" "e = DispatchHost (HostValidation detail)" by blast
  then show ?thesis
    by (cases "from_str detail")
      (auto simp: command_failure_def write_rehearsal_diagnostic_def diagnostic_decides)
next
  case False
  then show ?thesis
    using reported_failure_ends [of host command request e]
    by (auto simp: command_failure_def split: dispatch_error.splits host_error.splits option.splits)
qed

lemma success_ends:
  "conforms (matches_of cd) (cs_response_schema row) response \<Longrightarrow>
     ends_with_response cd row (write_success out response) \<or>
     ends_with_diagnostic (write_success out response)"
  by (auto simp: write_success_def ends_with_response_def emitter_defs split: option.split)

text \<open>The guard in the run of a command: it always answers, and what it delivers conforms.\<close>

lemma run_command_ends:
  assumes "patterns_compile cd" "find_command c = Some row"
  shows "\<exists>s' r. run_command host cd c request s = (s', Some r) \<and>
    (\<forall>response. r = Inr response \<longrightarrow> conforms (matches_of cd) (cs_response_schema row) response) \<and>
    (\<not> conforms (matches_of cd) (cs_request_schema row) request \<longrightarrow>
       s' = s \<and> (\<exists>d. r = Inl (DispatchValidation d)))"
proof -
  let ?handler = "if c = ''rehearse'' then rehearsal_handler host else ch_handler host c"
  obtain s' r where run: "execute_command cd c request ?handler s = (s', r)" by fastforce
  have "r \<noteq> Inl GuardPanicked"
    and "(\<forall>response. r = Inr response \<longrightarrow> conforms (matches_of cd) (cs_response_schema row) response) \<and>
      (\<not> conforms (matches_of cd) (cs_request_schema row) request \<longrightarrow>
         s' = s \<and> (\<exists>message. r = Inl (InvalidRequest message)))"
    using guard_runs [OF assms(1), where command = c and request = request and
        handler = ?handler and s = s] assms(2) run
    by (cases "snd (?handler request s)"; auto split: if_splits)+
  moreover have "\<exists>d. dispatch_error_of e = Some d" if "e \<noteq> GuardPanicked" for e
    using that by (cases e) auto
  ultimately show ?thesis
    using run by (cases r) (fastforce simp: run_command_def, simp add: run_command_def)
qed

text \<open>
  The rehearsal handler unwraps two members of its request, which the document guarantees: its
  branch for a request without them is never run.
\<close>

lemma rehearse_members:
  assumes "conforms matches rehearse_request_schema request"
  shows "\<exists>a b. json_str_at ''output_dir'' request = Some a \<and>
    json_str_at ''release_candidate'' request = Some b"
proof -
  let ?keys = "[''output_dir'', ''release_candidate'']"
  let ?props = "map (\<lambda>k. (k, nonempty_text)) ?keys"
  have texts: "conforms matches nonempty_text v \<Longrightarrow> \<exists>s. v = JString s" for v
    by (cases v) (simp_all add: nonempty_text_def conforms_document_def kind_conforms_def
        type_matches.simps)
  have "object_conforms (conforms matches)
      [(''additionalProperties'', JBool False), (''properties'', JObject ?props),
       (''required'', texts ?keys), (''type'', JString ''object'')] request"
    using assms by (simp add: rehearse_request_schema_def closed_object_def conforms_document_def
        kind_conforms_def)
  then obtain members where members: "request = JObject members"
    and keys: "set ?keys \<subseteq> set (bt_keys members)"
    and props: "\<forall>(k, s)\<in>set ?props. \<forall>item. bt_get members k = Some item \<longrightarrow> conforms matches s item"
    unfolding object_conforms_def required_keys_def by auto
  have "\<exists>s. bt_get members k = Some (JString s)" if "k \<in> set ?keys" for k
  proof -
    from keys that obtain item where "bt_get members k = Some item"
      by (auto simp: bt_keys_iff bt_contains_iff)
    moreover from this props that have "conforms matches nonempty_text item" by auto
    ultimately show ?thesis using texts by blast
  qed
  from this [of "''output_dir''"] this [of "''release_candidate''"] show ?thesis
    by (auto simp: members json_str_at_def)
qed

lemma rehearsal_failed:
  assumes "patterns_compile cd"
    and "run_command host cd ''rehearse'' request s = (s', Some (Inl (DispatchHost h)))"
  shows "\<exists>output_dir candidate e. snd (ch_rehearse host output_dir candidate s) = Inl e \<and>
    h = HostValidation (ch_json_text host (rehearsal_diagnostic e))"
proof -
  have row: "find_command ''rehearse'' = Some rehearse_command"
    using find_row [of rehearse_command] rows_listed(3) by (simp add: rehearse_command_def)
  obtain t r where run: "execute_command cd ''rehearse'' request (rehearsal_handler host) s = (t, r)"
    by fastforce
  have "dispatch_error_of e = Some (DispatchHost h) \<Longrightarrow> e = HandlerFailed h" for e
    by (cases e) auto
  with assms(2) run have r: "r = Inl (HandlerFailed h)"
    by (auto simp: run_command_def split: sum.splits)
  then have failed: "snd (rehearsal_handler host request s) = Inl h"
    and ok: "conforms (matches_of cd) rehearse_request_schema request"
    using guard_runs [OF assms(1), where command = "''rehearse''" and request = request and
        handler = "rehearsal_handler host" and s = s] row run
    by (cases "snd (rehearsal_handler host request s)"; auto simp: rehearse_command_def split: if_splits)+
  from rehearse_members [OF ok] obtain output_dir candidate where
    members: "json_str_at ''output_dir'' request = Some output_dir"
      "json_str_at ''release_candidate'' request = Some candidate" by blast
  obtain t' answer where rehearsed: "ch_rehearse host output_dir candidate s = (t', answer)" by fastforce
  with failed members obtain e where "answer = Inl e"
    "h = HostValidation (ch_json_text host (rehearsal_diagnostic e))"
    by (cases answer) (auto simp: rehearsal_handler_def)
  with rehearsed show ?thesis by (metis snd_conv)
qed

text \<open>The state and the request that reach the guard: a sketch without a preview is previewed first.\<close>

definition with_member :: "string \<Rightarrow> json \<Rightarrow> json \<Rightarrow> json" where
  "with_member k v request =
     (case request of JObject members \<Rightarrow> JObject (bt_insert k v members) | _ \<Rightarrow> request)"

definition before_guard :: "'s cli_host \<Rightarrow> string \<Rightarrow> json \<Rightarrow> 's \<Rightarrow> 's \<times> json option" where
  "before_guard host command request s =
     (if wants_preview command request then
        (case ch_preview host command (with_member ''phase'' (JString ''preview'') request) s of
           (t, Inl e) \<Rightarrow> (t, None)
         | (t, Inr revision) \<Rightarrow> (t, Some (with_member ''preview_revision'' (JString revision) request)))
      else (s, Some request))"

lemma dispatched_ends:
  assumes "patterns_compile cd" "find_command c = Some row"
    and "c = ''sketch-solve'' \<longrightarrow> (\<exists>members. request = JObject members)"
  shows "\<exists>s' r. dispatch_registered_command host cd c request s = (s', Some r) \<and>
    (\<forall>response. r = Inr response \<longrightarrow> conforms (matches_of cd) (cs_response_schema row) response) \<and>
    (case before_guard host c request s of (t, checked) \<Rightarrow>
       (\<exists>q. checked = Some q \<and> conforms (matches_of cd) (cs_request_schema row) q) \<or>
       s' = t \<and> (\<exists>d. r = Inl (DispatchValidation d)))"
proof (cases "wants_preview c request")
  case False
  then show ?thesis
    using run_command_ends [OF assms(1,2), where host = host and request = request and s = s]
    by (simp add: dispatch_registered_command_def before_guard_def) blast
next
  case True
  with assms(3) obtain members where request: "request = JObject members"
    by (auto simp: wants_preview_def)
  obtain s1 a where preview:
    "ch_preview host c (JObject (bt_insert ''phase'' (JString ''preview'') members)) s = (s1, a)"
    by fastforce
  show ?thesis
  proof (cases a)
    case (Inl e)
    with True preview show ?thesis
      by (simp add: dispatch_registered_command_def before_guard_def with_member_def request set_key_def)
  next
    case (Inr revision)
    with True preview show ?thesis
      using run_command_ends [OF assms(1,2), where host = host and s = s1 and
          request = "JObject (bt_insert ''preview_revision'' (JString revision) members)"]
      by (simp add: dispatch_registered_command_def before_guard_def with_member_def request set_key_def) blast
  qed
qed

lemma failure_ends:
  assumes "patterns_compile cd" "dispatch_registered_command host cd c request s = (s', Some (Inl e))"
  shows "(case command_failure host cd from_str c request e of
       Some outcome \<Rightarrow> ends_with_diagnostic outcome
     | None \<Rightarrow> ch_debug_assertions host \<and> c = ''rehearse'' \<and>
         (\<exists>output_dir candidate e. snd (ch_rehearse host output_dir candidate s) = Inl e \<and>
            (\<forall>d. from_str (ch_json_text host (rehearsal_diagnostic e)) = Inr d \<longrightarrow>
               \<not> diagnostic_conforms cd d))) \<and>
    ((\<exists>d. e = DispatchValidation d) \<longrightarrow>
       (\<exists>outcome. command_failure host cd from_str c request e = Some outcome \<and> ends_with_diagnostic outcome))"
proof (cases "command_failure host cd from_str c request e")
  case None
  with command_failure_ends [where host = host and cd = cd and from_str = from_str and command = c and request = request and e = e] obtain detail where
    debug: "ch_debug_assertions host" "c = ''rehearse''" and e: "e = DispatchHost (HostValidation detail)"
    and detail: "\<forall>d. from_str detail = Inr d \<longrightarrow> \<not> diagnostic_conforms cd d" by auto
  with assms(2) have "run_command host cd ''rehearse'' request s = (s', Some (Inl (DispatchHost (HostValidation detail))))"
    by (simp add: dispatch_registered_command_def wants_preview_def)
  from rehearsal_failed [OF assms(1) this] debug detail e None show ?thesis by auto
next
  case (Some outcome)
  with command_failure_ends [where host = host and cd = cd and from_str = from_str and command = c and request = request and e = e] show ?thesis by simp
qed

text \<open>Only a sketch file makes a request for the solver, and it is an object.\<close>

lemma sketch_parser: "map_of (command_parsers from_str) ''sketch-solve'' = Some (Some \<circ> parse_sketch_solve)"
  by (simp add: command_parsers_def)

lemma sketch_shapes:
  "(\<exists>arg. parse_sketch_solve args = Unknown arg) \<or> (\<exists>b f. parse_sketch_solve args = SketchSolve b f)"
  by (cases "sketch_solve_loop args no_slots") (auto simp: parse_sketch_solve_def split: option.split)

lemma sketch_plan:
  assumes "parse_command from_str ''sketch-solve'' args = Some p" "plan_command p = Some c"
  shows "\<exists>b f. p = SketchSolve b f"
  using assms sketch_shapes [of args] by (auto simp: parse_command_def sketch_parser)


lemma registered_sketch:
  assumes "plan from_str args = Some (Registered ''sketch-solve'' p)"
  shows "\<exists>b f. p = SketchSolve b f"
proof -
  from registered_plan [OF assms] have p: "plan_command p = Some ''sketch-solve''"
    "plan_unregistered from_str args = Some p" by simp_all
  then obtain a rest where "args = a # rest" by (cases args) (auto simp: plan_unregistered_def)
  with p obtain command q where q: "parse_command from_str command (tl rest) = Some q"
      "p = reject_non_finite q"
    by (auto simp: plan_unregistered_def parse_adversarial_run_def
        split: if_splits option.splits list.splits prod.splits)
  with p have "q = p" by (auto simp: reject_non_finite_def split: if_splits)
  with q(1) p have "command = ''sketch-solve''" using parsed_word [of from_str command _ p] by auto
  with q(1) \<open>q = p\<close> p show ?thesis using sketch_plan by blast
qed



text \<open>
  A fillet without \<^verbatim>\<open>--selected-edge-file\<close>: the parser takes the edge as an option, the
  document requires it, so the run ends with a diagnostic and the host is not asked.
\<close>

definition demo_cli_host :: "nat cli_host" where
  "demo_cli_host =
     \<lparr>ch_handler = (\<lambda>_ _ n. (n + 1, Inr (JObject []))),
      ch_preview = (\<lambda>_ _ n. (n + 1, Inr ''revision'')),
      ch_rehearse = (\<lambda>_ _ n. (n + 1, Inr (JObject []))),
      ch_adversarial = (\<lambda>_ _ n. (n + 1, Inr (JObject []))),
      ch_lua = (\<lambda>_ _ n. (n, failing 2 (TextLine []))), ch_json_text = (\<lambda>_. []),
      ch_debug_error = (\<lambda>_. []), ch_stdout_failure = None, ch_debug_assertions = True\<rparr>"

lemma fillet_found: "find_command ''fillet'' = Some fillet_command"
proof -
  have "cs_id fillet_command = ''fillet''" by (simp add: fillet_command_def)
  moreover have "find_command (cs_id fillet_command) = Some fillet_command"
    by (rule find_row) (rule rows_listed)
  ultimately show ?thesis by simp
qed

definition demo_fillet_request :: json where
  "demo_fillet_request = object_of
     [(''bundle_path'', JString ''part''), (''feature_id'', JString ''f''),
      (''base_feature_id'', JString ''b''), (''radius'', JNumber (Float (Fin (5 / 2)))),
      (''expected_revision'', JString ''r'')]"

lemma demo_fillet_refused:
  "\<not> conforms (matches_of demo_schema_codecs) (cs_request_schema fillet_command) demo_fillet_request"
proof -
  have "\<not> is_ok (validate demo_schema_codecs (cs_request_schema fillet_command) demo_fillet_request)"
    by code_simp
  then show ?thesis
    using row_decides(1) [OF demo_patterns fillet_found, of demo_fillet_request]
    by (auto simp: decides_def is_ok_def split: sum.splits)
qed


end
