(* ===== verification/Spec2Isabelle.thy ===== *)
theory Spec2Isabelle
  imports HistoryView SketchProps ComponentProps TuiInputProps KittyProps FrameCacheProps AppendProps TransportProps MeshVerify CliProps
begin

text \<open>
  A verification library for threeterm, a parametric CAD program for the terminal written in Rust
  (\<^verbatim>\<open>src/crates\<close>).  The program keeps a document as an event-sourced timeline of
  features (\<^verbatim>\<open>domain\<close>), stores it as generations of a bundle with a digest-chained
  transaction log (\<^verbatim>\<open>persistence\<close>), lets disposable worker processes do the
  geometry over a line-framed JSON protocol (\<^verbatim>\<open>protocol\<close>), verifies what they
  export (\<^verbatim>\<open>host\<close>), and shows the result in a terminal session
  (\<^verbatim>\<open>tui\<close>) through frames of a terminal graphics protocol
  (\<^verbatim>\<open>viewport\<close>).  Each part is a group of theories; a theory \<open>X\<close> holds
  the definitions of the code, \<open>XProps\<close> and its siblings hold what is proved of them.

  Conventions.  A \<^verbatim>\<open>Result\<close> is a sum with the error on the left, composed by
  \<open>and_then\<close>, \<open>fold_ok\<close> and \<open>each_ok\<close> (\<open>Prelude\<close>);
  a \<^verbatim>\<open>BTreeMap\<close> is its sorted list of entries behind the interface
  \<open>ordered_map\<close> (\<open>OrderedMap\<close>); a \<^verbatim>\<open>String\<close> is the list of
  its UTF-8 bytes; an \<^verbatim>\<open>f64\<close> is a rational, a negative zero, an infinity or NaN
  with the rounding of IEEE 754 written out (\<open>Floats\<close>); unsigned integers are
  \<open>nat\<close> or \<open>int\<close> with saturation, wrapping and checked arithmetic written out
  where the code relies on them.  A panic is a result of its own wherever the code can index, unwrap
  or reach an unreachable arm.  Code outside the repository (SHA-256, \<^verbatim>\<open>serde_json\<close>,
  compression, the terminal, the clock, the worker at the other end) is a record of functions that
  the definitions take as an argument; what a theorem asks of it is a named hypothesis, and a witness
  runs the theorem on a concrete instance.

  The document (\<^verbatim>\<open>domain/src/history.rs\<close>, \<^verbatim>\<open>domain/src/lib.rs\<close>).
  \<open>History\<close> has the timeline: snapshots of features, \<open>validate_snapshot\<close>,
  \<open>topological_order\<close>, \<open>historical_edit\<close>, undo, redo, named revisions and
  \<open>apply_event\<close>.  \<open>HistoryFacts\<close> and \<open>HistoryEdit\<close> analyse the
  order, the dirty set and the evaluation loop; \<open>HistoryOps\<close> states the contract of a timeline
  command as the locale \<open>timeline_command\<close> and discharges it for every command;
  \<open>HistoryTimeline\<close> is the state machine over logs of events, on which
  \<open>HistoryProps\<close>, \<open>HistoryUndo\<close> and \<open>HistoryView\<close> (the projection
  of one feature) rest.  \<open>References\<close> is the reattachment of faces and edges,
  \<open>Sketch\<close> the sketch validator and the feature graph, \<open>Components\<close> the
  component graph; their \<open>Props\<close> theories show validators equivalent to specifications,
  invariants of the graphs, atomicity and isolation.

  Storage (\<^verbatim>\<open>persistence/src/lib.rs\<close>).  \<open>Text\<close> and
  \<open>CanonicalLog\<close> are the log with its digest chain, its encoding and its decoder;
  \<open>Intents\<close> the fifteen command intents and their validators; \<open>Replay\<close> the
  replay of a log into graph, components and history; \<open>Bundle\<close> the sealed manifest and the
  opening of a generation; \<open>Append\<close> the write transaction, which looks for BREP files
  under the root of the bundle, where a generation recovered from the previous slot has none;
  \<open>Publication\<close> the
  staging, rotation and reconciliation of generations over a disk whose operations may fail or be
  cut off by the death of the process.  \<open>PublicationProps\<close> refines it to the locale
  \<open>durable_register\<close>; \<open>AppendProps\<close> joins all of it: what was committed
  survives.

  Workers (\<^verbatim>\<open>protocol/src\<close>).  \<open>Utf8\<close> and \<open>Protocol\<close>
  are frames, envelopes, cache keys and the bounded frame parser; \<open>Supervisor\<close> is the
  lifecycle of a request and of a cancellation over any worker, as loops under
  \<open>partial_function (option)\<close> (\<open>run_loop\<close>), so that not returning is the value
  \<open>None\<close>; \<open>Transport\<close> is the framed channel that is one such worker.
  \<open>SupervisorProps\<close> follows the resources of a request through every step,
  \<open>SupervisorTime\<close> adds the clock and shows what a completed request has checked, and
  \<open>TransportProps\<close> shows that requests over the transport return: deadlines bound the
  number of rounds, whatever arrives, if the clock never goes back.

  Commands (\<^verbatim>\<open>protocol/src/schema.rs\<close>,
  \<^verbatim>\<open>schema_validator.rs\<close>, \<^verbatim>\<open>command_execution.rs\<close>).
  \<open>Schema\<close> is the validator of JSON values, \<open>Documents\<close> every request and
  response document, \<open>Registry\<close> the table of commands and the guard through which every
  adapter runs a handler.  \<open>SchemaProps\<close> defines conformance, shows that the validator
  decides it, which keywords of the whole registry the validator does not look at, and what the guard
  promises.

  The command line (\<^verbatim>\<open>cli/src/dispatch.rs\<close>).  \<open>Objects\<close> builds JSON
  objects, \<open>Arguments\<close> and \<open>Plans\<close> parse the arguments of every command,
  \<open>Requests\<close> makes the request of a plan with the files it reads, \<open>CliDispatch\<close>
  is the palette option with its sources and what a run writes, \<open>CliRun\<close> the run of one
  command line to its exit code, over any host.  \<open>Failures\<close> and
  \<open>HostFailures\<close> are the diagnostics and the error types of the bundle, the workers
  (\<^verbatim>\<open>workers/occt\<close>, \<^verbatim>\<open>workers/slvs\<close>) and the host with the
  conversions between them; \<open>Palettes\<close> (\<^verbatim>\<open>theme/src/lib.rs\<close>) the palettes and the
  verification of their colours.  \<open>CliProps\<close> ties the command line to the registry: plans
  are registered and finite, requests have the shape their documents ask for, but for the members whose
  flags are optional, and a run reports once, with a response that conforms or with a diagnostic and
  an exit code of its own; the assertion on rehearsal diagnostics, which only builds with debug
  assertions check, is its one panic.

  Exported meshes (\<^verbatim>\<open>host/src/stl_integrity.rs\<close>).  \<open>Stl\<close> parses
  binary and ASCII meshes, \<open>Mesh\<close> is the verifier.  \<open>MeshTopology\<close> gives the
  edge and vertex checks their meaning, \<open>MeshProps\<close> the walk over the shells, and
  \<open>MeshVerify\<close> concludes what an accepted mesh is and that no mesh makes the verifier panic.

  The terminal (\<^verbatim>\<open>tui/src/lib.rs\<close>, \<^verbatim>\<open>viewport/src\<close>).
  \<open>TuiTypes\<close> and \<open>TuiSession\<close> are the six state axes of a session and the
  handlers of its events, with the locale \<open>session_property\<close> for what every handler keeps;
  \<open>TuiInput\<close> is the byte decoder and the keyboard navigation.  \<open>Viewport\<close> is the
  render coordinator over any renderer (locale \<open>coordinator_invariant\<close>),
  \<open>Kitty\<close> the renderer for the Kitty protocol, \<open>FrameCache\<close> the cache of
  projected frames with its keys (locale \<open>cache_contract\<close>).

  Loops and bounds.  A loop over data is structural recursion; the others have a measure (the
  features not yet ordered, the facets not yet visited, the bytes left), except the receive loops of
  the supervisor, which are partial functions with a theorem that they return.  No fuel is used.
  The counters of a session, which the source keeps in 64 bits, are natural numbers; those of the
  frame cache, whose wrap-around the code allows for, are words.

  Not modelled, and why.  Encoders and decoders that \<^verbatim>\<open>serde\<close> derives are
  parameters: the theorems ask of them only that a printed entry is one line and that what they read
  back passes its own digest.  The operating system (processes, pipes, signals, terminals, the files
  of a generation beyond the fault model of \<open>Publication\<close>), OCCT and the sketch solver, the
  rasteriser of the viewport, the Lua bridge, the rehearsals and the JSON-RPC front end
  (\<^verbatim>\<open>mcp\<close>) are left out, and the host that executes a command is a parameter of the
  command line.
\<close>

end
